(* ===== verification/Prelude.thy ===== *)
theory Prelude
  imports Main "HOL-Library.Word" "HOL-Library.AList" "HOL-Library.Product_Lexorder"
begin

text \<open>
  Shared vocabulary of the development.

  \<^item> C++ failures as values: every \<open>TT_ASSERT\<close>, \<open>throw\<close>, \<open>map::at\<close> on a missing key,
    wrong \<open>std::get\<close> and read that the language leaves undefined is a constructor of
    \<open>cpp_error\<close>, and a fallible operation returns a \<open>result\<close>. \<open>TT_DBG_ASSERT\<close> is empty
    in a release build (\<open>utils/assert.hpp\<close>) and is not modelled.
  \<^item> \<open>rbind\<close>, \<open>mapR\<close>, \<open>foldR\<close>: sequencing of fallible steps, stopping at the first error.
  \<^item> \<open>'v id_map\<close>: \<open>std::unordered_map\<close> as an association list without duplicate keys. The
    order of the list stands for the (unspecified) iteration order.
  \<^item> machine integers: \<open>std::uint32_t\<close> is \<open>u32\<close>; \<open>int\<close> is HOL's \<open>int\<close>, with the range
    written out where a computation can leave it.
\<close>

section \<open>Machine integers\<close>

type_synonym u32 = "32 word"

abbreviation int_max :: int where "int_max \<equiv> 2147483647"
abbreviation int_min :: int where "int_min \<equiv> - 2147483648"

definition int_fits :: "int \<Rightarrow> bool" where
  "int_fits i \<longleftrightarrow> int_min \<le> i \<and> i \<le> int_max"

section \<open>Errors as values\<close>

datatype cpp_error =
    Assert_failed         \<comment> \<open>a \<open>TT_ASSERT\<close> whose condition is false\<close>
  | Out_of_range          \<comment> \<open>\<open>std::out_of_range\<close>, from \<open>at\<close>\<close>
  | Runtime_error         \<comment> \<open>\<open>throw std::runtime_error\<close>\<close>
  | Invalid_argument      \<comment> \<open>\<open>throw std::invalid_argument\<close>\<close>
  | Length_error          \<comment> \<open>\<open>std::length_error\<close>, from \<open>reserve\<close>\<close>
  | Bad_variant           \<comment> \<open>\<open>std::bad_variant_access\<close>, from \<open>std::get\<close>\<close>
  | Bad_optional          \<comment> \<open>\<open>std::bad_optional_access\<close>, from \<open>value\<close>\<close>
  | Undefined_behaviour   \<comment> \<open>what the language leaves undefined\<close>
  | Out_of_fuel           \<comment> \<open>the model's recursion bound, where C++ recurses without one\<close>

type_synonym 'a result = "cpp_error + 'a"

named_theorems result_simps \<open>evaluation and inversion of fallible steps\<close>

definition rbind :: "'a result \<Rightarrow> ('a \<Rightarrow> 'b result) \<Rightarrow> 'b result" where
  "rbind m f = (case m of Inl e \<Rightarrow> Inl e | Inr x \<Rightarrow> f x)"

definition tt_assert :: "bool \<Rightarrow> 'a result \<Rightarrow> 'a result" where
  "tt_assert c k = (if c then k else Inl Assert_failed)"

definition req :: "cpp_error \<Rightarrow> bool \<Rightarrow> 'a result \<Rightarrow> 'a result" where
  "req e c k = (if c then k else Inl e)"

definition of_opt :: "cpp_error \<Rightarrow> 'a option \<Rightarrow> 'a result" where
  "of_opt e v = (case v of None \<Rightarrow> Inl e | Some x \<Rightarrow> Inr x)"

lemma rbind_simps [simp]:
  "rbind (Inl e) f = Inl e"
  "rbind (Inr x) f = f x"
  by (simp_all add: rbind_def)

lemma rbind_eq_Inr [result_simps]:
  "rbind m f = Inr y \<longleftrightarrow> (\<exists>x. m = Inr x \<and> f x = Inr y)"
  by (cases m) simp_all

lemma rbind_eq_Inl [result_simps]:
  "rbind m f = Inl e \<longleftrightarrow> m = Inl e \<or> (\<exists>x. m = Inr x \<and> f x = Inl e)"
  by (cases m) auto

lemma rbind_assoc: "rbind (rbind m f) h = rbind m (\<lambda>x. rbind (f x) h)"
  by (cases m) simp_all

lemma rbind_id [simp]: "rbind m Inr = m"
  by (cases m) simp_all

lemma rbind_cong [fundef_cong]:
  "m = m' \<Longrightarrow> (\<And>x. m' = Inr x \<Longrightarrow> f x = f' x) \<Longrightarrow> rbind m f = rbind m' f'"
  by (cases m') simp_all

lemma tt_assert_simps [simp]:
  "tt_assert True k = k"
  "tt_assert False k = Inl Assert_failed"
  by (simp_all add: tt_assert_def)

lemma tt_assert_eq_Inr [result_simps]:
  "tt_assert c k = Inr y \<longleftrightarrow> c \<and> k = Inr y"
  by (simp add: tt_assert_def)

lemma tt_assert_cong [fundef_cong]:
  "c = c' \<Longrightarrow> (c' \<Longrightarrow> k = k') \<Longrightarrow> tt_assert c k = tt_assert c' k'"
  by (simp add: tt_assert_def)

lemma req_simps [simp]:
  "req e True k = k"
  "req e False k = Inl e"
  by (simp_all add: req_def)

lemma req_eq_Inr [result_simps]:
  "req e c k = Inr y \<longleftrightarrow> c \<and> k = Inr y"
  by (simp add: req_def)

lemma req_cong [fundef_cong]:
  "c = c' \<Longrightarrow> (c' \<Longrightarrow> k = k') \<Longrightarrow> req e c k = req e c' k'"
  by (simp add: req_def)

lemma of_opt_simps [simp]:
  "of_opt e None = Inl e"
  "of_opt e (Some x) = Inr x"
  by (simp_all add: of_opt_def)

lemma of_opt_eq_Inr [result_simps]: "of_opt e v = Inr x \<longleftrightarrow> v = Some x"
  by (cases v) simp_all

fun mapR :: "('a \<Rightarrow> 'b result) \<Rightarrow> 'a list \<Rightarrow> 'b list result" where
  "mapR f [] = Inr []"
| "mapR f (x # xs) = rbind (f x) (\<lambda>y. rbind (mapR f xs) (\<lambda>ys. Inr (y # ys)))"

fun foldR :: "('s \<Rightarrow> 'a \<Rightarrow> 's result) \<Rightarrow> 's \<Rightarrow> 'a list \<Rightarrow> 's result" where
  "foldR f s [] = Inr s"
| "foldR f s (x # xs) = rbind (f s x) (\<lambda>s'. foldR f s' xs)"

fun filterR :: "('a \<Rightarrow> bool result) \<Rightarrow> 'a list \<Rightarrow> 'a list result" where
  "filterR p [] = Inr []"
| "filterR p (x # xs) = rbind (p x) (\<lambda>b. rbind (filterR p xs) (\<lambda>ys.
     Inr (if b then x # ys else ys)))"

lemma filterR_total:
  "(\<And>x. x \<in> set xs \<Longrightarrow> p x = Inr (q x)) \<Longrightarrow> filterR p xs = Inr (filter q xs)"
  by (induction xs) simp_all

lemma mapR_Inr [simp]: "mapR (\<lambda>x. Inr (f x)) xs = Inr (map f xs)"
  by (induction xs) simp_all

lemma mapR_total:
  "(\<And>x. x \<in> set xs \<Longrightarrow> f x = Inr (g x)) \<Longrightarrow> mapR f xs = Inr (map g xs)"
  by (induction xs) simp_all

lemma mapR_length: "mapR f xs = Inr ys \<Longrightarrow> length ys = length xs"
  by (induction xs arbitrary: ys) (auto simp: result_simps)

lemma foldR_invariant:
  assumes "foldR f s xs = Inr s'" and "P s"
    and "\<And>s x t. x \<in> set xs \<Longrightarrow> P s \<Longrightarrow> f s x = Inr t \<Longrightarrow> P t"
  shows "P s'"
  using assms
proof (induction xs arbitrary: s)
  case Nil
  then show ?case by simp
next
  case (Cons x xs)
  from Cons.prems(1) obtain t where t: "f s x = Inr t" "foldR f t xs = Inr s'"
    by (auto simp: result_simps)
  show ?case
    by (rule Cons.IH [OF t(2)]) (use Cons.prems t in auto)
qed

lemma foldR_append:
  "foldR f s (xs @ ys) = rbind (foldR f s xs) (\<lambda>t. foldR f t ys)"
proof (induction xs arbitrary: s)
  case Nil
  then show ?case by simp
next
  case (Cons x xs)
  then show ?case by (cases "f s x") simp_all
qed

section \<open>Association lists as unordered maps\<close>

type_synonym 'v id_map = "(int \<times> 'v) list"

abbreviation keys :: "('k \<times> 'v) list \<Rightarrow> 'k list" where
  "keys m \<equiv> map fst m"

text \<open>\<open>m.at(k)\<close>: throws when the key is missing.\<close>

definition map_at :: "('k \<times> 'v) list \<Rightarrow> 'k \<Rightarrow> 'v result" where
  "map_at m k = of_opt Out_of_range (map_of m k)"

text \<open>\<open>m[k]\<close> read as a value: a missing key is entered with the default.\<close>

definition map_get :: "'v \<Rightarrow> ('k \<times> 'v) list \<Rightarrow> 'k \<Rightarrow> 'v" where
  "map_get d m k = (case map_of m k of None \<Rightarrow> d | Some v \<Rightarrow> v)"

text \<open>\<open>m.insert({k, v})\<close>: keeps an existing entry.\<close>

definition map_insert :: "'k \<Rightarrow> 'v \<Rightarrow> ('k \<times> 'v) list \<Rightarrow> ('k \<times> 'v) list" where
  "map_insert k v m = (if k \<in> set (keys m) then m else m @ [(k, v)])"

lemma map_of_update [simp]: "map_of (AList.update k v m) = (map_of m)(k \<mapsto> v)"
  by (rule update_conv')

lemma map_of_delete [simp]: "map_of (AList.delete k m) = (map_of m)(k := None)"
  by (rule delete_conv')

lemma map_of_insert:
  "map_of (map_insert k v m) k' =
     (if k' = k \<and> map_of m k = None then Some v else map_of m k')"
  by (auto simp: map_insert_def map_add_def map_of_eq_None_iff split: option.splits)
    (metis map_of_eq_None_iff option.distinct(1))+

lemma distinct_keys_insert [simp]:
  "distinct (keys m) \<Longrightarrow> distinct (keys (map_insert k v m))"
  by (auto simp: map_insert_def)

lemma map_at_eq_Inr [result_simps]: "map_at m k = Inr v \<longleftrightarrow> map_of m k = Some v"
  by (simp add: map_at_def of_opt_eq_Inr)

lemma map_at_Some [simp]: "map_of m k = Some v \<Longrightarrow> map_at m k = Inr v"
  by (simp add: map_at_def)

lemma map_at_None [simp]: "map_of m k = None \<Longrightarrow> map_at m k = Inl Out_of_range"
  by (simp add: map_at_def)

section \<open>Lists\<close>

text \<open>\<open>v[i]\<close> on a vector: reading past the end is undefined.\<close>

definition vec_at :: "'a list \<Rightarrow> nat \<Rightarrow> 'a result" where
  "vec_at xs i = (if i < length xs then Inr (xs ! i) else Inl Undefined_behaviour)"

lemma vec_at_eq_Inr [result_simps]:
  "vec_at xs i = Inr x \<longleftrightarrow> i < length xs \<and> xs ! i = x"
  by (simp add: vec_at_def)

definition vec_set :: "'a list \<Rightarrow> nat \<Rightarrow> 'a \<Rightarrow> 'a list result" where
  "vec_set xs i x = (if i < length xs then Inr (xs[i := x]) else Inl Undefined_behaviour)"

lemma vec_at_nth [simp]: "i < length xs \<Longrightarrow> vec_at xs i = Inr (xs ! i)"
  by (simp add: vec_at_def)

definition insert_at :: "nat \<Rightarrow> 'a \<Rightarrow> 'a list \<Rightarrow> 'a list" where
  "insert_at i x xs = take i xs @ x # drop i xs"

definition erase_at :: "nat \<Rightarrow> 'a list \<Rightarrow> 'a list" where
  "erase_at i xs = take i xs @ drop (Suc i) xs"

lemma length_insert_at [simp]: "length (insert_at i x xs) = Suc (length xs)"
  by (simp add: insert_at_def)

lemma erase_insert_at [simp]: "i \<le> length xs \<Longrightarrow> erase_at i (insert_at i x xs) = xs"
  by (simp add: erase_at_def insert_at_def)

lemma insert_erase_at [simp]: "i < length xs \<Longrightarrow> insert_at i (xs ! i) (erase_at i xs) = xs"
  by (simp add: erase_at_def insert_at_def id_take_nth_drop [symmetric])

lemma nth_insert_at [simp]: "i \<le> length xs \<Longrightarrow> insert_at i x xs ! i = x"
  by (simp add: insert_at_def nth_append)

lemma sort_key_filter: "sort_key f (filter P xs) = filter P (sort_key f xs)"
  by (rule filter_sort [symmetric])

text \<open>\<open>while (v.size() < n) v.insert(v.begin(), 1)\<close>\<close>

function pad_front :: "nat \<Rightarrow> 'a::one list \<Rightarrow> 'a list" where
  "pad_front n xs = (if length xs < n then pad_front n (1 # xs) else xs)"
  by pat_completeness auto
termination
  by (relation "measure (\<lambda>(n, xs). n - length xs)") auto

declare pad_front.simps [simp del]

lemma pad_front_eq: "pad_front n xs = replicate (n - length xs) 1 @ xs"
proof (induction n xs rule: pad_front.induct)
  case (1 n xs)
  show ?case
  proof (cases "length xs < n")
    case True
    then have "n - length xs = Suc (n - Suc (length xs))" by simp
    with True "1.IH" show ?thesis
      by (simp add: pad_front.simps [of n xs] replicate_append_same [symmetric])
  next
    case False
    then show ?thesis by (simp add: pad_front.simps [of n xs])
  qed
qed

lemma length_pad_front [simp]: "length (pad_front n xs) = max n (length xs)"
  by (simp add: pad_front_eq)

section \<open>Printing numbers\<close>

definition digit :: "nat \<Rightarrow> char" where
  "digit d = char_of (48 + d)"

fun show_nat :: "nat \<Rightarrow> string" where
  "show_nat n = (if n < 10 then [digit n] else show_nat (n div 10) @ [digit (n mod 10)])"

declare show_nat.simps [simp del]

definition show_int :: "int \<Rightarrow> string" where
  "show_int i = (if i < 0 then CHR ''-'' # show_nat (nat (- i)) else show_nat (nat i))"

text \<open>Reading a printed number back: printing is injective.\<close>

definition read_nat :: "string \<Rightarrow> nat" where
  "read_nat s = foldl (\<lambda>a c. 10 * a + (of_char c - 48)) 0 s"

lemma of_char_digit: "d < 10 \<Longrightarrow> (of_char (digit d) :: nat) = 48 + d"
  by (simp add: digit_def)

lemma read_show_nat [simp]: "read_nat (show_nat n) = n"
proof (induction n rule: show_nat.induct)
  case (1 n)
  show ?case
  proof (cases "n < 10")
    case True
    then show ?thesis
      by (simp add: show_nat.simps [of n] read_nat_def of_char_digit)
  next
    case False
    have d: "(of_char (digit (n mod 10)) :: nat) = 48 + n mod 10"
      by (rule of_char_digit) simp
    from False "1.IH" show ?thesis
      by (simp add: show_nat.simps [of n] read_nat_def d)
  qed
qed

lemma show_nat_inject [simp]: "show_nat m = show_nat n \<longleftrightarrow> m = n"
  by (metis read_show_nat)

end
