(* ===== verification/Formats.thy ===== *)
theory Formats
  imports Prelude "HOL-Library.Signed_Division"
begin

text \<open>
  Data formats, tile dimensions and math fidelities: the enumerations and the conversions of
  \<open>forge/csrc/lower_to_forge/common.hpp\<close> and \<open>common.cpp\<close>, and the tile-size functions of
  \<open>forge/csrc/graph_lib/utils.cpp\<close>. An enumeration's \<open>Invalid\<close> member is a constructor; a value
  outside the enumeration (the \<open>default\<close> branches) is not representable.
\<close>

section \<open>Enumerations\<close>

datatype TileDim =
  Dim32x32 | Dim16x32 | Dim32x16 | Dim8x32 | Dim4x32 | Dim2x32 | Dim1x32 | Tile_Invalid

datatype DataFormat =
    Float32 | Float16 | Bfp8 | Bfp4 | Bfp2 | Float16_b | Bfp8_b | Bfp4_b | Bfp2_b
  | Lf8 | UInt16 | Int8 | Int32 | RawUInt8 | RawUInt16 | RawUInt32 | DF_Invalid

datatype MathFidelity = LoFi | HiFi2 | HiFi3 | HiFi4 | MF_Invalid

datatype ExpPrecision = ExpA | ExpB

text \<open>The numeric codes that the enumerations fix.\<close>

fun tile_dim_code :: "TileDim \<Rightarrow> nat" where
  "tile_dim_code Dim32x32 = 0"
| "tile_dim_code Dim16x32 = 1"
| "tile_dim_code Dim32x16 = 2"
| "tile_dim_code Dim8x32 = 3"
| "tile_dim_code Dim4x32 = 4"
| "tile_dim_code Dim2x32 = 5"
| "tile_dim_code Dim1x32 = 6"
| "tile_dim_code Tile_Invalid = 255"

fun data_format_code :: "DataFormat \<Rightarrow> nat" where
  "data_format_code Float32 = 0"
| "data_format_code Float16 = 1"
| "data_format_code Bfp8 = 2"
| "data_format_code Bfp4 = 3"
| "data_format_code Bfp2 = 11"
| "data_format_code Float16_b = 5"
| "data_format_code Bfp8_b = 6"
| "data_format_code Bfp4_b = 7"
| "data_format_code Bfp2_b = 15"
| "data_format_code Lf8 = 10"
| "data_format_code UInt16 = 12"
| "data_format_code Int8 = 14"
| "data_format_code Int32 = 8"
| "data_format_code RawUInt8 = 240"
| "data_format_code RawUInt16 = 241"
| "data_format_code RawUInt32 = 242"
| "data_format_code DF_Invalid = 255"

fun math_fidelity_code :: "MathFidelity \<Rightarrow> nat" where
  "math_fidelity_code LoFi = 0"
| "math_fidelity_code HiFi2 = 2"
| "math_fidelity_code HiFi3 = 3"
| "math_fidelity_code HiFi4 = 4"
| "math_fidelity_code MF_Invalid = 255"

section \<open>Classification and conversion of data formats\<close>

definition is_integer_data_format :: "DataFormat \<Rightarrow> bool" where
  "is_integer_data_format df =
     (case df of
        Lf8 \<Rightarrow> True | UInt16 \<Rightarrow> True | Int8 \<Rightarrow> True | Int32 \<Rightarrow> True
      | RawUInt8 \<Rightarrow> True | RawUInt16 \<Rightarrow> True | RawUInt32 \<Rightarrow> True
      | _ \<Rightarrow> False)"

definition is_valid_accumulate_df :: "DataFormat \<Rightarrow> bool" where
  "is_valid_accumulate_df df =
     (case df of
        Float32 \<Rightarrow> True | Float16_b \<Rightarrow> True | Float16 \<Rightarrow> True | Int32 \<Rightarrow> True
      | _ \<Rightarrow> False)"

definition is_b_data_format :: "DataFormat \<Rightarrow> bool" where
  "is_b_data_format df =
     (case df of
        Float32 \<Rightarrow> True | Float16_b \<Rightarrow> True | Bfp8_b \<Rightarrow> True | Bfp4_b \<Rightarrow> True | Bfp2_b \<Rightarrow> True
      | _ \<Rightarrow> False)"

definition is_a_data_format :: "DataFormat \<Rightarrow> bool" where
  "is_a_data_format df =
     (case df of
        Float16 \<Rightarrow> True | Bfp8 \<Rightarrow> True | Bfp4 \<Rightarrow> True | Bfp2 \<Rightarrow> True
      | _ \<Rightarrow> False)"

definition to_a_data_format :: "DataFormat \<Rightarrow> DataFormat" where
  "to_a_data_format df =
     (case df of
        Float16_b \<Rightarrow> Float16 | Bfp8_b \<Rightarrow> Bfp8 | Bfp4_b \<Rightarrow> Bfp4 | Bfp2_b \<Rightarrow> Bfp2
      | _ \<Rightarrow> df)"

definition to_b_data_format :: "DataFormat \<Rightarrow> DataFormat" where
  "to_b_data_format df =
     (case df of
        Float16 \<Rightarrow> Float16_b | Bfp8 \<Rightarrow> Bfp8_b | Bfp4 \<Rightarrow> Bfp4_b | Bfp2 \<Rightarrow> Bfp2_b
      | _ \<Rightarrow> df)"

definition get_precision_bits :: "DataFormat \<Rightarrow> int" where
  "get_precision_bits df =
     (case df of
        Float32 \<Rightarrow> 32 | Float16 \<Rightarrow> 16 | Bfp8 \<Rightarrow> 8 | Bfp4 \<Rightarrow> 4 | Bfp2 \<Rightarrow> 2
      | Float16_b \<Rightarrow> 16 | Bfp8_b \<Rightarrow> 8 | Bfp4_b \<Rightarrow> 4 | Bfp2_b \<Rightarrow> 2
      | _ \<Rightarrow> 0)"

definition preserve_lower_precision_cast :: "DataFormat \<Rightarrow> DataFormat \<Rightarrow> DataFormat" where
  "preserve_lower_precision_cast src dst =
     (if get_precision_bits src \<ge> get_precision_bits dst then dst
      else if is_b_data_format dst then to_b_data_format src
      else to_a_data_format src)"

definition data_format_to_string :: "DataFormat \<Rightarrow> string" where
  "data_format_to_string df =
     (case df of
        Bfp2 \<Rightarrow> ''Bfp2'' | Bfp2_b \<Rightarrow> ''Bfp2_b'' | Bfp4 \<Rightarrow> ''Bfp4'' | Bfp4_b \<Rightarrow> ''Bfp4_b''
      | Bfp8 \<Rightarrow> ''Bfp8'' | Bfp8_b \<Rightarrow> ''Bfp8_b'' | Float16 \<Rightarrow> ''Float16''
      | Float16_b \<Rightarrow> ''Float16_b'' | Float32 \<Rightarrow> ''Float32'' | Int8 \<Rightarrow> ''Int8''
      | Int32 \<Rightarrow> ''Int32'' | Lf8 \<Rightarrow> ''Lf8'' | UInt16 \<Rightarrow> ''UInt16'' | RawUInt8 \<Rightarrow> ''RawUInt8''
      | RawUInt16 \<Rightarrow> ''RawUInt16'' | RawUInt32 \<Rightarrow> ''RawUInt32'' | DF_Invalid \<Rightarrow> ''Invalid'')"

text \<open>
  \<open>data_format_byte_size\<close> computes in \<open>int\<close> (division truncates; leaving the range is undefined)
  and converts the result to \<open>std::uint32_t\<close>.
\<close>

definition to_u32 :: "int \<Rightarrow> u32 result" where
  "to_u32 i = req Undefined_behaviour (int_fits i) (Inr (word_of_int i))"

definition data_format_byte_size :: "DataFormat \<Rightarrow> int \<Rightarrow> u32 result" where
  "data_format_byte_size df n =
     (case df of
        Float32 \<Rightarrow> to_u32 (4 * n)
      | UInt16 \<Rightarrow> to_u32 (2 * n) | Float16_b \<Rightarrow> to_u32 (2 * n) | Float16 \<Rightarrow> to_u32 (2 * n)
      | Bfp8_b \<Rightarrow> to_u32 (n + n sdiv 16) | Bfp8 \<Rightarrow> to_u32 (n + n sdiv 16)
      | Bfp4_b \<Rightarrow> to_u32 (n sdiv 2 + n sdiv 16) | Bfp4 \<Rightarrow> to_u32 (n sdiv 2 + n sdiv 16)
      | Bfp2_b \<Rightarrow> to_u32 (n sdiv 4 + n sdiv 16) | Bfp2 \<Rightarrow> to_u32 (n sdiv 4 + n sdiv 16)
      | Lf8 \<Rightarrow> to_u32 n | Int8 \<Rightarrow> to_u32 n
      | Int32 \<Rightarrow> to_u32 (4 * n)
      | RawUInt8 \<Rightarrow> to_u32 n
      | RawUInt16 \<Rightarrow> to_u32 (2 * n)
      | RawUInt32 \<Rightarrow> to_u32 (4 * n)
      | DF_Invalid \<Rightarrow> Inr 0)"

section \<open>Math fidelity\<close>

definition get_num_fidelity_phases :: "MathFidelity \<Rightarrow> u32" where
  "get_num_fidelity_phases f =
     (case f of LoFi \<Rightarrow> 1 | HiFi2 \<Rightarrow> 2 | HiFi3 \<Rightarrow> 3 | HiFi4 \<Rightarrow> 4 | _ \<Rightarrow> 0)"

definition get_math_fidelity :: "u32 \<Rightarrow> MathFidelity" where
  "get_math_fidelity n =
     (if n = 1 then LoFi else if n = 2 then HiFi2 else if n = 3 then HiFi3
      else if n = 4 then HiFi4 else MF_Invalid)"

definition math_fidelity_to_string :: "MathFidelity \<Rightarrow> string" where
  "math_fidelity_to_string f =
     (case f of
        LoFi \<Rightarrow> ''LoFi'' | HiFi2 \<Rightarrow> ''HiFi2'' | HiFi3 \<Rightarrow> ''HiFi3'' | HiFi4 \<Rightarrow> ''HiFi4''
      | MF_Invalid \<Rightarrow> ''Invalid'')"

definition string_to_math_fidelity :: "string \<Rightarrow> MathFidelity result" where
  "string_to_math_fidelity s =
     of_opt Assert_failed
       (map_of [(''LoFi'', LoFi), (''HiFi2'', HiFi2), (''HiFi3'', HiFi3), (''HiFi4'', HiFi4)] s)"

text \<open>
  \<open>string_to_data_format\<close> has, in the source, the return type and the table of
  \<open>string_to_math_fidelity\<close>.
\<close>

definition string_to_data_format :: "string \<Rightarrow> MathFidelity result" where
  "string_to_data_format s =
     of_opt Assert_failed
       (map_of [(''LoFi'', LoFi), (''HiFi2'', HiFi2), (''HiFi3'', HiFi3), (''HiFi4'', HiFi4)] s)"

section \<open>Tile sizes\<close>

definition get_row_size_from_tile_size :: "TileDim \<Rightarrow> int result" where
  "get_row_size_from_tile_size td =
     (case td of
        Dim32x32 \<Rightarrow> Inr 32 | Dim16x32 \<Rightarrow> Inr 16 | Dim32x16 \<Rightarrow> Inr 32 | Dim8x32 \<Rightarrow> Inr 8
      | Dim4x32 \<Rightarrow> Inr 4 | Dim2x32 \<Rightarrow> Inr 2 | Dim1x32 \<Rightarrow> Inr 1
      | Tile_Invalid \<Rightarrow> Inl Assert_failed)"

definition get_col_size_from_tile_size :: "TileDim \<Rightarrow> int result" where
  "get_col_size_from_tile_size td =
     (case td of
        Dim32x32 \<Rightarrow> Inr 32 | Dim16x32 \<Rightarrow> Inr 32 | Dim32x16 \<Rightarrow> Inr 16 | Dim8x32 \<Rightarrow> Inr 32
      | Dim4x32 \<Rightarrow> Inr 32 | Dim2x32 \<Rightarrow> Inr 32 | Dim1x32 \<Rightarrow> Inr 32
      | Tile_Invalid \<Rightarrow> Inl Assert_failed)"

definition get_tile_dim_from_height_width :: "int \<Rightarrow> int \<Rightarrow> TileDim result" where
  "get_tile_dim_from_height_width tile_height tile_width =
     (if tile_height = 32 then
        (if tile_width = 16 then Inr Dim32x16
         else if tile_width = 32 then Inr Dim32x32
         else Inl Assert_failed)
      else if tile_height = 16 then Inr Dim16x32
      else if tile_height = 8 then Inr Dim8x32
      else if tile_height = 4 then Inr Dim4x32
      else if tile_height = 2 then Inr Dim2x32
      else if tile_height = 1 then Inr Dim1x32
      else Inl Assert_failed)"

section \<open>Properties\<close>

lemmas format_defs =
  is_integer_data_format_def is_b_data_format_def is_a_data_format_def to_a_data_format_def
  to_b_data_format_def get_precision_bits_def preserve_lower_precision_cast_def

lemma to_b_to_a: "is_b_data_format df \<Longrightarrow> to_b_data_format (to_a_data_format df) = df"
  by (cases df) (simp_all add: format_defs)

lemma to_a_to_b: "is_a_data_format df \<Longrightarrow> to_a_data_format (to_b_data_format df) = df"
  by (cases df) (simp_all add: format_defs)

lemma precision_to_a [simp]: "get_precision_bits (to_a_data_format df) = get_precision_bits df"
  by (cases df) (simp_all add: format_defs)

lemma precision_to_b [simp]: "get_precision_bits (to_b_data_format df) = get_precision_bits df"
  by (cases df) (simp_all add: format_defs)

text \<open>\<open>preserve_lower_precision_cast\<close> never gains precision: the result has exactly the
  smaller of the two precisions, whatever the formats.\<close>

theorem preserve_lower_precision_cast_min:
  "get_precision_bits (preserve_lower_precision_cast src dst) =
     min (get_precision_bits src) (get_precision_bits dst)"
  by (simp add: preserve_lower_precision_cast_def)

end
