(* ===== verification/Shapes.thy ===== *)
theory Shapes
  imports Formats
begin

text \<open>
  Tensor shapes: \<open>forge/csrc/graph_lib/shape.hpp\<close> and \<open>shape.cpp\<close>, and the shape comparison
  \<open>are_different_ranked_shapes_equivalent\<close> of \<open>utils.cpp\<close>. A shape is a validity flag, a type
  (\<open>FREE\<close>, or \<open>FORGE\<close>: four or five dimensions snapped to tiles), a vector of 32-bit
  dimensions and a tile dimension. Dimensions wrap around as the C++ \<open>uint32_t\<close> does.
\<close>

section \<open>Data\<close>

datatype ShapeType = FREE | FORGE

record Shape =
  sh_valid :: bool
  sh_type :: ShapeType
  sh_dims :: "u32 list"
  sh_tile_dim :: TileDim

type_synonym DimBroadcast = "int \<times> int \<times> int"

abbreviation FORGE_TILE_DIM :: int where "FORGE_TILE_DIM \<equiv> 32"
abbreviation FORGE_DIM_COUNT :: nat where "FORGE_DIM_COUNT \<equiv> 4"
abbreviation FORGE_MAX_DIM_COUNT :: nat where "FORGE_MAX_DIM_COUNT \<equiv> 5"

definition default_shape :: Shape where
  "default_shape = \<lparr>sh_valid = False, sh_type = FREE, sh_dims = [], sh_tile_dim = Dim32x32\<rparr>"

definition mk_shape :: "bool \<Rightarrow> ShapeType \<Rightarrow> u32 list \<Rightarrow> Shape" where
  "mk_shape v t ds = \<lparr>sh_valid = v, sh_type = t, sh_dims = ds, sh_tile_dim = Dim32x32\<rparr>"

definition shape_create :: "u32 list \<Rightarrow> Shape" where
  "shape_create ds = mk_shape True FREE ds"

definition shape_size :: "Shape \<Rightarrow> nat" where
  "shape_size s = length (sh_dims s)"

lemma shape_create_sel [simp]:
  "sh_valid (shape_create ds)" "sh_type (shape_create ds) = FREE"
  "sh_dims (shape_create ds) = ds" "sh_tile_dim (shape_create ds) = Dim32x32"
  by (simp_all add: shape_create_def mk_shape_def)

section \<open>Construction\<close>

text \<open>\<open>d % t\<close> with an \<open>int\<close> tile size: the size is converted to unsigned first.\<close>

definition umod :: "u32 \<Rightarrow> int \<Rightarrow> u32 result" where
  "umod d t = req Undefined_behaviour (word_of_int t \<noteq> (0::u32)) (Inr (d mod word_of_int t))"

definition create_forge :: "u32 list \<Rightarrow> int \<Rightarrow> int \<Rightarrow> Shape result" where
  "create_forge values tile_height tile_width =
     tt_assert (length values \<ge> FORGE_DIM_COUNT \<and> length values \<le> FORGE_MAX_DIM_COUNT)
       (rbind (umod (values ! (length values - 1)) tile_width) (\<lambda>c.
        tt_assert (c = 0)
       (rbind (umod (values ! (length values - 2)) tile_height) (\<lambda>r.
        tt_assert (r = 0)
       (rbind (get_tile_dim_from_height_width tile_height tile_width) (\<lambda>td.
        Inr \<lparr>sh_valid = True, sh_type = FORGE, sh_dims = values, sh_tile_dim = td\<rparr>))))))"

definition create_forge_wzrc :: "u32 \<Rightarrow> u32 \<Rightarrow> u32 \<Rightarrow> u32 \<Rightarrow> Shape result" where
  "create_forge_wzrc w z r c =
     rbind (umod r FORGE_TILE_DIM) (\<lambda>m. tt_assert (m = 0)
     (rbind (umod c FORGE_TILE_DIM) (\<lambda>n. tt_assert (n = 0)
     (Inr \<lparr>sh_valid = True, sh_type = FORGE, sh_dims = [w, z, r, c], sh_tile_dim = Dim32x32\<rparr>))))"

definition single_tile :: "Shape result" where
  "single_tile = create_forge_wzrc 1 1 32 32"

text \<open>
  The \<open>FORGE\<close> branch reads \<open>dims_[-1]\<close> of a \<open>std::vector\<close>, an index far past its end.
\<close>

definition create_with_type_from_other :: "Shape \<Rightarrow> u32 list \<Rightarrow> Shape result" where
  "create_with_type_from_other other ds =
     (if sh_type other = FORGE
      then tt_assert (length ds \<ge> FORGE_DIM_COUNT \<and> length ds \<le> FORGE_MAX_DIM_COUNT)
             (Inl Undefined_behaviour)
      else Inr \<lparr>sh_valid = True, sh_type = FREE, sh_dims = ds, sh_tile_dim = Dim32x32\<rparr>)"

text \<open>\<open>while (dims.size() > n) { TT_ASSERT(dims[0] == 1); dims.erase(dims.begin()); }\<close>\<close>

fun drop_leading :: "nat \<Rightarrow> u32 list \<Rightarrow> u32 list result" where
  "drop_leading n [] = Inr []"
| "drop_leading n (d # ds) =
     (if length (d # ds) > n then tt_assert (d = 1) (drop_leading n ds) else Inr (d # ds))"

text \<open>\<open>if (d % t != 0) d += t - (d % t);\<close>\<close>

definition snap :: "int \<Rightarrow> u32 \<Rightarrow> u32" where
  "snap t d = (let t' = word_of_int t in if d mod t' \<noteq> 0 then d + (t' - d mod t') else d)"

definition to_forge :: "Shape \<Rightarrow> Shape result" where
  "to_forge other =
     (if sh_type other = FORGE then Inr other
      else rbind (drop_leading FORGE_MAX_DIM_COUNT (sh_dims other)) (\<lambda>ds0.
           let ds = pad_front FORGE_DIM_COUNT ds0 in
           rbind (get_row_size_from_tile_size (sh_tile_dim other)) (\<lambda>tile_r.
           rbind (get_col_size_from_tile_size (sh_tile_dim other)) (\<lambda>tile_c.
           let dim_r = length ds - 2;
               ds1 = ds[dim_r := snap tile_r (ds ! dim_r)];
               ds2 = ds1[dim_r + 1 := snap tile_c (ds1 ! (dim_r + 1))]
           in Inr \<lparr>sh_valid = True, sh_type = FORGE, sh_dims = ds2, sh_tile_dim = sh_tile_dim other\<rparr>))))"

section \<open>Access\<close>

definition negative_index :: "Shape \<Rightarrow> int \<Rightarrow> int" where
  "negative_index s i = (if i < 0 then i else i - int (shape_size s))"

definition positive_index :: "Shape \<Rightarrow> int \<Rightarrow> int" where
  "positive_index s i = (if i < 0 then i + int (shape_size s) else i)"

definition index_in_bounds :: "Shape \<Rightarrow> int \<Rightarrow> bool" where
  "index_in_bounds s i \<longleftrightarrow> positive_index s i \<ge> 0 \<and> positive_index s i < int (shape_size s)"

definition shape_at :: "Shape \<Rightarrow> int \<Rightarrow> u32 result" where
  "shape_at s i =
     (let j = (if i < 0 then i + int (length (sh_dims s)) else i) in
      tt_assert (j \<ge> 0 \<and> j < int (length (sh_dims s)))
        (tt_assert (sh_valid s) (Inr (sh_dims s ! nat j))))"

definition get_tile_height :: "Shape \<Rightarrow> int result" where
  "get_tile_height s = get_row_size_from_tile_size (sh_tile_dim s)"

definition get_tile_width :: "Shape \<Rightarrow> int result" where
  "get_tile_width s = get_col_size_from_tile_size (sh_tile_dim s)"

definition get_tile_volume :: "Shape \<Rightarrow> int result" where
  "get_tile_volume s = rbind (get_tile_height s) (\<lambda>h. rbind (get_tile_width s) (\<lambda>w. Inr (h * w)))"

definition is_unit :: "Shape \<Rightarrow> int \<Rightarrow> bool result" where
  "is_unit s i =
     (let j = negative_index s i in
      rbind (shape_at s j) (\<lambda>d.
        Inr (if sh_type s = FORGE \<and> j \<ge> -2 then d = 32 else d = 1)))"

text \<open>The position \<open>size - k\<close> is computed in \<open>int\<close> and used as an unchecked vector index.\<close>

definition dim_from_end :: "Shape \<Rightarrow> nat \<Rightarrow> u32 result" where
  "dim_from_end s k =
     (if length (sh_dims s) < k then Inl Undefined_behaviour
      else vec_at (sh_dims s) (length (sh_dims s) - k))"

definition shape_rt :: "Shape \<Rightarrow> u32 result" where
  "shape_rt s =
     tt_assert (sh_valid s) (tt_assert (sh_type s = FORGE)
       (rbind (get_row_size_from_tile_size (sh_tile_dim s)) (\<lambda>tile_r.
        rbind (dim_from_end s 2) (\<lambda>d. Inr (d div word_of_int tile_r)))))"

definition shape_ct :: "Shape \<Rightarrow> u32 result" where
  "shape_ct s =
     tt_assert (sh_valid s) (tt_assert (sh_type s = FORGE)
       (rbind (dim_from_end s 1) (\<lambda>d. Inr (d div word_of_int FORGE_TILE_DIM))))"

definition shape_z :: "Shape \<Rightarrow> u32 result" where
  "shape_z s = tt_assert (sh_valid s) (tt_assert (sh_type s = FORGE) (dim_from_end s 3))"

definition shape_w :: "Shape \<Rightarrow> u32 result" where
  "shape_w s = tt_assert (sh_valid s) (tt_assert (sh_type s = FORGE) (dim_from_end s 4))"

definition is_single_tile :: "Shape \<Rightarrow> bool result" where
  "is_single_tile s =
     tt_assert (sh_type s = FORGE)
       (rbind (shape_w s) (\<lambda>w. if w \<noteq> 1 then Inr False else
        rbind (shape_z s) (\<lambda>z. if z \<noteq> 1 then Inr False else
        rbind (shape_rt s) (\<lambda>r. if r \<noteq> 1 then Inr False else
        rbind (shape_ct s) (\<lambda>c. Inr (c = 1))))))"

definition volume :: "Shape \<Rightarrow> u32" where
  "volume s = foldl (*) 1 (sh_dims s)"

section \<open>Comparison\<close>

text \<open>The body of the loop of \<open>operator==\<close> at distance \<open>k\<close> from the end (\<open>i = -k\<close>).\<close>

definition eq_at :: "u32 list \<Rightarrow> u32 list \<Rightarrow> nat \<Rightarrow> bool" where
  "eq_at a b k =
     (if length a < k \<and> b ! (length b - k) \<noteq> 1 then False
      else if length b < k \<and> a ! (length a - k) \<noteq> 1 then False
      else if length a < k \<or> length b < k then True
      else a ! (length a - k) = b ! (length b - k))"

definition shape_eq :: "Shape \<Rightarrow> Shape \<Rightarrow> bool" where
  "shape_eq s t =
     (let a = sh_dims s; b = sh_dims t in
      list_all (eq_at a b) [1..<Suc (max (length a) (length b))])"

definition shape_neq :: "Shape \<Rightarrow> Shape \<Rightarrow> bool" where
  "shape_neq s t \<longleftrightarrow> \<not> shape_eq s t"

text \<open>
  The two erasing loops of \<open>are_different_ranked_shapes_equivalent\<close>, from one end: ones are
  erased up to the first dimension above one; a zero is kept and does not stop the loop.
\<close>

fun erase_ones :: "u32 list \<Rightarrow> u32 list" where
  "erase_ones [] = []"
| "erase_ones (x # xs) =
     (if x = 1 then erase_ones xs else if x > 1 then x # xs else x # erase_ones xs)"

definition are_different_ranked_shapes_equivalent :: "Shape \<Rightarrow> Shape \<Rightarrow> bool" where
  "are_different_ranked_shapes_equivalent s t =
     (let a = rev (erase_ones (rev (erase_ones (sh_dims s))));
          b = rev (erase_ones (rev (erase_ones (sh_dims t))))
      in length a = length b \<and> list_all (\<lambda>i. a ! i = b ! i) [0..<length a])"

section \<open>Rank changes\<close>

definition canonical :: "Shape \<Rightarrow> Shape" where
  "canonical s = shape_create (pad_front 4 (sh_dims s))"

definition as_rank :: "Shape \<Rightarrow> u32 \<Rightarrow> Shape result" where
  "as_rank s rank =
     tt_assert (rank > 0)
       (rbind (drop_leading (unat rank) (pad_front (unat rank) (sh_dims s))) (\<lambda>ds.
        Inr (shape_create ds)))"

definition as_tuple :: "Shape \<Rightarrow> (int \<times> int \<times> int \<times> int) result" where
  "as_tuple s =
     (let can = canonical s in
      rbind (shape_at can 0) (\<lambda>a. rbind (shape_at can 1) (\<lambda>b.
      rbind (shape_at can 2) (\<lambda>c. rbind (shape_at can 3) (\<lambda>d.
      Inr (sint a, sint b, sint c, sint d))))))"

section \<open>Broadcasts\<close>

text \<open>
  The loop of \<open>broadcast_dims\<close>: position \<open>i\<close> counts from the end, \<open>ms\<close> and \<open>os\<close> are the
  remaining dimensions of both shapes in that order.
\<close>

fun bcast_loop :: "ShapeType \<Rightarrow> nat \<Rightarrow> nat \<Rightarrow> u32 list \<Rightarrow> u32 list \<Rightarrow> DimBroadcast list result" where
  "bcast_loop ty n i (m # ms) (d # os) =
     (if m < d then
        tt_assert (if ty = FREE then m = 1 else (i \<ge> 2 \<and> m = 32) \<or> (i < 2 \<and> m = 1))
          (rbind (bcast_loop ty n (Suc i) ms os) (\<lambda>ret.
           Inr ((0, int n - 1 - int i, sint d) # ret)))
      else bcast_loop ty n (Suc i) ms os)"
| "bcast_loop ty n i _ _ = Inr []"

definition broadcast_dims :: "Shape \<Rightarrow> Shape \<Rightarrow> DimBroadcast list result" where
  "broadcast_dims s other =
     tt_assert (sh_valid s \<and> sh_valid other)
       (if volume s = volume other then Inr []
        else bcast_loop (sh_type s) (length (sh_dims s)) 0 (rev (sh_dims s)) (rev (sh_dims other)))"

section \<open>Printing and pickling\<close>

definition show_u32 :: "u32 \<Rightarrow> string" where
  "show_u32 w = show_nat (unat w)"

definition shape_as_string :: "Shape \<Rightarrow> string result" where
  "shape_as_string s =
     (if \<not> sh_valid s then Inr ''{INVALID_SHAPE}''
      else tt_assert (length (sh_dims s) > 0)
        (rbind (shape_at s 0) (\<lambda>d.
         Inr (''{'' @ show_u32 d @ concat (map (\<lambda>e. '', '' @ show_u32 e) (drop 1 (sh_dims s)))
               @ ''}''))))"

fun shape_type_code :: "ShapeType \<Rightarrow> int" where
  "shape_type_code FREE = 0"
| "shape_type_code FORGE = 1"

definition get_pickle_data :: "Shape \<Rightarrow> bool \<times> int \<times> u32 list" where
  "get_pickle_data s = (sh_valid s, shape_type_code (sh_type s), sh_dims s)"

definition create_from_pickled :: "bool \<Rightarrow> int \<Rightarrow> u32 list \<Rightarrow> Shape result" where
  "create_from_pickled valid ty ds =
     (if \<not> valid then Inr default_shape
      else if ty = 0 then Inr (shape_create ds)
      else if ty = 1 then create_forge ds FORGE_TILE_DIM FORGE_TILE_DIM
      else Inl Runtime_error)"

text \<open>\<open>align_up_tile\<close> at the two types it is used with: \<open>uint32_t\<close> wraps, \<open>int\<close> truncates.\<close>

definition align_up_tile_u32 :: "u32 \<Rightarrow> u32" where
  "align_up_tile_u32 d = (let e = d - 1 in e - e mod 32 + 32)"

definition align_up_tile_int :: "int \<Rightarrow> int result" where
  "align_up_tile_int d =
     (let e = d - 1; r = e - e smod 32 + 32 in
      req Undefined_behaviour (int_fits e \<and> int_fits r) (Inr r))"

section \<open>Equality is equality up to leading ones\<close>

abbreviation strip_ones :: "u32 list \<Rightarrow> u32 list" where
  "strip_ones \<equiv> dropWhile (\<lambda>d. d = 1)"

lemma strip_replicate [simp]: "strip_ones (replicate n 1 @ xs) = strip_ones xs"
  by (induction n) simp_all

lemma strip_pad_front [simp]: "strip_ones (pad_front n xs) = strip_ones xs"
  by (simp add: pad_front_eq)

lemma strip_decomp: "xs = replicate (length xs - length (strip_ones xs)) 1 @ strip_ones xs"
proof (induction xs)
  case Nil
  then show ?case by simp
next
  case (Cons x xs)
  have "length (strip_ones xs) \<le> length xs"
    by (rule length_dropWhile_le)
  with Cons show ?case by (simp add: Suc_diff_le)
qed

lemma pad_front_strip:
  assumes "length xs \<le> n"
  shows "pad_front n (strip_ones xs) = pad_front n xs"
proof -
  have "length (strip_ones xs) \<le> length xs" by (rule length_dropWhile_le)
  with assms have "n - length (strip_ones xs) =
      (n - length xs) + (length xs - length (strip_ones xs))" by simp
  then have "pad_front n (strip_ones xs) =
      replicate (n - length xs) 1 @ replicate (length xs - length (strip_ones xs)) 1
        @ strip_ones xs"
    by (simp add: pad_front_eq replicate_add)
  also have "\<dots> = replicate (n - length xs) 1 @ xs"
    using strip_decomp [of xs] by simp
  finally show ?thesis by (simp add: pad_front_eq)
qed

lemma nth_pad_front:
  assumes "k \<ge> 1" and "k \<le> n" and "length xs \<le> n"
  shows "pad_front n xs ! (n - k) = (if length xs < k then 1 else xs ! (length xs - k))"
  using assms by (auto simp: pad_front_eq nth_append)

lemma eq_at_pad:
  assumes "k \<ge> 1" and "k \<le> max (length a) (length b)"
  shows "eq_at a b k \<longleftrightarrow>
    pad_front (max (length a) (length b)) a ! (max (length a) (length b) - k) =
    pad_front (max (length a) (length b)) b ! (max (length a) (length b) - k)"
  using assms by (auto simp: nth_pad_front eq_at_def)

lemma list_eq_from_end:
  assumes "length xs = n" and "length ys = n"
  shows "xs = ys \<longleftrightarrow> (\<forall>k \<in> {1..n}. xs ! (n - k) = ys ! (n - k))"
proof
  assume *: "\<forall>k \<in> {1..n}. xs ! (n - k) = ys ! (n - k)"
  show "xs = ys"
  proof (rule nth_equalityI)
    fix i
    assume "i < length xs"
    with assms have "n - i \<in> {1..n}" and "n - (n - i) = i" by auto
    with * show "xs ! i = ys ! i" by metis
  qed (simp add: assms)
qed simp

lemma shape_eq_pad:
  "shape_eq s t \<longleftrightarrow>
     pad_front (max (length (sh_dims s)) (length (sh_dims t))) (sh_dims s) =
     pad_front (max (length (sh_dims s)) (length (sh_dims t))) (sh_dims t)"
proof -
  let ?n = "max (length (sh_dims s)) (length (sh_dims t))"
  have "shape_eq s t \<longleftrightarrow> (\<forall>k \<in> {1..?n}. eq_at (sh_dims s) (sh_dims t) k)"
    by (auto simp: shape_eq_def Let_def list_all_iff)
  also have "\<dots> \<longleftrightarrow> (\<forall>k \<in> {1..?n}.
      pad_front ?n (sh_dims s) ! (?n - k) = pad_front ?n (sh_dims t) ! (?n - k))"
    by (auto simp: eq_at_pad)
  also have "\<dots> \<longleftrightarrow> pad_front ?n (sh_dims s) = pad_front ?n (sh_dims t)"
    by (rule list_eq_from_end [symmetric]) simp_all
  finally show ?thesis .
qed

lemma shape_eq_strip: "shape_eq s t \<longleftrightarrow> strip_ones (sh_dims s) = strip_ones (sh_dims t)"
proof
  assume "shape_eq s t"
  then show "strip_ones (sh_dims s) = strip_ones (sh_dims t)"
    unfolding shape_eq_pad by (metis strip_pad_front)
next
  assume "strip_ones (sh_dims s) = strip_ones (sh_dims t)"
  then show "shape_eq s t"
    unfolding shape_eq_pad by (metis pad_front_strip max.cobounded1 max.cobounded2)
qed

text \<open>C31: two shapes compare equal exactly when their dimensions agree once leading ones are
  dropped; type, tile dimension and validity do not matter.\<close>

theorem shape_eq_iff_strip_ones:
  "shape_eq s t \<longleftrightarrow>
     dropWhile (\<lambda>d. d = 1) (sh_dims s) = dropWhile (\<lambda>d. d = 1) (sh_dims t)"
  by (rule shape_eq_strip)

lemma shape_eq_refl [simp]: "shape_eq s s"
  by (simp add: shape_eq_strip)

section \<open>Changing the rank\<close>

lemma drop_leading_strip:
  "drop_leading n xs = Inr ys \<Longrightarrow> strip_ones ys = strip_ones xs"
  by (induction n xs rule: drop_leading.induct) (auto simp: result_simps split: if_splits)

lemma drop_leading_length:
  "drop_leading n xs = Inr ys \<Longrightarrow> length ys = min n (length xs)"
  by (induction n xs rule: drop_leading.induct) (auto simp: result_simps split: if_splits)

lemma drop_leading_total:
  "length (strip_ones xs) \<le> n \<Longrightarrow> \<exists>ys. drop_leading n xs = Inr ys"
  by (induction xs) (auto split: if_splits)

lemma drop_leading_only:
  "drop_leading n xs = Inr ys \<Longrightarrow> length (strip_ones xs) \<le> n"
  using drop_leading_strip [of n xs ys] drop_leading_length [of n xs ys]
    length_dropWhile_le [of "\<lambda>d. d = 1" ys]
  by simp

lemma drop_leading_Inl: "drop_leading n xs = Inl e \<Longrightarrow> e = Assert_failed"
  by (induction n xs rule: drop_leading.induct)
    (auto simp: tt_assert_def split: if_splits)

text \<open>\<open>as_rank\<close> succeeds exactly when the rank is positive and holds every dimension but the
  leading ones, and then returns a shape of that rank that equals the original; otherwise an
  assertion fails.\<close>

theorem as_rank_correct:
  "case as_rank s rank of
     Inl e \<Rightarrow> e = Assert_failed \<and>
       \<not> (0 < rank \<and> length (dropWhile (\<lambda>d. d = 1) (sh_dims s)) \<le> unat rank)
   | Inr r \<Rightarrow> 0 < rank \<and> length (dropWhile (\<lambda>d. d = 1) (sh_dims s)) \<le> unat rank \<and>
       length (sh_dims r) = unat rank \<and> shape_eq r s \<and> sh_valid r"
proof -
  let ?p = "pad_front (unat rank) (sh_dims s)"
  show ?thesis
  proof (cases "drop_leading (unat rank) ?p")
    case (Inl e)
    with drop_leading_total [of ?p "unat rank"] drop_leading_Inl [OF Inl] show ?thesis
      by (auto simp: as_rank_def tt_assert_def split: sum.splits)
  next
    case (Inr ds)
    with drop_leading_strip [OF Inr] drop_leading_length [OF Inr] drop_leading_only [OF Inr]
    show ?thesis by (auto simp: as_rank_def tt_assert_def shape_eq_strip)
  qed
qed

lemma canonical_eq: "shape_eq (canonical s) s"
  by (simp add: canonical_def shape_eq_strip)

lemma foldl_mult_ones: "foldl (*) a (replicate n 1 @ xs) = foldl (*) (a::u32) xs"
  by (induction n) simp_all

lemma volume_strip: "foldl (*) 1 xs = foldl (*) (1::u32) (strip_ones xs)"
  using foldl_mult_ones [of 1 "length xs - length (strip_ones xs)" "strip_ones xs"]
    strip_decomp [of xs] by simp

text \<open>equal shapes have equal volumes, in the wrapping 32-bit arithmetic of \<open>volume\<close>.\<close>

theorem shape_eq_volume: "shape_eq s t \<Longrightarrow> volume s = volume t"
  by (metis volume_def volume_strip shape_eq_strip)

theorem shape_eq_volume_witness:
  "volume (shape_create [1, 32, 64]) = volume (shape_create [32, 64])"
  by (rule shape_eq_volume) (simp add: shape_eq_strip)

section \<open>Snapping to tiles\<close>

lemma umod_eq: "word_of_int t \<noteq> (0::u32) \<Longrightarrow> umod d t = Inr (d mod word_of_int t)"
  by (simp add: umod_def)

text \<open>A tile size divides \<open>2 ^ 32\<close>, so a snapped dimension is aligned even if it wraps.\<close>

definition tile_sizes :: "int set" where
  "tile_sizes = {1, 2, 4, 8, 16, 32}"

lemma word_mod_aligned:
  fixes d t :: u32
  assumes "unat t dvd 2 ^ 32" and "d mod t \<noteq> 0"
  shows "(d + (t - d mod t)) mod t = 0"
proof -
  have t0: "0 < unat t" using assms(1) by (cases "unat t = 0") auto
  have lt: "unat d mod unat t < unat t" using t0 by simp
  have m: "unat (d mod t) = unat d mod unat t" by (simp add: unat_mod)
  have le: "d mod t \<le> t" using lt by (simp add: word_le_nat_alt m less_imp_le)
  have u: "unat (t - d mod t) = unat t - unat d mod unat t"
    using le by (simp add: unat_sub m)
  have "unat (d + (t - d mod t)) = (unat d + (unat t - unat d mod unat t)) mod 2 ^ 32"
    by (simp add: unat_word_ariths u)
  then have "unat ((d + (t - d mod t)) mod t) =
      (unat d + (unat t - unat d mod unat t)) mod 2 ^ 32 mod unat t"
    by (simp add: unat_mod)
  also have "\<dots> = (unat d + (unat t - unat d mod unat t)) mod unat t"
    using assms(1) by (rule mod_mod_cancel)
  also have "\<dots> = 0"
  proof -
    have "unat d + (unat t - unat d mod unat t) = unat t * (unat d div unat t) + unat t"
      using lt mult_div_mod_eq [of "unat t" "unat d"] by linarith
    then show ?thesis by simp
  qed
  finally show ?thesis by (simp add: unat_eq_0)
qed

lemma tile_size_dvd: "t \<in> tile_sizes \<Longrightarrow> unat (word_of_int t :: u32) dvd 2 ^ 32"
  by (auto simp: tile_sizes_def)

lemma snap_aligned: "t \<in> tile_sizes \<Longrightarrow> snap t d mod word_of_int t = 0"
  by (auto simp: snap_def Let_def intro!: word_mod_aligned tile_size_dvd)

lemma tile_size_nonzero: "t \<in> tile_sizes \<Longrightarrow> word_of_int t \<noteq> (0::u32)"
  by (auto simp: tile_sizes_def)

lemma row_size_tile: "get_row_size_from_tile_size td = Inr h \<Longrightarrow> h \<in> tile_sizes"
  by (cases td) (auto simp: get_row_size_from_tile_size_def tile_sizes_def)

lemma col_size_tile: "get_col_size_from_tile_size td = Inr w \<Longrightarrow> w \<in> tile_sizes"
  by (cases td) (auto simp: get_col_size_from_tile_size_def tile_sizes_def)

lemma tile_dim_round:
  "get_row_size_from_tile_size td = Inr h \<Longrightarrow> get_col_size_from_tile_size td = Inr w \<Longrightarrow>
   get_tile_dim_from_height_width h w = Inr td"
  by (cases td)
    (auto simp: get_row_size_from_tile_size_def get_col_size_from_tile_size_def
      get_tile_dim_from_height_width_def)

lemma to_forge_accepted:
  assumes "to_forge s = Inr f" and "sh_type s = FREE"
  shows "rbind (get_tile_height f) (\<lambda>h. rbind (get_tile_width f) (\<lambda>w.
           create_forge (sh_dims f) h w)) = Inr f"
proof -
  from assms obtain ds0 h w where
    ds0: "drop_leading 5 (sh_dims s) = Inr ds0"
    and h: "get_row_size_from_tile_size (sh_tile_dim s) = Inr h"
    and w: "get_col_size_from_tile_size (sh_tile_dim s) = Inr w"
    and f: "f = (let ds = pad_front 4 ds0; dim_r = length ds - 2;
               ds1 = ds[dim_r := snap h (ds ! dim_r)];
               ds2 = ds1[dim_r + 1 := snap w (ds1 ! (dim_r + 1))]
           in \<lparr>sh_valid = True, sh_type = FORGE, sh_dims = ds2, sh_tile_dim = sh_tile_dim s\<rparr>)"
    by (auto simp: to_forge_def result_simps Let_def)
  let ?ds = "pad_front 4 ds0"
  have len: "length (sh_dims f) = length ?ds" by (simp add: f Let_def)
  have le5: "length ds0 \<le> 5" using drop_leading_length [OF ds0] by simp
  then have rng: "4 \<le> length ?ds" "length ?ds \<le> 5" by simp_all
  then have l1: "length ?ds - Suc 0 = Suc (length ?ds - 2)" by linarith
  have c: "sh_dims f ! (length (sh_dims f) - 1) = snap w (?ds ! (length ?ds - 1))"
    and r: "sh_dims f ! (length (sh_dims f) - 2) = snap h (?ds ! (length ?ds - 2))"
    unfolding len using rng by (simp_all add: f Let_def l1 nth_list_update del: length_pad_front)
  have td: "sh_tile_dim f = sh_tile_dim s" and vf: "sh_valid f" "sh_type f = FORGE"
    by (simp_all add: f Let_def)
  show ?thesis
    using rng tile_dim_round [OF h w] row_size_tile [OF h] col_size_tile [OF w]
    by (simp add: get_tile_height_def get_tile_width_def td h w create_forge_def len
        c [unfolded One_nat_def len] r [unfolded len] umod_eq tile_size_nonzero snap_aligned vf
        del: length_pad_front)
qed

text \<open>what \<open>to_forge\<close> returns for a free shape is exactly what \<open>create_forge\<close> accepts: four or
  five dimensions, the last two aligned to the tile of the shape, the same tile dimension.\<close>

theorem to_forge_create_forge:
  assumes "to_forge s = Inr f" and "sh_type s = FREE"
  shows "rbind (get_tile_height f) (\<lambda>h. rbind (get_tile_width f) (\<lambda>w.
           create_forge (sh_dims f) h w)) = Inr f"
  using assms by (rule to_forge_accepted)

theorem to_forge_create_forge_witness:
  "rbind (to_forge (shape_create [3, 33, 64])) (\<lambda>f.
     rbind (get_tile_height f) (\<lambda>h. rbind (get_tile_width f) (\<lambda>w.
       create_forge (sh_dims f) h w))) = to_forge (shape_create [3, 33, 64])"
proof -
  have "to_forge (shape_create [3, 33, 64]) =
      Inr \<lparr>sh_valid = True, sh_type = FORGE, sh_dims = [1, 3, 64, 64], sh_tile_dim = Dim32x32\<rparr>"
    by (simp add: to_forge_def pad_front_eq snap_def Let_def get_row_size_from_tile_size_def
        get_col_size_from_tile_size_def)
  then show ?thesis using to_forge_create_forge [of "shape_create [3, 33, 64]"] by simp
qed

lemma to_forge_tile_dim: "to_forge s = Inr f \<Longrightarrow> sh_tile_dim f = sh_tile_dim s"
  by (auto simp: to_forge_def result_simps Let_def split: if_splits)

lemma to_forge_valid: "to_forge s = Inr f \<Longrightarrow> sh_type s = FREE \<Longrightarrow> sh_valid f \<and> sh_type f = FORGE"
  by (auto simp: to_forge_def result_simps Let_def)

text \<open>a free shape with 32x32 tiles that was converted by \<open>to_forge\<close> survives pickling. Other tile
  dimensions do not: the pickled data leaves the tile dimension out.\<close>

theorem forge_pickle_roundtrip:
  assumes "to_forge s = Inr f" and "sh_type s = FREE" and "sh_tile_dim s = Dim32x32"
  shows "(case get_pickle_data f of (v, t, ds) \<Rightarrow> create_from_pickled v t ds) = Inr f"
  using to_forge_accepted [OF assms(1,2)] to_forge_tile_dim [OF assms(1)]
    to_forge_valid [OF assms(1,2)] assms(3)
  by (simp add: get_pickle_data_def create_from_pickled_def get_tile_height_def
      get_tile_width_def get_row_size_from_tile_size_def get_col_size_from_tile_size_def)

theorem forge_pickle_roundtrip_witness:
  "rbind (to_forge (shape_create [3, 33, 64])) (\<lambda>f.
     case get_pickle_data f of (v, t, ds) \<Rightarrow> create_from_pickled v t ds)
   = to_forge (shape_create [3, 33, 64])"
proof -
  have "to_forge (shape_create [3, 33, 64]) =
      Inr \<lparr>sh_valid = True, sh_type = FORGE, sh_dims = [1, 3, 64, 64], sh_tile_dim = Dim32x32\<rparr>"
    by (simp add: to_forge_def pad_front_eq snap_def Let_def get_row_size_from_tile_size_def
        get_col_size_from_tile_size_def)
  then show ?thesis
    using forge_pickle_roundtrip [of "shape_create [3, 33, 64]"] by simp
qed

lemma pickle_loses_tile_dim:
  "(case get_pickle_data \<lparr>sh_valid = True, sh_type = FORGE, sh_dims = [1, 1, 16, 32],
      sh_tile_dim = Dim16x32\<rparr> of (v, t, ds) \<Rightarrow> create_from_pickled v t ds) = Inl Assert_failed"
  by (simp add: get_pickle_data_def create_from_pickled_def create_forge_def umod_def)

text \<open>The least multiple of the tile size, where it fits in 32 bits.\<close>

lemma snap_least:
  assumes "t \<in> tile_sizes" and "unat d \<le> 2 ^ 32 - nat t"
  shows "unat (snap t d) = nat t * ((unat d + nat t - 1) div nat t)"
proof -
  obtain T where T: "nat t = T" "unat (word_of_int t :: u32) = T" "T > 0" "T \<le> 32"
    using assms(1) by (auto simp: tile_sizes_def)
  let ?t = "word_of_int t :: u32"
  have m: "unat (d mod ?t) = unat d mod T" by (simp add: unat_mod T)
  show ?thesis
  proof (cases "d mod ?t = 0")
    case True
    then have z: "unat d mod T = 0" using m by simp
    then obtain q where q: "unat d = T * q" by (auto simp: mod_eq_0_iff_dvd)
    have "(T * q + T - 1) div T = q"
    proof -
      have "T * q + T - 1 = (T - 1) + T * q" using T(3) by simp
      then show ?thesis using T(3) by (simp only: div_mult_self2) simp
    qed
    with True q show ?thesis by (simp add: snap_def Let_def T)
  next
    case False
    then have nz: "0 < unat d mod T" using m by (metis gr_zeroI unat_eq_zero)
    have lt: "unat d mod T < T" using T by simp
    have le: "d mod ?t \<le> ?t" using lt by (simp add: word_le_nat_alt m T less_imp_le)
    have u: "unat (?t - d mod ?t) = T - unat d mod T"
      using le by (simp add: unat_sub m T)
    have dec: "unat d = T * (unat d div T) + unat d mod T" by simp
    have bound: "unat d + (T - unat d mod T) < 2 ^ 32"
      using assms(2) T nz by simp
    have "unat (d + (?t - d mod ?t)) = unat d + (T - unat d mod T)"
      using bound by (simp add: unat_word_ariths u)
    also have "\<dots> = T * (unat d div T) + T" using dec lt by linarith
    finally have l: "unat (snap t d) = T * (unat d div T) + T"
      using False by (simp add: snap_def Let_def)
    have "unat d + T - 1 = (unat d mod T - 1) + T * (unat d div T + 1)"
    proof -
      have "unat d \<ge> 1" using nz by (cases "unat d = 0") simp_all
      moreover have "T * (unat d div T + 1) = T * (unat d div T) + T" by simp
      ultimately show ?thesis using dec nz by linarith
    qed
    then have "(unat d + T - 1) div T = unat d div T + 1"
      using lt T(3) by (simp only: div_mult_self2) (simp add: less_imp_diff_less)
    with l show ?thesis by (simp add: T)
  qed
qed

section \<open>Broadcasting\<close>

text \<open>What a list of \<open>DimBroadcast\<close> entries does to a shape's dimensions.\<close>

definition apply_bcasts :: "u32 list \<Rightarrow> DimBroadcast list \<Rightarrow> u32 list" where
  "apply_bcasts ds bs = foldl (\<lambda>ds (_, i, sz). ds[nat i := word_of_int sz]) ds bs"

lemma apply_bcasts_Cons:
  "apply_bcasts ds ((x, i, sz) # bs) = apply_bcasts (ds[nat i := word_of_int sz]) bs"
  by (simp add: apply_bcasts_def)

lemma bcast_loop_max:
  assumes "bcast_loop FREE n i ms os = Inr bs" and "rev ds = pre @ ms" and "length pre = i"
    and "length ds = n"
  shows "rev (apply_bcasts ds bs) = pre @ map2 max ms os @ drop (length os) ms"
  using assms
proof (induction FREE n i ms os arbitrary: ds pre bs rule: bcast_loop.induct)
  case (1 n i m ms d os)
  have len: "length ds = i + Suc (length ms)"
    using "1.prems"(2,3) by (metis length_rev length_append length_Cons)
  show ?case
  proof (cases "m < d")
    case True
    with "1.prems" obtain ret where ret: "bcast_loop FREE n (Suc i) ms os = Inr ret"
      and bs: "bs = (0, int n - 1 - int i, sint d) # ret"
      and free: "if FREE = FREE then m = 1 else 2 \<le> i \<and> m = 32 \<or> i < 2 \<and> m = 1"
      by (auto simp: result_simps)
    let ?ds = "ds[n - 1 - i := d]"
    have nat_i: "nat (int n - 1 - int i) = n - 1 - i" by linarith
    have "rev ?ds = (pre @ [d]) @ ms"
      using len "1.prems"(2-4) by (auto simp: rev_update list_update_append)
    with "1.hyps"(1) [OF True free ret, of ?ds "pre @ [d]"] "1.prems"(3,4)
    have "rev (apply_bcasts ?ds ret) = (pre @ [d]) @ map2 max ms os @ drop (length os) ms"
      by simp
    moreover have "max m d = d" using True by (metis max_absorb2 less_imp_le)
    ultimately show ?thesis by (simp add: bs apply_bcasts_Cons nat_i)
  next
    case False
    with "1.prems"(1) have "bcast_loop FREE n (Suc i) ms os = Inr bs" by simp
    with "1.hyps"(2) [OF False this, of ds "pre @ [m]"] "1.prems"(2-4)
    have "rev (apply_bcasts ds bs) = (pre @ [m]) @ map2 max ms os @ drop (length os) ms"
      by simp
    moreover have "max m d = m" using False by (metis max_absorb1 not_le_imp_less linorder_not_less)
    ultimately show ?thesis by simp
  qed
qed (auto simp: apply_bcasts_def)

text \<open>for free shapes of one rank whose (wrapping) volumes differ, applying the reported broadcasts
  turns every dimension into the larger of the two.\<close>

lemma broadcast_dims_max:
  assumes "broadcast_dims s t = Inr bs" and "sh_type s = FREE"
    and "length (sh_dims s) = length (sh_dims t)" and "volume s \<noteq> volume t"
  shows "apply_bcasts (sh_dims s) bs = map2 max (sh_dims s) (sh_dims t)"
proof -
  have "bcast_loop FREE (length (sh_dims s)) 0 (rev (sh_dims s)) (rev (sh_dims t)) = Inr bs"
    using assms by (simp add: broadcast_dims_def result_simps)
  from bcast_loop_max [OF this, of "sh_dims s" "[]"]
  have "rev (apply_bcasts (sh_dims s) bs) = map2 max (rev (sh_dims s)) (rev (sh_dims t))"
    by (simp add: assms(3))
  also have "\<dots> = rev (map2 max (sh_dims s) (sh_dims t))"
    using assms(3) by (simp add: zip_rev rev_map)
  finally show ?thesis by simp
qed

lemma unat_foldl_times: "unat (foldl (*) (a :: u32) ds) = unat a * prod_list (map unat ds) mod 2 ^ 32"
proof (induction ds arbitrary: a)
  case Nil
  have "unat a < 2 ^ 32" using unsigned_less [of a, where ?'a = nat] by simp
  then show ?case by simp
next
  case (Cons d ds)
  have "unat (foldl (*) a (d # ds)) = unat (a * d) * prod_list (map unat ds) mod 2 ^ 32"
    using Cons.IH [of "a * d"] by simp
  also have "unat (a * d) = unat a * unat d mod 2 ^ 32" by (simp add: unat_word_ariths)
  finally show ?case by (simp add: mod_mult_left_eq mult.assoc)
qed

lemma volume_eq_iff:
  "volume s = volume t \<longleftrightarrow>
     prod_list (map unat (sh_dims s)) mod 2 ^ 32 = prod_list (map unat (sh_dims t)) mod 2 ^ 32"
proof -
  have "volume s = volume t \<longleftrightarrow> unat (volume s) = unat (volume t)" by (simp add: word_unat_eq_iff)
  then show ?thesis by (simp add: volume_def unat_foldl_times)
qed

lemma bcast_loop_total:
  assumes "length ms = length os"
  shows "if list_all2 (\<lambda>m d. m < d \<longrightarrow> m = 1) ms os then \<exists>bs. bcast_loop FREE n i ms os = Inr bs
    else bcast_loop FREE n i ms os = Inl Assert_failed"
  using assms
proof (induction ms os arbitrary: i rule: list_induct2)
  case Nil
  then show ?case by simp
next
  case (Cons m ms d os)
  from Cons.IH [of "Suc i"] show ?case
    by (cases "list_all2 (\<lambda>m d. m < d \<longrightarrow> m = 1) ms os") (auto simp: tt_assert_def)
qed

text \<open>C32: for free shapes of one rank: when the products of the dimensions agree modulo \<open>2 ^ 32\<close> no broadcast
  is reported, however the shapes differ; otherwise it is defined exactly when every dimension that is
  smaller is 1, and the broadcasts reported turn every dimension into the larger of the two.\<close>

theorem broadcast_dims_correct:
  assumes "sh_valid s" "sh_valid t" "sh_type s = FREE" "length (sh_dims s) = length (sh_dims t)"
  shows "if prod_list (map unat (sh_dims s)) mod 2 ^ 32 = prod_list (map unat (sh_dims t)) mod 2 ^ 32
     then broadcast_dims s t = Inr []
     else if list_all2 (\<lambda>m d. m < d \<longrightarrow> m = 1) (sh_dims s) (sh_dims t)
     then \<exists>bs. broadcast_dims s t = Inr bs \<and> apply_bcasts (sh_dims s) bs = map2 max (sh_dims s) (sh_dims t)
     else broadcast_dims s t = Inl Assert_failed"
proof (cases "volume s = volume t")
  case True
  with assms(1, 2) have "broadcast_dims s t = Inr []" by (simp add: broadcast_dims_def)
  with True show ?thesis by (simp add: volume_eq_iff)
next
  case False
  have eq: "broadcast_dims s t = bcast_loop FREE (length (sh_dims s)) 0 (rev (sh_dims s)) (rev (sh_dims t))"
    using assms False by (simp add: broadcast_dims_def)
  have "list_all2 P (rev (sh_dims s)) (rev (sh_dims t)) \<longleftrightarrow> list_all2 P (sh_dims s) (sh_dims t)" for P
    by (rule list_all2_rev)
  with bcast_loop_total [of "rev (sh_dims s)" "rev (sh_dims t)" "length (sh_dims s)" 0] assms(4) eq
    broadcast_dims_max [OF _ assms(3, 4) False] False
  show ?thesis by (auto simp: volume_eq_iff split: if_splits)
qed

theorem broadcast_dims_correct_witness:
  "broadcast_dims (shape_create [1, 65536, 65536]) (shape_create [2, 65536, 65536]) = Inr [] \<and>
   (\<exists>bs. broadcast_dims (shape_create [1, 4, 1]) (shape_create [5, 4, 7]) = Inr bs \<and>
     apply_bcasts [1, 4, 1] bs = [5, 4, 7])"
  using broadcast_dims_correct [of "shape_create [1, 65536, 65536]" "shape_create [2, 65536, 65536]"]
    broadcast_dims_correct [of "shape_create [1, 4, 1]" "shape_create [5, 4, 7]"]
  by simp

end
