(* ===== verification/Op_Types.thy ===== *)
theory Op_Types
  imports Formats "HOL-Library.List_Lexorder" "HOL-Library.Char_ord"
begin

text \<open>
  Operation types and attributes.

  \<^item> \<open>ops::OpType\<close> of \<open>forge/csrc/ops/op.hpp\<close>: an \<open>enum class\<close> over \<open>uint32_t\<close>, modelled by its
    number, with one constant per enumerator in the order of the source (so a value outside
    the enumeration is representable, as in C++, and takes the \<open>default\<close> branches);
  \<^item> the two name tables and the classification switches of \<open>forge/csrc/ops/op.cpp\<close>;
  \<^item> attributes (\<open>ForgeOpAttr\<close>), \<open>ops::Op\<close> and the struct \<open>graphlib::OpType\<close> of
    \<open>forge/csrc/graph_lib/node_types.hpp\<close>, which keeps the old name-based type beside the new
    one.
\<close>

section \<open>The enumeration\<close>

datatype ops_OpType = OpType_code (op_code: nat)

abbreviation Op_Abs :: ops_OpType where "Op_Abs \<equiv> OpType_code 0"
abbreviation Op_AdaptiveMaxPool2d :: ops_OpType where "Op_AdaptiveMaxPool2d \<equiv> OpType_code 1"
abbreviation Op_Add :: ops_OpType where "Op_Add \<equiv> OpType_code 2"
abbreviation Op_AdvIndex :: ops_OpType where "Op_AdvIndex \<equiv> OpType_code 3"
abbreviation Op_Argmax :: ops_OpType where "Op_Argmax \<equiv> OpType_code 4"
abbreviation Op_Atan :: ops_OpType where "Op_Atan \<equiv> OpType_code 5"
abbreviation Op_AvgPool1d :: ops_OpType where "Op_AvgPool1d \<equiv> OpType_code 6"
abbreviation Op_AvgPool2d :: ops_OpType where "Op_AvgPool2d \<equiv> OpType_code 7"
abbreviation Op_AvgPool3d :: ops_OpType where "Op_AvgPool3d \<equiv> OpType_code 8"
abbreviation Op_Batchnorm :: ops_OpType where "Op_Batchnorm \<equiv> OpType_code 9"
abbreviation Op_Broadcast :: ops_OpType where "Op_Broadcast \<equiv> OpType_code 10"
abbreviation Op_Buffer :: ops_OpType where "Op_Buffer \<equiv> OpType_code 11"
abbreviation Op_Cast :: ops_OpType where "Op_Cast \<equiv> OpType_code 12"
abbreviation Op_Clip :: ops_OpType where "Op_Clip \<equiv> OpType_code 13"
abbreviation Op_Concatenate :: ops_OpType where "Op_Concatenate \<equiv> OpType_code 14"
abbreviation Op_Constant :: ops_OpType where "Op_Constant \<equiv> OpType_code 15"
abbreviation Op_Conv2d :: ops_OpType where "Op_Conv2d \<equiv> OpType_code 16"
abbreviation Op_Conv2dDepthwiseWeights :: ops_OpType where "Op_Conv2dDepthwiseWeights \<equiv> OpType_code 17"
abbreviation Op_Conv2dDepthwiseWeightsBw :: ops_OpType where "Op_Conv2dDepthwiseWeightsBw \<equiv> OpType_code 18"
abbreviation Op_Conv2dGroupedWeights :: ops_OpType where "Op_Conv2dGroupedWeights \<equiv> OpType_code 19"
abbreviation Op_Conv2dGroupedWeightsBw :: ops_OpType where "Op_Conv2dGroupedWeightsBw \<equiv> OpType_code 20"
abbreviation Op_Conv2dPrestrideAct :: ops_OpType where "Op_Conv2dPrestrideAct \<equiv> OpType_code 21"
abbreviation Op_Conv2dPrestrideWeights :: ops_OpType where "Op_Conv2dPrestrideWeights \<equiv> OpType_code 22"
abbreviation Op_Conv2dTranspose :: ops_OpType where "Op_Conv2dTranspose \<equiv> OpType_code 23"
abbreviation Op_Conv3d :: ops_OpType where "Op_Conv3d \<equiv> OpType_code 24"
abbreviation Op_ConvSum :: ops_OpType where "Op_ConvSum \<equiv> OpType_code 25"
abbreviation Op_Cosine :: ops_OpType where "Op_Cosine \<equiv> OpType_code 26"
abbreviation Op_CumulativeSum :: ops_OpType where "Op_CumulativeSum \<equiv> OpType_code 27"
abbreviation Op_Dequantize :: ops_OpType where "Op_Dequantize \<equiv> OpType_code 28"
abbreviation Op_Depthwise :: ops_OpType where "Op_Depthwise \<equiv> OpType_code 29"
abbreviation Op_Divide :: ops_OpType where "Op_Divide \<equiv> OpType_code 30"
abbreviation Op_DramQueue :: ops_OpType where "Op_DramQueue \<equiv> OpType_code 31"
abbreviation Op_Downsample2d :: ops_OpType where "Op_Downsample2d \<equiv> OpType_code 32"
abbreviation Op_Dropout :: ops_OpType where "Op_Dropout \<equiv> OpType_code 33"
abbreviation Op_Embedding :: ops_OpType where "Op_Embedding \<equiv> OpType_code 34"
abbreviation Op_EmbeddingBw :: ops_OpType where "Op_EmbeddingBw \<equiv> OpType_code 35"
abbreviation Op_Equal :: ops_OpType where "Op_Equal \<equiv> OpType_code 36"
abbreviation Op_Erf :: ops_OpType where "Op_Erf \<equiv> OpType_code 37"
abbreviation Op_EthernetDatacopy :: ops_OpType where "Op_EthernetDatacopy \<equiv> OpType_code 38"
abbreviation Op_Exp :: ops_OpType where "Op_Exp \<equiv> OpType_code 39"
abbreviation Op_FillCache :: ops_OpType where "Op_FillCache \<equiv> OpType_code 40"
abbreviation Op_ForgeDequantize :: ops_OpType where "Op_ForgeDequantize \<equiv> OpType_code 41"
abbreviation Op_ForgePad :: ops_OpType where "Op_ForgePad \<equiv> OpType_code 42"
abbreviation Op_ForgeQuantize :: ops_OpType where "Op_ForgeQuantize \<equiv> OpType_code 43"
abbreviation Op_ForgeRequantize :: ops_OpType where "Op_ForgeRequantize \<equiv> OpType_code 44"
abbreviation Op_ForgeUnpad :: ops_OpType where "Op_ForgeUnpad \<equiv> OpType_code 45"
abbreviation Op_Gather :: ops_OpType where "Op_Gather \<equiv> OpType_code 46"
abbreviation Op_Gelu :: ops_OpType where "Op_Gelu \<equiv> OpType_code 47"
abbreviation Op_GeluDerivative :: ops_OpType where "Op_GeluDerivative \<equiv> OpType_code 48"
abbreviation Op_Greater :: ops_OpType where "Op_Greater \<equiv> OpType_code 49"
abbreviation Op_GreaterEqual :: ops_OpType where "Op_GreaterEqual \<equiv> OpType_code 50"
abbreviation Op_GroupedReduceAvg :: ops_OpType where "Op_GroupedReduceAvg \<equiv> OpType_code 51"
abbreviation Op_Heaviside :: ops_OpType where "Op_Heaviside \<equiv> OpType_code 52"
abbreviation Op_Hslice :: ops_OpType where "Op_Hslice \<equiv> OpType_code 53"
abbreviation Op_Hstack :: ops_OpType where "Op_Hstack \<equiv> OpType_code 54"
abbreviation Op_Index :: ops_OpType where "Op_Index \<equiv> OpType_code 55"
abbreviation Op_IndexCopy :: ops_OpType where "Op_IndexCopy \<equiv> OpType_code 56"
abbreviation Op_Interleave :: ops_OpType where "Op_Interleave \<equiv> OpType_code 57"
abbreviation Op_Layernorm :: ops_OpType where "Op_Layernorm \<equiv> OpType_code 58"
abbreviation Op_LayernormBw :: ops_OpType where "Op_LayernormBw \<equiv> OpType_code 59"
abbreviation Op_LeakyRelu :: ops_OpType where "Op_LeakyRelu \<equiv> OpType_code 60"
abbreviation Op_Less :: ops_OpType where "Op_Less \<equiv> OpType_code 61"
abbreviation Op_LessEqual :: ops_OpType where "Op_LessEqual \<equiv> OpType_code 62"
abbreviation Op_Log :: ops_OpType where "Op_Log \<equiv> OpType_code 63"
abbreviation Op_LogSoftmax :: ops_OpType where "Op_LogSoftmax \<equiv> OpType_code 64"
abbreviation Op_LogicalAnd :: ops_OpType where "Op_LogicalAnd \<equiv> OpType_code 65"
abbreviation Op_LogicalNot :: ops_OpType where "Op_LogicalNot \<equiv> OpType_code 66"
abbreviation Op_Mask :: ops_OpType where "Op_Mask \<equiv> OpType_code 67"
abbreviation Op_Matmul :: ops_OpType where "Op_Matmul \<equiv> OpType_code 68"
abbreviation Op_MaxPool1d :: ops_OpType where "Op_MaxPool1d \<equiv> OpType_code 69"
abbreviation Op_MaxPool2d :: ops_OpType where "Op_MaxPool2d \<equiv> OpType_code 70"
abbreviation Op_MaxPool3d :: ops_OpType where "Op_MaxPool3d \<equiv> OpType_code 71"
abbreviation Op_Maximum :: ops_OpType where "Op_Maximum \<equiv> OpType_code 72"
abbreviation Op_Minimum :: ops_OpType where "Op_Minimum \<equiv> OpType_code 73"
abbreviation Op_Multiply :: ops_OpType where "Op_Multiply \<equiv> OpType_code 74"
abbreviation Op_Nop :: ops_OpType where "Op_Nop \<equiv> OpType_code 75"
abbreviation Op_NotEqual :: ops_OpType where "Op_NotEqual \<equiv> OpType_code 76"
abbreviation Op_Narrow :: ops_OpType where "Op_Narrow \<equiv> OpType_code 77"
abbreviation Op_Pad :: ops_OpType where "Op_Pad \<equiv> OpType_code 78"
abbreviation Op_PadTile :: ops_OpType where "Op_PadTile \<equiv> OpType_code 79"
abbreviation Op_PixelShuffle :: ops_OpType where "Op_PixelShuffle \<equiv> OpType_code 80"
abbreviation Op_Pow :: ops_OpType where "Op_Pow \<equiv> OpType_code 81"
abbreviation Op_Power :: ops_OpType where "Op_Power \<equiv> OpType_code 82"
abbreviation Op_Quantize :: ops_OpType where "Op_Quantize \<equiv> OpType_code 83"
abbreviation Op_Reciprocal :: ops_OpType where "Op_Reciprocal \<equiv> OpType_code 84"
abbreviation Op_ReduceAvg :: ops_OpType where "Op_ReduceAvg \<equiv> OpType_code 85"
abbreviation Op_ReduceMax :: ops_OpType where "Op_ReduceMax \<equiv> OpType_code 86"
abbreviation Op_ReduceSum :: ops_OpType where "Op_ReduceSum \<equiv> OpType_code 87"
abbreviation Op_Relu :: ops_OpType where "Op_Relu \<equiv> OpType_code 88"
abbreviation Op_Remainder :: ops_OpType where "Op_Remainder \<equiv> OpType_code 89"
abbreviation Op_Repeat :: ops_OpType where "Op_Repeat \<equiv> OpType_code 90"
abbreviation Op_RepeatInterleave :: ops_OpType where "Op_RepeatInterleave \<equiv> OpType_code 91"
abbreviation Op_Requantize :: ops_OpType where "Op_Requantize \<equiv> OpType_code 92"
abbreviation Op_Reshape :: ops_OpType where "Op_Reshape \<equiv> OpType_code 93"
abbreviation Op_Resize1d :: ops_OpType where "Op_Resize1d \<equiv> OpType_code 94"
abbreviation Op_Resize2d :: ops_OpType where "Op_Resize2d \<equiv> OpType_code 95"
abbreviation Op_Resize3d :: ops_OpType where "Op_Resize3d \<equiv> OpType_code 96"
abbreviation Op_Select :: ops_OpType where "Op_Select \<equiv> OpType_code 97"
abbreviation Op_Sigmoid :: ops_OpType where "Op_Sigmoid \<equiv> OpType_code 98"
abbreviation Op_Sine :: ops_OpType where "Op_Sine \<equiv> OpType_code 99"
abbreviation Op_Softmax :: ops_OpType where "Op_Softmax \<equiv> OpType_code 100"
abbreviation Op_SoftmaxBw :: ops_OpType where "Op_SoftmaxBw \<equiv> OpType_code 101"
abbreviation Op_SparseMatmul :: ops_OpType where "Op_SparseMatmul \<equiv> OpType_code 102"
abbreviation Op_Sqrt :: ops_OpType where "Op_Sqrt \<equiv> OpType_code 103"
abbreviation Op_Stack :: ops_OpType where "Op_Stack \<equiv> OpType_code 104"
abbreviation Op_Subtract :: ops_OpType where "Op_Subtract \<equiv> OpType_code 105"
abbreviation Op_Squeeze :: ops_OpType where "Op_Squeeze \<equiv> OpType_code 106"
abbreviation Op_Tanh :: ops_OpType where "Op_Tanh \<equiv> OpType_code 107"
abbreviation Op_TileBroadcast :: ops_OpType where "Op_TileBroadcast \<equiv> OpType_code 108"
abbreviation Op_Tilizer :: ops_OpType where "Op_Tilizer \<equiv> OpType_code 109"
abbreviation Op_Transpose :: ops_OpType where "Op_Transpose \<equiv> OpType_code 110"
abbreviation Op_Unsqueeze :: ops_OpType where "Op_Unsqueeze \<equiv> OpType_code 111"
abbreviation Op_UpdateCache :: ops_OpType where "Op_UpdateCache \<equiv> OpType_code 112"
abbreviation Op_Upsample2d :: ops_OpType where "Op_Upsample2d \<equiv> OpType_code 113"
abbreviation Op_Vslice :: ops_OpType where "Op_Vslice \<equiv> OpType_code 114"
abbreviation Op_Vstack :: ops_OpType where "Op_Vstack \<equiv> OpType_code 115"
abbreviation Op_Where :: ops_OpType where "Op_Where \<equiv> OpType_code 116"

section \<open>Names of operations\<close>

text \<open>\<open>NewToOldOpType\<close> and \<open>OldToNewOpType\<close>, entry by entry.\<close>

definition new_to_old :: "(ops_OpType \<times> string) list" where
  "new_to_old = [
     (Op_Abs, ''abs''), (Op_AdaptiveMaxPool2d, ''adaptive_max_pool2d''), (Op_Add, ''add''),
     (Op_AdvIndex, ''adv_index''), (Op_Argmax, ''argmax''), (Op_Atan, ''atan''),
     (Op_AvgPool1d, ''avg_pool1d''), (Op_AvgPool2d, ''avg_pool2d''),
     (Op_AvgPool3d, ''avg_pool3d''), (Op_Batchnorm, ''batchnorm''),
     (Op_Broadcast, ''broadcast''), (Op_Buffer, ''buffer''), (Op_Cast, ''cast''),
     (Op_Clip, ''clip''), (Op_Concatenate, ''concatenate''), (Op_Constant, ''constant''),
     (Op_Conv2d, ''conv2d''), (Op_Conv2dDepthwiseWeights, ''conv2d_depthwise_weights''),
     (Op_Conv2dDepthwiseWeightsBw, ''conv2d_depthwise_weights_bw''),
     (Op_Conv2dGroupedWeights, ''conv2d_grouped_weights''),
     (Op_Conv2dGroupedWeightsBw, ''conv2d_grouped_weights_bw''),
     (Op_Conv2dPrestrideAct, ''conv2d_prestride_act''),
     (Op_Conv2dPrestrideWeights, ''conv2d_prestride_weights''),
     (Op_Conv2dTranspose, ''conv2d_transpose''), (Op_Conv3d, ''conv3d''),
     (Op_ConvSum, ''conv_sum''), (Op_Cosine, ''cosine''), (Op_CumulativeSum, ''cumsum''),
     (Op_Depthwise, ''depthwise''), (Op_Dequantize, ''dequantize''), (Op_Divide, ''divide''),
     (Op_Downsample2d, ''downsample2d''), (Op_DramQueue, ''dram_queue''),
     (Op_Dropout, ''dropout''), (Op_Embedding, ''embedding''),
     (Op_EmbeddingBw, ''embedding_bw''), (Op_Equal, ''equal''), (Op_Erf, ''erf''),
     (Op_EthernetDatacopy, ''ethernet_datacopy''), (Op_Exp, ''exp''),
     (Op_FillCache, ''fill_cache''), (Op_ForgeDequantize, ''forge_dequantize''),
     (Op_ForgePad, ''forge_pad''), (Op_ForgeQuantize, ''forge_quantize''),
     (Op_ForgeRequantize, ''forge_requantize''), (Op_ForgeUnpad, ''forge_unpad''),
     (Op_Gather, ''gather''), (Op_Gelu, ''gelu''), (Op_GeluDerivative, ''gelu_derivative''),
     (Op_Greater, ''greater''), (Op_GreaterEqual, ''greater_equal''),
     (Op_GroupedReduceAvg, ''grouped_reduce_avg''), (Op_Heaviside, ''heaviside''),
     (Op_Hslice, ''hslice''), (Op_Hstack, ''hstack''), (Op_Index, ''index''),
     (Op_IndexCopy, ''index_copy''), (Op_Interleave, ''interleave''),
     (Op_Layernorm, ''layernorm''), (Op_LayernormBw, ''layernorm_bw''),
     (Op_LeakyRelu, ''leaky_relu''), (Op_Less, ''less''), (Op_LessEqual, ''less_equal''),
     (Op_Log, ''log''), (Op_LogSoftmax, ''log_softmax''), (Op_LogicalAnd, ''logical_and''),
     (Op_LogicalNot, ''logical_not''), (Op_Mask, ''mask''), (Op_Matmul, ''matmul''),
     (Op_MaxPool1d, ''max_pool1d''), (Op_MaxPool2d, ''max_pool2d''),
     (Op_MaxPool3d, ''max_pool3d''), (Op_Maximum, ''maximum''), (Op_Minimum, ''minimum''),
     (Op_Multiply, ''multiply''), (Op_Narrow, ''narrow''), (Op_Nop, ''nop''),
     (Op_NotEqual, ''not_equal''), (Op_Pad, ''pad''), (Op_PadTile, ''pad_tile''),
     (Op_PixelShuffle, ''pixel_shuffle''), (Op_Pow, ''pow''), (Op_Power, ''power''),
     (Op_Quantize, ''quantize''), (Op_Reciprocal, ''reciprocal''),
     (Op_ReduceAvg, ''reduce_avg''), (Op_ReduceMax, ''reduce_max''),
     (Op_ReduceSum, ''reduce_sum''), (Op_Relu, ''relu''), (Op_Remainder, ''remainder''),
     (Op_Repeat, ''repeat''), (Op_RepeatInterleave, ''repeat_interleave''),
     (Op_Requantize, ''requantize''), (Op_Reshape, ''reshape''), (Op_Resize1d, ''resize1d''),
     (Op_Resize2d, ''resize2d''), (Op_Resize3d, ''resize3d''), (Op_Select, ''select''),
     (Op_Sigmoid, ''sigmoid''), (Op_Sine, ''sine''), (Op_Softmax, ''softmax''),
     (Op_SoftmaxBw, ''softmax_bw''), (Op_SparseMatmul, ''sparse_matmul''), (Op_Sqrt, ''sqrt''),
     (Op_Squeeze, ''squeeze''), (Op_Stack, ''stack''), (Op_Subtract, ''subtract''),
     (Op_Tanh, ''tanh''), (Op_TileBroadcast, ''tile_broadcast''), (Op_Tilizer, ''tilizer''),
     (Op_Transpose, ''transpose''), (Op_Unsqueeze, ''unsqueeze''),
     (Op_UpdateCache, ''update_cache''), (Op_Upsample2d, ''upsample2d''),
     (Op_Vslice, ''vslice''), (Op_Vstack, ''vstack''), (Op_Where, ''where'')]"

definition old_to_new :: "(string \<times> ops_OpType) list" where
  "old_to_new = [
     (''abs'', Op_Abs), (''adaptive_max_pool2d'', Op_AdaptiveMaxPool2d), (''add'', Op_Add),
     (''adv_index'', Op_AdvIndex), (''argmax'', Op_Argmax), (''atan'', Op_Atan),
     (''avg_pool1d'', Op_AvgPool1d), (''avg_pool2d'', Op_AvgPool2d),
     (''avg_pool3d'', Op_AvgPool3d), (''batchnorm'', Op_Batchnorm),
     (''broadcast'', Op_Broadcast), (''buffer'', Op_Buffer), (''cast'', Op_Cast),
     (''clip'', Op_Clip), (''concatenate'', Op_Concatenate), (''constant'', Op_Constant),
     (''conv2d'', Op_Conv2d), (''conv2d_depthwise_weights'', Op_Conv2dDepthwiseWeights),
     (''conv2d_depthwise_weights_bw'', Op_Conv2dDepthwiseWeightsBw),
     (''conv2d_grouped_weights'', Op_Conv2dGroupedWeights),
     (''conv2d_grouped_weights_bw'', Op_Conv2dGroupedWeightsBw),
     (''conv2d_prestride_act'', Op_Conv2dPrestrideAct),
     (''conv2d_prestride_weights'', Op_Conv2dPrestrideWeights),
     (''conv2d_transpose'', Op_Conv2dTranspose), (''conv3d'', Op_Conv3d),
     (''conv_sum'', Op_ConvSum), (''cosine'', Op_Cosine), (''cumsum'', Op_CumulativeSum),
     (''depthwise'', Op_Depthwise), (''dequantize'', Op_Dequantize), (''divide'', Op_Divide),
     (''downsample2d'', Op_Downsample2d), (''dram_queue'', Op_DramQueue),
     (''dropout'', Op_Dropout), (''embedding'', Op_Embedding),
     (''embedding_bw'', Op_EmbeddingBw), (''equal'', Op_Equal), (''erf'', Op_Erf),
     (''ethernet_datacopy'', Op_EthernetDatacopy), (''exp'', Op_Exp),
     (''fill_cache'', Op_FillCache), (''forge_dequantize'', Op_ForgeDequantize),
     (''forge_pad'', Op_ForgePad), (''forge_quantize'', Op_ForgeQuantize),
     (''forge_requantize'', Op_ForgeRequantize), (''forge_unpad'', Op_ForgeUnpad),
     (''gather'', Op_Gather), (''gelu'', Op_Gelu), (''gelu_derivative'', Op_GeluDerivative),
     (''greater'', Op_Greater), (''greater_equal'', Op_GreaterEqual),
     (''grouped_reduce_avg'', Op_GroupedReduceAvg), (''heaviside'', Op_Heaviside),
     (''hslice'', Op_Hslice), (''hstack'', Op_Hstack), (''index'', Op_Index),
     (''index_copy'', Op_IndexCopy), (''interleave'', Op_Interleave),
     (''layernorm'', Op_Layernorm), (''layernorm_bw'', Op_LayernormBw),
     (''leaky_relu'', Op_LeakyRelu), (''less'', Op_Less), (''less_equal'', Op_LessEqual),
     (''log'', Op_Log), (''log_softmax'', Op_LogSoftmax), (''logical_and'', Op_LogicalAnd),
     (''logical_not'', Op_LogicalNot), (''mask'', Op_Mask), (''matmul'', Op_Matmul),
     (''max_pool1d'', Op_MaxPool1d), (''max_pool2d'', Op_MaxPool2d),
     (''max_pool3d'', Op_MaxPool3d), (''maximum'', Op_Maximum), (''minimum'', Op_Minimum),
     (''multiply'', Op_Multiply), (''narrow'', Op_Narrow), (''nop'', Op_Nop),
     (''not_equal'', Op_NotEqual), (''pad'', Op_Pad), (''pad_tile'', Op_PadTile),
     (''pixel_shuffle'', Op_PixelShuffle), (''pow'', Op_Pow), (''power'', Op_Power),
     (''quantize'', Op_Quantize), (''reciprocal'', Op_Reciprocal),
     (''reduce_avg'', Op_ReduceAvg), (''reduce_max'', Op_ReduceMax),
     (''reduce_sum'', Op_ReduceSum), (''relu'', Op_Relu), (''remainder'', Op_Remainder),
     (''repeat'', Op_Repeat), (''repeat_interleave'', Op_RepeatInterleave),
     (''requantize'', Op_Requantize), (''reshape'', Op_Reshape), (''resize1d'', Op_Resize1d),
     (''resize2d'', Op_Resize2d), (''resize3d'', Op_Resize3d), (''select'', Op_Select),
     (''sigmoid'', Op_Sigmoid), (''sine'', Op_Sine), (''softmax'', Op_Softmax),
     (''softmax_bw'', Op_SoftmaxBw), (''sparse_matmul'', Op_SparseMatmul), (''sqrt'', Op_Sqrt),
     (''squeeze'', Op_Squeeze), (''stack'', Op_Stack), (''subtract'', Op_Subtract),
     (''tanh'', Op_Tanh), (''tile_broadcast'', Op_TileBroadcast), (''tilizer'', Op_Tilizer),
     (''transpose'', Op_Transpose), (''unsqueeze'', Op_Unsqueeze),
     (''update_cache'', Op_UpdateCache), (''upsample2d'', Op_Upsample2d),
     (''vslice'', Op_Vslice), (''vstack'', Op_Vstack), (''where'', Op_Where)]"

definition op_name_of :: "ops_OpType \<Rightarrow> string result" where
  "op_name_of t = map_at new_to_old t"

definition op_type_of_name :: "string \<Rightarrow> ops_OpType result" where
  "op_type_of_name s = map_at old_to_new s"

section \<open>Classification\<close>

text \<open>
  The five switches share one shape: \<open>true\<close> for the listed enumerators, \<open>false\<close> for the
  others, a failing assertion for a value outside the enumeration.
\<close>

abbreviation op_count :: nat where "op_count \<equiv> 117"

definition op_switch :: "ops_OpType list \<Rightarrow> ops_OpType \<Rightarrow> bool result" where
  "op_switch ts t = tt_assert (op_code t < op_count) (Inr (t \<in> set ts))"

definition is_tm_ops :: "ops_OpType list" where
  "is_tm_ops = [
     Op_AdvIndex, Op_Broadcast, Op_Conv2dDepthwiseWeights, Op_Conv2dDepthwiseWeightsBw,
     Op_Conv2dGroupedWeights, Op_Conv2dGroupedWeightsBw, Op_Conv2dPrestrideAct,
     Op_Conv2dPrestrideWeights, Op_ForgePad, Op_ForgeUnpad, Op_Gather, Op_Hslice, Op_Hstack,
     Op_Index, Op_Narrow, Op_Pad, Op_PadTile, Op_PixelShuffle, Op_Repeat, Op_RepeatInterleave,
     Op_Reshape, Op_Select, Op_Squeeze, Op_Transpose, Op_Unsqueeze, Op_Vslice, Op_Vstack]"

definition op_is_tm :: "ops_OpType \<Rightarrow> bool result" where
  "op_is_tm t = op_switch is_tm_ops t"

definition is_eltwise_ops :: "ops_OpType list" where
  "is_eltwise_ops = [
     Op_Abs, Op_Add, Op_Argmax, Op_Atan, Op_Buffer, Op_Cast, Op_Clip, Op_Concatenate,
     Op_ConvSum, Op_Cosine, Op_CumulativeSum, Op_Divide, Op_Dropout, Op_Equal, Op_Erf,
     Op_EthernetDatacopy, Op_Exp, Op_Gelu, Op_GeluDerivative, Op_Greater, Op_GreaterEqual,
     Op_Heaviside, Op_IndexCopy, Op_Interleave, Op_LeakyRelu, Op_Less, Op_LessEqual, Op_Log,
     Op_LogicalAnd, Op_LogicalNot, Op_Maximum, Op_Minimum, Op_Multiply, Op_Nop, Op_NotEqual,
     Op_Pow, Op_Power, Op_Reciprocal, Op_Relu, Op_Remainder, Op_Sigmoid, Op_Sine, Op_Sqrt,
     Op_Stack, Op_Subtract, Op_Tanh, Op_TileBroadcast, Op_Tilizer, Op_Where]"

definition op_is_eltwise :: "ops_OpType \<Rightarrow> bool result" where
  "op_is_eltwise t = op_switch is_eltwise_ops t"

definition is_eltwise_unary_ops :: "ops_OpType list" where
  "is_eltwise_unary_ops = [
     Op_Abs, Op_Argmax, Op_Atan, Op_Buffer, Op_Cast, Op_Clip, Op_Cosine, Op_CumulativeSum,
     Op_Dropout, Op_Erf, Op_EthernetDatacopy, Op_Exp, Op_Gelu, Op_GeluDerivative, Op_LeakyRelu,
     Op_Log, Op_LogicalNot, Op_Nop, Op_Pow, Op_Reciprocal, Op_Relu, Op_Sigmoid, Op_Sine,
     Op_Sqrt, Op_Tanh, Op_TileBroadcast, Op_Tilizer]"

definition op_is_eltwise_unary :: "ops_OpType \<Rightarrow> bool result" where
  "op_is_eltwise_unary t = op_switch is_eltwise_unary_ops t"

definition is_eltwise_binary_ops :: "ops_OpType list" where
  "is_eltwise_binary_ops = [
     Op_Add, Op_Divide, Op_Equal, Op_Greater, Op_GreaterEqual, Op_Heaviside, Op_Less,
     Op_LessEqual, Op_LogicalAnd, Op_Maximum, Op_Minimum, Op_Multiply, Op_NotEqual, Op_Power,
     Op_Remainder, Op_Subtract]"

definition op_is_eltwise_binary :: "ops_OpType \<Rightarrow> bool result" where
  "op_is_eltwise_binary t = op_switch is_eltwise_binary_ops t"

definition is_eltwise_nary_ops :: "ops_OpType list" where
  "is_eltwise_nary_ops = [
     Op_Concatenate, Op_ConvSum, Op_IndexCopy, Op_Interleave, Op_Stack, Op_Subtract, Op_Where]"

definition op_is_eltwise_nary :: "ops_OpType \<Rightarrow> bool result" where
  "op_is_eltwise_nary t = op_switch is_eltwise_nary_ops t"

section \<open>Attributes\<close>

text \<open>
  A \<open>float\<close> is its IEEE-754 bit pattern; \<open>float_eq\<close> is C++'s \<open>==\<close>: no NaN equals anything and the
  two zeros are equal.
\<close>

type_synonym float32 = u32

definition float_is_nan :: "float32 \<Rightarrow> bool" where
  "float_is_nan f \<longleftrightarrow> (and f 0x7FFFFFFF) > 0x7F800000"

definition float_is_zero :: "float32 \<Rightarrow> bool" where
  "float_is_zero f \<longleftrightarrow> (and f 0x7FFFFFFF) = 0"

definition float_eq :: "float32 \<Rightarrow> float32 \<Rightarrow> bool" where
  "float_eq f g \<longleftrightarrow> \<not> float_is_nan f \<and> \<not> float_is_nan g \<and>
     (f = g \<or> (float_is_zero f \<and> float_is_zero g))"

datatype Attr =
    AString string
  | ABool bool
  | AInt int
  | AFloat float32
  | AInts "int list"
  | ATriples "(int \<times> int \<times> int) list"
  | AQuads "(int \<times> int \<times> int \<times> int) list"

fun attr_eq :: "Attr \<Rightarrow> Attr \<Rightarrow> bool" where
  "attr_eq (AFloat f) (AFloat g) = float_eq f g"
| "attr_eq a b = (a = b)"

definition attr_list_eq :: "Attr list \<Rightarrow> Attr list \<Rightarrow> bool" where
  "attr_list_eq xs ys \<longleftrightarrow> list_all2 attr_eq xs ys"

text \<open>\<open>std::map<std::string, Attr>\<close>: an association list sorted by key.\<close>

type_synonym Attrs = "(string \<times> Attr) list"

fun attrs_set :: "string \<Rightarrow> Attr \<Rightarrow> Attrs \<Rightarrow> Attrs" where
  "attrs_set k v [] = [(k, v)]"
| "attrs_set k v ((k', v') # m) =
     (if k < k' then (k, v) # (k', v') # m
      else if k = k' then (k, v) # m
      else (k', v') # attrs_set k v m)"

definition attrs_of :: "(string \<times> Attr) list \<Rightarrow> Attrs" where
  "attrs_of kvs = foldr (\<lambda>(k, v) m. attrs_set k v m) kvs []"

definition attrs_erase :: "string \<Rightarrow> Attrs \<Rightarrow> Attrs" where
  "attrs_erase k m = AList.delete k m"

definition attrs_eq :: "Attrs \<Rightarrow> Attrs \<Rightarrow> bool" where
  "attrs_eq m n \<longleftrightarrow> list_all2 (\<lambda>(k, v) (k', v'). k = k' \<and> attr_eq v v') m n"

section \<open>\<open>ops::Op\<close>\<close>

record Op =
  op_type :: ops_OpType
  op_attrs :: Attrs

definition op_eq :: "Op \<Rightarrow> Op \<Rightarrow> bool" where
  "op_eq a b \<longleftrightarrow> op_type a = op_type b \<and> attrs_eq (op_attrs a) (op_attrs b)"

definition op_as_string :: "Op \<Rightarrow> string result" where
  "op_as_string o1 = op_name_of (op_type o1)"

definition op_has_attr :: "Op \<Rightarrow> string \<Rightarrow> bool" where
  "op_has_attr o1 k \<longleftrightarrow> k \<in> set (keys (op_attrs o1))"

definition op_attr :: "Op \<Rightarrow> string \<Rightarrow> Attr result" where
  "op_attr o1 k = tt_assert (op_has_attr o1 k) (map_at (op_attrs o1) k)"

text \<open>\<open>attr_as<T>\<close> at the types the modelled code uses it with.\<close>

fun get_int :: "Attr \<Rightarrow> int result" where
  "get_int (AInt i) = Inr i"
| "get_int _ = Inl Bad_variant"

fun get_bool :: "Attr \<Rightarrow> bool result" where
  "get_bool (ABool b) = Inr b"
| "get_bool _ = Inl Bad_variant"

fun get_ints :: "Attr \<Rightarrow> int list result" where
  "get_ints (AInts is) = Inr is"
| "get_ints _ = Inl Bad_variant"

definition op_attr_int :: "Op \<Rightarrow> string \<Rightarrow> int result" where
  "op_attr_int o1 k = rbind (op_attr o1 k) get_int"

definition op_attr_ints :: "Op \<Rightarrow> string \<Rightarrow> int list result" where
  "op_attr_ints o1 k = rbind (op_attr o1 k) get_ints"

definition op_set_attr :: "string \<Rightarrow> Attr \<Rightarrow> Op \<Rightarrow> Op" where
  "op_set_attr k v o1 = o1\<lparr>op_attrs := attrs_set k v (op_attrs o1)\<rparr>"

definition op_set_attrs :: "Attrs \<Rightarrow> Op \<Rightarrow> Op" where
  "op_set_attrs m o1 = o1\<lparr>op_attrs := m\<rparr>"

definition op_remove_attr :: "string \<Rightarrow> Op \<Rightarrow> Op \<times> bool" where
  "op_remove_attr k o1 = (o1\<lparr>op_attrs := attrs_erase k (op_attrs o1)\<rparr>, op_has_attr o1 k)"

definition op_clear_attrs :: "Op \<Rightarrow> Op" where
  "op_clear_attrs o1 = o1\<lparr>op_attrs := []\<rparr>"

section \<open>\<open>graphlib::OpType\<close>\<close>

record OpType =
  op_name :: string
  legacy_attrs :: "Attr list"
  named_attrs :: Attrs
  new_op :: Op

text \<open>The constructor looks the name up in the table and throws on an unknown one.\<close>

definition mk_OpType :: "string \<Rightarrow> Attr list \<Rightarrow> Attrs \<Rightarrow> OpType result" where
  "mk_OpType name legacy named =
     rbind (op_type_of_name name) (\<lambda>t.
       Inr \<lparr>op_name = name, legacy_attrs = legacy, named_attrs = named,
            new_op = \<lparr>op_type = t, op_attrs = named\<rparr>\<rparr>)"

definition OpType_type :: "OpType \<Rightarrow> ops_OpType" where
  "OpType_type t = op_type (new_op t)"

definition OpType_is :: "OpType \<Rightarrow> ops_OpType \<Rightarrow> bool" where
  "OpType_is t ty \<longleftrightarrow> OpType_type t = ty"

definition OpType_eq :: "OpType \<Rightarrow> OpType \<Rightarrow> bool" where
  "OpType_eq a b \<longleftrightarrow> OpType_is a (OpType_type b) \<and>
     attr_list_eq (legacy_attrs a) (legacy_attrs b) \<and> attrs_eq (named_attrs a) (named_attrs b)"

definition OpType_has_attr :: "OpType \<Rightarrow> string \<Rightarrow> bool" where
  "OpType_has_attr t k \<longleftrightarrow> k \<in> set (keys (named_attrs t))"

definition OpType_attr :: "OpType \<Rightarrow> string \<Rightarrow> Attr result" where
  "OpType_attr t k = tt_assert (OpType_has_attr t k) (map_at (named_attrs t) k)"

definition OpType_set_attr :: "string \<Rightarrow> Attr \<Rightarrow> OpType \<Rightarrow> OpType" where
  "OpType_set_attr k v t =
     t\<lparr>named_attrs := attrs_set k v (named_attrs t), new_op := op_set_attr k v (new_op t)\<rparr>"

definition OpType_remove_attr :: "string \<Rightarrow> OpType \<Rightarrow> OpType \<times> bool" where
  "OpType_remove_attr k t =
     (let removed = OpType_has_attr t k;
          t1 = t\<lparr>named_attrs := attrs_erase k (named_attrs t)\<rparr>;
          t2 = (if removed then t1\<lparr>new_op := fst (op_remove_attr k (new_op t1))\<rparr> else t1)
      in (t2, removed))"

definition OpType_clear_attrs :: "OpType \<Rightarrow> OpType" where
  "OpType_clear_attrs t = t\<lparr>named_attrs := [], new_op := op_clear_attrs (new_op t)\<rparr>"

definition OpType_is_tm :: "OpType \<Rightarrow> bool result" where
  "OpType_is_tm t = op_is_tm (OpType_type t)"

definition OpType_is_eltwise :: "OpType \<Rightarrow> bool result" where
  "OpType_is_eltwise t = op_is_eltwise (OpType_type t)"

definition OpType_is_eltwise_unary :: "OpType \<Rightarrow> bool result" where
  "OpType_is_eltwise_unary t = op_is_eltwise_unary (OpType_type t)"

definition OpType_is_eltwise_binary :: "OpType \<Rightarrow> bool result" where
  "OpType_is_eltwise_binary t = op_is_eltwise_binary (OpType_type t)"

definition OpType_is_eltwise_nary :: "OpType \<Rightarrow> bool result" where
  "OpType_is_eltwise_nary t = op_is_eltwise_nary (OpType_type t)"

section \<open>The name tables are inverse bijections\<close>

lemma tables_mirror: "map (\<lambda>(a, b). (b, a)) new_to_old = old_to_new"
  by (simp add: new_to_old_def old_to_new_def)

lemma distinct_new_to_old: "distinct (keys new_to_old)"
  by (simp add: new_to_old_def)

lemma distinct_old_to_new: "distinct (keys old_to_new)"
  by (simp add: old_to_new_def)

lemma mem_tables: "(t, s) \<in> set new_to_old \<longleftrightarrow> (s, t) \<in> set old_to_new"
  unfolding tables_mirror [symmetric] by force

text \<open>The codes in the order of the table's names cover the whole enumeration.\<close>

lemma length_new_to_old: "length new_to_old = op_count"
  by (simp add: new_to_old_def)

lemma codes_bounded: "list_all (\<lambda>(t, s). op_code t < op_count) new_to_old"
  by (simp add: new_to_old_def)

lemma codes_cover: "op_code ` set (keys new_to_old) = {..<op_count}"
proof (rule card_subset_eq)
  show "op_code ` set (keys new_to_old) \<subseteq> {..<op_count}"
    using codes_bounded by (auto simp: list_all_iff)
  have "inj_on op_code (set (keys new_to_old))"
    by (rule inj_onI) (metis ops_OpType.expand)
  then show "card (op_code ` set (keys new_to_old)) = card {..<op_count}"
    by (simp add: card_image distinct_card [OF distinct_new_to_old] length_new_to_old
        del: set_map)
qed simp

lemma known_op: "op_code t < op_count \<longleftrightarrow> t \<in> set (keys new_to_old)"
proof
  assume "op_code t < op_count"
  then have "op_code t \<in> op_code ` set (keys new_to_old)" by (simp add: codes_cover del: set_map)
  then show "t \<in> set (keys new_to_old)" by (metis image_iff ops_OpType.expand)
next
  assume "t \<in> set (keys new_to_old)"
  then have "op_code t \<in> op_code ` set (keys new_to_old)" by (rule imageI)
  then show "op_code t < op_count" by (simp add: codes_cover del: set_map)
qed

text \<open>the two name tables are inverse to each other: a name is found for exactly the enumerators,
  and looking the name up gives the enumerator back.\<close>

theorem op_name_roundtrip:
  "case op_name_of t of
     Inl e \<Rightarrow> \<not> op_code t < op_count \<and> e = Out_of_range
   | Inr s \<Rightarrow> op_code t < op_count \<and> op_type_of_name s = Inr t"
proof (cases "map_of new_to_old t")
  case None
  then have "t \<notin> set (keys new_to_old)" by (simp add: map_of_eq_None_iff)
  then show ?thesis by (simp add: op_name_of_def None known_op)
next
  case (Some s)
  then have "(t, s) \<in> set new_to_old" by (rule map_of_SomeD)
  then have "map_of old_to_new s = Some t"
    by (auto simp: mem_tables distinct_old_to_new intro: map_of_is_SomeI)
  moreover have "t \<in> set (keys new_to_old)"
    using Some by (metis map_of_eq_None_iff option.distinct(1) list.set_map)
  ultimately show ?thesis by (simp add: op_name_of_def op_type_of_name_def Some known_op)
qed

text \<open>an unknown name is rejected and a known one names its operation: the inverse direction.\<close>

theorem op_type_name_roundtrip:
  "case op_type_of_name s of
     Inl e \<Rightarrow> e = Out_of_range \<and> s \<notin> set (keys old_to_new)
   | Inr t \<Rightarrow> op_name_of t = Inr s"
proof (cases "map_of old_to_new s")
  case None
  then show ?thesis by (simp add: op_type_of_name_def map_of_eq_None_iff)
next
  case (Some t)
  then have "(t, s) \<in> set new_to_old" by (simp add: mem_tables map_of_SomeD)
  then have "map_of new_to_old t = Some s" by (simp add: distinct_new_to_old)
  then show ?thesis by (simp add: op_name_of_def op_type_of_name_def Some)
qed

section \<open>The classification is consistent\<close>

lemmas class_op_lists = is_tm_ops_def is_eltwise_ops_def is_eltwise_unary_ops_def
  is_eltwise_binary_ops_def is_eltwise_nary_ops_def

lemma eltwise_parts:
  "set is_eltwise_ops =
     set is_eltwise_unary_ops \<union> set is_eltwise_binary_ops \<union> set is_eltwise_nary_ops"
proof
  have "list_all (\<lambda>t. t \<in> set (is_eltwise_unary_ops @ is_eltwise_binary_ops @
      is_eltwise_nary_ops)) is_eltwise_ops"
    by (simp add: class_op_lists)
  then show "set is_eltwise_ops \<subseteq>
      set is_eltwise_unary_ops \<union> set is_eltwise_binary_ops \<union> set is_eltwise_nary_ops"
    by (auto simp: list_all_iff)
  have "list_all (\<lambda>t. t \<in> set is_eltwise_ops)
      (is_eltwise_unary_ops @ is_eltwise_binary_ops @ is_eltwise_nary_ops)"
    by (simp add: class_op_lists)
  then show "set is_eltwise_unary_ops \<union> set is_eltwise_binary_ops \<union> set is_eltwise_nary_ops
      \<subseteq> set is_eltwise_ops"
    by (auto simp: list_all_iff)
qed

lemma tm_not_eltwise: "set is_tm_ops \<inter> set is_eltwise_ops = {}"
proof -
  have "list_all (\<lambda>t. t \<notin> set is_eltwise_ops) is_tm_ops"
    by (simp add: class_op_lists)
  then show ?thesis by (auto simp: list_all_iff)
qed

lemma unary_alone:
  "set is_eltwise_unary_ops \<inter> (set is_eltwise_binary_ops \<union> set is_eltwise_nary_ops) = {}"
proof -
  have "list_all (\<lambda>t. t \<notin> set (is_eltwise_binary_ops @ is_eltwise_nary_ops)) is_eltwise_unary_ops"
    by (simp add: class_op_lists)
  then show ?thesis by (auto simp: list_all_iff)
qed

lemma binary_and_nary:
  "set is_eltwise_binary_ops \<inter> set is_eltwise_nary_ops = {Op_Subtract}"
proof -
  have "filter (\<lambda>t. t \<in> set is_eltwise_nary_ops) is_eltwise_binary_ops = [Op_Subtract]"
    by (simp add: class_op_lists)
  then have "set (filter (\<lambda>t. t \<in> set is_eltwise_nary_ops) is_eltwise_binary_ops) = {Op_Subtract}"
    by simp
  then show ?thesis by auto
qed

text \<open>every operation is classified consistently: element-wise means unary, binary or n-ary, no
  tensor manipulation is element-wise, and the three arities exclude each other except for
  \<open>Subtract\<close>, which is listed both as binary and as n-ary.\<close>

theorem op_classification:
  "op_is_eltwise t = Inr b \<longleftrightarrow>
     (\<exists>u i n. op_is_eltwise_unary t = Inr u \<and> op_is_eltwise_binary t = Inr i \<and>
        op_is_eltwise_nary t = Inr n \<and> b = (u \<or> i \<or> n) \<and>
        \<not> (u \<and> (i \<or> n)) \<and> (i \<and> n \<longleftrightarrow> t = Op_Subtract) \<and>
        \<not> (b \<and> op_is_tm t = Inr True))"
  using eltwise_parts tm_not_eltwise unary_alone binary_and_nary
  by (auto simp: op_is_eltwise_def op_is_eltwise_unary_def op_is_eltwise_binary_def
      op_is_eltwise_nary_def op_is_tm_def op_switch_def tt_assert_def)

section \<open>The two representations of an operation agree\<close>

text \<open>What every \<open>graphlib::OpType\<close> keeps: the new operation carries the type that the name
  denotes and the same attributes, which are sorted by key.\<close>

definition attrs_wf :: "Attrs \<Rightarrow> bool" where
  "attrs_wf m \<longleftrightarrow> sorted_wrt (<) (keys m)"

definition OpType_wf :: "OpType \<Rightarrow> bool" where
  "OpType_wf t \<longleftrightarrow> op_type_of_name (op_name t) = Inr (OpType_type t) \<and>
     op_attrs (new_op t) = named_attrs t \<and> attrs_wf (named_attrs t)"

lemma map_of_attrs_set: "map_of (attrs_set k v m) = (map_of m)(k \<mapsto> v)"
  by (induction k v m rule: attrs_set.induct) auto

lemma keys_attrs_set [simp]: "set (keys (attrs_set k v m)) = insert k (set (keys m))"
  by (induction k v m rule: attrs_set.induct) auto

lemma attrs_wf_Cons: "attrs_wf ((k, v) # m) \<longleftrightarrow> (\<forall>k' \<in> set (keys m). k < k') \<and> attrs_wf m"
  by (simp add: attrs_wf_def)

lemma attrs_wf_set: "attrs_wf m \<Longrightarrow> attrs_wf (attrs_set k v m)"
proof (induction k v m rule: attrs_set.induct)
  case (1 k v)
  then show ?case by (simp add: attrs_wf_def)
next
  case (2 k v k' v' m)
  then show ?case
    by (auto simp: attrs_wf_Cons simp del: set_map dest: less_trans)
qed

lemma attrs_wf_erase: "attrs_wf m \<Longrightarrow> attrs_wf (attrs_erase k m)"
  by (simp add: attrs_wf_def attrs_erase_def delete_keys removeAll_filter_not_eq
      sorted_wrt_filter)

lemma attrs_erase_id: "k \<notin> set (keys m) \<Longrightarrow> attrs_erase k m = m"
  by (simp add: attrs_erase_def)

lemma attrs_wf_of: "attrs_wf (attrs_of kvs)"
  by (induction kvs) (auto simp: attrs_of_def attrs_wf_def intro: attrs_wf_set [unfolded attrs_wf_def])

lemma mk_OpType_wf: "mk_OpType name legacy named = Inr t \<Longrightarrow> attrs_wf named \<Longrightarrow> OpType_wf t"
  by (auto simp: mk_OpType_def result_simps OpType_wf_def OpType_type_def)

lemma OpType_set_attr_wf: "OpType_wf t \<Longrightarrow> OpType_wf (OpType_set_attr k v t)"
  by (auto simp: OpType_wf_def OpType_set_attr_def OpType_type_def op_set_attr_def attrs_wf_set)

lemma OpType_remove_attr_wf: "OpType_wf t \<Longrightarrow> OpType_wf (fst (OpType_remove_attr k t))"
  by (auto simp: OpType_wf_def OpType_remove_attr_def OpType_type_def op_remove_attr_def
      OpType_has_attr_def Let_def attrs_wf_erase attrs_erase_id)

lemma OpType_clear_attrs_wf: "OpType_wf t \<Longrightarrow> OpType_wf (OpType_clear_attrs t)"
  by (auto simp: OpType_wf_def OpType_clear_attrs_def OpType_type_def op_clear_attrs_def
      attrs_wf_def)

end
