(* ===== verification/Edges.thy ===== *)
theory Edges
  imports Op_Types
begin

text \<open>
  Edges and their attributes: \<open>forge/csrc/graph_lib/edge.hpp\<close>, \<open>edge.cpp\<close>, the \<open>UBlockOrder\<close> of
  \<open>defines.hpp\<close>, and the classes \<open>EdgeAttributes\<close> and \<open>LoopEdgeAttributes\<close> of
  \<open>node_types.hpp\<close> and \<open>node_types.cpp\<close>. The creation counter of edges, a C++ static, is passed
  to the constructor and returned by it.
\<close>

section \<open>Data\<close>

type_synonym NodeId = int
type_synonym PortId = u32

datatype UBlockOrder = UB_R | UB_C

definition flip_ublock_order :: "UBlockOrder \<Rightarrow> UBlockOrder" where
  "flip_ublock_order o1 = (if o1 = UB_R then UB_C else UB_R)"

datatype EdgeType =
    kData | kControl | kDataLoopback | kAutogradFwdToBwd | kAutogradFwdToGradient
  | kAutogradFwdToOptimizer | kAutogradFwdToRecompute | kControlLoop | kAutogradOutputToLoss
  | kAutogradInputToGradientOut | kPartialDataCopy | kSubgraphLink

fun edge_type_code :: "EdgeType \<Rightarrow> nat" where
  "edge_type_code kData = 0"
| "edge_type_code kControl = 1"
| "edge_type_code kDataLoopback = 2"
| "edge_type_code kAutogradFwdToBwd = 3"
| "edge_type_code kAutogradFwdToGradient = 4"
| "edge_type_code kAutogradFwdToOptimizer = 5"
| "edge_type_code kAutogradFwdToRecompute = 6"
| "edge_type_code kControlLoop = 7"
| "edge_type_code kAutogradOutputToLoss = 8"
| "edge_type_code kAutogradInputToGradientOut = 9"
| "edge_type_code kPartialDataCopy = 10"
| "edge_type_code kSubgraphLink = 11"

record Edge =
  edge_creation_id :: nat
  producer_node_id :: NodeId
  producer_output_port_id :: PortId
  consumer_node_id :: NodeId
  consumer_input_port_id :: PortId
  edge_type :: EdgeType

type_synonym EdgeUniqueId = "NodeId \<times> PortId \<times> NodeId \<times> PortId \<times> EdgeType"

definition unique_id :: "Edge \<Rightarrow> EdgeUniqueId" where
  "unique_id e = (producer_node_id e, producer_output_port_id e, consumer_node_id e,
                  consumer_input_port_id e, edge_type e)"

definition edge_eq :: "Edge \<Rightarrow> Edge \<Rightarrow> bool" where
  "edge_eq a b \<longleftrightarrow> unique_id a = unique_id b"

definition edge_less :: "Edge \<Rightarrow> Edge \<Rightarrow> bool" where
  "edge_less a b \<longleftrightarrow>
     (producer_node_id a, producer_output_port_id a, consumer_node_id a,
      consumer_input_port_id a, edge_type_code (edge_type a)) <
     (producer_node_id b, producer_output_port_id b, consumer_node_id b,
      consumer_input_port_id b, edge_type_code (edge_type b))"

definition edge_with_id :: "NodeId \<Rightarrow> PortId \<Rightarrow> NodeId \<Rightarrow> PortId \<Rightarrow> EdgeType \<Rightarrow> nat \<Rightarrow> Edge" where
  "edge_with_id p pp c cp ty n =
     \<lparr>edge_creation_id = n, producer_node_id = p, producer_output_port_id = pp,
      consumer_node_id = c, consumer_input_port_id = cp, edge_type = ty\<rparr>"

text \<open>\<open>Edge::last_assigned_edge_creation_id++\<close>\<close>

definition new_edge :: "nat \<Rightarrow> NodeId \<Rightarrow> PortId \<Rightarrow> NodeId \<Rightarrow> PortId \<Rightarrow> EdgeType \<Rightarrow> Edge \<times> nat" where
  "new_edge last_id p pp c cp ty = (edge_with_id p pp c cp ty last_id, Suc last_id)"

definition edge_type_to_string :: "EdgeType \<Rightarrow> string" where
  "edge_type_to_string ty =
     (case ty of
        kData \<Rightarrow> ''Data'' | kControl \<Rightarrow> ''Control'' | kDataLoopback \<Rightarrow> ''DataLoopback''
      | kAutogradFwdToBwd \<Rightarrow> ''AutogradFwdToBwd''
      | kAutogradFwdToGradient \<Rightarrow> ''AutogradFwdToGradient''
      | kAutogradFwdToOptimizer \<Rightarrow> ''AutogradFwdToOptimizer''
      | kAutogradFwdToRecompute \<Rightarrow> ''AutogradFwdToRecompute''
      | kAutogradOutputToLoss \<Rightarrow> ''AutogradOutputToLoss''
      | kAutogradInputToGradientOut \<Rightarrow> ''AutogradInputToGradientOut''
      | kControlLoop \<Rightarrow> ''kControlLoop'' | kPartialDataCopy \<Rightarrow> ''kPartialDataCopy''
      | kSubgraphLink \<Rightarrow> ''kSubgraphLink'')"

section \<open>Edge attributes\<close>

record LoopAttrs =
  loop_iterations :: int
  parameter_to_matched :: "(string \<times> string list) list"
  nodes_processed_in_loop :: "NodeId list"

text \<open>\<open>loop_attrs\<close> is present exactly in the derived class \<open>LoopEdgeAttributes\<close>.\<close>

record EdgeAttributes =
  attr_edge_type :: EdgeType
  tms :: "OpType list"
  ublock_order :: UBlockOrder
  loop_attrs :: "LoopAttrs option"

definition edge_attributes :: "EdgeType \<Rightarrow> EdgeAttributes" where
  "edge_attributes ty =
     \<lparr>attr_edge_type = ty, tms = [], ublock_order = UB_R, loop_attrs = None\<rparr>"

definition default_loop_attrs :: LoopAttrs where
  "default_loop_attrs =
     \<lparr>loop_iterations = 0, parameter_to_matched = [], nodes_processed_in_loop = []\<rparr>"

text \<open>\<open>EdgeAttributes::create\<close>\<close>

definition create_edge_attributes :: "EdgeType \<Rightarrow> EdgeAttributes" where
  "create_edge_attributes ty =
     (if ty = kControlLoop then (edge_attributes ty)\<lparr>loop_attrs := Some default_loop_attrs\<rparr>
      else edge_attributes ty)"

definition is_broadcast :: "OpType \<Rightarrow> bool" where
  "is_broadcast t \<longleftrightarrow> OpType_is t Op_Broadcast"

definition has_broadcast_dims :: "EdgeAttributes \<Rightarrow> bool" where
  "has_broadcast_dims a \<longleftrightarrow> list_ex is_broadcast (tms a)"

definition clear_broadcast_dims :: "EdgeAttributes \<Rightarrow> EdgeAttributes" where
  "clear_broadcast_dims a = a\<lparr>tms := filter (\<lambda>t. \<not> is_broadcast t) (tms a)\<rparr>"

definition set_broadcast_dim :: "int \<Rightarrow> int \<Rightarrow> bool \<Rightarrow> EdgeAttributes \<Rightarrow> EdgeAttributes result" where
  "set_broadcast_dim dim size_or_factor explicit_bcast a =
     rbind (mk_OpType ''broadcast'' [AInt dim, AInt size_or_factor, ABool explicit_bcast] [])
       (\<lambda>t. Inr (a\<lparr>tms := tms a @ [t]\<rparr>))"

text \<open>The filter of \<open>remove_broadcast_dim\<close>: \<open>std::get<int>(o.legacy_attrs_[0]) == dim\<close>.\<close>

definition broadcast_on_dim :: "int \<Rightarrow> OpType \<Rightarrow> bool result" where
  "broadcast_on_dim dim t =
     (if is_broadcast t then
        rbind (vec_at (legacy_attrs t) 0) (\<lambda>v. rbind (get_int v) (\<lambda>d. Inr (d = dim)))
      else Inr False)"

definition remove_broadcast_dim :: "int \<Rightarrow> EdgeAttributes \<Rightarrow> EdgeAttributes result" where
  "remove_broadcast_dim dim a =
     rbind (filterR (\<lambda>t. rbind (broadcast_on_dim dim t) (\<lambda>b. Inr (\<not> b))) (tms a))
       (\<lambda>ts. Inr (a\<lparr>tms := ts\<rparr>))"

definition set_ublock_order :: "UBlockOrder \<Rightarrow> EdgeAttributes \<Rightarrow> EdgeAttributes" where
  "set_ublock_order o1 a = a\<lparr>ublock_order := o1\<rparr>"

definition append_tm :: "OpType \<Rightarrow> EdgeAttributes \<Rightarrow> EdgeAttributes" where
  "append_tm t a = a\<lparr>tms := tms a @ [t]\<rparr>"

definition set_tms :: "OpType list \<Rightarrow> EdgeAttributes \<Rightarrow> EdgeAttributes" where
  "set_tms ts a = a\<lparr>tms := ts\<rparr>"

definition append_tms :: "OpType list \<Rightarrow> EdgeAttributes \<Rightarrow> EdgeAttributes" where
  "append_tms ts a = a\<lparr>tms := tms a @ ts\<rparr>"

definition prepend_tm :: "OpType \<Rightarrow> EdgeAttributes \<Rightarrow> EdgeAttributes" where
  "prepend_tm t a = a\<lparr>tms := t # tms a\<rparr>"

definition prepend_tm_named :: "string \<Rightarrow> Attr list \<Rightarrow> EdgeAttributes \<Rightarrow> EdgeAttributes result" where
  "prepend_tm_named op attrs a = rbind (mk_OpType op attrs []) (\<lambda>t. Inr (prepend_tm t a))"

text \<open>\<open>copy_from\<close> copies the TMs and the ublock order, not the type or the loop data.\<close>

definition copy_from :: "EdgeAttributes \<Rightarrow> EdgeAttributes \<Rightarrow> EdgeAttributes" where
  "copy_from other a = a\<lparr>tms := tms other, ublock_order := ublock_order other\<rparr>"

definition has_tms :: "EdgeAttributes \<Rightarrow> bool" where
  "has_tms a \<longleftrightarrow> tms a \<noteq> []"

definition edge_attributes_eq :: "EdgeAttributes \<Rightarrow> EdgeAttributes \<Rightarrow> bool" where
  "edge_attributes_eq a b \<longleftrightarrow> attr_edge_type a = attr_edge_type b \<and>
     list_all2 OpType_eq (tms a) (tms b) \<and> ublock_order a = ublock_order b"

text \<open>\<open>EdgeAttributes::as<LoopEdgeAttributes>\<close>: an assertion on the type, then a static cast.\<close>

definition as_loop :: "EdgeAttributes \<Rightarrow> LoopAttrs result" where
  "as_loop a = tt_assert (attr_edge_type a = kControlLoop)
     (of_opt Undefined_behaviour (loop_attrs a))"

definition is_processed_in_loop :: "LoopAttrs \<Rightarrow> NodeId \<Rightarrow> bool" where
  "is_processed_in_loop l n \<longleftrightarrow> n \<in> set (nodes_processed_in_loop l)"

definition matched_parameters :: "LoopAttrs \<Rightarrow> string \<Rightarrow> string list result" where
  "matched_parameters l p = map_at (parameter_to_matched l) p"

definition matched_parameter :: "LoopAttrs \<Rightarrow> string \<Rightarrow> int \<Rightarrow> string result" where
  "matched_parameter l p i = rbind (matched_parameters l p) (\<lambda>ps.
     req Out_of_range (0 \<le> i \<and> i < int (length ps)) (Inr (ps ! nat i)))"

definition set_loop_iterations :: "int \<Rightarrow> LoopAttrs \<Rightarrow> LoopAttrs" where
  "set_loop_iterations n l = l\<lparr>loop_iterations := n\<rparr>"

definition set_iteration_parameters :: "(string \<times> string list) list \<Rightarrow> LoopAttrs \<Rightarrow> LoopAttrs" where
  "set_iteration_parameters m l = l\<lparr>parameter_to_matched := m\<rparr>"

definition set_nodes_processed_in_loop :: "NodeId list \<Rightarrow> LoopAttrs \<Rightarrow> LoopAttrs" where
  "set_nodes_processed_in_loop ns l = l\<lparr>nodes_processed_in_loop := ns\<rparr>"

section \<open>Properties\<close>

lemma flip_ublock_order_involution [simp]: "flip_ublock_order (flip_ublock_order o1) = o1"
  by (cases o1) (simp_all add: flip_ublock_order_def)

lemma edge_type_code_inject [simp]: "edge_type_code a = edge_type_code b \<longleftrightarrow> a = b"
  by (cases a; cases b) simp_all

text \<open>\<open>operator<\<close> is a strict order on unique ids, total up to \<open>operator==\<close>.\<close>

lemma edge_less_total: "edge_less a b \<or> edge_eq a b \<or> edge_less b a"
proof -
  define k where "k = (\<lambda>e :: Edge. (producer_node_id e, producer_output_port_id e, consumer_node_id e,
    consumer_input_port_id e, edge_type_code (edge_type e)))"
  have "edge_eq a b \<longleftrightarrow> k a = k b"
    by (simp add: edge_eq_def unique_id_def k_def)
  moreover have "edge_less x y \<longleftrightarrow> k x < k y" for x y :: Edge
    by (simp add: edge_less_def k_def)
  ultimately show ?thesis using less_linear [of "k a" "k b"] by auto
qed

lemma edge_less_not_eq: "edge_less a b \<Longrightarrow> \<not> edge_eq a b"
  by (auto simp: edge_less_def edge_eq_def unique_id_def)

lemma edge_less_trans: "edge_less a b \<Longrightarrow> edge_less b c \<Longrightarrow> edge_less a c"
  unfolding edge_less_def by (rule less_trans)

lemma broadcast_name: "op_type_of_name ''broadcast'' = Inr Op_Broadcast"
  by (simp add: op_type_of_name_def old_to_new_def map_at_def)

definition broadcast_tm :: "int \<Rightarrow> int \<Rightarrow> bool \<Rightarrow> OpType" where
  "broadcast_tm dim sz ex = \<lparr>op_name = ''broadcast'', legacy_attrs = [AInt dim, AInt sz, ABool ex],
     named_attrs = [], new_op = \<lparr>op_type = Op_Broadcast, op_attrs = []\<rparr>\<rparr>"

lemma set_broadcast_dim_eq:
  "set_broadcast_dim dim sz ex a = Inr (append_tm (broadcast_tm dim sz ex) a)"
  by (simp add: set_broadcast_dim_def mk_OpType_def broadcast_name append_tm_def broadcast_tm_def)

lemma broadcast_on_dim_tm [simp]: "broadcast_on_dim d (broadcast_tm dim sz ex) = Inr (dim = d)"
  by (simp add: broadcast_on_dim_def is_broadcast_def OpType_is_def OpType_type_def broadcast_tm_def)

lemma filterR_append:
  "filterR p (xs @ ys) = rbind (filterR p xs) (\<lambda>us. rbind (filterR p ys) (\<lambda>vs. Inr (us @ vs)))"
proof (induction xs)
  case Nil
  then show ?case by (cases "filterR p ys") simp_all
next
  case (Cons x xs)
  then show ?case
    by (cases "p x"; cases "filterR p xs"; cases "filterR p ys") simp_all
qed

text \<open>setting a broadcast on a dimension and then removing the broadcasts of that dimension is
  the same as removing them at once, errors on malformed TMs included.\<close>

theorem remove_set_broadcast_dim:
  "rbind (set_broadcast_dim dim sz ex a) (remove_broadcast_dim dim) = remove_broadcast_dim dim a"
proof (cases "filterR (\<lambda>t. rbind (broadcast_on_dim dim t) (\<lambda>b. Inr (\<not> b))) (tms a)")
  case (Inl e)
  then show ?thesis
    by (simp add: set_broadcast_dim_eq remove_broadcast_dim_def append_tm_def filterR_append)
next
  case (Inr ts)
  then show ?thesis
    by (simp add: set_broadcast_dim_eq remove_broadcast_dim_def append_tm_def filterR_append)
qed

lemma clear_broadcast_dims_none: "\<not> has_broadcast_dims (clear_broadcast_dims a)"
  by (simp add: has_broadcast_dims_def clear_broadcast_dims_def list_ex_iff)

end
