(* ===== verification/Nodes.thy ===== *)
theory Nodes
  imports Shapes Edges
begin

text \<open>
  Graph nodes: \<open>forge/csrc/graph_lib/node.hpp\<close>, \<open>node.cpp\<close>, the node classes of \<open>node_types.hpp\<close>
  and \<open>node_types.cpp\<close>, and \<open>RuntimeTensorTransform\<close> of \<open>utils.hpp\<close>.

  A node is one record: the fields of \<open>Node\<close> and \<open>TaggedNode\<close>, and in \<open>node_class\<close> the dynamic
  class with the fields the derived classes add. \<open>node_type\<close> is a field of its own, as in the
  code, so the checked casts \<open>as<T>\<close> can be modelled: an assertion on \<open>node_type\<close>, then a
  \<open>dynamic_cast\<close> whose null result is undefined behaviour where it is dereferenced. A
  constant-evaluation graph hangs off an input by a handle; copying one, which may fail, is an
  argument of the operations that clone nodes. A \<open>shared_ptr<void>\<close> to a tensor is a handle too.
\<close>

section \<open>Data\<close>

datatype NodeType = kInput | kOutput | kPyOp | kQueue

datatype NodeEpochType = Epoch_Forward | Epoch_Backward | Epoch_Optimizer

datatype QueueNodeType =
  Queue_Input | Queue_Output | Queue_EpochToEpoch | Queue_GradAccumulator | Queue_Buffering

datatype MemoryAccessType = FIFO | RAM

datatype InputNodeType =
    In_Accumulator | In_Activation | In_Constant | In_Gradient | In_Loss
  | In_OptimizerParameter | In_Parameter | In_Target

datatype ConstantInputNodeType = SingleValue | Tensor

datatype OutputType = Out_Internal | Out_External

datatype TagValue = TagBool bool | TagUInt u32 | TagString string

type_synonym TagHints = "(string \<times> TagValue) list"
type_synonym ConstEvalRef = nat
type_synonym TensorRef = nat
type_synonym SparseRef = nat

datatype RuntimeTensorTransformType =
    NoTransform | ReinterpretShape | Prestride | EmbeddingIndex | ConstantInput | Unpad
  | RTT_Concatenate

text \<open>\<open>None\<close> in an integer field is a field no constructor has initialised.\<close>

record RuntimeTensorTransform =
  rtt_type :: RuntimeTensorTransformType
  original_shape :: Shape
  reinterpreted_shape :: Shape
  unpadded_shape :: Shape
  prestride :: "(int \<times> int \<times> int \<times> int) option"
  concat_place :: "(int \<times> int \<times> int) option"
  constant_tensor :: "TensorRef option"

record QueueFields =
  queue_type :: QueueNodeType
  memory_access_type :: MemoryAccessType
  entries :: int
  queue_alias :: string

record InputFields =
  input_type :: InputNodeType
  input_requires_grad :: bool
  tile_broadcast_dims :: "int list"
  prologue :: bool
  fractured_parameter_mapping :: string
  input_transform :: RuntimeTensorTransform
  consteval_graph :: "ConstEvalRef option"

record ConstantFields =
  const_node_type :: ConstantInputNodeType
  const_value :: float32
  tensor_handle :: "TensorRef option"
  const_tensor_shape :: Shape
  sparse_forge :: "SparseRef option"
  dim_r :: int
  dim_c :: int

record OutputFields =
  output_requires_grad :: bool
  aliased_tensor :: bool
  output_alias :: string
  loss_output :: bool
  intermediate :: bool
  untilize :: bool
  output_transform :: RuntimeTensorTransform
  golden_output_index :: "int option"
  output_golden_transforms :: "OpType list"
  output_type :: OutputType

record OpFields =
  node_op_type :: OpType
  gradient_op :: bool
  golden_transforms :: "OpType list"
  has_golden_id :: bool
  golden_id_value :: u32

datatype node_class =
    Base_Node
  | Tagged_Node
  | Queue_Node QueueFields
  | EpochToEpochQueue_Node QueueFields bool bool
  | BufferingQueue_Node QueueFields
  | Input_Node QueueFields InputFields
  | ConstantInput_Node QueueFields InputFields ConstantFields
  | Output_Node QueueFields OutputFields
  | Op_Node OpFields
  | PyOp_Node OpFields

record Node =
  node_name :: string
  node_unique_id :: NodeId
  padding_id :: int
  node_type :: NodeType
  node_shape :: Shape
  epoch_type :: NodeEpochType
  node_output_df :: DataFormat
  hints :: TagHints
  node_cls :: node_class

section \<open>Runtime tensor transforms\<close>

definition default_transform :: RuntimeTensorTransform where
  "default_transform = \<lparr>rtt_type = NoTransform, original_shape = default_shape,
     reinterpreted_shape = default_shape, unpadded_shape = default_shape,
     prestride = None, concat_place = None, constant_tensor = None\<rparr>"

definition reinterpret_transform :: "Shape \<Rightarrow> Shape \<Rightarrow> RuntimeTensorTransform" where
  "reinterpret_transform orig rein = default_transform
     \<lparr>rtt_type := ReinterpretShape, original_shape := orig, reinterpreted_shape := rein\<rparr>"

definition unpad_transform :: "Shape \<Rightarrow> RuntimeTensorTransform" where
  "unpad_transform s = default_transform\<lparr>rtt_type := Unpad, unpadded_shape := s\<rparr>"

definition concatenate_on_host :: "int \<Rightarrow> int \<Rightarrow> int \<Rightarrow> RuntimeTensorTransform" where
  "concatenate_on_host grp idx dim =
     default_transform\<lparr>rtt_type := RTT_Concatenate, concat_place := Some (grp, idx, dim)\<rparr>"

definition embedding_index_transform :: "Shape \<Rightarrow> RuntimeTensorTransform" where
  "embedding_index_transform s =
     default_transform\<lparr>rtt_type := EmbeddingIndex, original_shape := s\<rparr>"

definition swap_original_and_reinterpreted_shapes ::
    "RuntimeTensorTransform \<Rightarrow> RuntimeTensorTransform" where
  "swap_original_and_reinterpreted_shapes t =
     (if rtt_type t = ReinterpretShape then
        t\<lparr>original_shape := reinterpreted_shape t, reinterpreted_shape := original_shape t\<rparr>
      else t)"

definition set_constant_input_tensor ::
    "TensorRef \<Rightarrow> RuntimeTensorTransform \<Rightarrow> RuntimeTensorTransform" where
  "set_constant_input_tensor h t = t\<lparr>rtt_type := ConstantInput, constant_tensor := Some h\<rparr>"

section \<open>Node\<close>

definition base_node :: "string \<Rightarrow> NodeType \<Rightarrow> node_class \<Rightarrow> Node" where
  "base_node name ty cls =
     \<lparr>node_name = name, node_unique_id = -1, padding_id = 0, node_type = ty,
      node_shape = default_shape, epoch_type = Epoch_Forward, node_output_df = Float16_b,
      hints = [], node_cls = cls\<rparr>"

definition node_id :: "Node \<Rightarrow> NodeId result" where
  "node_id n = tt_assert (node_unique_id n \<ge> 0) (Inr (node_unique_id n))"

definition node_set_id :: "NodeId \<Rightarrow> Node \<Rightarrow> Node" where
  "node_set_id i n = n\<lparr>node_unique_id := i\<rparr>"

definition node_set_name :: "string \<Rightarrow> Node \<Rightarrow> Node" where
  "node_set_name s n = n\<lparr>node_name := s\<rparr>"

definition increment_padding_id :: "Node \<Rightarrow> Node" where
  "increment_padding_id n = n\<lparr>padding_id := padding_id n + 1\<rparr>"

definition node_set_shape :: "Shape \<Rightarrow> Node \<Rightarrow> Node result" where
  "node_set_shape s n = tt_assert (sh_valid s) (Inr (n\<lparr>node_shape := s\<rparr>))"

definition node_set_output_df :: "DataFormat \<Rightarrow> Node \<Rightarrow> Node" where
  "node_set_output_df df n = n\<lparr>node_output_df := df\<rparr>"

definition node_set_tile_dim :: "TileDim \<Rightarrow> Node \<Rightarrow> Node" where
  "node_set_tile_dim td n = n\<lparr>node_shape := (node_shape n)\<lparr>sh_tile_dim := td\<rparr>\<rparr>"

definition set_epoch_type :: "NodeEpochType \<Rightarrow> Node \<Rightarrow> Node" where
  "set_epoch_type e n = n\<lparr>epoch_type := e\<rparr>"

definition is_forward :: "Node \<Rightarrow> bool" where
  "is_forward n \<longleftrightarrow> epoch_type n = Epoch_Forward"

definition is_backward :: "Node \<Rightarrow> bool" where
  "is_backward n \<longleftrightarrow> epoch_type n = Epoch_Backward"

definition is_optimizer :: "Node \<Rightarrow> bool" where
  "is_optimizer n \<longleftrightarrow> epoch_type n = Epoch_Optimizer"

definition node_type_to_string :: "NodeType \<Rightarrow> string" where
  "node_type_to_string t = (case t of kInput \<Rightarrow> ''Input'' | kOutput \<Rightarrow> ''Output''
     | kQueue \<Rightarrow> ''Queue'' | kPyOp \<Rightarrow> ''ForgeOp'')"

definition node_epoch_type_to_string :: "NodeEpochType \<Rightarrow> string" where
  "node_epoch_type_to_string t = (case t of Epoch_Forward \<Rightarrow> ''Forward''
     | Epoch_Backward \<Rightarrow> ''Backward'' | Epoch_Optimizer \<Rightarrow> ''Optimizer'')"

section \<open>Tags\<close>

definition is_tagged :: "Node \<Rightarrow> bool" where
  "is_tagged n \<longleftrightarrow> node_cls n \<noteq> Base_Node"

definition has_tag :: "string \<Rightarrow> Node \<Rightarrow> bool" where
  "has_tag t n \<longleftrightarrow> map_of (hints n) t \<noteq> None"

definition tag_value :: "string \<Rightarrow> Node \<Rightarrow> TagValue result" where
  "tag_value t n = map_at (hints n) t"

definition get_tag_bool :: "TagValue \<Rightarrow> bool result" where
  "get_tag_bool v = (case v of TagBool b \<Rightarrow> Inr b | _ \<Rightarrow> Inl Bad_variant)"

definition tag_value_or_bool :: "string \<Rightarrow> bool \<Rightarrow> Node \<Rightarrow> bool result" where
  "tag_value_or_bool t d n =
     (if has_tag t n then rbind (tag_value t n) get_tag_bool else Inr d)"

definition tag_node :: "string \<Rightarrow> TagValue \<Rightarrow> Node \<Rightarrow> Node" where
  "tag_node t v n = n\<lparr>hints := AList.update t v (hints n)\<rparr>"

text \<open>\<open>hints.insert(first, last)\<close>: a tag the node already has is kept.\<close>

definition add_tags :: "TagHints \<Rightarrow> Node \<Rightarrow> Node" where
  "add_tags ts n = n\<lparr>hints := fold (\<lambda>(k, v). map_insert k v) ts (hints n)\<rparr>"

section \<open>Constructors of the node classes\<close>

definition queue_fields :: "QueueNodeType \<Rightarrow> QueueFields" where
  "queue_fields qt =
     \<lparr>queue_type = qt, memory_access_type = FIFO, entries = 0, queue_alias = ''''\<rparr>"

definition mk_QueueNode :: "string \<Rightarrow> QueueNodeType \<Rightarrow> Node" where
  "mk_QueueNode name qt = base_node name kQueue (Queue_Node (queue_fields qt))"

definition mk_EpochToEpochQueueNode :: "string \<Rightarrow> bool \<Rightarrow> bool \<Rightarrow> Node" where
  "mk_EpochToEpochQueueNode name cross_epoch cross_chip = base_node name kQueue
     (EpochToEpochQueue_Node (queue_fields Queue_EpochToEpoch) cross_epoch cross_chip)"

definition mk_BufferingQueueNode :: "string \<Rightarrow> int \<Rightarrow> Node" where
  "mk_BufferingQueueNode name num_entries = base_node name kQueue
     (BufferingQueue_Node ((queue_fields Queue_Buffering)\<lparr>entries := num_entries\<rparr>))"

definition input_fields :: "InputNodeType \<Rightarrow> bool \<Rightarrow> InputFields" where
  "input_fields it rg = \<lparr>input_type = it, input_requires_grad = rg, tile_broadcast_dims = [],
     prologue = False, fractured_parameter_mapping = '''', input_transform = default_transform,
     consteval_graph = None\<rparr>"

definition mk_InputNode :: "string \<Rightarrow> InputNodeType \<Rightarrow> bool \<Rightarrow> Node" where
  "mk_InputNode name it rg =
     base_node name kInput (Input_Node (queue_fields Queue_Input) (input_fields it rg))"

text \<open>
  Both constructors of \<open>ConstantInputNode\<close> pass \<open>NodeType::kInput\<close>, the enumerator 0, where
  \<open>InputNode\<close> takes \<open>requires_grad\<close>: a constant never requires a gradient. The float of a
  tensor constant is not initialised and never read.
\<close>

definition mk_ConstantInputNode :: "string \<Rightarrow> float32 \<Rightarrow> int \<Rightarrow> int \<Rightarrow> Node" where
  "mk_ConstantInputNode name c r col = base_node name kInput
     (ConstantInput_Node (queue_fields Queue_Input) (input_fields In_Constant False)
        \<lparr>const_node_type = SingleValue, const_value = c, tensor_handle = None,
         const_tensor_shape = default_shape, sparse_forge = None, dim_r = r, dim_c = col\<rparr>)"

definition mk_ConstantTensorNode :: "string \<Rightarrow> TensorRef option \<Rightarrow> Shape \<Rightarrow> Node result" where
  "mk_ConstantTensorNode name h s = node_set_shape s (base_node name kInput
     (ConstantInput_Node (queue_fields Queue_Input) (input_fields In_Constant False)
        \<lparr>const_node_type = Tensor, const_value = 0, tensor_handle = h,
         const_tensor_shape = s, sparse_forge = None, dim_r = -1, dim_c = -1\<rparr>))"

definition output_fields :: OutputFields where
  "output_fields = \<lparr>output_requires_grad = False, aliased_tensor = False, output_alias = '''',
     loss_output = False, intermediate = False, untilize = True,
     output_transform = default_transform, golden_output_index = None,
     output_golden_transforms = [], output_type = Out_External\<rparr>"

definition mk_OutputNode :: "string \<Rightarrow> Node" where
  "mk_OutputNode name =
     base_node name kOutput (Output_Node (queue_fields Queue_Output) output_fields)"

definition op_fields :: "OpType \<Rightarrow> OpFields" where
  "op_fields t = \<lparr>node_op_type = t, gradient_op = False, golden_transforms = [],
     has_golden_id = False, golden_id_value = 0\<rparr>"

definition mk_PyOpNode :: "string \<Rightarrow> OpType \<Rightarrow> Node" where
  "mk_PyOpNode name t = base_node name kPyOp (PyOp_Node (op_fields t))"

definition mk_PyOpNode_named :: "string \<Rightarrow> string \<Rightarrow> Node result" where
  "mk_PyOpNode_named name op = rbind (mk_OpType op [] []) (\<lambda>t. Inr (mk_PyOpNode name t))"

section \<open>Checked casts\<close>

definition queue_part :: "Node \<Rightarrow> QueueFields option" where
  "queue_part n = (case node_cls n of
       Queue_Node q \<Rightarrow> Some q | EpochToEpochQueue_Node q _ _ \<Rightarrow> Some q
     | BufferingQueue_Node q \<Rightarrow> Some q | Input_Node q _ \<Rightarrow> Some q
     | ConstantInput_Node q _ _ \<Rightarrow> Some q | Output_Node q _ \<Rightarrow> Some q | _ \<Rightarrow> None)"

definition input_part :: "Node \<Rightarrow> InputFields option" where
  "input_part n = (case node_cls n of
       Input_Node _ i \<Rightarrow> Some i | ConstantInput_Node _ i _ \<Rightarrow> Some i | _ \<Rightarrow> None)"

definition constant_part :: "Node \<Rightarrow> ConstantFields option" where
  "constant_part n = (case node_cls n of ConstantInput_Node _ _ c \<Rightarrow> Some c | _ \<Rightarrow> None)"

definition output_part :: "Node \<Rightarrow> OutputFields option" where
  "output_part n = (case node_cls n of Output_Node _ p \<Rightarrow> Some p | _ \<Rightarrow> None)"

definition op_part :: "Node \<Rightarrow> OpFields option" where
  "op_part n = (case node_cls n of Op_Node p \<Rightarrow> Some p | PyOp_Node p \<Rightarrow> Some p | _ \<Rightarrow> None)"

definition pyop_part :: "Node \<Rightarrow> OpFields option" where
  "pyop_part n = (case node_cls n of PyOp_Node p \<Rightarrow> Some p | _ \<Rightarrow> None)"

definition as_TaggedNode :: "Node \<Rightarrow> Node result" where
  "as_TaggedNode n = tt_assert (is_tagged n) (Inr n)"

definition as_OpNode :: "Node \<Rightarrow> OpFields result" where
  "as_OpNode n = tt_assert (node_type n = kPyOp) (of_opt Undefined_behaviour (op_part n))"

definition as_PyOpNode :: "Node \<Rightarrow> OpFields result" where
  "as_PyOpNode n = tt_assert (node_type n = kPyOp) (of_opt Undefined_behaviour (pyop_part n))"

definition as_InputNode :: "Node \<Rightarrow> InputFields result" where
  "as_InputNode n = tt_assert (node_type n = kInput) (of_opt Undefined_behaviour (input_part n))"

definition as_ConstantInputNode :: "Node \<Rightarrow> ConstantFields result" where
  "as_ConstantInputNode n = rbind (as_InputNode n) (\<lambda>i.
     tt_assert (input_type i = In_Constant) (of_opt Undefined_behaviour (constant_part n)))"

definition as_OutputNode :: "Node \<Rightarrow> OutputFields result" where
  "as_OutputNode n = tt_assert (node_type n = kOutput) (of_opt Undefined_behaviour (output_part n))"

definition as_QueueNode :: "Node \<Rightarrow> QueueFields result" where
  "as_QueueNode n = tt_assert (node_type n = kQueue \<or> node_type n = kInput \<or> node_type n = kOutput)
     (of_opt Undefined_behaviour (queue_part n))"

definition as_EpochToEpochQueueNode :: "Node \<Rightarrow> (bool \<times> bool) result" where
  "as_EpochToEpochQueueNode n = tt_assert (node_type n = kQueue) (rbind (as_QueueNode n) (\<lambda>q.
     tt_assert (queue_type q = Queue_EpochToEpoch)
       (case node_cls n of EpochToEpochQueue_Node _ e c \<Rightarrow> Inr (e, c)
        | _ \<Rightarrow> Inl Undefined_behaviour)))"

definition as_BufferingQueueNode :: "Node \<Rightarrow> QueueFields result" where
  "as_BufferingQueueNode n = tt_assert (node_type n = kQueue) (rbind (as_QueueNode n) (\<lambda>q.
     tt_assert (queue_type q = Queue_Buffering)
       (case node_cls n of BufferingQueue_Node q' \<Rightarrow> Inr q' | _ \<Rightarrow> Inl Undefined_behaviour)))"

text \<open>Writing through a cast pointer.\<close>

fun map_queue :: "(QueueFields \<Rightarrow> QueueFields) \<Rightarrow> node_class \<Rightarrow> node_class" where
  "map_queue f (Queue_Node q) = Queue_Node (f q)"
| "map_queue f (EpochToEpochQueue_Node q e c) = EpochToEpochQueue_Node (f q) e c"
| "map_queue f (BufferingQueue_Node q) = BufferingQueue_Node (f q)"
| "map_queue f (Input_Node q i) = Input_Node (f q) i"
| "map_queue f (ConstantInput_Node q i c) = ConstantInput_Node (f q) i c"
| "map_queue f (Output_Node q p) = Output_Node (f q) p"
| "map_queue f c = c"

fun map_input :: "(InputFields \<Rightarrow> InputFields) \<Rightarrow> node_class \<Rightarrow> node_class" where
  "map_input f (Input_Node q i) = Input_Node q (f i)"
| "map_input f (ConstantInput_Node q i c) = ConstantInput_Node q (f i) c"
| "map_input f c = c"

fun map_output :: "(OutputFields \<Rightarrow> OutputFields) \<Rightarrow> node_class \<Rightarrow> node_class" where
  "map_output f (Output_Node q p) = Output_Node q (f p)"
| "map_output f c = c"

fun map_op :: "(OpFields \<Rightarrow> OpFields) \<Rightarrow> node_class \<Rightarrow> node_class" where
  "map_op f (Op_Node p) = Op_Node (f p)"
| "map_op f (PyOp_Node p) = PyOp_Node (f p)"
| "map_op f c = c"

definition with_queue :: "(QueueFields \<Rightarrow> QueueFields) \<Rightarrow> Node \<Rightarrow> Node result" where
  "with_queue f n = rbind (as_QueueNode n) (\<lambda>_. Inr (n\<lparr>node_cls := map_queue f (node_cls n)\<rparr>))"

definition with_input :: "(InputFields \<Rightarrow> InputFields) \<Rightarrow> Node \<Rightarrow> Node result" where
  "with_input f n = rbind (as_InputNode n) (\<lambda>_. Inr (n\<lparr>node_cls := map_input f (node_cls n)\<rparr>))"

definition with_output :: "(OutputFields \<Rightarrow> OutputFields) \<Rightarrow> Node \<Rightarrow> Node result" where
  "with_output f n = rbind (as_OutputNode n) (\<lambda>_. Inr (n\<lparr>node_cls := map_output f (node_cls n)\<rparr>))"

definition with_op :: "(OpFields \<Rightarrow> OpFields) \<Rightarrow> Node \<Rightarrow> Node result" where
  "with_op f n = rbind (as_OpNode n) (\<lambda>_. Inr (n\<lparr>node_cls := map_op f (node_cls n)\<rparr>))"

definition get_type :: "Node \<Rightarrow> string result" where
  "get_type n = (if node_type n = kPyOp then rbind (as_OpNode n) (\<lambda>p.
       Inr (node_type_to_string (node_type n) @ ''::'' @ op_name (node_op_type p)))
     else Inr (node_type_to_string (node_type n)))"

section \<open>Queues, inputs, constants and outputs\<close>

definition queue_type_string :: "QueueFields \<Rightarrow> string" where
  "queue_type_string q = (case queue_type q of
       Queue_EpochToEpoch \<Rightarrow> ''epoch_to_epoch'' | Queue_GradAccumulator \<Rightarrow> ''grad_accumulator''
     | Queue_Input \<Rightarrow> ''input'' | Queue_Output \<Rightarrow> ''output'' | Queue_Buffering \<Rightarrow> ''buffering'')"

definition memory_access_type_string :: "QueueFields \<Rightarrow> string" where
  "memory_access_type_string q = (case memory_access_type q of FIFO \<Rightarrow> ''FIFO'' | RAM \<Rightarrow> ''RAM'')"

definition input_type_string :: "InputFields \<Rightarrow> string" where
  "input_type_string i = (case input_type i of
       In_Accumulator \<Rightarrow> ''accumulator'' | In_Activation \<Rightarrow> ''input'' | In_Gradient \<Rightarrow> ''gradient''
     | In_Loss \<Rightarrow> ''loss'' | In_Parameter \<Rightarrow> ''parameter'' | In_Constant \<Rightarrow> ''constant''
     | In_OptimizerParameter \<Rightarrow> ''optimizer_parameter'' | In_Target \<Rightarrow> ''target'')"

definition input_type_to_string :: "InputNodeType \<Rightarrow> string" where
  "input_type_to_string t = (case t of
       In_Parameter \<Rightarrow> ''parameter'' | In_Constant \<Rightarrow> ''constant'' | In_Gradient \<Rightarrow> ''gradient''
     | In_Accumulator \<Rightarrow> ''accumulator'' | In_Activation \<Rightarrow> ''activation'' | In_Loss \<Rightarrow> ''loss''
     | In_OptimizerParameter \<Rightarrow> ''optimizer_parameter'' | In_Target \<Rightarrow> ''target'')"

definition set_tile_broadcast_dim :: "int \<Rightarrow> InputFields \<Rightarrow> InputFields" where
  "set_tile_broadcast_dim d i = i\<lparr>tile_broadcast_dims := tile_broadcast_dims i @ [d]\<rparr>"

definition is_single_value :: "ConstantFields \<Rightarrow> bool" where
  "is_single_value c \<longleftrightarrow> const_node_type c = SingleValue"

definition is_tensor :: "ConstantFields \<Rightarrow> bool" where
  "is_tensor c \<longleftrightarrow> const_node_type c = Tensor"

definition constant_value :: "ConstantFields \<Rightarrow> float32 result" where
  "constant_value c = tt_assert (is_single_value c) (Inr (const_value c))"

definition constant_dims :: "ConstantFields \<Rightarrow> (int \<times> int) result" where
  "constant_dims c = tt_assert (is_single_value c) (Inr (dim_r c, dim_c c))"

definition const_tensor :: "ConstantFields \<Rightarrow> TensorRef option result" where
  "const_tensor c = tt_assert (is_tensor c) (Inr (tensor_handle c))"

definition set_tensor_handle :: "TensorRef option \<Rightarrow> ConstantFields \<Rightarrow> ConstantFields result" where
  "set_tensor_handle h c = tt_assert (is_tensor c) (Inr (c\<lparr>tensor_handle := h\<rparr>))"

definition get_tensor_shape :: "ConstantFields \<Rightarrow> Shape result" where
  "get_tensor_shape c = tt_assert (is_tensor c) (Inr (const_tensor_shape c))"

text \<open>The comparison of two tensors is Python's; it is an argument.\<close>

definition const_equivalent ::
    "(TensorRef option \<Rightarrow> TensorRef option \<Rightarrow> bool) \<Rightarrow> ConstantFields \<Rightarrow> ConstantFields \<Rightarrow> bool result" where
  "const_equivalent compare_tensors a b =
     (if const_node_type a \<noteq> const_node_type b then Inr False
      else if is_single_value a then
        rbind (constant_value a) (\<lambda>x. rbind (constant_value b) (\<lambda>y. Inr (float_eq x y)))
      else tt_assert (is_tensor a)
        (rbind (const_tensor a) (\<lambda>x. rbind (const_tensor b) (\<lambda>y. Inr (compare_tensors x y)))))"

definition output_set_alias :: "Node \<Rightarrow> OutputFields \<Rightarrow> OutputFields" where
  "output_set_alias input p = p\<lparr>output_alias := node_name input, aliased_tensor := True\<rparr>"

section \<open>Op nodes\<close>

definition new_op_type :: "OpFields \<Rightarrow> ops_OpType" where
  "new_op_type p = OpType_type (node_op_type p)"

definition change_op_type :: "OpType \<Rightarrow> OpFields \<Rightarrow> OpFields" where
  "change_op_type t p = p\<lparr>node_op_type := t\<rparr>"

definition set_op_attr :: "string \<Rightarrow> Attr \<Rightarrow> OpFields \<Rightarrow> OpFields" where
  "set_op_attr k v p = p\<lparr>node_op_type := OpType_set_attr k v (node_op_type p)\<rparr>"

definition is_op_type :: "OpFields \<Rightarrow> string \<Rightarrow> bool" where
  "is_op_type p ty \<longleftrightarrow> ty = op_name (node_op_type p)"

definition is_embedding :: "OpFields \<Rightarrow> bool" where
  "is_embedding p \<longleftrightarrow> new_op_type p = Op_Embedding \<or> new_op_type p = Op_EmbeddingBw"

definition is_depthwise_matmul :: "OpFields \<Rightarrow> bool" where
  "is_depthwise_matmul p \<longleftrightarrow> new_op_type p = Op_Depthwise"

definition is_matmul :: "OpFields \<Rightarrow> bool" where
  "is_matmul p \<longleftrightarrow> new_op_type p = Op_Matmul \<or> is_depthwise_matmul p"

definition is_reduce :: "OpFields \<Rightarrow> bool" where
  "is_reduce p \<longleftrightarrow> new_op_type p = Op_ReduceAvg \<or> new_op_type p = Op_ReduceMax \<or>
     new_op_type p = Op_ReduceSum"

definition is_quantization :: "OpFields \<Rightarrow> bool" where
  "is_quantization p \<longleftrightarrow> new_op_type p = Op_Quantize"

definition is_dequantization :: "OpFields \<Rightarrow> bool" where
  "is_dequantization p \<longleftrightarrow> new_op_type p = Op_Dequantize"

definition is_requantization :: "OpFields \<Rightarrow> bool" where
  "is_requantization p \<longleftrightarrow> new_op_type p = Op_Requantize"

definition is_quantization_related_op :: "OpFields \<Rightarrow> bool" where
  "is_quantization_related_op p \<longleftrightarrow>
     is_quantization p \<or> is_dequantization p \<or> is_requantization p"

definition is_sparse_matmul :: "OpFields \<Rightarrow> bool" where
  "is_sparse_matmul p \<longleftrightarrow> is_matmul p \<and> op_has_attr (new_op (node_op_type p)) ''identity''"

definition is_dense_matmul :: "OpFields \<Rightarrow> bool" where
  "is_dense_matmul p \<longleftrightarrow> is_matmul p \<and> \<not> is_sparse_matmul p \<and> \<not> is_depthwise_matmul p"

definition is_matmul_not_sparse :: "OpFields \<Rightarrow> bool" where
  "is_matmul_not_sparse p \<longleftrightarrow> is_matmul p \<and> op_has_attr (new_op (node_op_type p)) ''identity''"

definition add_golden_transform :: "OpType \<Rightarrow> OpFields \<Rightarrow> OpFields" where
  "add_golden_transform t p = p\<lparr>golden_transforms := t # golden_transforms p\<rparr>"

definition set_golden_id :: "u32 \<Rightarrow> OpFields \<Rightarrow> OpFields" where
  "set_golden_id i p = p\<lparr>has_golden_id := True, golden_id_value := i\<rparr>"

definition disable_golden_id :: "OpFields \<Rightarrow> OpFields" where
  "disable_golden_id p = p\<lparr>has_golden_id := False\<rparr>"

definition golden_id :: "OpFields \<Rightarrow> u32 result" where
  "golden_id p = tt_assert (has_golden_id p) (Inr (golden_id_value p))"

definition copy_parent_op_attributes :: "Node \<Rightarrow> Node \<Rightarrow> Node" where
  "copy_parent_op_attributes parent n =
     n\<lparr>epoch_type := epoch_type parent, node_output_df := node_output_df parent\<rparr>"

section \<open>Cloning\<close>

text \<open>\<open>void Node::clone(Node const* other, std::string const& name)\<close>\<close>

definition node_copy_base :: "Node \<Rightarrow> string \<Rightarrow> Node \<Rightarrow> Node" where
  "node_copy_base other name n = n
     \<lparr>node_name := (if name = [] then node_name other else name),
      node_shape := node_shape other, epoch_type := epoch_type other,
      node_output_df := node_output_df other\<rparr>"

definition clone_consteval ::
    "(ConstEvalRef \<Rightarrow> ConstEvalRef result) \<Rightarrow> InputFields \<Rightarrow> InputFields \<Rightarrow> InputFields result" where
  "clone_consteval ce i j = (case consteval_graph i of None \<Rightarrow> Inr j
     | Some g \<Rightarrow> rbind (ce g) (\<lambda>h. Inr (j\<lparr>consteval_graph := Some h\<rparr>)))"

definition clone_PyOpNode :: "string \<Rightarrow> Node \<Rightarrow> OpFields \<Rightarrow> Node" where
  "clone_PyOpNode name n p = add_tags (hints n)
     ((node_copy_base n name (mk_PyOpNode (node_name n) (node_op_type p)))
        \<lparr>node_cls := PyOp_Node ((op_fields (node_op_type p))
           \<lparr>gradient_op := gradient_op p, golden_transforms := golden_transforms p\<rparr>)\<rparr>)"

definition clone_InputNode ::
    "(ConstEvalRef \<Rightarrow> ConstEvalRef result) \<Rightarrow> string \<Rightarrow> Node \<Rightarrow> InputFields \<Rightarrow> Node result" where
  "clone_InputNode ce name n i =
     rbind (clone_consteval ce i (input_fields (input_type i) (input_requires_grad i))) (\<lambda>j.
       Inr (add_tags (hints n)
         ((node_copy_base n name (mk_InputNode (node_name n) (input_type i) (input_requires_grad i)))
            \<lparr>node_cls := Input_Node (queue_fields Queue_Input)
               (j\<lparr>tile_broadcast_dims := tile_broadcast_dims i, input_transform := input_transform i\<rparr>)\<rparr>)))"

definition clone_QueueNode :: "string \<Rightarrow> Node \<Rightarrow> QueueFields \<Rightarrow> Node" where
  "clone_QueueNode name n q = add_tags (hints n)
     ((node_copy_base n name (mk_QueueNode (node_name n) (queue_type q)))
        \<lparr>node_cls := Queue_Node ((queue_fields (queue_type q))\<lparr>entries := entries q\<rparr>)\<rparr>)"

definition clone_EpochToEpochQueueNode ::
    "string \<Rightarrow> Node \<Rightarrow> QueueFields \<Rightarrow> bool \<Rightarrow> bool \<Rightarrow> Node" where
  "clone_EpochToEpochQueueNode name n q cross_epoch cross_chip = add_tags (hints n)
     ((node_copy_base n name (mk_EpochToEpochQueueNode (node_name n) cross_epoch cross_chip))
        \<lparr>node_cls := EpochToEpochQueue_Node
           ((queue_fields Queue_EpochToEpoch)\<lparr>entries := entries q\<rparr>) cross_epoch cross_chip\<rparr>)"

definition clone_BufferingQueueNode :: "string \<Rightarrow> Node \<Rightarrow> QueueFields \<Rightarrow> Node" where
  "clone_BufferingQueueNode name n q = add_tags (hints n)
     (node_copy_base n name (mk_BufferingQueueNode (node_name n) (entries q)))"

definition clone_OutputNode :: "string \<Rightarrow> Node \<Rightarrow> OutputFields \<Rightarrow> Node" where
  "clone_OutputNode name n p = add_tags (hints n)
     ((node_copy_base n name (mk_OutputNode (node_name n)))
        \<lparr>node_cls := Output_Node (queue_fields Queue_Output) (output_fields
           \<lparr>output_requires_grad := output_requires_grad p, loss_output := loss_output p,
            output_transform := output_transform p\<rparr>)\<rparr>)"

fun with_constant_parts ::
    "(InputFields \<Rightarrow> InputFields result) \<Rightarrow> (ConstantFields \<Rightarrow> ConstantFields) \<Rightarrow> node_class \<Rightarrow>
       node_class result" where
  "with_constant_parts f g (ConstantInput_Node q i c) = rbind (f i) (\<lambda>j. Inr (ConstantInput_Node q j (g c)))"
| "with_constant_parts f g cls = Inr cls"

definition clone_ConstantInputNode ::
    "(ConstEvalRef \<Rightarrow> ConstEvalRef result) \<Rightarrow> string \<Rightarrow> Node \<Rightarrow> InputFields \<Rightarrow> ConstantFields \<Rightarrow> Node result" where
  "clone_ConstantInputNode ce name n i c =
     rbind (case const_node_type c of
              SingleValue \<Rightarrow> Inr (mk_ConstantInputNode (node_name n) (const_value c) (-1) (-1))
            | Tensor \<Rightarrow> mk_ConstantTensorNode (node_name n) (tensor_handle c) (const_tensor_shape c))
       (\<lambda>m. let m1 = node_copy_base n name m in
          rbind (with_constant_parts (clone_consteval ce i) (\<lambda>d. d\<lparr>sparse_forge := sparse_forge c\<rparr>)
                   (node_cls m1)) (\<lambda>cls.
            Inr (add_tags (hints n) (m1\<lparr>node_cls := cls\<rparr>))))"

text \<open>The virtual \<open>Node::clone\<close>; \<open>Node\<close>, \<open>TaggedNode\<close> and \<open>OpNode\<close> do not override it.\<close>

definition node_clone :: "(ConstEvalRef \<Rightarrow> ConstEvalRef result) \<Rightarrow> string \<Rightarrow> Node \<Rightarrow> Node result" where
  "node_clone ce name n = (case node_cls n of
       Base_Node \<Rightarrow> Inl Assert_failed
     | Tagged_Node \<Rightarrow> Inl Assert_failed
     | Op_Node _ \<Rightarrow> Inl Assert_failed
     | PyOp_Node p \<Rightarrow> Inr (clone_PyOpNode name n p)
     | Input_Node _ i \<Rightarrow> clone_InputNode ce name n i
     | ConstantInput_Node _ i c \<Rightarrow> clone_ConstantInputNode ce name n i c
     | Queue_Node q \<Rightarrow> Inr (clone_QueueNode name n q)
     | EpochToEpochQueue_Node q e c \<Rightarrow> Inr (clone_EpochToEpochQueueNode name n q e c)
     | BufferingQueue_Node q \<Rightarrow> Inr (clone_BufferingQueueNode name n q)
     | Output_Node _ p \<Rightarrow> Inr (clone_OutputNode name n p))"

text \<open>\<open>InputNode::clone_consteval_graph_from\<close>; \<open>get_consteval_graph()\<close> without arguments reads.\<close>

definition clone_consteval_graph_from ::
    "(ConstEvalRef \<Rightarrow> ConstEvalRef result) \<Rightarrow> Node \<Rightarrow> InputFields \<Rightarrow> InputFields result" where
  "clone_consteval_graph_from ce original j =
     rbind (as_InputNode original) (\<lambda>i. clone_consteval ce i j)"

definition clear_consteval_graph :: "InputFields \<Rightarrow> InputFields" where
  "clear_consteval_graph i = i\<lparr>consteval_graph := None\<rparr>"

section \<open>Permutations that swap the last two dimensions\<close>

text \<open>\<open>v[i]\<close> with an \<open>int\<close> index: a negative one is converted to a huge \<open>size_t\<close>.\<close>

definition int_at :: "'a list \<Rightarrow> int \<Rightarrow> 'a result" where
  "int_at xs i = (if i < 0 then Inl Undefined_behaviour else vec_at xs (nat i))"

definition int_set :: "'a list \<Rightarrow> int \<Rightarrow> 'a \<Rightarrow> 'a list result" where
  "int_set xs i v = (if i < 0 then Inl Undefined_behaviour else vec_set xs (nat i) v)"

fun identity_prefix :: "int list \<Rightarrow> nat list \<Rightarrow> bool" where
  "identity_prefix order [] = True"
| "identity_prefix order (i # is) = (if order ! i \<noteq> int i then False else identity_prefix order is)"

definition is_permute_xy_order :: "int list \<Rightarrow> bool result" where
  "is_permute_xy_order order =
     (let rank = int (length order) in
      if \<not> identity_prefix order [0..<nat (rank - 2)] then Inr False
      else rbind (int_at order (rank - 2)) (\<lambda>a.
        if a \<noteq> rank - 1 then Inr False
        else rbind (int_at order (rank - 1)) (\<lambda>b. Inr (b = rank - 2))))"

text \<open>\<open>reserve\<close> does not change the size, so the writes below go past the end.\<close>

definition create_permute_xy_order :: "int \<Rightarrow> int list result" where
  "create_permute_xy_order rank =
     req Length_error (0 \<le> rank)
       (rbind (foldR (\<lambda>order i. int_set order (int i) (int i)) [] [0..<nat (rank - 2)]) (\<lambda>order.
        rbind (int_set order (rank - 2) (rank - 1)) (\<lambda>order.
        int_set order (rank - 1) (rank - 2))))"

section \<open>Properties\<close>

subsection \<open>Casts\<close>

text \<open>The \<open>NodeType\<close> each class passes to its base; a bare \<open>Node\<close> or \<open>TaggedNode\<close> has none.\<close>

definition class_type :: "node_class \<Rightarrow> NodeType option" where
  "class_type c = (case c of Base_Node \<Rightarrow> None | Tagged_Node \<Rightarrow> None
     | Queue_Node _ \<Rightarrow> Some kQueue | EpochToEpochQueue_Node _ _ _ \<Rightarrow> Some kQueue
     | BufferingQueue_Node _ \<Rightarrow> Some kQueue | Input_Node _ _ \<Rightarrow> Some kInput
     | ConstantInput_Node _ _ _ \<Rightarrow> Some kInput | Output_Node _ _ \<Rightarrow> Some kOutput
     | Op_Node _ \<Rightarrow> Some kPyOp | PyOp_Node _ \<Rightarrow> Some kPyOp)"

definition node_typed :: "Node \<Rightarrow> bool" where
  "node_typed n \<longleftrightarrow> class_type (node_cls n) = Some (node_type n)"

lemmas cast_defs = as_OpNode_def as_InputNode_def as_OutputNode_def as_QueueNode_def
  op_part_def input_part_def output_part_def queue_part_def

lemma base_node_typed [simp]: "node_typed (base_node nm ty c) \<longleftrightarrow> class_type c = Some ty"
  by (simp add: node_typed_def base_node_def)

lemma constructors_typed [simp]:
  "node_typed (mk_QueueNode nm qt)" "node_typed (mk_EpochToEpochQueueNode nm e c)"
  "node_typed (mk_BufferingQueueNode nm k)" "node_typed (mk_InputNode nm it rg)"
  "node_typed (mk_ConstantInputNode nm v r col)" "node_typed (mk_OutputNode nm)"
  "node_typed (mk_PyOpNode nm t)"
  by (simp_all add: mk_QueueNode_def mk_EpochToEpochQueueNode_def mk_BufferingQueueNode_def
      mk_InputNode_def mk_ConstantInputNode_def mk_OutputNode_def mk_PyOpNode_def class_type_def)

lemma mk_ConstantTensorNode_typed: "mk_ConstantTensorNode nm h s = Inr n \<Longrightarrow> node_typed n"
  by (auto simp: mk_ConstantTensorNode_def node_set_shape_def result_simps node_typed_def
      base_node_def class_type_def)

lemma class_type_maps [simp]:
  "class_type (map_queue f c) = class_type c" "class_type (map_input g c) = class_type c"
  "class_type (map_output h c) = class_type c" "class_type (map_op k c) = class_type c"
  by (cases c; simp add: class_type_def)+

lemma with_typed:
  "with_queue f n = Inr m \<Longrightarrow> node_typed m = node_typed n"
  "with_input g n = Inr m \<Longrightarrow> node_typed m = node_typed n"
  "with_output h n = Inr m \<Longrightarrow> node_typed m = node_typed n"
  "with_op k n = Inr m \<Longrightarrow> node_typed m = node_typed n"
  by (auto simp: with_queue_def with_input_def with_output_def with_op_def result_simps
      node_typed_def)



subsection \<open>Tags and clones\<close>

lemma map_of_fold_insert:
  "map_of (fold (\<lambda>(k, v). map_insert k v) ts m) = map_of ts ++ map_of m"
proof (induction ts arbitrary: m)
  case Nil
  then show ?case by simp
next
  case (Cons kv ts)
  obtain k v where kv: "kv = (k, v)" by force
  have "map_of (map_insert k v m) = (map_of [(k, v)]) ++ map_of m"
    by (rule ext) (auto simp: map_of_insert map_add_def split: option.splits)
  then have "map_of (fold (\<lambda>(k, v). map_insert k v) (kv # ts) m) =
      map_of ts ++ (map_of [(k, v)] ++ map_of m)"
    by (simp add: Cons.IH kv)
  also have "\<dots> = map_of (kv # ts) ++ map_of m"
    by (rule ext) (simp add: kv map_add_def split: option.splits)
  finally show ?case .
qed

lemma distinct_fold_insert:
  "distinct (keys m) \<Longrightarrow> distinct (keys (fold (\<lambda>(k, v). map_insert k v) ts m))"
  by (induction ts arbitrary: m) auto

lemma fold_insert_distinct:
  "distinct (keys (m @ ts)) \<Longrightarrow> fold (\<lambda>(k, v). map_insert k v) ts m = m @ ts"
  by (induction ts arbitrary: m) (auto simp: map_insert_def)

lemma hints_add_tags [simp]: "map_of (hints (add_tags ts n)) = map_of ts ++ map_of (hints n)"
  by (simp add: add_tags_def map_of_fold_insert)

lemma add_tags_empty:
  "hints n = [] \<Longrightarrow> add_tags ts n = n\<lparr>hints := fold (\<lambda>(k, v). map_insert k v) ts []\<rparr>"
  by (simp add: add_tags_def)

abbreviation dedup_tags :: "TagHints \<Rightarrow> TagHints" where
  "dedup_tags ts \<equiv> fold (\<lambda>(k, v). map_insert k v) ts []"

lemma dedup_tags_idem [simp]: "dedup_tags (dedup_tags ts) = dedup_tags ts"
  by (rule fold_insert_distinct [of "[]", simplified]) (simp add: distinct_fold_insert)

lemmas clone_defs = clone_PyOpNode_def clone_InputNode_def clone_QueueNode_def
  clone_EpochToEpochQueueNode_def clone_BufferingQueueNode_def clone_OutputNode_def
  clone_ConstantInputNode_def node_copy_base_def mk_PyOpNode_def mk_InputNode_def
  mk_QueueNode_def mk_EpochToEpochQueueNode_def mk_BufferingQueueNode_def mk_OutputNode_def
  mk_ConstantInputNode_def mk_ConstantTensorNode_def node_set_shape_def base_node_def

text \<open>What a clone has of its original, in one form for every class.\<close>

lemma node_clone_eq:
  "node_clone ce nm n = Inr m \<Longrightarrow> \<exists>c.
     m = \<lparr>node_name = (if nm = [] then node_name n else nm), node_unique_id = -1, padding_id = 0,
          node_type = node_type m, node_shape = node_shape n, epoch_type = epoch_type n,
          node_output_df = node_output_df n, hints = dedup_tags (hints n), node_cls = c\<rparr> \<and>
     class_type c = class_type (node_cls n) \<and> class_type c = Some (node_type m)"
  by (cases "node_cls n")
    (auto simp: node_clone_def clone_defs add_tags_empty class_type_def result_simps
      split: ConstantInputNodeType.splits)

text \<open>a clone has the name asked for (or its original's), no id, the shape, epoch, data format
  and tags of its original, a class of the same node type, and is well typed; only a bare node, an
  \<open>OpNode\<close>, a constant tensor of invalid shape and an input whose constant-evaluation graph cannot be
  cloned cannot be cloned.\<close>

theorem node_clone_correct:
  "case node_clone ce nm n of
     Inl e \<Rightarrow> e = Assert_failed \<and> (node_cls n = Base_Node \<or> node_cls n = Tagged_Node \<or>
       (\<exists>p. node_cls n = Op_Node p) \<or>
       (\<exists>q i c. node_cls n = ConstantInput_Node q i c \<and> is_tensor c \<and>
          \<not> sh_valid (const_tensor_shape c))) \<or>
       (\<exists>i r. input_part n = Some i \<and> consteval_graph i = Some r \<and> ce r = Inl e)
   | Inr m \<Rightarrow> node_name m = (if nm = [] then node_name n else nm) \<and> node_unique_id m = -1 \<and>
       node_shape m = node_shape n \<and> epoch_type m = epoch_type n \<and>
       node_output_df m = node_output_df n \<and> map_of (hints m) = map_of (hints n) \<and>
       class_type (node_cls m) = class_type (node_cls n) \<and> node_typed m"
proof (cases "node_clone ce nm n")
  case (Inl e)
  then show ?thesis
    by (cases "node_cls n")
      (auto simp: node_clone_def clone_defs clone_consteval_def input_part_def tt_assert_def rbind_def Let_def
        is_tensor_def split: ConstantInputNodeType.splits if_splits option.splits sum.splits)
next
  case (Inr m)
  from node_clone_eq [OF Inr] show ?thesis
    unfolding Inr by (cases m) (auto simp: node_typed_def map_of_fold_insert)
qed

text \<open>cloning again changes nothing: a clone is its own clone (with the copy of the
  constant-evaluation graph taken as the graph itself).\<close>

theorem node_clone_idempotent:
  "rbind (node_clone Inr nm n) (node_clone Inr []) = node_clone Inr nm n"
proof (cases "node_cls n")
  case (ConstantInput_Node q i c)
  then show ?thesis
    by (cases "const_node_type c"; cases "sh_valid (const_tensor_shape c)";
        cases "consteval_graph i")
      (simp_all add: node_clone_def clone_defs add_tags_empty clone_consteval_def Let_def
        input_fields_def)
next
  case (Input_Node q i)
  then show ?thesis
    by (cases "consteval_graph i")
      (simp_all add: node_clone_def clone_defs add_tags_empty clone_consteval_def input_fields_def)
qed (simp_all add: node_clone_def clone_defs add_tags_empty op_fields_def queue_fields_def
      output_fields_def)

text \<open>what a clone drops. Originals that differ only in their golden id, in their constant's
  dimensions, in the memory access type or alias of a queue, or in the intermediate, untilize, alias
  and output-type fields of an output have the same clone.\<close>

theorem node_clone_forgets:
  "node_clone ce nm (n\<lparr>node_cls := PyOp_Node (set_golden_id g p)\<rparr>) =
     node_clone ce nm (n\<lparr>node_cls := PyOp_Node p\<rparr>) \<and>
   node_clone ce nm (n\<lparr>node_cls := ConstantInput_Node q i (c\<lparr>dim_r := r, dim_c := col\<rparr>)\<rparr>) =
     node_clone ce nm (n\<lparr>node_cls := ConstantInput_Node q i c\<rparr>) \<and>
   node_clone ce nm (n\<lparr>node_cls := Queue_Node (q\<lparr>memory_access_type := ma, queue_alias := al\<rparr>)\<rparr>) =
     node_clone ce nm (n\<lparr>node_cls := Queue_Node q\<rparr>) \<and>
   node_clone ce nm (n\<lparr>node_cls := Output_Node q (w\<lparr>intermediate := b1, untilize := b2,
       aliased_tensor := b3, output_alias := al, output_type := ot\<rparr>)\<rparr>) =
     node_clone ce nm (n\<lparr>node_cls := Output_Node q w\<rparr>)"
  by (cases "const_node_type c")
    (simp_all add: node_clone_def clone_PyOpNode_def clone_ConstantInputNode_def
      clone_QueueNode_def clone_OutputNode_def node_copy_base_def set_golden_id_def)

subsection \<open>Permutations\<close>

lemma identity_prefix_iff: "identity_prefix order is \<longleftrightarrow> (\<forall>i \<in> set is. order ! i = int i)"
  by (induction "is") auto

text \<open>\<open>is_permute_xy_order\<close> recognises exactly the identity permutation with its last two
  entries swapped, and reads outside the vector when the rank is below two.\<close>

theorem is_permute_xy_order_correct:
  "is_permute_xy_order order =
     (if length order < 2 then Inl Undefined_behaviour
      else Inr (order = map int [0..<length order - 2] @
             [int (length order) - 1, int (length order) - 2]))"
proof (cases "length order < 2")
  case True
  then show ?thesis by (auto simp: is_permute_xy_order_def int_at_def)
next
  case False
  define r where "r = length order - 2"
  have r: "length order = Suc (Suc r)" using False by (simp add: r_def)
  have tl: "order = map int [0..<r] @ [1 + int r, int r] \<longleftrightarrow>
      (\<forall>i \<in> set [0..<r]. order ! i = int i) \<and> order ! r = 1 + int r \<and> order ! Suc r = int r"
    by (auto simp: list_eq_iff_nth_eq r nth_append less_Suc_eq)
  show ?thesis
    using False unfolding is_permute_xy_order_def Let_def r
    by (auto simp: identity_prefix_iff int_at_def vec_at_def r tl nat_add_distrib)
qed

text \<open>\<open>create_permute_xy_order\<close> never returns a permutation: it only reserves storage, so its
  first write is past the end of an empty vector, and a negative rank fails to reserve.\<close>

theorem create_permute_xy_order_undefined:
  "create_permute_xy_order rank = Inl (if rank < 0 then Length_error else Undefined_behaviour)"
proof (cases "nat (rank - 2)")
  case 0
  then show ?thesis
    by (auto simp: create_permute_xy_order_def int_set_def vec_set_def req_def)
next
  case (Suc k)
  then have "[0..<nat (rank - 2)] = 0 # [1..<Suc k]" by (simp only: upt_conv_Cons) simp
  with Suc show ?thesis
    by (simp only: create_permute_xy_order_def) (auto simp: int_set_def vec_set_def req_def)
qed

end
