(* ===== verification/Graphs.thy ===== *)
theory Graphs
  imports Nodes
begin

text \<open>
  The graph: \<open>forge/csrc/graph_lib/graph.hpp\<close> and the mutating half of \<open>graph.cpp\<close>.

  \<^item> \<open>World\<close> holds what the C++ keeps outside a graph: the static counters of node, graph and edge
    ids, and the store of \<open>EdgeAttributes\<close> objects behind the \<open>shared_ptr\<close>s. The attributes of an
    edge are a reference into the store, so an object shared by two edges is one object here.
  \<^item> \<open>Graph\<close> has the fields of the class. \<open>nodes_map_\<close> and \<open>nodes_map_raw_\<close> hold the same nodes
    and are one map; a \<open>Node*\<close> of the graph is its id. Unordered maps and sets are lists whose
    order stands for the unspecified iteration order.
  \<^item> A fallible operation returns no state on its error branch: what a throwing C++ operation has
    already written is not modelled.

  The invariant \<open>graph_wf\<close> and its preservation by every operation are in \<open>Graph_Inv\<close>.
\<close>

section \<open>State\<close>

type_synonym AttrRef = nat

datatype IRLevel = IR_TT_FORGE | IR_CONSTEVAL

datatype SubgraphType = Sub_Forward | Sub_Backward | Sub_Loss | Sub_Optimizer

record Graph =
  graph_name :: string
  graph_id :: int
  ir_level :: IRLevel
  training :: bool
  microbatch :: int
  node_id_to_subgraph_id :: "u32 id_map"
  num_subgraphs :: u32
  output_node_redirected :: bool
  module_inputs :: "NodeId list"
  module_outputs :: "NodeId list"
  module_targets :: "NodeId list"
  module_intermediates :: "NodeId list"
  nodes_order :: "NodeId list"
  node_name_to_node_id :: "(string \<times> NodeId) list"
  nodes_map :: "Node id_map"
  operands_map :: "Edge list id_map"
  users_map :: "Edge list id_map"
  edge_to_attr_map :: "(EdgeUniqueId \<times> AttrRef) list"
  virtual_node_context :: "NodeId list option"
  ignored_edges_context :: "Edge list option"
  node_context :: "NodeId list option"
  virtual_nodes :: "NodeId list"

text \<open>
  \<open>ConstEvalGraph\<close> (\<open>graph_lib/utils.hpp\<close>): the graph of the operations of an input that are evaluated at
  compile time. Inputs own these graphs through pointers; here they are entries of the store of the
  world, and a pointer is an index into it.
\<close>

record ConstEvalGraph =
  ceg_graph :: Graph
  ceg_runtime_input :: NodeId
  ceg_subgraph_id :: u32
  ceg_output :: "NodeId option"
  runtime_to_consteval_map :: "NodeId id_map"
  needs_autograd :: bool
  ran_autograd :: bool
  graph_updated_since_autograd :: bool

text \<open>What all graphs of the process share: the counters and the objects behind pointers.\<close>

record World =
  last_node_id_assigned :: int
  last_graph_id_assigned :: int
  assigned_graph_ids :: "int list"
  last_edge_creation_id :: nat
  attr_store :: "EdgeAttributes list"
  ceg_store :: "ConstEvalGraph list"

definition initial_world :: World where
  "initial_world = \<lparr>last_node_id_assigned = 0, last_graph_id_assigned = 0,
     assigned_graph_ids = [], last_edge_creation_id = 0, attr_store = [], ceg_store = []\<rparr>"

definition mk_Graph :: "IRLevel \<Rightarrow> string \<Rightarrow> int \<Rightarrow> Graph" where
  "mk_Graph lvl name uid =
     \<lparr>graph_name = name, graph_id = uid, ir_level = lvl, training = False, microbatch = 0,
      node_id_to_subgraph_id = [], num_subgraphs = 0, output_node_redirected = False,
      module_inputs = [], module_outputs = [], module_targets = [], module_intermediates = [],
      nodes_order = [], node_name_to_node_id = [], nodes_map = [], operands_map = [],
      users_map = [], edge_to_attr_map = [], virtual_node_context = None,
      ignored_edges_context = None, node_context = None, virtual_nodes = []\<rparr>"

definition mk_Graph_default :: "IRLevel \<Rightarrow> Graph" where
  "mk_Graph_default lvl = mk_Graph lvl ''default_graph'' (-1)"

section \<open>Counters and the attribute store\<close>

definition generate_unique_node_id :: "World \<Rightarrow> World \<times> NodeId" where
  "generate_unique_node_id w =
     (let i = last_node_id_assigned w + 1 in (w\<lparr>last_node_id_assigned := i\<rparr>, i))"

text \<open>The \<open>while\<close> loop that skips assigned graph ids.\<close>

function next_graph_id :: "int list \<Rightarrow> int \<Rightarrow> int" where
  "next_graph_id used i = (if i \<in> set used then next_graph_id used (i + 1) else i)"
  by pat_completeness auto
termination
proof (relation "measure (\<lambda>(used, i). card {j \<in> set used. i \<le> j})")
  fix used :: "int list" and i :: int
  assume "i \<in> set used"
  then have "i \<in> {j \<in> set used. i \<le> j}" "i \<notin> {j \<in> set used. i + 1 \<le> j}" by auto
  moreover have "{j \<in> set used. i + 1 \<le> j} \<subseteq> {j \<in> set used. i \<le> j}" by auto
  ultimately have "{j \<in> set used. i + 1 \<le> j} \<subset> {j \<in> set used. i \<le> j}" by blast
  then show "((used, i + 1), used, i) \<in> measure (\<lambda>(used, i). card {j \<in> set used. i \<le> j})"
    by (simp add: psubset_card_mono)
qed simp

declare next_graph_id.simps [simp del]

definition generate_unique_graph_id :: "World \<Rightarrow> World \<times> int" where
  "generate_unique_graph_id w =
     (let i = next_graph_id (assigned_graph_ids w) (last_graph_id_assigned w)
      in (w\<lparr>last_graph_id_assigned := i + 1\<rparr>, i))"

definition make_edge ::
    "NodeId \<Rightarrow> PortId \<Rightarrow> NodeId \<Rightarrow> PortId \<Rightarrow> EdgeType \<Rightarrow> World \<Rightarrow> World \<times> Edge" where
  "make_edge p pp c cp ty w =
     (case new_edge (last_edge_creation_id w) p pp c cp ty of
        (e, n) \<Rightarrow> (w\<lparr>last_edge_creation_id := n\<rparr>, e))"

definition alloc_attr :: "EdgeAttributes \<Rightarrow> World \<Rightarrow> World \<times> AttrRef" where
  "alloc_attr a w = (w\<lparr>attr_store := attr_store w @ [a]\<rparr>, length (attr_store w))"

definition read_attr :: "World \<Rightarrow> AttrRef \<Rightarrow> EdgeAttributes result" where
  "read_attr w r = vec_at (attr_store w) r"

definition write_attr :: "AttrRef \<Rightarrow> EdgeAttributes \<Rightarrow> World \<Rightarrow> World" where
  "write_attr r a w = w\<lparr>attr_store := (attr_store w)[r := a]\<rparr>"

section \<open>Sets of edges\<close>

definition edge_insert :: "Edge \<Rightarrow> Edge list \<Rightarrow> Edge list" where
  "edge_insert e es = (if list_ex (\<lambda>x. edge_eq x e) es then es else es @ [e])"

definition edge_erase :: "Edge \<Rightarrow> Edge list \<Rightarrow> Edge list" where
  "edge_erase e es = filter (\<lambda>x. \<not> edge_eq x e) es"

text \<open>\<open>m[i].insert(e)\<close> and \<open>m[i].erase(e)\<close>; \<open>operator[]\<close> enters an empty set for a new key.\<close>

definition edges_add :: "NodeId \<Rightarrow> Edge \<Rightarrow> Edge list id_map \<Rightarrow> Edge list id_map" where
  "edges_add i e m = AList.update i (edge_insert e (map_get [] m i)) m"

definition edges_del :: "NodeId \<Rightarrow> Edge \<Rightarrow> Edge list id_map \<Rightarrow> Edge list id_map" where
  "edges_del i e m = AList.update i (edge_erase e (map_get [] m i)) m"

section \<open>Looking nodes up\<close>

definition node_by_id :: "Graph \<Rightarrow> NodeId \<Rightarrow> Node result" where
  "node_by_id g i = of_opt Runtime_error (map_of (nodes_map g) i)"

definition has_node_with_id :: "Graph \<Rightarrow> NodeId \<Rightarrow> bool" where
  "has_node_with_id g i \<longleftrightarrow> map_of (nodes_map g) i \<noteq> None"

definition has_node_with_name :: "Graph \<Rightarrow> string \<Rightarrow> bool" where
  "has_node_with_name g s \<longleftrightarrow> map_of (node_name_to_node_id g) s \<noteq> None"

definition get_node_by_name :: "Graph \<Rightarrow> string \<Rightarrow> bool \<Rightarrow> NodeId option result" where
  "get_node_by_name g s raise_exception =
     (if \<not> has_node_with_name g s then
        (if raise_exception then Inl Runtime_error else Inr None)
      else rbind (map_at (node_name_to_node_id g) s) (\<lambda>i.
        if \<not> has_node_with_id g i then
          (if raise_exception then Inl Runtime_error else Inr None)
        else rbind (map_at (nodes_map g) i) (\<lambda>_. Inr (Some i))))"

text \<open>A write through a \<open>Node*\<close> of the graph.\<close>

definition set_node :: "NodeId \<Rightarrow> Node \<Rightarrow> Graph \<Rightarrow> Graph" where
  "set_node i n g = g\<lparr>nodes_map := AList.update i n (nodes_map g)\<rparr>"

definition update_node :: "NodeId \<Rightarrow> (Node \<Rightarrow> Node result) \<Rightarrow> Graph \<Rightarrow> Graph result" where
  "update_node i f g = rbind (node_by_id g i) (\<lambda>n. rbind (f n) (\<lambda>n'. Inr (set_node i n' g)))"

section \<open>Adding nodes and edges\<close>

text \<open>
  \<open>Graph::add_node\<close>. A \<open>default_node_id\<close> already used by a node of the graph would destroy that
  node and leave its pointer in \<open>nodes_\<close>.
\<close>

definition add_node :: "Node \<Rightarrow> u32 \<Rightarrow> NodeId option \<Rightarrow> World \<Rightarrow> Graph \<Rightarrow>
    (World \<times> Graph \<times> NodeId) result" where
  "add_node n subgraph_id default_id w g =
     (case (case default_id of Some i \<Rightarrow> (w, i) | None \<Rightarrow> generate_unique_node_id w) of (w', i) \<Rightarrow>
       req Runtime_error (\<not> has_node_with_name g (node_name n))
         (req Undefined_behaviour (\<not> has_node_with_id g i)
           (Inr (w', g
             \<lparr>node_name_to_node_id := AList.update (node_name n) i (node_name_to_node_id g),
              nodes_map := AList.update i (node_set_id i n) (nodes_map g),
              nodes_order := nodes_order g @ [i],
              operands_map := AList.update i [] (operands_map g),
              users_map := AList.update i [] (users_map g),
              num_subgraphs := (if num_subgraphs g \<le> subgraph_id then subgraph_id + 1
                                else num_subgraphs g),
              node_id_to_subgraph_id := AList.update i subgraph_id (node_id_to_subgraph_id g)\<rparr>, i))))"

text \<open>\<open>Graph::add_edge(const Edge&, std::shared_ptr<EdgeAttributes>)\<close>\<close>

definition add_edge_attr :: "Edge \<Rightarrow> AttrRef option \<Rightarrow> World \<Rightarrow> Graph \<Rightarrow> World \<times> Graph" where
  "add_edge_attr e attr w g =
     (let g1 = g\<lparr>users_map := edges_add (producer_node_id e) e (users_map g),
                 operands_map := edges_add (consumer_node_id e) e (operands_map g)\<rparr>
      in case (case attr of Some r \<Rightarrow> (w, r)
                | None \<Rightarrow> alloc_attr (create_edge_attributes (edge_type e)) w) of (w', r) \<Rightarrow>
        (w', g1\<lparr>edge_to_attr_map := map_insert (unique_id e) r (edge_to_attr_map g1)\<rparr>))"

definition add_edge :: "Edge \<Rightarrow> World \<Rightarrow> Graph \<Rightarrow> World \<times> Graph" where
  "add_edge e = add_edge_attr e None"

text \<open>The variants that take nodes and ports make a new edge.\<close>

definition add_edge_ports ::
    "NodeId \<Rightarrow> NodeId \<Rightarrow> PortId \<Rightarrow> PortId \<Rightarrow> EdgeType \<Rightarrow> World \<Rightarrow> Graph \<Rightarrow> World \<times> Graph" where
  "add_edge_ports producer consumer pp cp ty w g =
     (case make_edge producer pp consumer cp ty w of (w', e) \<Rightarrow> add_edge e w' g)"

definition next_input_port :: "Edge list \<Rightarrow> PortId" where
  "next_input_port es = fold (\<lambda>e p. max p (consumer_input_port_id e + 1)) es 0"

definition add_edge_nodes ::
    "NodeId \<Rightarrow> NodeId \<Rightarrow> EdgeType \<Rightarrow> World \<Rightarrow> Graph \<Rightarrow> (World \<times> Graph) result" where
  "add_edge_nodes producer consumer ty w g =
     rbind (map_at (operands_map g) consumer) (\<lambda>es.
       Inr (add_edge_ports producer consumer 0 (next_input_port es) ty w g))"

section \<open>Edge and node attributes\<close>

definition get_edge_attributes :: "Graph \<Rightarrow> Edge \<Rightarrow> AttrRef result" where
  "get_edge_attributes g e = map_at (edge_to_attr_map g) (unique_id e)"

definition edge_attr :: "World \<Rightarrow> Graph \<Rightarrow> Edge \<Rightarrow> EdgeAttributes result" where
  "edge_attr w g e = rbind (get_edge_attributes g e) (read_attr w)"

definition copy_edge_attributes :: "Edge \<Rightarrow> Edge \<Rightarrow> Graph \<Rightarrow> World \<Rightarrow> Graph \<Rightarrow> World result" where
  "copy_edge_attributes src dest old_graph w g =
     rbind (edge_attr w old_graph src) (\<lambda>a.
     rbind (get_edge_attributes g dest) (\<lambda>r.
     rbind (read_attr w r) (\<lambda>b. Inr (write_attr r (copy_from a b) w))))"

definition copy_node_attributes :: "Node \<Rightarrow> Node \<Rightarrow> Node result" where
  "copy_node_attributes src dst =
     (let d = dst\<lparr>epoch_type := epoch_type src, node_output_df := node_output_df src\<rparr> in
      if node_type dst = kPyOp \<and> node_type src = kPyOp then
        rbind (as_OpNode src) (\<lambda>p.
          if gradient_op p then with_op (\<lambda>q. q\<lparr>gradient_op := True\<rparr>) d else Inr d)
      else Inr d)"

section \<open>Removing edges and nodes\<close>

definition remove_edge :: "Edge \<Rightarrow> Graph \<Rightarrow> (Graph \<times> AttrRef) result" where
  "remove_edge e g =
     rbind (get_edge_attributes g e) (\<lambda>r.
       let es = map_get [] (operands_map g) (consumer_node_id e);
           rm = filter (\<lambda>x. unique_id x = unique_id e) es;
           us = (if rm = [] then users_map g
                 else fold (edges_del (producer_node_id e)) rm (users_map g));
           os = fold (edges_del (consumer_node_id e)) rm
                  (AList.update (consumer_node_id e) es (operands_map g))
       in Inr (g\<lparr>users_map := us, operands_map := os\<rparr>, r))"

text \<open>
  \<open>Graph::remove_node\<close>: the edges leave the sets of the neighbours, the node's own sets are erased.
  The edge attributes, the subgraph id and the module lists keep what they had. The node comes
  back with id -1.
\<close>

definition remove_node :: "NodeId \<Rightarrow> Graph \<Rightarrow> (Graph \<times> Node) result" where
  "remove_node i g =
     (let es = map_get [] (operands_map g) i;
          us = fold (\<lambda>e. edges_del (producer_node_id e) e) es (users_map g);
          os = fold (\<lambda>e. edges_del (consumer_node_id e) e) (map_get [] us i)
                 (AList.update i es (operands_map g))
      in rbind (map_at (nodes_map g) i) (\<lambda>n.
        Inr (g\<lparr>node_name_to_node_id := AList.delete (node_name n) (node_name_to_node_id g),
               operands_map := AList.delete i os,
               users_map := AList.delete i us,
               nodes_map := AList.delete i (nodes_map g),
               nodes_order := removeAll i (nodes_order g),
               virtual_nodes := removeAll i (virtual_nodes g)\<rparr>, node_set_id (-1) n)))"

section \<open>Names, subgraphs and module lists\<close>

text \<open>\<open>node_name_to_node_id_[node->name()]\<close> gives the default id 0 for a name the map lacks.\<close>

definition update_node_name :: "NodeId \<Rightarrow> string \<Rightarrow> Graph \<Rightarrow> Graph result" where
  "update_node_name i new_name g =
     rbind (node_by_id g i) (\<lambda>n.
       let m = node_name_to_node_id g; nid = map_get 0 m (node_name n)
       in Inr (set_node i (node_set_name new_name n) g
            \<lparr>node_name_to_node_id := AList.update new_name nid (AList.delete (node_name n) m)\<rparr>))"

definition move_node_to_subgraph :: "NodeId \<Rightarrow> u32 \<Rightarrow> Graph \<Rightarrow> Graph" where
  "move_node_to_subgraph i s g =
     g\<lparr>node_id_to_subgraph_id := AList.update i s (node_id_to_subgraph_id g),
       num_subgraphs := (if num_subgraphs g \<le> s then s + 1 else num_subgraphs g)\<rparr>"

definition get_subgraph_id_for_node :: "Graph \<Rightarrow> NodeId \<Rightarrow> u32 result" where
  "get_subgraph_id_for_node g i = map_at (node_id_to_subgraph_id g) i"

definition nodes_by_subgraph :: "Graph \<Rightarrow> u32 \<Rightarrow> NodeId list result" where
  "nodes_by_subgraph g s =
     filterR (\<lambda>i. rbind (get_subgraph_id_for_node g i) (\<lambda>x. Inr (x = s))) (nodes_order g)"

definition register_module_inputs :: "NodeId list \<Rightarrow> bool \<Rightarrow> Graph \<Rightarrow> Graph" where
  "register_module_inputs is app g =
     g\<lparr>module_inputs := (if app then module_inputs g else []) @ is\<rparr>"

definition register_module_outputs :: "NodeId list \<Rightarrow> bool \<Rightarrow> Graph \<Rightarrow> Graph" where
  "register_module_outputs is app g =
     g\<lparr>module_outputs := (if app then module_outputs g else []) @ is\<rparr>"

definition register_module_targets :: "NodeId list \<Rightarrow> Graph \<Rightarrow> Graph" where
  "register_module_targets is g = g\<lparr>module_targets := is\<rparr>"

text \<open>\<open>std::find\<close> and \<open>erase\<close>: the position found and the list without it.\<close>

fun find_erase :: "NodeId \<Rightarrow> NodeId list \<Rightarrow> (nat \<times> NodeId list) option" where
  "find_erase i [] = None"
| "find_erase i (x # xs) = (if x = i then Some (0, xs)
     else map_option (\<lambda>(k, ys). (Suc k, x # ys)) (find_erase i xs))"

definition remove_module_input :: "NodeId \<Rightarrow> Graph \<Rightarrow> (Graph \<times> nat) result" where
  "remove_module_input i g = rbind (of_opt Assert_failed (find_erase i (module_inputs g)))
     (\<lambda>(k, xs). Inr (g\<lparr>module_inputs := xs\<rparr>, k))"

definition remove_module_output :: "NodeId \<Rightarrow> Graph \<Rightarrow> (Graph \<times> nat) result" where
  "remove_module_output i g = rbind (of_opt Assert_failed (find_erase i (module_outputs g)))
     (\<lambda>(k, xs). Inr (g\<lparr>module_outputs := xs\<rparr>, k))"

definition remove_module_target :: "NodeId \<Rightarrow> Graph \<Rightarrow> (Graph \<times> nat) result" where
  "remove_module_target i g = rbind (of_opt Assert_failed (find_erase i (module_targets g)))
     (\<lambda>(k, xs). Inr (g\<lparr>module_targets := xs\<rparr>, k))"

definition add_module_input :: "NodeId \<Rightarrow> Graph \<Rightarrow> Graph" where
  "add_module_input i g = g\<lparr>module_inputs := module_inputs g @ [i]\<rparr>"

definition add_module_output :: "NodeId \<Rightarrow> Graph \<Rightarrow> Graph" where
  "add_module_output i g = g\<lparr>module_outputs := module_outputs g @ [i]\<rparr>"

definition add_module_target :: "NodeId \<Rightarrow> Graph \<Rightarrow> Graph" where
  "add_module_target i g = g\<lparr>module_targets := module_targets g @ [i]\<rparr>"

text \<open>\<open>copy_module_inputs\<close> and its siblings; \<open>log_fatal\<close> throws a runtime error.\<close>

definition map_module_list ::
    "Graph \<Rightarrow> (NodeId \<times> NodeId) list \<Rightarrow> NodeId list \<Rightarrow> NodeId list result" where
  "map_module_list old_graph node_mapping is = mapR (\<lambda>i.
     rbind (node_by_id old_graph i) (\<lambda>_. of_opt Runtime_error (map_of node_mapping i))) is"

definition copy_module_inputs :: "Graph \<Rightarrow> (NodeId \<times> NodeId) list \<Rightarrow> Graph \<Rightarrow> Graph result" where
  "copy_module_inputs old_graph node_mapping g =
     rbind (map_module_list old_graph node_mapping (module_inputs old_graph))
       (\<lambda>is. Inr (g\<lparr>module_inputs := is\<rparr>))"

definition copy_module_outputs :: "Graph \<Rightarrow> (NodeId \<times> NodeId) list \<Rightarrow> Graph \<Rightarrow> Graph result" where
  "copy_module_outputs old_graph node_mapping g =
     rbind (map_module_list old_graph node_mapping (module_outputs old_graph))
       (\<lambda>is. Inr (g\<lparr>module_outputs := is\<rparr>))"

definition copy_module_targets :: "Graph \<Rightarrow> (NodeId \<times> NodeId) list \<Rightarrow> Graph \<Rightarrow> Graph result" where
  "copy_module_targets old_graph node_mapping g =
     rbind (map_module_list old_graph node_mapping (module_targets old_graph))
       (\<lambda>is. Inr (g\<lparr>module_targets := is\<rparr>))"

section \<open>Cloning a graph\<close>

text \<open>
  \<open>Graph::clone\<close> in its stages: the nodes with their ids, then every operand edge as a new edge
  with copied attributes, then the module lists and the microbatch. \<open>ce\<close> copies the
  constant-evaluation graphs of inputs.
\<close>

definition clone_one_node :: "(ConstEvalRef \<Rightarrow> ConstEvalRef result) \<Rightarrow> Graph \<Rightarrow>
    World \<times> Graph \<times> (NodeId \<times> NodeId) list \<Rightarrow> NodeId \<times> Node \<Rightarrow>
    (World \<times> Graph \<times> (NodeId \<times> NodeId) list) result" where
  "clone_one_node ce old st kn =
     (case st of (w, c, m) \<Rightarrow>
      case kn of (_, n) \<Rightarrow>
        rbind (node_clone ce [] n) (\<lambda>n'.
        rbind (node_id n) (\<lambda>i.
        rbind (get_subgraph_id_for_node old i) (\<lambda>s.
        rbind (add_node n' s (Some i) w c) (\<lambda>(w', c', j).
          Inr (w', c', AList.update i j m))))))"

definition clone_one_edge :: "Graph \<Rightarrow> (NodeId \<times> NodeId) list \<Rightarrow> World \<times> Graph \<Rightarrow> Edge \<Rightarrow>
    (World \<times> Graph) result" where
  "clone_one_edge old m st e =
     (case st of (w, c) \<Rightarrow>
        rbind (map_at m (producer_node_id e)) (\<lambda>p.
        rbind (map_at m (consumer_node_id e)) (\<lambda>q.
          case make_edge p (producer_output_port_id e) q (consumer_input_port_id e) (edge_type e) w
          of (w1, e') \<Rightarrow>
            case add_edge e' w1 c of (w2, c2) \<Rightarrow>
              rbind (copy_edge_attributes e e' old w2 c2) (\<lambda>w3. Inr (w3, c2)))))"

definition clone_target :: "Graph option \<Rightarrow> Graph \<Rightarrow> World \<Rightarrow> World \<times> Graph" where
  "clone_target target g w = (case target of
       Some c \<Rightarrow> (w, c)
     | None \<Rightarrow> (case generate_unique_graph_id w of (w', i) \<Rightarrow>
         (w', mk_Graph (ir_level g) (graph_name g @ ''_'' @ show_int i) i)))"

definition graph_clone :: "(ConstEvalRef \<Rightarrow> ConstEvalRef result) \<Rightarrow> Graph option \<Rightarrow> Graph \<Rightarrow> World \<Rightarrow>
    (World \<times> Graph) result" where
  "graph_clone ce target g w =
     (case clone_target target g w of (w0, c0) \<Rightarrow>
      rbind (foldR (clone_one_node ce g) (w0, c0, []) (nodes_map g)) (\<lambda>(w1, c1, m).
      rbind (foldR (clone_one_edge g m) (w1, c1) (concat (map snd (operands_map g)))) (\<lambda>(w2, c2).
      rbind (mapR (map_at m) (module_inputs g)) (\<lambda>ins.
      rbind (mapR (map_at m) (module_outputs g)) (\<lambda>outs.
      rbind (mapR (map_at m) (module_targets g)) (\<lambda>tgts.
        Inr (w2, c2\<lparr>module_inputs := module_inputs c2 @ ins,
                     module_outputs := module_outputs c2 @ outs,
                     module_targets := module_targets c2 @ tgts,
                     microbatch := microbatch g\<rparr>)))))))"

section \<open>Virtual nodes and traversal contexts\<close>

definition mark_node_virtual :: "NodeId \<Rightarrow> Graph \<Rightarrow> Graph" where
  "mark_node_virtual i g = g\<lparr>virtual_nodes := List.insert i (virtual_nodes g)\<rparr>"

definition mark_node_persisted :: "NodeId \<Rightarrow> Graph \<Rightarrow> Graph result" where
  "mark_node_persisted i g = tt_assert (i \<in> set (virtual_nodes g))
     (Inr (g\<lparr>virtual_nodes := removeAll i (virtual_nodes g)\<rparr>))"

text \<open>
  The constructors of \<open>GraphTraversalContext\<close> move the graph's contexts into the object and install
  new ones; the destructor moves the saved ones back.
\<close>

record GraphTraversalContext =
  saved_virtual :: "NodeId list option"
  saved_ignored :: "Edge list option"
  saved_node :: "NodeId list option"

definition enter_context_all :: "NodeId list option \<Rightarrow> NodeId list option \<Rightarrow> Edge list option \<Rightarrow>
    Graph \<Rightarrow> Graph \<times> GraphTraversalContext" where
  "enter_context_all nodes virt ignored g =
     (g\<lparr>virtual_node_context := virt, ignored_edges_context := ignored, node_context := nodes\<rparr>,
      \<lparr>saved_virtual = virtual_node_context g, saved_ignored = ignored_edges_context g,
       saved_node = node_context g\<rparr>)"

definition enter_context_virtual :: "NodeId list option \<Rightarrow> Edge list option \<Rightarrow>
    Graph \<Rightarrow> Graph \<times> GraphTraversalContext" where
  "enter_context_virtual virt ignored = enter_context_all None virt ignored"

definition enter_context_nodes :: "NodeId list option \<Rightarrow> Graph \<Rightarrow> Graph \<times> GraphTraversalContext" where
  "enter_context_nodes nodes = enter_context_all nodes None None"

definition leave_context :: "GraphTraversalContext \<Rightarrow> Graph \<Rightarrow> Graph" where
  "leave_context c g = g\<lparr>virtual_node_context := saved_virtual c,
     ignored_edges_context := saved_ignored c, node_context := saved_node c\<rparr>"

end
