(* ===== verification/Graph_Inv.thy ===== *)
theory Graph_Inv
  imports Graphs
begin

text \<open>
  What the operations of \<open>Graphs\<close> keep and what they do to the graph seen as a set of nodes and a
  set of edges.

  \<^item> Two interfaces: \<open>keyed_set\<close>, the laws of an \<open>unordered_set\<close> whose elements are equal when
    their keys are, and \<open>indexed_sets\<close>, a map of such sets; both interpreted on the edge sets.
  \<^item> \<open>graph_wf\<close>: ids and names identify nodes, the operand and user sets mirror each other, every
    edge has attributes, and the counters are ahead of everything they have given out.
  \<^item> \<open>graph_step\<close>: the operations as a step relation; every reachable graph satisfies \<open>graph_wf\<close>.
  \<^item> \<open>multigraph\<close>: the abstract specification, refined by the operations.
\<close>

section \<open>Interfaces\<close>

locale keyed_set =
  fixes key :: "'e \<Rightarrow> 'k"
    and elems :: "'s \<Rightarrow> 'e set"
    and ins :: "'e \<Rightarrow> 's \<Rightarrow> 's"
    and del :: "'e \<Rightarrow> 's \<Rightarrow> 's"
  assumes ins_new: "key e \<notin> key ` elems s \<Longrightarrow> elems (ins e s) = insert e (elems s)"
    and ins_old: "key e \<in> key ` elems s \<Longrightarrow> ins e s = s"
    and elems_del: "elems (del e s) = {x \<in> elems s. key x \<noteq> key e}"
begin

lemma keys_ins: "key ` elems (ins e s) = insert (key e) (key ` elems s)"
  by (cases "key e \<in> key ` elems s") (auto simp: ins_new ins_old)

lemma keys_del: "key ` elems (del e s) = key ` elems s - {key e}"
  by (auto simp: elems_del)

lemma del_ins_new: "key e \<notin> key ` elems s \<Longrightarrow> elems (del e (ins e s)) = elems s"
  by (auto simp: elems_del ins_new image_iff)

lemma keys_fold_del: "key ` elems (fold del es s) = key ` elems s - key ` set es"
  by (induction es arbitrary: s) (auto simp: keys_del)

lemma elems_fold_del: "elems (fold del es s) = {x \<in> elems s. key x \<notin> key ` set es}"
  by (induction es arbitrary: s) (auto simp: elems_del)

end

lemma edge_insert_eq:
  "edge_insert e es = (if unique_id e \<in> unique_id ` set es then es else es @ [e])"
proof -
  have "list_ex (\<lambda>x. edge_eq x e) es \<longleftrightarrow> unique_id e \<in> unique_id ` set es"
    by (simp add: list_ex_iff edge_eq_def image_iff) metis
  then show ?thesis by (simp add: edge_insert_def)
qed

lemma set_edge_erase: "set (edge_erase e es) = {x \<in> set es. unique_id x \<noteq> unique_id e}"
  by (simp add: edge_erase_def edge_eq_def)

interpretation es: keyed_set unique_id set edge_insert edge_erase
  by unfold_locales (simp_all add: edge_insert_eq set_edge_erase)

locale indexed_sets = keyed_set key elems ins del
  for key :: "'e \<Rightarrow> 'k" and elems :: "'s \<Rightarrow> 'e set" and ins del +
  fixes get :: "'m \<Rightarrow> 'i \<Rightarrow> 's"
    and add_to :: "'i \<Rightarrow> 'e \<Rightarrow> 'm \<Rightarrow> 'm"
    and del_from :: "'i \<Rightarrow> 'e \<Rightarrow> 'm \<Rightarrow> 'm"
  assumes get_add: "get (add_to i e m) j = (if j = i then ins e (get m i) else get m j)"
    and get_del: "get (del_from i e m) j = (if j = i then del e (get m i) else get m j)"
begin

lemma get_fold_del_from:
  "elems (get (fold (del_from i) es m) j) =
     (if j = i then {x \<in> elems (get m i). key x \<notin> key ` set es} else elems (get m j))"
  by (induction es arbitrary: m) (auto simp: get_del elems_del)

lemma get_fold_del_at:
  "elems (get (fold (\<lambda>e. del_from (f e) e) es m) j) =
     {x \<in> elems (get m j). \<forall>e \<in> set es. f e = j \<longrightarrow> key x \<noteq> key e}"
  by (induction es arbitrary: m) (auto simp: get_del elems_del)

lemma keys_get_add:
  "key ` elems (get (add_to i e m) j) =
     (if j = i then insert (key e) (key ` elems (get m i)) else key ` elems (get m j))"
  by (simp add: get_add keys_ins)

end

lemma map_get_update [simp]:
  "map_get d (AList.update k v m) j = (if j = k then v else map_get d m j)"
  by (simp add: map_get_def)

lemma map_get_delete [simp]:
  "map_get d (AList.delete k m) j = (if j = k then d else map_get d m j)"
  by (simp add: map_get_def)

interpretation em: indexed_sets unique_id set edge_insert edge_erase "map_get []" edges_add edges_del
  by unfold_locales (simp_all add: edges_add_def edges_del_def)

lemma distinct_edge_insert:
  "distinct (map unique_id es) \<Longrightarrow> distinct (map unique_id (edge_insert e es))"
  by (simp add: edge_insert_eq)

lemma distinct_edge_erase:
  "distinct (map unique_id es) \<Longrightarrow> distinct (map unique_id (edge_erase e es))"
  by (simp add: edge_erase_def distinct_map_filter)

lemma keys_edges_add [simp]: "set (keys (edges_add i e m)) = insert i (set (keys m))"
  by (simp add: edges_add_def dom_update)
lemma keys_edges_del [simp]: "set (keys (edges_del i e m)) = insert i (set (keys m))"
  by (simp add: edges_del_def dom_update)

section \<open>The invariant\<close>

abbreviation ops :: "Graph \<Rightarrow> NodeId \<Rightarrow> Edge list" where
  "ops g \<equiv> map_get [] (operands_map g)"

abbreviation usr :: "Graph \<Rightarrow> NodeId \<Rightarrow> Edge list" where
  "usr g \<equiv> map_get [] (users_map g)"

abbreviation node_ids :: "Graph \<Rightarrow> NodeId set" where
  "node_ids g \<equiv> set (keys (nodes_map g))"

definition node_keys_wf :: "Graph \<Rightarrow> bool" where
  "node_keys_wf g \<longleftrightarrow> distinct (keys (nodes_map g)) \<and> distinct (nodes_order g) \<and>
     set (nodes_order g) = node_ids g \<and> set (virtual_nodes g) \<subseteq> node_ids g \<and>
     node_ids g \<subseteq> set (keys (node_id_to_subgraph_id g)) \<and>
     distinct (keys (operands_map g)) \<and> set (keys (operands_map g)) = node_ids g \<and>
     distinct (keys (users_map g)) \<and> set (keys (users_map g)) = node_ids g \<and>
     (\<forall>(i, n) \<in> set (nodes_map g). node_unique_id n = i \<and> 0 \<le> i)"

definition names_wf :: "Graph \<Rightarrow> bool" where
  "names_wf g \<longleftrightarrow> distinct (keys (node_name_to_node_id g)) \<and>
     (\<forall>(i, n) \<in> set (nodes_map g). map_of (node_name_to_node_id g) (node_name n) = Some i) \<and>
     (\<forall>(s, i) \<in> set (node_name_to_node_id g).
        (case map_of (nodes_map g) i of None \<Rightarrow> False | Some n \<Rightarrow> node_name n = s))"

text \<open>Every operand edge is in the user set of its producer and the other way round.\<close>

definition edges_wf :: "Graph \<Rightarrow> bool" where
  "edges_wf g \<longleftrightarrow>
     (\<forall>(i, es) \<in> set (operands_map g). distinct (map unique_id es) \<and>
        (\<forall>e \<in> set es. consumer_node_id e = i \<and> e \<in> set (usr g (producer_node_id e)))) \<and>
     (\<forall>(i, es) \<in> set (users_map g). distinct (map unique_id es) \<and>
        (\<forall>e \<in> set es. producer_node_id e = i \<and> e \<in> set (ops g (consumer_node_id e))))"

definition edge_attrs_wf :: "World \<Rightarrow> Graph \<Rightarrow> bool" where
  "edge_attrs_wf w g \<longleftrightarrow> distinct (keys (edge_to_attr_map g)) \<and>
     (\<forall>(i, es) \<in> set (operands_map g). \<forall>e \<in> set es. unique_id e \<in> set (keys (edge_to_attr_map g))) \<and>
     (\<forall>(u, r) \<in> set (edge_to_attr_map g). r < length (attr_store w))"

definition counters_wf :: "World \<Rightarrow> Graph \<Rightarrow> bool" where
  "counters_wf w g \<longleftrightarrow> 0 \<le> last_node_id_assigned w \<and>
     (\<forall>(i, n) \<in> set (nodes_map g). i \<le> last_node_id_assigned w) \<and>
     (\<forall>(i, es) \<in> set (operands_map g). \<forall>e \<in> set es. edge_creation_id e < last_edge_creation_id w)"

definition graph_wf :: "World \<Rightarrow> Graph \<Rightarrow> bool" where
  "graph_wf w g \<longleftrightarrow> node_keys_wf g \<and> names_wf g \<and> edges_wf g \<and> edge_attrs_wf w g \<and> counters_wf w g"

text \<open>The same in terms of look-ups.\<close>

definition mirror :: "(NodeId \<Rightarrow> Edge list) \<Rightarrow> (NodeId \<Rightarrow> Edge list) \<Rightarrow> bool" where
  "mirror os us \<longleftrightarrow>
     (\<forall>i. distinct (map unique_id (os i)) \<and> distinct (map unique_id (us i))) \<and>
     (\<forall>i e. e \<in> set (os i) \<longrightarrow> consumer_node_id e = i \<and> e \<in> set (us (producer_node_id e))) \<and>
     (\<forall>i e. e \<in> set (us i) \<longrightarrow> producer_node_id e = i \<and> e \<in> set (os (consumer_node_id e)))"

lemma map_get_in: "distinct (keys m) \<Longrightarrow> (i, v) \<in> set m \<Longrightarrow> map_get d m i = v"
  by (simp add: map_get_def)

lemma mem_map_get: "e \<in> set (map_get [] m i) \<longleftrightarrow> (\<exists>es. map_of m i = Some es \<and> e \<in> set es)"
  by (cases "map_of m i") (simp_all add: map_get_def)

lemma ball_set_map_of:
  "distinct (keys m) \<Longrightarrow> (\<forall>(i, v) \<in> set m. Q i v) \<longleftrightarrow> (\<forall>i v. map_of m i = Some v \<longrightarrow> Q i v)"
  by (auto dest: map_of_SomeD)

lemma edges_wf_mirror:
  assumes "distinct (keys (operands_map g))" "distinct (keys (users_map g))"
  shows "edges_wf g \<longleftrightarrow> mirror (ops g) (usr g)"
proof
  assume "edges_wf g"
  then show "mirror (ops g) (usr g)"
    unfolding edges_wf_def mirror_def ball_set_map_of [OF assms(1)] ball_set_map_of [OF assms(2)]
    by (auto simp: mem_map_get) (auto simp: map_get_def split: option.splits)
next
  assume "mirror (ops g) (usr g)"
  then show "edges_wf g"
    unfolding edges_wf_def mirror_def ball_set_map_of [OF assms(1)] ball_set_map_of [OF assms(2)]
    by (simp add: map_get_def split: option.splits) metis
qed

lemma mirror_filter:
  assumes "mirror os us"
    and "\<And>i. set (os' i) = {e \<in> set (os i). P e}" "\<And>i. set (us' i) = {e \<in> set (us i). P e}"
    and "\<And>i. distinct (map unique_id (os' i))" "\<And>i. distinct (map unique_id (us' i))"
  shows "mirror os' us'"
  using assms by (auto simp: mirror_def)

lemma mirror_ends:
  assumes "mirror os us"
  shows "e \<in> set (os i) \<Longrightarrow> consumer_node_id e = i" "e \<in> set (us i) \<Longrightarrow> producer_node_id e = i"
    "e \<in> set (os (consumer_node_id e)) \<longleftrightarrow> e \<in> set (us (producer_node_id e))"
  using assms by (auto simp: mirror_def)

lemma unique_id_ends:
  "unique_id a = unique_id b \<Longrightarrow> producer_node_id a = producer_node_id b \<and>
     consumer_node_id a = consumer_node_id b \<and> edge_type a = edge_type b"
  by (simp add: unique_id_def)

lemma mirror_ids:
  assumes "mirror os us"
  shows "unique_id e \<in> unique_id ` set (os (consumer_node_id e)) \<longleftrightarrow>
     unique_id e \<in> unique_id ` set (us (producer_node_id e))"
  using mirror_ends [OF assms] by (auto simp: image_iff) (metis unique_id_ends)+

lemma mirror_add:
  assumes "mirror os us"
  shows "mirror (os(consumer_node_id e := edge_insert e (os (consumer_node_id e))))
     (us(producer_node_id e := edge_insert e (us (producer_node_id e))))"
proof (cases "unique_id e \<in> unique_id ` set (os (consumer_node_id e))")
  case True
  with mirror_ids [OF assms, of e] have "unique_id e \<in> unique_id ` set (us (producer_node_id e))"
    by simp
  with True show ?thesis using assms by (simp add: edge_insert_eq fun_upd_idem)
next
  case False
  with mirror_ids [OF assms, of e] have "unique_id e \<notin> unique_id ` set (us (producer_node_id e))"
    by simp
  with False assms show ?thesis by (auto simp: edge_insert_eq mirror_def) metis+
qed

lemma distinct_fold_edges_del:
  "(\<And>j. distinct (map unique_id (map_get [] m j))) \<Longrightarrow>
     distinct (map unique_id (map_get [] (fold (\<lambda>e. edges_del (f e) e) es m) j))"
proof (induction es arbitrary: m)
  case Nil
  then show ?case by simp
next
  case (Cons e es)
  have "distinct (map unique_id (map_get [] (edges_del (f e) e m) j))" for j
    using Cons.prems by (simp add: em.get_del distinct_edge_erase)
  then show ?case using Cons.IH by simp
qed

text \<open>The two sides of \<open>remove_edge\<close> and of \<open>remove_node\<close> on mirrored sets.\<close>

lemma remove_edge_sets:
  assumes m: "mirror (map_get [] os) (map_get [] us)"
    and rm: "rm = filter (\<lambda>x. unique_id x = unique_id e) (map_get [] os (consumer_node_id e))"
  shows "set (map_get [] (fold (edges_del (producer_node_id e)) rm us) j) =
           {x \<in> set (map_get [] us j). unique_id x \<noteq> unique_id e}"
    and "set (map_get [] (fold (edges_del (consumer_node_id e)) rm
             (AList.update (consumer_node_id e) (map_get [] os (consumer_node_id e)) os)) j) =
           {x \<in> set (map_get [] os j). unique_id x \<noteq> unique_id e}"
proof -
  note ends = mirror_ends [OF m]
  have sub: "unique_id y = unique_id e" if "y \<in> set rm" for y using that by (simp add: rm)
  have u: "j = producer_node_id e \<and> x \<in> set rm"
    if x: "x \<in> set (map_get [] us j)" "unique_id x = unique_id e" for x
  proof -
    from ends(2) [OF x(1)] unique_id_ends [OF x(2)] have "j = producer_node_id e" by simp
    moreover from x(1) ends(2) [OF x(1)] ends(3) [of x] unique_id_ends [OF x(2)]
    have "x \<in> set (map_get [] os (consumer_node_id e))" by simp
    ultimately show ?thesis using x(2) by (simp add: rm)
  qed
  show "set (map_get [] (fold (edges_del (producer_node_id e)) rm us) j) =
      {x \<in> set (map_get [] us j). unique_id x \<noteq> unique_id e}"
    unfolding em.get_fold_del_from using u sub by (auto dest: image_eqI)
  have o: "j = consumer_node_id e \<and> x \<in> set rm"
    if x: "x \<in> set (map_get [] os j)" "unique_id x = unique_id e" for x
    using ends(1) [OF x(1)] unique_id_ends [OF x(2)] x by (simp add: rm)
  show "set (map_get [] (fold (edges_del (consumer_node_id e)) rm
       (AList.update (consumer_node_id e) (map_get [] os (consumer_node_id e)) os)) j) =
      {x \<in> set (map_get [] os j). unique_id x \<noteq> unique_id e}"
    unfolding em.get_fold_del_from map_get_update using o sub by (auto dest: image_eqI)
qed

lemma remove_node_sets:
  assumes m: "mirror (map_get [] os) (map_get [] us)"
    and us': "us' = fold (\<lambda>e. edges_del (producer_node_id e) e) (map_get [] os i) us"
    and os': "os' = fold (\<lambda>e. edges_del (consumer_node_id e) e) (map_get [] us' i)
               (AList.update i (map_get [] os i) os)"
  shows "set (map_get [] us' j) = {x \<in> set (map_get [] us j). consumer_node_id x \<noteq> i}"
    and "j \<noteq> i \<Longrightarrow> set (map_get [] os' j) = {x \<in> set (map_get [] os j). producer_node_id x \<noteq> i}"
proof -
  note ends = mirror_ends [OF m]
  have u: "(\<exists>e \<in> set (map_get [] os i). producer_node_id e = j \<and> unique_id x = unique_id e) \<longleftrightarrow>
      consumer_node_id x = i" if x: "x \<in> set (map_get [] us j)" for x j
  proof
    assume "\<exists>e \<in> set (map_get [] os i). producer_node_id e = j \<and> unique_id x = unique_id e"
    then obtain e where e: "e \<in> set (map_get [] os i)" "unique_id x = unique_id e" by blast
    from ends(1) [OF e(1)] unique_id_ends [OF e(2)] show "consumer_node_id x = i" by simp
  next
    assume "consumer_node_id x = i"
    with ends(2) [OF x] ends(3) [of x] x
    show "\<exists>e \<in> set (map_get [] os i). producer_node_id e = j \<and> unique_id x = unique_id e" by auto
  qed
  have *: "set (map_get [] us' j) = {x \<in> set (map_get [] us j). consumer_node_id x \<noteq> i}" for j
    unfolding us' em.get_fold_del_at using u by blast
  then show "set (map_get [] us' j) = {x \<in> set (map_get [] us j). consumer_node_id x \<noteq> i}" .
  have o: "(\<exists>e \<in> set (map_get [] us' i). consumer_node_id e = j \<and> unique_id x = unique_id e) \<longleftrightarrow>
      producer_node_id x = i" if x: "x \<in> set (map_get [] os j)" and j: "j \<noteq> i" for x
  proof
    assume "\<exists>e \<in> set (map_get [] us' i). consumer_node_id e = j \<and> unique_id x = unique_id e"
    then obtain e where e: "e \<in> set (map_get [] us i)" "unique_id x = unique_id e"
      by (auto simp: *)
    from ends(2) [OF e(1)] unique_id_ends [OF e(2)] show "producer_node_id x = i" by simp
  next
    assume "producer_node_id x = i"
    with ends(1) [OF x] ends(3) [of x] x j
    show "\<exists>e \<in> set (map_get [] us' i). consumer_node_id e = j \<and> unique_id x = unique_id e"
      by (auto simp: *)
  qed
  show "set (map_get [] os' j) = {x \<in> set (map_get [] os j). producer_node_id x \<noteq> i}" if "j \<noteq> i"
    unfolding os' em.get_fold_del_at map_get_update using o that by auto
qed

section \<open>Preservation\<close>

lemma graph_wf_iff:
  "graph_wf w g \<longleftrightarrow> node_keys_wf g \<and>
     distinct (keys (node_name_to_node_id g)) \<and>
     (\<forall>i n. map_of (nodes_map g) i = Some n \<longrightarrow>
        map_of (node_name_to_node_id g) (node_name n) = Some i) \<and>
     (\<forall>s i. map_of (node_name_to_node_id g) s = Some i \<longrightarrow>
        (\<exists>n. map_of (nodes_map g) i = Some n \<and> node_name n = s)) \<and>
     mirror (ops g) (usr g) \<and>
     distinct (keys (edge_to_attr_map g)) \<and>
     (\<forall>i. \<forall>e \<in> set (ops g i). unique_id e \<in> set (keys (edge_to_attr_map g)) \<and>
        edge_creation_id e < last_edge_creation_id w) \<and>
     (\<forall>(u, r) \<in> set (edge_to_attr_map g). r < length (attr_store w)) \<and>
     0 \<le> last_node_id_assigned w \<and> (\<forall>i \<in> node_ids g. i \<le> last_node_id_assigned w)"
proof (cases "node_keys_wf g")
  case True
  then have d: "distinct (keys (nodes_map g))" "distinct (keys (operands_map g))"
    "distinct (keys (users_map g))"
    by (simp_all add: node_keys_wf_def)
  have n: "names_wf g \<longleftrightarrow> distinct (keys (node_name_to_node_id g)) \<and>
      (\<forall>i n. map_of (nodes_map g) i = Some n \<longrightarrow>
        map_of (node_name_to_node_id g) (node_name n) = Some i) \<and>
      (\<forall>s i. map_of (node_name_to_node_id g) s = Some i \<longrightarrow>
        (\<exists>n. map_of (nodes_map g) i = Some n \<and> node_name n = s))"
    unfolding names_wf_def ball_set_map_of [OF d(1)]
    by (auto simp: ball_set_map_of split: option.splits) fastforce+
  have e: "(\<forall>(i, es) \<in> set (operands_map g). \<forall>e \<in> set es. Q e) \<longleftrightarrow>
      (\<forall>i. \<forall>e \<in> set (ops g i). Q e)" for Q
    unfolding ball_set_map_of [OF d(2)] by (meson mem_map_get)
  show ?thesis
    unfolding graph_wf_def edge_attrs_wf_def counters_wf_def n e edges_wf_mirror [OF d(2,3)]
    using True by (auto simp: case_prod_beta)
qed (simp add: graph_wf_def)

lemma graph_wfD:
  assumes "graph_wf w g"
  shows "distinct (keys (nodes_map g))" "distinct (keys (operands_map g))"
    "distinct (keys (users_map g))" "set (keys (operands_map g)) = node_ids g"
    "set (keys (users_map g)) = node_ids g" "mirror (ops g) (usr g)"
    "distinct (nodes_order g)" "set (nodes_order g) = node_ids g"
    "map_of (nodes_map g) i = Some n \<Longrightarrow> node_unique_id n = i \<and> 0 \<le> i \<and> i \<le> last_node_id_assigned w"
    "map_of (nodes_map g) i = Some n \<Longrightarrow> map_of (node_name_to_node_id g) (node_name n) = Some i"
    "map_of (node_name_to_node_id g) s = Some i \<Longrightarrow>
       \<exists>n. map_of (nodes_map g) i = Some n \<and> node_name n = s"
    "e \<in> set (ops g i) \<Longrightarrow> unique_id e \<in> set (keys (edge_to_attr_map g))"
    "e \<in> set (ops g i) \<Longrightarrow> edge_creation_id e < last_edge_creation_id w"
    "map_of (edge_to_attr_map g) u = Some r \<Longrightarrow> r < length (attr_store w)"
  using assms
  by (auto simp: graph_wf_iff node_keys_wf_def dest!: map_of_SomeD)

lemma not_key_map_get: "i \<notin> set (keys m) \<Longrightarrow> map_get d m i = d"
  by (simp add: map_get_def map_of_eq_None_iff [symmetric] split: option.splits)

lemma ops_ends:
  assumes "graph_wf w g" "e \<in> set (ops g i)"
  shows "consumer_node_id e = i" "i \<in> node_ids g" "producer_node_id e \<in> node_ids g"
    "e \<in> set (usr g (producer_node_id e))"
proof -
  note wf = graph_wfD [OF assms(1)]
  show c: "consumer_node_id e = i" using mirror_ends [OF wf(6)] assms(2) by blast
  show u: "e \<in> set (usr g (producer_node_id e))"
    using mirror_ends [OF wf(6)] assms(2) c by blast
  show "i \<in> node_ids g" using not_key_map_get [of i "operands_map g" "[]"] assms(2) wf(4) by force
  show "producer_node_id e \<in> node_ids g"
    using not_key_map_get [of "producer_node_id e" "users_map g" "[]"] u wf(5) by force
qed

lemma usr_ends:
  assumes "graph_wf w g" "e \<in> set (usr g i)"
  shows "producer_node_id e = i" "i \<in> node_ids g" "consumer_node_id e \<in> node_ids g"
    "e \<in> set (ops g (consumer_node_id e))"
proof -
  note wf = graph_wfD [OF assms(1)]
  show "producer_node_id e = i" using mirror_ends [OF wf(6)] assms(2) by blast
  show o: "e \<in> set (ops g (consumer_node_id e))"
    using mirror_ends [OF wf(6)] assms(2) by (metis mirror_def wf(6))
  show "i \<in> node_ids g" using not_key_map_get [of i "users_map g" "[]"] assms(2) wf(5) by force
  show "consumer_node_id e \<in> node_ids g"
    using not_key_map_get [of "consumer_node_id e" "operands_map g" "[]"] o wf(4) by force
qed

lemma mk_Graph_wf: "0 \<le> last_node_id_assigned w \<Longrightarrow> graph_wf w (mk_Graph lvl nm uid)"
  by (simp add: graph_wf_iff mk_Graph_def node_keys_wf_def mirror_def map_get_def)

lemma fst_set_update [simp]: "fst ` set (AList.update k v m) = insert k (fst ` set m)"
  using dom_update [of k v m] by simp

lemma fst_set_delete [simp]: "fst ` set (AList.delete k m) = fst ` set m - {k}"
  using arg_cong [OF delete_keys, of set k m] by auto

lemma add_node_Inr:
  "add_node n s d w g = Inr (w', g', i) \<longleftrightarrow>
     i = (case d of Some j \<Rightarrow> j | None \<Rightarrow> last_node_id_assigned w + 1) \<and>
     w' = (case d of Some j \<Rightarrow> w | None \<Rightarrow> w\<lparr>last_node_id_assigned := i\<rparr>) \<and>
     map_of (node_name_to_node_id g) (node_name n) = None \<and> i \<notin> node_ids g \<and>
     g' = g\<lparr>node_name_to_node_id := AList.update (node_name n) i (node_name_to_node_id g),
            nodes_map := AList.update i (node_set_id i n) (nodes_map g),
            nodes_order := nodes_order g @ [i],
            operands_map := AList.update i [] (operands_map g),
            users_map := AList.update i [] (users_map g),
            num_subgraphs := (if num_subgraphs g \<le> s then s + 1 else num_subgraphs g),
            node_id_to_subgraph_id := AList.update i s (node_id_to_subgraph_id g)\<rparr>"
proof -
  have k: "has_node_with_id g j \<longleftrightarrow> j \<in> node_ids g" for j
    by (simp add: has_node_with_id_def map_of_eq_None_iff)
  show ?thesis
    unfolding add_node_def generate_unique_node_id_def k has_node_with_name_def
    by (cases d) (auto simp: result_simps Let_def)
qed

lemma add_node_effect:
  assumes wf: "graph_wf w g" and r: "add_node n s d w g = Inr (w', g', i)"
  shows "i \<notin> node_ids g" "map_of (nodes_map g') = (map_of (nodes_map g))(i \<mapsto> node_set_id i n)"
    "node_ids g' = insert i (node_ids g)" "ops g' = ops g" "usr g' = usr g"
    "edge_to_attr_map g' = edge_to_attr_map g" "attr_store w' = attr_store w"
    "last_edge_creation_id w' = last_edge_creation_id w"
    "map_of (node_name_to_node_id g) (node_name n) = None"
    "map_of (node_name_to_node_id g') = (map_of (node_name_to_node_id g))(node_name n \<mapsto> i)"
    "i = (case d of Some j \<Rightarrow> j | None \<Rightarrow> last_node_id_assigned w + 1)"
    "last_node_id_assigned w' = (case d of Some j \<Rightarrow> last_node_id_assigned w | None \<Rightarrow> i)"
proof -
  note D = graph_wfD [OF wf]
  note r' = r [unfolded add_node_Inr]
  show i: "i \<notin> node_ids g" using r' by blast
  have "map_get [] (operands_map g) i = []" "map_get [] (users_map g) i = []"
    using i D(4,5) by (simp_all add: not_key_map_get)
  then show "ops g' = ops g" "usr g' = usr g"
    using r' by (auto simp: fun_eq_iff)
qed (use r [unfolded add_node_Inr] in \<open>auto split: option.splits\<close>)

lemma add_node_wf:
  assumes wf: "graph_wf w g" and r: "add_node n s d w g = Inr (w', g', i)"
    and d: "\<And>j. d = Some j \<Longrightarrow> 0 \<le> j \<and> j \<le> last_node_id_assigned w"
  shows "graph_wf w' g'"
proof -
  note eff = add_node_effect [OF wf r]
  note r' = r [unfolded add_node_Inr]
  have i: "0 \<le> i" "i \<le> last_node_id_assigned w'" "last_node_id_assigned w \<le> last_node_id_assigned w'"
    "0 \<le> last_node_id_assigned w'"
    using d eff(11,12) wf by (auto simp: graph_wf_iff split: option.splits)
  have dk: "distinct (keys (nodes_map g'))" using r' graph_wfD(1) [OF wf] by (simp add: distinct_update)
  have ids: "\<forall>(j, m) \<in> set (nodes_map g'). node_unique_id m = j \<and> 0 \<le> j"
    unfolding ball_set_map_of [OF dk] eff(2) using graph_wfD(9) [OF wf] i(1)
    by (auto simp: node_set_id_def)
  have "node_keys_wf g'"
    unfolding node_keys_wf_def using wf ids dk eff(1) r'
    by (auto simp: graph_wf_iff node_keys_wf_def distinct_update)
  moreover have "distinct (keys (node_name_to_node_id g'))"
    using wf r' by (simp add: graph_wf_iff distinct_update)
  moreover have "\<exists>m. map_of (nodes_map g') j = Some m \<and> node_name m = t"
    if "map_of (node_name_to_node_id g') t = Some j" for t j
    using that graph_wfD(11) [OF wf, of t j] eff(1) unfolding eff(2,10)
    by (auto simp: node_set_id_def dest: map_of_SomeD split: if_splits)
      (metis fst_conv image_eqI map_of_SomeD)+
  moreover have "map_of (node_name_to_node_id g') (node_name m) = Some j"
    if "map_of (nodes_map g') j = Some m" for j m
    using that graph_wfD(10) [OF wf, of j m] eff(9) unfolding eff(2,10)
    by (auto simp: node_set_id_def split: if_splits)
  ultimately show ?thesis
    using wf i unfolding graph_wf_iff eff(3-8) by auto
qed

lemma add_edge_attr_eq:
  "add_edge_attr e a w g =
     ((case a of Some r \<Rightarrow> w
       | None \<Rightarrow> w\<lparr>attr_store := attr_store w @ [create_edge_attributes (edge_type e)]\<rparr>),
      g\<lparr>users_map := edges_add (producer_node_id e) e (users_map g),
        operands_map := edges_add (consumer_node_id e) e (operands_map g),
        edge_to_attr_map := map_insert (unique_id e)
          (case a of Some r \<Rightarrow> r | None \<Rightarrow> length (attr_store w)) (edge_to_attr_map g)\<rparr>)"
  by (cases a) (simp_all add: add_edge_attr_def alloc_attr_def Let_def)

lemma set_keys_insert [simp]: "fst ` set (map_insert k v m) = insert k (fst ` set m)"
  by (auto simp: map_insert_def)

lemma fst_set_edges_add [simp]: "fst ` set (edges_add i e m) = insert i (fst ` set m)"
  by (simp add: edges_add_def)

lemma fst_set_edges_del [simp]: "fst ` set (edges_del i e m) = insert i (fst ` set m)"
  by (simp add: edges_del_def)

lemma add_edge_attrD:
  assumes "add_edge_attr e a w g = (w', g')"
  shows "w' = (case a of Some r \<Rightarrow> w
      | None \<Rightarrow> w\<lparr>attr_store := attr_store w @ [create_edge_attributes (edge_type e)]\<rparr>)"
    and "g' = g\<lparr>users_map := edges_add (producer_node_id e) e (users_map g),
        operands_map := edges_add (consumer_node_id e) e (operands_map g),
        edge_to_attr_map := map_insert (unique_id e)
          (case a of Some r \<Rightarrow> r | None \<Rightarrow> length (attr_store w)) (edge_to_attr_map g)\<rparr>"
  using assms [unfolded add_edge_attr_eq] by simp_all

lemma add_edge_attr_effect:
  assumes "add_edge_attr e a w g = (w', g')"
  shows "ops g' = (ops g)(consumer_node_id e := edge_insert e (ops g (consumer_node_id e)))"
    "usr g' = (usr g)(producer_node_id e := edge_insert e (usr g (producer_node_id e)))"
    "nodes_map g' = nodes_map g" "node_name_to_node_id g' = node_name_to_node_id g"
    "nodes_order g' = nodes_order g" "virtual_nodes g' = virtual_nodes g"
    "node_id_to_subgraph_id g' = node_id_to_subgraph_id g"
    "last_node_id_assigned w' = last_node_id_assigned w"
    "last_edge_creation_id w' = last_edge_creation_id w"
    "set (keys (edge_to_attr_map g')) = insert (unique_id e) (set (keys (edge_to_attr_map g)))"
  unfolding add_edge_attrD [OF assms]
  by (simp_all add: fun_eq_iff em.get_add split: option.split)

lemma add_edge_attr_wf:
  assumes wf: "graph_wf w g" and r: "add_edge_attr e a w g = (w', g')"
    and ends: "producer_node_id e \<in> node_ids g" "consumer_node_id e \<in> node_ids g"
    and cid: "edge_creation_id e < last_edge_creation_id w"
    and a: "\<And>r. a = Some r \<Longrightarrow> r < length (attr_store w)"
  shows "graph_wf w' g'"
proof -
  note eff = add_edge_attr_effect [OF r]
  note D = graph_wfD [OF wf]
  have k: "node_keys_wf g'"
    using wf ends unfolding graph_wf_iff node_keys_wf_def add_edge_attrD [OF r]
    by (auto simp: edges_add_def distinct_update)
  have at: "distinct (keys (edge_to_attr_map g'))"
    using wf unfolding graph_wf_iff add_edge_attrD(2) [OF r] by simp
  have "\<forall>(u, r) \<in> set (edge_to_attr_map g). r < length (attr_store w)"
    using wf unfolding graph_wf_iff by blast
  then have rf: "\<forall>(u, r) \<in> set (edge_to_attr_map g'). r < length (attr_store w')"
    using a unfolding add_edge_attrD [OF r] by (cases a) (auto simp: map_insert_def less_Suc_eq)
  have e: "\<forall>i. \<forall>x \<in> set (ops g' i). unique_id x \<in> set (keys (edge_to_attr_map g')) \<and>
      edge_creation_id x < last_edge_creation_id w'"
    using D(12,13) cid unfolding eff(1,9,10) by (auto simp: edge_insert_eq)
  have m: "mirror (ops g') (usr g')" unfolding eff(1,2) by (rule mirror_add [OF D(6)])
  show ?thesis
    unfolding graph_wf_iff using k at rf e m wf [unfolded graph_wf_iff] unfolding eff(3,4,8) by simp
qed

declare map_of_eq_Some_iff [simp del] Some_eq_map_of_iff [simp del]

lemma remove_edgeD:
  assumes "remove_edge e g = Inr (g', r)"
  defines "rm \<equiv> filter (\<lambda>x. unique_id x = unique_id e) (ops g (consumer_node_id e))"
  shows "map_of (edge_to_attr_map g) (unique_id e) = Some r"
    and "users_map g' = fold (edges_del (producer_node_id e)) rm (users_map g)"
    and "operands_map g' = fold (edges_del (consumer_node_id e)) rm
           (AList.update (consumer_node_id e) (ops g (consumer_node_id e)) (operands_map g))"
    and "nodes_map g' = nodes_map g" "node_name_to_node_id g' = node_name_to_node_id g"
    "nodes_order g' = nodes_order g" "virtual_nodes g' = virtual_nodes g"
    "node_id_to_subgraph_id g' = node_id_to_subgraph_id g"
    "edge_to_attr_map g' = edge_to_attr_map g"
  using assms by (auto simp: remove_edge_def get_edge_attributes_def result_simps Let_def)

lemma remove_edge_Inl:
  "remove_edge e g = Inl err \<longleftrightarrow>
     err = Out_of_range \<and> map_of (edge_to_attr_map g) (unique_id e) = None"
  by (cases "map_of (edge_to_attr_map g) (unique_id e)")
    (auto simp: remove_edge_def get_edge_attributes_def Let_def)

lemma remove_edge_effect:
  assumes "graph_wf w g" "remove_edge e g = Inr (g', r)"
  shows "set (ops g' i) = {x \<in> set (ops g i). unique_id x \<noteq> unique_id e}"
    "set (usr g' i) = {x \<in> set (usr g i). unique_id x \<noteq> unique_id e}"
  unfolding remove_edgeD(2,3) [OF assms(2)]
  using remove_edge_sets [OF graph_wfD(6) [OF assms(1)] refl, of e i] by simp_all

lemma fst_set_fold_edges_del:
  "fst ` set (fold (\<lambda>e. edges_del (f e) e) es m) = f ` set es \<union> fst ` set m"
  by (induction es arbitrary: m) auto

lemma distinct_keys_fold_edges_del:
  "distinct (keys m) \<Longrightarrow> distinct (keys (fold (\<lambda>e. edges_del (f e) e) es m))"
  by (induction es arbitrary: m) (simp_all add: edges_del_def distinct_update)

text \<open>
  The consumer must still be a node: \<open>operands_map_[edge.consumer_node_id]\<close> enters a set for a node
  that is gone, and a removed node leaves the attributes that let \<open>remove_edge\<close> get that far.
\<close>

lemma remove_edge_wf:
  assumes wf: "graph_wf w g" and r: "remove_edge e g = Inr (g', r)"
    and c: "consumer_node_id e \<in> node_ids g"
  shows "graph_wf w g'"
proof -
  note D = graph_wfD [OF wf]
  define rm where "rm = filter (\<lambda>x. unique_id x = unique_id e) (ops g (consumer_node_id e))"
  note g' = remove_edgeD(2-) [OF r, folded rm_def]
  have p: "set rm \<noteq> {} \<Longrightarrow> producer_node_id e \<in> node_ids g"
  proof -
    assume "set rm \<noteq> {}"
    then obtain x where "x \<in> set (ops g (consumer_node_id e))" "unique_id x = unique_id e"
      by (auto simp: rm_def filter_empty_conv)
    then show ?thesis using ops_ends(3) [OF wf] unique_id_ends [of x e] by fastforce
  qed
  have uk: "fst ` set (users_map g') = node_ids g"
    using p D(5) unfolding g' fst_set_fold_edges_del [of "\<lambda>_. producer_node_id e"]
    by (cases "set rm = {}") auto
  have ok: "fst ` set (operands_map g') = node_ids g"
    using c D(4) unfolding g' fst_set_fold_edges_del [of "\<lambda>_. consumer_node_id e"] by auto
  have du: "distinct (keys (users_map g'))"
    unfolding g' by (rule distinct_keys_fold_edges_del [OF D(3)])
  have do: "distinct (keys (operands_map g'))"
    unfolding g' by (rule distinct_keys_fold_edges_del) (simp add: distinct_update D(2))
  have "node_keys_wf g'"
    using wf uk ok du do unfolding graph_wf_iff node_keys_wf_def g'(3-8) by simp
  moreover have "mirror (ops g') (usr g')"
  proof (rule mirror_filter [OF D(6) remove_edge_effect [OF wf r]])
    show "distinct (map unique_id (ops g' i))" "distinct (map unique_id (usr g' i))" for i
      unfolding g' using D(6) by (auto simp: mirror_def intro!: distinct_fold_edges_del)
  qed
  ultimately show ?thesis
    using wf remove_edge_effect(1) [OF wf r] unfolding graph_wf_iff g'(3-8) by (simp, blast)
qed

lemma remove_nodeD:
  assumes "remove_node i g = Inr (g', n')"
  defines "us \<equiv> fold (\<lambda>e. edges_del (producer_node_id e) e) (ops g i) (users_map g)"
  defines "os \<equiv> fold (\<lambda>e. edges_del (consumer_node_id e) e) (map_get [] us i)
                 (AList.update i (ops g i) (operands_map g))"
  shows "\<exists>n. map_of (nodes_map g) i = Some n \<and> n' = node_set_id (-1) n \<and>
      node_name_to_node_id g' = AList.delete (node_name n) (node_name_to_node_id g)"
    "operands_map g' = AList.delete i os" "users_map g' = AList.delete i us"
    "nodes_map g' = AList.delete i (nodes_map g)"
    "nodes_order g' = removeAll i (nodes_order g)"
    "virtual_nodes g' = removeAll i (virtual_nodes g)"
    "node_id_to_subgraph_id g' = node_id_to_subgraph_id g"
    "edge_to_attr_map g' = edge_to_attr_map g"
  using assms by (auto simp: remove_node_def result_simps Let_def)

lemma remove_node_effect:
  assumes wf: "graph_wf w g" and r: "remove_node i g = Inr (g', n')"
  shows "set (ops g' j) = {x \<in> set (ops g j). producer_node_id x \<noteq> i \<and> consumer_node_id x \<noteq> i}"
    "set (usr g' j) = {x \<in> set (usr g j). producer_node_id x \<noteq> i \<and> consumer_node_id x \<noteq> i}"
proof -
  note D = graph_wfD [OF wf]
  note sets = remove_node_sets [where i = i and j = j, OF D(6) refl refl]
  show "set (ops g' j) = {x \<in> set (ops g j). producer_node_id x \<noteq> i \<and> consumer_node_id x \<noteq> i}"
    unfolding remove_nodeD(2) [OF r] map_get_delete
    using sets(2) mirror_ends(1) [OF D(6), of _ j] by auto
  show "set (usr g' j) = {x \<in> set (usr g j). producer_node_id x \<noteq> i \<and> consumer_node_id x \<noteq> i}"
    unfolding remove_nodeD(3) [OF r] map_get_delete
    using sets(1) mirror_ends(2) [OF D(6), of _ j] by auto
qed

lemma remove_node_wf:
  assumes wf: "graph_wf w g" and r: "remove_node i g = Inr (g', n')"
  shows "graph_wf w g'"
proof -
  note D = graph_wfD [OF wf]
  define us where "us = fold (\<lambda>e. edges_del (producer_node_id e) e) (ops g i) (users_map g)"
  define os where "os = fold (\<lambda>e. edges_del (consumer_node_id e) e) (map_get [] us i)
                 (AList.update i (ops g i) (operands_map g))"
  note g' = remove_nodeD(2-) [OF r, folded us_def, folded os_def]
  from remove_nodeD(1) [OF r] obtain n where n: "map_of (nodes_map g) i = Some n"
    and nm: "node_name_to_node_id g' = AList.delete (node_name n) (node_name_to_node_id g)" by blast
  have i: "i \<in> node_ids g" using n by (auto dest: map_of_SomeD intro: rev_image_eqI)
  have dus: "distinct (map unique_id (map_get [] us j))" for j
    unfolding us_def by (rule distinct_fold_edges_del) (use D(6) in \<open>simp add: mirror_def\<close>)
  have dos: "distinct (map unique_id (map_get [] os j))" for j
    unfolding os_def by (rule distinct_fold_edges_del) (use D(6) in \<open>simp add: mirror_def\<close>)
  have us_sub: "set (map_get [] us i) \<subseteq> set (usr g i)"
    using remove_node_sets(1) [OF D(6) us_def refl] by auto
  have pk: "producer_node_id ` set (ops g i) \<subseteq> node_ids g"
    and ck: "consumer_node_id ` set (map_get [] us i) \<subseteq> node_ids g"
    using ops_ends(3) [OF wf] usr_ends(3) [OF wf] us_sub by blast+
  have uk: "fst ` set us = node_ids g" and ok: "fst ` set os = node_ids g"
    using pk ck D(4,5) i unfolding us_def os_def fst_set_fold_edges_del by auto
  have du: "distinct (keys us)" and do: "distinct (keys os)"
    unfolding us_def os_def using D(2,3)
    by (simp_all add: distinct_keys_fold_edges_del distinct_update)
  have dn: "distinct (keys (nodes_map g'))" unfolding g' by (rule distinct_delete [OF D(1)])
  have ids: "\<forall>(j, m) \<in> set (nodes_map g'). node_unique_id m = j \<and> 0 \<le> j"
    unfolding ball_set_map_of [OF dn] using D(9) by (simp add: g'(3))
  have "node_keys_wf g'"
    using wf uk ok du do dn ids unfolding graph_wf_iff node_keys_wf_def
    by (auto simp: g' distinct_delete distinct_removeAll)
  moreover have "mirror (ops g') (usr g')"
    by (rule mirror_filter [OF D(6) remove_node_effect [OF wf r]])
      (use dos dus in \<open>simp_all add: g'\<close>)
  moreover have "\<exists>m. map_of (nodes_map g') j = Some m \<and> node_name m = s"
    if "map_of (node_name_to_node_id g') s = Some j" for s j
    using that D(11) [of s j] n unfolding nm g' by (auto split: if_splits)
  moreover have "map_of (node_name_to_node_id g') (node_name m) = Some j"
    if "map_of (nodes_map g') j = Some m" for j m
    using that D(10) [of j m] D(10) [OF n] unfolding nm g' by (auto split: if_splits)
  moreover have "distinct (keys (node_name_to_node_id g'))"
    using wf by (simp add: graph_wf_iff nm distinct_delete)
  ultimately show ?thesis
    using wf remove_node_effect(1) [OF wf r] unfolding graph_wf_iff g'(3,7) by auto
qed

lemma set_node_wf:
  assumes wf: "graph_wf w g" and n: "map_of (nodes_map g) i = Some n"
    and m: "node_unique_id m = i" "node_name m = node_name n"
  shows "graph_wf w (set_node i m g)"
proof -
  note D = graph_wfD [OF wf]
  have i: "i \<in> node_ids g" using n by (auto dest: map_of_SomeD intro: rev_image_eqI)
  have d: "distinct (keys (AList.update i m (nodes_map g)))" using D(1) by (simp add: distinct_update)
  have ids: "\<forall>(j, k) \<in> set (AList.update i m (nodes_map g)). node_unique_id k = j \<and> 0 \<le> j"
    unfolding ball_set_map_of [OF d] using D(9) [OF n] D(9) m(1) by auto
  have "node_keys_wf (set_node i m g)"
    using wf ids d i unfolding graph_wf_iff node_keys_wf_def set_node_def by (auto simp: insert_absorb)
  moreover have "(\<forall>j k. map_of (AList.update i m (nodes_map g)) j = Some k \<longrightarrow>
      map_of (node_name_to_node_id g) (node_name k) = Some j)"
    using D(10) [OF n] D(10) m(2) by auto
  moreover have "\<exists>k. map_of (AList.update i m (nodes_map g)) j = Some k \<and> node_name k = s"
    if "map_of (node_name_to_node_id g) s = Some j" for s j
    using D(11) [OF that] n m(2) by auto
  ultimately show ?thesis
    using wf i unfolding graph_wf_iff by (auto simp: set_node_def)
qed

lemma update_node_wf:
  assumes wf: "graph_wf w g" and r: "update_node i f g = Inr g'"
    and f: "\<And>n m. f n = Inr m \<Longrightarrow> node_unique_id m = node_unique_id n \<and> node_name m = node_name n"
  shows "graph_wf w g'"
  using r f graph_wfD(9) [OF wf]
  by (auto simp: update_node_def node_by_id_def result_simps intro!: set_node_wf [OF wf])

lemma update_node_nameD:
  assumes wf: "graph_wf w g" and r: "update_node_name i s g = Inr g'"
  shows "\<exists>n. map_of (nodes_map g) i = Some n \<and>
      map_of (nodes_map g') = (map_of (nodes_map g))(i \<mapsto> node_set_name s n) \<and>
      g' = set_node i (node_set_name s n) g\<lparr>node_name_to_node_id :=
        AList.update s i (AList.delete (node_name n) (node_name_to_node_id g))\<rparr>"
  using r graph_wfD(10) [OF wf, of i]
  by (auto simp: update_node_name_def node_by_id_def result_simps map_get_def set_node_def Let_def)

text \<open>The code does not check that the new name is free; the invariant needs it.\<close>

lemma update_node_name_wf:
  assumes wf: "graph_wf w g" and r: "update_node_name i s g = Inr g'"
    and fresh: "\<not> has_node_with_name g s"
  shows "graph_wf w g'"
proof -
  note D = graph_wfD [OF wf]
  from update_node_nameD [OF wf r] obtain n where n: "map_of (nodes_map g) i = Some n"
    and nm: "map_of (nodes_map g') = (map_of (nodes_map g))(i \<mapsto> node_set_name s n)"
    and g': "g' = set_node i (node_set_name s n) g\<lparr>node_name_to_node_id :=
        AList.update s i (AList.delete (node_name n) (node_name_to_node_id g))\<rparr>" by blast
  have i: "i \<in> node_ids g" using n by (auto dest: map_of_SomeD intro: rev_image_eqI)
  have names: "map_of (node_name_to_node_id g') =
      (map_of (node_name_to_node_id g))(node_name n := None, s \<mapsto> i)"
    by (simp add: g')
  have d: "distinct (keys (nodes_map g'))" using D(1) by (simp add: g' set_node_def distinct_update)
  have ids: "\<forall>(j, k) \<in> set (nodes_map g'). node_unique_id k = j \<and> 0 \<le> j"
    unfolding ball_set_map_of [OF d] nm using D(9) [OF n] D(9) by (auto simp: node_set_name_def)
  have "node_keys_wf g'"
    using wf ids d i unfolding graph_wf_iff node_keys_wf_def
    by (auto simp: g' set_node_def insert_absorb)
  moreover have "\<exists>m. map_of (nodes_map g') j = Some m \<and> node_name m = t"
    if "map_of (node_name_to_node_id g') t = Some j" for t j
    using that D(11) [of t j] n unfolding nm names
    by (auto simp: node_set_name_def split: if_splits)
  moreover have "map_of (node_name_to_node_id g') (node_name m) = Some j"
    if "map_of (nodes_map g') j = Some m" for j m
    using that D(10) [of j m] D(10) [OF n] fresh unfolding nm names has_node_with_name_def
    by (auto simp: node_set_name_def split: if_splits)
  moreover have "distinct (keys (node_name_to_node_id g'))"
    using wf by (simp add: graph_wf_iff g' distinct_update distinct_delete)
  ultimately show ?thesis
    using wf i unfolding graph_wf_iff by (auto simp: g' set_node_def)
qed

lemma graph_wf_frame [simp]:
  "graph_wf w (g\<lparr>module_inputs := xs\<rparr>) = graph_wf w g"
  "graph_wf w (g\<lparr>module_outputs := xs\<rparr>) = graph_wf w g"
  "graph_wf w (g\<lparr>module_targets := xs\<rparr>) = graph_wf w g"
  "graph_wf w (g\<lparr>microbatch := b\<rparr>) = graph_wf w g"
  "graph_wf w (g\<lparr>virtual_node_context := c\<rparr>) = graph_wf w g"
  "graph_wf w (g\<lparr>ignored_edges_context := c'\<rparr>) = graph_wf w g"
  "graph_wf w (g\<lparr>node_context := c\<rparr>) = graph_wf w g"
  by (simp_all add: graph_wf_iff node_keys_wf_def)

lemma graph_wf_subgraphs:
  "graph_wf w g \<Longrightarrow> fst ` set (node_id_to_subgraph_id g) \<subseteq> fst ` set m \<Longrightarrow>
     graph_wf w (g\<lparr>node_id_to_subgraph_id := m, num_subgraphs := k\<rparr>)"
  using subset_trans [of "node_ids g" "fst ` set (node_id_to_subgraph_id g)" "fst ` set m"]
  by (simp add: graph_wf_def node_keys_wf_def names_wf_def edges_wf_def edge_attrs_wf_def counters_wf_def)

lemma move_node_to_subgraph_wf: "graph_wf w g \<Longrightarrow> graph_wf w (move_node_to_subgraph i s g)"
  unfolding move_node_to_subgraph_def by (rule graph_wf_subgraphs) auto

lemma graph_wf_virtual:
  "graph_wf w g \<Longrightarrow> set vs \<subseteq> node_ids g \<Longrightarrow> graph_wf w (g\<lparr>virtual_nodes := vs\<rparr>)"
  by (simp add: graph_wf_def node_keys_wf_def names_wf_def edges_wf_def edge_attrs_wf_def counters_wf_def)

lemma graph_wf_virtual_sub: "graph_wf w g \<Longrightarrow> set (virtual_nodes g) \<subseteq> node_ids g"
  by (simp add: graph_wf_iff node_keys_wf_def)

lemma mark_node_virtual_wf:
  "graph_wf w g \<Longrightarrow> i \<in> node_ids g \<Longrightarrow> graph_wf w (mark_node_virtual i g)"
  unfolding mark_node_virtual_def
  by (rule graph_wf_virtual) (use graph_wf_virtual_sub [of w g] in auto)

lemma mark_node_persisted_wf:
  assumes wf: "graph_wf w g" and r: "mark_node_persisted i g = Inr g'"
  shows "graph_wf w g'"
proof -
  have "g' = g\<lparr>virtual_nodes := removeAll i (virtual_nodes g)\<rparr>"
    using r by (simp add: mark_node_persisted_def result_simps)
  moreover have "set (removeAll i (virtual_nodes g)) \<subseteq> node_ids g"
    using graph_wf_virtual_sub [OF wf] by auto
  ultimately show ?thesis using graph_wf_virtual [OF wf] by blast
qed

lemma world_wf:
  assumes "graph_wf w g" "last_node_id_assigned w \<le> last_node_id_assigned w'"
    "last_edge_creation_id w \<le> last_edge_creation_id w'"
    "length (attr_store w) \<le> length (attr_store w')"
  shows "graph_wf w' g"
  using assms unfolding graph_wf_iff
  by (elim conjE, intro conjI) (auto intro: less_le_trans order_trans, meson less_le_trans)

section \<open>The operations as steps\<close>

text \<open>
  One step is one operation on the graph under the conditions its callers meet: new edges join nodes
  of the graph, a default id is one the counter has given out, a new name is free. The last rule is
  what other graphs of the process do to the shared counters and store.
\<close>

inductive graph_step :: "World \<times> Graph \<Rightarrow> World \<times> Graph \<Rightarrow> bool" where
  step_add_node:
    "add_node n s d w g = Inr (w', g', i) \<Longrightarrow>
     (\<And>j. d = Some j \<Longrightarrow> 0 \<le> j \<and> j \<le> last_node_id_assigned w) \<Longrightarrow> graph_step (w, g) (w', g')"
| step_add_edge:
    "make_edge p pp c cp ty w = (w1, e) \<Longrightarrow> add_edge_attr e a w1 g = (w', g') \<Longrightarrow>
     p \<in> node_ids g \<Longrightarrow> c \<in> node_ids g \<Longrightarrow> (\<And>r. a = Some r \<Longrightarrow> r < length (attr_store w)) \<Longrightarrow>
     graph_step (w, g) (w', g')"
| step_remove_edge:
    "remove_edge e g = Inr (g', r) \<Longrightarrow> consumer_node_id e \<in> node_ids g \<Longrightarrow>
     graph_step (w, g) (w, g')"
| step_remove_node: "remove_node i g = Inr (g', n) \<Longrightarrow> graph_step (w, g) (w, g')"
| step_update_node_name:
    "update_node_name i s g = Inr g' \<Longrightarrow> \<not> has_node_with_name g s \<Longrightarrow> graph_step (w, g) (w, g')"
| step_write_node:
    "map_of (nodes_map g) i = Some n \<Longrightarrow> node_unique_id m = i \<Longrightarrow> node_name m = node_name n \<Longrightarrow>
     graph_step (w, g) (w, set_node i m g)"
| step_move_node: "graph_step (w, g) (w, move_node_to_subgraph i s g)"
| step_mark_virtual: "i \<in> node_ids g \<Longrightarrow> graph_step (w, g) (w, mark_node_virtual i g)"
| step_mark_persisted: "mark_node_persisted i g = Inr g' \<Longrightarrow> graph_step (w, g) (w, g')"
| step_module_lists:
    "graph_step (w, g) (w, g\<lparr>module_inputs := ins, module_outputs := outs, module_targets := tgts\<rparr>)"
| step_enter_context: "enter_context_all ns vs es g = (g', ctx) \<Longrightarrow> graph_step (w, g) (w, g')"
| step_leave_context: "graph_step (w, g) (w, leave_context ctx g)"
| step_write_attr: "graph_step (w, g) (write_attr r a w, g)"
| step_other_graph:
    "last_node_id_assigned w \<le> last_node_id_assigned w' \<Longrightarrow>
     last_edge_creation_id w \<le> last_edge_creation_id w' \<Longrightarrow>
     length (attr_store w) \<le> length (attr_store w') \<Longrightarrow> graph_step (w, g) (w', g)"

inductive graph_reachable :: "World \<times> Graph \<Rightarrow> bool" where
  reach_new: "0 \<le> last_node_id_assigned w \<Longrightarrow> graph_reachable (w, mk_Graph lvl nm uid)"
| reach_step: "graph_reachable s \<Longrightarrow> graph_step s t \<Longrightarrow> graph_reachable t"

inductive_cases graph_stepE: "graph_step (w, g) (w', g')"
inductive_simps graph_reachable_simps: "graph_reachable (w, g)"

lemma make_edgeD:
  "make_edge p pp c cp ty w = (w1, e) \<Longrightarrow>
     w1 = w\<lparr>last_edge_creation_id := Suc (last_edge_creation_id w)\<rparr> \<and>
     e = edge_with_id p pp c cp ty (last_edge_creation_id w)"
  by (auto simp: make_edge_def new_edge_def)

lemma edge_with_id_sel [simp]:
  "producer_node_id (edge_with_id p pp c cp ty n) = p"
  "producer_output_port_id (edge_with_id p pp c cp ty n) = pp"
  "consumer_node_id (edge_with_id p pp c cp ty n) = c"
  "consumer_input_port_id (edge_with_id p pp c cp ty n) = cp"
  "edge_type (edge_with_id p pp c cp ty n) = ty"
  "edge_creation_id (edge_with_id p pp c cp ty n) = n"
  "unique_id (edge_with_id p pp c cp ty n) = (p, pp, c, cp, ty)"
  by (simp_all add: edge_with_id_def unique_id_def)

lemma add_new_edge_wf:
  assumes wf: "graph_wf w g" and e: "make_edge p pp c cp ty w = (w1, e)"
    and r: "add_edge_attr e a w1 g = (w', g')"
    and ends: "p \<in> node_ids g" "c \<in> node_ids g"
    and a: "\<And>r. a = Some r \<Longrightarrow> r < length (attr_store w)"
  shows "graph_wf w' g'"
proof (rule add_edge_attr_wf [OF _ r])
  show "graph_wf w1 g" by (rule world_wf [OF wf]) (use make_edgeD [OF e] in simp_all)
qed (use make_edgeD [OF e] ends a in simp_all)

lemma graph_step_wf:
  assumes "graph_step s t" "case s of (w, g) \<Rightarrow> graph_wf w g"
  shows "case t of (w, g) \<Rightarrow> graph_wf w g"
  using assms
proof (cases rule: graph_step.cases)
  case (step_write_attr w g r a)
  with assms(2) show ?thesis by (simp add: write_attr_def world_wf)
next
  case (step_other_graph w w' g)
  with assms(2) show ?thesis by (simp add: world_wf)
next
  case (step_add_node n s d w g w' g' i)
  with assms(2) show ?thesis using add_node_wf by simp
next
  case (step_add_edge p pp c cp ty w w1 e a g w' g')
  have "graph_wf w' g'"
    by (rule add_new_edge_wf [OF _ step_add_edge(3-7)]) (use assms(2) step_add_edge in simp)
  then show ?thesis by (simp add: step_add_edge)
next
  case (step_remove_edge e g g' r w)
  have "graph_wf w g'"
    by (rule remove_edge_wf [OF _ step_remove_edge(3,4)]) (use assms(2) step_remove_edge in simp)
  then show ?thesis by (simp add: step_remove_edge)
next
  case (step_mark_virtual i g w)
  have "graph_wf w (mark_node_virtual i g)"
    by (rule mark_node_virtual_wf [OF _ step_mark_virtual(3)]) (use assms(2) step_mark_virtual in simp)
  then show ?thesis by (simp add: step_mark_virtual)
qed (auto simp: enter_context_all_def leave_context_def
      intro: remove_node_wf update_node_name_wf set_node_wf move_node_to_subgraph_wf
        mark_node_persisted_wf)

text \<open>C23: every operation, in any sequence, keeps the invariant when it is called under the conditions of
  \<open>graph_step\<close>, which the code does not check: edges join nodes of the graph, a default id was given out
  before, a new name is free. The invariant: ids and names identify the nodes, the operand and user sets
  mirror each other, no edge hangs in the air or lacks its attributes.\<close>

theorem graph_reachable_wf: "graph_reachable (w, g) \<Longrightarrow> graph_wf w g"
proof (induction "(w, g)" arbitrary: w g rule: graph_reachable.induct)
  case (reach_new w lvl nm uid)
  then show ?case by (rule mk_Graph_wf)
next
  case (reach_step s w g)
  obtain w0 g0 where s: "s = (w0, g0)" by force
  from reach_step.hyps(2) [OF s] graph_step_wf [OF reach_step.hyps(3)] show ?case
    by (simp add: s)
qed

section \<open>The graph as nodes and edges\<close>

definition graph_edges :: "Graph \<Rightarrow> Edge list" where
  "graph_edges g = concat (map snd (operands_map g))"

definition edge_ids :: "Graph \<Rightarrow> EdgeUniqueId set" where
  "edge_ids g = unique_id ` set (graph_edges g)"

lemma mem_graph_edges:
  "distinct (keys (operands_map g)) \<Longrightarrow> e \<in> set (graph_edges g) \<longleftrightarrow> (\<exists>i. e \<in> set (ops g i))"
  unfolding graph_edges_def mem_map_get
  by (auto simp: map_of_eq_Some_iff) (metis snd_conv)+

lemma edge_ids_ops:
  "distinct (keys (operands_map g)) \<Longrightarrow> edge_ids g = (\<Union>i. unique_id ` set (ops g i))"
  by (simp add: edge_ids_def image_UN [symmetric])
    (rule arg_cong [of _ _ "image unique_id"], auto simp: mem_graph_edges)

lemma graph_edges_ends:
  assumes "graph_wf w g" "e \<in> set (graph_edges g)"
  shows "e \<in> set (ops g (consumer_node_id e))" "e \<in> set (usr g (producer_node_id e))"
    "consumer_node_id e \<in> node_ids g" "producer_node_id e \<in> node_ids g"
    "unique_id e \<in> set (keys (edge_to_attr_map g))"
proof -
  from assms(2) obtain i where "e \<in> set (ops g i)"
    using mem_graph_edges [OF graph_wfD(2) [OF assms(1)]] by blast
  with ops_ends [OF assms(1)] graph_wfD(12) [OF assms(1)]
  show "e \<in> set (ops g (consumer_node_id e))" "e \<in> set (usr g (producer_node_id e))"
    "consumer_node_id e \<in> node_ids g" "producer_node_id e \<in> node_ids g"
    "unique_id e \<in> set (keys (edge_to_attr_map g))" by auto
qed

subsection \<open>An example graph: an input, an op, an output and the edges between them\<close>

definition example_relu :: OpType where
  "example_relu = \<lparr>op_name = ''relu'', legacy_attrs = [], named_attrs = [],
     new_op = \<lparr>op_type = Op_Relu, op_attrs = []\<rparr>\<rparr>"

definition example_graph :: "(World \<times> Graph) result" where
  "example_graph =
     rbind (add_node (mk_InputNode ''x'' In_Activation False) 0 None initial_world
              (mk_Graph IR_TT_FORGE ''g'' 0)) (\<lambda>(w1, g1, x).
     rbind (add_node (mk_PyOpNode ''relu'' example_relu) 0 None w1 g1) (\<lambda>(w2, g2, r).
     rbind (add_node (mk_OutputNode ''y'') 0 None w2 g2) (\<lambda>(w3, g3, y).
       case add_edge_ports x r 0 0 kData w3 g3 of (w4, g4) \<Rightarrow>
         Inr (add_edge_ports r y 0 0 kData w4 g4))))"

lemma example_graph_value:
  "case example_graph of Inl _ \<Rightarrow> False
   | Inr (w, g) \<Rightarrow> keys (nodes_map g) = [1, 2, 3] \<and> last_node_id_assigned w = 3 \<and>
       map unique_id (graph_edges g) = [(1, 0, 2, 0, kData), (2, 0, 3, 0, kData)] \<and>
       map (\<lambda>(i, n). node_name n) (nodes_map g) = [''x'', ''relu'', ''y''] \<and>
       length (attr_store w) = 2 \<and> last_edge_creation_id w = 2"
  by code_simp

lemma example_graph_reachable:
  assumes "example_graph = Inr (w, g)"
  shows "graph_reachable (w, g)"
proof -
  from assms obtain w1 g1 x w2 g2 r w3 g3 y where
    1: "add_node (mk_InputNode ''x'' In_Activation False) 0 None initial_world
          (mk_Graph IR_TT_FORGE ''g'' 0) = Inr (w1, g1, x)" and
    2: "add_node (mk_PyOpNode ''relu'' example_relu) 0 None w1 g1 = Inr (w2, g2, r)" and
    3: "add_node (mk_OutputNode ''y'') 0 None w2 g2 = Inr (w3, g3, y)" and
    r: "(case add_edge_ports x r 0 0 kData w3 g3 of (w4, g4) \<Rightarrow>
         Inr (add_edge_ports r y 0 0 kData w4 g4)) = (Inr (w, g) :: (World \<times> Graph) result)"
    by (auto simp: example_graph_def result_simps)
  obtain w4 g4 where 4: "add_edge_ports x r 0 0 kData w3 g3 = (w4, g4)" by force
  with r have 5: "add_edge_ports r y 0 0 kData w4 g4 = (w, g)" by simp
  have r1: "graph_reachable (w1, g1)"
    by (rule reach_step [OF reach_new step_add_node [OF 1]]) (simp_all add: initial_world_def)
  have r2: "graph_reachable (w2, g2)" by (rule reach_step [OF r1 step_add_node [OF 2]]) simp
  have r3: "graph_reachable (w3, g3)" by (rule reach_step [OF r2 step_add_node [OF 3]]) simp
  have ids: "x \<in> node_ids g3" "r \<in> node_ids g3" "y \<in> node_ids g3"
    using 1 2 3 by (auto simp: add_node_Inr)
  obtain wa ea where m: "make_edge x 0 r 0 kData w3 = (wa, ea)" by force
  have r4: "graph_reachable (w4, g4)"
    by (rule reach_step [OF r3 step_add_edge [OF m, where a = None]])
      (use 4 m ids in \<open>simp_all add: add_edge_ports_def add_edge_def\<close>)
  have n4: "nodes_map g4 = nodes_map g3"
    using 4 m by (auto simp: add_edge_ports_def add_edge_def dest: add_edge_attr_effect(3))
  obtain wb eb where n: "make_edge r 0 y 0 kData w4 = (wb, eb)" by force
  show ?thesis
    by (rule reach_step [OF r4 step_add_edge [OF n, where a = None]])
      (use 5 n ids n4 in \<open>simp_all add: add_edge_ports_def add_edge_def\<close>)
qed

theorem graph_reachable_wf_witness:
  "case example_graph of Inl _ \<Rightarrow> False | Inr (w, g) \<Rightarrow> graph_wf w g \<and> node_ids g = {1, 2, 3}"
proof (cases example_graph)
  case (Inl e)
  show ?thesis using example_graph_value by (simp add: Inl)
next
  case (Inr wg)
  obtain w g where wg: "wg = (w, g)" by force
  have "keys (nodes_map g) = [1, 2, 3]" using example_graph_value by (simp add: Inr wg)
  then have "node_ids g = {1, 2, 3}" by simp
  with graph_reachable_wf [OF example_graph_reachable [of w g]] show ?thesis
    unfolding Inr wg by simp
qed

section \<open>What the operations do to nodes and edges\<close>

definition example_w :: World where
  "example_w = (case example_graph of Inr (w, g) \<Rightarrow> w | Inl _ \<Rightarrow> initial_world)"

definition example_g :: Graph where
  "example_g = (case example_graph of Inr (w, g) \<Rightarrow> g | Inl _ \<Rightarrow> mk_Graph_default IR_TT_FORGE)"

lemma example_wf: "graph_wf example_w example_g"
  by code_simp

lemma example_node: "map_of (nodes_map example_g) 2 =
    Some (node_set_id 2 (mk_PyOpNode ''relu'' example_relu))"
  by code_simp

lemma UN_insert_at: "(\<Union>i. if i = c then insert a (F i) else F i) = insert a (\<Union>i. F i)"
  by (auto split: if_splits)

lemma get_node_by_name_wf:
  assumes "graph_wf w g"
  shows "get_node_by_name g s b = (case map_of (node_name_to_node_id g) s of
     None \<Rightarrow> if b then Inl Runtime_error else Inr None | Some i \<Rightarrow> Inr (Some i))"
  using graph_wfD(11) [OF assms, of s]
  by (auto simp: get_node_by_name_def has_node_with_name_def has_node_with_id_def map_at_def
      split: option.splits)

lemma edge_ids_add_edge:
  assumes wf: "graph_wf w g" and r: "add_edge_attr e a w g = (w', g')"
  shows "edge_ids g' = insert (unique_id e) (edge_ids g)"
proof -
  note eff = add_edge_attr_effect [OF r]
  have d: "distinct (keys (operands_map g'))"
    using graph_wfD(2) [OF wf] add_edge_attrD(2) [OF r] by (simp add: edges_add_def distinct_update)
  have k: "unique_id ` set (ops g' i) = (if i = consumer_node_id e
      then insert (unique_id e) (unique_id ` set (ops g i)) else unique_id ` set (ops g i))" for i
    unfolding eff(1) by (simp add: es.keys_ins)
  show ?thesis
    unfolding edge_ids_ops [OF d] edge_ids_ops [OF graph_wfD(2) [OF wf]] k by (rule UN_insert_at)
qed

lemma edge_ids_remove_edge:
  assumes wf: "graph_wf w g" and r: "remove_edge e g = Inr (g', r)"
    and c: "consumer_node_id e \<in> node_ids g"
  shows "edge_ids g' = edge_ids g - {unique_id e}"
proof -
  have wf': "graph_wf w g'" by (rule remove_edge_wf [OF wf r c])
  show ?thesis
    unfolding edge_ids_ops [OF graph_wfD(2) [OF wf']] edge_ids_ops [OF graph_wfD(2) [OF wf]]
    by (auto simp: remove_edge_effect [OF wf r])
qed

lemma edge_ids_remove_node:
  assumes wf: "graph_wf w g" and r: "remove_node i g = Inr (g', n)"
  shows "edge_ids g' = {(p, pp, c, cp, ty) \<in> edge_ids g. p \<noteq> i \<and> c \<noteq> i}"
proof -
  have wf': "graph_wf w g'" by (rule remove_node_wf [OF wf r])
  show ?thesis
    unfolding edge_ids_ops [OF graph_wfD(2) [OF wf']] edge_ids_ops [OF graph_wfD(2) [OF wf]]
    by (auto simp: remove_node_effect [OF wf r] unique_id_def image_iff)
qed

lemma edge_ids_add_node:
  assumes wf: "graph_wf w g" and r: "add_node n s d w g = Inr (w', g', i)"
    and d: "\<And>j. d = Some j \<Longrightarrow> 0 \<le> j \<and> j \<le> last_node_id_assigned w"
  shows "edge_ids g' = edge_ids g"
  using edge_ids_ops [OF graph_wfD(2) [OF add_node_wf [OF wf r d]]] edge_ids_ops [OF graph_wfD(2) [OF wf]]
    add_node_effect(4) [OF wf r] by simp

text \<open>adding a node without an id fails exactly on a name in use; otherwise it gets the next
  id, is found under its id and its name, and no other node or edge changes.\<close>

theorem add_node_correct:
  assumes wf: "graph_wf w g"
  shows "case add_node n s None w g of
     Inl e \<Rightarrow> e = Runtime_error \<and> has_node_with_name g (node_name n)
   | Inr (w', g', i) \<Rightarrow> \<not> has_node_with_name g (node_name n) \<and>
       i = last_node_id_assigned w + 1 \<and> i \<notin> node_ids g \<and> node_ids g' = insert i (node_ids g) \<and>
       edge_ids g' = edge_ids g \<and> node_by_id g' i = Inr (node_set_id i n) \<and>
       get_node_by_name g' (node_name n) True = Inr (Some i) \<and>
       (\<forall>j. j \<noteq> i \<longrightarrow> node_by_id g' j = node_by_id g j)"
proof (cases "add_node n s None w g")
  case (Inl e)
  have "last_node_id_assigned w + 1 \<notin> node_ids g"
    using wf by (force simp: graph_wf_iff)
  then have "\<not> has_node_with_id g (last_node_id_assigned w + 1)"
    by (simp add: has_node_with_id_def map_of_eq_None_iff)
  then show ?thesis
    using Inl by (auto simp: add_node_def generate_unique_node_id_def Let_def req_def split: if_splits)
next
  case (Inr x)
  obtain w' g' i where x: "x = (w', g', i)" by (cases x)
  note r = Inr [unfolded x]
  note eff = add_node_effect [OF wf r]
  have wf': "graph_wf w' g'" by (rule add_node_wf [OF wf r]) simp
  have "edge_ids g' = edge_ids g" by (rule edge_ids_add_node [OF wf r]) simp
  moreover have "get_node_by_name g' (node_name n) True = Inr (Some i)"
    unfolding get_node_by_name_wf [OF wf'] eff(10) by simp
  ultimately show ?thesis
    unfolding r prod.case sum.case using eff by (simp add: node_by_id_def has_node_with_name_def)
qed

theorem add_node_correct_witness:
  "case add_node (mk_OutputNode ''z'') 0 None example_w example_g of
     Inl e \<Rightarrow> False
   | Inr (w', g', i) \<Rightarrow> i = 4 \<and> edge_ids g' = edge_ids example_g"
proof -
  have "\<not> has_node_with_name example_g ''z''" "last_node_id_assigned example_w = 3"
    by code_simp+
  with add_node_correct [OF example_wf, of "mk_OutputNode ''z''" 0] show ?thesis
    by (auto simp: mk_OutputNode_def base_node_def split: sum.splits)
qed

text \<open>C25: adding an edge between nodes of the graph adds exactly its identity to the edges, leaves
  the nodes alone and gives the edge attributes: those it is handed or fresh ones, except that
  attributes recorded before under the same identity stay.\<close>

theorem add_edge_correct:
  assumes wf: "graph_wf w g"
    and ends: "producer_node_id e \<in> node_ids g" "consumer_node_id e \<in> node_ids g"
  shows "case add_edge_attr e a w g of (w', g') \<Rightarrow>
     edge_ids g' = insert (unique_id e) (edge_ids g) \<and> nodes_map g' = nodes_map g \<and>
     get_edge_attributes g' e = Inr (case map_of (edge_to_attr_map g) (unique_id e) of
         Some r \<Rightarrow> r
       | None \<Rightarrow> (case a of Some r \<Rightarrow> r | None \<Rightarrow> length (attr_store w)))"
proof -
  obtain w' g' where r: "add_edge_attr e a w g = (w', g')" by force
  show ?thesis
    unfolding r using edge_ids_add_edge [OF wf r] add_edge_attr_effect(3) [OF r] add_edge_attrD(2) [OF r]
    by (auto simp: get_edge_attributes_def map_of_insert map_at_def split: option.splits)
qed

theorem add_edge_correct_witness:
  "edge_ids (snd (add_edge_attr (edge_with_id 1 0 3 1 kControl 7) None example_w example_g)) =
     insert (1, 0, 3, 1, kControl) (edge_ids example_g)"
proof -
  have "keys (nodes_map example_g) = [1, 2, 3]" by code_simp
  then have "node_ids example_g = {1, 2, 3}" by simp
  with add_edge_correct [OF example_wf, of "edge_with_id 1 0 3 1 kControl 7" None] show ?thesis
    by (auto split: prod.splits)
qed

text \<open>removing an edge of nodes of the graph takes exactly its identity out of the edges and
  returns the attributes recorded for it; it fails exactly when no attributes are recorded.\<close>

theorem remove_edge_correct:
  assumes wf: "graph_wf w g" and c: "consumer_node_id e \<in> node_ids g"
  shows "case remove_edge e g of
     Inl err \<Rightarrow> err = Out_of_range \<and> get_edge_attributes g e = Inl Out_of_range
   | Inr (g', r) \<Rightarrow> graph_wf w g' \<and> get_edge_attributes g e = Inr r \<and>
       edge_ids g' = edge_ids g - {unique_id e} \<and> nodes_map g' = nodes_map g"
proof (cases "remove_edge e g")
  case (Inl err)
  then show ?thesis
    using Inl [unfolded remove_edge_Inl] by (simp add: get_edge_attributes_def)
next
  case (Inr x)
  obtain g' r where x: "x = (g', r)" by force
  note r = Inr [unfolded x]
  have wf': "graph_wf w g'" by (rule remove_edge_wf [OF wf r c])
  with wf' edge_ids_remove_edge [OF wf r c] show ?thesis
    unfolding r using remove_edgeD(1,4) [OF r] by (simp add: get_edge_attributes_def)
qed

theorem remove_edge_correct_witness:
  "case remove_edge (edge_with_id 1 0 2 0 kData 0) example_g of
     Inl err \<Rightarrow> False
   | Inr (g', r) \<Rightarrow> graph_wf example_w g' \<and>
       edge_ids g' = edge_ids example_g - {(1, 0, 2, 0, kData)}"
proof -
  have "keys (nodes_map example_g) = [1, 2, 3]"
    "get_edge_attributes example_g (edge_with_id 1 0 2 0 kData 0) = Inr 0" by code_simp+
  then have "node_ids example_g = {1, 2, 3}"
    "get_edge_attributes example_g (edge_with_id 1 0 2 0 kData 0) = Inr 0" by simp_all
  with remove_edge_correct [OF example_wf, of "edge_with_id 1 0 2 0 kData 0"] show ?thesis
    by (auto split: sum.splits)
qed

text \<open>C24: removing a node takes out the node, its name and exactly the edges it is an end of, and
  returns it without an id; it fails exactly when there is no such node.\<close>

theorem remove_node_correct:
  assumes wf: "graph_wf w g"
  shows "case remove_node i g of
     Inl err \<Rightarrow> err = Out_of_range \<and> i \<notin> node_ids g
   | Inr (g', n) \<Rightarrow> graph_wf w g' \<and> node_unique_id n = -1 \<and> node_ids g' = node_ids g - {i} \<and>
       \<not> has_node_with_name g' (node_name n) \<and>
       edge_ids g' = {(p, pp, c, cp, ty) \<in> edge_ids g. p \<noteq> i \<and> c \<noteq> i}"
proof (cases "remove_node i g")
  case (Inl err)
  then show ?thesis
    by (cases "map_of (nodes_map g) i")
      (auto simp: remove_node_def Let_def map_of_eq_None_iff)
next
  case (Inr x)
  obtain g' n' where x: "x = (g', n')" by force
  note r = Inr [unfolded x]
  have wf': "graph_wf w g'" by (rule remove_node_wf [OF wf r])
  from remove_nodeD(1) [OF r] obtain n where n: "n' = node_set_id (-1) n"
    "node_name_to_node_id g' = AList.delete (node_name n) (node_name_to_node_id g)" by blast
  with wf' edge_ids_remove_node [OF wf r] show ?thesis
    unfolding r sum.case prod.case using n remove_nodeD(4) [OF r]
    by (auto simp: node_set_id_def has_node_with_name_def)
qed

theorem remove_node_correct_witness:
  "case remove_node 2 example_g of
     Inl err \<Rightarrow> False
   | Inr (g', n) \<Rightarrow> graph_wf example_w g' \<and> node_ids g' = {1, 3} \<and> edge_ids g' = {}"
proof -
  have "keys (nodes_map example_g) = [1, 2, 3]"
    "map unique_id (graph_edges example_g) = [(1, 0, 2, 0, kData), (2, 0, 3, 0, kData)]"
    by code_simp+
  then have "node_ids example_g = {1, 2, 3}"
    "edge_ids example_g = {(1, 0, 2, 0, kData), (2, 0, 3, 0, kData)}"
    unfolding edge_ids_def set_map [symmetric] by simp_all
  with remove_node_correct [OF example_wf, of 2] show ?thesis
    by (auto split: sum.splits)
qed

text \<open>renaming a node to a free name makes it, and nothing else, reachable under the new name
  and frees the old one.\<close>

theorem update_node_name_correct:
  assumes wf: "graph_wf w g" and fresh: "\<not> has_node_with_name g s"
    and n: "map_of (nodes_map g) i = Some n"
  shows "\<exists>g'. update_node_name i s g = Inr g' \<and> graph_wf w g' \<and> edge_ids g' = edge_ids g \<and>
     node_by_id g' i = Inr (node_set_name s n) \<and>
     (\<forall>t. get_node_by_name g' t False = (if t = s then Inr (Some i)
        else if t = node_name n then Inr None else get_node_by_name g t False))"
proof -
  obtain g' where r: "update_node_name i s g = Inr g'"
    using n by (simp add: update_node_name_def node_by_id_def Let_def)
  from update_node_nameD [OF wf r] n
  have nm: "map_of (nodes_map g') = (map_of (nodes_map g))(i \<mapsto> node_set_name s n)"
    and g': "g' = set_node i (node_set_name s n) g\<lparr>node_name_to_node_id :=
        AList.update s i (AList.delete (node_name n) (node_name_to_node_id g))\<rparr>" by auto
  have wf': "graph_wf w g'" by (rule update_node_name_wf [OF wf r fresh])
  have e: "edge_ids g' = edge_ids g"
    by (simp add: edge_ids_def graph_edges_def g' set_node_def)
  have "get_node_by_name g' t False = (if t = s then Inr (Some i)
        else if t = node_name n then Inr None else get_node_by_name g t False)" for t
    unfolding get_node_by_name_wf [OF wf'] get_node_by_name_wf [OF wf] by (simp add: g')
  with r wf' e nm show ?thesis by (simp add: node_by_id_def)
qed

theorem update_node_name_correct_witness:
  "\<exists>g'. update_node_name 2 ''op'' example_g = Inr g' \<and>
     get_node_by_name g' ''op'' False = Inr (Some 2) \<and> get_node_by_name g' ''relu'' False = Inr None"
proof -
  have f: "\<not> has_node_with_name example_g ''op''" by code_simp
  have nm: "node_name (node_set_id 2 (mk_PyOpNode ''relu'' example_relu)) = ''relu''" by code_simp
  from update_node_name_correct [OF example_wf f example_node] show ?thesis
    unfolding nm by auto
qed

text \<open>C26: attributes outlive their edge. When an edge is removed and an edge with the same identity
  is added with other attributes, the graph still answers with the old ones.\<close>

theorem stale_edge_attributes:
  "case remove_edge e g of
     Inl err \<Rightarrow> True
   | Inr (g1, r) \<Rightarrow> get_edge_attributes (snd (add_edge_attr e (Some r') w g1)) e = Inr r"
proof (cases "remove_edge e g")
  case (Inr x)
  obtain g1 r where x: "x = (g1, r)" by force
  note r = remove_edgeD(1,9) [OF Inr [unfolded x]]
  show ?thesis
    unfolding Inr x using r
    by (simp add: add_edge_attr_eq get_edge_attributes_def map_at_def map_of_insert)
qed simp

end
