(* ===== verification/Graph_Clone.thy ===== *)
theory Graph_Clone
  imports Graph_Inv
begin

text \<open>
  \<open>Graph::clone\<close> of \<open>graph.cpp\<close> makes the same graph: the nodes stage and the edges stage each have
  an invariant over the part already copied. The edges stage is an instance of \<open>edge_builder\<close>,
  the contract of a loop that adds edges one at a time.
\<close>

section \<open>Building edges in a loop\<close>

locale edge_builder =
  fixes ok :: "'s \<Rightarrow> bool"
    and edges :: "'s \<Rightarrow> 'k set"
    and key :: "'e \<Rightarrow> 'k"
    and fits :: "'e \<Rightarrow> bool"
    and build :: "'s \<Rightarrow> 'e \<Rightarrow> 's result"
  assumes build_total: "ok s \<Longrightarrow> fits e \<Longrightarrow> \<exists>t. build s e = Inr t"
    and build_ok: "ok s \<Longrightarrow> fits e \<Longrightarrow> build s e = Inr t \<Longrightarrow> ok t"
    and edges_build: "ok s \<Longrightarrow> fits e \<Longrightarrow> build s e = Inr t \<Longrightarrow> edges t = insert (key e) (edges s)"
begin

lemma build_all:
  "ok s \<Longrightarrow> \<forall>e \<in> set es. fits e \<Longrightarrow>
     \<exists>t. foldR build s es = Inr t \<and> ok t \<and> edges t = key ` set es \<union> edges s"
proof (induction es arbitrary: s)
  case Nil
  then show ?case by simp
next
  case (Cons e es)
  from Cons.prems have "fits e" by simp
  with build_total [OF Cons.prems(1)] obtain t where t: "build s e = Inr t" by blast
  with Cons.prems have "ok t" "edges t = insert (key e) (edges s)"
    using build_ok edges_build by auto
  with Cons.IH [of t] Cons.prems t show ?case by auto
qed

end

section \<open>The edges stage\<close>

definition same_tms :: "EdgeAttributes \<Rightarrow> EdgeAttributes \<Rightarrow> bool" where
  "same_tms a b \<longleftrightarrow> tms a = tms b \<and> ublock_order a = ublock_order b"

definition attrs_copied :: "World \<Rightarrow> Graph \<Rightarrow> World \<times> Graph \<Rightarrow> bool" where
  "attrs_copied w0 g s = (case s of (w, c) \<Rightarrow>
     length (attr_store w0) \<le> length (attr_store w) \<and>
     (\<forall>r < length (attr_store w0). attr_store w ! r = attr_store w0 ! r) \<and>
     (\<forall>u r'. map_of (edge_to_attr_map c) u = Some r' \<longrightarrow> length (attr_store w0) \<le> r' \<and>
        r' < length (attr_store w) \<and>
        (\<exists>r. map_of (edge_to_attr_map g) u = Some r \<and>
           same_tms (attr_store w ! r') (attr_store w0 ! r))) \<and>
     (\<forall>u v r. map_of (edge_to_attr_map c) u = Some r \<longrightarrow>
        map_of (edge_to_attr_map c) v = Some r \<longrightarrow> u = v))"

definition clone_ok :: "World \<Rightarrow> Graph \<Rightarrow> (NodeId \<times> NodeId) list \<Rightarrow> World \<times> Graph \<Rightarrow> bool" where
  "clone_ok w0 g m s = (case s of (w, c) \<Rightarrow>
     graph_wf w0 g \<and> graph_wf w c \<and> node_ids c = node_ids g \<and>
     (\<forall>i \<in> node_ids g. map_of m i = Some i) \<and> attrs_copied w0 g s)"

lemma clone_one_edge_eq:
  assumes m: "map_of m (producer_node_id e) = Some (producer_node_id e)"
    "map_of m (consumer_node_id e) = Some (consumer_node_id e)"
  shows "clone_one_edge old m (w, c) e =
     (let w1 = w\<lparr>last_edge_creation_id := Suc (last_edge_creation_id w)\<rparr>;
          e' = e\<lparr>edge_creation_id := last_edge_creation_id w\<rparr>
      in case add_edge_attr e' None w1 c of (w2, c2) \<Rightarrow>
           rbind (copy_edge_attributes e e' old w2 c2) (\<lambda>w3. Inr (w3, c2)))"
  by (cases e) (use m in \<open>simp add: clone_one_edge_def make_edge_def new_edge_def edge_with_id_def
      add_edge_def Let_def\<close>)

lemma unique_id_creation [simp]: "unique_id (e\<lparr>edge_creation_id := k\<rparr>) = unique_id e"
  by (simp add: unique_id_def)

lemma clone_one_edge_step:
  assumes ok: "clone_ok w0 g m (w, c)" and e: "e \<in> set (graph_edges g)"
  shows "\<exists>w3 c2. clone_one_edge g m (w, c) e = Inr (w3, c2) \<and> clone_ok w0 g m (w3, c2) \<and>
     edge_ids c2 = insert (unique_id e) (edge_ids c) \<and>
     nodes_map c2 = nodes_map c \<and> module_inputs c2 = module_inputs c \<and>
     module_outputs c2 = module_outputs c \<and> module_targets c2 = module_targets c"
proof -
  note wf0 = ok [unfolded clone_ok_def prod.case, THEN conjunct1]
  have wf: "graph_wf w c" and ids: "node_ids c = node_ids g"
    and m: "\<forall>i \<in> node_ids g. map_of m i = Some i" and cp: "attrs_copied w0 g (w, c)"
    using ok by (auto simp: clone_ok_def)
  note ends = graph_edges_ends [OF wf0 e]
  have cp1: "length (attr_store w0) \<le> length (attr_store w)"
    and cp2: "\<And>k. k < length (attr_store w0) \<Longrightarrow> attr_store w ! k = attr_store w0 ! k"
    and cp3: "\<And>u k. map_of (edge_to_attr_map c) u = Some k \<Longrightarrow> length (attr_store w0) \<le> k \<and>
      k < length (attr_store w) \<and> (\<exists>r. map_of (edge_to_attr_map g) u = Some r \<and>
        same_tms (attr_store w ! k) (attr_store w0 ! r))"
    and cp4: "\<And>u v k. map_of (edge_to_attr_map c) u = Some k \<Longrightarrow>
      map_of (edge_to_attr_map c) v = Some k \<Longrightarrow> u = v"
    using cp unfolding attrs_copied_def prod.case by blast+
  define w1 where "w1 = w\<lparr>last_edge_creation_id := Suc (last_edge_creation_id w)\<rparr>"
  define e' where "e' = e\<lparr>edge_creation_id := last_edge_creation_id w\<rparr>"
  have wf1: "graph_wf w1 c" by (rule world_wf [OF wf]) (simp_all add: w1_def)
  obtain w2 c2 where a: "add_edge_attr e' None w1 c = (w2, c2)" by force
  have e'sel: "unique_id e' = unique_id e" "producer_node_id e' = producer_node_id e"
    "consumer_node_id e' = consumer_node_id e" "edge_creation_id e' = last_edge_creation_id w"
    by (simp_all add: e'_def)
  have wf2: "graph_wf w2 c2"
    by (rule add_edge_attr_wf [OF wf1 a]) (use ends ids in \<open>simp_all add: e'sel w1_def\<close>)
  note D = add_edge_attrD [OF a]
  have E: "edge_ids c2 = insert (unique_id e) (edge_ids c)"
    using edge_ids_add_edge [OF wf1 a] by (simp add: e'sel)
  obtain r where r: "map_of (edge_to_attr_map g) (unique_id e) = Some r"
    using ends(5) by (metis list.set_map map_of_eq_None_iff not_None_eq)
  have rl: "r < length (attr_store w0)" by (rule graph_wfD(14) [OF wf0 r])
  define r' where "r' = (case map_of (edge_to_attr_map c) (unique_id e) of Some x \<Rightarrow> x
      | None \<Rightarrow> length (attr_store w))"
  have st: "attr_store w2 = attr_store w @ [create_edge_attributes (edge_type e')]"
    using D(1) by (simp add: w1_def)
  have at: "map_of (edge_to_attr_map c2) =
      (map_of (edge_to_attr_map c))(unique_id e \<mapsto> r')"
    unfolding D(2) by (rule ext) (auto simp: map_of_insert e'sel w1_def r'_def split: option.splits)
  have r'l: "r' < length (attr_store w2)" "length (attr_store w0) \<le> r'"
    using cp1 cp3 [of "unique_id e"] by (auto simp: r'_def st split: option.splits)
  have old: "attr_store w2 ! r = attr_store w0 ! r"
    using cp1 cp2 [OF rl] rl by (simp add: st nth_append)
  define w3 where "w3 = write_attr r' (copy_from (attr_store w0 ! r) (attr_store w2 ! r')) w2"
  have copy: "copy_edge_attributes e e' g w2 c2 = Inr w3"
    using r r'l rl old st cp1
    by (simp add: copy_edge_attributes_def edge_attr_def get_edge_attributes_def read_attr_def
        at e'sel w3_def)
  have step: "clone_one_edge g m (w, c) e = Inr (w3, c2)"
    using clone_one_edge_eq [OF bspec [OF m ends(4)] bspec [OF m ends(3)], of g w c] a copy
    by (simp add: w1_def e'_def Let_def)
  have wf3: "graph_wf w3 c2" by (rule world_wf [OF wf2]) (simp_all add: w3_def write_attr_def)
  have fresh: "map_of (edge_to_attr_map c) u \<noteq> Some r'" if "u \<noteq> unique_id e" for u
  proof
    assume u: "map_of (edge_to_attr_map c) u = Some r'"
    with cp3 [OF u] show False
      using cp4 [OF u, of "unique_id e"] that by (auto simp: r'_def split: option.splits)
  qed
  have "attrs_copied w0 g (w3, c2)"
    unfolding attrs_copied_def prod.case
  proof (intro conjI allI impI)
    show "length (attr_store w0) \<le> length (attr_store w3)"
      using cp1 by (simp add: w3_def write_attr_def st)
    show "attr_store w3 ! k = attr_store w0 ! k" if "k < length (attr_store w0)" for k
      using cp1 cp2 [OF that] that r'l by (simp add: w3_def write_attr_def st nth_append)
    show "u = v" if "map_of (edge_to_attr_map c2) u = Some k" "map_of (edge_to_attr_map c2) v = Some k"
      for u v k
      using that fresh [of u] fresh [of v] cp4 [of u k v] unfolding at
      by (simp split: if_splits)
    fix u k
    assume k: "map_of (edge_to_attr_map c2) u = Some k"
    show "length (attr_store w0) \<le> k" "k < length (attr_store w3)"
      "\<exists>r. map_of (edge_to_attr_map g) u = Some r \<and>
         same_tms (attr_store w3 ! k) (attr_store w0 ! r)"
    proof (atomize (full), cases "u = unique_id e")
      case True
      with k have "k = r'" by (simp add: at)
      with True r r'l show "length (attr_store w0) \<le> k \<and> k < length (attr_store w3) \<and>
          (\<exists>r. map_of (edge_to_attr_map g) u = Some r \<and>
             same_tms (attr_store w3 ! k) (attr_store w0 ! r))"
        by (simp add: w3_def write_attr_def same_tms_def copy_from_def)
    next
      case False
      with k have "map_of (edge_to_attr_map c) u = Some k" "k \<noteq> r'"
        using fresh [of u] by (auto simp: at)
      with cp3 [of u k] show "length (attr_store w0) \<le> k \<and> k < length (attr_store w3) \<and>
          (\<exists>r. map_of (edge_to_attr_map g) u = Some r \<and>
             same_tms (attr_store w3 ! k) (attr_store w0 ! r))"
        by (simp add: w3_def write_attr_def st nth_append)
    qed
  qed
  with wf0 wf3 ids m D(2) have "clone_ok w0 g m (w3, c2)" by (simp add: clone_ok_def)
  with step E D(2) show ?thesis by auto
qed

interpretation clone_edges: edge_builder "clone_ok w0 g m" "\<lambda>(w, c). edge_ids c" unique_id
    "\<lambda>e. e \<in> set (graph_edges g)" "clone_one_edge g m" for w0 g m
proof unfold_locales
  fix s e t
  assume ok: "clone_ok w0 g m s" and e: "e \<in> set (graph_edges g)"
  obtain w c where s: "s = (w, c)" by force
  note step = clone_one_edge_step [OF ok [unfolded s] e]
  from step show "\<exists>t. clone_one_edge g m s e = Inr t" by (auto simp: s)
  assume t: "clone_one_edge g m s e = Inr t"
  from step t show "clone_ok w0 g m t" by (auto simp: s)
  from step t show "(case t of (w, c) \<Rightarrow> edge_ids c) =
      insert (unique_id e) (case s of (w, c) \<Rightarrow> edge_ids c)" by (auto simp: s)
qed

section \<open>The nodes stage\<close>

definition nodes_cloned :: "(ConstEvalRef \<Rightarrow> ConstEvalRef result) \<Rightarrow> NodeId id_map \<Rightarrow> (NodeId \<times> Node) list \<Rightarrow>
    World \<Rightarrow> Graph \<Rightarrow> bool" where
  "nodes_cloned ce m pre w c \<longleftrightarrow> graph_wf w c \<and> node_ids c = fst ` set pre \<and>
     (\<forall>(i, n) \<in> set pre. \<exists>n'. node_clone ce [] n = Inr n' \<and>
        map_of (nodes_map c) i = Some (node_set_id i n')) \<and>
     (\<forall>i \<in> fst ` set pre. map_of m i = Some i) \<and> dom (map_of m) = fst ` set pre \<and> edge_to_attr_map c = [] \<and> edge_ids c = {} \<and>
     module_inputs c = [] \<and> module_outputs c = [] \<and> module_targets c = []"

lemma node_clone_name: "node_clone ce [] n = Inr n' \<Longrightarrow> node_name n' = node_name n"
  using node_clone_eq [of ce "[]" n n'] by (auto, metis Node.select_convs(1))

lemma clone_one_node_step:
  assumes wf: "graph_wf w g" and g: "nodes_map g = pre @ (i, n) # post"
    and c: "nodes_cloned ce m pre w c" and n': "node_clone ce [] n = Inr n'"
  shows "\<exists>c'. clone_one_node ce g (w, c, m) (i, n) = Inr (w, c', AList.update i i m) \<and>
     nodes_cloned ce (AList.update i i m) (pre @ [(i, n)]) w c'"
proof -
  note D = graph_wfD [OF wf]
  have wfc: "graph_wf w c" and idc: "node_ids c = fst ` set pre"
    and nc: "\<And>j k. (j, k) \<in> set pre \<Longrightarrow> \<exists>k'. node_clone ce [] k = Inr k' \<and>
        map_of (nodes_map c) j = Some (node_set_id j k')"
    using c by (auto simp: nodes_cloned_def)
  have dist: "distinct (keys (pre @ (i, n) # post))" using D(1) unfolding g .
  then have fresh: "i \<notin> node_ids c" unfolding idc by auto
  have lk: "map_of (nodes_map g) i = Some n"
    by (rule map_of_is_SomeI [OF D(1)]) (simp add: g)
  note id = D(9) [OF lk]
  have "i \<in> node_ids g" by (simp add: g)
  moreover have "node_ids g \<subseteq> set (keys (node_id_to_subgraph_id g))"
    using wf unfolding graph_wf_def node_keys_wf_def by blast
  ultimately obtain s where s: "map_of (node_id_to_subgraph_id g) i = Some s"
    by (metis list.set_map map_of_eq_None_iff not_None_eq subsetD)
  have nm: "map_of (node_name_to_node_id c) (node_name n') = None"
  proof (rule ccontr)
    assume "map_of (node_name_to_node_id c) (node_name n') \<noteq> None"
    then obtain j where "map_of (node_name_to_node_id c) (node_name n') = Some j" by blast
    from graph_wfD(11) [OF wfc this] obtain k where
      k: "map_of (nodes_map c) j = Some k" "node_name k = node_name n'" by blast
    from map_of_SomeD [OF k(1)] have "j \<in> node_ids c" by force
    then have "j \<in> fst ` set pre" unfolding idc .
    then obtain k0 where k0: "(j, k0) \<in> set pre" by auto
    from nc [OF k0] k have "node_name k0 = node_name n"
      using node_clone_name n' by (auto simp: node_set_id_def)
    moreover have "map_of (nodes_map g) j = Some k0"
      by (rule map_of_is_SomeI [OF D(1)]) (use k0 in \<open>simp add: g\<close>)
    ultimately have "j = i" using D(10) [OF lk] D(10) [of j k0] by auto
    with k0 dist show False by force
  qed
  obtain w' c' j where a: "add_node n' s (Some i) w c = Inr (w', c', j)"
    using nm fresh by (simp add: add_node_Inr)
  have w': "w' = w" "j = i" using a by (simp_all add: add_node_Inr)
  note a = a [unfolded w']
  have step: "clone_one_node ce g (w, c, m) (i, n) = Inr (w, c', AList.update i i m)"
    using n' id s a
    by (simp add: clone_one_node_def node_id_def get_subgraph_id_for_node_def map_at_def)
  have bound: "\<And>j. Some i = Some j \<Longrightarrow> 0 \<le> j \<and> j \<le> last_node_id_assigned w" using id by simp
  note eff = add_node_effect [OF wfc a]
  have "nodes_cloned ce (AList.update i i m) (pre @ [(i, n)]) w c'"
    unfolding nodes_cloned_def
  proof (intro conjI)
    show "graph_wf w c'" by (rule add_node_wf [OF wfc a bound])
    show "edge_ids c' = {}"
      using edge_ids_add_node [OF wfc a bound] c by (simp add: nodes_cloned_def)
    show "\<forall>(j, k) \<in> set (pre @ [(i, n)]). \<exists>k'. node_clone ce [] k = Inr k' \<and>
        map_of (nodes_map c') j = Some (node_set_id j k')"
      unfolding eff(2) using nc n' dist by force
    show "module_inputs c' = []" "module_outputs c' = []" "module_targets c' = []"
      using a c by (auto simp: add_node_Inr nodes_cloned_def)
  qed (use eff c in \<open>auto simp: nodes_cloned_def\<close>)
  with step show ?thesis by blast
qed

lemma clone_nodes:
  assumes wf: "graph_wf w g"
  shows "nodes_map g = pre @ post \<Longrightarrow> nodes_cloned ce m pre w c \<Longrightarrow>
     \<forall>(i, n) \<in> set post. \<exists>n'. node_clone ce [] n = Inr n' \<Longrightarrow>
     \<exists>c' m'. foldR (clone_one_node ce g) (w, c, m) post = Inr (w, c', m') \<and>
       nodes_cloned ce m' (nodes_map g) w c'"
proof (induction post arbitrary: pre c m)
  case Nil
  then show ?case by simp
next
  case (Cons x post)
  obtain i n where x: "x = (i, n)" by force
  from Cons.prems(3) obtain n' where n': "node_clone ce [] n = Inr n'" by (auto simp: x)
  from clone_one_node_step [OF wf Cons.prems(1) [unfolded x] Cons.prems(2) n'] obtain c' where
    c': "clone_one_node ce g (w, c, m) (i, n) = Inr (w, c', AList.update i i m)"
      "nodes_cloned ce (AList.update i i m) (pre @ [(i, n)]) w c'" by blast
  from Cons.IH [of "pre @ [(i, n)]", OF _ c'(2)] Cons.prems c'(1) show ?case by (simp add: x)
qed

text \<open>Conversely, the stage ends only when every node has a clone.\<close>

lemma nodes_clonable:
  "foldR (clone_one_node ce g) s post = Inr t \<Longrightarrow> \<forall>(i, n) \<in> set post. \<exists>n'. node_clone ce [] n = Inr n'"
proof (induction post arbitrary: s)
  case Nil
  then show ?case by simp
next
  case (Cons x post)
  obtain i n where x: "x = (i, n)" by force
  from Cons.prems obtain u where u: "clone_one_node ce g s (i, n) = Inr u" "foldR (clone_one_node ce g) u post = Inr t"
    by (auto simp: x result_simps)
  from u(1) have "\<exists>n'. node_clone ce [] n = Inr n'"
    by (auto simp: clone_one_node_def result_simps split: prod.splits)
  with Cons.IH [OF u(2)] show ?case by (simp add: x)
qed

section \<open>The clone\<close>

lemma clone_edges_frame:
  "clone_ok w0 g m (w, c) \<Longrightarrow> set es \<subseteq> set (graph_edges g) \<Longrightarrow>
     foldR (clone_one_edge g m) (w, c) es = Inr (w', c') \<Longrightarrow>
     nodes_map c' = nodes_map c \<and> module_inputs c' = module_inputs c \<and>
     module_outputs c' = module_outputs c \<and> module_targets c' = module_targets c"
proof (induction es arbitrary: w c)
  case Nil
  then show ?case by simp
next
  case (Cons e es)
  from Cons.prems have "e \<in> set (graph_edges g)" by simp
  from clone_one_edge_step [OF Cons.prems(1) this] obtain w1 c1 where
    1: "clone_one_edge g m (w, c) e = Inr (w1, c1)" "clone_ok w0 g m (w1, c1)"
      "nodes_map c1 = nodes_map c" "module_inputs c1 = module_inputs c"
      "module_outputs c1 = module_outputs c" "module_targets c1 = module_targets c" by blast
  from Cons.IH [OF 1(2)] Cons.prems 1 show ?case by simp
qed

lemma mapR_same: "\<forall>i \<in> set is. map_of m i = Some i \<Longrightarrow> mapR (map_at m) is = Inr is"
  using mapR_total [of "is" "map_at m" id] by simp

lemma mapR_known: "mapR (map_at m) is = Inr js \<Longrightarrow> set is \<subseteq> dom (map_of m)"
  by (induction "is" arbitrary: js) (auto simp: map_at_def result_simps split: option.splits)

lemma same_attrs:
  assumes wf: "graph_wf w' c" and cp: "attrs_copied w g (w', c)" and wfg: "graph_wf w g"
    and e: "e \<in> set (graph_edges g)" and u: "edge_ids c = edge_ids g"
  shows "\<exists>a b. edge_attr w g e = Inr a \<and> edge_attr w' c e = Inr b \<and> same_tms a b"
proof -
  from e u have "unique_id e \<in> edge_ids c" by (simp add: edge_ids_def)
  then obtain x where "x \<in> set (graph_edges c)" "unique_id x = unique_id e"
    by (auto simp: edge_ids_def)
  from graph_edges_ends(5) [OF wf this(1)] this(2)
  have "unique_id e \<in> set (keys (edge_to_attr_map c))" by simp
  then obtain k where k: "map_of (edge_to_attr_map c) (unique_id e) = Some k"
    by (metis list.set_map map_of_eq_None_iff not_None_eq)
  with cp obtain r where r: "map_of (edge_to_attr_map g) (unique_id e) = Some r"
    "same_tms (attr_store w' ! k) (attr_store w ! r)" "k < length (attr_store w')"
    unfolding attrs_copied_def prod.case by blast
  from graph_wfD(14) [OF wfg r(1)] r k show ?thesis
    by (simp add: edge_attr_def get_edge_attributes_def read_attr_def same_tms_def)
qed

lemma graph_clone_total:
  assumes wf: "graph_wf w g"
    and modules: "set (module_inputs g @ module_outputs g @ module_targets g) \<subseteq> node_ids g"
    and clonable: "\<forall>(i, n) \<in> set (nodes_map g). \<exists>n'. node_clone ce [] n = Inr n'"
  shows "\<exists>w' c. graph_clone ce None g w = Inr (w', c) \<and> graph_wf w' c \<and>
     node_ids c = node_ids g \<and> edge_ids c = edge_ids g \<and>
     (\<forall>(i, n) \<in> set (nodes_map g). \<exists>n'. node_clone ce [] n = Inr n' \<and>
        map_of (nodes_map c) i = Some (node_set_id i n')) \<and>
     (\<forall>e \<in> set (graph_edges g). \<exists>a b. edge_attr w g e = Inr a \<and> edge_attr w' c e = Inr b \<and>
        same_tms a b) \<and>
     module_inputs c = module_inputs g \<and> module_outputs c = module_outputs g \<and>
     module_targets c = module_targets g \<and> microbatch c = microbatch g"
proof -
  obtain w0 c0 where t: "clone_target None g w = (w0, c0)" by force
  from t have c0: "\<exists>lvl nm uid. c0 = mk_Graph lvl nm uid"
    and w0: "attr_store w0 = attr_store w" "last_edge_creation_id w0 = last_edge_creation_id w"
      "last_node_id_assigned w0 = last_node_id_assigned w"
    by (auto simp: clone_target_def generate_unique_graph_id_def Let_def)
  have wf0: "graph_wf w0 g" by (rule world_wf [OF wf]) (simp_all add: w0)
  have "0 \<le> last_node_id_assigned w0" using wf0 by (simp add: graph_wf_def counters_wf_def)
  with c0 have "nodes_cloned ce [] [] w0 c0"
    using mk_Graph_wf by (auto simp: nodes_cloned_def mk_Graph_def edge_ids_def graph_edges_def)
  from clone_nodes [OF wf0 _ this, of "nodes_map g"] clonable obtain c1 m where
    1: "foldR (clone_one_node ce g) (w0, c0, []) (nodes_map g) = Inr (w0, c1, m)"
    and n1: "nodes_cloned ce m (nodes_map g) w0 c1" by auto
  have ok1: "clone_ok w0 g m (w0, c1)"
    using n1 wf0 by (simp add: clone_ok_def attrs_copied_def nodes_cloned_def)
  from clone_edges.build_all [OF ok1, of "graph_edges g"] obtain s where
    s: "foldR (clone_one_edge g m) (w0, c1) (graph_edges g) = Inr s" "clone_ok w0 g m s"
      "(case s of (w, c) \<Rightarrow> edge_ids c) = edge_ids g"
    using n1 by (auto simp: edge_ids_def nodes_cloned_def)
  obtain w2 c2 where s2: "s = (w2, c2)" by force
  note frame = clone_edges_frame [OF ok1 subset_refl s(1) [unfolded s2]]
  have ok2: "graph_wf w2 c2" "node_ids c2 = node_ids g" "attrs_copied w0 g (w2, c2)"
    using s(2) by (auto simp: s2 clone_ok_def)
  have m: "\<forall>i \<in> node_ids g. map_of m i = Some i" using n1 by (simp add: nodes_cloned_def)
  have lists: "mapR (map_at m) (module_inputs g) = Inr (module_inputs g)"
    "mapR (map_at m) (module_outputs g) = Inr (module_outputs g)"
    "mapR (map_at m) (module_targets g) = Inr (module_targets g)"
    using modules m by (auto intro!: mapR_same)
  define c where "c = c2\<lparr>module_inputs := module_inputs g, module_outputs := module_outputs g,
    module_targets := module_targets g, microbatch := microbatch g\<rparr>"
  have res: "graph_clone ce None g w = Inr (w2, c)"
    using 1 s(1) lists t frame n1
    by (simp add: graph_clone_def graph_edges_def [symmetric] s2 c_def nodes_cloned_def)
  have e: "edge_ids c = edge_ids g"
    using s(3) by (simp add: s2 c_def edge_ids_def graph_edges_def)
  have wfc: "graph_wf w2 c" using ok2(1) by (simp add: c_def)
  have cp: "attrs_copied w g (w2, c)"
    using ok2(3) by (simp add: attrs_copied_def c_def w0)
  show ?thesis
    using res wfc e ok2(2) frame n1 same_attrs [OF wfc cp wf _ e]
    by (intro exI [of _ w2] exI [of _ c]) (simp add: c_def nodes_cloned_def)
qed

lemma graph_clone_needs:
  assumes wf: "graph_wf w g" and c: "graph_clone ce None g w = Inr (w', c)"
  shows "set (module_inputs g @ module_outputs g @ module_targets g) \<subseteq> node_ids g \<and>
     (\<forall>(i, n) \<in> set (nodes_map g). \<exists>n'. node_clone ce [] n = Inr n')"
proof -
  obtain w0 c0 where t: "clone_target None g w = (w0, c0)" by force
  from c obtain w1 c1 m ins outs tgts where
    1: "foldR (clone_one_node ce g) (w0, c0, []) (nodes_map g) = Inr (w1, c1, m)"
    and l: "mapR (map_at m) (module_inputs g) = Inr ins" "mapR (map_at m) (module_outputs g) = Inr outs"
      "mapR (map_at m) (module_targets g) = Inr tgts"
    by (auto simp: graph_clone_def t result_simps split: prod.splits)
  note all = nodes_clonable [OF 1]
  from t have c0: "\<exists>lvl nm uid. c0 = mk_Graph lvl nm uid"
    and w0: "attr_store w0 = attr_store w" "last_edge_creation_id w0 = last_edge_creation_id w"
      "last_node_id_assigned w0 = last_node_id_assigned w"
    by (auto simp: clone_target_def generate_unique_graph_id_def Let_def)
  have wf0: "graph_wf w0 g" by (rule world_wf [OF wf]) (simp_all add: w0)
  have "0 \<le> last_node_id_assigned w0" using wf0 by (simp add: graph_wf_def counters_wf_def)
  with c0 have "nodes_cloned ce [] [] w0 c0"
    using mk_Graph_wf by (auto simp: nodes_cloned_def mk_Graph_def edge_ids_def graph_edges_def)
  from clone_nodes [OF wf0 _ this, of "nodes_map g"] all 1 have "dom (map_of m) = node_ids g"
    by (auto simp: nodes_cloned_def)
  with l [THEN mapR_known] all show ?thesis by simp
qed

text \<open>C27: On a well-formed graph, cloning fails exactly when some node has no clone (a bare node or \<open>OpNode\<close>,
  a constant tensor of an invalid shape, an input whose constant-evaluation graph cannot be cloned, as
  \<open>node_clone\<close> tells) or a module list names a node the graph no longer has, which \<open>remove_node\<close> can
  leave behind. Otherwise the result is a well-formed graph with the same node ids, the clones of the
  nodes, the same edges with the same TMs, the same module lists and microbatch. How a constant-evaluation
  graph is cloned, and whether that succeeds, is the parameter \<open>ce\<close>.\<close>

theorem graph_clone_correct:
  assumes "graph_wf w g"
  shows "case graph_clone ce None g w of
     Inl _ \<Rightarrow> \<not> (set (module_inputs g @ module_outputs g @ module_targets g) \<subseteq> node_ids g \<and>
       (\<forall>(i, n) \<in> set (nodes_map g). \<exists>n'. node_clone ce [] n = Inr n'))
   | Inr (w', c) \<Rightarrow>
     set (module_inputs g @ module_outputs g @ module_targets g) \<subseteq> node_ids g \<and> graph_wf w' c \<and>
     node_ids c = node_ids g \<and> edge_ids c = edge_ids g \<and>
     (\<forall>(i, n) \<in> set (nodes_map g). \<exists>n'. node_clone ce [] n = Inr n' \<and>
        map_of (nodes_map c) i = Some (node_set_id i n')) \<and>
     (\<forall>e \<in> set (graph_edges g). \<exists>a b. edge_attr w g e = Inr a \<and> edge_attr w' c e = Inr b \<and>
        same_tms a b) \<and>
     module_inputs c = module_inputs g \<and> module_outputs c = module_outputs g \<and>
     module_targets c = module_targets g \<and> microbatch c = microbatch g"
proof (cases "graph_clone ce None g w")
  case (Inl e)
  then show ?thesis using graph_clone_total [OF assms] by fastforce
next
  case (Inr r)
  obtain w' c where r: "r = (w', c)" by force
  from graph_clone_needs [OF assms Inr [unfolded r]] graph_clone_total [OF assms, of ce] Inr r
  show ?thesis by fastforce
qed

theorem graph_clone_correct_witness:
  "\<exists>w' c. graph_clone Inr None example_g example_w = Inr (w', c) \<and> graph_wf w' c \<and>
     edge_ids c = edge_ids example_g"
proof -
  have "\<not> isl (graph_clone Inr None example_g example_w)" by code_simp
  with graph_clone_correct [OF example_wf, of Inr] show ?thesis by (auto split: sum.splits)
qed

end
