(* ===== verification/Queries.thy ===== *)
theory Queries
  imports Graph_Clone "HOL-Library.Multiset"
begin

text \<open>
  The queries of \<open>forge/csrc/graph_lib/graph.cpp\<close>: what a traversal context lets be seen, the edges
  of a node in port order, operands and users, the ordered inputs, outputs and parameters of the
  module, and the autograd look-ups.

  \<^item> A \<open>Node*\<close> is the id of a node of the graph; a query that gets one dereferences it, so it
    fails on an id the graph lacks.
  \<^item> \<open>std::sort\<close> is not stable. The list it sorts comes from an unordered set, whose order is
    arbitrary already, so a stable sort of an arbitrary list has the same outcomes.
  \<^item> An edge filter is a Boolean function; the filters the code passes do not throw.
\<close>

section \<open>What is visible\<close>

definition is_node_virtual :: "Graph \<Rightarrow> NodeId \<Rightarrow> bool" where
  "is_node_virtual g i \<longleftrightarrow> i \<in> set (virtual_nodes g)"

definition is_graph_traversal_context_set :: "Graph \<Rightarrow> bool" where
  "is_graph_traversal_context_set g \<longleftrightarrow>
     virtual_node_context g \<noteq> None \<or> ignored_edges_context g \<noteq> None"

definition in_context :: "'a \<Rightarrow> 'a list option \<Rightarrow> bool" where
  "in_context x s = (case s of None \<Rightarrow> False | Some xs \<Rightarrow> x \<in> set xs)"

text \<open>The early out that both visibility tests start with.\<close>

definition nothing_hidden :: "Graph \<Rightarrow> bool" where
  "nothing_hidden g \<longleftrightarrow>
     node_context g = None \<and> virtual_node_context g = None \<and> virtual_nodes g = []"

definition is_node_visible :: "Graph \<Rightarrow> NodeId \<Rightarrow> bool" where
  "is_node_visible g i =
     (if nothing_hidden g then True
      else if \<not> is_node_virtual g i then node_context g = None \<or> in_context i (node_context g)
      else in_context i (virtual_node_context g) \<or> in_context i (node_context g))"

definition is_edge_ignored :: "Graph \<Rightarrow> Edge \<Rightarrow> bool" where
  "is_edge_ignored g e = (case ignored_edges_context g of None \<Rightarrow> False
     | Some es \<Rightarrow> list_ex (\<lambda>x. edge_eq x e) es)"

definition is_edge_visible :: "Graph \<Rightarrow> Edge \<Rightarrow> bool result" where
  "is_edge_visible g e =
     (if nothing_hidden g then Inr True
      else if is_edge_ignored g e then Inr False
      else rbind (node_by_id g (producer_node_id e)) (\<lambda>_.
           rbind (node_by_id g (consumer_node_id e)) (\<lambda>_.
             Inr (is_node_visible g (producer_node_id e) \<and>
                  is_node_visible g (consumer_node_id e)))))"

section \<open>Edges of a node\<close>

definition edges_of_type :: "EdgeType \<Rightarrow> Graph \<Rightarrow> Edge list" where
  "edges_of_type ty g = filter (\<lambda>e. edge_type e = ty) (concat (map snd (operands_map g)))"

definition operand_edges_set :: "Graph \<Rightarrow> NodeId \<Rightarrow> Edge list result" where
  "operand_edges_set g i = map_at (operands_map g) i"

definition user_edges_set :: "Graph \<Rightarrow> NodeId \<Rightarrow> Edge list result" where
  "user_edges_set g i = map_at (users_map g) i"

definition visible_edges :: "(Edge \<Rightarrow> bool) \<Rightarrow> Graph \<Rightarrow> Edge list \<Rightarrow> Edge list result" where
  "visible_edges f g es = filterR (\<lambda>e. if f e then is_edge_visible g e else Inr False) es"

definition operand_edges :: "(Edge \<Rightarrow> bool) \<Rightarrow> Graph \<Rightarrow> NodeId \<Rightarrow> Edge list result" where
  "operand_edges f g i =
     rbind (operand_edges_set g i) (\<lambda>es.
     rbind (visible_edges f g es) (\<lambda>vs. Inr (sort_key consumer_input_port_id vs)))"

definition user_edge_order :: "Edge \<Rightarrow> PortId \<times> PortId \<times> nat" where
  "user_edge_order e = (producer_output_port_id e, consumer_input_port_id e, edge_creation_id e)"

definition user_edges :: "(Edge \<Rightarrow> bool) \<Rightarrow> Graph \<Rightarrow> NodeId \<Rightarrow> Edge list result" where
  "user_edges f g i =
     rbind (user_edges_set g i) (\<lambda>es.
     rbind (visible_edges f g es) (\<lambda>vs. Inr (sort_key user_edge_order vs)))"

abbreviation any_edge :: "Edge \<Rightarrow> bool" where
  "any_edge \<equiv> \<lambda>_. True"

definition is_data_edge :: "Edge \<Rightarrow> bool" where
  "is_data_edge e \<longleftrightarrow> edge_type e = kData \<or> edge_type e = kDataLoopback"

definition operand_data_edges :: "(Edge \<Rightarrow> bool) \<Rightarrow> Graph \<Rightarrow> NodeId \<Rightarrow> Edge list result" where
  "operand_data_edges f = operand_edges (\<lambda>e. f e \<and> is_data_edge e)"

definition user_data_edges :: "(Edge \<Rightarrow> bool) \<Rightarrow> Graph \<Rightarrow> NodeId \<Rightarrow> Edge list result" where
  "user_data_edges f = user_edges (\<lambda>e. f e \<and> is_data_edge e)"

definition edges_of_node :: "(Edge \<Rightarrow> bool) \<Rightarrow> Graph \<Rightarrow> NodeId \<Rightarrow> Edge list result" where
  "edges_of_node f g i =
     rbind (operand_edges f g i) (\<lambda>os. rbind (user_edges f g i) (\<lambda>us. Inr (os @ us)))"

section \<open>Operands and users\<close>

definition node_of :: "Graph \<Rightarrow> NodeId \<Rightarrow> NodeId result" where
  "node_of g i = rbind (node_by_id g i) (\<lambda>_. Inr i)"

definition operands :: "Graph \<Rightarrow> NodeId \<Rightarrow> NodeId list result" where
  "operands g i =
     rbind (operand_edges any_edge g i) (mapR (\<lambda>e. node_of g (producer_node_id e)))"

definition data_operands :: "Graph \<Rightarrow> NodeId \<Rightarrow> NodeId list result" where
  "data_operands g i =
     rbind (operand_data_edges any_edge g i) (mapR (\<lambda>e. node_of g (producer_node_id e)))"

definition users :: "(Edge \<Rightarrow> bool) \<Rightarrow> Graph \<Rightarrow> NodeId \<Rightarrow> NodeId list result" where
  "users f g i = rbind (user_edges f g i) (mapR (\<lambda>e. node_of g (consumer_node_id e)))"

definition data_users :: "Graph \<Rightarrow> NodeId \<Rightarrow> NodeId list result" where
  "data_users g i =
     rbind (user_edges any_edge g i) (\<lambda>es.
       mapR (\<lambda>e. node_of g (consumer_node_id e)) (filter (\<lambda>e. edge_type e = kData) es))"

definition get_edges :: "Graph \<Rightarrow> NodeId \<Rightarrow> NodeId \<Rightarrow> Edge list result" where
  "get_edges g producer consumer =
     rbind (user_data_edges any_edge g producer) (\<lambda>es.
       Inr (filter (\<lambda>e. consumer_node_id e = consumer) es))"

text \<open>
  The port of the edge and its position among the data edges of that port. The \<open>assert\<close> that the
  edge was found is empty in a release build; the port is then -1, as an unsigned number.
\<close>

definition output_port_and_index_for_data_user_port ::
    "Graph \<Rightarrow> NodeId \<Rightarrow> Edge \<Rightarrow> (PortId \<times> int) result" where
  "output_port_and_index_for_data_user_port g i user_edge =
     rbind (user_data_edges any_edge g i) (\<lambda>es.
       let port = (if list_ex (\<lambda>e. edge_eq e user_edge) es
                   then producer_output_port_id user_edge else - 1);
           same = filter (\<lambda>e. producer_output_port_id e = port) es
       in Inr (port, int (length (takeWhile (\<lambda>e. \<not> edge_eq e user_edge) same))))"

definition count_port :: "(PortId \<times> int) list \<Rightarrow> PortId \<Rightarrow> int" where
  "count_port m p = map_get 0 m p"

fun port_indices :: "NodeId \<Rightarrow> (PortId \<times> int) list \<Rightarrow> Edge list \<Rightarrow> (PortId \<times> int) list" where
  "port_indices consumer m [] = []"
| "port_indices consumer m (e # es) =
     (let p = producer_output_port_id e;
          k = count_port m p;
          rest = port_indices consumer (AList.update p (k + 1) m) es
      in if consumer_node_id e = consumer then (p, k) # rest else rest)"

definition output_port_and_index_for_consumer ::
    "Graph \<Rightarrow> NodeId \<Rightarrow> NodeId \<Rightarrow> (PortId \<times> int) list result" where
  "output_port_and_index_for_consumer g producer consumer =
     rbind (user_edges any_edge g producer) (\<lambda>es. Inr (port_indices consumer [] es))"

definition user_data_edges_for_operand_port :: "Graph \<Rightarrow> NodeId \<Rightarrow> PortId \<Rightarrow> Edge list result" where
  "user_data_edges_for_operand_port g i port =
     rbind (user_data_edges any_edge g i) (\<lambda>es.
       Inr (filter (\<lambda>e. producer_output_port_id e = port) es))"

definition num_nodes :: "Graph \<Rightarrow> int" where
  "num_nodes g = int (length (nodes_map g))"

definition num_operands :: "Graph \<Rightarrow> NodeId \<Rightarrow> int result" where
  "num_operands g i = rbind (operand_edges_set g i) (\<lambda>es. Inr (int (length es)))"

definition num_users :: "Graph \<Rightarrow> NodeId \<Rightarrow> int result" where
  "num_users g i = rbind (user_edges_set g i) (\<lambda>es. Inr (int (length es)))"

section \<open>Nodes\<close>

text \<open>The pointers in \<open>nodes_\<close>; one that outlives its node is dangling.\<close>

definition deref :: "Graph \<Rightarrow> NodeId \<Rightarrow> Node result" where
  "deref g i = of_opt Undefined_behaviour (map_of (nodes_map g) i)"

definition nodes :: "(Node \<Rightarrow> bool result) \<Rightarrow> Graph \<Rightarrow> NodeId list result" where
  "nodes f g = filterR (\<lambda>i. rbind (deref g i) (\<lambda>n. rbind (f n) (\<lambda>b.
     Inr (b \<and> is_node_visible g i)))) (nodes_order g)"

definition nodes_by_type :: "NodeType \<Rightarrow> Graph \<Rightarrow> NodeId list result" where
  "nodes_by_type ty = nodes (\<lambda>n. Inr (node_type n = ty))"

text \<open>The loops over \<open>nodes_\<close> without a look at visibility.\<close>

definition all_nodes :: "(Node \<Rightarrow> bool result) \<Rightarrow> Graph \<Rightarrow> NodeId list result" where
  "all_nodes f g = filterR (\<lambda>i. rbind (deref g i) f) (nodes_order g)"

definition is_intermediate_output :: "Node \<Rightarrow> bool result" where
  "is_intermediate_output n =
     (if node_type n = kOutput then rbind (as_OutputNode n) (\<lambda>f. Inr (intermediate f))
      else Inr False)"

definition ordered_intermediates :: "Graph \<Rightarrow> NodeId list result" where
  "ordered_intermediates = all_nodes is_intermediate_output"

definition get_ordered_intermediate_names :: "Graph \<Rightarrow> string list result" where
  "get_ordered_intermediate_names g =
     rbind (all_nodes is_intermediate_output g)
       (mapR (\<lambda>i. rbind (deref g i) (\<lambda>n. Inr (node_name n))))"

definition is_input_with :: "(InputFields \<Rightarrow> bool) \<Rightarrow> Node \<Rightarrow> bool result" where
  "is_input_with p n =
     (if node_type n = kInput then rbind (as_InputNode n) (\<lambda>f. Inr (p f)) else Inr False)"

definition get_parameter_nodes :: "Graph \<Rightarrow> NodeId list result" where
  "get_parameter_nodes = all_nodes (is_input_with (\<lambda>f. input_type f = In_Parameter))"

definition get_optimizer_parameter_nodes :: "Graph \<Rightarrow> NodeId list result" where
  "get_optimizer_parameter_nodes =
     all_nodes (is_input_with (\<lambda>f. input_type f = In_OptimizerParameter))"

text \<open>
  \<open>get_constant_nodes\<close>: with \<open>recurse\<close>, the constants of an input's constant-evaluation graph come
  before the input. A node of such a graph is tagged with the handle of the graph; \<open>cg\<close> gives the
  graph of a handle. The recursive call does not recurse further.
\<close>

definition own_constant_nodes :: "Graph \<Rightarrow> NodeId list result" where
  "own_constant_nodes = all_nodes (is_input_with (\<lambda>f. input_type f = In_Constant))"

definition constants_of_node :: "(ConstEvalRef \<Rightarrow> Graph) \<Rightarrow> bool \<Rightarrow> Graph \<Rightarrow> NodeId \<Rightarrow>
    (ConstEvalRef option \<times> NodeId) list result" where
  "constants_of_node cg recurse g i =
     rbind (deref g i) (\<lambda>n.
       if node_type n = kInput then
         rbind (as_InputNode n) (\<lambda>f.
         rbind (case consteval_graph f of
                  Some r \<Rightarrow> if recurse then rbind (own_constant_nodes (cg r)) (\<lambda>is.
                              Inr (map (Pair (Some r)) is)) else Inr []
                | None \<Rightarrow> Inr []) (\<lambda>sub.
           Inr (sub @ (if input_type f = In_Constant then [(None, i)] else []))))
       else Inr [])"

definition get_constant_nodes ::
    "(ConstEvalRef \<Rightarrow> Graph) \<Rightarrow> bool \<Rightarrow> Graph \<Rightarrow> (ConstEvalRef option \<times> NodeId) list result" where
  "get_constant_nodes cg recurse g =
     rbind (mapR (constants_of_node cg recurse g) (nodes_order g)) (\<lambda>xs. Inr (concat xs))"

definition get_constant_names :: "Graph \<Rightarrow> string list result" where
  "get_constant_names g =
     rbind (own_constant_nodes g) (mapR (\<lambda>i. rbind (deref g i) (\<lambda>n. Inr (node_name n))))"

text \<open>A loop that returns at the first hit.\<close>

fun existsR :: "('a \<Rightarrow> bool result) \<Rightarrow> 'a list \<Rightarrow> bool result" where
  "existsR p [] = Inr False"
| "existsR p (x # xs) = rbind (p x) (\<lambda>b. if b then Inr True else existsR p xs)"

definition contains_nodes_of_epoch_type :: "NodeEpochType \<Rightarrow> Graph \<Rightarrow> bool result" where
  "contains_nodes_of_epoch_type ep g =
     existsR (\<lambda>i. rbind (deref g i) (\<lambda>n. Inr (epoch_type n = ep))) (nodes_order g)"

definition contains_bwd_nodes :: "Graph \<Rightarrow> bool result" where
  "contains_bwd_nodes = contains_nodes_of_epoch_type Epoch_Backward"

definition contains_opt_nodes :: "Graph \<Rightarrow> bool result" where
  "contains_opt_nodes = contains_nodes_of_epoch_type Epoch_Optimizer"

definition contains_recompute_nodes :: "Graph \<Rightarrow> bool" where
  "contains_recompute_nodes g =
     list_ex (\<lambda>(_, es). list_ex (\<lambda>e. edge_type e = kAutogradFwdToRecompute) es) (users_map g)"

section \<open>The inputs, outputs and targets of the module\<close>

definition ordered_module_inputs :: "Graph \<Rightarrow> NodeId list result" where
  "ordered_module_inputs g =
     filterR (\<lambda>i. rbind (node_by_id g i) (\<lambda>_.
       if is_node_visible g i then rbind (user_edges any_edge g i) (\<lambda>us. Inr (us \<noteq> []))
       else Inr False)) (module_inputs g)"

definition ordered_module_outputs :: "Graph \<Rightarrow> NodeId list result" where
  "ordered_module_outputs g = mapR (node_of g) (module_outputs g)"

text \<open>A field of every node of a list.\<close>

definition of_nodes :: "(Node \<Rightarrow> 'a result) \<Rightarrow> Graph \<Rightarrow> NodeId list \<Rightarrow> 'a list result" where
  "of_nodes f g is = mapR (\<lambda>i. rbind (node_by_id g i) f) is"

definition get_ordered_input_subgraph_indices :: "Graph \<Rightarrow> u32 list result" where
  "get_ordered_input_subgraph_indices g = mapR (get_subgraph_id_for_node g) (module_inputs g)"

definition get_ordered_target_subgraph_indices :: "Graph \<Rightarrow> u32 list result" where
  "get_ordered_target_subgraph_indices g = mapR (get_subgraph_id_for_node g) (module_targets g)"

definition get_ordered_output_subgraph_indices :: "Graph \<Rightarrow> u32 list result" where
  "get_ordered_output_subgraph_indices g = mapR (get_subgraph_id_for_node g) (module_outputs g)"

definition ordered_module_outputs_by_subgraph_index :: "Graph \<Rightarrow> u32 \<Rightarrow> NodeId list result" where
  "ordered_module_outputs_by_subgraph_index g s =
     filterR (\<lambda>i. rbind (get_subgraph_id_for_node g i) (\<lambda>x.
       if x = s then rbind (node_by_id g i) (\<lambda>_. Inr True) else Inr False)) (module_outputs g)"

definition get_ordered_input_names :: "Graph \<Rightarrow> string list result" where
  "get_ordered_input_names g = of_nodes (\<lambda>n. Inr (node_name n)) g (module_inputs g)"

definition get_ordered_target_names :: "Graph \<Rightarrow> string list result" where
  "get_ordered_target_names g = of_nodes (\<lambda>n. Inr (node_name n)) g (module_targets g)"

definition get_ordered_output_names :: "Graph \<Rightarrow> string list result" where
  "get_ordered_output_names g = of_nodes (\<lambda>n. Inr (node_name n)) g (module_outputs g)"

definition get_ordered_input_gradient_names :: "Graph \<Rightarrow> string list result" where
  "get_ordered_input_gradient_names g =
     rbind (filterR (\<lambda>i. rbind (node_by_id g i) (\<lambda>n. rbind (as_InputNode n) (\<lambda>f.
       Inr (input_type f = In_Gradient)))) (module_inputs g))
       (of_nodes (\<lambda>n. Inr (node_name n)) g)"

definition get_ordered_external_output_names :: "Graph \<Rightarrow> string list result" where
  "get_ordered_external_output_names g =
     rbind (filterR (\<lambda>i. rbind (node_by_id g i) (\<lambda>n. rbind (as_OutputNode n) (\<lambda>f.
       Inr (output_type f = Out_External)))) (module_outputs g))
       (of_nodes (\<lambda>n. Inr (node_name n)) g)"

definition get_ordered_input_requires_grad :: "Graph \<Rightarrow> bool list result" where
  "get_ordered_input_requires_grad g =
     of_nodes (\<lambda>n. rbind (as_InputNode n) (\<lambda>f. Inr (input_requires_grad f))) g (module_inputs g)"

definition get_ordered_output_requires_grad :: "Graph \<Rightarrow> bool list result" where
  "get_ordered_output_requires_grad g =
     of_nodes (\<lambda>n. rbind (as_OutputNode n) (\<lambda>f. Inr (output_requires_grad f))) g
       (module_outputs g)"

definition get_ordered_input_shapes :: "Graph \<Rightarrow> u32 list list result" where
  "get_ordered_input_shapes g = of_nodes (\<lambda>n. Inr (sh_dims (node_shape n))) g (module_inputs g)"

definition get_ordered_output_shapes :: "Graph \<Rightarrow> u32 list list result" where
  "get_ordered_output_shapes g = of_nodes (\<lambda>n. Inr (sh_dims (node_shape n))) g (module_outputs g)"

definition get_ordered_target_shapes :: "Graph \<Rightarrow> u32 list list result" where
  "get_ordered_target_shapes g = of_nodes (\<lambda>n. Inr (sh_dims (node_shape n))) g (module_targets g)"

definition get_ordered_intermediate_shapes :: "Graph \<Rightarrow> u32 list list result" where
  "get_ordered_intermediate_shapes g =
     rbind (get_ordered_intermediate_names g) (mapR (\<lambda>s.
       rbind (get_node_by_name g s True) (\<lambda>r.
       rbind (of_opt Undefined_behaviour r) (\<lambda>i.
       rbind (deref g i) (\<lambda>n. Inr (sh_dims (node_shape n)))))))"

definition tile_dims_of :: "Node \<Rightarrow> int list result" where
  "tile_dims_of n =
     (let td = sh_tile_dim (node_shape n)
      in rbind (get_row_size_from_tile_size td) (\<lambda>r.
         rbind (get_col_size_from_tile_size td) (\<lambda>c. Inr [r, c])))"

definition get_ordered_input_tile_dims :: "Graph \<Rightarrow> int list list result" where
  "get_ordered_input_tile_dims g = of_nodes tile_dims_of g (module_inputs g)"

definition get_ordered_parameter_tile_dims :: "Graph \<Rightarrow> int list list result" where
  "get_ordered_parameter_tile_dims g =
     rbind (get_parameter_nodes g) (mapR (\<lambda>i. rbind (deref g i) tile_dims_of))"

definition get_ordered_constant_tile_dims :: "Graph \<Rightarrow> int list list result" where
  "get_ordered_constant_tile_dims g =
     rbind (own_constant_nodes g) (mapR (\<lambda>i. rbind (deref g i) tile_dims_of))"

text \<open>One gradient name for each output that has a loss edge.\<close>

definition output_gradient_name :: "Graph \<Rightarrow> NodeId \<Rightarrow> string list result" where
  "output_gradient_name g i =
     rbind (node_by_id g i) (\<lambda>_.
     rbind (user_edges (\<lambda>e. edge_type e = kAutogradOutputToLoss) g i) (\<lambda>losses.
       tt_assert (length losses \<le> 1)
         (of_nodes (\<lambda>n. Inr (node_name n)) g (map consumer_node_id losses))))"

definition get_ordered_output_gradient_names :: "Graph \<Rightarrow> string list result" where
  "get_ordered_output_gradient_names g =
     rbind (mapR (output_gradient_name g) (module_outputs g)) (\<lambda>xs. Inr (concat xs))"

definition broadcast_dims_of_input :: "Graph \<Rightarrow> NodeId list \<Rightarrow> u32 \<Rightarrow> int list result" where
  "broadcast_dims_of_input g is k =
     tt_assert (unat k < length is)
       (rbind (node_by_id g (is ! unat k)) (\<lambda>n.
        rbind (as_InputNode n) (\<lambda>f. Inr (tile_broadcast_dims f))))"

definition get_tile_broadcast_dims_for_input :: "Graph \<Rightarrow> u32 \<Rightarrow> int list result" where
  "get_tile_broadcast_dims_for_input g = broadcast_dims_of_input g (module_inputs g)"

definition get_tile_broadcast_dims_for_target :: "Graph \<Rightarrow> u32 \<Rightarrow> int list result" where
  "get_tile_broadcast_dims_for_target g = broadcast_dims_of_input g (module_targets g)"

definition get_tile_broadcast_dims_for_bw_input :: "Graph \<Rightarrow> u32 \<Rightarrow> int list result" where
  "get_tile_broadcast_dims_for_bw_input g k =
     rbind (get_ordered_output_gradient_names g) (\<lambda>names.
       tt_assert (unat k < length names)
         (rbind (get_node_by_name g (names ! unat k) True) (\<lambda>r.
          rbind (of_opt Undefined_behaviour r) (\<lambda>i.
          rbind (deref g i) (\<lambda>n.
          rbind (as_InputNode n) (\<lambda>f. Inr (tile_broadcast_dims f)))))))"

section \<open>Autograd look-ups\<close>

text \<open>The maps from an output port to the nodes that its edges of a type lead to.\<close>

definition push_at :: "PortId \<Rightarrow> 'a \<Rightarrow> (PortId \<times> 'a list) list \<Rightarrow> (PortId \<times> 'a list) list" where
  "push_at p x m = AList.update p (map_get [] m p @ [x]) m"

definition by_port ::
    "EdgeType \<Rightarrow> (Edge \<Rightarrow> NodeId option result) \<Rightarrow> Edge list \<Rightarrow> (PortId \<times> NodeId list) list result" where
  "by_port ty f es = foldR (\<lambda>m e.
     if edge_type e = ty then rbind (f e) (\<lambda>r. case r of
         None \<Rightarrow> Inr m
       | Some i \<Rightarrow> Inr (push_at (producer_output_port_id e) i m))
     else Inr m) [] es"

definition consumer_of :: "Graph \<Rightarrow> Edge \<Rightarrow> NodeId option result" where
  "consumer_of g e = rbind (node_of g (consumer_node_id e)) (\<lambda>i. Inr (Some i))"

definition get_recompute_nodes :: "Graph \<Rightarrow> NodeId \<Rightarrow> (PortId \<times> NodeId list) list result" where
  "get_recompute_nodes g i =
     rbind (user_edges any_edge g i) (by_port kAutogradFwdToRecompute (consumer_of g))"

definition get_opt_nodes :: "Graph \<Rightarrow> NodeId \<Rightarrow> (PortId \<times> NodeId list) list result" where
  "get_opt_nodes g i =
     rbind (user_edges any_edge g i) (by_port kAutogradFwdToOptimizer (consumer_of g))"

definition gradient_op_of :: "Graph \<Rightarrow> Edge \<Rightarrow> NodeId option result" where
  "gradient_op_of g e =
     rbind (node_by_id g (consumer_node_id e)) (\<lambda>n.
       if node_type n = kQueue then
         rbind (data_operands g (consumer_node_id e)) (\<lambda>os. case os of
             [] \<Rightarrow> Inl Out_of_range
           | p # _ \<Rightarrow> Inr (Some p))
       else Inr (Some (consumer_node_id e)))"

definition get_gradient_nodes :: "Graph \<Rightarrow> NodeId \<Rightarrow> (PortId \<times> NodeId list) list result" where
  "get_gradient_nodes g i =
     rbind (user_edges any_edge g i) (by_port kAutogradFwdToGradient (gradient_op_of g))"

text \<open>
  \<open>get_bwd_nodes\<close> decides with a flag whether a node is skipped; every gradient edge from another
  forward node sets the flag again, also back to false.
\<close>

definition skip_step :: "Graph \<Rightarrow> NodeId \<Rightarrow> bool \<Rightarrow> Edge \<Rightarrow> bool result" where
  "skip_step g fwd skip e =
     (if edge_type e = kAutogradFwdToGradient then
        rbind (node_by_id g (producer_node_id e)) (\<lambda>p.
          Inr (if producer_node_id e \<noteq> fwd then node_type p \<noteq> kInput else skip))
      else Inr skip)"

definition bwd_node_of :: "Graph \<Rightarrow> NodeId \<Rightarrow> Edge \<Rightarrow> NodeId option result" where
  "bwd_node_of g fwd e =
     rbind (node_by_id g (consumer_node_id e)) (\<lambda>n.
     rbind (operand_edges any_edge g (consumer_node_id e)) (\<lambda>os.
     rbind (foldR (skip_step g fwd)
              (case op_part n of Some f \<Rightarrow> gradient_op f | None \<Rightarrow> False) os) (\<lambda>skip.
       Inr (if skip then None else Some (consumer_node_id e)))))"

definition get_bwd_nodes :: "Graph \<Rightarrow> NodeId \<Rightarrow> (PortId \<times> NodeId list) list result" where
  "get_bwd_nodes g i = rbind (user_edges any_edge g i) (by_port kAutogradFwdToBwd (bwd_node_of g i))"

section \<open>Formats and shapes that depend on operands\<close>

text \<open>\<open>OpNode::set_output_df_from_operands\<close>; both branches take the first operand.\<close>

definition set_output_df_from_operands :: "NodeId \<Rightarrow> Graph \<Rightarrow> Graph result" where
  "set_output_df_from_operands i g =
     rbind (data_operands g i) (\<lambda>os.
     rbind (vec_at os 0) (\<lambda>p.
     rbind (deref g p) (\<lambda>n.
       update_node i (\<lambda>m. Inr (node_set_output_df (node_output_df n) m)) g)))"

text \<open>
  \<open>Node::shape_of_operand\<close>: the operand's shape under the TMs of its edges. \<open>op_shape\<close> is
  \<open>get_op_shape\<close>, which asks the op (for most ops, Python code) for its result shape and the
  broadcasts of its operands. With several edges from one operand, the last one counts.
\<close>

definition tm_shape_step ::
    "(OpType \<Rightarrow> Shape list \<Rightarrow> (Shape \<times> 'b list) result) \<Rightarrow> bool \<Rightarrow>
      Shape \<Rightarrow> OpType \<Rightarrow> Shape result" where
  "tm_shape_step op_shape ignore_broadcasts s tm =
     (if ignore_broadcasts \<and> OpType_type tm = Op_Broadcast then Inr s
      else rbind (op_shape tm [s]) (\<lambda>(s', bs). tt_assert (bs = []) (Inr s')))"

definition shape_of_operand ::
    "(OpType \<Rightarrow> Shape list \<Rightarrow> (Shape \<times> 'b list) result) \<Rightarrow>
      World \<Rightarrow> Graph \<Rightarrow> NodeId \<Rightarrow> NodeId \<Rightarrow> bool \<Rightarrow> Shape result" where
  "shape_of_operand op_shape w g i operand ignore_broadcasts =
     rbind (operand_data_edges any_edge g i) (\<lambda>es.
     rbind (foldR (\<lambda>s e.
        if producer_node_id e \<noteq> operand then Inr s
        else rbind (node_by_id g (producer_node_id e)) (\<lambda>n.
             rbind (edge_attr w g e) (\<lambda>a.
             rbind (foldR (tm_shape_step op_shape ignore_broadcasts) (node_shape n) (tms a)) (\<lambda>s'.
               Inr (Some s'))))) None es) (\<lambda>r.
       of_opt Invalid_argument r))"

end
