(* ===== verification/Query_Laws.thy ===== *)
theory Query_Laws
  imports Queries
begin

text \<open>
  What the queries of \<open>Queries\<close> return on a well-formed graph. \<open>edge_index\<close> is the contract of an
  index from nodes to edges with an order; its instances are the operand edges (by input port) and
  the user edges (by output port, input port and creation).
\<close>

section \<open>Edge queries give exactly the visible edges, in port order\<close>

definition edge_shown :: "Graph \<Rightarrow> Edge \<Rightarrow> bool" where
  "edge_shown g e \<longleftrightarrow> nothing_hidden g \<or>
     \<not> is_edge_ignored g e \<and> is_node_visible g (producer_node_id e) \<and>
     is_node_visible g (consumer_node_id e)"

lemma in_node_ids: "i \<in> node_ids g \<longleftrightarrow> (\<exists>n. map_of (nodes_map g) i = Some n)"
  using map_of_eq_None_iff [of "nodes_map g" i] by auto

lemma node_by_id_in: "i \<in> node_ids g \<Longrightarrow> \<exists>n. node_by_id g i = Inr n"
  unfolding in_node_ids by (auto simp: node_by_id_def)

lemma node_of_in: "i \<in> node_ids g \<Longrightarrow> node_of g i = Inr i"
  using node_by_id_in [of i g] by (auto simp: node_of_def)

lemma is_edge_visible_eq:
  assumes "graph_wf w g" "e \<in> set (graph_edges g)"
  shows "is_edge_visible g e = Inr (edge_shown g e)"
  using node_by_id_in [OF graph_edges_ends(3) [OF assms]]
    node_by_id_in [OF graph_edges_ends(4) [OF assms]]
  by (auto simp: is_edge_visible_def edge_shown_def)

lemma visible_edges_eq:
  assumes "graph_wf w g" "set es \<subseteq> set (graph_edges g)"
  shows "visible_edges f g es = Inr (filter (\<lambda>e. f e \<and> edge_shown g e) es)"
  unfolding visible_edges_def
  by (rule filterR_total) (use assms is_edge_visible_eq [OF assms(1)] in auto)

locale edge_index =
  fixes index :: "Graph \<Rightarrow> Edge list id_map"
    and endpoint :: "Edge \<Rightarrow> NodeId"
    and order :: "Edge \<Rightarrow> 'k::linorder"
  assumes keys_index: "graph_wf w g \<Longrightarrow> set (keys (index g)) = node_ids g"
    and mem_index: "graph_wf w g \<Longrightarrow>
      e \<in> set (map_get [] (index g) i) \<longleftrightarrow> e \<in> set (graph_edges g) \<and> endpoint e = i"
    and distinct_index: "graph_wf w g \<Longrightarrow> distinct (map unique_id (map_get [] (index g) i))"
begin

definition query :: "(Edge \<Rightarrow> bool) \<Rightarrow> Graph \<Rightarrow> NodeId \<Rightarrow> Edge list result" where
  "query f g i = rbind (map_at (index g) i) (\<lambda>es.
     rbind (visible_edges f g es) (\<lambda>vs. Inr (sort_key order vs)))"

lemma query_eq:
  assumes wf: "graph_wf w g" and i: "i \<in> node_ids g"
  shows "query f g i =
     Inr (sort_key order (filter (\<lambda>e. f e \<and> edge_shown g e) (map_get [] (index g) i)))"
proof -
  from i keys_index [OF wf] obtain es where es: "map_of (index g) i = Some es"
    by (metis list.set_map map_of_eq_None_iff not_None_eq)
  then have es': "map_get [] (index g) i = es" by (simp add: map_get_def)
  have "set es \<subseteq> set (graph_edges g)" using mem_index [OF wf, of _ i] by (auto simp: es')
  from visible_edges_eq [OF wf this] es show ?thesis by (simp add: query_def es')
qed

lemma query_missing: "graph_wf w g \<Longrightarrow> i \<notin> node_ids g \<Longrightarrow> query f g i = Inl Out_of_range"
  using keys_index [of w g] map_of_eq_None_iff [of "index g" i]
  by (simp add: query_def)

lemma query_correct:
  assumes wf: "graph_wf w g" and i: "i \<in> node_ids g"
  obtains es where "query f g i = Inr es" "sorted (map order es)" "distinct (map unique_id es)"
    "set es = {e \<in> set (graph_edges g). endpoint e = i \<and> f e \<and> edge_shown g e}"
proof
  let ?es = "filter (\<lambda>e. f e \<and> edge_shown g e) (map_get [] (index g) i)"
  show "query f g i = Inr (sort_key order ?es)" by (rule query_eq [OF wf i])
  show "sorted (map order (sort_key order ?es))" by simp
  have d: "distinct (map unique_id ?es)" by (rule distinct_map_filter) (rule distinct_index [OF wf])
  then show "distinct (map unique_id (sort_key order ?es))"
    by (simp add: distinct_map)
  show "set (sort_key order ?es) =
      {e \<in> set (graph_edges g). endpoint e = i \<and> f e \<and> edge_shown g e}"
    using mem_index [OF wf, of _ i] by auto
qed

text \<open>A query depends on the set of edges only, when the order tells the edges apart.\<close>

lemma query_deterministic:
  assumes "graph_wf w g" "graph_wf w h" "i \<in> node_ids g" "i \<in> node_ids h"
    and "set (graph_edges g) = set (graph_edges h)" "edge_shown g = edge_shown h"
    and inj: "inj_on order {e \<in> set (graph_edges g). endpoint e = i}"
  shows "query f g i = query f h i"
proof -
  from query_correct [OF assms(1,3), of f] obtain es where
    1: "query f g i = Inr es" "sorted (map order es)" "distinct (map unique_id es)"
      "set es = {e \<in> set (graph_edges g). endpoint e = i \<and> f e \<and> edge_shown g e}" by blast
  from query_correct [OF assms(2,4), of f] obtain es' where
    2: "query f h i = Inr es'" "sorted (map order es')" "distinct (map unique_id es')"
      "set es' = {e \<in> set (graph_edges h). endpoint e = i \<and> f e \<and> edge_shown h e}" by blast
  have eq: "set es = set es'" by (simp add: 1 2 assms(5,6))
  have "inj_on order (set es \<union> set es')" using inj by (rule inj_on_subset) (auto simp: 1(4) eq [symmetric])
  moreover have "distinct es" "distinct es'" using 1(3) 2(3) by (auto simp: distinct_map)
  ultimately have "es = es'"
    using map_sorted_distinct_set_unique [of order es es'] 1(2) 2(2) eq
    by (simp add: distinct_map inj_on_Un)
  then show ?thesis by (simp add: 1 2)
qed

end

lemma mem_ops: "graph_wf w g \<Longrightarrow>
    e \<in> set (ops g i) \<longleftrightarrow> e \<in> set (graph_edges g) \<and> consumer_node_id e = i"
  using mem_graph_edges [OF graph_wfD(2), of w g] ops_ends(1) graph_edges_ends(1) by blast

lemma mem_usr: "graph_wf w g \<Longrightarrow>
    e \<in> set (usr g i) \<longleftrightarrow> e \<in> set (graph_edges g) \<and> producer_node_id e = i"
  using mem_graph_edges [OF graph_wfD(2), of w g] usr_ends(1,4) graph_edges_ends(2) by blast

interpretation opq: edge_index operands_map consumer_node_id consumer_input_port_id
  rewrites "edge_index.query operands_map consumer_input_port_id = operand_edges"
proof -
  show "edge_index operands_map consumer_node_id"
    by unfold_locales (use graph_wfD(4,6) mem_ops in \<open>auto simp: mirror_def\<close>)
  then show "edge_index.query operands_map consumer_input_port_id = operand_edges"
    by (intro ext) (simp add: edge_index.query_def operand_edges_def operand_edges_set_def)
qed

interpretation usq: edge_index users_map producer_node_id user_edge_order
  rewrites "edge_index.query users_map user_edge_order = user_edges"
proof -
  show "edge_index users_map producer_node_id"
    by unfold_locales (use graph_wfD(5,6) mem_usr in \<open>auto simp: mirror_def\<close>)
  then show "edge_index.query users_map user_edge_order = user_edges"
    by (intro ext) (simp add: edge_index.query_def user_edges_def user_edges_set_def)
qed


text \<open>C28: the operand edges of a node are exactly its visible operand edges that pass the filter, each
  once, in the order of the input ports; a node outside the graph is an error.\<close>

theorem operand_edges_correct:
  assumes "graph_wf w g"
  shows "case operand_edges f g i of
       Inl err \<Rightarrow> i \<notin> node_ids g \<and> err = Out_of_range
     | Inr es \<Rightarrow> i \<in> node_ids g \<and> sorted (map consumer_input_port_id es) \<and>
         distinct (map unique_id es) \<and>
         set es = {e \<in> set (graph_edges g). consumer_node_id e = i \<and> f e \<and> edge_shown g e}"
proof (cases "i \<in> node_ids g")
  case True
  from opq.query_correct [OF assms True, of f] obtain es where
    "operand_edges f g i = Inr es" "sorted (map consumer_input_port_id es)"
    "distinct (map unique_id es)"
    "set es = {e \<in> set (graph_edges g). consumer_node_id e = i \<and> f e \<and> edge_shown g e}" .
  with True show ?thesis by simp
next
  case False
  with opq.query_missing [OF assms False, of f] show ?thesis by simp
qed

theorem operand_edges_correct_witness:
  "case operand_edges (\<lambda>_. True) example_g 2 of
     Inl _ \<Rightarrow> False
   | Inr es \<Rightarrow> sorted (map consumer_input_port_id es) \<and> 2 \<in> node_ids example_g"
proof -
  have "\<not> isl (operand_edges (\<lambda>_. True) example_g 2)" by code_simp
  with operand_edges_correct [OF example_wf, where f = any_edge and i = 2] show ?thesis
    by (auto split: sum.splits)
qed

text \<open>the user edges of a node are exactly its visible user edges that pass the filter, in the
  order of output port, input port and creation; when no two of them share a creation id, the
  answer does not depend on the order in which the unordered sets are iterated.\<close>

theorem user_edges_correct:
  assumes "graph_wf w g" "graph_wf w h" "i \<in> node_ids g" "i \<in> node_ids h"
    and "set (graph_edges g) = set (graph_edges h)" "edge_shown g = edge_shown h"
    and inj: "inj_on edge_creation_id (set (graph_edges g))"
  shows "\<exists>es. user_edges f g i = Inr es \<and> user_edges f h i = Inr es \<and>
     sorted (map user_edge_order es) \<and> distinct (map unique_id es) \<and>
     set es = {e \<in> set (graph_edges g). producer_node_id e = i \<and> f e \<and> edge_shown g e}"
proof -
  have "inj_on user_edge_order {e \<in> set (graph_edges g). producer_node_id e = i}"
    using inj by (auto simp: inj_on_def user_edge_order_def)
  note eq = usq.query_deterministic [OF assms(1-6) this, of f]
  from usq.query_correct [OF assms(1,3), of f] obtain es where
    "user_edges f g i = Inr es" "sorted (map user_edge_order es)" "distinct (map unique_id es)"
    "set es = {e \<in> set (graph_edges g). producer_node_id e = i \<and> f e \<and> edge_shown g e}" .
  with eq show ?thesis by (intro exI [of _ es]) simp
qed

theorem user_edges_correct_witness:
  "\<exists>es. user_edges any_edge example_g 1 = Inr es \<and>
     set es = {e \<in> set (graph_edges example_g). producer_node_id e = 1 \<and> edge_shown example_g e}"
proof -
  have "keys (nodes_map example_g) = [1, 2, 3]" "distinct (map edge_creation_id (graph_edges example_g))"
    by code_simp+
  then have "1 \<in> node_ids example_g" "inj_on edge_creation_id (set (graph_edges example_g))"
    by (simp_all add: distinct_map)
  from user_edges_correct [OF example_wf example_wf this(1) this(1) refl refl this(2),
      where f = any_edge]
  show ?thesis by auto
qed

lemma operands_eq:
  assumes wf: "graph_wf w g" and i: "i \<in> node_ids g"
  shows "\<exists>is. operands g i = Inr is \<and>
     set is = {producer_node_id e | e. e \<in> set (graph_edges g) \<and> consumer_node_id e = i \<and> edge_shown g e}"
proof -
  from opq.query_correct [OF wf i, of any_edge] obtain es where
    es: "operand_edges any_edge g i = Inr es"
      "set es = {e \<in> set (graph_edges g). consumer_node_id e = i \<and> True \<and> edge_shown g e}" by blast
  have "mapR (\<lambda>e. node_of g (producer_node_id e)) es = Inr (map producer_node_id es)"
    by (rule mapR_total) (use es graph_edges_ends(4) [OF wf] node_of_in in auto)
  with es show ?thesis by (auto simp: operands_def)
qed

lemma users_eq:
  assumes wf: "graph_wf w g" and i: "i \<in> node_ids g"
  shows "\<exists>is. users f g i = Inr is \<and> set is =
     {consumer_node_id e | e. e \<in> set (graph_edges g) \<and> producer_node_id e = i \<and> f e \<and> edge_shown g e}"
proof -
  from usq.query_correct [OF wf i, of f] obtain es where
    es: "user_edges f g i = Inr es"
      "set es = {e \<in> set (graph_edges g). producer_node_id e = i \<and> f e \<and> edge_shown g e}" by blast
  have "mapR (\<lambda>e. node_of g (consumer_node_id e)) es = Inr (map consumer_node_id es)"
    by (rule mapR_total) (use es graph_edges_ends(3) [OF wf] node_of_in in auto)
  with es show ?thesis by (auto simp: users_def)
qed

text \<open>C29: operands and users mirror each other: when the edges are visible, j is an operand of i
  exactly when i is a user of j.\<close>

theorem operands_users_dual:
  assumes wf: "graph_wf w g" and "i \<in> node_ids g" "j \<in> node_ids g"
  shows "\<exists>os us. operands g i = Inr os \<and> users any_edge g j = Inr us \<and> (j \<in> set os \<longleftrightarrow> i \<in> set us)"
proof -
  from operands_eq [OF wf assms(2)] obtain os where
    "operands g i = Inr os" "set os = {producer_node_id e | e.
       e \<in> set (graph_edges g) \<and> consumer_node_id e = i \<and> edge_shown g e}" by blast
  moreover from users_eq [OF wf assms(3), of any_edge] obtain us where
    "users any_edge g j = Inr us" "set us = {consumer_node_id e | e.
       e \<in> set (graph_edges g) \<and> producer_node_id e = j \<and> True \<and> edge_shown g e}" by blast
  ultimately show ?thesis by auto
qed

text \<open>operands and users mirror each other: when the edges are visible, j is an operand of i
  exactly when i is a user of j.\<close>

theorem operands_users_dual_witness:
  "\<exists>os us. operands example_g 2 = Inr os \<and> users any_edge example_g 1 = Inr us \<and>
     1 \<in> set os \<and> 2 \<in> set us"
proof -
  have "keys (nodes_map example_g) = [1, 2, 3]" "operands example_g 2 = Inr [1]" by code_simp+
  then have "2 \<in> node_ids example_g" "1 \<in> node_ids example_g" "operands example_g 2 = Inr [1]" by simp_all
  from operands_users_dual [OF example_wf this(1,2)] this(3) show ?thesis by auto
qed


section \<open>Ports and indices\<close>

lemma nth_takeWhile_id:
  assumes d: "distinct (map unique_id es)" and e: "e \<in> set es"
  shows "length (takeWhile (\<lambda>x. \<not> edge_eq x e) es) < length es"
    "es ! length (takeWhile (\<lambda>x. \<not> edge_eq x e) es) = e"
proof -
  let ?k = "length (takeWhile (\<lambda>x. \<not> edge_eq x e) es)"
  have "takeWhile (\<lambda>x. \<not> edge_eq x e) es \<noteq> es"
    using e by (auto simp: takeWhile_eq_all_conv edge_eq_def)
  then show k: "?k < length es"
    by (metis length_takeWhile_le nat_less_le takeWhile_eq_take take_all_iff)
  then have "unique_id (es ! ?k) = unique_id e"
    using nth_length_takeWhile [OF k] by (simp add: edge_eq_def)
  with d e k show "es ! ?k = e" by (auto simp: distinct_map dest: inj_onD)
qed

text \<open>the port and index found for a data edge of a node lead back to the edge: it is at that
  position among the node's data edges on that port.\<close>

theorem output_port_and_index_correct:
  assumes wf: "graph_wf w g" and e: "e \<in> set (graph_edges g)"
    and data: "is_data_edge e" and shown: "edge_shown g e"
  shows "\<exists>k es. output_port_and_index_for_data_user_port g (producer_node_id e) e =
       Inr (producer_output_port_id e, int k) \<and>
     user_data_edges_for_operand_port g (producer_node_id e) (producer_output_port_id e) = Inr es \<and>
     k < length es \<and> es ! k = e"
proof -
  let ?f = "\<lambda>x. True \<and> is_data_edge x" and ?i = "producer_node_id e"
  from usq.query_correct [OF wf graph_edges_ends(4) [OF wf e], of ?f] obtain us where
    us: "user_edges ?f g ?i = Inr us" "distinct (map unique_id us)"
      "set us = {x \<in> set (graph_edges g). producer_node_id x = ?i \<and> ?f x \<and> edge_shown g x}" .
  let ?same = "filter (\<lambda>x. producer_output_port_id x = producer_output_port_id e) us"
  have in_us: "e \<in> set us" using us(3) e data shown by simp
  then have same: "e \<in> set ?same" by simp
  have d: "distinct (map unique_id ?same)" by (rule distinct_map_filter [OF us(2)])
  have ex: "list_ex (\<lambda>x. edge_eq x e) us" using in_us by (auto simp: list_ex_iff edge_eq_def)
  show ?thesis
    using us(1) ex nth_takeWhile_id [OF d same]
    by (intro exI [of _ "length (takeWhile (\<lambda>x. \<not> edge_eq x e) ?same)"] exI [of _ ?same])
      (simp add: output_port_and_index_for_data_user_port_def user_data_edges_def
        user_data_edges_for_operand_port_def Let_def)
qed

theorem output_port_and_index_correct_witness:
  "\<exists>k es. output_port_and_index_for_data_user_port example_g 1 (edge_with_id 1 0 2 0 kData 0) =
       Inr (0, int k) \<and>
     user_data_edges_for_operand_port example_g 1 0 = Inr es \<and>
     k < length es \<and> es ! k = edge_with_id 1 0 2 0 kData 0"
proof -
  let ?e = "edge_with_id 1 0 2 0 kData 0"
  have "list_ex (\<lambda>x. x = ?e) (graph_edges example_g)" "is_data_edge ?e" "nothing_hidden example_g"
    by code_simp+
  then have "?e \<in> set (graph_edges example_g)" "is_data_edge ?e" "edge_shown example_g ?e"
    by (simp_all add: edge_shown_def list_ex_iff)
  from output_port_and_index_correct [OF example_wf this] show ?thesis by simp
qed

lemma count_port_update [simp]:
  "count_port (AList.update p k m) q = (if q = p then k else count_port m q)"
  by (simp add: count_port_def map_get_def)

lemma port_indices_eq:
  "port_indices c m es =
     map (\<lambda>k. (producer_output_port_id (es ! k),
        count_port m (producer_output_port_id (es ! k)) +
        int (length (filter (\<lambda>x. producer_output_port_id x = producer_output_port_id (es ! k))
          (take k es)))))
       (filter (\<lambda>k. consumer_node_id (es ! k) = c) [0..<length es])"
proof (induction es arbitrary: m)
  case Nil
  then show ?case by simp
next
  case (Cons e es)
  have "[0..<length (e # es)] = 0 # map Suc [0..<length es]"
    by (simp add: map_Suc_upt upt_conv_Cons del: upt_Suc)
  then show ?case
    by (simp add: Cons.IH Let_def filter_map comp_def del: upt_Suc)
qed

text \<open>for each visible edge from the producer to the consumer, in the order of the user edges, the
  output port of the edge comes with the number of user edges on that port before it.\<close>

theorem output_port_and_index_for_consumer_correct:
  assumes "graph_wf w g" "p \<in> node_ids g"
  shows "\<exists>es. user_edges any_edge g p = Inr es \<and>
     output_port_and_index_for_consumer g p c = Inr (map (\<lambda>k. (producer_output_port_id (es ! k),
         int (length (filter (\<lambda>x. producer_output_port_id x = producer_output_port_id (es ! k))
           (take k es)))))
       (filter (\<lambda>k. consumer_node_id (es ! k) = c) [0..<length es]))"
proof -
  from usq.query_correct [OF assms, of any_edge] obtain es where "user_edges any_edge g p = Inr es" .
  then show ?thesis
    by (simp add: output_port_and_index_for_consumer_def port_indices_eq count_port_def map_get_def)
qed

theorem output_port_and_index_for_consumer_correct_witness:
  "\<exists>es. user_edges any_edge example_g 2 = Inr es \<and> es \<noteq> [] \<and>
     (\<exists>xs. output_port_and_index_for_consumer example_g 2 3 = Inr xs)"
proof -
  have "keys (nodes_map example_g) = [1, 2, 3]" "user_edges any_edge example_g 2 \<noteq> Inr []" by code_simp+
  then have "2 \<in> node_ids example_g" "user_edges any_edge example_g 2 \<noteq> Inr []" by simp_all
  from output_port_and_index_for_consumer_correct [OF example_wf this(1), of 3] this(2)
  show ?thesis by auto
qed

section \<open>Traversal contexts\<close>

text \<open>inside a context, the nodes seen are those of the node set and the virtual nodes of the virtual
  set; leaving the context gives back the graph that entered it.\<close>

theorem traversal_context_correct:
  "case enter_context_all (Some ns) vs es g of (h, c) \<Rightarrow>
     is_node_visible h i = (i \<in> set ns \<or> is_node_virtual g i \<and> in_context i vs) \<and>
     leave_context c h = g"
  by (auto simp: enter_context_all_def leave_context_def is_node_visible_def nothing_hidden_def
      is_node_virtual_def in_context_def)

text \<open>the edges that a context ignores are hidden only when the graph has virtual nodes or the
  context also names nodes: without either, the early out of the visibility test shows them.\<close>

theorem ignored_edges_early_out:
  "is_edge_visible (fst (enter_context_virtual None (Some [e]) (g\<lparr>virtual_nodes := []\<rparr>))) e =
     Inr True \<and>
   is_edge_visible (fst (enter_context_virtual (Some []) (Some [e]) g)) e = Inr False"
  by (simp_all add: enter_context_virtual_def enter_context_all_def is_edge_visible_def
      nothing_hidden_def is_edge_ignored_def edge_eq_def)

end
