(* ===== verification/Depth_First.thy ===== *)
theory Depth_First
  imports Prelude
begin

text \<open>
  Depth-first search in post-order, with fuel for the depth of the recursion: the search that
  \<open>topological_sort\<close>, \<open>topological_generations\<close> and \<open>reachable_nodes\<close> of \<open>utils.cpp\<close> have in common.
  The nodes already entered are \<open>vis\<close>, the nodes left are \<open>out\<close>.
\<close>

fun dfs :: "nat \<Rightarrow> ('a \<Rightarrow> 'a list) \<Rightarrow> 'a list \<times> 'a list \<Rightarrow> 'a \<Rightarrow> ('a list \<times> 'a list) result" where
  "dfs 0 succ st x = Inl Out_of_fuel"
| "dfs (Suc k) succ st x =
     rbind (foldR (\<lambda>st y. if y \<in> set (fst st) then Inr st else dfs k succ st y)
              (x # fst st, snd st) (succ x))
       (\<lambda>st'. Inr (fst st', snd st' @ [x]))"

definition dfs_all :: "nat \<Rightarrow> ('a \<Rightarrow> 'a list) \<Rightarrow> 'a list \<times> 'a list \<Rightarrow> 'a list \<Rightarrow> ('a list \<times> 'a list) result" where
  "dfs_all k succ = foldR (\<lambda>st y. if y \<in> set (fst st) then Inr st else dfs k succ st y)"

definition succ_rel :: "('a \<Rightarrow> 'a list) \<Rightarrow> 'a set \<Rightarrow> ('a \<times> 'a) set" where
  "succ_rel succ V = {(x, y). x \<in> V \<and> y \<in> set (succ x)}"

locale search =
  fixes succ :: "'a \<Rightarrow> 'a list" and V :: "'a set"
  assumes finite_V: "finite V" and succ_V: "x \<in> V \<Longrightarrow> set (succ x) \<subseteq> V"
begin

abbreviation E :: "('a \<times> 'a) set" where
  "E \<equiv> succ_rel succ V"

text \<open>What a search from the nodes \<open>xs\<close> adds: the nodes \<open>new\<close>, each after its successors unless a
  successor leads back to it.\<close>

definition explored :: "'a list \<Rightarrow> 'a list \<Rightarrow> 'a list \<Rightarrow> 'a list \<Rightarrow> bool" where
  "explored xs vis vis' new \<longleftrightarrow>
     set vis' = set vis \<union> set new \<and> distinct new \<and> set new \<inter> set vis = {} \<and>
     set new \<subseteq> V \<and> set xs \<subseteq> set vis' \<and>
     (\<forall>y \<in> set new. set (succ y) \<subseteq> set vis' \<and> (\<exists>x \<in> set xs. (x, y) \<in> E\<^sup>*)) \<and>
     (\<forall>as y bs. new = as @ y # bs \<longrightarrow>
        (\<forall>z \<in> set (succ y). z \<in> set vis \<union> set as \<or> (z, y) \<in> E\<^sup>*))"

lemma exploredD:
  assumes "explored xs vis vis' new"
  shows "set vis' = set vis \<union> set new" "distinct new" "set new \<inter> set vis = {}" "set new \<subseteq> V"
    "set xs \<subseteq> set vis'"
    "y \<in> set new \<Longrightarrow> z \<in> set (succ y) \<Longrightarrow> z \<in> set vis'"
    "y \<in> set new \<Longrightarrow> \<exists>x \<in> set xs. (x, y) \<in> E\<^sup>*"
    "new = as @ y # bs \<Longrightarrow> z \<in> set (succ y) \<Longrightarrow> z \<in> set vis \<union> set as \<or> (z, y) \<in> E\<^sup>*"
  using assms unfolding explored_def by blast+

lemma exploredI:
  assumes "set vis' = set vis \<union> set new" "distinct new" "set new \<inter> set vis = {}" "set new \<subseteq> V"
    "set xs \<subseteq> set vis'"
    "\<And>y z. y \<in> set new \<Longrightarrow> z \<in> set (succ y) \<Longrightarrow> z \<in> set vis'"
    "\<And>y. y \<in> set new \<Longrightarrow> \<exists>x \<in> set xs. (x, y) \<in> E\<^sup>*"
    "\<And>as y bs z. new = as @ y # bs \<Longrightarrow> z \<in> set (succ y) \<Longrightarrow> z \<in> set vis \<union> set as \<or> (z, y) \<in> E\<^sup>*"
  shows "explored xs vis vis' new"
  unfolding explored_def using assms by (intro conjI ballI allI impI) blast+

lemma explored_seq:
  assumes 1: "explored xs vis vis1 new1" and 2: "explored ys vis1 vis2 new2"
  shows "explored (xs @ ys) vis vis2 (new1 @ new2)"
proof (rule exploredI)
  note D1 = exploredD [OF 1] and D2 = exploredD [OF 2]
  show "set vis2 = set vis \<union> set (new1 @ new2)" using D1(1) D2(1) by auto
  show "distinct (new1 @ new2)" "set (new1 @ new2) \<inter> set vis = {}" "set (new1 @ new2) \<subseteq> V"
    "set (xs @ ys) \<subseteq> set vis2"
    using D1(1-5) D2(1-5) by auto
  show "\<exists>x \<in> set (xs @ ys). (x, y) \<in> E\<^sup>*" if "y \<in> set (new1 @ new2)" for y
    using that D1(7) D2(7) by auto
  show "z \<in> set vis2" if "y \<in> set (new1 @ new2)" "z \<in> set (succ y)" for y z
    using that D1(1) D1(6) [of y z] D2(1) D2(6) [of y z] by auto
  fix as y bs z
  assume eq: "new1 @ new2 = as @ y # bs" and z: "z \<in> set (succ y)"
  show "z \<in> set vis \<union> set as \<or> (z, y) \<in> E\<^sup>*"
  proof (cases "length as < length new1")
    case True
    from arg_cong [OF eq, of "take (length new1)"] True
    have "new1 = as @ y # take (length new1 - Suc (length as)) bs"
      by (simp add: take_Cons')
    from D1(8) [OF this z] show ?thesis .
  next
    case False
    then obtain as2 where as: "as = new1 @ as2"
      using eq by (auto simp: append_eq_append_conv2)
    with eq have "new2 = as2 @ y # bs" by simp
    from D2(8) [OF this z] D1(1) as show ?thesis by auto
  qed
qed

lemma explored_refl: "set xs \<subseteq> set vis \<Longrightarrow> explored xs vis vis []"
  by (simp add: explored_def)

lemma explored_node:
  assumes x: "x \<in> V" "x \<notin> set vis" and 1: "explored (succ x) (x # vis) vis' new"
  shows "explored [x] vis vis' (new @ [x])"
proof (rule exploredI)
  note D = exploredD [OF 1]
  have E: "\<And>y. y \<in> set (succ x) \<Longrightarrow> (x, y) \<in> E" using x by (simp add: succ_rel_def)
  have R: "\<And>y. y \<in> set new \<Longrightarrow> (x, y) \<in> E\<^sup>*"
    using D(7) E by (metis converse_rtrancl_into_rtrancl)
  show "set vis' = set vis \<union> set (new @ [x])" "distinct (new @ [x])" "set (new @ [x]) \<inter> set vis = {}"
    "set (new @ [x]) \<subseteq> V" "set [x] \<subseteq> set vis'"
    using D(1-4) x by auto
  show "\<exists>a \<in> set [x]. (a, y) \<in> E\<^sup>*" if "y \<in> set (new @ [x])" for y using that R by auto
  show "z \<in> set vis'" if "y \<in> set (new @ [x])" "z \<in> set (succ y)" for y z
    using that D(5,6) by auto
  fix as y bs z
  assume eq: "new @ [x] = as @ y # bs" and z: "z \<in> set (succ y)"
  show "z \<in> set vis \<union> set as \<or> (z, y) \<in> E\<^sup>*"
  proof (cases bs rule: rev_cases)
    case Nil
    with eq have "as = new" "y = x" by simp_all
    with z D(1,5) E show ?thesis by auto
  next
    case (snoc bs' b)
    with eq have n: "new = as @ y # bs'" by simp
    from D(8) [OF n z] R [of y] n show ?thesis by auto
  qed
qed

lemma dfs_all_explored:
  assumes step: "\<And>st y. y \<in> V \<Longrightarrow> y \<notin> set (fst st) \<Longrightarrow> set (fst st) \<subseteq> V \<Longrightarrow>
      card (V - set (fst st)) \<le> k \<Longrightarrow>
      \<exists>vis' new. dfs k succ st y = Inr (vis', snd st @ new) \<and> explored [y] (fst st) vis' new"
  shows "set xs \<subseteq> V \<Longrightarrow> set (fst st) \<subseteq> V \<Longrightarrow> card (V - set (fst st)) \<le> k \<Longrightarrow>
     \<exists>vis' new. dfs_all k succ st xs = Inr (vis', snd st @ new) \<and> explored xs (fst st) vis' new"
proof (induction xs arbitrary: st)
  case Nil
  then show ?case by (intro exI [of _ "fst st"] exI [of _ "[]"]) (simp add: dfs_all_def explored_def)
next
  case (Cons x xs)
  obtain vis1 new1 where 1: "(if x \<in> set (fst st) then Inr st else dfs k succ st x) =
      Inr (vis1, snd st @ new1)" "explored [x] (fst st) vis1 new1"
  proof (cases "x \<in> set (fst st)")
    case True
    then show ?thesis using that [of "fst st" "[]"] explored_refl [of "[x]"] by simp
  next
    case False
    with step [of x st] Cons.prems that show ?thesis by auto
  qed
  have sub: "set (fst st) \<subseteq> set vis1" "set vis1 \<subseteq> V"
    using 1(2) Cons.prems by (auto simp: explored_def)
  have "card (V - set vis1) \<le> k"
    using card_mono [of "V - set (fst st)" "V - set vis1"] sub finite_V Cons.prems(3)
    by (meson Diff_mono finite_Diff order.trans subset_refl)
  with Cons.IH [of "(vis1, snd st @ new1)"] Cons.prems sub obtain vis2 new2 where
    "dfs_all k succ (vis1, snd st @ new1) xs = Inr (vis2, snd st @ new1 @ new2)"
    "explored xs vis1 vis2 new2" by auto
  with 1 explored_seq [OF 1(2)] show ?case
    by (intro exI [of _ vis2] exI [of _ "new1 @ new2"]) (simp add: dfs_all_def)
qed

lemma dfs_explored:
  "x \<in> V \<Longrightarrow> x \<notin> set (fst st) \<Longrightarrow> set (fst st) \<subseteq> V \<Longrightarrow> card (V - set (fst st)) \<le> k \<Longrightarrow>
     \<exists>vis' new. dfs k succ st x = Inr (vis', snd st @ new) \<and> explored [x] (fst st) vis' new"
proof (induction k arbitrary: st x)
  case 0
  then show ?case using finite_V by auto
next
  case (Suc k)
  have "V - set (fst st) = insert x (V - set (x # fst st))" using Suc.prems by auto
  then have "card (V - set (fst st)) = Suc (card (V - set (x # fst st)))"
    using finite_V by (metis Diff_iff card_insert_disjoint finite_Diff list.set_intros(1))
  with Suc.prems(4) have card: "card (V - set (x # fst st)) \<le> k" by simp
  have "\<exists>vis' new. dfs_all k succ (x # fst st, snd st) (succ x) =
        Inr (vis', snd (x # fst st, snd st) @ new) \<and>
      explored (succ x) (fst (x # fst st, snd st)) vis' new"
  proof (rule dfs_all_explored)
    fix st :: "'a list \<times> 'a list" and y
    assume "y \<in> V" "y \<notin> set (fst st)" "set (fst st) \<subseteq> V" "card (V - set (fst st)) \<le> k"
    then show "\<exists>vis' new. dfs k succ st y = Inr (vis', snd st @ new) \<and> explored [y] (fst st) vis' new"
      by (rule Suc.IH)
  qed (use Suc.prems(1,3) succ_V card in simp_all)
  then obtain vis' new where
    1: "dfs_all k succ (x # fst st, snd st) (succ x) = Inr (vis', snd st @ new)"
      "explored (succ x) (x # fst st) vis' new" by auto
  with explored_node [OF Suc.prems(1,2)] show ?case
    by (intro exI [of _ vis'] exI [of _ "new @ [x]"]) (simp add: dfs_all_def)
qed

lemma dfs_all_total:
  assumes "set xs \<subseteq> V" "set (fst st) \<subseteq> V" "card V \<le> k"
  shows "\<exists>vis' new. dfs_all k succ st xs = Inr (vis', snd st @ new) \<and> explored xs (fst st) vis' new"
proof (rule dfs_all_explored [OF dfs_explored])
  have "card (V - set (fst st)) \<le> card V" by (rule card_mono [OF finite_V]) auto
  with assms(3) show "card (V - set (fst st)) \<le> k" by simp
qed (use assms in auto)

text \<open>A search from scratch finds exactly what can be reached, each node once.\<close>

lemma explored_reach:
  assumes ex: "explored xs [] vis' new" and xs: "set xs \<subseteq> V"
  shows "set new = E\<^sup>* `` set xs"
proof
  note D = exploredD [OF ex]
  show "set new \<subseteq> E\<^sup>* `` set xs" using D(7) by blast
  have "y \<in> set new" if "(x, y) \<in> E\<^sup>*" "x \<in> set xs" for x y
    using that(1)
  proof (induction rule: rtrancl_induct)
    case base
    then show ?case using that(2) D(1,5) by auto
  next
    case (step y z)
    then show ?case using D(1) D(6) [of y z] by (auto simp: succ_rel_def)
  qed
  then show "E\<^sup>* `` set xs \<subseteq> set new" by blast
qed

text \<open>Without cycles, a node comes after everything it can reach.\<close>

lemma explored_before:
  assumes ex: "explored xs [] vis' new" and ac: "acyclic E"
  shows "(y, z) \<in> E\<^sup>+ \<Longrightarrow> new = as @ y # bs \<Longrightarrow> z \<in> set as"
proof (induction arbitrary: as bs rule: converse_trancl_induct)
  case (base y)
  then have "z \<in> set as \<or> (z, y) \<in> E\<^sup>*" using exploredD(8) [OF ex base(2)] by (simp add: succ_rel_def)
  moreover have "(z, y) \<notin> E\<^sup>*" using ac base(1) by (metis acyclic_def rtrancl_into_trancl2)
  ultimately show ?case by simp
next
  case (step y u)
  then have "u \<in> set as \<or> (u, y) \<in> E\<^sup>*" using exploredD(8) [OF ex step(4)] by (simp add: succ_rel_def)
  moreover have "(u, y) \<notin> E\<^sup>*" using ac step(1) by (metis acyclic_def rtrancl_into_trancl2)
  ultimately obtain as1 as2 where "as = as1 @ u # as2" by (meson split_list)
  with step show ?case by auto
qed

lemma explored_order:
  assumes ex: "explored xs [] vis' new" and ac: "acyclic E"
  shows "sorted_wrt (\<lambda>a b. (a, b) \<notin> E\<^sup>+) new"
  unfolding sorted_wrt_iff_nth_less
proof (intro allI impI notI)
  fix i j
  assume ij: "i < j" "j < length new" and E: "(new ! i, new ! j) \<in> E\<^sup>+"
  then have "new = take i new @ new ! i # drop (Suc i) new" by (simp add: id_take_nth_drop [symmetric])
  from explored_before [OF ex ac E this] obtain l where "l < i" "new ! l = new ! j"
    using ij by (auto simp: in_set_conv_nth)
  with ij exploredD(2) [OF ex] show False by (simp add: nth_eq_iff_index_eq)
qed

end

end
