(* ===== verification/Traversal.thy ===== *)
theory Traversal
  imports Query_Laws Depth_First
begin

text \<open>
  The traversals of \<open>forge/csrc/graph_lib/utils.cpp\<close>: \<open>topological_sort\<close> with its loop unrolling,
  \<open>topological_generations\<close> with \<open>top_row\<close> and \<open>bot_row\<close>, \<open>reachable_nodes\<close>, \<open>get_longest_path\<close> and
  the degree queries.

  \<^item> The recursive lambda \<open>VisitNode\<close> has its depth as fuel, the work lists have their number of
    rounds as fuel; running out is the error \<open>Out_of_fuel\<close>. \<open>Traversal_Laws\<close> shows that the number of
    nodes is enough for every traversal without loop unrolling.
  \<^item> A node filter is a Boolean function of the node id.
\<close>

section \<open>Visited nodes\<close>

definition requires_visit :: "(NodeId \<times> bool) list \<Rightarrow> NodeId \<Rightarrow> bool" where
  "requires_visit visited i = (case map_of visited i of None \<Rightarrow> True | Some b \<Rightarrow> \<not> b)"

definition mark_visited :: "NodeId \<Rightarrow> (NodeId \<times> bool) list \<Rightarrow> (NodeId \<times> bool) list" where
  "mark_visited i visited = AList.update i True visited"

text \<open>The edges that the topological traversals do not follow.\<close>

definition skipped_in_topo :: "Edge \<Rightarrow> bool" where
  "skipped_in_topo e \<longleftrightarrow>
     edge_type e = kDataLoopback \<or> edge_type e = kPartialDataCopy \<or> edge_type e = kControlLoop"

section \<open>Topological sort\<close>

record TopoState =
  topo_visited :: "(NodeId \<times> bool) list"
  topo_result :: "NodeId list"
  topo_queue :: "NodeId list"
  topo_iterations :: "(EdgeUniqueId \<times> int) list"

text \<open>
  A control loop edge at the end of a visit: while its iterations are not used up, the nodes of the
  loop become unvisited and are queued again, in the order of the graph's nodes.
\<close>

definition unroll_edge :: "World \<Rightarrow> Graph \<Rightarrow> TopoState \<Rightarrow> Edge \<Rightarrow> TopoState result" where
  "unroll_edge w g st e =
     (if edge_type e \<noteq> kControlLoop then Inr st
      else rbind (edge_attr w g e) (\<lambda>a.
           rbind (as_loop a) (\<lambda>l.
             let k = map_get 1 (topo_iterations st) (unique_id e);
                 again = (if k < loop_iterations l
                          then filter (is_processed_in_loop l) (nodes_order g) else [])
             in Inr (st\<lparr>topo_visited := fold (\<lambda>i. AList.update i False) again (topo_visited st),
                        topo_queue := topo_queue st @ again,
                        topo_iterations :=
                          AList.update (unique_id e) (k + 1) (topo_iterations st)\<rparr>))))"

fun visit_topo ::
    "nat \<Rightarrow> (NodeId \<Rightarrow> bool) \<Rightarrow> bool \<Rightarrow> World \<Rightarrow> Graph \<Rightarrow> TopoState \<Rightarrow> NodeId \<Rightarrow> TopoState result" where
  "visit_topo 0 flt unroll w g st i = Inl Out_of_fuel"
| "visit_topo (Suc k) flt unroll w g st i =
     rbind (operand_edges any_edge g i) (\<lambda>es.
     rbind (foldR (\<lambda>st e.
         if skipped_in_topo e then Inr st
         else rbind (node_of g (producer_node_id e)) (\<lambda>p.
           if requires_visit (topo_visited st) p then visit_topo k flt unroll w g st p
           else Inr st))
         (st\<lparr>topo_visited := mark_visited i (topo_visited st)\<rparr>) es) (\<lambda>st1.
     let st2 = (if flt i then st1\<lparr>topo_result := topo_result st1 @ [i]\<rparr> else st1)
     in if unroll then rbind (user_edges any_edge g i) (foldR (unroll_edge w g) st2)
        else Inr st2))"

fun topo_loop ::
    "nat \<Rightarrow> nat \<Rightarrow> (NodeId \<Rightarrow> bool) \<Rightarrow> bool \<Rightarrow> World \<Rightarrow> Graph \<Rightarrow> TopoState \<Rightarrow> TopoState result" where
  "topo_loop rounds depth flt unroll w g st =
     (case topo_queue st of
        [] \<Rightarrow> Inr st
      | i # _ \<Rightarrow> (case rounds of
          0 \<Rightarrow> Inl Out_of_fuel
        | Suc n \<Rightarrow>
            rbind (if requires_visit (topo_visited st) i then visit_topo depth flt unroll w g st i
                   else Inr st) (\<lambda>st'.
              topo_loop n depth flt unroll w g (st'\<lparr>topo_queue := tl (topo_queue st')\<rparr>))))"

declare topo_loop.simps [simp del]

definition topological_sort ::
    "nat \<Rightarrow> nat \<Rightarrow> (NodeId \<Rightarrow> bool) \<Rightarrow> bool \<Rightarrow> World \<Rightarrow> Graph \<Rightarrow> NodeId list result" where
  "topological_sort rounds depth flt unroll w g =
     rbind (topo_loop rounds depth flt unroll w g
              \<lparr>topo_visited = [], topo_result = [],
               topo_queue = filter (is_node_visible g) (nodes_order g), topo_iterations = []\<rparr>)
       (\<lambda>st. Inr (topo_result st))"

text \<open>The default arguments: every node, no unrolling; as much fuel as the graph has nodes.\<close>

definition topo_order :: "World \<Rightarrow> Graph \<Rightarrow> NodeId list result" where
  "topo_order w g =
     topological_sort (length (nodes_order g)) (length (nodes_order g)) (\<lambda>_. True) False w g"

definition visible_nodes :: "(NodeId \<Rightarrow> bool) \<Rightarrow> Graph \<Rightarrow> NodeId list" where
  "visible_nodes flt g = filter (\<lambda>i. is_node_visible g i \<and> flt i) (nodes_order g)"

text \<open>
  \<open>sorted_impl\<close> of \<open>utils.hpp\<close>: the nodes that pass the cast and the filter, by their position in the
  topological order; a node that is not in it has the position past the end.
\<close>

definition topo_position :: "NodeId list \<Rightarrow> NodeId \<Rightarrow> nat" where
  "topo_position topo i = length (takeWhile (\<lambda>x. x \<noteq> i) topo)"

definition sorted_impl ::
    "(Node \<Rightarrow> bool result) \<Rightarrow> World \<Rightarrow> Graph \<Rightarrow> NodeId list \<Rightarrow> NodeId list result" where
  "sorted_impl f w g is =
     rbind (filterR (\<lambda>i. rbind (deref g i) f) is) (\<lambda>ns.
     rbind (topo_order w g) (\<lambda>topo. Inr (sort_key (topo_position topo) ns)))"

definition is_partial_datacopy_output :: "Graph \<Rightarrow> NodeId \<Rightarrow> Node \<Rightarrow> bool result" where
  "is_partial_datacopy_output g i n =
     (if node_type n \<noteq> kOutput then Inr False
      else rbind (user_edges any_edge g i) (\<lambda>us.
        Inr (length us = 1 \<and> edge_type (hd us) = kPartialDataCopy)))"

definition ordered_partial_datacopy_outputs :: "World \<Rightarrow> Graph \<Rightarrow> NodeId list result" where
  "ordered_partial_datacopy_outputs w g =
     rbind (filterR (\<lambda>i. rbind (deref g i) (is_partial_datacopy_output g i)) (nodes_order g)) (\<lambda>ns.
       sorted_impl (\<lambda>_. Inr True) w g ns)"

section \<open>Reachable nodes\<close>

text \<open>\<open>VisitNode\<close> of \<open>reachable_nodes\<close>: the operands, then the users unless the node is an input.\<close>

fun visit_reachable ::
    "nat \<Rightarrow> (NodeId \<Rightarrow> bool) \<Rightarrow> bool \<Rightarrow> Graph \<Rightarrow> (NodeId \<times> bool) list \<times> NodeId list \<Rightarrow> NodeId \<Rightarrow>
      ((NodeId \<times> bool) list \<times> NodeId list) result" where
  "visit_reachable 0 flt ancestors_only g st i = Inl Out_of_fuel"
| "visit_reachable (Suc k) flt ancestors_only g st i =
     rbind (deref g i) (\<lambda>n.
     rbind (data_operands g i) (\<lambda>os.
     rbind (foldR (\<lambda>st j. if requires_visit (fst st) j
                          then visit_reachable k flt ancestors_only g st j else Inr st)
              (mark_visited i (fst st), snd st) os) (\<lambda>st1.
     rbind (if node_type n \<noteq> kInput \<and> \<not> ancestors_only then
              rbind (data_users g i) (\<lambda>us.
                foldR (\<lambda>st j. if requires_visit (fst st) j
                              then visit_reachable k flt ancestors_only g st j else Inr st) st1 us)
            else Inr st1) (\<lambda>st2.
       Inr (fst st2, if flt i then snd st2 @ [i] else snd st2)))))"

definition reachable_nodes ::
    "nat \<Rightarrow> (NodeId \<Rightarrow> bool) \<Rightarrow> bool \<Rightarrow> Graph \<Rightarrow> NodeId \<Rightarrow> NodeId list result" where
  "reachable_nodes fuel flt ancestors_only g start =
     rbind (visit_reachable fuel flt ancestors_only g ([], []) start) (\<lambda>st. Inr (snd st))"

definition check_producer_consumer ::
    "nat \<Rightarrow> (NodeId \<Rightarrow> bool) \<Rightarrow> Graph \<Rightarrow> NodeId \<Rightarrow> NodeId \<Rightarrow> bool result" where
  "check_producer_consumer fuel flt g producer consumer =
     rbind (reachable_nodes fuel flt True g producer) (\<lambda>rs. Inr (consumer \<in> set rs))"

section \<open>Degrees\<close>

definition has_node_type :: "Graph \<Rightarrow> NodeType \<Rightarrow> NodeId \<Rightarrow> bool result" where
  "has_node_type g ty i = rbind (deref g i) (\<lambda>n. Inr (node_type n = ty))"

definition get_nodes_with_indegree_zero :: "Graph \<Rightarrow> NodeId list result" where
  "get_nodes_with_indegree_zero g =
     filterR (\<lambda>i.
       rbind (operands g i) (\<lambda>os.
       rbind (filterR (\<lambda>j. rbind (has_node_type g kInput j) (\<lambda>b. Inr (\<not> b))) os) (\<lambda>ops.
         if ops = [] then rbind (has_node_type g kInput i) (\<lambda>b. Inr (\<not> b)) else Inr False)))
       (nodes_order g)"

definition get_nodes_with_outdegree_zero :: "Graph \<Rightarrow> NodeId list result" where
  "get_nodes_with_outdegree_zero g =
     filterR (\<lambda>i. rbind (users any_edge g i) (\<lambda>us.
       if us = [] then rbind (has_node_type g kInput i) (\<lambda>b. Inr (\<not> b)) else Inr False))
       (nodes_order g)"

definition get_nodes_with_data_outdegree_zero :: "Graph \<Rightarrow> NodeId list result" where
  "get_nodes_with_data_outdegree_zero g =
     filterR (\<lambda>i. rbind (user_data_edges any_edge g i) (\<lambda>us.
       if us = [] then rbind (has_node_type g kInput i) (\<lambda>b. Inr (\<not> b)) else Inr False))
       (nodes_order g)"

section \<open>The longest path\<close>

text \<open>
  \<open>get_longest_path\<close>. \<open>cost[user]\<close> on a missing key is 0; the sum \<open>cost + 1\<close> starts at the least
  integer at worst and stays in range. The node the path ends with is a pointer that may be null.
\<close>

record PathState =
  path_cost :: "(NodeId \<times> int) list"
  path_parent :: "(NodeId \<times> NodeId) list"
  max_distance :: int
  max_path_output :: "NodeId option"

definition relax :: "NodeId \<Rightarrow> PathState \<Rightarrow> NodeId \<Rightarrow> PathState" where
  "relax node st user =
     (let c = map_get 0 (path_cost st) node;
          st1 = (if map_get 0 (path_cost st) user < c + 1
                 then st\<lparr>path_cost := AList.update user (c + 1) (path_cost st),
                         path_parent := AList.update user node (path_parent st)\<rparr> else st);
          c1 = map_get 0 (path_cost st1) node
      in if max_distance st1 < c1
         then st1\<lparr>max_distance := c1, max_path_output := Some node\<rparr> else st1)"

text \<open>The path is followed back through the parents.\<close>

fun follow_parents :: "nat \<Rightarrow> (NodeId \<times> NodeId) list \<Rightarrow> NodeId \<Rightarrow> NodeId list result" where
  "follow_parents fuel parents i =
     (case map_of parents i of
        None \<Rightarrow> Inr [i]
      | Some p \<Rightarrow> (case fuel of
          0 \<Rightarrow> Inl Out_of_fuel
        | Suc k \<Rightarrow> rbind (follow_parents k parents p) (\<lambda>ps. Inr (i # ps))))"

declare follow_parents.simps [simp del]

definition longest_path_start :: "Graph \<Rightarrow> bool \<Rightarrow> PathState result" where
  "longest_path_start g from_inputs_only =
     rbind (if from_inputs_only then
              rbind (ordered_module_inputs g) (\<lambda>is.
                Inr (fold (\<lambda>i. AList.update i 0) is
                       (fold (\<lambda>i. map_insert i int_min) (nodes_order g) [])))
            else Inr []) (\<lambda>cost.
       Inr \<lparr>path_cost = cost, path_parent = [], max_distance = int_min, max_path_output = None\<rparr>)"

definition get_longest_path :: "World \<Rightarrow> Graph \<Rightarrow> bool \<Rightarrow> NodeId option list result" where
  "get_longest_path w g from_inputs_only =
     rbind (longest_path_start g from_inputs_only) (\<lambda>st0.
     rbind (topo_order w g) (\<lambda>topo.
     rbind (foldR (\<lambda>st i. rbind (data_users g i) (\<lambda>us. Inr (foldl (relax i) st us))) st0 topo) (\<lambda>st.
       case max_path_output st of
         None \<Rightarrow> Inr [None]
       | Some i \<Rightarrow>
           rbind (follow_parents (length (path_parent st)) (path_parent st) i) (\<lambda>path.
             Inr (map Some (rev path))))))"

section \<open>Topological generations\<close>

text \<open>
  \<open>VisitNode\<close> of \<open>topological_generations\<close> collects the nodes without operands. The levels are
  natural numbers: there are fewer nodes than 32-bit ids, so an \<open>unsigned\<close> level does not wrap.
\<close>

fun visit_top_level ::
    "nat \<Rightarrow> Graph \<Rightarrow> (NodeId \<times> bool) list \<times> NodeId list \<Rightarrow> NodeId \<Rightarrow>
      ((NodeId \<times> bool) list \<times> NodeId list) result" where
  "visit_top_level 0 g st i = Inl Out_of_fuel"
| "visit_top_level (Suc k) g st i =
     rbind (operand_edges any_edge g i) (\<lambda>es.
     rbind (foldR (\<lambda>st e.
         if skipped_in_topo e then Inr st
         else rbind (node_of g (producer_node_id e)) (\<lambda>p.
           if requires_visit (fst st) p then visit_top_level k g st p else Inr st))
         (mark_visited i (fst st), snd st) es) (\<lambda>st1.
       Inr (fst st1, if filter (\<lambda>e. \<not> skipped_in_topo e) es = [] then snd st1 @ [i] else snd st1)))"

definition top_level_nodes :: "nat \<Rightarrow> Graph \<Rightarrow> NodeId list result" where
  "top_level_nodes depth g =
     rbind (foldR (\<lambda>st i. if requires_visit (fst st) i then visit_top_level depth g st i else Inr st)
              ([], []) (filter (is_node_visible g) (nodes_order g))) (\<lambda>st. Inr (snd st))"

record GenState =
  gen_queue :: "NodeId list"
  node_to_level :: "(NodeId \<times> nat) list"
  processed_nodes :: "NodeId list"

text \<open>The loop over the operands of a user: the highest level, or none when one has no level yet.\<close>

fun operand_level :: "(NodeId \<times> nat) list \<Rightarrow> Edge list \<Rightarrow> nat \<Rightarrow> nat option" where
  "operand_level levels [] l = Some l"
| "operand_level levels (e # es) l =
     (if skipped_in_topo e then operand_level levels es l
      else case map_of levels (producer_node_id e) of
          None \<Rightarrow> None
        | Some m \<Rightarrow> operand_level levels es (max l m))"

definition enqueue_user :: "Graph \<Rightarrow> GenState \<Rightarrow> Edge \<Rightarrow> GenState result" where
  "enqueue_user g st e =
     (if skipped_in_topo e then Inr st
      else rbind (node_of g (consumer_node_id e)) (\<lambda>u.
        if u \<in> set (processed_nodes st) then Inr st
        else rbind (operand_edges any_edge g u) (\<lambda>es.
          case operand_level (node_to_level st) es 0 of
            None \<Rightarrow> Inr st
          | Some l \<Rightarrow> Inr \<lparr>gen_queue = gen_queue st @ [u],
                           node_to_level = AList.update u (l + 1) (node_to_level st),
                           processed_nodes = processed_nodes st @ [u]\<rparr>)))"

fun generation_loop :: "nat \<Rightarrow> Graph \<Rightarrow> GenState \<Rightarrow> GenState result" where
  "generation_loop rounds g st =
     (case gen_queue st of
        [] \<Rightarrow> Inr st
      | i # q \<Rightarrow> (case rounds of
          0 \<Rightarrow> Inl Out_of_fuel
        | Suc n \<Rightarrow> rbind (user_edges any_edge g i) (\<lambda>us.
            rbind (foldR (enqueue_user g) (st\<lparr>gen_queue := q\<rparr>) us) (generation_loop n g))))"

declare generation_loop.simps [simp del]

text \<open>\<open>generations.resize(level + 1)\<close> when too short, then \<open>push_back\<close>.\<close>

definition place_at_level :: "'a \<Rightarrow> nat \<Rightarrow> 'a list list \<Rightarrow> 'a list list" where
  "place_at_level x l gs =
     (let gs' = gs @ replicate (Suc l - length gs) [] in gs'[l := gs' ! l @ [x]])"

definition topological_generations :: "nat \<Rightarrow> nat \<Rightarrow> Graph \<Rightarrow> NodeId list list result" where
  "topological_generations rounds depth g =
     rbind (top_level_nodes depth g) (\<lambda>top.
     rbind (generation_loop rounds g
              \<lparr>gen_queue = top, node_to_level = fold (\<lambda>i. AList.update i 0) top [],
               processed_nodes = []\<rparr>) (\<lambda>st.
     foldR (\<lambda>gs (i, l). rbind (node_of g i) (\<lambda>i. Inr (place_at_level i l gs))) []
       (node_to_level st)))"

text \<open>The first generation, from the front or from the back, with some of the nodes.\<close>

definition rows_of :: "NodeId list \<Rightarrow> NodeId list list \<Rightarrow> NodeId list" where
  "rows_of is gs =
     (case dropWhile (\<lambda>r. r = []) (map (\<lambda>gen. filter (\<lambda>i. i \<in> set gen) is) gs) of
        [] \<Rightarrow> [] | r # _ \<Rightarrow> r)"

definition top_row :: "nat \<Rightarrow> nat \<Rightarrow> Graph \<Rightarrow> NodeId list \<Rightarrow> NodeId list result" where
  "top_row rounds depth g is =
     rbind (topological_generations rounds depth g) (\<lambda>gs. Inr (rows_of is gs))"

definition bot_row :: "nat \<Rightarrow> nat \<Rightarrow> Graph \<Rightarrow> NodeId list \<Rightarrow> NodeId list result" where
  "bot_row rounds depth g is =
     rbind (topological_generations rounds depth g) (\<lambda>gs. Inr (rows_of is (rev gs)))"

end
