(* ===== verification/Traversal_Laws.thy ===== *)
theory Traversal_Laws
  imports Traversal
begin

text \<open>
  \<open>topological_sort\<close> and \<open>reachable_nodes\<close> as searches. \<open>dfs_visitor\<close> is the contract of a recursive
  visit over a mutable state: it behaves as \<open>dfs\<close> on the state's abstraction (the nodes entered and
  the nodes left). Both \<open>VisitNode\<close> lambdas are instances, so fuel, completeness and order come
  from the facts about \<open>dfs\<close>.
\<close>

section \<open>A stateful visit as a search\<close>

locale dfs_visitor = search succ V for succ :: "'a \<Rightarrow> 'a list" and V :: "'a set" +
  fixes ok :: bool
    and visit :: "nat \<Rightarrow> 's \<Rightarrow> 'a \<Rightarrow> 's result"
    and unvisited :: "'s \<Rightarrow> 'a \<Rightarrow> bool"
    and enter :: "'a \<Rightarrow> 's \<Rightarrow> 's"
    and leave :: "'a \<Rightarrow> 's \<Rightarrow> 's"
    and rel :: "'s \<Rightarrow> 'a list \<times> 'a list \<Rightarrow> bool"
  assumes visit_Suc: "ok \<Longrightarrow> i \<in> V \<Longrightarrow> visit (Suc k) st i =
      rbind (foldR (\<lambda>st j. if unvisited st j then visit k st j else Inr st) (enter i st) (succ i))
        (\<lambda>st. Inr (leave i st))"
    and rel_visited: "ok \<Longrightarrow> rel st s \<Longrightarrow> unvisited st j \<longleftrightarrow> j \<notin> set (fst s)"
    and rel_enter: "ok \<Longrightarrow> rel st s \<Longrightarrow> rel (enter i st) (i # fst s, snd s)"
    and rel_leave: "ok \<Longrightarrow> rel st s \<Longrightarrow> rel (leave i st) (fst s, snd s @ [i])"
begin

lemma visit_fold:
  assumes visit: "\<And>st s i s'. rel st s \<Longrightarrow> i \<in> V \<Longrightarrow> dfs k succ s i = Inr s' \<Longrightarrow>
      \<exists>st'. visit k st i = Inr st' \<and> rel st' s'" and ok
  shows "rel st s \<Longrightarrow> set is \<subseteq> V \<Longrightarrow> dfs_all k succ s is = Inr s' \<Longrightarrow>
    \<exists>st'. foldR (\<lambda>st j. if unvisited st j then visit k st j else Inr st) st is = Inr st' \<and> rel st' s'"
proof (induction "is" arbitrary: st s)
  case Nil
  then show ?case by (simp add: dfs_all_def)
next
  case (Cons i "is")
  from Cons.prems(3) obtain t where
    t: "(if i \<in> set (fst s) then Inr s else dfs k succ s i) = Inr t" "dfs_all k succ t is = Inr s'"
    by (auto simp: dfs_all_def rbind_eq_Inr)
  have "\<exists>u. (if unvisited st i then visit k st i else Inr st) = Inr u \<and> rel u t"
    using visit [OF Cons.prems(1)] t(1) rel_visited [OF \<open>ok\<close> Cons.prems(1)] Cons.prems(1,2)
    by (auto split: if_splits)
  then obtain u where "(if unvisited st i then visit k st i else Inr st) = Inr u" "rel u t" by blast
  with Cons.IH [OF _ _ t(2)] Cons.prems(2) show ?case by simp
qed

lemma visit_dfs:
  assumes ok
  shows "rel st s \<Longrightarrow> i \<in> V \<Longrightarrow> dfs k succ s i = Inr s' \<Longrightarrow> \<exists>st'. visit k st i = Inr st' \<and> rel st' s'"
proof (induction k arbitrary: st s i s')
  case 0
  then show ?case by simp
next
  case (Suc k)
  from Suc.prems(3) obtain t where t: "dfs_all k succ (i # fst s, snd s) (succ i) = Inr t"
    "s' = (fst t, snd t @ [i])"
    by (auto simp: dfs_all_def rbind_eq_Inr)
  have "\<exists>u. foldR (\<lambda>st j. if unvisited st j then visit k st j else Inr st) (enter i st)
      (succ i) = Inr u \<and> rel u t"
    by (rule visit_fold [OF _ \<open>ok\<close> rel_enter [OF \<open>ok\<close> Suc.prems(1)] succ_V [OF Suc.prems(2)] t(1)])
      (rule Suc.IH)
  then obtain u where u: "foldR (\<lambda>st j. if unvisited st j then visit k st j else Inr st) (enter i st)
      (succ i) = Inr u" "rel u t" by blast
  with visit_Suc [OF \<open>ok\<close> Suc.prems(2)] rel_leave [OF \<open>ok\<close> u(2)] t(2) show ?case by simp
qed

text \<open>With as much fuel as there are nodes, a visit succeeds and explores.\<close>

lemma visit_explores:
  assumes ok "rel st ([], [])" "i \<in> V" "card V \<le> k"
  shows "\<exists>st' vis new. visit k st i = Inr st' \<and> rel st' (vis, new) \<and> explored [i] [] vis new"
proof -
  from dfs_all_total [of "[i]" "([], [])" k] assms obtain vis new where
    "dfs_all k succ ([], []) [i] = Inr (vis, new)" "explored [i] [] vis new" by auto
  with visit_dfs [OF assms(1-3), of k] show ?thesis
    by (auto simp: dfs_all_def rbind_eq_Inr)
qed

end

section \<open>Topological sort\<close>

definition topo_succ :: "Graph \<Rightarrow> NodeId \<Rightarrow> NodeId list" where
  "topo_succ g i = map producer_node_id
     (filter (\<lambda>e. \<not> skipped_in_topo e \<and> producer_node_id e \<in> node_ids g)
       (sort_key consumer_input_port_id (filter (edge_shown g) (ops g i))))"

lemma operand_edges_any:
  assumes "graph_wf w g" "i \<in> node_ids g"
  shows "operand_edges any_edge g i =
     Inr (sort_key consumer_input_port_id (filter (edge_shown g) (ops g i)))"
  using opq.query_eq [OF assms, of any_edge] by simp

lemma foldR_skip:
  "(\<And>x. x \<in> set xs \<Longrightarrow> \<not> p x \<Longrightarrow> (\<And>s. f s x = h s (t x))) \<Longrightarrow>
     (\<And>x s. x \<in> set xs \<Longrightarrow> p x \<Longrightarrow> f s x = Inr s) \<Longrightarrow>
     foldR f s xs = foldR h s (map t (filter (\<lambda>x. \<not> p x) xs))"
proof (induction xs arbitrary: s)
  case Nil
  then show ?case by simp
next
  case (Cons x xs)
  have "foldR f u xs = foldR h u (map t (filter (\<lambda>x. \<not> p x) xs))" for u
    by (rule Cons.IH) (use Cons.prems in auto)
  then show ?case using Cons.prems by (cases "p x") simp_all
qed

lemma topo_succ_eq:
  assumes wf: "graph_wf w g"
  shows "topo_succ g i = map producer_node_id (filter (\<lambda>e. \<not> skipped_in_topo e)
     (sort_key consumer_input_port_id (filter (edge_shown g) (ops g i))))"
  unfolding topo_succ_def
  by (rule arg_cong [of _ _ "map producer_node_id"], rule filter_cong)
    (use ops_ends(3) [OF wf] in auto)

lemma visit_topo_Suc:
  assumes wf: "graph_wf w g" and i: "i \<in> node_ids g"
  shows "visit_topo (Suc k) flt False w g st i =
     rbind (foldR (\<lambda>st j. if requires_visit (topo_visited st) j
                          then visit_topo k flt False w g st j else Inr st)
              (st\<lparr>topo_visited := mark_visited i (topo_visited st)\<rparr>) (topo_succ g i))
       (\<lambda>st. Inr (if flt i then st\<lparr>topo_result := topo_result st @ [i]\<rparr> else st))"
  unfolding topo_succ_eq [OF wf] visit_topo.simps operand_edges_any [OF assms] rbind_simps
  by (subst foldR_skip [where p = skipped_in_topo and t = producer_node_id
        and h = "\<lambda>st j. if requires_visit (topo_visited st) j
                          then visit_topo k flt False w g st j else Inr st"])
    (use ops_ends(3) [OF wf] node_of_in in auto)

definition topo_rel ::
    "(NodeId \<Rightarrow> bool) \<Rightarrow> NodeId list \<Rightarrow> TopoState \<Rightarrow> NodeId list \<times> NodeId list \<Rightarrow> bool" where
  "topo_rel flt q st s \<longleftrightarrow> topo_queue st = q \<and> topo_result st = filter flt (snd s) \<and>
     (\<forall>j. requires_visit (topo_visited st) j \<longleftrightarrow> j \<notin> set (fst s))"

lemma requires_visit_mark [simp]:
  "requires_visit (mark_visited i v) j \<longleftrightarrow> j \<noteq> i \<and> requires_visit v j"
  by (simp add: requires_visit_def mark_visited_def)

interpretation topo: dfs_visitor "topo_succ g" "node_ids g" "graph_wf w g"
    "\<lambda>k st i. visit_topo k flt False w g st i"
    "\<lambda>st. requires_visit (topo_visited st)"
    "\<lambda>i st. st\<lparr>topo_visited := mark_visited i (topo_visited st)\<rparr>"
    "\<lambda>i st. if flt i then st\<lparr>topo_result := topo_result st @ [i]\<rparr> else st"
    "topo_rel flt q" for w g flt q
  by unfold_locales (auto simp: topo_succ_def visit_topo_Suc topo_rel_def simp del: visit_topo.simps)

lemma topo_loop_dfs:
  assumes wf: "graph_wf w g"
  shows "set q \<subseteq> node_ids g \<Longrightarrow> length q \<le> n \<Longrightarrow> topo_rel flt q st s \<Longrightarrow>
     dfs_all k (topo_succ g) s q = Inr s' \<Longrightarrow>
     \<exists>st'. topo_loop n k flt False w g st = Inr st' \<and> topo_rel flt [] st' s'"
proof (induction q arbitrary: n st s)
  case Nil
  then show ?case by (simp add: dfs_all_def topo_loop.simps topo_rel_def)
next
  case (Cons i q)
  from Cons.prems(2) obtain m where m: "n = Suc m" "length q \<le> m" by (cases n) auto
  from Cons.prems(4) obtain t where t: "(if i \<in> set (fst s) then Inr s
      else dfs k (topo_succ g) s i) = Inr t" "dfs_all k (topo_succ g) t q = Inr s'"
    by (auto simp: dfs_all_def rbind_eq_Inr)
  obtain u where u: "(if requires_visit (topo_visited st) i then visit_topo k flt False w g st i
      else Inr st) = Inr u" "topo_rel flt (i # q) u t"
    using topo.visit_dfs [OF wf Cons.prems(3), of i k t] t(1) Cons.prems(1,3) that
    by (auto simp: topo_rel_def split: if_splits)
  then have "topo_rel flt q (u\<lparr>topo_queue := tl (topo_queue u)\<rparr>) t" by (simp add: topo_rel_def)
  from Cons.IH [OF _ m(2) this t(2)] Cons.prems(1) obtain st' where
    st': "topo_loop m k flt False w g (u\<lparr>topo_queue := tl (topo_queue u)\<rparr>) = Inr st'"
      "topo_rel flt [] st' s'" by auto
  have "topo_queue st = i # q" using Cons.prems(3) by (simp add: topo_rel_def)
  then have "topo_loop n k flt False w g st = Inr st'"
    by (simp add: topo_loop.simps [of "Suc m"] m(1) u(1) st'(1))
  with st'(2) show ?case by blast
qed

definition topo_edges :: "Graph \<Rightarrow> (NodeId \<times> NodeId) set" where
  "topo_edges g = {(producer_node_id e, consumer_node_id e) | e.
     e \<in> set (graph_edges g) \<and> edge_shown g e \<and> \<not> skipped_in_topo e}"

lemma topo_E:
  assumes wf: "graph_wf w g"
  shows "succ_rel (topo_succ g) (node_ids g) = (topo_edges g)\<inverse>"
proof -
  have "(i, j) \<in> succ_rel (topo_succ g) (node_ids g) \<longleftrightarrow> (j, i) \<in> topo_edges g" for i j
    unfolding succ_rel_def topo_edges_def topo_succ_eq [OF wf]
    using mem_ops [OF wf, of _ i] graph_edges_ends(3) [OF wf] by auto
  then show ?thesis by auto
qed


lemma edge_shown_ends: "edge_shown g e \<Longrightarrow>
    is_node_visible g (producer_node_id e) \<and> is_node_visible g (consumer_node_id e)"
  by (auto simp: edge_shown_def is_node_visible_def)

lemma node_count:
  assumes "graph_wf w g"
  shows "card (node_ids g) = length (nodes_order g)"
  using graph_wfD(7,8) [OF assms] distinct_card by metis

lemma topo_loop_explores:
  assumes wf: "graph_wf w g"
    and fuel: "length (nodes_order g) \<le> rounds" "length (nodes_order g) \<le> depth"
  shows "\<exists>vis new. topological_sort rounds depth flt False w g = Inr (filter flt new) \<and>
     topo.explored g (filter (is_node_visible g) (nodes_order g)) [] vis new"
proof -
  let ?q = "filter (is_node_visible g) (nodes_order g)"
  have q: "set ?q \<subseteq> node_ids g" "length ?q \<le> rounds"
    using graph_wfD(8) [OF wf] fuel le_trans [OF length_filter_le] by auto
  from topo.dfs_all_total [OF q(1), of "([], [])" depth] fuel(2) node_count [OF wf]
  obtain vis new where d: "dfs_all depth (topo_succ g) ([], []) ?q = Inr (vis, new)"
    "topo.explored g ?q [] vis new" by auto
  have "topo_rel flt ?q \<lparr>topo_visited = [], topo_result = [], topo_queue = ?q, topo_iterations = []\<rparr>
      ([], [])"
    by (simp add: topo_rel_def requires_visit_def)
  from topo_loop_dfs [OF wf q this d(1)]
  have "topological_sort rounds depth flt False w g = Inr (filter flt new)"
    by (auto simp: topological_sort_def topo_rel_def)
  with d(2) show ?thesis by blast
qed

lemma topo_reach_visible:
  assumes wf: "graph_wf w g"
  shows "(succ_rel (topo_succ g) (node_ids g))\<^sup>* `` set (filter (is_node_visible g) (nodes_order g)) =
     {i \<in> node_ids g. is_node_visible g i}"
proof -
  have "is_node_visible g j \<and> j \<in> node_ids g"
    if "(i, j) \<in> ((topo_edges g)\<inverse>)\<^sup>*" "is_node_visible g i" "i \<in> node_ids g" for i j
    using that
    by (induction rule: rtrancl_induct)
      (auto simp: topo_edges_def dest: edge_shown_ends graph_edges_ends(4) [OF wf])
  then show ?thesis unfolding topo_E [OF wf] using graph_wfD(8) [OF wf] by auto
qed

lemma topological_sort_sound:
  assumes wf: "graph_wf w g"
    and fuel: "length (nodes_order g) \<le> rounds" "length (nodes_order g) \<le> depth"
  shows "\<exists>r. topological_sort rounds depth flt False w g = Inr r \<and> distinct r \<and>
     set r = {i \<in> node_ids g. is_node_visible g i \<and> flt i} \<and>
     (acyclic (topo_edges g) \<longrightarrow> sorted_wrt (\<lambda>i j. (j, i) \<notin> (topo_edges g)\<^sup>+) r)"
proof -
  let ?q = "filter (is_node_visible g) (nodes_order g)"
  from topo_loop_explores [OF assms] obtain vis new where
    1: "topological_sort rounds depth flt False w g = Inr (filter flt new)"
    and ex: "topo.explored g ?q [] vis new" by blast
  have q: "set ?q \<subseteq> node_ids g" using graph_wfD(8) [OF wf] by auto
  have "set new = {i \<in> node_ids g. is_node_visible g i}"
    using topo.explored_reach [OF ex q] topo_reach_visible [OF wf] by simp
  moreover have "sorted_wrt (\<lambda>i j. (j, i) \<notin> (topo_edges g)\<^sup>+) (filter flt new)"
    if "acyclic (topo_edges g)"
    using topo.explored_order [OF ex] that unfolding topo_E [OF wf]
    by (intro sorted_wrt_filter) (simp add: acyclic_converse trancl_converse)
  ultimately show ?thesis using 1 topo.exploredD(2) [OF ex] by auto
qed

text \<open>C34: without loop unrolling, the topological sort ends within as many rounds and as deep a
  recursion as there are nodes; it lists the visible nodes that pass the filter, each once, and,
  when the edges it follows have no cycle, no node before one that it depends on.\<close>

theorem topological_sort_correct:
  assumes "graph_wf w g"
    and "length (nodes_order g) \<le> rounds" "length (nodes_order g) \<le> depth"
  shows "\<exists>r. topological_sort rounds depth flt False w g = Inr r \<and> distinct r \<and>
     set r = {i \<in> node_ids g. is_node_visible g i \<and> flt i} \<and>
     (acyclic (topo_edges g) \<longrightarrow> sorted_wrt (\<lambda>i j. (j, i) \<notin> (topo_edges g)\<^sup>+) r)"
  by (rule topological_sort_sound [OF assms])

theorem topological_sort_correct_witness:
  "\<exists>r. topological_sort 3 3 (\<lambda>_. True) False example_w example_g = Inr r \<and> distinct r \<and>
     set r = {1, 2, 3} \<and> sorted_wrt (\<lambda>i j. (j, i) \<notin> (topo_edges example_g)\<^sup>+) r"
proof -
  have e: "nodes_order example_g = [1, 2, 3]" "nothing_hidden example_g"
    "list_all (\<lambda>e. producer_node_id e < consumer_node_id e) (graph_edges example_g)"
    "keys (nodes_map example_g) = [1, 2, 3]" by code_simp+
  then have lt: "i < j" if "(i, j) \<in> topo_edges example_g" for i j
    using that by (auto simp: topo_edges_def list_all_iff)
  have ac: "acyclic (topo_edges example_g)"
  proof (rule acyclicI_order)
    show "- j < - i" if "(i, j) \<in> topo_edges example_g" for i j using lt [OF that] by simp
  qed
  have len: "length (nodes_order example_g) \<le> 3" and ids: "node_ids example_g = {1, 2, 3}"
    and vis: "\<And>i. is_node_visible example_g i"
    using e(1,2,4) by (simp_all add: is_node_visible_def)
  have s: "{i \<in> {1, 2, 3}. is_node_visible example_g i \<and> True} = {1, 2, 3}" by (auto simp: vis)
  from topological_sort_correct [OF example_wf len len, of "\<lambda>_. True"] ac show ?thesis
    unfolding ids s by blast
qed


section \<open>Reachable nodes\<close>

definition node_type_of :: "Graph \<Rightarrow> NodeId \<Rightarrow> NodeType option" where
  "node_type_of g i = map_option node_type (map_of (nodes_map g) i)"

definition reach_operands :: "Graph \<Rightarrow> NodeId \<Rightarrow> NodeId list" where
  "reach_operands g i = map producer_node_id (sort_key consumer_input_port_id
     (filter (\<lambda>e. is_data_edge e \<and> edge_shown g e) (ops g i)))"

definition reach_users :: "Graph \<Rightarrow> NodeId \<Rightarrow> NodeId list" where
  "reach_users g i = map consumer_node_id (filter (\<lambda>e. edge_type e = kData)
     (sort_key user_edge_order (filter (edge_shown g) (usr g i))))"

definition reach_succ :: "bool \<Rightarrow> Graph \<Rightarrow> NodeId \<Rightarrow> NodeId list" where
  "reach_succ anc g i = filter (\<lambda>j. j \<in> node_ids g) (reach_operands g i @
     (if node_type_of g i \<noteq> Some kInput \<and> \<not> anc then reach_users g i else []))"

lemma data_operands_eq:
  assumes wf: "graph_wf w g" and i: "i \<in> node_ids g"
  shows "data_operands g i = Inr (reach_operands g i)" "set (reach_operands g i) \<subseteq> node_ids g"
proof -
  show "set (reach_operands g i) \<subseteq> node_ids g"
    using ops_ends(3) [OF wf] by (auto simp: reach_operands_def)
  have "operand_data_edges any_edge g i = Inr (sort_key consumer_input_port_id
      (filter (\<lambda>e. is_data_edge e \<and> edge_shown g e) (ops g i)))"
    using opq.query_eq [OF assms, of "\<lambda>e. True \<and> is_data_edge e"] by (simp add: operand_data_edges_def)
  moreover have "mapR (\<lambda>e. node_of g (producer_node_id e)) es = Inr (map producer_node_id es)"
    if "set es \<subseteq> set (ops g i)" for es
    by (rule mapR_total) (use that ops_ends(3) [OF wf] node_of_in in auto)
  ultimately show "data_operands g i = Inr (reach_operands g i)"
    by (simp add: data_operands_def reach_operands_def subset_eq)
qed

lemma data_users_eq:
  assumes wf: "graph_wf w g" and i: "i \<in> node_ids g"
  shows "data_users g i = Inr (reach_users g i)" "set (reach_users g i) \<subseteq> node_ids g"
proof -
  show "set (reach_users g i) \<subseteq> node_ids g"
    using usr_ends(3) [OF wf] by (auto simp: reach_users_def)
  have "user_edges any_edge g i = Inr (sort_key user_edge_order (filter (edge_shown g) (usr g i)))"
    using usq.query_eq [OF assms, of any_edge] by simp
  moreover have "mapR (\<lambda>e. node_of g (consumer_node_id e)) es = Inr (map consumer_node_id es)"
    if "set es \<subseteq> set (usr g i)" for es
    by (rule mapR_total) (use that usr_ends(3) [OF wf] node_of_in in auto)
  ultimately show "data_users g i = Inr (reach_users g i)"
    by (simp add: data_users_def reach_users_def subset_eq)
qed

lemma visit_reachable_Suc:
  assumes wf: "graph_wf w g" and i: "i \<in> node_ids g"
  shows "visit_reachable (Suc k) flt anc g st i =
     rbind (foldR (\<lambda>st j. if requires_visit (fst st) j then visit_reachable k flt anc g st j else Inr st)
              (mark_visited i (fst st), snd st) (reach_succ anc g i))
       (\<lambda>st. Inr (fst st, if flt i then snd st @ [i] else snd st))"
proof -
  from i obtain n where n: "map_of (nodes_map g) i = Some n" unfolding in_node_ids ..
  have "filter (\<lambda>j. j \<in> node_ids g) (reach_operands g i) = reach_operands g i"
    "filter (\<lambda>j. j \<in> node_ids g) (reach_users g i) = reach_users g i"
    using data_operands_eq(2) [OF assms] data_users_eq(2) [OF assms]
    by (auto simp: filter_id_conv)
  then have s: "reach_succ anc g i = reach_operands g i @
      (if node_type n \<noteq> kInput \<and> \<not> anc then reach_users g i else [])"
    by (simp add: reach_succ_def node_type_of_def n)
  have "deref g i = Inr n" by (simp add: deref_def n)
  then show ?thesis
    by (simp add: s data_operands_eq(1) [OF assms] data_users_eq(1) [OF assms] foldR_append rbind_assoc)
qed

definition reach_rel ::
    "(NodeId \<Rightarrow> bool) \<Rightarrow> (NodeId \<times> bool) list \<times> NodeId list \<Rightarrow> NodeId list \<times> NodeId list \<Rightarrow> bool" where
  "reach_rel flt st s \<longleftrightarrow> snd st = filter flt (snd s) \<and>
     (\<forall>j. requires_visit (fst st) j \<longleftrightarrow> j \<notin> set (fst s))"

interpretation reach: dfs_visitor "reach_succ anc g" "node_ids g" "graph_wf w g"
    "\<lambda>k st i. visit_reachable k flt anc g st i" "\<lambda>st. requires_visit (fst st)"
    "\<lambda>i st. (mark_visited i (fst st), snd st)"
    "\<lambda>i st. (fst st, if flt i then snd st @ [i] else snd st)"
    "reach_rel flt" for w g flt anc
  by unfold_locales
    (auto simp: reach_succ_def visit_reachable_Suc reach_rel_def simp del: visit_reachable.simps)

text \<open>What \<open>reachable_nodes\<close> follows: data edges backwards and, unless only ancestors are asked for, plain
  data edges forwards out of anything but an input.\<close>

definition reach_edges :: "bool \<Rightarrow> Graph \<Rightarrow> (NodeId \<times> NodeId) set" where
  "reach_edges anc g = {(consumer_node_id e, producer_node_id e) | e.
       e \<in> set (graph_edges g) \<and> edge_shown g e \<and> is_data_edge e} \<union>
     {(producer_node_id e, consumer_node_id e) | e. \<not> anc \<and>
       e \<in> set (graph_edges g) \<and> edge_shown g e \<and> edge_type e = kData \<and>
       node_type_of g (producer_node_id e) \<noteq> Some kInput}"

lemma reach_E:
  assumes wf: "graph_wf w g"
  shows "succ_rel (reach_succ anc g) (node_ids g) = reach_edges anc g"
proof -
  have "(i, j) \<in> succ_rel (reach_succ anc g) (node_ids g) \<longleftrightarrow> (i, j) \<in> reach_edges anc g" for i j
    unfolding succ_rel_def reach_edges_def reach_succ_def reach_operands_def reach_users_def
    using mem_ops [OF wf, of _ i] mem_usr [OF wf, of _ i] graph_edges_ends(3,4) [OF wf]
    by (auto simp: conj_commute)
  then show ?thesis by auto
qed

lemma reachable_nodes_sound:
  assumes wf: "graph_wf w g" and "start \<in> node_ids g" "length (nodes_order g) \<le> fuel"
  shows "\<exists>r. reachable_nodes fuel flt anc g start = Inr r \<and> distinct r \<and>
     set r = {j. (start, j) \<in> (reach_edges anc g)\<^sup>* \<and> flt j}"
proof -
  have fuel: "card (node_ids g) \<le> fuel" using node_count [OF wf] assms(3) by simp
  have "reach_rel flt ([], []) ([], [])" by (simp add: reach_rel_def requires_visit_def)
  from reach.visit_explores [OF wf this assms(2) fuel, of anc]
  obtain st' vis new where "visit_reachable fuel flt anc g ([], []) start = Inr st'"
    and rel: "reach_rel flt st' (vis, new)" and ex: "reach.explored anc g [start] [] vis new" by blast
  moreover have "set new = (reach_edges anc g)\<^sup>* `` {start}"
    using reach.explored_reach [OF ex] assms(2) unfolding reach_E [OF wf] by simp
  ultimately show ?thesis
    using reach.exploredD(2) [OF ex] by (auto simp: reachable_nodes_def reach_rel_def)
qed

text \<open>C35: \<open>reachable_nodes\<close> ends within a recursion as deep as there are nodes and lists exactly the nodes
  that can be reached over the edges it follows and that pass the filter, each once.\<close>

theorem reachable_nodes_correct:
  assumes "graph_wf w g" "start \<in> node_ids g" "length (nodes_order g) \<le> fuel"
  shows "\<exists>r. reachable_nodes fuel flt anc g start = Inr r \<and> distinct r \<and>
     set r = {j. (start, j) \<in> (reach_edges anc g)\<^sup>* \<and> flt j}"
  by (rule reachable_nodes_sound [OF assms])

theorem reachable_nodes_correct_witness:
  "\<exists>r. reachable_nodes 3 (\<lambda>_. True) True example_g 3 = Inr r \<and>
     set r = {j. (3, j) \<in> (reach_edges True example_g)\<^sup>* \<and> True}"
proof -
  have "keys (nodes_map example_g) = [1, 2, 3]" "nodes_order example_g = [1, 2, 3]" by code_simp+
  then have "3 \<in> node_ids example_g" "length (nodes_order example_g) \<le> 3" by simp_all
  from reachable_nodes_correct [OF example_wf this, of "\<lambda>_. True" True] show ?thesis by blast
qed

text \<open>C36: \<open>check_producer_consumer\<close> follows data edges backwards from the producer: it answers whether the
  node it calls consumer is the producer itself or one of its ancestors.\<close>

theorem check_producer_consumer_direction:
  assumes "graph_wf w g" "p \<in> node_ids g" "length (nodes_order g) \<le> fuel"
  shows "check_producer_consumer fuel flt g p c = Inr (flt c \<and>
     (c, p) \<in> {(producer_node_id e, consumer_node_id e) | e.
       e \<in> set (graph_edges g) \<and> edge_shown g e \<and> is_data_edge e}\<^sup>*)"
proof -
  from reachable_nodes_sound [OF assms, of flt True] obtain r where
    r: "reachable_nodes fuel flt True g p = Inr r"
      "set r = {j. (p, j) \<in> (reach_edges True g)\<^sup>* \<and> flt j}" by blast
  have "reach_edges True g = {(producer_node_id e, consumer_node_id e) | e.
      e \<in> set (graph_edges g) \<and> edge_shown g e \<and> is_data_edge e}\<inverse>"
    by (auto simp: reach_edges_def)
  then show ?thesis
    using r by (auto simp: check_producer_consumer_def rtrancl_converse)
qed

theorem check_producer_consumer_direction_witness:
  "check_producer_consumer 3 (\<lambda>_. True) example_g 2 1 = Inr (True \<and>
     (1, 2) \<in> {(producer_node_id e, consumer_node_id e) | e.
       e \<in> set (graph_edges example_g) \<and> edge_shown example_g e \<and> is_data_edge e}\<^sup>*)"
proof -
  have "keys (nodes_map example_g) = [1, 2, 3]" "nodes_order example_g = [1, 2, 3]" by code_simp+
  then have "2 \<in> node_ids example_g" "length (nodes_order example_g) \<le> 3" by simp_all
  from check_producer_consumer_direction [OF example_wf this, of "\<lambda>_. True" 1] show ?thesis .
qed

end
