(* ===== verification/Generations.thy ===== *)
theory Generations
  imports Traversal_Laws
begin

text \<open>
  \<open>topological_generations\<close> of \<open>utils.cpp\<close>: its \<open>VisitNode\<close> is one more \<open>dfs_visitor\<close>; the loop over the
  queue keeps \<open>gen_ok\<close> (the levels given so far are right) and \<open>gen_closed\<close> (a node whose operands
  have all left the queue has a level), where \<open>D\<close> are the nodes that have left the queue.
\<close>

declare map_of_eq_Some_iff [simp del]

section \<open>The top level\<close>

lemma visit_top_level_Suc:
  assumes wf: "graph_wf w g" and i: "i \<in> node_ids g"
  shows "visit_top_level (Suc k) g st i =
     rbind (foldR (\<lambda>st j. if requires_visit (fst st) j then visit_top_level k g st j else Inr st)
              (mark_visited i (fst st), snd st) (topo_succ g i))
       (\<lambda>st. Inr (fst st, if topo_succ g i = [] then snd st @ [i] else snd st))"
proof -
  let ?es = "sort_key consumer_input_port_id (filter (edge_shown g) (ops g i))"
  have f: "foldR (\<lambda>st e. if skipped_in_topo e then Inr st
         else rbind (node_of g (producer_node_id e)) (\<lambda>p.
           if requires_visit (fst st) p then visit_top_level k g st p else Inr st)) st ?es =
      foldR (\<lambda>st j. if requires_visit (fst st) j then visit_top_level k g st j else Inr st) st
        (topo_succ g i)" for st
    unfolding topo_succ_eq [OF wf]
    by (rule foldR_skip) (use ops_ends(3) [OF wf] node_of_in in auto)
  have "topo_succ g i = [] \<longleftrightarrow> filter (\<lambda>e. \<not> skipped_in_topo e) ?es = []"
    unfolding topo_succ_eq [OF wf] by simp
  then show ?thesis
    unfolding visit_top_level.simps operand_edges_any [OF assms] rbind_simps f by simp
qed

definition top_rel ::
    "Graph \<Rightarrow> (NodeId \<times> bool) list \<times> NodeId list \<Rightarrow> NodeId list \<times> NodeId list \<Rightarrow> bool" where
  "top_rel g st s \<longleftrightarrow> snd st = filter (\<lambda>i. topo_succ g i = []) (snd s) \<and>
     (\<forall>j. requires_visit (fst st) j \<longleftrightarrow> j \<notin> set (fst s))"

interpretation top: dfs_visitor "topo_succ g" "node_ids g" "graph_wf w g"
    "\<lambda>k st i. visit_top_level k g st i" "\<lambda>st. requires_visit (fst st)"
    "\<lambda>i st. (mark_visited i (fst st), snd st)"
    "\<lambda>i st. (fst st, if topo_succ g i = [] then snd st @ [i] else snd st)"
    "top_rel g" for w g
  by unfold_locales
    (auto simp: topo_succ_def visit_top_level_Suc top_rel_def simp del: visit_top_level.simps)

abbreviation shown_nodes :: "Graph \<Rightarrow> NodeId set" where
  "shown_nodes g \<equiv> {i \<in> node_ids g. is_node_visible g i}"

lemma top_level_nodes_eq:
  assumes wf: "graph_wf w g" and fuel: "length (nodes_order g) \<le> depth"
  shows "\<exists>top. top_level_nodes depth g = Inr top \<and> distinct top \<and>
     set top = {i \<in> shown_nodes g. topo_succ g i = []}"
proof -
  let ?q = "filter (is_node_visible g) (nodes_order g)"
  have q: "set ?q \<subseteq> node_ids g" using graph_wfD(8) [OF wf] by auto
  from topo.dfs_all_total [OF q, of "([], [])" depth] fuel node_count [OF wf]
  obtain vis new where d: "dfs_all depth (topo_succ g) ([], []) ?q = Inr (vis, new)"
    and ex: "topo.explored g ?q [] vis new" by auto
  have tr: "top_rel g ([], []) ([], [])" by (simp add: top_rel_def requires_visit_def)
  have "\<exists>st. foldR (\<lambda>st i. if requires_visit (fst st) i then visit_top_level depth g st i else Inr st)
      ([], []) ?q = Inr st \<and> top_rel g st (vis, new)"
    by (rule top.visit_fold [OF _ wf tr q d]) (rule top.visit_dfs [OF wf])
  then obtain st where
    st: "foldR (\<lambda>st i. if requires_visit (fst st) i then visit_top_level depth g st i else Inr st)
      ([], []) ?q = Inr st" "top_rel g st (vis, new)" by blast
  have "set new = shown_nodes g"
    using topo.explored_reach [OF ex q] topo_reach_visible [OF wf] by simp
  then show ?thesis
    using st topo.exploredD(2) [OF ex] by (auto simp: top_level_nodes_def top_rel_def)
qed

section \<open>Levels\<close>

definition topo_users :: "Graph \<Rightarrow> NodeId \<Rightarrow> NodeId list" where
  "topo_users g i = map consumer_node_id (filter (\<lambda>e. \<not> skipped_in_topo e)
     (sort_key user_edge_order (filter (edge_shown g) (usr g i))))"

lemma topo_succ_iff:
  assumes wf: "graph_wf w g"
  shows "j \<in> set (topo_succ g i) \<longleftrightarrow> (j, i) \<in> topo_edges g"
    "j \<in> set (topo_users g i) \<longleftrightarrow> (i, j) \<in> topo_edges g"
  unfolding topo_edges_def topo_succ_eq [OF wf] topo_users_def
  using mem_ops [OF wf, of _ i] mem_usr [OF wf, of _ i] by auto

lemma topo_edges_shown:
  "graph_wf w g \<Longrightarrow> (i, j) \<in> topo_edges g \<Longrightarrow> i \<in> shown_nodes g \<and> j \<in> shown_nodes g"
  using graph_edges_ends(3,4) edge_shown_ends by (auto simp: topo_edges_def)

definition level_from :: "Graph \<Rightarrow> (NodeId \<Rightarrow> nat option) \<Rightarrow> NodeId \<Rightarrow> nat" where
  "level_from g L i = Max (insert 0 ((\<lambda>p. the (L p)) ` set (topo_succ g i)))"

lemma operand_level_eq:
  "operand_level levels es l =
     (if \<forall>p \<in> set (map producer_node_id (filter (\<lambda>e. \<not> skipped_in_topo e) es)). p \<in> dom (map_of levels)
      then Some (Max (insert l ((\<lambda>p. the (map_of levels p)) `
             set (map producer_node_id (filter (\<lambda>e. \<not> skipped_in_topo e) es)))))
      else None)"
proof (induction es arbitrary: l)
  case Nil
  then show ?case by simp
next
  case (Cons e es)
  show ?case
  proof (cases "skipped_in_topo e")
    case True
    then show ?thesis unfolding operand_level.simps Cons.IH [of l] by auto
  next
    case False
    show ?thesis
    proof (cases "map_of levels (producer_node_id e)")
      case None
      then show ?thesis using False by (auto simp: domIff)
    next
      case (Some m)
      let ?S = "(\<lambda>p. the (map_of levels p)) `
        set (map producer_node_id (filter (\<lambda>e. \<not> skipped_in_topo e) es))"
      have "Max (insert (max l m) ?S) = Max (insert l (insert m ?S))"
        by (cases "?S = {}") (simp_all add: max.assoc)
      with Some False show ?thesis using Cons.IH [of "max l m"] by (auto simp: domIff)
    qed
  qed
qed

text \<open>One round of the loop, as a fold over the users of the node.\<close>

definition enq :: "Graph \<Rightarrow> GenState \<Rightarrow> NodeId \<Rightarrow> GenState" where
  "enq g st u =
     (if u \<in> set (processed_nodes st) \<or> \<not> set (topo_succ g u) \<subseteq> dom (map_of (node_to_level st)) then st
      else \<lparr>gen_queue = gen_queue st @ [u],
            node_to_level =
              AList.update u (Suc (level_from g (map_of (node_to_level st)) u)) (node_to_level st),
            processed_nodes = processed_nodes st @ [u]\<rparr>)"

lemma enqueue_user_eq:
  assumes wf: "graph_wf w g" and e: "e \<in> set (graph_edges g)" "\<not> skipped_in_topo e"
  shows "enqueue_user g st e = Inr (enq g st (consumer_node_id e))"
proof -
  note i = graph_edges_ends(3) [OF wf e(1)]
  show ?thesis
    using e(2) node_of_in [OF i] operand_edges_any [OF wf i]
      operand_level_eq [of "node_to_level st"
        "sort_key consumer_input_port_id (filter (edge_shown g) (ops g (consumer_node_id e)))" 0]
    unfolding topo_succ_eq [OF wf, symmetric]
    by (auto simp: enqueue_user_def enq_def level_from_def subset_eq)
qed

lemma enqueue_users_eq:
  assumes wf: "graph_wf w g" and i: "i \<in> node_ids g"
  shows "rbind (user_edges any_edge g i) (foldR (enqueue_user g) st) =
     Inr (foldl (enq g) st (topo_users g i))"
proof -
  let ?us = "sort_key user_edge_order (filter (edge_shown g) (usr g i))"
  have 1: "foldR (enqueue_user g) st ?us = foldR (\<lambda>st u. Inr (enq g st u)) st (topo_users g i)"
    unfolding topo_users_def
    by (rule foldR_skip)
      (use mem_usr [OF wf, of _ i] enqueue_user_eq [OF wf] in \<open>auto simp: enqueue_user_def\<close>)
  have 2: "foldR (\<lambda>st u. Inr (enq g st u)) st us = Inr (foldl (enq g) st us)" for us
    by (induction us arbitrary: st) simp_all
  show ?thesis using usq.query_eq [OF assms, of any_edge] 1 2 by simp
qed

text \<open>The invariant: \<open>D\<close> are the nodes taken from the queue.\<close>

definition gen_ok :: "Graph \<Rightarrow> NodeId set \<Rightarrow> GenState \<Rightarrow> bool" where
  "gen_ok g D st \<longleftrightarrow> (let L = map_of (node_to_level st) in
     distinct (keys (node_to_level st)) \<and> distinct (gen_queue st) \<and> set (gen_queue st) \<inter> D = {} \<and>
     D \<union> set (gen_queue st) = dom L \<and> dom L \<subseteq> shown_nodes g \<and>
     (\<forall>i \<in> shown_nodes g. topo_succ g i = [] \<longrightarrow> L i = Some 0) \<and>
     (\<forall>i. i \<in> set (processed_nodes st) \<longleftrightarrow> i \<in> dom L \<and> topo_succ g i \<noteq> []) \<and>
     (\<forall>i \<in> set (processed_nodes st). set (topo_succ g i) \<subseteq> dom L \<and> L i = Some (Suc (level_from g L i))))"

definition gen_closed :: "Graph \<Rightarrow> NodeId set \<Rightarrow> GenState \<Rightarrow> bool" where
  "gen_closed g D st \<longleftrightarrow>
     (\<forall>i \<in> shown_nodes g. set (topo_succ g i) \<subseteq> D \<longrightarrow> i \<in> dom (map_of (node_to_level st)))"

lemma level_from_cong:
  "(\<And>p. p \<in> set (topo_succ g i) \<Longrightarrow> L p = L' p) \<Longrightarrow> level_from g L i = level_from g L' i"
  by (simp add: level_from_def cong: image_cong)

lemma enq_dom:
  "dom (map_of (node_to_level st)) \<subseteq> dom (map_of (node_to_level (enq g st u)))"
  by (auto simp: enq_def)

lemma enq_ok:
  assumes ok: "gen_ok g D st" and u: "u \<in> shown_nodes g" "topo_succ g u \<noteq> []"
  shows "gen_ok g D (enq g st u)"
proof (cases "u \<in> set (processed_nodes st) \<or> \<not> set (topo_succ g u) \<subseteq> dom (map_of (node_to_level st))")
  case True
  with ok show ?thesis by (simp add: enq_def)
next
  case False
  let ?L = "map_of (node_to_level st)"
  let ?L' = "?L(u \<mapsto> Suc (level_from g ?L u))"
  have s: "distinct (keys (node_to_level st))" "distinct (gen_queue st)" "set (gen_queue st) \<inter> D = {}"
    "D \<union> set (gen_queue st) = dom ?L" "dom ?L \<subseteq> shown_nodes g"
    and top: "\<And>i. i \<in> shown_nodes g \<Longrightarrow> topo_succ g i = [] \<Longrightarrow> ?L i = Some 0"
    and pr: "\<And>i. i \<in> set (processed_nodes st) \<longleftrightarrow> i \<in> dom ?L \<and> topo_succ g i \<noteq> []"
    and lv: "\<And>i. i \<in> set (processed_nodes st) \<Longrightarrow>
      set (topo_succ g i) \<subseteq> dom ?L \<and> ?L i = Some (Suc (level_from g ?L i))"
    using ok unfolding gen_ok_def Let_def by blast+
  have new: "u \<notin> dom ?L" using False pr u(2) by blast
  have same: "level_from g ?L' i = level_from g ?L i" if "set (topo_succ g i) \<subseteq> dom ?L" for i
    by (rule level_from_cong) (use that new in auto)
  have e: "enq g st u = \<lparr>gen_queue = gen_queue st @ [u],
      node_to_level = AList.update u (Suc (level_from g ?L u)) (node_to_level st),
      processed_nodes = processed_nodes st @ [u]\<rparr>" using False by (simp add: enq_def)
  show ?thesis
    unfolding gen_ok_def Let_def e
  proof (intro conjI ballI allI impI)
    show "distinct (keys (node_to_level \<lparr>gen_queue = gen_queue st @ [u],
      node_to_level = AList.update u (Suc (level_from g ?L u)) (node_to_level st),
      processed_nodes = processed_nodes st @ [u]\<rparr>))"
      using s(1) by (simp add: distinct_update)
  next
    fix i
    assume "i \<in> set (processed_nodes \<lparr>gen_queue = gen_queue st @ [u],
      node_to_level = AList.update u (Suc (level_from g ?L u)) (node_to_level st),
      processed_nodes = processed_nodes st @ [u]\<rparr>)"
    then have "i = u \<or> i \<noteq> u \<and> set (topo_succ g i) \<subseteq> dom ?L \<and> ?L i = Some (Suc (level_from g ?L i))"
      using lv [of i] by auto
    then show "set (topo_succ g i) \<subseteq> dom (map_of (node_to_level \<lparr>gen_queue = gen_queue st @ [u],
      node_to_level = AList.update u (Suc (level_from g ?L u)) (node_to_level st),
      processed_nodes = processed_nodes st @ [u]\<rparr>))"
      "map_of (node_to_level \<lparr>gen_queue = gen_queue st @ [u],
      node_to_level = AList.update u (Suc (level_from g ?L u)) (node_to_level st),
      processed_nodes = processed_nodes st @ [u]\<rparr>) i = Some (Suc (level_from g (map_of (node_to_level
      \<lparr>gen_queue = gen_queue st @ [u],
      node_to_level = AList.update u (Suc (level_from g ?L u)) (node_to_level st),
      processed_nodes = processed_nodes st @ [u]\<rparr>)) i))"
      using False same [of i] by auto
  qed (use s(1-5) new top pr u False in auto)
qed


lemma foldl_enq:
  assumes "gen_ok g D st" "\<forall>u \<in> set us. u \<in> shown_nodes g \<and> topo_succ g u \<noteq> []"
  shows "gen_ok g D (foldl (enq g) st us)"
    "dom (map_of (node_to_level st)) \<subseteq> dom (map_of (node_to_level (foldl (enq g) st us)))"
    "\<And>u. u \<in> set us \<Longrightarrow> set (topo_succ g u) \<subseteq> dom (map_of (node_to_level st)) \<Longrightarrow>
       u \<in> dom (map_of (node_to_level (foldl (enq g) st us)))"
  using assms
proof (atomize (full), induction us arbitrary: st)
  case Nil
  then show ?case by simp
next
  case (Cons u us)
  let ?st = "enq g st u"
  have ok: "gen_ok g D ?st" using enq_ok Cons.prems by simp
  note d = enq_dom [of st g u]
  have u: "u \<in> dom (map_of (node_to_level ?st))"
    if "set (topo_succ g u) \<subseteq> dom (map_of (node_to_level st))"
    using that Cons.prems(1) by (auto simp: enq_def gen_ok_def Let_def)
  from Cons.IH [OF ok] Cons.prems(2) have IH: "gen_ok g D (foldl (enq g) ?st us)"
    "dom (map_of (node_to_level ?st)) \<subseteq> dom (map_of (node_to_level (foldl (enq g) ?st us)))"
    "\<And>v. v \<in> set us \<Longrightarrow> set (topo_succ g v) \<subseteq> dom (map_of (node_to_level ?st)) \<Longrightarrow>
       v \<in> dom (map_of (node_to_level (foldl (enq g) ?st us)))" by auto
  show ?case
    using IH(1,2) d u IH(3) by (simp, blast)
qed

lemma gen_step:
  assumes wf: "graph_wf w g" and ok: "gen_ok g D st" and cl: "gen_closed g D st"
    and q: "gen_queue st = i # q"
  defines "st' \<equiv> foldl (enq g) (st\<lparr>gen_queue := q\<rparr>) (topo_users g i)"
  shows "i \<in> shown_nodes g" "i \<notin> D" "gen_ok g (insert i D) st'" "gen_closed g (insert i D) st'"
proof -
  let ?L = "map_of (node_to_level st)"
  have s: "i \<in> dom ?L" "i \<notin> D" "dom ?L \<subseteq> shown_nodes g" "D \<union> set (i # q) = dom ?L"
    using ok by (auto simp: gen_ok_def Let_def q)
  then show "i \<in> shown_nodes g" "i \<notin> D" by auto
  have ok1: "gen_ok g (insert i D) (st\<lparr>gen_queue := q\<rparr>)"
    using ok by (auto simp: gen_ok_def Let_def q)
  have us: "\<forall>u \<in> set (topo_users g i). u \<in> shown_nodes g \<and> topo_succ g u \<noteq> []"
    using topo_succ_iff [OF wf] topo_edges_shown [OF wf] by (metis empty_iff list.set(1))
  note F = foldl_enq [OF ok1 us]
  show "gen_ok g (insert i D) st'" unfolding st'_def by (rule F(1))
  show "gen_closed g (insert i D) st'"
    unfolding gen_closed_def
  proof (intro ballI impI)
    fix j
    assume j: "j \<in> shown_nodes g" "set (topo_succ g j) \<subseteq> insert i D"
    show "j \<in> dom (map_of (node_to_level st'))"
    proof (cases "i \<in> set (topo_succ g j)")
      case True
      then have "j \<in> set (topo_users g i)" using topo_succ_iff [OF wf] by blast
      moreover have "set (topo_succ g j) \<subseteq> dom (map_of (node_to_level (st\<lparr>gen_queue := q\<rparr>)))"
        using j(2) s by auto
      ultimately show ?thesis unfolding st'_def by (rule F(3))
    next
      case False
      with j cl have "j \<in> dom ?L" by (auto simp: gen_closed_def)
      with F(2) show ?thesis unfolding st'_def by auto
    qed
  qed
qed

lemma generation_loop_ok:
  assumes wf: "graph_wf w g"
  shows "gen_ok g D st \<Longrightarrow> gen_closed g D st \<Longrightarrow> card (shown_nodes g - D) \<le> n \<Longrightarrow>
     \<exists>st' D'. generation_loop n g st = Inr st' \<and> gen_ok g D' st' \<and> gen_closed g D' st' \<and>
       gen_queue st' = []"
proof (induction n arbitrary: st D)
  case 0
  then have "shown_nodes g - D = {}" by simp
  then have "gen_queue st = []"
    using gen_step(1,2) [OF wf 0(1,2)] by (cases "gen_queue st") blast+
  with 0 show ?case by (auto simp: generation_loop.simps [of 0])
next
  case (Suc n)
  show ?case
  proof (cases "gen_queue st")
    case Nil
    with Suc.prems show ?thesis by (auto simp: generation_loop.simps [of "Suc n"])
  next
    case (Cons i q)
    note S = gen_step [OF wf Suc.prems(1,2) Cons]
    have "card (shown_nodes g - insert i D) = card ((shown_nodes g - D) - {i})"
      by (rule arg_cong [of _ _ card]) auto
    moreover have "Suc (card ((shown_nodes g - D) - {i})) = card (shown_nodes g - D)"
      by (rule card_Suc_Diff1) (use S(1,2) in auto)
    ultimately have "card (shown_nodes g - insert i D) \<le> n"
      using Suc.prems(3) by linarith
    from Suc.IH [OF S(3,4) this] S(1) enqueue_users_eq [OF wf, of i "st\<lparr>gen_queue := q\<rparr>"]
    show ?thesis
      by (cases "user_edges any_edge g i")
        (auto simp: generation_loop.simps [of "Suc n"] Cons)
  qed
qed

section \<open>From levels to generations\<close>

lemma nth_place_at_level:
  "place_at_level x l gs ! k =
     (if k = l then (if l < length gs then gs ! l else []) @ [x]
      else if k < length gs then gs ! k else place_at_level x l gs ! k)"
  "length (place_at_level x l gs) = max (length gs) (Suc l)"
  "k < Suc l \<Longrightarrow> length gs \<le> k \<Longrightarrow> k \<noteq> l \<Longrightarrow> place_at_level x l gs ! k = []"
  by (auto simp: place_at_level_def Let_def nth_append)

definition in_generation :: "'a list list \<Rightarrow> 'a \<Rightarrow> nat \<Rightarrow> bool" where
  "in_generation gs i l \<longleftrightarrow> l < length gs \<and> i \<in> set (gs ! l)"

lemma in_generation_place:
  "in_generation (place_at_level x l gs) i k \<longleftrightarrow> in_generation gs i k \<or> i = x \<and> k = l"
  unfolding in_generation_def place_at_level_def Let_def
  by (auto simp: nth_append nth_list_update)

lemma distinct_place:
  assumes "\<forall>k < length gs. distinct (gs ! k)" "\<not> in_generation gs x l"
  shows "\<forall>k < length (place_at_level x l gs). distinct (place_at_level x l gs ! k)"
  using assms unfolding in_generation_def place_at_level_def Let_def
  by (auto simp: nth_append nth_list_update)

lemma place_all:
  assumes "distinct (keys m)"
  defines "gs \<equiv> foldl (\<lambda>gs (i, l). place_at_level i l gs) [] m"
  shows "in_generation gs i l \<longleftrightarrow> map_of m i = Some l" "\<forall>k < length gs. distinct (gs ! k)"
proof -
  have "(\<forall>i l. in_generation gs i l \<longleftrightarrow> (i, l) \<in> set m) \<and> (\<forall>k < length gs. distinct (gs ! k))"
    using assms(1) unfolding gs_def
  proof (induction m rule: rev_induct)
    case Nil
    then show ?case by (simp add: in_generation_def)
  next
    case (snoc x m)
    obtain i l where x: "x = (i, l)" by force
    let ?gs = "foldl (\<lambda>gs (i, l). place_at_level i l gs) [] m"
    from snoc have IH: "\<And>j k. in_generation ?gs j k \<longleftrightarrow> (j, k) \<in> set m"
      "\<forall>k < length ?gs. distinct (?gs ! k)" by auto
    have new: "\<not> in_generation ?gs i l" using snoc.prems by (auto simp: IH(1) x rev_image_eqI)
    from distinct_place [OF IH(2) new] IH(1) show ?case by (auto simp: x in_generation_place)
  qed
  then show "in_generation gs i l \<longleftrightarrow> map_of m i = Some l" "\<forall>k < length gs. distinct (gs ! k)"
    by (simp_all add: map_of_eq_Some_iff [OF assms(1)])
qed


lemma place_nodes:
  "set (keys m) \<subseteq> node_ids g \<Longrightarrow>
     foldR (\<lambda>gs (i, l). rbind (node_of g i) (\<lambda>i. Inr (place_at_level i l gs))) gs m =
     Inr (foldl (\<lambda>gs (i, l). place_at_level i l gs) gs m)"
proof (induction m arbitrary: gs)
  case Nil
  then show ?case by simp
next
  case (Cons x m)
  then have "node_of g (fst x) = Inr (fst x)" by (intro node_of_in) simp
  with Cons show ?case by (cases x) simp
qed

lemma fold_update_zero:
  "map_of (fold (\<lambda>i. AList.update i (0::nat)) is m) =
     (\<lambda>j. if j \<in> set is then Some 0 else map_of m j)"
  "distinct (keys m) \<Longrightarrow> distinct (keys (fold (\<lambda>i. AList.update i (0::nat)) is m))"
  by (induction "is" arbitrary: m) (auto simp: distinct_update)

lemma level_from_max:
  assumes "set (topo_succ g i) \<noteq> {}"
  shows "\<exists>p \<in> set (topo_succ g i). level_from g L i = the (L p)"
    "p \<in> set (topo_succ g i) \<Longrightarrow> the (L p) \<le> level_from g L i"
proof -
  let ?S = "(\<lambda>p. the (L p)) ` set (topo_succ g i)"
  have "level_from g L i = Max ?S"
    using assms by (simp add: level_from_def)
  then show "\<exists>p \<in> set (topo_succ g i). level_from g L i = the (L p)"
    using Max_in [of ?S] assms by (metis (no_types, lifting) finite_imageI finite_set imageE image_is_empty)
  show "p \<in> set (topo_succ g i) \<Longrightarrow> the (L p) \<le> level_from g L i"
    by (simp add: level_from_def)
qed

definition levels_ok :: "Graph \<Rightarrow> (NodeId \<Rightarrow> nat option) \<Rightarrow> bool" where
  "levels_ok g L \<longleftrightarrow> dom L \<subseteq> shown_nodes g \<and>
     (\<forall>i \<in> shown_nodes g. topo_succ g i = [] \<longrightarrow> L i = Some 0) \<and>
     (\<forall>i \<in> dom L. topo_succ g i \<noteq> [] \<longrightarrow>
        set (topo_succ g i) \<subseteq> dom L \<and> L i = Some (Suc (level_from g L i))) \<and>
     (\<forall>i \<in> shown_nodes g. set (topo_succ g i) \<subseteq> dom L \<longrightarrow> i \<in> dom L)"

lemma levels_okD:
  assumes "levels_ok g L"
  shows "dom L \<subseteq> shown_nodes g" "i \<in> shown_nodes g \<Longrightarrow> topo_succ g i = [] \<Longrightarrow> L i = Some 0"
    "i \<in> dom L \<Longrightarrow> topo_succ g i \<noteq> [] \<Longrightarrow>
       set (topo_succ g i) \<subseteq> dom L \<and> L i = Some (Suc (level_from g L i))"
    "i \<in> shown_nodes g \<Longrightarrow> set (topo_succ g i) \<subseteq> dom L \<Longrightarrow> i \<in> dom L"
  using assms unfolding levels_ok_def by blast+

lemma level_before:
  assumes ok: "levels_ok g L" and j: "j \<in> set (topo_succ g i)" and l: "L i = Some l"
  shows "\<exists>k < l. L j = Some k"
proof -
  have ne: "set (topo_succ g i) \<noteq> {}" using j by auto
  with levels_okD(3) [OF ok, of i] j l obtain k where "L j = Some k" "l = Suc (level_from g L i)"
    by auto
  with level_from_max(2) [OF ne j, where L = L] show ?thesis by force
qed

lemma level_just_before:
  assumes ok: "levels_ok g L" and l: "L i = Some (Suc l)"
  shows "\<exists>j \<in> set (topo_succ g i). L j = Some l"
proof -
  have "topo_succ g i \<noteq> []" using levels_okD(1) [OF ok] levels_okD(2) [OF ok, of i] l by force
  with levels_okD(3) [OF ok, of i] l level_from_max(1) [where g = g and i = i and L = L]
  show ?thesis by force
qed

lemma level_total:
  assumes wf: "graph_wf w g" and ok: "levels_ok g L" and ac: "acyclic (topo_edges g)"
  shows "i \<in> shown_nodes g \<Longrightarrow> i \<in> dom L"
proof -
  have "topo_edges g \<subseteq> node_ids g \<times> node_ids g" using topo_edges_shown [OF wf] by auto
  then have "finite (topo_edges g)" by (rule finite_subset) simp
  from finite_acyclic_wf [OF this ac] show "i \<in> shown_nodes g \<Longrightarrow> i \<in> dom L"
  proof (induction i rule: wf_induct_rule)
    case (less i)
    have "set (topo_succ g i) \<subseteq> dom L"
      using less.IH topo_edges_shown [OF wf] topo_succ_iff(1) [OF wf, of _ i] by blast
    with levels_okD(4) [OF ok less.prems] show ?case .
  qed
qed

lemma topological_generations_levels:
  assumes wf: "graph_wf w g"
    and fuel: "length (nodes_order g) \<le> rounds" "length (nodes_order g) \<le> depth"
  shows "\<exists>gs L. topological_generations rounds depth g = Inr gs \<and> levels_ok g L \<and>
     (\<forall>i l. in_generation gs i l \<longleftrightarrow> L i = Some l) \<and> (\<forall>k < length gs. distinct (gs ! k))"
proof -
  from top_level_nodes_eq [OF wf fuel(2)] obtain top where
    top: "top_level_nodes depth g = Inr top" "distinct top"
      "set top = {i \<in> shown_nodes g. topo_succ g i = []}" by blast
  let ?st0 = "\<lparr>gen_queue = top, node_to_level = fold (\<lambda>i. AList.update i 0) top [],
    processed_nodes = []\<rparr>"
  have "dom (map_of (node_to_level ?st0)) = set top" by (auto simp: fold_update_zero split: if_splits)
  then have ok: "gen_ok g {} ?st0" "gen_closed g {} ?st0"
    using top(2,3) by (auto simp: gen_ok_def gen_closed_def fold_update_zero)
  have "card (shown_nodes g - {}) \<le> rounds"
    using card_mono [of "node_ids g" "shown_nodes g"] node_count [OF wf] fuel(1) by auto
  from generation_loop_ok [OF wf ok this] obtain st D where
    st: "generation_loop rounds g ?st0 = Inr st" "gen_ok g D st" "gen_closed g D st"
      "gen_queue st = []" by blast
  let ?L = "map_of (node_to_level st)" and ?f = "\<lambda>gs (i, l). place_at_level i l gs"
  have d: "distinct (keys (node_to_level st))" and D: "D = dom ?L"
    using st(2,4) unfolding gen_ok_def Let_def by auto
  have L: "levels_ok g ?L"
    using st(2,3) unfolding levels_ok_def gen_ok_def gen_closed_def Let_def D by simp
  have "set (keys (node_to_level st)) \<subseteq> node_ids g"
    using levels_okD(1) [OF L] by (auto simp: dom_map_of_conv_image_fst)
  then have "topological_generations rounds depth g = Inr (foldl ?f [] (node_to_level st))"
    using place_nodes [of "node_to_level st" g "[]"] top(1) st(1)
    by (simp add: topological_generations_def)
  with L place_all [OF d] show ?thesis by blast
qed

text \<open>C37: the topological generations are computed within as many rounds as there are nodes. Every
  operand of a node is in an earlier generation than the node, a node after the first generation
  has an operand in the generation just before it, a node is in one generation at most and, when
  the edges followed have no cycle, every visible node is in one.\<close>

theorem topological_generations_correct:
  assumes wf: "graph_wf w g"
    and fuel: "length (nodes_order g) \<le> rounds" "length (nodes_order g) \<le> depth"
  shows "\<exists>gs. topological_generations rounds depth g = Inr gs \<and>
     (\<forall>k < length gs. distinct (gs ! k)) \<and>
     (\<forall>i k l. in_generation gs i k \<longrightarrow> in_generation gs i l \<longrightarrow> k = l) \<and>
     (\<forall>i j l. (j, i) \<in> topo_edges g \<longrightarrow> in_generation gs i l \<longrightarrow> (\<exists>k < l. in_generation gs j k)) \<and>
     (\<forall>i l. in_generation gs i (Suc l) \<longrightarrow> (\<exists>j. (j, i) \<in> topo_edges g \<and> in_generation gs j l)) \<and>
     (\<forall>i l. in_generation gs i l \<longrightarrow> i \<in> shown_nodes g) \<and>
     (acyclic (topo_edges g) \<longrightarrow> (\<forall>i \<in> shown_nodes g. \<exists>l. in_generation gs i l))"
proof -
  from topological_generations_levels [OF assms] obtain gs L where
    res: "topological_generations rounds depth g = Inr gs" and L: "levels_ok g L"
    and gs: "\<And>i l. in_generation gs i l \<longleftrightarrow> L i = Some l" and d: "\<forall>k < length gs. distinct (gs ! k)"
    by blast
  show ?thesis
  proof (intro exI [of _ gs] conjI allI impI ballI)
    show "topological_generations rounds depth g = Inr gs" by (rule res)
    show "distinct (gs ! k)" if "k < length gs" for k using d that by blast
    show "k = l" if "in_generation gs i k" "in_generation gs i l" for i k l
      using that by (simp add: gs)
    show "\<exists>k < l. in_generation gs j k" if "(j, i) \<in> topo_edges g" "in_generation gs i l" for i j l
      using level_before [OF L, of j i l] that by (simp add: gs topo_succ_iff [OF wf])
    show "\<exists>j. (j, i) \<in> topo_edges g \<and> in_generation gs j l" if "in_generation gs i (Suc l)" for i l
      using level_just_before [OF L, of i l] that topo_succ_iff(1) [OF wf] by (auto simp: gs)
    show "i \<in> shown_nodes g" if "in_generation gs i l" for i l
      using levels_okD(1) [OF L] that unfolding gs by blast
    show "\<exists>l. in_generation gs i l" if "acyclic (topo_edges g)" "i \<in> shown_nodes g" for i
      using level_total [OF wf L that] by (auto simp: gs)
  qed
qed

theorem topological_generations_correct_witness:
  "\<exists>gs. topological_generations 3 3 example_g = Inr gs \<and> (\<forall>k < length gs. distinct (gs ! k)) \<and>
     (\<forall>i l. in_generation gs i l \<longrightarrow> i \<in> shown_nodes example_g)"
proof -
  have "nodes_order example_g = [1, 2, 3]" by code_simp
  then have len: "length (nodes_order example_g) \<le> 3" by simp
  from topological_generations_correct [OF example_wf len len] show ?thesis by metis
qed

end
