(* ===== verification/Surgery.thy ===== *)
theory Surgery
  imports Generations
begin

text \<open>
  The operations of \<open>forge/csrc/graph_lib/utils.cpp\<close> that rewire a graph: inserting a node on an
  edge, bypassing and replacing nodes, moving control and autograd edges, buffering queues,
  swapping, cascading, broadcasts and rank changes.

  \<^item> The state is the pair of the shared \<open>World\<close> and the graph. The vectors the C++ iterates over are
    taken before the loop, as there.
  \<^item> A pointer parameter that stays in use across the operation is a node id of the graph.
\<close>

type_synonym GS = "World \<times> Graph"

section \<open>Single steps on the state\<close>

definition on_graph :: "(Graph \<Rightarrow> Graph result) \<Rightarrow> GS \<Rightarrow> GS result" where
  "on_graph f st = (case st of (w, g) \<Rightarrow> rbind (f g) (\<lambda>g'. Inr (w, g')))"

definition construct_edge ::
    "NodeId \<Rightarrow> PortId \<Rightarrow> NodeId \<Rightarrow> PortId \<Rightarrow> EdgeType \<Rightarrow> GS \<Rightarrow> GS \<times> Edge" where
  "construct_edge p pp c cp ty st =
     (case st of (w, g) \<Rightarrow> case make_edge p pp c cp ty w of (w', e) \<Rightarrow> ((w', g), e))"

definition put_edge :: "Edge \<Rightarrow> GS \<Rightarrow> GS" where
  "put_edge e st = (case st of (w, g) \<Rightarrow> add_edge e w g)"

definition put_edge_attr :: "Edge \<Rightarrow> AttrRef \<Rightarrow> GS \<Rightarrow> GS" where
  "put_edge_attr e r st = (case st of (w, g) \<Rightarrow> add_edge_attr e (Some r) w g)"

definition connect_ports ::
    "NodeId \<Rightarrow> NodeId \<Rightarrow> PortId \<Rightarrow> PortId \<Rightarrow> EdgeType \<Rightarrow> GS \<Rightarrow> GS result" where
  "connect_ports p c pp cp ty st = (case st of (w, g) \<Rightarrow>
     rbind (node_of g p) (\<lambda>_. rbind (node_of g c) (\<lambda>_. Inr (add_edge_ports p c pp cp ty w g))))"

definition connect_nodes :: "NodeId \<Rightarrow> NodeId \<Rightarrow> EdgeType \<Rightarrow> GS \<Rightarrow> GS result" where
  "connect_nodes p c ty st = (case st of (w, g) \<Rightarrow>
     rbind (node_of g p) (\<lambda>_. rbind (node_of g c) (\<lambda>_. add_edge_nodes p c ty w g)))"

definition drop_edge :: "Edge \<Rightarrow> GS \<Rightarrow> (GS \<times> AttrRef) result" where
  "drop_edge e st = (case st of (w, g) \<Rightarrow> rbind (remove_edge e g) (\<lambda>(g', r). Inr ((w, g'), r)))"

definition drop_node :: "NodeId \<Rightarrow> GS \<Rightarrow> (GS \<times> Node) result" where
  "drop_node i st = (case st of (w, g) \<Rightarrow> rbind (remove_node i g) (\<lambda>(g', n). Inr ((w, g'), n)))"

definition put_node :: "Node \<Rightarrow> u32 \<Rightarrow> GS \<Rightarrow> (GS \<times> NodeId) result" where
  "put_node n s st = (case st of (w, g) \<Rightarrow>
     rbind (add_node n s None w g) (\<lambda>(w', g', i). Inr ((w', g'), i)))"

text \<open>A write through the attribute object of an edge.\<close>

definition update_edge_attr ::
    "(EdgeAttributes \<Rightarrow> EdgeAttributes result) \<Rightarrow> Edge \<Rightarrow> GS \<Rightarrow> GS result" where
  "update_edge_attr f e st = (case st of (w, g) \<Rightarrow>
     rbind (get_edge_attributes g e) (\<lambda>r.
     rbind (read_attr w r) (\<lambda>a.
     rbind (f a) (\<lambda>a'. Inr (write_attr r a' w, g)))))"

definition copy_attrs :: "Edge \<Rightarrow> Edge \<Rightarrow> GS \<Rightarrow> GS result" where
  "copy_attrs src dst st = (case st of (w, g) \<Rightarrow>
     rbind (copy_edge_attributes src dst g w g) (\<lambda>w'. Inr (w', g)))"

definition copy_node_attrs :: "NodeId \<Rightarrow> NodeId \<Rightarrow> GS \<Rightarrow> GS result" where
  "copy_node_attrs src dst = on_graph (\<lambda>g.
     rbind (node_by_id g src) (\<lambda>s. update_node dst (copy_node_attributes s) g))"

definition edge_tms :: "GS \<Rightarrow> Edge \<Rightarrow> OpType list result" where
  "edge_tms st e = (case st of (w, g) \<Rightarrow> rbind (edge_attr w g e) (\<lambda>a. Inr (tms a)))"

section \<open>Inserting a node on an edge\<close>

text \<open>The operand edges of the consumer that the new node takes over.\<close>

definition is_control_like :: "Edge \<Rightarrow> bool" where
  "is_control_like e \<longleftrightarrow> edge_type e \<noteq> kData \<and> edge_type e \<noteq> kAutogradOutputToLoss \<and>
     edge_type e \<noteq> kAutogradInputToGradientOut \<and> edge_type e \<noteq> kAutogradFwdToGradient \<and>
     edge_type e \<noteq> kAutogradFwdToRecompute"

definition is_fwd_to_bwd_like :: "Edge \<Rightarrow> bool" where
  "is_fwd_to_bwd_like e \<longleftrightarrow> edge_type e = kAutogradFwdToBwd \<or>
     edge_type e = kAutogradFwdToOptimizer \<or> edge_type e = kAutogradFwdToGradient"

text \<open>A copy of the operand edge, to the new node's port 0.\<close>

definition copy_operand_edge :: "NodeId \<Rightarrow> GS \<Rightarrow> Edge \<Rightarrow> GS result" where
  "copy_operand_edge node st e =
     connect_ports (producer_node_id e) node (producer_output_port_id e) 0 (edge_type e) st"

definition move_fwd_edge :: "NodeId \<Rightarrow> GS \<Rightarrow> Edge \<Rightarrow> GS result" where
  "move_fwd_edge node st e =
     rbind (if is_fwd_to_bwd_like e then copy_operand_edge node st e else Inr st) (\<lambda>st.
       if edge_type e = kAutogradFwdToGradient then rbind (drop_edge e st) (\<lambda>(st, _). Inr st)
       else Inr st)"

definition new_edges_for :: "Edge \<Rightarrow> NodeId \<Rightarrow> PortId \<Rightarrow> GS \<Rightarrow> GS \<times> Edge \<times> Edge" where
  "new_edges_for e node consumer_index st =
     (case construct_edge (producer_node_id e) (producer_output_port_id e) node consumer_index
             (edge_type e) st of (st1, e0) \<Rightarrow>
      case construct_edge node 0 (consumer_node_id e) (consumer_input_port_id e)
             (edge_type e) st1 of (st2, e1) \<Rightarrow> (put_edge e1 (put_edge e0 st2), e0, e1))"

definition insert_data_edges :: "bool \<Rightarrow> PortId \<Rightarrow> Edge \<Rightarrow> NodeId \<Rightarrow> GS \<Rightarrow> (GS \<times> Edge \<times> Edge) result" where
  "insert_data_edges place_tms_on_outgoing consumer_index e node st =
     (case new_edges_for e node consumer_index st of (st1, e0, e1) \<Rightarrow>
      rbind (copy_attrs e e0 st1) (\<lambda>st2.
      rbind (copy_attrs e e1 st2) (\<lambda>st3.
      rbind (update_edge_attr (\<lambda>a. Inr (set_tms [] a))
               (if place_tms_on_outgoing then e0 else e1) st3) (\<lambda>st4.
        Inr (st4, e0, e1)))))"

definition insert_control_edges :: "Edge \<Rightarrow> NodeId \<Rightarrow> GS \<Rightarrow> GS result" where
  "insert_control_edges e node st =
     rbind (operand_edges any_edge (snd st) (consumer_node_id e)) (\<lambda>os.
     rbind (foldR (copy_operand_edge node) st (filter is_control_like os)) (\<lambda>st1.
     rbind (node_by_id (snd st1) (producer_node_id e)) (\<lambda>p.
     rbind (if list_ex is_control_like os \<or> epoch_type p = Epoch_Forward then Inr st1
            else rbind (operand_edges any_edge (snd st1) (producer_node_id e)) (\<lambda>ps.
                 foldR (move_fwd_edge node) st1 ps)) (\<lambda>st2.
     rbind (operand_edges any_edge (snd st2) (consumer_node_id e)) (\<lambda>cs.
       foldR (copy_operand_edge node) st2
         (filter (\<lambda>e. edge_type e = kAutogradFwdToRecompute) cs))))))"

definition insert_node_on_edge ::
    "bool \<Rightarrow> bool \<Rightarrow> PortId \<Rightarrow> bool \<Rightarrow> Edge \<Rightarrow> NodeId \<Rightarrow> GS \<Rightarrow> (GS \<times> Edge \<times> Edge) result" where
  "insert_node_on_edge inherit_consumer_attrs remove consumer_index place_tms_on_outgoing e node st =
     rbind (node_of (snd st) (consumer_node_id e)) (\<lambda>consumer.
     rbind (node_of (snd st) (producer_node_id e)) (\<lambda>producer.
     rbind (copy_node_attrs (if inherit_consumer_attrs then consumer else producer) node st) (\<lambda>st1.
     rbind (on_graph (update_node node (\<lambda>n.
              if node_type n = kPyOp then with_op (\<lambda>p. p\<lparr>gradient_op := False\<rparr>) n else Inr n)) st1)
       (\<lambda>st2.
     rbind (insert_data_edges place_tms_on_outgoing consumer_index e node st2) (\<lambda>(st3, e0, e1).
     rbind (insert_control_edges e node st3) (\<lambda>st4.
     rbind (if remove then rbind (drop_edge e st4) (\<lambda>(st, _). Inr st) else Inr st4) (\<lambda>st5.
       Inr (st5, e0, e1))))))))"

text \<open>The default arguments of the declaration.\<close>

definition insert_node_on_edge_default :: "Edge \<Rightarrow> NodeId \<Rightarrow> GS \<Rightarrow> (GS \<times> Edge \<times> Edge) result" where
  "insert_node_on_edge_default = insert_node_on_edge True True 0 False"

section \<open>Control edges when nodes go\<close>

definition copy_control_edge :: "NodeId \<Rightarrow> NodeId \<Rightarrow> GS \<Rightarrow> Edge \<Rightarrow> GS result" where
  "copy_control_edge data_operand new_dest st e =
     (if edge_type e = kData then Inr st
      else if edge_type e = kControl
        then connect_ports new_dest (consumer_node_id e) 0 0 (edge_type e) st
        else connect_ports data_operand (consumer_node_id e) 0 0 (edge_type e) st)"

definition copy_control_edges :: "NodeId \<Rightarrow> NodeId \<Rightarrow> GS \<Rightarrow> GS result" where
  "copy_control_edges old_dest new_dest st =
     rbind (data_operands (snd st) old_dest) (\<lambda>os.
     rbind (of_opt Out_of_range (case os of [] \<Rightarrow> None | p # _ \<Rightarrow> Some p)) (\<lambda>data_operand.
     rbind (user_edges any_edge (snd st) old_dest) (\<lambda>us.
       foldR (copy_control_edge data_operand new_dest) st us)))"

definition is_not_data_edge :: "Edge \<Rightarrow> bool" where
  "is_not_data_edge e \<longleftrightarrow> edge_type e \<noteq> kData"

text \<open>One control edge from a producer becomes one to every data user of the node that goes.\<close>

definition spread_control_edge :: "NodeId \<Rightarrow> GS \<Rightarrow> Edge \<Rightarrow> GS result" where
  "spread_control_edge i st e =
     rbind (user_data_edges any_edge (snd st) i) (\<lambda>us.
       foldR (\<lambda>st u. case construct_edge (producer_node_id e) (producer_output_port_id e)
                        (consumer_node_id u) (consumer_input_port_id u) (edge_type e) st of
                (st', e') \<Rightarrow> Inr (put_edge e' st')) st us)"

definition handle_operand_edge :: "NodeEpochType \<Rightarrow> NodeId \<Rightarrow> NodeId \<Rightarrow> GS \<Rightarrow> Edge \<Rightarrow> GS result" where
  "handle_operand_edge ep i producer st e = (case ep of
       Epoch_Forward \<Rightarrow>
         (if edge_type e = kControl then spread_control_edge i st e else Inl Assert_failed)
     | Epoch_Backward \<Rightarrow>
         (if edge_type e = kAutogradFwdToBwd then Inr st
          else if edge_type e = kAutogradFwdToGradient
            then connect_nodes (producer_node_id e) producer (edge_type e) st
          else if edge_type e = kAutogradFwdToRecompute then Inr st
          else Inl Assert_failed)
     | Epoch_Optimizer \<Rightarrow>
         (if edge_type e = kAutogradFwdToOptimizer then Inr st else Inl Assert_failed))"

definition handle_user_edge :: "NodeEpochType \<Rightarrow> NodeId \<Rightarrow> GS \<Rightarrow> Edge \<Rightarrow> GS result" where
  "handle_user_edge ep producer st e = (case ep of
       Epoch_Forward \<Rightarrow>
         (if edge_type e = kAutogradFwdToBwd \<or> edge_type e = kAutogradFwdToOptimizer
            then connect_nodes producer (consumer_node_id e) (edge_type e) st
          else if edge_type e = kAutogradFwdToGradient then Inr st
          else if edge_type e = kAutogradFwdToRecompute
            then connect_nodes producer (consumer_node_id e) (edge_type e) st
          else Inl Assert_failed)
     | Epoch_Backward \<Rightarrow> Inl Assert_failed
     | Epoch_Optimizer \<Rightarrow> Inl Assert_failed)"

definition handle_control_edges_when_removing_node :: "NodeId \<Rightarrow> GS \<Rightarrow> GS result" where
  "handle_control_edges_when_removing_node i st =
     rbind (operand_data_edges any_edge (snd st) i) (\<lambda>ds. case ds of
       [d] \<Rightarrow>
         rbind (node_of (snd st) (producer_node_id d)) (\<lambda>producer.
         rbind (operand_edges is_not_data_edge (snd st) i) (\<lambda>os.
         rbind (user_edges is_not_data_edge (snd st) i) (\<lambda>us.
         rbind (deref (snd st) i) (\<lambda>n.
         rbind (foldR (handle_operand_edge (epoch_type n) i producer) st os) (\<lambda>st1.
           foldR (handle_user_edge (epoch_type n) producer) st1 us)))))
     | _ \<Rightarrow> Inl Assert_failed)"

section \<open>Queues\<close>

definition create_buffering_queue :: "NodeId \<Rightarrow> string \<Rightarrow> int \<Rightarrow> GS \<Rightarrow> (GS \<times> NodeId) result" where
  "create_buffering_queue producer name num_entries st =
     tt_assert (0 < num_entries)
       (rbind (deref (snd st) producer) (\<lambda>p.
        rbind (node_set_shape (node_shape p) (mk_BufferingQueueNode name num_entries)) (\<lambda>q.
        rbind (get_subgraph_id_for_node (snd st) producer) (\<lambda>s.
          put_node (set_epoch_type (epoch_type p) (node_set_output_df (node_output_df p) q)) s st))))"

text \<open>
  The edge from the source of a node past it to one of its users: the TMs of both edges in a row and
  the ublock order of the user's. \<open>user_attr\<close> are the attributes of the user's edge.
\<close>

definition bridge_edge :: "Edge \<Rightarrow> OpType list \<Rightarrow> Edge \<Rightarrow> EdgeAttributes \<Rightarrow> GS \<Rightarrow> (GS \<times> Edge) result" where
  "bridge_edge src operand_tms user user_attr st =
     (case construct_edge (producer_node_id src) (producer_output_port_id src)
             (consumer_node_id user) (consumer_input_port_id user) (edge_type user) st of
        (st1, e) \<Rightarrow>
      rbind (update_edge_attr (\<lambda>a. Inr (set_ublock_order (ublock_order user_attr)
               (set_tms (operand_tms @ tms user_attr) a))) e (put_edge e st1)) (\<lambda>st2.
        Inr (st2, e)))"

definition connect_queue_src_to_queue_user ::
    "NodeId \<Rightarrow> Edge \<Rightarrow> bool \<Rightarrow> GS \<Rightarrow> (GS \<times> Node option) result" where
  "connect_queue_src_to_queue_user queue user_edge remove_queue st =
     rbind (deref (snd st) queue) (\<lambda>q.
     tt_assert (node_type q = kQueue)
       (rbind (operand_data_edges any_edge (snd st) queue) (\<lambda>os.
        tt_assert (length os = 1)
          (rbind (edge_tms st (hd os)) (\<lambda>operand_tms.
           rbind (if remove_queue
                  then rbind (get_edge_attributes (snd st) user_edge) (\<lambda>r. Inr (st, r))
                  else drop_edge user_edge st) (\<lambda>(st1, r).
           rbind (read_attr (fst st1) r) (\<lambda>user_attr.
           rbind (bridge_edge (hd os) operand_tms user_edge user_attr st1) (\<lambda>(st2, _).
             if remove_queue then rbind (drop_node queue st2) (\<lambda>(st3, n). Inr (st3, Some n))
             else Inr (st2, None)))))))))"

section \<open>Bypassing and replacing nodes\<close>

text \<open>\<open>callback\<close> is the parameter of the C++, called with the new and the old edge.\<close>

definition bypass_user_edge ::
    "(Edge \<Rightarrow> Edge \<Rightarrow> GS \<Rightarrow> GS result) \<Rightarrow> Edge \<Rightarrow> OpType list \<Rightarrow> GS \<Rightarrow> Edge \<Rightarrow> GS result" where
  "bypass_user_edge callback src operand_tms st user =
     rbind (edge_attr (fst st) (snd st) user) (\<lambda>a.
     rbind (bridge_edge src operand_tms user a st) (\<lambda>(st1, e). callback e user st1))"

definition pass_on_gradient :: "NodeId \<Rightarrow> NodeId \<Rightarrow> GS \<Rightarrow> GS result" where
  "pass_on_gradient i producer st =
     rbind (deref (snd st) i) (\<lambda>n.
       if (case op_part n of Some p \<Rightarrow> gradient_op p | None \<Rightarrow> False) then
         on_graph (update_node producer (\<lambda>p.
           Inr (p\<lparr>node_cls := map_op (\<lambda>q. q\<lparr>gradient_op := True\<rparr>) (node_cls p)\<rparr>))) st
       else Inr st)"

definition bypass_node ::
    "(Edge \<Rightarrow> Edge \<Rightarrow> GS \<Rightarrow> GS result) \<Rightarrow> NodeId \<Rightarrow> bool \<Rightarrow> GS \<Rightarrow> (GS \<times> Node option) result" where
  "bypass_node callback i remove st =
     rbind (operand_data_edges any_edge (snd st) i) (\<lambda>os.
     tt_assert (length os = 1)
       (rbind (edge_tms st (hd os)) (\<lambda>operand_tms.
        rbind (user_data_edges any_edge (snd st) i) (\<lambda>us.
        rbind (foldR (bypass_user_edge callback (hd os) operand_tms) st us) (\<lambda>st1.
        rbind (handle_control_edges_when_removing_node i st1) (\<lambda>st2.
        rbind (pass_on_gradient i (producer_node_id (hd os)) st2) (\<lambda>st3.
          if remove then rbind (drop_node i st3) (\<lambda>(st4, n). Inr (st4, Some n))
          else Inr (st3, None))))))))"

definition no_callback :: "Edge \<Rightarrow> Edge \<Rightarrow> GS \<Rightarrow> GS result" where
  "no_callback e user st = Inr st"

text \<open>A new edge with the attributes of an old one.\<close>

definition replicate_edge ::
    "NodeId \<Rightarrow> PortId \<Rightarrow> NodeId \<Rightarrow> PortId \<Rightarrow> Edge \<Rightarrow> GS \<Rightarrow> GS result" where
  "replicate_edge p pp c cp e st =
     (case construct_edge p pp c cp (edge_type e) st of (st1, e') \<Rightarrow> copy_attrs e e' (put_edge e' st1))"

definition replace_node :: "NodeId \<Rightarrow> NodeId \<Rightarrow> bool \<Rightarrow> GS \<Rightarrow> GS result" where
  "replace_node original_node new_node skip_operands st =
     rbind (if skip_operands then Inr st
            else rbind (operand_data_edges any_edge (snd st) original_node) (\<lambda>os.
              foldR (\<lambda>st e. replicate_edge (producer_node_id e) (producer_output_port_id e)
                               new_node (consumer_input_port_id e) e st) st os)) (\<lambda>st1.
     rbind (user_edges any_edge (snd st1) original_node) (\<lambda>us.
     rbind (foldR (\<lambda>st e. replicate_edge new_node 0 (consumer_node_id e)
                             (consumer_input_port_id e) e st) st1
              (filter (\<lambda>e. edge_type e = kData) us)) (\<lambda>st2.
     rbind (copy_control_edges original_node new_node st2) (\<lambda>st3.
     rbind (copy_node_attrs original_node new_node st3) (\<lambda>st4.
     rbind (drop_node original_node st4) (\<lambda>(st5, _). Inr st5))))))"

section \<open>Swapping a producer and its consumer\<close>

definition replace_edge :: "Edge \<Rightarrow> Edge \<Rightarrow> GS \<Rightarrow> GS result" where
  "replace_edge orig e st =
     rbind (get_edge_attributes (snd st) orig) (\<lambda>r.
     rbind (drop_edge orig st) (\<lambda>(st1, _). Inr (put_edge_attr e r st1)))"

text \<open>\<open>graphlib::swap\<close>; an edge variable that is copied keeps its creation id.\<close>

definition swap_nodes ::
    "(Edge \<Rightarrow> GS \<Rightarrow> GS result) \<Rightarrow> (Edge \<Rightarrow> GS \<Rightarrow> GS result) \<Rightarrow> Edge \<Rightarrow> GS \<Rightarrow> (GS \<times> Edge) result" where
  "swap_nodes operand_callback user_callback e st =
     (let producer = producer_node_id e; consumer = consumer_node_id e in
      rbind (node_of (snd st) producer) (\<lambda>_.
      rbind (node_of (snd st) consumer) (\<lambda>_.
      rbind (operand_data_edges any_edge (snd st) producer) (\<lambda>producer_operands.
      rbind (user_data_edges any_edge (snd st) consumer) (\<lambda>consumer_users.
      tt_assert (length producer_operands = 1)
        (let swapped = e\<lparr>producer_node_id := consumer, consumer_node_id := producer,
                         consumer_input_port_id := 0\<rparr> in
         rbind (replace_edge e swapped st) (\<lambda>st1.
         rbind (replace_edge (hd producer_operands)
                  ((hd producer_operands)\<lparr>consumer_node_id := consumer,
                     consumer_input_port_id := consumer_input_port_id e\<rparr>) st1) (\<lambda>st2.
         rbind (operand_data_edges any_edge (snd st2) consumer) (\<lambda>os.
         rbind (foldR (\<lambda>st o1. operand_callback o1 st) st2 os) (\<lambda>st3.
         rbind (foldR (\<lambda>st u. let u' = u\<lparr>producer_node_id := producer\<rparr> in
                  rbind (replace_edge u u' st) (user_callback u')) st3 consumer_users) (\<lambda>st4.
           Inr (st4, swapped))))))))))))"

text \<open>
  \<open>clone_input_forking_edge\<close>: the user's edge comes from a clone of the input afterwards and keeps
  its attribute object.
\<close>

definition clone_input_forking_edge ::
    "(ConstEvalRef \<Rightarrow> ConstEvalRef result) \<Rightarrow> Edge \<Rightarrow> bool \<Rightarrow> GS \<Rightarrow> (GS \<times> Edge) result" where
  "clone_input_forking_edge ce user_edge allow_single_user st =
     (let i = producer_node_id user_edge in
      rbind (node_by_id (snd st) i) (\<lambda>n.
      tt_assert (node_type n = kInput)
        (rbind (data_operands (snd st) i) (\<lambda>os.
         tt_assert (os = [])
           (rbind (data_users (snd st) i) (\<lambda>us.
            tt_assert (1 < length us \<or> allow_single_user)
              (rbind (node_clone ce (node_name n @ ''_fork_clone'' @
                        show_int (consumer_node_id user_edge)) n) (\<lambda>n'.
               rbind (get_subgraph_id_for_node (snd st) i) (\<lambda>s.
               rbind (put_node n' s st) (\<lambda>(st1, j).
               rbind (get_edge_attributes (snd st1) user_edge) (\<lambda>r.
               rbind (drop_edge user_edge st1) (\<lambda>(st2, _).
               case construct_edge j (producer_output_port_id user_edge)
                      (consumer_node_id user_edge) (consumer_input_port_id user_edge)
                      (edge_type user_edge) st2 of (st3, e) \<Rightarrow>
                 Inr (put_edge_attr e r st3, e)))))))))))))"

end
