(* ===== verification/Rewrites.thy ===== *)
theory Rewrites
  imports Surgery
begin

text \<open>
  More of \<open>forge/csrc/graph_lib/utils.cpp\<close>: the nodes between two nodes, explicit broadcasts,
  cascades of binary ops, changes of rank, node shapes from operand shapes, the autograd and
  optimizer look-ups, the tests for constant evaluation and for queues on the host.

  \<open>op_shape\<close> is \<open>get_op_shape\<close> (\<open>autograd/binding.cpp\<close>), which asks the op, for most ops in Python,
  for the shape of its result and the broadcasts of its operands.
\<close>

section \<open>The nodes between two nodes\<close>

record SubgraphState =
  sub_found :: bool
  sub_deps :: "NodeId list id_map"
  sub_visited :: "NodeId list"
  sub_visit :: "NodeId list"

text \<open>The user loop of the forward walk; \<open>visit\<close> is a stack, its last element on top.\<close>

definition subgraph_user :: "NodeId \<Rightarrow> NodeId \<Rightarrow> SubgraphState \<Rightarrow> NodeId \<Rightarrow> SubgraphState" where
  "subgraph_user consumer node s user =
     (let s1 = s\<lparr>sub_deps := AList.update user (map_get [] (sub_deps s) user @ [node]) (sub_deps s)\<rparr>;
          s2 = (if user = consumer then s1\<lparr>sub_found := True\<rparr>
                else if user \<notin> set (sub_visited s1) then s1\<lparr>sub_visit := sub_visit s1 @ [user]\<rparr>
                else s1)
      in s2\<lparr>sub_visited := List.insert user (sub_visited s2)\<rparr>)"

fun subgraph_forward :: "nat \<Rightarrow> Graph \<Rightarrow> NodeId \<Rightarrow> SubgraphState \<Rightarrow> SubgraphState result" where
  "subgraph_forward fuel g consumer s =
     (if sub_visit s = [] then Inr s
      else case fuel of
          0 \<Rightarrow> Inl Out_of_fuel
        | Suc k \<Rightarrow>
            (let node = last (sub_visit s) in
             rbind (data_users g node) (\<lambda>us.
               subgraph_forward k g consumer
                 (foldl (subgraph_user consumer node) (s\<lparr>sub_visit := butlast (sub_visit s)\<rparr>) us))))"

declare subgraph_forward.simps [simp del]

text \<open>The walk back, level by level; a node comes once for every path from it.\<close>

definition subgraph_level :: "NodeId \<Rightarrow> NodeId list id_map \<Rightarrow> NodeId list \<Rightarrow> NodeId list result" where
  "subgraph_level producer deps visit =
     rbind (mapR (map_at deps) (filter (\<lambda>i. i \<noteq> producer) visit)) (\<lambda>ds. Inr (concat ds))"

fun subgraph_back :: "nat \<Rightarrow> NodeId \<Rightarrow> NodeId list id_map \<Rightarrow> NodeId list \<Rightarrow> NodeId list result" where
  "subgraph_back fuel producer deps visit =
     (if visit = [] then Inr []
      else case fuel of
          0 \<Rightarrow> Inl Out_of_fuel
        | Suc k \<Rightarrow>
            rbind (subgraph_level producer deps visit) (\<lambda>next_nodes.
            rbind (subgraph_back k producer deps next_nodes) (\<lambda>rest.
              Inr (filter (\<lambda>i. i \<noteq> producer) visit @ rest))))"

declare subgraph_back.simps [simp del]

definition subgraph :: "nat \<Rightarrow> Graph \<Rightarrow> NodeId \<Rightarrow> NodeId \<Rightarrow> NodeId list result" where
  "subgraph fuel g producer consumer =
     rbind (subgraph_forward fuel g consumer
              \<lparr>sub_found = False, sub_deps = [], sub_visited = [], sub_visit = [producer]\<rparr>) (\<lambda>s.
       if \<not> sub_found s then Inr []
       else subgraph_back fuel producer (sub_deps s) (map_get [] (sub_deps s) consumer))"

section \<open>Broadcasts\<close>

text \<open>\<open>std::get<T>(v[i]) = x\<close>: the entry must hold the type already.\<close>

definition set_legacy_bool :: "nat \<Rightarrow> bool \<Rightarrow> OpType \<Rightarrow> OpType result" where
  "set_legacy_bool i b t =
     rbind (vec_at (legacy_attrs t) i) (\<lambda>v.
     rbind (get_bool v) (\<lambda>_. Inr (t\<lparr>legacy_attrs := (legacy_attrs t)[i := ABool b]\<rparr>)))"

definition explicit_bcast :: "OpType \<Rightarrow> OpType result" where
  "explicit_bcast t = (if is_broadcast t then set_legacy_bool 2 True t else Inr t)"

definition convert_implicit_to_explicit_bcasts :: "Edge \<Rightarrow> GS \<Rightarrow> GS result" where
  "convert_implicit_to_explicit_bcasts =
     update_edge_attr (\<lambda>a. rbind (mapR explicit_bcast (tms a)) (\<lambda>ts. Inr (set_tms ts a)))"

definition legacy_int :: "OpType \<Rightarrow> nat \<Rightarrow> int result" where
  "legacy_int t i = rbind (vec_at (legacy_attrs t) i) get_int"

definition legacy_bool :: "OpType \<Rightarrow> nat \<Rightarrow> bool result" where
  "legacy_bool t i = rbind (vec_at (legacy_attrs t) i) get_bool"

definition swap_bcast :: "int \<Rightarrow> int \<Rightarrow> OpType \<Rightarrow> (OpType \<times> bool) result" where
  "swap_bcast old_dim new_dim t =
     (if is_broadcast t then
        rbind (legacy_int t 0) (\<lambda>dim.
        rbind (legacy_int t 1) (\<lambda>size.
        rbind (legacy_bool t 2) (\<lambda>ex.
          if dim = old_dim then
            rbind (mk_OpType ''broadcast'' [AInt new_dim, AInt size, ABool ex] []) (\<lambda>u. Inr (u, True))
          else Inr (t, False))))
      else Inr (t, False))"

definition swap_broadcast_dims :: "Edge \<Rightarrow> int \<Rightarrow> int \<Rightarrow> GS \<Rightarrow> (GS \<times> bool) result" where
  "swap_broadcast_dims e old_dim new_dim st =
     rbind (edge_tms st e) (\<lambda>ts.
     rbind (mapR (swap_bcast old_dim new_dim) ts) (\<lambda>us.
     rbind (update_edge_attr (\<lambda>a. Inr (set_tms (map fst us) a)) e st) (\<lambda>st1.
       Inr (st1, list_ex snd us))))"

section \<open>Cascades\<close>

text \<open>
  One binary op of the cascade: operands \<open>2 i\<close> and \<open>2 i + 1\<close> move to a clone of the op, which feeds
  the sink. The moved edges keep their creation ids and attribute objects.
\<close>

definition cascade_pair ::
    "(ConstEvalRef \<Rightarrow> ConstEvalRef result) \<Rightarrow> NodeId \<Rightarrow> NodeId \<Rightarrow> Edge list \<Rightarrow> GS \<Rightarrow> nat \<Rightarrow> GS result" where
  "cascade_pair ce op sink os st i =
     (let a = os ! (2 * i); b = os ! (2 * i + 1) in
      rbind (get_edge_attributes (snd st) a) (\<lambda>ra.
      rbind (get_edge_attributes (snd st) b) (\<lambda>rb.
      rbind (deref (snd st) op) (\<lambda>n.
      rbind (node_clone ce (node_name n @ ''_cascade_'' @ show_nat i) n) (\<lambda>n'.
      rbind (get_subgraph_id_for_node (snd st) op) (\<lambda>s.
      rbind (put_node n' s st) (\<lambda>(st1, add).
        let st2 = put_edge_attr (a\<lparr>consumer_input_port_id := 0, consumer_node_id := add\<rparr>) ra st1;
            st3 = put_edge_attr (b\<lparr>consumer_input_port_id := 1, consumer_node_id := add\<rparr>) rb st2
        in case construct_edge add 0 sink (word_of_nat i) kData st3 of (st4, e) \<Rightarrow>
             Inr (put_edge e st4))))))))"

definition cascade_once ::
    "(ConstEvalRef \<Rightarrow> ConstEvalRef result) \<Rightarrow> NodeId \<Rightarrow> Edge list \<Rightarrow> GS \<Rightarrow> (GS \<times> NodeId) result" where
  "cascade_once ce op os st =
     rbind (deref (snd st) op) (\<lambda>n.
     rbind (node_clone ce (node_name n @ ''_cascade_sink'') n) (\<lambda>n'.
     rbind (get_subgraph_id_for_node (snd st) op) (\<lambda>s.
     rbind (put_node n' s st) (\<lambda>(st1, sink).
     rbind (foldR (cascade_pair ce op sink os) st1 [0..<length os div 2]) (\<lambda>st2.
     let st3 = (if length os mod 2 \<noteq> 0 then
                  (case construct_edge (producer_node_id (last os)) 0 sink
                          (word_of_nat (length os - 1)) kData st2 of (st, e) \<Rightarrow> put_edge e st)
                else st2)
     in rbind (user_data_edges any_edge (snd st3) op) (\<lambda>us.
        rbind (drop_node op (foldl (\<lambda>st u. put_edge (u\<lparr>producer_node_id := sink\<rparr>) st) st3 us))
          (\<lambda>(st4, _). Inr (st4, sink))))))))"

fun cascade_nary_to_binary_op ::
    "nat \<Rightarrow> (ConstEvalRef \<Rightarrow> ConstEvalRef result) \<Rightarrow> NodeId \<Rightarrow> GS \<Rightarrow> (GS \<times> NodeId) result" where
  "cascade_nary_to_binary_op fuel ce op st =
     rbind (operand_data_edges any_edge (snd st) op) (\<lambda>os.
     tt_assert (2 \<le> length os)
       (if length os = 2 then Inr (st, op)
        else case fuel of
            0 \<Rightarrow> Inl Out_of_fuel
          | Suc k \<Rightarrow> rbind (cascade_once ce op os st) (\<lambda>(st1, sink).
              cascade_nary_to_binary_op k ce sink st1)))"

declare cascade_nary_to_binary_op.simps [simp del]

section \<open>Changes of rank\<close>

text \<open>The rank the consumer asks of its operand; \<open>consumer_size - 1\<close> on 32 bits.\<close>

definition get_consumer_size :: "u32 \<Rightarrow> Node \<Rightarrow> u32" where
  "get_consumer_size producer_size n =
     (let consumer_size = word_of_nat (shape_size (node_shape n)) in
      case op_part n of
        None \<Rightarrow> consumer_size
      | Some p \<Rightarrow>
          (if new_op_type p = Op_Reshape then producer_size
           else if new_op_type p = Op_Squeeze then consumer_size + 1
           else if new_op_type p = Op_Unsqueeze then consumer_size - 1
           else consumer_size))"

text \<open>
  The lambda \<open>insert\<close> of \<open>handle_change_rank\<close>. \<open>tc\<close> is \<open>try_consteval_op\<close>, which tells whether the
  node moved into the constant-evaluation graph of its input.
\<close>

definition rank_node ::
    "(ConstEvalRef \<Rightarrow> ConstEvalRef result) \<Rightarrow> Edge \<Rightarrow> string \<Rightarrow> u32 \<Rightarrow> Node \<Rightarrow> Node \<Rightarrow> Node result" where
  "rank_node ce e op rank producer consumer =
     (let name = node_name producer @ ''_'' @ node_name consumer @ ''_'' @ op @
                 show_nat (unat rank) @ ''_'' @ show_nat (edge_creation_id e);
          attr = (if op = ''squeeze'' then [AInt 0] else [AInt 0, AInt (sint rank - 1)]) in
      rbind (of_opt Assert_failed (if op_part consumer \<noteq> None then Some consumer
               else if op_part producer \<noteq> None then Some producer else None)) (\<lambda>inherit.
      rbind (node_clone ce name inherit) (\<lambda>n.
      rbind (mk_OpType op attr [(''dim'', hd attr)]) (\<lambda>t.
      rbind (as_rank (node_shape producer) rank) (\<lambda>s.
      tt_assert (op_part n \<noteq> None)
        (rbind (with_op (change_op_type t) n) (\<lambda>n1.
         rbind (node_set_shape s n1) (\<lambda>n2. Inr (tag_node ''dont_erase'' (TagBool True) n2)))))))))"

definition insert_rank_op ::
    "(ConstEvalRef \<Rightarrow> ConstEvalRef result) \<Rightarrow> (NodeId \<Rightarrow> GS \<Rightarrow> (GS \<times> bool) result) \<Rightarrow>
      Edge \<Rightarrow> string \<Rightarrow> u32 \<Rightarrow> GS \<Rightarrow> (GS \<times> Edge) result" where
  "insert_rank_op ce tc e op rank st =
     rbind (node_by_id (snd st) (producer_node_id e)) (\<lambda>producer.
     rbind (node_by_id (snd st) (consumer_node_id e)) (\<lambda>consumer.
     rbind (rank_node ce e op rank producer consumer) (\<lambda>n.
     rbind (get_subgraph_id_for_node (snd st) (producer_node_id e)) (\<lambda>s.
     rbind (put_node n s st) (\<lambda>(st1, i).
     rbind (insert_node_on_edge_default e i st1) (\<lambda>(st2, _, outgoing).
     rbind (tc i st2) (\<lambda>(st3, moved).
       if moved then
         rbind (operand_data_edges any_edge (snd st3) (consumer_node_id e)) (\<lambda>os.
         rbind (vec_at os 0) (\<lambda>e'. Inr (st3, e')))
       else rbind (on_graph (update_node i (\<lambda>m. Inr (node_set_output_df (node_output_df producer) m))) st3)
         (\<lambda>st4. Inr (st4, outgoing)))))))))"

definition shift_bcast :: "int \<Rightarrow> OpType \<Rightarrow> OpType result" where
  "shift_bcast diff t =
     (if is_broadcast t then
        rbind (legacy_int t 0) (\<lambda>d.
          Inr (if 0 \<le> d then t\<lparr>legacy_attrs := (legacy_attrs t)[0 := AInt (d + diff)]\<rparr> else t))
      else Inr t)"

text \<open>The ranks the two loops go through.\<close>

definition ranks_up :: "u32 \<Rightarrow> u32 \<Rightarrow> u32 list" where
  "ranks_up p c = map word_of_nat [Suc (unat p)..<Suc (unat c)]"

definition ranks_down :: "u32 \<Rightarrow> u32 \<Rightarrow> u32 list" where
  "ranks_down p c = map word_of_nat (rev [unat c..<unat p])"

definition handle_change_rank ::
    "(ConstEvalRef \<Rightarrow> ConstEvalRef result) \<Rightarrow> (NodeId \<Rightarrow> GS \<Rightarrow> (GS \<times> bool) result) \<Rightarrow> Edge \<Rightarrow> GS \<Rightarrow> GS result" where
  "handle_change_rank ce tc e st =
     rbind (node_by_id (snd st) (producer_node_id e)) (\<lambda>producer.
     rbind (node_by_id (snd st) (consumer_node_id e)) (\<lambda>consumer.
     let psize = word_of_nat (shape_size (node_shape producer));
         csize = get_consumer_size psize consumer
     in if psize = csize then Inr st
        else if (case op_part consumer of Some p \<Rightarrow> new_op_type p = Op_Embedding | None \<Rightarrow> False)
        then Inr st
        else
          rbind (edge_tms st e) (\<lambda>ts.
          rbind (update_edge_attr (\<lambda>a. Inr (set_tms [] a)) e st) (\<lambda>st1.
          rbind (foldR (\<lambda>(st, e) r. insert_rank_op ce tc e ''unsqueeze'' r st) (st1, e)
                   (ranks_up psize csize)) (\<lambda>(st2, e2).
          rbind (foldR (\<lambda>(st, e) r. tt_assert (0 < r) (insert_rank_op ce tc e ''squeeze'' r st))
                   (st2, e2) (ranks_down psize csize)) (\<lambda>(st3, e3).
          rbind (mapR (shift_bcast (sint csize - sint psize)) ts) (\<lambda>us.
            update_edge_attr (\<lambda>a. Inr (set_tms us a)) e3 st3)))))))"

definition handle_change_rank_of_node ::
    "(ConstEvalRef \<Rightarrow> ConstEvalRef result) \<Rightarrow> (NodeId \<Rightarrow> GS \<Rightarrow> (GS \<times> bool) result) \<Rightarrow> NodeId \<Rightarrow> GS \<Rightarrow> GS result" where
  "handle_change_rank_of_node ce tc i st =
     rbind (operand_data_edges any_edge (snd st) i) (\<lambda>os.
     rbind (foldR (\<lambda>st e. handle_change_rank ce tc e st) st os) (\<lambda>st1.
     rbind (user_data_edges any_edge (snd st1) i) (\<lambda>us.
       foldR (\<lambda>st e. handle_change_rank ce tc e st) st1 us)))"

section \<open>Node shapes\<close>

type_synonym op_shape_fn =
  "OpType \<Rightarrow> Shape list \<Rightarrow> (Shape \<times> (int \<times> int \<times> int) list) result"

definition default_tm_evaluator :: "op_shape_fn \<Rightarrow> OpType \<Rightarrow> Shape \<Rightarrow> Shape result" where
  "default_tm_evaluator op_shape tm s =
     rbind (op_shape tm [s]) (\<lambda>(s', bs). tt_assert (bs = []) (Inr s'))"

text \<open>\<open>validate_tile_dims\<close> pads operands of unequal tile dimensions.\<close>

definition pad_to_tile :: "TileDim \<Rightarrow> NodeId \<Rightarrow> Graph \<Rightarrow> Graph result" where
  "pad_to_tile td i = update_node i (\<lambda>n.
     rbind (to_forge ((mk_shape True FREE (sh_dims (node_shape n)))\<lparr>sh_tile_dim := td\<rparr>)) (\<lambda>s.
       node_set_shape s n))"

definition tile_volume :: "Shape \<Rightarrow> int result" where
  "tile_volume s = rbind (get_tile_height s) (\<lambda>h. rbind (get_tile_width s) (\<lambda>w. Inr (h * w)))"

definition pad_to_full_tile :: "NodeId \<Rightarrow> Graph \<Rightarrow> Graph result" where
  "pad_to_full_tile i g = rbind (deref g i) (\<lambda>n.
     if sh_tile_dim (node_shape n) \<noteq> Dim32x32 then pad_to_tile Dim32x32 i g else Inr g)"

definition validate_binary_tile_dims :: "NodeId \<Rightarrow> NodeId \<Rightarrow> Graph \<Rightarrow> Graph result" where
  "validate_binary_tile_dims a b g =
     rbind (deref g a) (\<lambda>na.
     rbind (deref g b) (\<lambda>nb.
     let ta = sh_tile_dim (node_shape na); tb = sh_tile_dim (node_shape nb) in
     if ta = tb then Inr g
     else
       rbind (tile_volume (node_shape na)) (\<lambda>va.
       rbind (tile_volume (node_shape nb)) (\<lambda>vb.
       rbind (if vb < va then pad_to_tile ta b g
              else if va < vb then pad_to_tile tb a g
              else Inl Assert_failed) (\<lambda>g1.
       rbind (deref g1 a) (\<lambda>na1.
       rbind (deref g1 b) (\<lambda>nb1.
         tt_assert (sh_tile_dim (node_shape na1) = sh_tile_dim (node_shape nb1)) (Inr g1))))))))"

definition validate_tile_dims :: "NodeId \<Rightarrow> Graph \<Rightarrow> Graph result" where
  "validate_tile_dims i g =
     rbind (deref g i) (\<lambda>n. case op_part n of None \<Rightarrow> Inr g | Some p \<Rightarrow>
       rbind (OpType_is_eltwise_binary (node_op_type p)) (\<lambda>binary.
       rbind (operands g i) (\<lambda>os.
         if binary then rbind (vec_at os 0) (\<lambda>a. rbind (vec_at os 1) (\<lambda>b.
                          validate_binary_tile_dims a b g))
         else if is_matmul p then rbind (vec_at os 1) (\<lambda>b. pad_to_full_tile b g)
         else if is_reduce p then rbind (vec_at os 0) (\<lambda>a. pad_to_full_tile a g)
         else if is_embedding p then foldR (\<lambda>g j. pad_to_full_tile j g) g os
         else Inr g)))"

text \<open>
  \<open>calculate_and_set_node_shape\<close>: the operand shapes under the TMs of their edges, the shape of the
  node from them and, for an op, the broadcasts its operands need.
\<close>

definition post_tm_shape :: "op_shape_fn \<Rightarrow> GS \<Rightarrow> Edge \<Rightarrow> Shape result" where
  "post_tm_shape op_shape st e =
     rbind (node_by_id (snd st) (producer_node_id e)) (\<lambda>p.
     rbind (edge_tms st e) (\<lambda>ts.
       foldR (\<lambda>s t. default_tm_evaluator op_shape t s) (node_shape p) ts))"

definition set_edge_broadcasts :: "(int \<times> int \<times> int) list \<Rightarrow> GS \<Rightarrow> Edge \<Rightarrow> GS result" where
  "set_edge_broadcasts bs st e =
     foldR (\<lambda>st (operand, dim, size).
       if operand = sint (consumer_input_port_id e)
       then update_edge_attr (set_broadcast_dim dim size False) e st else Inr st) st bs"

definition calculate_and_set_node_shape :: "op_shape_fn \<Rightarrow> NodeId \<Rightarrow> GS \<Rightarrow> GS result" where
  "calculate_and_set_node_shape op_shape i st =
     rbind (on_graph (validate_tile_dims i) st) (\<lambda>st1.
     rbind (operand_data_edges any_edge (snd st1) i) (\<lambda>es.
     rbind (mapR (post_tm_shape op_shape st1) es) (\<lambda>shapes.
     rbind (deref (snd st1) i) (\<lambda>n.
       if node_type n = kOutput \<or> node_type n = kQueue then
         tt_assert (length shapes = 1) (on_graph (update_node i (node_set_shape (hd shapes))) st1)
       else case op_part n of
           None \<Rightarrow> if node_type n \<noteq> kPyOp then Inr st1 else Inl Undefined_behaviour
         | Some p \<Rightarrow>
             if node_type n \<noteq> kPyOp then Inr st1
             else rbind (op_shape (node_op_type p) shapes) (\<lambda>(s, bs).
                  rbind (on_graph (update_node i (node_set_shape s)) st1) (\<lambda>st2.
                  rbind (operand_data_edges any_edge (snd st2) i) (\<lambda>es'.
                    foldR (set_edge_broadcasts bs) st2 es')))))))"

end
