(* ===== verification/Op_Shapes.thy ===== *)
theory Op_Shapes
  imports Rewrites
begin

text \<open>
  The shape of an operation's result (\<open>forge/csrc/ops/op_*.cpp\<close>, \<open>ops/op_common.cpp\<close> and the
  dispatch in \<open>ops/op.cpp\<close>).

  Sixteen operations compute their shape in C++ and are translated here, one definition each; all the
  others forward to Python (\<open>Op::base_shape\<close>), which is the parameter \<open>base_shape\<close> of the
  dispatch. An operand's shape is the vector of its dimensions. The result carries, besides the shape,
  the implicit broadcasts as triples (operand, negative dimension, size).
\<close>

declare map_of_eq_Some_iff [simp del] Some_eq_map_of_iff [simp del] split_paired_All [simp del]
  split_paired_Ex [simp del]

type_synonym shape_result = "(Shape \<times> DimBroadcast list) result"

section \<open>Element-wise operations\<close>

text \<open>
  The loop of \<open>compute_elementwise_binary_shape\<close> from dimension \<open>d\<close> on; \<open>n\<close> is the common rank.
\<close>

fun binary_dims :: "nat \<Rightarrow> nat \<Rightarrow> u32 list \<Rightarrow> u32 list \<Rightarrow> (u32 list \<times> DimBroadcast list) result" where
  "binary_dims n d (x # xs) (y # ys) =
     (if x = y then rbind (binary_dims n (Suc d) xs ys) (\<lambda>(ds, bs). Inr (x # ds, bs))
      else if y = 1 then rbind (binary_dims n (Suc d) xs ys) (\<lambda>(ds, bs).
        Inr (x # ds, (1, int d - int n, sint x) # bs))
      else tt_assert (x = 1) (rbind (binary_dims n (Suc d) xs ys) (\<lambda>(ds, bs).
        Inr (y # ds, (0, int d - int n, sint y) # bs))))"
| "binary_dims n d _ _ = Inr ([], [])"

definition compute_elementwise_binary_shape :: "u32 list list \<Rightarrow> shape_result" where
  "compute_elementwise_binary_shape in_shapes =
     tt_assert (length in_shapes = 2)
       (let shape0 = pad_front (length (in_shapes ! 1)) (in_shapes ! 0);
            shape1 = pad_front (length shape0) (in_shapes ! 1)
        in rbind (binary_dims (length shape0) 0 shape0 shape1) (\<lambda>(ds, bs).
             Inr (shape_create ds, bs)))"

definition add_shape :: "Op \<Rightarrow> u32 list list \<Rightarrow> shape_result" where
  "add_shape o1 in_shapes =
     tt_assert (length in_shapes = 2) (tt_assert (op_attrs o1 = [])
       (compute_elementwise_binary_shape in_shapes))"

definition subtract_shape :: "Op \<Rightarrow> u32 list list \<Rightarrow> shape_result" where
  "subtract_shape o1 in_shapes =
     tt_assert (length in_shapes = 2) (tt_assert (op_attrs o1 = [])
       (compute_elementwise_binary_shape in_shapes))"

definition multiply_shape :: "Op \<Rightarrow> u32 list list \<Rightarrow> shape_result" where
  "multiply_shape o1 in_shapes =
     tt_assert (length in_shapes = 2) (tt_assert (op_attrs o1 = [])
       (compute_elementwise_binary_shape in_shapes))"

definition divide_shape :: "Op \<Rightarrow> u32 list list \<Rightarrow> shape_result" where
  "divide_shape o1 in_shapes =
     tt_assert (length in_shapes = 2) (tt_assert (op_attrs o1 = [])
       (compute_elementwise_binary_shape in_shapes))"

definition abs_shape :: "u32 list list \<Rightarrow> shape_result" where
  "abs_shape in_shapes =
     tt_assert (length in_shapes = 1) (Inr (shape_create (in_shapes ! 0), []))"

definition sine_shape :: "u32 list list \<Rightarrow> shape_result" where
  "sine_shape in_shapes =
     tt_assert (length in_shapes = 1) (Inr (shape_create (in_shapes ! 0), []))"

definition cosine_shape :: "u32 list list \<Rightarrow> shape_result" where
  "cosine_shape in_shapes =
     tt_assert (length in_shapes = 1) (Inr (shape_create (in_shapes ! 0), []))"

definition softmax_shape :: "u32 list list \<Rightarrow> shape_result" where
  "softmax_shape in_shapes =
     tt_assert (length in_shapes = 1) (Inr (shape_create (in_shapes ! 0), []))"

definition softmax_bw_shape :: "Op \<Rightarrow> u32 list list \<Rightarrow> shape_result" where
  "softmax_bw_shape o1 in_shapes =
     tt_assert (length in_shapes = 3) (tt_assert (length (op_attrs o1) = 1)
       (Inr (shape_create (in_shapes ! 0), [])))"

definition constant_shape :: "u32 list list \<Rightarrow> shape_result" where
  "constant_shape in_shapes =
     tt_assert (in_shapes = []) (Inr (shape_create [1], []))"

section \<open>Tensor manipulations\<close>

text \<open>\<open>Shape::create\<close> of a vector of \<open>int\<close> converts every dimension to unsigned.\<close>

definition reshape_shape :: "Op \<Rightarrow> u32 list list \<Rightarrow> shape_result" where
  "reshape_shape o1 in_shapes =
     tt_assert (length in_shapes = 1)
       (rbind (op_attr_ints o1 ''shape'') (\<lambda>ds. Inr (shape_create (map word_of_int ds), [])))"

definition squeeze_shape :: "Op \<Rightarrow> u32 list list \<Rightarrow> shape_result" where
  "squeeze_shape o1 in_shapes =
     tt_assert (length in_shapes = 1) (tt_assert (length (op_attrs o1) = 1)
       (rbind (op_attr_int o1 ''dim'') (\<lambda>dim0.
        let output = in_shapes ! 0;
            dim = (if dim0 < 0 then dim0 + int (length output) else dim0)
        in tt_assert (0 \<le> dim \<and> dim < int (length output))
             (tt_assert (output ! nat dim = 1)
                (Inr (shape_create (erase_at (nat dim) output), []))))))"

definition unsqueeze_shape :: "Op \<Rightarrow> u32 list list \<Rightarrow> shape_result" where
  "unsqueeze_shape o1 in_shapes =
     tt_assert (length in_shapes = 1) (tt_assert (length (op_attrs o1) = 1)
       (rbind (op_attr_int o1 ''dim'') (\<lambda>dim0.
        let output = in_shapes ! 0;
            dim = (if dim0 < 0 then dim0 + (int (length output) + 1) else dim0)
        in tt_assert (0 \<le> dim \<and> dim \<le> int (length output))
             (Inr (shape_create (insert_at (nat dim) 1 output), [])))))"

text \<open>
  The range of \<open>dim0\<close> is only checked in a debug build; outside it the swap reads and writes past
  the vector.
\<close>

definition transpose_shape :: "Op \<Rightarrow> u32 list list \<Rightarrow> shape_result" where
  "transpose_shape o1 in_shapes =
     tt_assert (length in_shapes = 1)
       (rbind (op_attr_int o1 ''dim0'') (\<lambda>d0.
        rbind (op_attr_int o1 ''dim1'') (\<lambda>d1.
        let shape = in_shapes ! 0;
            ndim = int (length shape);
            dim0 = (if d0 < 0 then d0 + ndim else d0);
            dim1 = (if d1 < 0 then d1 + ndim else d1)
        in tt_assert (0 \<le> dim1 \<and> dim1 < ndim)
             (rbind (int_at shape dim0) (\<lambda>x.
              rbind (int_at shape dim1) (\<lambda>y.
              rbind (int_set shape dim0 y) (\<lambda>shape'.
              rbind (int_set shape' dim1 x) (\<lambda>shape''.
                Inr (shape_create shape'', [])))))))))"

text \<open>
  Concatenation: equal ranks, equal dimensions but the one of the attribute, whose sizes are added
  (modulo \<open>2 ^ 32\<close>). The attribute's range is not checked.
\<close>

definition concat_compatible :: "int \<Rightarrow> u32 list \<Rightarrow> u32 list \<Rightarrow> bool" where
  "concat_compatible dim s0 s \<longleftrightarrow>
     length s = length s0 \<and> (\<forall>d \<in> set [0..<length s0]. int d \<noteq> dim \<longrightarrow> s ! d = s0 ! d)"

definition concat_step :: "int \<Rightarrow> u32 list \<Rightarrow> u32 list \<Rightarrow> u32 list result" where
  "concat_step dim out s =
     rbind (int_at out dim) (\<lambda>x. rbind (int_at s dim) (\<lambda>y. int_set out dim (x + y)))"

definition concatenate_shape :: "Op \<Rightarrow> u32 list list \<Rightarrow> shape_result" where
  "concatenate_shape o1 in_shapes =
     tt_assert (length in_shapes \<ge> 1) (tt_assert (length (op_attrs o1) = 1)
       (rbind (op_attr_int o1 ''dim'') (\<lambda>dim0.
        let s0 = in_shapes ! 0;
            dim = (if dim0 < 0 then dim0 + int (length s0) else dim0)
        in tt_assert (list_all (concat_compatible dim s0) (tl in_shapes))
             (rbind (foldR (concat_step dim) s0 (tl in_shapes)) (\<lambda>out.
                Inr (shape_create out, []))))))"

section \<open>Dispatch\<close>

text \<open>\<open>Op::base_shape\<close>: Python returns the dimensions and the broadcasts.\<close>

type_synonym base_shape_fn = "OpType \<Rightarrow> u32 list list \<Rightarrow> (u32 list \<times> DimBroadcast list) result"

definition Op_base_shape :: "base_shape_fn \<Rightarrow> OpType \<Rightarrow> u32 list list \<Rightarrow> shape_result" where
  "Op_base_shape base_shape old ins = rbind (base_shape old ins) (\<lambda>(ds, bs). Inr (shape_create ds, bs))"

text \<open>\<open>Op::shape\<close>: the operations of C++, Python for the other enumerators.\<close>

definition Op_shape :: "base_shape_fn \<Rightarrow> OpType \<Rightarrow> Op \<Rightarrow> u32 list list \<Rightarrow> shape_result" where
  "Op_shape base_shape old o1 ins =
     (let t = op_type o1 in
      if t = Op_Abs then abs_shape ins
      else if t = Op_Add then add_shape o1 ins
      else if t = Op_Concatenate then concatenate_shape o1 ins
      else if t = Op_Constant then constant_shape ins
      else if t = Op_Cosine then cosine_shape ins
      else if t = Op_Divide then divide_shape o1 ins
      else if t = Op_Multiply then multiply_shape o1 ins
      else if t = Op_Reshape then reshape_shape o1 ins
      else if t = Op_Sine then sine_shape ins
      else if t = Op_Softmax then softmax_shape ins
      else if t = Op_SoftmaxBw then softmax_bw_shape o1 ins
      else if t = Op_Squeeze then squeeze_shape o1 ins
      else if t = Op_Subtract then subtract_shape o1 ins
      else if t = Op_Transpose then transpose_shape o1 ins
      else if t = Op_Unsqueeze then unsqueeze_shape o1 ins
      else tt_assert (op_code t < op_count) (Op_base_shape base_shape old ins))"

definition OpType_shape :: "base_shape_fn \<Rightarrow> OpType \<Rightarrow> u32 list list \<Rightarrow> shape_result" where
  "OpType_shape base_shape t ins = Op_shape base_shape t (new_op t) ins"

text \<open>\<open>get_op_shape\<close> of \<open>autograd/binding.cpp\<close>: what \<open>calculate_and_set_node_shape\<close> asks.\<close>

definition get_op_shape :: "base_shape_fn \<Rightarrow> op_shape_fn" where
  "get_op_shape base_shape t shapes = OpType_shape base_shape t (map sh_dims shapes)"

section \<open>Estimates of floating point operations\<close>

abbreviation long_max :: int where "long_max \<equiv> 9223372036854775807"

text \<open>\<open>std::accumulate(..., 1u, std::multiplies<uint32_t>())\<close> wraps; the \<open>long\<close> product of
  \<open>add\<close> overflows, which is undefined.\<close>

definition long_product :: "u32 list \<Rightarrow> int result" where
  "long_product ds =
     foldR (\<lambda>p d. req Undefined_behaviour (p * uint d \<le> long_max) (Inr (p * uint d))) 1 ds"

definition abs_flops :: "u32 list list \<Rightarrow> int result" where
  "abs_flops ins = rbind (abs_shape ins) (\<lambda>(s, _). Inr (uint (prod_list (sh_dims s))))"

definition sine_flops :: "u32 list list \<Rightarrow> int result" where
  "sine_flops ins = rbind (sine_shape ins) (\<lambda>(s, _). Inr (uint (prod_list (sh_dims s))))"

definition cosine_flops :: "u32 list list \<Rightarrow> int result" where
  "cosine_flops ins = rbind (cosine_shape ins) (\<lambda>(s, _). Inr (uint (prod_list (sh_dims s))))"

definition add_flops :: "Op \<Rightarrow> u32 list list \<Rightarrow> int result" where
  "add_flops o1 ins = tt_assert (length ins = 2)
     (rbind (add_shape o1 ins) (\<lambda>(s, _). long_product (sh_dims s)))"

definition no_flops_ops :: "ops_OpType list" where
  "no_flops_ops = [Op_Concatenate, Op_Constant, Op_Divide, Op_Multiply, Op_Reshape, Op_Softmax,
     Op_SoftmaxBw, Op_Squeeze, Op_Subtract, Op_Transpose, Op_Unsqueeze]"

definition Op_initial_flops_estimate ::
    "(OpType \<Rightarrow> u32 list list \<Rightarrow> int result) \<Rightarrow> OpType \<Rightarrow> Op \<Rightarrow> u32 list list \<Rightarrow> int result" where
  "Op_initial_flops_estimate base_flops old o1 ins =
     (let t = op_type o1 in
      if t = Op_Abs then abs_flops ins
      else if t = Op_Add then add_flops o1 ins
      else if t = Op_Cosine then cosine_flops ins
      else if t = Op_Sine then sine_flops ins
      else if t \<in> set no_flops_ops then Inr 0
      else tt_assert (op_code t < op_count) (base_flops old ins))"

section \<open>The element-wise shape\<close>

text \<open>Two dimensions go together when they are equal or one of them is 1; the result takes the other.\<close>

definition dims_match :: "u32 \<Rightarrow> u32 \<Rightarrow> bool" where
  "dims_match x y \<longleftrightarrow> x = y \<or> x = 1 \<or> y = 1"

definition dims_join :: "u32 \<Rightarrow> u32 \<Rightarrow> u32" where
  "dims_join x y = (if y = 1 then x else y)"

lemma binary_dims_total:
  assumes "length xs = length ys"
  shows "if list_all2 dims_match xs ys
     then \<exists>bs. binary_dims n d xs ys = Inr (map2 dims_join xs ys, bs)
     else binary_dims n d xs ys = Inl Assert_failed"
  using assms
proof (induction xs ys arbitrary: d rule: list_induct2)
  case Nil
  then show ?case by simp
next
  case (Cons x xs y ys)
  from Cons.IH [of "Suc d"] show ?case
    by (cases "list_all2 dims_match xs ys"; cases "dims_match x y")
      (auto simp: dims_match_def [of x y] dims_join_def tt_assert_def)
qed

text \<open>The broadcasts reported for one operand, applied to its dimensions counted from the end.\<close>

definition operand_bcasts :: "int \<Rightarrow> DimBroadcast list \<Rightarrow> DimBroadcast list" where
  "operand_bcasts k bs = filter (\<lambda>(j, _, _). j = k) bs"

definition apply_neg_bcasts :: "u32 list \<Rightarrow> DimBroadcast list \<Rightarrow> u32 list" where
  "apply_neg_bcasts ds bs =
     foldl (\<lambda>ds (_, i, sz). ds[nat (int (length ds) + i) := word_of_int sz]) ds bs"

lemma length_apply_neg_bcasts [simp]: "length (apply_neg_bcasts ds bs) = length ds"
  unfolding apply_neg_bcasts_def by (induction bs arbitrary: ds) auto

lemma apply_neg_bcasts_Cons:
  "apply_neg_bcasts ds ((k, i, sz) # bs) =
     apply_neg_bcasts (ds[nat (int (length ds) + i) := word_of_int sz]) bs"
  by (simp add: apply_neg_bcasts_def)

lemma binary_dims_bcasts:
  assumes "binary_dims n (length pre) xs ys = Inr (ds, bs)" and "length xs = length ys"
    and "length pre + length xs = n"
  shows "apply_neg_bcasts (pre @ xs) (operand_bcasts 0 bs) = pre @ ds"
    "apply_neg_bcasts (pre @ ys) (operand_bcasts 1 bs) = pre @ ds"
  using assms(2,1,3)
proof (induction xs ys arbitrary: pre ds bs rule: list_induct2)
  case Nil
  {case 1 then show ?case by (simp add: operand_bcasts_def apply_neg_bcasts_def)}
  {case 2 then show ?case by (simp add: operand_bcasts_def apply_neg_bcasts_def)}
next
  case (Cons x xs y ys)
  have step: "\<exists>ds' bs'. binary_dims n (length (pre @ [dims_join x y])) xs ys = Inr (ds', bs') \<and>
      ds = dims_join x y # ds' \<and>
      apply_neg_bcasts (pre @ x # xs) (operand_bcasts 0 bs) =
        apply_neg_bcasts (pre @ dims_join x y # xs) (operand_bcasts 0 bs') \<and>
      apply_neg_bcasts (pre @ y # ys) (operand_bcasts 1 bs) =
        apply_neg_bcasts (pre @ dims_join x y # ys) (operand_bcasts 1 bs')"
    if "binary_dims n (length pre) (x # xs) (y # ys) = Inr (ds, bs)" "length pre + length (x # xs) = n"
    for pre ds bs
    using that Cons.hyps
    by (auto simp: result_simps dims_join_def operand_bcasts_def apply_neg_bcasts_Cons nat_add_distrib
        split: if_splits)
  {case 1
    from step [OF 1] obtain ds' bs' where
      s: "binary_dims n (length (pre @ [dims_join x y])) xs ys = Inr (ds', bs')" "ds = dims_join x y # ds'"
        "apply_neg_bcasts (pre @ x # xs) (operand_bcasts 0 bs) =
          apply_neg_bcasts (pre @ dims_join x y # xs) (operand_bcasts 0 bs')" by blast
    from Cons.IH(1) [OF s(1)] 1 show ?case by (simp add: s)}
  {case 2
    from step [OF 2] obtain ds' bs' where
      s: "binary_dims n (length (pre @ [dims_join x y])) xs ys = Inr (ds', bs')" "ds = dims_join x y # ds'"
        "apply_neg_bcasts (pre @ y # ys) (operand_bcasts 1 bs) =
          apply_neg_bcasts (pre @ dims_join x y # ys) (operand_bcasts 1 bs')" by blast
    from Cons.IH(2) [OF s(1)] 2 show ?case by (simp add: s)}
qed


text \<open>C33: the shape of an element-wise binary operation: defined exactly when, the shorter shape padded
  with leading ones, the dimensions are pairwise equal or one of them is 1; the result takes the other
  one, and the reported implicit broadcasts turn each padded operand into the result.\<close>

theorem elementwise_binary_shape_correct:
  "let p0 = pad_front (length s1) s0; p1 = pad_front (length s0) s1; out = map2 dims_join p0 p1
   in if list_all2 dims_match p0 p1
      then \<exists>bs. compute_elementwise_binary_shape [s0, s1] = Inr (shape_create out, bs) \<and>
             apply_neg_bcasts p0 (operand_bcasts 0 bs) = out \<and>
             apply_neg_bcasts p1 (operand_bcasts 1 bs) = out
      else compute_elementwise_binary_shape [s0, s1] = Inl Assert_failed"
proof -
  define p0 p1 where "p0 = pad_front (length s1) s0" and "p1 = pad_front (length s0) s1"
  have len: "length p0 = length p1" "pad_front (length p0) s1 = p1"
    by (simp_all add: p0_def p1_def pad_front_eq)
  have c: "compute_elementwise_binary_shape [s0, s1] =
      rbind (binary_dims (length p0) 0 p0 p1) (\<lambda>(ds, bs). Inr (shape_create ds, bs))"
    by (simp add: compute_elementwise_binary_shape_def Let_def len(2) del: len(1) flip: p0_def)
  show ?thesis
    unfolding Let_def p0_def [symmetric] p1_def [symmetric]
    using binary_dims_total [OF len(1), of "length p0" 0]
      binary_dims_bcasts [of "length p0" "[]" p0 p1, OF _ len(1)]
    by (auto simp: c split: if_splits)
qed

section \<open>Tensor manipulations undo each other\<close>

text \<open>An operation whose only attribute is \<open>dim\<close>.\<close>

definition dim_op :: "ops_OpType \<Rightarrow> int \<Rightarrow> Op" where
  "dim_op t dim = \<lparr>op_type = t, op_attrs = [(''dim'', AInt dim)]\<rparr>"

lemma dim_op_attr [simp]:
  "op_attr_int (dim_op t dim) ''dim'' = Inr dim" "length (op_attrs (dim_op t dim)) = 1"
  "op_type (dim_op t dim) = t"
  by (simp_all add: dim_op_def op_attr_int_def op_attr_def op_has_attr_def map_at_def)

text \<open>The position a possibly negative dimension denotes among \<open>n\<close>.\<close>

definition dim_pos :: "int \<Rightarrow> nat \<Rightarrow> int" where
  "dim_pos dim n = (if dim < 0 then dim + int n else dim)"

lemma squeeze_at:
  "dim_pos dim (length ds) = d \<Longrightarrow> squeeze_shape (dim_op t dim) [ds] =
     tt_assert (0 \<le> d \<and> d < int (length ds)) (tt_assert (ds ! nat d = 1)
       (Inr (shape_create (erase_at (nat d) ds), [])))"
  by (auto simp: squeeze_shape_def Let_def dim_pos_def)

lemma unsqueeze_at:
  "dim_pos dim (Suc (length ds)) = d \<Longrightarrow> unsqueeze_shape (dim_op t dim) [ds] =
     tt_assert (0 \<le> d \<and> d \<le> int (length ds)) (Inr (shape_create (insert_at (nat d) 1 ds), []))"
  by (auto simp: unsqueeze_shape_def Let_def dim_pos_def add.assoc add.commute [of _ 1])

text \<open>\<open>squeeze\<close> undoes \<open>unsqueeze\<close> of the same, also negative, dimension, which is why each is the
  gradient of the other; and \<open>unsqueeze\<close> fails exactly outside \<open>[-rank - 1, rank]\<close>.\<close>

theorem squeeze_unsqueeze_roundtrip:
  "case unsqueeze_shape (dim_op Op_Unsqueeze dim) [ds] of
     Inl e \<Rightarrow> e = Assert_failed \<and> \<not> (- int (length ds) - 1 \<le> dim \<and> dim \<le> int (length ds))
   | Inr (s, bs) \<Rightarrow> bs = [] \<and> shape_size s = Suc (length ds) \<and>
       squeeze_shape (dim_op Op_Squeeze dim) [sh_dims s] = Inr (shape_create ds, [])"
proof -
  define d where "d = dim_pos dim (Suc (length ds))"
  show ?thesis
  proof (cases "0 \<le> d \<and> d \<le> int (length ds)")
    case True
    then have n: "nat d \<le> length ds" by linarith
    have "squeeze_shape (dim_op Op_Squeeze dim) [insert_at (nat d) 1 ds] = Inr (shape_create ds, [])"
      using True n by (subst squeeze_at [where d = d]) (simp_all add: d_def [symmetric])
    then show ?thesis
      using True by (simp add: unsqueeze_at [OF d_def [symmetric]] shape_size_def)
  next
    case False
    then show ?thesis
      by (simp add: unsqueeze_at [OF d_def [symmetric]]) (auto simp: d_def dim_pos_def split: if_splits)
  qed
qed

text \<open>the other way round: \<open>unsqueeze\<close> restores what \<open>squeeze\<close> removed, which was a dimension of 1.\<close>

theorem unsqueeze_squeeze_roundtrip:
  "case squeeze_shape (dim_op Op_Squeeze dim) [ds] of
     Inl e \<Rightarrow> e = Assert_failed \<and>
       \<not> (- int (length ds) \<le> dim \<and> dim < int (length ds) \<and> ds ! nat (dim_pos dim (length ds)) = 1)
   | Inr (s, bs) \<Rightarrow> bs = [] \<and> Suc (shape_size s) = length ds \<and>
       unsqueeze_shape (dim_op Op_Unsqueeze dim) [sh_dims s] = Inr (shape_create ds, [])"
proof -
  define d where "d = dim_pos dim (length ds)"
  show ?thesis
  proof (cases "0 \<le> d \<and> d < int (length ds) \<and> ds ! nat d = 1")
    case True
    then have n: "nat d < length ds" by linarith
    then have l: "Suc (length (erase_at (nat d) ds)) = length ds" by (auto simp: erase_at_def)
    have "insert_at (nat d) 1 (erase_at (nat d) ds) = ds"
      using insert_erase_at [OF n] True by simp
    then have "unsqueeze_shape (dim_op Op_Unsqueeze dim) [erase_at (nat d) ds] =
        Inr (shape_create ds, [])"
      using True l by (subst unsqueeze_at [where d = d]) (simp_all add: d_def [symmetric])
    then show ?thesis
      using True l by (simp add: squeeze_at [OF d_def [symmetric]] shape_size_def)
  next
    case False
    then show ?thesis
      unfolding squeeze_at [OF d_def [symmetric]] d_def [symmetric]
      by (auto simp: d_def dim_pos_def tt_assert_def split: if_splits)
  qed
qed

definition swap_op :: "int \<Rightarrow> int \<Rightarrow> Op" where
  "swap_op d0 d1 = \<lparr>op_type = Op_Transpose, op_attrs = [(''dim0'', AInt d0), (''dim1'', AInt d1)]\<rparr>"

lemma swap_op_attr [simp]:
  "op_attr_int (swap_op d0 d1) ''dim0'' = Inr d0" "op_attr_int (swap_op d0 d1) ''dim1'' = Inr d1"
  by (simp_all add: swap_op_def op_attr_int_def op_attr_def op_has_attr_def map_at_def)

lemma transpose_at:
  assumes "dim_pos d0 (length ds) = i" "dim_pos d1 (length ds) = j"
  shows "transpose_shape (swap_op d0 d1) [ds] =
     (if \<not> (0 \<le> j \<and> j < int (length ds)) then Inl Assert_failed
      else if \<not> (0 \<le> i \<and> i < int (length ds)) then Inl Undefined_behaviour
      else Inr (shape_create (ds[nat i := ds ! nat j, nat j := ds ! nat i]), []))"
proof -
  have "transpose_shape (swap_op d0 d1) [ds] =
      tt_assert (0 \<le> j \<and> j < int (length ds))
             (rbind (int_at ds i) (\<lambda>x.
              rbind (int_at ds j) (\<lambda>y.
              rbind (int_set ds i y) (\<lambda>shape'.
              rbind (int_set shape' j x) (\<lambda>shape''.
                Inr (shape_create shape'', []))))))"
    using assms by (auto simp: transpose_shape_def Let_def dim_pos_def)
  then show ?thesis by (auto simp: int_at_def int_set_def vec_at_def vec_set_def)
qed

lemma swap_swap: "i < length xs \<Longrightarrow> j < length xs \<Longrightarrow>
  xs[i := xs ! j, j := xs ! i, i := xs[i := xs ! j, j := xs ! i] ! j,
     j := xs[i := xs ! j, j := xs ! i] ! i] = xs"
  by (auto simp: list_eq_iff_nth_eq nth_list_update)

text \<open>\<open>transpose\<close> is its own inverse, for all dimensions, negative ones included, that it accepts; a
  second dimension out of range fails the assertion, but a first one is not checked in a release
  build and swaps with memory outside the shape.\<close>

theorem transpose_involution:
  "case transpose_shape (swap_op d0 d1) [ds] of
     Inl e \<Rightarrow> if \<not> (- int (length ds) \<le> d1 \<and> d1 < int (length ds)) then e = Assert_failed
       else e = Undefined_behaviour \<and> \<not> (- int (length ds) \<le> d0 \<and> d0 < int (length ds))
   | Inr (s, bs) \<Rightarrow> bs = [] \<and> shape_size s = length ds \<and>
       transpose_shape (swap_op d0 d1) [sh_dims s] = Inr (shape_create ds, [])"
proof -
  define i j where "i = dim_pos d0 (length ds)" and "j = dim_pos d1 (length ds)"
  note t = transpose_at [OF i_def [symmetric] j_def [symmetric]]
  have r: "0 \<le> i \<and> i < int (length ds) \<longleftrightarrow> - int (length ds) \<le> d0 \<and> d0 < int (length ds)"
    "0 \<le> j \<and> j < int (length ds) \<longleftrightarrow> - int (length ds) \<le> d1 \<and> d1 < int (length ds)"
    by (auto simp: i_def j_def dim_pos_def)
  show ?thesis
  proof (cases "(0 \<le> i \<and> i < int (length ds)) \<and> (0 \<le> j \<and> j < int (length ds))")
    case True
    then have "nat i < length ds" "nat j < length ds" by auto
    note s = swap_swap [OF this]
    define ds' where "ds' = ds[nat i := ds ! nat j, nat j := ds ! nat i]"
    have "transpose_shape (swap_op d0 d1) [ds'] = Inr (shape_create ds, [])"
      using True s by (subst transpose_at [where i = i and j = j]) (simp_all add: ds'_def i_def j_def)
    then show ?thesis using True by (simp add: t shape_size_def ds'_def)
  next
    case False
    then show ?thesis unfolding t by (auto simp flip: r)
  qed
qed

lemma concat_steps:
  assumes "d < length out" "\<forall>s \<in> set ss. d < length s"
  shows "foldR (concat_step (int d)) out ss =
     Inr (out[d := out ! d + sum_list (map (\<lambda>s. s ! d) ss)])"
  using assms
  by (induction ss arbitrary: out) (simp_all add: concat_step_def int_at_def int_set_def vec_set_def add.assoc)

text \<open>the shape of a concatenation along a dimension in range: the operands must agree everywhere
  else, and the sizes along the dimension add up (modulo \<open>2 ^ 32\<close>).\<close>

theorem concatenate_shape_correct:
  assumes "dim_pos dim (length s0) = int d" "d < length s0"
  shows "concatenate_shape (dim_op Op_Concatenate dim) (s0 # ss) =
     (if \<forall>s \<in> set ss. length s = length s0 \<and> s[d := 0] = s0[d := 0]
      then Inr (shape_create (s0[d := sum_list (map (\<lambda>s. s ! d) (s0 # ss))]), [])
      else Inl Assert_failed)"
proof -
  have c: "concat_compatible (int d) s0 s \<longleftrightarrow> length s = length s0 \<and> s[d := 0] = s0[d := 0]" for s
  proof (cases "length s = length s0")
    case True
    then have "s[d := 0] = s0[d := 0] \<longleftrightarrow> (\<forall>k < length s0. k \<noteq> d \<longrightarrow> s ! k = s0 ! k)"
      unfolding list_eq_iff_nth_eq length_list_update
      using nth_list_update_neq [of d _ s 0] nth_list_update_neq [of d _ s0 0] nth_list_update_eq [of d s 0]
        nth_list_update_eq [of d s0 0] assms(2) by metis
    then show ?thesis using True by (auto simp: concat_compatible_def)
  qed (simp add: concat_compatible_def)
  have "concatenate_shape (dim_op Op_Concatenate dim) (s0 # ss) =
      tt_assert (list_all (concat_compatible (int d) s0) ss)
        (rbind (foldR (concat_step (int d)) s0 ss) (\<lambda>out. Inr (shape_create out, [])))"
    using assms(1) by (auto simp: concatenate_shape_def Let_def dim_pos_def)
  then show ?thesis
    using concat_steps [OF assms(2), of ss] assms(2)
    by (auto simp: list_all_iff c tt_assert_def)
qed

theorem concatenate_shape_correct_witness:
  "concatenate_shape (dim_op Op_Concatenate (-2)) [[2, 3, 4], [2, 5, 4]] =
     Inr (shape_create [2, 8, 4], [])"
  by (subst concatenate_shape_correct [of "- 2" "[2, 3, 4]" 1]) (simp_all add: dim_pos_def)

lemma concatenate_dim_unchecked:
  "concatenate_shape (dim_op Op_Concatenate 3) [[2, 3], [2, 3]] = Inl Undefined_behaviour"
  by (simp add: concatenate_shape_def concat_compatible_def concat_step_def int_at_def vec_at_def
      Let_def)

end
