(* ===== verification/Op_Backward.thy ===== *)
theory Op_Backward
  imports Op_Shapes
begin

text \<open>
  The gradients and decompositions that the operations of C++ define (\<open>forge/csrc/ops/op_*.cpp\<close>,
  \<open>op_common.cpp\<close>, dispatch in \<open>ops/op.cpp\<close>).

  Both are programs that create nodes through a context: \<open>create_op\<close> and \<open>create_constant\<close> of the
  autograd engine, \<open>op\<close> and \<open>fuse\<close> of \<open>DecomposingContext\<close>. The programs are translated over the
  records \<open>Builder\<close> and \<open>Decomposer\<close> of these calls, which thread a state \<open>'s\<close>; the theories of the
  engine and of the decomposition supply them. Operations still in Python are parameters of the
  dispatch.
\<close>

declare map_of_eq_Some_iff [simp del] Some_eq_map_of_iff [simp del] split_paired_All [simp del]
  split_paired_Ex [simp del]

section \<open>Node contexts\<close>

record NodeContext =
  nc_id :: NodeId
  nc_name :: string
  nc_output_index :: u32
  nc_type :: NodeType
  nc_shape :: Shape
  nc_output_df :: DataFormat

definition mk_NodeContext :: "Node \<Rightarrow> u32 \<Rightarrow> NodeContext result" where
  "mk_NodeContext n output_index =
     rbind (node_id n) (\<lambda>i. Inr \<lparr>nc_id = i, nc_name = node_name n, nc_output_index = output_index,
       nc_type = node_type n, nc_shape = node_shape n, nc_output_df = node_output_df n\<rparr>)"

section \<open>The calls of the autograd engine\<close>

record 's Builder =
  create_op :: "OpType \<Rightarrow> NodeContext list \<Rightarrow> 's \<Rightarrow> (NodeContext \<times> 's) result"
  create_constant :: "float32 \<Rightarrow> 's \<Rightarrow> (NodeContext \<times> 's) result"

definition build ::
    "'s Builder \<Rightarrow> string \<Rightarrow> Attr list \<Rightarrow> Attrs \<Rightarrow> NodeContext list \<Rightarrow> 's \<Rightarrow> (NodeContext \<times> 's) result" where
  "build B name legacy named args s =
     rbind (mk_OpType name legacy named) (\<lambda>t. create_op B t args s)"

definition build1 :: "'s Builder \<Rightarrow> string \<Rightarrow> NodeContext list \<Rightarrow> 's \<Rightarrow> (NodeContext \<times> 's) result" where
  "build1 B name args s = build B name [] [] args s"

abbreviation float_half :: float32 where "float_half \<equiv> 0x3F000000"
abbreviation float_two :: float32 where "float_two \<equiv> 0x40000000"
abbreviation float_minus_one :: float32 where "float_minus_one \<equiv> 0xBF800000"

section \<open>Gradients of broadcast operands\<close>

text \<open>
  \<open>reduce_broadcast_dimensions\<close>: the dimensions, in the common rank, where the operand is smaller than
  the gradient are summed up one after the other.
\<close>

definition reduced_dims :: "u32 list \<Rightarrow> u32 list \<Rightarrow> nat list" where
  "reduced_dims input_dims grad_dims =
     (let max_dims = max (length input_dims) (length grad_dims);
          padded_input = replicate (max_dims - length input_dims) 1 @ map sint input_dims;
          padded_grad = replicate (max_dims - length grad_dims) 1 @ map sint grad_dims
      in filter (\<lambda>i. \<not> padded_input ! i \<ge> padded_grad ! i) [0..<max_dims])"

definition reduce_sum_dim :: "'s Builder \<Rightarrow> NodeContext \<times> 's \<Rightarrow> nat \<Rightarrow> (NodeContext \<times> 's) result" where
  "reduce_sum_dim B = (\<lambda>(grad, s) i.
     build B ''reduce_sum'' [AInt (int i), ABool True]
       (attrs_of [(''keep_dim'', ABool True), (''dim_arg'', AInt (int i))]) [grad] s)"

definition reduce_broadcast_dimensions ::
    "'s Builder \<Rightarrow> NodeContext \<Rightarrow> Shape \<Rightarrow> Shape \<Rightarrow> 's \<Rightarrow> (NodeContext \<times> 's) result" where
  "reduce_broadcast_dimensions B gradient input_shape grad_shape s =
     (if shape_eq input_shape grad_shape then Inr (gradient, s)
      else foldR (reduce_sum_dim B) (gradient, s)
             (reduced_dims (sh_dims input_shape) (sh_dims grad_shape)))"

section \<open>Gradients of the operations\<close>

definition add_backward ::
    "'s Builder \<Rightarrow> int \<Rightarrow> NodeContext list \<Rightarrow> NodeContext \<Rightarrow> 's \<Rightarrow> (NodeContext \<times> 's) result" where
  "add_backward B operand inputs gradient s =
     tt_assert (length inputs = 2) (tt_assert (0 \<le> operand \<and> operand < 2)
       (let input_shape = nc_shape (inputs ! nat operand); grad_shape = nc_shape gradient in
        if shape_eq input_shape grad_shape then build1 B ''nop'' [gradient] s
        else reduce_broadcast_dimensions B gradient input_shape grad_shape s))"

definition subtract_backward ::
    "'s Builder \<Rightarrow> Op \<Rightarrow> int \<Rightarrow> NodeContext list \<Rightarrow> NodeContext \<Rightarrow> 's \<Rightarrow> (NodeContext \<times> 's) result" where
  "subtract_backward B o1 operand inputs gradient s =
     tt_assert (length inputs = 2) (tt_assert (op_attrs o1 = [])
      (tt_assert (0 \<le> operand \<and> operand < 2)
       (rbind (if operand = 0 then build1 B ''nop'' [gradient] s
               else rbind (create_constant B float_minus_one s) (\<lambda>(c, s).
                      build1 B ''multiply'' [gradient, c] s)) (\<lambda>(op_grad, s).
        reduce_broadcast_dimensions B op_grad (nc_shape (inputs ! nat operand)) (nc_shape gradient) s))))"

definition multiply_backward ::
    "'s Builder \<Rightarrow> Op \<Rightarrow> int \<Rightarrow> NodeContext list \<Rightarrow> NodeContext \<Rightarrow> 's \<Rightarrow> (NodeContext \<times> 's) result" where
  "multiply_backward B o1 operand inputs gradient s =
     tt_assert (length inputs = 2) (tt_assert (op_attrs o1 = [])
      (tt_assert (0 \<le> operand \<and> operand < 2)
       (rbind (build1 B ''multiply'' [gradient, inputs ! nat (1 - operand)] s) (\<lambda>(op_grad, s).
        let input_shape = nc_shape (inputs ! nat operand); grad_shape = nc_shape gradient in
        if shape_eq input_shape grad_shape then Inr (op_grad, s)
        else reduce_broadcast_dimensions B op_grad input_shape grad_shape s))))"

text \<open>The gradient of the divisor \<open>b\<close> is \<open>-a / b^2\<close> times the gradient.\<close>

definition divisor_gradient ::
    "'s Builder \<Rightarrow> NodeContext \<Rightarrow> NodeContext \<Rightarrow> NodeContext \<Rightarrow> 's \<Rightarrow> (NodeContext \<times> 's) result" where
  "divisor_gradient B a b gradient s =
     rbind (build1 B ''multiply'' [b, b] s) (\<lambda>(b_squared, s).
     rbind (build1 B ''divide'' [a, b_squared] s) (\<lambda>(a_over_b_squared, s).
     rbind (build1 B ''multiply'' [gradient, a_over_b_squared] s) (\<lambda>(temp, s).
     rbind (create_constant B float_minus_one s) (\<lambda>(neg_one, s).
       build1 B ''multiply'' [temp, neg_one] s))))"

text \<open>For the second operand of a division the first node created, \<open>gradient / b\<close>, is not used.\<close>

definition divide_backward ::
    "'s Builder \<Rightarrow> int \<Rightarrow> NodeContext list \<Rightarrow> NodeContext \<Rightarrow> 's \<Rightarrow> (NodeContext \<times> 's) result" where
  "divide_backward B operand inputs gradient s =
     tt_assert (length inputs = 2) (tt_assert (0 \<le> operand \<and> operand < 2)
       (rbind (build1 B ''divide'' [gradient, inputs ! 1] s) (\<lambda>(op_grad, s).
        rbind (if operand = 1 then divisor_gradient B (inputs ! 0) (inputs ! 1) gradient s
               else Inr (op_grad, s)) (\<lambda>(op_grad, s).
        reduce_broadcast_dimensions B op_grad (nc_shape (inputs ! nat operand)) (nc_shape gradient) s))))"

definition abs_backward ::
    "'s Builder \<Rightarrow> int \<Rightarrow> NodeContext list \<Rightarrow> NodeContext \<Rightarrow> 's \<Rightarrow> (NodeContext \<times> 's) result" where
  "abs_backward B operand inputs gradient s =
     tt_assert (length inputs = 1) (tt_assert (operand = 0)
       (rbind (create_constant B float_half s) (\<lambda>(hs, s).
        rbind (build1 B ''heaviside'' [inputs ! 0, hs] s) (\<lambda>(heaviside, s).
        rbind (create_constant B float_half s) (\<lambda>(st, s).
        rbind (build1 B ''subtract'' [heaviside, st] s) (\<lambda>(subtract, s).
        rbind (create_constant B float_two s) (\<lambda>(sch, s).
        rbind (build1 B ''multiply'' [subtract, sch] s) (\<lambda>(stretched, s).
          build1 B ''multiply'' [stretched, gradient] s))))))))"

definition sine_backward ::
    "'s Builder \<Rightarrow> int \<Rightarrow> NodeContext list \<Rightarrow> NodeContext \<Rightarrow> 's \<Rightarrow> (NodeContext \<times> 's) result" where
  "sine_backward B operand inputs gradient s =
     tt_assert (length inputs = 1) (tt_assert (operand = 0)
       (rbind (build1 B ''cosine'' [inputs ! 0] s) (\<lambda>(cosine_output, s).
          build1 B ''multiply'' [cosine_output, gradient] s)))"

definition cosine_backward ::
    "'s Builder \<Rightarrow> int \<Rightarrow> NodeContext list \<Rightarrow> NodeContext \<Rightarrow> 's \<Rightarrow> (NodeContext \<times> 's) result" where
  "cosine_backward B operand inputs gradient s =
     tt_assert (length inputs = 1) (tt_assert (operand = 0)
       (rbind (build1 B ''sine'' [inputs ! 0] s) (\<lambda>(sine_output, s).
        rbind (create_constant B float_minus_one s) (\<lambda>(c, s).
        rbind (build1 B ''multiply'' [sine_output, c] s) (\<lambda>(neg_sine, s).
          build1 B ''multiply'' [neg_sine, gradient] s)))))"

definition softmax_backward ::
    "'s Builder \<Rightarrow> Op \<Rightarrow> NodeContext list \<Rightarrow> NodeContext \<Rightarrow> NodeContext \<Rightarrow> 's \<Rightarrow> (NodeContext \<times> 's) result" where
  "softmax_backward B o1 inputs output gradient s =
     tt_assert (length inputs = 1)
       (rbind (op_attr_int o1 ''dim'') (\<lambda>dim.
          build B ''softmax_bw'' [] [(''dim'', AInt dim)] [inputs ! 0, output, gradient] s))"

definition softmax_bw_backward :: "(NodeContext \<times> 's) result" where
  "softmax_bw_backward = Inl Assert_failed"

definition constant_backward :: "(NodeContext \<times> 's) result" where
  "constant_backward = Inl Runtime_error"

definition reshape_backward ::
    "'s Builder \<Rightarrow> int \<Rightarrow> NodeContext list \<Rightarrow> NodeContext \<Rightarrow> 's \<Rightarrow> (NodeContext \<times> 's) result" where
  "reshape_backward B operand inputs gradient s =
     tt_assert (length inputs = 1) (tt_assert (operand = 0)
       (build B ''reshape'' [] [(''shape'', AInts (map sint (sh_dims (nc_shape (inputs ! 0)))))]
          [gradient] s))"

definition squeeze_backward ::
    "'s Builder \<Rightarrow> Op \<Rightarrow> int \<Rightarrow> NodeContext list \<Rightarrow> NodeContext \<Rightarrow> 's \<Rightarrow> (NodeContext \<times> 's) result" where
  "squeeze_backward B o1 operand inputs gradient s =
     tt_assert (length inputs = 1) (tt_assert (operand = 0) (tt_assert (length (op_attrs o1) = 1)
       (rbind (op_attr_int o1 ''dim'') (\<lambda>dim.
          build B ''unsqueeze'' [AInt dim] [(''dim'', AInt dim)] [gradient] s))))"

definition unsqueeze_backward ::
    "'s Builder \<Rightarrow> Op \<Rightarrow> int \<Rightarrow> NodeContext list \<Rightarrow> NodeContext \<Rightarrow> 's \<Rightarrow> (NodeContext \<times> 's) result" where
  "unsqueeze_backward B o1 operand inputs gradient s =
     tt_assert (length inputs = 1) (tt_assert (operand = 0)
       (rbind (op_attr_int o1 ''dim'') (\<lambda>dim.
          build B ''squeeze'' [AInt dim] [(''dim'', AInt dim)] [gradient] s)))"

definition transpose_backward ::
    "'s Builder \<Rightarrow> Op \<Rightarrow> int \<Rightarrow> NodeContext \<Rightarrow> 's \<Rightarrow> (NodeContext \<times> 's) result" where
  "transpose_backward B o1 operand gradient s =
     tt_assert (operand = 0)
       (rbind (op_attr_int o1 ''dim0'') (\<lambda>dim0.
        rbind (op_attr_int o1 ''dim1'') (\<lambda>dim1.
        rbind (mk_OpType ''transpose'' [] []) (\<lambda>t.
          create_op B (OpType_set_attr ''dim1'' (AInt dim1) (OpType_set_attr ''dim0'' (AInt dim0) t))
            [gradient] s))))"

text \<open>The gradient of a concatenation's operand is the slice the operand went to.\<close>

definition concat_begin :: "NodeContext list \<Rightarrow> int \<Rightarrow> nat \<Rightarrow> u32 result" where
  "concat_begin inputs dim k =
     foldR (\<lambda>b x. rbind (shape_at (nc_shape x) dim) (\<lambda>d. Inr (b + d))) 0 (take k inputs)"

definition concatenate_backward ::
    "'s Builder \<Rightarrow> Op \<Rightarrow> int \<Rightarrow> NodeContext list \<Rightarrow> NodeContext \<Rightarrow> 's \<Rightarrow> (NodeContext \<times> 's) result" where
  "concatenate_backward B o1 operand inputs gradient s =
     tt_assert (0 \<le> operand \<and> operand < int (length inputs))
       (rbind (op_attr_int o1 ''dim'') (\<lambda>dim0.
        let dim = (if dim0 < 0 then dim0 + int (shape_size (nc_shape (inputs ! 0))) else dim0) in
        rbind (concat_begin inputs dim (nat operand)) (\<lambda>begin.
        rbind (shape_at (nc_shape (inputs ! nat operand)) dim) (\<lambda>d.
        let stop = begin + d in
        rbind (mk_OpType ''index'' [AInt dim, AInt (sint begin), AInt (sint stop), AInt 1] []) (\<lambda>t.
          create_op B
            (OpType_set_attr ''stride'' (AInt 1) (OpType_set_attr ''stop'' (AInt (sint stop))
              (OpType_set_attr ''start'' (AInt (sint begin)) (OpType_set_attr ''dim'' (AInt dim) t))))
            [gradient] s)))))"

type_synonym 's base_backward_fn =
  "OpType \<Rightarrow> int \<Rightarrow> NodeContext list \<Rightarrow> NodeContext \<Rightarrow> NodeContext \<Rightarrow> 's \<Rightarrow> (NodeContext \<times> 's) result"

text \<open>\<open>Op::backward\<close>.\<close>

definition Op_backward ::
    "'s Builder \<Rightarrow> 's base_backward_fn \<Rightarrow> OpType \<Rightarrow> Op \<Rightarrow> int \<Rightarrow> NodeContext list \<Rightarrow> NodeContext \<Rightarrow>
       NodeContext \<Rightarrow> 's \<Rightarrow> (NodeContext \<times> 's) result" where
  "Op_backward B base_backward old o1 operand inputs output gradient s =
     (let t = op_type o1 in
      if t = Op_Abs then abs_backward B operand inputs gradient s
      else if t = Op_Add then add_backward B operand inputs gradient s
      else if t = Op_Concatenate then concatenate_backward B o1 operand inputs gradient s
      else if t = Op_Constant then constant_backward
      else if t = Op_Cosine then cosine_backward B operand inputs gradient s
      else if t = Op_Divide then divide_backward B operand inputs gradient s
      else if t = Op_Multiply then multiply_backward B o1 operand inputs gradient s
      else if t = Op_Reshape then reshape_backward B operand inputs gradient s
      else if t = Op_Sine then sine_backward B operand inputs gradient s
      else if t = Op_Softmax then softmax_backward B o1 inputs output gradient s
      else if t = Op_SoftmaxBw then softmax_bw_backward
      else if t = Op_Squeeze then squeeze_backward B o1 operand inputs gradient s
      else if t = Op_Subtract then subtract_backward B o1 operand inputs gradient s
      else if t = Op_Transpose then transpose_backward B o1 operand gradient s
      else if t = Op_Unsqueeze then unsqueeze_backward B o1 operand inputs gradient s
      else tt_assert (op_code t < op_count)
             (base_backward old operand inputs output gradient s))"

section \<open>Decompositions\<close>

datatype DecomposeEpoch = Initial | PostOptimize | PostAutograd

record 's Decomposer =
  dc_op :: "OpType \<Rightarrow> NodeContext list \<Rightarrow> 's \<Rightarrow> (NodeContext \<times> 's) result"
  dc_fuse :: "NodeContext \<Rightarrow> PortId \<Rightarrow> 's \<Rightarrow> 's result"

definition dc_build ::
    "'s Decomposer \<Rightarrow> string \<Rightarrow> Attr list \<Rightarrow> Attrs \<Rightarrow> NodeContext list \<Rightarrow> 's \<Rightarrow> (NodeContext \<times> 's) result" where
  "dc_build D name legacy named args s =
     rbind (mk_OpType name legacy named) (\<lambda>t. dc_op D t args s)"

definition subtract_decompose_post_autograd ::
    "'s Decomposer \<Rightarrow> Op \<Rightarrow> NodeContext list \<Rightarrow> 's \<Rightarrow> 's result" where
  "subtract_decompose_post_autograd D o1 inputs s =
     tt_assert (length inputs = 2) (tt_assert (op_attrs o1 = [])
       (let s0 = nc_shape (inputs ! 0); s1 = nc_shape (inputs ! 1) in
        if shape_size s0 > shape_size s1 \<and> shape_size s0 = 5 then
          let target = map sint (sh_dims s0) in
          rbind (dc_build D ''reshape'' (map AInt target) [(''shape'', AInts target)] [inputs ! 1] s)
            (\<lambda>(ops1, s).
          rbind (dc_build D ''subtract'' [] [] [inputs ! 0, ops1] s) (\<lambda>(result, s).
            dc_fuse D result 0 s))
        else if shape_size s1 > shape_size s0 \<and> shape_size s1 = 5 then
          let target = map sint (sh_dims s1) in
          rbind (dc_build D ''reshape'' (map AInt target) [(''shape'', AInts target)] [inputs ! 0] s)
            (\<lambda>(ops0, s).
          rbind (dc_build D ''subtract'' [] [] [ops0, inputs ! 1] s) (\<lambda>(result, s).
            dc_fuse D result 0 s))
        else Inr s))"

definition softmax_bw_decompose_post_autograd ::
    "'s Decomposer \<Rightarrow> Op \<Rightarrow> NodeContext list \<Rightarrow> 's \<Rightarrow> 's result" where
  "softmax_bw_decompose_post_autograd D o1 inputs s =
     tt_assert (length inputs = 3) (tt_assert (length (op_attrs o1) = 1)
       (let output = inputs ! 1; grad = inputs ! 2 in
        rbind (op_attr_int o1 ''dim'') (\<lambda>dim.
        tt_assert ((if dim \<ge> 0 then dim else - dim - 1) < int (shape_size (nc_shape output)))
          (rbind (dc_build D ''multiply'' [] [] [grad, output] s) (\<lambda>(grad_out, s).
           rbind (dc_build D ''reduce_sum'' [AInt dim, ABool True]
             (attrs_of [(''dim_arg'', AInts [dim]), (''keep_dim'', ABool True)]) [grad_out] s)
             (\<lambda>(gout_sum, s).
           rbind (dc_build D ''subtract'' [] [] [grad, gout_sum] s) (\<lambda>(gout_sub, s).
           rbind (dc_build D ''multiply'' [] [] [gout_sub, output] s) (\<lambda>(result, s).
             dc_fuse D result 0 s))))))))"

definition concatenate_decompose_initial ::
    "'s Decomposer \<Rightarrow> NodeContext list \<Rightarrow> 's \<Rightarrow> 's result" where
  "concatenate_decompose_initial D inputs s =
     (if length inputs = 1 then
        rbind (dc_build D ''nop'' [] [] [inputs ! 0] s) (\<lambda>(result, s). dc_fuse D result 0 s)
      else Inr s)"

text \<open>
  \<open>decompose_reshape\<close>: a reshape that only adds or removes leading ones becomes a chain of \<open>unsqueeze\<close>
  or \<open>squeeze\<close>. \<open>drop_ones\<close> is the loop that erases leading ones while the shape is too long.
\<close>

fun drop_ones :: "nat \<Rightarrow> int list \<Rightarrow> int list" where
  "drop_ones n (x # xs) = (if length (x # xs) > n \<and> x = 1 then drop_ones n xs else x # xs)"
| "drop_ones n [] = []"

fun dc_repeat :: "'s Decomposer \<Rightarrow> string \<Rightarrow> nat \<Rightarrow> NodeContext \<times> 's \<Rightarrow> (NodeContext \<times> 's) result" where
  "dc_repeat D name 0 r = Inr r"
| "dc_repeat D name (Suc k) r =
     rbind (dc_build D name [AInt 0] [(''dim'', AInt 0)] [fst r] (snd r)) (dc_repeat D name k)"

definition decompose_reshape :: "'s Decomposer \<Rightarrow> Op \<Rightarrow> NodeContext list \<Rightarrow> 's \<Rightarrow> 's result" where
  "decompose_reshape D o1 inputs s =
     tt_assert (length inputs = 1)
       (let input_shape = map sint (sh_dims (nc_shape (inputs ! 0))) in
        rbind (op_attr_ints o1 ''shape'') (\<lambda>shape.
        if shape = input_shape then Inr s
        else let padded = pad_front (length input_shape) shape;
                 new_shape = drop_ones (length input_shape) padded;
                 rank = int (length shape) - int (length new_shape)
             in if new_shape \<noteq> input_shape \<or> rank = 0 then Inr s
                else rbind (dc_repeat D ''squeeze'' (nat (- rank)) (inputs ! 0, s)) (\<lambda>r.
                     rbind (dc_repeat D ''unsqueeze'' (nat rank) r) (\<lambda>(result, s).
                       dc_fuse D result 0 s))))"

type_synonym 's base_decompose_fn = "string \<Rightarrow> OpType \<Rightarrow> NodeContext list \<Rightarrow> 's \<Rightarrow> 's result"

text \<open>The operations of C++ without a decomposition of their own, in the order of the switches.\<close>

definition native_ops :: "ops_OpType list" where
  "native_ops = [Op_Abs, Op_Add, Op_Concatenate, Op_Constant, Op_Cosine, Op_Divide, Op_Multiply,
     Op_Reshape, Op_Sine, Op_Softmax, Op_SoftmaxBw, Op_Squeeze, Op_Subtract, Op_Transpose, Op_Unsqueeze]"

definition Op_decompose_initial ::
    "'s Decomposer \<Rightarrow> 's base_decompose_fn \<Rightarrow> OpType \<Rightarrow> Op \<Rightarrow> NodeContext list \<Rightarrow> 's \<Rightarrow> 's result" where
  "Op_decompose_initial D base_decompose old o1 inputs s =
     (let t = op_type o1 in
      if t = Op_Concatenate then concatenate_decompose_initial D inputs s
      else if t = Op_Reshape then decompose_reshape D o1 inputs s
      else if t \<in> set native_ops then Inr s
      else tt_assert (op_code t < op_count) (base_decompose ''get_f_forge_decompose'' old inputs s))"

definition Op_decompose_post_optimize ::
    "'s Decomposer \<Rightarrow> 's base_decompose_fn \<Rightarrow> OpType \<Rightarrow> Op \<Rightarrow> NodeContext list \<Rightarrow> 's \<Rightarrow> 's result" where
  "Op_decompose_post_optimize D base_decompose old o1 inputs s =
     (let t = op_type o1 in
      if t \<in> set native_ops then Inr s
      else tt_assert (op_code t < op_count)
             (base_decompose ''get_f_forge_decompose_post_optimize'' old inputs s))"

definition Op_decompose_post_autograd ::
    "'s Decomposer \<Rightarrow> 's base_decompose_fn \<Rightarrow> OpType \<Rightarrow> Op \<Rightarrow> NodeContext list \<Rightarrow> 's \<Rightarrow> 's result" where
  "Op_decompose_post_autograd D base_decompose old o1 inputs s =
     (let t = op_type o1 in
      if t = Op_Reshape then decompose_reshape D o1 inputs s
      else if t = Op_SoftmaxBw then softmax_bw_decompose_post_autograd D o1 inputs s
      else if t = Op_Subtract then subtract_decompose_post_autograd D o1 inputs s
      else if t \<in> set native_ops then Inr s
      else tt_assert (op_code t < op_count)
             (base_decompose ''get_f_forge_decompose_post_autograd'' old inputs s))"

definition Op_decompose ::
    "DecomposeEpoch \<Rightarrow> 's Decomposer \<Rightarrow> 's base_decompose_fn \<Rightarrow> OpType \<Rightarrow> Op \<Rightarrow> NodeContext list \<Rightarrow> 's \<Rightarrow> 's result" where
  "Op_decompose ep =
     (case ep of Initial \<Rightarrow> Op_decompose_initial
      | PostOptimize \<Rightarrow> Op_decompose_post_optimize
      | PostAutograd \<Rightarrow> Op_decompose_post_autograd)"

section \<open>The contract of the calls\<close>

text \<open>
  What the gradients and decompositions rely on: from a state that is \<open>ready\<close>, with contexts of nodes
  that are \<open>live\<close> in it, a call whose operation accepts the operands' shapes returns an operation just
  \<open>made\<close> of that shape; the state grows, which keeps it ready and the contexts live.
\<close>

definition arity_fits :: "OpType \<Rightarrow> nat \<Rightarrow> bool" where
  "arity_fits t n \<longleftrightarrow> 0 < n \<and> n < 2 ^ 32 \<and>
     (case OpType_is_eltwise_binary t of Inl _ \<Rightarrow> False | Inr b \<Rightarrow> b \<longrightarrow> 2 \<le> n) \<and>
     (is_matmul (op_fields t) \<longrightarrow> 2 \<le> n)"

locale node_maker =
  fixes mk :: "OpType \<Rightarrow> NodeContext list \<Rightarrow> 's \<Rightarrow> (NodeContext \<times> 's) result"
    and base_shape :: base_shape_fn
    and ready :: "'s \<Rightarrow> bool"
    and live made :: "'s \<Rightarrow> NodeContext \<Rightarrow> bool"
    and grow :: "'s \<Rightarrow> 's \<Rightarrow> bool"
  assumes mk_ok: "ready s \<Longrightarrow> \<forall>x \<in> set xs. live s x \<Longrightarrow> arity_fits t (length xs) \<Longrightarrow>
    OpType_shape base_shape t (map (sh_dims \<circ> nc_shape) xs) = Inr (sh, bs) \<Longrightarrow>
    \<exists>r s'. mk t xs s = Inr (r, s') \<and> nc_shape r = sh \<and> made s' r \<and> ready s' \<and> grow s s'"
    and made_live: "made s x \<Longrightarrow> live s x"
    and grow_live: "grow s s' \<Longrightarrow> live s x \<Longrightarrow> live s' x"
    and grow_refl: "grow s s"
    and grow_trans: "grow s s' \<Longrightarrow> grow s' s'' \<Longrightarrow> grow s s''"
begin

lemma mk_live: "ready s \<Longrightarrow> \<forall>x \<in> set xs. live s x \<Longrightarrow> arity_fits t (length xs) \<Longrightarrow>
    OpType_shape base_shape t (map (sh_dims \<circ> nc_shape) xs) = Inr (sh, bs) \<Longrightarrow>
    \<exists>r s'. mk t xs s = Inr (r, s') \<and> nc_shape r = sh \<and> live s' r \<and> ready s' \<and>
      (\<forall>x. live s x \<longrightarrow> live s' x)"
  by (drule mk_ok, assumption, assumption, assumption) (use made_live grow_live in blast)

end

text \<open>The names of the operations used below.\<close>

lemma op_type_of_nameI: "map_of new_to_old t = Some s \<Longrightarrow> op_type_of_name s = Inr t"
proof -
  assume "map_of new_to_old t = Some s"
  then have "(s, t) \<in> set old_to_new" by (simp add: map_of_SomeD flip: mem_tables)
  then show ?thesis
    by (simp add: op_type_of_name_def map_at_def map_of_is_SomeI [OF distinct_old_to_new])
qed

lemma op_types_of_names [simp]:
  "op_type_of_name ''squeeze'' = Inr Op_Squeeze" "op_type_of_name ''unsqueeze'' = Inr Op_Unsqueeze"
  "op_type_of_name ''reduce_sum'' = Inr Op_ReduceSum" "op_type_of_name ''multiply'' = Inr Op_Multiply"
  "op_type_of_name ''divide'' = Inr Op_Divide" "op_type_of_name ''nop'' = Inr Op_Nop"
  by (rule op_type_of_nameI, rule map_of_is_SomeI [OF distinct_new_to_old],
      simp only: new_to_old_def list.set insert_iff prod.inject simp_thms)+

abbreviation dims :: "NodeContext \<Rightarrow> u32 list" where
  "dims x \<equiv> sh_dims (nc_shape x)"

text \<open>The one step of a chain: \<open>squeeze\<close> and \<open>unsqueeze\<close> at dimension 0.\<close>

definition dim0_op :: "string \<Rightarrow> ops_OpType \<Rightarrow> OpType" where
  "dim0_op name t = \<lparr>op_name = name, legacy_attrs = [AInt 0], named_attrs = [(''dim'', AInt 0)],
     new_op = dim_op t 0\<rparr>"

lemma dc_build_dim0:
  "dc_build D ''squeeze'' [AInt 0] [(''dim'', AInt 0)] xs s = dc_op D (dim0_op ''squeeze'' Op_Squeeze) xs s"
  "dc_build D ''unsqueeze'' [AInt 0] [(''dim'', AInt 0)] xs s = dc_op D (dim0_op ''unsqueeze'' Op_Unsqueeze) xs s"
  by (simp_all add: dc_build_def mk_OpType_def dim0_op_def dim_op_def)

lemma OpType_shape_dim0:
  "OpType_shape base_shape (dim0_op n Op_Squeeze) [1 # ds] = Inr (shape_create ds, [])"
  "OpType_shape base_shape (dim0_op n Op_Unsqueeze) [ds] = Inr (shape_create (1 # ds), [])"
  by (simp_all add: OpType_shape_def Op_shape_def dim0_op_def squeeze_at [where d = 0]
      unsqueeze_at [where d = 0] dim_pos_def erase_at_def insert_at_def)

lemma drop_ones_eq:
  assumes "length ys \<le> length xs"
  shows "drop_ones (length ys) xs = ys \<longleftrightarrow> xs = replicate (length xs - length ys) 1 @ ys"
  using assms
proof (induction "length ys" xs rule: drop_ones.induct)
  case (1 x xs)
  show ?case
  proof (cases "length xs < length ys")
    case True
    with "1.prems" have "length ys = Suc (length xs)" by simp
    then show ?thesis by auto
  next
    case False
    then have "Suc (length xs) - length ys = Suc (length xs - length ys)" by simp
    then show ?thesis using "1.hyps" False by auto
  qed
qed auto

lemma drop_ones_padded:
  "drop_ones (length ys) (pad_front (length ys) xs) = ys \<longleftrightarrow>
     xs = replicate (length xs - length ys) 1 @ ys \<or> ys = replicate (length ys - length xs) 1 @ xs"
  using drop_ones_eq [of ys "pad_front (length ys) xs"]
  by (cases "length ys \<le> length xs") (auto simp: pad_front_eq)

text \<open>The rank difference with the loops' results in place.\<close>

lemma decompose_reshape_eq:
  assumes "op_attr_ints o1 ''shape'' = Inr shape"
  shows "decompose_reshape D o1 [x] s =
      (let inp = map sint (dims x); padded = pad_front (length inp) shape in
       if shape = inp then Inr s
       else let new_shape = drop_ones (length inp) padded; rank = int (length shape) - int (length new_shape)
            in if new_shape \<noteq> inp \<or> rank = 0 then Inr s
               else rbind (dc_repeat D ''squeeze'' (nat (- rank)) (x, s)) (\<lambda>r.
                    rbind (dc_repeat D ''unsqueeze'' (nat rank) r) (\<lambda>(result, s). dc_fuse D result 0 s)))"
  by (simp add: decompose_reshape_def assms Let_def)

lemma arity_fits_dim0 [simp]: "arity_fits (dim0_op n Op_Squeeze) (Suc 0)" "arity_fits (dim0_op n Op_Unsqueeze) (Suc 0)"
  by (simp_all add: arity_fits_def dim0_op_def dim_op_def OpType_is_eltwise_binary_def OpType_type_def
      op_is_eltwise_binary_def op_switch_def is_eltwise_binary_ops_def op_fields_def is_matmul_def
      is_depthwise_matmul_def new_op_type_def)

lemma arity_fits_simple [simp]:
  "o1 \<in> {Op_ReduceSum, Op_Nop} \<Longrightarrow> arity_fits \<lparr>op_name = n, legacy_attrs = l, named_attrs = a,
     new_op = \<lparr>op_type = o1, op_attrs = b\<rparr>\<rparr> (Suc 0)"
  "o1 \<in> {Op_Multiply, Op_Divide} \<Longrightarrow> arity_fits \<lparr>op_name = n, legacy_attrs = l, named_attrs = a,
     new_op = \<lparr>op_type = o1, op_attrs = b\<rparr>\<rparr> 2"
  by (auto simp: arity_fits_def OpType_is_eltwise_binary_def OpType_type_def
      op_is_eltwise_binary_def op_switch_def is_eltwise_binary_ops_def op_fields_def is_matmul_def
      is_depthwise_matmul_def new_op_type_def)

context node_maker
begin

lemma squeeze_chain:
  "dc_op D = mk \<Longrightarrow> ready s \<Longrightarrow> live s x \<Longrightarrow> dims x = replicate k 1 @ ds \<Longrightarrow>
   \<exists>r s'. dc_repeat D ''squeeze'' k (x, s) = Inr (r, s') \<and> dims r = ds \<and> live s' r \<and> ready s' \<and>
     grow s s' \<and> (k = 0 \<or> made s' r) \<and> (k = 0 \<longrightarrow> r = x)"
proof (induction k arbitrary: x s)
  case 0
  then show ?case by (simp add: grow_refl)
next
  case (Suc k)
  have "OpType_shape base_shape (dim0_op ''squeeze'' Op_Squeeze) (map (sh_dims \<circ> nc_shape) [x]) =
      Inr (shape_create (replicate k 1 @ ds), [])"
    using Suc.prems(4) by (simp add: OpType_shape_dim0)
  from mk_ok [OF Suc.prems(2) _ _ this] Suc.prems(3) obtain r s' where
    r: "mk (dim0_op ''squeeze'' Op_Squeeze) [x] s = Inr (r, s')"
      "nc_shape r = shape_create (replicate k 1 @ ds)" "made s' r" "ready s'" "grow s s'" by auto
  from Suc.IH [OF Suc.prems(1) r(4) made_live [OF r(3)]] r(2) obtain q s'' where
    "dc_repeat D ''squeeze'' k (r, s') = Inr (q, s'')" "dims q = ds" "live s'' q" "ready s''"
    "made s'' q" "grow s' s''" using r(3) by auto
  then show ?case using r(1) Suc.prems(1) grow_trans [OF r(5)] by (simp add: dc_build_dim0)
qed

lemma unsqueeze_chain:
  "dc_op D = mk \<Longrightarrow> ready s \<Longrightarrow> live s x \<Longrightarrow> dims x = ds \<Longrightarrow>
   \<exists>r s'. dc_repeat D ''unsqueeze'' k (x, s) = Inr (r, s') \<and> dims r = replicate k 1 @ ds \<and>
     live s' r \<and> ready s' \<and> grow s s' \<and> (k = 0 \<or> made s' r) \<and> (k = 0 \<longrightarrow> r = x)"
proof (induction k arbitrary: x s ds)
  case 0
  then show ?case by (simp add: grow_refl)
next
  case (Suc k)
  have "OpType_shape base_shape (dim0_op ''unsqueeze'' Op_Unsqueeze) (map (sh_dims \<circ> nc_shape) [x]) =
      Inr (shape_create (1 # ds), [])"
    using Suc.prems(4) by (simp add: OpType_shape_dim0)
  from mk_ok [OF Suc.prems(2) _ _ this] Suc.prems(3) obtain r s' where
    r: "mk (dim0_op ''unsqueeze'' Op_Unsqueeze) [x] s = Inr (r, s')"
      "nc_shape r = shape_create (1 # ds)" "made s' r" "ready s'" "grow s s'" by auto
  from Suc.IH [OF Suc.prems(1) r(4) made_live [OF r(3)], of "1 # ds"] r(2) obtain q s'' where
    "dc_repeat D ''unsqueeze'' k (r, s') = Inr (q, s'')" "dims q = replicate k 1 @ 1 # ds" "live s'' q"
    "ready s''" "made s'' q" "grow s' s''" using r(3) by auto
  then show ?case using r(1) Suc.prems(1) grow_trans [OF r(5)] by (simp add: dc_build_dim0 replicate_app_Cons_same)
qed

text \<open>A reshape that adds or removes \<open>k\<close> leading ones is replaced by a chain of \<open>k\<close> operations.\<close>

lemma decompose_reshape_repeat:
  assumes D: "dc_op D = mk" and "ready s" "live s x"
    and shape: "op_attr_ints o1 ''shape'' = Inr shape"
    and k: "0 < k" "shape = replicate k 1 @ map sint (dims x) \<or> map sint (dims x) = replicate k 1 @ shape"
  shows "\<exists>r s'. decompose_reshape D o1 [x] s = dc_fuse D r 0 s' \<and> map sint (dims r) = shape \<and>
    made s' r \<and> ready s' \<and> grow s s' \<and>
    dc_repeat D (if length shape < length (dims x) then ''squeeze'' else ''unsqueeze'') k (x, s) = Inr (r, s') \<and>
    (length shape < length (dims x) \<longrightarrow> dims x = replicate k 1 @ drop k (dims x))"
proof -
  define inp where "inp = map sint (dims x)"
  define padded where "padded = pad_front (length inp) shape"
  note new = drop_ones_padded [of inp shape, folded padded_def]
  note eq = decompose_reshape_eq [OF shape, of D x s, unfolded Let_def, folded inp_def padded_def]
  from k(2) show ?thesis unfolding inp_def [symmetric]
  proof
    assume up: "shape = replicate k 1 @ inp"
    then have "drop_ones (length inp) padded = inp" by (simp add: new)
    moreover from unsqueeze_chain [OF assms(1-3), of "dims x" k] obtain r s' where
      r: "dc_repeat D ''unsqueeze'' k (x, s) = Inr (r, s')" "dims r = replicate k 1 @ dims x"
        "made s' r" "ready s'" "grow s s'" using k(1) by auto
    ultimately have "decompose_reshape D o1 [x] s = dc_fuse D r 0 s'"
      unfolding eq using k(1) up by (simp add: Let_def)
    moreover have "map sint (dims r) = shape" by (simp add: r(2) up inp_def)
    moreover have "\<not> length shape < length (dims x)" by (simp add: up inp_def)
    ultimately show ?thesis using r(1, 3-5) by auto
  next
    assume down: "inp = replicate k 1 @ shape"
    have d: "drop_ones (length inp) padded = inp" by (subst new) (simp add: down)
    have "map sint (take k (dims x)) = map sint (replicate k 1 :: u32 list)"
      using arg_cong [OF down, of "take k"] by (simp add: inp_def take_map)
    then have "take k (dims x) = replicate k 1" by (subst (asm) inj_map_eq_map) (auto intro: injI signed_word_eqI)
    then have x: "dims x = replicate k 1 @ drop k (dims x)" by (metis append_take_drop_id)
    from squeeze_chain [OF assms(1-3) x] obtain r s' where
      r: "dc_repeat D ''squeeze'' k (x, s) = Inr (r, s')" "dims r = drop k (dims x)"
        "made s' r" "ready s'" "grow s s'" using k(1) by auto
    have "map sint (dims r) = shape"
      using arg_cong [OF down, of "drop k"] by (simp add: r(2) inp_def drop_map)
    moreover have "decompose_reshape D o1 [x] s = dc_fuse D r 0 s'"
      unfolding eq d using k(1) down r(1) by (simp add: Let_def)
    moreover have "length shape < length (dims x)"
      using arg_cong [OF down, of length] k(1) by (simp add: inp_def)
    ultimately show ?thesis using r(1, 3-5) x by auto
  qed
qed

text \<open>\<open>decompose_reshape\<close>: exactly the reshapes that add or remove leading ones are replaced, by a node
  whose shape is the one the reshape asks for.\<close>

lemma decompose_reshape_shape:
  assumes D: "dc_op D = mk" and "ready s" "live s x"
    and shape: "op_attr_ints o1 ''shape'' = Inr shape"
  shows "if \<exists>k > 0. shape = replicate k 1 @ map sint (dims x) \<or> map sint (dims x) = replicate k 1 @ shape
     then \<exists>r s'. decompose_reshape D o1 [x] s = dc_fuse D r 0 s' \<and> map sint (dims r) = shape \<and>
       made s' r \<and> ready s' \<and> grow s s'
     else decompose_reshape D o1 [x] s = Inr s"
proof -
  define inp where "inp = map sint (dims x)"
  define padded where "padded = pad_front (length inp) shape"
  note new = drop_ones_padded [of inp shape, folded padded_def]
  note eq = decompose_reshape_eq [OF shape, of D x s, unfolded Let_def, folded inp_def padded_def]
  show ?thesis unfolding inp_def [symmetric]
  proof (cases "\<exists>k > 0. shape = replicate k 1 @ inp \<or> inp = replicate k 1 @ shape")
    case True
    then obtain k where k: "k > 0" "shape = replicate k 1 @ inp \<or> inp = replicate k 1 @ shape" by blast
    from decompose_reshape_repeat [OF assms k [unfolded inp_def]]
    have "\<exists>r s'. decompose_reshape D o1 [x] s = dc_fuse D r 0 s' \<and> map sint (dims r) = shape \<and>
       made s' r \<and> ready s' \<and> grow s s'" by blast
    then show "if \<exists>k > 0. shape = replicate k 1 @ inp \<or> inp = replicate k 1 @ shape
       then \<exists>r s'. decompose_reshape D o1 [x] s = dc_fuse D r 0 s' \<and> map sint (dims r) = shape \<and>
         made s' r \<and> ready s' \<and> grow s s'
       else decompose_reshape D o1 [x] s = Inr s" by (subst if_P [OF True])
  next
    case False
    have "shape = inp \<or> drop_ones (length inp) padded \<noteq> inp \<or> length shape = length inp"
    proof (rule ccontr)
      assume "\<not> ?thesis"
      then have "length shape \<noteq> length inp" "shape = replicate (length shape - length inp) 1 @ inp \<or>
        inp = replicate (length inp - length shape) 1 @ shape" using new by auto
      then show False using False
        by (metis append_Nil length_append length_replicate linorder_neqE_nat not_add_less2 replicate_0 zero_less_diff)
    qed
    then have "decompose_reshape D o1 [x] s = Inr s"
      unfolding eq by (auto simp: Let_def)
    then show "if \<exists>k > 0. shape = replicate k 1 @ inp \<or> inp = replicate k 1 @ shape
       then \<exists>r s'. decompose_reshape D o1 [x] s = dc_fuse D r 0 s' \<and> map sint (dims r) = shape \<and>
         made s' r \<and> ready s' \<and> grow s s'
       else decompose_reshape D o1 [x] s = Inr s" by (subst if_not_P [OF False])
  qed
qed

end

text \<open>
  A provider that also tells from what a node was made: \<open>fed s t xs r\<close> says that the operation \<open>r\<close> has the
  type \<open>t\<close> and takes \<open>xs\<close>. A chain of \<open>k\<close> operations of one type leads from one node to another.
\<close>

inductive built_chain :: "(OpType \<Rightarrow> NodeContext list \<Rightarrow> NodeContext \<Rightarrow> bool) \<Rightarrow> OpType \<Rightarrow> nat \<Rightarrow> NodeContext \<Rightarrow>
    NodeContext \<Rightarrow> bool" for F t where
  built_start: "built_chain F t 0 x x"
| built_step: "built_chain F t (Suc k) x r" if "F t [x] y" "built_chain F t k y r"

lemma built_chain_mono:
  "built_chain F t k x r \<Longrightarrow> (\<And>xs y. F t xs y \<Longrightarrow> F' t xs y) \<Longrightarrow> built_chain F' t k x r"
  by (induction rule: built_chain.induct) (auto intro: built_chain.intros)

locale node_linker = node_maker mk base_shape ready live made grow
  for mk :: "OpType \<Rightarrow> NodeContext list \<Rightarrow> 's \<Rightarrow> (NodeContext \<times> 's) result"
    and base_shape ready live made grow +
  fixes fed :: "'s \<Rightarrow> OpType \<Rightarrow> NodeContext list \<Rightarrow> NodeContext \<Rightarrow> bool"
  assumes mk_fed: "ready s \<Longrightarrow> \<forall>x \<in> set xs. live s x \<Longrightarrow>
    OpType_shape base_shape t (map (sh_dims \<circ> nc_shape) xs) = Inr (sh, bs) \<Longrightarrow> mk t xs s = Inr (r, s') \<Longrightarrow> fed s' t xs r"
    and grow_fed: "grow s s' \<Longrightarrow> fed s t xs r \<Longrightarrow> fed s' t xs r"
begin

lemma repeat_built:
  assumes build: "\<And>xs s. dc_build D nm [AInt 0] [(''dim'', AInt 0)] xs s = mk t xs s" and fits: "arity_fits t (Suc 0)"
    and shapes: "\<And>k ds. Q (Suc k) ds \<Longrightarrow>
      \<exists>ds'. OpType_shape base_shape t [ds] = Inr (shape_create ds', []) \<and> Q k ds'"
  shows "ready s \<Longrightarrow> live s x \<Longrightarrow> Q k (dims x) \<Longrightarrow> dc_repeat D nm k (x, s) = Inr (r, s') \<Longrightarrow>
    built_chain (fed s') t k x r \<and> grow s s'"
proof (induction k arbitrary: x s)
  case 0
  then show ?case by (simp add: built_start grow_refl)
next
  case (Suc k)
  from shapes [OF Suc.prems(3)] obtain ds' where
    sh: "OpType_shape base_shape t (map (sh_dims \<circ> nc_shape) [x]) = Inr (shape_create ds', [])" and q: "Q k ds'" by auto
  have l: "\<forall>y \<in> set [x]. live s y" using Suc.prems(2) by simp
  from mk_ok [OF Suc.prems(1) l _ sh] fits obtain y s1 where
    y: "mk t [x] s = Inr (y, s1)" "nc_shape y = shape_create ds'" "made s1 y" "ready s1" "grow s s1" by auto
  from Suc.prems(4) y(1) have r: "dc_repeat D nm k (y, s1) = Inr (r, s')" by (simp add: build)
  have "Q k (dims y)" using q y(2) by simp
  from Suc.IH [OF y(4) made_live [OF y(3)] this r] have c: "built_chain (fed s') t k y r" "grow s1 s'" by auto
  from grow_fed [OF c(2) mk_fed [OF Suc.prems(1) l sh y(1)]] c(1) have "built_chain (fed s') t (Suc k) x r"
    by (rule built_step)
  then show ?case using grow_trans [OF y(5) c(2)] by simp
qed

lemma squeezes_built:
  assumes "dc_op D = mk" "ready s" "live s x" "dims x = replicate k 1 @ ds" "dc_repeat D ''squeeze'' k (x, s) = Inr (r, s')"
  shows "built_chain (fed s') (dim0_op ''squeeze'' Op_Squeeze) k x r"
proof -
  have "\<exists>ds'. OpType_shape base_shape (dim0_op ''squeeze'' Op_Squeeze) [xs] = Inr (shape_create ds', []) \<and>
      (\<exists>ds. ds' = replicate k 1 @ ds)" if "\<exists>ds. xs = replicate (Suc k) 1 @ ds" for k xs
    using that by (auto simp: OpType_shape_dim0)
  from repeat_built [where Q = "\<lambda>k xs. \<exists>ds. xs = replicate k 1 @ ds", OF _ _ this assms(2, 3) _ assms(5)] assms(1, 4)
  show ?thesis by (auto simp: dc_build_dim0)
qed

lemma unsqueezes_built:
  assumes "dc_op D = mk" "ready s" "live s x" "dc_repeat D ''unsqueeze'' k (x, s) = Inr (r, s')"
  shows "built_chain (fed s') (dim0_op ''unsqueeze'' Op_Unsqueeze) k x r"
proof -
  have "\<exists>ds'. OpType_shape base_shape (dim0_op ''unsqueeze'' Op_Unsqueeze) [xs] = Inr (shape_create ds', []) \<and> True"
    for xs by (auto simp: OpType_shape_dim0)
  from repeat_built [where Q = "\<lambda>k xs. True", OF _ _ this assms(2, 3) _ assms(4)] assms(1)
  show ?thesis by (auto simp: dc_build_dim0)
qed

end

section \<open>Gradients take the operand's shape\<close>

text \<open>What \<open>reduce.py\<close> returns for \<open>reduce_sum\<close> with the dimension kept.\<close>

definition reduce_sum_keeps :: "base_shape_fn \<Rightarrow> bool" where
  "reduce_sum_keeps base_shape \<longleftrightarrow> (\<forall>named o1 i ds. i < length ds \<longrightarrow>
     base_shape \<lparr>op_name = ''reduce_sum'', legacy_attrs = [AInt (int i), ABool True],
       named_attrs = named, new_op = o1\<rparr> [ds] = Inr (ds[i := 1], []))"

definition ones_at :: "nat list \<Rightarrow> u32 list \<Rightarrow> u32 list" where
  "ones_at js ds = foldl (\<lambda>ds i. ds[i := 1]) ds js"

lemma length_ones_at [simp]: "length (ones_at js ds) = length ds"
  unfolding ones_at_def by (induction js arbitrary: ds) simp_all

lemma nth_ones_at: "i < length ds \<Longrightarrow> ones_at js ds ! i = (if i \<in> set js then 1 else ds ! i)"
  unfolding ones_at_def by (induction js arbitrary: ds) (auto simp: nth_list_update)

text \<open>An operand that was broadcast into the gradient's shape; sizes are positive as \<open>int\<close>s.\<close>

definition broadcast_into :: "u32 list \<Rightarrow> u32 list \<Rightarrow> bool" where
  "broadcast_into ds out \<longleftrightarrow> length ds \<le> length out \<and>
     list_all2 (\<lambda>x y. x = y \<or> x = 1) (pad_front (length out) ds) out \<and> (\<forall>y \<in> set out. 0 < sint y)"

lemma reduced_dims_restore:
  assumes "broadcast_into ds out"
  shows "ones_at (reduced_dims ds out) out = pad_front (length out) ds"
proof (rule nth_equalityI)
  have len: "length (pad_front (length out) ds) = length out"
    using assms by (simp add: broadcast_into_def pad_front_eq)
  then show "length (ones_at (reduced_dims ds out) out) = length (pad_front (length out) ds)" by simp
  fix i assume "i < length (ones_at (reduced_dims ds out) out)"
  then have i: "i < length out" by simp
  define x where "x = pad_front (length out) ds ! i"
  have m: "max (length ds) (length out) = length out" using assms by (simp add: broadcast_into_def)
  have "(replicate (length out - length ds) 1 @ map sint ds) ! i = sint x"
    using i len by (auto simp: x_def pad_front_eq nth_append)
  then have mem: "i \<in> set (reduced_dims ds out) \<longleftrightarrow> sint x < sint (out ! i)"
    using i by (simp add: reduced_dims_def m Let_def not_le)
  have "x = out ! i \<or> x = 1" "0 < sint (out ! i)"
    using assms i len by (auto simp: broadcast_into_def list_all2_conv_all_nth x_def)
  moreover have "out ! i = 1" if "\<not> 1 < sint (out ! i)" "0 < sint (out ! i)"
  proof -
    have "sint (out ! i) = sint (1 :: u32)" using that by simp
    then show ?thesis by (rule signed_word_eqI)
  qed
  ultimately show "ones_at (reduced_dims ds out) out ! i = pad_front (length out) ds ! i"
    using i by (auto simp: nth_ones_at mem simp flip: x_def)
qed

lemma reduced_dims_bound: "broadcast_into ds out \<Longrightarrow> \<forall>i \<in> set (reduced_dims ds out). i < length out"
  by (auto simp: reduced_dims_def Let_def broadcast_into_def)

text \<open>Equal shapes, in the sense of \<open>operator==\<close>, need no reduction: the gradient has them already.\<close>

lemma shape_eq_padded:
  assumes "shape_eq s t" and "length (sh_dims s) \<le> length (sh_dims t)"
  shows "pad_front (length (sh_dims t)) (sh_dims s) = sh_dims t"
  using assms shape_eq_pad [of s t] by (simp add: max_def pad_front_eq)

lemma build_eq: "op_type_of_name n = Inr t \<Longrightarrow> build B n l a xs s =
    create_op B \<lparr>op_name = n, legacy_attrs = l, named_attrs = a, new_op = \<lparr>op_type = t, op_attrs = a\<rparr>\<rparr> xs s"
  by (simp add: build_def mk_OpType_def)

context node_maker
begin

lemma reduce_sums:
  assumes B: "create_op B = mk" and law: "reduce_sum_keeps base_shape"
  shows "\<forall>i \<in> set js. i < length (dims x) \<Longrightarrow> ready s \<Longrightarrow> live s x \<Longrightarrow>
    \<exists>r s'. foldR (reduce_sum_dim B) (x, s) js = Inr (r, s') \<and> dims r = ones_at js (dims x) \<and>
      live s' r \<and> ready s' \<and> (\<forall>y. live s y \<longrightarrow> live s' y)"
proof (induction js arbitrary: x s)
  case Nil
  then show ?case by (simp add: ones_at_def)
next
  case (Cons i js)
  define a where "a = attrs_of [(''keep_dim'', ABool True), (''dim_arg'', AInt (int i))]"
  define t where "t = \<lparr>op_name = ''reduce_sum'', legacy_attrs = [AInt (int i), ABool True],
      named_attrs = a, new_op = \<lparr>op_type = Op_ReduceSum, op_attrs = a\<rparr>\<rparr>"
  have ok: "OpType_shape base_shape t (map (sh_dims \<circ> nc_shape) [x]) = Inr (shape_create ((dims x)[i := 1]), [])"
    using law Cons.prems(1) by (simp add: t_def OpType_shape_def Op_shape_def Op_base_shape_def reduce_sum_keeps_def)
  have "arity_fits t (Suc 0)" by (simp add: t_def)
  with mk_live [OF Cons.prems(2) _ _ ok] Cons.prems(3) obtain r s' where
    r: "mk t [x] s = Inr (r, s')" "nc_shape r = shape_create ((dims x)[i := 1])" "live s' r" "ready s'"
      "\<forall>y. live s y \<longrightarrow> live s' y" by auto
  have "reduce_sum_dim B (x, s) i = Inr (r, s')"
    using r(1) by (simp add: reduce_sum_dim_def build_eq B t_def a_def)
  moreover from Cons.IH [of r s'] r Cons.prems(1) obtain q s'' where
    "foldR (reduce_sum_dim B) (r, s') js = Inr (q, s'')" "dims q = ones_at js ((dims x)[i := 1])"
    "live s'' q" "ready s''" "\<forall>y. live s' y \<longrightarrow> live s'' y" by auto
  ultimately show ?case using r(5) by (auto simp: ones_at_def)
qed

lemma reduce_broadcast_shape:
  assumes B: "create_op B = mk" and law: "reduce_sum_keeps base_shape"
    and g: "ready s" "live s g" "dims g = sh_dims out" and b: "broadcast_into (sh_dims sh) (sh_dims out)"
  shows "\<exists>r s'. reduce_broadcast_dimensions B g sh out s = Inr (r, s') \<and>
     dims r = pad_front (shape_size out) (sh_dims sh) \<and> live s' r \<and> ready s' \<and> (\<forall>y. live s y \<longrightarrow> live s' y)"
proof (cases "shape_eq sh out")
  case True
  then have "dims g = pad_front (shape_size out) (sh_dims sh)"
    using shape_eq_padded [OF True] b by (simp add: g broadcast_into_def shape_size_def)
  then show ?thesis using True g by (simp add: reduce_broadcast_dimensions_def)
next
  case False
  from reduce_sums [OF B law, of "reduced_dims (sh_dims sh) (sh_dims out)" g s] reduced_dims_bound [OF b]
    reduced_dims_restore [OF b] g show ?thesis
    using False by (simp add: reduce_broadcast_dimensions_def shape_size_def)
qed

end

text \<open>The element-wise result of two operands, and how each operand relates to it.\<close>

definition binary_out :: "u32 list \<Rightarrow> u32 list \<Rightarrow> u32 list option" where
  "binary_out s0 s1 =
     (case compute_elementwise_binary_shape [s0, s1] of Inl _ \<Rightarrow> None | Inr (s, _) \<Rightarrow> Some (sh_dims s))"

lemma binary_out_eq:
  "binary_out s0 s1 =
     (let p0 = pad_front (length s1) s0; p1 = pad_front (length s0) s1
      in if list_all2 dims_match p0 p1 then Some (map2 dims_join p0 p1) else None)"
proof -
  define p0 p1 where "p0 = pad_front (length s1) s0" and "p1 = pad_front (length s0) s1"
  have len: "length p0 = length p1" "pad_front (length p0) s1 = p1"
    by (simp_all add: p0_def p1_def pad_front_eq)
  have "compute_elementwise_binary_shape [s0, s1] =
      rbind (binary_dims (length p0) 0 p0 p1) (\<lambda>(ds, bs). Inr (shape_create ds, bs))"
    by (simp add: compute_elementwise_binary_shape_def Let_def len(2) del: len(1) flip: p0_def)
  then show ?thesis
    using binary_dims_total [OF len(1), of "length p0" 0]
    by (auto simp: binary_out_def Let_def simp flip: p0_def p1_def split: if_splits)
qed

lemma binary_out_compute:
  "binary_out s0 s1 = Some out \<Longrightarrow>
   \<exists>bs. compute_elementwise_binary_shape [s0, s1] = Inr (shape_create out, bs)"
  by (auto simp: binary_out_def compute_elementwise_binary_shape_def Let_def
      split: sum.splits prod.splits simp: result_simps tt_assert_def) (auto simp: rbind_def split: sum.splits)

lemma binary_out_comm: "binary_out s0 s1 = binary_out s1 s0"
proof -
  have "list_all2 dims_match xs ys \<longleftrightarrow> list_all2 dims_match ys xs" for xs ys
    by (auto simp: list_all2_conv_all_nth dims_match_def)
  moreover have "list_all2 dims_match xs ys \<Longrightarrow> map2 dims_join xs ys = map2 dims_join ys xs" for xs ys
    by (auto simp: list_eq_iff_nth_eq list_all2_conv_all_nth dims_match_def dims_join_def)
  ultimately show ?thesis by (auto simp: binary_out_eq Let_def)
qed

lemma binary_out_into:
  assumes "binary_out s0 s1 = Some out" and "\<forall>d \<in> set out. 0 < sint d"
  shows "broadcast_into s0 out"
proof -
  define p0 p1 where "p0 = pad_front (length s1) s0" and "p1 = pad_front (length s0) s1"
  have m: "list_all2 dims_match p0 p1" "out = map2 dims_join p0 p1"
    using assms(1) by (auto simp: binary_out_eq Let_def p0_def p1_def split: if_splits)
  then have len: "length p0 = length out" "length s0 \<le> length out" "pad_front (length out) s0 = p0"
    by (auto simp: p0_def p1_def pad_front_eq)
  then show ?thesis
    using assms(2) m by (auto simp: broadcast_into_def list_all2_conv_all_nth dims_match_def dims_join_def)
qed

lemma binary_out_absorb:
  assumes "broadcast_into s0 out"
  shows "binary_out out s0 = Some out"
proof -
  define p where "p = pad_front (length out) s0"
  have p: "length p = length out" "pad_front (length s0) out = out"
    "\<forall>i < length out. p ! i = out ! i \<or> p ! i = 1"
    using assms by (auto simp: broadcast_into_def p_def pad_front_eq list_all2_conv_all_nth)
  then have "list_all2 dims_match out p" "map2 dims_join out p = out"
    by (auto simp: list_all2_conv_all_nth list_eq_iff_nth_eq dims_match_def dims_join_def)
  then show ?thesis by (simp add: binary_out_eq Let_def p flip: p_def)
qed

text \<open>The engine's calls: \<open>create_constant\<close> makes a live node of one element. The shapes that two Python
  operations compute are named as laws.\<close>

definition python_shapes :: "base_shape_fn \<Rightarrow> bool" where
  "python_shapes base_shape \<longleftrightarrow> reduce_sum_keeps base_shape \<and>
     (\<forall>t ds. op_name t = ''nop'' \<longrightarrow> base_shape t [ds] = Inr (ds, []))"

locale node_builder = node_maker "create_op B" base_shape ready live made grow
  for B :: "'s Builder" and base_shape ready live made grow +
  assumes const_ok: "ready s \<Longrightarrow> \<exists>r s'. create_constant B v s = Inr (r, s') \<and> dims r = [1] \<and>
      live s' r \<and> ready s' \<and> (\<forall>x. live s x \<longrightarrow> live s' x)"
begin

lemma build_binary:
  assumes "ready s" "live s a" "live s b" "binary_out (dims a) (dims b) = Some out"
    and "n = ''multiply'' \<or> n = ''divide''"
  shows "\<exists>r s'. build1 B n [a, b] s = Inr (r, s') \<and> dims r = out \<and> live s' r \<and> ready s' \<and>
    (\<forall>x. live s x \<longrightarrow> live s' x)"
proof -
  obtain t where t: "op_type_of_name n = Inr t" "t = Op_Multiply \<or> t = Op_Divide"
    using assms(5) by auto
  define T where "T = \<lparr>op_name = n, legacy_attrs = [], named_attrs = [], new_op = \<lparr>op_type = t, op_attrs = []\<rparr>\<rparr>"
  from binary_out_compute [OF assms(4)] obtain bs where
    "compute_elementwise_binary_shape [dims a, dims b] = Inr (shape_create out, bs)" ..
  then have "OpType_shape base_shape T (map (sh_dims \<circ> nc_shape) [a, b]) = Inr (shape_create out, bs)"
    using t(2) by (auto simp: T_def OpType_shape_def Op_shape_def multiply_shape_def divide_shape_def)
  moreover have "arity_fits T 2" using t(2) by (auto simp: T_def)
  ultimately obtain r s' where
    "create_op B T [a, b] s = Inr (r, s')" "nc_shape r = shape_create out" "live s' r" "ready s'"
      "\<forall>x. live s x \<longrightarrow> live s' x" using mk_live [OF assms(1), of "[a, b]" T] assms(2,3) by (auto simp: numeral_2_eq_2)
  then show ?thesis by (simp add: build1_def build_eq [OF t(1)] T_def)
qed

lemma build_nop:
  assumes "ready s" "live s g" and law: "python_shapes base_shape"
  shows "\<exists>r s'. build1 B ''nop'' [g] s = Inr (r, s') \<and> dims r = dims g \<and> live s' r \<and> ready s' \<and>
    (\<forall>x. live s x \<longrightarrow> live s' x)"
proof -
  define T where "T = \<lparr>op_name = ''nop'', legacy_attrs = [], named_attrs = [],
      new_op = \<lparr>op_type = Op_Nop, op_attrs = []\<rparr>\<rparr>"
  have "OpType_shape base_shape T (map (sh_dims \<circ> nc_shape) [g]) = Inr (shape_create (dims g), [])"
    using law by (simp add: T_def OpType_shape_def Op_shape_def Op_base_shape_def python_shapes_def)
  moreover have "arity_fits T (Suc 0)" by (simp add: T_def)
  ultimately show ?thesis using mk_live [OF assms(1), of "[g]" T] assms(2)
    by (auto simp: build1_def build_eq T_def)
qed

lemma reduced:
  assumes "python_shapes base_shape" "ready s" "live s g" "dims g = out" "dims y = out"
    and "broadcast_into (dims x) out"
  shows "\<exists>r s'. reduce_broadcast_dimensions B g (nc_shape x) (nc_shape y) s = Inr (r, s') \<and>
    dims r = pad_front (length out) (dims x) \<and> live s' r \<and> ready s'"
  using reduce_broadcast_shape [OF refl _ assms(2,3), of "nc_shape y" "nc_shape x"] assms
  by (auto simp: python_shapes_def shape_size_def)

end

text \<open>The situation of a gradient: a binary operation on live operands, the gradient of the output's shape.\<close>

definition binary_grad :: "('s \<Rightarrow> NodeContext \<Rightarrow> bool) \<Rightarrow> 's \<Rightarrow> NodeContext \<Rightarrow> NodeContext \<Rightarrow> NodeContext \<Rightarrow> bool" where
  "binary_grad live s x0 x1 g \<longleftrightarrow> live s x0 \<and> live s x1 \<and> live s g \<and>
     binary_out (dims x0) (dims x1) = Some (dims g) \<and> dims g \<noteq> [] \<and> (\<forall>d \<in> set (dims g). 0 < sint d)"

lemma binary_grad_into:
  assumes "binary_grad live s x0 x1 g"
  shows "broadcast_into (dims x0) (dims g)" "broadcast_into (dims x1) (dims g)" "broadcast_into [1] (dims g)"
    "\<And>y. broadcast_into (dims y) (dims g) \<Longrightarrow> binary_out (dims g) (dims y) = Some (dims g)"
proof -
  show "broadcast_into (dims x0) (dims g)" "broadcast_into (dims x1) (dims g)"
    using assms binary_out_into [of "dims x0" "dims x1"] binary_out_into [of "dims x1" "dims x0"]
    by (auto simp: binary_grad_def binary_out_comm)
  show "broadcast_into [1] (dims g)"
    using assms by (cases "dims g")
      (auto simp: binary_grad_def broadcast_into_def pad_front_eq list_all2_conv_all_nth nth_append)
qed (rule binary_out_absorb)

lemma binary_out_self: "binary_out ds ds = Some ds"
proof -
  have "map2 dims_join ds ds = ds" by (induction ds) (simp_all add: dims_join_def)
  then show ?thesis by (simp add: binary_out_eq Let_def pad_front_eq list_all2_conv_all_nth dims_match_def)
qed

context node_builder
begin

lemma add_backward_shape:
  assumes "python_shapes base_shape" "ready s" "binary_grad live s x0 x1 g" "i < 2"
  shows "\<exists>r s'. add_backward B (int i) [x0, x1] g s = Inr (r, s') \<and>
    dims r = pad_front (length (dims g)) (dims ([x0, x1] ! i)) \<and> live s' r \<and> ready s'"
proof -
  define x where "x = [x0, x1] ! i"
  have b: "broadcast_into (dims x) (dims g)" "live s g"
    using binary_grad_into [OF assms(3)] assms(3,4) by (auto simp: x_def binary_grad_def less_2_cases_iff)
  have eq: "add_backward B (int i) [x0, x1] g s =
      (if shape_eq (nc_shape x) (nc_shape g) then build1 B ''nop'' [g] s
       else reduce_broadcast_dimensions B g (nc_shape x) (nc_shape g) s)"
    using assms(4) by (simp add: add_backward_def x_def Let_def)
  show ?thesis unfolding eq x_def [symmetric]
    using build_nop [OF assms(2) b(2) assms(1)] reduced [OF assms(1,2) b(2) refl refl b(1)]
      shape_eq_padded [of "nc_shape x" "nc_shape g"] b(1)
    by (cases "shape_eq (nc_shape x) (nc_shape g)") (auto simp: broadcast_into_def)
qed

lemma multiply_backward_shape:
  assumes "python_shapes base_shape" "ready s" "binary_grad live s x0 x1 g" "i < 2" "op_attrs o1 = []"
  shows "\<exists>r s'. multiply_backward B o1 (int i) [x0, x1] g s = Inr (r, s') \<and>
    dims r = pad_front (length (dims g)) (dims ([x0, x1] ! i)) \<and> live s' r \<and> ready s'"
proof -
  define x y where "x = [x0, x1] ! i" and "y = [x0, x1] ! (1 - i)"
  note b = binary_grad_into [OF assms(3)]
  have l: "broadcast_into (dims x) (dims g)" "broadcast_into (dims y) (dims g)" "live s g" "live s y"
    using b assms(3,4) by (auto simp: x_def y_def binary_grad_def less_2_cases_iff)
  have "[x0, x1] ! nat (1 - int i) = y" using assms(4) by (auto simp: y_def less_2_cases_iff)
  then have eq: "multiply_backward B o1 (int i) [x0, x1] g s =
      rbind (build1 B ''multiply'' [g, y] s) (\<lambda>(op_grad, s).
        if shape_eq (nc_shape x) (nc_shape g) then Inr (op_grad, s)
        else reduce_broadcast_dimensions B op_grad (nc_shape x) (nc_shape g) s)"
    unfolding multiply_backward_def x_def using assms(4,5) by (simp add: Let_def)
  from build_binary [OF assms(2) l(3,4) b(4) [OF l(2)]] obtain r s' where
    r: "build1 B ''multiply'' [g, y] s = Inr (r, s')" "dims r = dims g" "live s' r" "ready s'" by blast
  show ?thesis unfolding eq x_def [symmetric]
    using r reduced [OF assms(1) r(4,3,2) refl l(1)] shape_eq_padded [of "nc_shape x" "nc_shape g"] l(1)
    by (cases "shape_eq (nc_shape x) (nc_shape g)") (auto simp: broadcast_into_def)
qed

lemma subtract_backward_shape:
  assumes "python_shapes base_shape" "ready s" "binary_grad live s x0 x1 g" "i < 2" "op_attrs o1 = []"
  shows "\<exists>r s'. subtract_backward B o1 (int i) [x0, x1] g s = Inr (r, s') \<and>
    dims r = pad_front (length (dims g)) (dims ([x0, x1] ! i)) \<and> live s' r \<and> ready s'"
proof -
  define x where "x = [x0, x1] ! i"
  note b = binary_grad_into [OF assms(3)]
  have l: "broadcast_into (dims x) (dims g)" "live s g"
    using b assms(3,4) by (auto simp: x_def binary_grad_def less_2_cases_iff)
  have "\<exists>r s'. (if int i = 0 then build1 B ''nop'' [g] s
       else rbind (create_constant B float_minus_one s) (\<lambda>(c, s). build1 B ''multiply'' [g, c] s)) =
       Inr (r, s') \<and> dims r = dims g \<and> live s' r \<and> ready s'"
  proof (cases "i = 0")
    case True
    then show ?thesis using build_nop [OF assms(2) l(2) assms(1)] by auto
  next
    case False
    from const_ok [OF assms(2)] obtain c s1 where
      c: "create_constant B float_minus_one s = Inr (c, s1)" "dims c = [1]" "live s1 c" "ready s1" "live s1 g"
      using l(2) by blast
    have "binary_out (dims g) (dims c) = Some (dims g)" by (rule b(4)) (simp add: c(2) b(3))
    from build_binary [OF c(4,5,3) this, of "''multiply''"] show ?thesis using c False by auto
  qed
  then obtain r s' where r: "(if int i = 0 then build1 B ''nop'' [g] s
       else rbind (create_constant B float_minus_one s) (\<lambda>(c, s). build1 B ''multiply'' [g, c] s)) =
       Inr (r, s')" "dims r = dims g" "live s' r" "ready s'" by blast
  have "subtract_backward B o1 (int i) [x0, x1] g s =
      reduce_broadcast_dimensions B r (nc_shape x) (nc_shape g) s'"
    using assms(4,5) unfolding subtract_backward_def r(1) by (simp add: x_def)
  with reduced [OF assms(1) r(4,3,2) refl l(1)] show ?thesis by (simp add: x_def)
qed

lemma divide_backward_shape:
  assumes "python_shapes base_shape" "ready s" "binary_grad live s x0 x1 g" "i < 2"
  shows "\<exists>r s'. divide_backward B (int i) [x0, x1] g s = Inr (r, s') \<and>
    dims r = pad_front (length (dims g)) (dims ([x0, x1] ! i)) \<and> live s' r \<and> ready s'"
proof -
  define x where "x = [x0, x1] ! i"
  note b = binary_grad_into [OF assms(3)]
  have l: "broadcast_into (dims x) (dims g)" "live s g" "live s x0" "live s x1"
    "binary_out (dims x0) (dims x1) = Some (dims g)"
    using b assms(3,4) by (auto simp: x_def binary_grad_def less_2_cases_iff)
  from build_binary [OF assms(2) l(2,4) b(4) [OF b(2)], of "''divide''"] obtain q s0 where
    q: "build1 B ''divide'' [g, x1] s = Inr (q, s0)" "dims q = dims g" "live s0 q" "ready s0"
      "\<forall>x. live s x \<longrightarrow> live s0 x" by auto
  have "\<exists>r s'. (if int i = 1 then divisor_gradient B x0 x1 g s0 else Inr (q, s0)) = Inr (r, s') \<and>
     dims r = dims g \<and> live s' r \<and> ready s'"
  proof (cases "i = 1")
    case True
    have l0: "live s0 g" "live s0 x0" "live s0 x1" using q(5) l by blast+
    from build_binary [OF q(4) l0(3,3) binary_out_self, of "''multiply''"] obtain r1 s1 where
      r1: "build1 B ''multiply'' [x1, x1] s0 = Inr (r1, s1)" "dims r1 = dims x1" "live s1 r1" "ready s1"
        "live s1 g" "live s1 x0" using l0 by auto
    from build_binary [OF r1(4,6,3), of "dims g" "''divide''"] l(5) r1(2) obtain r2 s2 where
      r2: "build1 B ''divide'' [x0, r1] s1 = Inr (r2, s2)" "dims r2 = dims g" "live s2 r2" "ready s2"
        "live s2 g" using r1 by auto
    from build_binary [OF r2(4,5,3), of "dims g" "''multiply''"] binary_out_self r2(2) obtain r3 s3 where
      r3: "build1 B ''multiply'' [g, r2] s2 = Inr (r3, s3)" "dims r3 = dims g" "live s3 r3" "ready s3" by auto
    from const_ok [OF r3(4)] obtain c s4 where
      c: "create_constant B float_minus_one s3 = Inr (c, s4)" "dims c = [1]" "live s4 c" "ready s4" "live s4 r3"
      using r3(3) by blast
    from build_binary [OF c(4,5,3), of "dims g" "''multiply''"] b(4) [of c] b(3) c(2) r3(2)
    show ?thesis using True by (auto simp: divisor_gradient_def r1(1) r2(1) r3(1) c(1))
  qed (use q in simp)
  then obtain r s' where r: "(if int i = 1 then divisor_gradient B x0 x1 g s0 else Inr (q, s0)) = Inr (r, s')"
     "dims r = dims g" "live s' r" "ready s'" by blast
  have "divide_backward B (int i) [x0, x1] g s =
      reduce_broadcast_dimensions B r (nc_shape x) (nc_shape g) s'"
    using assms(4) r(1) unfolding divide_backward_def x_def by (auto simp: q(1) less_2_cases_iff)
  with reduced [OF assms(1) r(4,3,2) refl l(1)] show ?thesis by (simp add: x_def)
qed

text \<open>Through the dispatch: the gradient of an operand of the four operations has the operand's shape,
  padded with leading ones to the rank of the output.\<close>

lemma binary_backward_shape:
  assumes "python_shapes base_shape" "ready s" "binary_grad live s x0 x1 g" "i < 2"
    and "op_type o1 \<in> {Op_Add, Op_Subtract, Op_Multiply, Op_Divide}" "op_attrs o1 = []"
  shows "\<exists>r s'. Op_backward B base_backward old o1 (int i) [x0, x1] y g s = Inr (r, s') \<and>
    dims r = pad_front (length (dims g)) (dims ([x0, x1] ! i)) \<and> live s' r \<and> ready s'"
  using assms(5)
  by (elim insertE) (simp_all add: Op_backward_def Let_def add_backward_shape [OF assms(1-4)]
      subtract_backward_shape [OF assms(1-4,6)] multiply_backward_shape [OF assms(1-4,6)]
      divide_backward_shape [OF assms(1-4)])

end

end
