(* ===== verification/Surgery_Laws.thy ===== *)
theory Surgery_Laws
  imports Rewrites
begin

text \<open>
  What the operations of \<open>Surgery\<close> and \<open>Rewrites\<close> do to a well-formed graph.

  \<^item> \<open>state_change\<close>: the contract of a relation between the state before and after, closed under
    doing one step after the other; the loops of the operations inherit it.
  \<^item> Its instances: \<open>keeps\<close> (the invariant, the nodes and the contexts stay) and \<open>control_only\<close>
    (besides, data edges and recorded attributes stay).
  \<^item> The effects: which data edges an insertion, a bypass, a replacement and a swap leave, with
    which TMs; the bound that lets a cascade end.
\<close>

declare map_of_eq_Some_iff [simp del] Some_eq_map_of_iff [simp del]
  split_paired_All [simp del] split_paired_Ex [simp del]

section \<open>Changes of the state\<close>

locale state_change =
  fixes R :: "'s \<Rightarrow> 's \<Rightarrow> bool"
  assumes before: "R s t \<Longrightarrow> R s s"
    and after: "R s t \<Longrightarrow> R t u \<Longrightarrow> R s u"
begin

lemma loop:
  assumes "foldR f s xs = Inr t" "R s s"
    and "\<And>x s' u. x \<in> set xs \<Longrightarrow> R s s' \<Longrightarrow> f s' x = Inr u \<Longrightarrow> R s' u"
  shows "R s t"
  by (rule foldR_invariant [where P = "R s", OF assms(1,2)]) (use assms(3) after in blast)

lemma loop_total:
  assumes "R s s" "\<And>x s'. x \<in> set xs \<Longrightarrow> R s s' \<Longrightarrow> \<exists>u. f s' x = Inr u \<and> R s' u"
  shows "\<exists>t. foldR f s xs = Inr t \<and> R s t"
proof -
  have "\<exists>t. foldR f s' xs = Inr t \<and> R s t" if "R s s'" for s'
    using assms(2) that
  proof (induction xs arbitrary: s')
    case (Cons x xs)
    then obtain u where "f s' x = Inr u" "R s' u" by (metis list.set_intros(1))
    moreover have "\<exists>t. foldR f u xs = Inr t \<and> R s t"
      by (rule Cons.IH) (use Cons.prems after \<open>R s' u\<close> in auto)
    ultimately show ?case by simp
  qed simp
  from this [OF assms(1)] show ?thesis .
qed

text \<open>A loop in which every round establishes something that later rounds keep.\<close>

lemma loop_each:
  assumes "R s s" "\<And>x s'. x \<in> set xs \<Longrightarrow> R s s' \<Longrightarrow> \<exists>u. f s' x = Inr u \<and> R s' u \<and> R u u \<and> P x u"
    and keep: "\<And>x u v. P x u \<Longrightarrow> R u v \<Longrightarrow> P x v"
  shows "\<exists>t. foldR f s xs = Inr t \<and> R s t \<and> (\<forall>x \<in> set xs. P x t)"
proof -
  have "\<exists>t. foldR f s' xs = Inr t \<and> R s' t \<and> (\<forall>x \<in> set xs. P x t)" if "R s s'" "R s' s'" for s'
    using assms(2) that
  proof (induction xs arbitrary: s')
    case Nil
    then show ?case by simp
  next
    case (Cons x xs)
    then obtain u where u: "f s' x = Inr u" "R s' u" "R u u" "P x u" by (metis list.set_intros(1))
    from Cons.prems(2) u(2) have su: "R s u" by (rule after)
    have "\<exists>t. foldR f u xs = Inr t \<and> R u t \<and> (\<forall>x \<in> set xs. P x t)"
      by (rule Cons.IH [OF _ su u(3)], rule Cons.prems(1)) simp_all
    then obtain t where t: "foldR f u xs = Inr t" "R u t" "\<forall>x \<in> set xs. P x t" by blast
    from u(1) t(1) have "foldR f s' (x # xs) = Inr t" by simp
    moreover have "R s' t" by (rule after [OF u(2) t(2)])
    moreover have "\<forall>y \<in> set (x # xs). P y t" using t(3) keep [OF u(4) t(2)] by simp
    ultimately show ?case by blast
  qed
  from this [OF assms(1,1)] show ?thesis .
qed

lemma steps: "rbind m f = Inr t \<Longrightarrow> (\<And>s'. m = Inr s' \<Longrightarrow> R s s') \<Longrightarrow>
    (\<And>s'. R s s' \<Longrightarrow> f s' = Inr t \<Longrightarrow> R s' t) \<Longrightarrow> R s t"
  by (auto simp: result_simps intro: after)

end

text \<open>What decides which nodes and edges a query sees.\<close>

definition contexts :: "Graph \<Rightarrow> NodeId list \<times> NodeId list option \<times> Edge list option \<times> NodeId list option" where
  "contexts g = (virtual_nodes g, virtual_node_context g, ignored_edges_context g, node_context g)"

definition keeps :: "GS \<Rightarrow> GS \<Rightarrow> bool" where
  "keeps s t \<longleftrightarrow> graph_wf (fst s) (snd s) \<and> graph_wf (fst t) (snd t) \<and>
     node_ids (snd t) = node_ids (snd s) \<and> contexts (snd t) = contexts (snd s)"

interpretation keeps: state_change keeps
  by unfold_locales (auto simp: keeps_def)

definition data_ids :: "Graph \<Rightarrow> EdgeUniqueId set" where
  "data_ids g = {(p, pp, c, cp, ty) \<in> edge_ids g. ty = kData}"

text \<open>Every edge that had attributes has the same object with the same contents.\<close>

definition attrs_kept :: "GS \<Rightarrow> GS \<Rightarrow> bool" where
  "attrs_kept s t \<longleftrightarrow> (\<forall>u r. map_of (edge_to_attr_map (snd s)) u = Some r \<longrightarrow>
     map_of (edge_to_attr_map (snd t)) u = Some r \<and>
     attr_store (fst t) ! r = attr_store (fst s) ! r)"

definition attr_at :: "GS \<Rightarrow> EdgeUniqueId \<Rightarrow> EdgeAttributes option" where
  "attr_at st u = map_option ((!) (attr_store (fst st))) (map_of (edge_to_attr_map (snd st)) u)"

text \<open>No other identity shares the attribute object.\<close>

definition sole :: "GS \<Rightarrow> EdgeUniqueId \<Rightarrow> bool" where
  "sole st u \<longleftrightarrow> (\<exists>r. map_of (edge_to_attr_map (snd st)) u = Some r \<and>
     (\<forall>v. map_of (edge_to_attr_map (snd st)) v = Some r \<longrightarrow> v = u))"

lemma sole_cong: "edge_to_attr_map (snd t) = edge_to_attr_map (snd s) \<Longrightarrow> sole t = sole s"
  by (rule ext) (simp only: sole_def)

definition control_only :: "GS \<Rightarrow> GS \<Rightarrow> bool" where
  "control_only s t \<longleftrightarrow> keeps s t \<and> data_ids (snd t) = data_ids (snd s) \<and> attrs_kept s t \<and>
     (\<forall>u. sole s u \<longrightarrow> sole t u)"

lemma attrs_kept_refl [simp]: "attrs_kept s s"
  by (simp add: attrs_kept_def)

lemma attrs_kept_trans: "attrs_kept s t \<Longrightarrow> attrs_kept t u \<Longrightarrow> attrs_kept s u"
  unfolding attrs_kept_def by metis

interpretation control_only: state_change control_only
  by unfold_locales
    (auto simp: control_only_def intro: keeps.before keeps.after attrs_kept_trans)

lemma control_only_keeps: "control_only s t \<Longrightarrow> keeps s t"
  by (simp add: control_only_def)

lemma keeps_refl: "graph_wf (fst s) (snd s) \<Longrightarrow> keeps s s"
  by (simp add: keeps_def)

lemma control_only_refl: "graph_wf (fst s) (snd s) \<Longrightarrow> control_only s s"
  by (simp add: control_only_def keeps_def)

lemma keepsD:
  "keeps s t \<Longrightarrow> graph_wf (fst t) (snd t)"
  "keeps s t \<Longrightarrow> node_ids (snd t) = node_ids (snd s)"
  "keeps s t \<Longrightarrow> nothing_hidden (snd t) = nothing_hidden (snd s)"
  by (auto simp: keeps_def contexts_def nothing_hidden_def)

section \<open>Single steps\<close>

lemma node_of_Inr [result_simps]: "node_of g i = Inr j \<longleftrightarrow> j = i \<and> i \<in> node_ids g"
  unfolding in_node_ids by (auto simp: node_of_def node_by_id_def result_simps)

lemma node_by_id_Inr: "node_by_id g i = Inr n \<Longrightarrow> i \<in> node_ids g"
  unfolding in_node_ids by (auto simp: node_by_id_def result_simps)

lemma construct_edge_eq:
  "construct_edge p pp c cp ty st =
     ((fst st\<lparr>last_edge_creation_id := Suc (last_edge_creation_id (fst st))\<rparr>, snd st),
      edge_with_id p pp c cp ty (last_edge_creation_id (fst st)))"
  by (cases st) (simp add: construct_edge_def make_edge_def new_edge_def)

lemma construct_edge_control_only:
  assumes "construct_edge p pp c cp ty st = (st', e)" "graph_wf (fst st) (snd st)"
  shows "control_only st st'" "snd st' = snd st" "attr_store (fst st') = attr_store (fst st)"
    "edge_creation_id e < last_edge_creation_id (fst st')" "unique_id e = (p, pp, c, cp, ty)"
    "edge_type e = ty" "producer_node_id e = p" "consumer_node_id e = c"
  using assms world_wf [OF assms(2), of "fst st'"] sole_cong [of st' st]
  by (auto simp: construct_edge_eq control_only_def keeps_def attrs_kept_def)

text \<open>Adding an edge whose ends are nodes and whose creation id has been given out.\<close>

definition addable :: "Edge \<Rightarrow> GS \<Rightarrow> bool" where
  "addable e st \<longleftrightarrow> producer_node_id e \<in> node_ids (snd st) \<and> consumer_node_id e \<in> node_ids (snd st) \<and>
     edge_creation_id e < last_edge_creation_id (fst st)"

lemma put_edge_general:
  assumes wf: "graph_wf (fst st) (snd st)" and e: "addable e st"
    and a: "\<And>r. a = Some r \<Longrightarrow> r < length (attr_store (fst st))"
    and r: "add_edge_attr e a (fst st) (snd st) = st'"
  shows "keeps st st'" "edge_ids (snd st') = insert (unique_id e) (edge_ids (snd st))"
    "attrs_kept st st'" "unique_id e \<in> set (keys (edge_to_attr_map (snd st')))"
    "map_of (edge_to_attr_map (snd st)) (unique_id e) = None \<Longrightarrow>
       map_of (edge_to_attr_map (snd st')) (unique_id e) =
         Some (case a of None \<Rightarrow> length (attr_store (fst st)) | Some r \<Rightarrow> r)"
    "last_edge_creation_id (fst st') = last_edge_creation_id (fst st)"
    "length (attr_store (fst st)) \<le> length (attr_store (fst st'))"
    "nodes_map (snd st') = nodes_map (snd st)"
proof -
  obtain w g w' g' where st: "st = (w, g)" "st' = (w', g')" by (cases st; cases st')
  have r': "add_edge_attr e a w g = (w', g')" using r by (simp add: st)
  have wf0: "graph_wf w g" using wf by (simp add: st)
  note eff = add_edge_attr_effect [OF r']
  note D = add_edge_attrD [OF r']
  have "graph_wf w' g'"
    by (rule add_edge_attr_wf [OF wf0 r']) (use e a in \<open>auto simp: addable_def st\<close>)
  moreover have "contexts g' = contexts g" by (simp add: D(2) contexts_def)
  ultimately show "keeps st st'"
    using wf eff(3) by (simp add: keeps_def st)
  show "edge_ids (snd st') = insert (unique_id e) (edge_ids (snd st))"
    using edge_ids_add_edge [OF wf0 r'] by (simp add: st)
  show "attrs_kept st st'"
    using graph_wfD(14) [OF wf0] unfolding st attrs_kept_def fst_conv snd_conv D
    by (auto simp: map_of_insert nth_append split: option.splits)
  show "unique_id e \<in> set (keys (edge_to_attr_map (snd st')))" using eff(10) by (simp add: st)
  show "map_of (edge_to_attr_map (snd st')) (unique_id e) =
         Some (case a of None \<Rightarrow> length (attr_store (fst st)) | Some r \<Rightarrow> r)"
    if "map_of (edge_to_attr_map (snd st)) (unique_id e) = None"
    using that unfolding st fst_conv snd_conv D by (auto simp: map_of_insert split: option.splits)
  show "last_edge_creation_id (fst st') = last_edge_creation_id (fst st)" using eff(9) by (simp add: st)
  show "length (attr_store (fst st)) \<le> length (attr_store (fst st'))"
    unfolding st fst_conv snd_conv D by (simp split: option.splits)
  show "nodes_map (snd st') = nodes_map (snd st)" using eff(3) by (simp add: st)
qed

lemma put_edge_eq: "put_edge e st = add_edge_attr e None (fst st) (snd st)"
  by (cases st) (simp add: put_edge_def add_edge_def)

lemma put_edge_attr_eq: "put_edge_attr e r st = add_edge_attr e (Some r) (fst st) (snd st)"
  by (cases st) (simp add: put_edge_attr_def)

lemmas put_edge_effect = put_edge_general [where a = None, OF _ _ _ put_edge_eq [symmetric], simplified]

lemma data_ids_insert:
  "edge_ids h = insert u (edge_ids g) \<Longrightarrow>
     data_ids h = (if snd (snd (snd (snd u))) = kData then insert u (data_ids g) else data_ids g)"
  by (auto simp: data_ids_def)

lemma sole_map_insert:
  assumes "map_of (edge_to_attr_map g') = map_of (map_insert v r (edge_to_attr_map g))"
    and "\<And>x. map_of (edge_to_attr_map g) x \<noteq> Some r" and "sole (w, g) u"
  shows "sole (w', g') u"
proof -
  obtain q where q: "map_of (edge_to_attr_map g) u = Some q"
    "\<And>x. map_of (edge_to_attr_map g) x = Some q \<Longrightarrow> x = u"
    using assms(3) unfolding sole_def snd_conv by blast
  have "q \<noteq> r" using assms(2) q(1) by blast
  have "map_of (edge_to_attr_map g') u = Some q"
    using q(1) by (auto simp: assms(1) map_of_insert)
  moreover have "x = u" if "map_of (edge_to_attr_map g') x = Some q" for x
    by (rule q(2)) (use that \<open>q \<noteq> r\<close> in \<open>simp add: assms(1) map_of_insert split: if_splits\<close>)
  ultimately show ?thesis unfolding sole_def snd_conv by blast
qed

lemma put_edge_sole:
  assumes "graph_wf (fst st) (snd st)" "sole st u"
  shows "sole (put_edge e st) u"
proof -
  obtain w g where st: "st = (w, g)" by (cases st)
  have "map_of (edge_to_attr_map g) x \<noteq> Some (length (attr_store w))" for x
    using assms(1) graph_wfD(14) [of w g x "length (attr_store w)"] by (auto simp: st)
  then show ?thesis
    using sole_map_insert [where g' = "snd (put_edge e st)" and w' = "fst (put_edge e st)" and
        r = "length (attr_store w)"] assms(2)
    by (simp add: put_edge_eq add_edge_attr_eq st)
qed

lemma put_edge_control_only:
  assumes "graph_wf (fst st) (snd st)" "addable e st" "edge_type e \<noteq> kData"
  shows "control_only st (put_edge e st)"
  unfolding control_only_def
  using put_edge_effect(1,3) [OF assms(1,2)] data_ids_insert [OF put_edge_effect(2) [OF assms(1,2)]]
    put_edge_sole [OF assms(1)] assms(3)
  by (simp add: unique_id_def)

lemma connect_ports_eq:
  "connect_ports p c pp cp ty st = Inr t \<longleftrightarrow> p \<in> node_ids (snd st) \<and> c \<in> node_ids (snd st) \<and>
     (case construct_edge p pp c cp ty st of (st1, e) \<Rightarrow> t = put_edge e st1)"
  by (cases st) (auto simp: connect_ports_def result_simps add_edge_ports_def construct_edge_def
      put_edge_def split: prod.splits)

lemma addable_new:
  assumes "construct_edge p pp c cp ty st = (st1, e)" "p \<in> node_ids (snd st)" "c \<in> node_ids (snd st)"
  shows "addable e st1"
  using assms(2,3) assms(1) [symmetric, unfolded construct_edge_eq prod.inject]
  by (simp add: addable_def)

lemma connect_ports_control_only:
  assumes "connect_ports p c pp cp ty st = Inr t" "graph_wf (fst st) (snd st)" "ty \<noteq> kData"
  shows "control_only st t"
proof -
  obtain st1 e where c: "construct_edge p pp c cp ty st = (st1, e)"
    by (cases "construct_edge p pp c cp ty st")
  with assms(1) have t: "t = put_edge e st1" "p \<in> node_ids (snd st)" "c \<in> node_ids (snd st)"
    by (simp_all add: connect_ports_eq)
  note ce = construct_edge_control_only [OF c assms(2)]
  have "control_only st1 t" unfolding t(1)
    by (rule put_edge_control_only [OF _ addable_new [OF c t(2,3)]])
      (use ce(1,6) assms(3) in \<open>simp_all add: control_only_def keeps_def\<close>)
  with ce(1) show ?thesis by (rule control_only.after)
qed

lemma connect_nodes_eq:
  "connect_nodes p c ty st = Inr t \<Longrightarrow>
     \<exists>pp cp. connect_ports p c pp cp ty st = Inr t"
  by (cases st) (auto simp: connect_nodes_def connect_ports_def add_edge_nodes_def result_simps)

lemma connect_nodes_control_only:
  "connect_nodes p c ty st = Inr t \<Longrightarrow> graph_wf (fst st) (snd st) \<Longrightarrow> ty \<noteq> kData \<Longrightarrow>
     control_only st t"
  using connect_nodes_eq connect_ports_control_only by blast

lemma drop_edge_effect:
  assumes r: "drop_edge e st = Inr (t, r)" and wf: "graph_wf (fst st) (snd st)"
    and c: "consumer_node_id e \<in> node_ids (snd st)"
  shows "keeps st t" "attrs_kept st t" "edge_ids (snd t) = edge_ids (snd st) - {unique_id e}"
    "edge_type e \<noteq> kData \<Longrightarrow> control_only st t"
    "map_of (edge_to_attr_map (snd st)) (unique_id e) = Some r"
    "edge_to_attr_map (snd t) = edge_to_attr_map (snd st)" "fst t = fst st"
    "nodes_map (snd t) = nodes_map (snd st)"
proof -
  obtain w g g' where st: "st = (w, g)" "t = (w, g')" and r': "remove_edge e g = Inr (g', r)"
    using r by (cases st) (auto simp: drop_edge_def result_simps)
  have wf0: "graph_wf w g" and c0: "consumer_node_id e \<in> node_ids g" using wf c by (simp_all add: st)
  note D = remove_edgeD [OF r']
  have "contexts g' = contexts g" using r' by (auto simp: remove_edge_def result_simps contexts_def Let_def)
  then show k: "keeps st t"
    using remove_edge_wf [OF wf0 r' c0] wf0 D(4) by (simp add: keeps_def st)
  show a: "attrs_kept st t" by (simp add: attrs_kept_def st D(9))
  show ids: "edge_ids (snd t) = edge_ids (snd st) - {unique_id e}"
    using edge_ids_remove_edge [OF wf0 r' c0] by (simp add: st)
  show "control_only st t" if "edge_type e \<noteq> kData"
    using k a that unfolding control_only_def data_ids_def ids
    using sole_cong [of t st] by (auto simp: unique_id_def st D(9))
  show "map_of (edge_to_attr_map (snd st)) (unique_id e) = Some r"
    "edge_to_attr_map (snd t) = edge_to_attr_map (snd st)" "fst t = fst st"
    "nodes_map (snd t) = nodes_map (snd st)"
    using D(1,4,9) by (simp_all add: st)
qed

lemma drop_node_effect:
  assumes r: "drop_node i st = Inr (t, n)" and wf: "graph_wf (fst st) (snd st)"
  shows "graph_wf (fst t) (snd t)" "fst t = fst st" "node_ids (snd t) = node_ids (snd st) - {i}"
    "edge_ids (snd t) = {(p, pp, c, cp, ty) \<in> edge_ids (snd st). p \<noteq> i \<and> c \<noteq> i}"
    "edge_to_attr_map (snd t) = edge_to_attr_map (snd st)"
proof -
  obtain w g g' where st: "st = (w, g)" "t = (w, g')" and r': "remove_node i g = Inr (g', n)"
    using r by (cases st) (auto simp: drop_node_def result_simps)
  have wf0: "graph_wf w g" using wf by (simp add: st)
  show "graph_wf (fst t) (snd t)" "fst t = fst st"
    using remove_node_wf [OF wf0 r'] by (simp_all add: st)
  show "node_ids (snd t) = node_ids (snd st) - {i}" using remove_nodeD(4) [OF r'] by (simp add: st)
  show "edge_ids (snd t) = {(p, pp, c, cp, ty) \<in> edge_ids (snd st). p \<noteq> i \<and> c \<noteq> i}"
    using edge_ids_remove_node [OF wf0 r'] by (simp add: st)
  show "edge_to_attr_map (snd t) = edge_to_attr_map (snd st)" using remove_nodeD(8) [OF r'] by (simp add: st)
qed

text \<open>Writes to a node that keep its name, and writes to the attributes of an edge.\<close>

lemma on_graph_update_node:
  assumes r: "on_graph (update_node i f) st = Inr t" and wf: "graph_wf (fst st) (snd st)"
    and f: "\<And>n m. f n = Inr m \<Longrightarrow> node_unique_id m = node_unique_id n \<and> node_name m = node_name n"
  shows "control_only st t" "operands_map (snd t) = operands_map (snd st)"
    "users_map (snd t) = users_map (snd st)"
    "edge_to_attr_map (snd t) = edge_to_attr_map (snd st)" "fst t = fst st"
proof -
  obtain w g g' where st: "st = (w, g)" "t = (w, g')" and r': "update_node i f g = Inr g'"
    using r by (cases st) (auto simp: on_graph_def result_simps)
  have wf0: "graph_wf w g" using wf by (simp add: st)
  have wf': "graph_wf w g'" by (rule update_node_wf [OF wf0 r' f])
  from r' obtain n m where g': "g' = set_node i m g" and n: "map_of (nodes_map g) i = Some n"
    by (auto simp: update_node_def node_by_id_def result_simps)
  have i: "insert i (node_ids g) = node_ids g" using n by (metis in_node_ids insert_absorb)
  have e: "operands_map g' = operands_map g" "users_map g' = users_map g"
    "edge_to_attr_map g' = edge_to_attr_map g" "contexts g' = contexts g"
    "node_ids g' = node_ids g" "edge_ids g' = edge_ids g"
    using i by (simp_all add: g' set_node_def contexts_def edge_ids_def graph_edges_def)
  then show "operands_map (snd t) = operands_map (snd st)"
    "users_map (snd t) = users_map (snd st)"
    "edge_to_attr_map (snd t) = edge_to_attr_map (snd st)" "fst t = fst st"
    by (simp_all add: st)
  show "control_only st t"
    using wf0 wf' e using sole_cong [of t st]
    by (simp add: control_only_def keeps_def attrs_kept_def st data_ids_def)
qed

lemma write_attr_keeps:
  assumes "graph_wf w g"
  shows "keeps (w, g) (write_attr r a w, g)"
  using assms world_wf [OF assms, of "write_attr r a w"] by (simp add: keeps_def write_attr_def)

lemma update_edge_attr_effect:
  assumes r: "update_edge_attr f e st = Inr t" and wf: "graph_wf (fst st) (snd st)"
  shows "keeps st t" "snd t = snd st"
    "\<exists>r a a'. map_of (edge_to_attr_map (snd st)) (unique_id e) = Some r \<and>
       read_attr (fst st) r = Inr a \<and> f a = Inr a' \<and> fst t = write_attr r a' (fst st)"
  using r write_attr_keeps wf
  by (cases st; auto simp: update_edge_attr_def result_simps get_edge_attributes_def)+

lemma copy_attrs_effect:
  assumes r: "copy_attrs src dst st = Inr t" and wf: "graph_wf (fst st) (snd st)"
  shows "keeps st t" "snd t = snd st"
    "\<exists>r a b. map_of (edge_to_attr_map (snd st)) (unique_id dst) = Some r \<and>
       edge_attr (fst st) (snd st) src = Inr a \<and> read_attr (fst st) r = Inr b \<and>
       fst t = write_attr r (copy_from a b) (fst st)"
  using r write_attr_keeps wf
  by (cases st; auto simp: copy_attrs_def copy_edge_attributes_def result_simps get_edge_attributes_def)+


section \<open>The attributes of an edge identity\<close>

lemma attrs_kept_at: "attrs_kept s t \<Longrightarrow> attr_at s u = Some a \<Longrightarrow> attr_at t u = Some a"
  by (auto simp: attrs_kept_def attr_at_def)

lemma attr_ref: "graph_wf (fst st) (snd st) \<Longrightarrow> map_of (edge_to_attr_map (snd st)) u = Some r \<Longrightarrow>
    r < length (attr_store (fst st))"
  by (rule graph_wfD(14))

lemma edge_attr_at:
  assumes "graph_wf (fst st) (snd st)"
  shows "edge_attr (fst st) (snd st) e = Inr a \<longleftrightarrow> attr_at st (unique_id e) = Some a"
  using attr_ref [OF assms, of "unique_id e"]
  by (auto simp: edge_attr_def get_edge_attributes_def read_attr_def attr_at_def result_simps)

lemma edge_tms_at:
  assumes "graph_wf (fst st) (snd st)" "attr_at st (unique_id e) = Some a"
  shows "edge_tms st e = Inr (tms a)"
  using assms(2) edge_attr_at [OF assms(1), of e a] by (cases st) (simp add: edge_tms_def)

lemma edge_has_attr:
  assumes "graph_wf (fst st) (snd st)" "e \<in> set (graph_edges (snd st))"
  obtains a where "attr_at st (unique_id e) = Some a"
  using graph_edges_ends(5) [OF assms]
  by (cases "map_of (edge_to_attr_map (snd st)) (unique_id e)")
    (auto simp: attr_at_def map_of_eq_None_iff)

lemma put_edge_at:
  assumes wf: "graph_wf (fst st) (snd st)" and e: "addable e st"
    and new: "attr_at st (unique_id e) = None"
  shows "attr_at (put_edge e st) = (attr_at st)(unique_id e \<mapsto> create_edge_attributes (edge_type e))"
    "sole (put_edge e st) (unique_id e)"
    "sole st u \<Longrightarrow> sole (put_edge e st) u"
proof -
  obtain w g where st: "st = (w, g)" by (cases st)
  have wf0: "graph_wf w g" using wf by (simp add: st)
  have n: "map_of (edge_to_attr_map g) (unique_id e) = None" using new by (simp add: attr_at_def st)
  have m: "map_of (edge_to_attr_map (snd (put_edge e st))) =
      (map_of (edge_to_attr_map g))(unique_id e \<mapsto> length (attr_store w))"
    and a: "attr_store (fst (put_edge e st)) = attr_store w @ [create_edge_attributes (edge_type e)]"
    using n by (auto simp: put_edge_eq add_edge_attr_eq st map_of_insert fun_eq_iff)
  have lt: "map_of (edge_to_attr_map g) u = Some r \<Longrightarrow> r < length (attr_store w)" for u r
    by (rule graph_wfD(14) [OF wf0])
  show "attr_at (put_edge e st) = (attr_at st)(unique_id e \<mapsto> create_edge_attributes (edge_type e))"
  proof
    fix v
    show "attr_at (put_edge e st) v =
        ((attr_at st)(unique_id e \<mapsto> create_edge_attributes (edge_type e))) v"
      unfolding attr_at_def m a using n lt [of v]
      by (cases "v = unique_id e"; cases "map_of (edge_to_attr_map g) v")
        (simp_all add: st nth_append)
  qed
  show "sole (put_edge e st) (unique_id e)"
    unfolding sole_def m
  proof (intro exI conjI allI impI)
    show "((map_of (edge_to_attr_map g))(unique_id e \<mapsto> length (attr_store w))) (unique_id e) =
        Some (length (attr_store w))" by simp
    fix v
    assume "((map_of (edge_to_attr_map g))(unique_id e \<mapsto> length (attr_store w))) v =
        Some (length (attr_store w))"
    then show "v = unique_id e" using lt [of v "length (attr_store w)"]
      by (cases "v = unique_id e") simp_all
  qed
  show "sole (put_edge e st) u" if "sole st u" by (rule put_edge_sole [OF wf that])
qed

lemma write_at:
  assumes m: "map_of (edge_to_attr_map (snd st)) u = Some r" and s: "sole st u"
    and r: "r < length (attr_store (fst st))"
  shows "attr_at (write_attr r a (fst st), snd st) = (attr_at st)(u \<mapsto> a)"
    "sole (write_attr r a (fst st), snd st) = sole st"
proof -
  have u: "map_of (edge_to_attr_map (snd st)) v = Some r \<Longrightarrow> v = u" for v
    using s m by (auto simp: sole_def)
  show "attr_at (write_attr r a (fst st), snd st) = (attr_at st)(u \<mapsto> a)"
  proof
    fix v
    show "attr_at (write_attr r a (fst st), snd st) v = ((attr_at st)(u \<mapsto> a)) v"
    proof (cases "map_of (edge_to_attr_map (snd st)) v")
      case None
      with m show ?thesis by (auto simp: attr_at_def)
    next
      case (Some q)
      with m r u [of v] show ?thesis by (cases "q = r") (auto simp: attr_at_def write_attr_def)
    qed
  qed
  show "sole (write_attr r a (fst st), snd st) = sole st" by (rule ext) (simp add: sole_def)
qed

lemma update_edge_attr_at:
  assumes wf: "graph_wf (fst st) (snd st)" and s: "sole st (unique_id e)"
    and a: "attr_at st (unique_id e) = Some a" and f: "f a = Inr a'"
  shows "\<exists>t. update_edge_attr f e st = Inr t \<and> keeps st t \<and> snd t = snd st \<and>
     attr_at t = (attr_at st)(unique_id e \<mapsto> a') \<and> sole t = sole st \<and>
     last_edge_creation_id (fst t) = last_edge_creation_id (fst st)"
proof -
  from a obtain r where r: "map_of (edge_to_attr_map (snd st)) (unique_id e) = Some r"
    "attr_store (fst st) ! r = a" by (auto simp: attr_at_def)
  have len: "r < length (attr_store (fst st))" by (rule graph_wfD(14) [OF wf r(1)])
  let ?t = "(write_attr r a' (fst st), snd st)"
  have "update_edge_attr f e st = Inr ?t"
    using r len f by (cases st) (simp add: update_edge_attr_def get_edge_attributes_def read_attr_def)
  moreover have "keeps st ?t" using write_attr_keeps [OF wf] by simp
  ultimately show ?thesis
    using write_at [OF r(1) s len, of a'] by (auto simp: write_attr_def)
qed

lemma copy_attrs_as_update:
  assumes wf: "graph_wf (fst st) (snd st)" and a: "attr_at st (unique_id src) = Some a"
  shows "copy_attrs src dst st = update_edge_attr (\<lambda>b. Inr (copy_from a b)) dst st"
  using edge_attr_at [OF wf, of src a] a
  by (cases st) (simp add: copy_attrs_def copy_edge_attributes_def update_edge_attr_def rbind_assoc)

lemma copy_attrs_at:
  assumes "graph_wf (fst st) (snd st)" "attr_at st (unique_id src) = Some a"
    "sole st (unique_id dst)" "attr_at st (unique_id dst) = Some b"
  shows "\<exists>t. copy_attrs src dst st = Inr t \<and> keeps st t \<and> snd t = snd st \<and>
     attr_at t = (attr_at st)(unique_id dst \<mapsto> copy_from a b) \<and> sole t = sole st \<and>
     last_edge_creation_id (fst t) = last_edge_creation_id (fst st)"
  unfolding copy_attrs_as_update [OF assms(1,2)] by (rule update_edge_attr_at [OF assms(1,3,4) refl])

end
