(* ===== verification/Decompose.thy ===== *)
theory Decompose
  imports Op_Backward Surgery_Laws
begin

text \<open>
  Decomposition of operations (\<open>forge/csrc/passes/decomposing_context.hpp\<close> and \<open>.cpp\<close>).

  \<open>DecompState\<close> is a \<open>DecomposingContext\<close> with the graph it works on: the node being decomposed, the
  number of operations created so far, the operation that replaces the node, and the operations
  inserted. \<open>op_index\<close> is a \<open>uint32_t\<close> that counts the nodes of one decomposition; it is a natural
  number here.

  Python decides how most operations decompose (\<open>base_decompose\<close>) and computes most shapes
  (\<open>base_shape\<close>).
\<close>

declare map_of_eq_Some_iff [simp del] Some_eq_map_of_iff [simp del] split_paired_All [simp del]
  split_paired_Ex [simp del]

record DecompState =
  dcs_gs :: GS
  dcs_node :: NodeId
  dcs_subgraph :: u32
  dcs_op_index :: nat
  dcs_output_node :: NodeId
  dcs_inserted :: "NodeId list"

definition mk_DecomposingContext :: "NodeId \<Rightarrow> GS \<Rightarrow> DecompState result" where
  "mk_DecomposingContext i st =
     rbind (get_subgraph_id_for_node (snd st) i) (\<lambda>s.
       Inr \<lparr>dcs_gs = st, dcs_node = i, dcs_subgraph = s, dcs_op_index = 0, dcs_output_node = -1,
            dcs_inserted = []\<rparr>)"

section \<open>Creating an operation\<close>

text \<open>What the new node takes from the node being decomposed.\<close>

definition dc_dress ::
    "bool \<Rightarrow> bool \<Rightarrow> DataFormat \<Rightarrow> Node \<Rightarrow> Shape \<Rightarrow> Node \<Rightarrow> Node result" where
  "dc_dress dont_decompose optimize_hoist df dn shape n =
     (let n1 = (if dont_decompose then tag_node ''dont_decompose'' (TagBool True) n else n);
          n2 = (if optimize_hoist then tag_node ''optimize_hoist'' (TagBool True) n1 else n1);
          n3 = add_tags (hints dn) n2;
          n4 = set_epoch_type (epoch_type dn) n3;
          n5 = node_set_output_df (if df = DF_Invalid then node_output_df dn else df) n4
      in rbind (as_OpNode dn) (\<lambda>p.
         rbind (with_op (\<lambda>q. q\<lparr>golden_transforms := golden_transforms p\<rparr>) n5) (\<lambda>n6.
           node_set_shape shape n6)))"

text \<open>The TMs of the decomposed node's edges from the same producer, the last one winning.\<close>

definition dc_copy_tms :: "NodeId \<Rightarrow> NodeId \<Rightarrow> Edge \<Rightarrow> GS \<Rightarrow> GS result" where
  "dc_copy_tms node producer e st =
     rbind (operand_data_edges any_edge (snd st) node) (\<lambda>es.
       foldR (\<lambda>st op_edge.
         if producer_node_id op_edge = producer
         then rbind (edge_tms st op_edge) (\<lambda>ts. update_edge_attr (\<lambda>a. Inr (set_tms ts a)) e st)
         else Inr st) st es)"

definition dc_set_broadcasts :: "nat \<Rightarrow> DimBroadcast list \<Rightarrow> Edge \<Rightarrow> GS \<Rightarrow> GS result" where
  "dc_set_broadcasts k bs e st =
     foldR (\<lambda>st (operand, dim, size).
       if int k = operand then update_edge_attr (set_broadcast_dim dim size False) e st else Inr st) st bs"

definition dc_connect ::
    "bool \<Rightarrow> NodeId \<Rightarrow> NodeId \<Rightarrow> DimBroadcast list \<Rightarrow> GS \<Rightarrow> nat \<times> NodeContext \<Rightarrow> GS result" where
  "dc_connect copy_tms node new bs st = (\<lambda>(k, x).
     rbind (node_by_id (snd st) (nc_id x)) (\<lambda>cur.
     rbind (deref (snd st) new) (\<lambda>n.
     rbind (if epoch_type n \<noteq> epoch_type cur then
              tt_assert (epoch_type cur = Epoch_Forward \<and> epoch_type n = Epoch_Backward \<or>
                         epoch_type n = Epoch_Optimizer)
                (case construct_edge (nc_id x) 0 new 0 kAutogradFwdToBwd st of (st1, e) \<Rightarrow>
                   Inr (put_edge e st1))
            else Inr st) (\<lambda>st2.
     case construct_edge (nc_id x) 0 new (word_of_nat k) kData st2 of (st3, e) \<Rightarrow>
     rbind (if copy_tms then dc_copy_tms node (nc_id x) e (put_edge e st3) else Inr (put_edge e st3))
       (dc_set_broadcasts k bs e)))))"

definition dc_suffix :: "string \<Rightarrow> nat \<Rightarrow> string" where
  "dc_suffix opname k = ''.dc.'' @ opname @ ''.'' @ show_nat k"

text \<open>\<open>DecomposingContext::op\<close>\<close>

definition dc_new_op ::
    "base_shape_fn \<Rightarrow> bool \<Rightarrow> bool \<Rightarrow> bool \<Rightarrow> DataFormat \<Rightarrow> OpType \<Rightarrow> NodeContext list \<Rightarrow> DecompState \<Rightarrow>
       (NodeContext \<times> DecompState) result" where
  "dc_new_op base_shape copy_tms dont_decompose optimize_hoist df t args dc =
     rbind (deref (snd (dcs_gs dc)) (dcs_node dc)) (\<lambda>dn.
     rbind (put_node (mk_PyOpNode (node_name dn @ dc_suffix (op_name t) (dcs_op_index dc)) t)
              (dcs_subgraph dc) (dcs_gs dc)) (\<lambda>(st1, new).
     rbind (OpType_shape base_shape t (map (sh_dims \<circ> nc_shape) args)) (\<lambda>(shape, bs).
     rbind (on_graph (update_node new (dc_dress dont_decompose optimize_hoist df dn shape)) st1) (\<lambda>st2.
     rbind (foldR (dc_connect copy_tms (dcs_node dc) new bs) st2 (enumerate 0 args)) (\<lambda>st3.
     rbind (deref (snd st3) new) (\<lambda>n.
     rbind (mk_NodeContext n 0) (\<lambda>x.
       Inr (x, dc\<lparr>dcs_gs := st3, dcs_op_index := Suc (dcs_op_index dc),
                  dcs_inserted := dcs_inserted dc @ [new]\<rparr>))))))))"

definition dc_op_default :: "base_shape_fn \<Rightarrow> OpType \<Rightarrow> NodeContext list \<Rightarrow> DecompState \<Rightarrow> (NodeContext \<times> DecompState) result" where
  "dc_op_default base_shape = dc_new_op base_shape True False False DF_Invalid"

text \<open>\<open>DecomposingContext::tensor\<close>; \<open>infer_df\<close> is \<open>infer_data_format_from_py_tensor\<close>.\<close>

definition dc_tensor ::
    "(TensorRef \<Rightarrow> DataFormat) \<Rightarrow> TensorRef option \<Rightarrow> Shape \<Rightarrow> DecompState \<Rightarrow> (NodeContext \<times> DecompState) result" where
  "dc_tensor infer_df tensor shape dc =
     (case tensor of None \<Rightarrow> Inl Assert_failed | Some h \<Rightarrow>
       rbind (deref (snd (dcs_gs dc)) (dcs_node dc)) (\<lambda>dn.
       rbind (mk_ConstantTensorNode
                (''dc.input_tensor.'' @ node_name dn @ ''.'' @ show_nat (dcs_op_index dc)) tensor shape) (\<lambda>c.
       rbind (put_node c (dcs_subgraph dc) (dcs_gs dc)) (\<lambda>(st1, new).
       rbind (on_graph (update_node new (\<lambda>n. rbind (node_set_shape shape n) (\<lambda>n1.
                Inr (set_epoch_type (epoch_type dn) (node_set_output_df (infer_df h) n1))))) st1) (\<lambda>st2.
       rbind (deref (snd st2) new) (\<lambda>n.
       rbind (mk_NodeContext n 0) (\<lambda>x.
         Inr (x, dc\<lparr>dcs_gs := st2, dcs_op_index := Suc (dcs_op_index dc)\<rparr>))))))))"

section \<open>Replacing the node\<close>

text \<open>
  \<open>DecomposingContext::fuse\<close>. The assertion on the kind of the operand edges joins three inequalities
  with \<open>or\<close> and holds for every kind.
\<close>

definition dc_link_control :: "NodeId list \<Rightarrow> GS \<Rightarrow> Edge \<Rightarrow> GS result" where
  "dc_link_control inserted st e =
     (if edge_type e = kData \<or> edge_type e = kAutogradFwdToGradient then Inr st
      else tt_assert (edge_type e \<noteq> kControl \<or> edge_type e \<noteq> kDataLoopback \<or> edge_type e \<noteq> kControlLoop)
        (foldR (\<lambda>st i. case construct_edge (producer_node_id e) (producer_output_port_id e) i 0
             (edge_type e) st of (st1, e') \<Rightarrow> Inr (put_edge e' st1)) st inserted))"

definition dc_link_gradient :: "NodeId \<Rightarrow> GS \<Rightarrow> Edge list \<Rightarrow> GS result" where
  "dc_link_gradient new st es =
     (case filter (\<lambda>e. edge_type e = kAutogradFwdToGradient) es of
        [] \<Rightarrow> Inr st
      | e # _ \<Rightarrow> case construct_edge (producer_node_id e) (producer_output_port_id e) new 0
             (edge_type e) st of (st1, e') \<Rightarrow> Inr (put_edge e' st1))"

definition dc_link_user :: "NodeId \<Rightarrow> PortId \<Rightarrow> GS \<Rightarrow> Edge \<Rightarrow> GS result" where
  "dc_link_user new port st e =
     (case construct_edge new port (consumer_node_id e) (consumer_input_port_id e) (edge_type e) st of
        (st1, e') \<Rightarrow>
          rbind (edge_tms (put_edge e' st1) e) (\<lambda>ts.
            update_edge_attr (\<lambda>a. Inr (set_tms ts a)) e' (put_edge e' st1)))"

definition dc_fuse_with :: "NodeContext \<Rightarrow> PortId \<Rightarrow> DecompState \<Rightarrow> DecompState result" where
  "dc_fuse_with x port dc =
     (let new = nc_id x; node = dcs_node dc in
      rbind (node_by_id (snd (dcs_gs dc)) new) (\<lambda>n.
      rbind (as_PyOpNode n) (\<lambda>_.
      rbind (rbind (deref (snd (dcs_gs dc)) node) as_OpNode) (\<lambda>p.
      rbind (on_graph (update_node new (with_op (\<lambda>q. q\<lparr>gradient_op := gradient_op p\<rparr>))) (dcs_gs dc))
        (\<lambda>st1.
      rbind (operand_edges any_edge (snd st1) node) (\<lambda>es.
      rbind (foldR (dc_link_control (dcs_inserted dc)) st1 es) (\<lambda>st2.
      rbind (operand_edges any_edge (snd st2) node) (\<lambda>es2.
      rbind (dc_link_gradient new st2 es2) (\<lambda>st3.
      rbind (user_edges any_edge (snd st3) node) (\<lambda>us.
      rbind (foldR (dc_link_user new port) st3 us) (\<lambda>st4.
        Inr (dc\<lparr>dcs_gs := st4, dcs_output_node := new\<rparr>))))))))))))"

definition decomposer :: "base_shape_fn \<Rightarrow> DecompState Decomposer" where
  "decomposer base_shape = \<lparr>dc_op = dc_op_default base_shape, dc_fuse = dc_fuse_with\<rparr>"

section \<open>Decomposing a graph\<close>

text \<open>The operands of the node as contexts, with the shapes they have under the TMs of their edges.\<close>

definition decompose_inputs :: "base_shape_fn \<Rightarrow> NodeId \<Rightarrow> GS \<Rightarrow> NodeContext list result" where
  "decompose_inputs base_shape node st =
     rbind (operand_data_edges any_edge (snd st) node) (mapR (\<lambda>e.
       rbind (node_by_id (snd st) (producer_node_id e)) (\<lambda>n.
       rbind (mk_NodeContext n (producer_output_port_id e)) (\<lambda>x.
       rbind (shape_of_operand (get_op_shape base_shape) (fst st) (snd st) node (producer_node_id e) False)
         (\<lambda>s. Inr (x\<lparr>nc_shape := s\<rparr>))))))"

text \<open>Operands left without data users go with the node; one listed twice is freed before the second look.\<close>

definition drop_dangling :: "GS \<Rightarrow> NodeId \<Rightarrow> GS result" where
  "drop_dangling st i =
     rbind (deref (snd st) i) (\<lambda>_.
     rbind (data_users (snd st) i) (\<lambda>us.
       if us = [] then rbind (drop_node i st) (\<lambda>(st1, _). Inr st1) else Inr st))"

record DecompRun =
  dr_gs :: GS
  dr_mapping :: "(NodeId \<times> NodeId) list"
  dr_removed :: nat

definition decompose_node ::
    "DecomposeEpoch \<Rightarrow> base_shape_fn \<Rightarrow> DecompState base_decompose_fn \<Rightarrow> DecompRun \<Rightarrow> NodeId \<Rightarrow> DecompRun result" where
  "decompose_node ep base_shape base_decompose r i =
     rbind (deref (snd (dr_gs r)) i) (\<lambda>n.
       if node_type n \<noteq> kPyOp \<or> has_tag ''dont_decompose'' n then Inr r
       else rbind (as_PyOpNode n) (\<lambda>p.
            rbind (decompose_inputs base_shape i (dr_gs r)) (\<lambda>inputs.
            rbind (mk_DecomposingContext i (dr_gs r)) (\<lambda>dc.
            rbind (Op_decompose ep (decomposer base_shape) base_decompose (node_op_type p)
                     (new_op (node_op_type p)) inputs dc) (\<lambda>dc'.
              if dcs_op_index dc' = 0 then Inr (r\<lparr>dr_gs := dcs_gs dc'\<rparr>)
              else rbind (data_operands (snd (dcs_gs dc')) i) (\<lambda>os.
                   rbind (drop_node i (dcs_gs dc')) (\<lambda>(st1, _).
                   rbind (foldR drop_dangling st1 os) (\<lambda>st2.
                     Inr \<lparr>dr_gs = st2, dr_mapping = dr_mapping r @ [(dcs_output_node dc', i)],
                          dr_removed = Suc (dr_removed r)\<rparr>))))))))"

text \<open>
  The passes over the graph until one replaces nothing. Python can decompose without end, so the number
  of passes is a parameter.
\<close>

fun decompose_passes ::
    "nat \<Rightarrow> DecomposeEpoch \<Rightarrow> base_shape_fn \<Rightarrow> DecompState base_decompose_fn \<Rightarrow> DecompRun \<Rightarrow> DecompRun result" where
  "decompose_passes 0 ep base_shape base_decompose r = Inl Out_of_fuel"
| "decompose_passes (Suc k) ep base_shape base_decompose r =
     rbind (topo_order (fst (dr_gs r)) (snd (dr_gs r))) (\<lambda>order.
     rbind (foldR (decompose_node ep base_shape base_decompose) (r\<lparr>dr_removed := 0\<rparr>) order) (\<lambda>r1.
       if dr_removed r1 = 0 then Inr r1 else decompose_passes k ep base_shape base_decompose r1))"

definition decompose_tt_forge_graph ::
    "nat \<Rightarrow> DecomposeEpoch \<Rightarrow> base_shape_fn \<Rightarrow> DecompState base_decompose_fn \<Rightarrow>
     (ConstEvalRef \<Rightarrow> ConstEvalRef result) \<Rightarrow> (NodeId \<Rightarrow> GS \<Rightarrow> (GS \<times> bool) result) \<Rightarrow> GS \<Rightarrow>
     (GS \<times> (NodeId \<times> NodeId) list) result" where
  "decompose_tt_forge_graph passes ep base_shape base_decompose clone_ce try_ce st =
     rbind (decompose_passes passes ep base_shape base_decompose
              \<lparr>dr_gs = st, dr_mapping = [], dr_removed = 1\<rparr>) (\<lambda>r.
     rbind (foldR (\<lambda>st (out, _).
        if \<not> has_node_with_id (snd st) out then Inr st
        else rbind (user_data_edges any_edge (snd st) out) (\<lambda>es.
             foldR (\<lambda>st e. handle_change_rank clone_ce try_ce e st) st es)) (dr_gs r) (dr_mapping r)) (\<lambda>st1.
       Inr (st1, dr_mapping r)))"

section \<open>Calls that only add edges\<close>

definition edges_only :: "GS \<Rightarrow> GS \<Rightarrow> bool" where
  "edges_only s t \<longleftrightarrow> keeps s t \<and> nodes_map (snd t) = nodes_map (snd s) \<and>
     node_name_to_node_id (snd t) = node_name_to_node_id (snd s) \<and>
     node_id_to_subgraph_id (snd t) = node_id_to_subgraph_id (snd s) \<and>
     edge_ids (snd s) \<subseteq> edge_ids (snd t)"

interpretation edges_only: state_change edges_only
  by unfold_locales (auto simp: edges_only_def intro: keeps.before keeps.after)

lemma edges_onlyD:
  assumes "edges_only s t"
  shows "keeps s t" "nodes_map (snd t) = nodes_map (snd s)" "graph_wf (fst t) (snd t)"
    "nothing_hidden (snd t) = nothing_hidden (snd s)"
    "node_name_to_node_id (snd t) = node_name_to_node_id (snd s)"
    "node_id_to_subgraph_id (snd t) = node_id_to_subgraph_id (snd s)"
  using assms keepsD [of s t] by (simp_all add: edges_only_def)

lemma edges_only_refl: "graph_wf (fst s) (snd s) \<Longrightarrow> edges_only s s"
  by (simp add: edges_only_def keeps_refl)

lemma put_new_edge:
  assumes wf: "graph_wf (fst s) (snd s)" and "p \<in> node_ids (snd s)" "c \<in> node_ids (snd s)"
    and e: "construct_edge p pp c cp ty s = (s1, e)"
  shows "edges_only s (put_edge e s1)" "unique_id e = (p, pp, c, cp, ty)"
    "edge_ids (snd (put_edge e s1)) = insert (p, pp, c, cp, ty) (edge_ids (snd s))"
proof -
  note c = construct_edge_control_only [OF e wf]
  have wf1: "graph_wf (fst s1) (snd s1)" using keepsD(1) [OF control_only_keeps [OF c(1)]] .
  note p = put_edge_effect [OF wf1 addable_new [OF e assms(2,3)]]
  show u: "unique_id e = (p, pp, c, cp, ty)" by (rule c(5))
  show i: "edge_ids (snd (put_edge e s1)) = insert (p, pp, c, cp, ty) (edge_ids (snd s))"
    using p u c(2) by simp
  have "nodes_map (snd (put_edge e s1)) = nodes_map (snd s) \<and>
      node_name_to_node_id (snd (put_edge e s1)) = node_name_to_node_id (snd s) \<and>
      node_id_to_subgraph_id (snd (put_edge e s1)) = node_id_to_subgraph_id (snd s)"
    using c(2) by (simp add: put_edge_eq add_edge_attr_def Let_def split: prod.splits)
  with p(1) c(1) i show "edges_only s (put_edge e s1)"
    by (auto simp: edges_only_def intro: keeps.after control_only_keeps)
qed

lemma update_edge_attr_only:
  assumes "graph_wf (fst s) (snd s)" "unique_id e \<in> edge_ids (snd s)" "\<And>a. \<exists>a'. f a = Inr a'"
  shows "\<exists>t. update_edge_attr f e s = Inr t \<and> edges_only s t \<and> snd t = snd s"
proof -
  from assms(2) obtain x where x: "x \<in> set (graph_edges (snd s))" "unique_id x = unique_id e"
    unfolding edge_ids_def by (metis imageE)
  obtain a where a: "attr_at s (unique_id e) = Some a"
    using edge_has_attr [OF assms(1) x(1)] unfolding x(2) .
  then obtain r where r: "map_of (edge_to_attr_map (snd s)) (unique_id e) = Some r"
    by (auto simp: attr_at_def)
  obtain b where "f (attr_store (fst s) ! r) = Inr b" using assms(3) by blast
  then have u: "update_edge_attr f e s = Inr (write_attr r b (fst s), snd s)"
    using r attr_ref [OF assms(1) r]
    by (cases s) (simp add: update_edge_attr_def get_edge_attributes_def map_at_def read_attr_def)
  from update_edge_attr_effect [OF u assms(1)] u show ?thesis by (simp add: edges_only_def)
qed

lemma set_broadcast_dim_total: "\<exists>a'. set_broadcast_dim d z x a = Inr a'"
  by (simp add: set_broadcast_dim_def mk_OpType_def broadcast_name)

lemma operand_data_edges_in:
  assumes "graph_wf w g" "i \<in> node_ids g"
  shows "\<exists>es. operand_data_edges any_edge g i = Inr es \<and> set es \<subseteq> set (graph_edges g)"
proof -
  have "set (ops g i) \<subseteq> set (graph_edges g)"
    using mem_graph_edges [OF graph_wfD(2) [OF assms(1)]] by auto
  then show ?thesis
    unfolding operand_data_edges_def opq.query_eq [OF assms] by auto
qed

lemma edge_tms_total: "graph_wf (fst s) (snd s) \<Longrightarrow> e \<in> set (graph_edges (snd s)) \<Longrightarrow> \<exists>ts. edge_tms s e = Inr ts"
  using edge_has_attr edge_tms_at by metis

lemma dc_copy_tms_total:
  assumes wf: "graph_wf (fst s) (snd s)" and "node \<in> node_ids (snd s)" "unique_id e \<in> edge_ids (snd s)"
  shows "\<exists>t. dc_copy_tms node producer e s = Inr t \<and> edges_only s t"
proof -
  from operand_data_edges_in [OF wf assms(2)] obtain es where
    es: "operand_data_edges any_edge (snd s) node = Inr es" "set es \<subseteq> set (graph_edges (snd s))" by blast
  have "\<exists>t. foldR (\<lambda>st op_edge. if producer_node_id op_edge = producer
         then rbind (edge_tms st op_edge) (\<lambda>ts. update_edge_attr (\<lambda>a. Inr (set_tms ts a)) e st)
         else Inr st) s es = Inr t \<and> edges_only s t"
  proof (rule edges_only.loop_total [OF edges_only_refl [OF wf]])
    fix x s' assume x: "x \<in> set es" and s': "edges_only s s'"
    have wf': "graph_wf (fst s') (snd s')" by (rule edges_onlyD(3) [OF s'])
    have ids: "edge_ids (snd s) \<subseteq> edge_ids (snd s')" using s' by (simp add: edges_only_def)
    have "unique_id x \<in> edge_ids (snd s')" "unique_id e \<in> edge_ids (snd s')"
      using x es(2) ids assms(3) by (auto simp: edge_ids_def)
    then obtain y where "y \<in> set (graph_edges (snd s'))" "unique_id y = unique_id x"
      unfolding edge_ids_def by (metis imageE)
    then obtain a where "attr_at s' (unique_id x) = Some a" using edge_has_attr [OF wf'] by metis
    then have "edge_tms s' x = Inr (tms a)" by (rule edge_tms_at [OF wf'])
    then show "\<exists>u. (if producer_node_id x = producer
         then rbind (edge_tms s' x) (\<lambda>ts. update_edge_attr (\<lambda>a. Inr (set_tms ts a)) e s')
         else Inr s') = Inr u \<and> edges_only s' u"
      using update_edge_attr_only [OF wf' \<open>unique_id e \<in> edge_ids (snd s')\<close>, of "\<lambda>a. Inr (set_tms (tms a) a)"]
        update_edge_attr_only [OF wf' \<open>unique_id e \<in> edge_ids (snd s')\<close>, of "\<lambda>b. Inr (set_tms (tms a) b)"]
        edges_only_refl [OF wf'] by auto
  qed
  then show ?thesis by (simp add: dc_copy_tms_def es(1))
qed

lemma dc_set_broadcasts_total:
  assumes wf: "graph_wf (fst s) (snd s)" and "unique_id e \<in> edge_ids (snd s)"
  shows "\<exists>t. dc_set_broadcasts k bs e s = Inr t \<and> edges_only s t"
  unfolding dc_set_broadcasts_def
proof (rule edges_only.loop_total [OF edges_only_refl [OF wf]])
  fix b :: DimBroadcast and s' assume s': "edges_only s s'"
  obtain j d z where b: "b = (j, d, z)" by (cases b)
  have "unique_id e \<in> edge_ids (snd s')" using s' assms(2) by (auto simp: edges_only_def)
  from update_edge_attr_only [OF edges_onlyD(3) [OF s'] this, of "set_broadcast_dim d z False"] set_broadcast_dim_total
    edges_only_refl [OF edges_onlyD(3) [OF s']]
  show "\<exists>u. (case b of (j, d, z) \<Rightarrow>
       if int k = j then update_edge_attr (set_broadcast_dim d z False) e s' else Inr s') = Inr u \<and>
     edges_only s' u"
    by (auto simp: b)
qed

lemma dc_connect_total:
  assumes wf: "graph_wf (fst s) (snd s)" and node: "node \<in> node_ids (snd s)"
    and n: "map_of (nodes_map (snd s)) new = Some n" "map_of (nodes_map (snd s)) (nc_id x) = Some c"
    and ep: "epoch_type c = epoch_type n"
  shows "\<exists>t. dc_connect copy node new bs s (k, x) = Inr t \<and> edges_only s t \<and>
    (nc_id x, 0, new, word_of_nat k, kData) \<in> edge_ids (snd t)"
proof -
  obtain s1 e where e: "construct_edge (nc_id x) 0 new (word_of_nat k) kData s = (s1, e)"
    by (cases "construct_edge (nc_id x) 0 new (word_of_nat k) kData s")
  have ids: "nc_id x \<in> node_ids (snd s)" "new \<in> node_ids (snd s)" unfolding in_node_ids using n by simp_all
  note p = put_new_edge [OF wf ids e]
  define t where "t = put_edge e s1"
  have t: "edges_only s t" "unique_id e \<in> edge_ids (snd t)" using p by (simp_all add: t_def)
  have wf': "graph_wf (fst t) (snd t)" by (rule edges_onlyD(3) [OF t(1)])
  have "node \<in> node_ids (snd t)" using node keepsD(2) [OF edges_onlyD(1) [OF t(1)]] by simp
  from dc_copy_tms_total [OF wf' this t(2), of "nc_id x"] obtain u where
    "(if copy then dc_copy_tms node (nc_id x) e t else Inr t) = Inr u" "edges_only t u"
    using edges_only_refl [OF wf'] by (cases copy) auto
  note u = this
  have "unique_id e \<in> edge_ids (snd u)" using u(2) t(2) by (auto simp: edges_only_def)
  from dc_set_broadcasts_total [OF edges_onlyD(3) [OF u(2)] this, of k bs] obtain v where
    v: "dc_set_broadcasts k bs e u = Inr v" "edges_only u v" by blast
  have "dc_connect copy node new bs s (k, x) = Inr v"
    using n ep e u(1) v(1) by (auto simp: dc_connect_def node_by_id_def deref_def simp flip: t_def split: if_splits)
  moreover have "unique_id e \<in> edge_ids (snd v)" using v(2) \<open>unique_id e \<in> edge_ids (snd u)\<close>
    by (auto simp: edges_only_def)
  ultimately show ?thesis using edges_only.after t(1) u(2) v(2) p(2) by metis
qed

section \<open>The names of the new nodes\<close>

lemma show_nat_chars: "c \<in> set (show_nat n) \<Longrightarrow> \<exists>d < 10. c = digit d"
proof (induction n rule: show_nat.induct)
  case (1 n)
  show ?case
  proof (cases "n < 10")
    case True
    then show ?thesis using "1.prems" by (auto simp: show_nat.simps [of n])
  next
    case False
    then have "c \<in> set (show_nat (n div 10)) \<or> c = digit (n mod 10)"
      using "1.prems" by (auto simp: show_nat.simps [of n])
    moreover have "n mod 10 < 10" by simp
    ultimately show ?thesis using "1.IH" [OF False] by blast
  qed
qed

lemma show_nat_no_sep [simp]: "CHR ''.'' \<notin> set (show_nat n)" "CHR ''_'' \<notin> set (show_nat n)"
  using show_nat_chars of_char_digit by (force dest: arg_cong [of _ _ "of_char :: char \<Rightarrow> nat"])+

text \<open>What follows the last separator of a name.\<close>

lemma last_sep_inject:
  assumes "xs @ c # ys = xs' @ c # ys'" "c \<notin> set ys" "c \<notin> set ys'"
  shows "ys = ys'"
proof -
  have "takeWhile (\<lambda>x. x \<noteq> c) (rev ys @ c # rev xs) = rev ys" if "c \<notin> set ys" for xs ys
    using that by (auto simp: takeWhile_append)
  then have "rev ys = rev ys'"
    using arg_cong [OF assms(1), of rev] assms(2,3) by (metis append.assoc append_Cons append_Nil rev.simps(2) rev_append)
  then show ?thesis by simp
qed

lemma dc_suffix_inject: "n @ dc_suffix nm k = n @ dc_suffix nm' k' \<Longrightarrow> k = k'"
  using last_sep_inject [of "''.dc.'' @ nm" "CHR ''.''" "show_nat k" "''.dc.'' @ nm'" "show_nat k'"]
  by (simp add: dc_suffix_def)

section \<open>Adding a node to the state\<close>

lemma put_node_total:
  assumes wf: "graph_wf (fst st) (snd st)" and n: "map_of (node_name_to_node_id (snd st)) (node_name n) = None"
  shows "\<exists>st' i. put_node n s st = Inr (st', i) \<and> graph_wf (fst st') (snd st') \<and> i \<notin> node_ids (snd st) \<and>
    map_of (nodes_map (snd st')) = (map_of (nodes_map (snd st)))(i \<mapsto> node_set_id i n) \<and>
    map_of (node_name_to_node_id (snd st')) = (map_of (node_name_to_node_id (snd st)))(node_name n \<mapsto> i) \<and>
    contexts (snd st') = contexts (snd st) \<and> edge_ids (snd st') = edge_ids (snd st) \<and>
    edge_to_attr_map (snd st') = edge_to_attr_map (snd st) \<and>
    map_of (node_id_to_subgraph_id (snd st')) = (map_of (node_id_to_subgraph_id (snd st)))(i \<mapsto> s)"
proof -
  obtain w g where st: "st = (w, g)" by (cases st)
  have wf': "graph_wf w g" using wf by (simp add: st)
  define i where "i = last_node_id_assigned w + 1"
  have i: "i \<notin> node_ids g" using wf' unfolding i_def by (force simp: graph_wf_iff)
  obtain w' g' where r: "add_node n s None w g = Inr (w', g', i)"
    using i n st by (auto simp: add_node_Inr i_def)
  note r' = r [unfolded add_node_Inr]
  have "graph_wf w' g'" by (rule add_node_wf [OF wf' r]) simp
  moreover have "edge_ids g' = edge_ids g" by (rule edge_ids_add_node [OF wf' r]) simp
  ultimately show ?thesis
    using i add_node_effect(2,6,10) [OF wf' r] r'
    by (intro exI [of _ "(w', g')"] exI [of _ i]) (simp add: put_node_def st r contexts_def)
qed

lemma update_node_total:
  assumes wf: "graph_wf (fst st) (snd st)" and n: "map_of (nodes_map (snd st)) i = Some n" and f: "f n = Inr m"
    and k: "node_unique_id m = node_unique_id n" "node_name m = node_name n"
  shows "\<exists>st'. on_graph (update_node i f) st = Inr st' \<and> graph_wf (fst st') (snd st') \<and>
    map_of (nodes_map (snd st')) = (map_of (nodes_map (snd st)))(i \<mapsto> m) \<and>
    node_name_to_node_id (snd st') = node_name_to_node_id (snd st) \<and>
    contexts (snd st') = contexts (snd st) \<and> edge_ids (snd st') = edge_ids (snd st) \<and>
    edge_to_attr_map (snd st') = edge_to_attr_map (snd st) \<and>
    node_id_to_subgraph_id (snd st') = node_id_to_subgraph_id (snd st)"
proof -
  obtain w g where st: "st = (w, g)" by (cases st)
  have n': "map_of (nodes_map g) i = Some n" using n by (simp add: st)
  define h where "h = (\<lambda>k. if k = n then Inr m else Inl Runtime_error :: Node result)"
  have u: "on_graph (update_node i f) st = Inr (w, set_node i m g)"
    "on_graph (update_node i h) st = Inr (w, set_node i m g)"
    using n' f by (simp_all add: st on_graph_def update_node_def node_by_id_def h_def)
  have "h k = Inr l \<Longrightarrow> node_unique_id l = node_unique_id k \<and> node_name l = node_name k" for k l
    using k by (auto simp: h_def split: if_splits)
  from on_graph_update_node(1) [OF u(2) wf this] have "graph_wf w (set_node i m g)"
    using keepsD(1) [OF control_only_keeps] by fastforce
  with u(1) show ?thesis
    by (intro exI [of _ "(w, set_node i m g)"])
      (simp add: st set_node_def contexts_def edge_ids_def graph_edges_def)
qed

section \<open>The contract holds\<close>

text \<open>A context ready for more: a well-formed graph, the op still in it, no node with a name to come.\<close>

definition dc_ready :: "DecompState \<Rightarrow> bool" where
  "dc_ready dc \<longleftrightarrow> graph_wf (fst (dcs_gs dc)) (snd (dcs_gs dc)) \<and>
     (case map_of (nodes_map (snd (dcs_gs dc))) (dcs_node dc) of None \<Rightarrow> False
      | Some dn \<Rightarrow> node_type dn = kPyOp \<and> op_part dn \<noteq> None \<and>
          (\<forall>nm k. dcs_op_index dc \<le> k \<longrightarrow>
             map_of (node_name_to_node_id (snd (dcs_gs dc))) (node_name dn @ dc_suffix nm k) = None))"

text \<open>A node of the graph in the epoch of the op being decomposed.\<close>

definition dc_live :: "DecompState \<Rightarrow> NodeContext \<Rightarrow> bool" where
  "dc_live dc x \<longleftrightarrow>
     (case (map_of (nodes_map (snd (dcs_gs dc))) (nc_id x), map_of (nodes_map (snd (dcs_gs dc))) (dcs_node dc)) of
        (Some n, Some dn) \<Rightarrow> epoch_type n = epoch_type dn
      | _ \<Rightarrow> False)"

text \<open>Besides, an inserted op of the shape the context tells.\<close>

definition dc_made :: "DecompState \<Rightarrow> NodeContext \<Rightarrow> bool" where
  "dc_made dc x \<longleftrightarrow> dc_live dc x \<and> nc_id x \<in> set (dcs_inserted dc) \<and> nc_id x \<noteq> dcs_node dc \<and>
     (case map_of (nodes_map (snd (dcs_gs dc))) (nc_id x) of None \<Rightarrow> False
      | Some n \<Rightarrow> node_type n = kPyOp \<and> pyop_part n \<noteq> None \<and> node_shape n = nc_shape x)"

text \<open>Nodes and edges are only added.\<close>

definition dc_grow :: "DecompState \<Rightarrow> DecompState \<Rightarrow> bool" where
  "dc_grow s t \<longleftrightarrow> dcs_node t = dcs_node s \<and> contexts (snd (dcs_gs t)) = contexts (snd (dcs_gs s)) \<and>
     map_of (nodes_map (snd (dcs_gs s))) \<subseteq>\<^sub>m map_of (nodes_map (snd (dcs_gs t))) \<and>
     edge_ids (snd (dcs_gs s)) \<subseteq> edge_ids (snd (dcs_gs t)) \<and>
     (set (dcs_inserted s) \<subseteq> node_ids (snd (dcs_gs s)) \<longrightarrow>
      set (dcs_inserted t) \<subseteq> node_ids (snd (dcs_gs t)))"

text \<open>What a node was made from: its type, and an edge from every operand to the port of its place.\<close>

definition dc_fed :: "DecompState \<Rightarrow> OpType \<Rightarrow> NodeContext list \<Rightarrow> NodeContext \<Rightarrow> bool" where
  "dc_fed dc t xs r \<longleftrightarrow>
     (case map_of (nodes_map (snd (dcs_gs dc))) (nc_id r) of None \<Rightarrow> False
      | Some n \<Rightarrow> map_option node_op_type (pyop_part n) = Some t) \<and>
     (\<forall>(k, x) \<in> set (enumerate 0 xs).
        (nc_id x, 0, nc_id r, word_of_nat k, kData) \<in> edge_ids (snd (dcs_gs dc)))"

lemma dc_fedD: "dc_fed dc t xs r \<Longrightarrow>
    \<exists>n. map_of (nodes_map (snd (dcs_gs dc))) (nc_id r) = Some n \<and> map_option node_op_type (pyop_part n) = Some t"
  by (simp add: dc_fed_def split: option.splits)

lemma OpType_shape_valid: "OpType_shape base_shape t ins = Inr (s, bs) \<Longrightarrow> sh_valid s"
  unfolding OpType_shape_def Op_shape_def Let_def
  by (auto simp: result_simps Op_base_shape_def abs_shape_def add_shape_def subtract_shape_def
      multiply_shape_def divide_shape_def sine_shape_def cosine_shape_def softmax_shape_def
      softmax_bw_shape_def constant_shape_def reshape_shape_def squeeze_shape_def unsqueeze_shape_def
      transpose_shape_def concatenate_shape_def compute_elementwise_binary_shape_def Let_def
      split: if_splits)

lemma dc_dress_total:
  assumes "node_type dn = kPyOp" "op_part dn \<noteq> None" "sh_valid s"
  shows "\<exists>m. dc_dress d h df dn s (node_set_id i (mk_PyOpNode nm t)) = Inr m \<and> node_unique_id m = i \<and>
    node_name m = nm \<and> node_shape m = s \<and> epoch_type m = epoch_type dn \<and> node_type m = kPyOp \<and>
    map_option node_op_type (pyop_part m) = Some t"
  using assms
  by (auto simp: dc_dress_def Let_def as_OpNode_def with_op_def mk_PyOpNode_def base_node_def node_set_id_def
      tag_node_def add_tags_def set_epoch_type_def node_set_output_df_def node_set_shape_def op_part_def pyop_part_def
      op_fields_def split: node_class.splits)

lemma dc_connect_all:
  assumes wf: "graph_wf (fst s) (snd s)" and node: "node \<in> node_ids (snd s)"
    and n: "map_of (nodes_map (snd s)) new = Some n"
    and l: "\<forall>x \<in> set xs. \<exists>c. map_of (nodes_map (snd s)) (nc_id x) = Some c \<and> epoch_type c = epoch_type n"
  shows "\<exists>t. foldR (dc_connect copy node new bs) s (enumerate 0 xs) = Inr t \<and> edges_only s t \<and>
    (\<forall>(k, x) \<in> set (enumerate 0 xs). (nc_id x, 0, new, word_of_nat k, kData) \<in> edge_ids (snd t))"
proof (rule edges_only.loop_each [OF edges_only_refl [OF wf]])
  fix kx s' assume kx: "kx \<in> set (enumerate 0 xs)" and s': "edges_only s s'"
  obtain k x where x: "kx = (k, x)" by (cases kx)
  with kx have "x \<in> set xs" by (metis enumerate_eq_zip set_zip_rightD)
  with l obtain c where "map_of (nodes_map (snd s')) (nc_id x) = Some c" "epoch_type c = epoch_type n"
    unfolding edges_onlyD(2) [OF s'] by blast
  moreover have "node \<in> node_ids (snd s')"
    using node keepsD(2) [OF edges_onlyD(1) [OF s']] by simp
  moreover have "map_of (nodes_map (snd s')) new = Some n" using n edges_onlyD(2) [OF s'] by simp
  ultimately show "\<exists>u. dc_connect copy node new bs s' kx = Inr u \<and> edges_only s' u \<and> edges_only u u \<and>
      (case kx of (k, x) \<Rightarrow> (nc_id x, 0, new, word_of_nat k, kData) \<in> edge_ids (snd u))"
    unfolding x using dc_connect_total [OF edges_onlyD(3) [OF s']] edges_only_refl [OF edges_onlyD(3)] by fastforce
qed (auto simp: edges_only_def)

lemma edges_only_grow:
  "edges_only s t \<Longrightarrow> contexts (snd t) = contexts (snd s) \<and> edge_ids (snd s) \<subseteq> edge_ids (snd t)"
  by (simp add: edges_only_def keeps_def)

lemma dc_op_contract:
  assumes r: "dc_ready dc" and l: "\<forall>x \<in> set xs. dc_live dc x"
    and sh: "OpType_shape base_shape t (map (sh_dims \<circ> nc_shape) xs) = Inr (sh, bs)"
  shows "\<exists>r dc'. dc_op_default base_shape t xs dc = Inr (r, dc') \<and> nc_shape r = sh \<and> dc_made dc' r \<and>
    dc_ready dc' \<and> dc_grow dc dc' \<and> dc_fed dc' t xs r"
proof -
  define g where "g = snd (dcs_gs dc)"
  obtain dn where dn: "map_of (nodes_map g) (dcs_node dc) = Some dn" "node_type dn = kPyOp" "op_part dn \<noteq> None"
    and wf: "graph_wf (fst (dcs_gs dc)) (snd (dcs_gs dc))"
    and fresh: "\<And>nm k. dcs_op_index dc \<le> k \<Longrightarrow>
       map_of (node_name_to_node_id g) (node_name dn @ dc_suffix nm k) = None"
    using r unfolding dc_ready_def g_def by (auto split: option.splits)
  define n where "n = mk_PyOpNode (node_name dn @ dc_suffix (op_name t) (dcs_op_index dc)) t"
  have nm: "node_name n = node_name dn @ dc_suffix (op_name t) (dcs_op_index dc)"
    by (simp add: n_def mk_PyOpNode_def base_node_def)
  from put_node_total [OF wf, of n "dcs_subgraph dc"] fresh [of "dcs_op_index dc" "op_name t"]
  obtain st1 new where p: "put_node n (dcs_subgraph dc) (dcs_gs dc) = Inr (st1, new)"
    "graph_wf (fst st1) (snd st1)" "new \<notin> node_ids g"
    "map_of (nodes_map (snd st1)) = (map_of (nodes_map g))(new \<mapsto> node_set_id new n)"
    "map_of (node_name_to_node_id (snd st1)) = (map_of (node_name_to_node_id g))(node_name n \<mapsto> new)"
    "contexts (snd st1) = contexts g" "edge_ids (snd st1) = edge_ids g"
    unfolding g_def nm by auto
  from dc_dress_total [OF dn(2,3) OpType_shape_valid [OF sh]] obtain m where
    m: "dc_dress False False DF_Invalid dn sh (node_set_id new n) = Inr m" "node_unique_id m = new"
      "node_name m = node_name n" "node_shape m = sh" "epoch_type m = epoch_type dn" "node_type m = kPyOp"
      "map_option node_op_type (pyop_part m) = Some t"
    unfolding n_def nm [unfolded n_def] by blast
  from update_node_total [OF p(2), of new "node_set_id new n" "dc_dress False False DF_Invalid dn sh" m] m p(4)
  obtain st2 where u: "on_graph (update_node new (dc_dress False False DF_Invalid dn sh)) st1 = Inr st2"
    "graph_wf (fst st2) (snd st2)" "map_of (nodes_map (snd st2)) = (map_of (nodes_map g))(new \<mapsto> m)"
    "node_name_to_node_id (snd st2) = node_name_to_node_id (snd st1)"
    "contexts (snd st2) = contexts (snd st1)" "edge_ids (snd st2) = edge_ids (snd st1)"
    by (auto simp: node_set_id_def)
  have nn: "new \<noteq> dcs_node dc" using p(3) dn(1) in_node_ids [of "dcs_node dc" g] by auto
  have node: "dcs_node dc \<in> node_ids (snd st2)" unfolding in_node_ids u(3) using dn(1) nn by simp
  have "\<exists>c. map_of (nodes_map (snd st2)) (nc_id x) = Some c \<and> epoch_type c = epoch_type m" if x: "x \<in> set xs" for x
  proof -
    obtain c where c: "map_of (nodes_map g) (nc_id x) = Some c" "epoch_type c = epoch_type dn"
      using bspec [OF l x] dn(1) unfolding dc_live_def g_def by (auto split: option.splits)
    have "nc_id x \<noteq> new" using p(3) c(1) in_node_ids [of "nc_id x" g] by auto
    then show ?thesis using c m(5) u(3) by simp
  qed
  from dc_connect_all [OF u(2) node, of new m xs True bs] this u(3)
  have "\<exists>st3. foldR (dc_connect True (dcs_node dc) new bs) st2 (enumerate 0 xs) = Inr st3 \<and> edges_only st2 st3 \<and>
      (\<forall>(k, x) \<in> set (enumerate 0 xs). (nc_id x, 0, new, word_of_nat k, kData) \<in> edge_ids (snd st3))"
    by simp
  then obtain st3 where f: "foldR (dc_connect True (dcs_node dc) new bs) st2 (enumerate 0 xs) = Inr st3"
    "edges_only st2 st3"
    "\<forall>(k, x) \<in> set (enumerate 0 xs). (nc_id x, 0, new, word_of_nat k, kData) \<in> edge_ids (snd st3)" by blast
  have nodes: "map_of (nodes_map (snd st3)) = (map_of (nodes_map g))(new \<mapsto> m)"
    using edges_onlyD(2) [OF f(2)] u(3) by simp
  have new: "0 \<le> new" using graph_wfD(9) [OF u(2), of new m] unfolding u(3) by simp
  define x where "x = \<lparr>nc_id = new, nc_name = node_name m, nc_output_index = 0, nc_type = node_type m,
    nc_shape = sh, nc_output_df = node_output_df m\<rparr>"
  define dc' where "dc' = dc\<lparr>dcs_gs := st3, dcs_op_index := Suc (dcs_op_index dc),
    dcs_inserted := dcs_inserted dc @ [new]\<rparr>"
  have "dc_op_default base_shape t xs dc = Inr (x, dc')"
    using dn(1) p(1) sh u(1) f(1) nodes new m
    by (simp add: dc_op_default_def dc_new_op_def deref_def n_def g_def mk_NodeContext_def node_id_def x_def dc'_def)
  moreover have "dc_made dc' x"
    using nodes dn(1) nn m(4-7) by (auto simp: dc_made_def dc_live_def dc'_def x_def)
  moreover have "dc_fed dc' t xs x"
    using nodes f(3) m(7) by (simp add: dc_fed_def dc'_def x_def)
  moreover have "dc_grow dc dc'"
  proof -
    have "map_of (nodes_map g) \<subseteq>\<^sub>m map_of (nodes_map (snd st3))"
      unfolding nodes using p(3) in_node_ids [of new g] by (auto simp: map_le_def dom_map_of_conv_image_fst)
    moreover have "node_ids (snd st3) = insert new (node_ids g)"
      using arg_cong [OF nodes, of dom] by (simp add: dom_map_of_conv_image_fst)
    moreover have "contexts (snd st3) = contexts g" "edge_ids g \<subseteq> edge_ids (snd st3)"
      using p(6,7) u(5,6) edges_only_grow [OF f(2)] by simp_all
    ultimately show ?thesis
      unfolding dc_grow_def dc'_def g_def by (simp add: subset_insertI2)
  qed
  moreover have "dc_ready dc'"
  proof -
    have "map_of (node_name_to_node_id (snd st3)) (node_name dn @ dc_suffix nm k) = None"
      if "Suc (dcs_op_index dc) \<le> k" for nm k
    proof -
      have "node_name dn @ dc_suffix nm k \<noteq> node_name n"
        unfolding nm using dc_suffix_inject that by fastforce
      then show ?thesis
        using fresh [of k nm] that edges_onlyD(5) [OF f(2)] u(4) p(5) by simp
    qed
    then show ?thesis
      using edges_onlyD(3) [OF f(2)] nodes dn nn by (simp add: dc_ready_def dc'_def)
  qed
  ultimately show ?thesis by (intro exI [of _ x] exI [of _ dc']) (simp add: x_def)
qed

lemma dc_grow_live: "dc_grow s t \<Longrightarrow> dc_live s x \<Longrightarrow> dc_live t x"
  unfolding dc_grow_def dc_live_def map_le_def
  by (auto split: option.splits) (metis domI option.inject option.discI)+

interpretation dcm: node_maker "dc_op_default base_shape" base_shape dc_ready dc_live dc_made dc_grow for base_shape
proof unfold_locales
  show "\<exists>r dc'. dc_op_default base_shape t xs dc = Inr (r, dc') \<and> nc_shape r = sh \<and> dc_made dc' r \<and>
      dc_ready dc' \<and> dc_grow dc dc'"
    if "dc_ready dc" "\<forall>x \<in> set xs. dc_live dc x" "arity_fits t (length xs)"
      "OpType_shape base_shape t (map (sh_dims \<circ> nc_shape) xs) = Inr (sh, bs)" for dc xs t sh bs
    using dc_op_contract [OF that(1,2,4)] by blast
  show "dc_grow s s'' " if "dc_grow s s'" "dc_grow s' s''" for s s' s''
    using that unfolding dc_grow_def by (auto intro: map_le_trans)
  show "dc_live s' x" if "dc_grow s s'" "dc_live s x" for s s' x using that by (rule dc_grow_live)
qed (simp_all add: dc_made_def dc_grow_def)

lemma dc_grow_fed:
  assumes "dc_grow s s'" "dc_fed s t xs r"
  shows "dc_fed s' t xs r"
proof -
  from dc_fedD [OF assms(2)] obtain n where
    n: "map_of (nodes_map (snd (dcs_gs s))) (nc_id r) = Some n" "map_option node_op_type (pyop_part n) = Some t" by blast
  then have "map_of (nodes_map (snd (dcs_gs s'))) (nc_id r) = Some n"
    using assms(1) unfolding dc_grow_def map_le_def by (metis domI)
  then show ?thesis using assms n(2) unfolding dc_grow_def dc_fed_def by (auto simp: n(1))
qed

interpretation dcl: node_linker "dc_op_default base_shape" base_shape dc_ready dc_live dc_made dc_grow dc_fed for base_shape
proof unfold_locales
  show "dc_fed s' t xs r" if "dc_ready s" "\<forall>x \<in> set xs. dc_live s x"
      "OpType_shape base_shape t (map (sh_dims \<circ> nc_shape) xs) = Inr (sh, bs)"
      "dc_op_default base_shape t xs s = Inr (r, s')" for s xs t sh bs r s'
    using dc_op_contract [OF that(1-3)] that(4) by auto
qed (rule dc_grow_fed)

section \<open>Fusing\<close>

lemma all_edges:
  assumes "graph_wf w g" "i \<in> node_ids g" "nothing_hidden g"
  shows "\<exists>es. operand_edges any_edge g i = Inr es \<and> set es = {e \<in> set (graph_edges g). consumer_node_id e = i}"
    "\<exists>es. user_edges any_edge g i = Inr es \<and> set es = {e \<in> set (graph_edges g). producer_node_id e = i}"
proof -
  have sh: "edge_shown g e" for e using assms(3) by (simp add: edge_shown_def)
  show "\<exists>es. operand_edges any_edge g i = Inr es \<and> set es = {e \<in> set (graph_edges g). consumer_node_id e = i}"
    by (rule opq.query_correct [OF assms(1,2), of any_edge]) (rule exI, rule conjI, assumption, simp add: sh)
  show "\<exists>es. user_edges any_edge g i = Inr es \<and> set es = {e \<in> set (graph_edges g). producer_node_id e = i}"
    by (rule usq.query_correct [OF assms(1,2), of any_edge]) (rule exI, rule conjI, assumption, simp add: sh)
qed

lemma put_new_edge_only:
  assumes "graph_wf (fst s) (snd s)" "p \<in> node_ids (snd s)" "c \<in> node_ids (snd s)"
  shows "\<exists>t. (case construct_edge p pp c cp ty s of (s1, e) \<Rightarrow> Inr (put_edge e s1)) = Inr t \<and> edges_only s t"
  using put_new_edge(1) [OF assms] by (cases "construct_edge p pp c cp ty s") simp

lemma edges_only_ids: "edges_only s t \<Longrightarrow> node_ids (snd t) = node_ids (snd s)"
  using keepsD(2) edges_onlyD(1) by blast

lemma dc_link_control_total:
  assumes wf: "graph_wf (fst s) (snd s)" and "producer_node_id e \<in> node_ids (snd s)"
    "set inserted \<subseteq> node_ids (snd s)"
  shows "\<exists>t. dc_link_control inserted s e = Inr t \<and> edges_only s t"
proof (cases "edge_type e = kData \<or> edge_type e = kAutogradFwdToGradient")
  case True
  then show ?thesis using edges_only_refl [OF wf] by (simp add: dc_link_control_def)
next
  case False
  have "\<exists>t. foldR (\<lambda>st i. case construct_edge (producer_node_id e) (producer_output_port_id e) i 0
             (edge_type e) st of (st1, e') \<Rightarrow> Inr (put_edge e' st1)) s inserted = Inr t \<and> edges_only s t"
  proof (rule edges_only.loop_total [OF edges_only_refl [OF wf]])
    fix i s' assume "i \<in> set inserted" and s': "edges_only s s'"
    then have "producer_node_id e \<in> node_ids (snd s')" "i \<in> node_ids (snd s')"
      using assms(2,3) edges_only_ids [OF s'] by auto
    then show "\<exists>u. (case construct_edge (producer_node_id e) (producer_output_port_id e) i 0
             (edge_type e) s' of (st1, e') \<Rightarrow> Inr (put_edge e' st1)) = Inr u \<and> edges_only s' u"
      by (rule put_new_edge_only [OF edges_onlyD(3) [OF s']])
  qed
  then show ?thesis using False by (auto simp: dc_link_control_def)
qed

lemma dc_link_gradient_total:
  assumes wf: "graph_wf (fst s) (snd s)" and "\<forall>e \<in> set es. producer_node_id e \<in> node_ids (snd s)"
    "new \<in> node_ids (snd s)"
  shows "\<exists>t. dc_link_gradient new s es = Inr t \<and> edges_only s t"
proof (cases "filter (\<lambda>e. edge_type e = kAutogradFwdToGradient) es")
  case Nil
  then show ?thesis using edges_only_refl [OF wf] by (simp add: dc_link_gradient_def)
next
  case (Cons e r)
  then have "e \<in> set es" by (metis filter_is_subset list.set_intros(1) subsetD)
  with assms(2) have "producer_node_id e \<in> node_ids (snd s)" by blast
  from put_new_edge_only [OF wf this assms(3)] show ?thesis by (simp add: dc_link_gradient_def Cons)
qed

lemma dc_link_user_total:
  assumes wf: "graph_wf (fst s) (snd s)" and "consumer_node_id e \<in> node_ids (snd s)" "new \<in> node_ids (snd s)"
    and e: "unique_id e \<in> edge_ids (snd s)"
  shows "\<exists>t. dc_link_user new port s e = Inr t \<and> edges_only s t \<and>
    (new, port, consumer_node_id e, consumer_input_port_id e, edge_type e) \<in> edge_ids (snd t)"
proof -
  obtain s1 e' where c: "construct_edge new port (consumer_node_id e) (consumer_input_port_id e) (edge_type e) s = (s1, e')"
    by (cases "construct_edge new port (consumer_node_id e) (consumer_input_port_id e) (edge_type e) s")
  note p = put_new_edge [OF wf assms(3,2) c]
  define t where "t = put_edge e' s1"
  have wf': "graph_wf (fst t) (snd t)" using edges_onlyD(3) [OF p(1)] by (simp add: t_def)
  have i: "unique_id e \<in> edge_ids (snd t)" "unique_id e' \<in> edge_ids (snd t)"
    using e p by (auto simp: t_def)
  then obtain y where "y \<in> set (graph_edges (snd t))" "unique_id y = unique_id e"
    unfolding edge_ids_def by (metis imageE)
  then obtain a where "attr_at t (unique_id e) = Some a" using edge_has_attr [OF wf'] by metis
  then have ts: "edge_tms t e = Inr (tms a)" by (rule edge_tms_at [OF wf'])
  from update_edge_attr_only [OF wf' i(2), of "\<lambda>b. Inr (set_tms (tms a) b)"] obtain u where
    u: "update_edge_attr (\<lambda>b. Inr (set_tms (tms a) b)) e' t = Inr u" "edges_only t u" "snd u = snd t" by blast
  have "dc_link_user new port s e = Inr u" using ts u(1) by (simp add: dc_link_user_def c flip: t_def)
  moreover have "edges_only s u" using p(1) u(2) by (auto simp: t_def intro: edges_only.after)
  moreover have "(new, port, consumer_node_id e, consumer_input_port_id e, edge_type e) \<in> edge_ids (snd u)"
    using i(2) p(2) u(3) by (simp add: t_def)
  ultimately show ?thesis by blast
qed

lemma dc_link_users:
  assumes wf: "graph_wf (fst s) (snd s)" and new: "new \<in> node_ids (snd s)"
    and us: "set us \<subseteq> set (graph_edges (snd s))"
  shows "\<exists>t. foldR (dc_link_user new port) s us = Inr t \<and> edges_only s t \<and>
    (\<forall>e \<in> set us. (new, port, consumer_node_id e, consumer_input_port_id e, edge_type e) \<in> edge_ids (snd t))"
proof (rule edges_only.loop_each [OF edges_only_refl [OF wf]])
  fix e s' assume e: "e \<in> set us" and s': "edges_only s s'"
  have "consumer_node_id e \<in> node_ids (snd s')" "new \<in> node_ids (snd s')"
    using graph_edges_ends(3,4) [OF wf, of e] e us new edges_only_ids [OF s'] by auto
  moreover have "unique_id e \<in> edge_ids (snd s')"
    using e us s' unfolding edges_only_def edge_ids_def by blast
  ultimately show "\<exists>u. dc_link_user new port s' e = Inr u \<and> edges_only s' u \<and> edges_only u u \<and>
      (new, port, consumer_node_id e, consumer_input_port_id e, edge_type e) \<in> edge_ids (snd u)"
    using dc_link_user_total [OF edges_onlyD(3) [OF s']] edges_only_refl edges_onlyD(3) by metis
qed (auto simp: edges_only_def)

text \<open>The three loops of \<open>fuse\<close>, one after the other.\<close>

definition dc_relink :: "NodeId list \<Rightarrow> NodeId \<Rightarrow> NodeId \<Rightarrow> PortId \<Rightarrow> GS \<Rightarrow> GS result" where
  "dc_relink inserted node new port st1 =
     rbind (operand_edges any_edge (snd st1) node) (\<lambda>es.
     rbind (foldR (dc_link_control inserted) st1 es) (\<lambda>st2.
     rbind (operand_edges any_edge (snd st2) node) (\<lambda>es2.
     rbind (dc_link_gradient new st2 es2) (\<lambda>st3.
     rbind (user_edges any_edge (snd st3) node) (\<lambda>us.
       foldR (dc_link_user new port) st3 us)))))"

lemma dc_relink_effect:
  assumes wf: "graph_wf (fst st1) (snd st1)" and h1: "nothing_hidden (snd st1)"
    and node: "node \<in> node_ids (snd st1)" and new: "new \<in> node_ids (snd st1)"
    and ins: "set inserted \<subseteq> node_ids (snd st1)"
  shows "\<exists>st4. dc_relink inserted node new port st1 = Inr st4 \<and> edges_only st1 st4 \<and>
    (\<forall>pp c cp ty. (node, pp, c, cp, ty) \<in> edge_ids (snd st1) \<longrightarrow> (new, port, c, cp, ty) \<in> edge_ids (snd st4))"
proof -
  obtain es where es: "operand_edges any_edge (snd st1) node = Inr es" "set es \<subseteq> set (graph_edges (snd st1))"
    using all_edges(1) [OF wf node h1] by auto
  have "\<exists>st2. foldR (dc_link_control inserted) st1 es = Inr st2 \<and> edges_only st1 st2"
  proof (rule edges_only.loop_total [OF edges_only_refl [OF wf]])
    fix e s' assume e: "e \<in> set es" and s': "edges_only st1 s'"
    have "producer_node_id e \<in> node_ids (snd s')" "set inserted \<subseteq> node_ids (snd s')"
      using graph_edges_ends(3,4) [OF wf, of e] e es(2) ins edges_only_ids [OF s'] by auto
    then show "\<exists>u. dc_link_control inserted s' e = Inr u \<and> edges_only s' u"
      by (rule dc_link_control_total [OF edges_onlyD(3) [OF s']])
  qed
  then obtain st2 where s2: "foldR (dc_link_control inserted) st1 es = Inr st2" "edges_only st1 st2" by blast
  note w2 = edges_onlyD(3) [OF s2(2)]
  have k2: "node \<in> node_ids (snd st2)" "new \<in> node_ids (snd st2)" "nothing_hidden (snd st2)"
    using edges_only_ids [OF s2(2)] edges_onlyD(4) [OF s2(2)] node new h1 by simp_all
  obtain es2 where es2: "operand_edges any_edge (snd st2) node = Inr es2" "set es2 \<subseteq> set (graph_edges (snd st2))"
    using all_edges(1) [OF w2 k2(1,3)] by auto
  have "\<forall>e \<in> set es2. producer_node_id e \<in> node_ids (snd st2)"
    using graph_edges_ends(3,4) [OF w2] es2(2) by blast
  from dc_link_gradient_total [OF w2 this k2(2)] obtain st3 where
    s3: "dc_link_gradient new st2 es2 = Inr st3" "edges_only st2 st3" by blast
  note w3 = edges_onlyD(3) [OF s3(2)]
  have k3: "node \<in> node_ids (snd st3)" "new \<in> node_ids (snd st3)" "nothing_hidden (snd st3)"
    using edges_only_ids [OF s3(2)] edges_onlyD(4) [OF s3(2)] k2 by simp_all
  obtain us where us: "user_edges any_edge (snd st3) node = Inr us"
    "set us = {e \<in> set (graph_edges (snd st3)). producer_node_id e = node}"
    using all_edges(2) [OF w3 k3(1,3)] by auto
  from dc_link_users [OF w3 k3(2), of us port] us(2) obtain st4 where
    s4: "foldR (dc_link_user new port) st3 us = Inr st4" "edges_only st3 st4"
      "\<forall>e \<in> set us. (new, port, consumer_node_id e, consumer_input_port_id e, edge_type e) \<in> edge_ids (snd st4)"
    by auto
  have "(new, port, c, cp, ty) \<in> edge_ids (snd st4)" if "(node, pp, c, cp, ty) \<in> edge_ids (snd st1)" for pp c cp ty
  proof -
    have "(node, pp, c, cp, ty) \<in> edge_ids (snd st3)"
      using that s2(2) s3(2) by (auto simp: edges_only_def)
    then obtain e where "e \<in> set (graph_edges (snd st3))" "unique_id e = (node, pp, c, cp, ty)"
      unfolding edge_ids_def by (metis imageE)
    then show ?thesis using s4(3) us(2) by (auto simp: unique_id_def)
  qed
  moreover have "edges_only st1 st4" using s2(2) s3(2) s4(2) edges_only.after by blast
  ultimately show ?thesis
    using es(1) s2(1) es2(1) s3(1) us(1) s4(1) by (intro exI [of _ st4]) (simp add: dc_relink_def)
qed

lemma dc_fuse_effect:
  assumes r: "dc_ready dc" and h: "nothing_hidden (snd (dcs_gs dc))" and x: "dc_made dc x"
    and ins: "set (dcs_inserted dc) \<subseteq> node_ids (snd (dcs_gs dc))"
  shows "\<exists>dc' n. dc_fuse_with x port dc = Inr dc' \<and> graph_wf (fst (dcs_gs dc')) (snd (dcs_gs dc')) \<and>
    dcs_output_node dc' = nc_id x \<and> edge_ids (snd (dcs_gs dc)) \<subseteq> edge_ids (snd (dcs_gs dc')) \<and>
    map_of (nodes_map (snd (dcs_gs dc'))) (nc_id x) = Some n \<and> node_shape n = nc_shape x \<and>
    (\<forall>t xs r. dc_fed dc t xs r \<longrightarrow> dc_fed dc' t xs r) \<and>
    (\<forall>pp c cp ty. (dcs_node dc, pp, c, cp, ty) \<in> edge_ids (snd (dcs_gs dc)) \<longrightarrow>
       (nc_id x, port, c, cp, ty) \<in> edge_ids (snd (dcs_gs dc')))"
proof -
  define st where "st = dcs_gs dc"
  obtain dn p where dn: "map_of (nodes_map (snd st)) (dcs_node dc) = Some dn" "node_type dn = kPyOp" "op_part dn = Some p"
    and wf: "graph_wf (fst st) (snd st)"
    using r unfolding dc_ready_def st_def by (auto split: option.splits)
  obtain n where n: "map_of (nodes_map (snd st)) (nc_id x) = Some n" "node_type n = kPyOp" "pyop_part n \<noteq> None"
    "node_shape n = nc_shape x"
    using x unfolding dc_made_def st_def by (auto split: option.splits)
  have op: "op_part n \<noteq> None" using n(3) by (auto simp: op_part_def pyop_part_def split: node_class.splits)
  define f where "f = with_op (\<lambda>q. q\<lparr>gradient_op := gradient_op p\<rparr>)"
  define m where "m = n\<lparr>node_cls := map_op (\<lambda>q. q\<lparr>gradient_op := gradient_op p\<rparr>) (node_cls n)\<rparr>"
  have "f n = Inr m" using n(2) op by (auto simp: f_def with_op_def as_OpNode_def m_def)
  from update_node_total [where f = f, OF wf n(1) this] obtain st1 where
    u: "on_graph (update_node (nc_id x) f) st = Inr st1"
      "graph_wf (fst st1) (snd st1)" "map_of (nodes_map (snd st1)) = (map_of (nodes_map (snd st)))(nc_id x \<mapsto> m)"
      "contexts (snd st1) = contexts (snd st)" "edge_ids (snd st1) = edge_ids (snd st)"
    by (auto simp: m_def)
  have h1: "nothing_hidden (snd st1)" using h u(4) by (simp add: st_def contexts_def nothing_hidden_def)
  have xin: "nc_id x \<in> node_ids (snd st)" unfolding in_node_ids using n(1) by blast
  have "dom (map_of (nodes_map (snd st1))) = insert (nc_id x) (dom (map_of (nodes_map (snd st))))"
    unfolding u(3) by auto
  then have ids: "node_ids (snd st1) = node_ids (snd st)"
    using insert_absorb [OF xin] by (simp add: dom_map_of_conv_image_fst)
  have node: "dcs_node dc \<in> node_ids (snd st1)" unfolding ids in_node_ids using dn(1) by blast
  have new: "nc_id x \<in> node_ids (snd st1)" unfolding ids in_node_ids using n(1) by blast
  from dc_relink_effect [OF u(2) h1 node new, of "dcs_inserted dc" port] ins ids obtain st4 where
    s4: "dc_relink (dcs_inserted dc) (dcs_node dc) (nc_id x) port st1 = Inr st4" "edges_only st1 st4"
      "\<forall>pp c cp ty. (dcs_node dc, pp, c, cp, ty) \<in> edge_ids (snd st) \<longrightarrow> (nc_id x, port, c, cp, ty) \<in> edge_ids (snd st4)"
    by (auto simp: st_def u(5))
  define dc' where "dc' = dc\<lparr>dcs_gs := st4, dcs_output_node := nc_id x\<rparr>"
  have "dc_fuse_with x port dc = rbind (dc_relink (dcs_inserted dc) (dcs_node dc) (nc_id x) port st1)
      (\<lambda>st4. Inr (dc\<lparr>dcs_gs := st4, dcs_output_node := nc_id x\<rparr>))"
    using dn n(1-3) u(1)
    by (auto simp: dc_fuse_with_def dc_relink_def Let_def node_by_id_def deref_def as_PyOpNode_def as_OpNode_def
        f_def rbind_assoc simp flip: st_def)
  then have "dc_fuse_with x port dc = Inr dc'" by (simp add: s4(1) dc'_def)
  moreover have "map_of (nodes_map (snd st4)) (nc_id x) = Some m" using edges_onlyD(2) [OF s4(2)] u(3) by simp
  moreover have grow: "edge_ids (snd st) \<subseteq> edge_ids (snd st4)" using s4(2) u(5) by (simp add: edges_only_def)
  moreover have "dc_fed dc' t xs r" if "dc_fed dc t xs r" for t xs r
  proof -
    have "map_option node_op_type (pyop_part m) = map_option node_op_type (pyop_part n)"
      by (simp add: m_def pyop_part_def split: node_class.splits)
    moreover have "map_of (nodes_map (snd st4)) = (map_of (nodes_map (snd st)))(nc_id x \<mapsto> m)"
      using edges_onlyD(2) [OF s4(2)] u(3) by simp
    ultimately show ?thesis
      using that grow n(1) by (auto simp: dc_fed_def dc'_def simp flip: st_def split: option.splits)
  qed
  ultimately show ?thesis
    using edges_onlyD(3) [OF s4(2)] n(4) s4(3)
    by (intro exI [of _ dc'] exI [of _ m]) (simp add: dc'_def m_def flip: st_def)
qed

section \<open>Decomposing a reshape\<close>

text \<open>The operations a reshape from the shape \<open>ds\<close> becomes.\<close>

definition reshape_step :: "int list \<Rightarrow> u32 list \<Rightarrow> OpType" where
  "reshape_step shape ds = (if length shape < length ds then dim0_op ''squeeze'' Op_Squeeze
     else dim0_op ''unsqueeze'' Op_Unsqueeze)"

lemma decompose_reshape_context:
  assumes r: "dc_ready dc" and x: "dc_live dc x"
    and shape: "op_attr_ints o1 ''shape'' = Inr shape"
    and k: "0 < k" "shape = replicate k 1 @ map sint (sh_dims (nc_shape x)) \<or>
      map sint (sh_dims (nc_shape x)) = replicate k 1 @ shape"
  shows "\<exists>y dc1. decompose_reshape (decomposer base_shape) o1 [x] dc = dc_fuse_with y 0 dc1 \<and>
    map sint (sh_dims (nc_shape y)) = shape \<and> dc_made dc1 y \<and> dc_ready dc1 \<and> dc_grow dc dc1 \<and>
    built_chain (dc_fed dc1) (reshape_step shape (sh_dims (nc_shape x))) k x y"
proof -
  have D: "dc_op (decomposer base_shape) = dc_op_default base_shape"
    "dc_fuse (decomposer base_shape) = dc_fuse_with" by (simp_all add: decomposer_def)
  from dcm.decompose_reshape_repeat [OF D(1) r x shape k] obtain y dc1 where
    y: "decompose_reshape (decomposer base_shape) o1 [x] dc = dc_fuse_with y 0 dc1"
      "map sint (sh_dims (nc_shape y)) = shape" "dc_made dc1 y" "dc_ready dc1" "dc_grow dc dc1"
    and c: "dc_repeat (decomposer base_shape) (if length shape < length (sh_dims (nc_shape x)) then ''squeeze''
      else ''unsqueeze'') k (x, dc) = Inr (y, dc1)"
      "length shape < length (sh_dims (nc_shape x)) \<longrightarrow>
         sh_dims (nc_shape x) = replicate k 1 @ drop k (sh_dims (nc_shape x))"
    unfolding D(2) by blast
  have "built_chain (dc_fed dc1) (reshape_step shape (sh_dims (nc_shape x))) k x y"
    using c dcl.squeezes_built [OF D(1) r x] dcl.unsqueezes_built [OF D(1) r x]
    by (auto simp: reshape_step_def split: if_splits)
  with y show ?thesis by blast
qed

text \<open>C22: A reshape that only adds or removes \<open>k > 0\<close> leading ones is decomposed: the decomposition succeeds,
  the graph stays well formed, and from the operand a chain of exactly \<open>k\<close> squeezes (when it removes) or
  unsqueezes (when it adds) of dimension 0, each fed by the one before and the first by the operand, leads
  to the node that takes over. That node has exactly the shape the reshape asks for, and every user of the
  reshape, data or control, becomes a user of it at the same input port; no edge is lost. The context is
  ready (a well-formed graph with no node hidden, the reshape in it, none of the names to come taken, what was inserted before in the graph) and
  the operand is a node of the reshape's epoch.\<close>

theorem reshape_decomposition:
  assumes "dc_ready dc" "nothing_hidden (snd (dcs_gs dc))" "dc_live dc x"
    "set (dcs_inserted dc) \<subseteq> node_ids (snd (dcs_gs dc))"
    "op_attr_ints o1 ''shape'' = Inr shape" "0 < k"
    "shape = replicate k 1 @ map sint (sh_dims (nc_shape x)) \<or>
      map sint (sh_dims (nc_shape x)) = replicate k 1 @ shape"
  shows "\<exists>dc' n y. decompose_reshape (decomposer base_shape) o1 [x] dc = Inr dc' \<and>
    graph_wf (fst (dcs_gs dc')) (snd (dcs_gs dc')) \<and>
    nc_id y = dcs_output_node dc' \<and>
    built_chain (dc_fed dc') (reshape_step shape (sh_dims (nc_shape x))) k x y \<and>
    map_of (nodes_map (snd (dcs_gs dc'))) (dcs_output_node dc') = Some n \<and>
    map sint (sh_dims (node_shape n)) = shape \<and>
    edge_ids (snd (dcs_gs dc)) \<subseteq> edge_ids (snd (dcs_gs dc')) \<and>
    (\<forall>pp c cp ty. (dcs_node dc, pp, c, cp, ty) \<in> edge_ids (snd (dcs_gs dc)) \<longrightarrow>
       (dcs_output_node dc', 0, c, cp, ty) \<in> edge_ids (snd (dcs_gs dc')))"
proof -
  from decompose_reshape_context [OF assms(1,3,5-7)] obtain y dc1 where
    y: "decompose_reshape (decomposer base_shape) o1 [x] dc = dc_fuse_with y 0 dc1"
      "map sint (sh_dims (nc_shape y)) = shape" "dc_made dc1 y" "dc_ready dc1" "dc_grow dc dc1"
      "built_chain (dc_fed dc1) (reshape_step shape (sh_dims (nc_shape x))) k x y" by blast
  from y(5) assms(2,4) have g: "nothing_hidden (snd (dcs_gs dc1))"
    "set (dcs_inserted dc1) \<subseteq> node_ids (snd (dcs_gs dc1))" "dcs_node dc1 = dcs_node dc"
    "edge_ids (snd (dcs_gs dc)) \<subseteq> edge_ids (snd (dcs_gs dc1))"
    by (auto simp: dc_grow_def contexts_def nothing_hidden_def)
  from dc_fuse_effect [OF y(4) g(1) y(3) g(2), of 0] obtain dc' n where
    f: "dc_fuse_with y 0 dc1 = Inr dc'" "graph_wf (fst (dcs_gs dc')) (snd (dcs_gs dc'))"
      "dcs_output_node dc' = nc_id y" "edge_ids (snd (dcs_gs dc1)) \<subseteq> edge_ids (snd (dcs_gs dc'))"
      "map_of (nodes_map (snd (dcs_gs dc'))) (nc_id y) = Some n" "node_shape n = nc_shape y"
      "\<forall>t xs r. dc_fed dc1 t xs r \<longrightarrow> dc_fed dc' t xs r"
      "\<forall>pp c cp ty. (dcs_node dc, pp, c, cp, ty) \<in> edge_ids (snd (dcs_gs dc1)) \<longrightarrow>
         (nc_id y, 0, c, cp, ty) \<in> edge_ids (snd (dcs_gs dc'))"
    unfolding g(3) by blast
  moreover from y(6) f(7) have "built_chain (dc_fed dc') (reshape_step shape (sh_dims (nc_shape x))) k x y"
    by (auto elim: built_chain_mono)
  ultimately show ?thesis using y(1,2) g(4) by (intro exI [of _ dc'] exI [of _ n] exI [of _ y]) auto
qed

definition example_dc :: DecompState where
  "example_dc = \<lparr>dcs_gs = (example_w, example_g), dcs_node = 2, dcs_subgraph = 0, dcs_op_index = 0,
     dcs_output_node = -1, dcs_inserted = []\<rparr>"

definition no_python :: base_shape_fn where
  "no_python t ins = Inl Assert_failed"

definition example_context :: NodeContext where
  "example_context = \<lparr>nc_id = 1, nc_name = ''x'', nc_output_index = 0, nc_type = kInput,
     nc_shape = shape_create [2, 3], nc_output_df = Float32\<rparr>"

definition example_reshape :: Op where
  "example_reshape = \<lparr>op_type = Op_Reshape, op_attrs = [(''shape'', AInts [1, 2, 3])]\<rparr>"

lemma example_dc_ready: "dc_ready example_dc"
proof -
  have n: "node_name_to_node_id example_g = [(''x'', 1), (''relu'', 2), (''y'', 3)]" by code_simp
  then have "map_of (node_name_to_node_id example_g) (''relu'' @ dc_suffix nm k) = None" for nm k
    by (simp add: dc_suffix_def)
  then show ?thesis
    using example_wf example_node
    by (simp add: dc_ready_def example_dc_def node_set_id_def mk_PyOpNode_def base_node_def op_part_def)
qed

theorem reshape_decomposition_witness:
  "\<exists>dc' n y. decompose_reshape (decomposer no_python) example_reshape [example_context] example_dc = Inr dc' \<and>
    nc_id y = dcs_output_node dc' \<and>
    built_chain (dc_fed dc') (dim0_op ''unsqueeze'' Op_Unsqueeze) 1 example_context y \<and>
    map_of (nodes_map (snd (dcs_gs dc'))) (dcs_output_node dc') = Some n \<and>
    map sint (sh_dims (node_shape n)) = [1, 2, 3] \<and>
    (dcs_output_node dc', 0, 3, 0, kData) \<in> edge_ids (snd (dcs_gs dc'))"
proof -
  have g: "nothing_hidden example_g" "edge_ids example_g = {(1, 0, 2, 0, kData), (2, 0, 3, 0, kData)}"
    by code_simp+
  have l: "dc_live example_dc example_context" by code_simp
  have o1: "op_attr_ints example_reshape ''shape'' = Inr [1, 2, 3]"
    "map sint (sh_dims (nc_shape example_context)) = [2, 3]" by code_simp+
  have e: "nothing_hidden (snd (dcs_gs example_dc))" "set (dcs_inserted example_dc) \<subseteq> node_ids (snd (dcs_gs example_dc))"
    "(dcs_node example_dc, 0, 3, 0, kData) \<in> edge_ids (snd (dcs_gs example_dc))"
    using g by (simp_all add: example_dc_def)
  have "[1, 2, 3] = replicate 1 1 @ map sint (sh_dims (nc_shape example_context))" using o1(2) by simp
  moreover have "reshape_step [1, 2, 3] (sh_dims (nc_shape example_context)) = dim0_op ''unsqueeze'' Op_Unsqueeze"
    by code_simp
  ultimately show ?thesis
    using reshape_decomposition [OF example_dc_ready e(1) l e(2) o1(1) zero_less_one disjI1, of no_python] e(3)
    by metis
qed

end
