(* ===== verification/Autograd.thy ===== *)
theory Autograd
  imports Decompose
begin

text \<open>
  Automatic differentiation (\<open>forge/csrc/autograd/autograd.hpp\<close> and \<open>.cpp\<close>).

  \<open>Engine\<close> is the \<open>autograd_engine\<close> with the graph it works on and its map from forward nodes to the
  gradients of their outputs; \<open>AutogradContext\<close> is the \<open>autograd_context\<close> the backward functions get,
  without its pointer to the engine. \<open>created_op_index\<close> counts the nodes of one backward function; it
  is a natural number here.

  \<open>AutogradEnv\<close> holds what the engine asks of code outside: shapes and gradients of the operations of
  Python, the tensor of ones for the gradient of a loss, the data format of a tensor, the optimizer,
  and the constant-evaluation graphs of inputs, which are objects of their own. Log output is left out.
\<close>

declare map_of_eq_Some_iff [simp del] Some_eq_map_of_iff [simp del] split_paired_All [simp del]
  split_paired_Ex [simp del]

record Engine =
  eng_gs :: GS
  fwd_to_out_gradient_map :: "NodeId list id_map"

record AutogradContext =
  current_fwd_op :: NodeId
  ac_operand :: int
  ac_epoch_type :: NodeEpochType
  created_op_index :: nat

type_synonym AutogradState = "AutogradContext \<times> Engine"

record AutogradEnv =
  env_base_shape :: base_shape_fn
  env_base_backward :: "AutogradState base_backward_fn"
  env_loss_tensor :: "u32 list \<Rightarrow> DataFormat \<Rightarrow> TensorRef"
  env_infer_df :: "TensorRef \<Rightarrow> DataFormat"
  env_consteval_autograd :: "ConstEvalRef \<Rightarrow> World \<Rightarrow> World result"
  env_clone_consteval :: "ConstEvalRef \<Rightarrow> ConstEvalRef result"
  env_optimizer :: "(NodeContext \<Rightarrow> NodeContext \<Rightarrow> AutogradState \<Rightarrow> (NodeContext \<times> AutogradState) result) option"
  env_recompute :: bool

definition mk_autograd_engine :: "GS \<Rightarrow> Engine" where
  "mk_autograd_engine st = \<lparr>eng_gs = st, fwd_to_out_gradient_map = []\<rparr>"

definition eng_graph :: "Engine \<Rightarrow> Graph" where
  "eng_graph g = snd (eng_gs g)"

definition on_gs :: "(GS \<Rightarrow> GS result) \<Rightarrow> Engine \<Rightarrow> Engine result" where
  "on_gs f g = rbind (f (eng_gs g)) (\<lambda>st. Inr (g\<lparr>eng_gs := st\<rparr>))"

definition context_of :: "Engine \<Rightarrow> NodeId \<Rightarrow> NodeContext result" where
  "context_of g i = rbind (deref (eng_graph g) i) (\<lambda>n. mk_NodeContext n 0)"

section \<open>Which edges require a gradient\<close>

type_synonym grad_map = "(EdgeUniqueId \<times> bool) list"

definition set_requires_grad_on_outputs :: "Graph \<Rightarrow> NodeId \<Rightarrow> grad_map \<Rightarrow> bool \<Rightarrow> grad_map result" where
  "set_requires_grad_on_outputs g i m requires_grad =
     rbind (user_data_edges any_edge g i) (\<lambda>es.
       Inr (fold (\<lambda>e. map_insert (unique_id e) requires_grad) es m))"

text \<open>A missing edge is reported as a runtime error.\<close>

definition edge_requires_grad :: "grad_map \<Rightarrow> Edge \<Rightarrow> bool result" where
  "edge_requires_grad m e = of_opt Runtime_error (map_of m (unique_id e))"

definition propagate_step :: "Graph \<Rightarrow> grad_map \<Rightarrow> NodeId \<Rightarrow> grad_map result" where
  "propagate_step g m i =
     rbind (deref g i) (\<lambda>n.
       if node_type n = kInput then
         rbind (as_InputNode n) (\<lambda>p. set_requires_grad_on_outputs g i m (input_requires_grad p))
       else if node_type n \<noteq> kOutput then
         rbind (operand_data_edges any_edge g i) (\<lambda>es.
         rbind (existsR (edge_requires_grad m) es) (set_requires_grad_on_outputs g i m))
       else Inr m)"

definition propagate_requires_grad :: "GS \<Rightarrow> grad_map result" where
  "propagate_requires_grad st =
     rbind (topo_order (fst st) (snd st)) (foldR (propagate_step (snd st)) [])"

section \<open>Relating forward, backward and optimizer nodes\<close>

definition node_is :: "(Node \<Rightarrow> bool) \<Rightarrow> NodeId \<Rightarrow> Engine \<Rightarrow> Engine result" where
  "node_is p i g = rbind (deref (eng_graph g) i) (\<lambda>n. tt_assert (p n) (Inr g))"

definition add_fwd_edge :: "EdgeType \<Rightarrow> NodeId \<Rightarrow> NodeId \<Rightarrow> int \<Rightarrow> Engine \<Rightarrow> Engine" where
  "add_fwd_edge ty fwd i operand_index g =
     (case construct_edge fwd (word_of_int operand_index) i 0 ty (eng_gs g) of
        (st, e) \<Rightarrow> g\<lparr>eng_gs := put_edge e st\<rparr>)"

definition add_fwd_to_out_gradient_map :: "NodeId \<Rightarrow> NodeId \<Rightarrow> Engine \<Rightarrow> Engine result" where
  "add_fwd_to_out_gradient_map fwd out_gradient g =
     rbind (on_gs (connect_nodes fwd out_gradient kAutogradFwdToGradient)
       (g\<lparr>fwd_to_out_gradient_map := AList.update fwd
            (map_get [] (fwd_to_out_gradient_map g) fwd @ [out_gradient]) (fwd_to_out_gradient_map g)\<rparr>))
       (\<lambda>g1. rbind (node_is is_forward fwd g1) (node_is is_backward out_gradient))"

definition add_fwd_to_bwd_map :: "NodeId \<Rightarrow> NodeId \<Rightarrow> int \<Rightarrow> bool \<Rightarrow> Engine \<Rightarrow> Engine result" where
  "add_fwd_to_bwd_map fwd bwd operand_index out_gradient g =
     rbind (node_is is_forward fwd (add_fwd_edge kAutogradFwdToBwd fwd bwd operand_index g)) (\<lambda>g1.
     rbind (node_is is_backward bwd g1) (\<lambda>g2.
       if out_gradient then add_fwd_to_out_gradient_map fwd bwd g2 else Inr g2))"

definition add_fwd_to_optimizer_edge :: "NodeId \<Rightarrow> NodeId \<Rightarrow> int \<Rightarrow> Engine \<Rightarrow> Engine result" where
  "add_fwd_to_optimizer_edge fwd i operand_index g =
     rbind (node_is is_forward fwd (add_fwd_edge kAutogradFwdToOptimizer fwd i operand_index g))
       (node_is is_optimizer i)"

definition is_fwd_to_gradient_edge :: "Edge \<Rightarrow> bool" where
  "is_fwd_to_gradient_edge e \<longleftrightarrow> edge_type e = kAutogradFwdToGradient"

section \<open>Creating nodes\<close>

text \<open>A new node in the subgraph of the forward op.\<close>

definition add_beside :: "NodeId \<Rightarrow> Node \<Rightarrow> Engine \<Rightarrow> (Engine \<times> NodeId) result" where
  "add_beside fwd n g =
     rbind (get_subgraph_id_for_node (eng_graph g) fwd) (\<lambda>s.
     rbind (put_node n s (eng_gs g)) (\<lambda>(st, i). Inr (g\<lparr>eng_gs := st\<rparr>, i)))"

definition change_node :: "NodeId \<Rightarrow> (Node \<Rightarrow> Node result) \<Rightarrow> Engine \<Rightarrow> Engine result" where
  "change_node i f = on_gs (on_graph (update_node i f))"

definition set_fields :: "Shape \<Rightarrow> NodeEpochType \<Rightarrow> DataFormat \<Rightarrow> Node \<Rightarrow> Node result" where
  "set_fields s ep df n =
     rbind (node_set_shape s n) (\<lambda>n1. Inr (node_set_output_df df (set_epoch_type ep n1)))"

definition add_operand :: "NodeId \<Rightarrow> GS \<Rightarrow> nat \<times> NodeContext \<Rightarrow> GS" where
  "add_operand i st = (\<lambda>(k, x).
     case construct_edge (nc_id x) (nc_output_index x) i (word_of_nat k) kData st of
       (st1, e) \<Rightarrow> put_edge e st1)"

definition add_operands :: "NodeId \<Rightarrow> NodeContext list \<Rightarrow> GS \<Rightarrow> GS" where
  "add_operands i xs st = foldl (add_operand i) st (enumerate 0 xs)"

definition created_name :: "string \<Rightarrow> int \<Rightarrow> string \<Rightarrow> string \<Rightarrow> string \<Rightarrow> nat \<Rightarrow> string" where
  "created_name pre operand_index fwd_name name_prefix op_nm k =
     pre @ show_int operand_index @ ''_'' @ fwd_name @ ''_'' @
     (if name_prefix = [] then [] else name_prefix @ ''_'') @ op_nm @ ''_'' @ show_nat k"

text \<open>Golden transforms come from the forward op or verification is off.\<close>

definition copy_golden :: "bool \<Rightarrow> Node \<Rightarrow> Node \<Rightarrow> Node result" where
  "copy_golden copy_golden_transforms fwd n =
     (case op_part fwd of None \<Rightarrow> Inr n
      | Some p \<Rightarrow>
          if copy_golden_transforms then with_op (\<lambda>q. q\<lparr>golden_transforms := golden_transforms p\<rparr>) n
          else if op_part n \<noteq> None then with_op disable_golden_id n else Inr n)"

definition create_backward_op ::
    "base_shape_fn \<Rightarrow> OpType \<Rightarrow> NodeContext list \<Rightarrow> NodeId \<Rightarrow> int \<Rightarrow> nat \<Rightarrow> string \<Rightarrow> bool \<Rightarrow> Engine \<Rightarrow>
       (NodeContext \<times> Engine) result" where
  "create_backward_op base_shape t xs fwd operand_index k name_prefix copy_golden_transforms g =
     rbind (deref (eng_graph g) fwd) (\<lambda>fn.
     rbind (add_beside fwd
       (mk_PyOpNode (created_name ''bw_in'' operand_index (node_name fn) name_prefix (op_name t) k) t) g)
       (\<lambda>(g1, i).
     rbind (on_gs (calculate_and_set_node_shape (get_op_shape base_shape) i)
              (g1\<lparr>eng_gs := add_operands i xs (eng_gs g1)\<rparr>)) (\<lambda>g2.
     rbind (change_node i (\<lambda>n. Inr (set_epoch_type Epoch_Backward n)) g2) (\<lambda>g3.
     rbind (on_gs (on_graph (set_output_df_from_operands i)) g3) (\<lambda>g4.
     rbind (change_node i (copy_golden copy_golden_transforms fn) g4) (\<lambda>g5.
     rbind (add_fwd_to_bwd_map fwd i operand_index False g5) (\<lambda>g6.
     rbind (context_of g6 i) (\<lambda>x. Inr (x, g6)))))))))"

text \<open>The operands' own shapes here, not the shapes under the TMs of their edges.\<close>

definition set_operand_broadcasts :: "DimBroadcast list \<Rightarrow> NodeId \<Rightarrow> GS \<Rightarrow> GS result" where
  "set_operand_broadcasts bs i st =
     rbind (operand_data_edges any_edge (snd st) i) (foldR (set_edge_broadcasts bs) st)"

definition create_optimizer_op ::
    "base_shape_fn \<Rightarrow> OpType \<Rightarrow> NodeContext list \<Rightarrow> NodeId \<Rightarrow> int \<Rightarrow> nat \<Rightarrow> string \<Rightarrow> Engine \<Rightarrow>
       (NodeContext \<times> Engine) result" where
  "create_optimizer_op base_shape t xs fwd operand_index k name_prefix g =
     rbind (deref (eng_graph g) fwd) (\<lambda>fn.
     rbind (add_beside fwd
       (mk_PyOpNode (created_name ''opt_in'' operand_index (node_name fn) name_prefix (op_name t) k) t) g)
       (\<lambda>(g1, i).
     let g2 = g1\<lparr>eng_gs := add_operands i xs (eng_gs g1)\<rparr> in
     rbind (mapR (\<lambda>x. rbind (node_by_id (eng_graph g2) (nc_id x)) (\<lambda>n. Inr (node_shape n))) xs) (\<lambda>shapes.
     rbind (get_op_shape base_shape t shapes) (\<lambda>(s, bs).
     rbind (change_node i (\<lambda>n. rbind (node_set_shape s n) (\<lambda>n1.
              Inr (set_epoch_type Epoch_Optimizer n1))) g2) (\<lambda>g3.
     rbind (on_gs (on_graph (set_output_df_from_operands i)) g3) (\<lambda>g4.
     rbind (on_gs (set_operand_broadcasts bs i) g4) (\<lambda>g5.
     rbind (add_fwd_to_optimizer_edge fwd i operand_index g5) (\<lambda>g6.
     rbind (context_of g6 i) (\<lambda>x. Inr (x, g6))))))))))"

text \<open>The end of every function that creates an input: its epoch and the edge from the forward op.\<close>

definition enter_epoch :: "NodeEpochType \<Rightarrow> NodeId \<Rightarrow> NodeId \<Rightarrow> int \<Rightarrow> Engine \<Rightarrow> Engine result" where
  "enter_epoch ep fwd i operand_index g =
     (case ep of
        Epoch_Backward \<Rightarrow> rbind (change_node i (\<lambda>n. Inr (set_epoch_type Epoch_Backward n)) g)
          (add_fwd_to_bwd_map fwd i operand_index False)
      | Epoch_Optimizer \<Rightarrow> rbind (change_node i (\<lambda>n. Inr (set_epoch_type Epoch_Optimizer n)) g)
          (add_fwd_to_optimizer_edge fwd i operand_index)
      | Epoch_Forward \<Rightarrow> Inr g)"

definition constant_name :: "string \<Rightarrow> nat \<Rightarrow> string" where
  "constant_name fwd_name k = ''input_constant_'' @ fwd_name @ ''_'' @ show_nat k"

definition create_constant_value ::
    "NodeId \<Rightarrow> int \<Rightarrow> float32 \<Rightarrow> nat \<Rightarrow> NodeEpochType \<Rightarrow> Engine \<Rightarrow> (NodeContext \<times> Engine) result" where
  "create_constant_value fwd operand_index v k ep g =
     rbind (deref (eng_graph g) fwd) (\<lambda>fn.
     rbind (add_beside fwd (mk_ConstantInputNode (constant_name (node_name fn) k) v (-1) (-1)) g) (\<lambda>(g1, i).
     rbind (change_node i (\<lambda>n. rbind (node_set_shape (shape_create [1]) n) (\<lambda>n1.
              Inr (node_set_output_df (node_output_df fn) n1))) g1) (\<lambda>g2.
     rbind (enter_epoch ep fwd i operand_index g2) (\<lambda>g3.
     rbind (context_of g3 i) (\<lambda>x. Inr (x, g3))))))"

definition create_constant_tensor ::
    "(TensorRef \<Rightarrow> DataFormat) \<Rightarrow> NodeId \<Rightarrow> int \<Rightarrow> TensorRef option \<Rightarrow> Shape \<Rightarrow> nat \<Rightarrow> NodeEpochType \<Rightarrow> Engine \<Rightarrow>
       (NodeContext \<times> Engine) result" where
  "create_constant_tensor infer_df fwd operand_index tensor s k ep g =
     (case tensor of None \<Rightarrow> Inl Assert_failed | Some h \<Rightarrow>
       rbind (deref (eng_graph g) fwd) (\<lambda>fn.
       rbind (mk_ConstantTensorNode (constant_name (node_name fn) k) tensor s) (\<lambda>c.
       rbind (add_beside fwd c g) (\<lambda>(g1, i).
       rbind (change_node i (\<lambda>n. rbind (node_set_shape s n) (\<lambda>n1.
                Inr (node_set_output_df (infer_df h) n1))) g1) (\<lambda>g2.
       rbind (enter_epoch ep fwd i operand_index g2) (\<lambda>g3.
       rbind (context_of g3 i) (\<lambda>x. Inr (x, g3))))))))"

definition tag_disable_consteval :: "bool \<Rightarrow> Node \<Rightarrow> Node" where
  "tag_disable_consteval disable_consteval n =
     (if disable_consteval then tag_node ''dont_consteval'' (TagString ''true'') n else n)"

definition take_consteval :: "(ConstEvalRef \<Rightarrow> ConstEvalRef result) \<Rightarrow> Node \<Rightarrow> Node \<Rightarrow> Node result" where
  "take_consteval ce original n =
     rbind (as_InputNode n) (\<lambda>p. rbind (clone_consteval_graph_from ce original p) (\<lambda>p'. with_input (\<lambda>_. p') n))"

definition create_input ::
    "(ConstEvalRef \<Rightarrow> ConstEvalRef result) \<Rightarrow> NodeId \<Rightarrow> int \<Rightarrow> nat \<Rightarrow> NodeEpochType \<Rightarrow> string \<Rightarrow> u32 list \<Rightarrow> bool \<Rightarrow> bool \<Rightarrow>
       Engine \<Rightarrow> (NodeContext \<times> Engine) result" where
  "create_input ce fwd operand_index k ep suffix tensor_shape copy_consteval_operations disable_consteval g =
     rbind (deref (eng_graph g) fwd) (\<lambda>fn.
     rbind (add_beside fwd
       (mk_InputNode (''input_'' @ (if ep = Epoch_Backward then ''bwd'' else ''opt'') @ ''_'' @ node_name fn @
          ''_'' @ show_nat k @ ''.'' @ suffix) In_OptimizerParameter False) g) (\<lambda>(g1, i).
     rbind (if copy_consteval_operations then change_node i (take_consteval ce fn) g1 else Inr g1) (\<lambda>g2.
     rbind (change_node i (\<lambda>n. rbind (node_set_shape (shape_create tensor_shape) n) (\<lambda>n1.
              Inr (node_set_output_df (node_output_df fn) n1))) g2) (\<lambda>g3.
     rbind (enter_epoch ep fwd i operand_index g3) (\<lambda>g4.
     rbind (change_node i (\<lambda>n. Inr (tag_disable_consteval disable_consteval n)) g4) (\<lambda>g5.
     rbind (context_of g5 i) (\<lambda>x. Inr (x, g5))))))))"

text \<open>What a backward function calls: the context counts the nodes.\<close>

definition count_op :: "AutogradContext \<Rightarrow> AutogradContext" where
  "count_op ac = ac\<lparr>created_op_index := Suc (created_op_index ac)\<rparr>"

definition engine_create_op ::
    "base_shape_fn \<Rightarrow> OpType \<Rightarrow> NodeContext list \<Rightarrow> AutogradState \<Rightarrow> (NodeContext \<times> AutogradState) result" where
  "engine_create_op base_shape t xs = (\<lambda>(ac, g).
     rbind (case ac_epoch_type ac of
          Epoch_Backward \<Rightarrow> create_backward_op base_shape t xs (current_fwd_op ac) (ac_operand ac)
            (created_op_index ac) [] True g
        | Epoch_Optimizer \<Rightarrow> create_optimizer_op base_shape t xs (current_fwd_op ac) (ac_operand ac)
            (created_op_index ac) [] g
        | Epoch_Forward \<Rightarrow> Inl Runtime_error) (\<lambda>(x, g').
       Inr (x, count_op ac, g')))"

definition engine_create_constant ::
    "float32 \<Rightarrow> AutogradState \<Rightarrow> (NodeContext \<times> AutogradState) result" where
  "engine_create_constant v = (\<lambda>(ac, g).
     rbind (create_constant_value (current_fwd_op ac) (ac_operand ac) v (created_op_index ac)
              (ac_epoch_type ac) g) (\<lambda>(x, g').
       Inr (x, count_op ac, g')))"

definition engine_builder :: "base_shape_fn \<Rightarrow> AutogradState Builder" where
  "engine_builder base_shape =
     \<lparr>create_op = engine_create_op base_shape, create_constant = engine_create_constant\<rparr>"

section \<open>The backward graph\<close>

text \<open>The gradient of the node is \<open>new\<close> alone from now on.\<close>

definition retarget_gradient :: "NodeId \<Rightarrow> NodeId \<Rightarrow> Engine \<Rightarrow> Engine result" where
  "retarget_gradient i new g =
     rbind (user_edges is_fwd_to_gradient_edge (eng_graph g) i) (\<lambda>es.
     rbind (on_gs (\<lambda>st. foldR (\<lambda>st e. rbind (drop_edge e st) (\<lambda>(st1, _). Inr st1)) st es) g)
       (on_gs (connect_nodes i new kAutogradFwdToGradient)))"

definition set_out_gradient :: "NodeId \<Rightarrow> NodeId \<Rightarrow> Engine \<Rightarrow> Engine" where
  "set_out_gradient i new g =
     g\<lparr>fwd_to_out_gradient_map := AList.update i [new] (fwd_to_out_gradient_map g)\<rparr>"

definition add_gradients ::
    "base_shape_fn \<Rightarrow> NodeId \<Rightarrow> NodeContext \<times> Engine \<Rightarrow> nat \<times> NodeId \<Rightarrow> (NodeContext \<times> Engine) result" where
  "add_gradients base_shape i = (\<lambda>(total, g) (k, out_grad).
     rbind (context_of g out_grad) (\<lambda>x.
     rbind (mk_OpType ''add'' [] []) (\<lambda>t.
       create_backward_op base_shape t [total, x] i 0 k ''combine'' True g)))"

definition combine_incoming_gradients ::
    "base_shape_fn \<Rightarrow> NodeId \<Rightarrow> Engine \<Rightarrow> (NodeId option \<times> Engine) result" where
  "combine_incoming_gradients base_shape i g =
     (case map_of (fwd_to_out_gradient_map g) i of
        None \<Rightarrow> Inr (None, g)
      | Some [] \<Rightarrow> Inl Assert_failed
      | Some [x] \<Rightarrow> Inr (Some x, g)
      | Some (x # xs) \<Rightarrow>
          rbind (context_of g x) (\<lambda>first.
          rbind (foldR (add_gradients base_shape i) (first, g) (enumerate 0 xs)) (\<lambda>(total, g1).
          rbind (node_by_id (eng_graph g1) (nc_id total)) (\<lambda>_.
          rbind (retarget_gradient i (nc_id total) g1) (\<lambda>g2.
            Inr (Some (nc_id total), set_out_gradient i (nc_id total) g2))))))"

text \<open>
  The gradients that come from outside: a constant one for a loss, an input for any other output that
  needs a gradient.
\<close>

definition loss_gradient :: "AutogradEnv \<Rightarrow> NodeId \<Rightarrow> Node \<Rightarrow> OutputFields \<Rightarrow> Engine \<Rightarrow> Engine result" where
  "loss_gradient env i n p g =
     rbind (mk_ConstantTensorNode (''loss_grad_constant_'' @ node_name n)
              (Some (env_loss_tensor env (sh_dims (node_shape n)) (node_output_df n))) (node_shape n)) (\<lambda>c.
     rbind (add_beside i c g) (\<lambda>(g1, new).
     rbind (change_node new (\<lambda>c. with_input (\<lambda>q. q\<lparr>input_transform := output_transform p\<rparr>)
              (node_set_output_df (node_output_df n) (set_epoch_type Epoch_Backward c))) g1) (\<lambda>g2.
     rbind (data_operands (eng_graph g2) i) (\<lambda>os.
     rbind (vec_at os 0) (\<lambda>o1. add_fwd_to_bwd_map o1 new 0 True g2)))))"

definition input_gradient :: "NodeId \<Rightarrow> Node \<Rightarrow> OutputFields \<Rightarrow> Engine \<Rightarrow> Engine result" where
  "input_gradient i n p g =
     rbind (add_beside i (mk_InputNode (''gradient_'' @ node_name n) In_Gradient False) g) (\<lambda>(g1, new).
     rbind (change_node new (\<lambda>c. rbind (set_fields (node_shape n) Epoch_Backward (node_output_df n) c)
              (with_input (\<lambda>q. q\<lparr>input_transform :=
                 swap_original_and_reinterpreted_shapes (output_transform p)\<rparr>))) g1) (\<lambda>g2.
     rbind (on_gs (connect_nodes i new kAutogradOutputToLoss) g2) (\<lambda>g3.
     rbind (data_operands (eng_graph g3) i) (\<lambda>os.
     rbind (vec_at os 0) (\<lambda>o1.
     rbind (add_fwd_to_bwd_map o1 new 0 True g3)
       (on_gs (on_graph (\<lambda>h. Inr (register_module_inputs [new] True h)))))))))"

definition output_gradient :: "AutogradEnv \<Rightarrow> grad_map \<Rightarrow> Engine \<Rightarrow> NodeId \<Rightarrow> Engine result" where
  "output_gradient env m g i =
     rbind (deref (eng_graph g) i) (\<lambda>n.
       if node_type n \<noteq> kOutput then Inr g
       else rbind (operand_data_edges any_edge (eng_graph g) i) (\<lambda>es.
            tt_assert (length es = 1)
              (rbind (map_at m (unique_id (hd es))) (\<lambda>requires_grad.
                 if \<not> requires_grad then Inr g
                 else rbind (as_OutputNode n) (\<lambda>p.
                        if loss_output p then loss_gradient env i n p g else input_gradient i n p g)))))"

text \<open>A gradient smaller than its node is broadcast by a nop with explicit broadcasts.\<close>

definition broadcast_out ::
    "NodeId \<Rightarrow> Node \<Rightarrow> Node \<Rightarrow> NodeId \<Rightarrow> DimBroadcast list \<Rightarrow> Engine \<Rightarrow> (NodeId \<times> Engine) result" where
  "broadcast_out i n og out_grad brcst g =
     rbind (mk_PyOpNode_named (''broadcast_out_'' @ node_name n) ''nop'') (\<lambda>c.
     rbind (add_beside i c g) (\<lambda>(g1, nop).
     rbind (change_node nop (set_fields (node_shape n) Epoch_Backward (node_output_df n)) g1) (\<lambda>g2.
     case construct_edge out_grad 0 nop 0 kData (eng_gs g2) of (st, e) \<Rightarrow>
     rbind (on_gs (\<lambda>st. foldR (\<lambda>st (operand, dim, size). tt_assert (operand = 0)
              (update_edge_attr (set_broadcast_dim (dim - int (shape_size (node_shape og))) size True) e st))
              st brcst) (g2\<lparr>eng_gs := put_edge e st\<rparr>)) (\<lambda>g3.
     rbind (retarget_gradient i nop g3) (\<lambda>g4.
     rbind (on_gs (connect_nodes i nop kAutogradFwdToBwd) g4) (\<lambda>g5.
       Inr (nop, set_out_gradient i nop g5)))))))"

definition match_out_gradient :: "NodeId \<Rightarrow> NodeId \<Rightarrow> Engine \<Rightarrow> (NodeId \<times> Engine) result" where
  "match_out_gradient i out_grad g =
     rbind (deref (eng_graph g) i) (\<lambda>n.
     rbind (deref (eng_graph g) out_grad) (\<lambda>og.
     rbind (broadcast_dims (node_shape og) (node_shape n)) (\<lambda>brcst.
       if brcst = [] then Inr (out_grad, g) else broadcast_out i n og out_grad brcst g)))"

text \<open>The gradient of a parameter ends in a queue that accumulates it, the optimizer's input.\<close>

definition accumulate_gradient :: "NodeId \<Rightarrow> Node \<Rightarrow> NodeId \<Rightarrow> Engine \<Rightarrow> Engine result" where
  "accumulate_gradient i n out_grad g =
     rbind (change_node out_grad (\<lambda>m. rbind (as_PyOpNode m) (\<lambda>_. with_op (\<lambda>q. q\<lparr>gradient_op := True\<rparr>) m)) g) (\<lambda>g1.
     rbind (add_beside i (mk_QueueNode (''grad_acc_'' @ node_name n) Queue_GradAccumulator) g1) (\<lambda>(g2, q).
     rbind (deref (eng_graph g2) out_grad) (\<lambda>og.
     rbind (change_node q (set_fields (node_shape n) Epoch_Backward (node_output_df og)) g2) (\<lambda>g3.
     rbind (on_gs (connect_nodes out_grad q kData) g3) (\<lambda>g4.
     rbind (operand_edges is_fwd_to_gradient_edge (eng_graph g4) out_grad) (\<lambda>old.
     tt_assert (length old = 1)
       (rbind (on_gs (\<lambda>st. rbind (drop_edge (hd old) st) (\<lambda>(st1, _). Inr st1)) g4)
         (on_gs (connect_ports (producer_node_id (hd old)) q (producer_output_port_id (hd old)) 0
            kAutogradFwdToGradient)))))))))"

text \<open>The gradient of an activation is an output; a reshape is inserted when the ranks differ.\<close>

definition reshape_gradient :: "NodeId \<Rightarrow> Node \<Rightarrow> NodeId \<Rightarrow> Engine \<Rightarrow> (NodeId \<times> Engine) result" where
  "reshape_gradient i n out_grad g =
     rbind (mk_OpType ''reshape'' [] (attrs_of [(''shape'', AInts (map sint (sh_dims (node_shape n))))])) (\<lambda>t.
     rbind (add_beside i (mk_PyOpNode (''reshape_out_grad_'' @ node_name n) t) g) (\<lambda>(g1, r).
     rbind (change_node r (set_fields (node_shape n) Epoch_Backward (node_output_df n)) g1) (\<lambda>g2.
     rbind (on_gs (connect_nodes out_grad r kData) g2) (\<lambda>g3.
       Inr (r, g3)))))"

definition output_input_gradient :: "NodeId \<Rightarrow> Node \<Rightarrow> NodeId \<Rightarrow> Engine \<Rightarrow> Engine result" where
  "output_input_gradient i n out_grad g =
     rbind (add_beside i (mk_OutputNode (''output_grad_'' @ node_name n)) g) (\<lambda>(g1, out).
     rbind (change_node out (set_fields (node_shape n) Epoch_Backward (node_output_df n)) g1) (\<lambda>g2.
     rbind (on_gs (connect_nodes i out kAutogradInputToGradientOut) g2) (\<lambda>g3.
     rbind (deref (eng_graph g3) out_grad) (\<lambda>og.
     rbind (if shape_size (node_shape n) \<noteq> shape_size (node_shape og) then
              tt_assert (shape_eq (node_shape n) (node_shape og)) (reshape_gradient i n out_grad g3)
            else Inr (out_grad, g3)) (\<lambda>(src, g4).
       on_gs (connect_nodes src out kData) g4)))))"

definition input_node_gradient :: "AutogradEnv \<Rightarrow> NodeId \<Rightarrow> Node \<Rightarrow> NodeId \<Rightarrow> Engine \<Rightarrow> Engine result" where
  "input_node_gradient env i n out_grad g =
     rbind (as_InputNode n) (\<lambda>p.
     rbind (if input_type p = In_Parameter then accumulate_gradient i n out_grad g
            else if input_type p = In_Activation then output_input_gradient i n out_grad g
            else Inr g) (\<lambda>g1.
       case consteval_graph p of None \<Rightarrow> Inr g1
       | Some r \<Rightarrow> on_gs (\<lambda>(w, h). rbind (env_consteval_autograd env r w) (\<lambda>w'. Inr (w', h))) g1))"

text \<open>The reductions that undo the broadcasts of an operand's edge.\<close>

definition reduce_broadcast_tm ::
    "base_shape_fn \<Rightarrow> NodeId \<Rightarrow> Edge \<Rightarrow> (NodeContext \<times> nat) \<times> Engine \<Rightarrow> OpType \<Rightarrow>
       ((NodeContext \<times> nat) \<times> Engine) result" where
  "reduce_broadcast_tm base_shape i e = (\<lambda>((last_out, k), g) tm.
     if OpType_type tm \<noteq> Op_Broadcast then Inr ((last_out, k), g)
     else tt_assert (length (legacy_attrs tm) \<le> 3)
       (rbind (legacy_int tm 0) (\<lambda>dim.
        rbind (mk_OpType ''reduce_sum'' [AInt dim, ABool True]
                 (attrs_of [(''keep_dim'', ABool True), (''dim_arg'', AInts [dim])])) (\<lambda>t.
        rbind (create_backward_op base_shape t [last_out] i (sint (consumer_input_port_id e)) k ''brcst'' False g)
          (\<lambda>(x, g1). Inr ((x, Suc k), g1))))))"

text \<open>\<open>operand\<close> contexts carry the shapes under the TMs of their edges.\<close>

definition operand_context :: "base_shape_fn \<Rightarrow> Engine \<Rightarrow> NodeId \<Rightarrow> NodeId \<Rightarrow> NodeContext result" where
  "operand_context base_shape g i j =
     rbind (context_of g j) (\<lambda>x.
     rbind (shape_of_operand (get_op_shape base_shape) (fst (eng_gs g)) (eng_graph g) i j False) (\<lambda>s.
       Inr (x\<lparr>nc_shape := s\<rparr>)))"

definition differentiate_edge ::
    "AutogradEnv \<Rightarrow> grad_map \<Rightarrow> NodeId \<Rightarrow> OpFields \<Rightarrow> NodeId \<Rightarrow> Engine \<Rightarrow> Edge \<Rightarrow> Engine result" where
  "differentiate_edge env m i p out_grad g e =
     rbind (edge_requires_grad m e) (\<lambda>requires_grad.
       if \<not> requires_grad then Inr g
       else let bs = env_base_shape env; port = sint (consumer_input_port_id e) in
         rbind (data_operands (eng_graph g) i) (\<lambda>os.
         rbind (mapR (operand_context bs g i) os) (\<lambda>xs.
         rbind (context_of g out_grad) (\<lambda>gradient.
         rbind (context_of g i) (\<lambda>output.
         rbind (Op_backward (engine_builder bs) (env_base_backward env) (node_op_type p) (new_op (node_op_type p))
                  port xs output gradient
                  (\<lparr>current_fwd_op = i, ac_operand = port, ac_epoch_type = Epoch_Backward,
                    created_op_index = 0\<rparr>, g)) (\<lambda>(x, _, g1).
         rbind (edge_tms (eng_gs g1) e) (\<lambda>ts.
         rbind (foldR (reduce_broadcast_tm bs i e) ((x, 0), g1) ts) (\<lambda>((last_out, _), g2).
         rbind (node_by_id (eng_graph g2) (producer_node_id e)) (\<lambda>_.
         rbind (node_by_id (eng_graph g2) (nc_id last_out)) (\<lambda>_.
           add_fwd_to_out_gradient_map (producer_node_id e) (nc_id last_out) g2))))))))))"

definition backward_node :: "AutogradEnv \<Rightarrow> grad_map \<Rightarrow> Engine \<Rightarrow> NodeId \<Rightarrow> Engine result" where
  "backward_node env m g i =
     rbind (deref (eng_graph g) i) (\<lambda>n.
       if node_type n = kOutput then Inr g
       else rbind (if node_type n = kInput then rbind (as_InputNode n) (\<lambda>p. Inr (\<not> input_requires_grad p))
                   else Inr False) (\<lambda>skip.
         if skip then Inr g
         else rbind (combine_incoming_gradients (env_base_shape env) i g) (\<lambda>(found, g1).
           case found of None \<Rightarrow> Inr g1
           | Some x \<Rightarrow> rbind (match_out_gradient i x g1) (\<lambda>(out_grad, g2).
               if node_type n = kInput then input_node_gradient env i n out_grad g2
               else if node_type n \<noteq> kPyOp then Inr g2
               else rbind (as_PyOpNode n) (\<lambda>p.
                    rbind (operand_data_edges any_edge (eng_graph g2) i) (\<lambda>es.
                      foldR (differentiate_edge env m i p out_grad) g2 es))))))"

definition forward_order :: "Engine \<Rightarrow> NodeId list result" where
  "forward_order g =
     (let h = eng_graph g; k = length (nodes_order h)
      in topological_sort k k (\<lambda>i. case map_of (nodes_map h) i of Some n \<Rightarrow> is_forward n | None \<Rightarrow> False)
           False (fst (eng_gs g)) h)"

definition create_backward_graph :: "AutogradEnv \<Rightarrow> grad_map \<Rightarrow> Engine \<Rightarrow> Engine result" where
  "create_backward_graph env m g =
     rbind (nodes (\<lambda>_. Inr True) (eng_graph g)) (\<lambda>ns.
     rbind (foldR (output_gradient env m) g ns) (\<lambda>g1.
     rbind (forward_order g1) (\<lambda>order.
       foldR (backward_node env m) g1 (rev order))))"

section \<open>The optimizer\<close>

text \<open>Optimizer parameters fed back take over the constant evaluation of the parameter.\<close>

definition share_consteval :: "(ConstEvalRef \<Rightarrow> ConstEvalRef result) \<Rightarrow> NodeId \<Rightarrow> Engine \<Rightarrow> Edge \<Rightarrow> Engine result" where
  "share_consteval ce i g e =
     (let out = consumer_node_id e in
      rbind (node_by_id (eng_graph g) out) (\<lambda>m.
        if node_type m \<noteq> kInput then Inr g
        else rbind (as_InputNode m) (\<lambda>q.
             rbind (operand_edges any_edge (eng_graph g) out) (\<lambda>es.
               if input_type q = In_OptimizerParameter \<and> list_ex (\<lambda>e. edge_type e = kDataLoopback) es \<and>
                  \<not> has_tag ''dont_consteval'' m
               then rbind (deref (eng_graph g) i) (\<lambda>n. change_node out (take_consteval ce n) g)
               else Inr g))))"

definition optimize_parameter ::
    "AutogradEnv \<Rightarrow> (NodeContext \<Rightarrow> NodeContext \<Rightarrow> AutogradState \<Rightarrow> (NodeContext \<times> AutogradState) result) \<Rightarrow>
       NodeId \<Rightarrow> Edge list \<Rightarrow> Engine \<Rightarrow> Edge \<Rightarrow> Engine result" where
  "optimize_parameter env op_trace i data_edges g gradient_edge =
     rbind (vec_at data_edges 0) (\<lambda>e.
     rbind (node_by_id (eng_graph g) (consumer_node_id gradient_edge)) (\<lambda>_.
     rbind (context_of g i) (\<lambda>x.
     rbind (context_of g (consumer_node_id gradient_edge)) (\<lambda>gradient.
     rbind (op_trace x gradient
       (\<lparr>current_fwd_op = i, ac_operand = sint (consumer_input_port_id e), ac_epoch_type = Epoch_Optimizer,
         created_op_index = 0\<rparr>, g)) (\<lambda>(out, _, g1).
     rbind (node_by_id (eng_graph g1) (nc_id out)) (\<lambda>_.
     rbind (on_gs (connect_ports (nc_id out) i 0 0 kDataLoopback) g1) (\<lambda>g2.
     rbind (user_edges any_edge (eng_graph g2) i) (\<lambda>us.
       foldR (share_consteval (env_clone_consteval env) i) g2 us))))))))"

definition optimizer_step ::
    "AutogradEnv \<Rightarrow> (NodeContext \<Rightarrow> NodeContext \<Rightarrow> AutogradState \<Rightarrow> (NodeContext \<times> AutogradState) result) \<Rightarrow>
       NodeId list \<times> Engine \<Rightarrow> NodeId \<Rightarrow> (NodeId list \<times> Engine) result" where
  "optimizer_step env op_trace = (\<lambda>(visited, g) i.
     if i \<in> set visited then Inr (visited, g)
     else rbind (deref (eng_graph g) i) (\<lambda>n.
       if node_type n \<noteq> kInput then Inr (visited, g)
       else rbind (as_InputNode n) (\<lambda>p.
         if \<not> (input_requires_grad p \<and> input_type p = In_Parameter) then Inr (visited, g)
         else rbind (user_edges is_fwd_to_gradient_edge (eng_graph g) i) (\<lambda>gradient_edges.
              rbind (user_data_edges any_edge (eng_graph g) i) (\<lambda>data_edges.
              tt_assert (length gradient_edges = 1) (tt_assert (1 \<le> length data_edges)
                (rbind (foldR (optimize_parameter env op_trace i data_edges) g gradient_edges) (\<lambda>g1.
                  Inr (i # visited, g1))))))))) "

definition create_optimizer_graph :: "AutogradEnv \<Rightarrow> Engine \<Rightarrow> Engine result" where
  "create_optimizer_graph env g =
     (case env_optimizer env of None \<Rightarrow> Inr g
      | Some op_trace \<Rightarrow>
          rbind (topo_order (fst (eng_gs g)) (eng_graph g)) (\<lambda>order.
          rbind (foldR (optimizer_step env op_trace) ([], g) order) (\<lambda>(_, g1). Inr g1)))"

section \<open>Recomputing the forward graph\<close>

text \<open>\<open>fwd_to_recompute\<close> maps a forward op to its copy. The map \<open>producer_remap\<close> of the C++ stays empty.\<close>

definition recompute_operand ::
    "NodeId id_map \<Rightarrow> NodeId \<Rightarrow> GS \<Rightarrow> Edge \<Rightarrow> GS result" where
  "recompute_operand fwd_to_recompute r st e =
     rbind (node_by_id (snd st) (producer_node_id e)) (\<lambda>n.
     let same_epoch = is_forward n \<and> node_type n \<noteq> kInput;
         found = map_of fwd_to_recompute (producer_node_id e)
     in tt_assert (\<not> same_epoch \<or> found \<noteq> None)
          (replicate_edge (if same_epoch then the found else producer_node_id e)
             (producer_output_port_id e) r (consumer_input_port_id e) e st))"

definition create_recompute_op ::
    "NodeId id_map \<times> Engine \<Rightarrow> NodeId \<Rightarrow> (NodeId id_map \<times> Engine) result" where
  "create_recompute_op = (\<lambda>(fwd_to_recompute, g) fwd.
     rbind (deref (eng_graph g) fwd) (\<lambda>n.
     tt_assert (is_forward n) (tt_assert (node_type n = kPyOp)
       (rbind (node_clone Inr (node_name n @ ''_recompute'') n) (\<lambda>c.
        rbind (add_beside fwd (set_epoch_type Epoch_Backward c) g) (\<lambda>(g1, r).
        let m = AList.update fwd r fwd_to_recompute in
        rbind (operand_data_edges any_edge (eng_graph g1) fwd) (\<lambda>es.
        rbind (on_gs (\<lambda>st. foldR (recompute_operand m r) st es) g1) (\<lambda>g2.
          Inr (m, g2)))))))))"

definition recompute_forward_node ::
    "(NodeId id_map \<times> string list) \<times> Engine \<Rightarrow> NodeId \<Rightarrow> ((NodeId id_map \<times> string list) \<times> Engine) result" where
  "recompute_forward_node = (\<lambda>((m, names), g) i.
     rbind (deref (eng_graph g) i) (\<lambda>n.
       if is_forward n \<and> node_type n = kPyOp then
         rbind (create_recompute_op (m, g) i) (\<lambda>(m1, g1).
         rbind (of_opt Undefined_behaviour (map_of m1 i)) (\<lambda>r.
         rbind (deref (eng_graph g1) r) (\<lambda>c. Inr ((m1, names @ [node_name c]), g1))))
       else Inr ((m, names), g)))"

text \<open>The new edge shares the attribute object of the one it replaces.\<close>

definition add_edges_for_recompute_op :: "NodeId id_map \<Rightarrow> GS \<Rightarrow> Edge \<Rightarrow> GS result" where
  "add_edges_for_recompute_op fwd_to_recompute st e =
     rbind (node_by_id (snd st) (producer_node_id e)) (\<lambda>_.
       case map_of fwd_to_recompute (producer_node_id e) of None \<Rightarrow> Inr st
       | Some r \<Rightarrow>
           (case construct_edge r (producer_output_port_id e) (consumer_node_id e) (consumer_input_port_id e)
                  (edge_type e) st of
              (st1, e') \<Rightarrow>
                rbind (get_edge_attributes (snd st1) e) (\<lambda>a.
                rbind (drop_edge e (put_edge_attr e' a st1)) (\<lambda>(st2, _). Inr st2))))"

definition recompute_backward_node :: "NodeId id_map \<Rightarrow> GS \<Rightarrow> NodeId \<Rightarrow> GS result" where
  "recompute_backward_node m st i =
     rbind (deref (snd st) i) (\<lambda>n.
       if \<not> is_backward n then Inr st
       else rbind (operand_data_edges any_edge (snd st) i) (foldR (add_edges_for_recompute_op m) st))"

text \<open>
  The work list of names. Every round but one per name takes out a node, and adds one name for each of
  its operand edges at most, so the names and the operand edges together are enough fuel.
\<close>

fun drop_unused_recomputes :: "nat \<Rightarrow> string list \<Rightarrow> GS \<Rightarrow> GS result" where
  "drop_unused_recomputes k [] st = Inr st"
| "drop_unused_recomputes 0 (name # names) st = Inl Out_of_fuel"
| "drop_unused_recomputes (Suc k) (name # names) st =
     (if \<not> has_node_with_name (snd st) name then drop_unused_recomputes k names st
      else rbind (get_node_by_name (snd st) name True) (\<lambda>found.
           rbind (of_opt Undefined_behaviour found) (\<lambda>r.
           rbind (num_users (snd st) r) (\<lambda>n.
             if n \<noteq> 0 then drop_unused_recomputes k names st
             else rbind (data_operands (snd st) r) (\<lambda>os.
                  rbind (mapR (\<lambda>j. rbind (deref (snd st) j) (\<lambda>m. Inr (node_name m))) os) (\<lambda>more.
                  rbind (drop_node r st) (\<lambda>(st1, _).
                    drop_unused_recomputes k (names @ more) st1)))))))"

definition recompute_fuel :: "string list \<Rightarrow> GS \<Rightarrow> nat" where
  "recompute_fuel names st = length names + sum_list (map (length \<circ> snd) (operands_map (snd st)))"

definition link_recompute :: "GS \<Rightarrow> NodeId \<times> string \<Rightarrow> GS result" where
  "link_recompute st = (\<lambda>(fwd, name).
     if \<not> has_node_with_name (snd st) name then Inr st
     else rbind (get_node_by_name (snd st) name True) (\<lambda>found.
          rbind (of_opt Undefined_behaviour found) (\<lambda>r. connect_nodes fwd r kAutogradFwdToRecompute st)))"

definition insert_recompute_ops :: "AutogradEnv \<Rightarrow> Engine \<Rightarrow> Engine result" where
  "insert_recompute_ops env g =
     tt_assert (env_recompute env)
       (rbind (topo_order (fst (eng_gs g)) (eng_graph g)) (\<lambda>order.
        rbind (foldR recompute_forward_node (([], []), g) order) (\<lambda>((m, names), g1).
        rbind (on_gs (\<lambda>st. foldR (recompute_backward_node m) st order) g1) (\<lambda>g2.
        rbind (mapR (\<lambda>(fwd, r). rbind (deref (eng_graph g2) r) (\<lambda>c. Inr (fwd, node_name c))) m) (\<lambda>links.
        rbind (on_gs (\<lambda>st. drop_unused_recomputes (recompute_fuel names st) names st) g2)
          (on_gs (\<lambda>st. foldR link_recompute st links)))))))"

definition run :: "AutogradEnv \<Rightarrow> GS \<Rightarrow> GS result" where
  "run env st =
     rbind (propagate_requires_grad st) (\<lambda>m.
     rbind (create_backward_graph env m (mk_autograd_engine st)) (\<lambda>g1.
     rbind (create_optimizer_graph env g1) (\<lambda>g2.
     rbind (if env_recompute env then insert_recompute_ops env g2 else Inr g2) (\<lambda>g3.
       Inr (eng_gs g3)))))"

end
