(* ===== verification/Autograd_Laws.thy ===== *)
theory Autograd_Laws
  imports Autograd
begin

text \<open>
  Laws of the autograd engine: which edges require a gradient, what the clean-up of recomputed
  operations leaves, and the shapes of gradients.
\<close>

declare map_of_eq_Some_iff [simp del] Some_eq_map_of_iff [simp del] split_paired_All [simp del]
  split_paired_Ex [simp del]

lemma foldR_prefix:
  assumes "P [] s" and "\<And>ps x qs s'. xs = ps @ x # qs \<Longrightarrow> P ps s' \<Longrightarrow> \<exists>t. f s' x = Inr t \<and> P (ps @ [x]) t"
  shows "\<exists>t. foldR f s xs = Inr t \<and> P xs t"
proof -
  have "xs = ps @ ys \<Longrightarrow> P ps s' \<Longrightarrow> \<exists>t. foldR f s' ys = Inr t \<and> P xs t" for ps ys s'
  proof (induction ys arbitrary: ps s')
    case (Cons y ys)
    from assms(2) [OF Cons.prems] obtain t where "f s' y = Inr t" "P (ps @ [y]) t" by blast
    with Cons.IH [of "ps @ [y]" t] Cons.prems(1) show ?case by simp
  qed simp
  from this [of "[]" xs s] assms(1) show ?thesis by simp
qed

section \<open>Which edges require a gradient\<close>

inductive grad_flows :: "Graph \<Rightarrow> NodeId \<Rightarrow> bool" for g where
  from_input: "map_of (nodes_map g) i = Some n \<Longrightarrow> node_type n = kInput \<Longrightarrow> as_InputNode n = Inr p \<Longrightarrow>
    input_requires_grad p \<Longrightarrow> grad_flows g i"
| through: "e \<in> set (graph_edges g) \<Longrightarrow> is_data_edge e \<Longrightarrow> edge_shown g e \<Longrightarrow>
    map_of (nodes_map g) (consumer_node_id e) = Some n \<Longrightarrow> node_type n \<noteq> kInput \<Longrightarrow> node_type n \<noteq> kOutput \<Longrightarrow>
    grad_flows g (producer_node_id e) \<Longrightarrow> grad_flows g (consumer_node_id e)"

inductive_cases grad_flowsE: "grad_flows g i"

lemma grad_flows_input:
  assumes "map_of (nodes_map g) i = Some n" "node_type n = kInput" "as_InputNode n = Inr p"
  shows "grad_flows g i \<longleftrightarrow> input_requires_grad p"
  using assms by (auto intro: grad_flows.from_input elim: grad_flowsE)

lemma grad_flows_op:
  assumes "map_of (nodes_map g) i = Some n" "node_type n \<noteq> kInput" "node_type n \<noteq> kOutput"
  shows "grad_flows g i \<longleftrightarrow> (\<exists>e \<in> set (graph_edges g). consumer_node_id e = i \<and> is_data_edge e \<and>
    edge_shown g e \<and> grad_flows g (producer_node_id e))"
  using assms by (auto intro: grad_flows.through elim: grad_flowsE)

text \<open>The edges the engine asks for: data edges into an op come from a node that is no output, and
  not around a loop.\<close>

definition differentiable :: "Graph \<Rightarrow> bool" where
  "differentiable g \<longleftrightarrow> (\<forall>e \<in> set (graph_edges g). is_data_edge e \<longrightarrow>
     node_type_of g (consumer_node_id e) \<in> {Some kPyOp, Some kQueue} \<longrightarrow>
       node_type_of g (producer_node_id e) \<noteq> Some kOutput \<and> edge_type e \<noteq> kDataLoopback)"

definition grads_known :: "Graph \<Rightarrow> NodeId list \<Rightarrow> grad_map \<Rightarrow> bool" where
  "grads_known g is m \<longleftrightarrow> (\<forall>e \<in> set (graph_edges g). is_data_edge e \<longrightarrow> edge_shown g e \<longrightarrow>
     (if producer_node_id e \<in> set is \<and> node_type_of g (producer_node_id e) \<noteq> Some kOutput
      then map_of m (unique_id e) = Some (grad_flows g (producer_node_id e))
      else map_of m (unique_id e) = None))"

lemma data_edges:
  assumes "graph_wf w g" "i \<in> node_ids g"
  shows "\<exists>es. operand_data_edges any_edge g i = Inr es \<and>
      set es = {e \<in> set (graph_edges g). consumer_node_id e = i \<and> is_data_edge e \<and> edge_shown g e}"
    "\<exists>es. user_data_edges any_edge g i = Inr es \<and>
      set es = {e \<in> set (graph_edges g). producer_node_id e = i \<and> is_data_edge e \<and> edge_shown g e}"
proof -
  show "\<exists>es. operand_data_edges any_edge g i = Inr es \<and>
      set es = {e \<in> set (graph_edges g). consumer_node_id e = i \<and> is_data_edge e \<and> edge_shown g e}"
    unfolding operand_data_edges_def
    by (rule opq.query_correct [OF assms, of "\<lambda>e. any_edge e \<and> is_data_edge e"]) auto
  show "\<exists>es. user_data_edges any_edge g i = Inr es \<and>
      set es = {e \<in> set (graph_edges g). producer_node_id e = i \<and> is_data_edge e \<and> edge_shown g e}"
    unfolding user_data_edges_def
    by (rule usq.query_correct [OF assms, of "\<lambda>e. any_edge e \<and> is_data_edge e"]) auto
qed

lemma map_of_fold_flag:
  "map_of (fold (\<lambda>e. map_insert (unique_id e) b) es m) u =
     (if map_of m u = None \<and> u \<in> unique_id ` set es then Some b else map_of m u)"
  by (induction es arbitrary: m) (auto simp: map_of_insert)

lemma same_unique_id: "unique_id e = unique_id e' \<Longrightarrow> producer_node_id e = producer_node_id e'"
  by (simp add: unique_id_def)

text \<open>One node: its users' edges become known.\<close>

lemma grads_known_step:
  assumes wf: "graph_wf w g" and i: "i \<in> node_ids g" "i \<notin> set is" and m: "grads_known g is m"
    and t: "node_type_of g i \<noteq> Some kOutput"
  shows "\<exists>m'. set_requires_grad_on_outputs g i m (grad_flows g i) = Inr m' \<and> grads_known g (is @ [i]) m'"
proof -
  obtain es where es: "user_data_edges any_edge g i = Inr es"
    "set es = {e \<in> set (graph_edges g). producer_node_id e = i \<and> is_data_edge e \<and> edge_shown g e}"
    using data_edges(2) [OF wf i(1)] by blast
  define m' where "m' = fold (\<lambda>e. map_insert (unique_id e) (grad_flows g i)) es m"
  have "set_requires_grad_on_outputs g i m (grad_flows g i) = Inr m'"
    by (simp add: set_requires_grad_on_outputs_def es(1) m'_def)
  moreover have "grads_known g (is @ [i]) m'"
    unfolding grads_known_def
  proof (intro ballI impI)
    fix e assume e: "e \<in> set (graph_edges g)" "is_data_edge e" "edge_shown g e"
    have "unique_id e \<in> unique_id ` set es \<longleftrightarrow> producer_node_id e = i"
    proof
      assume "unique_id e \<in> unique_id ` set es"
      then obtain e' where e': "unique_id e = unique_id e'" "e' \<in> set es" by (rule imageE)
      from e'(2) have "producer_node_id e' = i" unfolding es(2) by simp
      then show "producer_node_id e = i" using same_unique_id [OF e'(1)] by simp
    next
      assume "producer_node_id e = i"
      then have "e \<in> set es" unfolding es(2) using e by simp
      then show "unique_id e \<in> unique_id ` set es" by (rule imageI)
    qed
    then have "map_of m' (unique_id e) =
        (if map_of m (unique_id e) = None \<and> producer_node_id e = i then Some (grad_flows g i) else map_of m (unique_id e))"
      by (simp only: m'_def map_of_fold_flag)
    moreover note m [unfolded grads_known_def, rule_format, OF e]
    ultimately show "if producer_node_id e \<in> set (is @ [i]) \<and> node_type_of g (producer_node_id e) \<noteq> Some kOutput
        then map_of m' (unique_id e) = Some (grad_flows g (producer_node_id e))
        else map_of m' (unique_id e) = None"
      using i(2) t by (cases "producer_node_id e = i") (simp_all split: if_splits)
  qed
  ultimately show ?thesis by blast
qed

lemma existsR_total: "(\<And>x. x \<in> set xs \<Longrightarrow> p x = Inr (q x)) \<Longrightarrow> existsR p xs = Inr (\<exists>x \<in> set xs. q x)"
  by (induction xs) auto

lemma as_InputNode_typed: "node_typed n \<Longrightarrow> node_type n = kInput \<Longrightarrow> \<exists>p. as_InputNode n = Inr p"
  by (cases "node_cls n") (auto simp: node_typed_def class_type_def as_InputNode_def input_part_def split: node_class.splits)

lemma propagate_step_known:
  assumes wf: "graph_wf w g" and d: "differentiable g" and typed: "\<forall>(j, n) \<in> set (nodes_map g). node_typed n"
    and i: "i \<in> node_ids g" "i \<notin> set is" and m: "grads_known g is m"
    and before: "\<forall>j. (j, i) \<in> topo_edges g \<longrightarrow> j \<in> set is"
  shows "\<exists>m'. propagate_step g m i = Inr m' \<and> grads_known g (is @ [i]) m'"
proof -
  obtain n where n: "map_of (nodes_map g) i = Some n" using i(1) unfolding in_node_ids by blast
  with typed have ty: "node_typed n" by (auto dest: map_of_SomeD)
  have t: "node_type_of g i = Some (node_type n)" by (simp add: node_type_of_def n)
  note step = grads_known_step [OF wf i m]
  consider "node_type n = kInput" | "node_type n = kOutput" | "node_type n \<noteq> kInput" "node_type n \<noteq> kOutput" by blast
  then show ?thesis
  proof cases
    case 1
    from as_InputNode_typed [OF ty 1] obtain p where p: "as_InputNode n = Inr p" ..
    have "propagate_step g m i = set_requires_grad_on_outputs g i m (grad_flows g i)"
      by (simp add: propagate_step_def deref_def n 1 p grad_flows_input [OF n 1 p])
    then show ?thesis using step t 1 by simp
  next
    case 2
    then have "grads_known g (is @ [i]) m" using m t unfolding grads_known_def by auto
    then show ?thesis by (simp add: propagate_step_def deref_def n 2)
  next
    case 3
    from data_edges(1) [OF wf i(1)] obtain es where es: "operand_data_edges any_edge g i = Inr es"
      "set es = {e \<in> set (graph_edges g). consumer_node_id e = i \<and> is_data_edge e \<and> edge_shown g e}" by blast
    have known: "edge_requires_grad m e = Inr (grad_flows g (producer_node_id e))" if "e \<in> set es" for e
    proof -
      have e: "e \<in> set (graph_edges g)" "is_data_edge e" "edge_shown g e" "consumer_node_id e = i"
        using that es(2) by auto
      have "node_type n \<in> {kPyOp, kQueue}" using 3 by (cases "node_type n") auto
      with d e t have nt: "node_type_of g (producer_node_id e) \<noteq> Some kOutput" "edge_type e \<noteq> kDataLoopback"
        unfolding differentiable_def by auto
      with e have "(producer_node_id e, i) \<in> topo_edges g"
        by (auto simp: topo_edges_def skipped_in_topo_def is_data_edge_def)
      with before have "producer_node_id e \<in> set is" by blast
      with m [unfolded grads_known_def, rule_format, OF e(1-3)] nt(1) show ?thesis
        by (simp add: edge_requires_grad_def)
    qed
    have "propagate_step g m i = set_requires_grad_on_outputs g i m (\<exists>e \<in> set es. grad_flows g (producer_node_id e))"
      using 3 by (simp add: propagate_step_def deref_def n es(1) existsR_total [OF known])
    also have "(\<exists>e \<in> set es. grad_flows g (producer_node_id e)) \<longleftrightarrow> grad_flows g i"
      unfolding grad_flows_op [OF n 3] es(2) by blast
    finally show ?thesis using step t 3 by simp
  qed
qed

lemma operands_come_before:
  assumes "sorted_wrt (\<lambda>i j. (j, i) \<notin> (topo_edges g)\<^sup>+) (ps @ i # qs)" and "acyclic (topo_edges g)"
    and "set (ps @ i # qs) = node_ids g" and "graph_wf w g"
  shows "(j, i) \<in> topo_edges g \<Longrightarrow> j \<in> set ps"
proof -
  assume ji: "(j, i) \<in> topo_edges g"
  then have "j \<in> node_ids g" using graph_edges_ends(4) [OF assms(4)] by (auto simp: topo_edges_def)
  moreover have "j \<noteq> i" using ji assms(2) by (auto simp: acyclic_def)
  moreover have "j \<notin> set qs" using assms(1) ji by (auto simp: sorted_wrt_append)
  ultimately show ?thesis using assms(3) by auto
qed


definition example_grad :: Graph where
  "example_grad = set_node 1 (node_set_id 1 (mk_InputNode ''x'' In_Parameter True)) example_g"

lemma example_grad_wf: "graph_wf example_w example_grad"
  by code_simp

lemma example_grad_edges: "map unique_id (graph_edges example_grad) = [(1, 0, 2, 0, kData), (2, 0, 3, 0, kData)]"
  by code_simp

lemma example_grad_flows: "grad_flows example_grad 2"
proof -
  let ?e = "edge_with_id 1 0 2 0 kData 0"
  have e: "list_ex (\<lambda>x. x = ?e) (graph_edges example_grad)" "nothing_hidden example_grad" by code_simp+
  have n: "map_of (nodes_map example_grad) 1 = Some (node_set_id 1 (mk_InputNode ''x'' In_Parameter True))"
    "map_of (nodes_map example_grad) 2 = Some (node_set_id 2 (mk_PyOpNode ''relu'' example_relu))" by code_simp+
  have "grad_flows example_grad 1"
    by (rule grad_flows.from_input [OF n(1), where p = "input_fields In_Parameter True"])
      (simp_all add: node_set_id_def mk_InputNode_def base_node_def as_InputNode_def input_part_def input_fields_def)
  with grad_flows.through [of ?e example_grad] e n(2) show ?thesis
    by (simp add: list_ex_iff edge_with_id_def is_data_edge_def edge_shown_def node_set_id_def mk_PyOpNode_def base_node_def)
qed


section \<open>Unused recomputed operations\<close>

lemma distinct_concat_keyed:
  assumes "distinct (keys m)" and "\<And>i es. (i, es) \<in> set m \<Longrightarrow> distinct (map f es) \<and> (\<forall>e \<in> set es. h e = i)"
    and "\<And>x y. f x = f y \<Longrightarrow> h x = h y"
  shows "distinct (map f (concat (map snd m)))"
  using assms(1,2)
proof (induction m)
  case (Cons p m)
  obtain i es where p: "p = (i, es)" by (cases p)
  have es: "distinct (map f es)" "\<forall>e \<in> set es. h e = i" using Cons.prems(2) [of i es] by (auto simp: p)
  have rest: "h e \<noteq> i" if e: "e \<in> set (concat (map snd m))" for e
  proof -
    obtain j fs where j: "(j, fs) \<in> set m" "e \<in> set fs" using e by auto
    then have "h e = j" using Cons.prems(2) [of j fs] by auto
    moreover have "j \<noteq> i" using Cons.prems(1) j(1) by (auto simp: p rev_image_eqI)
    ultimately show ?thesis by simp
  qed
  have "f x \<noteq> f y" if x: "x \<in> set es" and y: "y \<in> set (concat (map snd m))" for x y
    using assms(3) [of x y] rest [OF y] es(2) x by metis
  then have "f ` set es \<inter> f ` set (concat (map snd m)) = {}" by blast
  moreover have "distinct (map f (concat (map snd m)))"
    by (rule Cons.IH) (use Cons.prems in auto)
  ultimately show ?case using es(1) by (simp add: p)
qed simp

lemma graph_edges_card: "graph_wf w g \<Longrightarrow> length (graph_edges g) = card (edge_ids g)"
proof -
  assume wf: "graph_wf w g"
  have "distinct (map unique_id (graph_edges g))"
    unfolding graph_edges_def
  proof (rule distinct_concat_keyed [where h = consumer_node_id])
    show "distinct (keys (operands_map g))" by (rule graph_wfD(2) [OF wf])
    show "consumer_node_id x = consumer_node_id y" if "unique_id x = unique_id y" for x y
      using that by (simp add: unique_id_def)
    fix i es assume "(i, es) \<in> set (operands_map g)"
    then have "es = ops g i" using map_get_in [OF graph_wfD(2) [OF wf]] by metis
    then show "distinct (map unique_id es) \<and> (\<forall>e \<in> set es. consumer_node_id e = i)"
      using graph_wfD(6) [OF wf] by (auto simp: mirror_def)
  qed
  then show "length (graph_edges g) = card (edge_ids g)"
    unfolding edge_ids_def by (metis distinct_card length_map set_map)
qed

lemma fuel_edges: "sum_list (map (length \<circ> snd) (operands_map g)) = length (graph_edges g)"
  by (simp add: graph_edges_def length_concat comp_def)

lemma card_by_consumer:
  fixes S :: "EdgeUniqueId set"
  assumes "finite S"
  shows "card {(p, pp, c, cp, ty) \<in> S. c \<noteq> i} + card {(p, pp, c, cp, ty) \<in> S. c = i} = card S"
proof -
  have eq: "{(p, pp, c, cp, ty) \<in> S. Q c} = {u \<in> S. Q (fst (snd (snd u)))}" for Q by (rule set_eqI) (simp add: case_prod_unfold)
  have "card ({u \<in> S. fst (snd (snd u)) \<noteq> i} \<union> {u \<in> S. fst (snd (snd u)) = i}) =
      card {u \<in> S. fst (snd (snd u)) \<noteq> i} + card {u \<in> S. fst (snd (snd u)) = i}"
    using assms by (intro card_Un_disjoint) auto
  moreover have "{u \<in> S. fst (snd (snd u)) \<noteq> i} \<union> {u \<in> S. fst (snd (snd u)) = i} = S" by blast
  ultimately show ?thesis using eq [of "\<lambda>c. c \<noteq> i"] eq [of "\<lambda>c. c = i"] by simp
qed

definition unused :: "Graph \<Rightarrow> NodeId \<Rightarrow> bool" where
  "unused g i \<longleftrightarrow> (\<forall>pp c cp ty. (i, pp, c, cp, ty) \<notin> edge_ids g)"

text \<open>Dropping a node that nothing uses.\<close>

lemma drop_unused_node:
  assumes wf: "graph_wf (fst st) (snd st)" and h: "nothing_hidden (snd st)"
    and n: "map_of (nodes_map (snd st)) i = Some n" and un: "unused (snd st) i"
  shows "\<exists>t m. drop_node i st = Inr (t, m) \<and> graph_wf (fst t) (snd t) \<and> nothing_hidden (snd t) \<and>
    edge_ids (snd t) = {(p, pp, c, cp, ty) \<in> edge_ids (snd st). c \<noteq> i} \<and>
    card (edge_ids (snd t)) + length (ops (snd st) i) = card (edge_ids (snd st)) \<and>
    map_of (nodes_map (snd t)) = (map_of (nodes_map (snd st)))(i := None) \<and>
    map_of (node_name_to_node_id (snd t)) = (map_of (node_name_to_node_id (snd st)))(node_name n := None)"
proof -
  obtain t m where t: "drop_node i st = Inr (t, m)"
    using n by (cases st) (simp add: drop_node_def remove_node_def Let_def)
  note T = drop_node_effect [OF t wf]
  have fin: "finite (edge_ids (snd st))" by (simp add: edge_ids_def)
  have e: "edge_ids (snd t) = {(p, pp, c, cp, ty) \<in> edge_ids (snd st). c \<noteq> i}" using T(4) un unfolding unused_def by auto
  have o1: "unique_id ` set (ops (snd st) i) = {(p, pp, c, cp, ty) \<in> edge_ids (snd st). c = i}"
  proof (rule set_eqI)
    fix u
    have "u \<in> unique_id ` set (ops (snd st) i) \<longleftrightarrow> u \<in> edge_ids (snd st) \<and> fst (snd (snd u)) = i"
    proof
      assume "u \<in> unique_id ` set (ops (snd st) i)"
      then obtain e where e: "u = unique_id e" "e \<in> set (ops (snd st) i)" by (rule imageE)
      from e ops_ends(1) [OF wf e(2)] show "u \<in> edge_ids (snd st) \<and> fst (snd (snd u)) = i"
        unfolding edge_ids_ops [OF graph_wfD(2) [OF wf]] by (auto simp: unique_id_def)
    next
      assume u: "u \<in> edge_ids (snd st) \<and> fst (snd (snd u)) = i"
      then obtain e j where e: "u = unique_id e" "e \<in> set (ops (snd st) j)"
        unfolding edge_ids_ops [OF graph_wfD(2) [OF wf]] by auto
      then have "j = i" using ops_ends(1) [OF wf e(2)] u by (simp add: unique_id_def)
      then show "u \<in> unique_id ` set (ops (snd st) i)" using e by blast
    qed
    then show "u \<in> unique_id ` set (ops (snd st) i) \<longleftrightarrow> u \<in> {(p, pp, c, cp, ty) \<in> edge_ids (snd st). c = i}"
      by (cases u) simp
  qed
  have "distinct (map unique_id (ops (snd st) i))" using graph_wfD(6) [OF wf] by (simp add: mirror_def)
  from distinct_card [OF this] have "length (ops (snd st) i) = card {(p, pp, c, cp, ty) \<in> edge_ids (snd st). c = i}"
    unfolding set_map o1 by simp
  then have card: "card (edge_ids (snd t)) + length (ops (snd st) i) = card (edge_ids (snd st))"
    using card_by_consumer [of "edge_ids (snd st)" i, OF fin] by (simp only: e)
  have "nothing_hidden (snd t) \<and> map_of (nodes_map (snd t)) = (map_of (nodes_map (snd st)))(i := None) \<and>
    map_of (node_name_to_node_id (snd t)) = (map_of (node_name_to_node_id (snd st)))(node_name n := None)"
    using t n h by (cases st) (auto simp: drop_node_def remove_node_def Let_def nothing_hidden_def)
  then show ?thesis using t T(1) e card by blast
qed

text \<open>The loop invariant: a tracked name whose node has no users is on the work list.\<close>

definition cleaning :: "string set \<Rightarrow> string list \<Rightarrow> GS \<Rightarrow> bool" where
  "cleaning tracked names st \<longleftrightarrow> graph_wf (fst st) (snd st) \<and> nothing_hidden (snd st) \<and>
     (\<forall>s \<in> tracked. \<forall>i. map_of (node_name_to_node_id (snd st)) s = Some i \<longrightarrow>
        (unused (snd st) i \<longrightarrow> s \<in> set names) \<and>
        (\<forall>pp c cp ty. (i, pp, c, cp, ty) \<in> edge_ids (snd st) \<longrightarrow> ty = kData \<or> ty = kDataLoopback))"

definition cleaned :: "GS \<Rightarrow> GS \<Rightarrow> bool" where
  "cleaned st t \<longleftrightarrow> graph_wf (fst t) (snd t) \<and>
     map_of (nodes_map (snd t)) \<subseteq>\<^sub>m map_of (nodes_map (snd st)) \<and>
     (\<forall>p pp c cp ty. (p, pp, c, cp, ty) \<in> edge_ids (snd t) \<longleftrightarrow>
        (p, pp, c, cp, ty) \<in> edge_ids (snd st) \<and> c \<in> node_ids (snd t))"

lemma cleaningD:
  assumes "cleaning tracked names st"
  shows "graph_wf (fst st) (snd st)" "nothing_hidden (snd st)"
    "s \<in> tracked \<Longrightarrow> map_of (node_name_to_node_id (snd st)) s = Some i \<Longrightarrow> unused (snd st) i \<Longrightarrow> s \<in> set names"
    "s \<in> tracked \<Longrightarrow> map_of (node_name_to_node_id (snd st)) s = Some i \<Longrightarrow>
       (i, pp, c, cp, ty) \<in> edge_ids (snd st) \<Longrightarrow> ty = kData \<or> ty = kDataLoopback"
  using assms unfolding cleaning_def by blast+

lemma usr_unused: "graph_wf w g \<Longrightarrow> usr g i = [] \<longleftrightarrow> unused g i"
proof
  assume wf: "graph_wf w g" and u: "usr g i = []"
  show "unused g i"
    unfolding unused_def
  proof (intro allI notI)
    fix pp c cp ty assume "(i, pp, c, cp, ty) \<in> edge_ids g"
    then obtain e where e: "(i, pp, c, cp, ty) = unique_id e" "e \<in> set (graph_edges g)"
      unfolding edge_ids_def by (rule imageE)
    from graph_edges_ends(2) [OF wf e(2)] u e(1) show False by (simp add: unique_id_def)
  qed
next
  assume wf: "graph_wf w g" and u: "unused g i"
  show "usr g i = []"
  proof (rule ccontr)
    assume "usr g i \<noteq> []"
    then obtain e where e: "e \<in> set (usr g i)" by (cases "usr g i") auto
    from usr_ends [OF wf e] have "e \<in> set (graph_edges g)" "producer_node_id e = i"
      using mem_graph_edges [OF graph_wfD(2) [OF wf]] by auto
    then have "unique_id e \<in> edge_ids g" by (simp add: edge_ids_def)
    with u show False using \<open>producer_node_id e = i\<close> by (simp add: unused_def unique_id_def)
  qed
qed

lemma num_users_eq:
  assumes wf: "graph_wf w g" and i: "i \<in> node_ids g"
  shows "num_users g i = Inr (int (length (usr g i)))"
proof -
  from i graph_wfD(5) [OF wf] obtain es where "map_of (users_map g) i = Some es"
    by (metis list.set_map map_of_eq_None_iff not_None_eq)
  then show ?thesis by (simp add: num_users_def user_edges_set_def map_get_def)
qed

lemma data_operand_names:
  assumes wf: "graph_wf w g" and h: "nothing_hidden g" and i: "i \<in> node_ids g"
  shows "\<exists>os more. data_operands g i = Inr os \<and>
    mapR (\<lambda>j. rbind (deref g j) (\<lambda>m. Inr (node_name m))) os = Inr more \<and>
    length more \<le> length (ops g i) \<and>
    (\<forall>e \<in> set (ops g i). is_data_edge e \<longrightarrow>
       (\<exists>m. map_of (nodes_map g) (producer_node_id e) = Some m \<and> node_name m \<in> set more)) \<and>
    (\<forall>x \<in> set more. \<exists>e \<in> set (ops g i). map_of (node_name_to_node_id g) x = Some (producer_node_id e))"
proof -
  define nm where "nm j = node_name (the (map_of (nodes_map g) j))" for j
  let ?os = "reach_operands g i"
  have m: "rbind (deref g j) (\<lambda>m. Inr (node_name m)) = Inr (nm j)" if "j \<in> set ?os" for j
  proof -
    from data_operands_eq(2) [OF wf i] that have "j \<in> node_ids g" by blast
    then obtain n where "map_of (nodes_map g) j = Some n" unfolding in_node_ids by blast
    then show ?thesis by (simp add: deref_def nm_def)
  qed
  have "length ?os \<le> length (ops g i)" by (simp add: reach_operands_def)
  moreover have "\<exists>m. map_of (nodes_map g) (producer_node_id e) = Some m \<and> node_name m \<in> set (map nm ?os)"
    if e: "e \<in> set (ops g i)" "is_data_edge e" for e
  proof -
    have "producer_node_id e \<in> set ?os" using e h by (auto simp: reach_operands_def edge_shown_def)
    moreover have "producer_node_id e \<in> node_ids g" by (rule ops_ends(3) [OF wf e(1)])
    then obtain m where "map_of (nodes_map g) (producer_node_id e) = Some m" unfolding in_node_ids by blast
    ultimately have "node_name m \<in> set (map nm ?os)" by (auto simp: nm_def intro: rev_image_eqI)
    then show ?thesis using \<open>map_of (nodes_map g) (producer_node_id e) = Some m\<close> by blast
  qed
  moreover have "\<exists>e \<in> set (ops g i). map_of (node_name_to_node_id g) x = Some (producer_node_id e)"
    if x: "x \<in> set (map nm ?os)" for x
  proof -
    from x obtain e where e: "e \<in> set (ops g i)" "x = nm (producer_node_id e)" by (auto simp: reach_operands_def)
    from ops_ends(3) [OF wf e(1)] obtain n where n: "map_of (nodes_map g) (producer_node_id e) = Some n"
      unfolding in_node_ids by blast
    with e(2) graph_wfD(10) [OF wf n] have "map_of (node_name_to_node_id g) x = Some (producer_node_id e)"
      by (simp add: nm_def)
    with e(1) show ?thesis by blast
  qed
  ultimately show ?thesis
    using data_operands_eq(1) [OF wf i] mapR_total [of ?os, OF m] by auto
qed

text \<open>
  What may be dropped: a node whose users are all dropped and that is listed or feeds one of them. A node
  with users elsewhere, or with none and not listed, is not.
\<close>

inductive droppable :: "Graph \<Rightarrow> string set \<Rightarrow> NodeId \<Rightarrow> bool" for g N where
  listed: "droppable g N i"
    if "map_of (node_name_to_node_id g) s = Some i" "s \<in> N"
      "\<forall>pp c cp ty. (i, pp, c, cp, ty) \<in> edge_ids g \<longrightarrow> droppable g N c"
| feeding: "droppable g N i"
    if "(i, p, d, q, t) \<in> edge_ids g" "\<forall>pp c cp ty. (i, pp, c, cp, ty) \<in> edge_ids g \<longrightarrow> droppable g N c"

lemma droppable_mono:
  assumes "droppable g N i" "N \<subseteq> M"
  shows "droppable g M i"
  using assms
proof induction
  case (listed s i)
  then have "s \<in> M" "\<forall>pp c cp ty. (i, pp, c, cp, ty) \<in> edge_ids g \<longrightarrow> droppable g M c" by blast+
  with listed(1) show ?case by (rule droppable.listed)
next
  case (feeding i p d q t)
  then have "\<forall>pp c cp ty. (i, pp, c, cp, ty) \<in> edge_ids g \<longrightarrow> droppable g M c" by blast
  with feeding(1) show ?case by (rule droppable.feeding)
qed

lemma droppable_after_drop:
  assumes "droppable g' N i" "N \<subseteq> M \<union> E" "droppable g M r"
    and e: "edge_ids g' = {(p, pp, c, cp, ty) \<in> edge_ids g. c \<noteq> r}"
    and nm: "map_of (node_name_to_node_id g') = (map_of (node_name_to_node_id g))(s := None)"
    and extra: "\<forall>x \<in> E. \<exists>i pp cp ty. map_of (node_name_to_node_id g) x = Some i \<and> (i, pp, r, cp, ty) \<in> edge_ids g"
  shows "droppable g M i"
  using assms(1)
proof induction
  case (listed x i)
  have all: "\<forall>pp c cp ty. (i, pp, c, cp, ty) \<in> edge_ids g \<longrightarrow> droppable g M c"
    using listed(3) assms(3) by (auto simp: e)
  have x: "map_of (node_name_to_node_id g) x = Some i" using listed(1) by (auto simp: nm split: if_splits)
  show ?case
  proof (cases "x \<in> M")
    case True
    from x True all show ?thesis by (rule droppable.listed)
  next
    case False
    with listed(2) assms(2) have "x \<in> E" by blast
    with extra x obtain pp cp ty where "(i, pp, r, cp, ty) \<in> edge_ids g" by fastforce
    then show ?thesis using all by (rule droppable.feeding)
  qed
next
  case (feeding i p d q t)
  have all: "\<forall>pp c cp ty. (i, pp, c, cp, ty) \<in> edge_ids g \<longrightarrow> droppable g M c"
    using feeding(2) assms(3) by (auto simp: e)
  have "(i, p, d, q, t) \<in> edge_ids g" using feeding(1) by (simp add: e)
  then show ?case using all by (rule droppable.feeding)
qed

text \<open>Only such nodes go.\<close>

definition only_droppable :: "string set \<Rightarrow> GS \<Rightarrow> GS \<Rightarrow> bool" where
  "only_droppable N st t \<longleftrightarrow> (\<forall>i \<in> node_ids (snd st) - node_ids (snd t). droppable (snd st) N i)"

lemma only_droppable_mono: "only_droppable N st t \<Longrightarrow> N \<subseteq> M \<Longrightarrow> only_droppable M st t"
  unfolding only_droppable_def by (blast intro: droppable_mono)

lemma cleaning_skip:
  assumes "cleaning tracked (s # names) st"
    and "\<And>i. map_of (node_name_to_node_id (snd st)) s = Some i \<Longrightarrow> \<not> unused (snd st) i"
  shows "cleaning tracked names st"
  using assms unfolding cleaning_def by fastforce

lemma cleaning_drop:
  assumes c: "cleaning tracked (s # names) st" and s: "map_of (node_name_to_node_id (snd st)) s = Some r"
    and wf': "graph_wf (fst t) (snd t)" and h': "nothing_hidden (snd t)"
    and e: "edge_ids (snd t) = {(p, pp, c, cp, ty) \<in> edge_ids (snd st). c \<noteq> r}"
    and nm: "map_of (node_name_to_node_id (snd t)) = (map_of (node_name_to_node_id (snd st)))(s := None)"
    and extra: "\<forall>e \<in> set (ops (snd st) r). is_data_edge e \<longrightarrow>
       (\<exists>m. map_of (nodes_map (snd st)) (producer_node_id e) = Some m \<and> node_name m \<in> set extra)"
  shows "cleaning tracked (names @ extra) t"
  unfolding cleaning_def
proof (intro conjI ballI allI impI)
  show "graph_wf (fst t) (snd t)" "nothing_hidden (snd t)" by fact+
  note wf = cleaningD(1) [OF c]
  fix s' i assume s': "s' \<in> tracked" and i: "map_of (node_name_to_node_id (snd t)) s' = Some i"
  have ss: "s' \<noteq> s" and i': "map_of (node_name_to_node_id (snd st)) s' = Some i"
    using i unfolding nm by (auto split: if_splits)
  note D = cleaningD(3,4) [OF c s' i']
  show "ty = kData \<or> ty = kDataLoopback" if "(i, pp, co, cp, ty) \<in> edge_ids (snd t)" for pp co cp ty
    using that D(2) unfolding e by blast
  assume u: "unused (snd t) i"
  show "s' \<in> set (names @ extra)"
  proof (cases "unused (snd st) i")
    case True
    then show ?thesis using D(1) ss by simp
  next
    case False
    then obtain pp co cp ty where x: "(i, pp, co, cp, ty) \<in> edge_ids (snd st)" unfolding unused_def by blast
    have "(i, pp, co, cp, ty) \<notin> edge_ids (snd t)" using u unfolding unused_def by blast
    with x have "co = r" unfolding e by simp
    from x obtain f where f: "(i, pp, co, cp, ty) = unique_id f" "f \<in> set (graph_edges (snd st))"
      unfolding edge_ids_def by (rule imageE)
    then have f': "producer_node_id f = i" "consumer_node_id f = co" "edge_type f = ty" by (simp_all add: unique_id_def)
    have "f \<in> set (ops (snd st) r)" using graph_edges_ends(1) [OF wf f(2)] f'(2) \<open>co = r\<close> by simp
    moreover have "is_data_edge f" using D(2) [OF x] f'(3) by (simp add: is_data_edge_def)
    ultimately obtain m where m: "map_of (nodes_map (snd st)) i = Some m" "node_name m \<in> set extra"
      using extra f'(1) by blast
    from graph_wfD(11) [OF wf i'] m(1) have "node_name m = s'" by auto
    then show ?thesis using m(2) by simp
  qed
qed

lemma cleaned_after_drop:
  assumes u: "cleaned t u" and e: "edge_ids (snd t) = {(p, pp, c, cp, ty) \<in> edge_ids (snd st). c \<noteq> r}"
    and n: "map_of (nodes_map (snd t)) = (map_of (nodes_map (snd st)))(r := None)"
  shows "cleaned st u"
proof -
  have m: "map_of (nodes_map (snd u)) \<subseteq>\<^sub>m map_of (nodes_map (snd t))" using u by (simp add: cleaned_def)
  have "r \<notin> dom (map_of (nodes_map (snd u)))" using map_le_implies_dom_le [OF m] n by auto
  then have r: "r \<notin> node_ids (snd u)" by (simp add: dom_map_of_conv_image_fst)
  have "(p, pp, c, cp, ty) \<in> edge_ids (snd u) \<longleftrightarrow> (p, pp, c, cp, ty) \<in> edge_ids (snd st) \<and> c \<in> node_ids (snd u)"
    for p pp c cp ty
  proof -
    have "(p, pp, c, cp, ty) \<in> edge_ids (snd u) \<longleftrightarrow> (p, pp, c, cp, ty) \<in> edge_ids (snd t) \<and> c \<in> node_ids (snd u)"
      using u unfolding cleaned_def by blast
    then show ?thesis using r by (auto simp: e)
  qed
  moreover have "map_of (nodes_map (snd t)) \<subseteq>\<^sub>m map_of (nodes_map (snd st))" unfolding n by (simp add: map_le_def)
  with m have "map_of (nodes_map (snd u)) \<subseteq>\<^sub>m map_of (nodes_map (snd st))" by (rule map_le_trans)
  ultimately show ?thesis using u unfolding cleaned_def by blast
qed

lemma drop_unused_loop:
  "cleaning tracked names st \<Longrightarrow> length names + card (edge_ids (snd st)) \<le> k \<Longrightarrow>
   \<exists>t. drop_unused_recomputes k names st = Inr t \<and> cleaning tracked [] t \<and> cleaned st t \<and>
     only_droppable (set names) st t"
proof (induction k names st rule: drop_unused_recomputes.induct)
  case (1 k st)
  have "c \<in> node_ids (snd st)" if "(p, pp, c, cp, ty) \<in> edge_ids (snd st)" for p pp c cp ty
  proof -
    from that obtain e where e: "(p, pp, c, cp, ty) = unique_id e" "e \<in> set (graph_edges (snd st))"
      unfolding edge_ids_def by (rule imageE)
    from graph_edges_ends(3) [OF cleaningD(1) [OF 1(1)] e(2)] e(1) show ?thesis by (simp add: unique_id_def)
  qed
  then have "cleaned st st" using cleaningD(1) [OF 1(1)] unfolding cleaned_def by auto
  then show ?case using 1 by (simp add: only_droppable_def)
next
  case (2 name names st)
  then show ?case by simp
next
  case (3 k name names st)
  note wf = cleaningD(1) [OF "3.prems"(1)] and h = cleaningD(2) [OF "3.prems"(1)]
  show ?case
  proof (cases "map_of (node_name_to_node_id (snd st)) name")
    case None
    have "cleaning tracked names st" by (rule cleaning_skip [OF "3.prems"(1)]) (simp add: None)
    from "3.IH"(1) [OF _ this] "3.prems"(2) show ?thesis
      by (auto simp: has_node_with_name_def None intro: only_droppable_mono [OF _ subset_insertI])
  next
    case (Some r)
    obtain n where n: "map_of (nodes_map (snd st)) r = Some n" "node_name n = name"
      using graph_wfD(11) [OF wf Some] by blast
    have r: "r \<in> node_ids (snd st)" unfolding in_node_ids using n(1) by blast
    have found: "has_node_with_name (snd st) name" "get_node_by_name (snd st) name True = Inr (Some r)"
      using Some n(1) by (simp_all add: has_node_with_name_def get_node_by_name_def has_node_with_id_def)
    have users: "num_users (snd st) r = Inr (int (length (usr (snd st) r)))"
      by (rule num_users_eq [OF wf r])
    show ?thesis
    proof (cases "unused (snd st) r")
      case False
      then have "usr (snd st) r \<noteq> []" using usr_unused [OF wf] by blast
      then have "drop_unused_recomputes (Suc k) (name # names) st = drop_unused_recomputes k names st"
        by (simp add: found users)
      moreover have "cleaning tracked names st"
        by (rule cleaning_skip [OF "3.prems"(1)]) (use False Some in simp)
      from "3.IH"(2) [OF _ found(2) _ users _ this] found(1) \<open>usr (snd st) r \<noteq> []\<close> "3.prems"(2)
      have "\<exists>t. drop_unused_recomputes k names st = Inr t \<and> cleaning tracked [] t \<and> cleaned st t \<and>
        only_droppable (set names) st t" by simp
      ultimately show ?thesis by (auto intro: only_droppable_mono [OF _ subset_insertI])
    next
      case True
      then have un: "usr (snd st) r = []" using usr_unused [OF wf] by blast
      from data_operand_names [OF wf h r] obtain os extra where
        os: "data_operands (snd st) r = Inr os"
          "mapR (\<lambda>j. rbind (deref (snd st) j) (\<lambda>m. Inr (node_name m))) os = Inr extra"
          "length extra \<le> length (ops (snd st) r)"
          "\<forall>e \<in> set (ops (snd st) r). is_data_edge e \<longrightarrow>
             (\<exists>m. map_of (nodes_map (snd st)) (producer_node_id e) = Some m \<and> node_name m \<in> set extra)"
          "\<forall>x \<in> set extra. \<exists>e \<in> set (ops (snd st) r).
             map_of (node_name_to_node_id (snd st)) x = Some (producer_node_id e)" by blast
      from drop_unused_node [OF wf h n(1) True] obtain t m where
        t: "drop_node r st = Inr (t, m)" "graph_wf (fst t) (snd t)" "nothing_hidden (snd t)"
          "edge_ids (snd t) = {(p, pp, c, cp, ty) \<in> edge_ids (snd st). c \<noteq> r}"
          "card (edge_ids (snd t)) + length (ops (snd st) r) = card (edge_ids (snd st))"
          "map_of (nodes_map (snd t)) = (map_of (nodes_map (snd st)))(r := None)"
          "map_of (node_name_to_node_id (snd t)) = (map_of (node_name_to_node_id (snd st)))(name := None)"
        unfolding n(2) by blast
      have "drop_unused_recomputes (Suc k) (name # names) st = drop_unused_recomputes k (names @ extra) t"
        by (simp add: found users un os(1,2) t(1))
      moreover have "cleaning tracked (names @ extra) t"
        by (rule cleaning_drop [OF "3.prems"(1) Some t(2-4,7) os(4)])
      from "3.IH"(3) [OF _ found(2) _ users _ os(1,2) t(1) _ this] found(1) un os(3) t(5) "3.prems"(2)
      have "\<exists>u. drop_unused_recomputes k (names @ extra) t = Inr u \<and> cleaning tracked [] u \<and> cleaned t u \<and>
        only_droppable (set (names @ extra)) t u" by simp
      then obtain u where u: "drop_unused_recomputes k (names @ extra) t = Inr u" "cleaning tracked [] u" "cleaned t u"
        "only_droppable (set (names @ extra)) t u" by blast
      have dr: "droppable (snd st) (set (name # names)) r"
        by (rule droppable.listed [OF Some]) (use True in \<open>simp_all add: unused_def\<close>)
      have ex: "\<forall>x \<in> set extra. \<exists>i pp cp ty. map_of (node_name_to_node_id (snd st)) x = Some i \<and>
          (i, pp, r, cp, ty) \<in> edge_ids (snd st)"
      proof
        fix x assume "x \<in> set extra"
        with os(5) obtain e where e: "e \<in> set (ops (snd st) r)"
          "map_of (node_name_to_node_id (snd st)) x = Some (producer_node_id e)" by blast
        have "e \<in> set (graph_edges (snd st))" using mem_graph_edges [OF graph_wfD(2) [OF wf]] e(1) by blast
        then have "unique_id e \<in> edge_ids (snd st)" by (simp add: edge_ids_def)
        with e ops_ends(1) [OF wf e(1)] show "\<exists>i pp cp ty. map_of (node_name_to_node_id (snd st)) x = Some i \<and>
          (i, pp, r, cp, ty) \<in> edge_ids (snd st)" by (auto simp: unique_id_def)
      qed
      have "only_droppable (set (name # names)) st u"
        unfolding only_droppable_def
      proof
        fix i assume i: "i \<in> node_ids (snd st) - node_ids (snd u)"
        show "droppable (snd st) (set (name # names)) i"
        proof (cases "i = r")
          case False
          with i have "i \<in> node_ids (snd t) - node_ids (snd u)"
            unfolding Diff_iff in_node_ids t(6) by simp
          with u(4) have "droppable (snd t) (set (names @ extra)) i" by (simp add: only_droppable_def)
          then show ?thesis by (rule droppable_after_drop [OF _ _ dr t(4, 7) ex]) auto
        qed (use dr in simp)
      qed
      with \<open>drop_unused_recomputes (Suc k) (name # names) st = drop_unused_recomputes k (names @ extra) t\<close>
      show ?thesis using u cleaned_after_drop [OF u(3) t(4,6)] by auto
    qed
  qed
qed

text \<open>C21: The clean-up of recomputed operations ends, with the names and edges of the graph as fuel, without an
  error. It takes out nodes, with the edges into them, and only such whose users are all taken out and that
  are listed or feed one of those; at the end every operation listed that is still in the graph has a
  user, however long the chains of unused operations were. The graph is well formed with nothing hidden, and
  the listed operations have only data and loop-back users.\<close>

theorem drop_unused_recomputes_correct:
  assumes "graph_wf (fst st) (snd st)" "nothing_hidden (snd st)" "recompute_fuel names st \<le> k"
    and "\<And>s i pp c cp ty. s \<in> set names \<Longrightarrow> map_of (node_name_to_node_id (snd st)) s = Some i \<Longrightarrow>
      (i, pp, c, cp, ty) \<in> edge_ids (snd st) \<Longrightarrow> ty = kData \<or> ty = kDataLoopback"
  shows "\<exists>t. drop_unused_recomputes k names st = Inr t \<and> graph_wf (fst t) (snd t) \<and>
    map_of (nodes_map (snd t)) \<subseteq>\<^sub>m map_of (nodes_map (snd st)) \<and>
    (\<forall>p pp c cp ty. (p, pp, c, cp, ty) \<in> edge_ids (snd t) \<longleftrightarrow>
       (p, pp, c, cp, ty) \<in> edge_ids (snd st) \<and> c \<in> node_ids (snd t)) \<and>
    (\<forall>i \<in> node_ids (snd st) - node_ids (snd t). droppable (snd st) (set names) i) \<and>
    (\<forall>s \<in> set names. \<forall>i. map_of (node_name_to_node_id (snd t)) s = Some i \<longrightarrow>
       (\<exists>pp c cp ty. (i, pp, c, cp, ty) \<in> edge_ids (snd t)))"
proof -
  have "cleaning (set names) names st" using assms(1,2,4) unfolding cleaning_def by blast
  moreover have "length names + card (edge_ids (snd st)) \<le> k"
    using assms(3) graph_edges_card [OF assms(1)] by (simp add: recompute_fuel_def fuel_edges)
  ultimately obtain t where t: "drop_unused_recomputes k names st = Inr t" "cleaning (set names) [] t" "cleaned st t"
    "only_droppable (set names) st t"
    using drop_unused_loop by blast
  have "\<not> unused (snd t) i" if "s \<in> set names" "map_of (node_name_to_node_id (snd t)) s = Some i" for s i
    using cleaningD(3) [OF t(2) that] by auto
  then have "\<forall>s \<in> set names. \<forall>i. map_of (node_name_to_node_id (snd t)) s = Some i \<longrightarrow>
       (\<exists>pp c cp ty. (i, pp, c, cp, ty) \<in> edge_ids (snd t))" unfolding unused_def by blast
  then show ?thesis using t(1,3,4) unfolding cleaned_def only_droppable_def by blast
qed

theorem drop_unused_recomputes_correct_witness:
  "\<exists>t. drop_unused_recomputes 5 [''relu'', ''y''] (example_w, example_g) = Inr t \<and> graph_wf (fst t) (snd t) \<and>
     (\<forall>i. map_of (node_name_to_node_id (snd t)) ''relu'' = Some i \<longrightarrow>
       (\<exists>pp c cp ty. (i, pp, c, cp, ty) \<in> edge_ids (snd t)))"
proof -
  let ?st = "(example_w, example_g)"
  have g: "edge_ids example_g = {(1, 0, 2, 0, kData), (2, 0, 3, 0, kData)}" "nothing_hidden example_g"
    "recompute_fuel [''relu'', ''y''] ?st = 4" by code_simp+
  have "graph_wf (fst ?st) (snd ?st)" using example_wf by simp
  moreover have "nothing_hidden (snd ?st)" "recompute_fuel [''relu'', ''y''] ?st \<le> 5" using g(2,3) by simp_all
  moreover have "ty = kData \<or> ty = kDataLoopback" if "(i, pp, c, cp, ty) \<in> edge_ids (snd ?st)" for i pp c cp ty
    using that by (auto simp: g(1))
  ultimately show ?thesis using drop_unused_recomputes_correct [of ?st "[''relu'', ''y'']" 5] by (metis list.set_intros(1))
qed

end
