(* ===== verification/Gradients.thy ===== *)
theory Gradients
  imports Autograd_Laws
begin

text \<open>
  The nodes the autograd engine creates: the calls of its builder keep the contract of
  \<open>node_builder\<close>, so the laws about gradients hold for the engine's graph.
\<close>

declare map_of_eq_Some_iff [simp del] Some_eq_map_of_iff [simp del] split_paired_All [simp del]
  split_paired_Ex [simp del]

section \<open>Operand edges of a new node\<close>

definition operand_id :: "NodeId \<Rightarrow> nat \<times> NodeContext \<Rightarrow> EdgeUniqueId" where
  "operand_id i = (\<lambda>(k, x). (nc_id x, nc_output_index x, i, word_of_nat k, kData))"

definition attr_ids_of :: "GS \<Rightarrow> NodeId \<Rightarrow> EdgeUniqueId set" where
  "attr_ids_of st i = {u \<in> set (keys (edge_to_attr_map (snd st))). fst u = i \<or> fst (snd (snd u)) = i}"

text \<open>The state after some of the operands: the edges in order, with attributes of their own.\<close>

definition fed :: "GS \<Rightarrow> NodeId \<Rightarrow> EdgeUniqueId list \<Rightarrow> GS \<Rightarrow> bool" where
  "fed st i us t \<longleftrightarrow> edges_only st t \<and> last_node_id_assigned (fst t) = last_node_id_assigned (fst st) \<and>
     map unique_id (ops (snd t) i) = us \<and> attr_ids_of t i = set us \<and>
     (\<forall>u \<in> set us. attr_at t u = Some (create_edge_attributes kData)) \<and>
     set (keys (edge_to_attr_map (snd t))) = set (keys (edge_to_attr_map (snd st))) \<union> set us"

lemma fedD:
  assumes "fed st i us t"
  shows "edges_only st t" "last_node_id_assigned (fst t) = last_node_id_assigned (fst st)"
    "map unique_id (ops (snd t) i) = us" "attr_ids_of t i = set us"
    "\<forall>u \<in> set us. attr_at t u = Some (create_edge_attributes kData)"
    "set (keys (edge_to_attr_map (snd t))) = set (keys (edge_to_attr_map (snd st))) \<union> set us"
  using assms by (simp_all add: fed_def)

lemma attr_at_keys: "u \<notin> set (keys (edge_to_attr_map (snd st))) \<Longrightarrow> attr_at st u = None"
  by (simp add: attr_at_def map_of_eq_None_iff)

lemma fed_step:
  assumes f: "fed st i us t" and i: "i \<in> node_ids (snd st)" and x: "nc_id x \<in> node_ids (snd st)"
    and new: "operand_id i (k, x) \<notin> set us"
  shows "fed st i (us @ [operand_id i (k, x)]) (add_operand i t (k, x))"
proof -
  note F = fedD [OF f]
  note wf = edges_onlyD(3) [OF F(1)]
  have ids: "nc_id x \<in> node_ids (snd t)" "i \<in> node_ids (snd t)" using i x edges_only_ids [OF F(1)] by simp_all
  let ?u = "operand_id i (k, x)"
  obtain s1 e where c: "construct_edge (nc_id x) (nc_output_index x) i (word_of_nat k) kData t = (s1, e)"
    by (cases "construct_edge (nc_id x) (nc_output_index x) i (word_of_nat k) kData t")
  define t' where "t' = put_edge e s1"
  have eq: "add_operand i t (k, x) = t'" by (simp add: add_operand_def c t'_def)
  note C = construct_edge_control_only [OF c wf]
  have u: "unique_id e = ?u" using C(5) by (simp add: operand_id_def)
  have wf1: "graph_wf (fst s1) (snd s1)" using keepsD(1) [OF control_only_keeps [OF C(1)]] .
  note add = addable_new [OF c ids]
  have last: "last_node_id_assigned (fst s1) = last_node_id_assigned (fst t)"
    using arg_cong [OF c [unfolded construct_edge_eq], of "last_node_id_assigned \<circ> fst \<circ> fst"] by simp
  have att: "attr_at s1 v = attr_at t v" for v using C(2,3) by (simp add: attr_at_def)
  have "?u \<notin> set (keys (edge_to_attr_map (snd t)))"
  proof
    assume "?u \<in> set (keys (edge_to_attr_map (snd t)))"
    then have "?u \<in> attr_ids_of t i" unfolding attr_ids_of_def by (simp add: operand_id_def)
    then show False using new F(4) by simp
  qed
  then have none: "attr_at s1 (unique_id e) = None" unfolding u att by (rule attr_at_keys)
  obtain w g where s1: "s1 = (w, g)" by (cases s1)
  obtain w' g' where r: "add_edge_attr e None w g = (w', g')" by (cases "add_edge_attr e None w g")
  have t': "t' = (w', g')" by (simp add: t'_def put_edge_eq s1 r)
  note A = add_edge_attr_effect [OF r]
  have "ops g i = ops (snd t) i" using C(2) by (simp add: s1)
  moreover have "\<not> list_ex (\<lambda>y. edge_eq y e) (ops (snd t) i)"
  proof -
    have "unique_id ` set (ops (snd t) i) = set us" using arg_cong [OF F(3), of set] by simp
    then have "unique_id y \<noteq> unique_id e" if "y \<in> set (ops (snd t) i)" for y using that new u by (metis image_eqI)
    then show ?thesis by (auto simp: list_ex_iff edge_eq_def)
  qed
  ultimately have o1: "ops g' i = ops (snd t) i @ [e]"
    using A(1) C(8) by (simp add: edge_insert_def)
  have k: "set (keys (edge_to_attr_map g')) = insert ?u (set (keys (edge_to_attr_map (snd t))))"
    using A(10) u C(2) by (simp add: s1)
  have "edges_only t t'" unfolding t'_def by (rule put_new_edge(1) [OF wf ids c])
  then have "edges_only st t'" by (rule edges_only.after [OF F(1)])
  moreover have "attr_at t' v = Some (create_edge_attributes kData)" if "v \<in> set (us @ [?u])" for v
    using put_edge_at(1) [OF wf1 add none] that F(5) att C(6) u unfolding t'_def by auto
  moreover have "attr_ids_of t' i = insert ?u (attr_ids_of t i)"
    unfolding attr_ids_of_def using k by (auto simp: t' operand_id_def)
  ultimately show ?thesis
    unfolding eq fed_def using F o1 u k last A(8) by (auto simp: t' s1)
qed

lemma fed_start:
  assumes "graph_wf (fst st) (snd st)" "ops (snd st) i = []" "attr_ids_of st i = {}"
  shows "fed st i [] st"
  using assms edges_only_refl [OF assms(1)] by (simp add: fed_def)

lemma add_operands_fed:
  assumes wf: "graph_wf (fst st) (snd st)" and i: "i \<in> node_ids (snd st)" "ops (snd st) i = []" "attr_ids_of st i = {}"
    and xs: "\<forall>x \<in> set xs. nc_id x \<in> node_ids (snd st)" and len: "length xs \<le> 2 ^ 32"
  shows "fed st i (map (operand_id i) (enumerate 0 xs)) (add_operands i xs st)"
proof -
  have "fed st i (map (operand_id i) (enumerate 0 (take k xs))) (foldl (add_operand i) st (enumerate 0 (take k xs)))"
    if "k \<le> length xs" for k using that
  proof (induction k)
    case 0
    show ?case using fed_start [OF wf i(2,3)] by simp
  next
    case (Suc k)
    define x where "x = xs ! k"
    have e: "enumerate 0 (take (Suc k) xs) = enumerate 0 (take k xs) @ [(k, x)]"
      using Suc.prems by (simp add: take_Suc_conv_app_nth enumerate_append_eq x_def)
    have ne: "operand_id i (k, x) \<noteq> operand_id i (j, y)" if "j < k" for j y
    proof -
      have "(word_of_nat k :: PortId) \<noteq> word_of_nat j"
        using that Suc.prems len by (simp add: word_of_nat_eq_iff take_bit_nat_eq_self)
      then show ?thesis by (simp add: operand_id_def)
    qed
    have new: "operand_id i (k, x) \<notin> set (map (operand_id i) (enumerate 0 (take k xs)))"
    proof
      assume "operand_id i (k, x) \<in> set (map (operand_id i) (enumerate 0 (take k xs)))"
      then obtain q where q: "operand_id i (k, x) = operand_id i q" "q \<in> set (enumerate 0 (take k xs))" by auto
      then have "fst q < k" using Suc.prems by (cases q) (simp add: in_set_enumerate_eq)
      from ne [OF this, of "snd q"] q(1) show False by simp
    qed
    have "nc_id x \<in> node_ids (snd st)" using xs Suc.prems by (simp add: x_def)
    from fed_step [OF Suc.IH i(1) this new] Suc.prems show ?case by (simp add: e)
  qed
  from this [of "length xs"] show ?thesis by (simp add: add_operands_def)
qed

lemma map_zip_ends:
  "length xs = length ys \<Longrightarrow> map (\<lambda>p. f (fst p)) (zip xs ys) = map f xs"
  "length xs = length ys \<Longrightarrow> map (\<lambda>p. h (snd p)) (zip xs ys) = map h ys"
  by (induction xs ys rule: list_induct2) simp_all

text \<open>The queries at the new node see them in that order.\<close>

lemma fed_queries:
  assumes f: "fed st i (map (operand_id i) (enumerate 0 xs)) t" and i: "i \<in> node_ids (snd st)"
    and xs: "\<forall>x \<in> set xs. nc_id x \<in> node_ids (snd st)" and len: "length xs \<le> 2 ^ 32"
    and h: "nothing_hidden (snd st)"
  shows "\<exists>es. operand_edges any_edge (snd t) i = Inr es \<and> operand_data_edges any_edge (snd t) i = Inr es \<and>
    map producer_node_id es = map nc_id xs \<and> (\<forall>e \<in> set es. edge_tms t e = Inr []) \<and>
    set es \<subseteq> set (graph_edges (snd t))"
proof -
  note F = fedD [OF f]
  note wf = edges_onlyD(3) [OF F(1)]
  have i': "i \<in> node_ids (snd t)" using i edges_only_ids [OF F(1)] by simp
  define es where "es = ops (snd t) i"
  have ids: "map unique_id es = map (operand_id i) (enumerate 0 xs)" using F(3) by (simp add: es_def)
  have port: "map consumer_input_port_id es = map word_of_nat [0..<length xs]"
    using arg_cong [OF ids, of "map (\<lambda>(p, pp, c, cp, ty). cp)"]
    by (simp add: comp_def unique_id_def operand_id_def case_prod_unfold enumerate_eq_zip map_zip_ends)
  have prod: "map producer_node_id es = map nc_id xs"
    using arg_cong [OF ids, of "map fst"]
    by (simp add: comp_def unique_id_def operand_id_def case_prod_unfold enumerate_eq_zip map_zip_ends)
  have data: "edge_type e = kData" if "e \<in> set es" for e
  proof -
    have "unique_id e \<in> set (map (operand_id i) (enumerate 0 xs))" using that by (simp flip: ids)
    then show ?thesis by (auto simp: unique_id_def operand_id_def)
  qed
  have "sorted (map (word_of_nat :: nat \<Rightarrow> PortId) [0..<length xs])"
    using len by (auto simp: sorted_iff_nth_mono word_le_nat_alt unat_of_nat)
  then have s: "sort_key consumer_input_port_id es = es" using port by (simp add: sort_key_id_if_sorted sorted_map)
  have sh: "edge_shown (snd t) e" for e using h edges_onlyD(4) [OF F(1)] by (simp add: edge_shown_def)
  have "operand_edges any_edge (snd t) i = Inr es"
    unfolding opq.query_eq [OF wf i'] es_def [symmetric] by (simp add: sh s)
  moreover have "filter is_data_edge es = es" using data by (auto simp: filter_id_conv is_data_edge_def)
  then have "operand_data_edges any_edge (snd t) i = Inr es"
    unfolding operand_data_edges_def opq.query_eq [OF wf i'] es_def [symmetric] by (simp add: sh s)
  moreover have "edge_tms t e = Inr []" if "e \<in> set es" for e
  proof -
    have "unique_id e \<in> set (map (operand_id i) (enumerate 0 xs))" using that by (simp flip: ids)
    with F(5) have "attr_at t (unique_id e) = Some (create_edge_attributes kData)" by blast
    from edge_tms_at [OF wf this] show ?thesis by (simp add: create_edge_attributes_def edge_attributes_def)
  qed
  moreover have "set es \<subseteq> set (graph_edges (snd t))"
    using mem_graph_edges [OF graph_wfD(2) [OF wf]] by (auto simp: es_def)
  ultimately show ?thesis using prod by blast
qed

section \<open>The shape of a new operation\<close>

text \<open>Calls that only write to attribute objects.\<close>

definition attrs_only :: "GS \<Rightarrow> GS \<Rightarrow> bool" where
  "attrs_only s t \<longleftrightarrow> graph_wf (fst s) (snd s) \<and> graph_wf (fst t) (snd t) \<and> snd t = snd s \<and>
     last_node_id_assigned (fst t) = last_node_id_assigned (fst s)"

interpretation attrs_only: state_change attrs_only
  by unfold_locales (auto simp: attrs_only_def)

lemma update_edge_attr_attrs_only:
  assumes "graph_wf (fst s) (snd s)" "unique_id e \<in> edge_ids (snd s)" "\<And>a. \<exists>a'. f a = Inr a'"
  shows "\<exists>t. update_edge_attr f e s = Inr t \<and> attrs_only s t"
proof -
  from update_edge_attr_only [where f = f, OF assms(1,2)] assms(3) obtain t where
    t: "update_edge_attr f e s = Inr t" "edges_only s t" "snd t = snd s" by blast
  from update_edge_attr_effect(3) [OF t(1) assms(1)] have "last_node_id_assigned (fst t) = last_node_id_assigned (fst s)"
    by (auto simp: write_attr_def)
  then show ?thesis using t edges_onlyD(3) [OF t(2)] assms(1) by (auto simp: attrs_only_def)
qed

lemma set_edge_broadcasts_total:
  assumes wf: "graph_wf (fst s) (snd s)" and e: "unique_id e \<in> edge_ids (snd s)"
  shows "\<exists>t. set_edge_broadcasts bs s e = Inr t \<and> attrs_only s t"
  unfolding set_edge_broadcasts_def
proof (rule attrs_only.loop_total)
  show "attrs_only s s" using wf by (simp add: attrs_only_def)
  fix b :: DimBroadcast and s' assume s': "attrs_only s s'"
  obtain p d z where b: "b = (p, d, z)" by (cases b)
  have "\<exists>u. update_edge_attr (set_broadcast_dim d z False) e s' = Inr u \<and> attrs_only s' u"
    by (rule update_edge_attr_attrs_only) (use s' e set_broadcast_dim_total in \<open>auto simp: attrs_only_def\<close>)
  then show "\<exists>u. (\<lambda>st (operand, dim, size). if operand = sint (consumer_input_port_id e)
       then update_edge_attr (set_broadcast_dim dim size False) e st else Inr st) s' b = Inr u \<and> attrs_only s' u"
    using s' by (auto simp: b attrs_only_def)
qed

lemma set_operand_broadcasts_total:
  assumes wf: "graph_wf (fst s) (snd s)" and i: "i \<in> node_ids (snd s)"
  shows "\<exists>t. rbind (operand_data_edges any_edge (snd s) i) (foldR (set_edge_broadcasts bs) s) = Inr t \<and> attrs_only s t"
proof -
  from operand_data_edges_in [OF wf i] obtain es where
    es: "operand_data_edges any_edge (snd s) i = Inr es" "set es \<subseteq> set (graph_edges (snd s))" by blast
  have "\<exists>t. foldR (set_edge_broadcasts bs) s es = Inr t \<and> attrs_only s t"
  proof (rule attrs_only.loop_total)
    show "attrs_only s s" using wf by (simp add: attrs_only_def)
    fix e s' assume e: "e \<in> set es" and s': "attrs_only s s'"
    have "unique_id e \<in> edge_ids (snd s')" using e es(2) s' by (auto simp: edge_ids_def attrs_only_def)
    then show "\<exists>u. set_edge_broadcasts bs s' e = Inr u \<and> attrs_only s' u"
      using set_edge_broadcasts_total [of s' e bs] s' unfolding attrs_only_def by blast
  qed
  then show ?thesis by (simp add: es(1))
qed

text \<open>Operands whose tiles are full need no padding.\<close>

definition plain_node :: "Graph \<Rightarrow> NodeContext \<Rightarrow> bool" where
  "plain_node g x \<longleftrightarrow> (case map_of (nodes_map g) (nc_id x) of None \<Rightarrow> False
     | Some c \<Rightarrow> node_shape c = nc_shape x \<and> sh_tile_dim (nc_shape x) = Dim32x32)"

lemma node_of_fields [simp]: "node_op_type (op_fields t) = t"
  by (simp add: op_fields_def)

lemma validate_plain:
  assumes n: "map_of (nodes_map g) i = Some n" "op_part n = Some (op_fields t)"
    and os: "operands g i = Inr (map nc_id xs)" and xs: "\<forall>x \<in> set xs. plain_node g x"
    and fits: "arity_fits t (length xs)"
  shows "validate_tile_dims i g = Inr g"
proof -
  have node: "\<exists>c. map_of (nodes_map g) (nc_id x) = Some c \<and> sh_tile_dim (node_shape c) = Dim32x32"
    if "x \<in> set xs" for x using xs that by (auto simp: plain_node_def split: option.splits)
  have full: "pad_to_full_tile (nc_id x) g = Inr g" if "x \<in> set xs" for x
    using node [OF that] by (auto simp: pad_to_full_tile_def deref_def)
  have binary: "validate_binary_tile_dims (nc_id x) (nc_id y) g = Inr g" if "x \<in> set xs" "y \<in> set xs" for x y
    using node [OF that(1)] node [OF that(2)] by (auto simp: validate_binary_tile_dims_def deref_def Let_def)
  obtain b where b: "OpType_is_eltwise_binary t = Inr b" "b \<longrightarrow> 2 \<le> length xs" "0 < length xs"
    "is_matmul (op_fields t) \<longrightarrow> 2 \<le> length xs"
    using fits by (auto simp: arity_fits_def split: sum.splits)
  have all: "foldR (\<lambda>g j. pad_to_full_tile j g) g (map nc_id ys) = Inr g" if "set ys \<subseteq> set xs" for ys
    using that full by (induction ys) auto
  show ?thesis
    using b full binary all [of xs] n Suc_le_eq [of "Suc 0" "length xs"]
    by (simp add: validate_tile_dims_def deref_def os node_of_fields vec_at_def numeral_2_eq_2)
qed

lemma update_node_value:
  assumes "map_of (nodes_map (snd st)) i = Some n" "f n = Inr m"
  shows "on_graph (update_node i f) st = Inr (fst st, set_node i m (snd st))"
  using assms by (cases st) (simp add: on_graph_def update_node_def node_by_id_def)

lemma set_node_state:
  assumes wf: "graph_wf (fst st) (snd st)" and n: "map_of (nodes_map (snd st)) i = Some n"
    and m: "node_unique_id m = node_unique_id n" "node_name m = node_name n"
  shows "graph_wf (fst st) (set_node i m (snd st))"
  by (rule set_node_wf [OF wf n]) (use m graph_wfD(9) [OF wf n] in auto)

lemma set_node_fields [simp]:
  "map_of (nodes_map (set_node i m g)) = (map_of (nodes_map g))(i \<mapsto> m)"
  "node_name_to_node_id (set_node i m g) = node_name_to_node_id g"
  "node_id_to_subgraph_id (set_node i m g) = node_id_to_subgraph_id g"
  "operands_map (set_node i m g) = operands_map g" "users_map (set_node i m g) = users_map g"
  "edge_to_attr_map (set_node i m g) = edge_to_attr_map g" "contexts (set_node i m g) = contexts g"
  "nothing_hidden (set_node i m g) = nothing_hidden g" "edge_ids (set_node i m g) = edge_ids g"
  by (simp_all add: set_node_def contexts_def nothing_hidden_def edge_ids_def graph_edges_def)

lemma post_tm_shape_plain:
  assumes "edge_tms st e = Inr []" "map_of (nodes_map (snd st)) (producer_node_id e) = Some c"
  shows "post_tm_shape op_shape st e = Inr (node_shape c)"
  using assms by (simp add: post_tm_shape_def node_by_id_def)

lemma plain_shapes:
  assumes "map producer_node_id es = map nc_id xs" "\<forall>e \<in> set es. edge_tms st e = Inr []"
    and "\<forall>x \<in> set xs. plain_node (snd st) x"
  shows "mapR (post_tm_shape op_shape st) es = Inr (map nc_shape xs)"
  using assms
proof (induction es arbitrary: xs)
  case (Cons e es)
  then obtain x ys where x: "xs = x # ys" "producer_node_id e = nc_id x" by (cases xs) auto
  from Cons.prems(3) x(1) obtain c where "map_of (nodes_map (snd st)) (nc_id x) = Some c" "node_shape c = nc_shape x"
    by (auto simp: plain_node_def split: option.splits)
  then have "post_tm_shape op_shape st e = Inr (nc_shape x)"
    using post_tm_shape_plain [of st e c op_shape] Cons.prems(2) x(2) by simp
  moreover have "mapR (post_tm_shape op_shape st) es = Inr (map nc_shape ys)"
    using Cons.IH [of ys] Cons.prems x(1) by simp
  ultimately show ?case by (simp add: x(1))
qed simp

lemma plain_nodeD:
  "plain_node g x \<Longrightarrow> \<exists>c. map_of (nodes_map g) (nc_id x) = Some c \<and> node_shape c = nc_shape x \<and>
     sh_tile_dim (nc_shape x) = Dim32x32"
  by (auto simp: plain_node_def split: option.splits)

lemma calculate_new_op:
  assumes wf: "graph_wf (fst st) (snd st)" and n: "map_of (nodes_map (snd st)) i = Some n"
    "op_part n = Some (op_fields t)" "node_type n = kPyOp"
    and es: "operand_edges any_edge (snd st) i = Inr es" "operand_data_edges any_edge (snd st) i = Inr es"
      "map producer_node_id es = map nc_id xs" "\<forall>e \<in> set es. edge_tms st e = Inr []"
    and xs: "\<forall>x \<in> set xs. plain_node (snd st) x" and fits: "arity_fits t (length xs)"
    and sh: "OpType_shape base_shape t (map (sh_dims \<circ> nc_shape) xs) = Inr (sh, bs)"
  shows "\<exists>u. calculate_and_set_node_shape (get_op_shape base_shape) i st = Inr u \<and>
    attrs_only (fst st, set_node i (n\<lparr>node_shape := sh\<rparr>) (snd st)) u"
proof -
  have node: "node_of (snd st) (producer_node_id e) = Inr (producer_node_id e)" if "e \<in> set es" for e
  proof -
    have "producer_node_id e \<in> nc_id ` set xs" using that es(3) by (metis image_eqI list.set_map)
    then obtain x where "producer_node_id e = nc_id x" "x \<in> set xs" by auto
    moreover from this(2) obtain c where "map_of (nodes_map (snd st)) (nc_id x) = Some c" using xs plain_nodeD by blast
    ultimately have "map_of (nodes_map (snd st)) (producer_node_id e) = Some c" by simp
    then show ?thesis by (simp add: node_of_def node_by_id_def)
  qed
  have "operands (snd st) i = Inr (map nc_id xs)"
    using mapR_total [of es, OF node] es(3) by (simp add: operands_def es(1))
  from validate_plain [OF n(1,2) this xs fits]
  have v: "on_graph (validate_tile_dims i) st = Inr st" by (cases st) (simp add: on_graph_def)
  have shapes: "mapR (post_tm_shape (get_op_shape base_shape) st) es = Inr (map nc_shape xs)"
    by (rule plain_shapes [OF es(3,4) xs])
  have gs: "get_op_shape base_shape t (map nc_shape xs) = Inr (sh, bs)"
    using sh by (simp add: get_op_shape_def comp_def)
  define m where "m = n\<lparr>node_shape := sh\<rparr>"
  have "node_set_shape sh n = Inr m" using OpType_shape_valid [OF sh] by (simp add: node_set_shape_def m_def)
  note u = update_node_value [where f = "node_set_shape sh", OF n(1) this]
  let ?st = "(fst st, set_node i m (snd st))"
  have "graph_wf (fst ?st) (snd ?st)" using set_node_state [OF wf n(1), of m] by (simp add: m_def)
  moreover have "i \<in> node_ids (snd ?st)" unfolding in_node_ids by simp
  ultimately obtain r where
    "rbind (operand_data_edges any_edge (snd ?st) i) (foldR (set_edge_broadcasts bs) ?st) = Inr r" "attrs_only ?st r"
    using set_operand_broadcasts_total by blast
  then show ?thesis
    using n by (simp add: calculate_and_set_node_shape_def v es(2) shapes deref_def gs u m_def)
qed

section \<open>The engine's state\<close>

text \<open>Attribute entries name ids already given out, so a new node has none.\<close>

definition attrs_bounded :: "GS \<Rightarrow> bool" where
  "attrs_bounded st \<longleftrightarrow> (\<forall>u \<in> set (keys (edge_to_attr_map (snd st))).
     fst u \<le> last_node_id_assigned (fst st) \<and> fst (snd (snd u)) \<le> last_node_id_assigned (fst st))"

definition names_free :: "AutogradContext \<Rightarrow> string \<Rightarrow> Graph \<Rightarrow> bool" where
  "names_free ac fwd_name g \<longleftrightarrow> (\<forall>k \<ge> created_op_index ac.
     (\<forall>nm. map_of (node_name_to_node_id g) (created_name ''bw_in'' (ac_operand ac) fwd_name [] nm k) = None) \<and>
     map_of (node_name_to_node_id g) (constant_name fwd_name k) = None)"

definition ag_ready :: "AutogradState \<Rightarrow> bool" where
  "ag_ready = (\<lambda>(ac, g).
     graph_wf (fst (eng_gs g)) (eng_graph g) \<and> nothing_hidden (eng_graph g) \<and> attrs_bounded (eng_gs g) \<and>
     ac_epoch_type ac = Epoch_Backward \<and>
     (case map_of (nodes_map (eng_graph g)) (current_fwd_op ac) of None \<Rightarrow> False
      | Some n \<Rightarrow> is_forward n \<and> names_free ac (node_name n) (eng_graph g)))"

definition ag_live :: "AutogradState \<Rightarrow> NodeContext \<Rightarrow> bool" where
  "ag_live = (\<lambda>(ac, g) x. plain_node (eng_graph g) x)"

definition ag_grow :: "AutogradState \<Rightarrow> AutogradState \<Rightarrow> bool" where
  "ag_grow = (\<lambda>(ac, g) (ac', g'). current_fwd_op ac' = current_fwd_op ac \<and>
     fwd_to_out_gradient_map g' = fwd_to_out_gradient_map g \<and>
     map_of (nodes_map (eng_graph g)) \<subseteq>\<^sub>m map_of (nodes_map (eng_graph g')) \<and>
     edge_ids (eng_graph g) \<subseteq> edge_ids (eng_graph g'))"

text \<open>Names that end in the counter differ.\<close>

lemma created_names_differ:
  "k \<noteq> k' \<Longrightarrow> created_name p i f q nm k \<noteq> created_name p' i' f' q' nm' k'"
  "k \<noteq> k' \<Longrightarrow> constant_name f k \<noteq> constant_name f' k'"
  "created_name ''bw_in'' i f q nm k \<noteq> constant_name f' k'"
proof -
  have c: "created_name p i f q nm k =
      (p @ show_int i @ ''_'' @ f @ ''_'' @ (if q = [] then [] else q @ ''_'') @ nm) @ CHR ''_'' # show_nat k"
    for p i f q nm k by (simp add: created_name_def)
  have d: "constant_name f k = (''input_constant_'' @ f) @ CHR ''_'' # show_nat k" for f k
    by (simp add: constant_name_def)
  show "k \<noteq> k' \<Longrightarrow> created_name p i f q nm k \<noteq> created_name p' i' f' q' nm' k'"
    unfolding c using last_sep_inject show_nat_no_sep(2) show_nat_inject by metis
  show "k \<noteq> k' \<Longrightarrow> constant_name f k \<noteq> constant_name f' k'"
    unfolding d using last_sep_inject show_nat_no_sep(2) show_nat_inject by metis
  show "created_name ''bw_in'' i f q nm k \<noteq> constant_name f' k'"
    by (simp add: created_name_def constant_name_def)
qed

text \<open>A node of a fresh name, in the forward node's subgraph.\<close>

definition added :: "Engine \<Rightarrow> Node \<Rightarrow> NodeId \<Rightarrow> Engine \<Rightarrow> bool" where
  "added g n i g' \<longleftrightarrow> graph_wf (fst (eng_gs g')) (eng_graph g') \<and> nothing_hidden (eng_graph g') \<and>
     attrs_bounded (eng_gs g') \<and> i \<notin> node_ids (eng_graph g) \<and> attr_ids_of (eng_gs g') i = {} \<and>
     ops (eng_graph g') i = [] \<and> edge_ids (eng_graph g') = edge_ids (eng_graph g) \<and>
     fwd_to_out_gradient_map g' = fwd_to_out_gradient_map g \<and>
     map_of (nodes_map (eng_graph g')) = (map_of (nodes_map (eng_graph g)))(i \<mapsto> node_set_id i n) \<and>
     map_of (node_name_to_node_id (eng_graph g')) = (map_of (node_name_to_node_id (eng_graph g)))(node_name n \<mapsto> i)"

lemma put_node_id: "put_node n s st = Inr (t, i) \<Longrightarrow>
    i = last_node_id_assigned (fst st) + 1 \<and> last_node_id_assigned (fst t) = i"
  by (cases st) (auto simp: put_node_def add_node_Inr result_simps)

lemma add_beside_total:
  assumes wf: "graph_wf (fst (eng_gs g)) (eng_graph g)" and h: "nothing_hidden (eng_graph g)"
    and b: "attrs_bounded (eng_gs g)" and fwd: "fwd \<in> node_ids (eng_graph g)"
    and n: "map_of (node_name_to_node_id (eng_graph g)) (node_name n) = None"
  shows "\<exists>i g'. add_beside fwd n g = Inr (g', i) \<and> added g n i g'"
proof -
  have "fwd \<in> set (keys (node_id_to_subgraph_id (eng_graph g)))"
    using wf fwd unfolding graph_wf_def node_keys_wf_def by blast
  then obtain s where s: "get_subgraph_id_for_node (eng_graph g) fwd = Inr s"
    unfolding get_subgraph_id_for_node_def by (metis list.set_map map_at_Some map_of_eq_None_iff not_None_eq)
  from put_node_total [of "eng_gs g" n s] wf n obtain t i where
    t: "put_node n s (eng_gs g) = Inr (t, i)" "graph_wf (fst t) (snd t)" "i \<notin> node_ids (eng_graph g)"
      "map_of (nodes_map (snd t)) = (map_of (nodes_map (eng_graph g)))(i \<mapsto> node_set_id i n)"
      "map_of (node_name_to_node_id (snd t)) = (map_of (node_name_to_node_id (eng_graph g)))(node_name n \<mapsto> i)"
      "contexts (snd t) = contexts (eng_graph g)" "edge_ids (snd t) = edge_ids (eng_graph g)"
      "edge_to_attr_map (snd t) = edge_to_attr_map (eng_graph g)"
    unfolding eng_graph_def by blast
  note last = put_node_id [OF t(1)]
  have bound: "attrs_bounded t" using b last t(8) by (force simp: attrs_bounded_def eng_graph_def)
  have none: "attr_ids_of t i = {}"
    using b last t(8) by (force simp: attrs_bounded_def attr_ids_of_def eng_graph_def)
  have "ops (snd t) i = []"
  proof (rule ccontr)
    assume "ops (snd t) i \<noteq> []"
    then obtain e where e: "e \<in> set (ops (snd t) i)" by (cases "ops (snd t) i") auto
    then have "unique_id e \<in> attr_ids_of t i"
      using graph_wfD(12) [OF t(2) e] ops_ends(1) [OF t(2) e] unfolding attr_ids_of_def by (simp add: unique_id_def)
    then show False using none by simp
  qed
  moreover have "nothing_hidden (snd t)" using h t(6) by (simp add: contexts_def nothing_hidden_def)
  ultimately have "added g n i (g\<lparr>eng_gs := t\<rparr>)"
    using t bound none by (simp add: added_def eng_graph_def)
  moreover have "add_beside fwd n g = Inr (g\<lparr>eng_gs := t\<rparr>, i)" by (simp add: add_beside_def s t(1))
  ultimately show ?thesis by blast
qed

lemma attrs_boundedD:
  "attrs_bounded st \<Longrightarrow> u \<in> set (keys (edge_to_attr_map (snd st))) \<Longrightarrow>
     fst u \<le> last_node_id_assigned (fst st) \<and> fst (snd (snd u)) \<le> last_node_id_assigned (fst st)"
  unfolding attrs_bounded_def by blast

lemma add_fwd_edge_effect:
  assumes wf: "graph_wf (fst (eng_gs g)) (eng_graph g)" and b: "attrs_bounded (eng_gs g)"
    and ids: "fwd \<in> node_ids (eng_graph g)" "i \<in> node_ids (eng_graph g)"
  shows "edges_only (eng_gs g) (eng_gs (add_fwd_edge ty fwd i k g))" "attrs_bounded (eng_gs (add_fwd_edge ty fwd i k g))"
    "fwd_to_out_gradient_map (add_fwd_edge ty fwd i k g) = fwd_to_out_gradient_map g"
proof -
  obtain st e where c: "construct_edge fwd (word_of_int k) i 0 ty (eng_gs g) = (st, e)"
    by (cases "construct_edge fwd (word_of_int k) i 0 ty (eng_gs g)")
  have eq: "add_fwd_edge ty fwd i k g = g\<lparr>eng_gs := put_edge e st\<rparr>" by (simp add: add_fwd_edge_def c)
  note c' = c [unfolded construct_edge_eq]
  show "edges_only (eng_gs g) (eng_gs (add_fwd_edge ty fwd i k g))"
    unfolding eq using put_new_edge(1) [OF wf [unfolded eng_graph_def] ids [unfolded eng_graph_def] c] by simp
  show "fwd_to_out_gradient_map (add_fwd_edge ty fwd i k g) = fwd_to_out_gradient_map g" by (simp add: eq)
  obtain w h where r: "add_edge_attr e None (fst st) (snd st) = (w, h)" by (cases "add_edge_attr e None (fst st) (snd st)")
  note A = add_edge_attr_effect [OF r]
  have last: "last_node_id_assigned (fst st) = last_node_id_assigned (fst (eng_gs g))"
    using arg_cong [OF c', of "last_node_id_assigned \<circ> fst \<circ> fst"] by simp
  have snd: "snd st = snd (eng_gs g)" using arg_cong [OF c', of "snd \<circ> fst"] by simp
  have u: "unique_id e = (fwd, word_of_int k, i, 0, ty)"
    using construct_edge_control_only(5) [OF c wf [unfolded eng_graph_def]] .
  have le: "j \<le> last_node_id_assigned (fst (eng_gs g))" if "j \<in> node_ids (eng_graph g)" for j
  proof -
    from that obtain n where "map_of (nodes_map (eng_graph g)) j = Some n" unfolding in_node_ids by blast
    then show ?thesis using graph_wfD(9) [OF wf] by blast
  qed
  show "attrs_bounded (eng_gs (add_fwd_edge ty fwd i k g))"
    unfolding attrs_bounded_def
  proof (intro ballI)
    have gs: "eng_gs (add_fwd_edge ty fwd i k g) = (w, h)" by (simp add: eq put_edge_eq r)
    fix v assume "v \<in> set (keys (edge_to_attr_map (snd (eng_gs (add_fwd_edge ty fwd i k g)))))"
    then have "v = (fwd, word_of_int k, i, 0, ty) \<or> v \<in> set (keys (edge_to_attr_map (snd (eng_gs g))))"
      unfolding gs snd_conv A(10) u snd by blast
    then show "fst v \<le> last_node_id_assigned (fst (eng_gs (add_fwd_edge ty fwd i k g))) \<and>
        fst (snd (snd v)) \<le> last_node_id_assigned (fst (eng_gs (add_fwd_edge ty fwd i k g)))"
      unfolding gs fst_conv A(8) last
    proof
      assume "v = (fwd, word_of_int k, i, 0, ty)"
      then show "fst v \<le> last_node_id_assigned (fst (eng_gs g)) \<and> fst (snd (snd v)) \<le> last_node_id_assigned (fst (eng_gs g))" using le [OF ids(1)] le [OF ids(2)] by simp
    qed (rule attrs_boundedD [OF b])
  qed
qed

lemma add_fwd_to_bwd_total:
  assumes wf: "graph_wf (fst (eng_gs g)) (eng_graph g)" and b: "attrs_bounded (eng_gs g)"
    and fwd: "map_of (nodes_map (eng_graph g)) fwd = Some fn" "is_forward fn"
    and i: "map_of (nodes_map (eng_graph g)) i = Some n" "is_backward n"
  shows "\<exists>g'. add_fwd_to_bwd_map fwd i k False g = Inr g' \<and> edges_only (eng_gs g) (eng_gs g') \<and>
    attrs_bounded (eng_gs g') \<and> fwd_to_out_gradient_map g' = fwd_to_out_gradient_map g"
proof -
  have ids: "fwd \<in> node_ids (eng_graph g)" "i \<in> node_ids (eng_graph g)" unfolding in_node_ids using fwd i by blast+
  note E = add_fwd_edge_effect [OF wf b ids, of kAutogradFwdToBwd k]
  have "nodes_map (eng_graph (add_fwd_edge kAutogradFwdToBwd fwd i k g)) = nodes_map (eng_graph g)"
    using edges_onlyD(2) [OF E(1)] by (simp add: eng_graph_def)
  then have "add_fwd_to_bwd_map fwd i k False g = Inr (add_fwd_edge kAutogradFwdToBwd fwd i k g)"
    using fwd i by (simp add: add_fwd_to_bwd_map_def node_is_def deref_def)
  then show ?thesis using E by blast
qed

section \<open>Backward operations\<close>

lemma add_operands_bounded:
  assumes f: "fed st i (map (operand_id i) (enumerate 0 xs)) t" and b: "attrs_bounded st"
    and i: "i \<le> last_node_id_assigned (fst st)" and xs: "\<forall>x \<in> set xs. nc_id x \<le> last_node_id_assigned (fst st)"
  shows "attrs_bounded t"
  unfolding attrs_bounded_def
proof (intro ballI)
  fix u assume "u \<in> set (keys (edge_to_attr_map (snd t)))"
  then consider "u \<in> set (keys (edge_to_attr_map (snd st)))" | "u \<in> set (map (operand_id i) (enumerate 0 xs))"
    using fedD(6) [OF f] by blast
  then show "fst u \<le> last_node_id_assigned (fst t) \<and> fst (snd (snd u)) \<le> last_node_id_assigned (fst t)"
  proof cases
    case 1
    from attrs_boundedD [OF b this] show ?thesis using fedD(2) [OF f] by simp
  next
    case 2
    then obtain p where "u = operand_id i p" "p \<in> set (enumerate 0 xs)" by auto
    then show ?thesis using i xs fedD(2) [OF f]
      by (cases p) (auto simp: operand_id_def in_set_enumerate_eq)
  qed
qed

text \<open>The data format comes from the first operand.\<close>

lemma set_output_df_total:
  assumes wf: "graph_wf (fst st) (snd st)" and h: "nothing_hidden (snd st)"
    and i: "map_of (nodes_map (snd st)) i = Some n"
    and es: "operand_data_edges any_edge (snd st) i = Inr es" "es \<noteq> []"
  shows "\<exists>df. on_graph (set_output_df_from_operands i) st = Inr (fst st, set_node i (node_set_output_df df n) (snd st))"
proof -
  have ii: "i \<in> node_ids (snd st)" unfolding in_node_ids using i by blast
  from data_operands_eq [OF wf ii] have d: "data_operands (snd st) i = Inr (reach_operands (snd st) i)"
    "set (reach_operands (snd st) i) \<subseteq> node_ids (snd st)" by auto
  have "length (reach_operands (snd st) i) = length es"
    using d(1) mapR_length [of _ es] by (auto simp: data_operands_def es(1))
  with es(2) have ne: "0 < length (reach_operands (snd st) i)" by simp
  then have "reach_operands (snd st) i ! 0 \<in> node_ids (snd st)" using d(2) nth_mem by blast
  then obtain p where p: "map_of (nodes_map (snd st)) (reach_operands (snd st) i ! 0) = Some p"
    unfolding in_node_ids by blast
  have "set_output_df_from_operands i (snd st) =
      update_node i (\<lambda>m. Inr (node_set_output_df (node_output_df p) m)) (snd st)"
    using ne by (simp add: set_output_df_from_operands_def d(1) vec_at_def deref_def p)
  then show ?thesis
    using i by (cases st) (auto simp: on_graph_def update_node_def node_by_id_def)
qed

lemma data_query_cong:
  assumes "nothing_hidden g" "nothing_hidden h" "operands_map g = operands_map h"
  shows "operand_data_edges any_edge g i = operand_data_edges any_edge h i"
proof -
  have "is_edge_visible g = is_edge_visible h" by (rule ext) (simp add: is_edge_visible_def assms(1,2))
  then show ?thesis
    unfolding operand_data_edges_def operand_edges_def operand_edges_set_def visible_edges_def assms(3) by (rule ssubst) rule
qed

lemma OpType_shape_tile: "OpType_shape base_shape t ins = Inr (s, bs) \<Longrightarrow> sh_tile_dim s = Dim32x32"
  unfolding OpType_shape_def Op_shape_def Let_def
  by (auto simp: result_simps Op_base_shape_def abs_shape_def add_shape_def subtract_shape_def
      multiply_shape_def divide_shape_def sine_shape_def cosine_shape_def softmax_shape_def
      softmax_bw_shape_def constant_shape_def reshape_shape_def squeeze_shape_def unsqueeze_shape_def
      transpose_shape_def concatenate_shape_def compute_elementwise_binary_shape_def Let_def shape_create_def mk_shape_def
      split: if_splits)

text \<open>What a call leaves: one more node, live, under a name of its own.\<close>

definition made_node :: "Engine \<Rightarrow> string \<Rightarrow> NodeContext \<Rightarrow> Engine \<Rightarrow> bool" where
  "made_node g nm x g' \<longleftrightarrow> graph_wf (fst (eng_gs g')) (eng_graph g') \<and> nothing_hidden (eng_graph g') \<and>
     attrs_bounded (eng_gs g') \<and> plain_node (eng_graph g') x \<and>
     fwd_to_out_gradient_map g' = fwd_to_out_gradient_map g \<and>
     map_of (nodes_map (eng_graph g)) \<subseteq>\<^sub>m map_of (nodes_map (eng_graph g')) \<and>
     edge_ids (eng_graph g) \<subseteq> edge_ids (eng_graph g') \<and>
     map_of (node_name_to_node_id (eng_graph g')) = (map_of (node_name_to_node_id (eng_graph g)))(nm \<mapsto> nc_id x)"

text \<open>The end of both calls: the edge from the forward node and the context of the new one.\<close>

lemma finish_node:
  assumes a: "added g n0 i g1" and e: "edge_ids (eng_graph g1) \<subseteq> edge_ids (eng_graph g2)"
    and wf: "graph_wf (fst (eng_gs g2)) (eng_graph g2)" and h: "nothing_hidden (eng_graph g2)"
    and b: "attrs_bounded (eng_gs g2)" and o1: "fwd_to_out_gradient_map g2 = fwd_to_out_gradient_map g1"
    and nodes: "map_of (nodes_map (eng_graph g2)) = (map_of (nodes_map (eng_graph g1)))(i \<mapsto> n)"
    and names: "node_name_to_node_id (eng_graph g2) = node_name_to_node_id (eng_graph g1)"
    and fwd: "map_of (nodes_map (eng_graph g)) fwd = Some fn" "is_forward fn"
    and n: "is_backward n" "sh_tile_dim (node_shape n) = Dim32x32"
  shows "\<exists>x g'. rbind (add_fwd_to_bwd_map fwd i k False g2) (\<lambda>g6. rbind (context_of g6 i) (\<lambda>x. Inr (x, g6))) =
      Inr (x, g') \<and> nc_shape x = node_shape n \<and> made_node g (node_name n0) x g'"
proof -
  have a': "i \<notin> node_ids (eng_graph g)" "edge_ids (eng_graph g1) = edge_ids (eng_graph g)"
    "fwd_to_out_gradient_map g1 = fwd_to_out_gradient_map g"
    "map_of (nodes_map (eng_graph g1)) = (map_of (nodes_map (eng_graph g)))(i \<mapsto> node_set_id i n0)"
    "map_of (node_name_to_node_id (eng_graph g1)) = (map_of (node_name_to_node_id (eng_graph g)))(node_name n0 \<mapsto> i)"
    using a by (simp_all add: added_def)
  have nodes': "map_of (nodes_map (eng_graph g2)) = (map_of (nodes_map (eng_graph g)))(i \<mapsto> n)"
    unfolding nodes a'(4) by simp
  have ni: "i \<noteq> fwd" using fwd(1) a'(1) in_node_ids [of fwd "eng_graph g"] by blast
  from add_fwd_to_bwd_total [OF wf b, of fwd fn i n k] fwd n(1) ni obtain g3 where
    g3: "add_fwd_to_bwd_map fwd i k False g2 = Inr g3" "edges_only (eng_gs g2) (eng_gs g3)"
      "attrs_bounded (eng_gs g3)" "fwd_to_out_gradient_map g3 = fwd_to_out_gradient_map g2"
    unfolding nodes' by auto
  note E = edges_onlyD [OF g3(2), folded eng_graph_def]
  have n3: "map_of (nodes_map (eng_graph g3)) = (map_of (nodes_map (eng_graph g)))(i \<mapsto> n)"
    using E(2) nodes' by simp
  have "0 \<le> i \<and> node_unique_id n = i" using graph_wfD(9) [OF wf, of i n] unfolding nodes' by simp
  then obtain x where x: "context_of g3 i = Inr x" "nc_id x = i" "nc_shape x = node_shape n"
    using n3 by (auto simp: context_of_def deref_def mk_NodeContext_def node_id_def)
  have "map_of (nodes_map (eng_graph g)) \<subseteq>\<^sub>m map_of (nodes_map (eng_graph g3))"
    unfolding n3 using a'(1) in_node_ids [of i "eng_graph g"] by (auto simp: map_le_def dom_map_of_conv_image_fst)
  moreover have "edge_ids (eng_graph g) \<subseteq> edge_ids (eng_graph g3)"
    using e a'(2) g3(2) by (auto simp: edges_only_def eng_graph_def)
  moreover have "plain_node (eng_graph g3) x" unfolding plain_node_def x(2) n3 using x(3) n(2) by simp
  ultimately have "made_node g (node_name n0) x g3"
    using E(3-5) h g3(3,4) o1 names a'(3,5) x(2) by (simp add: made_node_def)
  then show ?thesis using g3(1) x by auto
qed

lemma plain_added:
  assumes a: "added g n0 i g1" and x: "plain_node (eng_graph g) x"
  shows "plain_node (eng_graph g1) x" "nc_id x \<in> node_ids (eng_graph g1)"
proof -
  from plain_nodeD [OF x] obtain c where c: "map_of (nodes_map (eng_graph g)) (nc_id x) = Some c"
    "node_shape c = nc_shape x" "sh_tile_dim (nc_shape x) = Dim32x32" by blast
  have "nc_id x \<noteq> i" using c(1) a in_node_ids [of "nc_id x" "eng_graph g"] by (auto simp: added_def)
  then have m: "map_of (nodes_map (eng_graph g1)) (nc_id x) = Some c" using a c(1) by (simp add: added_def)
  show "plain_node (eng_graph g1) x" using m c by (simp add: plain_node_def)
  show "nc_id x \<in> node_ids (eng_graph g1)" unfolding in_node_ids using m by blast
qed

lemma eng_gs_on_gs: "f (eng_gs g) = Inr st \<Longrightarrow> on_gs f g = Inr (g\<lparr>eng_gs := st\<rparr>)"
  by (simp add: on_gs_def)

text \<open>A new operation with its operands, shape, epoch and data format.\<close>

lemma dressed_op:
  assumes a: "added g (mk_PyOpNode nm t) i g1"
    and xs: "\<forall>x \<in> set xs. plain_node (eng_graph g) x" and fits: "arity_fits t (length xs)"
    and sh: "OpType_shape base_shape t (map (sh_dims \<circ> nc_shape) xs) = Inr (sh, bs)"
  shows "\<exists>g4 n. rbind (on_gs (calculate_and_set_node_shape (get_op_shape base_shape) i)
              (g1\<lparr>eng_gs := add_operands i xs (eng_gs g1)\<rparr>)) (\<lambda>g2.
     rbind (change_node i (\<lambda>n. Inr (set_epoch_type Epoch_Backward n)) g2) (\<lambda>g3.
       on_gs (on_graph (set_output_df_from_operands i)) g3)) = Inr g4 \<and>
     edge_ids (eng_graph g1) \<subseteq> edge_ids (eng_graph g4) \<and> graph_wf (fst (eng_gs g4)) (eng_graph g4) \<and>
     nothing_hidden (eng_graph g4) \<and> attrs_bounded (eng_gs g4) \<and>
     fwd_to_out_gradient_map g4 = fwd_to_out_gradient_map g1 \<and>
     map_of (nodes_map (eng_graph g4)) = (map_of (nodes_map (eng_graph g1)))(i \<mapsto> n) \<and>
     node_name_to_node_id (eng_graph g4) = node_name_to_node_id (eng_graph g1) \<and>
     is_backward n \<and> node_shape n = sh \<and> node_name n = nm \<and> node_type n = kPyOp \<and> op_part n = Some (op_fields t)"
proof -
  define st1 where "st1 = eng_gs g1"
  define n0 where "n0 = node_set_id i (mk_PyOpNode nm t)"
  have wf1: "graph_wf (fst st1) (snd st1)" and h1: "nothing_hidden (snd st1)" and b1: "attrs_bounded st1"
    and i1: "map_of (nodes_map (snd st1)) i = Some n0" "ops (snd st1) i = []" "attr_ids_of st1 i = {}"
    using a by (simp_all add: added_def st1_def eng_graph_def n0_def)
  have ii: "i \<in> node_ids (snd st1)" unfolding in_node_ids using i1(1) by blast
  have x1: "\<forall>x \<in> set xs. plain_node (snd st1) x" "\<forall>x \<in> set xs. nc_id x \<in> node_ids (snd st1)"
    using plain_added [OF a] xs by (auto simp: st1_def eng_graph_def)
  have len: "0 < length xs" "length xs \<le> 2 ^ 32" using fits by (simp_all add: arity_fits_def)
  define st2 where "st2 = add_operands i xs st1"
  have f: "fed st1 i (map (operand_id i) (enumerate 0 xs)) st2"
    unfolding st2_def by (rule add_operands_fed [OF wf1 ii i1(2,3) x1(2) len(2)])
  from fed_queries [OF f ii x1(2) len(2) h1] obtain es where
    es: "operand_edges any_edge (snd st2) i = Inr es" "operand_data_edges any_edge (snd st2) i = Inr es"
      "map producer_node_id es = map nc_id xs" "\<forall>e \<in> set es. edge_tms st2 e = Inr []" by blast
  note E = edges_onlyD [OF fedD(1) [OF f]]
  have n2: "map_of (nodes_map (snd st2)) i = Some n0" using i1(1) E(2) by simp
  have part: "op_part n0 = Some (op_fields t)" "node_type n0 = kPyOp" "node_name n0 = nm"
    by (simp_all add: n0_def node_set_id_def mk_PyOpNode_def base_node_def op_part_def)
  have x2: "\<forall>x \<in> set xs. plain_node (snd st2) x" using x1(1) E(2) by (simp add: plain_node_def)
  define m1 where "m1 = n0\<lparr>node_shape := sh\<rparr>"
  from calculate_new_op [OF E(3) n2 part(1,2) es x2 fits sh] obtain u where
    u: "calculate_and_set_node_shape (get_op_shape base_shape) i st2 = Inr u"
      "attrs_only (fst st2, set_node i m1 (snd st2)) u" unfolding m1_def by blast
  have u': "graph_wf (fst u) (snd u)" "snd u = set_node i m1 (snd st2)"
    "last_node_id_assigned (fst u) = last_node_id_assigned (fst st2)" using u(2) unfolding attrs_only_def fst_conv snd_conv by blast+
  define m2 where "m2 = set_epoch_type Epoch_Backward m1"
  have mu: "map_of (nodes_map (snd u)) i = Some m1" by (simp add: u'(2))
  define st3 where "st3 = (fst u, set_node i m2 (snd u))"
  have c3: "on_graph (update_node i (\<lambda>n. Inr (set_epoch_type Epoch_Backward n))) u = Inr st3"
    unfolding st3_def by (rule update_node_value [OF mu]) (simp add: m2_def)
  have wf3: "graph_wf (fst st3) (snd st3)"
    using set_node_state [OF u'(1) mu, of m2] by (simp add: st3_def m2_def set_epoch_type_def)
  have h3: "nothing_hidden (snd st3)" using h1 E(4) by (simp add: st3_def u'(2))
  have "operand_data_edges any_edge (snd st3) i = operand_data_edges any_edge (snd st2) i"
    by (rule data_query_cong [OF h3]) (use h1 E(4) in \<open>simp_all add: st3_def u'(2)\<close>)
  moreover have "es \<noteq> []" using es(3) len(1) by auto
  moreover have m3: "map_of (nodes_map (snd st3)) i = Some m2" by (simp add: st3_def)
  ultimately obtain df where df: "on_graph (set_output_df_from_operands i) st3 =
      Inr (fst st3, set_node i (node_set_output_df df m2) (snd st3))"
    using set_output_df_total [OF wf3 h3] es(2) by metis
  define m4 where "m4 = node_set_output_df df m2"
  define st4 where "st4 = (fst st3, set_node i m4 (snd st3))"
  have wf4: "graph_wf (fst st4) (snd st4)"
    using set_node_state [OF wf3 m3, of m4] by (simp add: st4_def m4_def node_set_output_df_def)
  have b2: "attrs_bounded st2"
  proof (rule add_operands_bounded [OF f b1])
    have "j \<le> last_node_id_assigned (fst st1)" if "j \<in> node_ids (snd st1)" for j
    proof -
      from that obtain n where "map_of (nodes_map (snd st1)) j = Some n" unfolding in_node_ids by blast
      then show ?thesis using graph_wfD(9) [OF wf1] by blast
    qed
    then show "i \<le> last_node_id_assigned (fst st1)" "\<forall>x \<in> set xs. nc_id x \<le> last_node_id_assigned (fst st1)"
      using ii x1(2) by blast+
  qed
  have b4: "attrs_bounded st4" using b2 u'(3) by (simp add: attrs_bounded_def st4_def st3_def u'(2))
  have run: "rbind (on_gs (calculate_and_set_node_shape (get_op_shape base_shape) i)
              (g1\<lparr>eng_gs := add_operands i xs (eng_gs g1)\<rparr>)) (\<lambda>g2.
     rbind (change_node i (\<lambda>n. Inr (set_epoch_type Epoch_Backward n)) g2) (\<lambda>g3.
       on_gs (on_graph (set_output_df_from_operands i)) g3)) = Inr (g1\<lparr>eng_gs := st4\<rparr>)"
    by (simp add: on_gs_def change_node_def u(1) c3 df st4_def m4_def flip: st1_def st2_def)
  have m: "is_backward m4" "node_shape m4 = sh" "node_name m4 = nm" "node_type m4 = kPyOp"
    "op_part m4 = Some (op_fields t)"
    using part by (simp_all add: m4_def m2_def m1_def node_set_output_df_def set_epoch_type_def is_backward_def op_part_def)
  have "edge_ids (snd st1) \<subseteq> edge_ids (snd st4)"
    using fedD(1) [OF f] by (simp add: st4_def st3_def u'(2) edges_only_def)
  moreover have "map_of (nodes_map (snd st4)) = (map_of (nodes_map (snd st1)))(i \<mapsto> m4)"
    using E(2) by (simp add: st4_def st3_def u'(2))
  moreover have "node_name_to_node_id (snd st4) = node_name_to_node_id (snd st1)"
    using E(5) by (simp add: st4_def st3_def u'(2))
  moreover have "nothing_hidden (snd st4)" using h3 by (simp add: st4_def)
  ultimately show ?thesis
    using run wf4 b4 m by (intro exI [of _ "g1\<lparr>eng_gs := st4\<rparr>"] exI [of _ m4]) (simp add: eng_graph_def flip: st1_def)
qed

lemma copy_golden_total:
  assumes "op_part n = Some p" "node_type n = kPyOp"
  shows "\<exists>m. copy_golden b fn n = Inr m \<and> node_name m = node_name n \<and> node_unique_id m = node_unique_id n \<and>
    node_shape m = node_shape n \<and> is_backward m = is_backward n"
  using assms by (auto simp: copy_golden_def with_op_def as_OpNode_def op_part_def disable_golden_id_def is_backward_def
      split: option.splits node_class.splits)

lemma create_backward_op_total:
  assumes wf: "graph_wf (fst (eng_gs g)) (eng_graph g)" and h: "nothing_hidden (eng_graph g)"
    and b: "attrs_bounded (eng_gs g)"
    and fwd: "map_of (nodes_map (eng_graph g)) fwd = Some fn" "is_forward fn"
    and free: "map_of (node_name_to_node_id (eng_graph g)) (created_name ''bw_in'' k (node_name fn) pre (op_name t) c) = None"
    and xs: "\<forall>x \<in> set xs. plain_node (eng_graph g) x" and fits: "arity_fits t (length xs)"
    and sh: "OpType_shape base_shape t (map (sh_dims \<circ> nc_shape) xs) = Inr (sh, bs)"
  shows "\<exists>x g'. create_backward_op base_shape t xs fwd k c pre cg g = Inr (x, g') \<and> nc_shape x = sh \<and>
    made_node g (created_name ''bw_in'' k (node_name fn) pre (op_name t) c) x g'"
proof -
  define nm where "nm = created_name ''bw_in'' k (node_name fn) pre (op_name t) c"
  have nn: "node_name (mk_PyOpNode nm t) = nm" by (simp add: mk_PyOpNode_def base_node_def)
  have fin: "fwd \<in> node_ids (eng_graph g)" unfolding in_node_ids using fwd by blast
  from add_beside_total [OF wf h b fin, of "mk_PyOpNode nm t"] free obtain i g1 where
    g1: "add_beside fwd (mk_PyOpNode nm t) g = Inr (g1, i)" "added g (mk_PyOpNode nm t) i g1"
    unfolding nn nm_def [symmetric] by blast
  from dressed_op [OF g1(2) xs fits sh] obtain g4 n where
    g4: "rbind (on_gs (calculate_and_set_node_shape (get_op_shape base_shape) i)
              (g1\<lparr>eng_gs := add_operands i xs (eng_gs g1)\<rparr>)) (\<lambda>g2.
     rbind (change_node i (\<lambda>n. Inr (set_epoch_type Epoch_Backward n)) g2) (\<lambda>g3.
       on_gs (on_graph (set_output_df_from_operands i)) g3)) = Inr g4"
      "edge_ids (eng_graph g1) \<subseteq> edge_ids (eng_graph g4)" "graph_wf (fst (eng_gs g4)) (eng_graph g4)"
      "nothing_hidden (eng_graph g4)" "attrs_bounded (eng_gs g4)"
      "fwd_to_out_gradient_map g4 = fwd_to_out_gradient_map g1"
      "map_of (nodes_map (eng_graph g4)) = (map_of (nodes_map (eng_graph g1)))(i \<mapsto> n)"
      "node_name_to_node_id (eng_graph g4) = node_name_to_node_id (eng_graph g1)"
    and n: "is_backward n" "node_shape n = sh" "node_name n = nm" "node_type n = kPyOp" "op_part n = Some (op_fields t)"
    by blast
  from copy_golden_total [OF n(5,4), of cg fn] n obtain m where
    m: "copy_golden cg fn n = Inr m" "node_name m = node_name n" "node_unique_id m = node_unique_id n"
      "node_shape m = sh" "is_backward m" by auto
  have n4: "map_of (nodes_map (snd (eng_gs g4))) i = Some n" using g4(7) by (simp add: eng_graph_def)
  define st5 where "st5 = (fst (eng_gs g4), set_node i m (snd (eng_gs g4)))"
  have c5: "change_node i (copy_golden cg fn) g4 = Inr (g4\<lparr>eng_gs := st5\<rparr>)"
    using update_node_value [where f = "copy_golden cg fn", OF n4 m(1)]
    by (simp add: change_node_def on_gs_def st5_def)
  have wf5: "graph_wf (fst st5) (snd st5)"
    using set_node_state [OF g4(3) [unfolded eng_graph_def] n4, of m] m(2,3) by (simp add: st5_def)
  have "\<exists>x g'. rbind (add_fwd_to_bwd_map fwd i k False (g4\<lparr>eng_gs := st5\<rparr>)) (\<lambda>g6. rbind (context_of g6 i) (\<lambda>x. Inr (x, g6))) =
      Inr (x, g') \<and> nc_shape x = node_shape m \<and> made_node g (node_name (mk_PyOpNode nm t)) x g'"
  proof (rule finish_node [OF g1(2)])
    show "map_of (nodes_map (eng_graph (g4\<lparr>eng_gs := st5\<rparr>))) = (map_of (nodes_map (eng_graph g1)))(i \<mapsto> m)"
      using g4(7) by (simp add: eng_graph_def st5_def)
    show "attrs_bounded (eng_gs (g4\<lparr>eng_gs := st5\<rparr>))" using g4(5) by (simp add: attrs_bounded_def st5_def)
    show "sh_tile_dim (node_shape m) = Dim32x32" using OpType_shape_tile [OF sh] m(4) by simp
  qed (use g4 wf5 fwd m in \<open>simp_all add: eng_graph_def st5_def\<close>)
  then obtain x g' where x: "rbind (add_fwd_to_bwd_map fwd i k False (g4\<lparr>eng_gs := st5\<rparr>)) (\<lambda>g6. rbind (context_of g6 i) (\<lambda>x. Inr (x, g6))) =
      Inr (x, g')" "nc_shape x = sh" "made_node g nm x g'" using m(4) nn by auto
  have "create_backward_op base_shape t xs fwd k c pre cg g = Inr (x, g')"
  proof -
    have "create_backward_op base_shape t xs fwd k c pre cg g =
      rbind (rbind (on_gs (calculate_and_set_node_shape (get_op_shape base_shape) i)
              (g1\<lparr>eng_gs := add_operands i xs (eng_gs g1)\<rparr>)) (\<lambda>g2.
     rbind (change_node i (\<lambda>n. Inr (set_epoch_type Epoch_Backward n)) g2) (\<lambda>g3.
       on_gs (on_graph (set_output_df_from_operands i)) g3))) (\<lambda>g4. rbind (change_node i (copy_golden cg fn) g4) (\<lambda>g5.
     rbind (add_fwd_to_bwd_map fwd i k False g5) (\<lambda>g6.
     rbind (context_of g6 i) (\<lambda>x. Inr (x, g6)))))"
      by (simp add: create_backward_op_def deref_def fwd(1) g1(1) rbind_assoc flip: nm_def)
    also have "\<dots> = Inr (x, g')" unfolding g4(1) by (simp add: c5 x(1))
    finally show ?thesis .
  qed
  then show ?thesis using x by (auto simp: nm_def)
qed

lemma create_constant_value_total:
  assumes wf: "graph_wf (fst (eng_gs g)) (eng_graph g)" and h: "nothing_hidden (eng_graph g)"
    and b: "attrs_bounded (eng_gs g)"
    and fwd: "map_of (nodes_map (eng_graph g)) fwd = Some fn" "is_forward fn"
    and free: "map_of (node_name_to_node_id (eng_graph g)) (constant_name (node_name fn) c) = None"
  shows "\<exists>x g'. create_constant_value fwd k v c Epoch_Backward g = Inr (x, g') \<and> nc_shape x = shape_create [1] \<and>
    made_node g (constant_name (node_name fn) c) x g'"
proof -
  define nm where "nm = constant_name (node_name fn) c"
  define n0 where "n0 = mk_ConstantInputNode nm v (-1) (-1)"
  have nn: "node_name n0 = nm" by (simp add: n0_def mk_ConstantInputNode_def base_node_def)
  have fin: "fwd \<in> node_ids (eng_graph g)" unfolding in_node_ids using fwd by blast
  from add_beside_total [OF wf h b fin, of n0] free obtain i g1 where
    g1: "add_beside fwd n0 g = Inr (g1, i)" "added g n0 i g1"
    by (auto simp: nn nm_def)
  define m1 where "m1 = node_set_output_df (node_output_df fn) ((node_set_id i n0)\<lparr>node_shape := shape_create [1]\<rparr>)"
  have i1: "map_of (nodes_map (snd (eng_gs g1))) i = Some (node_set_id i n0)"
    using g1(2) by (simp add: added_def eng_graph_def)
  have wf1: "graph_wf (fst (eng_gs g1)) (snd (eng_gs g1))" using g1(2) by (simp add: added_def eng_graph_def)
  define st2 where "st2 = (fst (eng_gs g1), set_node i m1 (snd (eng_gs g1)))"
  have c2: "change_node i (\<lambda>n. rbind (node_set_shape (shape_create [1]) n) (\<lambda>n1.
              Inr (node_set_output_df (node_output_df fn) n1))) g1 = Inr (g1\<lparr>eng_gs := st2\<rparr>)"
    unfolding change_node_def on_gs_def
    by (subst update_node_value [OF i1, of _ m1]) (simp_all add: m1_def node_set_shape_def shape_create_def mk_shape_def st2_def)
  have i2: "map_of (nodes_map (snd st2)) i = Some m1" by (simp add: st2_def)
  have wf2: "graph_wf (fst st2) (snd st2)"
    using set_node_state [OF wf1 i1, of m1] by (simp add: st2_def m1_def node_set_output_df_def)
  define m where "m = set_epoch_type Epoch_Backward m1"
  define st3 where "st3 = (fst st2, set_node i m (snd st2))"
  have wf3: "graph_wf (fst st3) (snd st3)"
    using set_node_state [OF wf2 i2, of m] by (simp add: st3_def m_def set_epoch_type_def)
  have c3: "change_node i (\<lambda>n. Inr (set_epoch_type Epoch_Backward n)) (g1\<lparr>eng_gs := st2\<rparr>) = Inr (g1\<lparr>eng_gs := st3\<rparr>)"
    unfolding change_node_def on_gs_def
    by (subst update_node_value [of _ _ m1 _ m]) (simp_all add: i2 m_def st3_def)
  have m: "is_backward m" "node_shape m = shape_create [1]"
    by (simp_all add: m_def m1_def set_epoch_type_def is_backward_def node_set_output_df_def)
  have "\<exists>x g'. rbind (add_fwd_to_bwd_map fwd i k False (g1\<lparr>eng_gs := st3\<rparr>)) (\<lambda>g6. rbind (context_of g6 i) (\<lambda>x. Inr (x, g6))) =
      Inr (x, g') \<and> nc_shape x = node_shape m \<and> made_node g (node_name n0) x g'"
  proof (rule finish_node [OF g1(2)])
    show "map_of (nodes_map (eng_graph (g1\<lparr>eng_gs := st3\<rparr>))) = (map_of (nodes_map (eng_graph g1)))(i \<mapsto> m)"
      by (simp add: eng_graph_def st3_def st2_def)
    show "attrs_bounded (eng_gs (g1\<lparr>eng_gs := st3\<rparr>))"
      using g1(2) by (simp add: attrs_bounded_def added_def st3_def st2_def)
    show "sh_tile_dim (node_shape m) = Dim32x32" by (simp add: m shape_create_def mk_shape_def)
  qed (use wf3 fwd m g1(2) in \<open>simp_all add: eng_graph_def st3_def st2_def added_def\<close>)
  then show ?thesis
    using m nn by (auto simp: create_constant_value_def deref_def fwd(1) g1(1) c2 enter_epoch_def c3 result_simps
        simp flip: nm_def n0_def)
qed


text \<open>The counter keeps the names of later nodes free.\<close>

lemma ag_after:
  assumes r: "ag_ready (ac, g)" and m: "made_node g nm x g'"
    and fn: "map_of (nodes_map (eng_graph g)) (current_fwd_op ac) = Some fn"
    and nm: "(\<exists>o1. nm = created_name ''bw_in'' (ac_operand ac) (node_name fn) [] o1 (created_op_index ac)) \<or>
      nm = constant_name (node_name fn) (created_op_index ac)"
  shows "ag_ready (count_op ac, g')" "ag_live (count_op ac, g') x" "ag_grow (ac, g) (count_op ac, g')"
proof -
  note M = m [unfolded made_node_def]
  have free: "is_forward fn" "names_free ac (node_name fn) (eng_graph g)" "ac_epoch_type ac = Epoch_Backward"
    using r fn by (simp_all add: ag_ready_def)
  have fn': "map_of (nodes_map (eng_graph g')) (current_fwd_op ac) = Some fn"
    using M fn by (auto simp: map_le_def dom_def)
  have other: "k > created_op_index ac \<Longrightarrow> created_name ''bw_in'' (ac_operand ac) (node_name fn) [] o1 k \<noteq> nm"
    "k > created_op_index ac \<Longrightarrow> constant_name (node_name fn) k \<noteq> nm" for k o1
    using nm created_names_differ by (metis less_irrefl)+
  have "names_free (count_op ac) (node_name fn) (eng_graph g')"
    using free(2) M other unfolding names_free_def by (simp add: count_op_def)
  then show "ag_ready (count_op ac, g')" using M fn' free by (simp add: ag_ready_def count_op_def)
  show "ag_live (count_op ac, g') x" using M by (simp add: ag_live_def)
  show "ag_grow (ac, g) (count_op ac, g')" using M by (simp add: ag_grow_def count_op_def)
qed

lemma ag_readyD:
  assumes "ag_ready (ac, g)"
  obtains fn where "map_of (nodes_map (eng_graph g)) (current_fwd_op ac) = Some fn" "is_forward fn"
    "graph_wf (fst (eng_gs g)) (eng_graph g)" "nothing_hidden (eng_graph g)" "attrs_bounded (eng_gs g)"
    "ac_epoch_type ac = Epoch_Backward"
    "\<And>o1. map_of (node_name_to_node_id (eng_graph g)) (created_name ''bw_in'' (ac_operand ac) (node_name fn) [] o1 (created_op_index ac)) = None"
    "map_of (node_name_to_node_id (eng_graph g)) (constant_name (node_name fn) (created_op_index ac)) = None"
  using assms by (auto simp: ag_ready_def names_free_def split: option.splits)

lemma engine_create_op_ok:
  assumes r: "ag_ready s" and xs: "\<forall>x \<in> set xs. ag_live s x" and fits: "arity_fits t (length xs)"
    and sh: "OpType_shape base_shape t (map (sh_dims \<circ> nc_shape) xs) = Inr (sh, bs)"
  shows "\<exists>x s'. engine_create_op base_shape t xs s = Inr (x, s') \<and> nc_shape x = sh \<and> ag_live s' x \<and>
    ag_ready s' \<and> ag_grow s s'"
proof -
  obtain ac g where s: "s = (ac, g)" by (cases s)
  from ag_readyD [OF r [unfolded s]] obtain fn where
    R: "map_of (nodes_map (eng_graph g)) (current_fwd_op ac) = Some fn" "is_forward fn"
    "graph_wf (fst (eng_gs g)) (eng_graph g)" "nothing_hidden (eng_graph g)" "attrs_bounded (eng_gs g)"
    "ac_epoch_type ac = Epoch_Backward"
    "\<And>o1. map_of (node_name_to_node_id (eng_graph g)) (created_name ''bw_in'' (ac_operand ac) (node_name fn) [] o1 (created_op_index ac)) = None"
    by metis
  have xs': "\<forall>x \<in> set xs. plain_node (eng_graph g) x" using xs by (simp add: s ag_live_def)
  from create_backward_op_total [OF R(3-5) R(1,2) R(7) xs' fits sh, of True] obtain x g' where
    x: "create_backward_op base_shape t xs (current_fwd_op ac) (ac_operand ac) (created_op_index ac) [] True g = Inr (x, g')"
      "nc_shape x = sh"
      "made_node g (created_name ''bw_in'' (ac_operand ac) (node_name fn) [] (op_name t) (created_op_index ac)) x g'"
    by blast
  have "engine_create_op base_shape t xs s = Inr (x, count_op ac, g')" by (simp add: engine_create_op_def s R(6) x(1))
  then show ?thesis using x(2) ag_after [OF r [unfolded s] x(3) R(1)] s by blast
qed

lemma engine_create_constant_ok:
  assumes r: "ag_ready s"
  shows "\<exists>x s'. engine_create_constant v s = Inr (x, s') \<and> nc_shape x = shape_create [1] \<and> ag_live s' x \<and>
    ag_ready s' \<and> ag_grow s s'"
proof -
  obtain ac g where s: "s = (ac, g)" by (cases s)
  from ag_readyD [OF r [unfolded s]] obtain fn where
    R: "map_of (nodes_map (eng_graph g)) (current_fwd_op ac) = Some fn" "is_forward fn"
    "graph_wf (fst (eng_gs g)) (eng_graph g)" "nothing_hidden (eng_graph g)" "attrs_bounded (eng_gs g)"
    "ac_epoch_type ac = Epoch_Backward"
    "map_of (node_name_to_node_id (eng_graph g)) (constant_name (node_name fn) (created_op_index ac)) = None"
    by metis
  from create_constant_value_total [OF R(3-5) R(1,2,7)] obtain x g' where
    x: "create_constant_value (current_fwd_op ac) (ac_operand ac) v (created_op_index ac) Epoch_Backward g = Inr (x, g')"
      "nc_shape x = shape_create [1]" "made_node g (constant_name (node_name fn) (created_op_index ac)) x g'"
    by blast
  have "engine_create_constant v s = Inr (x, count_op ac, g')" by (simp add: engine_create_constant_def s R(6) x(1))
  then show ?thesis using x(2) ag_after [OF r [unfolded s] x(3) R(1)] s by blast
qed

lemma ag_grow_live: "ag_grow s s' \<Longrightarrow> ag_live s x \<Longrightarrow> ag_live s' x"
  by (cases s; cases s') (auto simp: ag_grow_def ag_live_def plain_node_def map_le_def dom_def split: option.splits)

lemma ag_grow_trans: "ag_grow s s' \<Longrightarrow> ag_grow s' s'' \<Longrightarrow> ag_grow s s''"
  by (cases s; cases s'; cases s'') (auto simp: ag_grow_def intro: map_le_trans)

lemma ag_grow_refl: "ag_grow s s"
  by (cases s) (simp add: ag_grow_def)

interpretation agb: node_builder "engine_builder base_shape" base_shape ag_ready ag_live ag_live ag_grow
  for base_shape
proof unfold_locales
  fix s xs t sh bs
  assume "ag_ready s" "\<forall>x \<in> set xs. ag_live s x" "arity_fits t (length xs)"
    "OpType_shape base_shape t (map (sh_dims \<circ> nc_shape) xs) = Inr (sh, bs)"
  from engine_create_op_ok [OF this]
  show "\<exists>r s'. create_op (engine_builder base_shape) t xs s = Inr (r, s') \<and> nc_shape r = sh \<and> ag_live s' r \<and>
      ag_ready s' \<and> ag_grow s s'" by (simp add: engine_builder_def)
next
  fix s v assume "ag_ready s"
  from engine_create_constant_ok [OF this, of v] obtain x s' where
    "engine_create_constant v s = Inr (x, s')" "nc_shape x = shape_create [1]" "ag_live s' x" "ag_ready s'" "ag_grow s s'"
    by blast
  then show "\<exists>r s'. create_constant (engine_builder base_shape) v s = Inr (r, s') \<and> dims r = [1] \<and> ag_live s' r \<and>
      ag_ready s' \<and> (\<forall>x. ag_live s x \<longrightarrow> ag_live s' x)"
    using ag_grow_live by (auto simp: engine_builder_def)
qed (use ag_grow_live ag_grow_trans ag_grow_refl in blast)+


definition example_shapes :: base_shape_fn where
  "example_shapes t ins =
     (case ins of
        [ds] \<Rightarrow> if op_name t = ''nop'' then Inr (ds, []) else
          (case legacy_attrs t of AInt i # _ \<Rightarrow> Inr (ds[nat i := 1], []) | _ \<Rightarrow> Inl Runtime_error)
      | _ \<Rightarrow> Inl Runtime_error)"

definition shaped :: "u32 list \<Rightarrow> Node \<Rightarrow> Node" where
  "shaped ds n = n\<lparr>node_shape := shape_create ds\<rparr>"

definition example_ag_graph :: Graph where
  "example_ag_graph =
     set_node 1 (node_set_id 1 (shaped [3] (mk_InputNode ''x'' In_Parameter True)))
    (set_node 2 (node_set_id 2 (shaped [2, 3] (mk_PyOpNode ''relu'' example_relu))) example_g)"

definition example_ag :: AutogradState where
  "example_ag = (\<lparr>current_fwd_op = 2, ac_operand = 0, ac_epoch_type = Epoch_Backward, created_op_index = 0\<rparr>,
     mk_autograd_engine (example_w, example_ag_graph))"

definition example_ctx :: "NodeId \<Rightarrow> u32 list \<Rightarrow> NodeContext" where
  "example_ctx i ds = \<lparr>nc_id = i, nc_name = [], nc_output_index = 0, nc_type = kInput, nc_shape = shape_create ds,
     nc_output_df = Float32\<rparr>"

lemma example_ag_wf1: "graph_wf example_w example_ag_graph"
  by code_simp

lemma example_ag_wf2: "nothing_hidden example_ag_graph"
  by code_simp

lemma example_ag_wf3: "list_all (\<lambda>(u, a). fst u \<le> last_node_id_assigned example_w \<and> fst (snd (snd u)) \<le> last_node_id_assigned example_w)
    (edge_to_attr_map example_ag_graph)"
  by code_simp

lemma example_ag_wf4: "keys (node_name_to_node_id example_ag_graph) = [''x'', ''relu'', ''y'']"
  by code_simp

lemma example_ag_wf5: "map_of (nodes_map example_ag_graph) 1 = Some (node_set_id 1 (shaped [3] (mk_InputNode ''x'' In_Parameter True)))"
  by code_simp

lemma example_ag_wf6: "map_of (nodes_map example_ag_graph) 2 = Some (node_set_id 2 (shaped [2, 3] (mk_PyOpNode ''relu'' example_relu)))"
  by code_simp

lemmas example_ag_wf = example_ag_wf1 example_ag_wf2 example_ag_wf3 example_ag_wf4 example_ag_wf5 example_ag_wf6

lemma example_ag_ready: "ag_ready example_ag"
proof -
  have "attrs_bounded (example_w, example_ag_graph)"
    using example_ag_wf(3) by (auto simp: attrs_bounded_def list_all_iff)
  moreover have "map_of (node_name_to_node_id example_ag_graph) nm = None" if "nm \<notin> {''x'', ''relu'', ''y''}" for nm
    using that arg_cong [OF example_ag_wf(4), of set] by (simp add: map_of_eq_None_iff)
  then have "names_free \<lparr>current_fwd_op = 2, ac_operand = 0, ac_epoch_type = Epoch_Backward, created_op_index = 0\<rparr> nm example_ag_graph"
    for nm by (simp add: names_free_def created_name_def constant_name_def)
  ultimately show ?thesis using example_ag_wf(1,2,6)
    by (simp add: ag_ready_def example_ag_def mk_autograd_engine_def eng_graph_def node_set_id_def shaped_def
        mk_PyOpNode_def base_node_def is_forward_def)
qed

lemma example_ag_live: "ag_live example_ag (example_ctx 1 [3])" "ag_live example_ag (example_ctx 2 [2, 3])"
  using example_ag_wf(5,6)
  by (simp_all add: ag_live_def example_ag_def example_ctx_def plain_node_def eng_graph_def mk_autograd_engine_def
      node_set_id_def shaped_def shape_create_def mk_shape_def)

lemma example_python_shapes: "python_shapes example_shapes"
  by (simp add: python_shapes_def reduce_sum_keeps_def example_shapes_def)


end
