(* ===== verification/Insert_Bypass.thy ===== *)
theory Insert_Bypass
  imports Surgery_Laws
begin

text \<open>
  Inserting a node on a data edge and bypassing a node: both end, which data edges they leave, with
  which TMs, and that the second undoes the first.
\<close>

declare map_of_eq_Some_iff [simp del] Some_eq_map_of_iff [simp del]
  split_paired_All [simp del] split_paired_Ex [simp del]

section \<open>Inserting a node on an edge\<close>

text \<open>A node with no edges yet, now or in the attribute map.\<close>

definition fresh_node :: "Graph \<Rightarrow> NodeId \<Rightarrow> bool" where
  "fresh_node g i \<longleftrightarrow> i \<in> node_ids g \<and>
     (\<forall>u \<in> set (keys (edge_to_attr_map g)). fst u \<noteq> i \<and> fst (snd (snd u)) \<noteq> i)"

lemma fresh_node_attr: "fresh_node (snd st) i \<Longrightarrow> fst u = i \<or> fst (snd (snd u)) = i \<Longrightarrow> attr_at st u = None"
  by (cases "map_of (edge_to_attr_map (snd st)) u")
    (force simp: fresh_node_def attr_at_def dest: map_of_SomeD)+

lemma fresh_node_ends:
  assumes wf: "graph_wf (fst st) (snd st)" and e: "e \<in> set (graph_edges (snd st))"
    and i: "fresh_node (snd st) i"
  shows "producer_node_id e \<noteq> i" "consumer_node_id e \<noteq> i"
  using graph_edges_ends(5) [OF wf e] i by (auto simp: fresh_node_def unique_id_def)

lemma attr_at_counter: "attr_at (w\<lparr>last_edge_creation_id := n\<rparr>, g) = attr_at (w, g)"
  "sole (w\<lparr>last_edge_creation_id := n\<rparr>, g) = sole (w, g)"
  by (rule ext, simp add: attr_at_def sole_def)+

lemma new_edges_for_effect:
  fixes ci :: PortId
  assumes wf: "graph_wf (fst st) (snd st)" and e: "e \<in> set (graph_edges (snd st))"
    and i: "fresh_node (snd st) i"
    and r: "new_edges_for e i ci st = (t, e0, e1)"
  defines "u0 \<equiv> (producer_node_id e, producer_output_port_id e, i, ci, edge_type e)"
    and "u1 \<equiv> (i, 0, consumer_node_id e, consumer_input_port_id e, edge_type e)"
  shows "keeps st t" "unique_id e0 = u0" "unique_id e1 = u1"
    "edge_ids (snd t) = edge_ids (snd st) \<union> {u0, u1}"
    "attr_at t = (attr_at st)(u0 \<mapsto> create_edge_attributes (edge_type e),
                              u1 \<mapsto> create_edge_attributes (edge_type e))"
    "sole t u0" "sole t u1" "sole st v \<Longrightarrow> sole t v" "nodes_map (snd t) = nodes_map (snd st)"
proof -
  obtain s1 where c0: "construct_edge (producer_node_id e) (producer_output_port_id e) i ci
      (edge_type e) st = (s1, e0)"
    and "\<exists>s2. construct_edge i 0 (consumer_node_id e) (consumer_input_port_id e) (edge_type e) s1 =
      (s2, e1) \<and> t = put_edge e1 (put_edge e0 s2)"
    using r by (auto simp: new_edges_for_def split: prod.splits)
  then obtain s2 where c1: "construct_edge i 0 (consumer_node_id e) (consumer_input_port_id e)
      (edge_type e) s1 = (s2, e1)" and t: "t = put_edge e1 (put_edge e0 s2)" by blast
  note C0 = construct_edge_control_only [OF c0 wf]
  have wf1: "graph_wf (fst s1) (snd s1)" using C0(1) by (simp add: control_only_def keeps_def)
  note C1 = construct_edge_control_only [OF c1 wf1]
  have k2: "keeps st s2"
    by (rule keeps.after [OF control_only_keeps [OF C0(1)] control_only_keeps [OF C1(1)]])
  then have wf2: "graph_wf (fst s2) (snd s2)" by (simp add: keepsD)
  show ids: "unique_id e0 = u0" "unique_id e1 = u1" using C0(5) C1(5) by (simp_all add: u0_def u1_def)
  note ends = graph_edges_ends(3,4) [OF wf e]
  have ne: "u0 \<noteq> u1" using fresh_node_ends [OF wf e i] by (simp add: u0_def u1_def)
  have N: "i \<in> node_ids (snd st)" using i by (simp add: fresh_node_def)
  have at2: "attr_at s2 = attr_at st" "sole s2 = sole st" "snd s2 = snd st"
    using c0 c1 by (auto simp: construct_edge_eq attr_at_counter)
  have a0: "addable e0 s2" using ends N C0(4,7,8) C1(1,2) c1 at2(3) unfolding construct_edge_eq
    by (auto simp: addable_def)
  have n0: "attr_at s2 (unique_id e0) = None"
    unfolding at2 ids by (rule fresh_node_attr [OF i]) (simp add: u0_def)
  note P0 = put_edge_effect [OF wf2 a0] and A0 = put_edge_at [OF wf2 a0 n0]
  have wf3: "graph_wf (fst (put_edge e0 s2)) (snd (put_edge e0 s2))" using P0(1) by (rule keepsD)
  have a1: "addable e1 (put_edge e0 s2)"
    using ends N C1(4,7,8) at2(3) P0(6,8) by (auto simp: addable_def)
  have n1: "attr_at (put_edge e0 s2) (unique_id e1) = None"
    unfolding A0(1) ids using ne fresh_node_attr [OF i, of u1] by (simp add: at2 u1_def)
  note P1 = put_edge_effect [OF wf3 a1] and A1 = put_edge_at [OF wf3 a1 n1]
  show "keeps st t" unfolding t by (rule keeps.after [OF k2 keeps.after [OF P0(1) P1(1)]])
  show "edge_ids (snd t) = edge_ids (snd st) \<union> {u0, u1}"
    unfolding t P1(2) P0(2) ids by (auto simp: at2)
  show "attr_at t = (attr_at st)(u0 \<mapsto> create_edge_attributes (edge_type e),
                              u1 \<mapsto> create_edge_attributes (edge_type e))"
    unfolding t A1(1) A0(1) ids at2 C0(6) C1(6) by simp
  show "sole t u0" "sole t u1" unfolding t using A1(2,3) A0(2) by (simp_all add: ids)
  show "sole t v" if "sole st v" unfolding t using A1(3) A0(3) that by (simp add: at2)
  show "nodes_map (snd t) = nodes_map (snd st)" unfolding t using P0(8) P1(8) by (simp add: at2)
qed

lemma insert_data_edges_effect:
  fixes ci :: PortId
  assumes wf: "graph_wf (fst st) (snd st)" and e: "e \<in> set (graph_edges (snd st))"
    and i: "fresh_node (snd st) i" and a: "attr_at st (unique_id e) = Some a"
  defines "u0 \<equiv> (producer_node_id e, producer_output_port_id e, i, ci, edge_type e)"
    and "u1 \<equiv> (i, 0, consumer_node_id e, consumer_input_port_id e, edge_type e)"
  shows "\<exists>t e0 e1 a0 a1. insert_data_edges place ci e i st = Inr (t, e0, e1) \<and> keeps st t \<and>
     unique_id e0 = u0 \<and> unique_id e1 = u1 \<and> edge_ids (snd t) = edge_ids (snd st) \<union> {u0, u1} \<and>
     attr_at t = (attr_at st)(u0 \<mapsto> a0, u1 \<mapsto> a1) \<and>
     tms a0 = (if place then [] else tms a) \<and> tms a1 = (if place then tms a else []) \<and>
     ublock_order a0 = ublock_order a \<and> ublock_order a1 = ublock_order a \<and>
     (\<forall>v. sole st v \<longrightarrow> sole t v) \<and> nodes_map (snd t) = nodes_map (snd st)"
proof -
  obtain s e0 e1 where n: "new_edges_for e i ci st = (s, e0, e1)" by (cases "new_edges_for e i ci st")
  note N = new_edges_for_effect [OF wf e i n, folded u0_def u1_def]
  have ne: "unique_id e \<noteq> u0" "unique_id e \<noteq> u1" "u0 \<noteq> u1"
    using fresh_node_ends [OF wf e i] by (auto simp: u0_def u1_def unique_id_def)
  let ?c = "create_edge_attributes (edge_type e)"
  have "attr_at s (unique_id e) = Some a" "attr_at s (unique_id e0) = Some ?c"
    using ne a by (simp_all add: N(2,5))
  from copy_attrs_at [OF keepsD(1) [OF N(1)] this(1) _ this(2)] N(2,6) obtain s1 where
    s1: "copy_attrs e e0 s = Inr s1" "keeps s s1" "snd s1 = snd s"
      "attr_at s1 = (attr_at s)(u0 \<mapsto> copy_from a ?c)" "sole s1 = sole s" by auto
  have "attr_at s1 (unique_id e) = Some a" "attr_at s1 (unique_id e1) = Some ?c"
    using ne a by (simp_all add: N(3,5) s1(4))
  from copy_attrs_at [OF keepsD(1) [OF s1(2)] this(1) _ this(2)] N(3,7) obtain s2 where
    s2: "copy_attrs e e1 s1 = Inr s2" "keeps s1 s2" "snd s2 = snd s1"
      "attr_at s2 = (attr_at s1)(u1 \<mapsto> copy_from a ?c)" "sole s2 = sole s1" by (auto simp: s1(5))
  define ex where "ex = (if place then e0 else e1)"
  have ux: "unique_id ex = (if place then u0 else u1)" by (simp add: ex_def N(2,3))
  have "sole s2 (unique_id ex)" "attr_at s2 (unique_id ex) = Some (copy_from a ?c)"
    using N(6,7) ne by (simp_all add: ux s2(4,5) s1(4,5))
  from update_edge_attr_at [OF keepsD(1) [OF s2(2)] this, of "\<lambda>a. Inr (set_tms [] a)"]
  obtain t where t: "update_edge_attr (\<lambda>a. Inr (set_tms [] a)) ex s2 = Inr t" "keeps s2 t"
    "snd t = snd s2" "attr_at t = (attr_at s2)(unique_id ex \<mapsto> set_tms [] (copy_from a ?c))"
    "sole t = sole s2" by blast
  have "keeps st t" using N(1) s1(2) s2(2) t(2) keeps.after by blast
  moreover have "insert_data_edges place ci e i st = Inr (t, e0, e1)"
    using s1(1) s2(1) t(1) by (simp add: insert_data_edges_def n ex_def)
  moreover define a0 where "a0 = (if place then set_tms [] (copy_from a ?c) else copy_from a ?c)"
  moreover define a1 where "a1 = (if place then copy_from a ?c else set_tms [] (copy_from a ?c))"
  moreover have "attr_at t = (attr_at st)(u0 \<mapsto> a0, u1 \<mapsto> a1)"
    unfolding t(4) ux s2(4) s1(4) N(5) a0_def a1_def using ne by (simp add: fun_upd_twist)
  moreover have "edge_ids (snd t) = edge_ids (snd st) \<union> {u0, u1}"
    using N(4) by (simp add: t(3) s2(3) s1(3))
  ultimately show ?thesis
    using N(2,3,8,9)
    by (intro exI [of _ t] exI [of _ e0] exI [of _ e1] exI [of _ a0] exI [of _ a1])
      (simp add: copy_from_def set_tms_def t(3,5) s2(3,5) s1(3,5))
qed

lemma control_only_attr: "control_only s t \<Longrightarrow> attr_at s u \<noteq> None \<Longrightarrow> attr_at t u \<noteq> None"
  by (cases "attr_at s u") (auto simp: control_only_def dest: attrs_kept_at)

lemma control_onlyD:
  "control_only s t \<Longrightarrow> graph_wf (fst t) (snd t)"
  "control_only s t \<Longrightarrow> node_ids (snd t) = node_ids (snd s)"
  "control_only s t \<Longrightarrow> data_ids (snd t) = data_ids (snd s)"
  by (simp_all add: control_only_def keeps_def)

lemma control_loop:
  assumes "graph_wf (fst st) (snd st)"
    and "\<And>x s. x \<in> set xs \<Longrightarrow> control_only st s \<Longrightarrow> graph_wf (fst s) (snd s) \<Longrightarrow>
      node_ids (snd s) = node_ids (snd st) \<Longrightarrow> \<exists>u. f s x = Inr u \<and> control_only s u"
  shows "\<exists>t. foldR f st xs = Inr t \<and> control_only st t"
  by (rule control_only.loop_total [OF control_only_refl [OF assms(1)]], rule assms(2))
    (assumption | erule control_onlyD)+

lemma edge_attr_some: "graph_wf (fst st) (snd st) \<Longrightarrow> e \<in> set (graph_edges (snd st)) \<Longrightarrow>
    attr_at st (unique_id e) \<noteq> None"
  by (erule (1) edge_has_attr) simp

lemma connect_ports_total:
  assumes wf: "graph_wf (fst st) (snd st)" and ends: "p \<in> node_ids (snd st)" "c \<in> node_ids (snd st)"
    and ty: "ty \<noteq> kData"
  shows "\<exists>t. connect_ports p c pp cp ty st = Inr t \<and> control_only st t"
proof -
  have "\<exists>t. connect_ports p c pp cp ty st = Inr t"
    using ends by (cases "construct_edge p pp c cp ty st") (simp add: connect_ports_eq)
  then show ?thesis using connect_ports_control_only [OF _ wf ty] by blast
qed

lemma copy_operand_edge_total:
  assumes "graph_wf (fst st) (snd st)" "producer_node_id e \<in> node_ids (snd st)"
    "i \<in> node_ids (snd st)" "edge_type e \<noteq> kData"
  shows "\<exists>t. copy_operand_edge i st e = Inr t \<and> control_only st t"
  unfolding copy_operand_edge_def by (rule connect_ports_total [OF assms(1-4)])

lemma drop_edge_total:
  assumes wf: "graph_wf (fst st) (snd st)" and c: "consumer_node_id e \<in> node_ids (snd st)"
    and a: "attr_at st (unique_id e) \<noteq> None"
  shows "\<exists>t r. drop_edge e st = Inr (t, r)"
proof -
  obtain w g where st: "st = (w, g)" by (cases st)
  have "map_of (edge_to_attr_map g) (unique_id e) \<noteq> None"
    using a by (simp add: attr_at_def st)
  then obtain x where "remove_edge e g = Inr x"
    by (cases "remove_edge e g") (simp_all add: remove_edge_Inl)
  then show ?thesis by (cases x) (simp add: drop_edge_def st)
qed

lemma move_fwd_edge_total:
  assumes wf: "graph_wf (fst st) (snd st)" and e: "producer_node_id e \<in> node_ids (snd st)"
    "consumer_node_id e \<in> node_ids (snd st)" and a: "attr_at st (unique_id e) \<noteq> None"
    and i: "i \<in> node_ids (snd st)"
  shows "\<exists>t. move_fwd_edge i st e = Inr t \<and> control_only st t"
proof -
  obtain s where s: "(if is_fwd_to_bwd_like e then copy_operand_edge i st e else Inr st) = Inr s"
    "control_only st s"
    using copy_operand_edge_total [OF wf e(1) i] control_only_refl [OF wf]
    by (cases "is_fwd_to_bwd_like e") (auto simp: is_fwd_to_bwd_like_def)
  have k: "keeps st s" and at: "attr_at s (unique_id e) \<noteq> None"
    using control_only_keeps [OF s(2)] control_only_attr [OF s(2) a] by simp_all
  show ?thesis
  proof (cases "edge_type e = kAutogradFwdToGradient")
    case True
    have c: "consumer_node_id e \<in> node_ids (snd s)" using e(2) keepsD(2) [OF k] by simp
    from drop_edge_total [OF keepsD(1) [OF k] c at] obtain t r where t: "drop_edge e s = Inr (t, r)"
      by blast
    have "control_only s t" by (rule drop_edge_effect(4) [OF t keepsD(1) [OF k] c]) (simp add: True)
    then have "control_only st t" by (rule control_only.after [OF s(2)])
    then show ?thesis unfolding move_fwd_edge_def s(1) using True t by simp
  next
    case False
    then show ?thesis unfolding move_fwd_edge_def s(1) using s(2) by simp
  qed
qed

text \<open>The operand edges of a node as the loops of the surgery see them.\<close>

lemma operand_edges_total:
  assumes wf: "graph_wf (fst st) (snd st)" and i: "i \<in> node_ids (snd st)"
  obtains es where "operand_edges f (snd st) i = Inr es" "distinct (map unique_id es)"
    "set es = {e \<in> set (graph_edges (snd st)). consumer_node_id e = i \<and> f e \<and> edge_shown (snd st) e}"
    "\<And>e. e \<in> set es \<Longrightarrow> producer_node_id e \<in> node_ids (snd st) \<and>
       consumer_node_id e \<in> node_ids (snd st) \<and> attr_at st (unique_id e) \<noteq> None"
proof -
  from opq.query_correct [OF wf i, of f] obtain es where es:
    "operand_edges f (snd st) i = Inr es" "distinct (map unique_id es)"
    "set es = {e \<in> set (graph_edges (snd st)). consumer_node_id e = i \<and> f e \<and> edge_shown (snd st) e}" .
  show thesis
    by (rule that [OF es]) (use i graph_edges_ends(3,4) [OF wf] edge_attr_some [OF wf] in \<open>simp add: es(3)\<close>)
qed

lemma user_edges_total:
  assumes wf: "graph_wf (fst st) (snd st)" and i: "i \<in> node_ids (snd st)"
  obtains es where "user_edges f (snd st) i = Inr es" "distinct (map unique_id es)"
    "set es = {e \<in> set (graph_edges (snd st)). producer_node_id e = i \<and> f e \<and> edge_shown (snd st) e}"
    "\<And>e. e \<in> set es \<Longrightarrow> producer_node_id e \<in> node_ids (snd st) \<and>
       consumer_node_id e \<in> node_ids (snd st) \<and> attr_at st (unique_id e) \<noteq> None"
proof -
  from usq.query_correct [OF wf i, of f] obtain es where es:
    "user_edges f (snd st) i = Inr es" "distinct (map unique_id es)"
    "set es = {e \<in> set (graph_edges (snd st)). producer_node_id e = i \<and> f e \<and> edge_shown (snd st) e}" .
  show thesis
    by (rule that [OF es]) (use i graph_edges_ends(3,4) [OF wf] edge_attr_some [OF wf] in \<open>simp add: es(3)\<close>)
qed

lemma insert_control_edges_total:
  assumes wf: "graph_wf (fst st) (snd st)" and e: "producer_node_id e \<in> node_ids (snd st)"
    "consumer_node_id e \<in> node_ids (snd st)" and i: "i \<in> node_ids (snd st)"
  shows "\<exists>t. insert_control_edges e i st = Inr t \<and> control_only st t"
proof -
  from operand_edges_total [OF wf e(2), of any_edge] obtain os where
    os: "operand_edges any_edge (snd st) (consumer_node_id e) = Inr os"
    "\<And>x. x \<in> set os \<Longrightarrow> producer_node_id x \<in> node_ids (snd st)" by metis
  have "\<exists>t. foldR (copy_operand_edge i) st (filter is_control_like os) = Inr t \<and> control_only st t"
    by (rule control_loop [OF wf], rule copy_operand_edge_total)
      (use os(2) i in \<open>simp_all add: is_control_like_def\<close>)
  then obtain s1 where s1: "foldR (copy_operand_edge i) st (filter is_control_like os) = Inr s1"
    "control_only st s1" by blast
  note D1 = control_onlyD [OF s1(2)]
  from node_by_id_in [of "producer_node_id e" "snd s1"] e(1) D1(2) obtain p where
    p: "node_by_id (snd s1) (producer_node_id e) = Inr p" by auto
  from e(1) D1(2) have e1: "producer_node_id e \<in> node_ids (snd s1)" by simp
  obtain ps where
    ps: "operand_edges any_edge (snd s1) (producer_node_id e) = Inr ps"
    "\<And>x. x \<in> set ps \<Longrightarrow> producer_node_id x \<in> node_ids (snd s1) \<and>
      consumer_node_id x \<in> node_ids (snd s1) \<and> attr_at s1 (unique_id x) \<noteq> None"
    by (rule operand_edges_total [OF D1(1) e1, of any_edge], erule that, assumption)
  have "\<exists>t. foldR (move_fwd_edge i) s1 ps = Inr t \<and> control_only s1 t"
    by (rule control_loop [OF D1(1)], rule move_fwd_edge_total)
      (use ps(2) i D1(2) in \<open>simp_all add: control_only_attr del: not_None_eq\<close>)
  then have "\<exists>t. (if list_ex is_control_like os \<or> epoch_type p = Epoch_Forward then Inr s1
      else rbind (operand_edges any_edge (snd s1) (producer_node_id e)) (\<lambda>ps.
        foldR (move_fwd_edge i) s1 ps)) = Inr t \<and> control_only s1 t"
    using control_only_refl [OF D1(1)]
    by (cases "list_ex is_control_like os \<or> epoch_type p = Epoch_Forward") (simp_all add: ps(1))
  then obtain s2 where s2: "(if list_ex is_control_like os \<or> epoch_type p = Epoch_Forward then Inr s1
      else rbind (operand_edges any_edge (snd s1) (producer_node_id e)) (\<lambda>ps.
        foldR (move_fwd_edge i) s1 ps)) = Inr s2" "control_only s1 s2" by blast
  note D2 = control_onlyD [OF s2(2)]
  have c2: "consumer_node_id e \<in> node_ids (snd s2)" using e(2) D1(2) D2(2) by simp
  from operand_edges_total [OF D2(1) c2, of any_edge] obtain cs where
    cs: "operand_edges any_edge (snd s2) (consumer_node_id e) = Inr cs"
    "\<And>x. x \<in> set cs \<Longrightarrow> producer_node_id x \<in> node_ids (snd s2)" by metis
  have "\<exists>t. foldR (copy_operand_edge i) s2
      (filter (\<lambda>e. edge_type e = kAutogradFwdToRecompute) cs) = Inr t \<and> control_only s2 t"
    by (rule control_loop [OF D2(1)], rule copy_operand_edge_total)
      (use cs(2) i D1(2) D2(2) in simp_all)
  then show ?thesis
    using os(1) s1 p s2 cs(1) control_only.after unfolding insert_control_edges_def by (simp, blast)
qed

abbreviation nodes_typed :: "Graph \<Rightarrow> bool" where
  "nodes_typed g \<equiv> \<forall>i n. map_of (nodes_map g) i = Some n \<longrightarrow> node_typed n"

lemma on_graph_update_total:
  assumes wf: "graph_wf (fst st) (snd st)" and n: "map_of (nodes_map (snd st)) i = Some n"
    and f: "f n = Inr m"
    and keep: "\<And>n m. f n = Inr m \<Longrightarrow> node_unique_id m = node_unique_id n \<and> node_name m = node_name n"
  shows "\<exists>t. on_graph (update_node i f) st = Inr t \<and> control_only st t \<and>
     map_of (nodes_map (snd t)) = (map_of (nodes_map (snd st)))(i \<mapsto> m) \<and>
     operands_map (snd t) = operands_map (snd st) \<and> users_map (snd t) = users_map (snd st) \<and>
     edge_to_attr_map (snd t) = edge_to_attr_map (snd st) \<and> fst t = fst st"
proof -
  let ?t = "(fst st, set_node i m (snd st))"
  have r: "on_graph (update_node i f) st = Inr ?t"
    using n f by (cases st) (simp add: on_graph_def update_node_def node_by_id_def)
  show ?thesis
    using on_graph_update_node [OF r wf keep] r by (intro exI [of _ ?t]) (simp add: set_node_def)
qed

lemma as_OpNode_typed: "node_typed n \<Longrightarrow> node_type n = kPyOp \<Longrightarrow> \<exists>p. as_OpNode n = Inr p"
  by (cases "node_cls n") (auto simp: node_typed_def class_type_def cast_defs)

lemma copy_node_attributes_total:
  assumes "node_typed s" "node_typed n"
  shows "\<exists>m. copy_node_attributes s n = Inr m \<and> node_typed m \<and> node_type m = node_type n"
proof (cases "node_type n = kPyOp \<and> node_type s = kPyOp")
  case True
  let ?d = "n\<lparr>epoch_type := epoch_type s, node_output_df := node_output_df s\<rparr>"
  have d: "node_typed ?d" using assms(2) by (simp add: node_typed_def)
  obtain p where p: "as_OpNode s = Inr p" using as_OpNode_typed [OF assms(1)] True by blast
  obtain q where q: "as_OpNode ?d = Inr q" using as_OpNode_typed [OF d] True by auto
  show ?thesis
    using True p q d with_typed(4) [of "\<lambda>q. q\<lparr>gradient_op := True\<rparr>" ?d]
    by (auto simp: copy_node_attributes_def Let_def with_op_def)
next
  case False
  then have "copy_node_attributes s n = Inr (n\<lparr>epoch_type := epoch_type s, node_output_df := node_output_df s\<rparr>)"
    by (simp only: copy_node_attributes_def Let_def if_False simp_thms)
  then show ?thesis using assms(2) by (simp add: node_typed_def)
qed

lemma with_op_keep:
  "with_op f n = Inr m \<Longrightarrow> node_unique_id m = node_unique_id n \<and> node_name m = node_name n"
  by (auto simp: with_op_def result_simps)

lemma copy_node_attributes_keep:
  assumes "copy_node_attributes s n = Inr m"
  shows "node_unique_id m = node_unique_id n \<and> node_name m = node_name n"
proof (cases "node_type n = kPyOp \<and> node_type s = kPyOp")
  case True
  let ?d = "n\<lparr>epoch_type := epoch_type s, node_output_df := node_output_df s\<rparr>"
  obtain p where "as_OpNode s = Inr p"
    "(if gradient_op p then with_op (\<lambda>q. q\<lparr>gradient_op := True\<rparr>) ?d else Inr ?d) = Inr m"
    using assms True unfolding copy_node_attributes_def Let_def
    by (simp only: if_True simp_thms rbind_eq_Inr) blast
  then show ?thesis using with_op_keep [of _ ?d m] by (cases "gradient_op p") auto
next
  case False
  then have "copy_node_attributes s n = Inr (n\<lparr>epoch_type := epoch_type s, node_output_df := node_output_df s\<rparr>)"
    by (simp only: copy_node_attributes_def Let_def if_False simp_thms)
  with assms show ?thesis by auto
qed

lemma copy_node_attrs_total:
  assumes wf: "graph_wf (fst st) (snd st)" and t: "nodes_typed (snd st)"
    and n: "src \<in> node_ids (snd st)" "dst \<in> node_ids (snd st)"
  shows "\<exists>t. copy_node_attrs src dst st = Inr t \<and> control_only st t \<and> nodes_typed (snd t) \<and>
     operands_map (snd t) = operands_map (snd st) \<and> users_map (snd t) = users_map (snd st) \<and>
     edge_to_attr_map (snd t) = edge_to_attr_map (snd st) \<and> fst t = fst st \<and>
     (\<forall>j. j \<noteq> dst \<longrightarrow> map_of (nodes_map (snd t)) j = map_of (nodes_map (snd st)) j)"
proof -
  from n obtain s d where s: "map_of (nodes_map (snd st)) src = Some s"
    and d: "map_of (nodes_map (snd st)) dst = Some d" unfolding in_node_ids by blast
  with t copy_node_attributes_total obtain m where m: "copy_node_attributes s d = Inr m" "node_typed m"
    by blast
  from on_graph_update_total [where f = "copy_node_attributes s", OF wf d m(1), OF copy_node_attributes_keep [where s = s]] obtain u where
    u: "on_graph (update_node dst (copy_node_attributes s)) st = Inr u" "control_only st u"
     "map_of (nodes_map (snd u)) = (map_of (nodes_map (snd st)))(dst \<mapsto> m)"
     "operands_map (snd u) = operands_map (snd st)" "users_map (snd u) = users_map (snd st)"
     "edge_to_attr_map (snd u) = edge_to_attr_map (snd st)" "fst u = fst st" by blast
  have "copy_node_attrs src dst st = Inr u"
    using s u(1) by (cases st) (simp add: copy_node_attrs_def on_graph_def node_by_id_def)
  with u m(2) t show ?thesis by auto
qed


lemma update_op_total:
  assumes wf: "graph_wf (fst st) (snd st)" and t: "nodes_typed (snd st)" and i: "i \<in> node_ids (snd st)"
  shows "\<exists>t. on_graph (update_node i (\<lambda>n. if node_type n = kPyOp then with_op f n else Inr n)) st =
       Inr t \<and> control_only st t \<and> operands_map (snd t) = operands_map (snd st) \<and>
     edge_to_attr_map (snd t) = edge_to_attr_map (snd st) \<and> fst t = fst st \<and>
     (\<forall>j. j \<noteq> i \<longrightarrow> map_of (nodes_map (snd t)) j = map_of (nodes_map (snd st)) j)"
proof -
  let ?f = "\<lambda>n. if node_type n = kPyOp then with_op f n else Inr n"
  from i obtain n where n: "map_of (nodes_map (snd st)) i = Some n" unfolding in_node_ids by blast
  have "\<exists>m. ?f n = Inr m"
    using as_OpNode_typed [of n] t n by (cases "node_type n = kPyOp") (auto simp: with_op_def)
  then obtain m where m: "?f n = Inr m" by blast
  have "node_unique_id m = node_unique_id n \<and> node_name m = node_name n" if "?f n = Inr m" for n m
    using that with_op_keep [of f n m] by (cases "node_type n = kPyOp") auto
  from on_graph_update_total [where f = ?f, OF wf n m, OF this] obtain t where
    "on_graph (update_node i ?f) st = Inr t \<and> control_only st t \<and>
     map_of (nodes_map (snd t)) = (map_of (nodes_map (snd st)))(i \<mapsto> m) \<and>
     operands_map (snd t) = operands_map (snd st) \<and>
     edge_to_attr_map (snd t) = edge_to_attr_map (snd st) \<and> fst t = fst st" by blast
  then show ?thesis by (intro exI [of _ t]) simp
qed

text \<open>Nothing but data goes into the consumer and the producer belongs to the forward epoch.\<close>

definition plain_edge :: "Graph \<Rightarrow> Edge \<Rightarrow> bool" where
  "plain_edge g e \<longleftrightarrow>
     (\<forall>(p, pp, c, cp, ty) \<in> edge_ids g. c = consumer_node_id e \<longrightarrow> ty = kData) \<and>
     (\<forall>n. map_of (nodes_map g) (producer_node_id e) = Some n \<longrightarrow> epoch_type n = Epoch_Forward)"

lemma insert_control_edges_none:
  assumes wf: "graph_wf (fst st) (snd st)" and e: "producer_node_id e \<in> node_ids (snd st)"
    "consumer_node_id e \<in> node_ids (snd st)"
    and p: "plain_edge (snd st) e"
  shows "insert_control_edges e i st = Inr st"
proof -
  obtain os where os: "operand_edges any_edge (snd st) (consumer_node_id e) = Inr os"
    "set os = {x \<in> set (graph_edges (snd st)). consumer_node_id x = consumer_node_id e \<and> True \<and>
       edge_shown (snd st) x}"
    by (rule operand_edges_total [OF wf e(2), of any_edge], erule that, assumption)
  have ty: "edge_type x = kData" if "x \<in> set os" for x
    using that p by (auto simp: os(2) plain_edge_def edge_ids_def unique_id_def)
  have f: "filter is_control_like os = []" "filter (\<lambda>e. edge_type e = kAutogradFwdToRecompute) os = []"
    using ty by (simp_all add: filter_empty_conv is_control_like_def)
  from node_by_id_in [OF e(1)] obtain n where n: "node_by_id (snd st) (producer_node_id e) = Inr n" by blast
  then have "epoch_type n = Epoch_Forward"
    using p by (simp add: plain_edge_def node_by_id_def of_opt_eq_Inr)
  with os(1) f n show ?thesis by (simp add: insert_control_edges_def)
qed

text \<open>Dropping a data edge.\<close>

lemma data_ids_drop:
  "edge_ids h = edge_ids g - {u} \<Longrightarrow> data_ids h = data_ids g - {u}"
  by (auto simp: data_ids_def)

lemma data_ids_two:
  "edge_ids h = edge_ids g \<union> {u, v} \<Longrightarrow> snd (snd (snd (snd u))) = kData \<Longrightarrow>
     snd (snd (snd (snd v))) = kData \<Longrightarrow> data_ids h = data_ids g \<union> {u, v}"
  by (auto simp: data_ids_def)

lemma insert_node_on_edge_effect:
  fixes ci :: PortId
  assumes wf: "graph_wf (fst st) (snd st)" and ty: "nodes_typed (snd st)"
    and e: "e \<in> set (graph_edges (snd st))" "edge_type e = kData"
    and i: "fresh_node (snd st) i" and a: "attr_at st (unique_id e) = Some a"
  defines "u0 \<equiv> (producer_node_id e, producer_output_port_id e, i, ci, kData)"
    and "u1 \<equiv> (i, 0, consumer_node_id e, consumer_input_port_id e, kData)"
  shows "\<exists>t e0 e1 a0 a1.
     insert_node_on_edge inherit True ci place e i st = Inr (t, e0, e1) \<and> keeps st t \<and>
     unique_id e0 = u0 \<and> unique_id e1 = u1 \<and>
     data_ids (snd t) = data_ids (snd st) - {unique_id e} \<union> {u0, u1} \<and>
     attr_at t u0 = Some a0 \<and> attr_at t u1 = Some a1 \<and>
     tms a0 = (if place then [] else tms a) \<and> tms a1 = (if place then tms a else []) \<and>
     (\<forall>u b. u \<noteq> u0 \<longrightarrow> u \<noteq> u1 \<longrightarrow> attr_at st u = Some b \<longrightarrow> attr_at t u = Some b) \<and>
     (\<forall>v. sole st v \<longrightarrow> sole t v) \<and>
     (plain_edge (snd st) e \<longrightarrow> edge_ids (snd t) = edge_ids (snd st) - {unique_id e} \<union> {u0, u1})"
proof -
  note ends = graph_edges_ends(3,4) [OF wf e(1)]
  have N: "i \<in> node_ids (snd st)" using i by (simp add: fresh_node_def)
  let ?src = "if inherit then consumer_node_id e else producer_node_id e"
  have "?src \<in> node_ids (snd st)" using ends by simp
  from copy_node_attrs_total [OF wf ty this N] obtain s1 where
    s1: "copy_node_attrs ?src i st = Inr s1" "control_only st s1" "nodes_typed (snd s1)"
      "operands_map (snd s1) = operands_map (snd st)"
      "edge_to_attr_map (snd s1) = edge_to_attr_map (snd st)" "fst s1 = fst st"
      "\<And>j. j \<noteq> i \<Longrightarrow> map_of (nodes_map (snd s1)) j = map_of (nodes_map (snd st)) j" by blast
  note D1 = control_onlyD [OF s1(2)]
  have "i \<in> node_ids (snd s1)" using N D1(2) by simp
  from update_op_total [OF D1(1) s1(3) this, of "\<lambda>p. p\<lparr>gradient_op := False\<rparr>"] obtain s2 where
    s2: "on_graph (update_node i (\<lambda>n. if node_type n = kPyOp
           then with_op (\<lambda>p. p\<lparr>gradient_op := False\<rparr>) n else Inr n)) s1 = Inr s2" "control_only s1 s2"
      "operands_map (snd s2) = operands_map (snd s1)"
      "edge_to_attr_map (snd s2) = edge_to_attr_map (snd s1)" "fst s2 = fst s1"
      "\<And>j. j \<noteq> i \<Longrightarrow> map_of (nodes_map (snd s2)) j = map_of (nodes_map (snd s1)) j" by blast
  have c2: "control_only st s2" by (rule control_only.after [OF s1(2) s2(2)])
  note D2 = control_onlyD [OF c2]
  have e2: "e \<in> set (graph_edges (snd s2))" "fresh_node (snd s2) i" "attr_at s2 (unique_id e) = Some a"
    "attr_at s2 = attr_at st" "edge_ids (snd s2) = edge_ids (snd st)"
    using e i a D2(2) s1(4-6) s2(3-5)
    by (simp_all add: graph_edges_def fresh_node_def attr_at_def edge_ids_def fun_eq_iff)
  from insert_data_edges_effect [where ci = ci and place = place, OF D2(1) e2(1-3)] obtain s3 e0 e1 a0 a1 where
    s3: "insert_data_edges place ci e i s2 = Inr (s3, e0, e1)" "keeps s2 s3"
      "unique_id e0 = u0" "unique_id e1 = u1" "edge_ids (snd s3) = edge_ids (snd s2) \<union> {u0, u1}"
      "attr_at s3 = (attr_at s2)(u0 \<mapsto> a0, u1 \<mapsto> a1)"
      "tms a0 = (if place then [] else tms a)" "tms a1 = (if place then tms a else [])"
      "\<And>v. sole s2 v \<Longrightarrow> sole s3 v" "nodes_map (snd s3) = nodes_map (snd s2)"
    unfolding u0_def u1_def e(2) by blast
  have k3: "keeps st s3" by (rule keeps.after [OF control_only_keeps [OF c2] s3(2)])
  note W3 = keepsD(1) [OF k3] and N3 = keepsD(2) [OF k3]
  have "producer_node_id e \<in> node_ids (snd s3)" "consumer_node_id e \<in> node_ids (snd s3)"
    "i \<in> node_ids (snd s3)" using ends N N3 by simp_all
  from insert_control_edges_total [OF W3 this] obtain s4 where
    s4: "insert_control_edges e i s3 = Inr s4" "control_only s3 s4" by blast
  note D4 = control_onlyD [OF s4(2)]
  have ne: "unique_id e \<noteq> u0" "unique_id e \<noteq> u1" "u0 \<noteq> u1"
    using fresh_node_ends [OF wf e(1) i] by (auto simp: u0_def u1_def unique_id_def)
  have at4: "attr_at s4 u = Some b" if "attr_at s3 u = Some b" for u b
    by (rule attrs_kept_at [OF _ that]) (use s4(2) in \<open>simp add: control_only_def\<close>)
  have "attr_at s3 (unique_id e) = Some a" using ne a by (simp add: s3(6) e2(4))
  from at4 [OF this] have "attr_at s4 (unique_id e) \<noteq> None" by simp
  moreover have c4: "consumer_node_id e \<in> node_ids (snd s4)" using ends N3 D4(2) by simp
  ultimately obtain t r where t: "drop_edge e s4 = Inr (t, r)" using drop_edge_total [OF D4(1)] by blast
  note E = drop_edge_effect [OF t D4(1) c4]
  have kt: "keeps st t"
    by (rule keeps.after [OF k3 keeps.after [OF control_only_keeps [OF s4(2)] E(1)]])
  have "node_of (snd st) (consumer_node_id e) = Inr (consumer_node_id e)"
    "node_of (snd st) (producer_node_id e) = Inr (producer_node_id e)"
    using ends by (simp_all add: node_of_in)
  then have run: "insert_node_on_edge inherit True ci place e i st = Inr (t, e0, e1)"
    using s1(1) s2(1) s3(1) s4(1) t by (simp add: insert_node_on_edge_def)
  have d3: "data_ids (snd s3) = data_ids (snd s2) \<union> {u0, u1}"
    by (rule data_ids_two [OF s3(5)]) (simp_all add: u0_def u1_def)
  have d: "data_ids (snd t) = data_ids (snd st) - {unique_id e} \<union> {u0, u1}"
    unfolding data_ids_drop [OF E(3)] D4(3) d3 D2(3) using ne by auto
  have at: "attr_at t u0 = Some a0" "attr_at t u1 = Some a1"
    by (rule attrs_kept_at [OF E(2)], rule at4, simp add: s3(6) ne)+
  have rest: "attr_at t u = Some b" if "u \<noteq> u0" "u \<noteq> u1" "attr_at st u = Some b" for u b
    by (rule attrs_kept_at [OF E(2)], rule at4) (use that in \<open>simp add: s3(6) e2(4)\<close>)
  have so: "sole t v" if "sole st v" for v
  proof -
    have "sole s2 v" using that s1(5) s2(4) sole_cong [of s2 st] by simp
    then have "sole s4 v" using s3(9) s4(2) by (simp add: control_only_def)
    then show ?thesis using E(6) sole_cong [of t s4] by simp
  qed
  have quiet: "edge_ids (snd t) = edge_ids (snd st) - {unique_id e} \<union> {u0, u1}"
    if "plain_edge (snd st) e"
  proof -
    have "map_of (nodes_map (snd s3)) (producer_node_id e) =
        map_of (nodes_map (snd st)) (producer_node_id e)"
      using fresh_node_ends(1) [OF wf e(1) i] by (simp add: s3(10) s2(6) s1(7))
    then have "plain_edge (snd s3) e"
      using that fresh_node_ends(2) [OF wf e(1) i] s3(5) e2(5)
      by (auto simp: plain_edge_def u0_def u1_def)
    then have "s4 = s3"
      using insert_control_edges_none [OF W3 \<open>producer_node_id e \<in> node_ids (snd s3)\<close>
          \<open>consumer_node_id e \<in> node_ids (snd s3)\<close>, of i] s4(1) by simp
    then show ?thesis using E(3) s3(5) e2(5) ne by auto
  qed
  show ?thesis
    by (rule exI [of _ t], rule exI [of _ e0], rule exI [of _ e1], rule exI [of _ a0], rule exI [of _ a1],
        intro conjI allI impI) (rule run kt s3(3,4,7,8) d at | erule (2) rest | erule so quiet)+
qed

section \<open>Bypassing a node\<close>

text \<open>An identity whose attributes nobody else uses: it has none, or its own.\<close>

definition free_id :: "GS \<Rightarrow> EdgeUniqueId \<Rightarrow> bool" where
  "free_id st u \<longleftrightarrow> attr_at st u = None \<or> sole st u"

lemma put_edge_old:
  assumes wf: "graph_wf (fst st) (snd st)" and old: "attr_at st (unique_id e) \<noteq> None"
  shows "attr_at (put_edge e st) = attr_at st"
proof
  fix v
  obtain w g where st: "st = (w, g)" by (cases st)
  have lt: "r < length (attr_store w)" if "map_of (edge_to_attr_map g) v = Some r" for r
    using attr_ref [OF wf] that by (simp add: st)
  have m: "map_of (edge_to_attr_map (snd (put_edge e st))) v = map_of (edge_to_attr_map g) v"
    using old by (simp add: put_edge_eq add_edge_attr_eq st map_of_insert attr_at_def)
  show "attr_at (put_edge e st) v = attr_at st v"
    unfolding attr_at_def m using lt
    by (cases "map_of (edge_to_attr_map g) v") (simp_all add: put_edge_eq add_edge_attr_eq st nth_append)
qed

lemma put_edge_free:
  assumes wf: "graph_wf (fst st) (snd st)" and e: "addable e st" and f: "free_id st (unique_id e)"
  obtains c where "attr_at (put_edge e st) = (attr_at st)(unique_id e \<mapsto> c)"
    "sole (put_edge e st) (unique_id e)"
proof (cases "attr_at st (unique_id e)")
  case None
  show ?thesis by (rule that [OF put_edge_at(1,2) [OF wf e None]])
next
  case (Some c)
  have "sole (put_edge e st) (unique_id e)" using put_edge_sole [OF wf] f Some by (simp add: free_id_def)
  moreover have "attr_at (put_edge e st) = (attr_at st)(unique_id e \<mapsto> c)"
    using put_edge_old [OF wf] Some by (simp add: fun_upd_idem)
  ultimately show ?thesis using that by blast
qed

lemma bridge_edge_effect:
  assumes wf: "graph_wf (fst st) (snd st)"
    and ends: "producer_node_id src \<in> node_ids (snd st)" "consumer_node_id user \<in> node_ids (snd st)"
    and f: "free_id st u"
    and u: "u = (producer_node_id src, producer_output_port_id src, consumer_node_id user,
             consumer_input_port_id user, edge_type user)"
  shows "\<exists>t e a. bridge_edge src ts user ua st = Inr (t, e) \<and> unique_id e = u \<and> keeps st t \<and>
     edge_ids (snd t) = insert u (edge_ids (snd st)) \<and> attr_at t = (attr_at st)(u \<mapsto> a) \<and>
     tms a = ts @ tms ua \<and> ublock_order a = ublock_order ua \<and> (\<forall>v. sole st v \<longrightarrow> sole t v) \<and>
     nodes_map (snd t) = nodes_map (snd st)"
proof -
  obtain s e where c: "construct_edge (producer_node_id src) (producer_output_port_id src)
      (consumer_node_id user) (consumer_input_port_id user) (edge_type user) st = (s, e)"
    by (cases "construct_edge (producer_node_id src) (producer_output_port_id src)
      (consumer_node_id user) (consumer_input_port_id user) (edge_type user) st")
  note C = construct_edge_control_only [OF c wf]
  have ue: "unique_id e = u" by (simp add: u C(5))
  have s: "attr_at s = attr_at st" "sole s = sole st" "snd s = snd st"
    using C(2,3) sole_cong [of s st] by (simp_all add: attr_at_def fun_eq_iff)
  note W = control_onlyD(1) [OF C(1)]
  have a: "addable e s" by (rule addable_new [OF c ends])
  have f': "free_id s (unique_id e)" using f by (simp add: ue free_id_def s)
  obtain d where d: "attr_at (put_edge e s) = (attr_at s)(unique_id e \<mapsto> d)"
    "sole (put_edge e s) (unique_id e)" by (rule put_edge_free [OF W a f'])
  note P = put_edge_effect [OF W a]
  have "attr_at (put_edge e s) (unique_id e) = Some d" by (simp add: d(1))
  from update_edge_attr_at [OF keepsD(1) [OF P(1)] d(2) this, of "\<lambda>a. Inr (set_ublock_order
      (ublock_order ua) (set_tms (ts @ tms ua) a))", OF refl]
  obtain t where t: "update_edge_attr (\<lambda>a. Inr (set_ublock_order (ublock_order ua)
      (set_tms (ts @ tms ua) a))) e (put_edge e s) = Inr t" "keeps (put_edge e s) t"
    "snd t = snd (put_edge e s)"
    "attr_at t = (attr_at (put_edge e s))(unique_id e \<mapsto>
       set_ublock_order (ublock_order ua) (set_tms (ts @ tms ua) d))" "sole t = sole (put_edge e s)"
    by blast
  have "bridge_edge src ts user ua st = Inr (t, e)" using t(1) by (simp add: bridge_edge_def c)
  moreover have "keeps st t"
    by (rule keeps.after [OF control_only_keeps [OF C(1)] keeps.after [OF P(1) t(2)]])
  moreover have "sole t v" if "sole st v" for v using that put_edge_sole [OF W] by (simp add: t(5) s(2))
  ultimately show ?thesis
    using P(2,8) by (intro exI [of _ t] exI [of _ e]
        exI [of _ "set_ublock_order (ublock_order ua) (set_tms (ts @ tms ua) d)"])
      (simp add: ue t(3,4) d(1) s set_ublock_order_def set_tms_def)
qed

text \<open>The loop over the users of the node.\<close>

definition bypass_id :: "Edge \<Rightarrow> Edge \<Rightarrow> EdgeUniqueId" where
  "bypass_id src user = (producer_node_id src, producer_output_port_id src, consumer_node_id user,
     consumer_input_port_id user, edge_type user)"

lemma bypass_users_effect:
  assumes "graph_wf (fst st) (snd st)" "producer_node_id src \<in> node_ids (snd st)"
    and "\<And>u. u \<in> set us \<Longrightarrow> consumer_node_id u \<in> node_ids (snd st) \<and>
       attr_at st (unique_id u) = Some (A u) \<and> producer_node_id u \<noteq> producer_node_id src \<and>
       free_id st (bypass_id src u)"
    and "distinct (map (bypass_id src) us)"
  shows "\<exists>t. foldR (bypass_user_edge no_callback src ts) st us = Inr t \<and> keeps st t \<and>
     edge_ids (snd t) = edge_ids (snd st) \<union> bypass_id src ` set us \<and>
     (\<forall>u \<in> set us. \<exists>a. attr_at t (bypass_id src u) = Some a \<and> tms a = ts @ tms (A u) \<and>
        ublock_order a = ublock_order (A u)) \<and>
     (\<forall>v. v \<notin> bypass_id src ` set us \<longrightarrow> attr_at t v = attr_at st v) \<and>
     (\<forall>v. sole st v \<longrightarrow> sole t v) \<and> nodes_map (snd t) = nodes_map (snd st)"
  using assms
proof (induction us arbitrary: st)
  case Nil
  then show ?case by (simp add: keeps_refl)
next
  case (Cons u us)
  have u: "consumer_node_id u \<in> node_ids (snd st)" "attr_at st (unique_id u) = Some (A u)"
    "free_id st (bypass_id src u)" using Cons.prems(3) [of u] by simp_all
  from bridge_edge_effect [where ts = ts and ua = "A u", OF Cons.prems(1,2) u(1,3) bypass_id_def]
  obtain s e a where s: "bridge_edge src ts u (A u) st = Inr (s, e)" "keeps st s"
    "edge_ids (snd s) = insert (bypass_id src u) (edge_ids (snd st))"
    "attr_at s = (attr_at st)(bypass_id src u \<mapsto> a)" "tms a = ts @ tms (A u)"
    "ublock_order a = ublock_order (A u)" "\<And>v. sole st v \<Longrightarrow> sole s v"
    "nodes_map (snd s) = nodes_map (snd st)" by blast
  note W = keepsD(1,2) [OF s(2)]
  have "\<exists>t. foldR (bypass_user_edge no_callback src ts) s us = Inr t \<and> keeps s t \<and>
     edge_ids (snd t) = edge_ids (snd s) \<union> bypass_id src ` set us \<and>
     (\<forall>u \<in> set us. \<exists>a. attr_at t (bypass_id src u) = Some a \<and> tms a = ts @ tms (A u) \<and>
        ublock_order a = ublock_order (A u)) \<and>
     (\<forall>v. v \<notin> bypass_id src ` set us \<longrightarrow> attr_at t v = attr_at s v) \<and>
     (\<forall>v. sole s v \<longrightarrow> sole t v) \<and> nodes_map (snd t) = nodes_map (snd s)"
  proof (rule Cons.IH [OF W(1)])
    show "producer_node_id src \<in> node_ids (snd s)" using Cons.prems(2) W(2) by simp
    show "distinct (map (bypass_id src) us)" using Cons.prems(4) by simp
    fix v assume v: "v \<in> set us"
    have "unique_id v \<noteq> bypass_id src u" "bypass_id src v \<noteq> bypass_id src u"
      using Cons.prems(3) [of v] Cons.prems(4) v by (auto simp: unique_id_def bypass_id_def image_iff)
    then show "consumer_node_id v \<in> node_ids (snd s) \<and> attr_at s (unique_id v) = Some (A v) \<and>
        producer_node_id v \<noteq> producer_node_id src \<and> free_id s (bypass_id src v)"
      using Cons.prems(3) [of v] v W(2) s(7) [of "bypass_id src v"] by (simp add: s(4) free_id_def, blast)
  qed
  then obtain t where t: "foldR (bypass_user_edge no_callback src ts) s us = Inr t" "keeps s t"
     "edge_ids (snd t) = edge_ids (snd s) \<union> bypass_id src ` set us"
     "\<And>u. u \<in> set us \<Longrightarrow> \<exists>a. attr_at t (bypass_id src u) = Some a \<and> tms a = ts @ tms (A u) \<and>
        ublock_order a = ublock_order (A u)"
     "\<And>v. v \<notin> bypass_id src ` set us \<Longrightarrow> attr_at t v = attr_at s v"
     "\<And>v. sole s v \<Longrightarrow> sole t v" "nodes_map (snd t) = nodes_map (snd s)" by blast
  have "edge_attr (fst st) (snd st) u = Inr (A u)" using u(2) edge_attr_at [OF Cons.prems(1)] by blast
  then have "foldR (bypass_user_edge no_callback src ts) st (u # us) = Inr t"
    using s(1) t(1) by (simp add: bypass_user_edge_def no_callback_def)
  moreover have "bypass_id src u \<notin> bypass_id src ` set us" using Cons.prems(4) by simp
  then have "attr_at t (bypass_id src u) = Some a" using t(5) s(4) by simp
  ultimately show ?case
    using keeps.after [OF s(2) t(2)] s(3-) t(3-)
    by (intro exI [of _ t] conjI allI impI ballI) auto
qed


text \<open>The shape and the data format of what a node computes.\<close>

definition result_of :: "Node \<Rightarrow> Shape \<times> DataFormat" where
  "result_of n = (node_shape n, node_output_df n)"

abbreviation results :: "Graph \<Rightarrow> NodeId \<Rightarrow> (Shape \<times> DataFormat) option" where
  "results g i \<equiv> map_option result_of (map_of (nodes_map g) i)"

lemma pass_on_gradient_total:
  assumes wf: "graph_wf (fst st) (snd st)" and i: "i \<in> node_ids (snd st)" "p \<in> node_ids (snd st)"
  shows "\<exists>t. pass_on_gradient i p st = Inr t \<and> control_only st t \<and> results (snd t) = results (snd st) \<and>
     operands_map (snd t) = operands_map (snd st) \<and>
     edge_to_attr_map (snd t) = edge_to_attr_map (snd st) \<and> fst t = fst st"
proof -
  let ?f = "\<lambda>p. Inr (p\<lparr>node_cls := map_op (\<lambda>q. q\<lparr>gradient_op := True\<rparr>) (node_cls p)\<rparr>)"
  from i obtain n m where n: "map_of (nodes_map (snd st)) i = Some n" "map_of (nodes_map (snd st)) p = Some m"
    unfolding in_node_ids by blast
  have "node_unique_id m = node_unique_id n \<and> node_name m = node_name n"
    if "?f n = Inr m" for n m :: Node using that by auto
  from on_graph_update_total [where f = ?f, OF wf n(2) refl, OF this] obtain t where
    t': "on_graph (update_node p ?f) st = Inr t \<and> control_only st t \<and>
     operands_map (snd t) = operands_map (snd st) \<and>
     edge_to_attr_map (snd t) = edge_to_attr_map (snd st) \<and> fst t = fst st"
      "map_of (nodes_map (snd t)) = (map_of (nodes_map (snd st)))
         (p \<mapsto> m\<lparr>node_cls := map_op (\<lambda>q. q\<lparr>gradient_op := True\<rparr>) (node_cls m)\<rparr>)" by blast
  then have "results (snd t) = results (snd st)" using n(2) by (auto simp: fun_eq_iff result_of_def)
  with t'(1) have t: "on_graph (update_node p ?f) st = Inr t \<and> control_only st t \<and> results (snd t) = results (snd st) \<and>
     operands_map (snd t) = operands_map (snd st) \<and>
     edge_to_attr_map (snd t) = edge_to_attr_map (snd st) \<and> fst t = fst st" by blast
  have d: "deref (snd st) i = Inr n" using n(1) by (simp add: deref_def)
  show ?thesis
  proof (cases "case op_part n of Some p \<Rightarrow> gradient_op p | None \<Rightarrow> False")
    case True
    then show ?thesis using t d by (intro exI [of _ t]) (simp add: pass_on_gradient_def)
  next
    case False
    then show ?thesis using control_only_refl [OF wf] d by (simp add: pass_on_gradient_def)
  qed
qed

text \<open>The operand edges and user edges of a node when nothing is hidden, by identity.\<close>

lemma operand_ids:
  assumes wf: "graph_wf w g" and i: "i \<in> node_ids g" and h: "nothing_hidden g"
  shows "\<exists>es. operand_edges f g i = Inr es \<and> distinct (map unique_id es) \<and>
     set es = {e \<in> set (graph_edges g). consumer_node_id e = i \<and> f e}"
proof -
  from opq.query_correct [OF wf i, of f] obtain es where
    "operand_edges f g i = Inr es" "distinct (map unique_id es)"
    "set es = {e \<in> set (graph_edges g). consumer_node_id e = i \<and> f e \<and> edge_shown g e}" .
  then show ?thesis using h by (intro exI [of _ es]) (simp add: edge_shown_def)
qed

lemma user_ids:
  assumes wf: "graph_wf w g" and i: "i \<in> node_ids g" and h: "nothing_hidden g"
  shows "\<exists>es. user_edges f g i = Inr es \<and> distinct (map unique_id es) \<and>
     set es = {e \<in> set (graph_edges g). producer_node_id e = i \<and> f e}"
proof -
  from usq.query_correct [OF wf i, of f] obtain es where
    "user_edges f g i = Inr es" "distinct (map unique_id es)"
    "set es = {e \<in> set (graph_edges g). producer_node_id e = i \<and> f e \<and> edge_shown g e}" .
  then show ?thesis using h by (intro exI [of _ es]) (simp add: edge_shown_def)
qed


lemma sole_operand:
  assumes wf: "graph_wf w g" and i: "i \<in> node_ids g" and h: "nothing_hidden g"
    and u: "{(p, pp, c, cp, ty) \<in> edge_ids g. c = i} = {u}" and d: "snd (snd (snd (snd u))) = kData"
  shows "\<exists>e. operand_data_edges any_edge g i = Inr [e] \<and> operand_edges is_not_data_edge g i = Inr [] \<and>
     unique_id e = u \<and> e \<in> set (graph_edges g)"
proof -
  have ty: "unique_id e = u" if "e \<in> set (graph_edges g)" "consumer_node_id e = i" for e
    using that u by (auto simp: edge_ids_def unique_id_def set_eq_iff)
  then have dat: "edge_type e = kData" if "e \<in> set (graph_edges g)" "consumer_node_id e = i" for e
    using that d by (metis snd_conv unique_id_def)
  from operand_ids [OF wf i h, of "\<lambda>e. True \<and> is_data_edge e"] obtain es where
    es: "operand_edges (\<lambda>e. True \<and> is_data_edge e) g i = Inr es" "distinct (map unique_id es)"
      "set es = {e \<in> set (graph_edges g). consumer_node_id e = i \<and> True \<and> is_data_edge e}" by blast
  from operand_ids [OF wf i h, of is_not_data_edge] obtain fs where
    fs: "operand_edges is_not_data_edge g i = Inr fs"
      "set fs = {e \<in> set (graph_edges g). consumer_node_id e = i \<and> is_not_data_edge e}" by blast
  have "fs = []" using dat by (auto simp: set_empty [symmetric] fs(2) is_not_data_edge_def simp del: set_empty)
  have "u \<in> {(p, pp, c, cp, ty) \<in> edge_ids g. c = i}" unfolding u by simp
  then obtain e where e: "e \<in> set (graph_edges g)" "consumer_node_id e = i"
    by (auto simp: edge_ids_def unique_id_def)
  then have "e \<in> set es" using dat [OF e] by (simp add: es(3) is_data_edge_def)
  moreover have "set (map unique_id es) = {u}"
    using ty \<open>e \<in> set es\<close> by (auto simp: es(3))
  ultimately have "length (map unique_id es) = 1"
    using es(2) by (metis distinct_card card_1_singleton_iff One_nat_def)
  then obtain e' where "es = [e']" by (cases es) (auto simp: length_Suc_conv)
  with \<open>e \<in> set es\<close> have "es = [e]" by simp
  with es(1) fs(1) \<open>fs = []\<close> ty [OF e] e(1) show ?thesis
    by (intro exI [of _ e]) (simp add: operand_data_edges_def)
qed

lemma no_control_users:
  assumes wf: "graph_wf w g" and i: "i \<in> node_ids g" and h: "nothing_hidden g"
    and u: "\<And>p pp c cp ty. (p, pp, c, cp, ty) \<in> edge_ids g \<Longrightarrow> p = i \<Longrightarrow> ty = kData"
  shows "user_edges is_not_data_edge g i = Inr []"
proof -
  from user_ids [OF wf i h, of is_not_data_edge] obtain fs where
    fs: "user_edges is_not_data_edge g i = Inr fs"
      "set fs = {e \<in> set (graph_edges g). producer_node_id e = i \<and> is_not_data_edge e}" by blast
  have "edge_type e = kData" if "e \<in> set (graph_edges g)" "producer_node_id e = i" for e
    using u [of "producer_node_id e" "producer_output_port_id e" "consumer_node_id e"
      "consumer_input_port_id e" "edge_type e"] that by (auto simp: edge_ids_def unique_id_def)
  then have "fs = []" by (auto simp: set_empty [symmetric] fs(2) is_not_data_edge_def simp del: set_empty)
  with fs(1) show ?thesis by simp
qed


lemma handle_control_edges_none:
  assumes wf: "graph_wf (fst st) (snd st)" and i: "i \<in> node_ids (snd st)"
    and h: "nothing_hidden (snd st)"
    and u: "{(p, pp, c, cp, ty) \<in> edge_ids (snd st). c = i} = {u}" "snd (snd (snd (snd u))) = kData"
    and v: "\<And>p pp c cp ty. (p, pp, c, cp, ty) \<in> edge_ids (snd st) \<Longrightarrow> p = i \<Longrightarrow> ty = kData"
  shows "handle_control_edges_when_removing_node i st = Inr st"
proof -
  from sole_operand [OF wf i h u] obtain e where
    e: "operand_data_edges any_edge (snd st) i = Inr [e]" "operand_edges is_not_data_edge (snd st) i = Inr []"
      "e \<in> set (graph_edges (snd st))" by blast
  have n: "node_of (snd st) (producer_node_id e) = Inr (producer_node_id e)"
    by (rule node_of_in [OF graph_edges_ends(4) [OF wf e(3)]])
  from i obtain n where "map_of (nodes_map (snd st)) i = Some n" unfolding in_node_ids by blast
  then have "deref (snd st) i = Inr n" by (simp add: deref_def)
  with e n no_control_users [OF wf i h v] show ?thesis
    by (simp add: handle_control_edges_when_removing_node_def)
qed

text \<open>The identities of the edges past node \<open>i\<close>.\<close>

definition around :: "Graph \<Rightarrow> NodeId \<Rightarrow> EdgeUniqueId \<Rightarrow> EdgeUniqueId set" where
  "around g i u = {(fst u, fst (snd u), c, cp, ty) | q c cp ty. (i, q, c, cp, ty) \<in> edge_ids g}"

text \<open>What it takes to bypass: one data operand from another node, data users only, one edge per
  input port of a user, and no attribute object shared with the edges to come.\<close>

definition bypassable :: "GS \<Rightarrow> NodeId \<Rightarrow> EdgeUniqueId \<Rightarrow> bool" where
  "bypassable st i u \<longleftrightarrow> nothing_hidden (snd st) \<and> i \<in> node_ids (snd st) \<and>
     {(p, pp, c, cp, ty) \<in> edge_ids (snd st). c = i} = {u} \<and> snd (snd (snd (snd u))) = kData \<and>
     fst u \<noteq> i \<and>
     (\<forall>pp c cp ty. (i, pp, c, cp, ty) \<in> edge_ids (snd st) \<longrightarrow> ty = kData) \<and>
     (\<forall>pp pp' c cp ty ty'. (i, pp, c, cp, ty) \<in> edge_ids (snd st) \<longrightarrow>
        (i, pp', c, cp, ty') \<in> edge_ids (snd st) \<longrightarrow> pp = pp') \<and>
     (\<forall>v \<in> around (snd st) i u. free_id st v)"

lemma bypass_node_effect:
  assumes wf: "graph_wf (fst st) (snd st)" and b: "bypassable st i u"
    and a: "attr_at st u = Some sa"
  shows "\<exists>t n. bypass_node no_callback i True st = Inr (t, Some n) \<and> graph_wf (fst t) (snd t) \<and>
     node_ids (snd t) = node_ids (snd st) - {i} \<and>
     edge_ids (snd t) =
       {(p, pp, c, cp, ty) \<in> edge_ids (snd st). p \<noteq> i \<and> c \<noteq> i} \<union> around (snd st) i u \<and>
     (\<forall>q c cp ty. (i, q, c, cp, ty) \<in> edge_ids (snd st) \<longrightarrow>
        (\<exists>x y. attr_at st (i, q, c, cp, ty) = Some x \<and>
           attr_at t (fst u, fst (snd u), c, cp, ty) = Some y \<and> tms y = tms sa @ tms x \<and>
           ublock_order y = ublock_order x)) \<and>
     (\<forall>v. v \<notin> around (snd st) i u \<longrightarrow> attr_at t v = attr_at st v) \<and>
     (\<forall>k. k \<noteq> i \<longrightarrow> results (snd t) k = results (snd st) k)"
proof -
  have B: "nothing_hidden (snd st)" "i \<in> node_ids (snd st)"
    "{(p, pp, c, cp, ty) \<in> edge_ids (snd st). c = i} = {u}" "snd (snd (snd (snd u))) = kData" "fst u \<noteq> i"
    "\<And>p pp c cp ty. (p, pp, c, cp, ty) \<in> edge_ids (snd st) \<Longrightarrow> p = i \<Longrightarrow> ty = kData"
    "\<And>pp c cp ty pp' ty'. (i, pp, c, cp, ty) \<in> edge_ids (snd st) \<Longrightarrow>
       (i, pp', c, cp, ty') \<in> edge_ids (snd st) \<Longrightarrow> pp = pp'"
    "\<And>v. v \<in> around (snd st) i u \<Longrightarrow> free_id st v"
    using b by (simp_all only: bypassable_def, blast+)
  from sole_operand [OF wf B(2,1,3,4)] obtain src where
    src: "operand_data_edges any_edge (snd st) i = Inr [src]" "unique_id src = u"
      "src \<in> set (graph_edges (snd st))" by blast
  have su: "u = (producer_node_id src, producer_output_port_id src, i, consumer_input_port_id src, kData)"
  proof -
    have "u \<in> {(p, pp, c, cp, ty) \<in> edge_ids (snd st). c = i}" unfolding B(3) by simp
    then show ?thesis using src(2) B(4) by (auto simp: unique_id_def)
  qed
  note srcN = graph_edges_ends(4) [OF wf src(3)]
  from user_ids [OF wf B(2,1), of "\<lambda>e. True \<and> is_data_edge e"] obtain us where
    us: "user_edges (\<lambda>e. True \<and> is_data_edge e) (snd st) i = Inr us" "distinct (map unique_id us)"
      "set us = {e \<in> set (graph_edges (snd st)). producer_node_id e = i \<and> True \<and> is_data_edge e}" by blast
  have uid: "(i, producer_output_port_id e, consumer_node_id e, consumer_input_port_id e, edge_type e)
      \<in> edge_ids (snd st)" "edge_type e = kData" if "e \<in> set us" for e
  proof -
    have g: "e \<in> set (graph_edges (snd st))" "producer_node_id e = i" using that by (simp_all add: us(3))
    have "unique_id e \<in> edge_ids (snd st)" using g(1) by (simp add: edge_ids_def)
    then show *: "(i, producer_output_port_id e, consumer_node_id e, consumer_input_port_id e, edge_type e)
      \<in> edge_ids (snd st)" by (simp add: unique_id_def g(2))
    show "edge_type e = kData" by (rule B(6) [OF * refl])
  qed
  have im: "bypass_id src ` set us = around (snd st) i u"
  proof -
    have "bypass_id src e \<in> around (snd st) i u" if "e \<in> set us" for e
      using uid(1) [OF that] by (auto simp: around_def bypass_id_def su)
    moreover have "v \<in> bypass_id src ` set us" if "v \<in> around (snd st) i u" for v
    proof -
      from that obtain q c cp ty where v: "v = (fst u, fst (snd u), c, cp, ty)"
        "(i, q, c, cp, ty) \<in> edge_ids (snd st)" by (auto simp: around_def)
      then obtain e where e: "e \<in> set (graph_edges (snd st))" "unique_id e = (i, q, c, cp, ty)"
        by (auto simp: edge_ids_def)
      then have "e \<in> set us" using B(6) [OF v(2) refl] by (simp add: us(3) unique_id_def is_data_edge_def)
      moreover have "bypass_id src e = v" using e(2) by (simp add: v bypass_id_def su unique_id_def)
      ultimately show ?thesis by blast
    qed
    ultimately show ?thesis by blast
  qed
  have dist: "distinct (map (bypass_id src) us)"
  proof -
    have "unique_id e = unique_id f"
      if ef: "e \<in> set us" "f \<in> set us" "bypass_id src e = bypass_id src f" for e f
    proof -
      have eq: "consumer_node_id f = consumer_node_id e" "edge_type f = edge_type e"
        "consumer_input_port_id f = consumer_input_port_id e" using ef(3) by (simp_all add: bypass_id_def)
      have "producer_node_id e = i" "producer_node_id f = i" using ef(1,2) by (simp_all add: us(3))
      moreover have "producer_output_port_id e = producer_output_port_id f"
        by (rule B(7) [OF uid(1) [OF ef(1)] uid(1) [OF ef(2), unfolded eq]])
      ultimately show ?thesis by (simp add: unique_id_def eq)
    qed
    then have "inj_on (bypass_id src) (set us)" using us(2) unfolding distinct_map inj_on_def by blast
    then show ?thesis using us(2) by (simp add: distinct_map)
  qed
  define A where "A e = the (attr_at st (unique_id e))" for e
  have "\<exists>t. foldR (bypass_user_edge no_callback src (tms sa)) st us = Inr t \<and> keeps st t \<and>
     edge_ids (snd t) = edge_ids (snd st) \<union> bypass_id src ` set us \<and>
     (\<forall>u \<in> set us. \<exists>a. attr_at t (bypass_id src u) = Some a \<and> tms a = tms sa @ tms (A u) \<and>
        ublock_order a = ublock_order (A u)) \<and>
     (\<forall>v. v \<notin> bypass_id src ` set us \<longrightarrow> attr_at t v = attr_at st v) \<and>
     (\<forall>v. sole st v \<longrightarrow> sole t v) \<and> nodes_map (snd t) = nodes_map (snd st)"
  proof (rule bypass_users_effect [OF wf srcN _ dist])
    fix e assume e: "e \<in> set us"
    then have g: "e \<in> set (graph_edges (snd st))" "producer_node_id e = i" by (simp_all add: us(3))
    have "bypass_id src e \<in> around (snd st) i u" using im e by blast
    then show "consumer_node_id e \<in> node_ids (snd st) \<and> attr_at st (unique_id e) = Some (A e) \<and>
       producer_node_id e \<noteq> producer_node_id src \<and> free_id st (bypass_id src e)"
      using graph_edges_ends(3) [OF wf g(1)] edge_attr_some [OF wf g(1)] g(2) B(5,8)
      by (auto simp: A_def su)
  qed
  then obtain s1 where s1: "foldR (bypass_user_edge no_callback src (tms sa)) st us = Inr s1" "keeps st s1"
     "edge_ids (snd s1) = edge_ids (snd st) \<union> around (snd st) i u"
     "\<And>e. e \<in> set us \<Longrightarrow> \<exists>a. attr_at s1 (bypass_id src e) = Some a \<and> tms a = tms sa @ tms (A e) \<and>
        ublock_order a = ublock_order (A e)"
     "\<And>v. v \<notin> around (snd st) i u \<Longrightarrow> attr_at s1 v = attr_at st v" "nodes_map (snd s1) = nodes_map (snd st)"
    unfolding im
    by (elim exE conjE) (rule that, assumption+, erule bspec, assumption, erule allE, erule mp, assumption, assumption)
  note K1 = keepsD [OF s1(2)]
  have i1: "i \<in> node_ids (snd s1)" and h1: "nothing_hidden (snd s1)" using B(1,2) K1 by simp_all
  have noself: "(i, q, i, cp, ty) \<notin> edge_ids (snd st)" for q cp ty 
  proof
    assume "(i, q, i, cp, ty) \<in> edge_ids (snd st)"
    then have "(i, q, i, cp, ty) \<in> {(p, pp, c, cp, ty) \<in> edge_ids (snd st). c = i}" by simp
    then show False unfolding B(3) using B(5) by auto
  qed
  have o1: "{(p, pp, c, cp, ty) \<in> edge_ids (snd s1). c = i} = {u}"
    unfolding s1(3) B(3) [symmetric] using noself by (auto simp: around_def)
  have v1: "ty = kData" if "(p, pp, c, cp, ty) \<in> edge_ids (snd s1)" "p = i" for p pp c cp ty
    using that B(5,6) unfolding s1(3) by (auto simp: around_def)
  have hc: "handle_control_edges_when_removing_node i s1 = Inr s1"
    by (rule handle_control_edges_none [OF K1(1) i1 h1 o1 B(4) v1])
  have "producer_node_id src \<in> node_ids (snd s1)" using srcN K1(2) by simp
  from pass_on_gradient_total [OF K1(1) i1 this] obtain s2 where
    s2: "pass_on_gradient i (producer_node_id src) s1 = Inr s2" "control_only s1 s2" "results (snd s2) = results (snd s1)"
     "operands_map (snd s2) = operands_map (snd s1)"
     "edge_to_attr_map (snd s2) = edge_to_attr_map (snd s1)" "fst s2 = fst s1" by blast
  note K2 = control_onlyD [OF s2(2)]
  have "i \<in> node_ids (snd s2)" using i1 K2(2) by simp
  then obtain n where n: "map_of (nodes_map (snd s2)) i = Some n" unfolding in_node_ids by blast
  have "\<exists>t n. drop_node i s2 = Inr (t, n)"
    using n by (cases s2) (simp add: drop_node_def remove_node_def Let_def)
  then obtain t n where t: "drop_node i s2 = Inr (t, n)" by blast
  note T = drop_node_effect [OF t K2(1)]
  have tm: "edge_tms st src = Inr (tms sa)" using edge_tms_at [OF wf] a src(2) by simp
  have run: "bypass_node no_callback i True st = Inr (t, Some n)"
    unfolding bypass_node_def using src(1) tm us(1) s1(1) hc s2(1) t
    by (simp add: user_data_edges_def)
  have e2: "edge_ids (snd s2) = edge_ids (snd s1)" using s2(4) by (simp add: edge_ids_def graph_edges_def)
  have at: "attr_at t = attr_at s1"
    using T(2,5) s2(5,6) by (simp add: attr_at_def fun_eq_iff)
  have 1: "edge_ids (snd t) =
      {(p, pp, c, cp, ty) \<in> edge_ids (snd st). p \<noteq> i \<and> c \<noteq> i} \<union> around (snd st) i u"
    unfolding T(4) e2 s1(3) using B(5) noself by (auto simp: around_def)
  have 2: "\<exists>x y. attr_at st (i, q, c, cp, ty) = Some x \<and>
           attr_at t (fst u, fst (snd u), c, cp, ty) = Some y \<and> tms y = tms sa @ tms x \<and>
           ublock_order y = ublock_order x"
    if e: "(i, q, c, cp, ty) \<in> edge_ids (snd st)" for q c cp ty
  proof -
    from e obtain e where e': "e \<in> set (graph_edges (snd st))" "unique_id e = (i, q, c, cp, ty)"
      by (auto simp: edge_ids_def)
    then have "e \<in> set us" using B(6) [OF e refl] by (simp add: us(3) unique_id_def is_data_edge_def)
    moreover have "bypass_id src e = (fst u, fst (snd u), c, cp, ty)"
      using e'(2) by (simp add: bypass_id_def su unique_id_def)
    moreover have "attr_at st (i, q, c, cp, ty) = Some (A e)"
      using edge_attr_some [OF wf e'(1)] by (auto simp: A_def e'(2))
    ultimately show ?thesis using s1(4) [of e] by (auto simp: at)
  qed
  have 3: "node_ids (snd t) = node_ids (snd st) - {i}" using T(3) K2(2) K1(2) by simp
  obtain g' where "remove_node i (snd s2) = Inr (g', n)" "snd t = g'"
    using t by (cases s2) (auto simp: drop_node_def result_simps)
  then have 4: "results (snd t) k = results (snd st) k" if "k \<noteq> i" for k
    using remove_nodeD(4) [of i "snd s2" g' n] that fun_cong [OF s2(3), of k] s1(6) by simp
  show ?thesis
    by (rule exI [of _ t], rule exI [of _ n], intro conjI allI impI)
      (rule run T(1) 1 3 | erule 2 | erule 4 | simp add: at s1(5))+
qed

section \<open>The properties\<close>

text \<open>C38: inserting a fresh node on a data edge always succeeds on a well-formed graph. The edge
  gives way to one into the node and one out of it; no other data edge and no node comes or goes;
  the TMs of the edge end up on exactly one of the two, the one asked for.\<close>

theorem insert_node_on_edge_correct:
  assumes "graph_wf w g" "\<forall>i n. map_of (nodes_map g) i = Some n \<longrightarrow> node_typed n"
    and "e \<in> set (graph_edges g)" "edge_type e = kData" "fresh_node g i"
  shows "\<exists>w' g' e0 e1 ts.
     insert_node_on_edge inherit True ci place e i (w, g) = Inr ((w', g'), e0, e1) \<and>
     graph_wf w' g' \<and> node_ids g' = node_ids g \<and>
     unique_id e0 = (producer_node_id e, producer_output_port_id e, i, ci, kData) \<and>
     unique_id e1 = (i, 0, consumer_node_id e, consumer_input_port_id e, kData) \<and>
     data_ids g' = data_ids g - {unique_id e} \<union> {unique_id e0, unique_id e1} \<and>
     edge_tms (w, g) e = Inr ts \<and>
     edge_tms (w', g') e0 = Inr (if place then [] else ts) \<and>
     edge_tms (w', g') e1 = Inr (if place then ts else [])"
proof -
  have wf: "graph_wf (fst (w, g)) (snd (w, g))" using assms(1) by simp
  have e: "e \<in> set (graph_edges (snd (w, g)))" using assms(3) by simp
  obtain a where a: "attr_at (w, g) (unique_id e) = Some a" using edge_has_attr [OF wf e] .
  from insert_node_on_edge_effect [where ci = ci and place = place and inherit = inherit,
      OF wf _ e assms(4) _ a, of i] assms(2,5) obtain t e0 e1 a0 a1 where
    t: "insert_node_on_edge inherit True ci place e i (w, g) = Inr (t, e0, e1)" "keeps (w, g) t"
     "unique_id e0 = (producer_node_id e, producer_output_port_id e, i, ci, kData)"
     "unique_id e1 = (i, 0, consumer_node_id e, consumer_input_port_id e, kData)"
     "data_ids (snd t) = data_ids g - {unique_id e} \<union> {unique_id e0, unique_id e1}"
     "attr_at t (unique_id e0) = Some a0" "attr_at t (unique_id e1) = Some a1"
     "tms a0 = (if place then [] else tms a)" "tms a1 = (if place then tms a else [])"
    by (simp, metis)
  obtain w' g' where w': "t = (w', g')" by (cases t)
  note K = keepsD [OF t(2)]
  show ?thesis
    using t K(1,2) edge_tms_at [OF wf a] edge_tms_at [OF K(1) t(6)] edge_tms_at [OF K(1) t(7)]
    by (intro exI [of _ w'] exI [of _ g'] exI [of _ e0] exI [of _ e1] exI [of _ "tms a"]) (simp add: w')
qed

text \<open>C39: bypassing succeeds for a node with one data operand, another node, and no other operand, only data users, one
  edge per input port of a user, nothing of the graph hidden and no attribute object shared with the ids of
  the edges to come; control and autograd edges are not covered. The node goes with its edges, every user is fed by the node's source under the
  TMs of both edges in a row, and every other edge keeps its attributes.\<close>

theorem bypass_node_correct:
  assumes "graph_wf w g" "bypassable (w, g) i u" "attr_at (w, g) u = Some a"
  shows "\<exists>w' g' n. bypass_node no_callback i True (w, g) = Inr ((w', g'), Some n) \<and> graph_wf w' g' \<and>
     node_ids g' = node_ids g - {i} \<and>
     edge_ids g' = {(p, pp, c, cp, ty) \<in> edge_ids g. p \<noteq> i \<and> c \<noteq> i} \<union>
       {(fst u, fst (snd u), c, cp, ty) | q c cp ty. (i, q, c, cp, ty) \<in> edge_ids g} \<and>
     (\<forall>q c cp ty. (i, q, c, cp, ty) \<in> edge_ids g \<longrightarrow>
        (\<exists>x y. attr_at (w, g) (i, q, c, cp, ty) = Some x \<and>
           attr_at (w', g') (fst u, fst (snd u), c, cp, ty) = Some y \<and> tms y = tms a @ tms x \<and>
           ublock_order y = ublock_order x)) \<and>
     (\<forall>v. v \<notin> around g i u \<longrightarrow> attr_at (w', g') v = attr_at (w, g) v)"
proof -
  have wf: "graph_wf (fst (w, g)) (snd (w, g))" using assms(1) by simp
  from bypass_node_effect [OF wf assms(2,3)] obtain t n where
    t: "bypass_node no_callback i True (w, g) = Inr (t, Some n)" "graph_wf (fst t) (snd t)"
     "node_ids (snd t) = node_ids g - {i}"
     "edge_ids (snd t) = {(p, pp, c, cp, ty) \<in> edge_ids g. p \<noteq> i \<and> c \<noteq> i} \<union> around g i u"
     "\<forall>q c cp ty. (i, q, c, cp, ty) \<in> edge_ids g \<longrightarrow>
        (\<exists>x y. attr_at (w, g) (i, q, c, cp, ty) = Some x \<and>
           attr_at t (fst u, fst (snd u), c, cp, ty) = Some y \<and> tms y = tms a @ tms x \<and>
           ublock_order y = ublock_order x)"
     "\<forall>v. v \<notin> around g i u \<longrightarrow> attr_at t v = attr_at (w, g) v" unfolding snd_conv fst_conv by blast
  obtain w' g' where w': "t = (w', g')" by (cases t)
  show ?thesis
    by (rule exI [of _ w'], rule exI [of _ g'], rule exI [of _ n])
      (intro conjI; rule t [unfolded w' fst_conv snd_conv around_def] t(6) [unfolded w'])
qed

text \<open>What the insertion leaves around the new node is what the bypass asks for.\<close>

lemma bypassable_after_insertion:
  fixes i :: NodeId and ci :: PortId
  defines "u0 \<equiv> \<lambda>e. (producer_node_id e, producer_output_port_id e, i, ci, kData)"
    and "u1 \<equiv> \<lambda>e. (i, 0 :: PortId, consumer_node_id e, consumer_input_port_id e, kData)"
  assumes "graph_wf w g" "nothing_hidden g" "e \<in> set (graph_edges g)" "edge_type e = kData"
    and i: "fresh_node g i" and k: "keeps (w, g) t" and so: "sole t (unique_id e)"
    and ids: "edge_ids (snd t) = edge_ids g - {unique_id e} \<union> {u0 e, u1 e}"
  shows "bypassable t i (u0 e)" "u1 e \<in> edge_ids (snd t)"
    "{(p, pp, c, cp, ty) \<in> edge_ids (snd t). p \<noteq> i \<and> c \<noteq> i} \<union> around (snd t) i (u0 e) = edge_ids g"
proof -
  have wf: "graph_wf (fst (w, g)) (snd (w, g))" "e \<in> set (graph_edges (snd (w, g)))" using assms by simp_all
  note K = keepsD [OF k]
  have ends: "producer_node_id x \<noteq> i \<and> consumer_node_id x \<noteq> i" if "x \<in> set (graph_edges g)" for x
    using fresh_node_ends [OF wf(1), unfolded snd_conv, OF that i] by blast
  have ue: "unique_id e = (producer_node_id e, producer_output_port_id e, consumer_node_id e,
      consumer_input_port_id e, kData)" by (simp add: unique_id_def assms(6))
  have none: "(i, q, c, cp, ty) \<notin> edge_ids g" "(p, q, i, cp, ty) \<notin> edge_ids g" for p q c cp ty
    using ends unfolding edge_ids_def by (auto simp: unique_id_def)
  have ar: "around (snd t) i (u0 e) = {unique_id e}"
    unfolding around_def ids ue using none ends [OF assms(5)] by (auto simp: u0_def u1_def)
  have "{(p, pp, c, cp, ty) \<in> edge_ids (snd t). c = i} = {u0 e}"
    unfolding ids using none ends [OF assms(5)] by (auto simp: u0_def u1_def)
  moreover have "i \<in> node_ids (snd t)" using i K(2) by (simp add: fresh_node_def)
  moreover have "free_id t (unique_id e)" using so by (simp add: free_id_def)
  ultimately show "bypassable t i (u0 e)"
    unfolding bypassable_def ar using K(3) assms(4) ends [OF assms(5)] none
    by (auto simp: ids u0_def u1_def)
  show "u1 e \<in> edge_ids (snd t)" by (simp add: ids)
  have "unique_id e \<in> edge_ids g" using assms(5) by (simp add: edge_ids_def)
  then show "{(p, pp, c, cp, ty) \<in> edge_ids (snd t). p \<noteq> i \<and> c \<noteq> i} \<union> around (snd t) i (u0 e) = edge_ids g"
    unfolding ar ids using none by (auto simp: u0_def u1_def)
qed

text \<open>C40: a fresh node inserted on a data edge and bypassed again leaves the graph as it was: the same nodes
  but the inserted one, the same edges, and the same TMs on the edge. The edge is plain: its consumer has
  only data operands and its producer belongs to the forward epoch; its attribute object is its own and
  nothing of the graph is hidden. With control operands the insertion copies edges that stay.\<close>

theorem insert_bypass_roundtrip:
  assumes "graph_wf w g" "\<forall>i n. map_of (nodes_map g) i = Some n \<longrightarrow> node_typed n" "nothing_hidden g"
    and "e \<in> set (graph_edges g)" "edge_type e = kData" "fresh_node g i"
    and "plain_edge g e" "sole (w, g) (unique_id e)"
  shows "\<exists>t e0 e1 w' g' n ts. insert_node_on_edge inherit True ci place e i (w, g) = Inr (t, e0, e1) \<and>
     bypass_node no_callback i True t = Inr ((w', g'), Some n) \<and> graph_wf w' g' \<and>
     node_ids g' = node_ids g - {i} \<and> edge_ids g' = edge_ids g \<and>
     edge_tms (w, g) e = Inr ts \<and> edge_tms (w', g') e = Inr ts"
proof -
  have wf: "graph_wf (fst (w, g)) (snd (w, g))" "e \<in> set (graph_edges (snd (w, g)))" using assms by simp_all
  obtain a where a: "attr_at (w, g) (unique_id e) = Some a" using edge_has_attr [OF wf] .
  define u0 where "u0 = (producer_node_id e, producer_output_port_id e, i, ci, kData)"
  define u1 :: EdgeUniqueId where "u1 = (i, 0, consumer_node_id e, consumer_input_port_id e, kData)"
  from insert_node_on_edge_effect [where ci = ci and place = place and inherit = inherit,
      OF wf(1) _ wf(2) assms(5) _ a, of i] assms(2,6,7) obtain t e0 e1 a0 a1 where
    t: "insert_node_on_edge inherit True ci place e i (w, g) = Inr (t, e0, e1)" "keeps (w, g) t"
     "attr_at t u0 = Some a0" "attr_at t u1 = Some a1"
     "tms a0 = (if place then [] else tms a)" "tms a1 = (if place then tms a else [])"
     "\<And>v. sole (w, g) v \<Longrightarrow> sole t v" "edge_ids (snd t) = edge_ids g - {unique_id e} \<union> {u0, u1}"
    unfolding u0_def u1_def by (simp, metis)
  note B = bypassable_after_insertion [of w g e i t ci, folded u0_def u1_def,
      OF assms(1,3-6) t(2) t(7) [OF assms(8)] t(8)]
  from bypass_node_effect [OF keepsD(1) [OF t(2)] B(1) t(3)] B(2) obtain s n where
    s: "bypass_node no_callback i True t = Inr (s, Some n)" "graph_wf (fst s) (snd s)"
     "node_ids (snd s) = node_ids (snd t) - {i}"
     "edge_ids (snd s) = {(p, pp, c, cp, ty) \<in> edge_ids (snd t). p \<noteq> i \<and> c \<noteq> i} \<union> around (snd t) i u0"
     "\<exists>x y. attr_at t u1 = Some x \<and>
        attr_at s (fst u0, fst (snd u0), consumer_node_id e, consumer_input_port_id e, kData) = Some y \<and>
        tms y = tms a0 @ tms x" unfolding u1_def by blast
  from s(5) obtain y where y: "attr_at s (unique_id e) = Some y" "tms y = tms a"
    using t(4-6) by (auto simp: unique_id_def assms(5) u0_def split: if_splits)
  then show ?thesis
    using t(1) s(1-4) B(3) keepsD(2) [OF t(2)] edge_tms_at [OF wf(1) a] edge_tms_at [OF s(2) y(1)]
    by (intro exI [of _ t] exI [of _ e0] exI [of _ e1] exI [of _ "fst s"] exI [of _ "snd s"]
        exI [of _ n] exI [of _ "tms a"]) simp
qed

section \<open>An example: a node between the input and the op\<close>

definition example_state :: GS where
  "example_state = (case add_node (mk_PyOpNode ''nop'' example_relu) 0 None example_w example_g of
     Inl _ \<Rightarrow> (example_w, example_g) | Inr (w, g, _) \<Rightarrow> (w, g))"

definition example_edge :: Edge where
  "example_edge = hd (graph_edges example_g)"

lemma example_state_facts:
  "graph_wf (fst example_state) (snd example_state)"
  "map_of (nodes_map (snd example_state)) i = Some n \<Longrightarrow> node_typed n"
  "example_edge \<in> set (graph_edges (snd example_state))" "edge_type example_edge = kData"
  "fresh_node (snd example_state) 4" "nothing_hidden (snd example_state)"
  "plain_edge (snd example_state) example_edge"
proof -
  have "case add_node (mk_PyOpNode ''nop'' example_relu) 0 None example_w example_g of
      Inl _ \<Rightarrow> False | Inr (_, _, i) \<Rightarrow> i = 4" by code_simp
  then obtain w g where r: "add_node (mk_PyOpNode ''nop'' example_relu) 0 None example_w example_g =
      Inr (w, g, 4)" by (auto split: sum.splits prod.splits)
  then have st: "example_state = (w, g)" by (simp add: example_state_def)
  show "graph_wf (fst example_state) (snd example_state)"
    using add_node_wf [OF example_wf r] by (simp add: st)
  have "list_all (\<lambda>n. node_typed n) (map snd (nodes_map (snd example_state)))" by code_simp
  then show "map_of (nodes_map (snd example_state)) i = Some n \<Longrightarrow> node_typed n"
    by (force simp: list_all_iff dest: map_of_SomeD)
  show "example_edge \<in> set (graph_edges (snd example_state))" "edge_type example_edge = kData"
    "fresh_node (snd example_state) 4" "nothing_hidden (snd example_state)" by code_simp+
  have "map_option epoch_type (map_of (nodes_map (snd example_state)) (producer_node_id example_edge)) =
      Some Epoch_Forward"
    "\<forall>(p, pp, c, cp, ty) \<in> edge_ids (snd example_state). ty = kData" by code_simp+
  then show "plain_edge (snd example_state) example_edge"
    by (auto simp: plain_edge_def)
qed


lemma sole_distinct:
  assumes "distinct (map snd (edge_to_attr_map (snd st)))" "attr_at st u \<noteq> None"
  shows "sole st u"
proof -
  from assms(2) obtain r where r: "map_of (edge_to_attr_map (snd st)) u = Some r"
    by (cases "map_of (edge_to_attr_map (snd st)) u") (simp_all add: attr_at_def)
  have "v = u" if "map_of (edge_to_attr_map (snd st)) v = Some r" for v
    using map_of_SomeD [OF that] map_of_SomeD [OF r] assms(1)
    by (metis distinct_map inj_onD prod.inject snd_conv)
  with r show ?thesis unfolding sole_def by blast
qed

theorem insert_node_on_edge_correct_witness:
  "\<exists>w' g' e0 e1 ts.
     insert_node_on_edge True True 0 False example_edge 4 example_state = Inr ((w', g'), e0, e1) \<and>
     graph_wf w' g' \<and> unique_id e0 = (1, 0, 4, 0, kData) \<and> unique_id e1 = (4, 0, 2, 0, kData) \<and>
     edge_tms (w', g') e0 = Inr ts \<and> edge_tms (w', g') e1 = Inr []"
proof -
  have id: "producer_node_id example_edge = 1" "producer_output_port_id example_edge = 0"
    "consumer_node_id example_edge = 2" "consumer_input_port_id example_edge = 0" by code_simp+
  show ?thesis
    using insert_node_on_edge_correct [OF example_state_facts(1) _ example_state_facts(3-5),
        of True 0 False] example_state_facts(2) by (simp add: id) metis
qed

theorem insert_bypass_roundtrip_witness:
  "\<exists>t e0 e1 w' g' n. insert_node_on_edge True True 0 False example_edge 4 example_state = Inr (t, e0, e1) \<and>
     bypass_node no_callback 4 True t = Inr ((w', g'), Some n) \<and>
     edge_ids g' = edge_ids (snd example_state)"
proof -
  have "distinct (map snd (edge_to_attr_map (snd example_state)))" by code_simp
  then have "sole (fst example_state, snd example_state) (unique_id example_edge)"
    using sole_distinct edge_attr_some [OF example_state_facts(1,3)] by simp
  from insert_bypass_roundtrip [OF example_state_facts(1) _ example_state_facts(6,3-5,7) this,
      of True 0 False] example_state_facts(2) show ?thesis by simp metis
qed

theorem bypass_node_correct_witness:
  "\<exists>w' g' n. bypass_node no_callback 2 True (example_w, example_g) = Inr ((w', g'), Some n) \<and>
     node_ids g' = {1, 3} \<and> (1, 0, 3, 0, kData) \<in> edge_ids g'"
proof -
  let ?st = "(example_w, example_g)" and ?u = "(1, 0, 2, 0, kData) :: EdgeUniqueId"
  have g: "edge_ids example_g = {(1, 0, 2, 0, kData), (2, 0, 3, 0, kData)}"
    "keys (nodes_map example_g) = [1, 2, 3]" "nothing_hidden example_g"
    "attr_at ?st (1, 0, 3, 0, kData) = None" by code_simp+
  have n: "node_ids example_g = {1, 2, 3}" using g(2) by simp
  have ar: "around example_g 2 ?u = {(1, 0, 3, 0, kData)}" by (auto simp: around_def g(1))
  have b: "bypassable ?st 2 ?u"
    unfolding bypassable_def snd_conv ar using n g by (auto simp: free_id_def)
  have "attr_at ?st ?u \<noteq> None" by code_simp
  then obtain a where "attr_at ?st ?u = Some a" by blast
  from bypass_node_correct [OF example_wf b this] obtain w' g' m where
    r: "bypass_node no_callback 2 True ?st = Inr ((w', g'), Some m)" "node_ids g' = node_ids example_g - {2}"
      "edge_ids g' = {(p, pp, c, cp, ty) \<in> edge_ids example_g. p \<noteq> 2 \<and> c \<noteq> 2} \<union>
         {(fst ?u, fst (snd ?u), c, cp, ty) | q c cp ty. (2, q, c, cp, ty) \<in> edge_ids example_g}"
    by (elim exE conjE) (rule that)
  have "(1, 0, 3, 0, kData) \<in> edge_ids g'" unfolding r(3) g(1) by auto
  moreover have "node_ids g' = {1, 3}" unfolding r(2) n by auto
  ultimately show ?thesis using r(1) by blast
qed

end
