(* ===== verification/Precision.thy ===== *)
theory Precision
  imports Insert_Bypass
begin

text \<open>
  Data formats of a graph: the passes of \<open>forge/csrc/passes/dataformat.cpp\<close> and the automatic mixed
  precision of \<open>forge/csrc/passes/amp.hpp\<close> and \<open>amp.cpp\<close>.

  The passes only write the output formats of nodes, except for the casts that an override of the user
  puts on constants. \<open>AMPNodeProperties\<close> has the fields of the C++; an empty \<open>std::optional\<close> is
  \<open>None\<close>. Matching a regular expression is \<open>std::regex\<close>: \<open>compile\<close> and \<open>matches\<close> stand for its two
  calls, and the cache of compiled expressions is modelled. JSON output is left out.
\<close>

declare map_of_eq_Some_iff [simp del] Some_eq_map_of_iff [simp del] split_paired_All [simp del]
  split_paired_Ex [simp del]

section \<open>Overrides of the user\<close>

definition set_df :: "NodeId \<Rightarrow> DataFormat \<Rightarrow> Graph \<Rightarrow> Graph result" where
  "set_df i df = update_node i (\<lambda>n. Inr (node_set_output_df df n))"

definition reconnect_edge :: "NodeId \<Rightarrow> GS \<Rightarrow> Edge \<Rightarrow> GS result" where
  "reconnect_edge i st e =
     (case construct_edge i 0 (consumer_node_id e) (consumer_input_port_id e) (edge_type e) st of
        (st1, e') \<Rightarrow>
          rbind (copy_attrs e e' (put_edge e' st1)) (\<lambda>st2.
          rbind (drop_edge e st2) (\<lambda>(st3, _). Inr st3)))"

text \<open>A cast on the first edge of a constant; the other edges are moved to the cast.\<close>

definition cast_constant :: "DataFormat \<Rightarrow> GS \<Rightarrow> NodeId \<Rightarrow> GS result" where
  "cast_constant df_override st i =
     rbind (deref (snd st) i) (\<lambda>n.
     rbind (as_InputNode n) (\<lambda>p.
     rbind (user_data_edges any_edge (snd st) i) (\<lambda>us.
       case us of [] \<Rightarrow> Inr st
       | e # es \<Rightarrow>
           if input_type p \<noteq> In_Constant \<or> node_output_df n = df_override \<or>
              is_integer_data_format (node_output_df n) then Inr st
           else
             rbind (mk_OpType ''cast'' [] (attrs_of [(''dtype'', AString (data_format_to_string df_override))])) (\<lambda>t.
             rbind (get_subgraph_id_for_node (snd st) i) (\<lambda>s.
             rbind (put_node (mk_PyOpNode (''cast_input_'' @ node_name n) t) s st) (\<lambda>(st1, c).
             rbind (on_graph (update_node c (node_set_shape (node_shape n))) st1) (\<lambda>st2.
             rbind (insert_node_on_edge True True 0 True e c st2) (\<lambda>(st3, _, _).
             rbind (on_graph (set_df c df_override) st3) (\<lambda>st4.
               foldR (reconnect_edge c) st4 es)))))))))"

definition insert_cast_on_const_input_nodes :: "DataFormat \<Rightarrow> GS \<Rightarrow> GS result" where
  "insert_cast_on_const_input_nodes df_override st =
     rbind (nodes_by_type kInput (snd st)) (foldR (cast_constant df_override) st)"

text \<open>
  The assertions about inputs. An activation must have the format of the override, unless it is an
  integer; a constant of another format must have a cast to it as its only user. Both read the override
  through \<open>value()\<close>: for activations in the message of the failing assertion.
\<close>

definition check_activation :: "DataFormat option \<Rightarrow> Node \<Rightarrow> unit result" where
  "check_activation default_df n =
     (if Some (node_output_df n) = default_df \<or> is_integer_data_format (node_output_df n) then Inr ()
      else if default_df = None then Inl Bad_optional else Inl Assert_failed)"

definition check_constant :: "DataFormat option \<Rightarrow> Graph \<Rightarrow> NodeId \<Rightarrow> Node \<Rightarrow> unit result" where
  "check_constant default_df g i n =
     rbind (of_opt Bad_optional default_df) (\<lambda>df.
       if node_output_df n = df then Inr ()
       else rbind (data_users g i) (\<lambda>cs.
            tt_assert (length cs = 1)
              (rbind (deref g (hd cs)) (\<lambda>c.
               rbind (if node_type c = kPyOp then rbind (as_PyOpNode c) (\<lambda>q. Inr (OpType_type (node_op_type q) = Op_Cast))
                      else Inr False) (\<lambda>consumer_is_cast.
                 tt_assert (consumer_is_cast \<and> node_output_df c = df \<or> is_integer_data_format (node_output_df n))
                   (Inr ()))))))"

definition check_input :: "DataFormat option \<Rightarrow> Graph \<Rightarrow> NodeId \<Rightarrow> Node \<Rightarrow> unit result" where
  "check_input default_df g i n =
     rbind (as_InputNode n) (\<lambda>p.
     rbind (if input_type p = In_Activation then check_activation default_df n else Inr ()) (\<lambda>_.
       if input_type p = In_Constant then check_constant default_df g i n else Inr ()))"

definition configure_output_data_format :: "DataFormat option \<Rightarrow> Graph \<Rightarrow> NodeId \<Rightarrow> Graph result" where
  "configure_output_data_format default_df g i =
     rbind (deref g i) (\<lambda>n.
     rbind (if node_type n = kInput
            then rbind (as_InputNode n) (\<lambda>p. Inr (input_type p = In_Parameter)) else Inr False) (\<lambda>is_parameter.
     rbind (if node_type n = kInput then check_input default_df g i n else Inr ()) (\<lambda>_.
       case default_df of None \<Rightarrow> Inr g
       | Some df \<Rightarrow>
           if \<not> is_integer_data_format (node_output_df n) \<and> (node_type n \<noteq> kInput \<or> is_parameter)
           then set_df i (preserve_lower_precision_cast (node_output_df n) df) g
           else Inr g)))"

definition configure_output_data_formats :: "DataFormat option \<Rightarrow> Graph \<Rightarrow> Graph result" where
  "configure_output_data_formats default_df g =
     rbind (nodes (\<lambda>_. Inr True) g) (foldR (configure_output_data_format default_df) g)"

definition apply_user_data_format_override :: "DataFormat option \<Rightarrow> GS \<Rightarrow> GS result" where
  "apply_user_data_format_override default_df st =
     (case default_df of None \<Rightarrow> Inr st
      | Some df \<Rightarrow> rbind (insert_cast_on_const_input_nodes df st)
          (on_graph (configure_output_data_formats default_df)))"

section \<open>Mixed exponents\<close>

definition get_exponent_conversion_preference :: "DataFormat list \<Rightarrow> DataFormat option \<Rightarrow> ExpPrecision list" where
  "get_exponent_conversion_preference operand_dfs default_df =
     (let num_a = length (filter is_a_data_format operand_dfs);
          num_b = length (filter is_b_data_format operand_dfs)
      in if num_a = num_b then
           (case default_df of Some df \<Rightarrow>
              if is_a_data_format df then [ExpA, ExpB] else [ExpB, ExpA] | None \<Rightarrow> [ExpB, ExpA])
         else if num_a > num_b then [ExpA, ExpB] else [ExpB, ExpA])"

definition is_match_precision_data_format :: "DataFormat \<Rightarrow> ExpPrecision \<Rightarrow> bool" where
  "is_match_precision_data_format df p \<longleftrightarrow>
     p = ExpA \<and> is_a_data_format df \<or> p = ExpB \<and> is_b_data_format df"

definition cast_input :: "ExpPrecision \<Rightarrow> Graph \<Rightarrow> NodeId \<Rightarrow> Graph result" where
  "cast_input to_precision g j =
     (let from_precision = (if to_precision = ExpA then ExpB else ExpA);
          convert = (if from_precision = ExpB then to_a_data_format else to_b_data_format)
      in rbind (deref g j) (\<lambda>n.
           if is_match_precision_data_format (node_output_df n) from_precision
           then set_df j (convert (node_output_df n)) g else Inr g))"

definition cast_input_data_formats :: "NodeId \<Rightarrow> ExpPrecision \<Rightarrow> Graph \<Rightarrow> Graph result" where
  "cast_input_data_formats i to_precision g =
     rbind (data_operands g i) (foldR (cast_input to_precision) g)"

definition cast_and_resolve_input_data_formats ::
    "NodeId \<Rightarrow> DataFormat list \<Rightarrow> DataFormat option \<Rightarrow> Graph \<Rightarrow> Graph result" where
  "cast_and_resolve_input_data_formats i input_dfs default_df g =
     rbind (of_opt Out_of_range (case get_exponent_conversion_preference input_dfs default_df of
              [] \<Rightarrow> None | p # _ \<Rightarrow> Some p)) (\<lambda>p. cast_input_data_formats i p g)"

section \<open>Formats that hardware cannot write\<close>

text \<open>An output that untilizes cannot be a block format.\<close>

definition untilized_df :: "DataFormat \<Rightarrow> DataFormat option" where
  "untilized_df df =
     (if df \<in> {Bfp8_b, Bfp4_b, Bfp2_b, Float16_b} then Some Float16_b
      else if df \<in> {Bfp8, Bfp4, Bfp2, Float16} then Some Float16 else None)"

definition untilize_producer :: "NodeId \<Rightarrow> Graph \<Rightarrow> Graph result" where
  "untilize_producer producer g =
     rbind (deref g producer) (\<lambda>p.
       case untilized_df (node_output_df p) of None \<Rightarrow> Inr g | Some df \<Rightarrow> set_df producer df g)"

definition is_partial_datacopy_edge :: "Edge \<Rightarrow> bool" where
  "is_partial_datacopy_edge e \<longleftrightarrow> edge_type e = kPartialDataCopy"

text \<open>The queue that the output writes back to decides.\<close>

definition match_aliased_queue :: "NodeId \<Rightarrow> NodeId \<Rightarrow> Graph \<Rightarrow> Graph result" where
  "match_aliased_queue i producer g =
     rbind (user_edges is_partial_datacopy_edge g i) (\<lambda>es.
       case es of [] \<Rightarrow> Inr g
       | e # _ \<Rightarrow> rbind (node_by_id g (consumer_node_id e)) (\<lambda>q.
           rbind (deref g producer) (\<lambda>p.
             if node_output_df p \<noteq> node_output_df q then set_df producer (node_output_df q) g else Inr g)))"

definition first_operand :: "Graph \<Rightarrow> NodeId \<Rightarrow> NodeId result" where
  "first_operand g i = rbind (data_operands g i) (\<lambda>os. vec_at os 0)"

definition take_operand_df :: "NodeId \<Rightarrow> NodeId \<Rightarrow> Graph \<Rightarrow> Graph result" where
  "take_operand_df i producer g = rbind (deref g producer) (\<lambda>p. set_df i (node_output_df p) g)"

definition fix_data_format :: "Graph \<Rightarrow> NodeId \<Rightarrow> Graph result" where
  "fix_data_format g i =
     rbind (deref g i) (\<lambda>n.
       if node_type n = kQueue then
         rbind (first_operand g i) (\<lambda>producer. take_operand_df i producer g)
       else if node_type n = kOutput then
         rbind (first_operand g i) (\<lambda>producer.
         rbind (as_OutputNode n) (\<lambda>out.
         rbind (if untilize out then untilize_producer producer g else Inr g) (\<lambda>g1.
         rbind (match_aliased_queue i producer g1) (\<lambda>g2.
           take_operand_df i producer g2))))
       else Inr g)"

definition fix_data_formats :: "bool \<Rightarrow> GS \<Rightarrow> Graph result" where
  "fix_data_formats fp32_acc_supported st =
     rbind (topo_order (fst st) (snd st)) (foldR fix_data_format (snd st))"

definition satisfy_data_format_constraints :: "bool \<Rightarrow> GS \<Rightarrow> Graph result" where
  "satisfy_data_format_constraints = fix_data_formats"

definition validate_data_format :: "Graph \<Rightarrow> NodeId \<Rightarrow> unit result" where
  "validate_data_format g i =
     rbind (deref g i) (\<lambda>n.
       if node_type n = kQueue \<or> node_type n = kOutput then
         rbind (data_operands g i) (\<lambda>os.
         rbind (of_opt Out_of_range (case os of [] \<Rightarrow> None | p # _ \<Rightarrow> Some p)) (\<lambda>producer.
         rbind (deref g producer) (\<lambda>p.
           if node_type n = kQueue then tt_assert (node_output_df p = node_output_df n) (Inr ())
           else rbind (user_edges is_partial_datacopy_edge g i) (\<lambda>es.
             case es of [] \<Rightarrow> Inr ()
             | e # _ \<Rightarrow> rbind (node_by_id g (consumer_node_id e)) (\<lambda>q.
                 tt_assert (node_output_df p = node_output_df q) (Inr ()))))))
       else Inr ())"

definition validate_data_formats :: "Graph \<Rightarrow> unit result" where
  "validate_data_formats g =
     rbind (nodes (\<lambda>_. Inr True) g) (foldR (\<lambda>_. validate_data_format g) ())"

section \<open>Automatic mixed precision\<close>

datatype InputDfConfig =
    Index_Config "(u32 \<times> DataFormat \<times> bool) list"
  | Whole_Config DataFormat
  | No_Config

record AMPNodeProperties =
  amp_op_type :: "string option"
  amp_epoch_type :: "NodeEpochType option"
  amp_output_df :: "DataFormat option"
  amp_intermediate_df :: "DataFormat option"
  amp_accumulate_df :: "DataFormat option"
  amp_math_fidelity :: "MathFidelity option"
  amp_name_regex_match :: "string option"
  amp_input_df :: "InputDfConfig option"
  amp_is_gradient_op :: "bool option"
  amp_input_parameter_indices_to_optimize :: "(u32 \<times> u32) list option"

definition no_properties :: AMPNodeProperties where
  "no_properties = \<lparr>amp_op_type = None, amp_epoch_type = None, amp_output_df = None, amp_intermediate_df = None,
     amp_accumulate_df = None, amp_math_fidelity = None, amp_name_regex_match = None, amp_input_df = None,
     amp_is_gradient_op = None, amp_input_parameter_indices_to_optimize = None\<rparr>"

text \<open>\<open>std::regex\<close>: the constructor throws on a string that is no expression.\<close>

record 'r Regex_Lib =
  rx_compile :: "string \<Rightarrow> 'r result"
  rx_matches :: "'r \<Rightarrow> string \<Rightarrow> bool"

type_synonym 'r RegexMatcher = "(string \<times> 'r) list"

definition has_matching_string ::
    "'r Regex_Lib \<Rightarrow> string \<Rightarrow> string \<Rightarrow> 'r RegexMatcher \<Rightarrow> (bool \<times> 'r RegexMatcher) result" where
  "has_matching_string lib regex_string candidate cache =
     (if regex_string = [] then Inr (True, cache)
      else case map_of cache regex_string of
          Some r \<Rightarrow> Inr (rx_matches lib r candidate, cache)
        | None \<Rightarrow> rbind (rx_compile lib regex_string) (\<lambda>r.
            Inr (rx_matches lib r candidate, AList.update regex_string r cache)))"

definition get_reduced_precision_format :: "DataFormat \<Rightarrow> u32 \<Rightarrow> DataFormat result" where
  "get_reduced_precision_format from_df target_mantissa_bits =
     (let bits_to_df = (if is_a_data_format from_df then [(8, Bfp8), (4, Bfp4), (2, Bfp2)]
                        else [(8, Bfp8_b), (4, Bfp4_b), (2, Bfp2_b)])
      in req Runtime_error (target_mantissa_bits \<in> {8, 4, 2}) (map_at bits_to_df target_mantissa_bits))"

definition configure_node_from_properties :: "AMPNodeProperties \<Rightarrow> Graph \<Rightarrow> NodeId \<Rightarrow> Graph result" where
  "configure_node_from_properties p g i =
     (case amp_output_df p of None \<Rightarrow> Inr g | Some df \<Rightarrow> set_df i df g)"

definition apply_optimization :: "NodeId list \<Rightarrow> AMPNodeProperties \<Rightarrow> Graph \<Rightarrow> Graph result" where
  "apply_optimization ns p g = foldR (configure_node_from_properties p) g ns"

definition get_node_to_amp_properties :: "Graph \<Rightarrow> (string \<times> AMPNodeProperties) list result" where
  "get_node_to_amp_properties g =
     rbind (nodes (\<lambda>n. Inr (node_type n = kInput \<or> node_type n = kOutput \<or> node_type n = kQueue)) g) (\<lambda>ns.
       foldR (\<lambda>m i. rbind (deref g i) (\<lambda>n. Inr (AList.update (node_name n)
         (no_properties\<lparr>amp_op_type := Some ''queue'', amp_epoch_type := Some (epoch_type n),
            amp_output_df := Some (node_output_df n)\<rparr>) m))) [] ns)"

definition original_op_type :: "Node \<Rightarrow> string option result" where
  "original_op_type n =
     (if \<not> has_tag ''original_op_type'' n then Inr None
      else rbind (tag_value ''original_op_type'' n) (\<lambda>v.
           Inr (case v of TagString s \<Rightarrow> Some s | _ \<Rightarrow> None)))"

text \<open>One conjunct per optional that is set. The matcher is bound by value, one copy for each list of
  nodes, so it is threaded through the nodes of one query.\<close>

definition matches_op_type :: "string \<Rightarrow> Node \<Rightarrow> bool result" where
  "matches_op_type t n =
     (case op_part n of
        Some q \<Rightarrow> if t = op_name (node_op_type q) then Inr True
                  else rbind (original_op_type n) (\<lambda>s. Inr (s = Some t))
      | None \<Rightarrow> (case input_part n of Some q \<Rightarrow> Inr (t = input_type_to_string (input_type q)) | None \<Rightarrow> Inr False))"

definition is_matched_op ::
    "'r Regex_Lib \<Rightarrow> AMPNodeProperties \<Rightarrow> Node \<Rightarrow> 'r RegexMatcher \<Rightarrow> (bool \<times> 'r RegexMatcher) result" where
  "is_matched_op lib p n cache =
     rbind (case amp_name_regex_match p of None \<Rightarrow> Inr (True, cache)
            | Some s \<Rightarrow> has_matching_string lib s (node_name n) cache) (\<lambda>(by_name, cache').
     let by_epoch = (case amp_epoch_type p of None \<Rightarrow> True | Some e \<Rightarrow> e = epoch_type n);
         by_gradient = (case amp_is_gradient_op p of None \<Rightarrow> True
           | Some b \<Rightarrow> (case op_part n of None \<Rightarrow> True | Some q \<Rightarrow> b = gradient_op q))
     in rbind (case amp_op_type p of None \<Rightarrow> Inr True | Some t \<Rightarrow> matches_op_type t n) (\<lambda>by_type.
          Inr (by_name \<and> by_epoch \<and> by_gradient \<and> by_type, cache')))"

definition get_queried_nodes ::
    "'r Regex_Lib \<Rightarrow> AMPNodeProperties \<Rightarrow> Graph \<Rightarrow> NodeId list result" where
  "get_queried_nodes lib p g =
     rbind (nodes (\<lambda>_. Inr True) g) (\<lambda>ns.
     rbind (foldR (\<lambda>(found, cache) i. rbind (deref g i) (\<lambda>n.
              rbind (is_matched_op lib p n cache) (\<lambda>(b, cache').
                Inr (if b then found @ [i] else found, cache')))) ([], []) ns) (\<lambda>(found, _). Inr found))"

definition apply_configuration :: "'r Regex_Lib \<Rightarrow> AMPNodeProperties list \<Rightarrow> Graph \<Rightarrow> Graph result" where
  "apply_configuration lib ps g =
     foldR (\<lambda>g p. rbind (get_queried_nodes lib p g) (\<lambda>ns. apply_optimization ns p g)) g ps"

definition math_config :: "string \<Rightarrow> DataFormat \<Rightarrow> DataFormat \<Rightarrow> DataFormat \<Rightarrow> AMPNodeProperties" where
  "math_config t out mid accumulate = no_properties
     \<lparr>amp_op_type := Some t, amp_output_df := Some out, amp_intermediate_df := Some mid,
      amp_accumulate_df := Some accumulate\<rparr>"

definition apply_mixed_b_optimization :: "'r Regex_Lib \<Rightarrow> Graph \<Rightarrow> Graph result" where
  "apply_mixed_b_optimization lib =
     apply_configuration lib
       [math_config ''softmax'' Float16_b Float16_b Float16_b,
        math_config ''layernorm'' Float16_b Float16_b Float16_b,
        (math_config ''matmul'' Bfp8_b Bfp8_b Float16_b)
          \<lparr>amp_math_fidelity := Some HiFi2,
           amp_input_df := Some (Index_Config [(1, Bfp8_b, False), (2, Bfp8_b, False)])\<rparr>]"

definition apply_mixed_a_optimization :: "'r Regex_Lib \<Rightarrow> Graph \<Rightarrow> Graph result" where
  "apply_mixed_a_optimization lib =
     (let three = (\<lambda>df. Some (Index_Config [(0, df, True), (1, df, True), (2, df, True)]));
          half = (\<lambda>t. math_config t Float16 Float16 Float16)
      in apply_configuration lib
       [(math_config ''matmul'' Bfp8 Float16 Float16)\<lparr>amp_input_df := three Bfp8\<rparr>,
        (half ''matmul'')\<lparr>amp_name_regex_match := Some ''.*brcst.*'', amp_input_df := three Float16\<rparr>,
        (half ''matmul'')\<lparr>amp_name_regex_match := Some ''.*softmax.*''\<rparr>,
        (half ''matmul'')\<lparr>amp_name_regex_match := Some ''.*layernorm.*''\<rparr>,
        (half ''multiply'')\<lparr>amp_name_regex_match := Some ''.*softmax.*''\<rparr>,
        no_properties\<lparr>amp_op_type := Some ''gelu'', amp_intermediate_df := Some Bfp8\<rparr>,
        (half ''fused_op'')\<lparr>amp_input_df := three Float16\<rparr>,
        half ''buffer''])"

datatype MixedPrecisionSetting = Mixed_None | Mixed_B_Formats | Mixed_A_Formats

definition is_valid_opt_level :: "int \<Rightarrow> bool" where
  "is_valid_opt_level opt_level \<longleftrightarrow> 0 \<le> opt_level \<and> opt_level \<le> 2"

definition get_mixed_precision_settings :: "DataFormat option \<Rightarrow> int \<Rightarrow> MixedPrecisionSetting" where
  "get_mixed_precision_settings default_df opt_level =
     (let level = (if is_valid_opt_level opt_level then opt_level else 0) in
      case default_df of
        Some df \<Rightarrow> if level > 0 then (if is_b_data_format df then Mixed_B_Formats else Mixed_A_Formats)
                   else Mixed_None
      | None \<Rightarrow> (if level = 1 then Mixed_B_Formats else if level = 2 then Mixed_A_Formats else Mixed_None))"

definition const_tag_propagation :: "Graph \<Rightarrow> Graph result" where
  "const_tag_propagation g =
     rbind (nodes (\<lambda>n. if node_type n = kInput
                then rbind (as_InputNode n) (\<lambda>p. Inr (input_type p = In_Constant)) else Inr False) g) (\<lambda>ns.
       foldR (\<lambda>g i. rbind (data_users g i) (\<lambda>us.
         rbind (of_opt Out_of_range (case us of [] \<Rightarrow> None | u # _ \<Rightarrow> Some u)) (\<lambda>u.
         rbind (deref g u) (\<lambda>m. update_node i (\<lambda>n. Inr (add_tags (hints m) n)) g)))) g ns)"

definition run_automatic_mixed_precision ::
    "'r Regex_Lib \<Rightarrow> bool \<Rightarrow> DataFormat option \<Rightarrow> int \<Rightarrow> AMPNodeProperties list \<Rightarrow> GS \<Rightarrow> GS result" where
  "run_automatic_mixed_precision lib fp32_acc default_df opt_level user_properties st =
     rbind ((case get_mixed_precision_settings default_df opt_level of
               Mixed_None \<Rightarrow> Inr | Mixed_A_Formats \<Rightarrow> apply_mixed_a_optimization lib
             | Mixed_B_Formats \<Rightarrow> apply_mixed_b_optimization lib) (snd st)) (\<lambda>g1.
     rbind (apply_configuration lib user_properties g1) (\<lambda>g2.
     rbind (satisfy_data_format_constraints fp32_acc (fst st, g2)) (\<lambda>g3.
     rbind (const_tag_propagation g3) (\<lambda>g4. Inr (fst st, g4)))))"

definition run_dataformat_passes ::
    "'r Regex_Lib \<Rightarrow> bool \<Rightarrow> DataFormat option \<Rightarrow> int \<Rightarrow> AMPNodeProperties list \<Rightarrow> GS \<Rightarrow> GS result" where
  "run_dataformat_passes lib fp32_acc default_df amp_level amp_properties st =
     rbind (configure_output_data_formats default_df (snd st)) (\<lambda>g1.
     rbind (satisfy_data_format_constraints fp32_acc (fst st, g1)) (\<lambda>g2.
     rbind (run_automatic_mixed_precision lib fp32_acc default_df amp_level amp_properties (fst st, g2)) (\<lambda>st3.
     rbind (validate_data_formats (snd st3)) (\<lambda>_. Inr st3))))"

end
