(* ===== verification/Precision_Laws.thy ===== *)
theory Precision_Laws
  imports Precision
begin

text \<open>
  Laws of the data-format passes: the fix refines a step on formats alone, and when it makes the formats valid.
\<close>

declare map_of_eq_Some_iff [simp del] Some_eq_map_of_iff [simp del] split_paired_All [simp del]
  split_paired_Ex [simp del]

section \<open>Graphs up to data formats\<close>

text \<open>The graph with the formats that \<open>f\<close> gives; queries do not look at formats.\<close>

definition recolour :: "(NodeId \<Rightarrow> DataFormat) \<Rightarrow> Graph \<Rightarrow> Graph" where
  "recolour f g = g\<lparr>nodes_map := map (\<lambda>(i, n). (i, node_set_output_df (f i) n)) (nodes_map g)\<rparr>"

definition df_of :: "Graph \<Rightarrow> NodeId \<Rightarrow> DataFormat" where
  "df_of g i = (case map_of (nodes_map g) i of None \<Rightarrow> DF_Invalid | Some n \<Rightarrow> node_output_df n)"

lemma keys_recolour [simp]: "node_ids (recolour f g) = node_ids g" "keys (nodes_map (recolour f g)) = keys (nodes_map g)"
  by (force simp: recolour_def)+

lemma nodes_recolour [simp]:
  "map_of (nodes_map (recolour f g)) i = map_option (node_set_output_df (f i)) (map_of (nodes_map g) i)"
proof -
  have "map_of (map (\<lambda>(i, n). (i, node_set_output_df (f i) n)) m) i = map_option (node_set_output_df (f i)) (map_of m i)" for m
    by (induction m) auto
  then show ?thesis by (simp add: recolour_def)
qed

lemma recolour_fields [simp]:
  "operands_map (recolour f g) = operands_map g" "users_map (recolour f g) = users_map g"
  "nodes_order (recolour f g) = nodes_order g" "contexts (recolour f g) = contexts g"
  by (simp_all add: recolour_def contexts_def)

lemma recolour_df_of:
  assumes "distinct (keys (nodes_map g))"
  shows "recolour (df_of g) g = g"
proof -
  have "map (\<lambda>(i, n). (i, node_set_output_df (df_of g i) n)) (nodes_map g) = nodes_map g"
  proof (rule map_idI)
    fix x assume x: "x \<in> set (nodes_map g)"
    obtain i n where i: "x = (i, n)" by force
    then have "map_of (nodes_map g) i = Some n" using assms x by simp
    then show "(case x of (i, n) \<Rightarrow> (i, node_set_output_df (df_of g i) n)) = x"
      by (simp add: i df_of_def node_set_output_df_def)
  qed
  then show ?thesis by (simp add: recolour_def)
qed

lemma set_set_df [simp]: "node_set_output_df df (node_set_output_df df' n) = node_set_output_df df n"
  by (simp add: node_set_output_df_def)

lemma visible_recolour [simp]:
  "nothing_hidden (recolour f g) = nothing_hidden g" "is_node_visible (recolour f g) i = is_node_visible g i"
  "is_edge_ignored (recolour f g) e = is_edge_ignored g e"
  by (simp_all add: nothing_hidden_def is_node_visible_def is_node_virtual_def is_edge_ignored_def recolour_def)

lemma node_by_id_recolour: "rbind (node_by_id (recolour f g) i) (\<lambda>_. r) = rbind (node_by_id g i) (\<lambda>_. r)"
  by (cases "map_of (nodes_map g) i") (simp_all add: node_by_id_def)

lemma queries_recolour [simp]:
  "is_edge_visible (recolour f g) = is_edge_visible g" "operand_edges p (recolour f g) = operand_edges p g"
  "user_edges p (recolour f g) = user_edges p g" "node_of (recolour f g) = node_of g"
  "data_operands (recolour f g) = data_operands g"
proof -
  show v: "is_edge_visible (recolour f g) = is_edge_visible g"
    by (rule ext) (simp add: is_edge_visible_def node_by_id_recolour)
  show "operand_edges p (recolour f g) = operand_edges p g" for p
    by (rule ext) (simp add: operand_edges_def operand_edges_set_def visible_edges_def v cong: if_cong)
  then have "operand_data_edges p (recolour f g) = operand_data_edges p g" for p by (simp add: operand_data_edges_def)
  moreover show n: "node_of (recolour f g) = node_of g"
    by (rule ext) (simp add: node_of_def node_by_id_recolour)
  ultimately show "data_operands (recolour f g) = data_operands g" by (intro ext) (simp add: data_operands_def)
  show "user_edges p (recolour f g) = user_edges p g"
    by (rule ext) (simp add: user_edges_def user_edges_set_def visible_edges_def v cong: if_cong)
qed

lemma set_df_recolour:
  assumes "distinct (keys (nodes_map g))" "i \<in> node_ids g"
  shows "set_df i df (recolour f g) = Inr (recolour (f(i := df)) g)"
proof -
  obtain n where n: "map_of (nodes_map g) i = Some n" using assms(2) unfolding in_node_ids by blast
  have "AList.update i (node_set_output_df df m) (map (\<lambda>(i, n). (i, node_set_output_df (f i) n)) xs) =
      map (\<lambda>(j, n). (j, node_set_output_df ((f(i := df)) j) n)) xs"
    if "distinct (keys xs)" "map_of xs i = Some m" for xs m using that
  proof (induction xs)
    case (Cons x xs)
    obtain j k where x: "x = (j, k)" by force
    show ?case
    proof (cases "j = i")
      case True
      then have "i \<notin> set (keys xs)" using Cons.prems(1) x by simp
      then have "map (\<lambda>(i, n). (i, node_set_output_df (f i) n)) xs =
          map (\<lambda>(j, n). (j, node_set_output_df ((f(i := df)) j) n)) xs"
        by (intro map_cong refl) (auto simp: image_iff)
      then show ?thesis using Cons.prems(2) x True by simp
    qed (use Cons x in auto)
  qed simp
  from this [OF assms(1) n] n show ?thesis
    by (simp add: set_df_def update_node_def node_by_id_def set_node_def) (simp add: recolour_def)
qed


section \<open>The fix as a step on formats\<close>

definition stores :: "Graph \<Rightarrow> NodeId \<Rightarrow> bool" where
  "stores g i \<longleftrightarrow> (case map_of (nodes_map g) i of None \<Rightarrow> False
     | Some n \<Rightarrow> node_type n = kQueue \<or> node_type n = kOutput)"

definition feeder :: "Graph \<Rightarrow> NodeId \<Rightarrow> NodeId" where
  "feeder g i = hd (reach_operands g i)"

definition aliased_queue :: "Graph \<Rightarrow> NodeId \<Rightarrow> NodeId option" where
  "aliased_queue g i =
     (case sort_key user_edge_order (filter (\<lambda>e. is_partial_datacopy_edge e \<and> edge_shown g e) (usr g i)) of
        [] \<Rightarrow> None | e # _ \<Rightarrow> Some (consumer_node_id e))"

definition untilizes :: "Node \<Rightarrow> bool" where
  "untilizes n \<longleftrightarrow> (case output_part n of None \<Rightarrow> False | Some out \<Rightarrow> untilize out)"

definition plain_df :: "DataFormat \<Rightarrow> DataFormat" where
  "plain_df df = (case untilized_df df of None \<Rightarrow> df | Some df' \<Rightarrow> df')"

definition df_step :: "Graph \<Rightarrow> (NodeId \<Rightarrow> DataFormat) \<Rightarrow> NodeId \<Rightarrow> NodeId \<Rightarrow> DataFormat" where
  "df_step g f i =
     (case map_of (nodes_map g) i of None \<Rightarrow> f
      | Some n \<Rightarrow>
          let p = feeder g i;
              f1 = (if untilizes n then f(p := plain_df (f p)) else f);
              f2 = (case aliased_queue g i of None \<Rightarrow> f1 | Some q \<Rightarrow> f1(p := f1 q))
          in if node_type n = kQueue then f(i := f p)
             else if node_type n = kOutput then f2(i := f2 p) else f)"

lemma first_operand_eq:
  assumes "graph_wf w g" "i \<in> node_ids g" "reach_operands g i \<noteq> []"
  shows "first_operand g i = Inr (feeder g i)" "feeder g i \<in> node_ids g"
proof -
  have "hd (reach_operands g i) \<in> set (reach_operands g i)" using assms(3) by simp
  then show "feeder g i \<in> node_ids g" using data_operands_eq(2) [OF assms(1,2)] unfolding feeder_def by blast
  show "first_operand g i = Inr (feeder g i)"
    using assms(3) by (simp add: first_operand_def data_operands_eq(1) [OF assms(1,2)] vec_at_def feeder_def hd_conv_nth)
qed

lemma first_operand_recolour [simp]: "first_operand (recolour f g) = first_operand g"
  by (rule ext) (simp add: first_operand_def)

lemma take_operand_df_recolour:
  assumes "distinct (keys (nodes_map g))" "i \<in> node_ids g" "p \<in> node_ids g"
  shows "take_operand_df i p (recolour f g) = Inr (recolour (f(i := f p)) g)"
proof -
  obtain n where "map_of (nodes_map g) p = Some n" using assms(3) unfolding in_node_ids by blast
  then show ?thesis using set_df_recolour [OF assms(1,2)]
    by (simp add: take_operand_df_def deref_def node_set_output_df_def)
qed

lemma untilize_producer_recolour:
  assumes "distinct (keys (nodes_map g))" "p \<in> node_ids g"
  shows "untilize_producer p (recolour f g) = Inr (recolour (f(p := plain_df (f p))) g)"
proof -
  obtain n where "map_of (nodes_map g) p = Some n" using assms(2) unfolding in_node_ids by blast
  then have d: "deref (recolour f g) p = Inr (node_set_output_df (f p) n)" by (simp add: deref_def)
  show ?thesis
    using set_df_recolour [OF assms(1,2)]
    by (cases "untilized_df (f p)") (simp_all add: untilize_producer_def d plain_df_def node_set_output_df_def)
qed

lemma match_aliased_queue_recolour:
  assumes wf: "graph_wf w g" and i: "i \<in> node_ids g" and p: "p \<in> node_ids g"
  shows "match_aliased_queue i p (recolour f g) =
    Inr (recolour (case aliased_queue g i of None \<Rightarrow> f | Some q \<Rightarrow> f(p := f q)) g)"
proof -
  let ?es = "sort_key user_edge_order (filter (\<lambda>e. is_partial_datacopy_edge e \<and> edge_shown g e) (usr g i))"
  have us: "user_edges is_partial_datacopy_edge g i = Inr ?es" using usq.query_eq [OF wf i] by simp
  obtain n where n: "map_of (nodes_map g) p = Some n" using p unfolding in_node_ids by blast
  show ?thesis
  proof (cases ?es)
    case Nil
    then show ?thesis by (simp add: match_aliased_queue_def us aliased_queue_def)
  next
    case (Cons e es)
    then have "e \<in> set ?es" by (simp del: set_sort)
    then have "e \<in> set (usr g i)" by simp
    from usr_ends(3) [OF wf this] obtain m where m: "map_of (nodes_map g) (consumer_node_id e) = Some m"
      unfolding in_node_ids by blast
    have "f(p := f (consumer_node_id e)) = f" if "f p = f (consumer_node_id e)" using that by (metis fun_upd_triv)
    then show ?thesis
      using set_df_recolour [OF graph_wfD(1) [OF wf] p]
      by (auto simp: match_aliased_queue_def us aliased_queue_def Cons node_by_id_def deref_def m n node_set_output_df_def)
  qed
qed

lemma fix_data_format_recolour:
  assumes wf: "graph_wf w g" and n: "map_of (nodes_map g) i = Some n" "node_typed n"
    and fed: "stores g i \<Longrightarrow> reach_operands g i \<noteq> []"
  shows "fix_data_format (recolour f g) i = Inr (recolour (df_step g f i) g)"
proof -
  have i: "i \<in> node_ids g" unfolding in_node_ids using n by blast
  note d = graph_wfD(1) [OF wf]
  have ty: "node_type (node_set_output_df df n) = node_type n" "node_cls (node_set_output_df df n) = node_cls n" for df
    by (simp_all add: node_set_output_df_def)
  note first = first_operand_eq [OF wf i fed]
  consider "node_type n = kQueue" | "node_type n = kOutput" | "\<not> stores g i"
    unfolding stores_def by (auto simp: n)
  then show ?thesis
  proof cases
    case 1
    then have s: "stores g i" by (simp add: stores_def n)
    then show ?thesis using take_operand_df_recolour [OF d i first(2) [OF s]] 1
      by (simp add: fix_data_format_def deref_def n ty first(1) [OF s] df_step_def)
  next
    case 2
    then have s: "stores g i" by (simp add: stores_def n)
    define p where "p = feeder g i"
    have p: "p \<in> node_ids g" "first_operand g i = Inr p" using first [OF s] by (simp_all add: p_def)
    obtain out where out: "as_OutputNode (node_set_output_df (f i) n) = Inr out" "output_part n = Some out"
      using n(2) 2 by (cases "node_cls n") (auto simp: node_typed_def class_type_def as_OutputNode_def output_part_def ty)
    show ?thesis
      using 2 untilize_producer_recolour [OF d p(1), of f] match_aliased_queue_recolour [OF wf i p(1)]
        take_operand_df_recolour [OF d i p(1)]
      by (simp add: fix_data_format_def deref_def n ty p(2) out df_step_def untilizes_def Let_def flip: p_def)
  next
    case 3
    then show ?thesis using n
      by (auto simp: fix_data_format_def deref_def ty df_step_def stores_def)
  qed
qed


lemma fix_all:
  assumes wf: "graph_wf w g" and typed: "\<forall>i n. map_of (nodes_map g) i = Some n \<longrightarrow> node_typed n"
    and fed: "\<forall>i. stores g i \<longrightarrow> reach_operands g i \<noteq> []"
  shows "set is \<subseteq> node_ids g \<Longrightarrow> foldR fix_data_format (recolour f g) is = Inr (recolour (foldl (df_step g) f is) g)"
proof (induction "is" arbitrary: f)
  case (Cons i "is")
  from Cons.prems obtain n where n: "map_of (nodes_map g) i = Some n" unfolding set_simps in_node_ids [symmetric]
    using in_node_ids by blast
  have "fix_data_format (recolour f g) i = Inr (recolour (df_step g f i) g)"
    by (rule fix_data_format_recolour [OF wf n]) (use typed n fed in blast)+
  then show ?case using Cons by simp
qed simp

theorem fix_data_formats_refines:
  assumes "graph_wf w g" and "\<forall>i n. map_of (nodes_map g) i = Some n \<longrightarrow> node_typed n"
    and "\<forall>i. stores g i \<longrightarrow> reach_operands g i \<noteq> []"
  shows "\<exists>order. topo_order w g = Inr order \<and>
    fix_data_formats fp32 (w, g) = Inr (recolour (foldl (df_step g) (df_of g) order) g)"
proof -
  from topological_sort_sound [OF assms(1), of "length (nodes_order g)" "length (nodes_order g)" "\<lambda>_. True"] obtain r where
    r: "topo_order w g = Inr r" "set r = {i \<in> node_ids g. is_node_visible g i \<and> True}"
    unfolding topo_order_def by auto
  then have "set r \<subseteq> node_ids g" by blast
  from fix_all [OF assms this, of "df_of g"] show ?thesis
    using r(1) recolour_df_of [OF graph_wfD(1) [OF assms(1)]] by (simp add: fix_data_formats_def)
qed

section \<open>What the fix establishes\<close>

definition formats_separate :: "Graph \<Rightarrow> bool" where
  "formats_separate g \<longleftrightarrow> (\<forall>i n. map_of (nodes_map g) i = Some n \<and> stores g i \<longrightarrow>
     reach_operands g i \<noteq> [] \<and>
     (stores g (feeder g i) \<longrightarrow> (feeder g i, i) \<in> topo_edges g) \<and>
     (node_type n = kOutput \<longrightarrow> aliased_queue g i = None \<and> \<not> stores g (feeder g i) \<and>
        (\<forall>j. stores g j \<and> feeder g j = feeder g i \<longrightarrow> j = i)))"

definition settled :: "Graph \<Rightarrow> (NodeId \<Rightarrow> DataFormat) \<Rightarrow> NodeId \<Rightarrow> bool" where
  "settled g f i \<longleftrightarrow> f i = f (feeder g i) \<and>
     (case map_of (nodes_map g) i of None \<Rightarrow> True
      | Some n \<Rightarrow> node_type n = kOutput \<and> untilizes n \<longrightarrow> plain_df (f i) = f i)"

lemma plain_plain [simp]: "plain_df (plain_df df) = plain_df df"
  by (cases df) (simp_all add: plain_df_def untilized_df_def)

lemma stores_not_output: "stores g i \<Longrightarrow> map_of (nodes_map g) i = Some n \<Longrightarrow> node_type n = kQueue \<or> node_type n = kOutput"
  by (simp add: stores_def)

lemma settle_step:
  assumes sep: "formats_separate g" and ac: "acyclic (topo_edges g)"
    and old: "\<forall>i \<in> set is. stores g i \<longrightarrow> settled g f i" and x: "x \<notin> set is"
    and later: "\<forall>i \<in> set is. (x, i) \<notin> (topo_edges g)\<^sup>+"
  shows "\<forall>i \<in> set (is @ [x]). stores g i \<longrightarrow> settled g (df_step g f x) i"
proof (cases "stores g x")
  case False
  then have "df_step g f x = f" by (auto simp: df_step_def stores_def split: option.splits)
  then show ?thesis using old False by simp
next
  case True
  obtain n where n: "map_of (nodes_map g) x = Some n" using True by (auto simp: stores_def split: option.splits)
  define p where "p = feeder g x"
  have sepD: "stores g i \<Longrightarrow> stores g (feeder g i) \<Longrightarrow> (feeder g i, i) \<in> topo_edges g" for i
    using sep unfolding formats_separate_def by (auto simp: stores_def split: option.splits)
  have px: "p \<noteq> x"
  proof
    assume "p = x"
    with sepD [OF True] True have "(x, x) \<in> topo_edges g" by (simp add: p_def)
    then show False using ac unfolding acyclic_def by blast
  qed
  have fx: "feeder g i \<noteq> x" if "i \<in> set is" "stores g i" for i
    using sepD [OF that(2)] later that(1) True by blast
  show ?thesis
  proof (cases "node_type n = kQueue")
    case q: True
    then have step: "df_step g f x = f(x := f p)" by (simp add: df_step_def n p_def)
    have "settled g (f(x := f p)) x" using px q n by (simp add: settled_def p_def)
    moreover have "settled g (f(x := f p)) i" if "i \<in> set is" "stores g i" for i
      using old that fx [OF that] x unfolding settled_def by (auto split: option.splits)
    ultimately show ?thesis by (simp add: step)
  next
    case False
    then have out: "node_type n = kOutput" using stores_not_output [OF True n] by simp
    then have o: "aliased_queue g x = None" "\<not> stores g p" "\<And>j. stores g j \<Longrightarrow> feeder g j = p \<Longrightarrow> j = x"
      using sep n True unfolding formats_separate_def p_def by blast+
    define f1 where "f1 = (if untilizes n then f(p := plain_df (f p)) else f)"
    have step: "df_step g f x = f1(x := f1 p)" using out by (simp add: df_step_def n o(1) f1_def flip: p_def)
    have "settled g (f1(x := f1 p)) x" using px n by (simp add: settled_def f1_def flip: p_def)
    moreover have "settled g (f1(x := f1 p)) i" if i: "i \<in> set is" "stores g i" for i
    proof -
      have "i \<noteq> x" "i \<noteq> p" "feeder g i \<noteq> p" using i x o(2,3) by blast+
      then show ?thesis using old i fx [OF i] unfolding settled_def f1_def by (auto split: option.splits)
    qed
    ultimately show ?thesis by (simp add: step)
  qed
qed

lemma settle_all:
  assumes "formats_separate g" "acyclic (topo_edges g)"
  shows "distinct is \<Longrightarrow> sorted_wrt (\<lambda>i j. (j, i) \<notin> (topo_edges g)\<^sup>+) is \<Longrightarrow>
    \<forall>i \<in> set is. stores g i \<longrightarrow> settled g (foldl (df_step g) f is) i"
proof (induction "is" rule: rev_induct)
  case (snoc x "is")
  then show ?case using settle_step [OF assms, of "is" "foldl (df_step g) f is" x] by (simp add: sorted_wrt_append)
qed simp

lemma validate_settled:
  assumes wf: "graph_wf w g" and sep: "formats_separate g"
    and set: "\<forall>i \<in> node_ids g. is_node_visible g i \<longrightarrow> stores g i \<longrightarrow> settled g f i"
  shows "validate_data_formats (recolour f g) = Inr ()"
proof -
  have ns: "nodes (\<lambda>_. Inr True) (recolour f g) = Inr (filter (is_node_visible g) (nodes_order g))"
    unfolding nodes_def recolour_fields
  proof (rule filterR_total)
    fix i assume "i \<in> set (nodes_order g)"
    then have "i \<in> node_ids g" using graph_wfD(8) [OF wf] by simp
    then obtain n where "map_of (nodes_map g) i = Some n" unfolding in_node_ids by blast
    then show "rbind (deref (recolour f g) i) (\<lambda>n. rbind (Inr True) (\<lambda>b. Inr (b \<and> is_node_visible (recolour f g) i))) = Inr (is_node_visible g i)"
      by (simp add: deref_def)
  qed
  have "validate_data_format (recolour f g) i = Inr ()" if i: "i \<in> node_ids g" "is_node_visible g i" for i
  proof -
    obtain n where n: "map_of (nodes_map g) i = Some n" using i(1) unfolding in_node_ids by blast
    then have d: "deref (recolour f g) i = Inr (node_set_output_df (f i) n)" by (simp add: deref_def)
    show ?thesis
    proof (cases "stores g i")
      case False
      then show ?thesis using n by (simp add: validate_data_format_def d stores_def node_set_output_df_def)
    next
      case True
      then have ne: "reach_operands g i \<noteq> []" using sep n unfolding formats_separate_def by blast
      then obtain os where os: "data_operands g i = Inr (feeder g i # os)"
        using data_operands_eq(1) [OF wf i(1)] by (cases "reach_operands g i") (auto simp: feeder_def)
      obtain m where m: "map_of (nodes_map g) (feeder g i) = Some m"
        using first_operand_eq(2) [OF wf i(1) ne] unfolding in_node_ids by blast
      have "user_edges is_partial_datacopy_edge g i = Inr []" if "node_type n = kOutput"
      proof -
        have "aliased_queue g i = None" using sep n True that unfolding formats_separate_def by blast
        then show ?thesis using usq.query_eq [OF wf i(1)] by (auto simp: aliased_queue_def split: list.splits)
      qed
      moreover have "f i = f (feeder g i)" using set i True unfolding settled_def by blast
      moreover have "deref (recolour f g) (feeder g i) = Inr (node_set_output_df (f (feeder g i)) m)"
        by (simp add: deref_def m)
      ultimately show ?thesis
        using stores_not_output [OF True n]
        by (elim disjE) (simp_all add: validate_data_format_def d os node_set_output_df_def)
    qed
  qed
  then have "foldR (\<lambda>_. validate_data_format (recolour f g)) () (filter (is_node_visible g) xs) = Inr ()"
    if "set xs \<subseteq> node_ids g" for xs using that by (induction xs) auto
  then show ?thesis using graph_wfD(8) [OF wf] by (simp add: validate_data_formats_def ns)
qed

text \<open>C19: Fixing the data formats makes them valid. When nodes are well typed, the operand edges have no cycle,
  every queue and output has an operand, a queue fed by a queue comes after it, no output is written back to a queue, and what feeds an output is neither a
  queue nor feeds another one, the pass succeeds, the validation accepts its result, every queue and
  output has the format of its operand, and no output that untilizes has a block format. Nothing but
  formats changes.\<close>

theorem fix_data_formats_validates:
  assumes "graph_wf w g" and "\<forall>i n. map_of (nodes_map g) i = Some n \<longrightarrow> node_typed n"
    and "acyclic (topo_edges g)" and "formats_separate g"
  shows "\<exists>f. fix_data_formats fp32 (w, g) = Inr (recolour f g) \<and> validate_data_formats (recolour f g) = Inr () \<and>
    (\<forall>i \<in> node_ids g. is_node_visible g i \<longrightarrow> stores g i \<longrightarrow> settled g f i)"
proof -
  have fed: "\<forall>i. stores g i \<longrightarrow> reach_operands g i \<noteq> []"
    using assms(4) unfolding formats_separate_def by (auto simp: stores_def split: option.splits)
  from topological_sort_sound [OF assms(1), of "length (nodes_order g)" "length (nodes_order g)" "\<lambda>_. True"] assms(3) obtain r where
    r: "topo_order w g = Inr r" "set r = {i \<in> node_ids g. is_node_visible g i \<and> True}" "distinct r"
      "sorted_wrt (\<lambda>i j. (j, i) \<notin> (topo_edges g)\<^sup>+) r"
    unfolding topo_order_def by auto
  define f where "f = foldl (df_step g) (df_of g) r"
  have "foldR fix_data_format (recolour (df_of g) g) r = Inr (recolour f g)"
    unfolding f_def by (rule fix_all [OF assms(1,2) fed]) (use r(2) in blast)
  then have "fix_data_formats fp32 (w, g) = Inr (recolour f g)"
    using r(1) recolour_df_of [OF graph_wfD(1) [OF assms(1)]] by (simp add: fix_data_formats_def)
  moreover have s: "\<forall>i \<in> node_ids g. is_node_visible g i \<longrightarrow> stores g i \<longrightarrow> settled g f i"
    using settle_all [OF assms(4,3) r(3,4), of "df_of g"] r(2) by (simp add: f_def)
  moreover have "validate_data_formats (recolour f g) = Inr ()" by (rule validate_settled [OF assms(1,4) s])
  ultimately show ?thesis by blast
qed


lemma example_stores: "stores example_g i \<longleftrightarrow> i = 3"
proof -
  have "map (\<lambda>(i, n). (i, node_type n)) (nodes_map example_g) = [(1, kInput), (2, kPyOp), (3, kOutput)]" by code_simp
  then obtain a b c where "nodes_map example_g = [(1, a), (2, b), (3, c)]"
    "node_type a = kInput" "node_type b = kPyOp" "node_type c = kOutput" by auto
  then show ?thesis by (simp add: stores_def)
qed

lemma example_separate: "formats_separate example_g"
proof -
  have "reach_operands example_g 3 = [2]" "aliased_queue example_g 3 = None" by code_simp+
  then show ?thesis by (simp add: formats_separate_def example_stores feeder_def)
qed

theorem fix_data_formats_validates_witness:
  "\<exists>f. fix_data_formats False (example_w, example_g) = Inr (recolour f example_g) \<and>
     validate_data_formats (recolour f example_g) = Inr () \<and> f 3 = f 2"
proof -
  have "list_all (\<lambda>(j, n). node_typed n) (nodes_map example_g)" by code_simp
  then have typed: "\<forall>i n. map_of (nodes_map example_g) i = Some n \<longrightarrow> node_typed n"
    by (auto simp: list_all_iff dest!: map_of_SomeD)
  have "list_all (\<lambda>e. producer_node_id e < consumer_node_id e) (graph_edges example_g)" by code_simp
  then have "- j < - i" if "(i, j) \<in> topo_edges example_g" for i j
    using that by (auto simp: topo_edges_def list_all_iff)
  then have ac: "acyclic (topo_edges example_g)" by (rule acyclicI_order)
  have o: "reach_operands example_g 3 = [2]" "is_node_visible example_g 3" "3 \<in> set (keys (nodes_map example_g))" by code_simp+
  from fix_data_formats_validates [OF example_wf typed ac example_separate, of False] obtain f where
    f: "fix_data_formats False (example_w, example_g) = Inr (recolour f example_g)"
      "validate_data_formats (recolour f example_g) = Inr ()"
      "\<forall>i \<in> node_ids example_g. is_node_visible example_g i \<longrightarrow> stores example_g i \<longrightarrow> settled example_g f i" by blast
  have "settled example_g f 3" using bspec [OF f(3) o(3)] o(2) example_stores by blast
  then have "f 3 = f 2" by (simp add: settled_def feeder_def o(1))
  then show ?thesis using f(1,2) by blast
qed

text \<open>
  Without the condition on what feeds an output the fix is not enough: the queue is visited first, the output
  then changes the format of the operation that feeds both.
\<close>

definition example_fork :: "GS result" where
  "example_fork =
     rbind (put_node (mk_InputNode ''x'' In_Activation False) 0 (initial_world, mk_Graph_default IR_TT_FORGE)) (\<lambda>(st1, x).
     rbind (put_node (node_set_output_df Bfp8_b (mk_PyOpNode ''relu'' example_relu)) 0 st1) (\<lambda>(st2, r).
     rbind (put_node (mk_QueueNode ''q'' Queue_EpochToEpoch) 0 st2) (\<lambda>(st3, q).
     rbind (put_node (mk_OutputNode ''y'') 0 st3) (\<lambda>(st4, y).
     rbind (connect_nodes x r kData st4) (\<lambda>st5.
     rbind (connect_nodes r q kData st5) (connect_nodes r y kData))))))"

lemma queue_beside_output:
  "case rbind example_fork (fix_data_formats False) of Inl _ \<Rightarrow> False
   | Inr g \<Rightarrow> validate_data_formats g = Inl Assert_failed"
  by code_simp

end
