(* ===== verification/Consteval.thy ===== *)
theory Consteval
  imports Gradients
begin

text \<open>
  Constant evaluation: \<open>ConstEvalGraph\<close> (\<open>forge/csrc/graph_lib/utils.hpp\<close> and \<open>utils.cpp\<close>), the tests of what
  can be evaluated, \<open>InputNode::get_consteval_graph\<close>, the pass \<open>forge/csrc/passes/consteval.cpp\<close>, and the
  queries of \<open>utils.cpp\<close> on inputs, recomputed operations and queues.

  An input of the runtime graph may own a graph of operations that are evaluated at compile time.
  Promoting an operation moves it from the runtime graph into that graph. Both graphs share the
  counters and the attribute store, so the state of a promotion is a world and two graphs. The handle
  \<open>ConstEvalRef\<close> of an input is an index into the store of the world; \<open>ce\<close> says what the
  clone of a node inside such a graph refers to, which matters only when graphs are nested. Logging
  and reports are left out.
\<close>

declare map_of_eq_Some_iff [simp del] Some_eq_map_of_iff [simp del] split_paired_All [simp del]
  split_paired_Ex [simp del]

section \<open>State\<close>

text \<open>One constant-evaluation graph beside the graph of its input.\<close>

type_synonym CS = "World \<times> Graph \<times> ConstEvalGraph"

definition consteval_do :: "(GS \<Rightarrow> GS result) \<Rightarrow> CS \<Rightarrow> CS result" where
  "consteval_do f s = (case s of (w, rg, c) \<Rightarrow>
     rbind (f (w, ceg_graph c)) (\<lambda>(w', g). Inr (w', rg, c\<lparr>ceg_graph := g\<rparr>)))"

definition runtime_do :: "(GS \<Rightarrow> GS result) \<Rightarrow> CS \<Rightarrow> CS result" where
  "runtime_do f s = (case s of (w, rg, c) \<Rightarrow> rbind (f (w, rg)) (\<lambda>(w', rg'). Inr (w', rg', c)))"

definition add_consteval_node :: "Node \<Rightarrow> CS \<Rightarrow> (CS \<times> NodeId) result" where
  "add_consteval_node n s = (case s of (w, rg, c) \<Rightarrow>
     rbind (put_node n (ceg_subgraph_id c) (w, ceg_graph c)) (\<lambda>((w', g), i).
       Inr ((w', rg, c\<lparr>ceg_graph := g\<rparr>), i)))"

definition named_node :: "Graph \<Rightarrow> string \<Rightarrow> NodeId result" where
  "named_node g s = rbind (get_node_by_name g s True) (of_opt Undefined_behaviour)"

definition get_graph :: "ConstEvalGraph \<Rightarrow> Graph result" where
  "get_graph c = tt_assert (\<not> ran_autograd c \<or> \<not> graph_updated_since_autograd c) (Inr (ceg_graph c))"

section \<open>Grafting\<close>

text \<open>The id of the node that feeds the output of the other graph is \<open>None\<close> as long as no output was met.\<close>

definition graft_node ::
    "(ConstEvalRef \<Rightarrow> ConstEvalRef result) \<Rightarrow> Graph \<Rightarrow> CS \<times> NodeId option \<times> NodeId id_map \<Rightarrow> NodeId \<Rightarrow>
     (CS \<times> NodeId option \<times> NodeId id_map) result" where
  "graft_node ce other st i = (case st of (s, out, m) \<Rightarrow>
     rbind (deref other i) (\<lambda>n.
       if node_type n = kOutput then
         tt_assert (out = None)
           (rbind (data_operands other i) (\<lambda>os. rbind (vec_at os 0) (\<lambda>j. Inr (s, Some j, m))))
       else if has_node_with_name (ceg_graph (snd (snd s))) (node_name n) then
         rbind (named_node (ceg_graph (snd (snd s))) (node_name n)) (\<lambda>j. Inr (s, out, map_insert i j m))
       else
         rbind (node_clone ce [] n) (\<lambda>n'.
         rbind (add_consteval_node n' s) (\<lambda>(s1, j). Inr (s1, out, map_insert i j m)))))"

definition graft_edge :: "Graph \<Rightarrow> NodeId option \<Rightarrow> NodeId id_map \<Rightarrow> CS \<Rightarrow> Edge \<Rightarrow> CS result" where
  "graft_edge other out m s e =
     (if Some (producer_node_id e) = out then Inr s
      else
        rbind (map_at m (producer_node_id e)) (\<lambda>p.
        rbind (map_at m (consumer_node_id e)) (\<lambda>q.
          consteval_do (\<lambda>st.
            case construct_edge p (producer_output_port_id e) q (consumer_input_port_id e) (edge_type e) st of
              (st1, e') \<Rightarrow> (case put_edge e' st1 of (w2, g2) \<Rightarrow>
                rbind (copy_edge_attributes e e' other w2 g2) (\<lambda>w3. Inr (w3, g2)))) s)))"

definition graft :: "(ConstEvalRef \<Rightarrow> ConstEvalRef result) \<Rightarrow> Graph \<Rightarrow> CS \<Rightarrow> (CS \<times> NodeId) result" where
  "graft ce other s =
     rbind (nodes (\<lambda>_. Inr True) other) (\<lambda>is.
     rbind (foldR (graft_node ce other) (s, None, []) is) (\<lambda>(s1, out, m).
     rbind (foldR (graft_edge other out m) s1 (edges_of_type kData other)) (\<lambda>s2.
     rbind (of_opt Assert_failed out) (\<lambda>j.
     tt_assert (map_of m j \<noteq> None)
       (rbind (map_at m j) (\<lambda>k.
        rbind (node_of (ceg_graph (snd (snd s2))) k) (\<lambda>k'. Inr (s2, k'))))))))"

section \<open>Promoting a node\<close>

text \<open>The input of the runtime graph stands for what feeds the output so far.\<close>

definition map_input_to_output :: "CS \<Rightarrow> CS result" where
  "map_input_to_output s = (case s of (w, rg, c) \<Rightarrow>
     (case ceg_output c of None \<Rightarrow> Inr s
      | Some out \<Rightarrow> rbind (data_operands (ceg_graph c) out) (\<lambda>os.
          tt_assert (length os = 1)
            (Inr (w, rg, c\<lparr>runtime_to_consteval_map :=
               AList.update (ceg_runtime_input c) (hd os) (runtime_to_consteval_map c)\<rparr>)))))"

definition map_runtime_node :: "NodeId \<Rightarrow> NodeId \<Rightarrow> CS \<Rightarrow> CS" where
  "map_runtime_node r i s = (case s of (w, rg, c) \<Rightarrow>
     (w, rg, c\<lparr>runtime_to_consteval_map := map_insert r i (runtime_to_consteval_map c)\<rparr>))"

text \<open>The node of the constant-evaluation graph for an input that is not mapped yet.\<close>

definition consteval_operand ::
    "(ConstEvalRef \<Rightarrow> ConstEvalGraph result) \<Rightarrow> (ConstEvalRef \<Rightarrow> ConstEvalRef result) \<Rightarrow> Node \<Rightarrow> CS \<Rightarrow> (CS \<times> NodeId) result" where
  "consteval_operand nested ce n s =
     rbind (of_opt Assert_failed (input_part n)) (\<lambda>f.
       case consteval_graph f of
         Some r \<Rightarrow> rbind (nested r) (\<lambda>c. rbind (get_graph c) (\<lambda>other. graft ce other s))
       | None \<Rightarrow>
           if \<not> has_node_with_name (ceg_graph (snd (snd s))) (node_name n) then
             rbind (node_clone ce [] n) (\<lambda>n'. add_consteval_node n' s)
           else rbind (named_node (ceg_graph (snd (snd s))) (node_name n)) (\<lambda>j. Inr (s, j)))"

text \<open>
  An operand that is not mapped leaves the runtime graph: its edge, and itself when nothing uses it any
  more. It is mapped only when this edge was its last one.
\<close>

definition take_operand ::
    "(ConstEvalRef \<Rightarrow> ConstEvalGraph result) \<Rightarrow> (ConstEvalRef \<Rightarrow> ConstEvalRef result) \<Rightarrow> Edge \<Rightarrow> CS \<Rightarrow>
     (CS \<times> NodeId option) result" where
  "take_operand nested ce e s =
     (let p = producer_node_id e in
      if map_of (runtime_to_consteval_map (snd (snd s))) p \<noteq> None then Inr (s, None)
      else
        rbind (node_by_id (fst (snd s)) p) (\<lambda>n.
        rbind (consteval_operand nested ce n s) (\<lambda>(s1, j).
        rbind (user_data_edges any_edge (fst (snd s1)) p) (\<lambda>us.
        let s2 = (if length us = 1 then map_runtime_node p j s1 else s1);
            fixed = (if 1 < length us then Some j else None)
        in rbind (runtime_do (\<lambda>st. rbind (drop_edge e st) (\<lambda>(st', _). Inr st')) s2) (\<lambda>s3.
           rbind (user_edges any_edge (fst (snd s3)) p) (\<lambda>us'.
           rbind (if us' = [] then runtime_do (\<lambda>st. rbind (drop_node p st) (\<lambda>(st', _). Inr st')) s3
                  else Inr s3) (\<lambda>s4. Inr (s4, fixed))))))))"

definition inherit_edge ::
    "(ConstEvalRef \<Rightarrow> ConstEvalGraph result) \<Rightarrow> (ConstEvalRef \<Rightarrow> ConstEvalRef result) \<Rightarrow> CS \<Rightarrow> Edge \<Rightarrow> CS result" where
  "inherit_edge nested ce s e =
     rbind (get_edge_attributes (fst (snd s)) e) (\<lambda>r.
     rbind (take_operand nested ce e s) (\<lambda>(s1, fixed).
     rbind (case fixed of Some j \<Rightarrow> Inr j
            | None \<Rightarrow> map_at (runtime_to_consteval_map (snd (snd s1))) (producer_node_id e)) (\<lambda>p.
     rbind (map_at (runtime_to_consteval_map (snd (snd s1))) (consumer_node_id e)) (\<lambda>q.
       consteval_do (\<lambda>st.
         case construct_edge p (producer_output_port_id e) q (consumer_input_port_id e) (edge_type e) st of
           (st1, e') \<Rightarrow>
             rbind (read_attr (fst st1) r) (\<lambda>a.
             rbind (update_edge_attr (\<lambda>b. Inr (copy_from a b)) e' (put_edge e' st1)) (\<lambda>(w2, g2).
             rbind (read_attr w2 r) (\<lambda>a2. Inr (write_attr r (set_tms [] a2) w2, g2))))) s1))))"

text \<open>Without a runtime graph an operation is appended to what feeds the output.\<close>

definition output_edge :: "ConstEvalGraph \<Rightarrow> NodeId \<Rightarrow> Edge result" where
  "output_edge c out =
     rbind (operand_data_edges any_edge (ceg_graph c) out) (\<lambda>es.
       of_opt Out_of_range (case es of [] \<Rightarrow> None | e # _ \<Rightarrow> Some e))"

definition append_operation :: "NodeId \<Rightarrow> CS \<Rightarrow> CS result" where
  "append_operation i s =
     rbind (deref (ceg_graph (snd (snd s))) i) (\<lambda>n.
       if op_part n = None then Inr s
       else
         rbind (of_opt Assert_failed (ceg_output (snd (snd s)))) (\<lambda>out.
         rbind (output_edge (snd (snd s)) out) (\<lambda>e.
           consteval_do (\<lambda>st.
             case construct_edge (producer_node_id e) (producer_output_port_id e) i 0 kData st of
               (st1, e') \<Rightarrow> Inr (put_edge e' st1)) s)))"

definition connect_output :: "NodeId \<Rightarrow> CS \<Rightarrow> (CS \<times> NodeId) result" where
  "connect_output i s =
     rbind (case ceg_output (snd (snd s)) of
              Some out \<Rightarrow>
                rbind (output_edge (snd (snd s)) out) (\<lambda>e.
                rbind (consteval_do (\<lambda>st. rbind (drop_edge e st) (\<lambda>(st', _). Inr st')) s) (\<lambda>s1.
                  Inr (s1, out)))
            | None \<Rightarrow>
                rbind (add_consteval_node (mk_OutputNode (graph_name (ceg_graph (snd (snd s))) @ ''.output'')) s)
                  (\<lambda>((w, rg, c), out). Inr ((w, rg, c\<lparr>ceg_output := Some out\<rparr>), out))) (\<lambda>(s2, out).
     rbind (consteval_do (\<lambda>st. case construct_edge i 0 out 0 kData st of
              (st1, e) \<Rightarrow> Inr (put_edge e st1)) s2) (\<lambda>s3. Inr (s3, out)))"

definition give_result :: "Node \<Rightarrow> Node \<Rightarrow> Node result" where
  "give_result n m = rbind (node_set_shape (node_shape n) m) (\<lambda>m'. Inr (node_set_output_df (node_output_df n) m'))"

definition publish_result :: "NodeId \<Rightarrow> NodeId \<Rightarrow> CS \<Rightarrow> CS result" where
  "publish_result i out s =
     rbind (deref (ceg_graph (snd (snd s))) i) (\<lambda>n.
     rbind (runtime_do (on_graph (update_node (ceg_runtime_input (snd (snd s))) (give_result n))) s) (\<lambda>s1.
       consteval_do (on_graph (update_node out (give_result n))) s1))"

text \<open>
  \<open>promote_node\<close>; \<open>runtime_node\<close> is the node of the runtime graph that is promoted, if any, and
  \<open>in_graph\<close> tells whether the runtime graph was given.
\<close>

definition promote_node ::
    "(ConstEvalRef \<Rightarrow> ConstEvalGraph result) \<Rightarrow> (ConstEvalRef \<Rightarrow> ConstEvalRef result) \<Rightarrow> bool \<Rightarrow> NodeId option \<Rightarrow> Node \<Rightarrow>
     CS \<Rightarrow> (CS \<times> Node option) result" where
  "promote_node nested ce in_graph runtime_node consteval_node s =
     tt_assert (\<not> in_graph \<or> runtime_node \<noteq> None)
       (tt_assert (\<not> in_graph \<or> ir_level (fst (snd s)) = IR_TT_FORGE)
         (case s of (w, rg, c) \<Rightarrow>
          rbind (add_consteval_node consteval_node (w, rg, c\<lparr>graph_updated_since_autograd := True\<rparr>)) (\<lambda>(s1, i).
          rbind (consteval_do (on_graph (update_node i (\<lambda>n. Inr (set_epoch_type Epoch_Forward n)))) s1) (\<lambda>s2.
          rbind (map_input_to_output s2) (\<lambda>s3.
          let s4 = (case runtime_node of None \<Rightarrow> s3 | Some r \<Rightarrow> map_runtime_node r i s3) in
          rbind (if in_graph
                 then rbind (of_opt Undefined_behaviour runtime_node) (\<lambda>r.
                      rbind (operand_data_edges any_edge (fst (snd s4)) r) (foldR (inherit_edge nested ce) s4))
                 else append_operation i s4) (\<lambda>s5.
          rbind (connect_output i s5) (\<lambda>(s6, out).
          rbind (publish_result i out s6) (\<lambda>s7.
            if in_graph then
              rbind (of_opt Undefined_behaviour runtime_node) (\<lambda>r.
              rbind (operand_data_edges any_edge (fst (snd s7)) r) (\<lambda>es.
                if length es = 1 then
                  (case s7 of (w7, rg7, c7) \<Rightarrow>
                     rbind (bypass_node no_callback r True (w7, rg7)) (\<lambda>((w8, rg8), n). Inr ((w8, rg8, c7), n)))
                else Inr (s7, None)))
            else Inr (s7, None)))))))))"

text \<open>The constructor; a unique id of -1 asks for a new one.\<close>

definition mk_ConstEvalGraph ::
    "(ConstEvalRef \<Rightarrow> ConstEvalRef result) \<Rightarrow> string \<Rightarrow> NodeId \<Rightarrow> bool \<Rightarrow> u32 \<Rightarrow> int \<Rightarrow> GS \<Rightarrow> CS result" where
  "mk_ConstEvalGraph ce name i promote_input sid uid st =
     (case st of (w, rg) \<Rightarrow>
      case (if uid = -1 then generate_unique_graph_id w else (w, uid)) of (w1, k) \<Rightarrow>
        rbind (deref rg i) (\<lambda>n.
        tt_assert (node_type n = kInput)
          (let c = \<lparr>ceg_graph = mk_Graph IR_CONSTEVAL name k, ceg_runtime_input = i, ceg_subgraph_id = sid,
                    ceg_output = None, runtime_to_consteval_map = [], needs_autograd = False,
                    ran_autograd = False, graph_updated_since_autograd = False\<rparr>
           in if promote_input then
                rbind (node_clone ce [] n) (\<lambda>n'.
                rbind (promote_node (\<lambda>_. Inl Undefined_behaviour) ce False (Some i) n' (w1, rg, c)) (\<lambda>(s, _).
                  Inr s))
              else Inr (w1, rg, c))))"
section \<open>Cloning, padding, gradients\<close>

definition cloned_entry ::
    "Graph \<Rightarrow> string \<Rightarrow> Graph \<times> NodeId id_map \<Rightarrow> NodeId \<times> NodeId \<Rightarrow> (Graph \<times> NodeId id_map) result" where
  "cloned_entry old new_name gm rj = (case gm of (g, m) \<Rightarrow> (case rj of (r, j) \<Rightarrow>
     rbind (node_by_id old j) (\<lambda>n.
     rbind (if node_type n = kInput \<and> new_name \<noteq> [] then
              rbind (named_node g (node_name n)) (\<lambda>k.
              rbind (update_node_name k new_name g) (\<lambda>g'. Inr (g', new_name)))
            else Inr (g, node_name n)) (\<lambda>(g', s).
     rbind (named_node g' s) (\<lambda>k. Inr (g', AList.update r k m))))))"

text \<open>\<open>new_input\<close> is the input of the clone, which no operation here looks at.\<close>

definition consteval_clone ::
    "(ConstEvalRef \<Rightarrow> ConstEvalRef result) \<Rightarrow> NodeId \<Rightarrow> string \<Rightarrow> ConstEvalGraph \<Rightarrow> World \<Rightarrow> (World \<times> ConstEvalGraph) result" where
  "consteval_clone ce new_input new_name c w =
     (case generate_unique_graph_id w of (w1, k) \<Rightarrow>
      rbind (graph_clone ce (Some (mk_Graph IR_CONSTEVAL (graph_name (ceg_graph c) @ ''.'' @ show_int k) k))
               (ceg_graph c) w1) (\<lambda>(w2, g).
      rbind (case ceg_output c of None \<Rightarrow> Inr None
             | Some out \<Rightarrow> rbind (deref (ceg_graph c) out) (\<lambda>n.
                 rbind (named_node g (node_name n)) (\<lambda>j. Inr (Some j)))) (\<lambda>out'.
      rbind (foldR (cloned_entry (ceg_graph c) new_name) (g, []) (runtime_to_consteval_map c)) (\<lambda>(g', m).
        Inr (w2, c\<lparr>ceg_graph := g', ceg_runtime_input := new_input, ceg_output := out',
                   runtime_to_consteval_map := m\<rparr>)))))"

definition set_dim :: "Shape \<Rightarrow> int \<Rightarrow> u32 \<Rightarrow> Shape result" where
  "set_dim s d v = rbind (shape_at s d) (\<lambda>_. Inr (s\<lparr>sh_dims := (sh_dims s)[nat (positive_index s d) := v]\<rparr>))"

definition pad_dim ::
    "(ConstEvalRef \<Rightarrow> ConstEvalRef result) \<Rightarrow> string \<Rightarrow> NodeId \<Rightarrow> CS \<times> Shape \<Rightarrow> int \<Rightarrow> (CS \<times> Shape) result" where
  "pad_dim ce name_prefix out st d = (case st of (s, shape) \<Rightarrow>
     rbind (shape_at shape d) (\<lambda>x.
       if x mod 32 = 0 then Inr (s, shape)
       else
         rbind (mk_OpType ''pad_tile'' [AInt d, AInt (sint x)] []) (\<lambda>t.
         rbind (deref (ceg_graph (snd (snd s))) out) (\<lambda>n0.
         rbind (set_dim shape d (align_up_tile_u32 x)) (\<lambda>shape'.
         rbind (node_set_shape shape'
                  (set_epoch_type (epoch_type n0) (node_set_output_df (node_output_df n0)
                    (mk_PyOpNode (name_prefix @ ''_pad_tile_'' @ (if d = -1 then ''c_'' else ''r_'') @ node_name n0) t)))) (\<lambda>n.
         rbind (promote_node (\<lambda>_. Inl Undefined_behaviour) ce False None n s) (\<lambda>(s', _). Inr (s', shape'))))))))"

definition pad_output_to_forge_dims :: "(ConstEvalRef \<Rightarrow> ConstEvalRef result) \<Rightarrow> string \<Rightarrow> CS \<Rightarrow> CS result" where
  "pad_output_to_forge_dims ce name_prefix s =
     rbind (of_opt Undefined_behaviour (ceg_output (snd (snd s)))) (\<lambda>out.
     rbind (deref (ceg_graph (snd (snd s))) out) (\<lambda>n0.
     rbind (foldR (pad_dim ce name_prefix out) (s, node_shape n0) [-1, -2]) (\<lambda>(s', _). Inr s')))"

definition consteval_autograd :: "AutogradEnv \<Rightarrow> ConstEvalGraph \<Rightarrow> World \<Rightarrow> (World \<times> ConstEvalGraph) result" where
  "consteval_autograd env c w =
     (if \<not> needs_autograd c then Inr (w, c)
      else
        rbind (if ran_autograd c then
                 rbind (nodes (\<lambda>n. Inr (epoch_type n = Epoch_Backward)) (ceg_graph c)) (\<lambda>is.
                   foldR (\<lambda>g i. rbind (remove_node i g) (\<lambda>(g', _). Inr g')) (ceg_graph c) is)
               else Inr (ceg_graph c)) (\<lambda>g.
        rbind (run (env\<lparr>env_recompute := False, env_optimizer := None\<rparr>) (w, g)) (\<lambda>(w', g').
          Inr (w', c\<lparr>ceg_graph := g', ran_autograd := True, graph_updated_since_autograd := False\<rparr>))))"

section \<open>Graphs of the inputs\<close>

definition store_at :: "World \<Rightarrow> ConstEvalRef \<Rightarrow> ConstEvalGraph result" where
  "store_at w = vec_at (ceg_store w)"

text \<open>A new graph, and a change of an old one.\<close>

definition store_new :: "ConstEvalGraph \<Rightarrow> World \<Rightarrow> World" where
  "store_new c w = w\<lparr>ceg_store := ceg_store w @ [c]\<rparr>"

definition store_set :: "ConstEvalRef \<Rightarrow> ConstEvalGraph \<Rightarrow> World \<Rightarrow> World" where
  "store_set r c w = w\<lparr>ceg_store := (ceg_store w)[r := c]\<rparr>"

definition get_consteval_graph :: "(ConstEvalRef \<Rightarrow> ConstEvalRef result) \<Rightarrow> NodeId \<Rightarrow> GS \<Rightarrow> (GS \<times> ConstEvalRef) result" where
  "get_consteval_graph ce i st = (case st of (w, rg) \<Rightarrow>
     rbind (deref rg i) (\<lambda>n.
     rbind (of_opt Undefined_behaviour (input_part n)) (\<lambda>f.
       case consteval_graph f of
         Some r \<Rightarrow> Inr (st, r)
       | None \<Rightarrow>
           rbind (get_subgraph_id_for_node rg i) (\<lambda>sid.
           rbind (mk_ConstEvalGraph ce (node_name n @ ''.consteval_graph'') i True sid (-1) (w, rg)) (\<lambda>(w1, rg1, c).
           rbind (update_node i (\<lambda>m. Inr (m\<lparr>node_cls := map_input (\<lambda>f. f\<lparr>consteval_graph := Some (length (ceg_store w1))\<rparr>)
                                                (node_cls m)\<rparr>)) rg1) (\<lambda>rg2.
             Inr ((store_new c w1, rg2), length (ceg_store w1))))))))"

text \<open>\<open>promote_node(graph, runtime_node)\<close> on the constant-evaluation graph \<open>r\<close>.\<close>

definition promote_runtime_node ::
    "(ConstEvalRef \<Rightarrow> ConstEvalRef result) \<Rightarrow> ConstEvalRef \<Rightarrow> NodeId \<Rightarrow> GS \<Rightarrow> (GS \<times> Node option) result" where
  "promote_runtime_node ce r j st = (case st of (w, rg) \<Rightarrow>
     rbind (deref rg j) (\<lambda>n.
     rbind (node_clone ce [] n) (\<lambda>n'.
     rbind (store_at w r) (\<lambda>c.
     rbind (promote_node (store_at w) ce True (Some j) n' (w, rg, c)) (\<lambda>((w1, rg1, c1), removed).
       Inr ((store_set r c1 w1, rg1), removed))))))"

section \<open>What can be evaluated\<close>

fun allR :: "('a \<Rightarrow> bool result) \<Rightarrow> 'a list \<Rightarrow> bool result" where
  "allR p [] = Inr True"
| "allR p (x # xs) = rbind (p x) (\<lambda>b. if b then allR p xs else Inr False)"

definition is_constant_input :: "Node \<Rightarrow> bool" where
  "is_constant_input n = (case input_part n of None \<Rightarrow> False | Some f \<Rightarrow> input_type f = In_Constant)"

definition is_consteval_capable_input_type :: "Node \<Rightarrow> bool" where
  "is_consteval_capable_input_type n = (case input_part n of None \<Rightarrow> False
     | Some f \<Rightarrow> (input_type f = In_Parameter \<or> input_type f = In_Constant) \<and> \<not> has_tag ''dont_consteval'' n)"

definition needs_gradient :: "Graph \<Rightarrow> NodeId \<Rightarrow> bool result" where
  "needs_gradient g i =
     (if training g then rbind (deref g i) (\<lambda>n. rbind (as_InputNode n) (\<lambda>f. Inr (input_requires_grad f)))
      else Inr False)"

definition forks :: "bool \<Rightarrow> Graph \<Rightarrow> NodeId \<Rightarrow> bool result" where
  "forks disable_forks g i =
     rbind (needs_gradient g i) (\<lambda>b.
       if b \<or> disable_forks then rbind (data_users g i) (\<lambda>us. Inr (1 < length us)) else Inr False)"

definition broadcasts :: "GS \<Rightarrow> NodeId \<Rightarrow> bool result" where
  "broadcasts st i =
     rbind (user_data_edges any_edge (snd st) i) (\<lambda>es.
     rbind (mapR (\<lambda>e. rbind (edge_attr (fst st) (snd st) e) (\<lambda>a. Inr (has_broadcast_dims a))) es) (\<lambda>bs.
     rbind (needs_gradient (snd st) i) (\<lambda>b. Inr (b \<and> True \<in> set bs))))"

definition is_consteval_capable_op :: "bool \<Rightarrow> GS \<Rightarrow> NodeId \<Rightarrow> bool result" where
  "is_consteval_capable_op allow_forks st i =
     rbind (deref (snd st) i) (\<lambda>n.
       case op_part n of None \<Rightarrow> Inr False
       | Some q \<Rightarrow>
           rbind (data_operands (snd st) i) (\<lambda>os.
           rbind (allR (\<lambda>j. rbind (deref (snd st) j) (\<lambda>m. Inr (is_consteval_capable_input_type m))) os) (\<lambda>inputs.
             if \<not> inputs then Inr False
             else
               rbind (existsR (forks (\<not> allow_forks) (snd st)) os) (\<lambda>fork.
                 if fork then Inr False
                 else
                   rbind (existsR (broadcasts st) os) (\<lambda>bcast.
                     if bcast then Inr False
                     else
                       rbind (existsR (needs_gradient (snd st)) os) (\<lambda>grad.
                         if \<not> grad then Inr True else OpType_is_tm (node_op_type q)))))))"

definition has_one_operand :: "Graph \<Rightarrow> NodeId \<Rightarrow> bool result" where
  "has_one_operand g i = rbind (data_operands g i) (\<lambda>os. Inr (length os = 1))"

text \<open>The users of an input are operations alike: name and legacy attributes of the first one.\<close>

definition same_operations :: "Node list \<Rightarrow> bool result" where
  "same_operations ns =
     (if \<exists>n \<in> set ns. op_part n = None then Inr False
      else rbind (vec_at ns 0) (\<lambda>n.
           rbind (of_opt Undefined_behaviour (op_part n)) (\<lambda>q.
             Inr (list_all (\<lambda>m. case op_part m of None \<Rightarrow> False
                    | Some p \<Rightarrow> op_name (node_op_type p) = op_name (node_op_type q) \<and>
                        attr_list_eq (legacy_attrs (node_op_type q)) (legacy_attrs (node_op_type p))) ns))))"

definition is_consteval_capable_input_no_operand_forks :: "GS \<Rightarrow> NodeId \<Rightarrow> bool result" where
  "is_consteval_capable_input_no_operand_forks st i =
     rbind (deref (snd st) i) (\<lambda>n.
       if \<not> is_consteval_capable_input_type n then Inr False
       else
         rbind (data_users (snd st) i) (\<lambda>us.
         rbind (user_data_edges any_edge (snd st) i) (\<lambda>es.
         rbind (of_opt Undefined_behaviour (input_part n)) (\<lambda>f.
           if input_requires_grad f \<and> training (snd st) then Inr False
           else if length us = 1 then
             rbind (is_consteval_capable_op False st (hd us)) (\<lambda>b.
               if b then has_one_operand (snd st) (hd us) else Inr False)
           else
             rbind (allR (has_one_operand (snd st)) us) (\<lambda>unary.
               if \<not> unary then Inr False
               else
                 rbind (allR (\<lambda>e. rbind (edge_attr (fst st) (snd st) e) (\<lambda>a. Inr (tms a = []))) es) (\<lambda>plain.
                   if \<not> plain then Inr False
                   else rbind (mapR (deref (snd st)) us) same_operations))))))"

definition try_consteval_op :: "(ConstEvalRef \<Rightarrow> ConstEvalRef result) \<Rightarrow> NodeId \<Rightarrow> GS \<Rightarrow> (GS \<times> Node option) result" where
  "try_consteval_op ce i st = (case st of (w, rg) \<Rightarrow>
     rbind (is_consteval_capable_op False (w, rg) i) (\<lambda>capable.
       if \<not> capable then Inr (st, None)
       else
         rbind (data_operands rg i) (\<lambda>os.
         rbind (vec_at os 0) (\<lambda>j.
         rbind (rbind (deref rg j) as_InputNode) (\<lambda>_.
         rbind (get_consteval_graph ce j st) (\<lambda>(st1, r). promote_runtime_node ce r i st1))))))"

definition bypass_users :: "NodeId list \<Rightarrow> GS \<Rightarrow> GS result" where
  "bypass_users us st =
     foldR (\<lambda>st u. rbind (bypass_node no_callback u True st) (\<lambda>(st', _). Inr st')) st us"

text \<open>The report that is written only needs the graph to be current.\<close>

definition check_report :: "ConstEvalRef \<Rightarrow> GS \<Rightarrow> GS result" where
  "check_report r st =
     rbind (store_at (fst st) r) (\<lambda>c. rbind (get_graph c) (\<lambda>_. Inr st))"

definition try_consteval_input_no_operand_forks ::
    "(ConstEvalRef \<Rightarrow> ConstEvalRef result) \<Rightarrow> NodeId \<Rightarrow> bool \<Rightarrow> GS \<Rightarrow> (GS \<times> bool) result" where
  "try_consteval_input_no_operand_forks ce i dump st = (case st of (w, rg) \<Rightarrow>
     rbind (is_consteval_capable_input_no_operand_forks (w, rg) i) (\<lambda>capable.
       if \<not> capable then Inr (st, False)
       else
         rbind (get_consteval_graph ce i st) (\<lambda>(st1, r).
         rbind (data_users (snd st1) i) (\<lambda>us.
         rbind (vec_at us 0) (\<lambda>u.
         rbind (promote_runtime_node ce r u st1) (\<lambda>(st2, _).
         rbind (bypass_users (tl us) st2) (\<lambda>st3.
         rbind (if dump then check_report r st3 else Inr st3) (\<lambda>st4. Inr (st4, True)))))))))"
section \<open>The pass\<close>

definition is_broadcast_or_repeat :: "Node \<Rightarrow> bool" where
  "is_broadcast_or_repeat n = (case op_part n of None \<Rightarrow> False
     | Some q \<Rightarrow> op_name (node_op_type q) \<in> {''broadcast'', ''repeat'', ''repeat_interleave''})"

definition user_can_consteval :: "GS \<Rightarrow> NodeId \<Rightarrow> bool result" where
  "user_can_consteval st i =
     rbind (is_consteval_capable_op True st i) (\<lambda>b.
       if b then rbind (deref (snd st) i) (\<lambda>n. Inr (\<not> is_broadcast_or_repeat n)) else Inr False)"

definition input_can_consteval :: "GS \<Rightarrow> NodeId \<Rightarrow> bool result" where
  "input_can_consteval st i =
     rbind (deref (snd st) i) (\<lambda>n.
     rbind (of_opt Undefined_behaviour (input_part n)) (\<lambda>f.
       if has_tag ''dont_consteval'' n then Inr False
       else if input_requires_grad f \<and> training (snd st) then Inr False
       else
         tt_assert (is_consteval_capable_input_type n)
           (rbind (data_users (snd st) i) (\<lambda>us.
              if \<not> distinct us then Inr False else allR (user_can_consteval st) us))))"

text \<open>
  The input of one fork: a clone with its own constant-evaluation graph, whose input is the new node.
\<close>

definition fork_input :: "(ConstEvalRef \<Rightarrow> ConstEvalRef result) \<Rightarrow> ConstEvalRef \<Rightarrow> GS \<times> NodeId list \<Rightarrow> Edge \<Rightarrow>
    (GS \<times> NodeId list) result" where
  "fork_input ce r sn e = (case sn of ((w, rg), new) \<Rightarrow>
     rbind (store_at w r) (\<lambda>c.
     rbind (consteval_clone ce (producer_node_id e) [] c w) (\<lambda>(w1, c').
     rbind (clone_input_forking_edge (\<lambda>_. Inr (length (ceg_store w1))) e True (w1, rg)) (\<lambda>((w2, rg2), e').
       let j = producer_node_id e' in
       Inr ((store_new (c'\<lparr>ceg_runtime_input := j\<rparr>) w2, rg2), new @ [j])))))"

definition split_consteval_input_forks ::
    "(ConstEvalRef \<Rightarrow> ConstEvalRef result) \<Rightarrow> NodeId \<Rightarrow> GS \<Rightarrow> (GS \<times> NodeId list) result" where
  "split_consteval_input_forks ce i st = (case st of (w, rg) \<Rightarrow>
     rbind (rbind (deref rg i) as_InputNode) (\<lambda>_.
     rbind (input_can_consteval (w, rg) i) (\<lambda>can.
       if \<not> can then Inr (st, [])
       else
         rbind (user_data_edges any_edge rg i) (\<lambda>es.
           if length es = 1 then Inr (st, [])
           else
             rbind (get_consteval_graph ce i st) (\<lambda>(st1, r).
             rbind (foldR (fork_input ce r) (st1, []) es) (\<lambda>((w2, rg2), new).
               case new of [] \<Rightarrow> Inr ((w2, rg2), [])
               | first # _ \<Rightarrow>
                   rbind (remove_node i rg2) (\<lambda>(rg3, n).
                   rbind (update_node first (\<lambda>m. Inr (node_set_name (node_name n) m)) rg3) (\<lambda>rg4.
                     Inr ((w2, rg4), new)))))))))"

definition consteval_input :: "(ConstEvalRef \<Rightarrow> ConstEvalRef result) \<Rightarrow> NodeId \<Rightarrow> GS \<Rightarrow> (GS \<times> NodeId list) result" where
  "consteval_input ce i st = (case st of (w, rg) \<Rightarrow>
     rbind (data_users rg i) (\<lambda>us.
     tt_assert (length us = 1)
       (rbind (data_operands rg (hd us)) (\<lambda>os.
        tt_assert (i \<in> set os)
          (rbind (get_consteval_graph ce i st) (\<lambda>(st1, r).
           rbind (promote_runtime_node ce r (hd us) st1) (\<lambda>(st2, _). Inr (st2, remove1 i os))))))))"

text \<open>One input taken from the end of the work list.\<close>

definition consteval_visit ::
    "(ConstEvalRef \<Rightarrow> ConstEvalRef result) \<Rightarrow> NodeId list \<Rightarrow> NodeId \<Rightarrow> GS \<Rightarrow> (GS \<times> NodeId list) result" where
  "consteval_visit ce todo i st =
     rbind (try_consteval_input_no_operand_forks ce i True st) (\<lambda>(st1, done).
       if done then Inr (st1, todo @ [i])
       else
         rbind (input_can_consteval st1 i) (\<lambda>can.
         rbind (if can then rbind (data_users (snd st1) i) (\<lambda>us. Inr (length us = 1)) else Inr False) (\<lambda>one.
           if one then
             rbind (consteval_input ce i st1) (\<lambda>(st2, removed).
               Inr (st2, foldl (\<lambda>xs x. remove1 x xs) (todo @ [i]) removed))
           else
             rbind (split_consteval_input_forks ce i st1) (\<lambda>(st2, new). Inr (st2, todo @ new)))))"

fun consteval_loop :: "nat \<Rightarrow> (ConstEvalRef \<Rightarrow> ConstEvalRef result) \<Rightarrow> NodeId list \<Rightarrow> GS \<Rightarrow> GS result" where
  "consteval_loop 0 ce todo st = Inl Out_of_fuel"
| "consteval_loop (Suc k) ce todo st =
     (if todo = [] then Inr st
      else rbind (consteval_visit ce (butlast todo) (last todo) st) (\<lambda>(st', todo'). consteval_loop k ce todo' st'))"

definition capable_inputs :: "GS \<Rightarrow> NodeId list result" where
  "capable_inputs st = (case st of (w, g) \<Rightarrow>
     topological_sort (length (nodes_order g)) (length (nodes_order g))
       (\<lambda>i. case map_of (nodes_map g) i of None \<Rightarrow> False | Some n \<Rightarrow> is_consteval_capable_input_type n) False w g)"

definition run_consteval_graph_pass ::
    "nat \<Rightarrow> (ConstEvalRef \<Rightarrow> ConstEvalRef result) \<Rightarrow> GS \<Rightarrow> GS result" where
  "run_consteval_graph_pass fuel ce st = (case st of (w, rg) \<Rightarrow>
     rbind (capable_inputs (w, rg)) (\<lambda>todo.
     rbind (consteval_loop fuel ce todo st) (\<lambda>st1.
     rbind (capable_inputs st1) (\<lambda>is.
       foldR (\<lambda>s i. rbind (rbind (deref (snd s) i) as_InputNode) (\<lambda>f.
         case consteval_graph f of None \<Rightarrow> Inr s | Some r \<Rightarrow> check_report r s)) st1 is))))"

section \<open>Queries of \<open>utils.cpp\<close> on inputs, queues and recomputed operations\<close>

text \<open>The part of a name after its last dot.\<close>

definition name_suffix :: "string \<Rightarrow> string result" where
  "name_suffix s = tt_assert (CHR ''.'' \<in> set s) (Inr (rev (takeWhile (\<lambda>c. c \<noteq> CHR ''.'') (rev s))))"

definition get_optimizer_param_info :: "Graph \<Rightarrow> NodeId \<Rightarrow> (NodeId \<times> string) list result" where
  "get_optimizer_param_info g i =
     rbind (user_edges any_edge g i) (\<lambda>es.
       foldR (\<lambda>ret e.
         if edge_type e \<noteq> kAutogradFwdToOptimizer then Inr ret
         else rbind (node_by_id g (consumer_node_id e)) (\<lambda>n.
           if node_type n \<noteq> kInput then Inr ret
           else rbind (as_InputNode n) (\<lambda>f.
             if input_type f \<noteq> In_OptimizerParameter then Inr ret
             else rbind (name_suffix (node_name n)) (\<lambda>k. Inr (ret @ [(consumer_node_id e, k)]))))) [] es)"

definition is_recompute :: "Graph \<Rightarrow> NodeId \<Rightarrow> bool result" where
  "is_recompute g i =
     rbind (operand_edges any_edge g i) (\<lambda>es. Inr (list_ex (\<lambda>e. edge_type e = kAutogradFwdToRecompute) es))"

definition get_fwd_from_recompute :: "Graph \<Rightarrow> NodeId \<Rightarrow> NodeId option result" where
  "get_fwd_from_recompute g i =
     rbind (operand_edges any_edge g i) (\<lambda>es.
       case filter (\<lambda>e. edge_type e = kAutogradFwdToRecompute) es of
         [] \<Rightarrow> Inr None
       | e # _ \<Rightarrow> rbind (node_of g (producer_node_id e)) (\<lambda>j. Inr (Some j)))"

definition retrieve_between_edge :: "Graph \<Rightarrow> NodeId \<Rightarrow> NodeId \<Rightarrow> Edge result" where
  "retrieve_between_edge g producer consumer =
     rbind (user_data_edges any_edge g producer) (\<lambda>es.
       case filter (\<lambda>e. consumer_node_id e = consumer) es of [] \<Rightarrow> Inl Assert_failed | e # _ \<Rightarrow> Inr e)"

definition are_bcasts_between_ops :: "GS \<Rightarrow> NodeId \<Rightarrow> NodeId \<Rightarrow> bool result" where
  "are_bcasts_between_ops st producer consumer =
     rbind (retrieve_between_edge (snd st) producer consumer) (\<lambda>e.
     rbind (edge_attr (fst st) (snd st) e) (\<lambda>a. Inr (has_broadcast_dims a)))"

definition is_link_edge :: "Edge \<Rightarrow> bool" where
  "is_link_edge e \<longleftrightarrow> edge_type e = kPartialDataCopy \<or> edge_type e = kSubgraphLink"

definition is_linked_queue :: "Graph \<Rightarrow> NodeId \<Rightarrow> bool result" where
  "is_linked_queue g i =
     rbind (deref g i) (\<lambda>n.
     rbind (if node_type n = kOutput then rbind (user_edges is_link_edge g i) (\<lambda>es. Inr (es \<noteq> []))
            else Inr False) (\<lambda>output_link.
     rbind (if node_type n = kInput then rbind (operand_edges is_link_edge g i) (\<lambda>es. Inr (es \<noteq> []))
            else Inr False) (\<lambda>input_link. Inr (output_link \<or> input_link))))"

definition is_input_host_queue :: "bool \<Rightarrow> Graph \<Rightarrow> NodeId \<Rightarrow> bool result" where
  "is_input_host_queue on_host g i =
     (if \<not> on_host then Inr False
      else rbind (deref g i) (\<lambda>n.
           rbind (as_QueueNode n) (\<lambda>q.
             if queue_type q \<noteq> Queue_Input then Inr False
             else rbind (as_InputNode n) (\<lambda>f.
               if input_type f = In_Activation \<or> input_type f = In_Loss
               then rbind (is_linked_queue g i) (\<lambda>b. Inr (\<not> b)) else Inr False))))"

definition is_output_host_queue :: "bool \<Rightarrow> Graph \<Rightarrow> NodeId \<Rightarrow> bool result" where
  "is_output_host_queue on_host g i =
     (if \<not> on_host then Inr False
      else rbind (deref g i) (\<lambda>n.
        if node_type n \<noteq> kOutput then Inr False
        else rbind (as_OutputNode n) (\<lambda>q.
          if \<not> untilize q then Inr False else rbind (is_linked_queue g i) (\<lambda>b. Inr (\<not> b)))))"

end
