(* ===== verification/Consteval_Laws.thy ===== *)
theory Consteval_Laws
  imports Consteval Precision_Laws
begin

text \<open>
  What a constant evaluation graph guarantees (\<open>graph_lib/utils.cpp\<close>, \<open>passes/consteval.cpp\<close>).
  The invariant \<open>consteval_ok\<close> ties the two graphs together: the runtime graph and the graph of the
  input are well formed, exactly one node feeds the output, and that node, the output and the runtime
  input have the same shape and format. The constructor establishes it, every promotion keeps it,
  the padding of the output computes the padded shape, and promoting an operation of the runtime
  graph removes it there, appends it here and leaves the operation's users fed by the input.
\<close>

declare map_of_eq_Some_iff [simp del] Some_eq_map_of_iff [simp del] split_paired_All [simp del]
  split_paired_Ex [simp del]

section \<open>Both graphs under a changing world\<close>

text \<open>Counters go up and attribute objects are added, none is changed.\<close>

definition later :: "World \<Rightarrow> World \<Rightarrow> bool" where
  "later w w' \<longleftrightarrow> last_node_id_assigned w \<le> last_node_id_assigned w' \<and>
     last_edge_creation_id w \<le> last_edge_creation_id w' \<and> take (length (attr_store w)) (attr_store w') = attr_store w \<and>
     ceg_store w' = ceg_store w"

lemma later_refl [simp, intro]: "later w w"
  by (simp add: later_def)

lemma later_length: "later w w' \<Longrightarrow> length (attr_store w) \<le> length (attr_store w')"
  by (auto simp: later_def dest!: arg_cong [where f = length])

lemma later_trans [trans]: "later w w' \<Longrightarrow> later w' w'' \<Longrightarrow> later w w''"
  using later_length [of w w'] by (simp add: later_def) (metis min.absorb1 take_take)

lemma later_wf: "graph_wf w g \<Longrightarrow> later w w' \<Longrightarrow> graph_wf w' g"
  by (rule world_wf, assumption) (use later_length in \<open>simp_all add: later_def\<close>)

lemma later_attr_at:
  assumes "later w w'" "graph_wf w g"
  shows "attr_at (w', g) = attr_at (w, g)"
proof
  fix u
  have "attr_store w' ! r = attr_store w ! r" if "r < length (attr_store w)" for r
    using assms(1) that nth_take [of r "length (attr_store w)" "attr_store w'"] by (simp add: later_def)
  then show "attr_at (w', g) u = attr_at (w, g) u"
    using graph_wfD(14) [OF assms(2), of u]
    by (cases "map_of (edge_to_attr_map g) u") (simp_all add: attr_at_def)
qed

lemma later_put_edge: "later (fst st) (fst (put_edge e st))"
  by (cases st) (simp add: put_edge_eq add_edge_attr_eq later_def)

lemma later_put_node: "put_node n s st = Inr (t, i) \<Longrightarrow> later (fst st) (fst t)"
  by (cases st) (auto simp: put_node_def add_node_Inr result_simps later_def)

text \<open>A new edge between two nodes.\<close>

lemma link_effect:
  assumes wf: "graph_wf (fst st) (snd st)" and ends: "p \<in> node_ids (snd st)" "q \<in> node_ids (snd st)"
    and r: "construct_edge p pp q cp ty st = (st1, e)"
  defines "t \<equiv> put_edge e st1"
  shows "keeps st t" "edge_ids (snd t) = insert (p, pp, q, cp, ty) (edge_ids (snd st))"
    "nodes_map (snd t) = nodes_map (snd st)" "later (fst st) (fst t)"
proof -
  note c = construct_edge_control_only [OF r wf]
  have wf1: "graph_wf (fst st1) (snd st1)" using control_onlyD(1) [OF c(1)] .
  have a: "addable e st1" using ends c by (simp add: addable_def)
  note p = put_edge_effect [OF wf1 a]
  show "keeps st t" unfolding t_def by (rule keeps.after [OF control_only_keeps [OF c(1)] p(1)])
  show "edge_ids (snd t) = insert (p, pp, q, cp, ty) (edge_ids (snd st))"
    using p(2) c(2,5) by (simp add: t_def)
  show "nodes_map (snd t) = nodes_map (snd st)" using p(8) c(2) by (simp add: t_def)
  have "later (fst st) (fst st1)"
    using r by (simp add: construct_edge_eq later_def) auto
  then show "later (fst st) (fst t)" unfolding t_def by (rule later_trans [OF _ later_put_edge])
qed

text \<open>The node that feeds the output is replaced.\<close>

lemma connect_output_effect:
  assumes wf: "graph_wf w (ceg_graph c)" and h: "nothing_hidden (ceg_graph c)"
    and out: "ceg_output c = Some out" "out \<in> node_ids (ceg_graph c)"
    and u: "{(p, pp, q, cp, ty) \<in> edge_ids (ceg_graph c). q = out} = {u}" "snd (snd (snd (snd u))) = kData"
    and i: "i \<in> node_ids (ceg_graph c)"
  shows "\<exists>w' g'. connect_output i (w, rg, c) = Inr ((w', rg, c\<lparr>ceg_graph := g'\<rparr>), out) \<and>
     keeps (w, ceg_graph c) (w', g') \<and> later w w' \<and> nodes_map g' = nodes_map (ceg_graph c) \<and>
     edge_ids g' = insert (i, 0, out, 0, kData) (edge_ids (ceg_graph c) - {u})"
proof -
  from sole_operand [OF wf out(2) h u] obtain e where
    e: "operand_data_edges any_edge (ceg_graph c) out = Inr [e]" "unique_id e = u"
      "e \<in> set (graph_edges (ceg_graph c))" by blast
  let ?st = "(w, ceg_graph c)"
  have wf': "graph_wf (fst ?st) (snd ?st)" using wf by simp
  have ends: "consumer_node_id e \<in> node_ids (snd ?st)" using graph_edges_ends(3) [OF wf e(3)] by simp
  have a: "attr_at ?st (unique_id e) \<noteq> None" by (rule edge_attr_some [OF wf']) (simp add: e(3))
  from drop_edge_total [OF wf' ends a] obtain t r where d: "drop_edge e ?st = Inr (t, r)" by blast
  note dr = drop_edge_effect [OF d wf' ends]
  obtain st1 e' where ce: "construct_edge i 0 out 0 kData t = (st1, e')"
    by (cases "construct_edge i 0 out 0 kData t")
  have wft: "graph_wf (fst t) (snd t)" "node_ids (snd t) = node_ids (ceg_graph c)" using keepsD(1,2) [OF dr(1)] by simp_all
  note l = link_effect [OF wft(1) _ _ ce]
  have i': "i \<in> node_ids (snd t)" "out \<in> node_ids (snd t)" using i out(2) by (simp_all only: wft(2))
  obtain w' g' where p: "put_edge e' st1 = (w', g')" by (cases "put_edge e' st1")
  obtain w1 g1 where t: "t = (w1, g1)" by (cases t)
  have "connect_output i (w, rg, c) = Inr ((w', rg, c\<lparr>ceg_graph := g'\<rparr>), out)"
    using d ce by (simp add: connect_output_def out(1) output_edge_def e(1) consteval_do_def t p)
  moreover have "keeps ?st (w', g')" using keeps.after [OF dr(1) l(1) [OF i']] by (simp add: p)
  moreover have "later w w'" using l(4) [OF i'] dr(7) by (simp add: p t)
  moreover have "nodes_map g' = nodes_map (ceg_graph c)" using l(3) [OF i'] dr(8) by (simp add: p)
  moreover have "edge_ids g' = insert (i, 0, out, 0, kData) (edge_ids (ceg_graph c) - {u})"
    using l(2) [OF i'] dr(3) e(2) by (simp add: p)
  ultimately show ?thesis by blast
qed
section \<open>What every promotion keeps\<close>

definition into :: "Graph \<Rightarrow> NodeId \<Rightarrow> EdgeUniqueId set" where
  "into g i = {(p, pp, c, cp, ty) \<in> edge_ids g. c = i}"

text \<open>Node \<open>j\<close> alone feeds the output \<open>out\<close>; it, the output and the runtime input have the same result.\<close>

definition yields :: "Graph \<Rightarrow> NodeId \<Rightarrow> NodeId \<Rightarrow> Node \<Rightarrow> bool" where
  "yields g j out r \<longleftrightarrow> into g out = {(j, 0, out, 0, kData)} \<and> j \<noteq> out \<and>
     (case map_of (nodes_map g) j of None \<Rightarrow> False | Some n \<Rightarrow>
        (case map_of (nodes_map g) out of None \<Rightarrow> False | Some m \<Rightarrow>
           result_of m = result_of n \<and> result_of r = result_of n))"

definition consteval_ok :: "CS \<Rightarrow> bool" where
  "consteval_ok s \<longleftrightarrow> (case s of (w, rg, c) \<Rightarrow>
     graph_wf w rg \<and> graph_wf w (ceg_graph c) \<and> nothing_hidden (ceg_graph c) \<and>
     (case map_of (nodes_map rg) (ceg_runtime_input c) of None \<Rightarrow> False | Some r \<Rightarrow>
        (case ceg_output c of None \<Rightarrow> False | Some out \<Rightarrow>
           (\<exists>j \<in> node_ids (ceg_graph c). yields (ceg_graph c) j out r))))"

lemma consteval_okE:
  assumes "consteval_ok (w, rg, c)"
  obtains j out n m r where "graph_wf w rg" "graph_wf w (ceg_graph c)" "nothing_hidden (ceg_graph c)"
    "map_of (nodes_map rg) (ceg_runtime_input c) = Some r" "ceg_output c = Some out" "j \<noteq> out"
    "into (ceg_graph c) out = {(j, 0, out, 0, kData)}" "map_of (nodes_map (ceg_graph c)) j = Some n"
    "map_of (nodes_map (ceg_graph c)) out = Some m" "result_of m = result_of n" "result_of r = result_of n"
  using assms that unfolding consteval_ok_def yields_def
  by (fastforce split: option.splits)

lemma consteval_okI:
  assumes "graph_wf w rg" "graph_wf w (ceg_graph c)" "nothing_hidden (ceg_graph c)"
    "map_of (nodes_map rg) (ceg_runtime_input c) = Some r" "ceg_output c = Some out" "j \<noteq> out"
    "into (ceg_graph c) out = {(j, 0, out, 0, kData)}" "map_of (nodes_map (ceg_graph c)) j = Some n"
    "map_of (nodes_map (ceg_graph c)) out = Some m" "result_of m = result_of n" "result_of r = result_of n"
  shows "consteval_ok (w, rg, c)"
proof -
  have "j \<in> node_ids (ceg_graph c)" unfolding in_node_ids using assms(8) by blast
  then show ?thesis using assms by (auto simp: consteval_ok_def yields_def)
qed

lemma give_result_Inr:
  "sh_valid (node_shape n) \<Longrightarrow> give_result n m = Inr (m\<lparr>node_shape := node_shape n, node_output_df := node_output_df n\<rparr>)"
  by (simp add: give_result_def node_set_shape_def node_set_output_df_def)

lemma result_of_given [simp]:
  "result_of (m\<lparr>node_shape := node_shape n, node_output_df := node_output_df n\<rparr>) = result_of n"
  by (simp add: result_of_def)

text \<open>The result of a node becomes that of the output and of the runtime input.\<close>

lemma update_in_graph:
  assumes "graph_wf w g" "map_of (nodes_map g) i = Some n" "f n = Inr m"
    and "node_unique_id m = node_unique_id n" "node_name m = node_name n"
  shows "\<exists>g'. on_graph (update_node i f) (w, g) = Inr (w, g') \<and> graph_wf w g' \<and>
    map_of (nodes_map g') = (map_of (nodes_map g))(i \<mapsto> m) \<and> edge_ids g' = edge_ids g \<and>
    contexts g' = contexts g \<and> graph_name g' = graph_name g \<and> edge_to_attr_map g' = edge_to_attr_map g"
  using assms set_node_wf [OF assms(1,2), of m] graph_wfD(9) [OF assms(1,2)]
  by (intro exI [of _ "set_node i m g"])
    (simp add: on_graph_def update_node_def node_by_id_def set_node_def edge_ids_def graph_edges_def contexts_def)

lemma publish_result_effect:
  assumes wf: "graph_wf w rg" "graph_wf w (ceg_graph c)"
    and n: "map_of (nodes_map (ceg_graph c)) i = Some n" "sh_valid (node_shape n)"
    and m: "map_of (nodes_map (ceg_graph c)) out = Some m" "map_of (nodes_map rg) (ceg_runtime_input c) = Some r"
  defines "give \<equiv> \<lambda>m. m\<lparr>node_shape := node_shape n, node_output_df := node_output_df n\<rparr>"
  shows "\<exists>rg' g'. publish_result i out (w, rg, c) = Inr (w, rg', c\<lparr>ceg_graph := g'\<rparr>) \<and>
    graph_wf w rg' \<and> graph_wf w g' \<and> contexts g' = contexts (ceg_graph c) \<and> edge_ids g' = edge_ids (ceg_graph c) \<and>
    edge_ids rg' = edge_ids rg \<and> contexts rg' = contexts rg \<and> edge_to_attr_map rg' = edge_to_attr_map rg \<and>
    map_of (nodes_map g') = (map_of (nodes_map (ceg_graph c)))(out \<mapsto> give m) \<and>
    map_of (nodes_map rg') = (map_of (nodes_map rg))(ceg_runtime_input c \<mapsto> give r)"
proof -
  from update_in_graph [OF wf(1) m(2), of "give_result n" "give r"] obtain rg' where
    1: "on_graph (update_node (ceg_runtime_input c) (give_result n)) (w, rg) = Inr (w, rg')" "graph_wf w rg'"
      "map_of (nodes_map rg') = (map_of (nodes_map rg))(ceg_runtime_input c \<mapsto> give r)"
      "edge_ids rg' = edge_ids rg" "contexts rg' = contexts rg" "edge_to_attr_map rg' = edge_to_attr_map rg"
    by (auto simp: give_result_Inr [OF n(2)] give_def)
  from update_in_graph [OF wf(2) m(1), of "give_result n" "give m"] obtain g' where
    2: "on_graph (update_node out (give_result n)) (w, ceg_graph c) = Inr (w, g')" "graph_wf w g'"
      "map_of (nodes_map g') = (map_of (nodes_map (ceg_graph c)))(out \<mapsto> give m)"
      "edge_ids g' = edge_ids (ceg_graph c)" "contexts g' = contexts (ceg_graph c)"
    by (auto simp: give_result_Inr [OF n(2)] give_def)
  have "deref (ceg_graph c) i = Inr n" using n(1) by (simp add: deref_def)
  then show ?thesis
    using 1 2 by (intro exI [of _ rg'] exI [of _ g']) (simp add: publish_result_def runtime_do_def consteval_do_def)
qed

lemma has_name_iff: "has_node_with_name g s \<longleftrightarrow> (\<exists>i. map_of (node_name_to_node_id g) s = Some i)"
  unfolding has_node_with_name_def using map_of_eq_None_iff [of "node_name_to_node_id g" s] by auto

lemma names_of_nodes:
  assumes "graph_wf w g"
  shows "has_node_with_name g s \<longleftrightarrow> (\<exists>i n. map_of (nodes_map g) i = Some n \<and> node_name n = s)"
  unfolding has_name_iff using graph_wfD(10,11) [OF assms] by blast

lemma add_consteval_node_effect:
  assumes wf: "graph_wf w rg" "graph_wf w (ceg_graph c)"
    and n: "\<not> has_node_with_name (ceg_graph c) (node_name n)"
  shows "\<exists>w' g' i. add_consteval_node n (w, rg, c) = Inr ((w', rg, c\<lparr>ceg_graph := g'\<rparr>), i) \<and>
    graph_wf w' rg \<and> graph_wf w' g' \<and> later w w' \<and> i \<notin> node_ids (ceg_graph c) \<and> contexts g' = contexts (ceg_graph c) \<and>
    edge_ids g' = edge_ids (ceg_graph c) \<and> graph_name g' = graph_name (ceg_graph c) \<and>
    edge_to_attr_map g' = edge_to_attr_map (ceg_graph c) \<and>
    map_of (nodes_map g') = (map_of (nodes_map (ceg_graph c)))(i \<mapsto> node_set_id i n)"
proof -
  have "map_of (node_name_to_node_id (ceg_graph c)) (node_name n) = None"
    using n by (auto simp: has_name_iff)
  with put_node_total [of "(w, ceg_graph c)" n "ceg_subgraph_id c"] wf(2) obtain t i where
    t: "put_node n (ceg_subgraph_id c) (w, ceg_graph c) = Inr (t, i)" "graph_wf (fst t) (snd t)"
      "i \<notin> node_ids (ceg_graph c)" "contexts (snd t) = contexts (ceg_graph c)"
      "edge_ids (snd t) = edge_ids (ceg_graph c)" "edge_to_attr_map (snd t) = edge_to_attr_map (ceg_graph c)"
      "map_of (nodes_map (snd t)) = (map_of (nodes_map (ceg_graph c)))(i \<mapsto> node_set_id i n)"
    by fastforce
  obtain w' g' where w: "t = (w', g')" by (cases t)
  have l: "later w w'" using later_put_node [OF t(1)] by (simp add: w)
  have gn: "graph_name g' = graph_name (ceg_graph c)"
    using t(1) by (auto simp: w put_node_def add_node_Inr result_simps)
  show ?thesis
    using gn t later_wf [OF wf(1) l] l
    by (intro exI [of _ w'] exI [of _ g'] exI [of _ i]) (simp add: add_consteval_node_def w)
qed

lemma nothing_hidden_cong: "contexts g' = contexts g \<Longrightarrow> nothing_hidden g' = nothing_hidden g"
  by (simp add: contexts_def nothing_hidden_def)

lemma output_edge_sole:
  assumes "graph_wf w (ceg_graph c)" "nothing_hidden (ceg_graph c)" "out \<in> node_ids (ceg_graph c)"
    "into (ceg_graph c) out = {(j, 0, out, 0, kData)}"
  shows "\<exists>e. output_edge c out = Inr e \<and> producer_node_id e = j \<and> producer_output_port_id e = 0 \<and>
    data_operands (ceg_graph c) out = Inr [j] \<and> j \<in> node_ids (ceg_graph c)"
proof -
  from sole_operand [OF assms(1,3,2), of "(j, 0, out, 0, kData)"] assms(4) obtain e where
    e: "operand_data_edges any_edge (ceg_graph c) out = Inr [e]" "unique_id e = (j, 0, out, 0, kData)"
      "e \<in> set (graph_edges (ceg_graph c))"
    by (auto simp: into_def)
  have j: "producer_node_id e = j" "producer_output_port_id e = 0" using e(2) by (simp_all add: unique_id_def)
  have "j \<in> node_ids (ceg_graph c)" using graph_edges_ends(4) [OF assms(1) e(3)] j(1) by simp
  then show ?thesis
    using e(1) j node_of_in [of j "ceg_graph c"]
    by (intro exI [of _ e]) (simp add: output_edge_def data_operands_def)
qed

lemma append_operation_effect:
  assumes wf: "graph_wf w (ceg_graph c)" "nothing_hidden (ceg_graph c)"
    and n: "map_of (nodes_map (ceg_graph c)) i = Some n" "op_part n \<noteq> None"
    and out: "ceg_output c = Some out" "out \<in> node_ids (ceg_graph c)" "into (ceg_graph c) out = {(j, 0, out, 0, kData)}"
  shows "\<exists>w' g'. append_operation i (w, rg, c) = Inr (w', rg, c\<lparr>ceg_graph := g'\<rparr>) \<and>
    keeps (w, ceg_graph c) (w', g') \<and> later w w' \<and> nodes_map g' = nodes_map (ceg_graph c) \<and>
    edge_ids g' = insert (j, 0, i, 0, kData) (edge_ids (ceg_graph c))"
proof -
  from output_edge_sole [OF wf out(2,3)] obtain e where
    e: "output_edge c out = Inr e" "producer_node_id e = j" "producer_output_port_id e = 0" "j \<in> node_ids (ceg_graph c)"
    by blast
  obtain st1 e' where ce: "construct_edge j 0 i 0 kData (w, ceg_graph c) = (st1, e')"
    by (cases "construct_edge j 0 i 0 kData (w, ceg_graph c)")
  have i: "i \<in> node_ids (ceg_graph c)" unfolding in_node_ids using n by blast
  have wf': "graph_wf (fst (w, ceg_graph c)) (snd (w, ceg_graph c))" using wf(1) by simp
  have ends: "j \<in> node_ids (snd (w, ceg_graph c))" "i \<in> node_ids (snd (w, ceg_graph c))" using e(4) i by simp_all
  note l = link_effect [OF wf' ends ce, unfolded fst_conv snd_conv]
  obtain w' g' where p: "put_edge e' st1 = (w', g')" by (cases "put_edge e' st1")
  have "deref (ceg_graph c) i = Inr n" using n(1) by (simp add: deref_def)
  then show ?thesis
    using e n(2) out(1) ce p l
    by (intro exI [of _ w'] exI [of _ g']) (auto simp: append_operation_def consteval_do_def)
qed

lemma node_in: "map_of (nodes_map g) i = Some n \<Longrightarrow> i \<in> node_ids g"
  unfolding in_node_ids by blast

lemma into_cong: "edge_ids g' = edge_ids g \<Longrightarrow> into g' = into g"
  by (simp add: into_def fun_eq_iff)

lemma into_insert: "edge_ids g' = insert (p, pp, c, cp, ty) (edge_ids g) \<Longrightarrow>
    into g' i = (if i = c then insert (p, pp, c, cp, ty) (into g i) else into g i)"
  by (auto simp: into_def)

lemma into_replace: "edge_ids g' = insert (p, pp, c, cp, ty) (edge_ids g - {u}) \<Longrightarrow> into g c = {u} \<Longrightarrow>
    into g' c = {(p, pp, c, cp, ty)}"
  by (auto simp: into_def)

text \<open>The node enters the graph and the runtime input stands for what fed the output.\<close>

lemma promote_begin:
  assumes ok: "consteval_ok (w, rg, c)" and n: "\<not> has_node_with_name (ceg_graph c) (node_name n)"
    and io: "ceg_output c = Some out" "into (ceg_graph c) out = {(j, 0, out, 0, kData)}"
  defines "m \<equiv> AList.update (ceg_runtime_input c) j (runtime_to_consteval_map c)"
  shows "\<exists>w1 g1 g2 i. add_consteval_node n (w, rg, c\<lparr>graph_updated_since_autograd := True\<rparr>) =
      Inr ((w1, rg, c\<lparr>graph_updated_since_autograd := True, ceg_graph := g1\<rparr>), i) \<and>
    on_graph (update_node i (\<lambda>n. Inr (set_epoch_type Epoch_Forward n))) (w1, g1) = Inr (w1, g2) \<and>
    data_operands g2 out = Inr [j] \<and> graph_wf w1 rg \<and> graph_wf w1 g2 \<and> nothing_hidden g2 \<and> later w w1 \<and>
    i \<notin> node_ids (ceg_graph c) \<and> out \<in> node_ids g2 \<and> j \<in> node_ids g2 \<and> edge_ids g2 = edge_ids (ceg_graph c) \<and>
    edge_to_attr_map g2 = edge_to_attr_map (ceg_graph c) \<and>
    map_of (nodes_map g2) = (map_of (nodes_map (ceg_graph c)))(i \<mapsto> set_epoch_type Epoch_Forward (node_set_id i n))"
proof -
  define c0 where "c0 = c\<lparr>graph_updated_since_autograd := True\<rparr>"
  from ok have o: "graph_wf w rg" "graph_wf w (ceg_graph c)" "nothing_hidden (ceg_graph c)" "out \<in> node_ids (ceg_graph c)"
    using io(1) by (auto elim!: consteval_okE dest: node_in)
  from add_consteval_node_effect [of w rg c0 n] o(1,2) n obtain w1 g1 i where
    1: "add_consteval_node n (w, rg, c0) = Inr ((w1, rg, c0\<lparr>ceg_graph := g1\<rparr>), i)" "graph_wf w1 rg" "graph_wf w1 g1"
      "later w w1" "i \<notin> node_ids (ceg_graph c)" "contexts g1 = contexts (ceg_graph c)" "edge_ids g1 = edge_ids (ceg_graph c)"
      "edge_to_attr_map g1 = edge_to_attr_map (ceg_graph c)" "map_of (nodes_map g1) = (map_of (nodes_map (ceg_graph c)))(i \<mapsto> node_set_id i n)"
    by (auto simp: c0_def)
  define ni where "ni = set_epoch_type Epoch_Forward (node_set_id i n)"
  from update_in_graph [OF 1(3), of i "node_set_id i n" "\<lambda>n. Inr (set_epoch_type Epoch_Forward n)" ni] 1(9) obtain g2 where
    2: "on_graph (update_node i (\<lambda>n. Inr (set_epoch_type Epoch_Forward n))) (w1, g1) = Inr (w1, g2)" "graph_wf w1 g2"
      "map_of (nodes_map g2) = (map_of (nodes_map g1))(i \<mapsto> ni)" "edge_ids g2 = edge_ids g1" "contexts g2 = contexts g1"
      "edge_to_attr_map g2 = edge_to_attr_map g1"
    by (auto simp: ni_def set_epoch_type_def)
  have nodes2: "map_of (nodes_map g2) = (map_of (nodes_map (ceg_graph c)))(i \<mapsto> ni)" by (simp add: 2(3) 1(9))
  have h2: "nothing_hidden g2" using nothing_hidden_cong [of g2 "ceg_graph c"] o(3) by (simp add: 2(5) 1(6))
  have out2: "out \<in> node_ids g2" using o(4) unfolding in_node_ids nodes2 by auto
  have into2: "into g2 out = {(j, 0, out, 0, kData)}" using into_cong [of g2 "ceg_graph c"] io(2) by (simp add: 2(4) 1(7))
  from output_edge_sole [of w1 "c\<lparr>ceg_graph := g2\<rparr>" out j] 2(2) h2 out2 into2
  have "data_operands g2 out = Inr [j]" "j \<in> node_ids g2" by auto
  then show ?thesis
    using 1(1,2,4,5,7,8) 2(1,2,4,6) nodes2 h2 out2 unfolding c0_def ni_def by (intro exI) (intro conjI; simp)
qed

lemma promote_finish:
  assumes wf: "graph_wf w rg" "graph_wf w (ceg_graph c)" and h: "nothing_hidden (ceg_graph c)"
    and io: "ceg_output c = Some out" "into (ceg_graph c) out = {(j, 0, out, 0, kData)}"
    and n: "map_of (nodes_map (ceg_graph c)) i = Some n" "sh_valid (node_shape n)" "i \<noteq> out"
    and m: "map_of (nodes_map (ceg_graph c)) out = Some m" "map_of (nodes_map rg) (ceg_runtime_input c) = Some r"
  defines "give \<equiv> \<lambda>m. m\<lparr>node_shape := node_shape n, node_output_df := node_output_df n\<rparr>"
  shows "\<exists>s1 w' rg' g'. connect_output i (w, rg, c) = Inr (s1, out) \<and>
    publish_result i out s1 = Inr (w', rg', c\<lparr>ceg_graph := g'\<rparr>) \<and> consteval_ok (w', rg', c\<lparr>ceg_graph := g'\<rparr>) \<and>
    later w w' \<and> edge_ids g' = insert (i, 0, out, 0, kData) (edge_ids (ceg_graph c) - {(j, 0, out, 0, kData)}) \<and>
    map_of (nodes_map g') = (map_of (nodes_map (ceg_graph c)))(out \<mapsto> give m) \<and>
    edge_ids rg' = edge_ids rg \<and> contexts rg' = contexts rg \<and> edge_to_attr_map rg' = edge_to_attr_map rg \<and>
    map_of (nodes_map rg') = (map_of (nodes_map rg))(ceg_runtime_input c \<mapsto> give r)"
proof -
  have ids: "i \<in> node_ids (ceg_graph c)" "out \<in> node_ids (ceg_graph c)" unfolding in_node_ids using n m by blast+
  from connect_output_effect [OF wf(2) h io(1) ids(2) _ _ ids(1), of "(j, 0, out, 0, kData)" rg] io(2) obtain w1 g1 where
    1: "connect_output i (w, rg, c) = Inr ((w1, rg, c\<lparr>ceg_graph := g1\<rparr>), out)" "keeps (w, ceg_graph c) (w1, g1)"
      "later w w1" "nodes_map g1 = nodes_map (ceg_graph c)"
      "edge_ids g1 = insert (i, 0, out, 0, kData) (edge_ids (ceg_graph c) - {(j, 0, out, 0, kData)})"
    by (auto simp: into_def)
  from publish_result_effect [OF later_wf [OF wf(1) 1(3)], of "c\<lparr>ceg_graph := g1\<rparr>" i n out m r] keepsD(1) [OF 1(2)]
    n m obtain rg' g' where
    2: "publish_result i out (w1, rg, c\<lparr>ceg_graph := g1\<rparr>) = Inr (w1, rg', c\<lparr>ceg_graph := g'\<rparr>)"
      "graph_wf w1 rg'" "graph_wf w1 g'" "contexts g' = contexts g1" "edge_ids g' = edge_ids g1"
      "edge_ids rg' = edge_ids rg" "contexts rg' = contexts rg" "edge_to_attr_map rg' = edge_to_attr_map rg"
      "map_of (nodes_map g') = (map_of (nodes_map (ceg_graph c)))(out \<mapsto> give m)"
      "map_of (nodes_map rg') = (map_of (nodes_map rg))(ceg_runtime_input c \<mapsto> give r)"
    by (auto simp: 1(4) give_def)
  have "nothing_hidden g'" using keepsD(3) [OF 1(2)] h nothing_hidden_cong [OF 2(4)] by simp
  then have "consteval_ok (w1, rg', c\<lparr>ceg_graph := g'\<rparr>)"
    by (intro consteval_okI [where out = out and j = i and n = n and m = "give m" and r = "give r"])
      (use 2(2,3,9,10) io(1) n into_replace [OF 1(5) io(2)] into_cong [OF 2(5)] in \<open>simp_all add: give_def\<close>)
  then show ?thesis
    using 1(1,3,5) 2(1,5-10) by (intro exI) (intro conjI; simp)
qed
text \<open>What a promotion without a runtime graph does to both graphs.\<close>

definition appended :: "CS \<Rightarrow> CS \<Rightarrow> Node \<Rightarrow> NodeId \<Rightarrow> NodeId \<Rightarrow> NodeId \<Rightarrow> bool" where
  "appended s t n i j out \<longleftrightarrow> (case s of (w, rg, c) \<Rightarrow> (case t of (w', rg', c') \<Rightarrow>
     consteval_ok t \<and> later w w' \<and> i \<notin> node_ids (ceg_graph c) \<and>
     ceg_output c = Some out \<and> into (ceg_graph c) out = {(j, 0, out, 0, kData)} \<and>
     ceg_output c' = Some out \<and> ceg_runtime_input c' = ceg_runtime_input c \<and>
     edge_ids (ceg_graph c') = edge_ids (ceg_graph c) - {(j, 0, out, 0, kData)} \<union> {(j, 0, i, 0, kData), (i, 0, out, 0, kData)} \<and>
     (\<forall>k. k \<noteq> out \<longrightarrow> map_of (nodes_map (ceg_graph c')) k =
        ((map_of (nodes_map (ceg_graph c)))(i \<mapsto> set_epoch_type Epoch_Forward (node_set_id i n))) k) \<and>
     map_option (\<lambda>m. (node_name m, epoch_type m, result_of m)) (map_of (nodes_map (ceg_graph c')) out) =
       map_option (\<lambda>m. (node_name m, epoch_type m, result_of n)) (map_of (nodes_map (ceg_graph c)) out) \<and>
     edge_ids rg' = edge_ids rg \<and>
     (\<forall>k. k \<noteq> ceg_runtime_input c \<longrightarrow> map_of (nodes_map rg') k = map_of (nodes_map rg) k) \<and>
     map_option result_of (map_of (nodes_map rg') (ceg_runtime_input c)) = Some (result_of n)))"

lemma promote_appends:
  assumes ok: "consteval_ok (w, rg, c)" and n: "op_part n \<noteq> None" "sh_valid (node_shape n)"
    "\<not> has_node_with_name (ceg_graph c) (node_name n)"
  shows "\<exists>t i j out. promote_node nested ce False None n (w, rg, c) = Inr (t, None) \<and> appended (w, rg, c) t n i j out"
proof -
  from ok obtain j out nj m r where o: "graph_wf w rg" "graph_wf w (ceg_graph c)" "nothing_hidden (ceg_graph c)"
    "map_of (nodes_map rg) (ceg_runtime_input c) = Some r" "ceg_output c = Some out" "j \<noteq> out"
    "into (ceg_graph c) out = {(j, 0, out, 0, kData)}" "map_of (nodes_map (ceg_graph c)) j = Some nj"
    "map_of (nodes_map (ceg_graph c)) out = Some m" "result_of m = result_of nj" "result_of r = result_of nj"
    by (rule consteval_okE)
  from promote_begin [OF ok n(3) o(5,7)] obtain w1 g1 g2 i where
    1: "add_consteval_node n (w, rg, c\<lparr>graph_updated_since_autograd := True\<rparr>) =
          Inr ((w1, rg, c\<lparr>graph_updated_since_autograd := True, ceg_graph := g1\<rparr>), i)"
      "on_graph (update_node i (\<lambda>n. Inr (set_epoch_type Epoch_Forward n))) (w1, g1) = Inr (w1, g2)"
      "data_operands g2 out = Inr [j]" "graph_wf w1 rg" "graph_wf w1 g2" "nothing_hidden g2" "later w w1"
      "i \<notin> node_ids (ceg_graph c)" "out \<in> node_ids g2" "j \<in> node_ids g2" "edge_ids g2 = edge_ids (ceg_graph c)"
      "map_of (nodes_map g2) = (map_of (nodes_map (ceg_graph c)))(i \<mapsto> set_epoch_type Epoch_Forward (node_set_id i n))"
    by blast
  define ni where "ni = set_epoch_type Epoch_Forward (node_set_id i n)"
  have ni: "op_part ni \<noteq> None" "sh_valid (node_shape ni)" "result_of ni = result_of n"
    using n by (simp_all add: ni_def op_part_def set_epoch_type_def node_set_id_def result_of_def)
  have io: "i \<noteq> out" "i \<noteq> j" using 1(8) node_in [OF o(9)] node_in [OF o(8)] by auto
  define c3 where "c3 = c\<lparr>graph_updated_since_autograd := True, ceg_graph := g2, runtime_to_consteval_map :=
      AList.update (ceg_runtime_input c) j (runtime_to_consteval_map c)\<rparr>"
  have c3: "ceg_graph c3 = g2" "ceg_output c3 = Some out" "ceg_runtime_input c3 = ceg_runtime_input c"
    by (simp_all add: c3_def o(5))
  have into2: "into g2 out = {(j, 0, out, 0, kData)}" using into_cong [OF 1(11)] o(7) by simp
  from append_operation_effect [of w1 c3 i ni out j rg] 1(5,6,9,12) into2 ni(1) obtain w4 g4 where
    4: "append_operation i (w1, rg, c3) = Inr (w4, rg, c3\<lparr>ceg_graph := g4\<rparr>)" "keeps (w1, g2) (w4, g4)" "later w1 w4"
      "nodes_map g4 = nodes_map g2" "edge_ids g4 = insert (j, 0, i, 0, kData) (edge_ids g2)"
    by (auto simp: c3 ni_def)
  have "into g4 out = {(j, 0, out, 0, kData)}" using into_insert [OF 4(5), of out] io(1) into2 by simp
  with promote_finish [of w4 rg "c3\<lparr>ceg_graph := g4\<rparr>" out j i ni m r] later_wf [OF 1(4) 4(3)] keepsD(1,3) [OF 4(2)]
    1(6,12) 4(4) io(1) ni(2) o(4,9) obtain s1 w' rg' g' where
    5: "connect_output i (w4, rg, c3\<lparr>ceg_graph := g4\<rparr>) = Inr (s1, out)"
      "publish_result i out s1 = Inr (w', rg', c3\<lparr>ceg_graph := g'\<rparr>)" "consteval_ok (w', rg', c3\<lparr>ceg_graph := g'\<rparr>)" "later w4 w'"
      "edge_ids g' = insert (i, 0, out, 0, kData) (edge_ids g4 - {(j, 0, out, 0, kData)})"
      "map_of (nodes_map g') = (map_of (nodes_map g4))(out \<mapsto> m\<lparr>node_shape := node_shape ni, node_output_df := node_output_df ni\<rparr>)"
      "edge_ids rg' = edge_ids rg"
      "map_of (nodes_map rg') = (map_of (nodes_map rg))(ceg_runtime_input c \<mapsto> r\<lparr>node_shape := node_shape ni, node_output_df := node_output_df ni\<rparr>)"
    by (auto simp: c3 ni_def)
  have "promote_node nested ce False None n (w, rg, c) = Inr ((w', rg', c3\<lparr>ceg_graph := g'\<rparr>), None)"
    using 1(1-3) 4(1) 5(1,2) by (simp add: promote_node_def consteval_do_def map_input_to_output_def o(5) c3_def)
  moreover have "appended (w, rg, c) (w', rg', c3\<lparr>ceg_graph := g'\<rparr>) n i j out"
    unfolding appended_def prod.case c3
  proof (intro conjI allI impI)
    show "later w w'" using later_trans [OF 1(7) later_trans [OF 4(3) 5(4)]] .
    show "edge_ids (ceg_graph (c3\<lparr>ceg_graph := g'\<rparr>)) = edge_ids (ceg_graph c) - {(j, 0, out, 0, kData)} \<union>
        {(j, 0, i, 0, kData), (i, 0, out, 0, kData)}" using io by (auto simp: 5(5) 4(5) 1(11))
  qed (use 5(3,6-8) 4(4) 1(8,12) o(5,7,9) io c3(2,3) ni(3) in
     \<open>simp_all add: ni_def result_of_def set_epoch_type_def node_set_id_def\<close>)
  ultimately show ?thesis by blast
qed
section \<open>Padding the output\<close>

lemma align_up_tile_u32_aligned: "align_up_tile_u32 x mod 32 = 0"
proof -
  define e :: u32 where "e = x - 1"
  have le: "e mod 32 \<le> e" by (simp add: word_le_nat_alt unat_mod)
  have "unat (e - e mod 32) = unat e div 32 * 32"
    unfolding unat_sub [OF le] by (simp add: unat_mod minus_mod_eq_div_mult)
  then have "unat (e - e mod 32 + 32) mod 32 = 0"
    by (simp add: unat_word_ariths(1) mod_mod_cancel)
  then have "unat ((e - e mod 32 + 32) mod 32) = 0" by (simp add: unat_mod)
  then show ?thesis unfolding align_up_tile_u32_def Let_def e_def by (simp only: unat_eq_zero)
qed

definition pad_name :: "string \<Rightarrow> string \<Rightarrow> int \<Rightarrow> string" where
  "pad_name name_prefix name d = name_prefix @ ''_pad_tile_'' @ (if d = -1 then ''c_'' else ''r_'') @ name"

lemma pad_tile_known: "\<exists>t. mk_OpType ''pad_tile'' as [] = Inr t"
proof -
  have "\<exists>t. op_type_of_name ''pad_tile'' = Inr t" by (rule exI, code_simp)
  then show ?thesis by (auto simp: mk_OpType_def)
qed

text \<open>The state while dimensions are padded: the output has its name and format and the shape so far.\<close>

definition padding :: "NodeId \<Rightarrow> string \<Rightarrow> DataFormat \<Rightarrow> CS \<Rightarrow> Shape \<Rightarrow> bool" where
  "padding out name df s shape \<longleftrightarrow> consteval_ok s \<and> ceg_output (snd (snd s)) = Some out \<and> sh_valid shape \<and>
     map_option (\<lambda>m. (node_name m, result_of m)) (map_of (nodes_map (ceg_graph (snd (snd s)))) out) = Some (name, shape, df)"

lemma appended_names:
  assumes a: "appended (w, rg, c) (w', rg', c') n i j out" and ok: "consteval_ok (w, rg, c)"
  shows "has_node_with_name (ceg_graph c') x \<longleftrightarrow> has_node_with_name (ceg_graph c) x \<or> x = node_name n"
proof -
  let ?m = "map_of (nodes_map (ceg_graph c))" and ?m' = "map_of (nodes_map (ceg_graph c'))"
  from ok a have wf: "graph_wf w (ceg_graph c)" "graph_wf w' (ceg_graph c')" "out \<in> node_ids (ceg_graph c)"
    by (auto simp: appended_def elim!: consteval_okE dest: node_in)
  have o: "map_option node_name (?m' out) = map_option node_name (?m out)"
    using a by (cases "?m' out"; cases "?m out") (auto simp: appended_def)
  have "i \<notin> node_ids (ceg_graph c)" using a by (simp add: appended_def)
  then have i: "?m i = None" "i \<noteq> out" using wf(3) unfolding in_node_ids by auto
  have k: "?m' k = (?m(i \<mapsto> set_epoch_type Epoch_Forward (node_set_id i n))) k" if "k \<noteq> out" for k
    using a that by (simp add: appended_def)
  have "(\<exists>k. map_option node_name (?m' k) = Some x) \<longleftrightarrow> (\<exists>k. map_option node_name (?m k) = Some x) \<or> x = node_name n"
  proof -
    have "map_option node_name (?m' k) = (if k = i then Some (node_name n) else map_option node_name (?m k))" for k
      using o k [of k] i by (cases "k = out") (simp_all add: set_epoch_type_def node_set_id_def)
    then show ?thesis using i by (auto split: if_splits) (metis option.map_disc_iff option.distinct(1))
  qed
  then show ?thesis by (simp add: names_of_nodes [OF wf(1)] names_of_nodes [OF wf(2)])
qed

lemma pad_dim_effect:
  assumes p: "padding out name df s shape" and x: "shape_at shape d = Inr x"
    and fresh: "\<not> has_node_with_name (ceg_graph (snd (snd s))) (pad_name pre name d)"
  defines "shape' \<equiv> if x mod 32 = 0 then shape
      else shape\<lparr>sh_dims := (sh_dims shape)[nat (positive_index shape d) := align_up_tile_u32 x]\<rparr>"
  shows "\<exists>s'. pad_dim ce pre out (s, shape) d = Inr (s', shape') \<and> padding out name df s' shape' \<and>
    (\<forall>y. has_node_with_name (ceg_graph (snd (snd s'))) y \<longrightarrow>
       has_node_with_name (ceg_graph (snd (snd s))) y \<or> y = pad_name pre name d)"
proof (cases "x mod 32 = 0")
  case True
  then show ?thesis using p x by (simp add: pad_dim_def shape'_def)
next
  case False
  obtain w rg c where s: "s = (w, rg, c)" by (cases s)
  from p obtain m where m: "map_of (nodes_map (ceg_graph c)) out = Some m" "node_name m = name" "node_shape m = shape"
      "node_output_df m = df" "consteval_ok (w, rg, c)" "ceg_output c = Some out" "sh_valid shape"
    by (auto simp: padding_def s result_of_def)
  obtain t where t: "mk_OpType ''pad_tile'' [AInt d, AInt (sint x)] [] = Inr t" using pad_tile_known by blast
  define n where "n = (set_epoch_type (epoch_type m) (node_set_output_df df (mk_PyOpNode (pad_name pre name d) t)))\<lparr>node_shape := shape'\<rparr>"
  have v: "sh_valid shape'" using m(7) by (simp add: shape'_def)
  have n: "op_part n \<noteq> None" "sh_valid (node_shape n)" "node_name n = pad_name pre name d" "result_of n = (shape', df)"
    using v by (simp_all add: n_def op_part_def set_epoch_type_def node_set_output_df_def mk_PyOpNode_def base_node_def result_of_def)
  from promote_appends [OF m(5) n(1,2)] fresh n(3) obtain s' i j out' where
    a: "promote_node (\<lambda>_. Inl Undefined_behaviour) ce False None n (w, rg, c) = Inr (s', None)"
      "appended (w, rg, c) s' n i j out'"
    by (metis s snd_conv)
  obtain w' rg' c' where s': "s' = (w', rg', c')" by (cases s')
  have o: "out' = out" using a(2) m(6) by (simp add: appended_def s')
  have "pad_dim ce pre out (s, shape) d = Inr (s', shape')"
    using False x t m(1,2,4) a(1) v
    by (simp add: pad_dim_def s deref_def set_dim_def shape'_def node_set_shape_def n_def pad_name_def)
  moreover have "padding out name df s' shape'"
    using a(2) m(1,2) n(4) v by (auto simp: padding_def appended_def s' o)
  moreover have "has_node_with_name (ceg_graph c') y \<Longrightarrow> has_node_with_name (ceg_graph c) y \<or> y = pad_name pre name d" for y
    using appended_names [OF a(2) [unfolded s'] m(5)] n(3) by simp
  ultimately show ?thesis by (auto simp: s s')
qed
definition tile_up :: "u32 \<Rightarrow> u32" where
  "tile_up x = (if x mod 32 = 0 then x else align_up_tile_u32 x)"

lemma tile_up_aligned [simp]: "tile_up x mod 32 = 0"
  by (simp add: tile_up_def align_up_tile_u32_aligned)

lemma shape_at_end:
  "sh_valid s \<Longrightarrow> k < length (sh_dims s) \<Longrightarrow>
     shape_at s (- 1 - int k) = Inr (sh_dims s ! (length (sh_dims s) - 1 - k)) \<and>
     nat (positive_index s (- 1 - int k)) = length (sh_dims s) - 1 - k"
  by (auto simp: shape_at_def positive_index_def shape_size_def Let_def nat_diff_distrib' algebra_simps
      intro!: arg_cong2 [where f = nth])

definition pad_shape :: "Shape \<Rightarrow> nat \<Rightarrow> Shape" where
  "pad_shape s i = s\<lparr>sh_dims := (sh_dims s)[i := tile_up (sh_dims s ! i)]\<rparr>"

lemma pad_from_end:
  assumes p: "padding out name df s shape" and k: "k < length (sh_dims shape)"
    and fresh: "\<not> has_node_with_name (ceg_graph (snd (snd s))) (pad_name pre name (- 1 - int k))"
  shows "\<exists>s'. pad_dim ce pre out (s, shape) (- 1 - int k) = Inr (s', pad_shape shape (length (sh_dims shape) - 1 - k)) \<and>
    padding out name df s' (pad_shape shape (length (sh_dims shape) - 1 - k)) \<and>
    (\<forall>y. has_node_with_name (ceg_graph (snd (snd s'))) y \<longrightarrow>
       has_node_with_name (ceg_graph (snd (snd s))) y \<or> y = pad_name pre name (- 1 - int k))"
proof -
  have v: "sh_valid shape" using p by (simp add: padding_def)
  have eq: "(if sh_dims shape ! i mod 32 = 0 then shape
      else shape\<lparr>sh_dims := (sh_dims shape)[i := align_up_tile_u32 (sh_dims shape ! i)]\<rparr>) = pad_shape shape i" for i
    by (cases shape) (simp add: pad_shape_def tile_up_def)
  show ?thesis
    using pad_dim_effect [OF p conjunct1 [OF shape_at_end [OF v k]] fresh, of ce]
    unfolding conjunct2 [OF shape_at_end [OF v k]] eq by simp
qed

lemma pad_last_two:
  assumes "2 \<le> length xs" "n = length xs - 2"
  shows "xs[Suc n := f (xs ! Suc n), n := f (xs ! n)] = take n xs @ map f (drop n xs)"
proof -
  have n: "Suc n < length xs" "length xs = Suc (Suc n)" using assms by simp_all
  have "drop n xs = [xs ! n, xs ! Suc n]"
    using n by (simp add: Cons_nth_drop_Suc [symmetric])
  then have "xs = take n xs @ [xs ! n, xs ! Suc n]" by (metis append_take_drop_id)
  moreover have "length (take n xs) = n" using n by simp
  ultimately obtain ys a b where "xs = ys @ [a, b]" "length ys = n" by blast
  then show ?thesis by (simp add: list_update_append nth_append)
qed

text \<open>C18: padding the output of a constant evaluation graph always succeeds: the last two dimensions of
  the output are rounded up to whole tiles, the others and the format are kept, and the graph still
  satisfies the invariant, so the runtime input has the padded shape as well.\<close>

theorem pad_output_correct:
  assumes "consteval_ok (w, rg, c)" "ceg_output c = Some out" "map_of (nodes_map (ceg_graph c)) out = Some m"
    and "sh_valid (node_shape m)" "2 \<le> shape_size (node_shape m)"
    and "\<not> has_node_with_name (ceg_graph c) (pad_name pre (node_name m) (-1))"
    and "\<not> has_node_with_name (ceg_graph c) (pad_name pre (node_name m) (-2))"
  shows "\<exists>w' rg' c' m'. pad_output_to_forge_dims ce pre (w, rg, c) = Inr (w', rg', c') \<and> consteval_ok (w', rg', c') \<and>
    ceg_output c' = Some out \<and> map_of (nodes_map (ceg_graph c')) out = Some m' \<and> node_output_df m' = node_output_df m \<and>
    (let ds = sh_dims (node_shape m); n = length ds - 2 in
       sh_dims (node_shape m') = take n ds @ map tile_up (drop n ds))"
proof -
  define ds where "ds = sh_dims (node_shape m)"
  have l: "2 \<le> length ds" using assms(5) by (simp add: ds_def shape_size_def)
  have p: "padding out (node_name m) (node_output_df m) (w, rg, c) (node_shape m)"
    using assms(1-4) by (simp add: padding_def result_of_def)
  have k: "0 < length (sh_dims (node_shape m))" using l unfolding ds_def by linarith
  from pad_from_end [OF p k, of pre ce] assms(6) obtain s1 where
    1: "pad_dim ce pre out ((w, rg, c), node_shape m) (-1) = Inr (s1, pad_shape (node_shape m) (length ds - 1))"
      "padding out (node_name m) (node_output_df m) s1 (pad_shape (node_shape m) (length ds - 1))"
      "\<And>y. has_node_with_name (ceg_graph (snd (snd s1))) y \<Longrightarrow>
         has_node_with_name (ceg_graph c) y \<or> y = pad_name pre (node_name m) (-1)"
    by (auto simp: ds_def)
  have "\<not> has_node_with_name (ceg_graph (snd (snd s1))) (pad_name pre (node_name m) (-2))"
    using 1(3) assms(7) by (auto simp: pad_name_def)
  with pad_from_end [OF 1(2), of 1 pre ce] l obtain s2 where
    2: "pad_dim ce pre out (s1, pad_shape (node_shape m) (length ds - 1)) (-2) =
        Inr (s2, pad_shape (pad_shape (node_shape m) (length ds - 1)) (length ds - 2))"
      "padding out (node_name m) (node_output_df m) s2 (pad_shape (pad_shape (node_shape m) (length ds - 1)) (length ds - 2))"
    by (auto simp: ds_def pad_shape_def numeral_2_eq_2)
  obtain w' rg' c' where s2: "s2 = (w', rg', c')" by (cases s2)
  have "pad_output_to_forge_dims ce pre (w, rg, c) = Inr s2"
    using 1(1) 2(1) assms(2,3) by (simp add: pad_output_to_forge_dims_def deref_def)
  moreover from 2(2) obtain m' where m': "map_of (nodes_map (ceg_graph c')) out = Some m'" "consteval_ok (w', rg', c')"
    "ceg_output c' = Some out" "node_output_df m' = node_output_df m"
    "node_shape m' = pad_shape (pad_shape (node_shape m) (length ds - 1)) (length ds - 2)"
    by (auto simp: padding_def s2 result_of_def)
  moreover have "sh_dims (node_shape m') = take (length ds - 2) ds @ map tile_up (drop (length ds - 2) ds)"
    using pad_last_two [OF l refl, of tile_up] l unfolding m'(5)
    by (simp add: pad_shape_def ds_def Suc_diff_Suc numeral_2_eq_2)
  ultimately show ?thesis by (auto simp: s2 Let_def ds_def)
qed
section \<open>A new graph\<close>

lemma connect_output_new:
  assumes wf: "graph_wf w rg" "graph_wf w (ceg_graph c)" and out: "ceg_output c = None"
    and nm: "\<not> has_node_with_name (ceg_graph c) (graph_name (ceg_graph c) @ ''.output'')" and i: "i \<in> node_ids (ceg_graph c)"
  shows "\<exists>w' g' out. connect_output i (w, rg, c) = Inr ((w', rg, c\<lparr>ceg_graph := g', ceg_output := Some out\<rparr>), out) \<and>
     graph_wf w' rg \<and> graph_wf w' g' \<and> later w w' \<and> contexts g' = contexts (ceg_graph c) \<and>
     out \<notin> node_ids (ceg_graph c) \<and> edge_ids g' = insert (i, 0, out, 0, kData) (edge_ids (ceg_graph c)) \<and>
     map_of (nodes_map g') = (map_of (nodes_map (ceg_graph c)))
       (out \<mapsto> node_set_id out (mk_OutputNode (graph_name (ceg_graph c) @ ''.output'')))"
proof -
  let ?o = "mk_OutputNode (graph_name (ceg_graph c) @ ''.output'')"
  have o: "node_name ?o = graph_name (ceg_graph c) @ ''.output''" by (simp add: mk_OutputNode_def base_node_def)
  from add_consteval_node_effect [OF wf, of ?o] nm o obtain w1 g1 out where
    1: "add_consteval_node ?o (w, rg, c) = Inr ((w1, rg, c\<lparr>ceg_graph := g1\<rparr>), out)" "graph_wf w1 rg" "graph_wf w1 g1"
      "later w w1" "out \<notin> node_ids (ceg_graph c)" "contexts g1 = contexts (ceg_graph c)" "edge_ids g1 = edge_ids (ceg_graph c)"
      "map_of (nodes_map g1) = (map_of (nodes_map (ceg_graph c)))(out \<mapsto> node_set_id out ?o)"
    by auto
  obtain st1 e where ce: "construct_edge i 0 out 0 kData (w1, g1) = (st1, e)"
    by (cases "construct_edge i 0 out 0 kData (w1, g1)")
  have ends: "i \<in> node_ids (snd (w1, g1))" "out \<in> node_ids (snd (w1, g1))"
    using i unfolding in_node_ids snd_conv 1(8) by auto
  have wf1: "graph_wf (fst (w1, g1)) (snd (w1, g1))" using 1(3) by simp
  note l = link_effect [OF wf1 ends ce, unfolded fst_conv snd_conv]
  obtain w' g' where p: "put_edge e st1 = (w', g')" by (cases "put_edge e st1")
  have "connect_output i (w, rg, c) = Inr ((w', rg, c\<lparr>ceg_graph := g', ceg_output := Some out\<rparr>), out)"
    using 1(1) ce p by (simp add: connect_output_def out consteval_do_def)
  then show ?thesis
    using l [unfolded p fst_conv snd_conv] keepsD(1) [OF l(1)] 1 later_trans [OF 1(4)] later_wf [OF 1(2)]
    by (intro exI [of _ w'] exI [of _ g'] exI [of _ out]) (auto simp: p keeps_def)
qed

lemma clone_input_facts:
  assumes "node_clone ce [] n = Inr n'" "node_typed n" "node_type n = kInput"
  shows "node_name n' = node_name n" "node_shape n' = node_shape n" "node_output_df n' = node_output_df n"
    "op_part n' = None"
proof -
  from node_clone_eq [OF assms(1)] obtain k where
    k: "n' = \<lparr>node_name = node_name n, node_unique_id = -1, padding_id = 0,
          node_type = node_type n', node_shape = node_shape n, epoch_type = epoch_type n,
          node_output_df = node_output_df n, hints = dedup_tags (hints n), node_cls = k\<rparr>"
      "class_type k = class_type (node_cls n)" by auto
  show "node_name n' = node_name n" "node_shape n' = node_shape n" "node_output_df n' = node_output_df n"
    by (subst k(1), simp)+
  have "node_cls n' = k" by (subst k(1), simp)
  then have "class_type (node_cls n') = Some kInput" using k(2) assms(2,3) by (simp add: node_typed_def)
  then show "op_part n' = None" by (cases "node_cls n'") (simp_all add: op_part_def class_type_def)
qed

lemma mk_consteval_effect:
  assumes wf: "graph_wf w rg" and n: "map_of (nodes_map rg) i = Some n" "node_typed n" "node_type n = kInput"
      "node_clone ce [] n = Inr n'" "sh_valid (node_shape n)" "node_name n \<noteq> nm @ ''.output''"
  shows "\<exists>w' rg' c. mk_ConstEvalGraph ce nm i True sid (-1) (w, rg) = Inr (w', rg', c) \<and>
    consteval_ok (w', rg', c) \<and> later w w' \<and> ceg_runtime_input c = i \<and> edge_ids rg' = edge_ids rg \<and>
    contexts rg' = contexts rg \<and> map_of (nodes_map rg') = map_of (nodes_map rg)"
proof -
  obtain w1 k where k: "generate_unique_graph_id w = (w1, k)" by (cases "generate_unique_graph_id w")
  have l1: "later w w1" using k by (auto simp: generate_unique_graph_id_def Let_def later_def)
  define c1 where "c1 = \<lparr>ceg_graph = mk_Graph IR_CONSTEVAL nm k, ceg_runtime_input = i, ceg_subgraph_id = sid,
     ceg_output = None, runtime_to_consteval_map = [], needs_autograd = False, ran_autograd = False,
     graph_updated_since_autograd = True\<rparr>"
  have "0 \<le> last_node_id_assigned w1" using graph_wfD(9) [OF later_wf [OF wf l1] n(1)] by linarith
  then have wf1: "graph_wf w1 rg" "graph_wf w1 (ceg_graph c1)"
    using later_wf [OF wf l1] mk_Graph_wf by (simp_all add: c1_def)
  note cl = clone_input_facts [OF n(4,2,3)]
  have "\<not> has_node_with_name (ceg_graph c1) (node_name n')" by (simp add: c1_def mk_Graph_def has_node_with_name_def)
  from add_consteval_node_effect [OF wf1 this] obtain w2 g2 j where
    2: "add_consteval_node n' (w1, rg, c1) = Inr ((w2, rg, c1\<lparr>ceg_graph := g2\<rparr>), j)" "graph_wf w2 rg" "graph_wf w2 g2"
      "later w1 w2" "contexts g2 = contexts (ceg_graph c1)" "edge_ids g2 = edge_ids (ceg_graph c1)"
      "graph_name g2 = graph_name (ceg_graph c1)"
      "map_of (nodes_map g2) = (map_of (nodes_map (ceg_graph c1)))(j \<mapsto> node_set_id j n')" by blast
  define nj where "nj = set_epoch_type Epoch_Forward (node_set_id j n')"
  have nj: "op_part nj = None" "result_of nj = result_of n" "node_name nj = node_name n" "node_shape nj = node_shape n"
    "node_output_df nj = node_output_df n"
    using cl by (simp_all add: nj_def op_part_def set_epoch_type_def node_set_id_def result_of_def)
  from update_in_graph [OF 2(3), of j "node_set_id j n'" "\<lambda>n. Inr (set_epoch_type Epoch_Forward n)" nj] 2(8) obtain g3 where
    3: "on_graph (update_node j (\<lambda>n. Inr (set_epoch_type Epoch_Forward n))) (w2, g2) = Inr (w2, g3)" "graph_wf w2 g3"
      "map_of (nodes_map g3) = [j \<mapsto> nj]" "edge_ids g3 = {}" "contexts g3 = contexts (mk_Graph IR_CONSTEVAL nm k)" "graph_name g3 = nm"
    using 2(5,6,7,8) by (auto simp: nj_def set_epoch_type_def c1_def mk_Graph_def edge_ids_def graph_edges_def)
  define c3 where "c3 = c1\<lparr>ceg_graph := g3, runtime_to_consteval_map := map_insert i j []\<rparr>"
  have c3: "ceg_graph c3 = g3" "ceg_output c3 = None" "ceg_runtime_input c3 = i" by (simp_all add: c3_def c1_def)
  have app: "append_operation j (w2, rg, c3) = Inr (w2, rg, c3)"
    using nj(1) by (simp add: append_operation_def c3 deref_def 3(3))
  have "\<not> has_node_with_name g3 (nm @ ''.output'')"
    using n(6) nj(3) by (auto simp: names_of_nodes [OF 3(2)] 3(3) split: if_splits)
  with connect_output_new [of w2 rg c3 j] 2(2) 3(2,3,6) c3 node_in [of g3 j nj] obtain w4 g4 out where
    4: "connect_output j (w2, rg, c3) = Inr ((w4, rg, c3\<lparr>ceg_graph := g4, ceg_output := Some out\<rparr>), out)"
      "graph_wf w4 rg" "graph_wf w4 g4" "later w2 w4" "contexts g4 = contexts g3" "out \<noteq> j"
      "edge_ids g4 = {(j, 0, out, 0, kData)}"
      "map_of (nodes_map g4) = [j \<mapsto> nj, out \<mapsto> node_set_id out (mk_OutputNode (nm @ ''.output''))]"
    by (auto simp: 3(4))
  define c4 where "c4 = c3\<lparr>ceg_graph := g4, ceg_output := Some out\<rparr>"
  have c4: "ceg_graph c4 = g4" "ceg_output c4 = Some out" "ceg_runtime_input c4 = i" by (simp_all add: c4_def c3)
  let ?m = "node_set_id out (mk_OutputNode (nm @ ''.output''))"
  from publish_result_effect [of w4 rg c4 j nj out ?m n] 4(2,3,6,8) n(1,5) nj(4) obtain rg' g' where
    5: "publish_result j out (w4, rg, c4) = Inr (w4, rg', c4\<lparr>ceg_graph := g'\<rparr>)" "graph_wf w4 rg'" "graph_wf w4 g'"
      "contexts g' = contexts g4" "edge_ids g' = edge_ids g4" "edge_ids rg' = edge_ids rg" "contexts rg' = contexts rg"
      "map_of (nodes_map g') = (map_of (nodes_map g4))(out \<mapsto> ?m\<lparr>node_shape := node_shape nj, node_output_df := node_output_df nj\<rparr>)"
      "map_of (nodes_map rg') = (map_of (nodes_map rg))(i \<mapsto> n\<lparr>node_shape := node_shape nj, node_output_df := node_output_df nj\<rparr>)"
    by (auto simp: c4)
  have rg': "map_of (nodes_map rg') = map_of (nodes_map rg)"
    using fun_upd_idem [of "map_of (nodes_map rg)" i "Some n"] n(1) by (simp add: 5(9) nj(4,5))
  have "nothing_hidden g'"
    using nothing_hidden_cong [of g' "mk_Graph IR_CONSTEVAL nm k"]
    by (simp add: 5(4) 4(5) 3(5) nothing_hidden_def mk_Graph_def)
  then have "consteval_ok (w4, rg', c4\<lparr>ceg_graph := g'\<rparr>)"
    using 5(2,3,5,8) 4(6-8) n(1) rg' c4(2,3) nj(2)
    by (intro consteval_okI [where out = out and j = j and n = nj and r = n and
        m = "?m\<lparr>node_shape := node_shape nj, node_output_df := node_output_df nj\<rparr>"]) (auto simp: into_def)
  moreover have "mk_ConstEvalGraph ce nm i True sid (-1) (w, rg) = Inr (w4, rg', c4\<lparr>ceg_graph := g'\<rparr>)"
    using k n(1,3,4) 2(1) 3(1) app 4(1) 5(1)
    by (simp add: mk_ConstEvalGraph_def deref_def promote_node_def consteval_do_def map_input_to_output_def
      map_runtime_node_def c1_def c3_def c4_def)
  moreover have "later w w4" using later_trans [OF l1 later_trans [OF 2(4) 4(4)]] .
  ultimately show ?thesis using 5(6,7) rg' c4(3)
    by (intro exI [of _ w4] exI [of _ rg'] exI [of _ "c4\<lparr>ceg_graph := g'\<rparr>"]) simp
qed
section \<open>Promoting an operation of the runtime graph\<close>

text \<open>The two graphs share no attribute object.\<close>

definition apart :: "Graph \<Rightarrow> Graph \<Rightarrow> bool" where
  "apart g h \<longleftrightarrow> set (map snd (edge_to_attr_map g)) \<inter> set (map snd (edge_to_attr_map h)) = {}"

lemma ref_in: "map_of m u = Some r \<Longrightarrow> r \<in> set (map snd m)"
  by (drule map_of_SomeD) force

lemma apart_refs: "apart g h \<Longrightarrow> map_of (edge_to_attr_map g) u = Some r \<Longrightarrow> map_of (edge_to_attr_map h) v \<noteq> Some r"
  using ref_in [of "edge_to_attr_map g" u r] ref_in [of "edge_to_attr_map h" v r] unfolding apart_def by blast

text \<open>An edge from an operand that is mapped: it is copied with its TMs, which the runtime edge loses.\<close>

lemma inherit_edge_mapped:
  assumes wf: "graph_wf w rg" "graph_wf w (ceg_graph c)" and apart: "apart rg (ceg_graph c)"
    and a: "attr_at (w, rg) (unique_id e) = Some a" "sole (w, rg) (unique_id e)"
    and m: "map_of (runtime_to_consteval_map c) (producer_node_id e) = Some p"
      "map_of (runtime_to_consteval_map c) (consumer_node_id e) = Some q"
    and ends: "p \<in> node_ids (ceg_graph c)" "q \<in> node_ids (ceg_graph c)"
  shows "\<exists>w' g'. inherit_edge nested ce (w, rg, c) e = Inr (w', rg, c\<lparr>ceg_graph := g'\<rparr>) \<and>
    keeps (w, ceg_graph c) (w', g') \<and> graph_wf w' rg \<and> nodes_map g' = nodes_map (ceg_graph c) \<and>
    edge_ids g' = insert (p, producer_output_port_id e, q, consumer_input_port_id e, edge_type e) (edge_ids (ceg_graph c)) \<and>
    attr_at (w', rg) = (attr_at (w, rg))(unique_id e \<mapsto> set_tms [] a)"
proof -
  obtain r where r: "map_of (edge_to_attr_map rg) (unique_id e) = Some r" "a = attr_store w ! r" "r < length (attr_store w)"
    using a(1) graph_wfD(14) [OF wf(1)] by (auto simp: attr_at_def)
  let ?pp = "producer_output_port_id e" and ?cp = "consumer_input_port_id e" and ?ty = "edge_type e"
  obtain st1 e' where ce: "construct_edge p ?pp q ?cp ?ty (w, ceg_graph c) = (st1, e')"
    by (cases "construct_edge p ?pp q ?cp ?ty (w, ceg_graph c)")
  have wf': "graph_wf (fst (w, ceg_graph c)) (snd (w, ceg_graph c))"
    "p \<in> node_ids (snd (w, ceg_graph c))" "q \<in> node_ids (snd (w, ceg_graph c))" using wf(2) ends by simp_all
  note l = link_effect [OF wf' ce, unfolded fst_conv snd_conv]
  have st1: "attr_store (fst st1) = attr_store w" "snd st1 = ceg_graph c" and ue: "unique_id e' = (p, ?pp, q, ?cp, ?ty)"
    using construct_edge_control_only [OF ce wf'(1)] by simp_all
  obtain w2 g2 where p2: "put_edge e' st1 = (w2, g2)" by (cases "put_edge e' st1")
  obtain r2 where r2: "map_of (edge_to_attr_map g2) (unique_id e') = Some r2" "r2 < length (attr_store w2)"
    "\<And>v. map_of (edge_to_attr_map rg) v \<noteq> Some r2"
  proof -
    have "\<exists>r2. map_of (edge_to_attr_map g2) (unique_id e') = Some r2 \<and> (\<forall>v. map_of (edge_to_attr_map rg) v \<noteq> Some r2)"
    proof (cases "map_of (edge_to_attr_map (ceg_graph c)) (unique_id e')")
      case None
      then have "map_of (edge_to_attr_map g2) (unique_id e') = Some (length (attr_store w))"
        using p2 st1 by (cases st1) (auto simp: put_edge_eq add_edge_attr_eq map_of_insert)
      then show ?thesis using graph_wfD(14) [OF wf(1)] by blast
    next
      case (Some r2)
      then have "map_of (edge_to_attr_map g2) (unique_id e') = Some r2"
        using p2 st1 by (cases st1) (auto simp: put_edge_eq add_edge_attr_eq map_of_insert)
      then show ?thesis using apart_refs [OF apart] Some by blast
    qed
    then show thesis using that graph_wfD(14) [OF keepsD(1) [OF l(1)], of "unique_id e'"] by (auto simp: p2)
  qed
  have only: "map_of (edge_to_attr_map rg) v = Some r \<Longrightarrow> v = unique_id e" for v
    using a(2) r(1) by (force simp: sole_def)
  have rr: "r2 \<noteq> r" using r2(3) r(1) by blast
  have store: "take (length (attr_store w)) (attr_store w2) = attr_store w" using l(4) by (simp add: p2 later_def)
  then have old: "attr_store w2 ! k = attr_store w ! k" "k < length (attr_store w2)" if "k < length (attr_store w)" for k
    using that later_length [OF l(4)] nth_take [of k "length (attr_store w)" "attr_store w2"] by (simp_all add: p2)
  define b where "b = attr_store w2 ! r2"
  define w3 where "w3 = write_attr r (set_tms [] a) (write_attr r2 (copy_from a b) w2)"
  have "inherit_edge nested ce (w, rg, c) e = Inr (w3, rg, c\<lparr>ceg_graph := g2\<rparr>)"
    using r rr m ce p2 r2 old [OF r(3)]
    by (cases st1) (simp add: inherit_edge_def get_edge_attributes_def take_operand_def Let_def consteval_do_def
      read_attr_def st1(1) [symmetric] update_edge_attr_def write_attr_def w3_def b_def)
  moreover have "keeps (w, ceg_graph c) (w3, g2)"
  proof -
    have 1: "keeps (w2, g2) (write_attr r2 (copy_from a b) w2, g2)"
      by (rule write_attr_keeps) (use keepsD(1) [OF l(1)] in \<open>simp add: p2\<close>)
    have "keeps (write_attr r2 (copy_from a b) w2, g2) (w3, g2)"
      unfolding w3_def by (rule write_attr_keeps) (use keepsD(1) [OF 1] in simp)
    with keeps.after [OF l(1) [unfolded p2] 1] show ?thesis by (rule keeps.after)
  qed
  moreover have "graph_wf w3 rg"
    by (rule world_wf [OF later_wf [OF wf(1) l(4)]]) (simp_all add: p2 w3_def write_attr_def)
  moreover have "attr_at (w3, rg) = (attr_at (w, rg))(unique_id e \<mapsto> set_tms [] a)"
  proof
    fix v
    show "attr_at (w3, rg) v = ((attr_at (w, rg))(unique_id e \<mapsto> set_tms [] a)) v"
    proof (cases "map_of (edge_to_attr_map rg) v")
      case (Some k)
      have "k < length (attr_store w)" by (rule graph_wfD(14) [OF wf(1) Some])
      moreover have "k \<noteq> r2" using r2(3) [of v] Some by simp
      moreover have "k = r \<longleftrightarrow> v = unique_id e" using only [of v] r(1) Some by auto
      ultimately have k: "k < length (attr_store w)" "k \<noteq> r2" "k = r \<longleftrightarrow> v = unique_id e" by blast+
      then show ?thesis using Some old [OF k(1)]
        by (cases "k = r") (simp_all add: attr_at_def w3_def write_attr_def)
    next
      case None
      then have "v \<noteq> unique_id e" using r(1) by auto
      then show ?thesis using None by (simp add: attr_at_def)
    qed
  qed
  ultimately show ?thesis
    using l(2,3) p2 ue by (intro exI [of _ w3] exI [of _ g2]) simp
qed

text \<open>The run of a promotion from the runtime graph up to the bypass.\<close>

lemma promote_unary_steps:
  assumes ok: "consteval_ok (w, rg, c)" and ap: "apart rg (ceg_graph c)"
    and u: "nothing_hidden rg" "u \<in> node_ids rg" "into rg u = {e}" "e = (ceg_runtime_input c, pp, u, cp, kData)"
    and a: "attr_at (w, rg) e = Some a" "sole (w, rg) e"
    and n: "sh_valid (node_shape n)" "\<not> has_node_with_name (ceg_graph c) (node_name n)"
      "map_of (runtime_to_consteval_map c) u = None" "u \<noteq> ceg_runtime_input c" and lvl: "ir_level rg = IR_TT_FORGE"
  shows "\<exists>w7 rg7 c7 i j out. promote_node nested ce True (Some u) n (w, rg, c) =
      rbind (bypass_node no_callback u True (w7, rg7)) (\<lambda>((w8, rg8), x). Inr ((w8, rg8, c7), x)) \<and>
    consteval_ok (w7, rg7, c7) \<and> i \<notin> node_ids (ceg_graph c) \<and> ceg_runtime_input c7 = ceg_runtime_input c \<and>
    ceg_output c = Some out \<and> ceg_output c7 = Some out \<and> into (ceg_graph c) out = {(j, 0, out, 0, kData)} \<and>
    edge_ids (ceg_graph c7) = edge_ids (ceg_graph c) - {(j, 0, out, 0, kData)} \<union> {(j, pp, i, cp, kData), (i, 0, out, 0, kData)} \<and>
    map_of (nodes_map (ceg_graph c7)) i = Some (set_epoch_type Epoch_Forward (node_set_id i n)) \<and>
    edge_ids rg7 = edge_ids rg \<and> contexts rg7 = contexts rg \<and> edge_to_attr_map rg7 = edge_to_attr_map rg \<and>
    node_ids rg7 = node_ids rg \<and> attr_at (w7, rg7) = (attr_at (w, rg))(e \<mapsto> set_tms [] a) \<and>
    results rg7 = (results rg)(ceg_runtime_input c \<mapsto> result_of n)"
proof -
  from ok obtain j out nj m r where o: "graph_wf w rg" "graph_wf w (ceg_graph c)" "nothing_hidden (ceg_graph c)"
    "map_of (nodes_map rg) (ceg_runtime_input c) = Some r" "ceg_output c = Some out" "j \<noteq> out"
    "into (ceg_graph c) out = {(j, 0, out, 0, kData)}" "map_of (nodes_map (ceg_graph c)) j = Some nj"
    "map_of (nodes_map (ceg_graph c)) out = Some m" "result_of m = result_of nj" "result_of r = result_of nj"
    by (rule consteval_okE)
  from promote_begin [OF ok n(2) o(5,7)] obtain w1 g1 g2 i where
    1: "add_consteval_node n (w, rg, c\<lparr>graph_updated_since_autograd := True\<rparr>) =
          Inr ((w1, rg, c\<lparr>graph_updated_since_autograd := True, ceg_graph := g1\<rparr>), i)"
      "on_graph (update_node i (\<lambda>n. Inr (set_epoch_type Epoch_Forward n))) (w1, g1) = Inr (w1, g2)"
      "data_operands g2 out = Inr [j]" "graph_wf w1 rg" "graph_wf w1 g2" "nothing_hidden g2" "later w w1"
      "i \<notin> node_ids (ceg_graph c)" "out \<in> node_ids g2" "j \<in> node_ids g2" "edge_ids g2 = edge_ids (ceg_graph c)"
      "edge_to_attr_map g2 = edge_to_attr_map (ceg_graph c)"
      "map_of (nodes_map g2) = (map_of (nodes_map (ceg_graph c)))(i \<mapsto> set_epoch_type Epoch_Forward (node_set_id i n))"
    by blast
  define ni where "ni = set_epoch_type Epoch_Forward (node_set_id i n)"
  have ni: "sh_valid (node_shape ni)" "result_of ni = result_of n"
    using n by (simp_all add: ni_def set_epoch_type_def node_set_id_def result_of_def)
  have io: "i \<noteq> out" "i \<noteq> j" using 1(8) node_in [OF o(9)] node_in [OF o(8)] by auto
  define c4 where "c4 = c\<lparr>graph_updated_since_autograd := True, ceg_graph := g2, runtime_to_consteval_map :=
      map_insert u i (AList.update (ceg_runtime_input c) j (runtime_to_consteval_map c))\<rparr>"
  have c4: "ceg_graph c4 = g2" "ceg_output c4 = Some out" "ceg_runtime_input c4 = ceg_runtime_input c"
    "map_of (runtime_to_consteval_map c4) u = Some i" "map_of (runtime_to_consteval_map c4) (ceg_runtime_input c) = Some j"
    using n(3,4) by (auto simp: c4_def o(5) map_of_insert)
  from sole_operand [OF 1(4) u(2,1), of e] u(3,4) obtain x where
    x: "operand_data_edges any_edge rg u = Inr [x]" "unique_id x = e" by (auto simp: into_def)
  have xs: "producer_node_id x = ceg_runtime_input c" "producer_output_port_id x = pp" "consumer_node_id x = u"
    "consumer_input_port_id x = cp" "edge_type x = kData" using x(2) u(4) by (simp_all add: unique_id_def)
  have i2: "i \<in> node_ids g2" using 1(13) by (intro node_in) simp
  have at1: "attr_at (w1, rg) = attr_at (w, rg)" by (rule later_attr_at [OF 1(7) o(1)])
  from inherit_edge_mapped [of w1 rg c4 x a j i nested ce] 1(4,5,10,12) i2 ap a c4 x(2) xs obtain w4 g4 where
    4: "inherit_edge nested ce (w1, rg, c4) x = Inr (w4, rg, c4\<lparr>ceg_graph := g4\<rparr>)" "keeps (w1, g2) (w4, g4)" "graph_wf w4 rg"
      "nodes_map g4 = nodes_map g2" "edge_ids g4 = insert (j, pp, i, cp, kData) (edge_ids g2)"
      "attr_at (w4, rg) = (attr_at (w, rg))(e \<mapsto> set_tms [] a)"
    by (auto simp: apart_def at1 sole_def)
  note K4 = keepsD [OF 4(2), unfolded snd_conv fst_conv]
  have h4: "nothing_hidden g4" using K4(3) 1(6) by simp
  have into4: "into g4 out = {(j, 0, out, 0, kData)}"
    using into_insert [OF 4(5)] into_cong [OF 1(11)] io(1) o(7) by simp
  define c5 where "c5 = c4\<lparr>ceg_graph := g4\<rparr>"
  have c5: "ceg_graph c5 = g4" "ceg_output c5 = Some out" "ceg_runtime_input c5 = ceg_runtime_input c"
    by (simp_all add: c5_def c4)
  have nodes4: "map_of (nodes_map g4) = (map_of (nodes_map (ceg_graph c)))(i \<mapsto> ni)" by (simp add: 4(4) 1(13) ni_def)
  from promote_finish [of w4 rg c5 out j i ni m r] 4(3) K4(1) h4 into4 o(4,9) io(1) ni(1) c5 nodes4
  obtain s6 w7 rg7 g7 where
    5: "connect_output i (w4, rg, c5) = Inr (s6, out)" "publish_result i out s6 = Inr (w7, rg7, c5\<lparr>ceg_graph := g7\<rparr>)"
      "consteval_ok (w7, rg7, c5\<lparr>ceg_graph := g7\<rparr>)" "later w4 w7"
      "edge_ids g7 = insert (i, 0, out, 0, kData) (edge_ids g4 - {(j, 0, out, 0, kData)})"
      "map_of (nodes_map g7) = (map_of (nodes_map g4))(out \<mapsto> m\<lparr>node_shape := node_shape ni, node_output_df := node_output_df ni\<rparr>)"
      "edge_ids rg7 = edge_ids rg" "contexts rg7 = contexts rg" "edge_to_attr_map rg7 = edge_to_attr_map rg"
      "map_of (nodes_map rg7) = (map_of (nodes_map rg))
         (ceg_runtime_input c \<mapsto> r\<lparr>node_shape := node_shape ni, node_output_df := node_output_df ni\<rparr>)"
    by auto
  define c7 where "c7 = c5\<lparr>ceg_graph := g7\<rparr>"
  have ids7: "node_ids rg7 = node_ids rg" unfolding set_eq_iff in_node_ids 5(10) using o(4) by auto
  from consteval_okE [OF 5(3)] have wf7: "graph_wf w7 rg7" by metis
  have h7: "nothing_hidden rg7" using nothing_hidden_cong [OF 5(8)] u(1) by simp
  have u7: "u \<in> node_ids rg7" "into rg7 u = {e}" using u(2,3) into_cong [OF 5(7)] by (simp_all only: ids7)
  from sole_operand [OF wf7 u7(1) h7, of e] u7(2) u(4) obtain y where
    y: "operand_data_edges any_edge rg7 u = Inr [y]" by (auto simp: into_def)
  have at7: "attr_at (w7, rg7) = attr_at (w4, rg)"
    using later_attr_at [OF 5(4) 4(3)] by (simp add: attr_at_def 5(9) fun_eq_iff)
  have res7: "results rg7 = (results rg)(ceg_runtime_input c \<mapsto> result_of n)"
    using ni(2) by (auto simp: fun_eq_iff 5(10) result_of_given)
  have run: "promote_node nested ce True (Some u) n (w, rg, c) =
      rbind (bypass_node no_callback u True (w7, rg7)) (\<lambda>((w8, rg8), x). Inr ((w8, rg8, c7), x))"
    using 1(1-3) x(1) 4(1) 5(1,2) y o(5) lvl
    by (simp add: promote_node_def consteval_do_def map_input_to_output_def map_runtime_node_def c4_def c5_def c7_def)
  have c7: "ceg_runtime_input c7 = ceg_runtime_input c" "ceg_output c7 = Some out" "ceg_graph c7 = g7"
    by (simp_all add: c7_def c5)
  have e7: "edge_ids g7 = edge_ids (ceg_graph c) - {(j, 0, out, 0, kData)} \<union> {(j, pp, i, cp, kData), (i, 0, out, 0, kData)}"
    unfolding 5(5) 4(5) 1(11) using io(1) by auto
  have n7: "map_of (nodes_map g7) i = Some ni" using io(1) by (simp add: 5(6) nodes4)
  have "consteval_ok (w7, rg7, c7)" using 5(3) by (simp only: c7_def)
  then show ?thesis
    using run 5(7,8,9) 1(8) c7 o(5,7) e7 n7 ids7 4(6) res7
    by - (rule exI [of _ w7], rule exI [of _ rg7], rule exI [of _ c7], rule exI [of _ i], rule exI [of _ j],
      rule exI [of _ out], intro conjI, simp_all only: ni_def at7 not_False_eq_True)
qed
section \<open>The world only grows\<close>

definition world_le :: "World \<Rightarrow> World \<Rightarrow> bool" where
  "world_le w w' \<longleftrightarrow> last_node_id_assigned w \<le> last_node_id_assigned w' \<and>
     last_edge_creation_id w \<le> last_edge_creation_id w' \<and> length (attr_store w) \<le> length (attr_store w')"

definition grows :: "GS \<Rightarrow> GS \<Rightarrow> bool" where
  "grows s t \<longleftrightarrow> world_le (fst s) (fst t)"

interpretation grows: state_change grows
  by unfold_locales (auto simp: grows_def world_le_def)

named_theorems grow_intros

lemma grows_refl [simp, grow_intros]: "grows s s"
  by (simp add: grows_def world_le_def)

lemma grows_wf: "graph_wf w g \<Longrightarrow> grows (w, h) (w', h') \<Longrightarrow> graph_wf w' g"
  unfolding grows_def world_le_def by (auto intro: world_wf)

lemma put_edge_grows [grow_intros]: "grows s (put_edge e s)"
  by (simp add: put_edge_eq add_edge_attr_eq grows_def world_le_def)

lemma construct_edge_grows [grow_intros]: "construct_edge p pp c cp ty s = (t, e) \<Longrightarrow> grows s t"
  by (auto simp: construct_edge_eq grows_def world_le_def)

lemma connect_nodes_grows [grow_intros]: "connect_nodes p c ty s = Inr t \<Longrightarrow> grows s t"
  by (cases s) (auto simp: connect_nodes_def add_edge_nodes_def add_edge_ports_def new_edge_def make_edge_def
    result_simps put_edge_eq add_edge_def add_edge_attr_eq grows_def world_le_def Let_def)

lemma update_edge_attr_grows [grow_intros]: "update_edge_attr f e s = Inr t \<Longrightarrow> grows s t"
  by (cases s) (auto simp: update_edge_attr_def result_simps write_attr_def grows_def world_le_def)

lemma bridge_edge_grows: "bridge_edge src ts user a s = Inr (t, e) \<Longrightarrow> grows s t"
  unfolding bridge_edge_def
  by (cases "construct_edge (producer_node_id src) (producer_output_port_id src) (consumer_node_id user)
      (consumer_input_port_id user) (edge_type user) s")
    (auto simp: result_simps intro: grows.after [OF construct_edge_grows]
      grows.after [OF put_edge_grows update_edge_attr_grows])

lemma link_grows: "(case construct_edge p pp c cp ty s of (s', e) \<Rightarrow> Inr (put_edge e s')) = Inr t \<Longrightarrow> grows s t"
  by (cases "construct_edge p pp c cp ty s") (auto intro: grows.after [OF construct_edge_grows put_edge_grows])

lemma spread_control_edge_grows [grow_intros]: "spread_control_edge i s e = Inr t \<Longrightarrow> grows s t"
  unfolding spread_control_edge_def by (auto simp: result_simps intro: grows.loop link_grows)

lemma handle_edge_grows:
  "handle_operand_edge ep i p s e = Inr t \<Longrightarrow> grows s t" "handle_user_edge ep p s e = Inr t \<Longrightarrow> grows s t"
  by (auto simp: handle_operand_edge_def handle_user_edge_def split: NodeEpochType.splits if_splits intro: grow_intros)

lemma handle_control_edges_grows:
  assumes "handle_control_edges_when_removing_node i s = Inr t"
  shows "grows s t"
proof -
  from assms obtain ds where ds: "operand_data_edges any_edge (snd s) i = Inr ds"
    by (auto simp: handle_control_edges_when_removing_node_def result_simps)
  with assms obtain d where "ds = [d]"
    by (cases ds; cases "tl ds") (auto simp: handle_control_edges_when_removing_node_def)
  with assms ds obtain ep os us s1 where "foldR (handle_operand_edge ep i (producer_node_id d)) s os = Inr s1"
    "foldR (handle_user_edge ep (producer_node_id d)) s1 us = Inr t"
    by (auto simp: handle_control_edges_when_removing_node_def result_simps)
  then have "grows s s1" "grows s1 t" by (auto intro: grows.loop handle_edge_grows)
  then show ?thesis by (rule grows.after)
qed

lemma on_graph_grows: "on_graph f s = Inr t \<Longrightarrow> grows s t"
  by (cases s) (auto simp: on_graph_def result_simps grows_def world_le_def)

lemma pass_on_gradient_grows: "pass_on_gradient i p s = Inr t \<Longrightarrow> grows s t"
  by (auto simp: pass_on_gradient_def result_simps split: if_splits intro: on_graph_grows)

lemma drop_node_grows: "drop_node i s = Inr (t, n) \<Longrightarrow> grows s t"
  by (cases s) (auto simp: drop_node_def result_simps grows_def world_le_def)

lemma bypass_user_edge_grows: "bypass_user_edge no_callback src ts s u = Inr t \<Longrightarrow> grows s t"
  by (auto simp: bypass_user_edge_def no_callback_def result_simps intro: bridge_edge_grows)

lemma bypass_node_grows:
  assumes "bypass_node no_callback i b s = Inr (t, n)"
  shows "grows s t"
proof -
  from assms obtain src ts us s1 s2 s3 where 1: "foldR (bypass_user_edge no_callback src ts) s us = Inr s1"
    "handle_control_edges_when_removing_node i s1 = Inr s2" "pass_on_gradient i (producer_node_id src) s2 = Inr s3"
    "s3 = t \<or> drop_node i s3 = Inr (t, the n)"
    unfolding bypass_node_def by (auto simp: result_simps split: if_splits)
  have "grows s s1" by (rule grows.loop [OF 1(1)]) (auto intro: bypass_user_edge_grows)
  then have "grows s s3"
    using handle_control_edges_grows [OF 1(2)] pass_on_gradient_grows [OF 1(3)] grows.after by blast
  then show ?thesis using 1(4) drop_node_grows grows.after by blast
qed
text \<open>
  Promoting a unary operation of the runtime graph: it leaves the runtime graph, its users are fed by
  the input with their own TMs, and the operation with the TMs of its operand is appended here.
\<close>

definition moved_to_consteval :: "CS \<Rightarrow> CS \<Rightarrow> EdgeUniqueId \<Rightarrow> Node \<Rightarrow> bool" where
  "moved_to_consteval s t e n \<longleftrightarrow> (case (s, t) of ((w, rg, c), (w', rg', c')) \<Rightarrow>
     (case e of (x, pp, u, cp, ty) \<Rightarrow>
       graph_wf w' rg' \<and> node_ids rg' = node_ids rg - {u} \<and>
       edge_ids rg' = {(p, qp, q, cp, ty) \<in> edge_ids rg. p \<noteq> u \<and> q \<noteq> u} \<union> around rg u e \<and>
       results rg' x = Some (result_of n) \<and>
       (\<exists>i j out. ceg_output c' = Some out \<and> into (ceg_graph c) out = {(j, 0, out, 0, kData)} \<and>
          map_of (nodes_map (ceg_graph c')) i = Some (set_epoch_type Epoch_Forward (node_set_id i n)) \<and>
          edge_ids (ceg_graph c') =
            edge_ids (ceg_graph c) - {(j, 0, out, 0, kData)} \<union> {(j, pp, i, cp, kData), (i, 0, out, 0, kData)})))"

lemma promote_unary_total:
  assumes ok: "consteval_ok (w, rg, c)" and ap: "apart rg (ceg_graph c)" and lvl: "ir_level rg = IR_TT_FORGE"
    and b: "bypassable (w, rg) u e" "e = (ceg_runtime_input c, pp, u, cp, kData)"
    and a: "attr_at (w, rg) e = Some a" "sole (w, rg) e"
    and n: "sh_valid (node_shape n)" "\<not> has_node_with_name (ceg_graph c) (node_name n)"
      "map_of (runtime_to_consteval_map c) u = None" "u \<noteq> ceg_runtime_input c"
  shows "\<exists>t x. promote_node nested ce True (Some u) n (w, rg, c) = Inr (t, Some x) \<and>
    moved_to_consteval (w, rg, c) t e n \<and> consteval_ok t \<and>
    (\<forall>q d dp ty. (u, q, d, dp, ty) \<in> edge_ids rg \<longrightarrow>
       (\<exists>x y. attr_at (w, rg) (u, q, d, dp, ty) = Some x \<and>
          attr_at (fst t, fst (snd t)) (ceg_runtime_input c, pp, d, dp, ty) = Some y \<and> tms y = tms x))"
proof -
  from b(1) have B: "nothing_hidden rg" "u \<in> node_ids rg" "into rg u = {e}"
    by (simp_all add: bypassable_def into_def)
  from promote_unary_steps [OF ok ap B b(2) a n lvl, of nested ce] obtain w7 rg7 c7 i j out where
    P: "promote_node nested ce True (Some u) n (w, rg, c) =
      rbind (bypass_node no_callback u True (w7, rg7)) (\<lambda>((w8, rg8), x). Inr ((w8, rg8, c7), x))"
    "consteval_ok (w7, rg7, c7)" "i \<notin> node_ids (ceg_graph c)" "ceg_runtime_input c7 = ceg_runtime_input c"
    "ceg_output c = Some out" "ceg_output c7 = Some out" "into (ceg_graph c) out = {(j, 0, out, 0, kData)}"
    "edge_ids (ceg_graph c7) = edge_ids (ceg_graph c) - {(j, 0, out, 0, kData)} \<union> {(j, pp, i, cp, kData), (i, 0, out, 0, kData)}"
    "map_of (nodes_map (ceg_graph c7)) i = Some (set_epoch_type Epoch_Forward (node_set_id i n))"
    "edge_ids rg7 = edge_ids rg" "contexts rg7 = contexts rg" "edge_to_attr_map rg7 = edge_to_attr_map rg"
    "node_ids rg7 = node_ids rg" "attr_at (w7, rg7) = (attr_at (w, rg))(e \<mapsto> set_tms [] a)"
    "results rg7 = (results rg)(ceg_runtime_input c \<mapsto> result_of n)" by metis
  have b7: "bypassable (w7, rg7) u e"
  proof -
    have "free_id (w7, rg7) v" if "free_id (w, rg) v" for v
    proof (cases "v = e")
      case True
      have "sole (w7, rg7) e = sole (w, rg) e" using P(12) by (simp add: sole_def)
      then show ?thesis using a(2) True by (simp add: free_id_def)
    next
      case False
      have "sole (w7, rg7) v = sole (w, rg) v" using P(12) by (simp add: sole_def)
      then show ?thesis using that False P(14) by (simp add: free_id_def)
    qed
    moreover have "nothing_hidden rg7" using nothing_hidden_cong [OF P(11)] B(1) by simp
    moreover have "around rg7 u e = around rg u e" by (simp add: around_def P(10))
    moreover have "u \<in> node_ids rg7" using B(2) by (simp only: P(13))
    ultimately show ?thesis using b(1) by (simp add: bypassable_def P(10))
  qed
  from consteval_okE [OF P(2)] have wf7: "graph_wf w7 rg7" by metis
  from wf7 have wf7': "graph_wf (fst (w7, rg7)) (snd (w7, rg7))" by simp
  have a7: "attr_at (w7, rg7) e = Some (set_tms [] a)" by (simp add: P(14))
  from bypass_node_effect [OF wf7' b7 a7] obtain s8 x where
    Q: "bypass_node no_callback u True (w7, rg7) = Inr (s8, Some x)" "graph_wf (fst s8) (snd s8)"
      "node_ids (snd s8) = node_ids rg7 - {u}"
      "edge_ids (snd s8) = {(p, pp, c, cp, ty) \<in> edge_ids rg7. p \<noteq> u \<and> c \<noteq> u} \<union> around rg7 u e"
      "\<forall>q d dp ty. (u, q, d, dp, ty) \<in> edge_ids rg7 \<longrightarrow>
        (\<exists>x y. attr_at (w7, rg7) (u, q, d, dp, ty) = Some x \<and>
           attr_at s8 (fst e, fst (snd e), d, dp, ty) = Some y \<and> tms y = tms (set_tms [] a) @ tms x \<and>
           ublock_order y = ublock_order x)"
      "\<forall>k. k \<noteq> u \<longrightarrow> results (snd s8) k = results rg7 k"
    unfolding snd_conv by blast
  obtain w8 rg8 where s8: "s8 = (w8, rg8)" by (cases s8)
  have run: "promote_node nested ce True (Some u) n (w, rg, c) = Inr ((w8, rg8, c7), Some x)"
    by (simp add: P(1) Q(1) s8)
  have res8: "results rg8 (ceg_runtime_input c) = Some (result_of n)"
  proof -
    have "results rg8 (ceg_runtime_input c) = results rg7 (ceg_runtime_input c)" using Q(6) n(4) by (simp add: s8)
    also have "\<dots> = Some (result_of n)" using fun_cong [OF P(15), of "ceg_runtime_input c"] by simp
    finally show ?thesis .
  qed
  have "moved_to_consteval (w, rg, c) (w8, rg8, c7) e n"
  proof -
    have "graph_wf w8 rg8 \<and> node_ids rg8 = node_ids rg - {u} \<and>
        edge_ids rg8 = {(p, qp, q, cp, ty) \<in> edge_ids rg. p \<noteq> u \<and> q \<noteq> u} \<union> around rg u e"
      using Q(2-4) by (simp only: s8 fst_conv snd_conv P(10,13) around_def simp_thms)
    then show ?thesis unfolding moved_to_consteval_def prod.case b(2)
      using res8 P(5,6,7,8,9) by - (intro conjI, elim conjE, assumption, elim conjE, assumption, elim conjE, assumption,
        assumption, intro exI conjI)
  qed
  moreover have "consteval_ok (w8, rg8, c7)"
  proof -
    have g: "grows (w7, rg7) (w8, rg8)" using bypass_node_grows [OF Q(1)] by (simp add: s8)
    from consteval_okE [OF P(2)] obtain j out m k r where o: "graph_wf w7 (ceg_graph c7)" "nothing_hidden (ceg_graph c7)"
      "map_of (nodes_map rg7) (ceg_runtime_input c7) = Some r" "ceg_output c7 = Some out" "j \<noteq> out"
      "into (ceg_graph c7) out = {(j, 0, out, 0, kData)}" "map_of (nodes_map (ceg_graph c7)) j = Some k"
      "map_of (nodes_map (ceg_graph c7)) out = Some m" "result_of m = result_of k" "result_of r = result_of k"
      by metis
    have "results rg8 (ceg_runtime_input c) = results rg7 (ceg_runtime_input c)" using Q(6) n(4) by (simp add: s8)
    then obtain r' where r': "map_of (nodes_map rg8) (ceg_runtime_input c7) = Some r'" "result_of r' = result_of r"
      using o(3) by (auto simp: P(4))
    have "graph_wf w8 rg8" using Q(2) by (simp add: s8)
    then show ?thesis
      using grows_wf [OF o(1) g] o r' by - (rule consteval_okI, assumption+, simp)
  qed
  moreover have "\<exists>x y. attr_at (w, rg) (u, q, d, dp, ty) = Some x \<and>
          attr_at (w8, rg8) (ceg_runtime_input c, pp, d, dp, ty) = Some y \<and> tms y = tms x"
    if q: "(u, q, d, dp, ty) \<in> edge_ids rg" for q d dp ty
  proof -
    have "(u, q, d, dp, ty) \<noteq> e" using n(4) b(2) by auto
    moreover from q Q(5) obtain x y where "attr_at (w7, rg7) (u, q, d, dp, ty) = Some x"
      "attr_at s8 (fst e, fst (snd e), d, dp, ty) = Some y" "tms y = tms (set_tms [] a) @ tms x"
      unfolding P(10) by blast
    ultimately show ?thesis
      by - (rule exI [of _ x], rule exI [of _ y], use n(4) in \<open>simp add: P(14) s8 b(2) set_tms_def\<close>)
  qed
  ultimately show ?thesis using run
    by - (rule exI [of _ "(w8, rg8, c7)"], rule exI [of _ x], simp only: fst_conv snd_conv, blast)
qed
section \<open>The graph of an input is created on demand\<close>

lemma get_consteval_graph_creates:
  assumes wf: "graph_wf w rg" and n: "map_of (nodes_map rg) i = Some n" "node_typed n" "input_part n = Some f"
      "node_clone ce [] n = Inr n'" "sh_valid (node_shape n)" "consteval_graph f = None"
    and sid: "get_subgraph_id_for_node rg i = Inr sid"
  shows "\<exists>w' rg' c. get_consteval_graph ce i (w, rg) = Inr ((w', rg'), length (ceg_store w)) \<and>
    ceg_store w' = ceg_store w @ [c] \<and> consteval_ok (w', rg', c) \<and> ceg_runtime_input c = i \<and> edge_ids rg' = edge_ids rg \<and>
    map_of (nodes_map rg') =
      (map_of (nodes_map rg))(i \<mapsto> n\<lparr>node_cls := map_input (consteval_graph_update (\<lambda>_. Some (length (ceg_store w)))) (node_cls n)\<rparr>)"
proof -
  let ?nm = "node_name n @ ''.consteval_graph''"
  let ?up = "\<lambda>m. Inr (m\<lparr>node_cls := map_input (\<lambda>f. f\<lparr>consteval_graph := Some (length (ceg_store w))\<rparr>) (node_cls m)\<rparr>)"
  let ?n = "n\<lparr>node_cls := map_input (consteval_graph_update (\<lambda>_. Some (length (ceg_store w)))) (node_cls n)\<rparr>"
  have "node_type n = kInput" using n(2,3)
    by (cases "node_cls n") (simp_all add: node_typed_def class_type_def input_part_def)
  moreover have "length (node_name n) < length (?nm @ ''.output'')" by simp
  then have "node_name n \<noteq> ?nm @ ''.output''" by (metis less_irrefl)
  ultimately obtain w1 rg1 c where
    1: "mk_ConstEvalGraph ce ?nm i True sid (-1) (w, rg) = Inr (w1, rg1, c)" "consteval_ok (w1, rg1, c)" "later w w1"
      "ceg_runtime_input c = i" "edge_ids rg1 = edge_ids rg" "map_of (nodes_map rg1) = map_of (nodes_map rg)"
    using mk_consteval_effect [OF wf n(1,2) _ n(4,5), of ?nm sid] by blast
  from consteval_okE [OF 1(2)] obtain j out k m r where o: "graph_wf w1 rg1" "graph_wf w1 (ceg_graph c)"
    "nothing_hidden (ceg_graph c)" "map_of (nodes_map rg1) (ceg_runtime_input c) = Some r" "ceg_output c = Some out" "j \<noteq> out"
    "into (ceg_graph c) out = {(j, 0, out, 0, kData)}" "map_of (nodes_map (ceg_graph c)) j = Some k"
    "map_of (nodes_map (ceg_graph c)) out = Some m" "result_of m = result_of k" "result_of r = result_of k"
    by metis
  have r: "r = n" using o(4) n(1) 1(4,6) by simp
  from update_in_graph [OF o(1) o(4), of ?up ?n] obtain rg2 where
    2: "on_graph (update_node i ?up) (w1, rg1) = Inr (w1, rg2)" "graph_wf w1 rg2"
      "map_of (nodes_map rg2) = (map_of (nodes_map rg1))(i \<mapsto> ?n)" "edge_ids rg2 = edge_ids rg1"
    by (auto simp: r 1(4))
  have "update_node i ?up rg1 = Inr rg2" using 2(1) by (auto simp: on_graph_def result_simps)
  moreover have st: "ceg_store w1 = ceg_store w" using 1(3) by (simp add: later_def)
  ultimately have run: "get_consteval_graph ce i (w, rg) = Inr ((store_new c w1, rg2), length (ceg_store w))"
    using n(1,3,6) sid 1(1) by (simp add: get_consteval_graph_def deref_def)
  have wf: "graph_wf (store_new c w1) g" if "graph_wf w1 g" for g
    by (rule world_wf [OF that]) (simp_all add: store_new_def)
  have "consteval_ok (store_new c w1, rg2, c)"
    by (rule consteval_okI [OF wf [OF 2(2)] wf [OF o(2)] o(3) _ o(5-10), where r = ?n])
      (use o(11) in \<open>simp_all add: 2(3) 1(4) r result_of_def\<close>)
  moreover have "ceg_store (store_new c w1) = ceg_store w @ [c]" by (simp add: store_new_def st)
  ultimately show ?thesis using run 1(4,5) 2(3,4) 1(6) by (intro exI conjI) auto
qed
section \<open>Concrete graphs\<close>

lemma filter_code [code]:
  "into g i = Set.filter (\<lambda>u. fst (snd (snd u)) = i) (edge_ids g)"
  "around g i u = (\<lambda>v. (fst u, fst (snd u), snd (snd v))) ` Set.filter (\<lambda>v. fst v = i) (edge_ids g)"
proof -
  show "into g i = Set.filter (\<lambda>u. fst (snd (snd u)) = i) (edge_ids g)" by (auto simp: into_def)
  show "around g i u = (\<lambda>v. (fst u, fst (snd u), snd (snd v))) ` Set.filter (\<lambda>v. fst v = i) (edge_ids g)"
    by (force simp: around_def image_iff)
qed

lemma sole_code [code]:
  "sole st u \<longleftrightarrow> (case map_of (edge_to_attr_map (snd st)) u of None \<Rightarrow> False | Some r \<Rightarrow>
     \<forall>v \<in> set (map fst (edge_to_attr_map (snd st))). map_of (edge_to_attr_map (snd st)) v = Some r \<longrightarrow> v = u)"
proof (cases "map_of (edge_to_attr_map (snd st)) u")
  case (Some r)
  have "v \<in> set (map fst (edge_to_attr_map (snd st)))" if "map_of (edge_to_attr_map (snd st)) v = Some k" for v k
    using map_of_SomeD [OF that] by force
  then show ?thesis unfolding sole_def Some option.case by blast
qed (simp add: sole_def)

lemma bypassable_code [code]:
  "bypassable st i u \<longleftrightarrow> nothing_hidden (snd st) \<and> i \<in> node_ids (snd st) \<and> into (snd st) i = {u} \<and>
     snd (snd (snd (snd u))) = kData \<and> fst u \<noteq> i \<and>
     (\<forall>v \<in> edge_ids (snd st). fst v = i \<longrightarrow> snd (snd (snd (snd v))) = kData) \<and>
     (\<forall>v \<in> edge_ids (snd st). \<forall>v' \<in> edge_ids (snd st). fst v = i \<and> fst v' = i \<and>
        fst (snd (snd v)) = fst (snd (snd v')) \<and> fst (snd (snd (snd v))) = fst (snd (snd (snd v'))) \<longrightarrow>
        fst (snd v) = fst (snd v')) \<and>
     (\<forall>v \<in> around (snd st) i u. free_id st v)"
proof -
  have 1: "(\<forall>v \<in> E. fst v = i \<longrightarrow> snd (snd (snd (snd v))) = kData) \<longleftrightarrow>
      (\<forall>pp c cp ty. (i, pp, c, cp, ty) \<in> E \<longrightarrow> ty = kData)" for E :: "EdgeUniqueId set"
    by force
  have 2: "(\<forall>v \<in> E. \<forall>v' \<in> E. fst v = i \<and> fst v' = i \<and>
        fst (snd (snd v)) = fst (snd (snd v')) \<and> fst (snd (snd (snd v))) = fst (snd (snd (snd v'))) \<longrightarrow>
        fst (snd v) = fst (snd v')) \<longleftrightarrow>
      (\<forall>pp pp' c cp ty ty'. (i, pp, c, cp, ty) \<in> E \<longrightarrow> (i, pp', c, cp, ty') \<in> E \<longrightarrow> pp = pp')"
    for E :: "EdgeUniqueId set" by force
  show ?thesis unfolding bypassable_def into_def 1 2 ..
qed

definition sized :: "Node \<Rightarrow> Node" where
  "sized n = n\<lparr>node_shape := shape_create [2, 3], node_output_df := Float32\<rparr>"

text \<open>A parameter, an operation on it, and an output.\<close>

definition example_runtime :: "GS result" where
  "example_runtime =
     rbind (put_node (sized (mk_InputNode ''p'' In_Parameter False)) 0 (initial_world, mk_Graph_default IR_TT_FORGE)) (\<lambda>(s, x).
     rbind (put_node (sized (mk_PyOpNode ''relu'' example_relu)) 0 s) (\<lambda>(s, r).
     rbind (put_node (sized (mk_OutputNode ''y'')) 0 s) (\<lambda>(s, y).
     rbind (connect_nodes x r kData s) (connect_nodes r y kData))))"

definition runtime_w :: World where
  "runtime_w = (case example_runtime of Inr (w, g) \<Rightarrow> w | Inl _ \<Rightarrow> initial_world)"

definition runtime_g :: Graph where
  "runtime_g = (case example_runtime of Inr (w, g) \<Rightarrow> g | Inl _ \<Rightarrow> mk_Graph_default IR_TT_FORGE)"

definition example_pair :: "GS result" where
  "example_pair = rbind (get_consteval_graph Inr 1 (runtime_w, runtime_g)) (\<lambda>(s, _). Inr s)"

definition pair_w :: World where
  "pair_w = (case example_pair of Inr (w, _) \<Rightarrow> w | Inl _ \<Rightarrow> runtime_w)"

definition pair_g :: Graph where
  "pair_g = (case example_pair of Inr (_, g) \<Rightarrow> g | Inl _ \<Rightarrow> runtime_g)"

definition pair_c :: ConstEvalGraph where
  "pair_c = (case ceg_store pair_w of [c] \<Rightarrow> c
     | _ \<Rightarrow> \<lparr>ceg_graph = runtime_g, ceg_runtime_input = 1, ceg_subgraph_id = 0, ceg_output = None,
         runtime_to_consteval_map = [], needs_autograd = False, ran_autograd = False, graph_updated_since_autograd = False\<rparr>)"

lemma runtime_facts:
  "graph_wf runtime_w runtime_g"
  "map_of (nodes_map runtime_g) 1 = Some (node_set_id 1 (sized (mk_InputNode ''p'' In_Parameter False)))"
  "get_subgraph_id_for_node runtime_g 1 = Inr 0" "ceg_store runtime_w = []"
proof -
  show "graph_wf runtime_w runtime_g" by code_simp
  show "map_of (nodes_map runtime_g) 1 = Some (node_set_id 1 (sized (mk_InputNode ''p'' In_Parameter False)))" by code_simp
  show "get_subgraph_id_for_node runtime_g 1 = Inr 0" by code_simp
  show "ceg_store runtime_w = []" by code_simp
qed

lemma pair_facts:
  "consteval_ok (pair_w, pair_g, pair_c)" "apart pair_g (ceg_graph pair_c)" "ir_level pair_g = IR_TT_FORGE"
  "bypassable (pair_w, pair_g) 2 (1, 0, 2, 0, kData)" "sole (pair_w, pair_g) (1, 0, 2, 0, kData)"
  "attr_at (pair_w, pair_g) (1, 0, 2, 0, kData) = Some (create_edge_attributes kData)"
  "\<not> has_node_with_name (ceg_graph pair_c) ''relu''" "map_of (runtime_to_consteval_map pair_c) 2 = None"
  "ceg_runtime_input pair_c = 1"
proof -
  show "consteval_ok (pair_w, pair_g, pair_c)" by code_simp
  show "apart pair_g (ceg_graph pair_c)" by code_simp
  show "ir_level pair_g = IR_TT_FORGE" by code_simp
  show "bypassable (pair_w, pair_g) 2 (1, 0, 2, 0, kData)" by code_simp
  show "sole (pair_w, pair_g) (1, 0, 2, 0, kData)" by code_simp
  show "attr_at (pair_w, pair_g) (1, 0, 2, 0, kData) = Some (create_edge_attributes kData)" by code_simp
  show "\<not> has_node_with_name (ceg_graph pair_c) ''relu''" by code_simp
  show "map_of (runtime_to_consteval_map pair_c) 2 = None" by code_simp
  show "ceg_runtime_input pair_c = 1" by code_simp
qed

section \<open>The properties\<close>

lemma pad_output_correct_witness:
  "\<exists>w' rg' c'. pad_output_to_forge_dims Inr ''p'' (pair_w, pair_g, pair_c) = Inr (w', rg', c') \<and>
     consteval_ok (w', rg', c') \<and>
     (\<exists>m'. map_of (nodes_map (ceg_graph c')) 5 = Some m' \<and> sh_dims (node_shape m') = [32, 32])"
proof -
  define m where "m = the (map_of (nodes_map (ceg_graph pair_c)) 5)"
  have m: "ceg_output pair_c = Some 5" "map_of (nodes_map (ceg_graph pair_c)) 5 = Some m" "sh_valid (node_shape m)"
    "sh_dims (node_shape m) = [2, 3]"
    "\<not> has_node_with_name (ceg_graph pair_c) (pad_name ''p'' (node_name m) (-1))"
    "\<not> has_node_with_name (ceg_graph pair_c) (pad_name ''p'' (node_name m) (-2))"
    unfolding m_def by code_simp+
  have "tile_up 2 = 32" "tile_up 3 = 32" by code_simp+
  then show ?thesis
    using pad_output_correct [OF pair_facts(1) m(1-3) _ m(5,6), of Inr] m(1,4)
    by (fastforce simp: shape_size_def)
qed

text \<open>C17: an input without a graph gets one: the runtime graph keeps its nodes and edges but for the
  input, which is given the index of the new graph, and the new graph satisfies the invariant.\<close>

theorem get_consteval_graph_new:
  assumes "graph_wf w rg" "map_of (nodes_map rg) i = Some n" "node_typed n" "input_part n = Some f"
    and "node_clone ce [] n = Inr n'" "sh_valid (node_shape n)" "consteval_graph f = None"
    and "get_subgraph_id_for_node rg i = Inr sid"
  shows "\<exists>w' rg' c. get_consteval_graph ce i (w, rg) = Inr ((w', rg'), length (ceg_store w)) \<and>
    ceg_store w' = ceg_store w @ [c] \<and> consteval_ok (w', rg', c) \<and> ceg_runtime_input c = i \<and> edge_ids rg' = edge_ids rg \<and>
    map_of (nodes_map rg') = (map_of (nodes_map rg))
      (i \<mapsto> n\<lparr>node_cls := map_input (consteval_graph_update (\<lambda>_. Some (length (ceg_store w)))) (node_cls n)\<rparr>)"
  by (rule get_consteval_graph_creates [OF assms])

lemma get_consteval_graph_new_witness:
  "\<exists>w' rg' c. get_consteval_graph Inr 1 (runtime_w, runtime_g) = Inr ((w', rg'), 0) \<and>
     ceg_store w' = [c] \<and> consteval_ok (w', rg', c)"
proof -
  define n where "n = node_set_id 1 (sized (mk_InputNode ''p'' In_Parameter False))"
  have "node_typed n" "input_part n \<noteq> None" "consteval_graph (the (input_part n)) = None"
    "sh_valid (node_shape n)" "(case node_clone Inr [] n of Inl _ \<Rightarrow> False | Inr _ \<Rightarrow> True)"
    unfolding n_def by code_simp+
  then obtain f n' where "node_typed n" "input_part n = Some f" "node_clone Inr [] n = Inr n'" "sh_valid (node_shape n)"
    "consteval_graph f = None"
    by (auto split: sum.splits)
  from get_consteval_graph_new [OF runtime_facts(1) runtime_facts(2) [folded n_def] this runtime_facts(3)]
  show ?thesis unfolding runtime_facts(4) by simp blast
qed


section \<open>What the pass does on small graphs\<close>

definition with_users :: "OpType list \<Rightarrow> GS result" where
  "with_users ts =
     rbind (put_node (sized (mk_InputNode ''p'' In_Parameter False)) 0 (initial_world, mk_Graph_default IR_TT_FORGE)) (\<lambda>(s, x).
     foldR (\<lambda>s (k, t). rbind (put_node (sized (mk_PyOpNode (''op'' @ show_nat k) t)) 0 s) (\<lambda>(s, r).
        rbind (put_node (sized (mk_OutputNode (''y'' @ show_nat k))) 0 s) (\<lambda>(s, y).
        rbind (connect_nodes x r kData s) (connect_nodes r y kData)))) s (enumerate 0 ts))"

lemma no_users_undefined:
  "rbind (with_users []) (\<lambda>st. is_consteval_capable_input_no_operand_forks st 1) = Inl Undefined_behaviour"
  by code_simp

definition transpose_type :: OpType where
  "transpose_type =
     \<lparr>op_name = ''transpose'', legacy_attrs = [], named_attrs = [], new_op = \<lparr>op_type = Op_Transpose, op_attrs = []\<rparr>\<rparr>"

text \<open>The last fork takes the name of the input back, but the names of the graph do not know it.\<close>

lemma split_loses_name:
  "map_sum id (\<lambda>((w, g), new). (map (\<lambda>i. map_option node_name (map_of (nodes_map g) i)) new,
       has_node_with_name g ''p''))
     (rbind (with_users [example_relu, transpose_type]) (split_consteval_input_forks Inr 1)) =
   Inr ([Some ''p'', Some ''p_fork_clone4''], False)"
  by code_simp

text \<open>Two operations that differ in their named attributes only are taken for the same operation.\<close>

lemma same_operations_ignores_named_attrs:
  "same_operations (map (\<lambda>d. mk_PyOpNode ''t'' (transpose_type\<lparr>named_attrs := [(''dim0'', AInt d)],
       new_op := \<lparr>op_type = Op_Transpose, op_attrs = [(''dim0'', AInt d)]\<rparr>\<rparr>)) [-1, -3]) = Inr True"
  by code_simp

end
