(* ===== verification/Commute.thy ===== *)
theory Commute
  imports Consteval
begin

text \<open>
  Moving shape operations past other operations (\<open>forge/csrc/passes/commute_utils.cpp\<close>): through which
  dimensions a reshape or a transpose can be moved, which operations undo one another, how select,
  concatenate and reductions change when a shape operation moves past them, and how broadcasts on
  edges follow. The commute shape and the clone shape, which the source passes by pointers and
  changes even when it only asks whether something can be done, are arguments and results; a part of
  an operation that decides is a function of its own, which the operation and the test share. The
  shape function of operations is a parameter. Arithmetic on shapes wraps at 32 bits; sizes that
  the source keeps in \<open>int\<close> are integers.
\<close>

declare map_of_eq_Some_iff [simp del] Some_eq_map_of_iff [simp del] split_paired_All [simp del]
  split_paired_Ex [simp del]

section \<open>Row-major volumes\<close>

text \<open>A vector indexed by an \<open>int\<close>.\<close>

definition int_index :: "'a list \<Rightarrow> int \<Rightarrow> 'a result" where
  "int_index xs i = (if i < 0 then Inl Undefined_behaviour else vec_at xs (nat i))"

definition int_update :: "'a list \<Rightarrow> int \<Rightarrow> 'a \<Rightarrow> 'a list result" where
  "int_update xs i x = (if i < 0 then Inl Undefined_behaviour else vec_set xs (nat i) x)"

text \<open>
  The products are those of \<open>int\<close> and \<open>std::uint32_t\<close>: they wrap at 32 bits and are read as signed
  numbers in the end. \<open>volume_below\<close> runs its index as a \<open>size_t\<close>, so a negative start skips the loop.
\<close>

definition volume_above :: "u32 list \<Rightarrow> int \<Rightarrow> int result" where
  "volume_above shape dim =
     (if dim \<le> int (length shape) then Inr (sint (prod_list (take (nat dim) shape)))
      else Inl Undefined_behaviour)"

definition volume_below :: "u32 list \<Rightarrow> int \<Rightarrow> int result" where
  "volume_below shape dim =
     Inr (if dim < 0 then 1 else sint (prod_list (drop (nat dim) shape)))"

definition same_volumes :: "u32 list \<Rightarrow> int \<Rightarrow> u32 list \<Rightarrow> int \<Rightarrow> bool result" where
  "same_volumes a i b j =
     rbind (volume_above a i) (\<lambda>va. rbind (volume_above b j) (\<lambda>vb.
       if va \<noteq> vb then Inr False
       else rbind (volume_below a i) (\<lambda>wa. rbind (volume_below b j) (\<lambda>wb. Inr (wa = wb)))))"

section \<open>Dimensions that survive a reshape or a transpose\<close>

text \<open>The first of the positions that matches; \<open>None\<close> is \<open>(false, -1)\<close>.\<close>

fun matching_dim :: "u32 list \<Rightarrow> u32 list \<Rightarrow> int \<Rightarrow> nat list \<Rightarrow> nat option result" where
  "matching_dim ins outs dim [] = Inr None"
| "matching_dim ins outs dim (i # is) =
     rbind (int_index outs dim) (\<lambda>x.
       if ins ! i \<noteq> x then matching_dim ins outs dim is
       else rbind (same_volumes ins (int i) outs dim) (\<lambda>b.
         if b then Inr (Some i) else matching_dim ins outs dim is))"

definition can_commute_reshape_through_dim :: "Shape \<Rightarrow> Shape \<Rightarrow> int \<Rightarrow> bool \<Rightarrow> (bool \<times> int) result" where
  "can_commute_reshape_through_dim input_shape output_shape dim commute_up =
     (let ins = sh_dims (if commute_up then output_shape else input_shape);
          outs = sh_dims (if commute_up then input_shape else output_shape)
      in rbind (matching_dim ins outs dim [0..<length ins]) (\<lambda>m.
           Inr (case m of None \<Rightarrow> (False, -1) | Some i \<Rightarrow> (True, int i))))"

definition swapped_dim :: "int \<Rightarrow> int \<Rightarrow> int \<Rightarrow> int" where
  "swapped_dim dim0 dim1 dim = (if dim = dim0 then dim1 else if dim = dim1 then dim0 else dim)"

definition wrap_dim :: "Shape \<Rightarrow> int \<Rightarrow> int" where
  "wrap_dim s d = (if d < 0 then d + int (shape_size s) else d)"

definition OpType_int :: "OpType \<Rightarrow> string \<Rightarrow> int result" where
  "OpType_int t k = rbind (OpType_attr t k) get_int"

text \<open>The operation at a node that is known to be one.\<close>

definition op_at :: "Graph \<Rightarrow> NodeId \<Rightarrow> (Node \<times> OpType) result" where
  "op_at g i = rbind (deref g i) (\<lambda>n. rbind (as_OpNode n) (\<lambda>p. Inr (n, node_op_type p)))"

definition first_operand_node :: "Graph \<Rightarrow> NodeId \<Rightarrow> Node result" where
  "first_operand_node g i = rbind (data_operands g i) (\<lambda>os. rbind (vec_at os 0) (deref g))"

definition can_commute_through_dim :: "NodeId \<Rightarrow> Graph \<Rightarrow> int \<Rightarrow> bool \<Rightarrow> (bool \<times> int) result" where
  "can_commute_through_dim initial_op g dim commute_up =
     rbind (op_at g initial_op) (\<lambda>(n, t).
       if op_name t = ''reshape'' then
         rbind (first_operand_node g initial_op) (\<lambda>m.
           can_commute_reshape_through_dim (node_shape m) (node_shape n) dim commute_up)
       else if op_name t = ''transpose'' then
         (if dim \<ge> int (shape_size (node_shape n)) then Inr (False, -1)
          else rbind (OpType_int t ''dim0'') (\<lambda>d0. rbind (OpType_int t ''dim1'') (\<lambda>d1.
            Inr (True, swapped_dim (wrap_dim (node_shape n) d0) (wrap_dim (node_shape n) d1) dim))))
       else Inr (False, -1))"

section \<open>Inverse operations\<close>

definition match_unsqueeze :: "OpType \<Rightarrow> OpType \<Rightarrow> bool result" where
  "match_unsqueeze a b =
     (if \<not> (OpType_is a Op_Unsqueeze \<and> OpType_is b Op_Squeeze) then Inr False
      else rbind (legacy_int a 0) (\<lambda>x. rbind (legacy_int b 0) (\<lambda>y. Inr (x = y))))"

definition match_squeeze :: "OpType \<Rightarrow> OpType \<Rightarrow> bool result" where
  "match_squeeze a b =
     (if \<not> (OpType_is a Op_Unsqueeze \<and> OpType_is b Op_Squeeze) then Inr False
      else rbind (legacy_int a 0) (\<lambda>x. rbind (legacy_int b 0) (\<lambda>y. Inr (x = y))))"

definition match_reshape :: "OpType \<Rightarrow> OpType \<Rightarrow> bool result" where
  "match_reshape a b = Inr (OpType_is a Op_Reshape)"

definition match_transpose :: "OpType \<Rightarrow> OpType \<Rightarrow> bool result" where
  "match_transpose a b =
     (if \<not> OpType_is a Op_Transpose then Inr False
      else
        rbind (OpType_int a ''dim0'') (\<lambda>a0. rbind (OpType_int a ''dim1'') (\<lambda>a1.
        rbind (OpType_int b ''dim0'') (\<lambda>b0. rbind (OpType_int b ''dim1'') (\<lambda>b1.
          Inr (min a0 a1 = min b0 b1 \<and> max a0 a1 = max b0 b1))))))"

text \<open>
  The table is a hash map; a loop over it tries every function. They apply to different kinds of \<open>a\<close>
  except for the two that are the same, so the order does not matter.
\<close>

definition match_fns :: "(string \<times> (OpType \<Rightarrow> OpType \<Rightarrow> bool result)) list" where
  "match_fns = [(''reshape'', match_reshape), (''transpose'', match_transpose),
                (''unsqueeze'', match_unsqueeze), (''squeeze'', match_squeeze)]"

fun any_match :: "(string \<times> (OpType \<Rightarrow> OpType \<Rightarrow> bool result)) list \<Rightarrow> OpType \<Rightarrow> OpType \<Rightarrow> bool result" where
  "any_match [] a b = Inr False"
| "any_match ((_, f) # fs) a b = rbind (f a b) (\<lambda>m. if m then Inr True else any_match fs a b)"

type_synonym u64 = "64 word"

text \<open>\<open>size_t volume *= int\<close>: the factor is sign-extended.\<close>

definition bcast_factor :: "OpType \<Rightarrow> u64 result" where
  "bcast_factor t = (if is_broadcast t then rbind (legacy_int t 1) (\<lambda>v. Inr (word_of_int v)) else Inr 1)"

definition total_broadcast_volume :: "GS \<Rightarrow> Edge \<Rightarrow> u64 result" where
  "total_broadcast_volume st e =
     rbind (edge_tms st e) (\<lambda>ts. foldR (\<lambda>v t. rbind (bcast_factor t) (\<lambda>f. Inr (v * f))) 1 ts)"

definition broadcast_pair :: "u64 \<Rightarrow> bool \<times> int \<Rightarrow> nat \<times> u32 \<times> u32 \<Rightarrow> bool \<times> int" where
  "broadcast_pair vol acc idx = (case acc of (ok, dim) \<Rightarrow> case idx of (i, a, b) \<Rightarrow>
     if b \<noteq> a \<and> (ucast b \<noteq> vol \<or> a \<noteq> 1) then (False, dim)
     else if ucast b = vol \<and> a = 1 then (ok \<and> dim = -1, int i)
     else (ok, dim))"

definition are_inverse_with_broadcast :: "Shape \<Rightarrow> Shape \<Rightarrow> u64 \<Rightarrow> bool \<times> int" where
  "are_inverse_with_broadcast a b vol =
     (if shape_size a \<noteq> shape_size b \<or> shape_eq a b then (False, -1)
      else foldl (broadcast_pair vol) (True, -1) (enumerate 0 (zip (sh_dims a) (sh_dims b))))"

text \<open>\<open>get_op_shape\<close> is the shape function of the operations, which may be written in Python.\<close>

definition shape_of_only_operand :: "op_shape_fn \<Rightarrow> GS \<Rightarrow> NodeId \<Rightarrow> Shape result" where
  "shape_of_only_operand op_shape st i =
     rbind (data_operands (snd st) i) (\<lambda>os.
     tt_assert (length os = 1) (shape_of_operand op_shape (fst st) (snd st) i (hd os) False))"

definition are_compatible_tms :: "string \<Rightarrow> string \<Rightarrow> bool" where
  "are_compatible_tms a b \<longleftrightarrow> a = b \<or> (a = ''unsqueeze'' \<and> b = ''squeeze'') \<or> (a = ''squeeze'' \<and> b = ''unsqueeze'')"

definition are_compatible_ops ::
    "op_shape_fn \<Rightarrow> GS \<Rightarrow> NodeId \<Rightarrow> NodeId \<Rightarrow> Shape option \<Rightarrow> bool \<Rightarrow> bool result" where
  "are_compatible_ops op_shape st a b updated_shape check_inverse =
     (if a = b then Inr (\<not> check_inverse)
      else
        rbind (data_operands (snd st) a) (\<lambda>os.
          if length os \<noteq> 1 then Inr False
          else
            rbind (shape_of_operand op_shape (fst st) (snd st) a (hd os) False) (\<lambda>s0.
            rbind (op_at (snd st) a) (\<lambda>(na, ta).
            rbind (op_at (snd st) b) (\<lambda>(nb, tb).
            rbind (OpType_is_tm ta) (\<lambda>tm.
            let operand_shape = (case updated_shape of Some s \<Rightarrow> s | None \<Rightarrow> s0) in
            if \<not> (tm \<and> are_compatible_tms (op_name ta) (op_name tb)) then Inr False
            else
              rbind (if check_inverse then Inr (node_shape nb) else shape_of_only_operand op_shape st b) (\<lambda>sb.
              rbind (operand_data_edges any_edge (snd st) b) (\<lambda>es.
              rbind (rbind (vec_at es 0) (total_broadcast_volume st)) (\<lambda>vol.
                if (shape_eq operand_shape sb \<or> fst (are_inverse_with_broadcast operand_shape sb vol)) \<and>
                   \<not> has_tag ''dont_erase'' nb
                then any_match match_fns ta tb else Inr False)))))))))"
section \<open>Attributes that follow a change\<close>

definition has_op_name :: "string \<Rightarrow> OpFields \<Rightarrow> bool" where
  "has_op_name s p \<longleftrightarrow> op_name (node_op_type p) = s"

text \<open>Arguments of log calls are evaluated: the three attributes must be there.\<close>

definition logged_attr :: "OpFields \<Rightarrow> string \<Rightarrow> unit result" where
  "logged_attr p k = rbind (OpType_int (node_op_type p) k) (\<lambda>_. Inr ())"

definition set_opt_attr :: "string \<Rightarrow> int option \<Rightarrow> OpFields \<Rightarrow> OpFields" where
  "set_opt_attr k v p = (case v of None \<Rightarrow> p | Some x \<Rightarrow> set_op_attr k (AInt x) p)"

definition update_select_attr ::
    "int \<Rightarrow> int option \<Rightarrow> int option \<Rightarrow> int option \<Rightarrow> OpFields \<Rightarrow> OpFields result" where
  "update_select_attr dim begin_at len stride p =
     tt_assert (has_op_name ''select'' p)
       (let q = set_opt_attr ''stride'' stride (set_opt_attr ''length'' len (set_opt_attr ''begin'' begin_at
                  (set_op_attr ''select_dim'' (AInt dim) p)))
        in rbind (logged_attr q ''begin'') (\<lambda>_. rbind (logged_attr q ''length'') (\<lambda>_.
           rbind (logged_attr q ''stride'') (\<lambda>_. Inr q))))"

definition update_concat_attr :: "int \<Rightarrow> OpFields \<Rightarrow> OpFields result" where
  "update_concat_attr dim p = tt_assert (has_op_name ''concatenate'' p) (Inr (set_op_attr ''dim'' (AInt dim) p))"

definition update_vstack_attr :: "int \<Rightarrow> OpFields \<Rightarrow> OpFields result" where
  "update_vstack_attr slice_size p =
     tt_assert (has_op_name ''vstack'' p) (Inr (set_op_attr ''slice_size'' (AInt slice_size) p))"

definition contains :: "string \<Rightarrow> string \<Rightarrow> bool" where
  "contains t s \<longleftrightarrow> list_ex (\<lambda>k. take (length t) (drop k s) = t) [0..<Suc (length s)]"

definition update_grouped_reduce_avg_attr :: "int \<Rightarrow> OpFields \<Rightarrow> OpFields result" where
  "update_grouped_reduce_avg_attr dim p =
     tt_assert (contains ''grouped_reduce_avg'' (op_name (node_op_type p)))
       (Inr (set_op_attr ''reduce_dim'' (AInt dim) p))"

definition update_reduce_attr :: "int \<Rightarrow> bool \<Rightarrow> OpFields \<Rightarrow> OpFields result" where
  "update_reduce_attr dim keep_dim p =
     tt_assert (contains ''reduce'' (op_name (node_op_type p)))
       (if has_op_name ''grouped_reduce_avg'' p then update_grouped_reduce_avg_attr dim p
        else Inr (set_op_attr ''keep_dim'' (ABool keep_dim) (set_op_attr ''dim'' (AInt dim) p)))"

definition update_matmul_attr :: "int \<Rightarrow> OpFields \<Rightarrow> OpFields result" where
  "update_matmul_attr requant_zp p =
     tt_assert (has_op_name ''matmul'' p) (Inr (set_op_attr ''requant_zp'' (AInt requant_zp) p))"

text \<open>The positional attributes are a copy that is written and dropped.\<close>

definition update_conv_attr :: "int list \<Rightarrow> OpFields \<Rightarrow> OpFields result" where
  "update_conv_attr pad_attrs p =
     tt_assert (has_op_name ''conv2d'' p)
       (rbind (foldR (\<lambda>as i. vec_set as (4 + i) (AInt (pad_attrs ! i))) (legacy_attrs (node_op_type p))
                 [0..<min 4 (length pad_attrs)]) (\<lambda>_.
          Inr (set_op_attr ''padding'' (AInts pad_attrs) p)))"

definition update_reshape_attr :: "Shape \<Rightarrow> OpFields \<Rightarrow> OpFields result" where
  "update_reshape_attr s p =
     (if has_op_name ''transpose'' p then Inr p
      else tt_assert (has_op_name ''reshape'' p) (Inr (set_op_attr ''shape'' (AInts (map sint (sh_dims s))) p)))"

text \<open>A change of the operation of a node that may fail.\<close>

definition try_op :: "(OpFields \<Rightarrow> OpFields result) \<Rightarrow> Node \<Rightarrow> Node result" where
  "try_op f n = rbind (as_OpNode n) (\<lambda>p. rbind (f p) (\<lambda>q. with_op (\<lambda>_. q) n))"

definition change_op :: "NodeId \<Rightarrow> (OpFields \<Rightarrow> OpFields result) \<Rightarrow> GS \<Rightarrow> GS result" where
  "change_op i f = on_graph (update_node i (try_op f))"

definition set_shape_at :: "NodeId \<Rightarrow> Shape \<Rightarrow> GS \<Rightarrow> GS result" where
  "set_shape_at i s = on_graph (update_node i (node_set_shape s))"

section \<open>What is carried along a path\<close>

text \<open>
  \<open>cm_shape\<close> is the shape as if the operation was undone so far and \<open>cm_clone\<close> the shape as it is;
  the pointer to the second may be null.
\<close>

type_synonym Shapes = "Shape \<times> Shape option"

record Commuting =
  cm_shape :: Shape
  cm_clone :: "Shape option"
  retain_operand_dim :: bool
  operand_dims :: "int \<times> int"
  cm_golden :: OpType

definition map_optR :: "('a \<Rightarrow> 'b result) \<Rightarrow> 'a option \<Rightarrow> 'b option result" where
  "map_optR f v = (case v of None \<Rightarrow> Inr None | Some x \<Rightarrow> rbind (f x) (\<lambda>y. Inr (Some y)))"

text \<open>An entry of the shape of a golden reshape; only the named attribute changes.\<close>

definition golden_set :: "int \<Rightarrow> int \<Rightarrow> OpType \<Rightarrow> OpType result" where
  "golden_set i v t =
     (if \<not> OpType_is t Op_Reshape then Inr t
      else rbind (rbind (OpType_attr t ''shape'') get_ints) (\<lambda>xs. rbind (int_update xs i v) (\<lambda>ys.
             Inr (t\<lparr>named_attrs := attrs_set ''shape'' (AInts ys) (named_attrs t)\<rparr>))))"

section \<open>Select\<close>

fun last_match :: "Shape \<Rightarrow> nat \<Rightarrow> Shape \<Rightarrow> bool \<Rightarrow> nat list \<Rightarrow> nat option result" where
  "last_match cs i s fresh [] = Inr None"
| "last_match cs i s fresh (j # js) =
     rbind (shape_at cs (int i)) (\<lambda>x. rbind (shape_at s (int j)) (\<lambda>y.
       if x = y \<and> (x \<noteq> 1 \<or> fresh) then Inr (Some j) else last_match cs i s fresh js))"

text \<open>The matches in the commute shape, the clone shape and the shape of the operation; -1 if none.\<close>

definition select_scan :: "Shapes \<Rightarrow> Shape \<Rightarrow> int \<times> int \<times> int \<Rightarrow> nat \<Rightarrow> (int \<times> int \<times> int) result" where
  "select_scan shapes op_shape m i = (case m of (mc, mcl, mop) \<Rightarrow>
     rbind (case snd shapes of None \<Rightarrow> Inr (mc, mcl)
            | Some s \<Rightarrow> rbind (last_match (fst shapes) i s (mc = -1) (rev [0..<shape_size s])) (\<lambda>r.
                Inr (case r of None \<Rightarrow> (mc, mcl) | Some j \<Rightarrow> (int i, int j)))) (\<lambda>(mc, mcl).
     rbind (last_match (fst shapes) i op_shape (mc = -1) (rev [0..<shape_size op_shape])) (\<lambda>r.
       Inr (case r of None \<Rightarrow> (mc, mcl, mop) | Some j \<Rightarrow> (int i, mcl, int j)))))"

text \<open>The dimension is taken apart by the reshape: its last dimension is rebuilt from the operation.\<close>

definition select_rebuild :: "Shape \<Rightarrow> int \<Rightarrow> Shapes \<Rightarrow> Shapes result" where
  "select_rebuild s select_dim shapes =
     rbind (int_index (sh_dims s) select_dim) (\<lambda>x. rbind (shape_at s (select_dim - 1)) (\<lambda>y.
     rbind (set_dim (fst shapes) (int (shape_size (fst shapes)) - 1) (x * y)) (\<lambda>cs.
       Inr (cs, map_option (\<lambda>_. s) (snd shapes)))))"

definition follow_dim :: "int \<Rightarrow> int \<Rightarrow> u32 \<Rightarrow> Shapes \<Rightarrow> Shapes result" where
  "follow_dim new_dim clone_dim v shapes =
     rbind (set_dim (fst shapes) new_dim v) (\<lambda>cs.
     rbind (map_optR (\<lambda>s. set_dim s clone_dim v) (snd shapes)) (\<lambda>cl. Inr (cs, cl)))"

text \<open>\<open>None\<close> is the early return when no dimension matches.\<close>

definition select_plan ::
    "Graph \<Rightarrow> NodeId \<Rightarrow> NodeId \<Rightarrow> NodeId option \<Rightarrow> bool \<Rightarrow> Shapes \<Rightarrow> ((bool \<times> int \<times> int) \<times> Shapes) option result" where
  "select_plan g op initial_op producer commute_up shapes =
     rbind (op_at g op) (\<lambda>(n, t).
     rbind (legacy_int t 0) (\<lambda>d0.
     let os = node_shape n; select_dim = wrap_dim os d0 in
     rbind (foldR (select_scan shapes os) (-1, -1, -1) (rev [0..<shape_size (fst shapes)])) (\<lambda>(mc, mcl, mop).
       if mc = -1 then Inr None
       else
         rbind (can_commute_through_dim initial_op g select_dim
                  (case snd shapes of None \<Rightarrow> False | Some _ \<Rightarrow> commute_up \<or> mc = select_dim)) (\<lambda>(unaffected, new_dim).
         rbind (map_optR (deref g) producer) (\<lambda>pn.
         if unaffected then
           rbind (int_index (sh_dims (case pn of Some p \<Rightarrow> if commute_up then node_shape p else os | None \<Rightarrow> os)) select_dim)
             (\<lambda>v. rbind (follow_dim new_dim select_dim v shapes) (\<lambda>shapes'.
               Inr (Some ((True, select_dim, new_dim), shapes'))))
         else
           let cdist = mc - int (shape_size (fst shapes));
               behind = (case snd shapes of Some s \<Rightarrow> mcl - int (shape_size s) < cdist
                         | None \<Rightarrow> mop - int (shape_size os) < cdist)
           in if behind \<and> select_dim = int (shape_size os) - 1 then
                rbind (if commute_up then rbind (of_opt Undefined_behaviour pn) (\<lambda>p. Inr (node_shape p)) else Inr os) (\<lambda>s.
                rbind (select_rebuild s select_dim shapes) (\<lambda>shapes'.
                  Inr (Some ((True, select_dim, select_dim), shapes'))))
              else Inr (Some ((False, select_dim, new_dim), shapes)))))))"

definition can_commute_through_select ::
    "Graph \<Rightarrow> NodeId \<Rightarrow> NodeId \<Rightarrow> NodeId option \<Rightarrow> bool \<Rightarrow> Shapes \<Rightarrow> (bool \<times> Shapes) result" where
  "can_commute_through_select g op initial_op producer commute_up shapes =
     rbind (select_plan g op initial_op producer commute_up shapes) (\<lambda>r.
       Inr (case r of None \<Rightarrow> (False, shapes) | Some ((can, _, _), shapes') \<Rightarrow> (can, shapes')))"

definition commute_through_select ::
    "NodeId \<Rightarrow> NodeId \<Rightarrow> NodeId option \<Rightarrow> bool \<Rightarrow> Commuting \<Rightarrow> GS \<Rightarrow> (GS \<times> Commuting) result" where
  "commute_through_select op initial_op producer commute_up c st =
     rbind (select_plan (snd st) op initial_op producer commute_up (cm_shape c, cm_clone c)) (\<lambda>r.
     rbind (of_opt Assert_failed r) (\<lambda>((can, select_dim, new_dim), (cs, cl)).
     tt_assert can
       (rbind (deref (snd st) op) (\<lambda>n.
        rbind (int_index (sh_dims (node_shape n)) select_dim) (\<lambda>len.
        rbind (set_shape_at op cs st) (\<lambda>st1.
        rbind (golden_set select_dim (sint len) (cm_golden c)) (\<lambda>golden.
        rbind (change_op op (\<lambda>p. update_select_attr new_dim None None None (add_golden_transform golden p)) st1) (\<lambda>st2.
        rbind (of_opt Undefined_behaviour cl) (\<lambda>s.
        rbind (set_dim s select_dim len) (\<lambda>s'.
          Inr (st2, \<lparr>cm_shape = cs, cm_clone = Some s', retain_operand_dim = True,
                     operand_dims = (select_dim, new_dim), cm_golden = golden\<rparr>)))))))))))"
section \<open>Concatenate\<close>

text \<open>The first match from the end: outer loop over the first shape, inner over the second.\<close>

fun scan_from_end :: "bool \<Rightarrow> Shape \<Rightarrow> Shape \<Rightarrow> nat list \<Rightarrow> (nat \<times> nat) option result" where
  "scan_from_end fresh cs s [] = Inr None"
| "scan_from_end fresh cs s (i # is) =
     rbind (last_match cs i s fresh (rev [0..<shape_size s])) (\<lambda>r.
       case r of None \<Rightarrow> scan_from_end fresh cs s is | Some j \<Rightarrow> Inr (Some (i, j)))"

definition matching_dims :: "bool \<Rightarrow> Shape \<Rightarrow> Shape \<Rightarrow> (nat \<times> nat) option result" where
  "matching_dims fresh cs s = scan_from_end fresh cs s (rev [0..<shape_size cs])"

definition concat_plan ::
    "Graph \<Rightarrow> NodeId \<Rightarrow> NodeId \<Rightarrow> NodeId option \<Rightarrow> bool \<Rightarrow> Shapes \<Rightarrow> ((bool \<times> int \<times> int) \<times> Shapes) option result" where
  "concat_plan g op initial_op producer commute_up shapes =
     rbind (op_at g op) (\<lambda>(n, t).
     tt_assert (op_name t = ''concatenate'' \<longrightarrow> length (named_attrs t) = 1)
       (rbind (OpType_int t ''dim'') (\<lambda>d0.
        let os = node_shape n; dim = wrap_dim os d0 in
        rbind (case snd shapes of None \<Rightarrow> Inr (Some False)
               | Some s \<Rightarrow> rbind (matching_dims True (fst shapes) s) (\<lambda>r.
                   Inr (map_option (\<lambda>(i, _). commute_up \<or> int i = dim) r))) (\<lambda>up.
          case up of None \<Rightarrow> Inr None
          | Some up \<Rightarrow>
              rbind (can_commute_through_dim initial_op g dim up) (\<lambda>(can, new_dim).
              let concat_dim = dim - int (shape_size os) in
              if can \<and> new_dim \<noteq> 0 then
                rbind (map_optR (deref g) producer) (\<lambda>pn.
                rbind (shape_at (case pn of Some p \<Rightarrow> if commute_up then node_shape p else os | None \<Rightarrow> os) concat_dim) (\<lambda>v.
                rbind (follow_dim new_dim concat_dim v shapes) (\<lambda>shapes'.
                  Inr (Some ((True, concat_dim, new_dim), shapes')))))
              else Inr (Some ((False, concat_dim, new_dim), shapes)))))))"

definition can_commute_through_concat ::
    "Graph \<Rightarrow> NodeId \<Rightarrow> NodeId \<Rightarrow> NodeId option \<Rightarrow> bool \<Rightarrow> Shapes \<Rightarrow> (bool \<times> Shapes) result" where
  "can_commute_through_concat g op initial_op producer commute_up shapes =
     rbind (concat_plan g op initial_op producer commute_up shapes) (\<lambda>r.
       Inr (case r of None \<Rightarrow> (False, shapes) | Some ((can, _, _), shapes') \<Rightarrow> (can, shapes')))"

text \<open>An entry of the golden shape counted from its own end when the index is negative.\<close>

definition golden_set_wrapped :: "int \<Rightarrow> int \<Rightarrow> OpType \<Rightarrow> OpType result" where
  "golden_set_wrapped i v t =
     (if \<not> OpType_is t Op_Reshape \<or> 0 \<le> i then golden_set i v t
      else rbind (rbind (OpType_attr t ''shape'') get_ints) (\<lambda>xs. golden_set (i + int (length xs)) v t))"

definition commute_through_concat ::
    "NodeId \<Rightarrow> NodeId \<Rightarrow> NodeId option \<Rightarrow> bool \<Rightarrow> Commuting \<Rightarrow> GS \<Rightarrow> (GS \<times> Commuting) result" where
  "commute_through_concat op initial_op producer commute_up c st =
     rbind (concat_plan (snd st) op initial_op producer commute_up (cm_shape c, cm_clone c)) (\<lambda>r.
     rbind (of_opt Assert_failed r) (\<lambda>((can, concat_dim, new_dim), (cs, cl)).
     tt_assert can
       (rbind (op_at (snd st) op) (\<lambda>(n, t).
        rbind (legacy_int t 0) (\<lambda>_.
        rbind (shape_at (node_shape n) concat_dim) (\<lambda>len.
        rbind (set_shape_at op cs st) (\<lambda>st1.
        rbind (golden_set_wrapped concat_dim (sint len) (cm_golden c)) (\<lambda>golden.
        rbind (mk_OpType ''concatenate'' [] [(''dim'', AInt new_dim)]) (\<lambda>t'.
        rbind (change_op op (\<lambda>p. Inr (change_op_type t' (add_golden_transform golden p))) st1) (\<lambda>st2.
        rbind (of_opt Undefined_behaviour cl) (\<lambda>s.
        rbind (set_dim s concat_dim len) (\<lambda>s'.
          Inr (st2, \<lparr>cm_shape = cs, cm_clone = Some s', retain_operand_dim = True,
                     operand_dims = (concat_dim, new_dim), cm_golden = golden\<rparr>)))))))))))))"

section \<open>Reductions\<close>

definition op_of :: "Node \<Rightarrow> OpType option" where
  "op_of n = map_option node_op_type (op_part n)"

definition same_op_name :: "string \<Rightarrow> Node \<Rightarrow> bool" where
  "same_op_name s n \<longleftrightarrow> (case op_of n of None \<Rightarrow> False | Some t \<Rightarrow> op_name t = s)"

definition adjacent :: "int \<Rightarrow> int \<Rightarrow> bool" where
  "adjacent a b \<longleftrightarrow> a = b + 1 \<or> a = b - 1"

text \<open>
  The loop over the nodes that come next: whether it finds a reduction of a neighbouring dimension. It
  gives up at the first reduction of the same kind whose dimensions do not fit the commute shape.
\<close>

fun next_reduce :: "bool \<Rightarrow> bool \<Rightarrow> string \<Rightarrow> Shape \<Rightarrow> Shape result \<Rightarrow> int \<Rightarrow> Shape \<Rightarrow> Node list \<Rightarrow> bool result" where
  "next_reduce check_only up name os compare_shape dim cs [] = Inr False"
| "next_reduce check_only up name os compare_shape dim cs (n # ns) =
     (if \<not> same_op_name name n then next_reduce check_only up name os compare_shape dim cs ns
      else
        rbind compare_shape (\<lambda>s.
        rbind (rbind (of_opt Undefined_behaviour (op_of n)) (\<lambda>t. legacy_int t 0)) (\<lambda>d.
        let next_dim = wrap_dim (node_shape n) d; lo = min dim next_dim; hi = max dim next_dim in
        rbind (shape_at cs (hi - (int (shape_size os) - int (shape_size cs)))) (\<lambda>x.
        rbind (if up then Inr (x = 1)
               else rbind (shape_at s lo) (\<lambda>a. rbind (shape_at s hi) (\<lambda>b. Inr (x = a * b)))) (\<lambda>fits.
          if \<not> fits then tt_assert check_only (Inr False)
          else if adjacent next_dim dim then Inr True
          else next_reduce check_only up name os compare_shape dim cs ns)))))"

text \<open>\<open>while (dim >= v.size()) v.push_back(1)\<close> with an unsigned \<open>dim\<close>.\<close>

definition pad_back :: "int \<Rightarrow> Shape \<Rightarrow> Shape" where
  "pad_back dim s =
     shape_create (sh_dims s @ replicate (Suc (unat (word_of_int dim :: u32)) - length (sh_dims s)) 1)"

definition prev_reduce ::
    "bool \<Rightarrow> string \<Rightarrow> Shape \<Rightarrow> Shape option \<Rightarrow> int \<Rightarrow> bool \<times> Shapes \<Rightarrow> Node \<Rightarrow> (bool \<times> Shapes) result" where
  "prev_reduce up name os ps dim r n =
     (if \<not> same_op_name name n then Inr r
      else
        rbind (of_opt Undefined_behaviour (op_of n)) (\<lambda>t.
        tt_assert (length (legacy_attrs t) = 2)
          (rbind (legacy_int t 0) (\<lambda>d.
           let prev_dim = wrap_dim os d in
           if \<not> adjacent prev_dim dim then Inr r
           else
             let commute_dim = max prev_dim dim; cs = pad_back commute_dim (fst (snd r)) in
             rbind (if up then rbind (of_opt Undefined_behaviour ps) (\<lambda>s.
                      rbind (shape_at s dim) (\<lambda>a. rbind (shape_at s prev_dim) (\<lambda>b. Inr (a * b))))
                    else Inr 1) (\<lambda>v.
             rbind (set_dim cs commute_dim v) (\<lambda>cs'.
             rbind (map_optR (\<lambda>s. rbind (set_dim s dim 1) (\<lambda>s'. set_dim s' prev_dim 1)) (snd (snd r))) (\<lambda>cl.
               Inr (True, cs', cl))))))))"

text \<open>
  Without a neighbouring reduction the shapes follow the dimension, but the answer is that of the outer
  variable, which the inner declaration of the same name hides: it stays false.
\<close>

definition reduce_plan ::
    "bool \<Rightarrow> Graph \<Rightarrow> NodeId \<Rightarrow> NodeId \<Rightarrow> NodeId option \<Rightarrow> bool \<Rightarrow> Shapes \<Rightarrow> (bool \<times> Shapes) result" where
  "reduce_plan check_only g op initial_op producer up shapes =
     rbind (op_at g op) (\<lambda>(n, t).
     tt_assert (length (legacy_attrs t) = 2)
       (rbind (legacy_int t 0) (\<lambda>d.
        let os = node_shape n; dim = wrap_dim os d in
        rbind (rbind (data_users g op) (mapR (deref g))) (\<lambda>users.
        rbind (rbind (data_operands g op) (mapR (deref g))) (\<lambda>operands.
        rbind (map_optR (deref g) producer) (\<lambda>pn.
        let compare_shape = (if check_only then rbind (vec_at operands 0) (\<lambda>m. Inr (node_shape m))
                             else of_opt Undefined_behaviour (snd shapes)) in
        rbind (next_reduce check_only up (op_name t) os compare_shape dim (fst shapes)
                 (if up then operands else users)) (\<lambda>found.
        rbind (foldR (prev_reduce up (op_name t) os (map_option node_shape pn) dim) (found, shapes)
                 (if up then users else operands)) (\<lambda>(can, shapes').
          if can then Inr (True, shapes')
          else
            rbind (can_commute_through_dim initial_op g dim up) (\<lambda>(inner, new_dim).
              if \<not> inner then Inr (False, shapes')
              else
                tt_assert (pn = None \<or> up)
                  (rbind (int_index (sh_dims (case pn of Some p \<Rightarrow> node_shape p | None \<Rightarrow> os)) dim) (\<lambda>v.
                   rbind (follow_dim new_dim dim v shapes') (\<lambda>shapes''. Inr (False, shapes'')))))))))))))"

definition can_commute_through_reduce ::
    "Graph \<Rightarrow> NodeId \<Rightarrow> NodeId \<Rightarrow> NodeId option \<Rightarrow> bool \<Rightarrow> Shapes \<Rightarrow> (bool \<times> Shapes) result" where
  "can_commute_through_reduce = reduce_plan True"
definition keep_dim_of :: "OpType \<Rightarrow> bool result" where
  "keep_dim_of t = legacy_bool t (if op_name t = ''grouped_reduce_avg'' \<or> op_name t = ''reduce_max'' then 2 else 1)"

text \<open>The reduction before was one of a neighbouring dimension: this one takes over both, that one does nothing.\<close>

definition merge_reduces ::
    "NodeId \<Rightarrow> NodeId \<Rightarrow> OpType \<Rightarrow> OpType \<Rightarrow> Commuting \<Rightarrow> GS \<Rightarrow> (GS \<times> Commuting) result" where
  "merge_reduces op producer t pt c st =
     rbind (legacy_int t 0) (\<lambda>d.
     rbind (keep_dim_of t) (\<lambda>keep.
     rbind (of_opt Undefined_behaviour (cm_clone c)) (\<lambda>cl.
     rbind (legacy_int pt 0) (\<lambda>pd.
     let dim = wrap_dim cl d; pdim = wrap_dim cl pd; cs = pad_back (max dim pdim) (cm_shape c) in
     rbind (rbind (golden_set dim 1 (cm_golden c)) (golden_set pdim 1)) (\<lambda>golden.
     rbind (change_op op (\<lambda>p. update_reduce_attr dim keep (add_golden_transform golden p)) st) (\<lambda>st1.
     rbind (rbind (set_dim cl dim 1) (\<lambda>s. set_dim s pdim 1)) (\<lambda>cl'.
     rbind (mk_OpType ''nop'' [] []) (\<lambda>nop.
     rbind (change_op producer (\<lambda>p. Inr (change_op_type nop p)) st1) (\<lambda>st2.
       Inr (st2, c\<lparr>cm_shape := cs, cm_clone := Some cl', cm_golden := golden\<rparr>))))))))))"

definition commute_single_reduce ::
    "NodeId \<Rightarrow> NodeId \<Rightarrow> Node \<Rightarrow> OpType \<Rightarrow> Commuting \<Rightarrow> GS \<Rightarrow> (GS \<times> Commuting) result" where
  "commute_single_reduce op initial_op n t c st =
     rbind (legacy_int t 0) (\<lambda>d.
     rbind (keep_dim_of t) (\<lambda>keep.
     let dim = wrap_dim (node_shape n) d in
     rbind (can_commute_through_dim initial_op (snd st) dim False) (\<lambda>(_, new_dim).
     rbind (set_dim (cm_shape c) new_dim 1) (\<lambda>cs.
     rbind (set_shape_at op cs st) (\<lambda>st1.
     rbind (golden_set dim 1 (cm_golden c)) (\<lambda>golden.
     rbind (change_op op (\<lambda>p. update_reduce_attr dim keep (add_golden_transform golden p)) st1) (\<lambda>st2.
     rbind (of_opt Undefined_behaviour (cm_clone c)) (\<lambda>cl.
     rbind (set_dim cl dim 1) (\<lambda>cl'.
       Inr (st2, c\<lparr>cm_shape := cs, cm_clone := Some cl', cm_golden := golden\<rparr>))))))))))"

definition commute_through_reduce ::
    "NodeId \<Rightarrow> NodeId \<Rightarrow> NodeId option \<Rightarrow> NodeId option \<Rightarrow> bool \<Rightarrow> Commuting \<Rightarrow> GS \<Rightarrow> (GS \<times> Commuting) result" where
  "commute_through_reduce op initial_op producer next_node up c st =
     rbind (reduce_plan False (snd st) op initial_op producer up (cm_shape c, cm_clone c)) (\<lambda>(can, cs, cl).
     tt_assert can
       (rbind (of_opt Assert_failed next_node) (\<lambda>next_node.
        tt_assert (\<not> up)
          (let c1 = c\<lparr>cm_shape := cs, cm_clone := cl\<rparr> in
           rbind (op_at (snd st) op) (\<lambda>(n, t).
           rbind (deref (snd st) next_node) (\<lambda>m.
             if same_op_name (op_name t) m then Inr (st, c1)
             else
               rbind (of_opt Undefined_behaviour producer) (\<lambda>p.
               rbind (op_at (snd st) p) (\<lambda>(_, pt).
                 if op_name pt = op_name t then merge_reduces op p t pt c1 st
                 else commute_single_reduce op initial_op n t c1 st))))))))"

section \<open>Element-wise operations\<close>

definition is_quantization_ops :: "OpType \<Rightarrow> bool" where
  "is_quantization_ops t \<longleftrightarrow> op_name t \<in> {''forge_quantize'', ''forge_dequantize'', ''forge_requantize''}"

definition take_shape :: "NodeId \<Rightarrow> Commuting \<Rightarrow> GS \<Rightarrow> GS result" where
  "take_shape op c st =
     rbind (set_shape_at op (cm_shape c) st) (change_op op (\<lambda>p. Inr (add_golden_transform (cm_golden c) p)))"

definition commute_through_eltwise :: "NodeId \<Rightarrow> Commuting \<Rightarrow> GS \<Rightarrow> GS result" where
  "commute_through_eltwise op c st =
     rbind (op_at (snd st) op) (\<lambda>(_, t). rbind (OpType_is_eltwise t) (\<lambda>b. tt_assert b (take_shape op c st)))"

definition commute_through_quantization :: "NodeId \<Rightarrow> Commuting \<Rightarrow> GS \<Rightarrow> GS result" where
  "commute_through_quantization op c st =
     rbind (op_at (snd st) op) (\<lambda>(_, t). tt_assert (is_quantization_ops t) (take_shape op c st))"

definition is_op_node :: "Graph \<Rightarrow> NodeId \<Rightarrow> bool result" where
  "is_op_node g i = rbind (deref g i) (\<lambda>n. Inr (op_part n \<noteq> None))"

text \<open>\<open>dynamic_cast<OpNode *>\<close> of a pointer that may be null.\<close>

definition op_node_or_null :: "Graph \<Rightarrow> NodeId option \<Rightarrow> NodeId option result" where
  "op_node_or_null g i = (case i of None \<Rightarrow> Inr None
     | Some j \<Rightarrow> rbind (is_op_node g j) (\<lambda>b. Inr (if b then Some j else None)))"

definition can_commute_past_op ::
    "NodeId \<Rightarrow> NodeId \<Rightarrow> Graph \<Rightarrow> bool \<Rightarrow> NodeId option \<Rightarrow> Shapes \<Rightarrow> (bool \<times> Shapes) result" where
  "can_commute_past_op op initial_op g commute_up producer shapes =
     rbind (op_at g op) (\<lambda>(_, t).
       if op_name t = ''reduce_avg'' \<or> op_name t = ''reduce_sum'' then
         rbind (op_node_or_null g producer) (\<lambda>p. can_commute_through_reduce g op initial_op p commute_up shapes)
       else if op_name t = ''concatenate'' then can_commute_through_concat g op initial_op producer commute_up shapes
       else if op_name t = ''select'' then can_commute_through_select g op initial_op producer commute_up shapes
       else rbind (OpType_is_eltwise t) (\<lambda>b.
         Inr (b \<and> op_name t \<noteq> ''interleave'' \<or> is_quantization_ops t, shapes)))"

section \<open>Broadcasts on the way\<close>

record BcastChange =
  bc_can :: bool
  bc_commute :: Shape
  bc_clone :: Shape
  bc_on_commute :: "int list"
  bc_on_clone :: "int list"

definition scale_dim :: "Shape \<Rightarrow> int \<Rightarrow> int \<Rightarrow> Shape result" where
  "scale_dim s d v = rbind (shape_at s d) (\<lambda>x. set_dim s d (x * word_of_int v))"

definition scale_entry :: "int list \<Rightarrow> int \<Rightarrow> int \<Rightarrow> int list result" where
  "scale_entry xs d v = rbind (int_index xs d) (\<lambda>x. int_update xs d (x * v))"

definition bcast_step :: "NodeId \<Rightarrow> Graph \<Rightarrow> BcastChange \<Rightarrow> OpType \<Rightarrow> BcastChange result" where
  "bcast_step initial_op g b t =
     (if \<not> is_broadcast t then Inr b
      else
        rbind (legacy_int t 0) (\<lambda>d.
        rbind (legacy_int t 1) (\<lambda>v.
        let dim = wrap_dim (bc_clone b) d in
        rbind (can_commute_through_dim initial_op g dim False) (\<lambda>(can, new_dim).
          if \<not> (bc_can b \<and> can) then Inr (b\<lparr>bc_can := False\<rparr>)
          else
            rbind (scale_dim (bc_commute b) new_dim v) (\<lambda>cs.
            rbind (scale_entry (bc_on_commute b) new_dim v) (\<lambda>on_cs.
            rbind (scale_dim (bc_clone b) dim v) (\<lambda>cl.
            rbind (scale_entry (bc_on_clone b) dim v) (\<lambda>on_cl.
              Inr (b\<lparr>bc_commute := cs, bc_clone := cl, bc_on_commute := on_cs, bc_on_clone := on_cl\<rparr>)))))))))"

definition handle_shape_change_through_bcast ::
    "NodeId \<Rightarrow> NodeId \<Rightarrow> NodeId \<Rightarrow> GS \<Rightarrow> Shape \<times> Shape \<Rightarrow> BcastChange result" where
  "handle_shape_change_through_bcast initial_op producer consumer st shapes =
     rbind (retrieve_between_edge (snd st) producer consumer) (\<lambda>e.
     rbind (edge_tms st e) (\<lambda>ts.
       foldR (bcast_step initial_op (snd st))
         \<lparr>bc_can = True, bc_commute = fst shapes, bc_clone = snd shapes,
          bc_on_commute = replicate (shape_size (fst shapes)) 1,
          bc_on_clone = replicate (shape_size (snd shapes)) 1\<rparr> ts))"

text \<open>Every broadcast of the edge is set again, the one of the same dimension with both volumes.\<close>

definition recompound ::
    "int \<Rightarrow> int \<Rightarrow> EdgeAttributes \<times> bool \<Rightarrow> OpType \<Rightarrow> (EdgeAttributes \<times> bool) result" where
  "recompound dim vol r t =
     (if \<not> is_broadcast t then Inr r
      else
        rbind (legacy_int t 0) (\<lambda>d. rbind (legacy_int t 1) (\<lambda>v. rbind (legacy_bool t 2) (\<lambda>ex.
        rbind (set_broadcast_dim d (if d = dim then v * vol else v) ex (fst r)) (\<lambda>a.
          Inr (a, snd r \<or> d = dim))))))"

definition add_or_compound_bcast :: "int \<Rightarrow> int \<Rightarrow> Edge \<Rightarrow> GS \<Rightarrow> GS result" where
  "add_or_compound_bcast dim vol = update_edge_attr (\<lambda>a.
     let b = clear_broadcast_dims a in
     if tms a = [] then set_broadcast_dim dim vol False b
     else rbind (foldR (recompound dim vol) (b, False) (tms a)) (\<lambda>(b', compounded).
            if compounded then Inr b' else set_broadcast_dim dim vol False b'))"

definition restore_bcast ::
    "(Shape \<Rightarrow> int \<Rightarrow> bool) \<Rightarrow> Shape \<Rightarrow> Edge \<Rightarrow> GS \<Rightarrow> OpType \<Rightarrow> GS result" where
  "restore_bcast eval_condition s e st t =
     (if \<not> is_broadcast t then Inr st
      else rbind (legacy_int t 0) (\<lambda>d. rbind (legacy_int t 1) (\<lambda>v.
        let dim = wrap_dim s d in
        if eval_condition s dim then Inr st else add_or_compound_bcast dim v e st)))"

definition restore_bcast_on_condition ::
    "Edge \<Rightarrow> OpType list \<Rightarrow> Shape \<Rightarrow> (Shape \<Rightarrow> int \<Rightarrow> bool) \<Rightarrow> GS \<Rightarrow> GS result" where
  "restore_bcast_on_condition e orig_tms s eval_condition st = foldR (restore_bcast eval_condition s e) st orig_tms"

definition update_bcast_dim_commuted_through_transpose :: "int \<Rightarrow> OpType \<Rightarrow> int result" where
  "update_bcast_dim_commuted_through_transpose dim t =
     tt_assert (op_name t = ''transpose'')
       (rbind (OpType_int t ''dim0'') (\<lambda>d0. rbind (OpType_int t ''dim1'') (\<lambda>d1. Inr (swapped_dim d0 d1 dim))))"
section \<open>Broadcasts through a clone\<close>

text \<open>The shape of the operand under the broadcasts, their total volume and their dimensions as written.\<close>

record BcastScan =
  bs_shape :: Shape
  bs_volume :: int
  bs_dims :: "int list"

definition pad_front_shape :: "nat \<Rightarrow> Shape \<Rightarrow> Shape" where
  "pad_front_shape k s = shape_create (pad_front k (sh_dims s))"

definition scan_bcast :: "BcastScan \<Rightarrow> OpType \<Rightarrow> BcastScan result" where
  "scan_bcast b t =
     (if \<not> is_broadcast t then Inr b
      else
        rbind (legacy_int t 0) (\<lambda>d. rbind (legacy_int t 1) (\<lambda>v.
        let s = (if d < 0 then pad_front_shape (nat (- d)) (bs_shape b) else bs_shape b) in
        rbind (set_dim s (wrap_dim s d) (word_of_int v)) (\<lambda>s'.
          Inr \<lparr>bs_shape = s', bs_volume = bs_volume b * v, bs_dims = bs_dims b @ [d]\<rparr>))))"

definition swap_dims :: "int \<Rightarrow> int \<Rightarrow> Shape \<Rightarrow> Shape result" where
  "swap_dims i j s =
     rbind (shape_at s i) (\<lambda>x. rbind (shape_at s j) (\<lambda>y. rbind (set_dim s i y) (\<lambda>s'. set_dim s' j x)))"

text \<open>The five cases of a reshape in the order they are tried.\<close>

datatype ReshapeCase = Transposes | Flatten_first | Flatten_last | Single_bcast | Nop_reshape

definition classify_reshape :: "Shape \<Rightarrow> BcastScan \<Rightarrow> int \<Rightarrow> int \<Rightarrow> ReshapeCase option result" where
  "classify_reshape os b mo mop =
     (let s = bs_shape b; size = int (shape_size os);
          mo_neg = mo - int (shape_size s); mop_neg = mop - size
      in rbind (swap_dims mo mop s) (\<lambda>swapped.
         rbind (volume_above (sh_dims os) mop) (\<lambda>above_op.
         rbind (volume_above (sh_dims s) mo) (\<lambda>above.
         rbind (volume_below (sh_dims os) (mop + 1)) (\<lambda>below_op.
         rbind (volume_below (sh_dims s) (mo + 1)) (\<lambda>below.
         Inr (if shape_eq swapped os \<and> shape_neq s os \<and> mo \<noteq> mop then Some Transposes
              else if mop = size - 2 \<and> mo_neg = mop_neg - 1 then Some Flatten_first
              else if mop = size - 1 \<and> mo_neg = mop_neg \<and> bs_volume b = above_op \<and> bs_volume b = above
                then Some Flatten_last
              else if length (bs_dims b) = 1 \<and> below_op = below \<and> above_op = above \<and> mop_neg = mo_neg \<and>
                      (hd (bs_dims b) = mop_neg \<or> hd (bs_dims b) = mop) then Some Single_bcast
              else if are_different_ranked_shapes_equivalent os s then Some Nop_reshape
              else None)))))))"

text \<open>
  Entry \<open>idx\<close> of the shape becomes one and a broadcast of the users' edge instead. The positional
  attribute is written in a copy, which fails when the reshape has none.
\<close>

definition hoist_bcast :: "NodeId \<Rightarrow> Edge \<Rightarrow> Edge \<Rightarrow> int \<Rightarrow> int \<Rightarrow> GS \<Rightarrow> GS result" where
  "hoist_bcast op operand_edge user_edge idx bcast_dim st =
     rbind (op_at (snd st) op) (\<lambda>(n, t).
     rbind (shape_at (node_shape n) idx) (\<lambda>v.
     rbind (rbind (int_index (legacy_attrs t) idx) get_int) (\<lambda>_.
     rbind (set_dim (node_shape n) idx 1) (\<lambda>s.
     rbind (set_shape_at op s st) (\<lambda>st1.
     rbind (change_op op (update_reshape_attr s) st1) (\<lambda>st2.
     rbind (update_edge_attr (\<lambda>a. Inr (clear_broadcast_dims a)) operand_edge st2) (\<lambda>st3.
       add_or_compound_bcast bcast_dim (sint v) user_edge st3)))))))"

text \<open>The broadcasts move to the users' edge, counted from the end.\<close>

definition move_bcast :: "Shape \<Rightarrow> Edge \<Rightarrow> GS \<Rightarrow> OpType \<Rightarrow> GS result" where
  "move_bcast s user_edge st t =
     (if \<not> is_broadcast t then Inr st
      else rbind (legacy_int t 0) (\<lambda>d. rbind (legacy_int t 1) (\<lambda>v.
             add_or_compound_bcast (if 0 \<le> d then d - int (shape_size s) else d) v user_edge st)))"

text \<open>The shape of the operand without leading ones, at the rank of the operation.\<close>

definition shrink_to_operand :: "NodeId \<Rightarrow> Shape \<Rightarrow> GS \<Rightarrow> GS result" where
  "shrink_to_operand op original st =
     rbind (deref (snd st) op) (\<lambda>n.
     rbind (drop_leading (shape_size (node_shape n)) (sh_dims original)) (\<lambda>ds.
       set_shape_at op (shape_create ds) st))"

definition from_end :: "Shape \<Rightarrow> int \<Rightarrow> nat \<Rightarrow> bool" where
  "from_end s dim k \<longleftrightarrow> (word_of_int dim :: u32) = word_of_int (int (shape_size s) - int k)"

definition commute_bcast_through_reshape ::
    "NodeId \<Rightarrow> Edge \<Rightarrow> Edge \<Rightarrow> OpType list \<Rightarrow> Shape \<Rightarrow> BcastScan \<Rightarrow> int \<Rightarrow> int \<Rightarrow> GS \<Rightarrow> (GS \<times> bool) result" where
  "commute_bcast_through_reshape op operand_edge user_edge ts original b mo mop st =
     rbind (deref (snd st) op) (\<lambda>n.
     let os = node_shape n; s = bs_shape b; size = int (shape_size os);
         restore = (\<lambda>c st. rbind (restore_bcast_on_condition operand_edge ts s c st) (\<lambda>st'. Inr (st', True)))
     in rbind (same_volumes (sh_dims s) mo (sh_dims os) mop) (\<lambda>same.
        if \<not> same then Inr (st, False)
        else rbind (classify_reshape os b mo mop) (\<lambda>k. case k of
          None \<Rightarrow> Inr (st, False)
        | Some Transposes \<Rightarrow>
            rbind (rbind (vec_at ts 0) (\<lambda>t. legacy_int t 0)) (\<lambda>d.
            rbind (hoist_bcast op operand_edge user_edge (wrap_dim s d) (wrap_dim s d) st)
              (restore (\<lambda>_ dim. dim \<noteq> mo)))
        | Some Flatten_first \<Rightarrow>
            rbind (hoist_bcast op operand_edge user_edge (size - 1) (-1) st)
              (restore (\<lambda>s dim. from_end s dim 1 \<or> from_end s dim 2))
        | Some Flatten_last \<Rightarrow>
            rbind (hoist_bcast op operand_edge user_edge (size - 2) (-2) st)
              (restore (\<lambda>s dim. from_end s dim 2 \<or> from_end s dim 3))
        | Some Single_bcast \<Rightarrow>
            rbind (hoist_bcast op operand_edge user_edge mop (mop - size) st) (\<lambda>st'. Inr (st', True))
        | Some Nop_reshape \<Rightarrow>
            rbind (update_edge_attr (\<lambda>a. Inr (clear_broadcast_dims a)) operand_edge st) (\<lambda>st1.
            rbind (shrink_to_operand op original st1) (\<lambda>st2.
            rbind (deref (snd st2) op) (\<lambda>n2.
            rbind (change_op op (update_reshape_attr (node_shape n2)) st2) (\<lambda>st3.
            rbind (foldR (move_bcast s user_edge) st3 ts) (\<lambda>st4. Inr (st4, True)))))))))"

definition transpose_bcast ::
    "NodeId \<Rightarrow> OpType \<Rightarrow> Shape \<Rightarrow> Shape \<Rightarrow> GS \<times> Shape \<Rightarrow> OpType \<Rightarrow> (GS \<times> Shape) result" where
  "transpose_bcast op t operand_shape s r tm =
     (if \<not> is_broadcast tm then Inr r
      else
        rbind (legacy_int tm 0) (\<lambda>d.
        let dim = (if 0 < d then d - int (shape_size s) else d) in
        rbind (shape_at operand_shape dim) (\<lambda>x.
        rbind (update_bcast_dim_commuted_through_transpose dim t) (\<lambda>dim'.
        rbind (set_dim (snd r) dim' x) (\<lambda>s'.
        rbind (user_data_edges any_edge (snd (fst r)) op) (\<lambda>us.
        rbind (foldR (\<lambda>st u. update_edge_attr
                 (\<lambda>a. Inr (prepend_tm (tm\<lparr>legacy_attrs := (legacy_attrs tm)[0 := AInt dim']\<rparr>) a)) u st) (fst r) us) (\<lambda>st'.
          Inr (st', s'))))))))"

definition try_commute_bcast_through_clone :: "NodeId \<Rightarrow> GS \<Rightarrow> (GS \<times> bool) result" where
  "try_commute_bcast_through_clone op st =
     rbind (op_at (snd st) op) (\<lambda>(n, t).
       if op_name t \<notin> {''transpose'', ''reshape'', ''squeeze'', ''unsqueeze''} then Inr (st, False)
       else
         rbind (rbind (operand_data_edges any_edge (snd st) op) (\<lambda>es. vec_at es 0)) (\<lambda>operand_edge.
         rbind (rbind (user_data_edges any_edge (snd st) op) (\<lambda>es. vec_at es 0)) (\<lambda>user_edge.
         rbind (node_by_id (snd st) (producer_node_id operand_edge)) (\<lambda>operand.
         rbind (edge_tms st operand_edge) (\<lambda>ts.
         let os = node_shape n; original = node_shape operand in
         rbind (foldR scan_bcast \<lparr>bs_shape = pad_front_shape (shape_size os) original, bs_volume = 1, bs_dims = []\<rparr> ts) (\<lambda>b.
           if bs_dims b = [] then Inr (st, True)
           else
             rbind (matching_dims False (bs_shape b) os) (\<lambda>m. case m of
               None \<Rightarrow> Inr (st, False)
             | Some (mo, mop) \<Rightarrow>
                 if op_name t = ''reshape'' then
                   commute_bcast_through_reshape op operand_edge user_edge ts original b (int mo) (int mop) st
                 else if op_name t = ''transpose'' then
                   rbind (foldR (transpose_bcast op t original (bs_shape b)) (st, os) ts) (\<lambda>(st1, s').
                   rbind (set_shape_at op s' st1) (\<lambda>st2.
                   rbind (update_edge_attr (\<lambda>a. Inr (clear_broadcast_dims a)) operand_edge st2) (\<lambda>st3.
                     Inr (st3, True))))
                 else
                   tt_assert (are_different_ranked_shapes_equivalent os (bs_shape b))
                     (rbind (update_edge_attr (\<lambda>a. Inr (clear_broadcast_dims a)) operand_edge st) (\<lambda>st1.
                      rbind (shrink_to_operand op original st1) (\<lambda>st2.
                      rbind (foldR (move_bcast (bs_shape b) user_edge) st2 ts) (\<lambda>st3. Inr (st3, False))))))))))))"

section \<open>Forks of the producers\<close>

text \<open>
  The loop and the recursion of \<open>all_producer_forks_have_equivalent\<close> go up the operands; \<open>fuel\<close> bounds the
  nodes met on a way up.
\<close>

fun all_producer_forks_have_equivalent ::
    "nat \<Rightarrow> op_shape_fn \<Rightarrow> GS \<Rightarrow> NodeId \<Rightarrow> Shape \<Rightarrow> NodeId \<Rightarrow> bool result" where
  "all_producer_forks_have_equivalent 0 op_shape st initial_op commute_shape op = Inl Out_of_fuel"
| "all_producer_forks_have_equivalent (Suc k) op_shape st initial_op commute_shape op =
     rbind (are_compatible_ops op_shape st initial_op op (Some commute_shape) False) (\<lambda>found.
     rbind (data_operands (snd st) op) (\<lambda>os.
     rbind (vec_at os 0) (\<lambda>first.
     rbind (can_commute_past_op op initial_op (snd st) True (Some first) (commute_shape, None)) (\<lambda>(can, cs, _).
     rbind (allR (\<lambda>i.
        rbind (deref (snd st) i) (\<lambda>n.
        if (case input_part n of Some f \<Rightarrow> input_type f = In_Constant \<or> input_type f = In_Parameter | None \<Rightarrow> False)
        then Inr True
        else
          rbind (can_commute_past_op op initial_op (snd st) True (Some i) (cs, None)) (\<lambda>(_, cs', _).
            if op_part n = None then Inr False
            else all_producer_forks_have_equivalent k op_shape st initial_op cs' i))) (tl os)) (\<lambda>all_forks.
       if found \<and> all_forks then Inr True
       else if \<not> can \<or> \<not> all_forks then Inr False
       else rbind (is_op_node (snd st) first) (\<lambda>b.
              if b then all_producer_forks_have_equivalent k op_shape st initial_op cs first else Inr False))))))"

declare all_producer_forks_have_equivalent.simps [simp del]

end
