(* ===== verification/Erase_Inverse.thy ===== *)
theory Erase_Inverse
  imports Commute
begin

text \<open>
  The pass \<open>erase_inverse_ops\<close> (\<open>passes/erase_inverse_ops.cpp\<close>): the search for an operation that undoes
  another, the step that moves the first along the path to the second with clones on every edge that joins
  or leaves the path, and the loop until nothing is found. The search takes as much fuel as the graph has
  nodes and one more; the number of rounds is a parameter.
\<close>

declare map_of_eq_Some_iff [simp del] Some_eq_map_of_iff [simp del] split_paired_All [simp del]
  split_paired_Ex [simp del]

section \<open>The path to an operation that undoes another\<close>

text \<open>
  \<open>find_path_to_inverse_op\<close> runs down the first users; the other users are searched by a call of their
  own, which begins with the shape of the first operation as clone shape. \<open>fuel\<close> bounds the operations on
  a way down. The result is empty when no inverse is found.
\<close>

definition shape_through_bcast ::
    "NodeId \<Rightarrow> NodeId option \<Rightarrow> NodeId \<Rightarrow> GS \<Rightarrow> Shape \<times> Shape \<Rightarrow> (Shape \<times> Shape) option result" where
  "shape_through_bcast initial_op previous_op op st shapes = (case previous_op of
     None \<Rightarrow> Inr (Some shapes)
   | Some p \<Rightarrow> rbind (handle_shape_change_through_bcast initial_op p op st shapes) (\<lambda>b.
       Inr (if bc_can b then Some (bc_commute b, bc_clone b) else None)))"

text \<open>The body of the loop; \<open>go\<close> is the next iteration and the recursive call.\<close>

type_synonym path_search = "Shape \<times> Shape \<Rightarrow> NodeId option \<Rightarrow> NodeId \<Rightarrow> NodeId list \<Rightarrow> NodeId list result"

definition forks_have_inverse :: "path_search \<Rightarrow> GS \<Rightarrow> Shape \<Rightarrow> NodeId \<Rightarrow> NodeId \<Rightarrow> NodeId list \<Rightarrow> bool result" where
  "forks_have_inverse go st cs initial_op op us =
     rbind (deref (snd st) initial_op) (\<lambda>first.
       allR (\<lambda>u. rbind (is_op_node (snd st) u) (\<lambda>b.
         if \<not> b then Inr False
         else rbind (go (cs, node_shape first) (Some op) u []) (\<lambda>p. Inr (p \<noteq> [])))) us)"

text \<open>What follows once it is known whether the operation is an inverse and whether the forks have one.\<close>

definition path_continue ::
    "path_search \<Rightarrow> GS \<Rightarrow> bool \<Rightarrow> bool \<Rightarrow> Shapes \<Rightarrow> NodeId \<Rightarrow> NodeId list \<Rightarrow> NodeId list \<Rightarrow> NodeId list result" where
  "path_continue go st found all_forks shapes op us path =
     (if \<not> all_forks then Inr (if found then path else [])
      else
        rbind (vec_at us 0) (\<lambda>user.
        rbind (is_op_node (snd st) user) (\<lambda>b.
          if found then Inr path
          else if \<not> b then Inr []
          else rbind (of_opt Undefined_behaviour (snd shapes)) (\<lambda>cl. go (fst shapes, cl) (Some op) user path))))"

definition path_visit :: "path_search \<Rightarrow> op_shape_fn \<Rightarrow> GS \<Rightarrow> NodeId \<Rightarrow> path_search" where
  "path_visit go op_shape st initial_op shapes previous_op op path =
     rbind (is_op_node (snd st) op) (\<lambda>is_op.
     tt_assert is_op
       (rbind (shape_through_bcast initial_op previous_op op st shapes) (\<lambda>r. case r of
          None \<Rightarrow> Inr []
        | Some (cs, cl) \<Rightarrow>
            rbind (are_compatible_ops op_shape st initial_op op (Some cs) True) (\<lambda>found.
            rbind (can_commute_past_op op initial_op (snd st) False None (cs, Some cl)) (\<lambda>(can, shapes').
            rbind (data_users (snd st) op) (\<lambda>us.
            rbind (forks_have_inverse go st (fst shapes') initial_op op (tl us)) (\<lambda>all_forks.
              if found \<or> can \<or> op = initial_op
              then path_continue go st found all_forks shapes' op us (path @ [op]) else Inr [])))))))"

primrec find_path :: "nat \<Rightarrow> op_shape_fn \<Rightarrow> GS \<Rightarrow> NodeId \<Rightarrow> path_search" where
  "find_path 0 op_shape st initial_op = (\<lambda>shapes previous_op op path. Inl Out_of_fuel)"
| "find_path (Suc k) op_shape st initial_op = path_visit (find_path k op_shape st initial_op) op_shape st initial_op"

definition find_path_to_inverse_op :: "nat \<Rightarrow> op_shape_fn \<Rightarrow> GS \<Rightarrow> NodeId \<Rightarrow> Shape \<Rightarrow> NodeId list result" where
  "find_path_to_inverse_op fuel op_shape st initial_op commute_shape =
     rbind (deref (snd st) initial_op) (\<lambda>n.
       find_path fuel op_shape st initial_op (commute_shape, node_shape n) None initial_op [])"

section \<open>Broadcasts of an edge\<close>

fun any_bcast_on :: "int \<Rightarrow> OpType list \<Rightarrow> bool result" where
  "any_bcast_on d [] = Inr False"
| "any_bcast_on d (t # ts) =
     (if \<not> is_broadcast t then any_bcast_on d ts
      else rbind (legacy_int t 0) (\<lambda>x. if x = d then Inr True else any_bcast_on d ts))"

definition has_broadcast_on_dim :: "GS \<Rightarrow> Edge \<Rightarrow> int \<Rightarrow> bool result" where
  "has_broadcast_on_dim st e needed_dim = rbind (edge_tms st e) (any_bcast_on needed_dim)"

definition set_bcast_dims :: "int list \<Rightarrow> Edge \<Rightarrow> GS \<Rightarrow> GS result" where
  "set_bcast_dims volumes = update_edge_attr (\<lambda>a.
     foldR (\<lambda>a (i, v). if v > 1 then set_broadcast_dim (int i) v False a else Inr a)
       (clear_broadcast_dims a) (enumerate 0 volumes))"

section \<open>Commuting along the path\<close>

text \<open>
  Clones of the first operation go on the edges that leave the path. When both ends are operations, the
  broadcasts that were computed for the edge that leaves are set on the edge of the path.
\<close>

record Pass =
  ps_consteval :: "ConstEvalRef \<Rightarrow> ConstEvalRef result"
  ps_shape :: op_shape_fn

definition try_consteval_clone :: "Pass \<Rightarrow> NodeId \<Rightarrow> GS \<Rightarrow> (GS \<times> bool) result" where
  "try_consteval_clone ps i st =
     rbind (try_consteval_op (ps_consteval ps) i st) (\<lambda>(st', n). Inr (st', n \<noteq> None))"

definition change_rank_of :: "Pass \<Rightarrow> NodeId \<Rightarrow> GS \<Rightarrow> GS result" where
  "change_rank_of ps = handle_change_rank_of_node (ps_consteval ps) (try_consteval_clone ps)"

definition take_output_df :: "NodeId \<Rightarrow> NodeId \<Rightarrow> GS \<Rightarrow> GS result" where
  "take_output_df i producer st =
     rbind (node_by_id (snd st) producer) (\<lambda>p.
       on_graph (update_node i (\<lambda>n. Inr (node_set_output_df (node_output_df p) n))) st)"

definition clone_into ::
    "Pass \<Rightarrow> NodeId \<Rightarrow> string \<Rightarrow> nat \<Rightarrow> NodeId \<Rightarrow> GS \<Rightarrow> (GS \<times> NodeId) result" where
  "clone_into ps i infix_name edge_id beside st =
     rbind (deref (snd st) i) (\<lambda>n.
     rbind (node_clone (ps_consteval ps) (node_name n @ infix_name @ show_nat edge_id) n) (\<lambda>c.
     rbind (get_subgraph_id_for_node (snd st) beside) (\<lambda>s. put_node c s st)))"

definition user_commute_clone ::
    "Pass \<Rightarrow> NodeId \<Rightarrow> NodeId \<Rightarrow> NodeId \<Rightarrow> Shape \<times> Shape \<Rightarrow> GS \<Rightarrow> Edge \<Rightarrow> GS result" where
  "user_commute_clone ps first producer consumer shapes st e =
     (if consumer_node_id e = consumer then Inr st
      else
        rbind (is_op_node (snd st) producer) (\<lambda>a.
        rbind (is_op_node (snd st) (consumer_node_id e)) (\<lambda>b.
        rbind (if a \<and> b then
                 rbind (handle_shape_change_through_bcast first producer (consumer_node_id e) st shapes) (\<lambda>r.
                 rbind (retrieve_between_edge (snd st) producer consumer) (\<lambda>between.
                 rbind (set_bcast_dims (bc_on_commute r) between st) (\<lambda>st1. Inr (st1, bc_clone r))))
               else Inr (st, snd shapes)) (\<lambda>(st1, cl).
        rbind (clone_into ps first ''_user_commute_clone'' (edge_creation_id e) (consumer_node_id e) st1) (\<lambda>(st2, i).
        rbind (change_op i (update_reshape_attr cl) st2) (\<lambda>st3.
        rbind (set_shape_at i cl st3) (\<lambda>st4.
        rbind (insert_node_on_edge_default e i st4) (\<lambda>(st5, incoming, _).
        rbind (convert_implicit_to_explicit_bcasts incoming st5) (\<lambda>st6.
        rbind (change_rank_of ps i st6) (\<lambda>st7.
          take_output_df i (producer_node_id incoming) st7))))))))))"

text \<open>The positional attributes of a golden reshape follow the broadcasts.\<close>

definition scale_golden :: "int list \<Rightarrow> OpType \<Rightarrow> OpType result" where
  "scale_golden volumes t =
     (if \<not> OpType_is t Op_Reshape then Inr t
      else foldR (\<lambda>t i. rbind (legacy_int t i) (\<lambda>x. rbind (vec_at volumes i) (\<lambda>v.
             Inr (t\<lparr>legacy_attrs := (legacy_attrs t)[i := AInt (v * x)]\<rparr>)))) t [0..<length (legacy_attrs t)])"

definition through_path_bcast :: "NodeId \<Rightarrow> NodeId \<Rightarrow> NodeId \<Rightarrow> Commuting \<Rightarrow> GS \<Rightarrow> (GS \<times> Commuting) result" where
  "through_path_bcast first producer consumer c st =
     rbind (of_opt Undefined_behaviour (cm_clone c)) (\<lambda>cl.
     rbind (handle_shape_change_through_bcast first producer consumer st (cm_shape c, cl)) (\<lambda>b.
     rbind (scale_golden (bc_on_clone b) (cm_golden c)) (\<lambda>golden.
     rbind (retrieve_between_edge (snd st) producer consumer) (\<lambda>between.
     rbind (set_bcast_dims (bc_on_commute b) between st) (\<lambda>st1.
       Inr (st1, c\<lparr>cm_shape := bc_commute b, cm_clone := Some (bc_clone b), cm_golden := golden\<rparr>))))))"

definition commute_past ::
    "NodeId \<Rightarrow> NodeId option \<Rightarrow> NodeId \<Rightarrow> NodeId result \<Rightarrow> Commuting \<Rightarrow> GS \<Rightarrow> (GS \<times> Commuting) result" where
  "commute_past first producer op next_op c st =
     rbind (op_at (snd st) op) (\<lambda>(_, t).
       if op_name t = ''reduce_avg'' \<or> op_name t = ''reduce_sum'' then
         rbind next_op (\<lambda>next_node. commute_through_reduce op first producer (Some next_node) False c st)
       else if op_name t = ''concatenate'' then commute_through_concat op first producer False c st
       else if op_name t = ''select'' then commute_through_select op first producer False c st
       else rbind (OpType_is_eltwise t) (\<lambda>b.
              if b then rbind (commute_through_eltwise op c st) (\<lambda>st'. Inr (st', c))
              else if is_quantization_ops t then rbind (commute_through_quantization op c st) (\<lambda>st'. Inr (st', c))
              else Inr (st, c)))"
definition commute_consumer ::
    "NodeId \<Rightarrow> NodeId \<Rightarrow> NodeId \<Rightarrow> NodeId result \<Rightarrow> Commuting \<Rightarrow> GS \<Rightarrow> (GS \<times> Commuting) result" where
  "commute_consumer first producer consumer next_op c st =
     rbind (is_op_node (snd st) consumer) (\<lambda>b.
       if \<not> b then Inr (st, c)
       else
         rbind (is_op_node (snd st) producer) (\<lambda>a.
         rbind (if a then through_path_bcast first producer consumer c st else Inr (st, c)) (\<lambda>(st1, c1).
           commute_past first (if a then Some producer else None) consumer next_op c1 st1)))"

text \<open>The shape of an operand clone; a retained dimension is the operand's own.\<close>

definition operand_clone_shape :: "Commuting \<Rightarrow> Node \<Rightarrow> Shape result" where
  "operand_clone_shape c producer =
     (if retain_operand_dim c then
        rbind (shape_at (node_shape producer) (fst (operand_dims c))) (\<lambda>v.
          set_dim (cm_shape c) (snd (operand_dims c)) v)
      else Inr (cm_shape c))"

text \<open>A clone of a squeeze is an unsqueeze and the other way round.\<close>

definition swap_squeeze :: "OpType \<Rightarrow> Node \<Rightarrow> OpFields \<Rightarrow> OpFields result" where
  "swap_squeeze t producer p =
     (if op_name t = ''unsqueeze'' then
        rbind (vec_at (legacy_attrs t) 0) (\<lambda>d.
        rbind (mk_OpType ''squeeze'' [d] [(''dim'', d)]) (\<lambda>t'. Inr (change_op_type t' p)))
      else if op_name t = ''squeeze'' then
        rbind (vec_at (legacy_attrs t) 0) (\<lambda>d.
        rbind (mk_OpType ''unsqueeze'' [d, AInt (int (shape_size (node_shape producer)))] [(''dim'', d)]) (\<lambda>t'.
          Inr (change_op_type t' p)))
      else Inr p)"

text \<open>The dimensions of an input from the end on, at a rank that may be smaller.\<close>

definition input_dim_at :: "Shape \<Rightarrow> Shape \<Rightarrow> int \<Rightarrow> Shape result" where
  "input_dim_at ins s i =
     rbind (shape_at ins i) (\<lambda>x. if 0 \<le> i + int (shape_size s) then set_dim s i x else tt_assert (x = 1) (Inr s))"

definition input_reshape :: "NodeId \<Rightarrow> Node \<Rightarrow> Shape \<Rightarrow> OpType list \<Rightarrow> GS \<Rightarrow> GS result" where
  "input_reshape op consumer ins ts st =
     rbind (mk_OpType ''reshape'' [] []) (\<lambda>t.
     rbind (change_op op (\<lambda>p. Inr (change_op_type t p)) st) (\<lambda>st1.
     rbind (foldR (input_dim_at ins) (shape_create (replicate (shape_size (node_shape consumer)) 1))
              (map (\<lambda>k. - 1 - int k) [0..<shape_size ins])) (\<lambda>s.
     rbind (foldR (\<lambda>s t. if \<not> is_broadcast t then Inr s
                     else rbind (legacy_int t 0) (\<lambda>d. rbind (legacy_int t 1) (scale_dim s d))) s ts) (\<lambda>s'.
     rbind (set_shape_at op s' st1) (change_op op (update_reshape_attr s'))))))"

definition operand_commute_clone ::
    "Pass \<Rightarrow> NodeId \<Rightarrow> NodeId \<Rightarrow> NodeId \<Rightarrow> NodeId \<Rightarrow> Commuting \<Rightarrow> GS \<Rightarrow> Edge \<Rightarrow> GS result" where
  "operand_commute_clone ps first last_op producer consumer c st e =
     (if producer_node_id e = producer then Inr st
      else
        rbind (convert_implicit_to_explicit_bcasts e st) (\<lambda>st1.
        rbind (clone_into ps last_op ''_operand_commute_clone'' (edge_creation_id e) (producer_node_id e) st1) (\<lambda>(st2, i).
        rbind (node_by_id (snd st2) (producer_node_id e)) (\<lambda>p.
        rbind (operand_clone_shape c p) (\<lambda>s.
        rbind (op_at (snd st2) i) (\<lambda>(_, it).
        rbind (if op_name it = ''reshape'' then change_op i (update_reshape_attr s) st2 else Inr st2) (\<lambda>st3.
        rbind (set_shape_at i s st3) (\<lambda>st4.
        rbind (op_at (snd st4) first) (\<lambda>(_, t).
        rbind (change_op i (swap_squeeze t p) st4) (\<lambda>st5.
        rbind (if op_name t \<in> {''unsqueeze'', ''squeeze''} \<and> input_part p \<noteq> None then
                 rbind (deref (snd st5) consumer) (\<lambda>cn. rbind (edge_tms st5 e) (\<lambda>ts.
                   input_reshape i cn (node_shape p) ts st5))
               else Inr st5) (\<lambda>st6.
        rbind (insert_node_on_edge_default e i st6) (\<lambda>(st7, incoming, _).
        rbind (take_output_df i (producer_node_id incoming) st7) (\<lambda>st8.
        rbind (change_rank_of ps i st8) (\<lambda>st9.
        rbind (try_commute_bcast_through_clone i st9) (\<lambda>(st10, _).
        rbind (first_operand_node (snd st10) i) (\<lambda>on.
          if input_part on = None then Inr st10
          else rbind (rbind (data_operands (snd st10) i) (\<lambda>os. vec_at os 0)) (\<lambda>j.
               rbind (try_consteval_input_no_operand_forks (ps_consteval ps) j True st10) (\<lambda>(st11, _).
                 Inr st11))))))))))))))))))"

definition commute_step ::
    "Pass \<Rightarrow> NodeId list \<Rightarrow> GS \<times> Commuting \<Rightarrow> nat \<Rightarrow> (GS \<times> Commuting) result" where
  "commute_step ps path sc i = (case sc of (st, c0) \<Rightarrow>
     let first = hd path; producer = path ! (i - 1); consumer = path ! i;
         c = c0\<lparr>retain_operand_dim := False\<rparr>
     in rbind (deref (snd st) consumer) (\<lambda>n.
        rbind (of_opt Undefined_behaviour (cm_clone c)) (\<lambda>cl.
        rbind (user_data_edges any_edge (snd st) producer) (\<lambda>us.
        rbind (foldR (user_commute_clone ps first producer consumer (cm_shape c, cl)) st us) (\<lambda>st1.
        rbind (commute_consumer first producer consumer (vec_at path (Suc i)) c st1) (\<lambda>(st2, c2).
        rbind (operand_data_edges any_edge (snd st2) consumer) (\<lambda>os.
        rbind (foldR (operand_commute_clone ps first (last path) producer consumer c2) st2 os) (\<lambda>st3.
        rbind (on_graph (update_node consumer (\<lambda>m. Inr (node_set_output_df (node_output_df n) m))) st3) (\<lambda>st4.
          Inr (st4, c2))))))))))"

text \<open>
  The operations are now back to back. An adjacent squeeze and unsqueeze are bypassed without a change of
  rank, which would put them back.
\<close>

definition change_rank_unless ::
    "Pass \<Rightarrow> NodeId \<Rightarrow> NodeId \<Rightarrow> bool \<Rightarrow> Edge \<Rightarrow> Edge \<Rightarrow> GS \<Rightarrow> GS result" where
  "change_rank_unless ps first last_op is_squeeze e old st =
     (if \<not> is_squeeze \<or> first \<noteq> producer_node_id old \<or> last_op \<noteq> consumer_node_id old
      then handle_change_rank (ps_consteval ps) (try_consteval_clone ps) e st else Inr st)"

definition fix_inverse_bcast :: "op_shape_fn \<Rightarrow> NodeId \<Rightarrow> NodeId \<Rightarrow> GS \<Rightarrow> GS result" where
  "fix_inverse_bcast op_shape first last_op st =
     rbind (rbind (operand_data_edges any_edge (snd st) last_op) (\<lambda>es. vec_at es 0)) (\<lambda>e.
     rbind (total_broadcast_volume st e) (\<lambda>vol.
     rbind (shape_of_only_operand op_shape st first) (\<lambda>s.
     rbind (deref (snd st) last_op) (\<lambda>m.
       case are_inverse_with_broadcast s (node_shape m) vol of (b, d) \<Rightarrow>
         if b then update_edge_attr (\<lambda>a. set_broadcast_dim d (sint (ucast vol :: u32)) False (clear_broadcast_dims a)) e st
         else Inr st))))"

definition commute_and_bypass :: "Pass \<Rightarrow> NodeId list \<Rightarrow> GS \<Rightarrow> GS result" where
  "commute_and_bypass ps path st =
     tt_assert (length path \<ge> 2)
       (let first = hd path; last_op = last path in
        rbind (op_at (snd st) first) (\<lambda>(n, t).
        rbind (op_at (snd st) last_op) (\<lambda>_.
        rbind (shape_of_only_operand (ps_shape ps) st first) (\<lambda>s.
        rbind (foldR (commute_step ps path)
                 (st, \<lparr>cm_shape = s, cm_clone = Some (node_shape n), retain_operand_dim = False,
                       operand_dims = (0, 0), cm_golden = t\<rparr>) [1..<length path]) (\<lambda>(st1, _).
        rbind (fix_inverse_bcast (ps_shape ps) first last_op st1) (\<lambda>st2.
        rbind (op_at (snd st2) first) (\<lambda>(_, t2).
        let callback = change_rank_unless ps first last_op (op_name t2 \<in> {''squeeze'', ''unsqueeze''}) in
        rbind (bypass_node callback first True st2) (\<lambda>(st3, _).
        rbind (bypass_node callback last_op True st3) (\<lambda>(st4, _). Inr st4)))))))))"

section \<open>The pass\<close>

definition inverse_candidate :: "Graph \<Rightarrow> NodeId \<Rightarrow> bool result" where
  "inverse_candidate g i =
     rbind (deref g i) (\<lambda>n. Inr (case op_part n of None \<Rightarrow> False
       | Some p \<Rightarrow> \<not> has_tag ''dont_erase'' n \<and> map_of match_fns (op_name (node_op_type p)) \<noteq> None))"

text \<open>The first candidate in topological order that has a path.\<close>

fun first_inverse_path :: "op_shape_fn \<Rightarrow> GS \<Rightarrow> NodeId list \<Rightarrow> NodeId list result" where
  "first_inverse_path op_shape st [] = Inr []"
| "first_inverse_path op_shape st (i # is) =
     rbind (inverse_candidate (snd st) i) (\<lambda>b.
       if \<not> b then first_inverse_path op_shape st is
       else
         rbind (shape_of_only_operand op_shape st i) (\<lambda>s.
         rbind (find_path_to_inverse_op (Suc (length (nodes_map (snd st)))) op_shape st i s) (\<lambda>path.
           if path = [] then first_inverse_path op_shape st is else Inr path)))"

fun erase_inverse_ops :: "nat \<Rightarrow> Pass \<Rightarrow> GS \<times> bool \<Rightarrow> (GS \<times> bool) result" where
  "erase_inverse_ops 0 ps (st, updated) = Inl Out_of_fuel"
| "erase_inverse_ops (Suc k) ps (st, updated) =
     rbind (topo_order (fst st) (snd st)) (\<lambda>is.
     rbind (first_inverse_path (ps_shape ps) st is) (\<lambda>path.
       if path = [] then Inr (st, updated)
       else rbind (commute_and_bypass ps path st) (\<lambda>st'. erase_inverse_ops k ps (st', True))))"

declare erase_inverse_ops.simps [simp del]

end
