(* ===== verification/Insert_Inverse.thy ===== *)
theory Insert_Inverse
  imports Erase_Inverse
begin

text \<open>
  The passes that put an operation and its inverse on the edges of inputs and outputs, and the operation in
  front of a reshape that does not undo it (\<open>passes/insert_inverse_on_io.cpp\<close>): the three searches, up to
  the inputs, down to an output, down to a reshape, the insertions and the loops. The searches take fuel for
  the operations on a way; the number of rounds of a pass is a parameter.
\<close>

declare map_of_eq_Some_iff [simp del] Some_eq_map_of_iff [simp del] split_paired_All [simp del]
  split_paired_Ex [simp del]

section \<open>Small operations of the passes\<close>

definition clone_for :: "Pass \<Rightarrow> NodeId \<Rightarrow> string \<Rightarrow> nat \<Rightarrow> GS \<Rightarrow> (GS \<times> NodeId) result" where
  "clone_for ps i infix_name edge_id = clone_into ps i infix_name edge_id i"

definition tag_dont_erase :: "NodeId \<Rightarrow> GS \<Rightarrow> GS result" where
  "tag_dont_erase i = on_graph (update_node i (\<lambda>n. Inr (tag_node ''dont_erase'' (TagBool True) n)))"

definition first_data_operand_edge :: "Graph \<Rightarrow> NodeId \<Rightarrow> Edge result" where
  "first_data_operand_edge g i = rbind (operand_data_edges any_edge g i) (\<lambda>es. vec_at es 0)"

definition first_data_user_edge :: "Graph \<Rightarrow> NodeId \<Rightarrow> Edge result" where
  "first_data_user_edge g i = rbind (user_data_edges any_edge g i) (\<lambda>es. vec_at es 0)"

definition is_constant_or_parameter :: "Node \<Rightarrow> bool" where
  "is_constant_or_parameter n =
     (case input_part n of None \<Rightarrow> False | Some f \<Rightarrow> input_type f = In_Constant \<or> input_type f = In_Parameter)"

text \<open>\<open>try_consteval_op\<close> with the report: it is written whenever the operation can be evaluated.\<close>

definition try_consteval_op_reported :: "(ConstEvalRef \<Rightarrow> ConstEvalRef result) \<Rightarrow> NodeId \<Rightarrow> GS \<Rightarrow> (GS \<times> Node option) result" where
  "try_consteval_op_reported ce i st =
     rbind (is_consteval_capable_op False st i) (\<lambda>capable.
       if \<not> capable then Inr (st, None)
       else
         rbind (data_operands (snd st) i) (\<lambda>os.
         rbind (vec_at os 0) (\<lambda>j.
         rbind (rbind (deref (snd st) j) as_InputNode) (\<lambda>_.
         rbind (get_consteval_graph ce j st) (\<lambda>(st1, r).
         rbind (promote_runtime_node ce r i st1) (\<lambda>(st2, n).
         rbind (check_report r st2) (\<lambda>st3. Inr (st3, n))))))))"

section \<open>Edges of inputs that an operation can be moved to\<close>

type_synonym IOEdgeInfo = "Edge \<times> Shape \<times> Shape"

text \<open>The other operands; \<open>go\<close> searches one of them. Constants and parameters are left to the pass that erases.\<close>

type_synonym input_search = "Shape \<times> Shape \<Rightarrow> NodeId option \<Rightarrow> NodeId \<Rightarrow> IOEdgeInfo list result"

fun input_forks ::
    "input_search \<Rightarrow> GS \<Rightarrow> NodeId \<Rightarrow> Shape \<times> Shape \<Rightarrow> NodeId \<Rightarrow> NodeId list \<Rightarrow> IOEdgeInfo list \<Rightarrow>
     (bool \<times> IOEdgeInfo list) result" where
  "input_forks go st initial_op shapes op [] acc = Inr (True, acc)"
| "input_forks go st initial_op shapes op (i # is) acc =
     rbind (deref (snd st) i) (\<lambda>n.
       if is_constant_or_parameter n then input_forks go st initial_op shapes op is acc
       else
         rbind (can_commute_past_op op initial_op (snd st) True (Some i) (fst shapes, Some (snd shapes))) (\<lambda>(can, cs, cl).
           if \<not> (can \<and> op_part n \<noteq> None) then Inr (False, acc)
           else
             rbind (of_opt Undefined_behaviour cl) (\<lambda>cl'.
             rbind (go (cs, cl') (Some op) i) (\<lambda>new.
               if new = [] then Inr (False, acc) else input_forks go st initial_op shapes op is (acc @ new)))))"

text \<open>
  The body of the loop: \<open>next_up\<close> goes on with the first operand and what was found so far, \<open>go\<close> is the
  recursive call.
\<close>

definition input_step ::
    "(IOEdgeInfo list \<Rightarrow> input_search) \<Rightarrow> input_search \<Rightarrow> GS \<Rightarrow> NodeId \<Rightarrow> IOEdgeInfo list \<Rightarrow> input_search" where
  "input_step next_up go st initial_op acc shapes previous_op op =
     rbind (is_op_node (snd st) op) (\<lambda>is_op. tt_assert is_op
       (rbind (case previous_op of None \<Rightarrow> Inr False | Some p \<Rightarrow> are_bcasts_between_ops st op p) (\<lambda>bcast.
        if bcast then Inr []
        else
          rbind (data_operands (snd st) op) (\<lambda>os.
          rbind (input_forks go st initial_op shapes op (tl os) acc) (\<lambda>(all_forks, acc').
          rbind (vec_at os 0) (\<lambda>first.
          rbind (can_commute_past_op op initial_op (snd st) True (Some first) (fst shapes, Some (snd shapes)))
            (\<lambda>(can, cs, cl).
          rbind (of_opt Undefined_behaviour cl) (\<lambda>cl'.
          rbind (deref (snd st) first) (\<lambda>n.
            if can \<and> input_part n \<noteq> None \<and> all_forks \<and> op \<noteq> initial_op then
              rbind (first_data_operand_edge (snd st) op) (\<lambda>e. Inr (acc' @ [(e, cs, cl')]))
            else if op \<noteq> initial_op \<and> (\<not> can \<or> \<not> all_forks) then Inr []
            else if op_part n = None \<or> input_part n \<noteq> None then Inr []
            else next_up acc' (cs, cl') (Some op) first)))))))))"

definition feeds_output :: "Graph \<Rightarrow> NodeId \<Rightarrow> bool result" where
  "feeds_output g i =
     rbind (data_users g i) (\<lambda>us. rbind (vec_at us 0) (\<lambda>u. rbind (deref g u) (\<lambda>n. Inr (output_part n \<noteq> None))))"

definition unless_output :: "GS \<Rightarrow> NodeId \<Rightarrow> input_search \<Rightarrow> input_search" where
  "unless_output st initial_op go shapes previous_op op =
     rbind (feeds_output (snd st) initial_op) (\<lambda>b. if b then Inr [] else go shapes previous_op op)"

primrec input_edges_up :: "nat \<Rightarrow> GS \<Rightarrow> NodeId \<Rightarrow> IOEdgeInfo list \<Rightarrow> input_search" where
  "input_edges_up 0 st initial_op = (\<lambda>acc shapes previous_op op. Inl Out_of_fuel)"
| "input_edges_up (Suc k) st initial_op =
     input_step (input_edges_up k st initial_op)
       (unless_output st initial_op (input_edges_up k st initial_op [])) st initial_op"

definition all_edges_to_input_nodes_commutable :: "nat \<Rightarrow> GS \<Rightarrow> NodeId \<Rightarrow> Shape \<times> Shape \<Rightarrow> IOEdgeInfo list result" where
  "all_edges_to_input_nodes_commutable fuel st initial_op shapes =
     unless_output st initial_op (input_edges_up fuel st initial_op []) shapes None initial_op"

section \<open>An output or an operation that undoes it\<close>

text \<open>
  The shapes after the broadcasts of the edge before; whether it can pass them is not asked. A user that is
  no operation makes the recursive call begin at the operation again.
\<close>

definition shapes_through_bcast ::
    "NodeId \<Rightarrow> NodeId option \<Rightarrow> NodeId \<Rightarrow> GS \<Rightarrow> Shape \<times> Shape \<Rightarrow> (Shape \<times> Shape) result" where
  "shapes_through_bcast initial_op previous_op op st shapes = (case previous_op of
     None \<Rightarrow> Inr shapes
   | Some p \<Rightarrow> rbind (handle_shape_change_through_bcast initial_op p op st shapes) (\<lambda>b.
       Inr (bc_commute b, bc_clone b)))"

definition fork_start :: "Graph \<Rightarrow> NodeId \<Rightarrow> NodeId \<Rightarrow> NodeId result" where
  "fork_start g initial_op u = rbind (is_op_node g u) (\<lambda>b. Inr (if b then u else initial_op))"

definition starting_shapes :: "Graph \<Rightarrow> NodeId \<Rightarrow> Shape \<Rightarrow> (Shape \<times> Shape) result" where
  "starting_shapes g initial_op cs = rbind (deref g initial_op) (\<lambda>n. Inr (cs, node_shape n))"

type_synonym output_search = "Shape \<times> Shape \<Rightarrow> NodeId option \<Rightarrow> NodeId \<Rightarrow> (bool \<times> IOEdgeInfo option) result"

text \<open>\<open>None\<close>: every fork reaches an output or an inverse; otherwise the result at which the loop stops.\<close>

fun output_forks ::
    "output_search \<Rightarrow> GS \<Rightarrow> NodeId \<Rightarrow> Shape \<Rightarrow> NodeId \<Rightarrow> NodeId list \<Rightarrow> (bool \<times> IOEdgeInfo option) option result" where
  "output_forks go st initial_op cs op [] = Inr None"
| "output_forks go st initial_op cs op (u # us) =
     rbind (fork_start (snd st) initial_op u) (\<lambda>start.
     rbind (starting_shapes (snd st) initial_op cs) (\<lambda>shapes.
     rbind (go shapes (Some op) start) (\<lambda>(found, info).
       if info \<noteq> None then Inr (Some (found, info))
       else if \<not> found then Inr (Some (False, None))
       else output_forks go st initial_op cs op us)))"

definition is_partial_datacopy :: "Edge \<Rightarrow> bool" where
  "is_partial_datacopy e \<longleftrightarrow> edge_type e = kPartialDataCopy"

text \<open>After the forks: the first user is an output, an operation to go on with, or neither.\<close>

definition output_continue ::
    "output_search \<Rightarrow> nat \<Rightarrow> op_shape_fn \<Rightarrow> GS \<Rightarrow> NodeId \<Rightarrow> Shape \<times> Shape \<Rightarrow> NodeId \<Rightarrow> NodeId list \<Rightarrow>
     (bool \<times> IOEdgeInfo option) result" where
  "output_continue go fuel op_shape st initial_op shapes op us =
     rbind (vec_at us 0) (\<lambda>u.
     rbind (user_edges is_partial_datacopy (snd st) u) (\<lambda>copies.
     rbind (deref (snd st) u) (\<lambda>n.
     rbind (user_data_edges any_edge (snd st) op) (\<lambda>es.
       if output_part n \<noteq> None \<and> (op \<noteq> initial_op \<or> 1 < length es) \<and> copies = [] then
         rbind (all_producer_forks_have_equivalent fuel op_shape st initial_op (fst shapes) op) (\<lambda>b.
           if \<not> b then Inr (False, None) else rbind (vec_at es 0) (\<lambda>e. Inr (True, Some (e, shapes))))
       else if op_part n = None then Inr (False, None)
       else go shapes (Some op) u))))"

definition output_visit ::
    "output_search \<Rightarrow> nat \<Rightarrow> op_shape_fn \<Rightarrow> GS \<Rightarrow> NodeId \<Rightarrow> output_search" where
  "output_visit go fuel op_shape st initial_op shapes previous_op op =
     rbind (is_op_node (snd st) op) (\<lambda>is_op. tt_assert is_op
       (rbind (shapes_through_bcast initial_op previous_op op st shapes) (\<lambda>(cs, cl).
        rbind (can_commute_past_op op initial_op (snd st) False None (cs, Some cl)) (\<lambda>(can, cs', cl').
        rbind (of_opt Undefined_behaviour cl') (\<lambda>cl''.
        rbind (are_compatible_ops op_shape st initial_op op (Some cs') True) (\<lambda>found_inverse.
          if found_inverse then Inr (True, None)
          else
            rbind (data_users (snd st) op) (\<lambda>us.
            rbind (output_forks go st initial_op cs' op (tl us)) (\<lambda>stop. case stop of
              Some r \<Rightarrow> Inr r
            | None \<Rightarrow>
                if \<not> can \<and> op \<noteq> initial_op then Inr (False, None)
                else output_continue go fuel op_shape st initial_op (cs', cl'') op us))))))))"

primrec find_output_edge :: "nat \<Rightarrow> op_shape_fn \<Rightarrow> GS \<Rightarrow> NodeId \<Rightarrow> output_search" where
  "find_output_edge 0 op_shape st initial_op = (\<lambda>shapes previous_op op. Inl Out_of_fuel)"
| "find_output_edge (Suc k) op_shape st initial_op =
     output_visit (find_output_edge k op_shape st initial_op) k op_shape st initial_op"

definition find_commutable_output_edge ::
    "nat \<Rightarrow> op_shape_fn \<Rightarrow> GS \<Rightarrow> NodeId \<Rightarrow> Shape \<Rightarrow> (bool \<times> IOEdgeInfo option) result" where
  "find_commutable_output_edge fuel op_shape st initial_op cs =
     rbind (starting_shapes (snd st) initial_op cs) (\<lambda>shapes.
       find_output_edge fuel op_shape st initial_op shapes None initial_op)"

section \<open>A reshape downstream that does not undo it\<close>

type_synonym tm_search = "IOEdgeInfo list \<Rightarrow> Shape \<times> Shape \<Rightarrow> NodeId option \<Rightarrow> NodeId \<Rightarrow> (IOEdgeInfo list \<times> bool) result"

definition add_edge_info :: "IOEdgeInfo list \<Rightarrow> IOEdgeInfo \<Rightarrow> IOEdgeInfo list" where
  "add_edge_info xs x = (if edge_creation_id (fst x) \<in> set (map (edge_creation_id \<circ> fst) xs) then xs else xs @ [x])"

fun tm_forks ::
    "tm_search \<Rightarrow> GS \<Rightarrow> NodeId \<Rightarrow> Shape \<Rightarrow> NodeId \<Rightarrow> NodeId list \<Rightarrow> IOEdgeInfo list \<Rightarrow> (IOEdgeInfo list \<times> bool) result" where
  "tm_forks go st initial_op cs op [] acc = Inr (acc, True)"
| "tm_forks go st initial_op cs op (u # us) acc =
     rbind (fork_start (snd st) initial_op u) (\<lambda>start.
     rbind (starting_shapes (snd st) initial_op cs) (\<lambda>shapes.
     rbind (go [] shapes (Some op) start) (\<lambda>(new, continue).
       if \<not> continue then Inr ([], False)
       else tm_forks go st initial_op cs op us (foldl add_edge_info acc new))))"

definition tm_visit :: "tm_search \<Rightarrow> nat \<Rightarrow> op_shape_fn \<Rightarrow> GS \<Rightarrow> NodeId \<Rightarrow> tm_search" where
  "tm_visit go fuel op_shape st initial_op acc shapes previous_op op =
     rbind (is_op_node (snd st) op) (\<lambda>is_op. tt_assert is_op
       (rbind (shapes_through_bcast initial_op previous_op op st shapes) (\<lambda>(cs, cl).
        rbind (can_commute_past_op op initial_op (snd st) False None (cs, Some cl)) (\<lambda>(can, cs', cl').
        rbind (of_opt Undefined_behaviour cl') (\<lambda>cl''.
        rbind (op_at (snd st) initial_op) (\<lambda>(_, ti).
        rbind (op_at (snd st) op) (\<lambda>(_, t).
        rbind (are_compatible_ops op_shape st initial_op op (Some cs') True) (\<lambda>found_inverse.
          if op \<noteq> initial_op \<and> op_name ti = op_name t \<and> op_name t = ''reshape'' \<and> \<not> found_inverse then
            rbind (all_producer_forks_have_equivalent fuel op_shape st initial_op cs'
                     (case previous_op of None \<Rightarrow> initial_op | Some p \<Rightarrow> p)) (\<lambda>b.
              if \<not> b then Inr (acc, True)
              else rbind (first_data_operand_edge (snd st) op) (\<lambda>e. Inr (add_edge_info acc (e, cs', cl''), True)))
          else if op \<noteq> initial_op \<and> found_inverse then Inr (acc, True)
          else if op \<noteq> initial_op \<and> \<not> can then Inr ([], False)
          else
            rbind (data_users (snd st) op) (\<lambda>us.
            rbind (tm_forks go st initial_op cs' op (tl us) acc) (\<lambda>(acc', continue).
              if \<not> continue then Inr ([], False)
              else
                rbind (vec_at us 0) (\<lambda>u.
                rbind (is_op_node (snd st) u) (\<lambda>b.
                  if \<not> b then Inr (acc', True) else go acc' (cs', cl'') (Some op) u))))))))))))"

primrec find_tm_edges :: "nat \<Rightarrow> op_shape_fn \<Rightarrow> GS \<Rightarrow> NodeId \<Rightarrow> tm_search" where
  "find_tm_edges 0 op_shape st initial_op = (\<lambda>acc shapes previous_op op. Inl Out_of_fuel)"
| "find_tm_edges (Suc k) op_shape st initial_op =
     tm_visit (find_tm_edges k op_shape st initial_op) k op_shape st initial_op"

definition find_incommutable_downsrtream_tm ::
    "nat \<Rightarrow> op_shape_fn \<Rightarrow> GS \<Rightarrow> NodeId \<Rightarrow> Shape \<Rightarrow> (IOEdgeInfo list \<times> bool) result" where
  "find_incommutable_downsrtream_tm fuel op_shape st initial_op cs =
     rbind (starting_shapes (snd st) initial_op cs) (\<lambda>shapes.
       find_tm_edges fuel op_shape st initial_op [] shapes None initial_op)"

section \<open>Inserting the operations\<close>

text \<open>
  A clone of the operation with its shape on an edge, the format of its producer taken over; the edges before
  and behind it are returned.
\<close>

definition reshape_to :: "NodeId \<Rightarrow> Shape \<Rightarrow> GS \<Rightarrow> GS result" where
  "reshape_to i s st = rbind (change_op i (update_reshape_attr s) st) (set_shape_at i s)"

definition input_clones :: "Pass \<Rightarrow> NodeId \<Rightarrow> GS \<Rightarrow> IOEdgeInfo \<Rightarrow> GS result" where
  "input_clones ps initial_op st x = (case x of (e, first_reshape, second_reshape) \<Rightarrow>
     rbind (clone_for ps initial_op ''_input_commute_clone'' (edge_creation_id e) st) (\<lambda>(st1, i).
     rbind (tag_dont_erase i st1) (\<lambda>st2.
     rbind (reshape_to i first_reshape st2) (\<lambda>st3.
     rbind (insert_node_on_edge_default e i st3) (\<lambda>(st4, incoming, outgoing).
     rbind (convert_implicit_to_explicit_bcasts incoming st4) (\<lambda>st5.
     rbind (take_output_df i (producer_node_id incoming) st5) (\<lambda>st6.
     rbind (clone_for ps initial_op ''_input_commute_clone'' (edge_creation_id outgoing) st6) (\<lambda>(st7, j).
     rbind (reshape_to j second_reshape st7) (\<lambda>st8.
     rbind (insert_node_on_edge_default outgoing j st8) (\<lambda>(st9, incoming1, _).
     rbind (change_rank_of ps j st9) (\<lambda>st10.
     rbind (take_output_df j (producer_node_id incoming1) st10) (\<lambda>st11.
     rbind (node_by_id (snd st11) (producer_node_id e)) (\<lambda>p.
     rbind (op_at (snd st11) i) (\<lambda>(_, ti).
     rbind (op_at (snd st11) j) (\<lambda>(_, tj).
       if (case input_part p of None \<Rightarrow> False | Some f \<Rightarrow>
             input_type f = In_Constant \<or>
             input_type f = In_Parameter \<and>
               (op_name ti = ''reshape'' \<or>
                op_name tj = ''transpose'' \<and> \<not> training (snd st11) \<and> \<not> input_requires_grad f))
       then rbind (try_consteval_op_reported (ps_consteval ps) i st11) (\<lambda>(st12, _). Inr st12)
       else Inr st11)))))))))))))))"

definition add_inverse_to_input_edges :: "Pass \<Rightarrow> NodeId \<Rightarrow> IOEdgeInfo list \<Rightarrow> GS \<Rightarrow> GS result" where
  "add_inverse_to_input_edges ps initial_op xs st = foldR (input_clones ps initial_op) st xs"

definition add_inverse_to_output_edge :: "Pass \<Rightarrow> NodeId \<Rightarrow> IOEdgeInfo \<Rightarrow> GS \<Rightarrow> GS result" where
  "add_inverse_to_output_edge ps initial_op x st = (case x of (e, commute_shape, clone_shape) \<Rightarrow>
     rbind (clone_for ps initial_op ''_output_commute_clone'' (edge_creation_id e) st) (\<lambda>(st1, i).
     rbind (reshape_to i commute_shape st1) (\<lambda>st2.
     rbind (insert_node_on_edge_default e i st2) (\<lambda>(st3, incoming, outgoing).
     rbind (convert_implicit_to_explicit_bcasts incoming st3) (\<lambda>st4.
     rbind (take_output_df i (producer_node_id incoming) st4) (\<lambda>st5.
     rbind (clone_for ps initial_op ''_output_commute_clone'' (edge_creation_id outgoing) st5) (\<lambda>(st6, j).
     rbind (tag_dont_erase j st6) (\<lambda>st7.
     rbind (reshape_to j clone_shape st7) (\<lambda>st8.
     rbind (insert_node_on_edge_default outgoing j st8) (\<lambda>(st9, incoming1, _).
     rbind (change_rank_of ps j st9) (take_output_df j (producer_node_id incoming1))))))))))))"

definition tm_clone :: "Pass \<Rightarrow> NodeId \<Rightarrow> GS \<Rightarrow> IOEdgeInfo \<Rightarrow> GS result" where
  "tm_clone ps initial_op st x = (case x of (e, commute_shape, _) \<Rightarrow>
     rbind (clone_for ps initial_op ''_tm_commute_clone'' (edge_creation_id e) st) (\<lambda>(st1, i).
     rbind (reshape_to i commute_shape st1) (\<lambda>st2.
     rbind (insert_node_on_edge_default e i st2) (\<lambda>(st3, incoming, _).
     rbind (convert_implicit_to_explicit_bcasts incoming st3) (take_output_df i (producer_node_id incoming))))))"

definition add_inverse_to_tm_edges :: "Pass \<Rightarrow> NodeId \<Rightarrow> IOEdgeInfo list \<Rightarrow> GS \<Rightarrow> GS result" where
  "add_inverse_to_tm_edges ps initial_op xs st = foldR (tm_clone ps initial_op) st xs"

section \<open>The passes\<close>

definition node_fuel :: "GS \<Rightarrow> nat" where
  "node_fuel st = Suc (length (nodes_map (snd st)))"

definition movable_op :: "string set \<Rightarrow> Graph \<Rightarrow> NodeId \<Rightarrow> bool result" where
  "movable_op names g i =
     rbind (deref g i) (\<lambda>n. Inr (case op_part n of None \<Rightarrow> False
       | Some p \<Rightarrow> \<not> has_tag ''dont_erase'' n \<and> op_name (node_op_type p) \<in> names))"

text \<open>The first operation of a list for which a search finds something.\<close>

fun first_found ::
    "(NodeId \<Rightarrow> bool result) \<Rightarrow> (NodeId \<Rightarrow> 'a option result) \<Rightarrow> NodeId list \<Rightarrow> (NodeId \<times> 'a) option result" where
  "first_found c f [] = Inr None"
| "first_found c f (i # is) =
     rbind (c i) (\<lambda>b.
       if \<not> b then first_found c f is
       else rbind (f i) (\<lambda>r. case r of None \<Rightarrow> first_found c f is | Some x \<Rightarrow> Inr (Some (i, x))))"

definition input_edges_of :: "op_shape_fn \<Rightarrow> GS \<Rightarrow> NodeId \<Rightarrow> IOEdgeInfo list option result" where
  "input_edges_of op_shape st i =
     rbind (deref (snd st) i) (\<lambda>n.
     rbind (shape_of_only_operand op_shape st i) (\<lambda>s.
     rbind (all_edges_to_input_nodes_commutable (node_fuel st) st i (node_shape n, s)) (\<lambda>es.
       Inr (if es = [] then None else Some es))))"

definition output_edge_of :: "op_shape_fn \<Rightarrow> GS \<Rightarrow> NodeId \<Rightarrow> IOEdgeInfo option result" where
  "output_edge_of op_shape st i =
     rbind (shape_of_only_operand op_shape st i) (\<lambda>s.
     rbind (find_commutable_output_edge (node_fuel st) op_shape st i s) (\<lambda>(_, info). Inr info))"

definition tm_edges_of :: "op_shape_fn \<Rightarrow> GS \<Rightarrow> NodeId \<Rightarrow> IOEdgeInfo list option result" where
  "tm_edges_of op_shape st i =
     rbind (shape_of_only_operand op_shape st i) (\<lambda>s.
     rbind (deref (snd st) i) (\<lambda>n.
       if are_different_ranked_shapes_equivalent s (node_shape n) then Inr None
       else
         rbind (find_incommutable_downsrtream_tm (node_fuel st) op_shape st i s) (\<lambda>(es, _).
           Inr (if es = [] then None else Some es))))"

text \<open>\<open>while (attempt_update)\<close>: search the sorted graph, change it, begin again.\<close>

fun until_none ::
    "nat \<Rightarrow> (GS \<Rightarrow> (NodeId \<times> 'a) option result) \<Rightarrow> (NodeId \<Rightarrow> 'a \<Rightarrow> GS \<Rightarrow> GS result) \<Rightarrow> GS \<times> bool \<Rightarrow> (GS \<times> bool) result" where
  "until_none 0 seek act (st, updated) = Inl Out_of_fuel"
| "until_none (Suc k) seek act (st, updated) =
     rbind (seek st) (\<lambda>r. case r of None \<Rightarrow> Inr (st, updated)
       | Some (i, x) \<Rightarrow> rbind (act i x st) (\<lambda>st'. until_none k seek act (st', True)))"

declare until_none.simps [simp del]

definition find_in_order ::
    "string set \<Rightarrow> (GS \<Rightarrow> NodeId \<Rightarrow> 'a option result) \<Rightarrow> GS \<Rightarrow> (NodeId \<times> 'a) option result" where
  "find_in_order names f st =
     rbind (topo_order (fst st) (snd st)) (first_found (movable_op names (snd st)) (f st))"

definition insert_inverse_on_inputs :: "nat \<Rightarrow> Pass \<Rightarrow> GS \<Rightarrow> (GS \<times> bool) result" where
  "insert_inverse_on_inputs fuel ps st =
     until_none fuel (find_in_order {''reshape'', ''transpose''} (input_edges_of (ps_shape ps)))
       (add_inverse_to_input_edges ps) (st, False)"

definition insert_inverse_on_outputs :: "nat \<Rightarrow> Pass \<Rightarrow> GS \<Rightarrow> (GS \<times> bool) result" where
  "insert_inverse_on_outputs fuel ps st =
     until_none fuel (find_in_order {''reshape'', ''transpose''} (output_edge_of (ps_shape ps)))
       (add_inverse_to_output_edge ps) (st, False)"

definition insert_inverse_on_downstream_tms :: "Pass \<Rightarrow> GS \<Rightarrow> (GS \<times> bool) result" where
  "insert_inverse_on_downstream_tms ps st =
     rbind (find_in_order {''reshape''} (tm_edges_of (ps_shape ps)) st) (\<lambda>r. case r of
       None \<Rightarrow> Inr (st, False)
     | Some (i, es) \<Rightarrow> rbind (add_inverse_to_tm_edges ps i es st) (\<lambda>st'. Inr (st', True)))"

end
