(* ===== verification/Replace_Patterns.thy ===== *)
theory Replace_Patterns
  imports Insert_Inverse
begin

text \<open>
  The pass that rewrites patterns a reshape cannot be moved past (\<open>passes/replace_incommutable_patterns.cpp\<close>):
  an average over the rows followed by one over the columns becomes a grouped one between two reshapes, and
  a concatenation of reshapes along the rows works on the shape before them. The search takes fuel for the
  operations on a way.
\<close>

declare map_of_eq_Some_iff [simp del] Some_eq_map_of_iff [simp del] split_paired_All [simp del]
  split_paired_Ex [simp del]

section \<open>Hoisting a broadcast\<close>

text \<open>The volume of the first broadcast of a dimension.\<close>

fun bcast_volume_on :: "int \<Rightarrow> OpType list \<Rightarrow> int option result" where
  "bcast_volume_on d [] = Inr None"
| "bcast_volume_on d (t # ts) =
     (if \<not> is_broadcast t then bcast_volume_on d ts
      else rbind (legacy_int t 0) (\<lambda>x.
        if x \<noteq> d then bcast_volume_on d ts else rbind (legacy_int t 1) (\<lambda>v. Inr (Some v))))"

definition one_data_user :: "Graph \<Rightarrow> NodeId \<Rightarrow> 'a result \<Rightarrow> 'a result" where
  "one_data_user g i k = rbind (data_users g i) (\<lambda>us. tt_assert (length us = 1) k)"

definition bcast_other_operand :: "int \<Rightarrow> int \<Rightarrow> NodeId \<Rightarrow> GS \<Rightarrow> Edge \<Rightarrow> GS result" where
  "bcast_other_operand dim vol before st e =
     (if producer_node_id e = before then Inr st else update_edge_attr (set_broadcast_dim dim vol False) e st)"

text \<open>Operation \<open>path[i]\<close> computes with the dimension at its full size, its other operands broadcast.\<close>

definition hoist_past :: "NodeId list \<Rightarrow> int \<Rightarrow> int \<Rightarrow> GS \<Rightarrow> nat \<Rightarrow> GS result" where
  "hoist_past path dim vol st i =
     (let op = path ! i in
      one_data_user (snd st) op
        (rbind (op_at (snd st) op) (\<lambda>(n, t).
         rbind (OpType_is_eltwise t) (\<lambda>b. tt_assert b
           (rbind (shape_at (node_shape n) dim) (\<lambda>x. tt_assert (x = 1)
             (rbind (set_dim (node_shape n) dim (word_of_int vol)) (\<lambda>s.
              rbind (set_shape_at op s st) (\<lambda>st1.
              rbind (operand_data_edges any_edge (snd st1) op) (\<lambda>es.
                foldR (bcast_other_operand dim vol (path ! (i - 1))) st1 es))))))))))"

definition hoist_bcast_through_path :: "NodeId list \<Rightarrow> int \<Rightarrow> GS \<Rightarrow> GS result" where
  "hoist_bcast_through_path path dim st =
     (if length path < 2 then Inr st
      else
        one_data_user (snd st) (last path)
          (rbind (first_data_user_edge (snd st) (last path)) (\<lambda>e.
           rbind (edge_tms st e) (\<lambda>ts.
           rbind (bcast_volume_on dim ts) (\<lambda>v.
           rbind (case v of None \<Rightarrow> Inr st
                  | Some _ \<Rightarrow> update_edge_attr (\<lambda>a. rbind (remove_broadcast_dim dim a) (remove_broadcast_dim dim)) e st)
             (\<lambda>st1.
           rbind (of_opt Assert_failed v) (\<lambda>vol.
           tt_assert (vol \<noteq> -1)
             (rbind (foldR (hoist_past path dim vol) st1 (rev [1..<length path])) (\<lambda>st2.
              one_data_user (snd st2) (hd path)
                (rbind (first_data_user_edge (snd st2) (hd path)) (\<lambda>f.
                  update_edge_attr (set_broadcast_dim dim vol False) f st2)))))))))))"

section \<open>An average over the rows and then over the columns\<close>

definition is_reverse_bcast :: "int \<Rightarrow> int \<Rightarrow> OpType \<Rightarrow> bool result" where
  "is_reverse_bcast dim sz t =
     (if \<not> is_broadcast t then Inr False
      else rbind (legacy_int t 0) (\<lambda>d. if d \<noteq> dim then Inr False else rbind (legacy_int t 1) (\<lambda>v. Inr (v = sz))))"

text \<open>Every broadcast is looked at, also after one was found.\<close>

definition contains_reverse_bcast :: "int \<Rightarrow> int \<Rightarrow> OpType list \<Rightarrow> bool result" where
  "contains_reverse_bcast dim sz ts = rbind (mapR (is_reverse_bcast dim sz) ts) (\<lambda>bs. Inr (True \<in> set bs))"

text \<open>
  The loop from the second reduction on: \<open>None\<close> when the pattern is not there, otherwise the operations
  met. When it runs into a node that is no element-wise operation it ends with the flag still set.
\<close>

primrec reverse_bcast_path ::
    "nat \<Rightarrow> GS \<Rightarrow> int \<Rightarrow> int \<Rightarrow> NodeId \<Rightarrow> NodeId list \<Rightarrow> NodeId list option result" where
  "reverse_bcast_path 0 st dim sz next_op met = Inl Out_of_fuel"
| "reverse_bcast_path (Suc k) st dim sz next_op met =
     rbind (first_data_user_edge (snd st) next_op) (\<lambda>e.
     rbind (edge_tms st e) (\<lambda>ts.
     rbind (contains_reverse_bcast dim sz ts) (\<lambda>found.
       if found then Inr (Some met)
       else
         rbind (data_users (snd st) next_op) (\<lambda>us.
           if length us \<noteq> 1 then Inr None
           else
             rbind (deref (snd st) (hd us)) (\<lambda>n. case op_part n of
               None \<Rightarrow> Inr (Some met)
             | Some p \<Rightarrow>
                 rbind (OpType_is_eltwise (node_op_type p)) (\<lambda>b.
                   if \<not> b then Inr (Some met)
                   else reverse_bcast_path k st dim sz (hd us) (met @ [hd us])))))))"

definition incommutable_reduce_path :: "nat \<Rightarrow> GS \<Rightarrow> NodeId \<Rightarrow> Shape \<Rightarrow> Shape \<Rightarrow> (int \<times> NodeId list) option result" where
  "incommutable_reduce_path fuel st op cs cl =
     rbind (op_at (snd st) op) (\<lambda>(_, t).
       if op_name t \<noteq> ''reduce_avg'' then Inr None
       else
         rbind (legacy_int t 0) (\<lambda>dim.
         rbind (shape_at cs dim) (\<lambda>x. rbind (shape_at cl dim) (\<lambda>y. rbind (shape_at cl (dim - 1)) (\<lambda>z.
           if \<not> (dim = -2 \<and> x = y * z) then Inr None
           else
             rbind (data_users (snd st) op) (\<lambda>us.
             rbind (vec_at us 0) (\<lambda>u.
             rbind (deref (snd st) u) (\<lambda>n. case op_part n of
               None \<Rightarrow> Inr None
             | Some p \<Rightarrow>
                 rbind (legacy_int (node_op_type p) 0) (\<lambda>next_dim.
                   if \<not> (op_name (node_op_type p) = ''reduce_avg'' \<and> length us = 1 \<and> next_dim > dim) then Inr None
                   else
                     rbind (reverse_bcast_path fuel st dim (sint y) u [u]) (\<lambda>r.
                       Inr (map_option (Pair dim) r)))))))))))"

definition is_incommutable_reduce_avg_reduce_avg_bcast_on_incommutable_dim ::
    "nat \<Rightarrow> NodeId \<Rightarrow> Shape \<Rightarrow> Shape \<Rightarrow> GS \<Rightarrow> (GS \<times> bool) result" where
  "is_incommutable_reduce_avg_reduce_avg_bcast_on_incommutable_dim fuel op cs cl st =
     rbind (incommutable_reduce_path fuel st op cs cl) (\<lambda>r. case r of
       None \<Rightarrow> Inr (st, False)
     | Some (dim, path) \<Rightarrow> rbind (hoist_bcast_through_path path dim st) (\<lambda>st'. Inr (st', True)))"

section \<open>A concatenation of reshapes\<close>

definition is_reshape_op :: "Node \<Rightarrow> bool" where
  "is_reshape_op n \<longleftrightarrow> same_op_name ''reshape'' n"

definition same_but_rows :: "Shape \<Rightarrow> Shape \<Rightarrow> bool result" where
  "same_but_rows cs s =
     allR (\<lambda>i. if int i = int (shape_size s) - 2 then Inr True
               else rbind (shape_at s (int i)) (\<lambda>x. rbind (shape_at cs (int i)) (\<lambda>y. Inr (x = y))))
       [0..<shape_size s]"

definition is_y_dim_concat_with_changed_x_dim :: "Graph \<Rightarrow> NodeId \<Rightarrow> Shape \<Rightarrow> bool result" where
  "is_y_dim_concat_with_changed_x_dim g op cs =
     rbind (op_at g op) (\<lambda>(n, t).
       if op_name t \<noteq> ''concatenate'' then Inr False
       else
         rbind (OpType_int t ''dim'') (\<lambda>d.
           if d \<noteq> -2 then Inr False
           else
             rbind (shape_at cs (-1)) (\<lambda>x. rbind (shape_at (node_shape n) (-1)) (\<lambda>y.
               if x = y then Inr False
               else
                 rbind (data_operands g op) (allR (\<lambda>j.
                   rbind (deref g j) (\<lambda>m.
                     if \<not> is_reshape_op m then Inr False
                     else rbind (first_operand_node g j) (\<lambda>o1. same_but_rows cs (node_shape o1)))))))))"

section \<open>Replacing a pattern\<close>

definition div_u32 :: "u32 \<Rightarrow> u32 \<Rightarrow> u32 result" where
  "div_u32 x y = (if y = 0 then Inl Undefined_behaviour else Inr (x div y))"

text \<open>A clone of the reshape in front of an operation, and one behind it which takes the TMs along.\<close>

definition reshape_before :: "Pass \<Rightarrow> NodeId \<Rightarrow> Shape \<Rightarrow> Edge \<Rightarrow> GS \<Rightarrow> GS result" where
  "reshape_before ps initial_op s e st =
     rbind (clone_for ps initial_op ''_pattern_replacement_input_commute_clone'' (edge_creation_id e) st) (\<lambda>(st1, i).
     rbind (reshape_to i s st1) (\<lambda>st2.
     rbind (insert_node_on_edge_default e i st2) (\<lambda>(st3, incoming, _).
       take_output_df i (producer_node_id incoming) st3)))"

definition reshape_behind :: "Pass \<Rightarrow> NodeId \<Rightarrow> Shape \<Rightarrow> Edge \<Rightarrow> GS \<Rightarrow> GS result" where
  "reshape_behind ps initial_op s e st =
     rbind (clone_for ps initial_op ''_pattern_replacement_output_commute_clone'' (edge_creation_id e) st) (\<lambda>(st1, i).
     rbind (reshape_to i s st1) (\<lambda>st2.
     rbind (insert_node_on_edge True True 0 True e i st2) (\<lambda>(st3, incoming, _).
       take_output_df i (producer_node_id incoming) st3)))"

definition keep_other_bcasts :: "int \<Rightarrow> EdgeAttributes \<Rightarrow> EdgeAttributes result" where
  "keep_other_bcasts dim a =
     foldR (\<lambda>a t.
       if \<not> is_broadcast t then Inr a
       else rbind (legacy_int t 0) (\<lambda>d. rbind (legacy_int t 1) (\<lambda>v.
         if d = dim then Inr a else set_broadcast_dim d v False a)))
       (clear_broadcast_dims a) (tms a)"

text \<open>The attributes that name the groups are computed and not used.\<close>

definition group_reduce :: "NodeId \<Rightarrow> Shape \<Rightarrow> Shape \<Rightarrow> GS \<Rightarrow> (GS \<times> int) result" where
  "group_reduce op cs cl st =
     rbind (op_at (snd st) op) (\<lambda>(_, t).
     rbind (legacy_int t 0) (\<lambda>dim.
     rbind (shape_at cl (dim - 1)) (\<lambda>_.
     rbind (mk_OpType ''grouped_reduce_avg'' [] []) (\<lambda>t'.
     rbind (change_op op (\<lambda>p. update_grouped_reduce_avg_attr dim (change_op_type t' p)) st) (\<lambda>st1.
     rbind (set_shape_at op cs st1) (\<lambda>st2. Inr (st2, dim)))))))"

definition reduce_clone_shape :: "Graph \<Rightarrow> NodeId \<Rightarrow> int \<Rightarrow> Shape \<Rightarrow> Shape result" where
  "reduce_clone_shape g next_op next_dim s =
     rbind (deref g next_op) (\<lambda>n. rbind (shape_at (node_shape n) next_dim) (set_dim s next_dim))"

definition replace_reduce :: "Pass \<Rightarrow> NodeId \<Rightarrow> NodeId \<Rightarrow> Shape \<Rightarrow> Shape \<Rightarrow> GS \<Rightarrow> GS result" where
  "replace_reduce ps initial_op op cs cl st =
     rbind (first_data_operand_edge (snd st) op) (\<lambda>e.
     rbind (reshape_before ps initial_op cs e st) (\<lambda>st1.
     rbind (group_reduce op cs cl st1) (\<lambda>(st2, dim).
     rbind (rbind (data_users (snd st2) op) (\<lambda>us. vec_at us 0)) (\<lambda>next_op.
     rbind (op_at (snd st2) next_op) (\<lambda>(_, t).
     rbind (legacy_int t 0) (\<lambda>next_dim.
     rbind (reduce_clone_shape (snd st2) next_op next_dim cs) (\<lambda>s.
     rbind (set_shape_at next_op s st2) (\<lambda>st3.
     rbind (user_data_edges any_edge (snd st3) next_op) (\<lambda>es.
     rbind (foldR (\<lambda>st e. update_edge_attr (keep_other_bcasts dim) e st) st3 es) (\<lambda>st4.
     rbind (user_data_edges any_edge (snd st4) next_op) (\<lambda>us.
       foldR (\<lambda>st u. rbind (reduce_clone_shape (snd st) next_op next_dim cl) (\<lambda>s.
                reshape_behind ps initial_op s u st)) st4 us)))))))))))"

definition concat_operand_reshape :: "Pass \<Rightarrow> NodeId \<Rightarrow> Shape \<Rightarrow> Shape \<Rightarrow> GS \<Rightarrow> Edge \<Rightarrow> GS result" where
  "concat_operand_reshape ps initial_op cs cl st e =
     rbind (node_by_id (snd st) (producer_node_id e)) (\<lambda>p.
     rbind (shape_at (node_shape p) (-2)) (\<lambda>rows.
     rbind (shape_at cl (-1)) (\<lambda>x. rbind (shape_at cs (-1)) (\<lambda>y.
     rbind (div_u32 (rows * x) y) (\<lambda>v.
     rbind (set_dim cs (-2) v) (\<lambda>s. reshape_before ps initial_op s e st))))))"

definition reshape_op_type :: "Shape \<Rightarrow> OpType result" where
  "reshape_op_type s = mk_OpType ''reshape'' (map (\<lambda>d. AInt (sint d)) (sh_dims s)) []"

definition concat_new_shape :: "Shape \<Rightarrow> Shape \<Rightarrow> Shape result" where
  "concat_new_shape cs s =
     rbind (shape_at s (-2)) (\<lambda>a. rbind (shape_at s (-1)) (\<lambda>b. rbind (shape_at cs (-1)) (\<lambda>c.
     rbind (div_u32 (a * b) c) (\<lambda>v. rbind (set_dim s (-2) v) (\<lambda>s'. set_dim s' (-1) c)))))"

definition replace_concat :: "Pass \<Rightarrow> NodeId \<Rightarrow> NodeId \<Rightarrow> Shape \<Rightarrow> Shape \<Rightarrow> GS \<Rightarrow> GS result" where
  "replace_concat ps initial_op op cs cl st =
     rbind (operand_data_edges any_edge (snd st) op) (\<lambda>es.
     rbind (foldR (concat_operand_reshape ps initial_op cs cl) st es) (\<lambda>st1.
     rbind (deref (snd st1) op) (\<lambda>n.
     let s = node_shape n in
     rbind (concat_new_shape cs s) (\<lambda>s'.
     rbind (set_shape_at op s' st1) (\<lambda>st2.
     rbind (reshape_op_type s) (\<lambda>t.
     rbind (change_op op (\<lambda>p. Inr (add_golden_transform t p)) st2) (\<lambda>st3.
     rbind (user_data_edges any_edge (snd st3) op) (\<lambda>us.
       foldR (\<lambda>st u. reshape_behind ps initial_op s u st) st3 us))))))))"

definition attempt_replace_downward_pattern ::
    "nat \<Rightarrow> Pass \<Rightarrow> NodeId \<Rightarrow> NodeId \<Rightarrow> Shape \<Rightarrow> Shape \<Rightarrow> GS \<Rightarrow> (GS \<times> bool) result" where
  "attempt_replace_downward_pattern fuel ps initial_op op cs cl st =
     rbind (is_incommutable_reduce_avg_reduce_avg_bcast_on_incommutable_dim fuel op cs cl st) (\<lambda>(st1, reduces).
       if reduces then rbind (replace_reduce ps initial_op op cs cl st1) (\<lambda>st2. Inr (st2, True))
       else
         rbind (is_y_dim_concat_with_changed_x_dim (snd st1) op cs) (\<lambda>concat.
           if concat then rbind (replace_concat ps initial_op op cs cl st1) (\<lambda>st2. Inr (st2, True))
           else Inr (st1, False)))"

definition attempt_replace_upward_pattern :: "GS \<Rightarrow> (GS \<times> bool) result" where
  "attempt_replace_upward_pattern st = Inr (st, False)"

definition attempt_replace_pattern ::
    "nat \<Rightarrow> Pass \<Rightarrow> NodeId \<Rightarrow> NodeId \<Rightarrow> Shape \<Rightarrow> Shape \<Rightarrow> bool \<Rightarrow> GS \<Rightarrow> (GS \<times> bool) result" where
  "attempt_replace_pattern fuel ps initial_op op cs cl commute_up st =
     (if \<not> commute_up then attempt_replace_downward_pattern fuel ps initial_op op cs cl st
      else attempt_replace_upward_pattern st)"

section \<open>The search\<close>

type_synonym pattern_search = "GS \<Rightarrow> Shape \<times> Shape \<Rightarrow> NodeId option \<Rightarrow> NodeId \<Rightarrow> (GS \<times> bool) result"

definition passes_pattern :: "OpType \<Rightarrow> bool result" where
  "passes_pattern t =
     rbind (OpType_is_eltwise t) (\<lambda>b. Inr (b \<and> op_name t \<notin> {''concatenate'', ''select'', ''interleave''}))"

text \<open>The other users or operands; every one is searched, whatever the others changed.\<close>

definition pattern_fork ::
    "pattern_search \<Rightarrow> NodeId \<Rightarrow> Shape \<Rightarrow> NodeId \<Rightarrow> GS \<times> bool \<Rightarrow> NodeId \<Rightarrow> (GS \<times> bool) result" where
  "pattern_fork go initial_op cs op r j =
     rbind (is_op_node (snd (fst r)) j) (\<lambda>b.
       if \<not> b then Inr r
       else
         rbind (starting_shapes (snd (fst r)) initial_op cs) (\<lambda>shapes.
         rbind (go (fst r) shapes (Some op) j) (\<lambda>(st, replaced). Inr (st, snd r \<or> replaced))))"

definition next_nodes :: "bool \<Rightarrow> Graph \<Rightarrow> NodeId \<Rightarrow> NodeId list result" where
  "next_nodes commute_up = (if commute_up then data_operands else data_users)"

text \<open>The shapes at the operation, or \<open>None\<close> when a broadcast is in the way up.\<close>

definition pattern_shapes ::
    "bool \<Rightarrow> NodeId \<Rightarrow> NodeId option \<Rightarrow> NodeId \<Rightarrow> GS \<Rightarrow> Shape \<times> Shape \<Rightarrow> (Shape \<times> Shape) option result" where
  "pattern_shapes commute_up initial_op previous_op op st shapes =
     (case previous_op of None \<Rightarrow> Inr (Some shapes)
      | Some p \<Rightarrow>
          if commute_up then rbind (are_bcasts_between_ops st op p) (\<lambda>b. Inr (if b then None else Some shapes))
          else rbind (shapes_through_bcast initial_op (Some p) op st shapes) (\<lambda>s. Inr (Some s)))"

definition pattern_visit ::
    "pattern_search \<Rightarrow> nat \<Rightarrow> Pass \<Rightarrow> bool \<Rightarrow> NodeId \<Rightarrow> pattern_search" where
  "pattern_visit go fuel ps commute_up initial_op st shapes previous_op op =
     rbind (op_at (snd st) op) (\<lambda>(_, t).
     rbind (pattern_shapes commute_up initial_op previous_op op st shapes) (\<lambda>s. case s of
       None \<Rightarrow> Inr (st, False)
     | Some (cs, cl) \<Rightarrow>
         rbind (are_compatible_ops (ps_shape ps) st initial_op op (Some cs) True) (\<lambda>inverse.
           if inverse then Inr (st, False)
           else
             rbind (passes_pattern t) (\<lambda>can.
               if \<not> can \<and> op \<noteq> initial_op
               then attempt_replace_pattern fuel ps initial_op op cs cl commute_up st
               else
                 rbind (next_nodes commute_up (snd st) op) (\<lambda>js.
                 rbind (foldR (pattern_fork go initial_op cs op) (st, False) (tl js)) (\<lambda>(st1, replaced).
                   if replaced then Inr (st1, True)
                   else
                     rbind (of_opt Assert_failed (if js = [] then None else Some (hd js))) (\<lambda>j.
                     rbind (is_op_node (snd st1) j) (\<lambda>b.
                       if \<not> b then Inr (st1, False) else go st1 (cs, cl) (Some op) j))))))))"

primrec find_pattern :: "nat \<Rightarrow> Pass \<Rightarrow> bool \<Rightarrow> NodeId \<Rightarrow> pattern_search" where
  "find_pattern 0 ps commute_up initial_op = (\<lambda>st shapes previous_op op. Inl Out_of_fuel)"
| "find_pattern (Suc k) ps commute_up initial_op =
     pattern_visit (find_pattern k ps commute_up initial_op) k ps commute_up initial_op"

definition find_and_replace_incommutable_patterns ::
    "nat \<Rightarrow> Pass \<Rightarrow> NodeId \<Rightarrow> Shape \<Rightarrow> bool \<Rightarrow> GS \<Rightarrow> (GS \<times> bool) result" where
  "find_and_replace_incommutable_patterns fuel ps initial_op cs commute_up st =
     rbind (starting_shapes (snd st) initial_op cs) (\<lambda>shapes.
       find_pattern fuel ps commute_up initial_op st shapes None initial_op)"

fun replace_first_pattern :: "Pass \<Rightarrow> GS \<Rightarrow> NodeId list \<Rightarrow> (GS \<times> bool) result" where
  "replace_first_pattern ps st [] = Inr (st, False)"
| "replace_first_pattern ps st (i # is) =
     rbind (deref (snd st) i) (\<lambda>n.
       if \<not> is_reshape_op n then replace_first_pattern ps st is
       else
         rbind (shape_of_only_operand (ps_shape ps) st i) (\<lambda>s.
         rbind (find_and_replace_incommutable_patterns (node_fuel st) ps i s False st) (\<lambda>(st1, down).
           if down then Inr (st1, True)
           else
             rbind (shape_of_only_operand (ps_shape ps) st1 i) (\<lambda>s'.
             rbind (find_and_replace_incommutable_patterns (node_fuel st1) ps i s' True st1) (\<lambda>(st2, up).
               if up then Inr (st2, True) else replace_first_pattern ps st2 is)))))"

definition replace_incommutable_patterns :: "Pass \<Rightarrow> GS \<Rightarrow> (GS \<times> bool) result" where
  "replace_incommutable_patterns ps st = rbind (topo_order (fst st) (snd st)) (replace_first_pattern ps st)"

end
