(* ===== verification/Tm_Passes.thy ===== *)
theory Tm_Passes
  imports Replace_Patterns "HOL-Library.Signed_Division"
begin

text \<open>
  The passes around the removal of inverse operations: reshapes in a row and operations that do nothing
  (\<open>erase_consecutive_reshape.cpp\<close>, \<open>remove_nops.cpp\<close>), squeezes and unsqueezes (\<open>squeeze_to_reshape.cpp\<close>,
  \<open>explicate_unsqueeze.cpp\<close>), operations moved behind a requantization (\<open>move_requantize.cpp\<close>), transforms on
  inputs (\<open>hoist_transforms_to_inputs.cpp\<close>), what is done before lowering and after autograd
  (\<open>pre_lowering_passes.cpp\<close>, \<open>post_autograd_graph_passes.cpp\<close>) and the helpers (\<open>passes_utils.cpp\<close>).
\<close>

declare map_of_eq_Some_iff [simp del] Some_eq_map_of_iff [simp del] split_paired_All [simp del]
  split_paired_Ex [simp del]

section \<open>Helpers of the passes\<close>

text \<open>Division by zero is undefined; \<open>or\<close> does not look at the second remainder when the first is zero.\<close>

definition c_mod :: "int \<Rightarrow> int \<Rightarrow> int result" where
  "c_mod a b = (if b = 0 then Inl Undefined_behaviour else Inr (a smod b))"

definition divisible_either_direction :: "int \<Rightarrow> int \<Rightarrow> bool result" where
  "divisible_either_direction a b =
     rbind (c_mod a b) (\<lambda>x. if x = 0 then Inr True else rbind (c_mod b a) (\<lambda>y. Inr (y = 0)))"

definition recalculate_shape :: "op_shape_fn \<Rightarrow> GS \<Rightarrow> NodeId \<Rightarrow> GS result" where
  "recalculate_shape op_shape st i =
     rbind (deref (snd st) i) (\<lambda>n. if node_type n = kInput then Inr st else calculate_and_set_node_shape op_shape i st)"

definition recalculate_shapes :: "op_shape_fn \<Rightarrow> GS \<Rightarrow> GS result" where
  "recalculate_shapes op_shape st = rbind (topo_order (fst st) (snd st)) (foldR (recalculate_shape op_shape) st)"

text \<open>
  \<open>get_factors\<close> on a positive number that fits an \<open>int\<close>, where the square root is exact. A zero never
  leaves the first loop, the square root of a negative number is not one.
\<close>

function halve_out :: "nat \<Rightarrow> nat list \<times> nat" where
  "halve_out n = (if n \<noteq> 0 \<and> n mod 2 = 0 then (case halve_out (n div 2) of (fs, m) \<Rightarrow> (2 # fs, m)) else ([], n))"
  by pat_completeness auto
termination by (relation "measure (\<lambda>n. n)") auto

function divide_out :: "nat \<Rightarrow> nat \<Rightarrow> nat list \<times> nat" where
  "divide_out i n =
     (if 1 < i \<and> n \<noteq> 0 \<and> n mod i = 0 then (case divide_out i (n div i) of (fs, m) \<Rightarrow> (i # fs, m)) else ([], n))"
  by pat_completeness auto
termination by (relation "measure snd") auto

declare halve_out.simps [simp del] divide_out.simps [simp del]

definition int_sqrt :: "nat \<Rightarrow> nat" where
  "int_sqrt n = length (takeWhile (\<lambda>k. Suc k * Suc k \<le> n) [0..<n])"

definition odd_factor :: "nat list \<times> nat \<Rightarrow> nat \<Rightarrow> nat list \<times> nat" where
  "odd_factor r i = (case divide_out i (snd r) of (fs, m) \<Rightarrow> (fst r @ fs, m))"

definition odd_trials :: "nat \<Rightarrow> nat list" where
  "odd_trials root = filter odd [3..<Suc root]"

definition get_factors :: "int \<Rightarrow> int list result" where
  "get_factors num =
     (if num = 0 then Inl Out_of_fuel
      else if num < 0 then Inl Undefined_behaviour
      else
        case halve_out (nat num) of (twos, n) \<Rightarrow>
        case foldl odd_factor (twos, n) (odd_trials (int_sqrt n)) of (fs, m) \<Rightarrow>
          Inr (map int (if 2 < m then fs @ [m] else fs)))"

definition is_str_in_strings :: "string \<Rightarrow> string list list \<Rightarrow> bool" where
  "is_str_in_strings s strings \<longleftrightarrow> list_ex (\<lambda>xs. s \<in> set xs) strings"

section \<open>Operations that do nothing, squeezes as reshapes\<close>

text \<open>The nodes are those of the graph before; \<open>bypass_node\<close> fails on one that is gone.\<close>

definition bypass_removed :: "(Edge \<Rightarrow> Edge \<Rightarrow> GS \<Rightarrow> GS result) \<Rightarrow> NodeId \<Rightarrow> GS \<Rightarrow> GS result" where
  "bypass_removed callback i st = rbind (bypass_node callback i True st) (\<lambda>(st', _). Inr st')"

definition remove_nop :: "GS \<Rightarrow> NodeId \<Rightarrow> GS result" where
  "remove_nop st i =
     rbind (deref (snd st) i) (\<lambda>n. if same_op_name ''nop'' n then bypass_removed no_callback i st else Inr st)"

definition remove_nops :: "GS \<Rightarrow> GS result" where
  "remove_nops st = rbind (topo_order (fst st) (snd st)) (foldR remove_nop st)"

definition is_squeeze_op :: "Node \<Rightarrow> bool" where
  "is_squeeze_op n \<longleftrightarrow> same_op_name ''squeeze'' n \<or> same_op_name ''unsqueeze'' n"

text \<open>The positional attributes are computed and not used.\<close>

definition squeeze_as_reshape :: "GS \<times> bool \<Rightarrow> NodeId \<Rightarrow> (GS \<times> bool) result" where
  "squeeze_as_reshape r i =
     rbind (deref (snd (fst r)) i) (\<lambda>n.
       if \<not> is_squeeze_op n then Inr r
       else
         rbind (mk_OpType ''reshape'' [] []) (\<lambda>t.
         rbind (change_op i (\<lambda>p. update_reshape_attr (node_shape n) (change_op_type t p)) (fst r)) (\<lambda>st.
           Inr (st, True))))"

definition squeeze_to_reshape :: "GS \<Rightarrow> (GS \<times> bool) result" where
  "squeeze_to_reshape st = rbind (topo_order (fst st) (snd st)) (foldR squeeze_as_reshape (st, False))"

section \<open>Transforms on the inputs\<close>

definition prestride_transform :: "Shape \<Rightarrow> Node \<Rightarrow> OpType \<Rightarrow> RuntimeTensorTransform result" where
  "prestride_transform original n t =
     rbind (legacy_int t 0) (\<lambda>sh. rbind (legacy_int t 1) (\<lambda>sw. rbind (legacy_int t 2) (\<lambda>kh. rbind (legacy_int t 3) (\<lambda>kw.
       Inr (default_transform\<lparr>rtt_type := Prestride, original_shape := original,
              reinterpreted_shape := node_shape n, prestride := Some (sh, sw, kh, kw)\<rparr>)))))"

text \<open>\<open>removed\<close> are the nodes bypassed so far; every user of the input goes.\<close>

definition hoist_transform :: "GS \<times> NodeId list \<Rightarrow> NodeId \<Rightarrow> (GS \<times> NodeId list) result" where
  "hoist_transform r i = (case r of (st, removed) \<Rightarrow>
     if i \<in> set removed then Inr r
     else
       rbind (deref (snd st) i) (\<lambda>n.
       rbind (as_TaggedNode n) (\<lambda>_. case op_part n of
         None \<Rightarrow> Inr r
       | Some p \<Rightarrow>
           if \<not> has_tag ''optimize_hoist'' n then Inr r
           else
             rbind (data_operands (snd st) i) (\<lambda>os.
             tt_assert (length os = 1)
               (rbind (deref (snd st) (hd os)) (\<lambda>m.
                rbind (as_InputNode m) (\<lambda>_.
                rbind (prestride_transform (node_shape m) n (node_op_type p)) (\<lambda>rt.
                rbind (on_graph (update_node (hd os) (\<lambda>m. with_input (\<lambda>f. f\<lparr>input_transform := rt\<rparr>) m)) st) (\<lambda>st1.
                rbind (set_shape_at (hd os) (reinterpreted_shape rt) st1) (\<lambda>st2.
                rbind (data_users (snd st2) (hd os)) (\<lambda>us.
                rbind (foldR (\<lambda>st u. bypass_removed no_callback u st) st2 us) (\<lambda>st3.
                  Inr (st3, removed @ us)))))))))))))"

definition hoist_transforms_to_inputs :: "GS \<Rightarrow> GS result" where
  "hoist_transforms_to_inputs st =
     rbind (topo_order (fst st) (snd st)) (\<lambda>is. rbind (foldR hoist_transform (st, []) is) (\<lambda>(st', _). Inr st'))"

section \<open>Reshapes in a row\<close>

definition is_narrow :: "Node \<Rightarrow> bool" where
  "is_narrow n \<longleftrightarrow> same_op_name ''narrow'' n"

definition is_reshape_transpose :: "Node \<Rightarrow> bool result" where
  "is_reshape_transpose n = (case op_of n of
     None \<Rightarrow> Inr False
   | Some t \<Rightarrow>
       if op_name t \<noteq> ''transpose'' then Inr False
       else
         rbind (OpType_int t ''dim0'') (\<lambda>a. rbind (OpType_int t ''dim1'') (\<lambda>b.
         let d0 = min a b; d1 = max a b; ds = sh_dims (node_shape n) in
         if d0 + 1 = d1 then
           rbind (shape_at (node_shape n) d0) (\<lambda>x.
             if x = 1 then Inr True else rbind (shape_at (node_shape n) d1) (\<lambda>y. Inr (y = 1)))
         else Inr (foldl max 0 ds = prod_list ds))))"

definition is_reshape_like :: "Node \<Rightarrow> bool result" where
  "is_reshape_like n = (if is_reshape_op n then Inr True else is_reshape_transpose n)"

definition is_unary_or_binary :: "OpType \<Rightarrow> bool result" where
  "is_unary_or_binary t =
     rbind (OpType_is_eltwise_unary t) (\<lambda>b. if b then Inr True else OpType_is_eltwise_binary t)"

text \<open>The first operation comes twice, before the loop and in its first round.\<close>

primrec unaries_to_reshape :: "nat \<Rightarrow> Graph \<Rightarrow> NodeId list \<Rightarrow> NodeId \<Rightarrow> NodeId list result" where
  "unaries_to_reshape 0 g path op = Inl Out_of_fuel"
| "unaries_to_reshape (Suc k) g path op =
     rbind (is_op_node g op) (\<lambda>is_op. tt_assert is_op
       (rbind (data_users g op) (\<lambda>us.
          if 1 < length us then Inr []
          else
            rbind (vec_at us 0) (\<lambda>u.
            rbind (deref g u) (\<lambda>n. case op_of n of
              None \<Rightarrow> Inr []
            | Some t \<Rightarrow>
                rbind (is_unary_or_binary t) (\<lambda>b.
                  if b then unaries_to_reshape k g (path @ [op]) u
                  else Inr (if is_reshape_op n then path @ [op, u] else [])))))))"

definition path_to_reshape_after_communable_unaries :: "nat \<Rightarrow> Graph \<Rightarrow> NodeId \<Rightarrow> NodeId list result" where
  "path_to_reshape_after_communable_unaries fuel g i = unaries_to_reshape fuel g [i] i"

definition bcast_shape :: "Shape \<Rightarrow> OpType \<Rightarrow> Shape result" where
  "bcast_shape s t =
     (if \<not> is_broadcast t then Inr s
      else rbind (legacy_int t 0) (\<lambda>d. rbind (legacy_int t 1) (\<lambda>v. scale_dim s (wrap_dim s d) v)))"

definition clone_named ::
    "Pass \<Rightarrow> NodeId \<Rightarrow> string \<Rightarrow> NodeId \<Rightarrow> GS \<Rightarrow> (GS \<times> NodeId) result" where
  "clone_named ps i name beside st =
     rbind (deref (snd st) i) (\<lambda>n.
     rbind (node_clone (ps_consteval ps) name n) (\<lambda>c.
     rbind (get_subgraph_id_for_node (snd st) beside) (\<lambda>s. put_node c s st)))"

text \<open>An input in front of a clone may take the clone over.\<close>

definition consteval_in_front :: "Pass \<Rightarrow> NodeId \<Rightarrow> GS \<Rightarrow> GS result" where
  "consteval_in_front ps i st =
     rbind (rbind (data_operands (snd st) i) (\<lambda>os. vec_at os 0)) (\<lambda>j.
     rbind (deref (snd st) j) (\<lambda>m.
       if input_part m = None then Inr st
       else rbind (try_consteval_input_no_operand_forks (ps_consteval ps) j True st) (\<lambda>(st', _). Inr st')))"

text \<open>The other operand of a binary operation on the path gets a clone of the last reshape.\<close>

definition commute_other_operand :: "Pass \<Rightarrow> NodeId list \<Rightarrow> nat \<Rightarrow> GS \<Rightarrow> Shape \<Rightarrow> (GS \<times> Shape) result" where
  "commute_other_operand ps path i st cs =
     (let op = path ! i; last_op = last path in
      rbind (operand_data_edges any_edge (snd st) op) (\<lambda>es.
      rbind (vec_at es 0) (\<lambda>e0.
      rbind (if i = 0 then Inl Undefined_behaviour else Inr (path ! (i - 1))) (\<lambda>before.
      rbind (vec_at es 1) (\<lambda>e1.
      let current = (if producer_node_id e0 = before then e0 else e1);
          another = (if producer_node_id e0 = before then e1 else e0) in
      rbind (edge_tms st current) (\<lambda>ts.
      rbind (foldR bcast_shape cs ts) (\<lambda>cs'.
      rbind (deref (snd st) last_op) (\<lambda>ln.
      rbind (clone_named ps last_op (node_name ln @ ''_operand_commute_clone'' @ show_nat (edge_creation_id another))
               last_op st) (\<lambda>(st1, c).
      rbind (tag_dont_erase c st1) (\<lambda>st2.
      rbind (reshape_to c cs' st2) (\<lambda>st3.
      rbind (insert_node_on_edge_default another c st3) (\<lambda>(st4, _, _).
      rbind (change_rank_of ps c st4) (\<lambda>st5.
      rbind (try_commute_bcast_through_clone c st5) (\<lambda>(st6, _).
      rbind (consteval_in_front ps c st6) (\<lambda>st7. Inr (st7, cs'))))))))))))))))"

definition commute_eltwise_op ::
    "Pass \<Rightarrow> NodeId list \<Rightarrow> GS \<times> Shape \<Rightarrow> nat \<Rightarrow> (GS \<times> Shape) result" where
  "commute_eltwise_op ps path r i = (case r of (st, cs) \<Rightarrow>
     let op = path ! i in
     rbind (set_shape_at op cs st) (\<lambda>st1.
     rbind (op_at (snd st1) (hd path)) (\<lambda>(_, t1).
     rbind (change_op op (\<lambda>p. Inr (add_golden_transform t1 p)) st1) (\<lambda>st2.
     rbind (op_at (snd st2) op) (\<lambda>(_, t).
     rbind (OpType_is_eltwise_binary t) (\<lambda>b.
       if b then commute_other_operand ps path i st2 cs else Inr (st2, cs)))))))"

definition commute_eltwise_ops :: "Pass \<Rightarrow> NodeId list \<Rightarrow> GS \<Rightarrow> GS result" where
  "commute_eltwise_ops ps path st =
     rbind (deref (snd st) (hd path)) (\<lambda>n.
     rbind (is_reshape_like n) (\<lambda>b. tt_assert b
       (rbind (first_operand_node (snd st) (hd path)) (\<lambda>m.
        rbind (foldR (commute_eltwise_op ps path) (st, node_shape m) [0..<length path - 1]) (\<lambda>(st', _). Inr st')))))"

definition are_consecutive_reshape :: "Pass \<Rightarrow> Edge \<Rightarrow> bool \<Rightarrow> GS \<Rightarrow> (GS \<times> bool) result" where
  "are_consecutive_reshape ps e commute_eltwise st =
     rbind (node_by_id (snd st) (producer_node_id e)) (\<lambda>p.
     rbind (node_by_id (snd st) (consumer_node_id e)) (\<lambda>c.
     rbind (data_operands (snd st) (producer_node_id e)) (\<lambda>os.
       if length os \<noteq> 1 then Inr (st, False)
       else
         rbind (is_reshape_like p) (\<lambda>b.
           if \<not> b then Inr (st, False)
           else if \<not> commute_eltwise then Inr (st, is_reshape_op c)
           else
             rbind (path_to_reshape_after_communable_unaries (node_fuel st) (snd st) (producer_node_id e)) (\<lambda>path.
               if path = [] then Inr (st, False)
               else rbind (commute_eltwise_ops ps path st) (\<lambda>st'. Inr (st', True)))))))"

definition keeps_operand_shape :: "GS \<Rightarrow> NodeId \<Rightarrow> bool result" where
  "keeps_operand_shape st i =
     rbind (deref (snd st) i) (\<lambda>n.
     rbind (first_operand_node (snd st) i) (\<lambda>m.
       Inr (node_type m \<noteq> kInput \<and> shape_eq (node_shape m) (node_shape n))))"

definition is_nop_reshape :: "GS \<Rightarrow> NodeId \<Rightarrow> bool result" where
  "is_nop_reshape st i =
     rbind (deref (snd st) i) (\<lambda>n. if \<not> is_reshape_op n then Inr False else keeps_operand_shape st i)"

definition is_nop_narrow :: "GS \<Rightarrow> NodeId \<Rightarrow> bool result" where
  "is_nop_narrow st i =
     rbind (deref (snd st) i) (\<lambda>n. if \<not> is_narrow n then Inr False else keeps_operand_shape st i)"

definition change_rank_unless_reshape :: "Pass \<Rightarrow> Edge \<Rightarrow> GS \<Rightarrow> GS result" where
  "change_rank_unless_reshape ps e st =
     rbind (node_by_id (snd st) (consumer_node_id e)) (\<lambda>c.
       if is_reshape_op c then Inr st else handle_change_rank (ps_consteval ps) (try_consteval_clone ps) e st)"

text \<open>The TMs of the old edge are appended although \<open>bypass_node\<close> has put them on the new one.\<close>

definition append_tms_change_rank :: "Pass \<Rightarrow> Edge \<Rightarrow> Edge \<Rightarrow> GS \<Rightarrow> GS result" where
  "append_tms_change_rank ps e old st =
     rbind (edge_tms st old) (\<lambda>ts.
     rbind (update_edge_attr (\<lambda>a. Inr (set_tms (tms a @ ts) a)) e st) (change_rank_unless_reshape ps e))"

text \<open>One node of the sorted graph; \<open>True\<close> when it was bypassed.\<close>

definition erase_reshape_at :: "Pass \<Rightarrow> bool \<Rightarrow> GS \<Rightarrow> NodeId \<Rightarrow> (GS \<times> bool) result" where
  "erase_reshape_at ps commute_eltwise st i =
     rbind (user_data_edges any_edge (snd st) i) (\<lambda>us.
       if length us \<noteq> 1 then Inr (st, False)
       else
         rbind (deref (snd st) i) (\<lambda>n.
         rbind (as_TaggedNode n) (\<lambda>_.
           if has_tag ''dont_erase'' n then Inr (st, False)
           else
             rbind (edge_attr (fst st) (snd st) (hd us)) (\<lambda>a.
               if has_broadcast_dims a then Inr (st, False)
               else
                 rbind (are_consecutive_reshape ps (hd us) commute_eltwise st) (\<lambda>(st1, consecutive).
                 rbind (if consecutive then Inr True else is_nop_reshape st1 i) (\<lambda>b.
                   if \<not> b then Inr (st1, False)
                   else rbind (bypass_removed (append_tms_change_rank ps) i st1) (\<lambda>st2. Inr (st2, True))))))))"

fun first_change :: "(GS \<Rightarrow> NodeId \<Rightarrow> (GS \<times> bool) result) \<Rightarrow> GS \<Rightarrow> NodeId list \<Rightarrow> (GS \<times> bool) result" where
  "first_change f st [] = Inr (st, False)"
| "first_change f st (i # is) =
     rbind (f st i) (\<lambda>(st', changed). if changed then Inr (st', True) else first_change f st' is)"

text \<open>\<open>while (updated)\<close>: the first node of the sorted graph that changes something, then again.\<close>

fun change_until_none ::
    "nat \<Rightarrow> (GS \<Rightarrow> NodeId \<Rightarrow> (GS \<times> bool) result) \<Rightarrow> GS \<times> bool \<Rightarrow> (GS \<times> bool) result" where
  "change_until_none 0 f (st, updated) = Inl Out_of_fuel"
| "change_until_none (Suc k) f (st, updated) =
     rbind (topo_order (fst st) (snd st)) (\<lambda>is.
     rbind (first_change f st is) (\<lambda>(st', changed).
       if changed then change_until_none k f (st', True) else Inr (st', updated)))"

declare change_until_none.simps [simp del]

definition erase_consecutive_reshape :: "nat \<Rightarrow> Pass \<Rightarrow> bool \<Rightarrow> GS \<Rightarrow> (GS \<times> bool) result" where
  "erase_consecutive_reshape fuel ps commute_eltwise st =
     change_until_none fuel (erase_reshape_at ps commute_eltwise) (st, False)"

definition bypass_nop_at :: "Pass \<Rightarrow> GS \<Rightarrow> NodeId \<Rightarrow> (GS \<times> bool) result" where
  "bypass_nop_at ps st i =
     rbind (user_data_edges any_edge (snd st) i) (\<lambda>us.
       if us = [] then Inr (st, False)
       else
         rbind (is_nop_reshape st i) (\<lambda>reshape.
           if reshape then
             rbind (bypass_removed (\<lambda>e old. change_rank_unless_reshape ps e) i st) (\<lambda>st'. Inr (st', True))
           else
             rbind (is_nop_narrow st i) (\<lambda>narrow.
               if narrow then rbind (bypass_removed no_callback i st) (\<lambda>st'. Inr (st', True))
               else Inr (st, False))))"

definition bypass_nop_tms :: "nat \<Rightarrow> Pass \<Rightarrow> GS \<Rightarrow> GS result" where
  "bypass_nop_tms fuel ps st = rbind (change_until_none fuel (bypass_nop_at ps) (st, False)) (\<lambda>(st', _). Inr st')"

section \<open>Explicit unsqueezes\<close>

definition unsqueeze_node :: "Node \<Rightarrow> Node \<Rightarrow> Shape \<Rightarrow> Node result" where
  "unsqueeze_node n eltwise s =
     rbind (mk_OpType ''unsqueeze'' [AInt 0, AInt 0] [(''dim'', AInt 0)]) (\<lambda>t.
     rbind (as_rank s (word_of_nat (Suc (shape_size s)))) (\<lambda>s'.
     rbind (node_set_shape s' (mk_PyOpNode (node_name n @ ''_'' @ node_name eltwise @ ''_unsqueeze_'' @
              show_nat (shape_size s) @ ''_operand_0'') t)) (\<lambda>m.
       Inr (node_set_output_df (node_output_df n) m))))"

definition unsqueeze_step :: "NodeId \<Rightarrow> NodeId \<Rightarrow> GS \<times> NodeId \<Rightarrow> (GS \<times> NodeId) result" where
  "unsqueeze_step i eltwise r = (case r of (st, cur) \<Rightarrow>
     rbind (deref (snd st) i) (\<lambda>n.
     rbind (deref (snd st) eltwise) (\<lambda>en.
     rbind (deref (snd st) cur) (\<lambda>c.
     rbind (unsqueeze_node n en (node_shape c)) (\<lambda>m.
     rbind (get_subgraph_id_for_node (snd st) cur) (\<lambda>sid.
     rbind (put_node m sid st) (\<lambda>(st1, j).
     rbind (rbind (get_edges (snd st1) cur eltwise) (\<lambda>es. vec_at es 0)) (\<lambda>e.
     rbind (edge_tms st1 e) (\<lambda>ts.
     rbind (insert_node_on_edge_default e j st1) (\<lambda>(st2, incoming, outgoing).
     rbind (update_edge_attr (\<lambda>a. Inr (set_tms [] a)) incoming st2) (\<lambda>st3.
     rbind (update_edge_attr (\<lambda>a. Inr (set_tms ts a)) outgoing st3) (\<lambda>st4. Inr (st4, j)))))))))))))"

text \<open>As many unsqueezes as the ranks differ by.\<close>

definition insert_unsqueezes :: "NodeId \<Rightarrow> NodeId \<Rightarrow> NodeId \<Rightarrow> GS \<Rightarrow> GS result" where
  "insert_unsqueezes i reference eltwise st =
     rbind (deref (snd st) i) (\<lambda>n. rbind (deref (snd st) reference) (\<lambda>m.
     rbind (foldR (\<lambda>r _. unsqueeze_step i eltwise r) (st, i)
              [0..<shape_size (node_shape m) - shape_size (node_shape n)]) (\<lambda>(st', _). Inr st')))"

definition explicate_unsqueeze_at :: "op_shape_fn \<Rightarrow> GS \<Rightarrow> NodeId \<Rightarrow> GS result" where
  "explicate_unsqueeze_at op_shape st i =
     rbind (deref (snd st) i) (\<lambda>n. case op_of n of None \<Rightarrow> Inr st | Some t \<Rightarrow>
       rbind (OpType_is_eltwise_binary t) (\<lambda>binary.
         if \<not> binary then Inr st
         else
           rbind (operands (snd st) i) (\<lambda>os.
           rbind (vec_at os 0) (\<lambda>a. rbind (vec_at os 1) (\<lambda>b.
           rbind (deref (snd st) a) (\<lambda>na. rbind (deref (snd st) b) (\<lambda>nb.
           let ra = shape_size (node_shape na); rb = shape_size (node_shape nb) in
             if ra = rb \<or> (ra < rb \<and> input_part na \<noteq> None) \<or> (rb < ra \<and> input_part nb \<noteq> None) then Inr st
             else
               rbind (if ra < rb then insert_unsqueezes a b i st else insert_unsqueezes b a i st)
                 (recalculate_shapes op_shape))))))))"

definition explicate_unsqueeze :: "op_shape_fn \<Rightarrow> GS \<Rightarrow> GS result" where
  "explicate_unsqueeze op_shape st =
     rbind (topo_order (fst st) (snd st)) (foldR (explicate_unsqueeze_at op_shape) st)"

section \<open>Squeezes merged into reshapes\<close>

definition reshape_with_attrs :: "Shape \<Rightarrow> OpType result" where
  "reshape_with_attrs s =
     mk_OpType ''reshape'' (map (\<lambda>d. AInt (sint d)) (sh_dims s)) [(''shape'', AInts (map sint (sh_dims s)))]"

definition all_users :: "Graph \<Rightarrow> NodeId \<Rightarrow> NodeId list result" where
  "all_users = users any_edge"

definition merge_squeeze :: "GS \<times> NodeId list \<Rightarrow> NodeId \<Rightarrow> (GS \<times> NodeId list) result" where
  "merge_squeeze r i = (case r of (st, removed) \<Rightarrow>
     rbind (deref (snd st) i) (\<lambda>n.
       if \<not> is_reshape_op n then Inr r
       else
         rbind (all_users (snd st) i) (\<lambda>us.
         rbind (operands (snd st) i) (\<lambda>os.
           if length us \<noteq> 1 \<or> length os \<noteq> 1 then Inr r
           else
             rbind (deref (snd st) (hd us)) (\<lambda>u.
             rbind (deref (snd st) (hd os)) (\<lambda>m.
             rbind (if \<not> is_squeeze_op u then Inr (st, removed)
                    else
                      rbind (reshape_with_attrs (node_shape u)) (\<lambda>t.
                      rbind (change_op i (\<lambda>p. Inr (change_op_type t p)) st) (\<lambda>st1.
                      rbind (set_shape_at i (node_shape u) st1) (\<lambda>st2.
                        Inr (st2, List.insert (hd us) removed))))) (\<lambda>(st1, removed1).
               Inr (st1, if is_squeeze_op m then List.insert (hd os) removed1 else removed1))))))))"

text \<open>The callback joins the TMs in a copy that it drops.\<close>

definition maintain_tms :: "Edge \<Rightarrow> Edge \<Rightarrow> GS \<Rightarrow> GS result" where
  "maintain_tms e old st = rbind (edge_tms st old) (\<lambda>_. rbind (edge_tms st e) (\<lambda>_. Inr st))"

text \<open>The set of nodes is a hash set of pointers; \<open>bag\<close> is the order in which it is walked.\<close>

definition hoist_unsqueeze_squeeze_to_reshape ::
    "(NodeId list \<Rightarrow> NodeId list) \<Rightarrow> op_shape_fn \<Rightarrow> GS \<Rightarrow> GS result" where
  "hoist_unsqueeze_squeeze_to_reshape bag op_shape st =
     rbind (topo_order (fst st) (snd st)) (\<lambda>is.
     rbind (foldR merge_squeeze (st, []) is) (\<lambda>(st1, removed).
     rbind (foldR (\<lambda>st i. bypass_removed maintain_tms i st) st1 (bag removed)) (recalculate_shapes op_shape)))"

section \<open>Reshapes and transposes behind a requantization\<close>

primrec find_path_to_requant :: "nat \<Rightarrow> Graph \<Rightarrow> NodeId \<Rightarrow> NodeId list \<Rightarrow> NodeId \<Rightarrow> NodeId list result" where
  "find_path_to_requant 0 g initial_op path i = Inl Out_of_fuel"
| "find_path_to_requant (Suc k) g initial_op path i =
     rbind (deref g i) (\<lambda>n. case op_of n of None \<Rightarrow> Inr [] | Some t \<Rightarrow>
       if op_name t = ''forge_requantize'' then Inr (path @ [i])
       else
         rbind (data_users g i) (\<lambda>us.
           if 1 < length us then Inr []
           else
             rbind (OpType_is_eltwise t) (\<lambda>b.
               if \<not> b \<and> i \<noteq> initial_op then Inr []
               else rbind (vec_at us 0) (find_path_to_requant k g initial_op (path @ [i])))))"

definition requant_operand ::
    "Pass \<Rightarrow> NodeId \<Rightarrow> NodeId \<Rightarrow> NodeId \<Rightarrow> Shape \<Rightarrow> GS \<Rightarrow> Edge \<Rightarrow> GS result" where
  "requant_operand ps first last_op producer cs st e =
     (if producer_node_id e = producer then Inr st
      else
        rbind (convert_implicit_to_explicit_bcasts e st) (\<lambda>st1.
        rbind (deref (snd st1) last_op) (\<lambda>ln.
        rbind (clone_named ps first (node_name ln @ ''_operand_commute_clone'' @ show_nat (edge_creation_id e))
                 (producer_node_id e) st1) (\<lambda>(st2, c).
        rbind (reshape_to c cs st2) (\<lambda>st3.
        rbind (insert_node_on_edge_default e c st3) (\<lambda>(st4, incoming, _).
        rbind (take_output_df c (producer_node_id incoming) st4) (\<lambda>st5.
        rbind (change_rank_of ps c st5) (\<lambda>st6.
        rbind (try_commute_bcast_through_clone c st6) (\<lambda>(st7, _). consteval_in_front ps c st7)))))))))"

definition requant_consumer :: "NodeId \<Rightarrow> Commuting \<Rightarrow> GS \<Rightarrow> GS result" where
  "requant_consumer op c st =
     rbind (op_at (snd st) op) (\<lambda>(_, t).
     rbind (OpType_is_eltwise t) (\<lambda>b.
       if b then commute_through_eltwise op c st
       else if is_quantization_ops t then commute_through_quantization op c st
       else Inl Assert_failed))"

definition requant_step :: "Pass \<Rightarrow> NodeId list \<Rightarrow> GS \<times> Commuting \<Rightarrow> nat \<Rightarrow> (GS \<times> Commuting) result" where
  "requant_step ps path sc i = (case sc of (st, c) \<Rightarrow>
     let first = hd path; producer = path ! (i - 1); consumer = path ! i in
     rbind (deref (snd st) consumer) (\<lambda>n.
     rbind (user_data_edges any_edge (snd st) producer) (\<lambda>us.
     tt_assert (length us = 1)
       (rbind (is_op_node (snd st) consumer) (\<lambda>b.
        rbind (if \<not> b then Inr (st, c)
               else
                 rbind (is_op_node (snd st) producer) (\<lambda>a.
                 rbind (if a then through_path_bcast first producer consumer c st else Inr (st, c)) (\<lambda>(st1, c1).
                 rbind (requant_consumer consumer c1 st1) (\<lambda>st2. Inr (st2, c1))))) (\<lambda>(st3, c2).
        rbind (operand_data_edges any_edge (snd st3) consumer) (\<lambda>os.
        rbind (foldR (requant_operand ps first (last path) producer (cm_shape c2)) st3 os) (\<lambda>st4.
        rbind (on_graph (update_node consumer (\<lambda>m. Inr (node_set_output_df (node_output_df n) m))) st4) (\<lambda>st5.
          Inr (st5, c2))))))))))"

text \<open>A clone of the operation that was taken out on every edge behind the requantization.\<close>

definition clone_behind_requant :: "Pass \<Rightarrow> Node \<Rightarrow> NodeId \<Rightarrow> GS \<Rightarrow> Edge \<Rightarrow> GS result" where
  "clone_behind_requant ps tm last_op st e =
     rbind (edge_tms st e) (\<lambda>ts. tt_assert (ts = [])
       (rbind (node_clone (ps_consteval ps) (node_name tm @ ''_cloned'' @ show_nat (edge_creation_id e)) tm) (\<lambda>c.
        rbind (get_subgraph_id_for_node (snd st) (consumer_node_id e)) (\<lambda>s.
        rbind (put_node c s st) (\<lambda>(st1, i).
        rbind (on_graph (update_node i (\<lambda>n. Inr (add_tags (hints tm) n))) st1) (\<lambda>st2.
        rbind (insert_node_on_edge_default e i st2) (\<lambda>(st3, _, _). take_output_df i last_op st3)))))))"

definition commute_through_requant :: "Pass \<Rightarrow> NodeId list \<Rightarrow> GS \<Rightarrow> GS result" where
  "commute_through_requant ps path st =
     tt_assert (2 \<le> length path)
       (rbind (op_at (snd st) (hd path)) (\<lambda>(n, t).
        rbind (op_at (snd st) (last path)) (\<lambda>_.
        rbind (shape_of_only_operand (ps_shape ps) st (hd path)) (\<lambda>s.
        rbind (foldR (requant_step ps path)
                 (st, \<lparr>cm_shape = s, cm_clone = Some (node_shape n), retain_operand_dim = False,
                       operand_dims = (0, 0), cm_golden = t\<rparr>) [1..<length path]) (\<lambda>(st1, _).
        rbind (bypass_node no_callback (hd path) True st1) (\<lambda>(st2, tm).
        rbind (of_opt Undefined_behaviour tm) (\<lambda>tm.
        rbind (user_data_edges any_edge (snd st2) (last path)) (\<lambda>us.
          foldR (clone_behind_requant ps tm (last path)) st2 us))))))))"

definition requant_path_of :: "GS \<Rightarrow> NodeId \<Rightarrow> NodeId list option result" where
  "requant_path_of st i =
     rbind (find_path_to_requant (node_fuel st) (snd st) i [] i) (\<lambda>path.
       Inr (if path = [] then None else Some path))"

definition move_tm_through_requantize :: "nat \<Rightarrow> Pass \<Rightarrow> GS \<Rightarrow> (GS \<times> bool) result" where
  "move_tm_through_requantize fuel ps st =
     until_none fuel (find_in_order {''reshape'', ''transpose''} requant_path_of)
       (\<lambda>_ path st. rbind (commute_through_requant ps path st) (recalculate_shapes (ps_shape ps))) (st, False)"

section \<open>Before lowering\<close>

definition prepend_bcast :: "OpType \<Rightarrow> Edge \<Rightarrow> Edge \<Rightarrow> GS \<Rightarrow> GS result" where
  "prepend_bcast t e old = update_edge_attr (\<lambda>a. Inr (prepend_tm t a)) e"

definition broadcast_as_tm :: "GS \<Rightarrow> NodeId \<Rightarrow> GS result" where
  "broadcast_as_tm st i = rbind (op_at (snd st) i) (\<lambda>(_, t). bypass_removed (prepend_bcast t) i st)"

definition convert_broadcast_ops_to_tms :: "GS \<Rightarrow> GS result" where
  "convert_broadcast_ops_to_tms st =
     rbind (nodes (\<lambda>n. Inr (same_op_name ''broadcast'' n)) (snd st)) (foldR broadcast_as_tm st)"

definition place_inter_subgraph_queue :: "GS \<Rightarrow> NodeId \<Rightarrow> GS result" where
  "place_inter_subgraph_queue st i =
     rbind (data_users (snd st) i) (\<lambda>us.
       if us = [] then Inr st
       else
         rbind (data_operands (snd st) i) (\<lambda>os.
         tt_assert (length os = 1)
           (rbind (drop_node i st) (\<lambda>(st1, _).
              foldR (\<lambda>st u. connect_nodes (hd os) u kData st) st1 us))))"

definition place_inter_subgraph_queues :: "GS \<Rightarrow> GS result" where
  "place_inter_subgraph_queues st =
     rbind (nodes_by_type kOutput (snd st)) (foldR place_inter_subgraph_queue st)"

definition replace_with_broadcasted_const ::
    "NodeId \<Rightarrow> TensorRef option \<Rightarrow> Shape \<Rightarrow> NodeId \<Rightarrow> GS \<Rightarrow> GS result" where
  "replace_with_broadcasted_const constant tensor target_shape bcast st =
     rbind (deref (snd st) constant) (\<lambda>n.
     rbind (mk_ConstantTensorNode (node_name n @ ''_tile_bcast'') tensor target_shape) (\<lambda>c.
     rbind (get_subgraph_id_for_node (snd st) constant) (\<lambda>s.
     rbind (put_node c s st) (\<lambda>(st1, i).
     rbind (set_shape_at i target_shape st1) (\<lambda>st2.
     rbind (deref (snd st2) bcast) (\<lambda>b.
     rbind (on_graph (update_node i (\<lambda>m. Inr (node_set_output_df (node_output_df b) m))) st2) (\<lambda>st3.
     case construct_edge i 0 bcast 0 kData st3 of (st4, e) \<Rightarrow>
       rbind (drop_node constant (put_edge e st4)) (\<lambda>(st5, _). Inr st5))))))))"

definition safe_to_hoist_past :: "Graph \<Rightarrow> NodeId \<Rightarrow> bool result" where
  "safe_to_hoist_past g i =
     rbind (user_data_edges any_edge g i) (\<lambda>us.
       if 1 < length us then Inr False
       else
         rbind (operand_data_edges any_edge g i) (\<lambda>os.
           if 1 < length os then Inr False
           else
             rbind (deref g i) (\<lambda>n.
               if node_type n \<noteq> kPyOp then Inr False
               else
                 rbind (as_PyOpNode n) (\<lambda>p.
                   if op_name (node_op_type p) = ''transpose'' then Inr False
                   else
                     rbind (first_operand_node g i) (\<lambda>m.
                       Inr (sh_dims (node_shape n) = sh_dims (node_shape m)))))))"

section \<open>After autograd\<close>

text \<open>The sums of gathers are looked for and reported, nothing else.\<close>

definition is_gather_collapse :: "Graph \<Rightarrow> NodeId \<Rightarrow> bool result" where
  "is_gather_collapse g i =
     rbind (deref g i) (\<lambda>n.
       if \<not> same_op_name ''add'' n then Inr False
       else rbind (data_operands g i) (allR (\<lambda>j. rbind (deref g j) (\<lambda>m. Inr (same_op_name ''gather'' m)))))"

definition lower_bwd_gather_ops :: "GS \<Rightarrow> GS result" where
  "lower_bwd_gather_ops st =
     rbind (filterR (\<lambda>i. rbind (is_gather_collapse (snd st) i) (\<lambda>b. Inr (b \<and> is_node_visible (snd st) i)))
              (nodes_order (snd st))) (\<lambda>_. Inr st)"

end
