(* ===== verification/Nd_Slice.thy ===== *)
theory Nd_Slice
  imports Tm_Passes
begin

text \<open>
  Tensors cut along several dimensions (\<open>passes/nd_slice.hpp\<close>): \<open>NDSlice\<close> says which dimensions are cut into how
  many parts, \<open>Slice\<close> is one of the parts, with its position in the total order of all parts.
\<close>

declare map_of_eq_Some_iff [simp del] Some_eq_map_of_iff [simp del] split_paired_All [simp del]
  split_paired_Ex [simp del]

section \<open>Slices of a tensor\<close>

text \<open>
  \<open>NDSlice\<close>: the dimensions that are cut, all negative, and into how many parts. A factor is more than one
  by construction, so division and remainder of C++ are those of the model on the numbers that occur.
\<close>

datatype Spec = Explicit | Inferred

record NDSlice =
  nd_dims :: "int list"
  nd_factors :: "int list"
  nd_spec :: Spec

text \<open>The inner dimension of a matrix multiplication.\<close>

definition k_dim :: int where
  "k_dim = - 2147483648"

definition are_multiples :: "int \<Rightarrow> int \<Rightarrow> bool result" where
  "are_multiples a b = rbind (c_mod a b) (\<lambda>x. if x = 0 then Inr True else rbind (c_mod b a) (\<lambda>y. Inr (y = 0)))"

definition multiple :: "int \<Rightarrow> int \<Rightarrow> int result" where
  "multiple a b =
     rbind (are_multiples a b) (\<lambda>m. tt_assert m (Inr (if a > b then a sdiv b else b sdiv a)))"

fun sliced_dims :: "int \<Rightarrow> (int \<times> int) list \<Rightarrow> (int \<times> int) list result" where
  "sliced_dims rank [] = Inr []"
| "sliced_dims rank ((d, f) # xs) =
     (if f \<le> 1 then sliced_dims rank xs
      else
        let d' = (if 0 < d then d - rank else d) in
        tt_assert (d' < 0) (rbind (sliced_dims rank xs) (\<lambda>r. Inr ((d', f) # r))))"

definition mk_NDSlice :: "int list \<Rightarrow> int list \<Rightarrow> Spec \<Rightarrow> int \<Rightarrow> NDSlice result" where
  "mk_NDSlice ds fs spec rank =
     tt_assert (length ds = length fs)
       (rbind (sliced_dims rank (zip ds fs)) (\<lambda>r.
          Inr \<lparr>nd_dims = map fst r, nd_factors = map snd r, nd_spec = spec\<rparr>))"

definition no_slice :: NDSlice where
  "no_slice = \<lparr>nd_dims = [], nd_factors = [], nd_spec = Inferred\<rparr>"

definition index_of :: "NDSlice \<Rightarrow> int \<Rightarrow> nat option result" where
  "index_of nd d =
     tt_assert (d < 0)
       (Inr (if d \<in> set (nd_dims nd) then Some (length (takeWhile (\<lambda>x. x \<noteq> d) (nd_dims nd))) else None))"

definition has_dim :: "NDSlice \<Rightarrow> int \<Rightarrow> bool result" where
  "has_dim nd d = rbind (index_of nd d) (\<lambda>i. Inr (i \<noteq> None))"

definition get_factor :: "NDSlice \<Rightarrow> int \<Rightarrow> int result" where
  "get_factor nd d = rbind (index_of nd d) (\<lambda>i. case i of None \<Rightarrow> Inr 1 | Some i \<Rightarrow> vec_at (nd_factors nd) i)"

definition trunc :: "int \<Rightarrow> NDSlice \<Rightarrow> NDSlice result" where
  "trunc d nd =
     tt_assert (d \<in> set (nd_dims nd))
       (let k = Suc (length (takeWhile (\<lambda>x. x \<noteq> d) (nd_dims nd))) in
        mk_NDSlice (take k (nd_dims nd)) (take k (nd_factors nd)) (nd_spec nd) 0)"

definition remove_dim :: "int \<Rightarrow> NDSlice \<Rightarrow> NDSlice result" where
  "remove_dim d nd =
     rbind (index_of nd d) (\<lambda>i. case i of None \<Rightarrow> Inr nd | Some i \<Rightarrow>
       mk_NDSlice (take i (nd_dims nd) @ drop (Suc i) (nd_dims nd))
         (take i (nd_factors nd) @ drop (Suc i) (nd_factors nd)) (nd_spec nd) 0)"

definition replace_dim :: "int \<Rightarrow> int \<Rightarrow> NDSlice \<Rightarrow> NDSlice result" where
  "replace_dim d replacement nd =
     rbind (index_of nd d) (\<lambda>i. case i of None \<Rightarrow> Inr nd | Some i \<Rightarrow>
       mk_NDSlice ((nd_dims nd)[i := replacement]) (nd_factors nd) (nd_spec nd) 0)"

definition replace_factor :: "int \<Rightarrow> int \<Rightarrow> NDSlice \<Rightarrow> NDSlice result" where
  "replace_factor d f nd =
     (if f = 1 then remove_dim d nd
      else
        rbind (index_of nd d) (\<lambda>i. case i of
          None \<Rightarrow> mk_NDSlice (nd_dims nd @ [d]) (nd_factors nd @ [f]) (nd_spec nd) 0
        | Some i \<Rightarrow> mk_NDSlice (nd_dims nd) ((nd_factors nd)[i := f]) (nd_spec nd) 0))"

definition same_slices :: "NDSlice \<Rightarrow> NDSlice \<Rightarrow> bool" where
  "same_slices a b \<longleftrightarrow> nd_dims a = nd_dims b \<and> nd_factors a = nd_factors b"

definition nd_volume :: "NDSlice \<Rightarrow> int" where
  "nd_volume nd = prod_list (nd_factors nd)"

definition sliced_shape :: "NDSlice \<Rightarrow> Shape \<Rightarrow> Shape result" where
  "sliced_shape nd s =
     foldR (\<lambda>s (d, f).
       if d = k_dim then Inr s
       else
         rbind (shape_at s d) (\<lambda>x.
           tt_assert (x mod word_of_int f = 0) (set_dim s d (x div word_of_int f))))
       s (zip (nd_dims nd) (nd_factors nd))"

text \<open>What is left to cut of the first when the second is cut already.\<close>

definition quotient_entry :: "NDSlice \<Rightarrow> NDSlice \<Rightarrow> int \<Rightarrow> (int \<times> int) list result" where
  "quotient_entry a b d =
     rbind (has_dim b d) (\<lambda>both.
     rbind (get_factor a d) (\<lambda>f.
       if \<not> both then Inr [(d, f)]
       else rbind (get_factor b d) (\<lambda>g. Inr (if 1 < f div g then [(d, f div g)] else []))))"

definition nd_divide :: "NDSlice \<Rightarrow> NDSlice \<Rightarrow> NDSlice result" where
  "nd_divide a b =
     rbind (mapR (quotient_entry a b) (nd_dims a)) (\<lambda>rs.
       Inr \<lparr>nd_dims = map fst (concat rs), nd_factors = map snd (concat rs), nd_spec = Inferred\<rparr>)"

definition nd_empty :: "NDSlice \<Rightarrow> bool" where
  "nd_empty nd \<longleftrightarrow> nd_dims nd = []"

section \<open>One slice\<close>

text \<open>The position among all slices, and dimension, index and factor of every dimension that is cut.\<close>

record Slice =
  total_index :: int
  slice_indices :: "(int \<times> int \<times> int) list"

fun indices_at :: "int \<Rightarrow> int \<Rightarrow> (int \<times> int) list \<Rightarrow> (int \<times> int \<times> int) list" where
  "indices_at i v [] = []"
| "indices_at i v ((d, f) # xs) = (let v' = v div f in (d, i div v' mod f, f) # indices_at i v' xs)"

definition slice_at :: "NDSlice \<Rightarrow> int \<Rightarrow> Slice" where
  "slice_at nd i =
     \<lparr>total_index = i, slice_indices = indices_at i (nd_volume nd) (zip (nd_dims nd) (nd_factors nd))\<rparr>"

definition get_slices :: "NDSlice \<Rightarrow> Slice list" where
  "get_slices nd = map (\<lambda>i. slice_at nd (int i)) [0..<nat (nd_volume nd)]"

text \<open>A dimension that is not cut comes before the others.\<close>

definition index_rank :: "nat option \<Rightarrow> nat" where
  "index_rank i = (case i of None \<Rightarrow> 0 | Some i \<Rightarrow> Suc i)"

definition mixed_radix :: "(int \<times> int \<times> int) list \<Rightarrow> int" where
  "mixed_radix xs = fst (foldr (\<lambda>(_, j, f) (t, v). (t + j * v, v * f)) xs (0, 1))"

definition calculate_index :: "NDSlice \<Rightarrow> (int \<times> int \<times> int) list \<Rightarrow> Slice result" where
  "calculate_index nd xs =
     rbind (mapR (\<lambda>x. rbind (index_of nd (fst x)) (\<lambda>i. Inr (index_rank i, x))) xs) (\<lambda>ys.
     let zs = map snd (sort_key fst ys) in Inr \<lparr>total_index = mixed_radix zs, slice_indices = zs\<rparr>)"

definition view_entry :: "NDSlice \<Rightarrow> int \<times> int \<times> int \<Rightarrow> (int \<times> int \<times> int) list result" where
  "view_entry nd x = (case x of (d, i, f) \<Rightarrow>
     rbind (has_dim nd d) (\<lambda>b.
       if \<not> b then Inr []
       else rbind (get_factor nd d) (\<lambda>g. tt_assert (f mod g = 0) (Inr [(d, i div (f div g), g)]))))"

definition slice_view :: "Slice \<Rightarrow> NDSlice \<Rightarrow> Slice result" where
  "slice_view s nd = rbind (mapR (view_entry nd) (slice_indices s)) (\<lambda>es. calculate_index nd (concat es))"

definition operand_entry :: "NDSlice \<Rightarrow> nat \<Rightarrow> bool \<Rightarrow> int \<times> int \<times> int \<Rightarrow> (int \<times> int \<times> int) list result" where
  "operand_entry nd port matmul x = (case x of (d, i, f) \<Rightarrow>
     if matmul \<and> (port = 0 \<and> d = -1 \<or> port = 1 \<and> d = -2) then Inr []
     else
       tt_assert (d \<noteq> k_dim \<or> matmul)
         (let d' = (if d \<noteq> k_dim then d else if port = 0 then -1 else -2) in
          rbind (has_dim nd d') (\<lambda>b.
            if \<not> b then Inr []
            else rbind (get_factor nd d') (\<lambda>g. tt_assert (f = g) (Inr [(d', i, f)])))))"

definition operand_view :: "Slice \<Rightarrow> NDSlice \<Rightarrow> nat \<Rightarrow> bool \<Rightarrow> Slice result" where
  "operand_view s nd port matmul =
     rbind (mapR (operand_entry nd port matmul) (slice_indices s)) (\<lambda>es. calculate_index nd (concat es))"

end
