(* ===== verification/Fracture.thy ===== *)
theory Fracture
  imports Nd_Slice Precision
begin

text \<open>
  The pass \<open>fracture\<close> (\<open>passes/fracture.cpp\<close>): parameters and operations of a group are cut along dimensions,
  operands that enter the group are cut, results that leave it are joined, outputs that write back to a
  parameter are cut like it, and the parts get chips. Names are matched by regular expressions
  (\<open>graph_lib/query.hpp\<close>).
\<close>

declare map_of_eq_Some_iff [simp del] Some_eq_map_of_iff [simp del] split_paired_All [simp del]
  split_paired_Ex [simp del]

section \<open>Groups\<close>

text \<open>
  The names, dimensions and factors of the nodes of a group, the chips of the operations, and the parts a
  node was cut into. Hash maps are only looked up, so association lists stand for them.
\<close>

type_synonym FracturedNodes = "NDSlice \<times> NodeId list"
type_synonym FractureGroup = "(string \<times> int list \<times> int list) list"
type_synonym FractureChipIds = "(string \<times> int list) list"
type_synonym FractureChipIdAssignments = "(string \<times> int) list"
type_synonym FracturedMap = "(NodeId \<times> FracturedNodes) list"

definition dim_name :: "int \<Rightarrow> string" where
  "dim_name dim =
     (if dim = -1 then ''n'' else if dim = -2 then ''m'' else if dim = -3 then ''t''
      else if dim = k_dim then ''k'' else show_int dim)"

definition fractured_name :: "Node \<Rightarrow> int \<Rightarrow> int \<Rightarrow> string \<Rightarrow> string" where
  "fractured_name n index dim tag =
     ''fractured_'' @ tag @ (if tag = [] then [] else ''_'') @ (if dim \<noteq> 0 then dim_name dim else []) @
     show_int index @ ''_'' @ node_name n"

definition dim_tiles :: "int \<Rightarrow> int" where
  "dim_tiles d = (d + 32 - 1) sdiv 32"

definition is_parameter :: "InputFields \<Rightarrow> bool" where
  "is_parameter f \<longleftrightarrow> input_type f \<in> {In_Parameter, In_Constant, In_OptimizerParameter}"

definition is_parameter_input :: "Node \<Rightarrow> bool" where
  "is_parameter_input n = (case input_part n of None \<Rightarrow> False | Some f \<Rightarrow> is_parameter f)"

definition get_group_nodes :: "Graph \<Rightarrow> FractureGroup \<Rightarrow> NodeId list result" where
  "get_group_nodes g grp = mapR (\<lambda>(name, _, _). named_node g name) grp"

definition node_in_group :: "Node \<Rightarrow> FractureGroup \<Rightarrow> bool" where
  "node_in_group n grp \<longleftrightarrow> list_ex (\<lambda>(name, _, _). node_name n = name) grp"

definition expand_query_fracture_group :: "'r Regex_Lib \<Rightarrow> Graph \<Rightarrow> FractureGroup \<Rightarrow> FractureGroup result" where
  "expand_query_fracture_group lib g grp =
     rbind (nodes (\<lambda>_. Inr True) g) (\<lambda>is.
     rbind (mapR (\<lambda>(name_regex, ds, fs).
              rbind (rx_compile lib name_regex) (\<lambda>r.
              rbind (mapR (deref g) is) (\<lambda>ns.
                Inr (map (\<lambda>n. (node_name n, ds, fs)) (filter (\<lambda>n. rx_matches lib r (node_name n)) ns))))) grp)
       (\<lambda>xs. Inr (concat xs)))"

text \<open>Users of cut parameters belong to the group, and outputs that write back to them with their producers.\<close>

definition add_user :: "Graph \<Rightarrow> FractureGroup \<Rightarrow> NodeId \<Rightarrow> FractureGroup result" where
  "add_user g grp i =
     rbind (deref g i) (\<lambda>n. Inr (if node_in_group n grp then grp else grp @ [(node_name n, [], [])]))"

definition add_writeback :: "Graph \<Rightarrow> FractureGroup \<Rightarrow> Edge \<Rightarrow> FractureGroup result" where
  "add_writeback g grp e =
     tt_assert (edge_type e = kPartialDataCopy)
       (rbind (node_by_id g (producer_node_id e)) (\<lambda>output.
        rbind (data_operands g (producer_node_id e)) (\<lambda>os.
        tt_assert (length os = 1)
          (rbind (deref g (hd os)) (\<lambda>n.
             Inr (grp @ [(node_name n, [], []), (node_name output, [], [])]))))))"

definition add_neighbours :: "Graph \<Rightarrow> FractureGroup \<Rightarrow> NodeId \<Rightarrow> FractureGroup result" where
  "add_neighbours g grp i =
     rbind (data_users g i) (\<lambda>us.
     rbind (foldR (add_user g) grp us) (\<lambda>group1.
     rbind (operand_edges any_edge g i) (foldR (add_writeback g) group1)))"

text \<open>\<open>order\<close>: the position in the sorted nodes of the group; the pair is swapped to go forward.\<close>

definition nodes_between :: "nat \<Rightarrow> Graph \<Rightarrow> NodeId list \<Rightarrow> string \<Rightarrow> string \<Rightarrow> NodeId list result" where
  "nodes_between fuel g sorted_nodes producer consumer =
     rbind (named_node g producer) (\<lambda>p.
     rbind (named_node g consumer) (\<lambda>c.
     tt_assert (p \<in> set sorted_nodes) (tt_assert (c \<in> set sorted_nodes)
       (if topo_position sorted_nodes c < topo_position sorted_nodes p
        then subgraph fuel g c p else subgraph fuel g p c))))"

definition infer_between ::
    "nat \<Rightarrow> Graph \<Rightarrow> NodeId list \<Rightarrow> FractureGroup \<Rightarrow> string \<times> string \<Rightarrow> FractureGroup result" where
  "infer_between fuel g sorted_nodes inferred pc =
     (if fst pc = snd pc then Inr inferred
      else rbind (nodes_between fuel g sorted_nodes (fst pc) (snd pc)) (foldR (add_user g) inferred))"

definition infer_op_group :: "nat \<Rightarrow> World \<Rightarrow> Graph \<Rightarrow> FractureGroup \<Rightarrow> FractureGroup result" where
  "infer_op_group fuel w g grp =
     rbind (get_group_nodes g grp) (\<lambda>is.
     rbind (sorted_impl (\<lambda>n. Inr (is_parameter_input n)) w g is) (\<lambda>params.
     rbind (foldR (add_neighbours g) grp params) (\<lambda>group1.
     rbind (get_group_nodes g group1) (\<lambda>is1.
     rbind (sorted_impl (\<lambda>_. Inr True) w g is1) (\<lambda>sorted_nodes.
       foldR (infer_between fuel g sorted_nodes) group1
         (List.product (map fst group1) (map fst group1)))))))"

section \<open>Outputs that write back\<close>

definition set_golden_index :: "int \<Rightarrow> NodeId \<Rightarrow> GS \<Rightarrow> GS result" where
  "set_golden_index k i =
     on_graph (update_node i (with_output (\<lambda>f. f\<lparr>golden_output_index := Some k\<rparr>)))"

definition assign_writeback_output_order :: "GS \<Rightarrow> GS result" where
  "assign_writeback_output_order st =
     rbind (ordered_module_outputs (snd st)) (\<lambda>os.
     rbind (ordered_partial_datacopy_outputs (fst st) (snd st)) (\<lambda>is.
       foldR (\<lambda>st (k, i). set_golden_index (int (length os) + int k) i st) st (enumerate 0 is)))"

text \<open>Left, right, top and bottom padding that puts a part back into its place.\<close>

definition pad_entry :: "Shape \<Rightarrow> int list \<Rightarrow> int \<times> int \<times> int \<Rightarrow> int list result" where
  "pad_entry s pad x = (case x of (dim, index, factor) \<Rightarrow>
     tt_assert (dim = -2 \<or> dim = -1)
       (rbind (shape_at s dim) (\<lambda>y.
        let size_here = sint y; chunk = size_here sdiv factor; k = (if dim = -1 then 0 else 2) in
        Inr (pad[k := index * chunk, k + 1 := size_here - (index + 1) * chunk]))))"

definition handle_writeback_golden_transforms :: "NodeId \<Rightarrow> NodeId \<Rightarrow> Slice \<Rightarrow> GS \<Rightarrow> GS result" where
  "handle_writeback_golden_transforms output fractured_output s st =
     rbind (deref (snd st) output) (\<lambda>n.
     rbind (foldR (pad_entry (node_shape n)) [0, 0, 0, 0] (slice_indices s)) (\<lambda>pad.
     rbind (mk_OpType ''pad'' (map AInt pad @ [ABool False]) []) (\<lambda>t.
     rbind (on_graph (update_node fractured_output
              (with_output (\<lambda>f. f\<lparr>output_golden_transforms := t # output_golden_transforms f\<rparr>))) st) (\<lambda>st1.
     rbind (as_OutputNode n) (\<lambda>f.
     rbind (of_opt Undefined_behaviour (golden_output_index f)) (\<lambda>k. set_golden_index k fractured_output st1))))))"

section \<open>Cutting and joining\<close>

text \<open>\<open>None\<close>: the dimension has size one and is broadcast.\<close>

definition create_slice_node :: "Node \<Rightarrow> Shape \<Rightarrow> int \<Rightarrow> int \<Rightarrow> int \<Rightarrow> string \<Rightarrow> Node option result" where
  "create_slice_node op s dim i factor name =
     (if \<not> index_in_bounds s dim then Inr None
      else
        rbind (shape_at s dim) (\<lambda>x.
          if x = 1 then Inr None
          else
            rbind (c_mod (dim_tiles (sint x)) factor) (\<lambda>tiles.
            tt_assert (dim < -2 \<or> tiles = 0) (tt_assert (dim \<ge> -2 \<or> x mod word_of_int factor = 0)
              (let y = x div word_of_int factor in
               rbind (set_dim s dim y) (\<lambda>s'.
               rbind (mk_OpType ''select'' [AInt dim, AInt (i * sint y), AInt (sint y), AInt (sint x)] []) (\<lambda>t.
               rbind (node_set_shape s' (mk_PyOpNode name t)) (\<lambda>n.
                 Inr (Some (node_set_output_df (node_output_df op) (set_epoch_type (epoch_type op) n)))))))))))"

definition create_slice :: "NodeId \<Rightarrow> int \<Rightarrow> int \<Rightarrow> int \<Rightarrow> string \<Rightarrow> GS \<Rightarrow> (GS \<times> NodeId) result" where
  "create_slice op dim i factor name st =
     rbind (deref (snd st) op) (\<lambda>n.
     rbind (create_slice_node n (node_shape n) dim i factor name) (\<lambda>r. case r of
       None \<Rightarrow> Inr (st, op)
     | Some m \<Rightarrow> rbind (get_subgraph_id_for_node (snd st) op) (\<lambda>sid. put_node m sid st)))"

definition create_gather :: "Node \<Rightarrow> Shape \<Rightarrow> int \<Rightarrow> int \<Rightarrow> string \<Rightarrow> u32 \<Rightarrow> Node result" where
  "create_gather op s dim factor name group_id =
     rbind (if dim = k_dim then mk_OpType ''add'' [] [] else mk_OpType ''concatenate'' [] [(''dim'', AInt dim)]) (\<lambda>t.
     rbind (if dim = k_dim then Inr s else rbind (shape_at s dim) (\<lambda>x. set_dim s dim (x * word_of_int factor))) (\<lambda>s'.
     rbind (node_set_shape s' (node_set_output_df (node_output_df op)
              (set_epoch_type (epoch_type op) (mk_PyOpNode name t)))) (\<lambda>n.
       Inr (tag_node ''dont_fuse'' (TagBool True) (tag_node ''fracture_gather'' (TagBool True)
             (tag_node ''fracture_group_id'' (TagUInt group_id) n))))))"

section \<open>Chips\<close>

definition tag_at :: "string \<Rightarrow> TagValue \<Rightarrow> GS \<Rightarrow> NodeId \<Rightarrow> GS result" where
  "tag_at t v st i = on_graph (update_node i (\<lambda>n. rbind (as_TaggedNode n) (\<lambda>_. Inr (tag_node t v n)))) st"

definition tag_top_bottom_nodes :: "NodeId list \<Rightarrow> GS \<Rightarrow> GS result" where
  "tag_top_bottom_nodes is st =
     rbind (mapR (node_of (snd st)) is) (\<lambda>ns.
     rbind (top_row (node_fuel st) (node_fuel st) (snd st) ns) (\<lambda>top_nodes.
     rbind (bot_row (node_fuel st) (node_fuel st) (snd st) ns) (\<lambda>bottom_nodes.
     rbind (foldR (tag_at ''fracture_top'' (TagBool True)) st top_nodes) (\<lambda>st1.
       foldR (tag_at ''fracture_bottom'' (TagBool True)) st1 bottom_nodes))))"

definition assign_chip ::
    "Graph \<Rightarrow> int list \<Rightarrow> FractureChipIdAssignments \<Rightarrow> nat \<times> NodeId \<Rightarrow> FractureChipIdAssignments result" where
  "assign_chip g chips m ki =
     rbind (node_by_id g (snd ki)) (\<lambda>n.
       tt_assert (map_of m (node_name n) = None)
         (Inr (AList.update (node_name n) (chips ! (fst ki mod length chips)) m)))"

definition assign_op_chip_ids ::
    "Graph \<Rightarrow> FractureChipIds \<Rightarrow> FractureChipIdAssignments \<Rightarrow> string \<Rightarrow> NodeId list \<Rightarrow> FractureChipIdAssignments result" where
  "assign_op_chip_ids g chip_ids m name is =
     (case map_of chip_ids name of None \<Rightarrow> Inr m | Some [] \<Rightarrow> Inr m | Some chips \<Rightarrow>
        rbind (if length is = 1
               then rbind (node_by_id g (hd is)) (\<lambda>n. rbind (as_TaggedNode n) (\<lambda>_. Inr (has_tag ''fracture_gather'' n)))
               else Inr False) (\<lambda>gathered.
          if gathered
          then rbind (node_by_id g (hd is)) (\<lambda>n. Inr (AList.update (node_name n) (last chips) m))
          else foldR (assign_chip g chips) m (enumerate 0 is)))"

text \<open>An operation inherits the chip of a neighbour once all its cut operands have one.\<close>

definition operands_assigned :: "Graph \<Rightarrow> NodeId list \<Rightarrow> FractureChipIdAssignments \<Rightarrow> NodeId \<Rightarrow> bool result" where
  "operands_assigned g parts m i =
     rbind (data_operands g i) (allR (\<lambda>j.
       if j \<notin> set parts then Inr True
       else rbind (deref g j) (\<lambda>n. Inr (map_of m (node_name n) \<noteq> None))))"

definition inherit_chip ::
    "Graph \<Rightarrow> NodeId list \<Rightarrow> int \<Rightarrow> FractureChipIdAssignments \<times> NodeId list \<Rightarrow> NodeId \<Rightarrow>
     (FractureChipIdAssignments \<times> NodeId list) result" where
  "inherit_chip g parts chip r j = (case r of (m, visit) \<Rightarrow>
     rbind (deref g j) (\<lambda>n.
       if op_part n = None \<or> map_of m (node_name n) \<noteq> None then Inr r
       else
         rbind (operands_assigned g parts m j) (\<lambda>b.
           Inr (if b then (AList.update (node_name n) chip m, visit @ [j]) else r))))"

fun inherit_chip_ids ::
    "nat \<Rightarrow> Graph \<Rightarrow> NodeId list \<Rightarrow> bool \<Rightarrow> FractureChipIdAssignments \<times> NodeId list \<Rightarrow> FractureChipIdAssignments result" where
  "inherit_chip_ids 0 g parts visit_operands r = Inl Out_of_fuel"
| "inherit_chip_ids (Suc k) g parts visit_operands (m, visit) =
     (if visit = [] then Inr m
      else
        let i = last visit; rest = butlast visit in
        rbind (node_by_id g i) (\<lambda>n. case map_of m (node_name n) of
          None \<Rightarrow> inherit_chip_ids k g parts visit_operands (m, rest)
        | Some chip \<Rightarrow>
            rbind (as_TaggedNode n) (\<lambda>_.
              if has_tag (if visit_operands then ''fracture_top'' else ''fracture_bottom'') n
              then inherit_chip_ids k g parts visit_operands (m, rest)
              else
                rbind (if visit_operands then data_operands g i else data_users g i) (\<lambda>js.
                rbind (foldR (inherit_chip g parts chip) (m, rest) js) (inherit_chip_ids k g parts visit_operands)))))"

declare inherit_chip_ids.simps [simp del]

text \<open>Every node that is put on the stack gets its chip then, so the fuel is the cut nodes and those of the graph.\<close>

definition assign_chip_ids ::
    "NodeId list \<Rightarrow> FractureChipIds \<Rightarrow> FracturedMap \<Rightarrow> GS \<times> FractureChipIdAssignments \<Rightarrow>
     (GS \<times> FractureChipIdAssignments) result" where
  "assign_chip_ids op_ids chip_ids fm r = (case r of (st, m) \<Rightarrow>
     if chip_ids = [] then Inr r
     else
       rbind (foldR (\<lambda>(m, parts) i.
                rbind (map_at fm i) (\<lambda>(_, is).
                rbind (deref (snd st) i) (\<lambda>n.
                rbind (assign_op_chip_ids (snd st) chip_ids m (node_name n) is) (\<lambda>m'. Inr (m', parts @ is)))))
                (m, []) op_ids) (\<lambda>(m1, parts).
       rbind (tag_top_bottom_nodes parts st) (\<lambda>st1.
       rbind (foldR (\<lambda>m visit_operands.
                inherit_chip_ids (length parts + node_fuel st1) (snd st1) parts visit_operands (m, parts)) m1 [False, True])
         (\<lambda>m2. Inr (st1, m2)))))"

definition assign_fracture_group_ids :: "u32 \<Rightarrow> FracturedNodes \<Rightarrow> GS \<Rightarrow> GS result" where
  "assign_fracture_group_ids group_id fn st = foldR (tag_at ''fracture_group_id'' (TagUInt group_id)) st (snd fn)"
section \<open>How a node is cut\<close>

definition at_index :: "'a list \<Rightarrow> int \<Rightarrow> 'a result" where
  "at_index xs i = of_opt Out_of_range (if 0 \<le> i \<and> nat i < length xs then Some (xs ! nat i) else None)"

definition c_div :: "int \<Rightarrow> int \<Rightarrow> int result" where
  "c_div a b = (if b = 0 then Inl Undefined_behaviour else Inr (a sdiv b))"

definition inner_dim_at :: "nat \<Rightarrow> int" where
  "inner_dim_at port = (if port = 0 then -1 else -2)"

definition create_matmul_nd_slice :: "NDSlice \<Rightarrow> nat \<Rightarrow> NDSlice result" where
  "create_matmul_nd_slice nd port = replace_dim (inner_dim_at port) k_dim nd"

definition assert_multiples :: "NDSlice \<Rightarrow> int \<Rightarrow> NDSlice \<Rightarrow> int \<Rightarrow> unit result" where
  "assert_multiples a d b e =
     rbind (get_factor a d) (\<lambda>f. rbind (get_factor b e) (\<lambda>g.
     rbind (are_multiples f g) (\<lambda>m. tt_assert m (Inr ()))))"

text \<open>Dimensions that only the second choice has get the factor of the left operand, whichever that is.\<close>

definition merge_dim ::
    "NDSlice \<Rightarrow> NDSlice \<Rightarrow> NDSlice \<Rightarrow> (int \<times> int) list \<Rightarrow> int \<Rightarrow> (int \<times> int) list result" where
  "merge_dim lhs higher lower dfac d =
     (if d \<in> set (map fst dfac) then rbind (assert_multiples higher d lower d) (\<lambda>_. Inr dfac)
      else rbind (get_factor lhs d) (\<lambda>f. Inr (dfac @ [(d, f)])))"

definition create_matmul_nd_slice_of_both :: "NDSlice \<Rightarrow> NDSlice \<Rightarrow> NDSlice result" where
  "create_matmul_nd_slice_of_both l r =
     rbind (assert_multiples l (-1) r (-2)) (\<lambda>_.
     rbind (assert_multiples l (-3) r (-3)) (\<lambda>_.
     rbind (create_matmul_nd_slice l 0) (\<lambda>lhs.
     rbind (create_matmul_nd_slice r 1) (\<lambda>rhs.
     rbind (assert_multiples lhs k_dim rhs k_dim) (\<lambda>_.
     let higher = (if nd_spec lhs = Explicit then lhs else rhs);
         lower = (if nd_spec lhs = Explicit then rhs else lhs) in
     rbind (mapR (\<lambda>d. rbind (get_factor higher d) (\<lambda>f. Inr (d, f))) (nd_dims higher)) (\<lambda>dfac.
     rbind (foldR (merge_dim lhs higher lower) dfac (nd_dims lower)) (\<lambda>dfac'.
       mk_NDSlice (map fst dfac') (map snd dfac') Inferred 0)))))))"

definition create_matmul_operand_nd_slice :: "NDSlice \<Rightarrow> nat \<Rightarrow> NDSlice result" where
  "create_matmul_operand_nd_slice nd port =
     rbind (remove_dim (inner_dim_at port) nd) (replace_dim k_dim (inner_dim_at port))"

text \<open>The cut operands of a node with their ports.\<close>

definition operand_nd_slices :: "Graph \<Rightarrow> FracturedMap \<Rightarrow> NodeId \<Rightarrow> (nat \<times> NDSlice) list result" where
  "operand_nd_slices g fm i =
     rbind (operand_data_edges any_edge g i) (\<lambda>es.
       Inr (List.map_filter (\<lambda>e. case map_of fm (producer_node_id e) of None \<Rightarrow> None
              | Some (nd, _) \<Rightarrow> Some (unat (consumer_input_port_id e), nd)) es))"

definition eltwise_nd_slice :: "NDSlice list \<Rightarrow> NDSlice result" where
  "eltwise_nd_slice nds =
     (let nd = (case filter (\<lambda>f. nd_spec f = Explicit) nds of [] \<Rightarrow> hd nds | f # _ \<Rightarrow> f) in
      tt_assert (list_all (\<lambda>f. nd_spec f = Inferred \<or> same_slices f nd) nds) (remove_dim k_dim nd))"

definition inferred_nd_slice :: "OpFields \<Rightarrow> (nat \<times> NDSlice) list \<Rightarrow> NDSlice result" where
  "inferred_nd_slice p pnds =
     rbind (if pnds = [] then Inl Runtime_error
            else if is_matmul p then
              (if length pnds = 1 then create_matmul_nd_slice (snd (hd pnds)) (fst (hd pnds))
               else
                 tt_assert (length pnds = 2) (tt_assert (fst (pnds ! 0) = 0) (tt_assert (fst (pnds ! 1) = 1)
                   (create_matmul_nd_slice_of_both (snd (pnds ! 0)) (snd (pnds ! 1))))))
            else eltwise_nd_slice (map snd pnds)) (\<lambda>nd. Inr (nd\<lparr>nd_spec := Inferred\<rparr>))"

definition get_node_nd_slice :: "Graph \<Rightarrow> NodeId \<Rightarrow> FracturedMap \<Rightarrow> FractureGroup \<Rightarrow> NDSlice result" where
  "get_node_nd_slice g i fm grp =
     (case map_of fm i of Some (nd, _) \<Rightarrow> Inr nd
      | None \<Rightarrow>
          rbind (deref g i) (\<lambda>n. case map_of grp (node_name n) of
            None \<Rightarrow> Inr no_slice
          | Some (ds, fs) \<Rightarrow>
              if ds \<noteq> [] then mk_NDSlice ds fs Explicit (int (shape_size (node_shape n)))
              else
                rbind (operand_nd_slices g fm i) (\<lambda>pnds.
                rbind (as_OpNode n) (\<lambda>p. inferred_nd_slice p pnds))))"

definition get_operand_nd_slice :: "Graph \<Rightarrow> Edge \<Rightarrow> NDSlice \<Rightarrow> NDSlice result" where
  "get_operand_nd_slice g e nd =
     rbind (node_by_id g (consumer_node_id e)) (\<lambda>n.
     rbind (as_OpNode n) (\<lambda>p.
       if is_matmul p then create_matmul_operand_nd_slice nd (unat (consumer_input_port_id e)) else Inr nd))"

section \<open>Joining what was cut\<close>

definition put_at :: "nat \<Rightarrow> NodeId \<Rightarrow> NodeId list \<Rightarrow> NodeId list" where
  "put_at k x xs = (let ys = xs @ replicate (Suc k - length xs) 0 in ys[k := x])"

text \<open>The operation that joins several parts is made by the first of them.\<close>

definition gather_op ::
    "NodeId \<Rightarrow> int \<Rightarrow> NDSlice \<Rightarrow> int \<Rightarrow> u32 \<Rightarrow> string \<Rightarrow> GS \<Rightarrow> (GS \<times> NodeId) result" where
  "gather_op op dim pre factor group_id name st =
     (if has_node_with_name (snd st) name then
        rbind (named_node (snd st) name) (\<lambda>i.
        rbind (rbind (deref (snd st) i) as_PyOpNode) (\<lambda>_. Inr (st, i)))
      else
        rbind (deref (snd st) op) (\<lambda>n.
        rbind (sliced_shape pre (node_shape n)) (\<lambda>s.
        rbind (create_gather n s dim factor name group_id) (\<lambda>m.
        rbind (get_subgraph_id_for_node (snd st) op) (\<lambda>sid. put_node m sid st)))))"

definition gather_slice ::
    "NodeId \<Rightarrow> int \<Rightarrow> NDSlice \<Rightarrow> NDSlice \<Rightarrow> int \<Rightarrow> u32 \<Rightarrow> GS \<times> NodeId list \<times> NodeId list \<Rightarrow> Slice \<Rightarrow>
     (GS \<times> NodeId list \<times> NodeId list) result" where
  "gather_slice op dim pre post factor group_id r s = (case r of (st, is, gathered) \<Rightarrow>
     rbind (slice_view s post) (\<lambda>q.
     rbind (deref (snd st) op) (\<lambda>n.
     rbind (gather_op op dim pre factor group_id (fractured_name n (total_index q) dim ''gather'') st) (\<lambda>(st1, i).
     rbind (at_index is (total_index s)) (\<lambda>j.
     case construct_edge j 0 i (word_of_int (total_index s)) kData st1 of (st2, e) \<Rightarrow>
       Inr (put_edge e st2, is[nat (total_index s) := i], put_at (nat (total_index q)) i gathered))))))"

text \<open>Sums of more than two operands become cascades.\<close>

definition fix_gathered :: "Pass \<Rightarrow> GS \<times> NodeId list \<Rightarrow> NodeId \<Rightarrow> (GS \<times> NodeId list) result" where
  "fix_gathered ps r i = (case r of (st, is) \<Rightarrow>
     rbind (node_by_id (snd st) i) (\<lambda>n.
     rbind (as_PyOpNode n) (\<lambda>p.
     rbind (if op_name (node_op_type p) = ''add''
            then cascade_nary_to_binary_op (node_fuel st) (ps_consteval ps) i st else Inr (st, i)) (\<lambda>(st1, j).
     rbind (calculate_and_set_node_shape (ps_shape ps) j st1) (\<lambda>st2. Inr (st2, is @ [j]))))))"

definition gather_dim ::
    "Pass \<Rightarrow> NodeId \<Rightarrow> NDSlice \<Rightarrow> u32 \<Rightarrow> GS \<times> NDSlice \<times> NodeId list \<Rightarrow> int \<Rightarrow> (GS \<times> NDSlice \<times> NodeId list) result" where
  "gather_dim ps op consumer group_id r dim = (case r of (st, pre, is) \<Rightarrow>
     rbind (get_factor consumer dim) (\<lambda>f.
     rbind (replace_factor dim f pre) (\<lambda>post.
     rbind (get_factor pre dim) (\<lambda>factor.
     rbind (foldR (gather_slice op dim pre post factor group_id) (st, is, []) (get_slices pre)) (\<lambda>(st1, _, gathered).
     rbind (foldR (fix_gathered ps) (st1, []) gathered) (\<lambda>(st2, is').
       Inr (st2, post, is')))))))"

definition gather ::
    "Pass \<Rightarrow> NodeId \<Rightarrow> FracturedMap \<Rightarrow> u32 \<Rightarrow> NDSlice \<Rightarrow> GS \<Rightarrow> (GS \<times> FracturedNodes) result" where
  "gather ps op fm group_id consumer st =
     rbind (map_at fm op) (\<lambda>(nd, is).
     rbind (nd_divide nd consumer) (\<lambda>left_over.
       if nd_empty left_over then Inr (st, (nd, is))
       else
         rbind (foldR (gather_dim ps op consumer group_id) (st, nd, is) (rev (nd_dims nd))) (\<lambda>(st1, _, is1).
         rbind (mapR (\<lambda>s. at_index is1 (total_index s)) (get_slices consumer)) (\<lambda>js.
           Inr (st1, (consumer, js))))))"

section \<open>Cutting operands\<close>

definition scatter_part ::
    "Node \<Rightarrow> Node \<Rightarrow> NodeId \<Rightarrow> NDSlice \<Rightarrow> NDSlice \<Rightarrow> GS \<times> NodeId \<Rightarrow> int \<times> int \<times> int \<Rightarrow> (GS \<times> NodeId) result" where
  "scatter_part producer consumer producer_id pre post r x = (case r of (st, op) \<Rightarrow> case x of (dim, index, factor) \<Rightarrow>
     tt_assert (dim \<noteq> k_dim)
       (rbind (get_factor pre dim) (\<lambda>f.
        rbind (c_mod factor f) (\<lambda>m. tt_assert (m = 0)
          (let name = fractured_name producer index dim (''scatter_'' @ node_name consumer) in
           rbind (get_factor post dim) (\<lambda>g.
           rbind (c_div g f) (\<lambda>k.
           rbind (c_mod index k) (\<lambda>index'.
           rbind (c_div factor f) (\<lambda>factor'.
           rbind (if has_node_with_name (snd st) name
                  then rbind (named_node (snd st) name) (\<lambda>i. Inr (st, i))
                  else create_slice op dim index' factor' name st) (\<lambda>(st1, i).
             if i = producer_id then Inr (st1, i)
             else
               case construct_edge producer_id 0 i 0 kData st1 of (st2, e) \<Rightarrow> Inr (put_edge e st2, i)))))))))))"

definition scatter_slice ::
    "Pass \<Rightarrow> Node \<Rightarrow> Node \<Rightarrow> NDSlice \<Rightarrow> NDSlice \<Rightarrow> NodeId list \<Rightarrow> GS \<times> NodeId list \<Rightarrow> Slice \<Rightarrow> (GS \<times> NodeId list) result" where
  "scatter_slice ps producer consumer pre post is r s = (case r of (st, done) \<Rightarrow>
     rbind (slice_view s pre) (\<lambda>q.
     tt_assert (total_index q < int (length is))
       (rbind (at_index is (total_index q)) (\<lambda>producer_id.
        rbind (foldR (scatter_part producer consumer producer_id pre post) (st, producer_id) (slice_indices s)) (\<lambda>(st1, i).
        rbind (calculate_and_set_node_shape (ps_shape ps) i st1) (\<lambda>st2. Inr (st2, done @ [i])))))))"

definition scatter_dim ::
    "Pass \<Rightarrow> Node \<Rightarrow> Node \<Rightarrow> NDSlice \<Rightarrow> GS \<times> NDSlice \<times> NodeId list \<Rightarrow> int \<Rightarrow> (GS \<times> NDSlice \<times> NodeId list) result" where
  "scatter_dim ps producer consumer nd r dim = (case r of (st, pre, is) \<Rightarrow>
     rbind (trunc dim nd) (\<lambda>post.
     rbind (foldR (scatter_slice ps producer consumer pre post is) (st, []) (get_slices post)) (\<lambda>(st1, is1).
       Inr (st1, post, is1))))"

definition scatter ::
    "Pass \<Rightarrow> Edge \<Rightarrow> FracturedMap \<Rightarrow> FractureGroup \<Rightarrow> GS \<Rightarrow> (GS \<times> FracturedNodes) result" where
  "scatter ps e fm grp st =
     (let p = producer_node_id e; known = map_of fm p in
      rbind (node_by_id (snd st) p) (\<lambda>producer.
      rbind (node_by_id (snd st) (consumer_node_id e)) (\<lambda>consumer.
      rbind (as_OpNode consumer) (\<lambda>_.
      rbind (get_node_nd_slice (snd st) (consumer_node_id e) fm grp) (\<lambda>consumer_nd.
      rbind (get_operand_nd_slice (snd st) e consumer_nd) (\<lambda>nd.
      let (pnd, is) = (case known of None \<Rightarrow> (no_slice, [p]) | Some r \<Rightarrow> r);
          reset = (known \<noteq> None \<and> \<not> same_slices nd pnd \<and> \<not> node_in_group producer grp) in
      rbind (if known = None \<or> reset then Inr False
             else rbind (nd_divide nd pnd) (\<lambda>q. Inr (nd_empty q))) (\<lambda>scattered.
        if scattered then Inr (st, (pnd, is))
        else
          rbind (foldR (scatter_dim ps producer consumer nd)
                   (st, if reset then no_slice else pnd, if reset then [p] else is) (nd_dims nd)) (\<lambda>(st1, _, is1).
            Inr (st1, (nd, is1))))))))))"
section \<open>Parameters\<close>

text \<open>A clone of a parameter with its own constant-evaluation graph, which is returned.\<close>

definition clone_with_graph :: "Pass \<Rightarrow> NodeId \<Rightarrow> string \<Rightarrow> GS \<Rightarrow> (GS \<times> NodeId \<times> ConstEvalRef) result" where
  "clone_with_graph ps i name st = (case st of (w, rg) \<Rightarrow>
     rbind (deref rg i) (\<lambda>n.
     rbind (of_opt Undefined_behaviour (input_part n)) (\<lambda>f.
     rbind (of_opt Assert_failed (consteval_graph f)) (\<lambda>r.
     rbind (store_at w r) (\<lambda>c.
     rbind (consteval_clone (ps_consteval ps) i [] c w) (\<lambda>(w1, c').
     let k = length (ceg_store w1) in
     rbind (node_clone (\<lambda>_. Inr k) name n) (\<lambda>m.
     rbind (get_subgraph_id_for_node rg i) (\<lambda>sid.
     rbind (put_node m sid (w1, rg)) (\<lambda>((w2, rg2), j).
       Inr ((store_new (c'\<lparr>ceg_runtime_input := j\<rparr>) w2, rg2), j, k))))))))))"

text \<open>A dimension of size one gives no operation; promoting it is a null pointer.\<close>

definition promote_part :: "Pass \<Rightarrow> Node \<Rightarrow> NodeId \<Rightarrow> ConstEvalRef \<Rightarrow> GS \<Rightarrow> int \<times> int \<times> int \<Rightarrow> GS result" where
  "promote_part ps param j k st x = (case x of (dim, index, factor) \<Rightarrow>
     if dim = k_dim then Inl Runtime_error
     else
       rbind (deref (snd st) j) (\<lambda>n.
       rbind (create_slice_node param (node_shape n) dim index factor (fractured_name param index dim [])) (\<lambda>m.
       rbind (of_opt Undefined_behaviour m) (\<lambda>m.
       rbind (store_at (fst st) k) (\<lambda>c.
       rbind (promote_node (store_at (fst st)) (ps_consteval ps) False None m (fst st, snd st, c)) (\<lambda>((w1, rg1, c1), _).
         Inr (store_set k c1 w1, rg1)))))))"

definition parameter_part ::
    "Pass \<Rightarrow> NodeId \<Rightarrow> GS \<times> NodeId list \<Rightarrow> Slice \<Rightarrow> (GS \<times> NodeId list) result" where
  "parameter_part ps i r s = (case r of (st, done) \<Rightarrow>
     rbind (deref (snd st) i) (\<lambda>n.
     rbind (as_InputNode n) (\<lambda>f.
     rbind (clone_with_graph ps i (fractured_name n (total_index s) 0 []) st) (\<lambda>(st1, j, k).
     rbind (if input_type f = In_Parameter
            then on_graph (update_node j (with_input (\<lambda>f. f\<lparr>fractured_parameter_mapping := node_name n\<rparr>))) st1
            else Inr st1) (\<lambda>st2.
     rbind (foldR (promote_part ps n j k) st2 (slice_indices s)) (\<lambda>st3. Inr (st3, done @ [j])))))))"

definition fracture_parameter ::
    "Pass \<Rightarrow> NodeId \<Rightarrow> int list \<Rightarrow> int list \<Rightarrow> GS \<Rightarrow> (GS \<times> FracturedNodes) result" where
  "fracture_parameter ps i ds fs st =
     rbind (deref (snd st) i) (\<lambda>n.
     tt_assert (is_parameter_input n) (tt_assert (length ds = length fs) (tt_assert (ds \<noteq> [])
       (rbind (mk_NDSlice ds fs Explicit (int (shape_size (node_shape n)))) (\<lambda>nd.
        rbind (get_consteval_graph (ps_consteval ps) i st) (\<lambda>(st1, _).
        rbind (foldR (parameter_part ps i) (st1, []) (get_slices nd)) (\<lambda>(st2, is). Inr (st2, (nd, is)))))))))"

section \<open>Operations\<close>

definition fracture_operand ::
    "FracturedMap \<Rightarrow> Slice \<Rightarrow> bool \<Rightarrow> NodeId \<Rightarrow> GS \<Rightarrow> Edge \<Rightarrow> GS result" where
  "fracture_operand fm s matmul j st e =
     rbind (of_opt Assert_failed (map_of fm (producer_node_id e))) (\<lambda>(nd, is).
     rbind (operand_view s nd (unat (consumer_input_port_id e)) matmul) (\<lambda>q.
     rbind (at_index is (total_index q)) (\<lambda>p.
       case construct_edge p 0 j (consumer_input_port_id e) kData st of (st1, e') \<Rightarrow> Inr (put_edge e' st1))))"

definition op_part_of ::
    "Pass \<Rightarrow> NodeId \<Rightarrow> FracturedMap \<Rightarrow> GS \<times> NodeId list \<Rightarrow> Slice \<Rightarrow> (GS \<times> NodeId list) result" where
  "op_part_of ps i fm r s = (case r of (st, done) \<Rightarrow>
     rbind (deref (snd st) i) (\<lambda>n.
     rbind (as_OpNode n) (\<lambda>p.
     rbind (clone_named ps i (fractured_name n (total_index s) 0 []) i st) (\<lambda>(st1, j).
     rbind (tag_at ''fracture_origin'' (TagString (node_name n)) st1 j) (\<lambda>st2.
     rbind (operand_data_edges any_edge (snd st2) i) (\<lambda>es.
     rbind (foldR (fracture_operand fm s (is_matmul p) j) st2 es) (\<lambda>st3.
     rbind (calculate_and_set_node_shape (ps_shape ps) j st3) (\<lambda>st4. Inr (st4, done @ [j])))))))))"

definition fracture_op :: "Pass \<Rightarrow> NodeId \<Rightarrow> FracturedMap \<Rightarrow> FractureGroup \<Rightarrow> GS \<Rightarrow> (GS \<times> FracturedNodes) result" where
  "fracture_op ps i fm grp st =
     rbind (get_node_nd_slice (snd st) i fm grp) (\<lambda>nd.
     rbind (get_factor nd k_dim) (\<lambda>k.
     rbind (rbind (deref (snd st) i) as_OpNode) (\<lambda>p.
       if 1 < k \<and> \<not> is_matmul p then Inl Runtime_error
       else rbind (foldR (op_part_of ps i fm) (st, []) (get_slices nd)) (\<lambda>(st1, is). Inr (st1, (nd, is))))))"

text \<open>The slices behind a transpose are those of the transpose with the two factors exchanged.\<close>

definition swap_factors :: "OpType \<Rightarrow> NDSlice \<Rightarrow> NDSlice result" where
  "swap_factors t nd =
     rbind (OpType_int t ''dim0'') (\<lambda>d0. rbind (OpType_int t ''dim1'') (\<lambda>d1.
     rbind (get_factor nd d0) (\<lambda>f0. rbind (get_factor nd d1) (\<lambda>f1.
     rbind (replace_factor d0 f1 nd) (replace_factor d1 f0)))))"

definition fracture_tm :: "Pass \<Rightarrow> NodeId \<Rightarrow> FracturedMap \<Rightarrow> FractureGroup \<Rightarrow> GS \<Rightarrow> (GS \<times> FracturedNodes) result" where
  "fracture_tm ps i fm grp st =
     rbind (op_at (snd st) i) (\<lambda>(_, t).
       if op_name t \<in> {''unsqueeze'', ''squeeze'', ''transpose''} then
         rbind (fracture_op ps i fm grp st) (\<lambda>(st1, nd, is).
           if op_name t = ''transpose'' then rbind (swap_factors t nd) (\<lambda>nd'. Inr (st1, (nd', is)))
           else Inr (st1, (nd, is)))
       else if op_name t = ''select'' then
         rbind (get_node_nd_slice (snd st) i fm grp) (\<lambda>nd.
         rbind (rbind (at_index (legacy_attrs t) 0) get_int) (\<lambda>d.
         rbind (get_factor nd d) (\<lambda>f. if f \<noteq> 1 then Inl Runtime_error else fracture_op ps i fm grp st)))
       else Inl Runtime_error)"

section \<open>Outputs that write back to a parameter\<close>

definition writeback_part ::
    "Pass \<Rightarrow> NodeId \<Rightarrow> NodeId list \<Rightarrow> NodeId list \<Rightarrow> EdgeType \<Rightarrow> EdgeType \<Rightarrow> GS \<times> NodeId list \<Rightarrow> Slice \<Rightarrow>
     (GS \<times> NodeId list) result" where
  "writeback_part ps output producers consumers producer_type consumer_type r s = (case r of (st, done) \<Rightarrow>
     rbind (deref (snd st) output) (\<lambda>n.
     rbind (clone_named ps output (fractured_name n (total_index s) 0 []) output st) (\<lambda>(st1, j).
     rbind (at_index producers (total_index s)) (\<lambda>p.
     rbind (node_by_id (snd st1) p) (\<lambda>pn.
     rbind (set_shape_at j (node_shape pn) st1) (\<lambda>st2.
     rbind (handle_writeback_golden_transforms output j s st2) (\<lambda>st3.
     case construct_edge p 0 j 0 producer_type st3 of (st4, e) \<Rightarrow>
       rbind (at_index consumers (total_index s)) (\<lambda>c.
       case construct_edge j 0 c 0 consumer_type (put_edge e st4) of (st5, e') \<Rightarrow>
         Inr (put_edge e' st5, done @ [j])))))))))"

definition fracture_writeback ::
    "Pass \<Rightarrow> NodeId \<Rightarrow> FracturedMap \<Rightarrow> u32 \<Rightarrow> GS \<Rightarrow> (GS \<times> FracturedNodes) result" where
  "fracture_writeback ps output fm group_id st =
     rbind (operand_data_edges any_edge (snd st) output) (\<lambda>os.
     rbind (user_edges any_edge (snd st) output) (\<lambda>us.
     tt_assert (length os = 1) (tt_assert (length us = 1) (tt_assert (edge_type (hd us) = kPartialDataCopy)
       (let p = producer_node_id (hd os); c = consumer_node_id (hd us) in
        rbind (node_by_id (snd st) p) (\<lambda>pn.
        rbind (node_by_id (snd st) c) (\<lambda>_.
        rbind (of_opt Runtime_error (map_of fm p)) (\<lambda>_.
        rbind (of_opt Runtime_error (map_of fm c)) (\<lambda>(consumer_nd, consumers).
        rbind (as_PyOpNode pn) (\<lambda>_.
        rbind (gather ps p fm group_id consumer_nd st) (\<lambda>(st1, nd, producers).
        tt_assert (length producers = length consumers) (tt_assert (nd_volume nd = int (length consumers))
          (rbind (foldR (writeback_part ps output producers consumers (edge_type (hd os)) (edge_type (hd us)))
                    (st1, []) (get_slices nd)) (\<lambda>(st2, is). Inr (st2, (nd, is))))))))))))))))"

section \<open>A group\<close>

definition fracture_group_parameter ::
    "Pass \<Rightarrow> FractureGroup \<Rightarrow> GS \<times> FracturedMap \<Rightarrow> NodeId \<Rightarrow> (GS \<times> FracturedMap) result" where
  "fracture_group_parameter ps grp r i = (case r of (st, fm) \<Rightarrow>
     rbind (deref (snd st) i) (\<lambda>n.
     rbind (of_opt Assert_failed (map_of grp (node_name n))) (\<lambda>(ds, fs).
     tt_assert (map_of fm i = None)
       (rbind (fracture_parameter ps i ds fs st) (\<lambda>(st1, fn). Inr (st1, AList.update i fn fm))))))"

definition fracture_group_operand ::
    "Pass \<Rightarrow> FractureGroup \<Rightarrow> u32 \<Rightarrow> NodeId \<Rightarrow> GS \<times> FracturedMap \<Rightarrow> Edge \<Rightarrow> (GS \<times> FracturedMap) result" where
  "fracture_group_operand ps grp group_id op r e = (case r of (st, fm) \<Rightarrow>
     let p = producer_node_id e in
     rbind (scatter ps e fm grp st) (\<lambda>(st1, fn).
     let fm1 = AList.update p fn fm in
     rbind (node_by_id (snd st1) p) (\<lambda>n.
       if pyop_part n = None then Inr (st1, fm1)
       else
         rbind (get_node_nd_slice (snd st1) op fm1 grp) (\<lambda>nd.
         rbind (get_operand_nd_slice (snd st1) e nd) (\<lambda>nd'.
         rbind (gather ps p fm1 group_id nd' st1) (\<lambda>(st2, fn'). Inr (st2, AList.update p fn' fm1)))))))"

definition fracture_group_op ::
    "Pass \<Rightarrow> FractureGroup \<Rightarrow> u32 \<Rightarrow> GS \<times> FracturedMap \<Rightarrow> NodeId \<Rightarrow> (GS \<times> FracturedMap) result" where
  "fracture_group_op ps grp group_id r op =
     rbind (operand_data_edges any_edge (snd (fst r)) op) (\<lambda>es.
     rbind (foldR (fracture_group_operand ps grp group_id op) r es) (\<lambda>(st1, fm1).
     rbind (op_at (snd st1) op) (\<lambda>(_, t).
     rbind (OpType_is_tm t) (\<lambda>tm.
     rbind (if tm then fracture_tm ps op fm1 grp st1 else fracture_op ps op fm1 grp st1) (\<lambda>(st2, fn).
     rbind (assign_fracture_group_ids group_id fn st2) (\<lambda>st3. Inr (st3, AList.update op fn fm1)))))))"

definition gather_for_user ::
    "Pass \<Rightarrow> u32 \<Rightarrow> NodeId \<Rightarrow> GS \<times> FracturedMap \<Rightarrow> Edge \<Rightarrow> (GS \<times> FracturedMap) result" where
  "gather_for_user ps group_id op r e = (case r of (st, fm) \<Rightarrow>
     if map_of fm (consumer_node_id e) \<noteq> None then Inr r
     else
       rbind (gather ps op fm group_id no_slice st) (\<lambda>(st1, fn).
       rbind (vec_at (snd fn) 0) (\<lambda>i.
         Inr (put_edge (e\<lparr>producer_node_id := i\<rparr>) st1, AList.update (producer_node_id e) fn fm))))"

definition remove_all :: "NodeId list \<Rightarrow> GS \<Rightarrow> GS result" where
  "remove_all is st = foldR (\<lambda>st i. rbind (drop_node i st) (\<lambda>(st', _). Inr st')) st is"

definition fracture_group ::
    "Pass \<Rightarrow> FractureGroup \<Rightarrow> FractureChipIds \<Rightarrow> u32 \<Rightarrow> GS \<times> FractureChipIdAssignments \<Rightarrow>
     (GS \<times> FractureChipIdAssignments) result" where
  "fracture_group ps grp chip_ids group_id r = (case r of (st, chips) \<Rightarrow>
     rbind (get_group_nodes (snd st) grp) (\<lambda>is.
     rbind (sorted_impl (\<lambda>n. Inr (is_parameter_input n)) (fst st) (snd st) is) (\<lambda>params.
     rbind (foldR (fracture_group_parameter ps grp) (st, []) params) (\<lambda>(st1, fm1).
     rbind (sorted_impl (\<lambda>n. Inr (pyop_part n \<noteq> None)) (fst st1) (snd st1) is) (\<lambda>op_ids.
     rbind (foldR (fracture_group_op ps grp group_id) (st1, fm1) op_ids) (\<lambda>(st2, fm2).
     rbind (assign_writeback_output_order st2) (\<lambda>st3.
     rbind (sorted_impl (\<lambda>n. Inr (output_part n \<noteq> None)) (fst st3) (snd st3) is) (\<lambda>outputs.
     rbind (foldR (\<lambda>(st, fm) i. rbind (fracture_writeback ps i fm group_id st) (\<lambda>(st', fn).
              Inr (st', AList.update i fn fm))) (st3, fm2) outputs) (\<lambda>(st4, fm3).
     rbind (foldR (\<lambda>r i. rbind (user_data_edges any_edge (snd (fst r)) i) (foldR (gather_for_user ps group_id i) r))
              (st4, fm3) op_ids) (\<lambda>(st5, fm4).
     rbind (assign_chip_ids op_ids chip_ids fm4 (st5, chips)) (\<lambda>(st6, chips').
     rbind (remove_all (params @ op_ids @ outputs) st6) (\<lambda>st7. Inr (st7, chips')))))))))))))"

section \<open>The pass\<close>

definition check_group_node :: "Graph \<Rightarrow> string list \<Rightarrow> string \<Rightarrow> string list result" where
  "check_group_node g names name =
     rbind (named_node g name) (\<lambda>i.
     rbind (deref g i) (\<lambda>n.
       if (case input_part n of None \<Rightarrow> False | Some f \<Rightarrow> input_type f = In_Activation) then Inl Runtime_error
       else
         rbind (as_TaggedNode n) (\<lambda>_.
         rbind (case map_of (hints n) ''fracture_origin'' of None \<Rightarrow> Inr []
                | Some (TagString s) \<Rightarrow> Inr s | Some _ \<Rightarrow> Inl Bad_variant) (\<lambda>s.
           let orig = (if s = [] then name else s) in
           if orig \<in> set names then Inl Runtime_error else Inr (names @ [orig])))))"

definition assert_valid_group :: "Graph \<Rightarrow> string list \<Rightarrow> FractureGroup \<Rightarrow> string list result" where
  "assert_valid_group g names grp = foldR (check_group_node g) names (map fst grp)"

definition fracture_one ::
    "'r Regex_Lib \<Rightarrow> Pass \<Rightarrow> GS \<times> string list \<times> FractureChipIdAssignments \<times> u32 \<Rightarrow> FractureGroup \<times> FractureChipIds \<Rightarrow>
     (GS \<times> string list \<times> FractureChipIdAssignments \<times> u32) result" where
  "fracture_one lib ps r x = (case r of (st, names, chips, group_id) \<Rightarrow> case x of (grp, chip_ids) \<Rightarrow>
     rbind (expand_query_fracture_group lib (snd st) grp) (\<lambda>expanded.
     rbind (infer_op_group (node_fuel st) (fst st) (snd st) expanded) (\<lambda>inferred.
     rbind (assert_valid_group (snd st) names inferred) (\<lambda>names'.
     rbind (fracture_group ps inferred chip_ids group_id (st, chips)) (\<lambda>(st', chips').
       Inr (st', names', chips', group_id + 1))))))"

definition fracture ::
    "'r Regex_Lib \<Rightarrow> Pass \<Rightarrow> (FractureGroup \<times> FractureChipIds) list \<Rightarrow> GS \<Rightarrow> (GS \<times> FractureChipIdAssignments) result" where
  "fracture lib ps groups st =
     rbind (foldR (fracture_one lib ps) (st, [], [], 0) groups) (\<lambda>(st', _, chips, _). Inr (st', chips))"

end
