(* ===== verification/Fusions.thy ===== *)
theory Fusions
  imports Tm_Passes
begin

text \<open>
  Passes of the first and last stages: the estimate of flops (\<open>generate_initial_flops_estimate.cpp\<close>),
  padding and bias of convolutions (\<open>fuse_pad_conv2d.cpp\<close>, \<open>fuse_conv2d_bias.cpp\<close>), a dimension that is split
  and indexed (\<open>decompose_nd_reshape_split.cpp\<close>), a transpose of four dimensions between two reshapes
  (\<open>erase_unnecessary_4d_tm_sequence.cpp\<close>) and outputs padded to the grid (\<open>pad_output_buffer.cpp\<close>).
\<close>

declare map_of_eq_Some_iff [simp del] Some_eq_map_of_iff [simp del] split_paired_All [simp del]
  split_paired_Ex [simp del]

section \<open>Flops\<close>

text \<open>
  The table that is only logged: the sum and the number of operations for every name, in the order of the
  names, and the totals. \<open>flops\<close> is \<open>initial_flops_estimate\<close>, which asks Python for most operations.
\<close>

type_synonym Flops = "(string \<times> int \<times> int) list \<times> int \<times> int"

fun tally_flops :: "string \<Rightarrow> int \<Rightarrow> (string \<times> int \<times> int) list \<Rightarrow> (string \<times> int \<times> int) list" where
  "tally_flops k f [] = [(k, f, 1)]"
| "tally_flops k f ((k', s, c) # m) =
     (if k < k' then (k, f, 1) # (k', s, c) # m
      else if k = k' then (k', s + f, c + 1) # m
      else (k', s, c) # tally_flops k f m)"

definition count_flops :: "(OpType \<Rightarrow> u32 list list \<Rightarrow> int result) \<Rightarrow> Graph \<Rightarrow> Flops \<Rightarrow> NodeId \<Rightarrow> Flops result" where
  "count_flops flops g r i =
     rbind (deref g i) (\<lambda>n. case op_of n of None \<Rightarrow> Inr r | Some t \<Rightarrow>
       rbind (data_operands g i) (\<lambda>os.
       rbind (mapR (\<lambda>j. rbind (deref g j) (\<lambda>m. Inr (sh_dims (node_shape m)))) os) (\<lambda>shapes.
       rbind (flops t shapes) (\<lambda>f.
         case r of (m, tot, nops) \<Rightarrow> Inr (tally_flops (op_name t) f m, tot + f, nops + 1)))))"

definition generate_initial_flops_estimate ::
    "(OpType \<Rightarrow> u32 list list \<Rightarrow> int result) \<Rightarrow> World \<Rightarrow> Graph \<Rightarrow> Flops result" where
  "generate_initial_flops_estimate flops w g = rbind (topo_order w g) (foldR (count_flops flops g) ([], 0, 0))"

section \<open>Padding in front of a convolution\<close>

text \<open>\<open>operator[]\<close> of a map: an attribute that is missing is the empty string, the first alternative.\<close>

definition attr_or_default :: "Attrs \<Rightarrow> string \<Rightarrow> Attr" where
  "attr_or_default m k = (case map_of m k of None \<Rightarrow> AString '''' | Some v \<Rightarrow> v)"

fun attr_ints :: "Attr \<Rightarrow> int list option" where
  "attr_ints (AInts xs) = Some xs"
| "attr_ints v = None"

fun int_attr :: "Attr \<Rightarrow> int option" where
  "int_attr (AInt x) = Some x"
| "int_attr v = None"

text \<open>Left, right, top and bottom of a padding of two or four numbers.\<close>

definition pad_amounts :: "int list \<Rightarrow> (int \<times> int \<times> int \<times> int) result" where
  "pad_amounts v =
     rbind (vec_at v 0) (\<lambda>l. rbind (vec_at v 1) (\<lambda>r.
       Inr (if length v = 4 then (l, r, v ! 2, v ! 3) else (l, r, 0, 0))))"

text \<open>
  The four numbers are added to the padding in a copy of the attributes; the attributes that are handed on
  are the integers among them, and the padding is none of these.
\<close>

definition padded_attrs :: "int \<times> int \<times> int \<times> int \<Rightarrow> Attrs \<Rightarrow> Attrs result" where
  "padded_attrs pads m = (case pads of (l, r, tp, bt) \<Rightarrow>
     case attr_ints (attr_or_default m ''padding'') of
       None \<Rightarrow> Inr (attrs_set ''padding'' (AInts [0, 0, 0, 0]) m)
     | Some v \<Rightarrow>
         rbind (foldR (\<lambda>v (i, p). rbind (vec_at v i) (\<lambda>x. Inr (v[i := x + p]))) v
                  [(0, tp), (1, l), (2, bt), (3, r)]) (\<lambda>v'.
           Inr (attrs_set ''padding'' (AInts v') m)))"

definition int_attrs :: "Attrs \<Rightarrow> int list" where
  "int_attrs m = List.map_filter (int_attr \<circ> snd) m"

definition pad_conv :: "int \<times> int \<times> int \<times> int \<Rightarrow> OpFields \<Rightarrow> OpFields result" where
  "pad_conv pads p =
     (let m = named_attrs (node_op_type p) in
      tt_assert (length m = 7) (rbind (padded_attrs pads m) (\<lambda>m'. update_conv_attr (int_attrs m') p)))"

definition fuse_pad_at :: "GS \<Rightarrow> NodeId \<Rightarrow> GS result" where
  "fuse_pad_at st i =
     rbind (deref (snd st) i) (\<lambda>n. case op_of n of None \<Rightarrow> Inr st | Some t \<Rightarrow>
       if op_name t \<noteq> ''pad'' then Inr st
       else
         rbind (get_int (attr_or_default (named_attrs t) ''mode'')) (\<lambda>mode.
           if mode \<noteq> 0 then Inr st
           else
             rbind (of_opt Runtime_error (attr_ints (attr_or_default (named_attrs t) ''padding''))) (\<lambda>v.
             rbind (pad_amounts v) (\<lambda>pads.
             rbind (all_users (snd st) i) (\<lambda>us.
             rbind (mapR (deref (snd st)) us) (\<lambda>ns.
               if \<not> list_all (same_op_name ''conv2d'') ns then Inr st
               else
                 rbind (foldR (\<lambda>st u. change_op u (pad_conv pads) st) st us) (bypass_removed no_callback i)))))))"

definition fuse_pad_conv2d :: "GS \<Rightarrow> GS result" where
  "fuse_pad_conv2d st = rbind (topo_order (fst st) (snd st)) (foldR fuse_pad_at st)"

section \<open>The bias of a convolution\<close>

definition has_fusable_upstream_conv2d :: "Graph \<Rightarrow> NodeId \<Rightarrow> bool result" where
  "has_fusable_upstream_conv2d g i =
     rbind (deref g i) (\<lambda>n. case pyop_part n of None \<Rightarrow> Inr False | Some p \<Rightarrow>
       if new_op_type p \<noteq> Op_Conv2d then Inr False
       else
         rbind (user_data_edges any_edge g i) (\<lambda>us.
           if 1 < length us then Inr False
           else rbind (operand_data_edges any_edge g i) (\<lambda>os. Inr (length os \<le> 2))))"

text \<open>An edge built from its ends is added and takes over the attributes of another one.\<close>

definition copy_edge_to ::
    "NodeId \<Rightarrow> PortId \<Rightarrow> NodeId \<Rightarrow> PortId \<Rightarrow> EdgeType \<Rightarrow> Edge \<Rightarrow> GS \<Rightarrow> GS result" where
  "copy_edge_to p pp c cp ty old st =
     (case construct_edge p pp c cp ty st of (st1, e) \<Rightarrow> copy_attrs old e (put_edge e st1))"

definition user_to_conv :: "NodeId \<Rightarrow> GS \<Rightarrow> Edge \<Rightarrow> GS result" where
  "user_to_conv conv st e =
     copy_edge_to conv (if edge_type e = kAutogradFwdToBwd then 2 else 0)
       (consumer_node_id e) (consumer_input_port_id e) (edge_type e) e st"

definition merge_bias :: "NodeId \<Rightarrow> NodeId \<Rightarrow> Edge \<Rightarrow> GS \<Rightarrow> GS result" where
  "merge_bias conv i bias st =
     rbind (update_edge_attr (\<lambda>a. Inr (clear_broadcast_dims a)) bias st) (\<lambda>st1.
     rbind (copy_edge_to (producer_node_id bias) (producer_output_port_id bias) conv 2 kData bias st1) (\<lambda>st2.
     rbind (user_edges any_edge (snd st2) i) (\<lambda>us.
     rbind (foldR (user_to_conv conv) st2 us) (\<lambda>st3.
     rbind (op_at (snd st3) i) (\<lambda>_.
     rbind (rbind (deref (snd st3) i) as_OpNode) (\<lambda>p.
     rbind (change_op conv (\<lambda>q. Inr (set_golden_id (word_of_int i) (q\<lparr>golden_transforms := golden_transforms p\<rparr>))) st3)
       (\<lambda>st4.
     rbind (drop_node i st4) (\<lambda>(st5, _). Inr st5))))))))"

definition fuse_bias_at :: "GS \<Rightarrow> NodeId \<Rightarrow> GS result" where
  "fuse_bias_at st i =
     rbind (deref (snd st) i) (\<lambda>n.
       if node_type n \<noteq> kPyOp then Inr st
       else
         rbind (as_PyOpNode n) (\<lambda>p.
           if new_op_type p \<noteq> Op_Add then Inr st
           else
             rbind (data_operands (snd st) i) (\<lambda>os.
             tt_assert (length os = 2)
               (rbind (has_fusable_upstream_conv2d (snd st) (hd os)) (\<lambda>fusable.
                  if \<not> fusable then Inr st
                  else
                    rbind (rbind (operand_data_edges any_edge (snd st) i) (\<lambda>es. vec_at es 1)) (\<lambda>bias.
                    rbind (edge_tms st bias) (\<lambda>ts.
                      if \<not> list_ex is_broadcast ts then Inr st else merge_bias (hd os) i bias st)))))))"

definition fuse_conv2d_bias :: "GS \<Rightarrow> GS result" where
  "fuse_conv2d_bias st = rbind (topo_order (fst st) (snd st)) (foldR fuse_bias_at st)"

section \<open>A dimension that is split and indexed\<close>

definition all_index_alike :: "Node list \<Rightarrow> bool result" where
  "all_index_alike ns =
     (case ns of [] \<Rightarrow> Inr False
      | first # _ \<Rightarrow>
          allR (\<lambda>n.
            rbind (of_opt Undefined_behaviour (op_of n)) (\<lambda>t.
            rbind (of_opt Undefined_behaviour (op_of first)) (\<lambda>tf.
            rbind (legacy_int t 0) (\<lambda>d. rbind (legacy_int tf 0) (\<lambda>df.
              if d \<noteq> df then Inr False
              else if \<not> shape_eq (node_shape n) (node_shape first) then Inr False
              else rbind (legacy_int t 3) (\<lambda>s. Inr (s = 1))))))) ns)"

definition index_length :: "Node \<Rightarrow> int result" where
  "index_length n =
     rbind (of_opt Undefined_behaviour (op_of n)) (\<lambda>t.
     rbind (legacy_int t 2) (\<lambda>stop. rbind (legacy_int t 1) (\<lambda>start. Inr (stop - start))))"

text \<open>The only user is a reshape that removes a dimension. A user that is no operation is a null pointer.\<close>

definition is_squeezed :: "Graph \<Rightarrow> NodeId \<Rightarrow> bool result" where
  "is_squeezed g i =
     rbind (all_users g i) (\<lambda>us.
     rbind (deref g i) (\<lambda>n.
     rbind (rbind (vec_at us 0) (deref g)) (\<lambda>u.
       if length us \<noteq> 1 then Inr False
       else
         rbind (of_opt Undefined_behaviour (op_of u)) (\<lambda>t.
           Inr (op_name t = ''reshape'' \<and> volume (node_shape u) = volume (node_shape n) \<and>
                Suc (shape_size (node_shape u)) = shape_size (node_shape n))))))"

fun first_different :: "Shape \<Rightarrow> Shape \<Rightarrow> nat list \<Rightarrow> nat option result" where
  "first_different a b [] = Inr None"
| "first_different a b (i # is) =
     rbind (shape_at a (int i)) (\<lambda>x. rbind (shape_at b (int i)) (\<lambda>y.
       if x \<noteq> y then Inr (Some i) else first_different a b is))"

definition total_size :: "int \<Rightarrow> Node list \<Rightarrow> u32 result" where
  "total_size dim ns = foldR (\<lambda>s n. rbind (shape_at (node_shape n) dim) (\<lambda>x. Inr (s + x))) 0 ns"

text \<open>
  The dimension of the operand that was split and the size of a slice of it; \<open>None\<close> when the pattern is
  not there.
\<close>

definition split_plan :: "Graph \<Rightarrow> NodeId \<Rightarrow> (nat \<times> u32 \<times> Shape) option result" where
  "split_plan g i =
     rbind (deref g i) (\<lambda>n.
       if \<not> is_reshape_op n then Inr None
       else
         rbind (rbind (operands g i) (\<lambda>os. rbind (vec_at os 0) (deref g))) (\<lambda>p.
           let rank = shape_size (node_shape p) in
           if shape_size (node_shape n) \<noteq> Suc rank then Inr None
           else
             rbind (all_users g i) (\<lambda>us.
             rbind (mapR (deref g) us) (\<lambda>ns.
               if \<not> list_all (same_op_name ''index'') ns then Inr None
               else
                 rbind (all_index_alike ns) (\<lambda>alike.
                   if \<not> alike then Inr None
                   else
                     rbind (of_opt Undefined_behaviour (op_of (hd ns))) (\<lambda>t.
                     rbind (legacy_int t 0) (\<lambda>dim.
                     rbind (total_size dim ns) (\<lambda>tot.
                     rbind (shape_at (node_shape n) dim) (\<lambda>here.
                     rbind (allR (\<lambda>m. rbind (index_length m) (\<lambda>k. Inr (k = 1))) ns) (\<lambda>ones.
                       if \<not> (tot = here \<and> ones) then Inr None
                       else
                         rbind (allR (is_squeezed g) us) (\<lambda>squeezed.
                           if \<not> squeezed then Inr None
                           else
                             rbind (first_different (node_shape p) (node_shape n) [0..<rank]) (\<lambda>d. case d of
                               None \<Rightarrow> Inr None
                             | Some d \<Rightarrow>
                                 rbind (shape_at (node_shape p) (int d)) (\<lambda>x.
                                 rbind (shape_at (node_shape n) (int d)) (\<lambda>y.
                                 rbind (shape_at (node_shape n) (int d + 1)) (\<lambda>z.
                                   if x \<noteq> y * z then Inr None
                                   else
                                     rbind (div_u32 x tot) (\<lambda>q. tt_assert (x mod tot = 0)
                                       (rbind (set_dim (node_shape p) (int d) q) (\<lambda>s.
                                          Inr (Some (d, q, s))))))))))))))))))))"

definition slice_attrs :: "nat \<Rightarrow> u32 \<Rightarrow> OpFields \<Rightarrow> OpFields result" where
  "slice_attrs d q p =
     tt_assert (new_op_type p = Op_Index)
       (rbind (legacy_int (node_op_type p) 1) (\<lambda>start.
        let new_start = sint (word_of_int start * q); new_stop = sint (word_of_int start * q + q) in
        rbind (mk_OpType ''index'' [AInt (int d), AInt new_start, AInt new_stop, AInt 1] []) (\<lambda>t.
          Inr (set_op_attr ''stride'' (AInt 1) (set_op_attr ''stop'' (AInt new_stop)
                (set_op_attr ''start'' (AInt new_start) (set_op_attr ''dim'' (AInt (int d))
                  (change_op_type t p))))))))"

definition decompose_split_at :: "op_shape_fn \<Rightarrow> GS \<Rightarrow> NodeId \<Rightarrow> GS result" where
  "decompose_split_at op_shape st i =
     rbind (split_plan (snd st) i) (\<lambda>r. case r of None \<Rightarrow> Inr st | Some (d, q, s) \<Rightarrow>
       rbind (all_users (snd st) i) (\<lambda>us.
       rbind (foldR (\<lambda>st u. rbind (change_op u (slice_attrs d q) st) (set_shape_at u s)) st us) (\<lambda>st1.
       rbind (bypass_removed no_callback i st1) (recalculate_shapes op_shape))))"

definition decompose_nd_reshape_split :: "op_shape_fn \<Rightarrow> GS \<Rightarrow> GS result" where
  "decompose_nd_reshape_split op_shape st =
     rbind (nodes (\<lambda>_. Inr True) (snd st)) (foldR (decompose_split_at op_shape) st)"

section \<open>A transpose of four dimensions between two reshapes\<close>

definition wrapped_if_positive :: "nat \<Rightarrow> int \<Rightarrow> int" where
  "wrapped_if_positive k d = (if 0 < d then d - int k else d)"

definition involves_w_dim :: "Node \<Rightarrow> bool result" where
  "involves_w_dim n = (case op_of n of
     None \<Rightarrow> Inl Undefined_behaviour
   | Some t \<Rightarrow>
       let ds = sh_dims (node_shape n) in
       if op_name t = ''reshape'' then Inr (4 \<le> length ds \<and> 1 < ds ! (length ds - 4))
       else if op_name t = ''transpose'' then
         rbind (OpType_int t ''dim0'') (\<lambda>a. rbind (OpType_int t ''dim1'') (\<lambda>b.
           let x = wrapped_if_positive (length ds) a; y = wrapped_if_positive (length ds) b
           in Inr (min x y = -4 \<and> max x y = -3)))
       else Inr False)"

definition output_shape_matches :: "Node \<Rightarrow> Shape \<Rightarrow> bool" where
  "output_shape_matches n s \<longleftrightarrow> is_reshape_op n \<and> sh_dims s = sh_dims (node_shape n)"

definition is_transpose_op :: "Node \<Rightarrow> bool" where
  "is_transpose_op n \<longleftrightarrow> same_op_name ''transpose'' n"

text \<open>At most two users are followed: a path of three nodes that goes on is given up.\<close>

fun tm_path :: "nat \<Rightarrow> Graph \<Rightarrow> Shape \<Rightarrow> NodeId list \<Rightarrow> NodeId \<Rightarrow> NodeId list result" where
  "tm_path 0 g s path op = Inr []"
| "tm_path (Suc k) g s path op =
     rbind (is_op_node g op) (\<lambda>is_op. tt_assert is_op
       (rbind (data_users g op) (\<lambda>us.
          if 1 < length us then Inr []
          else
            rbind (vec_at us 0) (\<lambda>u.
            rbind (deref g u) (\<lambda>n.
              if op_part n = None then Inr []
              else if is_reshape_op n \<and> output_shape_matches n s then Inr (path @ [u])
              else if \<not> is_transpose_op n then Inr []
              else
                rbind (involves_w_dim n) (\<lambda>b.
                  if b then tm_path k g s (path @ [u]) u else Inr []))))))"

definition path_of_transpose_and_reshape :: "Graph \<Rightarrow> NodeId \<Rightarrow> NodeId list result" where
  "path_of_transpose_and_reshape g i =
     rbind (first_operand_node g i) (\<lambda>m.
     rbind (tm_path 2 g (node_shape m) [i] i) (\<lambda>path. Inr (if length path < 3 then [] else path)))"

definition put_op_node :: "string \<Rightarrow> OpType \<Rightarrow> Shape \<Rightarrow> DataFormat \<Rightarrow> u32 \<Rightarrow> GS \<Rightarrow> (GS \<times> NodeId) result" where
  "put_op_node name t s df sid st =
     rbind (put_node (mk_PyOpNode name t) sid st) (\<lambda>(st1, i).
     rbind (set_shape_at i s st1) (\<lambda>st2.
     rbind (on_graph (update_node i (\<lambda>m. Inr (node_set_output_df df m))) st2) (\<lambda>st3. Inr (st3, i))))"

definition add_select :: "NodeId \<Rightarrow> Node \<Rightarrow> int \<Rightarrow> int \<Rightarrow> u32 list \<Rightarrow> GS \<times> NodeId list \<Rightarrow> nat \<Rightarrow> (GS \<times> NodeId list) result" where
  "add_select first n third orig ds r k =
     rbind (mk_OpType ''select'' [AInt (-3), AInt (int k * third), AInt third, AInt orig] []) (\<lambda>t.
     rbind (get_subgraph_id_for_node (snd (fst r)) first) (\<lambda>sid.
     rbind (put_op_node (node_name n @ ''_replaced_select.'' @ show_nat k) t
              (shape_create [1, word_of_int third, ds ! 2, ds ! 3]) (node_output_df n) sid (fst r)) (\<lambda>(st, i).
       Inr (st, snd r @ [i]))))"

definition wire_select :: "Edge \<Rightarrow> NodeId \<Rightarrow> GS \<Rightarrow> nat \<times> NodeId \<Rightarrow> GS result" where
  "wire_select e interleave st x = (case x of (k, i) \<Rightarrow>
     rbind (copy_edge_to (producer_node_id e) 0 i 0 (edge_type e) e st) (\<lambda>st1.
       copy_edge_to i 0 interleave (word_of_nat k) (edge_type e) e st1))"

definition rewire_user :: "NodeId \<Rightarrow> GS \<Rightarrow> Edge \<Rightarrow> GS result" where
  "rewire_user interleave st u =
     (if edge_type u \<noteq> kData then Inr st
      else copy_edge_to interleave 0 (consumer_node_id u) (consumer_input_port_id u) (edge_type u) u st)"

text \<open>The first four entries of the shape are read, four of it must be there.\<close>

definition commute_4d_tm_ops :: "NodeId list \<Rightarrow> GS \<Rightarrow> GS result" where
  "commute_4d_tm_ops path st =
     rbind (deref (snd st) (hd path)) (\<lambda>n.
     tt_assert (is_reshape_op n) (tt_assert (length path = 3)
       (let ds = sh_dims (node_shape n) in
        rbind (vec_at ds 3) (\<lambda>_.
        let fourth = sint (ds ! 0); third = sint (ds ! 1); orig = third * fourth in
        rbind (foldR (add_select (hd path) n third orig ds) (st, []) [0..<nat fourth]) (\<lambda>(st1, selects).
        rbind (mk_OpType ''interleave'' [AInt (-3), AInt 1] []) (\<lambda>t.
        rbind (get_subgraph_id_for_node (snd st1) (hd path)) (\<lambda>sid.
        rbind (put_op_node (node_name n @ ''_replaced_interleave.0'') t
                 (shape_create [1, word_of_int orig, ds ! 2, ds ! 3]) (node_output_df n) sid st1) (\<lambda>(st2, j).
        rbind (first_data_operand_edge (snd st2) (hd path)) (\<lambda>e.
        rbind (foldR (wire_select e j) st2 (enumerate 0 selects)) (\<lambda>st3.
        rbind (user_edges any_edge (snd st3) (last path)) (\<lambda>us.
        rbind (foldR (rewire_user j) st3 us) (\<lambda>st4.
        rbind (drop_node (path ! 1) st4) (\<lambda>(st5, _).
        rbind (drop_node (path ! 2) st5) (\<lambda>(st6, _). Inr st6))))))))))))))"

definition are_removable_4d_tm_sequence :: "Edge \<Rightarrow> GS \<Rightarrow> (GS \<times> bool) result" where
  "are_removable_4d_tm_sequence e st =
     rbind (node_by_id (snd st) (producer_node_id e)) (\<lambda>p.
     rbind (data_operands (snd st) (producer_node_id e)) (\<lambda>os.
       if length os \<noteq> 1 \<or> \<not> is_reshape_op p then Inr (st, False)
       else
         rbind (path_of_transpose_and_reshape (snd st) (producer_node_id e)) (\<lambda>path.
           if path = [] then Inr (st, False)
           else rbind (commute_4d_tm_ops path st) (\<lambda>st'. Inr (st', True)))))"

definition erase_4d_at :: "Pass \<Rightarrow> GS \<Rightarrow> NodeId \<Rightarrow> (GS \<times> bool) result" where
  "erase_4d_at ps st i =
     rbind (user_data_edges any_edge (snd st) i) (\<lambda>us.
       if length us \<noteq> 1 then Inr (st, False)
       else
         rbind (edge_attr (fst st) (snd st) (hd us)) (\<lambda>a.
           if has_broadcast_dims a then Inr (st, False)
           else
             rbind (are_removable_4d_tm_sequence (hd us) st) (\<lambda>(st1, removable).
               if \<not> removable then Inr (st1, False)
               else
                 rbind (bypass_removed (\<lambda>e old. change_rank_unless_reshape ps e) i st1) (\<lambda>st2. Inr (st2, True)))))"

definition erase_unnecessary_4d_tm_sequence :: "nat \<Rightarrow> Pass \<Rightarrow> GS \<Rightarrow> GS result" where
  "erase_unnecessary_4d_tm_sequence fuel ps st =
     rbind (change_until_none fuel (erase_4d_at ps) (st, False)) (\<lambda>(st', _). Inr st')"

section \<open>Outputs padded to the grid\<close>

text \<open>The environment variables and the grid of the device.\<close>

record PadEnv =
  env_pad_output_buffer :: bool
  env_pad_threshold :: int
  grid_r :: int
  grid_c :: int

definition insert_forge_pad :: "Edge \<Rightarrow> int \<Rightarrow> int \<Rightarrow> Shape \<Rightarrow> NodeId \<Rightarrow> GS \<Rightarrow> GS result" where
  "insert_forge_pad e rt ct original output st =
     rbind (node_by_id (snd st) (consumer_node_id e)) (\<lambda>n.
     rbind (mk_OpType ''forge_pad'' [AInt rt, AInt ct, AInt 0] []) (\<lambda>t.
     rbind (get_subgraph_id_for_node (snd st) (consumer_node_id e)) (\<lambda>sid.
     rbind (put_node (mk_PyOpNode (node_name n @ ''_pad'') t) sid st) (\<lambda>(st1, i).
     rbind (insert_node_on_edge_default e i st1) (\<lambda>(st2, _, _).
       on_graph (update_node output (\<lambda>m. rbind (as_OutputNode m) (\<lambda>_.
         with_output (\<lambda>f. f\<lparr>output_transform := unpad_transform original\<rparr>) m))) st2)))))"

definition grid_pad :: "int \<Rightarrow> int \<Rightarrow> int result" where
  "grid_pad n grid =
     (if n < grid then Inr 0 else rbind (c_mod n grid) (\<lambda>r. c_mod (grid - r) grid))"

definition op_type_of_producer :: "GS \<Rightarrow> Edge \<Rightarrow> ops_OpType result" where
  "op_type_of_producer st e = rbind (op_at (snd st) (producer_node_id e)) (\<lambda>(_, t). Inr (OpType_type t))"

text \<open>The input whose padding may be evaluated: behind the second operand of the matrix multiplication.\<close>

definition padded_input :: "GS \<Rightarrow> NodeId \<Rightarrow> NodeId list result" where
  "padded_input st j =
     rbind (deref (snd st) j) (\<lambda>n.
       if node_type n = kInput then Inr [j]
       else
         rbind (op_at (snd st) j) (\<lambda>(_, t).
           if OpType_type t \<noteq> Op_Transpose then Inr []
           else
             rbind (rbind (data_operands (snd st) j) (\<lambda>os. vec_at os 0)) (\<lambda>k.
             rbind (deref (snd st) k) (\<lambda>m. Inr (if node_type m = kInput then [k] else [])))))"

text \<open>The columns are padded at the second operand when a matrix multiplication feeds the output.\<close>

definition pad_matmul_columns :: "int \<Rightarrow> Shape \<Rightarrow> NodeId \<Rightarrow> GS \<Rightarrow> (GS \<times> bool \<times> NodeId list) result" where
  "pad_matmul_columns ct original output st =
     rbind (operand_data_edges any_edge (snd st) output) (\<lambda>es.
     tt_assert (length es = 1)
       (rbind (op_type_of_producer st (hd es)) (\<lambda>t.
        rbind (if t \<noteq> Op_Unsqueeze then Inr es
               else
                 rbind (operand_data_edges any_edge (snd st) (producer_node_id (hd es))) (\<lambda>es'.
                   tt_assert (length es' = 1) (Inr es'))) (\<lambda>es'.
        rbind (op_type_of_producer st (hd es')) (\<lambda>t'.
          if t' \<noteq> Op_Matmul \<or> ct = 0 then Inr (st, False, [])
          else
            rbind (operand_data_edges any_edge (snd st) (producer_node_id (hd es'))) (\<lambda>ms.
            rbind (vec_at ms 1) (\<lambda>e.
            rbind (insert_forge_pad e 0 ct original output st) (\<lambda>st1.
            rbind (padded_input st1 (producer_node_id e)) (\<lambda>inputs. Inr (st1, True, inputs))))))))))"

definition pad_output :: "PadEnv \<Rightarrow> GS \<times> NodeId list \<Rightarrow> NodeId \<Rightarrow> (GS \<times> NodeId list) result" where
  "pad_output env r i = (case r of (st, inputs) \<Rightarrow>
     rbind (user_edges is_partial_datacopy (snd st) i) (\<lambda>copies.
       if copies \<noteq> [] then Inr r
       else
         rbind (deref (snd st) i) (\<lambda>n.
         rbind (to_forge (node_shape n)) (\<lambda>f.
         rbind (shape_rt f) (\<lambda>rt. rbind (shape_ct f) (\<lambda>ct.
           if sint rt * sint ct < env_pad_threshold env then Inr r
           else
             rbind (grid_pad (sint rt) (grid_r env)) (\<lambda>rpad.
             rbind (grid_pad (sint ct) (grid_c env)) (\<lambda>cpad.
               if rpad = 0 \<and> cpad = 0 then Inr r
               else
                 rbind (shape_at (node_shape n) (-1)) (\<lambda>_. rbind (shape_at (node_shape n) (-2)) (\<lambda>_.
                 rbind (pad_matmul_columns cpad (node_shape n) i st) (\<lambda>(st1, padded, new).
                 let cpad' = (if padded then 0 else cpad) in
                 if rpad = 0 \<and> cpad' = 0 then Inr (st1, inputs @ new)
                 else
                   rbind (first_data_operand_edge (snd st1) i) (\<lambda>e.
                   rbind (insert_forge_pad e rpad cpad' (node_shape n) i st1) (\<lambda>st2.
                     Inr (st2, inputs @ new))))))))))))))"

fun consteval_again :: "nat \<Rightarrow> (ConstEvalRef \<Rightarrow> ConstEvalRef result) \<Rightarrow> NodeId \<Rightarrow> GS \<Rightarrow> GS result" where
  "consteval_again 0 ce i st = Inl Out_of_fuel"
| "consteval_again (Suc k) ce i st =
     rbind (rbind (deref (snd st) i) as_InputNode) (\<lambda>_.
     rbind (try_consteval_input_no_operand_forks ce i True st) (\<lambda>(st', done).
       if done then consteval_again k ce i st' else Inr st'))"

definition pad_output_buffer :: "nat \<Rightarrow> Pass \<Rightarrow> PadEnv \<Rightarrow> GS \<Rightarrow> GS result" where
  "pad_output_buffer fuel ps env st =
     (if \<not> env_pad_output_buffer env then Inr st
      else
        rbind (nodes_by_type kOutput (snd st)) (\<lambda>is.
        rbind (foldR (pad_output env) (st, []) is) (\<lambda>(st1, inputs).
        rbind (recalculate_shapes (ps_shape ps) st1) (\<lambda>st2.
          foldR (\<lambda>st i. consteval_again fuel (ps_consteval ps) i st) st2 inputs))))"

end
