(* ===== verification/Constant_Folding.thy ===== *)
theory Constant_Folding
  imports Fusions
begin

text \<open>
  The pass \<open>constant_folding\<close> (\<open>passes/constant_folding.cpp\<close>): a binary operation with an input as operand
  moves above a narrow, into the weights of matrix multiplications, or behind the constant of an operation
  of the same kind.
\<close>

declare map_of_eq_Some_iff [simp del] Some_eq_map_of_iff [simp del] split_paired_All [simp del]
  split_paired_Ex [simp del]

section \<open>The constant and the other operand\<close>

definition is_input_node :: "Graph \<Rightarrow> NodeId \<Rightarrow> bool result" where
  "is_input_node g i = rbind (deref g i) (\<lambda>n. Inr (input_part n \<noteq> None))"

definition two_operands :: "Graph \<Rightarrow> NodeId \<Rightarrow> (NodeId \<times> NodeId) result" where
  "two_operands g i =
     rbind (data_operands g i) (\<lambda>os. tt_assert (length os = 2) (Inr (os ! 0, os ! 1)))"

text \<open>Without a constant in front the second operand is taken, whatever input it is.\<close>

definition get_constant_input :: "Graph \<Rightarrow> NodeId \<Rightarrow> NodeId option result" where
  "get_constant_input g i =
     rbind (two_operands g i) (\<lambda>(a, b).
     rbind (deref g a) (\<lambda>n.
     let j = (if is_constant_input n then a else b) in
     rbind (is_input_node g j) (\<lambda>c. Inr (if c then Some j else None))))"

definition get_producer_input :: "Graph \<Rightarrow> NodeId \<Rightarrow> NodeId option result" where
  "get_producer_input g i =
     rbind (two_operands g i) (\<lambda>(a, b).
     rbind (is_op_node g a) (\<lambda>p.
     let j = (if p then a else b) in
     rbind (is_op_node g j) (\<lambda>c. Inr (if c then Some j else None))))"

definition is_constant_eltwise_binary :: "Graph \<Rightarrow> NodeId \<Rightarrow> bool result" where
  "is_constant_eltwise_binary g i =
     rbind (op_at g i) (\<lambda>(_, t).
     rbind (OpType_is_eltwise_binary t) (\<lambda>binary.
       if \<not> binary then Inr False
       else
         rbind (get_constant_input g i) (\<lambda>c.
           if c = None then Inr False
           else rbind (get_producer_input g i) (\<lambda>p. Inr (p \<noteq> None)))))"

section \<open>Padding within a tile\<close>

definition set_legacy_int :: "nat \<Rightarrow> int \<Rightarrow> OpType \<Rightarrow> OpType result" where
  "set_legacy_int i x t =
     rbind (legacy_int t i) (\<lambda>_. Inr (t\<lparr>legacy_attrs := (legacy_attrs t)[i := AInt x]\<rparr>))"

text \<open>
  The loop over the TMs of the edge: a broadcast of the dimension is resized; the flag tells whether the loop
  saw broadcasts only.
\<close>

fun resize_bcast :: "Shape \<Rightarrow> int \<Rightarrow> int \<Rightarrow> OpType list \<Rightarrow> (OpType list option \<times> bool) result" where
  "resize_bcast s dim sz [] = Inr (None, True)"
| "resize_bcast s dim sz (t # ts) =
     (if \<not> is_broadcast t then Inr (None, False)
      else
        rbind (legacy_int t 0) (\<lambda>d.
          if negative_index s d = dim then
            rbind (set_legacy_int 0 dim t) (\<lambda>t1. rbind (set_legacy_int 1 sz t1) (\<lambda>t2. Inr (Some (t2 # ts), True)))
          else
            rbind (resize_bcast s dim sz ts) (\<lambda>(r, only). Inr (map_option (Cons t) r, only))))"

text \<open>The operation \<open>pad_tile\<close> on the edge, the broadcasts behind it.\<close>

definition put_pad_tile :: "Pass \<Rightarrow> bool \<Rightarrow> int \<Rightarrow> int \<Rightarrow> Edge \<Rightarrow> GS \<Rightarrow> GS result" where
  "put_pad_tile ps only_bcast dim sz e st =
     tt_assert (sz mod 32 = 0)
       (rbind (node_by_id (snd st) (producer_node_id e)) (\<lambda>p.
        rbind (clone_named ps (consumer_node_id e) (''pad_tile_'' @ node_name p @ ''_'' @ show_nat (edge_creation_id e))
                 (producer_node_id e) st) (\<lambda>(st1, i).
        rbind (shape_at (node_shape p) dim) (\<lambda>x.
        rbind (mk_OpType ''pad_tile'' [AInt dim, AInt (sint x)] []) (\<lambda>t.
        rbind (change_op i (\<lambda>q. Inr (change_op_type t q)) st1) (\<lambda>st2.
        rbind (insert_node_on_edge_default e i st2) (\<lambda>(st3, incoming, outgoing).
        rbind (if \<not> only_bcast then Inr st3
               else
                 rbind (edge_tms st3 incoming) (\<lambda>ts.
                 rbind (update_edge_attr (\<lambda>a. Inr (set_tms (ts @ tms a) a)) outgoing st3)
                   (update_edge_attr (\<lambda>a. Inr (set_tms [] a)) incoming))) (\<lambda>st4.
        rbind (node_by_id (snd st4) (if only_bcast then producer_node_id e else consumer_node_id e)) (\<lambda>m.
        rbind (shape_at (node_shape m) dim) (\<lambda>y.
        rbind (align_up_tile_int (sint y)) (\<lambda>al. tt_assert (sz = al)
          (rbind (set_dim (node_shape m) dim (align_up_tile_u32 y)) (\<lambda>s.
           rbind (set_shape_at i s st4) (\<lambda>st5.
           rbind (try_consteval_op (ps_consteval ps) i st5) (\<lambda>(st6, _). Inr st6)))))))))))))))"

definition insert_pad_within_tile :: "Pass \<Rightarrow> int \<Rightarrow> int \<Rightarrow> Edge \<Rightarrow> GS \<Rightarrow> GS result" where
  "insert_pad_within_tile ps dim0 sz e st =
     rbind (node_by_id (snd st) (producer_node_id e)) (\<lambda>p.
     rbind (node_by_id (snd st) (consumer_node_id e)) (\<lambda>c.
     tt_assert (index_in_bounds (node_shape c) dim0)
       (let dim = negative_index (node_shape c) dim0 in
        rbind (if index_in_bounds (node_shape p) dim then shape_at (node_shape p) dim else Inr 1) (\<lambda>psize.
        rbind (shape_at (node_shape c) dim) (\<lambda>csize.
          if psize = csize then Inr st
          else
            rbind (edge_tms st e) (\<lambda>ts.
            rbind (resize_bcast (node_shape c) dim sz ts) (\<lambda>(resized, only_bcast). case resized of
              Some ts' \<Rightarrow> update_edge_attr (\<lambda>a. Inr (set_tms ts' a)) e st
            | None \<Rightarrow>
                if psize = 1 then
                  rbind (mk_OpType ''broadcast'' [AInt dim, AInt sz] []) (\<lambda>t.
                    update_edge_attr (\<lambda>a. Inr (append_tm t a)) e st)
                else put_pad_tile ps only_bcast dim sz e st)))))))"

section \<open>Above a narrow\<close>

definition no_edge_callback :: "Edge \<Rightarrow> GS \<Rightarrow> GS result" where
  "no_edge_callback e st = Inr st"

definition pad_other_operand :: "Pass \<Rightarrow> NodeId \<Rightarrow> int \<Rightarrow> Edge \<Rightarrow> GS \<Rightarrow> GS result" where
  "pad_other_operand ps j dim e st =
     (if producer_node_id e = j then Inr st
      else
        rbind (deref (snd st) j) (\<lambda>m. rbind (shape_at (node_shape m) dim) (\<lambda>x.
          insert_pad_within_tile ps dim (sint x) e st)))"

definition try_hoist_above_narrow :: "Pass \<Rightarrow> NodeId \<Rightarrow> NodeId \<Rightarrow> GS \<Rightarrow> (GS \<times> bool) result" where
  "try_hoist_above_narrow ps narrow consumer st =
     rbind (op_at (snd st) narrow) (\<lambda>(n, t).
       if op_name t \<noteq> ''narrow'' then Inr (st, False)
       else
         rbind (user_data_edges any_edge (snd st) narrow) (\<lambda>us.
           if 1 < length us then Inr (st, False)
           else
             tt_assert (length (legacy_attrs t) = 4)
               (rbind (legacy_int t 0) (\<lambda>d. rbind (legacy_int t 1) (\<lambda>start. rbind (legacy_int t 2) (\<lambda>len.
                let dim = negative_index (node_shape n) d in
                rbind (align_up_tile_int len) (\<lambda>al.
                rbind (shape_at (node_shape n) dim) (\<lambda>x.
                rbind (align_up_tile_int (sint x)) (\<lambda>ax.
                  if \<not> ((dim = -1 \<or> dim = -2) \<and> start = 0 \<and> al = ax) then Inr (st, False)
                  else
                    rbind (data_operands (snd st) narrow) (\<lambda>os.
                    tt_assert (length os = 1)
                      (rbind (deref (snd st) (hd os)) (\<lambda>m.
                       rbind (change_op consumer (\<lambda>p. Inr (add_golden_transform t p)) st) (\<lambda>st1.
                       rbind (set_shape_at consumer (node_shape m) st1) (\<lambda>st2.
                       rbind (get_edges (snd st2) narrow consumer) (\<lambda>es.
                       tt_assert (length es = 1)
                         (rbind (swap_nodes (pad_other_operand ps (hd os) dim) no_edge_callback (hd es) st2)
                            (\<lambda>(st3, _). Inr (st3, True))))))))))))))))))"

section \<open>Into the weights of a matrix multiplication\<close>

text \<open>A stack, the last element on top; an operand that is neither wanted nor passed ends the search.\<close>

fun find_operands_commute_through ::
    "nat \<Rightarrow> Graph \<Rightarrow> (Node \<Rightarrow> bool) \<Rightarrow> (Node \<Rightarrow> bool) \<Rightarrow> NodeId list \<Rightarrow> NodeId list \<Rightarrow> NodeId list result" where
  "find_operands_commute_through 0 g commutable sink visit sinks = Inl Out_of_fuel"
| "find_operands_commute_through (Suc k) g commutable sink visit sinks =
     (if visit = [] then Inr sinks
      else
        rbind (deref g (last visit)) (\<lambda>n.
          if sink n then find_operands_commute_through k g commutable sink (butlast visit) (sinks @ [last visit])
          else if commutable n then
            rbind (data_operands g (last visit)) (\<lambda>os.
              find_operands_commute_through k g commutable sink (butlast visit @ os) sinks)
          else Inr []))"

declare find_operands_commute_through.simps [simp del]

definition is_dense_matmul_node :: "Node \<Rightarrow> bool" where
  "is_dense_matmul_node n = (case op_part n of None \<Rightarrow> False | Some p \<Rightarrow> is_dense_matmul p)"

definition is_add_or_nop :: "Node \<Rightarrow> bool" where
  "is_add_or_nop n = (case op_part n of None \<Rightarrow> False | Some p \<Rightarrow> is_op_type p ''add'' \<or> is_op_type p ''nop'')"

definition weight_edge :: "Graph \<Rightarrow> NodeId \<Rightarrow> Edge result" where
  "weight_edge g i =
     rbind (operand_data_edges any_edge g i) (\<lambda>es. tt_assert (2 \<le> length es) (Inr (es ! 1)))"

definition weight_foldable :: "Graph \<Rightarrow> NodeId \<Rightarrow> bool result" where
  "weight_foldable g i =
     rbind (weight_edge g i) (\<lambda>e.
     rbind (node_by_id g (producer_node_id e)) (\<lambda>n. Inr (case input_part n of
       None \<Rightarrow> False
     | Some f \<Rightarrow>
         input_type f \<in> {In_Parameter, In_Constant, In_OptimizerParameter} \<and>
         \<not> (training g \<and> input_type f = In_Parameter))))"

text \<open>The rows of the broadcasts follow the weights; the attribute object is shared by the new edges.\<close>

definition fix_rows :: "Shape \<Rightarrow> Shape \<Rightarrow> OpType \<Rightarrow> OpType result" where
  "fix_rows s rhs t =
     (if \<not> is_broadcast t then Inr t
      else
        rbind (legacy_int t 0) (\<lambda>d.
          if negative_index s d \<noteq> -2 then Inr t
          else rbind (shape_at rhs (-2)) (\<lambda>x. set_legacy_int 1 (sint x) t)))"

definition update_attr_at :: "AttrRef \<Rightarrow> (EdgeAttributes \<Rightarrow> EdgeAttributes result) \<Rightarrow> GS \<Rightarrow> GS result" where
  "update_attr_at r f st =
     rbind (read_attr (fst st) r) (\<lambda>a. rbind (f a) (\<lambda>a'. Inr (write_attr r a' (fst st), snd st)))"

definition fold_into_weights ::
    "Pass \<Rightarrow> NodeId \<Rightarrow> NodeId \<Rightarrow> Edge \<Rightarrow> AttrRef \<Rightarrow> GS \<Rightarrow> NodeId \<Rightarrow> GS result" where
  "fold_into_weights ps multiply constant constant_edge r st matmul =
     rbind (weight_edge (snd st) matmul) (\<lambda>e.
     rbind (node_by_id (snd st) (producer_node_id e)) (\<lambda>rhs.
     rbind (of_opt Undefined_behaviour (input_part rhs)) (\<lambda>_.
     rbind (deref (snd st) multiply) (\<lambda>mn.
     rbind (update_attr_at r (\<lambda>a. rbind (mapR (fix_rows (node_shape mn) (node_shape rhs)) (tms a)) (\<lambda>ts.
              Inr (set_tms ts a))) st) (\<lambda>st1.
     rbind (clone_named ps multiply (node_name mn @ ''_'' @ node_name rhs) matmul st1) (\<lambda>(st2, i).
     rbind (set_shape_at i (node_shape rhs) st2) (\<lambda>st3.
     rbind (deref (snd st3) constant) (\<lambda>cn.
     rbind (clone_named ps constant (node_name cn @ ''_'' @ node_name mn) matmul st3) (\<lambda>(st4, c).
     rbind (insert_node_on_edge_default e i st4) (\<lambda>(st5, _, _).
     rbind (try_consteval_op (ps_consteval ps) i
              (put_edge_attr (constant_edge\<lparr>producer_node_id := c, consumer_input_port_id := 1,
                                            consumer_node_id := i\<rparr>) r st5)) (\<lambda>(st6, _). Inr st6)))))))))))"

definition try_fold_constant_multiply_into_matmul_rhs ::
    "nat \<Rightarrow> Pass \<Rightarrow> NodeId \<Rightarrow> NodeId \<Rightarrow> GS \<Rightarrow> (GS \<times> bool) result" where
  "try_fold_constant_multiply_into_matmul_rhs fuel ps operand multiply st =
     rbind (op_at (snd st) multiply) (\<lambda>(_, t).
       if op_name t \<noteq> ''multiply'' then Inr (st, False)
       else
         rbind (find_operands_commute_through fuel (snd st) is_add_or_nop is_dense_matmul_node [operand] []) (\<lambda>matmuls.
           if matmuls = [] then Inr (st, False)
           else
             rbind (rbind (get_constant_input (snd st) multiply) (of_opt Assert_failed)) (\<lambda>constant.
             rbind (deref (snd st) constant) (\<lambda>cn.
             rbind (shape_at (node_shape cn) (-1)) (\<lambda>x.
               if volume (node_shape cn) \<noteq> x then Inr (st, False)
               else
                 rbind (allR (weight_foldable (snd st)) matmuls) (\<lambda>foldable.
                   if \<not> foldable then Inr (st, False)
                   else
                     rbind (get_edges (snd st) constant multiply) (\<lambda>es.
                     tt_assert (length es = 1)
                       (rbind (drop_edge (hd es) st) (\<lambda>(st1, r).
                        rbind (foldR (fold_into_weights ps multiply constant (hd es) r) st1 matmuls) (\<lambda>st2.
                        rbind (bypass_removed no_callback multiply st2) (\<lambda>st3.
                        rbind (user_edges any_edge (snd st3) constant) (\<lambda>us.
                          if us = [] then rbind (drop_node constant st3) (\<lambda>(st4, _). Inr (st4, True))
                          else Inr (st3, True)))))))))))))"

section \<open>Two constants of an associative operation\<close>

text \<open>The operation comes back behind the first constant, as a new node.\<close>

definition move_operation ::
    "Pass \<Rightarrow> NodeId \<Rightarrow> Edge \<Rightarrow> Edge \<Rightarrow> GS \<Rightarrow> GS result" where
  "move_operation ps b a_edge b_edge st =
     rbind (get_edge_attributes (snd st) b_edge) (\<lambda>r.
     rbind (drop_edge b_edge st) (\<lambda>(st1, _).
     rbind (get_subgraph_id_for_node (snd st1) b) (\<lambda>sid.
     rbind (bypass_node no_callback b True st1) (\<lambda>(st2, n).
     rbind (of_opt Undefined_behaviour n) (\<lambda>n.
     rbind (put_node n sid st2) (\<lambda>(st3, b').
     rbind (op_at (snd st3) b') (\<lambda>_.
     rbind (insert_node_on_edge_default a_edge b' st3) (\<lambda>(st4, _, _).
     rbind (try_consteval_op (ps_consteval ps) b'
              (put_edge_attr (b_edge\<lparr>consumer_node_id := b', consumer_input_port_id := 1\<rparr>) r st4)) (\<lambda>(st5, _).
       Inr st5)))))))))"

definition try_fold_constant_associative :: "Pass \<Rightarrow> NodeId \<Rightarrow> NodeId \<Rightarrow> GS \<Rightarrow> (GS \<times> bool) result" where
  "try_fold_constant_associative ps a b st =
     rbind (op_at (snd st) a) (\<lambda>(_, ta).
     rbind (op_at (snd st) b) (\<lambda>(_, tb).
       if op_name ta \<noteq> op_name tb \<or> op_name ta \<notin> {''multiply'', ''add''} then Inr (st, False)
       else
         rbind (get_constant_input (snd st) a) (\<lambda>ac. case ac of None \<Rightarrow> Inr (st, False) | Some ac \<Rightarrow>
           rbind (deref (snd st) ac) (\<lambda>an.
           if \<not> is_constant_input an then Inr (st, False)
           else
             rbind (user_data_edges any_edge (snd st) a) (\<lambda>us.
               if 1 < length us then Inr (st, False)
               else
                 rbind (rbind (get_constant_input (snd st) b) (of_opt Assert_failed)) (\<lambda>bc.
                 rbind (get_edges (snd st) ac a) (\<lambda>aes.
                 rbind (get_edges (snd st) bc b) (\<lambda>bes.
                 tt_assert (length aes = 1) (tt_assert (length bes = 1)
                   (rbind (move_operation ps b (hd aes) (hd bes) st) (\<lambda>st'. Inr (st', True))))))))))))"

section \<open>The pass\<close>

fun first_fold ::
    "(NodeId \<Rightarrow> NodeId \<Rightarrow> GS \<Rightarrow> (GS \<times> bool) result) list \<Rightarrow> NodeId \<Rightarrow> GS \<Rightarrow> (GS \<times> bool) result" where
  "first_fold [] i st = Inr (st, False)"
| "first_fold (f # fs) i st =
     rbind (rbind (get_producer_input (snd st) i) (of_opt Assert_failed)) (\<lambda>p.
     rbind (f p i st) (\<lambda>(st', folded). if folded then Inr (st', True) else first_fold fs i st'))"

definition try_fold_constant_binary_op :: "nat \<Rightarrow> Pass \<Rightarrow> NodeId \<Rightarrow> GS \<Rightarrow> (GS \<times> bool) result" where
  "try_fold_constant_binary_op fuel ps i st =
     rbind (is_constant_eltwise_binary (snd st) i) (\<lambda>b.
       if \<not> b then Inr (st, False)
       else first_fold [try_hoist_above_narrow ps, try_fold_constant_multiply_into_matmul_rhs fuel ps,
                        try_fold_constant_associative ps] i st)"

definition fold_constant_at :: "nat \<Rightarrow> Pass \<Rightarrow> GS \<Rightarrow> NodeId \<Rightarrow> (GS \<times> bool) result" where
  "fold_constant_at fuel ps st i =
     rbind (is_op_node (snd st) i) (\<lambda>b. if b then try_fold_constant_binary_op fuel ps i st else Inr (st, False))"

text \<open>\<open>fuel\<close> bounds the rounds and the operands a search takes from its stack.\<close>

definition constant_folding :: "nat \<Rightarrow> Pass \<Rightarrow> GS \<Rightarrow> GS result" where
  "constant_folding fuel ps st =
     rbind (change_until_none fuel (fold_constant_at fuel ps) (st, False)) (\<lambda>(st', _). Inr st')"

end
