(* ===== verification/Fuse_Channels.thy ===== *)
theory Fuse_Channels
  imports Constant_Folding
begin

text \<open>
  The pass \<open>fuse_per_channel_ops\<close> (\<open>passes/fuse_per_channel_ops.cpp\<close>): a concatenation of selects of one
  operand, with operations with constants in between, becomes these operations on the whole operand. The
  constants it makes come from the Python front end.
\<close>

declare map_of_eq_Some_iff [simp del] Some_eq_map_of_iff [simp del] split_paired_All [simp del]
  split_paired_Ex [simp del]

section \<open>From the concatenation up to the selects\<close>

text \<open>
  An operation of a path and its constant, which a select has not. \<open>fuel\<close> bounds the operations of a path;
  \<open>None\<close>: it cannot be fused.
\<close>

type_synonym PathOp = "NodeId \<times> NodeId option"

definition is_elementwise_binary :: "Graph \<Rightarrow> NodeId \<Rightarrow> bool result" where
  "is_elementwise_binary g i =
     rbind (data_operands g i) (\<lambda>os.
     rbind (op_at g i) (\<lambda>(_, t).
     rbind (OpType_is_eltwise t) (\<lambda>b. Inr (b \<and> length os = 2))))"

primrec path_to_select :: "nat \<Rightarrow> Graph \<Rightarrow> PathOp list \<Rightarrow> NodeId \<Rightarrow> PathOp list option result" where
  "path_to_select 0 g path i = Inl Out_of_fuel"
| "path_to_select (Suc k) g path i =
     rbind (deref g i) (\<lambda>n. case op_of n of None \<Rightarrow> Inr None | Some t \<Rightarrow>
       if op_name t = ''select'' then Inr (Some (path @ [(i, None)]))
       else
         rbind (is_elementwise_binary g i) (\<lambda>b.
           if \<not> (b \<and> op_name t \<in> {''add'', ''multiply'', ''subtract''}) then Inr None
           else
             rbind (two_operands g i) (\<lambda>(x, y).
             rbind (deref g x) (\<lambda>nx. rbind (deref g y) (\<lambda>ny.
               if is_constant_input nx then path_to_select k g (path @ [(i, Some x)]) y
               else if is_constant_input ny then path_to_select k g (path @ [(i, Some y)]) x
               else Inr None)))))"

fun find_path_from_concat_to_select :: "nat \<Rightarrow> Graph \<Rightarrow> NodeId list \<Rightarrow> PathOp list list option result" where
  "find_path_from_concat_to_select fuel g [] = Inr (Some [])"
| "find_path_from_concat_to_select fuel g (i # is) =
     rbind (path_to_select fuel g [] i) (\<lambda>p. case p of
       None \<Rightarrow> Inr None
     | Some p \<Rightarrow> rbind (find_path_from_concat_to_select fuel g is) (\<lambda>r. Inr (map_option (Cons p) r)))"

section \<open>The selects take the operand apart\<close>

definition select_of :: "Graph \<Rightarrow> PathOp list \<Rightarrow> (NodeId \<times> OpType) result" where
  "select_of g path = rbind (op_at g (fst (last path))) (\<lambda>(_, t). Inr (fst (last path), t))"

definition first_data_operand :: "Graph \<Rightarrow> NodeId \<Rightarrow> NodeId result" where
  "first_data_operand g i = rbind (data_operands g i) (\<lambda>os. vec_at os 0)"

definition select_like_first :: "Graph \<Rightarrow> int \<Rightarrow> PathOp list \<Rightarrow> PathOp list \<Rightarrow> bool result" where
  "select_like_first g concat_dim first path =
     rbind (select_of g first) (\<lambda>(i, t). rbind (select_of g path) (\<lambda>(j, u).
       if op_name t \<noteq> ''select'' then Inr False
       else
         rbind (legacy_int t 0) (\<lambda>d. rbind (legacy_int u 0) (\<lambda>e.
         rbind (first_data_operand g i) (\<lambda>p. rbind (first_data_operand g j) (\<lambda>q.
         rbind (rbind (deref g p) (\<lambda>n. shape_at (node_shape n) concat_dim)) (\<lambda>x.
         rbind (legacy_int t 3) (\<lambda>s. rbind (legacy_int u 3) (\<lambda>s'.
           Inr (op_name u = op_name t \<and> d = e \<and> d = concat_dim \<and> s = s' \<and> s = sint x \<and> p = q))))))))))"

definition select_range :: "Graph \<Rightarrow> PathOp list \<Rightarrow> (int \<times> int) result" where
  "select_range g path =
     rbind (select_of g path) (\<lambda>(_, t). rbind (legacy_int t 1) (\<lambda>start. rbind (legacy_int t 2) (\<lambda>len.
       Inr (start, len))))"

text \<open>The counters of the indices, as many as are selected; one out of range is undefined.\<close>

definition count_range :: "nat list \<Rightarrow> int \<times> int \<Rightarrow> nat list result" where
  "count_range cs r = (case r of (start, len) \<Rightarrow>
     foldR (\<lambda>cs k. rbind (int_index cs (start + int k)) (\<lambda>c. int_update cs (start + int k) (Suc c))) cs [0..<nat len])"

definition selects_cover :: "u32 \<Rightarrow> u32 \<Rightarrow> (int \<times> int) list \<Rightarrow> bool result" where
  "selects_cover amount size_here rs =
     rbind (foldR count_range (replicate (unat amount) 0) rs) (\<lambda>cs.
       Inr (amount = size_here \<and> list_all (\<lambda>c. c = 1) cs \<and> sorted (map fst rs)))"

definition can_fuse_select_concat :: "Graph \<Rightarrow> int \<Rightarrow> PathOp list list \<Rightarrow> bool result" where
  "can_fuse_select_concat g concat_dim paths =
     (case paths of [] \<Rightarrow> Inr False
      | first # _ \<Rightarrow>
          rbind (allR (select_like_first g concat_dim first) paths) (\<lambda>same.
            if \<not> same then Inr False
            else
              rbind (mapR (select_range g) paths) (\<lambda>rs.
              rbind (rbind (select_of g first) (\<lambda>(i, _). first_data_operand g i)) (\<lambda>p.
              rbind (rbind (deref g p) (\<lambda>n. shape_at (node_shape n) concat_dim)) (\<lambda>x.
                selects_cover (sum_list (map (\<lambda>(_, len). word_of_int len) rs)) x rs)))))"

section \<open>Operations of the same layer\<close>

text \<open>The index of the first of the longest paths.\<close>

definition longest_index :: "'a list list \<Rightarrow> nat" where
  "longest_index ps = fold (\<lambda>i b. if length (ps ! b) < length (ps ! i) then i else b) [1..<length ps] 0"

text \<open>The same operation, and constants of the same shape; both constants are looked at unless both are null.\<close>

definition same_layer :: "Graph \<Rightarrow> PathOp \<Rightarrow> PathOp \<Rightarrow> bool result" where
  "same_layer g a b =
     rbind (op_at g (fst a)) (\<lambda>(_, t). rbind (op_at g (fst b)) (\<lambda>(_, u).
       if op_name t \<noteq> op_name u then Inr False
       else case (snd a, snd b) of
         (None, None) \<Rightarrow> Inr True
       | (Some x, Some y) \<Rightarrow>
           rbind (deref g x) (\<lambda>nx. rbind (deref g y) (\<lambda>ny. Inr (shape_eq (node_shape ny) (node_shape nx))))
       | _ \<Rightarrow> Inl Undefined_behaviour))"

text \<open>A path beside the longest one: \<open>None\<close> where it has no operation of the layer.\<close>

fun align_path :: "Graph \<Rightarrow> PathOp list \<Rightarrow> PathOp list \<Rightarrow> (bool \<times> PathOp option list) result" where
  "align_path g [] path = Inr (path = [], [])"
| "align_path g (r # rs) [] = Inr (True, map (\<lambda>_. None) (r # rs))"
| "align_path g (r # rs) (x # xs) =
     rbind (same_layer g r x) (\<lambda>same.
       if same then rbind (align_path g rs xs) (\<lambda>(ok, ys). Inr (ok, Some x # ys))
       else rbind (align_path g rs (x # xs)) (\<lambda>(ok, ys). Inr (ok, None # ys)))"

text \<open>The groups, one for every operation of the longest path, and the operand of each of their entries.\<close>

definition create_merge_groups ::
    "Graph \<Rightarrow> PathOp list list \<Rightarrow> (bool \<times> PathOp option list list \<times> nat list) result" where
  "create_merge_groups g paths =
     (let l = longest_index paths; others = filter (\<lambda>i. i \<noteq> l) [0..<length paths] in
      rbind (mapR (\<lambda>i. align_path g (paths ! l) (paths ! i)) others) (\<lambda>rs.
        Inr (list_all fst rs,
             map (\<lambda>k. Some (paths ! l ! k) # map (\<lambda>(_, ys). ys ! k) rs) [0..<length (paths ! l)],
             l # others)))"

section \<open>Fusing a layer\<close>

text \<open>\<open>create_constant_tensor_from_tensor\<close> of the Python front end, and its kinds of numbers.\<close>

type_synonym make_tensor = "float32 \<Rightarrow> u32 list \<Rightarrow> DataFormat \<Rightarrow> TensorRef"

definition neutral_value :: "string \<Rightarrow> float32 result" where
  "neutral_value name =
     (if name = ''add'' \<or> name = ''subtract'' then Inr 0
      else if name = ''multiply'' then Inr 0x3F800000
      else Inl Runtime_error)"

definition unsqueeze_tms :: "nat \<Rightarrow> nat \<Rightarrow> OpType list result" where
  "unsqueeze_tms from_rank to_rank =
     mapR (\<lambda>k. mk_OpType ''unsqueeze'' [AInt 0, AInt (int k)] []) [from_rank..<to_rank]"

text \<open>The constant of an operation becomes an operand of the concatenation of the constants.\<close>

definition move_constant :: "NodeId \<Rightarrow> NodeId \<Rightarrow> nat \<Rightarrow> PathOp \<Rightarrow> GS \<Rightarrow> GS result" where
  "move_constant cat const_concat port x st =
     rbind (of_opt Undefined_behaviour (snd x)) (\<lambda>inp.
     rbind (rbind (get_edges (snd st) inp (fst x)) (\<lambda>es. vec_at es 0)) (\<lambda>e.
     rbind (deref (snd st) inp) (\<lambda>n. rbind (deref (snd st) cat) (\<lambda>cn.
     rbind (unsqueeze_tms (shape_size (node_shape n)) (shape_size (node_shape cn))) (\<lambda>ts.
     rbind (if ts = [] then Inr st else update_edge_attr (\<lambda>a. Inr (append_tms ts a)) e st) (\<lambda>st1.
     rbind (copy_edge_to inp 0 const_concat (word_of_nat port) kData e st1) (\<lambda>st2.
     rbind (drop_edge e st2) (\<lambda>(st3, _). Inr st3))))))))"

definition neutral_shape :: "int \<Rightarrow> Shape \<Rightarrow> Shape \<Rightarrow> Shape result" where
  "neutral_shape concat_dim s operand_shape =
     (if shape_size s \<noteq> shape_size operand_shape then Inr s
      else rbind (shape_at operand_shape concat_dim) (set_dim s concat_dim))"

text \<open>Where a path has no operation of the layer a neutral constant stands in for it.\<close>

definition add_neutral ::
    "make_tensor \<Rightarrow> int \<Rightarrow> NodeId \<Rightarrow> nat \<Rightarrow> nat \<Rightarrow> nat \<Rightarrow> Shape \<Rightarrow> PathOp \<Rightarrow> GS \<Rightarrow> GS result" where
  "add_neutral make_const concat_dim const_concat layer i port operand_shape first st =
     rbind (of_opt Undefined_behaviour (snd first)) (\<lambda>inp.
     rbind (op_at (snd st) (fst first)) (\<lambda>(_, t).
     rbind (neutral_value (op_name t)) (\<lambda>v.
     rbind (get_edges (snd st) inp const_concat) (\<lambda>es.
     tt_assert (length es = 1)
       (rbind (edge_tms st (hd es)) (\<lambda>ts.
        rbind (deref (snd st) inp) (\<lambda>n.
        rbind (neutral_shape concat_dim (node_shape n) operand_shape) (\<lambda>s.
        rbind (mk_ConstantTensorNode (''created_const_op'' @ show_nat layer @ ''_'' @ show_nat i)
                 (Some (make_const v (sh_dims s) (node_output_df n))) s) (\<lambda>c.
        rbind (get_subgraph_id_for_node (snd st) (fst first)) (\<lambda>sid.
        rbind (put_node c sid st) (\<lambda>(st1, j).
        rbind (set_shape_at j s st1) (\<lambda>st2.
        rbind (on_graph (update_node j (\<lambda>m. Inr (node_set_output_df (node_output_df n) m))) st2) (\<lambda>st3.
          case construct_edge j 0 const_concat (word_of_nat port) kData st3 of (st4, e) \<Rightarrow>
            update_edge_attr (\<lambda>a. Inr (set_tms ts a)) e (put_edge e st4))))))))))))))"

definition fuse_entry ::
    "make_tensor \<Rightarrow> int \<Rightarrow> NodeId \<Rightarrow> NodeId \<Rightarrow> nat \<Rightarrow> nat list \<Rightarrow> Shape list \<Rightarrow> PathOp \<Rightarrow> GS \<Rightarrow>
     nat \<times> PathOp option \<Rightarrow> GS result" where
  "fuse_entry make_const concat_dim cat const_concat layer idxs shapes first st x = (case x of (i, entry) \<Rightarrow>
     case entry of
       Some y \<Rightarrow> move_constant cat const_concat (idxs ! i) y st
     | None \<Rightarrow>
         add_neutral make_const concat_dim const_concat layer i (idxs ! i) (shapes ! (idxs ! i)) first st)"

text \<open>
  The concatenated constants are the first operand of the new operation, what was fused so far the second,
  whatever the order was before.
\<close>

definition fuse_layer ::
    "Pass \<Rightarrow> make_tensor \<Rightarrow> int \<Rightarrow> NodeId \<Rightarrow> nat list \<Rightarrow> Shape list \<Rightarrow> GS \<times> NodeId \<Rightarrow>
     nat \<times> PathOp option list \<Rightarrow> (GS \<times> NodeId) result" where
  "fuse_layer ps make_const concat_dim cat idxs shapes r x = (case r of (st, input) \<Rightarrow> case x of (layer, group_) \<Rightarrow>
     rbind (rbind (vec_at group_ 0) (of_opt Undefined_behaviour)) (\<lambda>first.
     rbind (op_at (snd st) (fst first)) (\<lambda>(fn, t).
       if op_name t = ''select'' then
         rbind (foldR (\<lambda>st y. rbind (of_opt Undefined_behaviour y) (\<lambda>y. bypass_removed no_callback (fst y) st))
                  st group_) (\<lambda>st'. Inr (st', input))
       else
         rbind (deref (snd st) cat) (\<lambda>cn.
         rbind (clone_named ps cat (node_name cn @ ''_const_concat_'' @ show_nat layer) cat st) (\<lambda>(st1, cc).
         rbind (foldR (fuse_entry make_const concat_dim cat cc layer idxs shapes first) st1 (enumerate 0 group_)) (\<lambda>st2.
         rbind (clone_named ps (fst first) (node_name cn @ ''_'' @ node_name fn @ ''_'' @ show_nat layer) (fst first) st2)
           (\<lambda>(st3, e).
         rbind (connect_nodes cc e kData st3) (\<lambda>st4.
         rbind (connect_nodes input e kData st4) (\<lambda>st5.
         rbind (foldR (\<lambda>st y. case y of None \<Rightarrow> Inr st
                  | Some y \<Rightarrow> rbind (drop_node (fst y) st) (\<lambda>(st', _). Inr st')) st5 group_) (\<lambda>st6.
           Inr (st6, e)))))))))))"

definition fuse_per_channel_concat :: "nat \<Rightarrow> Pass \<Rightarrow> make_tensor \<Rightarrow> NodeId \<Rightarrow> GS \<Rightarrow> (GS \<times> bool) result" where
  "fuse_per_channel_concat fuel ps make_const cat st =
     rbind (data_operands (snd st) cat) (\<lambda>os.
     rbind (op_at (snd st) cat) (\<lambda>(_, t).
     rbind (legacy_int t 0) (\<lambda>concat_dim.
     rbind (find_path_from_concat_to_select fuel (snd st) os) (\<lambda>paths. case paths of
       None \<Rightarrow> Inr (st, False)
     | Some paths \<Rightarrow>
         rbind (can_fuse_select_concat (snd st) concat_dim paths) (\<lambda>can.
           if \<not> can then Inr (st, False)
           else
             rbind (rbind (select_of (snd st) (hd paths)) (\<lambda>(i, _). first_data_operand (snd st) i)) (\<lambda>input.
             rbind (mapR (\<lambda>p. rbind (deref (snd st) (fst (last p))) (\<lambda>n. Inr (node_shape n))) paths) (\<lambda>shapes.
             rbind (create_merge_groups (snd st) (map rev paths)) (\<lambda>(ok, groups, idxs).
               if \<not> ok then Inr (st, False)
               else
                 rbind (foldR (fuse_layer ps make_const concat_dim cat idxs shapes) (st, input) (enumerate 0 groups))
                   (\<lambda>(st1, fused).
                 rbind (data_users (snd st1) cat) (\<lambda>us.
                 rbind (foldR (\<lambda>st u. connect_nodes fused u kData st) st1 us) (\<lambda>st2.
                 rbind (drop_node cat st2) (\<lambda>(st3, _). Inr (st3, True)))))))))))))"

definition fuse_concat_at :: "nat \<Rightarrow> Pass \<Rightarrow> make_tensor \<Rightarrow> GS \<Rightarrow> NodeId \<Rightarrow> (GS \<times> bool) result" where
  "fuse_concat_at fuel ps make_const st i =
     rbind (deref (snd st) i) (\<lambda>n.
       if \<not> same_op_name ''concatenate'' n then Inr (st, False)
       else
         rbind (fuse_per_channel_concat fuel ps make_const i st) (\<lambda>(st1, fused).
           if \<not> fused then Inr (st1, False)
           else rbind (run_consteval_graph_pass fuel (ps_consteval ps) st1) (\<lambda>st2. Inr (st2, True))))"

text \<open>\<open>fuel\<close> bounds the rounds, the lengths of the paths and the work of the evaluation of constants.\<close>

definition fuse_per_channel_ops :: "nat \<Rightarrow> Pass \<Rightarrow> make_tensor \<Rightarrow> GS \<Rightarrow> GS result" where
  "fuse_per_channel_ops fuel ps make_const st =
     rbind (change_until_none fuel (fuse_concat_at fuel ps make_const) (st, False)) (\<lambda>(st', eliminated).
       if eliminated then run_consteval_graph_pass fuel (ps_consteval ps) st' else Inr st')"

end
