(* ===== verification/Pipeline.thy ===== *)
theory Pipeline
  imports Fracture Fuse_Channels
begin

text \<open>
  The order of the passes (\<open>forge_passes.cpp\<close>): what is done with the initial graph, the loop that moves and
  removes shape operations until nothing changes, and the steps after autograd and before lowering. \<open>fuel\<close>
  bounds the rounds of every loop.
\<close>

declare map_of_eq_Some_iff [simp del] Some_eq_map_of_iff [simp del] split_paired_All [simp del]
  split_paired_Ex [simp del]

text \<open>
  What the passes use from outside: Python (flops, shapes and decompositions of its operations, tensors,
  the configured data format), regular expressions, the iteration order of hash sets of pointers and an
  environment variable.
\<close>

record 'r Compiler =
  cc_pass :: Pass
  cc_flops :: "OpType \<Rightarrow> u32 list list \<Rightarrow> int result"
  cc_base_shape :: base_shape_fn
  cc_base_decompose :: "DecompState base_decompose_fn"
  cc_regex :: "'r Regex_Lib"
  cc_make_tensor :: make_tensor
  cc_default_df :: "DataFormat option"
  cc_bag :: "NodeId list \<Rightarrow> NodeId list"
  cc_disable_constant_folding :: bool

definition decompose_graph :: "nat \<Rightarrow> DecomposeEpoch \<Rightarrow> 'r Compiler \<Rightarrow> GS \<Rightarrow> (GS \<times> (NodeId \<times> NodeId) list) result" where
  "decompose_graph fuel ep cc st =
     decompose_tt_forge_graph fuel ep (cc_base_shape cc) (cc_base_decompose cc) (ps_consteval (cc_pass cc))
       (try_consteval_clone (cc_pass cc)) st"

section \<open>The initial graph\<close>

definition run_post_initial_graph_passes ::
    "nat \<Rightarrow> 'r Compiler \<Rightarrow> (FractureGroup \<times> FractureChipIds) list \<Rightarrow> GS \<Rightarrow>
     (GS \<times> (NodeId \<times> NodeId) list \<times> FractureChipIdAssignments) result" where
  "run_post_initial_graph_passes fuel cc groups st =
     (let ps = cc_pass cc in
      rbind (generate_initial_flops_estimate (cc_flops cc) (fst st) (snd st)) (\<lambda>_.
      rbind (decompose_nd_reshape_split (ps_shape ps) st) (\<lambda>st1.
      rbind (erase_unnecessary_4d_tm_sequence fuel ps st1) (\<lambda>st2.
      rbind (fuse_pad_conv2d st2) (\<lambda>st3.
      rbind (explicate_unsqueeze (ps_shape ps) st3) (\<lambda>st4.
      rbind (fuse_conv2d_bias st4) (\<lambda>st5.
      rbind (decompose_graph fuel Initial cc st5) (\<lambda>(st6, mapping).
      rbind (fracture (cc_regex cc) ps groups st6) (\<lambda>(st7, chips).
      rbind (bypass_nop_tms fuel ps st7) (\<lambda>st8.
      rbind (apply_user_data_format_override (cc_default_df cc) st8) (\<lambda>st9. Inr (st9, mapping, chips))))))))))))"

section \<open>Optimization\<close>

text \<open>A pass that is tried only when none before it changed anything.\<close>

definition or_else :: "(GS \<Rightarrow> (GS \<times> bool) result) \<Rightarrow> GS \<times> bool \<Rightarrow> (GS \<times> bool) result" where
  "or_else f r = (if snd r then Inr r else f (fst r))"

text \<open>
  One round of the loop. After an insertion at outputs or in front of reshapes nothing that does nothing is
  erased, as it may have been put there to cancel something else.
\<close>

definition optimize_round ::
    "nat \<Rightarrow> (NodeId list \<Rightarrow> NodeId list) \<Rightarrow> Pass \<Rightarrow> GS \<Rightarrow> (GS \<times> bool) result" where
  "optimize_round fuel bag ps st =
     rbind (hoist_unsqueeze_squeeze_to_reshape bag (ps_shape ps) st) (\<lambda>st0.
     rbind (erase_inverse_ops fuel ps (st0, False)) (\<lambda>r1.
     rbind (or_else (insert_inverse_on_outputs fuel ps) r1) (\<lambda>r2.
     rbind (or_else (insert_inverse_on_inputs fuel ps) r2) (\<lambda>r3.
     rbind (or_else (insert_inverse_on_downstream_tms ps) r3) (\<lambda>r4.
     rbind (or_else (replace_incommutable_patterns ps) r4) (\<lambda>r5.
       if \<not> snd r1 \<and> snd r2 \<or> \<not> snd r3 \<and> snd r4 then Inr r5
       else
         rbind (or_else (erase_consecutive_reshape fuel ps True) r5) (\<lambda>r6.
         rbind (bypass_nop_tms fuel ps (fst r6)) (\<lambda>st7. Inr (st7, snd r6)))))))))"

fun optimize_loop ::
    "nat \<Rightarrow> nat \<Rightarrow> (NodeId list \<Rightarrow> NodeId list) \<Rightarrow> Pass \<Rightarrow> GS \<Rightarrow> GS result" where
  "optimize_loop 0 fuel bag ps st = Inl Out_of_fuel"
| "optimize_loop (Suc k) fuel bag ps st =
     rbind (optimize_round fuel bag ps st) (\<lambda>(st', updated).
       if updated then optimize_loop k fuel bag ps st' else Inr st')"

declare optimize_loop.simps [simp del]

definition run_optimization_graph_passes :: "nat \<Rightarrow> 'r Compiler \<Rightarrow> GS \<Rightarrow> GS result" where
  "run_optimization_graph_passes fuel cc st =
     (let ps = cc_pass cc in
      rbind (optimize_loop fuel fuel (cc_bag cc) ps st) (\<lambda>st1.
      rbind (move_tm_through_requantize fuel ps st1) (\<lambda>(st2, _).
      rbind (recalculate_shapes (ps_shape ps) st2) (\<lambda>st3.
      rbind (hoist_transforms_to_inputs st3) (\<lambda>st4.
      rbind (erase_consecutive_reshape fuel ps True st4) (\<lambda>(st5, _).
      rbind (fuse_per_channel_ops fuel ps (cc_make_tensor cc) st5) (\<lambda>st6.
        if cc_disable_constant_folding cc then Inr st6 else constant_folding fuel ps st6)))))))"

section \<open>After optimization, after autograd, before lowering\<close>

definition run_post_optimize_decompose_graph_passes ::
    "nat \<Rightarrow> 'r Compiler \<Rightarrow> GS \<Rightarrow> (GS \<times> (NodeId \<times> NodeId) list) result" where
  "run_post_optimize_decompose_graph_passes fuel cc st = decompose_graph fuel PostOptimize cc st"

definition run_post_autograd_graph_passes ::
    "nat \<Rightarrow> 'r Compiler \<Rightarrow> GS \<Rightarrow> (GS \<times> (NodeId \<times> NodeId) list) result" where
  "run_post_autograd_graph_passes fuel cc st =
     rbind (lower_bwd_gather_ops st) (decompose_graph fuel PostAutograd cc)"

definition run_pre_lowering_passes :: "Pass \<Rightarrow> GS \<Rightarrow> GS result" where
  "run_pre_lowering_passes ps st =
     rbind (recalculate_shapes (ps_shape ps) st) (\<lambda>st1.
     rbind (convert_broadcast_ops_to_tms st1) (\<lambda>st2.
     rbind (remove_nops st2) (recalculate_shapes (ps_shape ps))))"

end
