(* ===== verification/Commute_Laws.thy ===== *)
theory Commute_Laws
  imports Commute
begin

text \<open>
  Why moving shape operations is right (\<open>passes/commute_utils.cpp\<close>): a dimension that
  \<open>can_commute_reshape_through_dim\<close> accepts has the same coordinate on both sides of the reshape, shapes
  that are inverse up to a broadcast differ in exactly the dimension returned, matching transposes undo
  one another; and what never matches: a squeeze, and a reduction without a neighbour of its kind.
\<close>

declare map_of_eq_Some_iff [simp del] Some_eq_map_of_iff [simp del] split_paired_All [simp del]
  split_paired_Ex [simp del]

section \<open>A dimension that a reshape keeps\<close>

text \<open>
  The reference: the coordinates of a position in the row-major order of a tensor, by division with the
  volumes of the dimensions behind.
\<close>

primrec unravel :: "nat list \<Rightarrow> nat \<Rightarrow> nat list" where
  "unravel [] l = []"
| "unravel (d # ds) l = (l div prod_list ds) mod d # unravel ds l"

lemma length_unravel [simp]: "length (unravel ds l) = length ds"
  by (induction ds) auto

lemma nth_unravel:
  "i < length ds \<Longrightarrow> unravel ds l ! i = (l div prod_list (drop (Suc i) ds)) mod (ds ! i)"
  by (induction ds arbitrary: i) (auto simp: nth_Cons split: nat.split)

definition dims_of :: "Shape \<Rightarrow> nat list" where
  "dims_of s = map unat (sh_dims s)"

lemma unat_prod_list:
  "prod_list (map unat (ws :: u32 list)) < 2 ^ 32 \<Longrightarrow> 0 \<notin> set ws \<Longrightarrow>
   unat (prod_list ws) = prod_list (map unat ws)"
proof (induction ws)
  case (Cons w ws)
  have pos: "1 \<le> unat w" using Cons.prems(2) by (auto simp: unat_gt_0 Suc_le_eq word_neq_0_conv)
  have "prod_list (map unat ws) \<le> unat w * prod_list (map unat ws)"
    using mult_le_mono1 [OF pos, of "prod_list (map unat ws)"] by simp
  then have small: "prod_list (map unat ws) < 2 ^ 32" using Cons.prems(1) by (simp only: list.map prod_list.Cons)
  then have IH: "unat (prod_list ws) = prod_list (map unat ws)" using Cons by simp
  have "unat w * unat (prod_list ws) < 2 ^ 32" unfolding IH using Cons.prems(1) by simp
  then have "unat (w * prod_list ws) = unat w * unat (prod_list ws)"
    by (simp add: unat_mult_lem [symmetric])
  then show ?case by (simp add: IH)
qed simp

lemma prod_list_split: "prod_list xs = prod_list (take n xs) * prod_list (drop n (xs :: nat list))"
  by (metis append_take_drop_id prod_list.append)

lemma pos_prod_list: "0 \<notin> set xs \<Longrightarrow> 0 < prod_list (xs :: nat list)"
  by (induction xs) auto

lemma zero_in_unats: "(0 :: nat) \<notin> set (map unat (ws :: u32 list)) \<longleftrightarrow> 0 \<notin> set ws"
  by (auto simp: unat_eq_0)

text \<open>Without wrapping the two volumes read the products.\<close>

lemma unat_drop_volume:
  assumes "prod_list (map unat ws) < 2 ^ 32" "0 \<notin> set (ws :: u32 list)"
  shows "unat (prod_list (drop k ws)) = prod_list (drop k (map unat ws))"
proof -
  have z: "0 \<notin> set (take k ws)" "0 \<notin> set (drop k ws)"
    using assms(2) by (auto dest: in_set_takeD in_set_dropD)
  have "1 \<le> prod_list (map unat (take k ws))"
    using pos_prod_list [of "map unat (take k ws)"] z(1) by (simp add: zero_in_unats Suc_le_eq del: set_map)
  moreover have "prod_list (map unat ws) = prod_list (map unat (take k ws)) * prod_list (map unat (drop k ws))"
    using prod_list_split [of "map unat ws" k] by (simp add: take_map drop_map)
  ultimately have "prod_list (map unat (drop k ws)) < 2 ^ 32" using assms(1)
    using mult_le_mono1 [of 1 "prod_list (map unat (take k ws))" "prod_list (map unat (drop k ws))"] by linarith
  then show ?thesis using unat_prod_list [OF _ z(2)] by (simp add: drop_map)
qed

lemma volumes_unat:
  assumes "prod_list (map unat ws) < 2 ^ 32" "0 \<notin> set (ws :: u32 list)"
  shows "unat (prod_list (take k ws)) = prod_list (take k (map unat ws))"
proof -
  have z: "0 \<notin> set (take k ws)" "0 \<notin> set (drop k ws)"
    using assms(2) by (auto dest: in_set_takeD in_set_dropD)
  have "1 \<le> prod_list (map unat (drop k ws))"
    using pos_prod_list [of "map unat (drop k ws)"] z(2) by (simp add: zero_in_unats Suc_le_eq del: set_map)
  moreover have "prod_list (map unat ws) = prod_list (map unat (take k ws)) * prod_list (map unat (drop k ws))"
    using prod_list_split [of "map unat ws" k] by (simp add: take_map drop_map)
  ultimately have "prod_list (map unat (take k ws)) < 2 ^ 32" using assms(1)
    using mult_le_mono2 [of 1 "prod_list (map unat (drop k ws))" "prod_list (map unat (take k ws))"] by linarith
  then show ?thesis using unat_prod_list [OF _ z(1)] by (simp add: take_map)
qed

lemma same_volumes_unat:
  assumes "prod_list (map unat a) < 2 ^ 32" "0 \<notin> set a" "prod_list (map unat b) < 2 ^ 32" "0 \<notin> set b"
    and "i \<le> length a" "j \<le> length b"
  shows "same_volumes a (int i) b (int j) =
     Inr (prod_list (take i (map unat a)) = prod_list (take j (map unat b)) \<and>
          prod_list (drop i (map unat a)) = prod_list (drop j (map unat b)))"
  using assms unfolding volumes_unat [OF assms(1,2), symmetric] volumes_unat [OF assms(3,4), symmetric]
    unat_drop_volume [OF assms(1,2), symmetric] unat_drop_volume [OF assms(3,4), symmetric] word_unat_eq_iff [symmetric]
  by (auto simp: same_volumes_def volume_above_def volume_below_def signed_word_eqI)

lemma matching_dim_find:
  assumes "0 \<le> dim" "nat dim < length outs" "\<And>i. i \<in> set is \<Longrightarrow> same_volumes ins (int i) outs dim = Inr (P i)"
  shows "matching_dim ins outs dim is = Inr (find (\<lambda>i. ins ! i = outs ! nat dim \<and> P i) is)"
  using assms(3) by (induction "is") (use assms(1,2) in \<open>auto simp: int_index_def vec_at_def\<close>)

text \<open>Equal size and equal volume behind give the same coordinate at every position.\<close>

lemma same_coordinate:
  assumes "i < length ds" "j < length es" "ds ! i = es ! j" "0 < es ! j"
    and "prod_list (drop i ds) = prod_list (drop j es)"
  shows "unravel ds l ! i = unravel es l ! j"
proof -
  have "prod_list (drop i ds) = ds ! i * prod_list (drop (Suc i) ds)"
    using assms(1) by (simp add: Cons_nth_drop_Suc [symmetric])
  moreover have "prod_list (drop j es) = es ! j * prod_list (drop (Suc j) es)"
    using assms(2) by (simp add: Cons_nth_drop_Suc [symmetric])
  ultimately have "prod_list (drop (Suc i) ds) = prod_list (drop (Suc j) es)" using assms by simp
  then show ?thesis using assms by (simp add: nth_unravel)
qed

definition keeps_dim :: "nat list \<Rightarrow> nat \<Rightarrow> nat list \<Rightarrow> nat \<Rightarrow> bool" where
  "keeps_dim ds i es j \<longleftrightarrow> ds ! i = es ! j \<and> prod_list (take i ds) = prod_list (take j es) \<and>
     prod_list (drop i ds) = prod_list (drop j es)"

text \<open>C5: \<open>can_commute_reshape_through_dim\<close>: on shapes whose volume fits in 32 bits it answers yes exactly when
  some dimension has the size and the volumes before and behind of the one asked for; the dimension it
  returns then has, at every position of the row-major order, the coordinate of the one asked for, so an
  operation along it commutes with the reshape.
\<close>

theorem reshape_keeps_coordinate:
  assumes "f = (if up then t else s)" "g = (if up then s else t)"
    and "0 \<notin> set (sh_dims s)" "prod_list (dims_of s) < 2 ^ 32"
    and "0 \<notin> set (sh_dims t)" "prod_list (dims_of t) < 2 ^ 32" and "0 \<le> dim" "nat dim < length (sh_dims g)"
  shows "\<exists>can new_dim. can_commute_reshape_through_dim s t dim up = Inr (can, new_dim) \<and>
    can = (\<exists>i < length (dims_of f). keeps_dim (dims_of f) i (dims_of g) (nat dim)) \<and>
    (if can then 0 \<le> new_dim \<and> nat new_dim < length (dims_of f) \<and>
         (\<forall>l. unravel (dims_of f) l ! nat new_dim = unravel (dims_of g) l ! nat dim)
     else new_dim = -1)"
proof -
  let ?a = "sh_dims f" and ?b = "sh_dims g"
  let ?P = "\<lambda>i. prod_list (take i (map unat ?a)) = prod_list (take (nat dim) (map unat ?b)) \<and>
                prod_list (drop i (map unat ?a)) = prod_list (drop (nat dim) (map unat ?b))"
  have ok: "0 \<notin> set ?a" "prod_list (map unat ?a) < 2 ^ 32" "0 \<notin> set ?b" "prod_list (map unat ?b) < 2 ^ 32"
    using assms(1-6) by (auto simp: dims_of_def)
  let ?r = "find (\<lambda>i. ?a ! i = ?b ! nat dim \<and> ?P i) [0..<length ?a]"
  have "\<And>i. i \<in> set [0..<length ?a] \<Longrightarrow> same_volumes ?a (int i) ?b dim = Inr (?P i)"
    using same_volumes_unat [OF ok(2,1,4,3)] assms(7,8) by (metis atLeastLessThan_iff int_nat_eq less_imp_le set_upt)
  from matching_dim_find [OF assms(7,8) this]
  have m: "matching_dim ?a ?b dim [0..<length ?a] = Inr ?r" .
  have call: "can_commute_reshape_through_dim s t dim up =
      Inr (case ?r of None \<Rightarrow> (False, -1) | Some i \<Rightarrow> (True, int i))"
    using m unfolding can_commute_reshape_through_dim_def Let_def assms(1,2) by (cases up) simp_all
  show ?thesis
  proof (cases ?r)
    case None
    then have "\<not> (\<exists>i < length (dims_of f). keeps_dim (dims_of f) i (dims_of g) (nat dim))"
      using assms(8) by (auto simp: find_None_iff dims_of_def keeps_dim_def word_unat_eq_iff)
    then show ?thesis using call None by simp
  next
    case (Some i)
    then have i: "i < length ?a" "?a ! i = ?b ! nat dim" "?P i" by (auto simp: find_Some_iff)
    have "?b ! nat dim \<noteq> 0" using ok(3) assms(8) by (metis nth_mem)
    then have c: "unravel (dims_of f) l ! i = unravel (dims_of g) l ! nat dim" for l
      using i assms(8) by (intro same_coordinate) (simp_all add: dims_of_def unat_gt_0)
    have "keeps_dim (dims_of f) i (dims_of g) (nat dim)" using i assms(8) by (simp add: keeps_dim_def dims_of_def)
    then show ?thesis using call Some c i(1) by (auto simp: dims_of_def)
  qed
qed

lemma reshape_keeps_coordinate_witness:
  "\<exists>can new_dim. can_commute_reshape_through_dim (shape_create [2, 3, 4]) (shape_create [6, 4]) 1 False = Inr (can, new_dim) \<and>
    can = (\<exists>i < length (dims_of (shape_create [2, 3, 4])). keeps_dim (dims_of (shape_create [2, 3, 4])) i (dims_of (shape_create [6, 4])) (nat 1)) \<and>
    (if can then 0 \<le> new_dim \<and> nat new_dim < length (dims_of (shape_create [2, 3, 4])) \<and>
         (\<forall>l. unravel (dims_of (shape_create [2, 3, 4])) l ! nat new_dim = unravel (dims_of (shape_create [6, 4])) l ! nat 1)
     else new_dim = -1)"
  by (rule reshape_keeps_coordinate) (simp_all add: dims_of_def)

section \<open>A dimension that a transpose moves\<close>

lemma swapped_dim_involution [simp]: "swapped_dim a b (swapped_dim a b d) = d"
  by (simp add: swapped_dim_def)

section \<open>Inverse up to a broadcast\<close>

lemma u64_of_u32_inject: "(ucast (x :: u32) :: u64) = ucast y \<longleftrightarrow> x = y"
proof
  assume "(ucast x :: u64) = ucast y"
  then have "(ucast (ucast x :: u64) :: u32) = ucast (ucast y :: u64)" by simp
  then show "x = y" by (simp add: ucast_up_ucast_id is_up)
qed simp

definition bcast_hit :: "u64 \<Rightarrow> u32 \<times> u32 \<Rightarrow> bool" where
  "bcast_hit vol p \<longleftrightarrow> ucast (snd p) = vol \<and> fst p = 1"

definition bcast_bad :: "u64 \<Rightarrow> u32 \<times> u32 \<Rightarrow> bool" where
  "bcast_bad vol p \<longleftrightarrow> snd p \<noteq> fst p \<and> \<not> bcast_hit vol p"

lemma broadcast_pair_cases:
  "broadcast_pair vol (ok, d) (i, p) =
     (if bcast_bad vol p then (False, d) else if bcast_hit vol p then (ok \<and> d = -1, int i) else (ok, d))"
  by (cases p) (auto simp: broadcast_pair_def bcast_bad_def bcast_hit_def)

lemma broadcast_scan_False: "fst (foldl (broadcast_pair vol) (False, d) ps) = False"
proof (induction ps arbitrary: d)
  case (Cons p ps)
  then show ?case by (cases p) (simp add: broadcast_pair_cases)
qed simp

lemma broadcast_scan:
  "0 \<le> d \<or> d = -1 \<Longrightarrow>
   foldl (broadcast_pair vol) (True, d) (enumerate n ps) = (True, r) \<longleftrightarrow>
     list_all (\<lambda>p. \<not> bcast_bad vol p) ps \<and>
     (list_all (\<lambda>p. \<not> bcast_hit vol p) ps \<and> r = d \<or>
      d = -1 \<and> (\<exists>i < length ps. bcast_hit vol (ps ! i) \<and> r = int (n + i) \<and>
                 (\<forall>j < length ps. j \<noteq> i \<longrightarrow> \<not> bcast_hit vol (ps ! j))))"
proof (induction ps arbitrary: n d)
  case (Cons p ps)
  have no: "foldl (broadcast_pair vol) (False, e) qs \<noteq> (True, r)" for e qs
    using broadcast_scan_False [of vol e qs] by (metis fst_conv)
  show ?case
  proof (cases "bcast_bad vol p")
    case True
    then show "?thesis" by (simp add: broadcast_pair_cases no)
  next
    case ok: False
    show ?thesis
    proof (cases "bcast_hit vol p")
      case False
      then show ?thesis using ok Cons.IH [OF Cons.prems, of "Suc n"]
        by (simp add: broadcast_pair_cases Ex_less_Suc2 All_less_Suc2 add_ac)
    next
      case True
      then show ?thesis using ok Cons.IH [of "int n" "Suc n"] 
        by (cases "d = -1") (auto simp: broadcast_pair_cases no Ex_less_Suc2 All_less_Suc2 list_all_length)
    qed
  qed
qed auto

text \<open>C6: \<open>are_inverse_with_broadcast\<close> says yes exactly for two shapes that differ in one dimension, which is one
  in the first and the given volume, not one, in the second, and returns that dimension.
\<close>

theorem inverse_with_broadcast_correct:
  "are_inverse_with_broadcast a b vol = (True, d) \<longleftrightarrow>
     0 \<le> d \<and> nat d < shape_size a \<and> sh_dims a ! nat d = 1 \<and>
     (\<exists>w. w \<noteq> 1 \<and> ucast w = vol \<and> sh_dims b = (sh_dims a)[nat d := w])"
  (is "?L \<longleftrightarrow> ?R")
proof (cases "length (sh_dims a) = length (sh_dims b)")
  case False
  then show ?thesis by (auto simp: are_inverse_with_broadcast_def shape_size_def)
next
  case True
  let ?a = "sh_dims a" and ?b = "sh_dims b" and ?ps = "zip (sh_dims a) (sh_dims b)"
  have eq: "shape_eq a b \<longleftrightarrow> ?a = ?b" using True by (simp add: shape_eq_pad pad_front_eq)
  have len: "length ?ps = length ?a" using True by simp
  have P: "?L \<longleftrightarrow> ?a \<noteq> ?b \<and> list_all (\<lambda>p. \<not> bcast_bad vol p) ?ps \<and>
     (list_all (\<lambda>p. \<not> bcast_hit vol p) ?ps \<and> d = -1 \<or>
      (\<exists>i < length ?ps. bcast_hit vol (?ps ! i) \<and> d = int i \<and>
                 (\<forall>j < length ?ps. j \<noteq> i \<longrightarrow> \<not> bcast_hit vol (?ps ! j))))"
    using broadcast_scan [of "-1" vol 0 ?ps d] True
    by (auto simp: are_inverse_with_broadcast_def eq shape_size_def)
  show ?thesis
  proof
    assume L: ?L
    then have ne: "?a \<noteq> ?b" and bad: "\<And>j. j < length ?a \<Longrightarrow> \<not> bcast_bad vol (?a ! j, ?b ! j)"
      using P True by (auto simp: list_all_length)
    have "\<not> list_all (\<lambda>p. \<not> bcast_hit vol p) ?ps"
      using ne bad True by (auto simp: list_all_length bcast_bad_def list_eq_iff_nth_eq) metis
    then obtain i where i: "i < length ?a" "bcast_hit vol (?a ! i, ?b ! i)" "d = int i"
      and u: "\<And>j. j < length ?a \<Longrightarrow> j \<noteq> i \<Longrightarrow> \<not> bcast_hit vol (?a ! j, ?b ! j)"
      using L P True by auto
    have b: "?b = ?a[i := ?b ! i]"
    proof (rule nth_equalityI)
      fix j assume "j < length ?b"
      then show "?b ! j = ?a[i := ?b ! i] ! j"
        using bad [of j] u [of j] True by (cases "j = i") (auto simp: bcast_bad_def)
    qed (simp add: True)
    have "?b ! i \<noteq> 1" using ne b i(2) by (metis bcast_hit_def fst_conv list_update_id)
    with b i show ?R by (auto simp: bcast_hit_def shape_size_def)
  next
    assume R: ?R
    then obtain w where w: "w \<noteq> 1" "ucast w = vol" "?b = ?a[nat d := w]" by auto
    have i: "nat d < length ?a" "?a ! nat d = 1" "0 \<le> d" using R by (auto simp: shape_size_def)
    have a: "\<not> bcast_bad vol (?ps ! j)" and u: "j \<noteq> nat d \<Longrightarrow> \<not> bcast_hit vol (?ps ! j)"
      if "j < length ?ps" for j
      using that w(1) i len unfolding w(3) bcast_bad_def bcast_hit_def w(2) [symmetric]
      by (cases "j = nat d"; auto simp: u64_of_u32_inject)+
    have h: "bcast_hit vol (?ps ! nat d)" using i w(2) unfolding w(3) by (simp add: bcast_hit_def)
    have ne: "?a \<noteq> ?b" using w i by (metis nth_list_update_eq)
    have "list_all (\<lambda>p. \<not> bcast_bad vol p) ?ps" using a by (simp add: list_all_length)
    moreover have "\<exists>k < length ?ps. bcast_hit vol (?ps ! k) \<and> d = int k \<and>
        (\<forall>j < length ?ps. j \<noteq> k \<longrightarrow> \<not> bcast_hit vol (?ps ! j))"
    proof (intro exI conjI allI impI)
      show "bcast_hit vol (?ps ! nat d)" by (rule h)
      show "\<not> bcast_hit vol (?ps ! j)" if "j < length ?ps" "j \<noteq> nat d" for j using u that .
    qed (use i len in simp_all)
    ultimately show ?L unfolding P using ne by blast
  qed
qed
section \<open>Transposes that undo one another\<close>

lemma shape_at_Inr:
  "shape_at s d = Inr x \<longleftrightarrow> 0 \<le> positive_index s d \<and> positive_index s d < int (length (sh_dims s)) \<and>
     sh_valid s \<and> x = sh_dims s ! nat (positive_index s d)"
  by (auto simp: shape_at_def positive_index_def Let_def shape_size_def tt_assert_eq_Inr)

lemma set_dim_Inr:
  "set_dim s d v = Inr s' \<longleftrightarrow> 0 \<le> positive_index s d \<and> positive_index s d < int (length (sh_dims s)) \<and>
     sh_valid s \<and> s' = s\<lparr>sh_dims := (sh_dims s)[nat (positive_index s d) := v]\<rparr>"
  by (auto simp: set_dim_def rbind_eq_Inr shape_at_Inr)

lemma positive_index_dims: "length (sh_dims t) = length (sh_dims s) \<Longrightarrow> positive_index t d = positive_index s d"
  by (simp add: positive_index_def shape_size_def)

lemma swap_dims_Inr:
  "swap_dims i j s = Inr s' \<longleftrightarrow>
     (0 \<le> positive_index s i \<and> positive_index s i < int (length (sh_dims s))) \<and>
     (0 \<le> positive_index s j \<and> positive_index s j < int (length (sh_dims s))) \<and> sh_valid s \<and>
     s' = s\<lparr>sh_dims := (sh_dims s)[nat (positive_index s i) := sh_dims s ! nat (positive_index s j),
                                   nat (positive_index s j) := sh_dims s ! nat (positive_index s i)]\<rparr>"
proof -
  have p: "positive_index (s\<lparr>sh_dims := xs\<rparr>) d = positive_index s d" if "length xs = length (sh_dims s)" for xs d
    using that by (simp add: positive_index_def shape_size_def)
  show ?thesis by (auto simp: swap_dims_def rbind_eq_Inr shape_at_Inr set_dim_Inr p)
qed

lemma swap_dims_commute: "swap_dims i j s = Inr t \<Longrightarrow> swap_dims j i s = Inr t"
  by (cases "nat (positive_index s i) = nat (positive_index s j)") (auto simp: swap_dims_Inr list_update_swap)

lemma swap_dims_twice: "swap_dims i j s = Inr t \<Longrightarrow> swap_dims i j t = Inr s"
  by (auto simp: swap_dims_Inr positive_index_def shape_size_def nth_list_update intro!: Shape.equality nth_equalityI)

text \<open>C7: Two transposes that \<open>match_transpose\<close> accepts undo one another: the second gives back the shape that
  the first has changed; in between the dimension \<open>d\<close> of the shape is at the place \<open>can_commute_through_dim\<close>
  computes for a transpose.
\<close>

theorem matching_transposes_cancel:
  assumes "match_transpose a b = Inr True"
    and "OpType_int a ''dim0'' = Inr i" "OpType_int a ''dim1'' = Inr j"
    and "OpType_int b ''dim0'' = Inr i'" "OpType_int b ''dim1'' = Inr j'"
    and "swap_dims i j s = Inr t" "0 \<le> d" "nat d < length (sh_dims s)"
  shows "swap_dims i' j' t = Inr s \<and>
    sh_dims t ! nat (swapped_dim (wrap_dim s i) (wrap_dim s j) d) = sh_dims s ! nat d"
proof -
  have "i' = i \<and> j' = j \<or> i' = j \<and> j' = i"
    using assms(1) by (auto simp: match_transpose_def assms(2-5) min_def max_def split: if_splits)
  then have "swap_dims i' j' t = Inr s"
    using swap_dims_twice [OF assms(6)] swap_dims_commute [OF swap_dims_twice [OF assms(6)]] by auto
  moreover have "sh_dims t ! nat (swapped_dim (wrap_dim s i) (wrap_dim s j) d) = sh_dims s ! nat d"
  proof -
    let ?x = "positive_index s i" and ?y = "positive_index s j"
    have b: "0 \<le> ?x" "?x < int (length (sh_dims s))" "0 \<le> ?y" "?y < int (length (sh_dims s))"
      and t: "sh_dims t = (sh_dims s)[nat ?x := sh_dims s ! nat ?y, nat ?y := sh_dims s ! nat ?x]"
      using assms(6) by (auto simp: swap_dims_Inr)
    have w: "wrap_dim s = positive_index s" by (simp add: fun_eq_iff wrap_dim_def positive_index_def)
    show ?thesis unfolding w t swapped_dim_def using b assms(7,8)
      by (cases "d = ?x"; cases "d = ?y") (simp_all add: nth_list_update eq_nat_nat_iff)
  qed
  ultimately show ?thesis ..
qed

definition transpose_op_type :: "int \<Rightarrow> int \<Rightarrow> OpType" where
  "transpose_op_type i j = \<lparr>op_name = ''transpose'', legacy_attrs = [],
     named_attrs = [(''dim0'', AInt i), (''dim1'', AInt j)],
     new_op = \<lparr>op_type = Op_Transpose, op_attrs = [(''dim0'', AInt i), (''dim1'', AInt j)]\<rparr>\<rparr>"

lemma transpose_op_type_dims [simp]:
  "OpType_int (transpose_op_type i j) ''dim0'' = Inr i" "OpType_int (transpose_op_type i j) ''dim1'' = Inr j"
  "OpType_is (transpose_op_type i j) Op_Transpose"
  by (simp_all add: OpType_int_def OpType_attr_def OpType_has_attr_def map_at_def of_opt_def transpose_op_type_def
      OpType_is_def OpType_type_def)

lemma matching_transposes_cancel_witness:
  "swap_dims 2 0 (shape_create [4, 3, 2]) = Inr (shape_create [2, 3, 4]) \<and>
   sh_dims (shape_create [4, 3, 2]) ! nat (swapped_dim (wrap_dim (shape_create [2, 3, 4]) 0) (wrap_dim (shape_create [2, 3, 4]) 2) 0) =
     sh_dims (shape_create [2, 3, 4]) ! nat 0"
proof (rule matching_transposes_cancel)
  show "match_transpose (transpose_op_type 0 2) (transpose_op_type 2 0) = Inr True"
    by (simp add: match_transpose_def)
  show "swap_dims 0 2 (shape_create [2, 3, 4]) = Inr (shape_create [4, 3, 2])"
    by (simp add: swap_dims_Inr positive_index_def shape_create_def mk_shape_def numeral_2_eq_2 numeral_3_eq_3)
qed simp_all

text \<open>
  \<open>match_squeeze\<close> tests the same kinds as \<open>match_unsqueeze\<close>, so that a squeeze is never matched by an
  operation that undoes it.
\<close>

lemma squeeze_never_matches:
  "OpType_is a Op_Squeeze \<Longrightarrow> any_match match_fns a b = Inr False"
  by (simp add: match_fns_def match_reshape_def match_transpose_def match_unsqueeze_def match_squeeze_def OpType_is_def)

lemma squeeze_never_compatible:
  assumes "op_at (snd st) a = Inr (n, t)" "OpType_is t Op_Squeeze" "a \<noteq> b"
  shows "are_compatible_ops op_shape st a b s ci \<noteq> Inr True"
  using assms squeeze_never_matches [OF assms(2)]
  by (auto simp: are_compatible_ops_def rbind_eq_Inr Let_def split: if_splits)

section \<open>Reductions\<close>

lemma next_reduce_none:
  "list_all (\<lambda>n. \<not> same_op_name name n) ns \<Longrightarrow> next_reduce c up name os r dim cs ns = Inr False"
  by (induction ns) auto

lemma prev_reduce_none:
  "list_all (\<lambda>n. \<not> same_op_name name n) ns \<Longrightarrow> foldR (prev_reduce up name os ps dim) r ns = Inr r"
  by (induction ns arbitrary: r) (auto simp: prev_reduce_def)

text \<open>
  A reduction that has no neighbour of its kind is never commutable, although the dimension may pass and
  the shapes have then been changed.
\<close>

lemma lone_reduce_stops:
  assumes "reduce_plan check g op initial_op producer up shapes = Inr (can, shapes')"
    and "op_at g op = Inr (n, t)"
    and "rbind (data_users g op) (mapR (deref g)) = Inr us" "list_all (\<lambda>n. \<not> same_op_name (op_name t) n) us"
    and "rbind (data_operands g op) (mapR (deref g)) = Inr os" "list_all (\<lambda>n. \<not> same_op_name (op_name t) n) os"
  shows "\<not> can"
  using assms(1) unfolding reduce_plan_def assms(2) rbind_simps assms(3,5)
  by (auto simp: rbind_eq_Inr tt_assert_eq_Inr Let_def next_reduce_none prev_reduce_none assms(4,6) split: if_splits)

end
