(* ===== verification/Erase_Laws.thy ===== *)
theory Erase_Laws
  imports Erase_Inverse Commute_Laws Traversal_Laws
begin

text \<open>
  What the search of \<open>erase_inverse_ops\<close> returns, that its fuel is enough in a graph without cycles, and
  what holds when the pass is done; with a graph on which it removes two transposes around an operation.
\<close>

declare map_of_eq_Some_iff [simp del] Some_eq_map_of_iff [simp del] split_paired_All [simp del]
  split_paired_Ex [simp del]

section \<open>What the pass does\<close>

text \<open>
  An operation \<open>b\<close> undoes \<open>a\<close> on a tensor of the shape \<open>cs\<close>, which \<open>a\<close> took: \<open>a\<close> is a shape operation with one
  operand, the names and the attributes of the two match, and \<open>b\<close> gives \<open>cs\<close> back, or a shape that differs from
  it in one dimension, by the volume of the broadcasts of its operand.
\<close>

definition undoes :: "GS \<Rightarrow> NodeId \<Rightarrow> NodeId \<Rightarrow> Shape \<Rightarrow> bool" where
  "undoes st a b cs \<longleftrightarrow> a \<noteq> b \<and> (\<exists>operand na ta nb tb e es vol.
     data_operands (snd st) a = Inr [operand] \<and> op_at (snd st) a = Inr (na, ta) \<and> op_at (snd st) b = Inr (nb, tb) \<and>
     OpType_is_tm ta = Inr True \<and> are_compatible_tms (op_name ta) (op_name tb) \<and>
     any_match match_fns ta tb = Inr True \<and> \<not> has_tag ''dont_erase'' nb \<and>
     operand_data_edges any_edge (snd st) b = Inr (e # es) \<and> total_broadcast_volume st e = Inr vol \<and>
     (shape_eq cs (node_shape nb) \<or> fst (are_inverse_with_broadcast cs (node_shape nb) vol)))"

lemma undoes_if_compatible:
  assumes "are_compatible_ops op_shape st a b (Some cs) True = Inr True"
  shows "undoes st a b cs"
proof -
  from assms have ne: "a \<noteq> b" by (auto simp: are_compatible_ops_def)
  from assms obtain os where os: "data_operands (snd st) a = Inr os" "length os = 1"
    by (auto simp: are_compatible_ops_def rbind_eq_Inr split: if_splits)
  from os(2) obtain operand where operand: "os = [operand]" by (cases os) auto
  from assms ne os obtain na ta nb tb es vol where
    t: "op_at (snd st) a = Inr (na, ta)" "op_at (snd st) b = Inr (nb, tb)" "OpType_is_tm ta = Inr True"
      "are_compatible_tms (op_name ta) (op_name tb)" "operand_data_edges any_edge (snd st) b = Inr es"
      "rbind (vec_at es 0) (total_broadcast_volume st) = Inr vol" "any_match match_fns ta tb = Inr True"
      "\<not> has_tag ''dont_erase'' nb"
      "shape_eq cs (node_shape nb) \<or> fst (are_inverse_with_broadcast cs (node_shape nb) vol)"
    unfolding are_compatible_ops_def by (auto simp: rbind_eq_Inr Let_def split: if_splits)
  from t(6) obtain e es' where "es = e # es'" "total_broadcast_volume st e = Inr vol"
    by (cases es) (auto simp: rbind_eq_Inr vec_at_eq_Inr)
  with ne os operand t show ?thesis unfolding undoes_def by blast
qed

text \<open>
  A way from an operation down to one that undoes \<open>a\<close>. The pair of shapes is what the operation has on its
  way: the broadcasts of the edge change it first, then the operation it passes. The first user continues
  the way with the new shapes; from every other user such a way begins as well, with the shape of \<open>a\<close>.
\<close>

inductive inverse_way :: "GS \<Rightarrow> NodeId \<Rightarrow> Shape \<times> Shape \<Rightarrow> NodeId option \<Rightarrow> NodeId list \<Rightarrow> bool" for st a where
  undone: "inverse_way st a shapes prev [op]"
    if "shape_through_bcast a prev op st shapes = Inr (Some (cs, cl))" "undoes st a op cs"
| passed: "inverse_way st a shapes prev (op # user # path)"
    if "shape_through_bcast a prev op st shapes = Inr (Some (cs, cl))"
      "can_commute_past_op op a (snd st) False None (cs, Some cl) = Inr (can, cs', Some cl')" "can \<or> op = a"
      "data_users (snd st) op = Inr (user # others)" "deref (snd st) a = Inr n"
      "\<forall>u \<in> set others. \<exists>p. inverse_way st a (cs', node_shape n) (Some op) (u # p)"
      "inverse_way st a (cs', cl') (Some op) (user # path)"

lemma inverse_way_last: "inverse_way st a shapes prev p \<Longrightarrow> \<exists>cs. undoes st a (last p) cs"
  by (induction rule: inverse_way.induct) auto

lemma forks_have_way:
  assumes "forks_have_inverse go st cs a op us = Inr True"
    and "\<And>u p. go (cs, node_shape n) (Some op) u [] = Inr p \<Longrightarrow> p \<noteq> [] \<Longrightarrow> \<exists>q. W u q"
    and "deref (snd st) a = Inr n"
  shows "\<forall>u \<in> set us. \<exists>q. W u q"
proof
  fix u assume u: "u \<in> set us"
  have "allR f xs = Inr True \<Longrightarrow> x \<in> set xs \<Longrightarrow> f x = Inr True" for f :: "NodeId \<Rightarrow> bool result" and xs x
    by (induction xs) (auto simp: rbind_eq_Inr split: if_splits)
  from this [OF _ u] assms(1, 3) obtain p where "go (cs, node_shape n) (Some op) u [] = Inr p" "p \<noteq> []"
    by (fastforce simp: forks_have_inverse_def rbind_eq_Inr split: if_splits)
  then show "\<exists>q. W u q" by (rule assms(2))
qed

lemma find_path_sound:
  assumes "find_path k op_shape st a shapes prev op path = Inr p" "p \<noteq> []"
  shows "\<exists>q. p = path @ op # q \<and> inverse_way st a shapes prev (op # q)"
  using assms
proof (induction k arbitrary: shapes prev op path p)
  case 0
  then show ?case by simp
next
  case (Suc k)
  let ?go = "find_path k op_shape st a"
  have visit: "path_visit ?go op_shape st a shapes prev op path = Inr p" using Suc.prems(1) by simp
  then obtain r where r: "shape_through_bcast a prev op st shapes = Inr r" and r1: "(case r of None \<Rightarrow> Inr []
      | Some (cs, cl) \<Rightarrow>
            rbind (are_compatible_ops op_shape st a op (Some cs) True) (\<lambda>found.
            rbind (can_commute_past_op op a (snd st) False None (cs, Some cl)) (\<lambda>(can, shapes').
            rbind (data_users (snd st) op) (\<lambda>us.
            rbind (forks_have_inverse ?go st (fst shapes') a op (tl us)) (\<lambda>all_forks.
              if found \<or> can \<or> op = a
              then path_continue ?go st found all_forks shapes' op us (path @ [op]) else Inr []))))) = Inr p"
    unfolding path_visit_def by (auto simp: rbind_eq_Inr tt_assert_eq_Inr simp del: find_path.simps)
  with Suc.prems(2) obtain cs cl where s: "r = Some (cs, cl)" by (cases r) auto
  with r1 obtain found can cs' cl0 us fs where
    found: "are_compatible_ops op_shape st a op (Some cs) True = Inr found"
    and can: "can_commute_past_op op a (snd st) False None (cs, Some cl) = Inr (can, cs', cl0)"
    and us: "data_users (snd st) op = Inr us"
    and forks: "forks_have_inverse ?go st cs' a op (tl us) = Inr fs"
    and rest: "(if found \<or> can \<or> op = a then path_continue ?go st found fs (cs', cl0) op us (path @ [op]) else Inr []) = Inr p"
    by (auto simp: rbind_eq_Inr simp del: find_path.simps)
  note b = r [unfolded s]
  show ?case
  proof (cases found)
    case True
    with found have "are_compatible_ops op_shape st a op (Some cs) True = Inr True" by simp
    from undoes_if_compatible [OF this] have "undoes st a op cs" .
    with b have "inverse_way st a shapes prev [op]" by (rule inverse_way.undone)
    moreover have "p = path @ [op]" using rest True by (auto simp: path_continue_def rbind_eq_Inr split: if_splits)
    ultimately show ?thesis by blast
  next
    case False
    obtain user cl' where user: "vec_at us 0 = Inr user" and fs: "fs" and cl: "cl0 = Some cl'"
      and c: "can \<or> op = a" and rec: "?go (cs', cl') (Some op) user (path @ [op]) = Inr p"
      using rest False Suc.prems(2)
      by (auto simp: path_continue_def rbind_eq_Inr of_opt_eq_Inr simp del: find_path.simps split: if_splits)
    from user obtain others where o: "us = user # others" by (cases us) (auto simp: vec_at_eq_Inr)
    from forks obtain n where n: "deref (snd st) a = Inr n" by (auto simp: forks_have_inverse_def rbind_eq_Inr)
    have w: "\<exists>p. inverse_way st a (cs', node_shape n) (Some op) (u # p)"
      if "?go (cs', node_shape n) (Some op) u [] = Inr p" "p \<noteq> []" for u p
      using Suc.IH [OF that] by auto
    have "forks_have_inverse ?go st cs' a op others = Inr True" using forks fs o by simp
    from forks_have_way [where W = "\<lambda>u q. inverse_way st a (cs', node_shape n) (Some op) (u # q)", OF this w n]
    have others: "\<forall>u \<in> set others. \<exists>p. inverse_way st a (cs', node_shape n) (Some op) (u # p)" by simp
    from Suc.IH [OF rec Suc.prems(2)] obtain q where
      q: "p = (path @ [op]) @ user # q" "inverse_way st a (cs', cl') (Some op) (user # q)" by blast
    from inverse_way.passed [OF b can [unfolded cl] c us [unfolded o] n others q(2)]
    have "inverse_way st a shapes prev (op # user # q)" .
    with q(1) show ?thesis by simp
  qed
qed

text \<open>C3: A path that \<open>find_path_to_inverse_op\<close> returns begins with the operation and ends with another one that
  undoes it on the shape it has there: along the path the shape is changed by the broadcasts of every edge
  and by every operation that is passed, each is the first user of the one before and lets the first
  operation pass, and every other user on the way leads to such an inverse as well.\<close>

theorem inverse_path_sound:
  assumes "find_path_to_inverse_op fuel op_shape st a s = Inr p" "p \<noteq> []"
  shows "\<exists>n. deref (snd st) a = Inr n \<and> inverse_way st a (s, node_shape n) None p \<and>
    2 \<le> length p \<and> hd p = a \<and> last p \<noteq> a"
proof -
  from assms(1) obtain n where n: "deref (snd st) a = Inr n"
    and f: "find_path fuel op_shape st a (s, node_shape n) None a [] = Inr p"
    by (auto simp: find_path_to_inverse_op_def rbind_eq_Inr)
  from find_path_sound [OF f assms(2)] obtain q where
    q: "p = a # q" "inverse_way st a (s, node_shape n) None p" by auto
  from inverse_way_last [OF q(2)] have "last p \<noteq> a" by (auto simp: undoes_def)
  moreover from this q(1) have "2 \<le> length p" by (cases q) auto
  ultimately show ?thesis using n q by auto
qed

section \<open>The bound on the way down\<close>

lemma data_users_topo:
  assumes wf: "graph_wf w g" and us: "data_users g i = Inr us" and u: "u \<in> set us"
  shows "(i, u) \<in> topo_edges g"
proof -
  have i: "i \<in> node_ids g"
  proof (rule ccontr)
    assume "i \<notin> node_ids g"
    then show False using us usq.query_missing [OF wf, of i any_edge] by (simp add: data_users_def)
  qed
  from usq.query_correct [OF wf i, of any_edge] obtain es where es: "user_edges any_edge g i = Inr es"
    "set es = {e \<in> set (graph_edges g). producer_node_id e = i \<and> True \<and> edge_shown g e}" by blast
  have "mapR (\<lambda>e. node_of g (consumer_node_id e)) (filter (\<lambda>e. edge_type e = kData) es) = Inr us"
    using us es(1) by (simp add: data_users_def)
  moreover have "mapR (\<lambda>e. node_of g (consumer_node_id e)) xs = Inr us \<Longrightarrow> us = map consumer_node_id xs" for xs us
    by (induction xs arbitrary: us) (auto simp: rbind_eq_Inr node_of_Inr)
  ultimately have "us = map consumer_node_id (filter (\<lambda>e. edge_type e = kData) es)" by blast
  with u es(2) show ?thesis by (force simp: topo_edges_def skipped_in_topo_def)
qed

lemma allR_cong: "(\<And>x. x \<in> set xs \<Longrightarrow> f x = h x) \<Longrightarrow> allR f xs = allR h xs"
  by (induction xs) (auto intro!: rbind_cong)

lemma path_visit_cong:
  assumes "\<And>us u shapes path. data_users (snd st) op = Inr us \<Longrightarrow> u \<in> set us \<Longrightarrow>
    f shapes (Some op) u path = h shapes (Some op) u path"
  shows "path_visit f op_shape st a shapes prev op path = path_visit h op_shape st a shapes prev op path"
proof -
  have fork: "forks_have_inverse f st cs a op (tl us) = forks_have_inverse h st cs a op (tl us)"
    if us: "data_users (snd st) op = Inr us" for us cs
  proof -
    have "f s (Some op) u p = h s (Some op) u p" if "u \<in> set (tl us)" for u s p
      using assms [OF us] that by (metis list.set_sel(2) list.size(3) list.sel(2))
    then show ?thesis unfolding forks_have_inverse_def by (intro rbind_cong refl allR_cong) auto
  qed
  have cont: "path_continue f st found b shapes op us p = path_continue h st found b shapes op us p"
    if us: "data_users (snd st) op = Inr us" for us found b shapes p
  proof (cases us)
    case (Cons u vs)
    then show ?thesis using assms [OF us, of u] by (auto simp: path_continue_def vec_at_def intro!: rbind_cong)
  qed (simp add: path_continue_def vec_at_def)
  show ?thesis unfolding path_visit_def
    by (intro rbind_cong refl tt_assert_cong option.case_cong prod.case_cong) (auto simp: fork cont)
qed

lemma find_path_enough:
  assumes step: "\<And>i us u. data_users (snd st) i = Inr us \<Longrightarrow> u \<in> set us \<Longrightarrow> m u < (m i :: nat)"
  shows "m op < k \<Longrightarrow> m op < j \<Longrightarrow>
    find_path k op_shape st a shapes prev op path = find_path j op_shape st a shapes prev op path"
proof (induction k arbitrary: j shapes prev op path)
  case (Suc k)
  obtain j' where j: "j = Suc j'" using Suc.prems(2) by (cases j) auto
  show ?case unfolding j find_path.simps
    by (rule path_visit_cong, rule Suc.IH) (use step Suc.prems j in \<open>fastforce+\<close>)
qed simp

text \<open>C4: In a consistent graph without cycles the search does not run into its bound: with more fuel than the
  graph has nodes, which is what the pass gives it, \<open>find_path_to_inverse_op\<close> returns what it returns with
  any larger amount.
\<close>

theorem inverse_path_terminates:
  assumes "graph_wf w g" "acyclic (topo_edges g)" "length (nodes_map g) < k"
  shows "find_path_to_inverse_op k op_shape (w, g) a s =
         find_path_to_inverse_op (Suc (length (nodes_map g))) op_shape (w, g) a s"
proof -
  let ?after = "\<lambda>i. {j. (i, j) \<in> (topo_edges g)\<^sup>+}"
  have sub: "?after i \<subseteq> node_ids g" for i
  proof
    fix j assume "j \<in> ?after i"
    then obtain x where "(x, j) \<in> topo_edges g" by (auto elim: tranclE)
    then show "j \<in> node_ids g" using graph_edges_ends(3) [OF assms(1)] by (auto simp: topo_edges_def)
  qed
  have fin: "finite (?after i)" for i using sub by (rule finite_subset) simp
  have small: "card (?after i) < Suc (length (nodes_map g))" for i
    using card_mono [OF _ sub [of i]] card_length [of "keys (nodes_map g)"] by (simp add: le_imp_less_Suc)
  have dec: "card (?after u) < card (?after i)" if "data_users (snd (w, g)) i = Inr us" "u \<in> set us" for i us u
  proof (rule psubset_card_mono [OF fin])
    have e: "(i, u) \<in> topo_edges g" using data_users_topo [OF assms(1)] that by simp
    then have "?after u \<subseteq> ?after i" by (auto intro: trancl_into_trancl2)
    moreover have "u \<in> ?after i" "u \<notin> ?after u" using e assms(2) by (auto simp: acyclic_def)
    ultimately show "?after u \<subset> ?after i" by blast
  qed
  have "find_path k op_shape (w, g) a sh prev i p = find_path (Suc (length (nodes_map g))) op_shape (w, g) a sh prev i p"
    for sh prev i p
    by (rule find_path_enough [where m = "\<lambda>i. card (?after i)"]) (use dec small [of i] assms(3) in auto)
  then show ?thesis by (simp add: find_path_to_inverse_op_def del: find_path.simps)
qed
section \<open>What remains when the pass is done\<close>

lemma first_inverse_path_none:
  "first_inverse_path op_shape st is = Inr [] \<Longrightarrow> i \<in> set is \<Longrightarrow> inverse_candidate (snd st) i = Inr True \<Longrightarrow>
     \<exists>s. shape_of_only_operand op_shape st i = Inr s \<and>
       find_path_to_inverse_op (Suc (length (nodes_map (snd st)))) op_shape st i s = Inr []"
  by (induction "is") (auto simp: rbind_eq_Inr split: if_splits)

lemma first_inverse_path_some:
  "first_inverse_path op_shape st is = Inr p \<Longrightarrow> p \<noteq> [] \<Longrightarrow>
     \<exists>i s k. i \<in> set is \<and> find_path_to_inverse_op k op_shape st i s = Inr p"
proof (induction "is")
  case (Cons i "is")
  show ?case
  proof (cases "first_inverse_path op_shape st is = Inr p")
    case True
    then show ?thesis using Cons by fastforce
  next
    case False
    then show ?thesis using Cons.prems by (fastforce simp: rbind_eq_Inr split: if_splits)
  qed
qed simp

text \<open>C2: When \<open>erase_inverse_ops\<close> returns, no operation is left that it could remove: for every candidate the
  search from it comes back empty; and it reports no change only when it changed nothing.
\<close>

theorem erase_inverse_ops_done:
  assumes "erase_inverse_ops fuel ps (st, False) = Inr (st', changed)"
  shows "\<exists>is. topo_order (fst st') (snd st') = Inr is \<and>
     (\<forall>i \<in> set is. inverse_candidate (snd st') i = Inr True \<longrightarrow>
        (\<exists>s. shape_of_only_operand (ps_shape ps) st' i = Inr s \<and>
             find_path_to_inverse_op (Suc (length (nodes_map (snd st')))) (ps_shape ps) st' i s = Inr [])) \<and>
     (\<not> changed \<longrightarrow> st' = st)"
proof -
  have "erase_inverse_ops fuel ps (st, updated) = Inr (st', changed) \<Longrightarrow>
    (\<exists>is. topo_order (fst st') (snd st') = Inr is \<and> first_inverse_path (ps_shape ps) st' is = Inr []) \<and>
    (\<not> changed \<longrightarrow> st' = st)" for updated
  proof (induction fuel arbitrary: st updated)
    case 0
    then show ?case by (simp add: erase_inverse_ops.simps)
  next
    case (Suc k)
    from Suc.prems obtain "is" p where s: "topo_order (fst st) (snd st) = Inr is"
      "first_inverse_path (ps_shape ps) st is = Inr p"
      "(if p = [] then Inr (st, updated)
        else rbind (commute_and_bypass ps p st) (\<lambda>st'. erase_inverse_ops k ps (st', True))) = Inr (st', changed)"
      by (auto simp: erase_inverse_ops.simps rbind_eq_Inr)
    show ?case
    proof (cases "p = []")
      case True
      then show ?thesis using s by auto
    next
      case False
      with s(3) obtain st1 where r: "erase_inverse_ops k ps (st1, True) = Inr (st', changed)"
        by (auto simp: rbind_eq_Inr)
      have "changed"
      proof -
        have "erase_inverse_ops j ps (s1, True) = Inr (s2, c) \<Longrightarrow> c" for j s1 s2 c
          by (induction j arbitrary: s1) (auto simp: erase_inverse_ops.simps rbind_eq_Inr split: if_splits)
        with r show ?thesis by blast
      qed
      with Suc.IH [OF r] show ?thesis by blast
    qed
  qed
  from this [OF assms] show ?thesis using first_inverse_path_none by blast
qed

section \<open>An example\<close>

text \<open>An input, a transpose, a relu, the same transpose again and the output.\<close>

definition example_node :: "string \<Rightarrow> OpType \<Rightarrow> u32 list \<Rightarrow> Node" where
  "example_node nm t ds = (mk_PyOpNode nm t)\<lparr>node_shape := shape_create ds\<rparr>"

definition inverse_example :: "GS result" where
  "inverse_example =
     rbind (put_node ((mk_InputNode ''x'' In_Activation False)\<lparr>node_shape := shape_create [2, 3]\<rparr>) 0
              (initial_world, mk_Graph_default IR_TT_FORGE)) (\<lambda>(s, x).
     rbind (put_node (example_node ''t'' (transpose_op_type 0 1) [3, 2]) 0 s) (\<lambda>(s, a).
     rbind (put_node (example_node ''relu'' example_relu [3, 2]) 0 s) (\<lambda>(s, r).
     rbind (put_node (example_node ''u'' (transpose_op_type 1 0) [2, 3]) 0 s) (\<lambda>(s, b).
     rbind (put_node ((mk_OutputNode ''y'')\<lparr>node_shape := shape_create [2, 3]\<rparr>) 0 s) (\<lambda>(s, y).
     rbind (connect_nodes x a kData s) (\<lambda>s. rbind (connect_nodes a r kData s) (\<lambda>s.
     rbind (connect_nodes r b kData s) (connect_nodes b y kData))))))))"

definition inverse_gs :: GS where
  "inverse_gs = (case inverse_example of Inr s \<Rightarrow> s | Inl _ \<Rightarrow> (initial_world, mk_Graph_default IR_TT_FORGE))"

definition example_pass :: Pass where
  "example_pass = \<lparr>ps_consteval = Inr, ps_shape = (\<lambda>t ss. Inl Assert_failed)\<rparr>"

definition erased_example :: "(GS \<times> bool) result" where
  "erased_example = erase_inverse_ops 2 example_pass (inverse_gs, False)"

lemma inverse_example_path:
  "find_path_to_inverse_op 6 (ps_shape example_pass) inverse_gs 2 (shape_create [2, 3]) = Inr [2, 3, 4]"
  by code_simp

lemma erased_example_value:
  "case erased_example of Inl _ \<Rightarrow> False
   | Inr ((w, g), b) \<Rightarrow> keys (nodes_map g) = [1, 3, 5] \<and>
       map unique_id (graph_edges g) = [(1, 0, 3, 0, kData), (3, 0, 5, 0, kData)] \<and>
       map (\<lambda>(i, n). sh_dims (node_shape n)) (nodes_map g) = [[2, 3], [2, 3], [2, 3]] \<and> b"
  by code_simp

lemma inverse_path_sound_witness:
  "\<exists>n. deref (snd inverse_gs) 2 = Inr n \<and> inverse_way inverse_gs 2 (shape_create [2, 3], node_shape n) None [2, 3, 4]"
  using inverse_path_sound [OF inverse_example_path] by auto

lemma inverse_path_terminates_witness:
  "find_path_to_inverse_op 9 (ps_shape example_pass) (fst inverse_gs, snd inverse_gs) 2 (shape_create [2, 3]) =
   find_path_to_inverse_op (Suc (length (nodes_map (snd inverse_gs)))) (ps_shape example_pass)
     (fst inverse_gs, snd inverse_gs) 2 (shape_create [2, 3])"
proof (rule inverse_path_terminates)
  show "graph_wf (fst inverse_gs) (snd inverse_gs)" by code_simp
  have "list_all (\<lambda>e. producer_node_id e < consumer_node_id e) (graph_edges (snd inverse_gs))" by code_simp
  then have lt: "i < j" if "(i, j) \<in> topo_edges (snd inverse_gs)" for i j
    using that by (auto simp: topo_edges_def list_all_iff)
  show "acyclic (topo_edges (snd inverse_gs))"
  proof (rule acyclicI_order)
    show "- j < - i" if "(i, j) \<in> topo_edges (snd inverse_gs)" for i j using lt [OF that] by simp
  qed
  show "length (nodes_map (snd inverse_gs)) < 9" by code_simp
qed

lemma erase_inverse_ops_done_witness:
  "\<exists>st' changed is. erased_example = Inr (st', changed) \<and> topo_order (fst st') (snd st') = Inr is \<and>
     (\<forall>i \<in> set is. inverse_candidate (snd st') i = Inr True \<longrightarrow>
        (\<exists>s. shape_of_only_operand (ps_shape example_pass) st' i = Inr s \<and>
             find_path_to_inverse_op (Suc (length (nodes_map (snd st')))) (ps_shape example_pass) st' i s = Inr []))"
proof -
  have "\<exists>x. erased_example = Inr x"
  proof (cases erased_example)
    case (Inl e)
    show ?thesis using erased_example_value unfolding Inl by simp
  next
    case (Inr x)
    show ?thesis by (rule exI, rule Inr)
  qed
  then obtain st' changed where r: "erased_example = Inr (st', changed)" by (metis surj_pair)
  from erase_inverse_ops_done [OF r [unfolded erased_example_def]] r show ?thesis by blast
qed

end
