(* ===== verification/Slice_Laws.thy ===== *)
theory Slice_Laws
  imports Fracture
begin

text \<open>
  Laws of slicings (\<open>nd_slice.hpp\<close>, \<open>fracture.cpp\<close>): the parts of a slicing are numbered in row-major order and
  the number of a part is recovered from its indices; which cuts of its operands a matrix multiplication keeps.
\<close>

declare map_of_eq_Some_iff [simp del] Some_eq_map_of_iff [simp del] split_paired_All [simp del]
  split_paired_Ex [simp del]

section \<open>A slicing\<close>

lemma sliced_dims_neg:
  assumes "sliced_dims rank xs = Inr ys"
  shows "\<forall>(d, f) \<in> set ys. d < 0 \<and> 1 < f"
  using assms
proof (induction xs arbitrary: ys)
  case Nil
  then show ?case by simp
next
  case (Cons x xs)
  obtain d f where x: "x = (d, f)" by (cases x)
  show ?case
  proof (cases "f \<le> 1")
    case True
    with Cons.prems x have "sliced_dims rank xs = Inr ys" by simp
    then show ?thesis by (rule Cons.IH)
  next
    case False
    with Cons.prems x obtain d' r where "d' < 0" "sliced_dims rank xs = Inr r" "ys = (d', f) # r"
      by (auto simp: Let_def rbind_eq_Inr tt_assert_eq_Inr split: if_splits)
    with Cons.IH False show ?thesis by simp
  qed
qed

lemma mk_NDSlice_wf:
  assumes "mk_NDSlice ds fs spec rank = Inr nd"
  shows "length (nd_factors nd) = length (nd_dims nd)" "d \<in> set (nd_dims nd) \<Longrightarrow> d < 0"
    "f \<in> set (nd_factors nd) \<Longrightarrow> 1 < f"
  using assms by (fastforce simp: mk_NDSlice_def rbind_eq_Inr tt_assert_eq_Inr dest: sliced_dims_neg)+

section \<open>Positions and indices\<close>

lemma prod_list_pos: "\<forall>f \<in> set fs. (0 :: int) < f \<Longrightarrow> 0 < prod_list fs"
  by (induction fs) auto

lemma map_fst_indices_at [simp]: "map fst (indices_at i v xs) = map fst xs"
  by (induction xs arbitrary: v) (auto simp: Let_def)

lemma indices_at_range:
  assumes "\<forall>(d, f) \<in> set xs. 0 < f" "(d, j, f) \<in> set (indices_at i v xs)"
  shows "0 \<le> j \<and> j < f"
  using assms by (induction xs arbitrary: v) (auto simp: Let_def)

text \<open>Reading the indices as digits, the last the fastest, gives the position back.\<close>

lemma foldr_indices_at:
  assumes "\<forall>(d, f) \<in> set xs. 0 < f"
  shows "foldr (\<lambda>(_, j, f) (t, v). (t + j * v, v * f)) (indices_at i (prod_list (map snd xs)) xs) (0, 1) =
    (i mod prod_list (map snd xs), prod_list (map snd xs))"
  using assms
proof (induction xs)
  case Nil
  then show ?case by simp
next
  case (Cons x xs)
  obtain d f where x: "x = (d, f)" by (cases x)
  define P where "P = prod_list (map snd xs)"
  from Cons.prems x have f: "0 < f" by simp
  have P: "0 \<le> P" using prod_list_pos [of "map snd xs"] Cons.prems by (force simp: P_def)
  have "f * P div f = P" using f by simp
  moreover have "i mod P + i div P mod f * P = i mod (P * f)"
    using zmod_zmult2_eq [of f i P] f by (simp add: algebra_simps)
  ultimately show ?case using Cons by (simp add: x P_def [symmetric] Let_def mult.commute)
qed

lemma mixed_radix_indices_at:
  assumes "\<forall>(d, f) \<in> set xs. 0 < f" "0 \<le> i" "i < prod_list (map snd xs)"
  shows "mixed_radix (indices_at i (prod_list (map snd xs)) xs) = i"
  using foldr_indices_at [OF assms(1)] assms(2, 3) by (simp add: mixed_radix_def)

lemma index_of_nth:
  assumes "distinct (nd_dims nd)" "k < length (nd_dims nd)" "nd_dims nd ! k < 0"
  shows "index_of nd (nd_dims nd ! k) = Inr (Some k)"
proof -
  have "length (takeWhile (\<lambda>x. x \<noteq> ds ! k) ds) = k" if "distinct ds" "k < length ds" for ds :: "int list"
  proof -
    have "takeWhile (\<lambda>x. x \<noteq> ds ! k) ds = take k ds"
      by (rule takeWhile_eq_take_P_nth) (use that in \<open>auto simp: nth_eq_iff_index_eq\<close>)
    with that show ?thesis by simp
  qed
  with assms show ?thesis by (simp add: index_of_def)
qed

lemma mapR_nth:
  assumes "\<And>k. k < length xs \<Longrightarrow> f (xs ! k) = Inr (h k (xs ! k))"
  shows "mapR f xs = Inr (map (\<lambda>k. h k (xs ! k)) [0..<length xs])"
  using assms
proof (induction xs arbitrary: h)
  case Nil
  then show ?case by simp
next
  case (Cons x xs)
  have "mapR f xs = Inr (map (\<lambda>k. h (Suc k) (xs ! k)) [0..<length xs])"
    using Cons.IH [of "\<lambda>k. h (Suc k)"] Cons.prems [of "Suc k" for k] by simp
  then show ?case using Cons.prems [of 0] by (simp add: map_upt_Suc del: upt_Suc)
qed

lemma calculate_index_ordered:
  assumes "distinct (nd_dims nd)" "\<forall>d \<in> set (nd_dims nd). d < 0" "map fst xs = nd_dims nd"
  shows "calculate_index nd xs = Inr \<lparr>total_index = mixed_radix xs, slice_indices = xs\<rparr>"
proof -
  have len: "length xs = length (nd_dims nd)" using assms(3) by (metis length_map)
  define ys where "ys = map (\<lambda>k. (Suc k, xs ! k)) [0..<length xs]"
  have "rbind (index_of nd (fst (xs ! k))) (\<lambda>i. Inr (index_rank i, xs ! k)) = Inr (Suc k, xs ! k)"
    if "k < length xs" for k
  proof -
    have e: "fst (xs ! k) = nd_dims nd ! k" using that assms(3) by (metis nth_map)
    have "index_of nd (fst (xs ! k)) = Inr (Some k)"
      unfolding e using that len assms(2) by (intro index_of_nth assms(1)) auto
    then show ?thesis by (simp add: index_rank_def)
  qed
  then have ys: "mapR (\<lambda>x. rbind (index_of nd (fst x)) (\<lambda>i. Inr (index_rank i, x))) xs = Inr ys"
    unfolding ys_def by (rule mapR_nth)
  have "sorted (map fst ys)" by (simp add: ys_def comp_def sorted_iff_nth_mono)
  then have "sort_key fst ys = ys" by (rule sort_key_id_if_sorted)
  moreover have "map snd ys = xs" by (simp add: ys_def comp_def map_nth)
  ultimately show ?thesis using ys by (simp add: calculate_index_def)
qed

lemma slice_at_roundtrip:
  assumes nd: "mk_NDSlice ds fs spec rank = Inr nd" and d: "distinct (nd_dims nd)"
    and i: "0 \<le> i" "i < nd_volume nd"
  shows "calculate_index nd (slice_indices (slice_at nd i)) = Inr (slice_at nd i)"
    "map fst (slice_indices (slice_at nd i)) = nd_dims nd"
    "\<forall>(d, j, f) \<in> set (slice_indices (slice_at nd i)). 0 \<le> j \<and> j < f"
proof -
  note wf = mk_NDSlice_wf [OF nd]
  define xs where "xs = zip (nd_dims nd) (nd_factors nd)"
  have xs: "map fst xs = nd_dims nd" "map snd xs = nd_factors nd" using wf(1) by (simp_all add: xs_def)
  have pos: "\<forall>(d, f) \<in> set xs. 0 < f" using wf(3) by (force simp: xs_def dest: set_zip_rightD)
  have s: "slice_at nd i = \<lparr>total_index = i, slice_indices = indices_at i (prod_list (map snd xs)) xs\<rparr>"
    by (simp add: slice_at_def nd_volume_def xs_def [symmetric] xs)
  show dims: "map fst (slice_indices (slice_at nd i)) = nd_dims nd" by (simp add: s xs)
  show "\<forall>(d, j, f) \<in> set (slice_indices (slice_at nd i)). 0 \<le> j \<and> j < f"
    using indices_at_range [OF pos] by (auto simp: s)
  from mixed_radix_indices_at [OF pos i(1)] i(2)
  have "mixed_radix (slice_indices (slice_at nd i)) = i" by (simp add: s nd_volume_def xs)
  with calculate_index_ordered [OF d _ dims] wf(2) s
  show "calculate_index nd (slice_indices (slice_at nd i)) = Inr (slice_at nd i)" by simp
qed

text \<open>C10: the parts of a slicing that cuts no dimension twice are numbered in order, every index is below the
  factor of its dimension, the number of a part is recovered from its indices, and no two parts share them.\<close>

theorem slices_roundtrip:
  assumes nd: "mk_NDSlice ds fs spec rank = Inr nd" and d: "distinct (nd_dims nd)"
  shows "map total_index (get_slices nd) = map int [0..<nat (nd_volume nd)] \<and>
    (\<forall>s \<in> set (get_slices nd).
       calculate_index nd (slice_indices s) = Inr s \<and> map fst (slice_indices s) = nd_dims nd \<and>
       (\<forall>(d, j, f) \<in> set (slice_indices s). 0 \<le> j \<and> j < f)) \<and>
    distinct (map slice_indices (get_slices nd))"
proof -
  have r: "calculate_index nd (slice_indices s) = Inr s \<and> map fst (slice_indices s) = nd_dims nd \<and>
       (\<forall>(d, j, f) \<in> set (slice_indices s). 0 \<le> j \<and> j < f)" if s: "s \<in> set (get_slices nd)" for s
  proof -
    from s obtain i where i: "s = slice_at nd i" "0 \<le> i" "i < nd_volume nd" by (auto simp: get_slices_def)
    show ?thesis unfolding i(1) using slice_at_roundtrip [OF nd d i(2, 3)] by blast
  qed
  have t: "map total_index (get_slices nd) = map int [0..<nat (nd_volume nd)]"
    by (simp add: get_slices_def slice_at_def)
  have "distinct (map total_index (get_slices nd))" by (simp add: t distinct_map)
  then have "distinct (get_slices nd)" by (simp add: distinct_map)
  moreover have "inj_on slice_indices (set (get_slices nd))"
    using r by (intro inj_onI) (metis Inr_inject)
  ultimately have "distinct (map slice_indices (get_slices nd))" by (simp add: distinct_map)
  with t r show ?thesis by blast
qed

lemma slices_roundtrip_witness:
  "\<exists>nd. mk_NDSlice [-2, k_dim] [2, 3] Explicit 0 = Inr nd \<and> length (get_slices nd) = 6 \<and>
     (\<forall>s \<in> set (get_slices nd). calculate_index nd (slice_indices s) = Inr s)"
proof -
  define nd where "nd = \<lparr>nd_dims = [-2, k_dim], nd_factors = [2, 3], nd_spec = Explicit\<rparr>"
  have m: "mk_NDSlice [-2, k_dim] [2, 3] Explicit 0 = Inr nd"
    by (simp add: mk_NDSlice_def nd_def k_dim_def)
  have d: "distinct (nd_dims nd)" by (simp add: nd_def k_dim_def)
  have "length (get_slices nd) = 6" by (simp add: get_slices_def nd_volume_def nd_def)
  with slices_roundtrip [OF m d] m show ?thesis by blast
qed
section \<open>The slicing of a matrix multiplication\<close>

lemma sliced_dims_0: "sliced_dims 0 xs = Inr ys \<Longrightarrow> ys = filter (\<lambda>x. 1 < snd x) xs"
  by (induction xs arbitrary: ys rule: list.induct)
    (auto simp: Let_def rbind_eq_Inr tt_assert_eq_Inr split: if_splits)

lemma mk_NDSlice_0:
  assumes "mk_NDSlice ds fs spec 0 = Inr nd"
  shows "nd_dims nd = map fst (filter (\<lambda>x. 1 < snd x) (zip ds fs))" "nd_spec nd = spec" "length ds = length fs"
  using assms by (auto simp: mk_NDSlice_def rbind_eq_Inr tt_assert_eq_Inr dest: sliced_dims_0)

lemma inner_dim_replaced:
  assumes "create_matmul_nd_slice nd 0 = Inr lhs" "distinct (nd_dims nd)"
  shows "-1 \<notin> set (nd_dims lhs)" "nd_spec lhs = nd_spec nd"
proof -
  from assms(1) obtain p where p: "index_of nd (-1) = Inr p"
    and l: "(case p of None \<Rightarrow> Inr nd
      | Some i \<Rightarrow> mk_NDSlice ((nd_dims nd)[i := k_dim]) (nd_factors nd) (nd_spec nd) 0) = Inr lhs"
    by (auto simp: create_matmul_nd_slice_def inner_dim_at_def replace_dim_def rbind_eq_Inr)
  have "-1 \<notin> set (nd_dims lhs) \<and> nd_spec lhs = nd_spec nd"
  proof (cases p)
    case None
    with p l show ?thesis by (auto simp: index_of_def split: if_splits)
  next
    case (Some i)
    with p have m: "-1 \<in> set (nd_dims nd)" and i: "i = length (takeWhile (\<lambda>x. x \<noteq> -1) (nd_dims nd))"
      by (auto simp: index_of_def split: if_splits)
    from m have "takeWhile (\<lambda>x. x \<noteq> -1) (nd_dims nd) \<noteq> nd_dims nd" by (auto simp: takeWhile_eq_all_conv)
    then have "i < length (nd_dims nd)"
      unfolding i by (metis length_takeWhile_le le_neq_implies_less takeWhile_eq_take take_all_iff order_refl)
    moreover from this have "nd_dims nd ! i = -1" unfolding i using nth_length_takeWhile by blast
    ultimately have "-1 \<notin> set ((nd_dims nd)[i := k_dim])"
      using set_update_distinct [OF assms(2), of i k_dim] by (simp add: k_dim_def)
    moreover from l Some have "mk_NDSlice ((nd_dims nd)[i := k_dim]) (nd_factors nd) (nd_spec nd) 0 = Inr lhs" by simp
    note mk_NDSlice_0 [OF this]
    ultimately show ?thesis by (auto dest: set_zip_leftD)
  qed
  then show "-1 \<notin> set (nd_dims lhs)" "nd_spec lhs = nd_spec nd" by blast+
qed

text \<open>With the left operand explicit every factor in the result is a factor of the left operand.\<close>

lemma merge_dims_left:
  assumes "foldR (merge_dim lhs lhs lower) dfac ds = Inr dfac'" "\<forall>(d, f) \<in> set dfac. get_factor lhs d = Inr f"
  shows "\<forall>(d, f) \<in> set dfac'. get_factor lhs d = Inr f"
  using assms
proof (induction ds arbitrary: dfac)
  case Nil
  then show ?case by simp
next
  case (Cons d ds)
  from Cons.prems(1) obtain s where s: "merge_dim lhs lhs lower dfac d = Inr s"
    "foldR (merge_dim lhs lhs lower) s ds = Inr dfac'" by (auto simp: rbind_eq_Inr)
  have "\<forall>(d, f) \<in> set s. get_factor lhs d = Inr f"
    using s(1) Cons.prems(2) by (auto simp: merge_dim_def rbind_eq_Inr split: if_splits)
  with Cons.IH s(2) show ?case by blast
qed

lemma mapR_set: "mapR f xs = Inr ys \<Longrightarrow> y \<in> set ys \<Longrightarrow> \<exists>x \<in> set xs. f x = Inr y"
  by (induction xs arbitrary: ys) (auto simp: rbind_eq_Inr)

text \<open>C11: when the left operand is explicit, a cut of the columns of the right operand is lost.\<close>

theorem matmul_column_cut_lost:
  assumes m: "create_matmul_nd_slice_of_both l r = Inr m" and e: "nd_spec l = Explicit" and d: "distinct (nd_dims l)"
  shows "-1 \<notin> set (nd_dims m)"
proof
  assume bad: "-1 \<in> set (nd_dims m)"
  from m obtain lhs rhs where lhs: "create_matmul_nd_slice l 0 = Inr lhs"
    and c: "(let higher = (if nd_spec lhs = Explicit then lhs else rhs);
         lower = (if nd_spec lhs = Explicit then rhs else lhs) in
     rbind (mapR (\<lambda>d. rbind (get_factor higher d) (\<lambda>f. Inr (d, f))) (nd_dims higher)) (\<lambda>dfac.
     rbind (foldR (merge_dim lhs higher lower) dfac (nd_dims lower)) (\<lambda>dfac'.
       mk_NDSlice (map fst dfac') (map snd dfac') Inferred 0))) = Inr m"
    by (auto simp: create_matmul_nd_slice_of_both_def rbind_eq_Inr simp del: Let_def)
  note L = inner_dim_replaced [OF lhs d]
  from c L(2) e obtain dfac dfac' where
    f: "mapR (\<lambda>d. rbind (get_factor lhs d) (\<lambda>f. Inr (d, f))) (nd_dims lhs) = Inr dfac"
      "foldR (merge_dim lhs lhs rhs) dfac (nd_dims rhs) = Inr dfac'"
      "mk_NDSlice (map fst dfac') (map snd dfac') Inferred 0 = Inr m"
    by (auto simp: rbind_eq_Inr Let_def)
  have "\<forall>(d, f) \<in> set dfac. get_factor lhs d = Inr f"
    using mapR_set [OF f(1)] by (fastforce simp: rbind_eq_Inr)
  from merge_dims_left [OF f(2) this] have g: "\<forall>(d, f) \<in> set dfac'. get_factor lhs d = Inr f" .
  from bad mk_NDSlice_0(1) [OF f(3)] obtain x where "(-1, x) \<in> set dfac'" "1 < x"
    by (auto simp: zip_map_fst_snd)
  with g have "get_factor lhs (-1) = Inr x" by auto
  with L(1) \<open>1 < x\<close> show False by (auto simp: get_factor_def index_of_def rbind_eq_Inr)
qed

lemma matmul_column_cut_lost_witness:
  "\<exists>m. create_matmul_nd_slice_of_both \<lparr>nd_dims = [-2], nd_factors = [2], nd_spec = Explicit\<rparr>
         \<lparr>nd_dims = [-1], nd_factors = [4], nd_spec = Explicit\<rparr> = Inr m \<and> nd_dims m = [-2] \<and> -1 \<notin> set (nd_dims m)"
proof -
  let ?l = "\<lparr>nd_dims = [-2], nd_factors = [2], nd_spec = Explicit\<rparr>"
  let ?r = "\<lparr>nd_dims = [-1], nd_factors = [4], nd_spec = Explicit\<rparr>"
  let ?m = "\<lparr>nd_dims = [-2], nd_factors = [2], nd_spec = Inferred\<rparr>"
  have r: "create_matmul_nd_slice_of_both ?l ?r = Inr ?m" by code_simp
  from matmul_column_cut_lost [OF r] have "-1 \<notin> set (nd_dims ?m)" by simp
  with r show ?thesis by (intro exI [of _ ?m]) simp
qed

end
