(* ===== verification/Pass_Laws.thy ===== *)
theory Pass_Laws
  imports Pipeline Erase_Laws Slice_Laws
begin

text \<open>
  Laws of the passes: a search loop ends where nothing more is found and a rewriting loop where nothing more
  changes; the edges an operation is moved to are fed by inputs; the optimization loop ends where none of its
  passes has anything left to do; the selects that are fused take a dimension apart; the factors of a number.
\<close>

declare map_of_eq_Some_iff [simp del] Some_eq_map_of_iff [simp del] split_paired_All [simp del]
  split_paired_Ex [simp del]

section \<open>What a result ensures when there is one\<close>

definition ensures :: "('a \<Rightarrow> bool) \<Rightarrow> 'a result \<Rightarrow> bool" where
  "ensures P r \<longleftrightarrow> (\<forall>x. r = Inr x \<longrightarrow> P x)"

lemma ensuresI: "(\<And>x. r = Inr x \<Longrightarrow> P x) \<Longrightarrow> ensures P r"
  unfolding ensures_def by blast

lemma ensuresD: "ensures P r \<Longrightarrow> r = Inr x \<Longrightarrow> P x"
  unfolding ensures_def by blast

lemma ensures_simps [simp]: "ensures P (Inr x) \<longleftrightarrow> P x" "ensures P (Inl e)"
  by (simp_all add: ensures_def)

lemma ensures_bind: "(\<And>x. m = Inr x \<Longrightarrow> ensures P (f x)) \<Longrightarrow> ensures P (rbind m f)"
  by (cases m) simp_all

lemma ensures_after: "ensures Q m \<Longrightarrow> (\<And>x. m = Inr x \<Longrightarrow> Q x \<Longrightarrow> ensures P (f x)) \<Longrightarrow> ensures P (rbind m f)"
  by (cases m) simp_all

lemma ensures_if: "(b \<Longrightarrow> ensures P x) \<Longrightarrow> (\<not> b \<Longrightarrow> ensures P y) \<Longrightarrow> ensures P (if b then x else y)"
  by simp

lemma ensures_assert: "(b \<Longrightarrow> ensures P x) \<Longrightarrow> ensures P (tt_assert b x)"
  by (simp add: tt_assert_def)

lemma ensures_split: "(\<And>a b. p = (a, b) \<Longrightarrow> ensures P (f a b)) \<Longrightarrow> ensures P (case p of (a, b) \<Rightarrow> f a b)"
  by (cases p) simp

section \<open>Loops that stop when nothing is found\<close>

lemma until_none_flag: "until_none k seek act (st, True) = Inr (st', u') \<Longrightarrow> u'"
proof (induction k arbitrary: st)
  case 0
  then show ?case by (simp add: until_none.simps)
next
  case (Suc k)
  from Suc.prems show ?case
    by (auto simp: until_none.simps rbind_eq_Inr split: option.splits dest: Suc.IH)
qed

lemma until_none_done:
  "until_none k seek act (st, u) = Inr (st', u') \<Longrightarrow> seek st' = Inr None \<and> (\<not> u' \<longrightarrow> st' = st)"
proof (induction k arbitrary: st u)
  case 0
  then show ?case by (simp add: until_none.simps)
next
  case (Suc k)
  from Suc.prems obtain r where r: "seek st = Inr r"
    and rest: "(case r of None \<Rightarrow> Inr (st, u)
       | Some (i, x) \<Rightarrow> rbind (act i x st) (\<lambda>st'. until_none k seek act (st', True))) = Inr (st', u')"
    by (auto simp: until_none.simps rbind_eq_Inr)
  show ?case
  proof (cases r)
    case None
    with r rest show ?thesis by simp
  next
    case (Some ix)
    obtain i x where "ix = (i, x)" by (cases ix)
    with Some rest obtain s1 where s: "until_none k seek act (s1, True) = Inr (st', u')"
      by (auto simp: rbind_eq_Inr)
    from Suc.IH [OF s] until_none_flag [OF s] show ?thesis by blast
  qed
qed

lemma first_found_none:
  assumes "first_found c f is = Inr None" "i \<in> set is" "c i = Inr True"
  shows "f i = Inr None"
  using assms
  by (induction "is") (auto simp: rbind_eq_Inr split: if_splits option.splits)

lemma find_in_order_none:
  assumes "find_in_order names f st = Inr None"
  shows "\<exists>is. topo_order (fst st) (snd st) = Inr is \<and>
     (\<forall>i \<in> set is. movable_op names (snd st) i = Inr True \<longrightarrow> f st i = Inr None)"
  using assms first_found_none by (fastforce simp: find_in_order_def rbind_eq_Inr)

section \<open>Loops that stop when nothing changes\<close>

text \<open>A step that reports no change has made none.\<close>

definition honest :: "(GS \<Rightarrow> NodeId \<Rightarrow> (GS \<times> bool) result) \<Rightarrow> bool" where
  "honest f \<longleftrightarrow> (\<forall>st i st'. f st i = Inr (st', False) \<longrightarrow> st' = st)"

lemma honestI: "(\<And>st i st'. f st i = Inr (st', False) \<Longrightarrow> st' = st) \<Longrightarrow> honest f"
  unfolding honest_def by blast

lemma honestD: "honest f \<Longrightarrow> f st i = Inr (st', False) \<Longrightarrow> st' = st"
  unfolding honest_def by blast

lemma first_change_none:
  assumes "honest f"
  shows "first_change f st is = Inr (st', False) \<Longrightarrow> st' = st \<and> (\<forall>i \<in> set is. f st i = Inr (st, False))"
proof (induction "is" arbitrary: st)
  case Nil
  then show ?case by simp
next
  case (Cons i "is")
  from Cons.prems obtain s1 b where s: "f st i = Inr (s1, b)"
    "(if b then Inr (s1, True) else first_change f s1 is) = Inr (st', False)"
    by (auto simp: rbind_eq_Inr)
  from s(2) have b: "\<not> b" and r: "first_change f s1 is = Inr (st', False)" by (auto split: if_splits)
  from s(1) b have f: "f st i = Inr (s1, False)" by simp
  from honestD [OF assms f] have "s1 = st" .
  with f r Cons.IH [of st] show ?case by simp
qed

lemma change_until_none_flag: "change_until_none k f (st, True) = Inr (st', u') \<Longrightarrow> u'"
proof (induction k arbitrary: st)
  case 0
  then show ?case by (simp add: change_until_none.simps)
next
  case (Suc k)
  then show ?case by (auto simp: change_until_none.simps rbind_eq_Inr split: if_splits)
qed

lemma change_until_none_done:
  assumes "honest f"
  shows "change_until_none k f (st, u) = Inr (st', u') \<Longrightarrow>
    (\<exists>is. topo_order (fst st') (snd st') = Inr is \<and> (\<forall>i \<in> set is. f st' i = Inr (st', False))) \<and>
    (\<not> u' \<longrightarrow> st' = st)"
proof (induction k arbitrary: st u)
  case 0
  then show ?case by (simp add: change_until_none.simps)
next
  case (Suc k)
  from Suc.prems obtain "is" s1 b where s: "topo_order (fst st) (snd st) = Inr is"
    "first_change f st is = Inr (s1, b)"
    "(if b then change_until_none k f (s1, True) else Inr (s1, u)) = Inr (st', u')"
    by (auto simp: change_until_none.simps rbind_eq_Inr)
  show ?case
  proof (cases b)
    case True
    with s(3) have r: "change_until_none k f (s1, True) = Inr (st', u')" by simp
    from Suc.IH [OF r] change_until_none_flag [OF r] show ?thesis by blast
  next
    case False
    with s(2) have n: "first_change f st is = Inr (s1, False)" by simp
    from s(3) False have e: "st' = s1" by simp
    from first_change_none [OF assms n] e s(1) show ?thesis by auto
  qed
qed

lemma are_consecutive_reshape_honest:
  "are_consecutive_reshape ps e c st = Inr (st', False) \<Longrightarrow> st' = st"
  by (auto simp: are_consecutive_reshape_def rbind_eq_Inr split: if_splits)

lemma erase_reshape_at_honest: "honest (erase_reshape_at ps c)"
  by (rule honestI) (auto simp: erase_reshape_at_def rbind_eq_Inr split: if_splits
      dest: are_consecutive_reshape_honest)

lemma bypass_nop_at_honest: "honest (bypass_nop_at ps)"
  by (rule honestI) (auto simp: bypass_nop_at_def rbind_eq_Inr split: if_splits)
section \<open>The passes at their end\<close>

text \<open>C8: when the pass returns, no operation is left for which an edge of an input is found; no change is
  reported only when nothing was changed.\<close>

theorem insert_inverse_on_inputs_done:
  assumes "insert_inverse_on_inputs fuel ps st = Inr (st', changed)"
  shows "\<exists>is. topo_order (fst st') (snd st') = Inr is \<and>
     (\<forall>i \<in> set is. movable_op {''reshape'', ''transpose''} (snd st') i = Inr True \<longrightarrow>
        (\<exists>n s. deref (snd st') i = Inr n \<and> shape_of_only_operand (ps_shape ps) st' i = Inr s \<and>
               all_edges_to_input_nodes_commutable (node_fuel st') st' i (node_shape n, s) = Inr [])) \<and>
     (\<not> changed \<longrightarrow> st' = st)"
proof -
  from until_none_done [OF assms [unfolded insert_inverse_on_inputs_def]]
  have n: "find_in_order {''reshape'', ''transpose''} (input_edges_of (ps_shape ps)) st' = Inr None"
    and c: "\<not> changed \<longrightarrow> st' = st" by auto
  have e: "\<exists>n s. deref (snd st') i = Inr n \<and> shape_of_only_operand (ps_shape ps) st' i = Inr s \<and>
               all_edges_to_input_nodes_commutable (node_fuel st') st' i (node_shape n, s) = Inr []"
    if "input_edges_of (ps_shape ps) st' i = Inr None" for i
    using that by (auto simp: input_edges_of_def rbind_eq_Inr split: if_splits)
  from find_in_order_none [OF n] e c show ?thesis by blast
qed

text \<open>when the pass returns, no operation is left for which an edge of an output is found; no change is
  reported only when nothing was changed.\<close>

theorem insert_inverse_on_outputs_done:
  assumes "insert_inverse_on_outputs fuel ps st = Inr (st', changed)"
  shows "\<exists>is. topo_order (fst st') (snd st') = Inr is \<and>
     (\<forall>i \<in> set is. movable_op {''reshape'', ''transpose''} (snd st') i = Inr True \<longrightarrow>
        (\<exists>s found. shape_of_only_operand (ps_shape ps) st' i = Inr s \<and>
               find_commutable_output_edge (node_fuel st') (ps_shape ps) st' i s = Inr (found, None))) \<and>
     (\<not> changed \<longrightarrow> st' = st)"
proof -
  from until_none_done [OF assms [unfolded insert_inverse_on_outputs_def]]
  have n: "find_in_order {''reshape'', ''transpose''} (output_edge_of (ps_shape ps)) st' = Inr None"
    and c: "\<not> changed \<longrightarrow> st' = st" by auto
  have e: "\<exists>s found. shape_of_only_operand (ps_shape ps) st' i = Inr s \<and>
               find_commutable_output_edge (node_fuel st') (ps_shape ps) st' i s = Inr (found, None)"
    if "output_edge_of (ps_shape ps) st' i = Inr None" for i
    using that by (auto simp: output_edge_of_def rbind_eq_Inr)
  from find_in_order_none [OF n] e c show ?thesis by blast
qed

text \<open>C13: when the pass returns, a reshape or narrow with users that is left takes an input, which the pass
  leaves alone, or changes the shape of its first operand.\<close>

theorem bypass_nop_tms_done:
  assumes "bypass_nop_tms fuel ps st = Inr st'"
  shows "\<exists>is. topo_order (fst st') (snd st') = Inr is \<and>
     (\<forall>i \<in> set is. \<forall>n. user_data_edges any_edge (snd st') i \<noteq> Inr [] \<longrightarrow> deref (snd st') i = Inr n \<longrightarrow>
        is_reshape_op n \<or> is_narrow n \<longrightarrow>
        (\<exists>m. first_operand_node (snd st') i = Inr m \<and>
             (node_type m = kInput \<or> \<not> shape_eq (node_shape m) (node_shape n))))"
proof -
  from assms obtain u where r: "change_until_none fuel (bypass_nop_at ps) (st, False) = Inr (st', u)"
    by (auto simp: bypass_nop_tms_def rbind_eq_Inr)
  have e: "\<exists>m. first_operand_node (snd st') i = Inr m \<and> (node_type m = kInput \<or> \<not> shape_eq (node_shape m) (node_shape n))"
    if f: "bypass_nop_at ps st' i = Inr (st', False)" "user_data_edges any_edge (snd st') i \<noteq> Inr []"
      and n: "deref (snd st') i = Inr n" "is_reshape_op n \<or> is_narrow n" for i n
  proof -
    from f have "is_nop_reshape st' i = Inr False" "is_nop_narrow st' i = Inr False"
      by (auto simp: bypass_nop_at_def rbind_eq_Inr split: if_splits)
    with n have "keeps_operand_shape st' i = Inr False"
      by (auto simp: is_nop_reshape_def is_nop_narrow_def split: if_splits)
    with n show ?thesis by (auto simp: keeps_operand_shape_def rbind_eq_Inr)
  qed
  from change_until_none_done [OF bypass_nop_at_honest r] e show ?thesis by blast
qed

text \<open>The tests of \<open>erase_consecutive_reshape\<close> on a node that stays.\<close>

theorem erase_consecutive_reshape_done:
  assumes "erase_consecutive_reshape fuel ps c st = Inr (st', changed)"
  shows "(\<exists>is. topo_order (fst st') (snd st') = Inr is \<and>
      (\<forall>i \<in> set is. \<forall>e n a. user_data_edges any_edge (snd st') i = Inr [e] \<longrightarrow> deref (snd st') i = Inr n \<longrightarrow>
         \<not> has_tag ''dont_erase'' n \<longrightarrow> edge_attr (fst st') (snd st') e = Inr a \<longrightarrow> \<not> has_broadcast_dims a \<longrightarrow>
         are_consecutive_reshape ps e c st' = Inr (st', False) \<and> is_nop_reshape st' i = Inr False)) \<and>
     (\<not> changed \<longrightarrow> st' = st)"
proof -
  have e: "are_consecutive_reshape ps e c st' = Inr (st', False) \<and> is_nop_reshape st' i = Inr False"
    if "erase_reshape_at ps c st' i = Inr (st', False)" "user_data_edges any_edge (snd st') i = Inr [e]"
      "deref (snd st') i = Inr n" "\<not> has_tag ''dont_erase'' n" "edge_attr (fst st') (snd st') e = Inr a"
      "\<not> has_broadcast_dims a" for i e n a
    using that by (auto simp: erase_reshape_at_def rbind_eq_Inr split: if_splits dest: are_consecutive_reshape_honest)
  from change_until_none_done [OF erase_reshape_at_honest assms [unfolded erase_consecutive_reshape_def]] e
  show ?thesis by blast
qed
section \<open>The search for patterns changes nothing it does not report\<close>

lemma incommutable_reduce_honest:
  "is_incommutable_reduce_avg_reduce_avg_bcast_on_incommutable_dim k i cs cl st = Inr (st', False) \<Longrightarrow> st' = st"
  by (auto simp: is_incommutable_reduce_avg_reduce_avg_bcast_on_incommutable_dim_def rbind_eq_Inr
      split: option.splits)

lemma attempt_replace_pattern_honest:
  "attempt_replace_pattern k ps i op cs cl up st = Inr (st', False) \<Longrightarrow> st' = st"
  by (auto simp: attempt_replace_pattern_def attempt_replace_downward_pattern_def
      attempt_replace_upward_pattern_def rbind_eq_Inr dest: incommutable_reduce_honest split: if_splits)

definition honest_search :: "pattern_search \<Rightarrow> bool" where
  "honest_search go \<longleftrightarrow> (\<forall>st s p i st'. go st s p i = Inr (st', False) \<longrightarrow> st' = st)"

lemma pattern_fork_honest:
  assumes "honest_search go"
  shows "foldR (pattern_fork go i cs op) (st, b) js = Inr (st', False) \<Longrightarrow> st' = st \<and> \<not> b"
proof (induction js arbitrary: st b)
  case Nil
  then show ?case by simp
next
  case (Cons j js)
  from Cons.prems obtain s1 b1 where f: "pattern_fork go i cs op (st, b) j = Inr (s1, b1)"
    and r: "foldR (pattern_fork go i cs op) (s1, b1) js = Inr (st', False)"
    by (auto simp: rbind_eq_Inr)
  from Cons.IH [OF r] have e: "st' = s1" "\<not> b1" by auto
  from f e(2) show ?case
    using assms e(1) by (auto simp: pattern_fork_def rbind_eq_Inr honest_search_def split: if_splits)
qed

text \<open>The same for a result, rule by rule.\<close>

abbreviation stays :: "GS \<Rightarrow> (GS \<times> bool) result \<Rightarrow> bool" where
  "stays st \<equiv> ensures (\<lambda>r. \<not> snd r \<longrightarrow> fst r = st)"

lemma staysI: "(\<And>st'. r = Inr (st', False) \<Longrightarrow> st' = st) \<Longrightarrow> stays st r"
  by (rule ensuresI) (metis (full_types) prod.collapse)

lemma staysD: "stays st r \<Longrightarrow> r = Inr (st', False) \<Longrightarrow> st' = st"
  unfolding ensures_def by auto

lemma stays_then:
  assumes "stays st m" "\<And>s. stays st (f (s, True))" "stays st (f (st, False))"
  shows "stays st (rbind m f)"
proof (rule ensures_after [OF assms(1)])
  fix x assume "m = Inr x" "\<not> snd x \<longrightarrow> fst x = st"
  then show "stays st (f x)" using assms(2, 3) by (cases x; cases "snd x") auto
qed

lemma pattern_visit_honest:
  assumes "honest_search go"
  shows "honest_search (pattern_visit go k ps up i)"
proof -
  have go: "stays st (go st s p j)" for st s p j
    using assms by (intro staysI) (auto simp: honest_search_def)
  have fork: "stays st (foldR (pattern_fork go i cs op) (st, False) js)" for st cs op js
    using pattern_fork_honest [OF assms] by (intro staysI) blast
  have replace: "stays st (attempt_replace_pattern k ps i op cs cl up st)" for op cs cl st
    by (rule staysI, rule attempt_replace_pattern_honest)
  have "stays st (pattern_visit go k ps up i st s p op)" for st s p op
    unfolding pattern_visit_def
    by (rule allI impI stays_then [OF fork] fork go replace ensures_if ensures_bind
        | simp add: split_beta split: option.split)+
  then show ?thesis unfolding honest_search_def by (blast dest: staysD)
qed

lemma find_pattern_honest: "honest_search (find_pattern k ps up i)"
proof (induction k)
  case 0
  show ?case by (simp add: honest_search_def)
next
  case (Suc k)
  then show ?case using pattern_visit_honest by simp
qed

lemma find_and_replace_honest:
  "find_and_replace_incommutable_patterns k ps i cs up st = Inr (st', False) \<Longrightarrow> st' = st"
  using find_pattern_honest
  by (auto simp: find_and_replace_incommutable_patterns_def rbind_eq_Inr honest_search_def)

lemma replace_first_pattern_stays: "stays st (replace_first_pattern ps st is)"
proof (induction "is" arbitrary: st)
  case Nil
  show ?case by simp
next
  case (Cons i "is")
  have r: "stays st (find_and_replace_incommutable_patterns k ps i cs up st)" for k cs up st
    by (rule staysI, rule find_and_replace_honest)
  show ?case
    unfolding replace_first_pattern.simps
    by (rule Cons.IH stays_then [OF r] ensures_if ensures_bind | simp)+
qed

lemma replace_incommutable_patterns_honest:
  "replace_incommutable_patterns ps st = Inr (st', False) \<Longrightarrow> st' = st"
  by (auto simp: replace_incommutable_patterns_def rbind_eq_Inr dest: staysD [OF replace_first_pattern_stays])

section \<open>The end of the optimization loop\<close>

lemma erase_inverse_ops_honest: "erase_inverse_ops k ps (st, u) = Inr (st', False) \<Longrightarrow> st' = st \<and> \<not> u"
proof -
  have flag: "erase_inverse_ops j ps (s1, True) = Inr (s2, c) \<Longrightarrow> c" for j s1 s2 c
    by (induction j arbitrary: s1) (auto simp: erase_inverse_ops.simps rbind_eq_Inr split: if_splits)
  show "erase_inverse_ops k ps (st, u) = Inr (st', False) \<Longrightarrow> st' = st \<and> \<not> u"
    by (cases k) (auto simp: erase_inverse_ops.simps rbind_eq_Inr split: if_splits dest: flag)
qed

lemma insert_inverse_honest:
  "insert_inverse_on_outputs k ps st = Inr (st', False) \<Longrightarrow> st' = st"
  "insert_inverse_on_inputs k ps st = Inr (st', False) \<Longrightarrow> st' = st"
  "insert_inverse_on_downstream_tms ps st = Inr (st', False) \<Longrightarrow> st' = st"
  by (auto simp: insert_inverse_on_outputs_def insert_inverse_on_inputs_def insert_inverse_on_downstream_tms_def
      rbind_eq_Inr dest: until_none_done split: option.splits)

lemma erase_consecutive_reshape_honest:
  "erase_consecutive_reshape k ps c st = Inr (st', False) \<Longrightarrow> st' = st"
  using change_until_none_done [OF erase_reshape_at_honest]
  unfolding erase_consecutive_reshape_def by blast

text \<open>The state in which every pass of the loop was tried last, in vain.\<close>

definition nothing_left :: "nat \<Rightarrow> Pass \<Rightarrow> GS \<Rightarrow> bool" where
  "nothing_left fuel ps t \<longleftrightarrow>
     erase_inverse_ops fuel ps (t, False) = Inr (t, False) \<and>
     insert_inverse_on_outputs fuel ps t = Inr (t, False) \<and>
     insert_inverse_on_inputs fuel ps t = Inr (t, False) \<and>
     insert_inverse_on_downstream_tms ps t = Inr (t, False) \<and>
     replace_incommutable_patterns ps t = Inr (t, False) \<and>
     erase_consecutive_reshape fuel ps True t = Inr (t, False)"

lemma or_else_False:
  assumes "or_else f r = Inr r'" "\<not> snd r'" "\<And>st st'. f st = Inr (st', False) \<Longrightarrow> st' = st"
  shows "\<not> snd r \<and> f (fst r) = Inr (fst r, False) \<and> r' = (fst r, False)"
proof (cases "snd r")
  case True
  with assms(1, 2) show ?thesis by (simp add: or_else_def)
next
  case False
  with assms(1) have f: "f (fst r) = Inr r'" by (simp add: or_else_def)
  with assms(2) have "f (fst r) = Inr (fst r', False)" by (metis (full_types) prod.collapse)
  with assms(3) [OF this] f False show ?thesis by simp
qed

lemma optimize_round_done:
  assumes "optimize_round fuel bag ps st = Inr (st', False)"
  shows "\<exists>t. hoist_unsqueeze_squeeze_to_reshape bag (ps_shape ps) st = Inr t \<and> nothing_left fuel ps t \<and>
     bypass_nop_tms fuel ps t = Inr st'"
proof -
  from assms obtain t r1 r2 r3 r4 r5 where
    t: "hoist_unsqueeze_squeeze_to_reshape bag (ps_shape ps) st = Inr t" and
    r1: "erase_inverse_ops fuel ps (t, False) = Inr r1" and
    r2: "or_else (insert_inverse_on_outputs fuel ps) r1 = Inr r2" and
    r3: "or_else (insert_inverse_on_inputs fuel ps) r2 = Inr r3" and
    r4: "or_else (insert_inverse_on_downstream_tms ps) r3 = Inr r4" and
    r5: "or_else (replace_incommutable_patterns ps) r4 = Inr r5" and
    rest: "(if \<not> snd r1 \<and> snd r2 \<or> \<not> snd r3 \<and> snd r4 then Inr r5
       else
         rbind (or_else (erase_consecutive_reshape fuel ps True) r5) (\<lambda>r6.
         rbind (bypass_nop_tms fuel ps (fst r6)) (\<lambda>st7. Inr (st7, snd r6)))) = Inr (st', False)"
    unfolding optimize_round_def rbind_eq_Inr by blast
  have skip: "snd r2 \<Longrightarrow> snd r5" "snd r4 \<Longrightarrow> snd r5"
    using r3 r4 r5 by (auto simp: or_else_def split: if_splits)
  from rest skip obtain r6 where r6: "or_else (erase_consecutive_reshape fuel ps True) r5 = Inr r6"
    and b: "bypass_nop_tms fuel ps (fst r6) = Inr st'" and f: "\<not> snd r6"
    by (auto simp: rbind_eq_Inr split: if_splits)
  have step: "\<not> snd q \<and> f (fst q) = Inr (fst q, False) \<and> q' = (fst q, False)"
    if "or_else f q = Inr q'" "\<not> snd q'" "\<And>st st'. f st = Inr (st', False) \<Longrightarrow> st' = st" for f q q'
    using or_else_False that by blast
  have s6: "\<not> snd r5 \<and> erase_consecutive_reshape fuel ps True (fst r5) = Inr (fst r5, False) \<and> r6 = (fst r5, False)"
    by (rule step [OF r6 f erase_consecutive_reshape_honest])
  then have f5: "\<not> snd r5" by simp
  have s5: "\<not> snd r4 \<and> replace_incommutable_patterns ps (fst r4) = Inr (fst r4, False) \<and> r5 = (fst r4, False)"
    by (rule step [OF r5 f5 replace_incommutable_patterns_honest])
  then have f4: "\<not> snd r4" by simp
  have s4: "\<not> snd r3 \<and> insert_inverse_on_downstream_tms ps (fst r3) = Inr (fst r3, False) \<and> r4 = (fst r3, False)"
    by (rule step [OF r4 f4 insert_inverse_honest(3)])
  then have f3: "\<not> snd r3" by simp
  have s3: "\<not> snd r2 \<and> insert_inverse_on_inputs fuel ps (fst r2) = Inr (fst r2, False) \<and> r3 = (fst r2, False)"
    by (rule step [OF r3 f3 insert_inverse_honest(2)])
  then have f2: "\<not> snd r2" by simp
  have s2: "\<not> snd r1 \<and> insert_inverse_on_outputs fuel ps (fst r1) = Inr (fst r1, False) \<and> r2 = (fst r1, False)"
    by (rule step [OF r2 f2 insert_inverse_honest(1)])
  from s2 have q1: "r1 = (fst r1, False)" by (metis (full_types) prod.collapse)
  with r1 have "erase_inverse_ops fuel ps (t, False) = Inr (fst r1, False)" by simp
  from erase_inverse_ops_honest [OF this] have "fst r1 = t" by simp
  with q1 have "r1 = (t, False)" by simp
  with r1 s2 s3 s4 s5 s6 have "nothing_left fuel ps t \<and> fst r6 = t" by (simp add: nothing_left_def)
  with t b show ?thesis by auto
qed

text \<open>C1: when the loop returns, its last round came after rounds that each reported a change. In it, once
  squeezes and unsqueezes around reshapes were rewritten, none of the six passes that can ask for another
  round found anything to change: inverse operations to erase or to insert at outputs, at inputs or in front
  of reshapes, patterns to replace, consecutive reshapes. The result is that graph without the operations
  that do nothing. The rewriting of squeezes and unsqueezes does not ask for another round itself, so
  something may be left for it.\<close>

theorem optimize_loop_done:
  assumes "optimize_loop k fuel bag ps st = Inr st'"
  shows "\<exists>s t. (st, s) \<in> {(a, b). optimize_round fuel bag ps a = Inr (b, True)}\<^sup>* \<and>
     hoist_unsqueeze_squeeze_to_reshape bag (ps_shape ps) s = Inr t \<and>
     erase_inverse_ops fuel ps (t, False) = Inr (t, False) \<and>
     insert_inverse_on_outputs fuel ps t = Inr (t, False) \<and>
     insert_inverse_on_inputs fuel ps t = Inr (t, False) \<and>
     insert_inverse_on_downstream_tms ps t = Inr (t, False) \<and>
     replace_incommutable_patterns ps t = Inr (t, False) \<and>
     erase_consecutive_reshape fuel ps True t = Inr (t, False) \<and>
     bypass_nop_tms fuel ps t = Inr st'"
proof -
  let ?round = "{(a, b). optimize_round fuel bag ps a = Inr (b, True)}"
  from assms have "\<exists>s t. (st, s) \<in> ?round\<^sup>* \<and>
      hoist_unsqueeze_squeeze_to_reshape bag (ps_shape ps) s = Inr t \<and> nothing_left fuel ps t \<and> bypass_nop_tms fuel ps t = Inr st'"
  proof (induction k arbitrary: st)
    case 0
    then show ?case by (simp add: optimize_loop.simps)
  next
    case (Suc k)
    then obtain s1 b where "optimize_round fuel bag ps st = Inr (s1, b)"
      "(if b then optimize_loop k fuel bag ps s1 else Inr s1) = Inr st'"
      by (auto simp: optimize_loop.simps rbind_eq_Inr)
    note r = this
    show ?case
    proof (cases b)
      case True
      with r(2) have "optimize_loop k fuel bag ps s1 = Inr st'" by simp
      moreover from r(1) True have "(st, s1) \<in> ?round" by simp
      ultimately show ?thesis using Suc.IH converse_rtrancl_into_rtrancl by meson
    next
      case False
      with r have "optimize_round fuel bag ps st = Inr (st', False)" by simp
      from optimize_round_done [OF this] show ?thesis by (blast intro: rtrancl_refl)
    qed
  qed
  then show ?thesis unfolding nothing_left_def by blast
qed

section \<open>The edges of inputs an operation is moved to\<close>

text \<open>The operations above: what feeds an operation is above it.\<close>

definition operand_of :: "Graph \<Rightarrow> (NodeId \<times> NodeId) set" where
  "operand_of g = {(j, k). \<exists>os. data_operands g k = Inr os \<and> j \<in> set os}"

text \<open>The first operand edge of an operation above, which is fed by an input and can be passed to it.\<close>

definition input_edge_sound :: "GS \<Rightarrow> NodeId \<Rightarrow> IOEdgeInfo \<Rightarrow> bool" where
  "input_edge_sound st i x \<longleftrightarrow> (case x of (e, cs, cl) \<Rightarrow>
     \<exists>op os n sh. op \<noteq> i \<and> (op, i) \<in> (operand_of (snd st))\<^sup>* \<and> first_data_operand_edge (snd st) op = Inr e \<and>
       data_operands (snd st) op = Inr os \<and> os \<noteq> [] \<and> deref (snd st) (os ! 0) = Inr n \<and> input_part n \<noteq> None \<and>
       can_commute_past_op op i (snd st) True (Some (os ! 0)) sh = Inr (True, cs, Some cl))"

lemma input_forks_sound:
  assumes "\<And>sh p j. j \<in> set is \<Longrightarrow> ensures (\<lambda>es. \<forall>x \<in> set es. P x) (go sh p j)" "\<forall>x \<in> set acc. P x"
  shows "ensures (\<lambda>r. \<forall>x \<in> set (snd r). P x) (input_forks go st i shapes op is acc)"
  using assms
proof (induction "is" arbitrary: acc)
  case Nil
  then show ?case by simp
next
  case (Cons j "is")
  have go: "ensures (\<lambda>es. \<forall>x \<in> set es. P x) (go sh p j)" for sh p using Cons.prems(1) by simp
  have rest: "ensures (\<lambda>r. \<forall>x \<in> set (snd r). P x) (input_forks go st i shapes op is acc)"
    if "\<forall>x \<in> set acc. P x" for acc using Cons.IH Cons.prems(1) that by simp
  show ?case
    unfolding input_forks.simps
    by (rule ensures_after [OF go] ensures_split ensures_if ensures_bind rest | use Cons.prems(2) in auto)+
qed

lemma operand_of_above:
  assumes "data_operands g op = Inr os" "j \<in> set os" "(op, i) \<in> (operand_of g)\<^sup>*"
  shows "(j, i) \<in> (operand_of g)\<^sup>*"
  using assms by (auto simp: operand_of_def intro: converse_rtrancl_into_rtrancl)

lemma input_step_sound:
  assumes op: "(op, i) \<in> (operand_of (snd st))\<^sup>*"
    and go: "\<And>sh p j. (j, i) \<in> (operand_of (snd st))\<^sup>* \<Longrightarrow>
          ensures (\<lambda>es. \<forall>x \<in> set es. input_edge_sound st i x) (go sh p j)"
    and up: "\<And>acc sh p j. (j, i) \<in> (operand_of (snd st))\<^sup>* \<Longrightarrow> \<forall>x \<in> set acc. input_edge_sound st i x \<Longrightarrow>
          ensures (\<lambda>es. \<forall>x \<in> set es. input_edge_sound st i x) (next_up acc sh p j)"
    and acc: "\<forall>x \<in> set acc. input_edge_sound st i x"
  shows "ensures (\<lambda>es. \<forall>x \<in> set es. input_edge_sound st i x) (input_step next_up go st i acc shapes p op)"
proof -
  have forks: "ensures (\<lambda>r. \<forall>x \<in> set (snd r). input_edge_sound st i x) (input_forks go st i shapes op (tl os) acc)"
    if "data_operands (snd st) op = Inr os" for os
  proof (rule input_forks_sound [OF go acc])
    fix j assume "j \<in> set (tl os)"
    then have "j \<in> set os" by (cases os) auto
    with that op show "(j, i) \<in> (operand_of (snd st))\<^sup>*" by (auto intro: operand_of_above)
  qed
  show ?thesis
    unfolding input_step_def
    apply (rule ensures_bind ensures_assert)+
    apply (rule ensures_if)
    apply simp
    apply (rule ensures_bind)
    apply (rule ensures_after [OF forks], assumption)
    apply (rule ensures_split ensures_bind)+
    apply (rule ensures_if)
    apply (rule ensures_bind)
    using op apply (auto simp: vec_at_eq_Inr of_opt_eq_Inr input_edge_sound_def; fail)
    apply (rule ensures_if, simp)
    apply (rule ensures_if, simp)
    apply (rule up)
    using op apply (auto simp: vec_at_eq_Inr intro: operand_of_above; fail)
    by simp
qed

lemma input_edges_up_sound:
  "(op, i) \<in> (operand_of (snd st))\<^sup>* \<Longrightarrow> \<forall>x \<in> set acc. input_edge_sound st i x \<Longrightarrow>
   ensures (\<lambda>es. \<forall>x \<in> set es. input_edge_sound st i x) (input_edges_up k st i acc shapes p op)"
proof (induction k arbitrary: acc shapes p op)
  case 0
  then show ?case by simp
next
  case (Suc k)
  have go: "ensures (\<lambda>es. \<forall>x \<in> set es. input_edge_sound st i x) (unless_output st i (input_edges_up k st i []) sh q j)"
    if "(j, i) \<in> (operand_of (snd st))\<^sup>*" for sh q j
    unfolding unless_output_def using Suc.IH [OF that, of "[]" sh q] by (auto intro!: ensures_bind)
  show ?case
    unfolding input_edges_up.simps by (rule input_step_sound [OF Suc.prems(1) go Suc.IH Suc.prems(2)])
qed

text \<open>C9: every edge found for an operation is the first operand edge of another operation above it, is fed
  by an input, and carries the shapes with which that operation can be passed.\<close>

theorem input_edges_sound:
  assumes "all_edges_to_input_nodes_commutable fuel st i shapes = Inr es" "(e, cs, cl) \<in> set es"
  shows "\<exists>op os n sh. op \<noteq> i \<and> (op, i) \<in> (operand_of (snd st))\<^sup>* \<and> first_data_operand_edge (snd st) op = Inr e \<and>
       data_operands (snd st) op = Inr os \<and> os \<noteq> [] \<and> deref (snd st) (os ! 0) = Inr n \<and> input_part n \<noteq> None \<and>
       can_commute_past_op op i (snd st) True (Some (os ! 0)) sh = Inr (True, cs, Some cl)"
proof -
  from assms have "input_edges_up fuel st i [] shapes None i = Inr es"
    by (auto simp: all_edges_to_input_nodes_commutable_def unless_output_def rbind_eq_Inr split: if_splits)
  from ensuresD [OF input_edges_up_sound this] assms(2) have "input_edge_sound st i (e, cs, cl)" by auto
  then show ?thesis by (simp add: input_edge_sound_def)
qed
section \<open>Selects that take a dimension apart\<close>

text \<open>The indices of a select.\<close>

definition select_indices :: "int \<times> int \<Rightarrow> int list" where
  "select_indices r = [fst r..fst r + snd r - 1]"

lemma select_indices_upt: "select_indices (s, l) = map (\<lambda>k. s + int k) [0..<nat l]"
  by (rule nth_equalityI) (auto simp: select_indices_def)

lemma count_step:
  "rbind (int_index cs j) (\<lambda>c. int_update cs j (Suc c)) = Inr cs' \<longleftrightarrow>
     0 \<le> j \<and> j < int (length cs) \<and> cs' = cs[nat j := Suc (cs ! nat j)]"
  by (auto simp: int_index_def int_update_def rbind_eq_Inr req_eq_Inr vec_at_eq_Inr vec_set_def split: if_splits)

definition count_index :: "nat list \<Rightarrow> int \<Rightarrow> nat list result" where
  "count_index cs j = rbind (int_index cs j) (\<lambda>c. int_update cs j (Suc c))"

lemma foldR_map: "foldR f s (map h xs) = foldR (\<lambda>s x. f s (h x)) s xs"
proof (induction xs arbitrary: s)
  case (Cons x xs)
  then show ?case by (cases "f s (h x)") auto
qed simp

lemma count_range_eq: "count_range cs r = foldR count_index cs (select_indices r)"
  by (cases r) (simp add: count_range_def select_indices_upt foldR_map count_index_def)

lemma foldR_concat: "foldR (\<lambda>s x. foldR f s (h x)) s xs = foldR f s (concat (map h xs))"
proof (induction xs arbitrary: s)
  case (Cons x xs)
  then show ?case by (cases "foldR f s (h x)") (auto simp: foldR_append)
qed simp

lemma count_indices:
  "foldR count_index cs js = Inr cs' \<longleftrightarrow>
     (\<forall>j \<in> set js. 0 \<le> j \<and> j < int (length cs)) \<and>
     cs' = map (\<lambda>k. cs ! k + count_list js (int k)) [0..<length cs]"
proof (induction js arbitrary: cs)
  case Nil
  then show ?case by (auto simp: map_nth)
next
  case (Cons j js)
  have e: "foldR count_index cs (j # js) = Inr cs' \<longleftrightarrow>
      (0 \<le> j \<and> j < int (length cs)) \<and> foldR count_index (cs[nat j := Suc (cs ! nat j)]) js = Inr cs'"
    by (auto simp: rbind_eq_Inr count_step [folded count_index_def])
  have m: "map (\<lambda>k. cs[nat j := Suc (cs ! nat j)] ! k + count_list js (int k)) [0..<length cs] =
      map (\<lambda>k. cs ! k + count_list (j # js) (int k)) [0..<length cs]" if "0 \<le> j" "j < int (length cs)"
    using that by (auto simp: nth_list_update)
  show ?case unfolding e Cons.IH using m by auto
qed

lemma distinct_counts: "distinct xs \<longleftrightarrow> (\<forall>x \<in> set xs. count_list xs x = 1)"
proof (induction xs)
  case (Cons x xs)
  have "(\<forall>y \<in> set (x # xs). count_list (x # xs) y = 1) \<longleftrightarrow>
      x \<notin> set xs \<and> (\<forall>y \<in> set xs. count_list xs y = 1)"
    by (auto simp: count_list_0_iff split: if_splits)
  with Cons.IH show ?case by simp
qed simp

lemma counts_one:
  "(\<exists>cs. foldR count_index (replicate n 0) js = Inr cs \<and> list_all (\<lambda>c. c = 1) cs) \<longleftrightarrow>
     distinct js \<and> set js = int ` {..<n}"
proof -
  have "(\<exists>cs. foldR count_index (replicate n 0) js = Inr cs \<and> list_all (\<lambda>c. c = 1) cs) \<longleftrightarrow>
      (\<forall>j \<in> set js. 0 \<le> j \<and> j < int n) \<and> (\<forall>k < n. count_list js (int k) = 1)"
    by (auto simp: count_indices list_all_iff)
  also have "\<dots> \<longleftrightarrow> distinct js \<and> set js = int ` {..<n}"
  proof (intro iffI conjI)
    assume a: "(\<forall>j \<in> set js. 0 \<le> j \<and> j < int n) \<and> (\<forall>k < n. count_list js (int k) = 1)"
    have c: "count_list js j = 1" if "j \<in> set js" for j
    proof -
      from a that have "0 \<le> j" "nat j < n" by auto
      with a have "count_list js (int (nat j)) = 1" by blast
      with \<open>0 \<le> j\<close> show ?thesis by simp
    qed
    show s: "set js = int ` {..<n}"
    proof
      show "set js \<subseteq> int ` {..<n}"
      proof
        fix j assume "j \<in> set js"
        with a have "j = int (nat j)" "nat j < n" by auto
        then show "j \<in> int ` {..<n}" by blast
      qed
      show "int ` {..<n} \<subseteq> set js"
        using a by (metis count_list_0_iff image_subsetI lessThan_iff zero_neq_one)
    qed
    show "distinct js" using c by (simp add: distinct_counts)
  next
    assume a: "distinct js \<and> set js = int ` {..<n}"
    then show "\<forall>j \<in> set js. 0 \<le> j \<and> j < int n" by auto
    show "\<forall>k < n. count_list js (int k) = 1" using a by (auto simp: distinct_counts)
  qed
  finally show ?thesis .
qed

lemma sorted_concat_ranges:
  assumes "sorted (map fst rs)" "distinct (concat (map select_indices rs))"
  shows "sorted (concat (map select_indices rs))"
  using assms
proof (induction rs)
  case Nil
  then show ?case by simp
next
  case (Cons r rs)
  obtain s l where r: "r = (s, l)" by (cases r)
  have "x \<le> y" if x: "x \<in> set (select_indices r)" and q: "q \<in> set rs" and y: "y \<in> set (select_indices q)" for x y q
  proof (rule ccontr)
    assume n: "\<not> x \<le> y"
    have sq: "s \<le> fst q" using Cons.prems(1) q r by simp
    have "fst q \<le> y" "y < fst q + snd q" "s \<le> x" "x < s + l" using x y r by (auto simp: select_indices_def)
    with n sq have "fst q \<in> set (select_indices r)" "fst q \<in> set (select_indices q)"
      by (simp_all add: select_indices_def r)
    with Cons.prems(2) q show False by auto
  qed
  then show ?case using Cons by (auto simp: sorted_append select_indices_def)
qed

lemma selects_cover_eq:
  "selects_cover amount size_here rs = Inr True \<longleftrightarrow>
    amount = size_here \<and> sorted (map fst rs) \<and> concat (map select_indices rs) = map int [0..<unat amount]"
proof -
  let ?js = "concat (map select_indices rs)"
  have fold: "foldR count_range cs rs = foldR count_index cs ?js" for cs
    by (simp add: count_range_eq [abs_def] foldR_concat)
  have "selects_cover amount size_here rs = Inr True \<longleftrightarrow>
      amount = size_here \<and> sorted (map fst rs) \<and> distinct ?js \<and> set ?js = int ` {..<unat amount}"
    using counts_one [of "unat amount" ?js] by (auto simp: selects_cover_def rbind_eq_Inr fold)
  also have "\<dots> \<longleftrightarrow> amount = size_here \<and> sorted (map fst rs) \<and> ?js = map int [0..<unat amount]"
  proof (intro iffI conjI; elim conjE)
    assume a: "sorted (map fst rs)" "distinct ?js" "set ?js = int ` {..<unat amount}"
    have "sorted ?js" by (rule sorted_concat_ranges [OF a(1, 2)])
    moreover have "sorted (map int [0..<unat amount])" "distinct (map int [0..<unat amount])"
      by (simp_all add: sorted_iff_nth_mono distinct_map)
    moreover have "set (map int [0..<unat amount]) = set ?js" using a(3) by (simp add: atLeast0LessThan)
    ultimately show "?js = map int [0..<unat amount]" using a(2) by (metis sorted_distinct_set_unique)
  next
    assume a: "?js = map int [0..<unat amount]"
    show "distinct ?js" unfolding a by (simp add: distinct_map)
    show "set ?js = int ` {..<unat amount}" unfolding a by (simp add: atLeast0LessThan)
  qed simp_all
  finally show ?thesis .
qed

text \<open>The path ends in a select of the dimension \<open>d\<close> of size \<open>x\<close> of the node \<open>q\<close>.\<close>

definition selects_from :: "Graph \<Rightarrow> int \<Rightarrow> NodeId \<Rightarrow> u32 \<Rightarrow> PathOp list \<Rightarrow> bool" where
  "selects_from g d q x path \<longleftrightarrow> (\<exists>j u. select_of g path = Inr (j, u) \<and> op_name u = ''select'' \<and>
     legacy_int u 0 = Inr d \<and> legacy_int u 3 = Inr (sint x) \<and> first_data_operand g j = Inr q)"

lemma allR_True: "allR f xs = Inr True \<longleftrightarrow> (\<forall>x \<in> set xs. f x = Inr True)"
  by (induction xs) (auto simp: rbind_eq_Inr)

lemma select_like_first_eq:
  assumes "selects_from g d q x first" "deref g q = Inr n" "shape_at (node_shape n) d = Inr x"
  shows "select_like_first g d first path = Inr True \<longleftrightarrow> selects_from g d q x path"
proof -
  from assms obtain i t where f: "select_of g first = Inr (i, t)" "op_name t = ''select''" "legacy_int t 0 = Inr d"
    "legacy_int t 3 = Inr (sint x)" "first_data_operand g i = Inr q"
    unfolding selects_from_def by blast
  show ?thesis
  proof (cases "select_of g path")
    case (Inr r)
    obtain j u where "r = (j, u)" by (cases r)
    with Inr f assms show ?thesis
      by (auto simp: select_like_first_def selects_from_def rbind_eq_Inr)
  qed (use f in \<open>simp add: select_like_first_def selects_from_def\<close>)
qed

lemma select_like_first_self:
  assumes "select_like_first g d first first = Inr True"
  shows "\<exists>q n x. deref g q = Inr n \<and> shape_at (node_shape n) d = Inr x \<and> selects_from g d q x first"
  using assms by (auto simp: select_like_first_def selects_from_def rbind_eq_Inr split: if_splits) blast

text \<open>C12: the check for selects passes exactly when there is a path, every path ends in a select of the
  dimension of the concatenation from the same node, with that dimension as stride, the lengths add up to the
  dimension, the selects begin in order, and together they list its indices once each and in order.\<close>

theorem can_fuse_select_concat_correct:
  "can_fuse_select_concat g d paths = Inr True \<longleftrightarrow>
    paths \<noteq> [] \<and> (\<exists>q n x rs. deref g q = Inr n \<and> shape_at (node_shape n) d = Inr x \<and>
      (\<forall>path \<in> set paths. selects_from g d q x path) \<and> mapR (select_range g) paths = Inr rs \<and>
      sum_list (map (\<lambda>r. word_of_int (snd r)) rs) = x \<and> sorted (map fst rs) \<and>
      concat (map select_indices rs) = map int [0..<unat x])" (is "_ \<longleftrightarrow> ?R")
proof (cases paths)
  case Nil
  then show ?thesis by (simp add: can_fuse_select_concat_def)
next
  case (Cons first ps)
  define rest where "rest = (\<lambda>same. if \<not> same then Inr False
    else
      rbind (mapR (select_range g) paths) (\<lambda>rs.
      rbind (rbind (select_of g first) (\<lambda>(i, _). first_data_operand g i)) (\<lambda>p.
      rbind (rbind (deref g p) (\<lambda>n. shape_at (node_shape n) d)) (\<lambda>x.
        selects_cover (sum_list (map (\<lambda>(_, len). word_of_int len) rs)) x rs))))"
  have eq: "can_fuse_select_concat g d paths = rbind (allR (select_like_first g d first) paths) rest"
    unfolding can_fuse_select_concat_def rest_def Cons by simp
  have rest: "rest True = Inr True \<longleftrightarrow> (\<exists>rs. mapR (select_range g) paths = Inr rs \<and>
      sum_list (map (\<lambda>r. word_of_int (snd r)) rs) = x \<and> sorted (map fst rs) \<and>
      concat (map select_indices rs) = map int [0..<unat x])"
    if q: "deref g q = Inr n" "shape_at (node_shape n) d = Inr x" "selects_from g d q x first" for q n x
    using q by (auto simp: rest_def rbind_eq_Inr selects_cover_eq selects_from_def split_def)
  have all: "allR (select_like_first g d first) paths = Inr True \<longleftrightarrow> (\<forall>path \<in> set paths. selects_from g d q x path)"
    if q: "deref g q = Inr n" "shape_at (node_shape n) d = Inr x" "selects_from g d q x first" for q n x
    using select_like_first_eq [OF q(3, 1, 2)] by (simp add: allR_True)
  show ?thesis
  proof
    assume a: "can_fuse_select_concat g d paths = Inr True"
    have same: "allR (select_like_first g d first) paths = Inr True"
      using a by (auto simp: eq rbind_eq_Inr rest_def split: if_splits)
    with select_like_first_self [of g d first] obtain q n x where
      q: "deref g q = Inr n" "shape_at (node_shape n) d = Inr x" "selects_from g d q x first"
      by (auto simp: Cons allR_True simp del: allR.simps)
    from a same have "rest True = Inr True" by (simp add: eq)
    with rest [OF q] all [OF q] same q show ?R by (simp add: Cons) blast
  next
    assume ?R
    then obtain q n x rs where r: "deref g q = Inr n" "shape_at (node_shape n) d = Inr x"
      "\<forall>path \<in> set paths. selects_from g d q x path"
      "mapR (select_range g) paths = Inr rs" "sum_list (map (\<lambda>r. word_of_int (snd r)) rs) = x"
      "sorted (map fst rs)" "concat (map select_indices rs) = map int [0..<unat x]" by blast
    from r(3) have f: "selects_from g d q x first" by (simp add: Cons)
    from rest [OF r(1, 2) f] all [OF r(1, 2) f] r show "can_fuse_select_concat g d paths = Inr True"
      by (simp add: eq)
  qed
qed

section \<open>The factors of a number\<close>

definition prime_number :: "nat \<Rightarrow> bool" where
  "prime_number p \<longleftrightarrow> 1 < p \<and> (\<forall>d. d dvd p \<longrightarrow> d = 1 \<or> d = p)"

lemma quotient_pos: "0 < (n :: nat) \<Longrightarrow> n mod i = 0 \<Longrightarrow> 0 < n div i"
  by (metis dvd_div_eq_0_iff gr0I mod_0_imp_dvd neq0_conv)

text \<open>The loops take out one divisor as often as it goes in.\<close>

lemma divide_out_correct:
  assumes "1 < i" "0 < n" "divide_out i n = (fs, m)"
  shows "n = prod_list fs * m \<and> set fs \<subseteq> {i} \<and> (fs \<noteq> [] \<longrightarrow> i dvd n) \<and> 0 < m \<and> \<not> i dvd m"
  using assms
proof (induction i n arbitrary: fs m rule: divide_out.induct)
  case (1 i n)
  show ?case
  proof (cases "n mod i = 0")
    case True
    obtain fs' m' where r: "divide_out i (n div i) = (fs', m')" by (cases "divide_out i (n div i)")
    from 1(4) r True 1(2, 3) have e: "fs = i # fs'" "m = m'" by (simp_all add: divide_out.simps [of i n])
    from True 1(2, 3) have d: "i * (n div i) = n" "0 < n div i" by (auto simp: quotient_pos mod_0_imp_dvd)
    from 1 True d(2) r have "n div i = prod_list fs' * m' \<and> set fs' \<subseteq> {i} \<and> 0 < m' \<and> \<not> i dvd m'" by simp
    with d e True show ?thesis by (auto simp: mod_eq_0_iff_dvd)
  next
    case False
    with 1 show ?thesis by (auto simp: divide_out.simps [of i n] mod_eq_0_iff_dvd)
  qed
qed

lemma halve_out_divide: "0 < n \<Longrightarrow> halve_out n = divide_out 2 n"
proof (induction n rule: halve_out.induct)
  case (1 n)
  then show ?case
    by (cases "n mod 2 = 0") (auto simp: halve_out.simps [of n] divide_out.simps [of 2 n] quotient_pos)
qed

text \<open>No divisor between 1 and \<open>i\<close> is left.\<close>

definition free_below :: "nat \<Rightarrow> nat \<Rightarrow> bool" where
  "free_below i m \<longleftrightarrow> (\<forall>d. d dvd m \<longrightarrow> 1 < d \<longrightarrow> i \<le> d)"

lemma prime_if_free_below:
  assumes "free_below i p" "1 < i" "i dvd p" "d dvd i"
  shows "d = 1 \<or> d = i"
proof (rule ccontr)
  assume n: "\<not> (d = 1 \<or> d = i)"
  from assms have "d dvd p" by (blast intro: dvd_trans)
  moreover from assms n have "d \<le> i" "d \<noteq> 0" by (auto dest: dvd_imp_le)
  ultimately show False using assms(1) n by (auto simp: free_below_def)
qed

lemma free_below_dvd: "free_below i m \<Longrightarrow> k dvd m \<Longrightarrow> free_below i k"
  by (auto simp: free_below_def intro: dvd_trans)

lemma odd_factor_step:
  assumes f: "free_below i m" and o: "odd m" "odd i" "1 < i" "0 < m" and s: "odd_factor (fs, m) i = (fs', m')"
    and p: "\<forall>q \<in> set fs. prime_number q"
  shows "prod_list fs' * m' = prod_list fs * m \<and> (\<forall>q \<in> set fs'. prime_number q) \<and>
    free_below (i + 2) m' \<and> odd m' \<and> 0 < m' \<and> m' dvd m"
proof -
  obtain gs where d: "divide_out i m = (gs, m')" and fs': "fs' = fs @ gs"
    using s by (auto simp: odd_factor_def split: prod.splits)
  from divide_out_correct [OF \<open>1 < i\<close> \<open>0 < m\<close> d]
  have g: "m = prod_list gs * m'" "set gs \<subseteq> {i}" "gs \<noteq> [] \<longrightarrow> i dvd m" "0 < m'" "\<not> i dvd m'" by auto
  have "prime_number i" if "gs \<noteq> []"
    unfolding prime_number_def using prime_if_free_below [OF f \<open>1 < i\<close>] g(3) that \<open>1 < i\<close> by blast
  with g(2) have "\<forall>q \<in> set gs. prime_number q" by (cases gs) auto
  moreover have dvd: "m' dvd m" using g(1) by simp
  moreover from dvd o(1) have odd: "odd m'" using dvd_trans by blast
  moreover have "free_below (i + 2) m'"
    unfolding free_below_def
  proof (intro allI impI)
    fix e assume e: "e dvd m'" "1 < e"
    from free_below_dvd [OF f dvd] e have "i \<le> e" by (simp add: free_below_def)
    moreover have "e \<noteq> i" using e g(5) by blast
    moreover have "odd e" using odd e(1) dvd_trans by blast
    ultimately show "i + 2 \<le> e" using o(2) by presburger
  qed
  ultimately show ?thesis using g(1, 4) p fs' by auto
qed

lemma odd_trials_step:
  "odd_trials (Suc r) = odd_trials r @ (if 3 \<le> Suc r \<and> odd (Suc r) then [Suc r] else [])"
  by (auto simp: odd_trials_def)

lemma odd_trials_correct:
  assumes "odd n" "0 < n" "\<forall>q \<in> set twos. prime_number q"
  shows "\<exists>fs m. foldl odd_factor (twos, n) (odd_trials r) = (fs, m) \<and>
    prod_list fs * m = prod_list twos * n \<and> (\<forall>q \<in> set fs. prime_number q) \<and>
    free_below (Suc r) m \<and> odd m \<and> 0 < m \<and> m dvd n"
proof (induction r)
  case 0
  then show ?case using assms by (auto simp: odd_trials_def free_below_def)
next
  case (Suc r)
  then obtain fs m where i: "foldl odd_factor (twos, n) (odd_trials r) = (fs, m)"
    "prod_list fs * m = prod_list twos * n" "\<forall>q \<in> set fs. prime_number q"
    "free_below (Suc r) m" "odd m" "0 < m" "m dvd n" by blast
  have up: "Suc (Suc r) \<le> d" if c: "\<not> (3 \<le> Suc r \<and> odd (Suc r))" and d: "d dvd m" "1 < d" for d
  proof -
    have "Suc r \<le> d" using i(4) d by (simp add: free_below_def)
    moreover have "odd d" using i(5) d(1) dvd_trans by blast
    ultimately show ?thesis using c d(2) by presburger
  qed
  show ?case
  proof (cases "3 \<le> Suc r \<and> odd (Suc r)")
    case True
    obtain fs' m' where s: "odd_factor (fs, m) (Suc r) = (fs', m')" by (cases "odd_factor (fs, m) (Suc r)")
    from odd_factor_step [OF i(4) i(5) _ _ i(6) s i(3)] True
    have "prod_list fs' * m' = prod_list fs * m \<and> (\<forall>q \<in> set fs'. prime_number q) \<and>
      free_below (Suc r + 2) m' \<and> odd m' \<and> 0 < m' \<and> m' dvd m" by auto
    note t = this
    from t have "free_below (Suc (Suc r)) m'" by (auto simp: free_below_def)
    moreover from t i(7) have "m' dvd n" using dvd_trans by blast
    ultimately show ?thesis using t i(1, 2) True s by (simp add: odd_trials_step)
  next
    case False
    with i up show ?thesis by (auto simp: odd_trials_step free_below_def)
  qed
qed

lemma int_sqrt_lt: "n < Suc (int_sqrt n) * Suc (int_sqrt n)"
proof -
  let ?P = "\<lambda>k. Suc k * Suc k \<le> n" and ?r = "int_sqrt n"
  have "\<not> ?P ?r"
  proof (cases "?r < n")
    case True
    then have "?r < length [0..<n]" by simp
    from nth_length_takeWhile [of ?P "[0..<n]"] this show ?thesis using True by (simp add: int_sqrt_def)
  next
    case False
    then have "n < Suc ?r" by simp
    also have "\<dots> \<le> Suc ?r * Suc ?r" by simp
    finally show ?thesis by simp
  qed
  then show ?thesis by simp
qed

lemma rest_is_prime:
  assumes "free_below (Suc r) m" "m < Suc r * Suc r" "1 < m"
  shows "prime_number m"
  unfolding prime_number_def
proof (intro conjI allI impI)
  show "1 < m" by (rule assms)
  fix d assume d: "d dvd m"
  then obtain e where e: "m = d * e" by (auto simp: dvd_def)
  show "d = 1 \<or> d = m"
  proof (rule ccontr)
    assume "\<not> (d = 1 \<or> d = m)"
    with e assms(3) have "1 < d" "1 < e" by (cases d; cases e; auto)+
    with e assms(1) have "Suc r \<le> d" "Suc r \<le> e" by (auto simp: free_below_def)
    then have "Suc r * Suc r \<le> m" unfolding e by (rule mult_le_mono)
    with assms(2) show False by simp
  qed
qed

text \<open>C14: the factors of a positive number are primes whose product is the number.\<close>

theorem get_factors_correct:
  assumes "0 < num"
  shows "\<exists>fs. get_factors num = Inr (map int fs) \<and> int (prod_list fs) = num \<and> (\<forall>p \<in> set fs. prime_number p)"
proof -
  obtain twos n where h: "halve_out (nat num) = (twos, n)" by (cases "halve_out (nat num)")
  with assms have "divide_out 2 (nat num) = (twos, n)" by (simp add: halve_out_divide)
  from divide_out_correct [OF _ _ this] assms
  have n: "nat num = prod_list twos * n" "set twos \<subseteq> {2}" "0 < n" "odd n" by auto
  have "prime_number 2"
    unfolding prime_number_def
  proof (intro conjI allI impI)
    fix d :: nat assume d: "d dvd 2"
    then have "d \<le> 2" "d \<noteq> 0" by (auto dest: dvd_imp_le intro: gr0I)
    then show "d = 1 \<or> d = 2" by auto
  qed simp
  with n(2) have "\<forall>q \<in> set twos. prime_number q" by auto
  from odd_trials_correct [OF n(4, 3) this, of "int_sqrt n"] obtain fs m where
    f: "foldl odd_factor (twos, n) (odd_trials (int_sqrt n)) = (fs, m)"
      "prod_list fs * m = prod_list twos * n" "\<forall>q \<in> set fs. prime_number q"
      "free_below (Suc (int_sqrt n)) m" "odd m" "0 < m" "m dvd n" by blast
  have num: "int (prod_list twos * n) = num" using n(1) assms by (metis int_nat_eq less_imp_le)
  have m: "m < Suc (int_sqrt n) * Suc (int_sqrt n)"
    using int_sqrt_lt [of n] dvd_imp_le [OF f(7) n(3)] by simp
  have g: "get_factors num = Inr (map int (if 2 < m then fs @ [m] else fs))"
    using assms h f(1) by (simp add: get_factors_def)
  show ?thesis
  proof (cases "2 < m")
    case True
    with rest_is_prime [OF f(4) m] f(2, 3) g num show ?thesis
      by (intro exI [of _ "fs @ [m]"]) (auto simp flip: of_nat_mult)
  next
    case False
    with f(5, 6) have "m = 1" by presburger
    with f(2, 3) g num False show ?thesis by (intro exI [of _ fs]) auto
  qed
qed

lemma get_factors_correct_witness:
  "\<exists>fs. get_factors 90 = Inr (map int fs) \<and> int (prod_list fs) = 90 \<and> (\<forall>p \<in> set fs. prime_number p)"
  by (rule get_factors_correct) simp
section \<open>Examples\<close>

text \<open>An input, a relu, a transpose, another relu and the output.\<close>

definition upward_example :: "GS result" where
  "upward_example =
     rbind (put_node ((mk_InputNode ''x'' In_Activation False)\<lparr>node_shape := shape_create [2, 3]\<rparr>) 0
              (initial_world, mk_Graph_default IR_TT_FORGE)) (\<lambda>(s, x).
     rbind (put_node (example_node ''r'' example_relu [2, 3]) 0 s) (\<lambda>(s, a).
     rbind (put_node (example_node ''t'' (transpose_op_type 0 1) [3, 2]) 0 s) (\<lambda>(s, r).
     rbind (put_node (example_node ''q'' example_relu [3, 2]) 0 s) (\<lambda>(s, b).
     rbind (put_node ((mk_OutputNode ''y'')\<lparr>node_shape := shape_create [3, 2]\<rparr>) 0 s) (\<lambda>(s, y).
     rbind (connect_nodes x a kData s) (\<lambda>s. rbind (connect_nodes a r kData s) (\<lambda>s.
     rbind (connect_nodes r b kData s) (connect_nodes b y kData))))))))"

definition upward_gs :: GS where
  "upward_gs = (case upward_example of Inr s \<Rightarrow> s | Inl _ \<Rightarrow> (initial_world, mk_Graph_default IR_TT_FORGE))"

definition found_example :: "IOEdgeInfo list result" where
  "found_example = all_edges_to_input_nodes_commutable 9 upward_gs 3 (shape_create [2, 3], shape_create [2, 3])"

lemma found_example_value:
  "case found_example of Inr [(e, a, b)] \<Rightarrow> unique_id e = (1, 0, 2, 0, kData) \<and> sh_dims a = [2, 3] | _ \<Rightarrow> False"
  by code_simp

lemma input_edges_sound_witness:
  "\<exists>e cs cl. found_example = Inr [(e, cs, cl)] \<and> unique_id e = (1, 0, 2, 0, kData) \<and>
     (\<exists>op. op \<noteq> 3 \<and> (op, 3) \<in> (operand_of (snd upward_gs))\<^sup>* \<and> first_data_operand_edge (snd upward_gs) op = Inr e)"
proof -
  obtain e cs cl where f: "found_example = Inr [(e, cs, cl)]" "unique_id e = (1, 0, 2, 0, kData)"
    using found_example_value by (auto split: sum.splits list.splits)
  from input_edges_sound [OF f(1) [unfolded found_example_def], of e cs cl] f show ?thesis by auto
qed

text \<open>Two selects that take an input apart.\<close>

definition select_op_type :: "int \<Rightarrow> int \<Rightarrow> OpType" where
  "select_op_type start len = \<lparr>op_name = ''select'', legacy_attrs = map AInt [1, start, len, 5], named_attrs = [],
     new_op = \<lparr>op_type = Op_Select, op_attrs = []\<rparr>\<rparr>"

definition select_example :: "GS result" where
  "select_example =
     rbind (put_node ((mk_InputNode ''x'' In_Activation False)\<lparr>node_shape := shape_create [2, 5]\<rparr>) 0
              (initial_world, mk_Graph_default IR_TT_FORGE)) (\<lambda>(s, x).
     rbind (put_node (example_node ''a'' (select_op_type 0 2) [2, 2]) 0 s) (\<lambda>(s, a).
     rbind (put_node (example_node ''b'' (select_op_type 2 3) [2, 3]) 0 s) (\<lambda>(s, b).
     rbind (connect_nodes x a kData s) (connect_nodes x b kData))))"

definition select_g :: Graph where
  "select_g = (case select_example of Inr s \<Rightarrow> snd s | Inl _ \<Rightarrow> mk_Graph_default IR_TT_FORGE)"

definition select_paths :: "PathOp list list" where
  "select_paths = [[(2, None)], [(3, None)]]"

lemma can_fuse_select_concat_correct_witness:
  "\<exists>q x rs. (\<forall>path \<in> set select_paths. selects_from select_g 1 q x path) \<and>
     mapR (select_range select_g) select_paths = Inr rs \<and> concat (map select_indices rs) = map int [0..<unat x]"
proof -
  have c: "can_fuse_select_concat select_g 1 select_paths = Inr True" by code_simp
  from iffD1 [OF can_fuse_select_concat_correct c] show ?thesis by blast
qed

text \<open>The shapes of the operations of C++; those of Python keep the shape of their first operand.\<close>

definition shape_pass :: Pass where
  "shape_pass = \<lparr>ps_consteval = Inr, ps_shape = get_op_shape (\<lambda>t ss. Inr (hd ss, []))\<rparr>"

lemma result_case: "(case r of Inl e \<Rightarrow> False | Inr x \<Rightarrow> P x) \<Longrightarrow> \<exists>x. r = Inr x \<and> P x"
  by (cases r) simp_all

definition looped_example :: "GS result" where
  "looped_example = optimize_loop 3 9 (\<lambda>x. x) shape_pass inverse_gs"

lemma looped_example_value: "case looped_example of Inr (w, g) \<Rightarrow> keys (nodes_map g) = [1, 3, 5] | Inl e \<Rightarrow> False"
  by code_simp

text \<open>What a round leaves on the upward example: the transpose on the edge of the input.\<close>

definition moved_example :: "(GS \<times> bool) result" where
  "moved_example = insert_inverse_on_inputs 3 shape_pass upward_gs"


lemma moved_example_value:
  "case moved_example of Inl e \<Rightarrow> False
   | Inr x \<Rightarrow> snd x \<and> map (\<lambda>e. (producer_node_id e, consumer_node_id e)) (graph_edges (snd (fst x))) =
       [(7, 2), (2, 3), (3, 4), (4, 5), (1, 6), (6, 7)]"
  by code_simp

lemma optimize_loop_done_witness:
  "\<exists>st' t. looped_example = Inr st' \<and> bypass_nop_tms 9 shape_pass t = Inr st' \<and>
     erase_inverse_ops 9 shape_pass (t, False) = Inr (t, False) \<and>
     insert_inverse_on_outputs 9 shape_pass t = Inr (t, False)"
proof -
  obtain st' where r: "looped_example = Inr st'"
    using result_case [OF looped_example_value] by blast
  from optimize_loop_done [OF r [unfolded looped_example_def]] r show ?thesis by blast
qed

lemma insert_inverse_on_inputs_done_witness:
  "\<exists>st' is. moved_example = Inr (st', True) \<and> topo_order (fst st') (snd st') = Inr is \<and>
     (\<forall>i \<in> set is. movable_op {''reshape'', ''transpose''} (snd st') i = Inr True \<longrightarrow>
        (\<exists>n s. deref (snd st') i = Inr n \<and> shape_of_only_operand (ps_shape shape_pass) st' i = Inr s \<and>
             all_edges_to_input_nodes_commutable (node_fuel st') st' i (node_shape n, s) = Inr []))"
proof -
  obtain x where x: "moved_example = Inr x" "snd x"
    using result_case [OF moved_example_value] by blast
  then have r: "moved_example = Inr (fst x, True)" by (metis (full_types) prod.collapse)
  from insert_inverse_on_inputs_done [OF r [unfolded moved_example_def]] r show ?thesis by blast
qed

text \<open>An input, a relu, a reshape that changes nothing and the output.\<close>

definition nop_example :: "GS result" where
  "nop_example =
     rbind (put_node ((mk_InputNode ''x'' In_Activation False)\<lparr>node_shape := shape_create [2, 3]\<rparr>) 0
              (initial_world, mk_Graph_default IR_TT_FORGE)) (\<lambda>(s, x).
     rbind (put_node (example_node ''r'' example_relu [2, 3]) 0 s) (\<lambda>(s, a).
     rbind (reshape_op_type (shape_create [2, 3])) (\<lambda>t.
     rbind (put_node (example_node ''n'' t [2, 3]) 0 s) (\<lambda>(s, b).
     rbind (put_node ((mk_OutputNode ''y'')\<lparr>node_shape := shape_create [2, 3]\<rparr>) 0 s) (\<lambda>(s, y).
     rbind (connect_nodes x a kData s) (\<lambda>s. rbind (connect_nodes a b kData s) (connect_nodes b y kData)))))))"

definition nop_gs :: GS where
  "nop_gs = (case nop_example of Inr s \<Rightarrow> s | Inl _ \<Rightarrow> (initial_world, mk_Graph_default IR_TT_FORGE))"

definition bypassed_example :: "GS result" where
  "bypassed_example = bypass_nop_tms 3 shape_pass nop_gs"

lemma bypassed_example_value: "case bypassed_example of Inr (w, g) \<Rightarrow> keys (nodes_map g) = [1, 2, 4] | Inl e \<Rightarrow> False"
  by code_simp

lemma bypass_nop_tms_done_witness:
  "\<exists>st' is. bypassed_example = Inr st' \<and> topo_order (fst st') (snd st') = Inr is \<and>
     (\<forall>i \<in> set is. \<forall>n. user_data_edges any_edge (snd st') i \<noteq> Inr [] \<longrightarrow> deref (snd st') i = Inr n \<longrightarrow>
        is_reshape_op n \<or> is_narrow n \<longrightarrow> (\<exists>m. first_operand_node (snd st') i = Inr m))"
proof -
  obtain st' where r: "bypassed_example = Inr st'"
    using result_case [OF bypassed_example_value] by blast
  from bypass_nop_tms_done [OF r [unfolded bypassed_example_def]] r show ?thesis by blast
qed

end
