(* ===== verification/Spec2Isabelle.thy ===== *)
theory Spec2Isabelle
  imports Gradients Precision_Laws Consteval_Laws Pass_Laws
begin

text \<open>
  A model of the graph compiler of tt-forge-fe (\<open>src/forge/csrc\<close>): the intermediate representation, the
  algorithms that rewrite it, and the passes that differentiate and decompose it.

  \<^bold>\<open>The program.\<close> A \<open>Graph\<close> (\<open>graph_lib/graph.hpp\<close>) owns nodes of five classes (inputs, constants, outputs,
  queues, operations) and sets of typed edges between their ports; edges share attribute objects that
  carry the tensor transformations (TMs) applied on the way. The front end builds the graph, passes
  rewrite it: \<open>autograd/autograd.cpp\<close> adds the backward graph and the optimizer,
  \<open>passes/decomposing_context.cpp\<close> replaces operations by simpler ones, both through small programs that
  each operation of \<open>ops/\<close> supplies.

  \<^bold>\<open>Conventions.\<close> A call that may throw, or whose behaviour C++ leaves undefined, returns \<open>error + 'a\<close>
  (theory \<open>Prelude\<close>): \<open>Assert_failed\<close> is a failed \<open>TT_ASSERT\<close>, \<open>Runtime_error\<close> another exception,
  \<open>Undefined_behaviour\<close> an access outside a container or through a null pointer, \<open>Out_of_fuel\<close> the end of
  the fuel of a loop. \<open>TT_DBG_ASSERT\<close> is off in a release build and is not modelled. A \<open>Node*\<close> is the id of
  a node in the graph; a shared pointer to edge attributes is a reference into the store of \<open>World\<close>, which
  also holds the static counters of the C++; \<open>GS\<close> is a world with a graph. \<open>uint32_t\<close> is \<open>32 word\<close>,
  containers keyed by ids are association lists, hash sets of edges are lists whose order the
  queries do not depend on (they sort). Tensors and Python callables are handles or parameters; the
  constant evaluation graph of an input is an index into a store of such graphs. The clone of such a graph
  that cloning an input makes is the parameter \<open>ce\<close> of the operations that clone nodes; it may fail, and
  what it does to the static counters is not followed. The creation id of an edge (\<open>uint64_t\<close>) and
  \<open>NDSlice::volume\<close> (\<open>int\<close>) are unbounded numbers.

  \<^bold>\<open>Data model.\<close>
  \<^item> \<open>Formats\<close>: data formats, tile dimensions, math fidelity (\<open>lower_to_forge/common.hpp\<close>).
  \<^item> \<open>Shapes\<close>: \<open>graph_lib/shape.cpp\<close>. Equality modulo leading ones, change of rank, conversion to the
    32x32-tiled form, broadcasts between shapes.
  \<^item> \<open>Op_Types\<close>: the operations, their names and attributes (\<open>ops/op.hpp\<close>, \<open>ops/op.cpp\<close>).
  \<^item> \<open>Edges\<close>, \<open>Nodes\<close>: \<open>edge.hpp\<close>, \<open>node.hpp\<close>, \<open>node_types.hpp\<close> and their sources: identity and order of
    edges, attributes, node classes with their checked casts, tags and clones.

  \<^bold>\<open>Graph.\<close>
  \<^item> \<open>Graphs\<close>: the state of \<open>Graph\<close> and the operations that change it; \<open>Graph_Inv\<close>: the invariant
    \<open>graph_wf\<close> (ids, names, mirrored edge sets, attribute references, counters), kept by every operation
    (\<open>graph_step\<close>, \<open>graph_reachable\<close>) under conditions that its callers meet and the code does not check
    (edges join nodes of the graph, new names are free, default ids were given out), with the effect of each
    operation on nodes and edges; \<open>Graph_Clone\<close>: when a clone can be made, and that it is the graph again.
  \<^item> \<open>Queries\<close>, \<open>Query_Laws\<close>: the queries under traversal contexts (\<open>GraphTraversalContext\<close>), and that
    they return exactly the visible edges in the order of ports.
  \<^item> \<open>Depth_First\<close>, \<open>Traversal\<close>, \<open>Traversal_Laws\<close>, \<open>Generations\<close>: \<open>graph_lib/utils.cpp\<close>, topological sort,
    reachability, generations, longest path. Recursions run on fuel: the number of nodes is enough for
    the searches, and the laws prove the result with that fuel.
  \<^item> \<open>Surgery\<close>, \<open>Rewrites\<close>, \<open>Surgery_Laws\<close>, \<open>Insert_Bypass\<close>: insertion and bypass of nodes, replacement,
    broadcasts, ranks and node shapes (\<open>graph_lib/utils.cpp\<close>). Interfaces such as \<open>keyed_set\<close> and
    \<open>state_change\<close> are locales, interpreted on the operations of the graph.

  \<^bold>\<open>Operations and passes.\<close>
  \<^item> \<open>Op_Shapes\<close>: shapes and flop estimates of the operations implemented in C++, and the dispatch; other
    operations ask Python, the parameter \<open>base_shape\<close>.
  \<^item> \<open>Op_Backward\<close>: their gradients and decompositions, as programs over the calls that create nodes. The
    locales \<open>node_maker\<close> and \<open>node_builder\<close> state what these programs rely on (a call whose operation
    accepts the operands' shapes returns a live node of that shape), \<open>node_linker\<close> also from what the node
    was made; the laws about gradients and decompositions are proved in them.
  \<^item> \<open>Decompose\<close>: \<open>DecomposingContext\<close> and the loop over the graph; interpretation of \<open>node_maker\<close> and \<open>node_linker\<close>.
    The loop runs on fuel, as Python may decompose without end.
  \<^item> \<open>Autograd\<close>: the engine, complete: propagation of the gradient flags, the backward graph, the
    optimizer, recomputation. \<open>Autograd_Laws\<close>: the flags follow the paths from inputs that require a
    gradient; the clean-up of recomputed operations ends, with \<open>recompute_fuel\<close>, leaves no listed operation
    without users and takes out only what is listed or feeds such operations alone. \<open>Gradients\<close>: interpretation of \<open>node_builder\<close> on the engine.
  \<^item> \<open>Precision\<close>: data formats, \<open>passes/dataformat.cpp\<close> and \<open>passes/amp.cpp\<close>. \<open>Precision_Laws\<close>: the fix
    refines a step on formats alone, and its result is valid when outputs do not share their producers
    and are not written back.
  \<^item> \<open>Consteval\<close>: the class \<open>ConstEvalGraph\<close> of \<open>graph_lib/utils.cpp\<close> and \<open>passes/consteval.cpp\<close>. The
    state is the world, the runtime graph and the store of graphs; the loop of the pass takes fuel,
    one unit per input taken from its work list. \<open>Consteval_Laws\<close>: the invariant that ties the two
    graphs together, that creation and promotion keep it, and what the padding of the output does.
  \<^item> \<open>Commute\<close>: \<open>passes/commute_utils.cpp\<close>, complete: moving reshapes, transposes, squeezes and unsqueezes
    past other operations, with the shapes and broadcasts that follow. \<open>Commute_Laws\<close>: a dimension that
    passes a reshape keeps its coordinate, matching operations undo one another. \<open>Erase_Inverse\<close>: the pass
    \<open>passes/erase_inverse_ops.cpp\<close>; its search has one unit of fuel more than the graph has nodes, enough
    without cycles (\<open>Erase_Laws\<close>), its rounds are counted by a parameter.

  \<^item> \<open>Insert_Inverse\<close>: \<open>passes/insert_inverse_on_io.cpp\<close>, an operation and its inverse put on edges of inputs
    and outputs. \<open>Replace_Patterns\<close>: \<open>passes/replace_incommutable_patterns.cpp\<close>. \<open>Tm_Passes\<close>: the small passes
    on reshapes, squeezes and broadcasts around them, and what is done before lowering and after autograd.
    \<open>Fusions\<close>: the fusions of the initial graph and the padding of outputs. \<open>Constant_Folding\<close> and
    \<open>Fuse_Channels\<close>: \<open>passes/constant_folding.cpp\<close>, \<open>passes/fuse_per_channel_ops.cpp\<close>. Loops over a changing
    graph are \<open>until_none\<close> and \<open>change_until_none\<close>, whose rounds are a parameter.

  \<^item> \<open>Nd_Slice\<close>, \<open>Fracture\<close>: \<open>passes/nd_slice.hpp\<close> and \<open>passes/fracture.cpp\<close>, tensors and operations cut into
    parts, gathered and scattered, and assigned to chips. \<open>Slice_Laws\<close>: the numbering of the parts.
  \<^item> \<open>Pipeline\<close>: \<open>forge_passes.cpp\<close>, the passes in their order; the record \<open>Compiler\<close> holds what they take
    from outside. \<open>Pass_Laws\<close>: a pass that searches ends where its search finds nothing, one that rewrites
    reports every change, and so the optimization loop ends where none of the passes that can ask for another
    round has anything to do; the rewriting of squeezes and unsqueezes never asks for one.

  \<^bold>\<open>Not modelled.\<close> Evaluation of operations (libtorch), Python bindings, printing and reports (input and
  output only), the runtime and the lowering to MLIR (code of other repositories), sparse matrix
  utilities (arithmetic on libtorch tensors), the split of the graph into programs, and passes the pipeline
  does not call. Log output and exception messages are left out everywhere.
\<close>

end
